(* ===== verification/Gm_Prelude.thy ===== *)
theory Gm_Prelude
  imports Main "HOL-Library.Word"
begin

text \<open>
  Shared vocabulary of the development: machine integers, the ESP-IDF error codes the
  sources return, bounded C strings, and the generic lemmas about lists, words and strings
  that the component theories rest on.

  A \<open>char buf[n]\<close> of the sources is the list of its characters before the terminating NUL;
  copying into such a buffer is \<open>quest_str_copy\<close> with the size of the buffer.  An empty
  string stands for \<open>NULL\<close> as well, because every function of the sources that accepts a
  possibly missing string tests \<open>!s || !s[0]\<close>.
\<close>

section \<open>Machine integers and error codes\<close>

type_synonym u8 = "8 word"
type_synonym u16 = "16 word"
type_synonym u32 = "32 word"
type_synonym u64 = "64 word"

datatype esp_err =
    ESP_OK
  | ESP_ERR_NO_MEM
  | ESP_ERR_INVALID_ARG
  | ESP_ERR_INVALID_STATE
  | ESP_ERR_INVALID_SIZE
  | ESP_ERR_NOT_FOUND
  | ESP_ERR_NOT_SUPPORTED
  | ESP_ERR_TIMEOUT
  | ESP_FAIL
  | ESP_ERR_INVALID_RESPONSE
  | ESP_ERR_INVALID_CRC
  | ESP_ERR_INVALID_VERSION
  | SCENEHUB_CONTROL_ERR_ROOM_NOT_FOUND
  | SCENEHUB_CONTROL_ERR_ACTION_NOT_FOUND
  | SCENEHUB_CONTROL_ERR_ACTION_DISABLED
  | SCENEHUB_CONTROL_ERR_NOT_SUPPORTED
  | SCENEHUB_CONTROL_ERR_EXECUTION_FAILED
  | SCENEHUB_CONTROL_ERR_ROOM_UNHEALTHY

section \<open>Lemma collections\<close>

named_theorems frame_simps \<open>which parts of the state an operation leaves alone\<close>
named_theorems local_intros \<open>which operations stay within one branch of a session\<close>
named_theorems branch_simps \<open>how an operation acts on the branch table\<close>

section \<open>Bounded strings\<close>

definition quest_str_copy :: "nat \<Rightarrow> string \<Rightarrow> string" where
  "quest_str_copy dst_len src = take (dst_len - 1) src"

lemma quest_str_copy_length: "0 < n \<Longrightarrow> length (quest_str_copy n s) < n"
  by (simp add: quest_str_copy_def)

lemma quest_str_copy_id [simp]: "length s < n \<Longrightarrow> quest_str_copy n s = s"
  by (simp add: quest_str_copy_def)

lemma quest_str_copy_idem [simp]: "quest_str_copy n (quest_str_copy n s) = quest_str_copy n s"
  by (simp add: quest_str_copy_def)

lemma quest_str_copy_Nil [simp]: "quest_str_copy n [] = []"
  by (simp add: quest_str_copy_def)

section \<open>Words\<close>

lemma unat_max_u32: "unat (- 1 :: u32) = 4294967295"
  by (simp add: unsigned_minus_1_eq_mask mask_eq_exp_minus_1)

lemma unat_u8_less [simp]: "unat (x :: u8) < 256"
  using unsigned_less [of x] by simp

lemma unat_u16_less [simp]: "unat (x :: u16) < 65536"
  using unsigned_less [of x] by simp

lemma unat_Suc_u16: "unat (x :: u16) < 65535 \<Longrightarrow> unat (x + 1) = Suc (unat x)"
  by (simp add: unat_word_ariths)

lemma unat_Suc_u8: "unat (x :: u8) < 255 \<Longrightarrow> unat (x + 1) = Suc (unat x)"
  by (simp add: unat_word_ariths)

section \<open>Lists\<close>

definition find_index :: "('a \<Rightarrow> bool) \<Rightarrow> 'a list \<Rightarrow> nat option" where
  "find_index P xs = (let i = length (takeWhile (\<lambda>x. \<not> P x) xs)
     in if i < length xs then Some i else None)"

lemma find_index_Nil [simp]: "find_index P [] = None"
  by (simp add: find_index_def)

lemma find_index_Cons [simp]:
  "find_index P (x # xs) = (if P x then Some 0 else map_option Suc (find_index P xs))"
  by (simp add: find_index_def Let_def)

lemma find_index_SomeD:
  "find_index P xs = Some i \<Longrightarrow> i < length xs \<and> P (xs ! i) \<and> (\<forall>j < i. \<not> P (xs ! j))"
proof (induction xs arbitrary: i)
  case (Cons x xs)
  then show ?case by (auto split: if_splits simp: nth_Cons split: nat.splits)
qed simp

lemma find_index_NoneD: "find_index P xs = None \<Longrightarrow> x \<in> set xs \<Longrightarrow> \<not> P x"
  by (induction xs) (auto split: if_splits)

lemma find_index_None_iff: "find_index P xs = None \<longleftrightarrow> (\<forall>x \<in> set xs. \<not> P x)"
  by (induction xs) auto

lemma find_index_eqI:
  "i < length xs \<Longrightarrow> P (xs ! i) \<Longrightarrow> (\<And>j. j < i \<Longrightarrow> \<not> P (xs ! j)) \<Longrightarrow> find_index P xs = Some i"
proof (induction xs arbitrary: i)
  case (Cons x xs)
  show ?case
  proof (cases i)
    case 0
    with Cons.prems show ?thesis by simp
  next
    case (Suc k)
    have "\<not> P x" using Cons.prems(3) [of 0] Suc by simp
    moreover have "find_index P xs = Some k"
    proof (rule Cons.IH)
      show "k < length xs" "P (xs ! k)" using Cons.prems(1,2) Suc by simp_all
      show "\<not> P (xs ! j)" if "j < k" for j
        using Cons.prems(3) [of "Suc j"] that Suc by simp
    qed
    ultimately show ?thesis by (simp add: Suc)
  qed
qed simp

lemma find_index_cong_map:
  "(\<And>x. x \<in> set xs \<Longrightarrow> P (f x) = P x) \<Longrightarrow> find_index P (map f xs) = find_index P xs"
  by (induction xs) auto

end
