(* ===== verification/Gm_Timer.thy ===== *)
theory Gm_Timer
  imports Gm_Prelude
begin

text \<open>
  The game timer (\<open>gm_core/timer/gm_timer.c\<close>): a count-down clock with 64-bit millisecond
  time stamps and a 32-bit remaining time.  Each operation takes the pointee and returns the
  updated timer, the ones that can refuse paired with the error code.
\<close>

section \<open>State and operations\<close>

datatype gm_timer_state =
  GM_TIMER_IDLE | GM_TIMER_RUNNING | GM_TIMER_PAUSED | GM_TIMER_FINISHED

record gm_timer =
  t_state :: gm_timer_state
  t_duration_ms :: u32
  t_remaining_ms :: u32
  t_started_at_ms :: u64
  t_last_updated_ms :: u64
  t_paused_at_ms :: u64

text \<open>The argument of the clamp is the 64-bit signed difference or sum, read as an integer.\<close>

definition gm_timer_clamp_remaining :: "int \<Rightarrow> u32" where
  "gm_timer_clamp_remaining value_ms =
     (if value_ms \<le> 0 then 0
      else if value_ms > 4294967295 then - 1
      else word_of_int value_ms)"

definition gm_timer_get_remaining :: "gm_timer \<Rightarrow> u64 \<Rightarrow> u32" where
  "gm_timer_get_remaining timer now_ms =
     (if t_state timer \<noteq> GM_TIMER_RUNNING then t_remaining_ms timer
      else if now_ms \<le> t_last_updated_ms timer then t_remaining_ms timer
      else gm_timer_clamp_remaining
             (uint (t_remaining_ms timer) - sint (now_ms - t_last_updated_ms timer)))"

definition gm_timer_is_active :: "gm_timer \<Rightarrow> u64 \<Rightarrow> bool" where
  "gm_timer_is_active timer now_ms \<longleftrightarrow>
     t_state timer = GM_TIMER_RUNNING \<and> gm_timer_get_remaining timer now_ms > 0"

definition gm_timer_reset :: "u32 \<Rightarrow> u64 \<Rightarrow> gm_timer" where
  "gm_timer_reset duration_ms now_ms =
     \<lparr>t_state = GM_TIMER_IDLE, t_duration_ms = duration_ms, t_remaining_ms = duration_ms,
      t_started_at_ms = 0, t_last_updated_ms = now_ms, t_paused_at_ms = 0\<rparr>"

definition gm_timer_start :: "u32 \<Rightarrow> u64 \<Rightarrow> gm_timer" where
  "gm_timer_start duration_ms now_ms =
     (gm_timer_reset duration_ms now_ms)
       \<lparr>t_state := GM_TIMER_RUNNING, t_started_at_ms := now_ms, t_last_updated_ms := now_ms\<rparr>"

definition gm_timer_pause :: "gm_timer \<Rightarrow> u64 \<Rightarrow> esp_err \<times> gm_timer" where
  "gm_timer_pause timer now_ms =
     (if t_state timer \<noteq> GM_TIMER_RUNNING then (ESP_ERR_INVALID_STATE, timer)
      else (ESP_OK, timer\<lparr>t_remaining_ms := gm_timer_get_remaining timer now_ms,
                          t_state := GM_TIMER_PAUSED,
                          t_paused_at_ms := now_ms,
                          t_last_updated_ms := now_ms\<rparr>))"

definition gm_timer_resume :: "gm_timer \<Rightarrow> u64 \<Rightarrow> esp_err \<times> gm_timer" where
  "gm_timer_resume timer now_ms =
     (if t_state timer \<noteq> GM_TIMER_PAUSED then (ESP_ERR_INVALID_STATE, timer)
      else (ESP_OK, timer\<lparr>t_state := GM_TIMER_RUNNING,
                          t_last_updated_ms := now_ms,
                          t_paused_at_ms := 0\<rparr>))"

definition gm_timer_finish :: "gm_timer \<Rightarrow> u64 \<Rightarrow> esp_err \<times> gm_timer" where
  "gm_timer_finish timer now_ms =
     (ESP_OK, timer\<lparr>t_remaining_ms := gm_timer_get_remaining timer now_ms,
                    t_state := GM_TIMER_FINISHED,
                    t_last_updated_ms := now_ms\<rparr>)"

definition gm_timer_set_remaining :: "gm_timer \<Rightarrow> u32 \<Rightarrow> u64 \<Rightarrow> esp_err \<times> gm_timer" where
  "gm_timer_set_remaining timer remaining_ms now_ms =
     (ESP_OK, timer\<lparr>t_remaining_ms := remaining_ms,
                    t_state := (if remaining_ms = 0 then GM_TIMER_FINISHED else t_state timer),
                    t_last_updated_ms := now_ms\<rparr>)"

definition gm_timer_add_time :: "gm_timer \<Rightarrow> 32 word \<Rightarrow> u64 \<Rightarrow> esp_err \<times> gm_timer" where
  "gm_timer_add_time timer delta_ms now_ms =
     (let base_ms = gm_timer_get_remaining timer now_ms;
          remaining = gm_timer_clamp_remaining (uint base_ms + sint delta_ms)
      in (ESP_OK, timer\<lparr>t_remaining_ms := remaining,
             t_state := (if remaining = 0 \<and> t_state timer \<noteq> GM_TIMER_IDLE then GM_TIMER_FINISHED
                         else if t_state timer = GM_TIMER_FINISHED \<and> remaining > 0
                         then GM_TIMER_PAUSED
                         else t_state timer),
             t_last_updated_ms := now_ms\<rparr>))"

section \<open>Arithmetic of the clock\<close>

lemma uint_of_small_u32:
  assumes "0 \<le> v" and "v \<le> 4294967295"
  shows "uint (word_of_int v :: u32) = v"
  using assms by (simp add: uint_word_of_int mod_pos_pos_trivial)

lemma unat_clamp_remaining:
  "int (unat (gm_timer_clamp_remaining v)) = max 0 (min v 4294967295)"
proof -
  consider "v \<le> 0" | "0 < v" "v \<le> 4294967295" | "v > 4294967295" by linarith
  then show ?thesis
  proof cases
    case 2
    then have "uint (gm_timer_clamp_remaining v) = v"
      by (simp add: gm_timer_clamp_remaining_def uint_of_small_u32)
    with 2 show ?thesis by simp
  next
    case 3
    then have "unat (gm_timer_clamp_remaining v) = 4294967295"
      by (simp add: gm_timer_clamp_remaining_def unat_max_u32)
    with 3 show ?thesis by simp
  qed (simp add: gm_timer_clamp_remaining_def)
qed

lemma sint_small_u64:
  assumes "unat (x :: u64) < 2 ^ 63"
  shows "sint x = int (unat x)"
proof -
  have "int (unat x) < 2 ^ 63" using assms by (simp only: of_nat_less_numeral_power_cancel_iff)
  then have "uint x < 2 ^ 63" by simp
  moreover have "- (2 ^ 63) \<le> uint x"
    by (rule order_trans [of _ 0]) simp_all
  ultimately have "signed_take_bit 63 (uint x) = uint x"
    by (rule signed_take_bit_int_eq_self [rotated])
  then show ?thesis by (simp add: sint_uint)
qed

lemma unat_sub_u64: "past \<le> now \<Longrightarrow> unat (now - past) = unat now - unat (past :: u64)"
  by (rule unat_sub)

text \<open>
  A running clock read less than 2^63 ms after its last update shows the stored remaining
  time minus the elapsed time, stopping at zero.
\<close>

lemma get_remaining_running:
  assumes "t_state t = GM_TIMER_RUNNING" and "t_last_updated_ms t \<le> now"
    and "unat now - unat (t_last_updated_ms t) < 2 ^ 63"
  shows "unat (gm_timer_get_remaining t now) =
           unat (t_remaining_ms t) - (unat now - unat (t_last_updated_ms t))"
proof (cases "now \<le> t_last_updated_ms t")
  case True
  with assms(2) have "now = t_last_updated_ms t" by simp
  then show ?thesis by (simp add: gm_timer_get_remaining_def)
next
  case False
  let ?d = "now - t_last_updated_ms t"
  have d: "unat ?d = unat now - unat (t_last_updated_ms t)"
    using assms(2) by (rule unat_sub_u64)
  have s: "sint ?d = int (unat ?d)"
    using assms(3) by (intro sint_small_u64) (simp add: d)
  have b: "unat (t_remaining_ms t) < 4294967296"
    using unsigned_less [where 'a = nat, of "t_remaining_ms t"] by simp
  have "gm_timer_get_remaining t now =
      gm_timer_clamp_remaining (int (unat (t_remaining_ms t)) - int (unat ?d))"
    using False assms(1) by (simp add: gm_timer_get_remaining_def s)
  then have "int (unat (gm_timer_get_remaining t now)) =
      max 0 (min (int (unat (t_remaining_ms t)) - int (unat ?d)) 4294967295)"
    by (simp only: unat_clamp_remaining)
  with b d show ?thesis by linarith
qed

lemma get_remaining_stopped [simp]:
  "t_state t \<noteq> GM_TIMER_RUNNING \<Longrightarrow> gm_timer_get_remaining t now = t_remaining_ms t"
  by (simp add: gm_timer_get_remaining_def)

section \<open>Properties\<close>

text \<open>
  Time spent paused does not count.  Pausing a running timer at \<open>p\<close>, resuming it at
  \<open>r\<close> and reading it at \<open>n\<close> gives what the timer showed at \<open>p\<close> minus the \<open>n - r\<close>
  milliseconds since the resume, never below zero; both operations succeed.
\<close>

theorem timer_paused_time_not_counted:
  assumes "t_state t = GM_TIMER_RUNNING"
    and "t_last_updated_ms t \<le> p" and "r \<le> n" and "unat n < 2 ^ 63"
  shows "fst (gm_timer_pause t p) = ESP_OK
    \<and> fst (gm_timer_resume (snd (gm_timer_pause t p)) r) = ESP_OK
    \<and> unat (gm_timer_get_remaining (snd (gm_timer_resume (snd (gm_timer_pause t p)) r)) n)
        = unat (gm_timer_get_remaining t p) - (unat n - unat r)"
proof -
  let ?u = "snd (gm_timer_resume (snd (gm_timer_pause t p)) r)"
  have u: "t_state ?u = GM_TIMER_RUNNING" "t_last_updated_ms ?u = r"
    "t_remaining_ms ?u = gm_timer_get_remaining t p"
    using assms(1) by (simp_all add: gm_timer_pause_def gm_timer_resume_def)
  have "unat (gm_timer_get_remaining ?u n) = unat (t_remaining_ms ?u) - (unat n - unat r)"
    using get_remaining_running [of ?u n] u assms(3,4) by simp
  with u assms(1) show ?thesis
    by (simp add: gm_timer_pause_def gm_timer_resume_def)
qed

theorem timer_paused_time_not_counted_witness:
  "unat (gm_timer_get_remaining
     (snd (gm_timer_resume (snd (gm_timer_pause (gm_timer_start 60000 1000) 11000)) 500000)) 505000)
   = unat (gm_timer_get_remaining (gm_timer_start 60000 1000) 11000) - 5000"
  using timer_paused_time_not_counted [of "gm_timer_start 60000 1000" 11000 500000 505000]
  by (simp add: gm_timer_start_def gm_timer_reset_def)

text \<open>
  Adding or removing time saturates.  Whatever the state of the timer and the signed
  delta, the new remaining time is the current one plus the delta, cut to the range of an
  unsigned 32-bit number; reaching zero finishes every timer that was not idle, and a finished
  timer that gets time back is paused, never running.
\<close>

theorem timer_add_time_saturates:
  "let u = snd (gm_timer_add_time t d now) in
     int (unat (t_remaining_ms u)) =
       max 0 (min (int (unat (gm_timer_get_remaining t now)) + sint d) 4294967295)
   \<and> (t_remaining_ms u = 0 \<and> t_state t \<noteq> GM_TIMER_IDLE \<longleftrightarrow> t_state u = GM_TIMER_FINISHED)
   \<and> (t_state u = GM_TIMER_RUNNING \<longleftrightarrow> t_state t = GM_TIMER_RUNNING \<and> t_remaining_ms u \<noteq> 0)
   \<and> gm_timer_get_remaining u now = t_remaining_ms u"
proof -
  let ?b = "gm_timer_get_remaining t now"
  have "int (unat (gm_timer_clamp_remaining (uint ?b + sint d))) =
      max 0 (min (int (unat ?b) + sint d) 4294967295)"
    by (simp only: unat_clamp_remaining) simp
  then show ?thesis
    by (cases "t_state t")
       (auto simp: gm_timer_add_time_def Let_def gm_timer_get_remaining_def word_neq_0_conv)
qed

text \<open>
  Between two updates a timer only counts down: a later reading is never larger than an
  earlier one, and no reading exceeds the stored remaining time.
\<close>

theorem timer_remaining_antitone:
  assumes "t_last_updated_ms t \<le> a" and "a \<le> b" and "unat b < 2 ^ 63"
  shows "gm_timer_get_remaining t b \<le> gm_timer_get_remaining t a
    \<and> gm_timer_get_remaining t a \<le> t_remaining_ms t"
proof (cases "t_state t = GM_TIMER_RUNNING")
  case True
  have "unat a \<le> unat b" using assms(2) by (simp add: word_le_nat_alt)
  moreover have "t_last_updated_ms t \<le> b" using assms(1,2) by (rule order_trans)
  ultimately have "unat (gm_timer_get_remaining t a) =
      unat (t_remaining_ms t) - (unat a - unat (t_last_updated_ms t))"
    and "unat (gm_timer_get_remaining t b) =
      unat (t_remaining_ms t) - (unat b - unat (t_last_updated_ms t))"
    using True assms get_remaining_running [of t a] get_remaining_running [of t b] by linarith+
  with \<open>unat a \<le> unat b\<close> show ?thesis
    by (simp only: word_le_nat_alt) linarith
qed simp

theorem timer_remaining_antitone_witness:
  "gm_timer_get_remaining (gm_timer_start 5000 100) 9000
     \<le> gm_timer_get_remaining (gm_timer_start 5000 100) 1100"
  using timer_remaining_antitone [of "gm_timer_start 5000 100" 1100 9000]
  by (simp add: gm_timer_start_def gm_timer_reset_def)

end
