(* ===== verification/Gm_Hint.thy ===== *)
theory Gm_Hint
  imports Gm_Prelude
begin

text \<open>
  The operator hint shown in a room (\<open>gm_core/hint/gm_hint.c\<close>).
\<close>

definition QUEST_PAYLOAD_MAX_LEN :: nat where "QUEST_PAYLOAD_MAX_LEN = 160"

record gm_hint =
  h_active :: bool
  h_sent_count :: u32
  h_last_changed_ms :: u64
  h_message :: string

definition gm_hint_reset :: gm_hint where
  "gm_hint_reset = \<lparr>h_active = False, h_sent_count = 0, h_last_changed_ms = 0, h_message = []\<rparr>"

definition gm_hint_send :: "gm_hint \<Rightarrow> string \<Rightarrow> u64 \<Rightarrow> esp_err \<times> gm_hint" where
  "gm_hint_send hint message now_ms =
     (if message = [] then (ESP_ERR_INVALID_ARG, hint)
      else (ESP_OK, hint\<lparr>h_active := True, h_sent_count := h_sent_count hint + 1,
                         h_last_changed_ms := now_ms,
                         h_message := quest_str_copy QUEST_PAYLOAD_MAX_LEN message\<rparr>))"

definition gm_hint_clear :: "gm_hint \<Rightarrow> u64 \<Rightarrow> esp_err \<times> gm_hint" where
  "gm_hint_clear hint now_ms =
     (ESP_OK, hint\<lparr>h_active := False, h_last_changed_ms := now_ms, h_message := []\<rparr>)"

end
