(* ===== verification/Scenehub_Events.thy ===== *)
theory Scenehub_Events
  imports Gm_Hint
begin

text \<open>
  The event type shared by all components and its constructors and classifiers
  (\<open>scenehub_events/scenehub_events.c\<close>).  The payload tag and the union it selects are one
  datatype, so the tag of an event is the constructor of its data.
\<close>

section \<open>Data\<close>

datatype scenehub_event_type =
    SCENEHUB_EVENT_NONE
  | SCENEHUB_EVENT_CARD_OK
  | SCENEHUB_EVENT_CARD_BAD
  | SCENEHUB_EVENT_RELAY_CMD
  | SCENEHUB_EVENT_AUDIO_PLAY
  | SCENEHUB_EVENT_AUDIO_FINISHED
  | SCENEHUB_EVENT_VOLUME_SET
  | SCENEHUB_EVENT_WEB_COMMAND
  | SCENEHUB_EVENT_SYSTEM_STATUS
  | SCENEHUB_EVENT_SCENARIO_TRIGGER
  | SCENEHUB_EVENT_DEVICE_CONFIG_CHANGED
  | SCENEHUB_EVENT_MQTT_MESSAGE
  | SCENEHUB_EVENT_FLAG_CHANGED
  | SCENEHUB_EVENT_DEVICE_STATUS
  | SCENEHUB_EVENT_DEVICE_RUNTIME
  | SCENEHUB_EVENT_DEVICE_CONTROL
  | SCENEHUB_EVENT_RUNTIME_CONTROL

datatype scenehub_event_origin =
    SCENEHUB_EVENT_ORIGIN_INTERNAL
  | SCENEHUB_EVENT_ORIGIN_MQTT
  | SCENEHUB_EVENT_ORIGIN_WEB
  | SCENEHUB_EVENT_ORIGIN_SCENARIO

datatype event_bus_priority = EVENT_BUS_PRIORITY_NORMAL | EVENT_BUS_PRIORITY_HIGH

record device_status_payload =
  ds_device_id :: string
  ds_connectivity :: string
  ds_health :: string
  ds_state :: string
  ds_timestamp_ms :: u64

record device_runtime_payload =
  dr_device_id :: string
  dr_runtime_type :: string
  dr_state :: string
  dr_active :: bool
  dr_timestamp_ms :: u64

record device_control_payload =
  dc_device_id :: string
  dc_action_id :: string
  dc_source :: string
  dc_args_json :: string
  dc_timestamp_ms :: u64

datatype scenehub_event_data =
    PAYLOAD_TEXT
  | PAYLOAD_DEVICE_STATUS device_status_payload
  | PAYLOAD_DEVICE_RUNTIME device_runtime_payload
  | PAYLOAD_DEVICE_CONTROL device_control_payload

record scenehub_event =
  ev_type :: scenehub_event_type
  ev_priority :: event_bus_priority
  ev_origin :: scenehub_event_origin
  ev_topic :: string
  ev_payload :: string
  ev_data :: scenehub_event_data

definition SCENEHUB_EVENT_DEVICE_ID_MAX_LEN :: nat where
  "SCENEHUB_EVENT_DEVICE_ID_MAX_LEN = 64"
definition SCENEHUB_EVENT_ACTION_ID_MAX_LEN :: nat where
  "SCENEHUB_EVENT_ACTION_ID_MAX_LEN = 96"

section \<open>Classifiers\<close>

fun scenehub_event_is_text_event_type :: "scenehub_event_type \<Rightarrow> bool" where
  "scenehub_event_is_text_event_type SCENEHUB_EVENT_NONE = False"
| "scenehub_event_is_text_event_type SCENEHUB_EVENT_DEVICE_STATUS = False"
| "scenehub_event_is_text_event_type SCENEHUB_EVENT_DEVICE_RUNTIME = False"
| "scenehub_event_is_text_event_type SCENEHUB_EVENT_DEVICE_CONTROL = False"
| "scenehub_event_is_text_event_type _ = True"

fun scenehub_event_type_to_string :: "scenehub_event_type \<Rightarrow> string" where
  "scenehub_event_type_to_string SCENEHUB_EVENT_CARD_OK = ''card_ok''"
| "scenehub_event_type_to_string SCENEHUB_EVENT_CARD_BAD = ''card_bad''"
| "scenehub_event_type_to_string SCENEHUB_EVENT_RELAY_CMD = ''relay_cmd''"
| "scenehub_event_type_to_string SCENEHUB_EVENT_AUDIO_PLAY = ''audio_play''"
| "scenehub_event_type_to_string SCENEHUB_EVENT_AUDIO_FINISHED = ''audio_finished''"
| "scenehub_event_type_to_string SCENEHUB_EVENT_VOLUME_SET = ''volume_set''"
| "scenehub_event_type_to_string SCENEHUB_EVENT_WEB_COMMAND = ''web_command''"
| "scenehub_event_type_to_string SCENEHUB_EVENT_SYSTEM_STATUS = ''system_status''"
| "scenehub_event_type_to_string SCENEHUB_EVENT_SCENARIO_TRIGGER = ''scenario_trigger''"
| "scenehub_event_type_to_string SCENEHUB_EVENT_DEVICE_CONFIG_CHANGED = ''device_config_changed''"
| "scenehub_event_type_to_string SCENEHUB_EVENT_MQTT_MESSAGE = ''mqtt_message''"
| "scenehub_event_type_to_string SCENEHUB_EVENT_FLAG_CHANGED = ''flag_changed''"
| "scenehub_event_type_to_string SCENEHUB_EVENT_DEVICE_STATUS = ''device_status''"
| "scenehub_event_type_to_string SCENEHUB_EVENT_DEVICE_RUNTIME = ''device_runtime''"
| "scenehub_event_type_to_string SCENEHUB_EVENT_DEVICE_CONTROL = ''device_control''"
| "scenehub_event_type_to_string SCENEHUB_EVENT_RUNTIME_CONTROL = ''runtime_control''"
| "scenehub_event_type_to_string SCENEHUB_EVENT_NONE = ''none''"

definition scenehub_event_source_id :: "scenehub_event \<Rightarrow> string" where
  "scenehub_event_source_id event = (case ev_data event of
      PAYLOAD_DEVICE_STATUS d \<Rightarrow> ds_device_id d
    | PAYLOAD_DEVICE_RUNTIME d \<Rightarrow> dr_device_id d
    | PAYLOAD_DEVICE_CONTROL d \<Rightarrow> dc_device_id d
    | PAYLOAD_TEXT \<Rightarrow> ev_topic event)"

definition scenehub_event_is_device_status :: "scenehub_event \<Rightarrow> bool" where
  "scenehub_event_is_device_status event \<longleftrightarrow>
     ev_type event = SCENEHUB_EVENT_DEVICE_STATUS \<and>
     (case ev_data event of PAYLOAD_DEVICE_STATUS _ \<Rightarrow> True | _ \<Rightarrow> False)"

definition scenehub_event_is_device_runtime :: "scenehub_event \<Rightarrow> bool" where
  "scenehub_event_is_device_runtime event \<longleftrightarrow>
     ev_type event = SCENEHUB_EVENT_DEVICE_RUNTIME \<and>
     (case ev_data event of PAYLOAD_DEVICE_RUNTIME _ \<Rightarrow> True | _ \<Rightarrow> False)"

definition scenehub_event_is_device_control :: "scenehub_event \<Rightarrow> bool" where
  "scenehub_event_is_device_control event \<longleftrightarrow>
     ev_type event = SCENEHUB_EVENT_DEVICE_CONTROL \<and>
     (case ev_data event of PAYLOAD_DEVICE_CONTROL _ \<Rightarrow> True | _ \<Rightarrow> False)"

text \<open>The \<open>device_control\<close> member of the union, where the tag selects it.\<close>

definition ev_control :: "scenehub_event \<Rightarrow> device_control_payload" where
  "ev_control event = (case ev_data event of
      PAYLOAD_DEVICE_CONTROL d \<Rightarrow> d
    | _ \<Rightarrow> \<lparr>dc_device_id = [], dc_action_id = [], dc_source = [], dc_args_json = [],
            dc_timestamp_ms = 0\<rparr>)"

definition scenehub_event_is_device_control_event :: "scenehub_event \<Rightarrow> bool" where
  "scenehub_event_is_device_control_event event \<longleftrightarrow>
     scenehub_event_is_device_control event \<and> dc_source (ev_control event) = ''event''"

definition scenehub_event_is_device_control_result :: "scenehub_event \<Rightarrow> bool" where
  "scenehub_event_is_device_control_result event \<longleftrightarrow>
     scenehub_event_is_device_control event \<and> dc_source (ev_control event) = ''result''"

definition scenehub_event_matches_device :: "scenehub_event \<Rightarrow> string \<Rightarrow> bool" where
  "scenehub_event_matches_device event device_id \<longleftrightarrow>
     device_id \<noteq> [] \<and> scenehub_event_source_id event = device_id"

definition scenehub_event_matches_action :: "scenehub_event \<Rightarrow> string \<Rightarrow> bool" where
  "scenehub_event_matches_action event action_id \<longleftrightarrow>
     scenehub_event_is_device_control event \<and> action_id \<noteq> [] \<and>
     dc_action_id (ev_control event) = action_id"

definition scenehub_event_is_valid :: "scenehub_event \<Rightarrow> bool" where
  "scenehub_event_is_valid event \<longleftrightarrow>
     ev_type event \<noteq> SCENEHUB_EVENT_NONE \<and>
     (case ev_data event of
        PAYLOAD_TEXT \<Rightarrow> scenehub_event_is_text_event_type (ev_type event)
      | PAYLOAD_DEVICE_STATUS d \<Rightarrow> scenehub_event_is_device_status event \<and> ds_device_id d \<noteq> []
      | PAYLOAD_DEVICE_RUNTIME d \<Rightarrow> scenehub_event_is_device_runtime event \<and> dr_device_id d \<noteq> []
      | PAYLOAD_DEVICE_CONTROL d \<Rightarrow>
          scenehub_event_is_device_control event \<and> dc_device_id d \<noteq> [] \<and> dc_action_id d \<noteq> [] \<and>
          (dc_source d = ''event'' \<or> dc_source d = ''result''))"

section \<open>Constructors\<close>

text \<open>A refused construction is \<open>Inl\<close> of the error; the output parameter is \<open>Inr\<close>.\<close>

definition check_event :: "scenehub_event \<Rightarrow> esp_err + scenehub_event" where
  "check_event ev = (if scenehub_event_is_valid ev then Inr ev else Inl ESP_ERR_INVALID_ARG)"

definition scenehub_event_make_device_control ::
  "string \<Rightarrow> string \<Rightarrow> string \<Rightarrow> string \<Rightarrow> string \<Rightarrow> u64 \<Rightarrow> esp_err + scenehub_event" where
  "scenehub_event_make_device_control device_id action_id source payload args_json timestamp_ms =
     (if device_id = [] \<or> action_id = [] \<or> source = [] then Inl ESP_ERR_INVALID_ARG
      else check_event
        \<lparr>ev_type = SCENEHUB_EVENT_DEVICE_CONTROL, ev_priority = EVENT_BUS_PRIORITY_NORMAL,
         ev_origin = SCENEHUB_EVENT_ORIGIN_INTERNAL, ev_topic = [],
         ev_payload = quest_str_copy 256 payload,
         ev_data = PAYLOAD_DEVICE_CONTROL
           \<lparr>dc_device_id = quest_str_copy SCENEHUB_EVENT_DEVICE_ID_MAX_LEN device_id,
            dc_action_id = quest_str_copy SCENEHUB_EVENT_ACTION_ID_MAX_LEN action_id,
            dc_source = quest_str_copy 16 source,
            dc_args_json = quest_str_copy QUEST_PAYLOAD_MAX_LEN args_json,
            dc_timestamp_ms = timestamp_ms\<rparr>\<rparr>)"

definition scenehub_event_make_text ::
  "scenehub_event_type \<Rightarrow> string \<Rightarrow> string \<Rightarrow> esp_err + scenehub_event" where
  "scenehub_event_make_text ty topic payload =
     (if \<not> scenehub_event_is_text_event_type ty then Inl ESP_ERR_INVALID_ARG
      else check_event
        \<lparr>ev_type = ty, ev_priority = EVENT_BUS_PRIORITY_NORMAL,
         ev_origin = SCENEHUB_EVENT_ORIGIN_INTERNAL,
         ev_topic = quest_str_copy 96 topic, ev_payload = quest_str_copy 256 payload,
         ev_data = PAYLOAD_TEXT\<rparr>)"

definition scenehub_event_make_flag_changed :: "string \<Rightarrow> bool \<Rightarrow> esp_err + scenehub_event" where
  "scenehub_event_make_flag_changed flag_name v =
     (if flag_name = [] then Inl ESP_ERR_INVALID_ARG
      else scenehub_event_make_text SCENEHUB_EVENT_FLAG_CHANGED flag_name
             (if v then ''true'' else ''false''))"

definition scenehub_event_make_device_status ::
  "string \<Rightarrow> string \<Rightarrow> string \<Rightarrow> string \<Rightarrow> u64 \<Rightarrow> esp_err + scenehub_event" where
  "scenehub_event_make_device_status device_id connectivity health st timestamp_ms =
     (if device_id = [] then Inl ESP_ERR_INVALID_ARG
      else check_event
        \<lparr>ev_type = SCENEHUB_EVENT_DEVICE_STATUS, ev_priority = EVENT_BUS_PRIORITY_NORMAL,
         ev_origin = SCENEHUB_EVENT_ORIGIN_INTERNAL, ev_topic = [],
         ev_payload = quest_str_copy 256 st,
         ev_data = PAYLOAD_DEVICE_STATUS
           \<lparr>ds_device_id = quest_str_copy SCENEHUB_EVENT_DEVICE_ID_MAX_LEN device_id,
            ds_connectivity = quest_str_copy 16 connectivity,
            ds_health = quest_str_copy 16 health,
            ds_state = quest_str_copy 32 st,
            ds_timestamp_ms = timestamp_ms\<rparr>\<rparr>)"

definition scenehub_event_make_device_runtime ::
  "string \<Rightarrow> string \<Rightarrow> string \<Rightarrow> bool \<Rightarrow> u64 \<Rightarrow> esp_err + scenehub_event" where
  "scenehub_event_make_device_runtime device_id runtime_type st active timestamp_ms =
     (if device_id = [] then Inl ESP_ERR_INVALID_ARG
      else check_event
        \<lparr>ev_type = SCENEHUB_EVENT_DEVICE_RUNTIME, ev_priority = EVENT_BUS_PRIORITY_NORMAL,
         ev_origin = SCENEHUB_EVENT_ORIGIN_INTERNAL, ev_topic = [],
         ev_payload = quest_str_copy 256 st,
         ev_data = PAYLOAD_DEVICE_RUNTIME
           \<lparr>dr_device_id = quest_str_copy SCENEHUB_EVENT_DEVICE_ID_MAX_LEN device_id,
            dr_runtime_type = quest_str_copy 32 runtime_type,
            dr_state = quest_str_copy 32 st,
            dr_active = active,
            dr_timestamp_ms = timestamp_ms\<rparr>\<rparr>)"

definition scenehub_event_make_device_control_event ::
  "string \<Rightarrow> string \<Rightarrow> string \<Rightarrow> u64 \<Rightarrow> esp_err + scenehub_event" where
  "scenehub_event_make_device_control_event device_id action_id args_json timestamp_ms =
     scenehub_event_make_device_control device_id action_id ''event'' ''event'' args_json timestamp_ms"

definition scenehub_event_make_device_control_result ::
  "string \<Rightarrow> string \<Rightarrow> string \<Rightarrow> u64 \<Rightarrow> esp_err + scenehub_event" where
  "scenehub_event_make_device_control_result device_id request_id result_payload timestamp_ms =
     scenehub_event_make_device_control device_id request_id ''result'' result_payload [] timestamp_ms"

lemmas event_make_defs =
  scenehub_event_make_device_control_def scenehub_event_make_text_def
  scenehub_event_make_flag_changed_def scenehub_event_make_device_status_def
  scenehub_event_make_device_runtime_def scenehub_event_make_device_control_event_def
  scenehub_event_make_device_control_result_def check_event_def

lemmas event_class_defs =
  scenehub_event_is_valid_def scenehub_event_is_device_status_def
  scenehub_event_is_device_runtime_def scenehub_event_is_device_control_def
  scenehub_event_is_device_control_event_def scenehub_event_is_device_control_result_def
  scenehub_event_source_id_def ev_control_def

section \<open>Properties\<close>

text \<open>
  A command-result event round-trips.  For a non-empty device id and request id that fit
  their buffers the constructor succeeds, and the classifiers read back exactly what was put
  in: it is a result and not a device event, its source is the device and its action the request.
\<close>

theorem control_result_roundtrip:
  assumes "dev \<noteq> []" and "length dev < 64" and "req \<noteq> []" and "length req < 96"
    and "length res < 256"
  shows "\<exists>ev. scenehub_event_make_device_control_result dev req res ts = Inr ev
    \<and> scenehub_event_is_valid ev
    \<and> scenehub_event_is_device_control_result ev
    \<and> \<not> scenehub_event_is_device_control_event ev
    \<and> scenehub_event_source_id ev = dev
    \<and> scenehub_event_matches_action ev req
    \<and> ev_payload ev = res"
  using assms
  by (simp add: event_make_defs event_class_defs scenehub_event_matches_action_def
      SCENEHUB_EVENT_DEVICE_ID_MAX_LEN_def SCENEHUB_EVENT_ACTION_ID_MAX_LEN_def)

theorem control_result_roundtrip_witness:
  "\<exists>ev. scenehub_event_make_device_control_result ''door'' ''req-1'' ''done'' 7 = Inr ev
    \<and> scenehub_event_source_id ev = ''door'' \<and> ev_payload ev = ''done''"
  using control_result_roundtrip [of "''door''" "''req-1''" "''done''" 7] by auto

end
