(* ===== verification/Room_Scenario.thy ===== *)
theory Room_Scenario
  imports Gm_Prelude
begin

text \<open>
  The scenario model (\<open>room_scenario/include/room_scenario.h\<close>) that a running game executes:
  steps, reactive variants and actions, branches.  An array with its count is a list whose
  length is the count; the type tag of a step and the union it selects are one datatype.
  \<open>room_scenario_wf\<close> states the capacity limits of the arrays.
\<close>

section \<open>Limits\<close>

definition ROOM_SCENARIO_COMMAND_GROUP_MAX_COMMANDS :: nat where
  "ROOM_SCENARIO_COMMAND_GROUP_MAX_COMMANDS = 4"
definition ROOM_SCENARIO_WAIT_EVENT_GROUP_MAX_EVENTS :: nat where
  "ROOM_SCENARIO_WAIT_EVENT_GROUP_MAX_EVENTS = 4"
definition ROOM_SCENARIO_EVENT_TYPE_MAX_LEN :: nat where
  "ROOM_SCENARIO_EVENT_TYPE_MAX_LEN = 32"
definition ROOM_SCENARIO_EVENT_SOURCE_ID_MAX_LEN :: nat where
  "ROOM_SCENARIO_EVENT_SOURCE_ID_MAX_LEN = 32"
definition ROOM_SCENARIO_DEVICE_ID_MAX_LEN :: nat where
  "ROOM_SCENARIO_DEVICE_ID_MAX_LEN = 32"
definition ROOM_SCENARIO_DEVICE_EVENT_ID_MAX_LEN :: nat where
  "ROOM_SCENARIO_DEVICE_EVENT_ID_MAX_LEN = 32"
definition ROOM_SCENARIO_DEVICE_COMMAND_ID_MAX_LEN :: nat where
  "ROOM_SCENARIO_DEVICE_COMMAND_ID_MAX_LEN = 32"
definition ROOM_SCENARIO_COMMAND_PARAMS_JSON_MAX_LEN :: nat where
  "ROOM_SCENARIO_COMMAND_PARAMS_JSON_MAX_LEN = 384"
definition ROOM_SCENARIO_OPERATOR_PROMPT_MAX_LEN :: nat where
  "ROOM_SCENARIO_OPERATOR_PROMPT_MAX_LEN = 96"
definition ROOM_SCENARIO_OPERATOR_LABEL_MAX_LEN :: nat where
  "ROOM_SCENARIO_OPERATOR_LABEL_MAX_LEN = 32"
definition ROOM_SCENARIO_OPERATOR_MESSAGE_MAX_LEN :: nat where
  "ROOM_SCENARIO_OPERATOR_MESSAGE_MAX_LEN = 160"
definition ROOM_SCENARIO_FLAG_NAME_MAX_LEN :: nat where
  "ROOM_SCENARIO_FLAG_NAME_MAX_LEN = 32"
definition ROOM_SCENARIO_WAIT_FLAGS_MAX_FLAGS :: nat where
  "ROOM_SCENARIO_WAIT_FLAGS_MAX_FLAGS = 8"
definition ROOM_SCENARIO_MAX_BRANCHES :: nat where
  "ROOM_SCENARIO_MAX_BRANCHES = 8"
definition ROOM_SCENARIO_MAX_STEPS :: nat where
  "ROOM_SCENARIO_MAX_STEPS = 48"
definition ROOM_SCENARIO_MAX_REACTIVE_VARIANTS :: nat where
  "ROOM_SCENARIO_MAX_REACTIVE_VARIANTS = 8"
definition ROOM_SCENARIO_MAX_REACTIVE_ACTIONS :: nat where
  "ROOM_SCENARIO_MAX_REACTIVE_ACTIONS = 24"
definition ROOM_SCENARIO_MAX_REACTIVE_GROUP_COMMANDS :: nat where
  "ROOM_SCENARIO_MAX_REACTIVE_GROUP_COMMANDS = 8"

lemmas limit_defs =
  ROOM_SCENARIO_COMMAND_GROUP_MAX_COMMANDS_def ROOM_SCENARIO_WAIT_EVENT_GROUP_MAX_EVENTS_def
  ROOM_SCENARIO_EVENT_TYPE_MAX_LEN_def ROOM_SCENARIO_EVENT_SOURCE_ID_MAX_LEN_def
  ROOM_SCENARIO_DEVICE_ID_MAX_LEN_def ROOM_SCENARIO_DEVICE_EVENT_ID_MAX_LEN_def
  ROOM_SCENARIO_DEVICE_COMMAND_ID_MAX_LEN_def ROOM_SCENARIO_COMMAND_PARAMS_JSON_MAX_LEN_def
  ROOM_SCENARIO_OPERATOR_PROMPT_MAX_LEN_def ROOM_SCENARIO_OPERATOR_LABEL_MAX_LEN_def
  ROOM_SCENARIO_OPERATOR_MESSAGE_MAX_LEN_def ROOM_SCENARIO_FLAG_NAME_MAX_LEN_def
  ROOM_SCENARIO_WAIT_FLAGS_MAX_FLAGS_def ROOM_SCENARIO_MAX_BRANCHES_def
  ROOM_SCENARIO_MAX_STEPS_def ROOM_SCENARIO_MAX_REACTIVE_VARIANTS_def
  ROOM_SCENARIO_MAX_REACTIVE_ACTIONS_def ROOM_SCENARIO_MAX_REACTIVE_GROUP_COMMANDS_def

section \<open>Enumerations\<close>

datatype branch_type = ROOM_SCENARIO_BRANCH_NORMAL | ROOM_SCENARIO_BRANCH_REACTIVE

datatype reentry_mode =
    ROOM_SCENARIO_REENTRY_IGNORE
  | ROOM_SCENARIO_REENTRY_QUEUE_ONE
  | ROOM_SCENARIO_REENTRY_RESTART
  | ROOM_SCENARIO_REENTRY_PARALLEL

datatype reactive_trigger_kind =
    REACTIVE_TRIGGER_NONE
  | REACTIVE_TRIGGER_DEVICE_EVENT
  | REACTIVE_TRIGGER_ANY_DEVICE_EVENTS
  | REACTIVE_TRIGGER_ALL_DEVICE_EVENTS
  | REACTIVE_TRIGGER_FLAG_CHANGED
  | REACTIVE_TRIGGER_OPERATOR_EVENT
  | REACTIVE_TRIGGER_RUNTIME_EVENT

datatype reactive_policy_mode =
    REACTIVE_POLICY_SINGLE | REACTIVE_POLICY_ROTATE | REACTIVE_POLICY_RANDOM | REACTIVE_POLICY_ESCALATE

datatype reactive_result_action =
    REACTIVE_RESULT_CONTINUE
  | REACTIVE_RESULT_SET_FLAG
  | REACTIVE_RESULT_FAIL_REACTION
  | REACTIVE_RESULT_FAIL_SCENARIO
  | REACTIVE_RESULT_RETRY

datatype wait_timeout_action =
    WAIT_TIMEOUT_CONTINUE | WAIT_TIMEOUT_FAIL_REACTION | WAIT_TIMEOUT_RESET_REACTION

datatype command_group_mode = COMMAND_GROUP_SEQUENTIAL | COMMAND_GROUP_PARALLEL

section \<open>Steps and actions\<close>

record device_command =
  cmd_device_id :: string
  cmd_command_id :: string
  cmd_params_json :: string

record wait_device_event =
  wde_device_id :: string
  wde_event_id :: string
  wde_timeout_ms :: u32
  wde_timeout_action :: wait_timeout_action
  wde_timeout_message :: string

record wait_event_group =
  weg_events :: "wait_device_event list"
  weg_timeout_ms :: u32
  weg_timeout_action :: wait_timeout_action

record wait_time =
  wt_duration_ms :: u32
  wt_timeout_action :: wait_timeout_action

record flag_condition =
  fl_name :: string
  fl_value :: bool

record wait_flags_spec =
  wf_flags :: "flag_condition list"
  wf_timeout_ms :: u32
  wf_timeout_action :: wait_timeout_action
  wf_timeout_message :: string

datatype step_data =
    STEP_WAIT_TIME wait_time
  | STEP_OPERATOR_APPROVAL string string  \<comment> \<open>prompt, approve label\<close>
  | STEP_DEVICE_COMMAND device_command
  | STEP_WAIT_DEVICE_EVENT wait_device_event
  | STEP_DEVICE_COMMAND_GROUP "device_command list"
  | STEP_SHOW_OPERATOR_MESSAGE string
  | STEP_SET_FLAG flag_condition
  | STEP_WAIT_FLAGS wait_flags_spec
  | STEP_WAIT_ANY_DEVICE_EVENT wait_event_group
  | STEP_WAIT_ALL_DEVICE_EVENTS wait_event_group
  | STEP_FAIL_REACTION
  | STEP_RESET_REACTION
  | STEP_END_GAME

record scenario_step =
  st_id :: string
  st_label :: string
  st_enabled :: bool
  st_allow_operator_skip :: bool
  st_operator_skip_label :: string
  st_data :: step_data

record reactive_variant =
  rv_id :: string
  rv_label :: string
  rv_action_start_index :: u16
  rv_action_count :: u8

text \<open>
  The group of a reactive action is a slice of the scenario's group-command table; the
  argument of \<open>STEP_DEVICE_COMMAND_GROUP\<close> is not used in an action.
\<close>

record reactive_action =
  ra_id :: string
  ra_label :: string
  ra_group_mode :: command_group_mode
  ra_group_command_start_index :: u16
  ra_group_command_count :: u8
  ra_data :: step_data

section \<open>Branches and scenarios\<close>

record reactive_trigger =
  tr_kind :: reactive_trigger_kind
  tr_device_id :: string
  tr_event_id :: string
  tr_events :: "wait_device_event list"
  tr_flag_name :: string
  tr_runtime_event :: string
  tr_operator_event :: string

record scenario_branch =
  br_id :: string
  br_name :: string
  br_type :: branch_type
  br_enabled :: bool
  br_required_for_completion :: bool
  br_priority :: u16
  br_policy_mode :: reactive_policy_mode
  br_cooldown_ms :: u32
  br_max_fire_count :: u32
  br_run_once :: bool
  br_reentry_mode :: reentry_mode
  br_trigger :: reactive_trigger
  br_guard_flags :: "flag_condition list"
  br_result_on_done :: reactive_result_action
  br_result_on_fail :: reactive_result_action
  br_result_on_timeout :: reactive_result_action
  br_result_flag :: string
  br_variant_start_index :: u16
  br_variant_count :: u8
  br_on_complete_action_start_index :: u16
  br_on_complete_action_count :: u8
  br_step_start_index :: u16
  br_step_count :: u16

record room_scenario =
  sc_id :: string
  sc_name :: string
  sc_room_id :: string
  sc_steps :: "scenario_step list"
  sc_reactive_variants :: "reactive_variant list"
  sc_reactive_actions :: "reactive_action list"
  sc_reactive_group_commands :: "device_command list"
  sc_branches :: "scenario_branch list"

definition room_scenario_zero :: room_scenario where
  "room_scenario_zero = \<lparr>sc_id = [], sc_name = [], sc_room_id = [], sc_steps = [],
     sc_reactive_variants = [], sc_reactive_actions = [], sc_reactive_group_commands = [],
     sc_branches = []\<rparr>"

definition room_scenario_wf :: "room_scenario \<Rightarrow> bool" where
  "room_scenario_wf sc \<longleftrightarrow>
     length (sc_steps sc) \<le> ROOM_SCENARIO_MAX_STEPS \<and>
     length (sc_reactive_variants sc) \<le> ROOM_SCENARIO_MAX_REACTIVE_VARIANTS \<and>
     length (sc_reactive_actions sc) \<le> ROOM_SCENARIO_MAX_REACTIVE_ACTIONS \<and>
     length (sc_reactive_group_commands sc) \<le> ROOM_SCENARIO_MAX_REACTIVE_GROUP_COMMANDS \<and>
     length (sc_branches sc) \<le> ROOM_SCENARIO_MAX_BRANCHES"

end
