(* ===== verification/Gm_Session.thy ===== *)
theory Gm_Session
  imports Gm_Timer Gm_Hint Scenehub_Events Room_Scenario
begin

text \<open>
  State of a room session and the primitives of \<open>gm_core/session/gm_room_session.c\<close> that run
  under the sessions lock: wait clearing, deferred side effects, flags, the branch mirror and
  the branch summary.

  The fields that \<open>gm_room_session_t\<close> and \<open>gm_room_scenario_branch_runtime_t\<close> share (state,
  current step, current wait) are one record, \<open>run_view\<close>: the session holds a mirror of the
  branch that is being worked on, and \<open>branch_load_into_session\<close> and
  \<open>branch_save_from_session\<close> copy it both ways.  A pointer to a branch is its index.
  A function that runs under the lock acts on a \<open>room_ctx\<close>: the module's static variables, the
  session, and the prepared event catalogue of its slot.
\<close>

section \<open>Enumerations and records\<close>

datatype gm_session_state =
  GM_SESSION_IDLE | GM_SESSION_RUNNING | GM_SESSION_PAUSED | GM_SESSION_FINISHED

datatype gm_room_scenario_state =
    GM_ROOM_SCENARIO_IDLE
  | GM_ROOM_SCENARIO_RUNNING
  | GM_ROOM_SCENARIO_WAITING
  | GM_ROOM_SCENARIO_PAUSED
  | GM_ROOM_SCENARIO_DONE
  | GM_ROOM_SCENARIO_STOPPED
  | GM_ROOM_SCENARIO_COOLDOWN
  | GM_ROOM_SCENARIO_ERROR

datatype gm_room_scenario_wait_type =
    WAIT_NONE
  | WAIT_TIME
  | WAIT_DEVICE_EVENT
  | WAIT_ANY_DEVICE_EVENT
  | WAIT_OPERATOR
  | WAIT_FLAGS
  | WAIT_ALL_DEVICE_EVENTS
  | WAIT_DEVICE_COMMAND_RESULT

record wait_event_match =
  wm_device_id :: string
  wm_event_id :: string
  wm_event_type :: string
  wm_source_id :: string
  wm_match_json :: string

definition wait_event_match_zero :: wait_event_match where
  "wait_event_match_zero = \<lparr>wm_device_id = [], wm_event_id = [], wm_event_type = [],
     wm_source_id = [], wm_match_json = []\<rparr>"

record run_view =
  v_scenario_state :: gm_room_scenario_state
  v_current_step_index :: u16
  v_wait_type :: gm_room_scenario_wait_type
  v_wait_until_ms :: u32
  v_wait_started_at_ms :: u32
  v_wait_event_type :: string
  v_wait_source_id :: string
  v_wait_events :: "wait_event_match list"
  v_wait_event_matched :: "bool list"
  v_wait_flags :: "flag_condition list"
  v_wait_operator_prompt :: string
  v_wait_operator_label :: string
  v_wait_operator_skip_allowed :: bool
  v_wait_operator_skip_label :: string

definition run_view_zero :: run_view where
  "run_view_zero = \<lparr>v_scenario_state = GM_ROOM_SCENARIO_IDLE, v_current_step_index = 0,
     v_wait_type = WAIT_NONE, v_wait_until_ms = 0, v_wait_started_at_ms = 0,
     v_wait_event_type = [], v_wait_source_id = [], v_wait_events = [],
     v_wait_event_matched = [], v_wait_flags = [], v_wait_operator_prompt = [],
     v_wait_operator_label = [], v_wait_operator_skip_allowed = False,
     v_wait_operator_skip_label = []\<rparr>"

record branch_runtime =
  b_active :: bool
  b_type :: branch_type
  b_required_for_completion :: bool
  b_priority :: u16
  b_cooldown_ms :: u32
  b_cooldown_until_ms :: u32
  b_max_fire_count :: u32
  b_fire_count :: u32
  b_run_once :: bool
  b_fired_once :: bool
  b_reentry_mode :: reentry_mode
  b_pending_trigger :: bool
  b_policy_cursor :: u8
  b_policy_stage :: u8
  b_last_variant_index :: u8
  b_reactive_action_start_index :: u16
  b_reactive_action_count :: u8
  b_reactive_current_action :: u8
  b_branch_index :: u16
  b_step_start_index :: u16
  b_step_count :: u16
  b_view :: run_view
  b_trigger_resolved :: bool
  b_trigger_matches :: "wait_event_match list"
  b_trigger_alt_event_types :: "string list"
  b_trigger_event_matched :: "bool list"

definition branch_runtime_zero :: branch_runtime where
  "branch_runtime_zero = \<lparr>b_active = False, b_type = ROOM_SCENARIO_BRANCH_NORMAL,
     b_required_for_completion = False, b_priority = 0, b_cooldown_ms = 0,
     b_cooldown_until_ms = 0, b_max_fire_count = 0, b_fire_count = 0, b_run_once = False,
     b_fired_once = False, b_reentry_mode = ROOM_SCENARIO_REENTRY_IGNORE,
     b_pending_trigger = False, b_policy_cursor = 0, b_policy_stage = 0,
     b_last_variant_index = 0, b_reactive_action_start_index = 0, b_reactive_action_count = 0,
     b_reactive_current_action = 0, b_branch_index = 0, b_step_start_index = 0,
     b_step_count = 0, b_view = run_view_zero, b_trigger_resolved = False,
     b_trigger_matches = [], b_trigger_alt_event_types = [], b_trigger_event_matched = []\<rparr>"

record prepared_event_ref =
  pr_match :: wait_event_match
  pr_alternate_event_type :: string
  pr_enabled_device_validated :: bool

record prepared_event_resolution =
  pe_present :: bool
  pe_event_ref_indices :: "u16 list"

record prepared_scenario =
  ps_event_refs :: "prepared_event_ref list"
  ps_step_waits :: "prepared_event_resolution list"
  ps_reactive_action_waits :: "prepared_event_resolution list"
  ps_reactive_triggers :: "prepared_event_resolution list"

definition prepared_scenario_zero :: prepared_scenario where
  "prepared_scenario_zero = \<lparr>ps_event_refs = [], ps_step_waits = [],
     ps_reactive_action_waits = [], ps_reactive_triggers = []\<rparr>"

text \<open>The resolution arrays have fixed size; entries that are not listed are zero.\<close>

definition prepared_at :: "prepared_event_resolution list \<Rightarrow> nat \<Rightarrow> prepared_event_resolution" where
  "prepared_at rs i = (if i < length rs then rs ! i else \<lparr>pe_present = False, pe_event_ref_indices = []\<rparr>)"

record gm_room_session =
  s_in_use :: bool
  s_state :: gm_session_state
  s_session_generation :: u32
  s_last_change_lock_epoch :: u32
  s_started_at_ms :: u64
  s_finished_at_ms :: u64
  s_room_id :: string
  s_selected_profile_id :: string
  s_selected_profile_name :: string
  s_selected_profile_scenario_id :: string
  s_selected_profile_duration_ms :: u32
  s_selected_scenario_id :: string
  s_selected_scenario_name :: string
  s_selected_scenario_generation :: u32
  s_running_scenario :: room_scenario
  s_running_scenario_valid :: bool
  s_running_scenario_generation :: u32
  s_view :: run_view
  s_scenario_operator_message :: string
  s_scenario_flags :: "flag_condition list"
  s_branch_runtimes :: "branch_runtime list"
  s_scenario_last_error :: string
  s_timer :: gm_timer
  s_hint :: gm_hint

definition gm_room_session_zero :: gm_room_session where
  "gm_room_session_zero = \<lparr>s_in_use = False, s_state = GM_SESSION_IDLE,
     s_session_generation = 0, s_last_change_lock_epoch = 0, s_started_at_ms = 0,
     s_finished_at_ms = 0, s_room_id = [], s_selected_profile_id = [],
     s_selected_profile_name = [], s_selected_profile_scenario_id = [],
     s_selected_profile_duration_ms = 0, s_selected_scenario_id = [],
     s_selected_scenario_name = [], s_selected_scenario_generation = 0,
     s_running_scenario = room_scenario_zero, s_running_scenario_valid = False,
     s_running_scenario_generation = 0, s_view = run_view_zero,
     s_scenario_operator_message = [], s_scenario_flags = [], s_branch_runtimes = [],
     s_scenario_last_error = [], s_timer = gm_timer_reset 0 0, s_hint = gm_hint_reset\<rparr>"

text \<open>
  The static variables of the module; the deferred side effects are the two bounded lists.
  \<open>g_random\<close> stands for the hardware generator behind \<open>esp_random\<close>: the \<open>n\<close>-th draw is
  \<open>g_random n\<close>, and \<open>g_random_pos\<close> counts the draws made.
\<close>

record gm_globals =
  g_generation :: u32
  g_sessions_lock_epoch :: u32
  g_last_changed_room_id :: string
  g_cancel_request_ids :: "string list"
  g_flag_events :: "flag_condition list"
  g_random :: "nat \<Rightarrow> u32"
  g_random_pos :: nat

record room_ctx =
  c_glob :: gm_globals
  c_prepared :: prepared_scenario
  c_ses :: gm_room_session

definition GM_ROOM_SCENARIO_MAX_FLAGS :: nat where "GM_ROOM_SCENARIO_MAX_FLAGS = 16"
definition GM_ROOM_SESSION_DEFERRED_CANCEL_MAX :: nat where
  "GM_ROOM_SESSION_DEFERRED_CANCEL_MAX = ROOM_SCENARIO_MAX_BRANCHES + 1"
definition GM_ROOM_SESSION_COMMAND_REQUEST_ID_MAX_LEN :: nat where
  "GM_ROOM_SESSION_COMMAND_REQUEST_ID_MAX_LEN = 48"
definition QUEST_ROOM_ID_MAX_LEN :: nat where "QUEST_ROOM_ID_MAX_LEN = 32"
definition GM_ROOM_SESSION_PREPARED_EVENT_REF_MAX :: nat where
  "GM_ROOM_SESSION_PREPARED_EVENT_REF_MAX =
     (ROOM_SCENARIO_MAX_STEPS + ROOM_SCENARIO_MAX_REACTIVE_ACTIONS + ROOM_SCENARIO_MAX_BRANCHES)
     * ROOM_SCENARIO_WAIT_EVENT_GROUP_MAX_EVENTS"

section \<open>Access to the parts of a context\<close>

definition upd_glob :: "(gm_globals \<Rightarrow> gm_globals) \<Rightarrow> room_ctx \<Rightarrow> room_ctx" where
  "upd_glob f c = c\<lparr>c_glob := f (c_glob c)\<rparr>"

definition upd_ses :: "(gm_room_session \<Rightarrow> gm_room_session) \<Rightarrow> room_ctx \<Rightarrow> room_ctx" where
  "upd_ses f c = c\<lparr>c_ses := f (c_ses c)\<rparr>"

definition upd_view :: "(run_view \<Rightarrow> run_view) \<Rightarrow> room_ctx \<Rightarrow> room_ctx" where
  "upd_view f c = upd_ses (\<lambda>s. s\<lparr>s_view := f (s_view s)\<rparr>) c"

definition get_branch :: "room_ctx \<Rightarrow> nat \<Rightarrow> branch_runtime" where
  "get_branch c i = s_branch_runtimes (c_ses c) ! i"

definition upd_branch :: "nat \<Rightarrow> (branch_runtime \<Rightarrow> branch_runtime) \<Rightarrow> room_ctx \<Rightarrow> room_ctx" where
  "upd_branch i f c = upd_ses (\<lambda>s. s\<lparr>s_branch_runtimes :=
     (s_branch_runtimes s)[i := f (s_branch_runtimes s ! i)]\<rparr>) c"

definition upd_branch_view :: "nat \<Rightarrow> (run_view \<Rightarrow> run_view) \<Rightarrow> room_ctx \<Rightarrow> room_ctx" where
  "upd_branch_view i f c = upd_branch i (\<lambda>b. b\<lparr>b_view := f (b_view b)\<rparr>) c"

lemmas ctx_defs = upd_glob_def upd_ses_def upd_view_def get_branch_def upd_branch_def
  upd_branch_view_def

section \<open>Change tracking and deferred cancels\<close>

definition gm_room_session_mark_session_changed_locked :: "room_ctx \<Rightarrow> room_ctx" where
  "gm_room_session_mark_session_changed_locked c =
     (let g = c_glob c; s = c_ses c;
          c' = (if s_last_change_lock_epoch s \<noteq> g_sessions_lock_epoch g
                then c\<lparr>c_glob := g\<lparr>g_generation := g_generation g + 1\<rparr>,
                       c_ses := s\<lparr>s_session_generation := g_generation g + 1,
                                  s_last_change_lock_epoch := g_sessions_lock_epoch g\<rparr>\<rparr>
                else c)
      in upd_glob (\<lambda>g. g\<lparr>g_last_changed_room_id :=
            quest_str_copy QUEST_ROOM_ID_MAX_LEN (s_room_id s)\<rparr>) c')"

definition gm_room_session_defer_cancel_request_locked :: "string \<Rightarrow> gm_globals \<Rightarrow> gm_globals" where
  "gm_room_session_defer_cancel_request_locked request_id g =
     (if request_id = [] then g
      else if request_id \<in> set (g_cancel_request_ids g) then g
      else if length (g_cancel_request_ids g) \<ge> GM_ROOM_SESSION_DEFERRED_CANCEL_MAX then g
      else g\<lparr>g_cancel_request_ids := g_cancel_request_ids g @
              [quest_str_copy GM_ROOM_SESSION_COMMAND_REQUEST_ID_MAX_LEN request_id]\<rparr>)"

text \<open>The shared body of the three functions that clear a wait.\<close>

definition clear_wait_fields :: "run_view \<Rightarrow> run_view" where
  "clear_wait_fields v = v\<lparr>v_wait_type := WAIT_NONE, v_wait_until_ms := 0,
     v_wait_started_at_ms := 0, v_wait_event_type := [], v_wait_source_id := [],
     v_wait_events := [], v_wait_event_matched := [], v_wait_flags := [],
     v_wait_operator_prompt := [], v_wait_operator_label := [],
     v_wait_operator_skip_allowed := False, v_wait_operator_skip_label := []\<rparr>"

definition cancel_pending_wait :: "run_view \<Rightarrow> gm_globals \<Rightarrow> gm_globals" where
  "cancel_pending_wait v g =
     (if v_wait_type v = WAIT_DEVICE_COMMAND_RESULT \<and> v_wait_event_type v \<noteq> []
      then gm_room_session_defer_cancel_request_locked (v_wait_event_type v) g else g)"

definition gm_room_session_scenario_clear_wait_locked :: "room_ctx \<Rightarrow> room_ctx" where
  "gm_room_session_scenario_clear_wait_locked c =
     upd_view clear_wait_fields (upd_glob (cancel_pending_wait (s_view (c_ses c))) c)"

definition scenario_branch_clear_wait :: "nat \<Rightarrow> room_ctx \<Rightarrow> room_ctx" where
  "scenario_branch_clear_wait i c =
     upd_branch_view i clear_wait_fields
       (upd_glob (cancel_pending_wait (b_view (get_branch c i))) c)"

definition scenario_clear_branch_runtimes_locked :: "room_ctx \<Rightarrow> room_ctx" where
  "scenario_clear_branch_runtimes_locked c =
     upd_ses (\<lambda>s. s\<lparr>s_branch_runtimes := []\<rparr>)
       (fold scenario_branch_clear_wait [0..<length (s_branch_runtimes (c_ses c))] c)"

definition gm_room_session_clear_prepared_scenario_locked :: "room_ctx \<Rightarrow> room_ctx" where
  "gm_room_session_clear_prepared_scenario_locked c = c\<lparr>c_prepared := prepared_scenario_zero\<rparr>"

definition gm_room_session_store_prepared_scenario_locked ::
  "prepared_scenario \<Rightarrow> room_ctx \<Rightarrow> room_ctx" where
  "gm_room_session_store_prepared_scenario_locked p c = c\<lparr>c_prepared := p\<rparr>"

definition scenario_clear_running_snapshot_locked :: "room_ctx \<Rightarrow> room_ctx" where
  "scenario_clear_running_snapshot_locked c =
     scenario_clear_branch_runtimes_locked
       (gm_room_session_clear_prepared_scenario_locked
         (upd_ses (\<lambda>s. s\<lparr>s_running_scenario := room_scenario_zero,
                         s_running_scenario_valid := False,
                         s_running_scenario_generation := 0\<rparr>) c))"

definition scenario_clear_flags_locked :: "room_ctx \<Rightarrow> room_ctx" where
  "scenario_clear_flags_locked c = upd_ses (\<lambda>s. s\<lparr>s_scenario_flags := []\<rparr>) c"

definition scenario_set_error_locked :: "string \<Rightarrow> room_ctx \<Rightarrow> room_ctx" where
  "scenario_set_error_locked message c =
     gm_room_session_mark_session_changed_locked
       (upd_ses (\<lambda>s. s\<lparr>s_scenario_last_error := quest_str_copy 96 message\<rparr>)
         (gm_room_session_scenario_clear_wait_locked
           (upd_view (\<lambda>v. v\<lparr>v_scenario_state := GM_ROOM_SCENARIO_ERROR\<rparr>) c)))"

section \<open>The branch mirror\<close>

definition scenario_branch_end_index :: "branch_runtime \<Rightarrow> room_scenario \<Rightarrow> u16" where
  "scenario_branch_end_index b sc =
     of_nat (min (unat (b_step_start_index b) + unat (b_step_count b)) (length (sc_steps sc)))"

text \<open>The strings go through buffers of the same size on both sides.\<close>

definition mirror_copy :: "run_view \<Rightarrow> run_view" where
  "mirror_copy v = v\<lparr>
     v_wait_event_type := quest_str_copy ROOM_SCENARIO_EVENT_TYPE_MAX_LEN (v_wait_event_type v),
     v_wait_source_id := quest_str_copy ROOM_SCENARIO_EVENT_SOURCE_ID_MAX_LEN (v_wait_source_id v),
     v_wait_operator_prompt :=
       quest_str_copy ROOM_SCENARIO_OPERATOR_PROMPT_MAX_LEN (v_wait_operator_prompt v),
     v_wait_operator_label :=
       quest_str_copy ROOM_SCENARIO_OPERATOR_LABEL_MAX_LEN (v_wait_operator_label v),
     v_wait_operator_skip_label :=
       quest_str_copy ROOM_SCENARIO_OPERATOR_LABEL_MAX_LEN (v_wait_operator_skip_label v)\<rparr>"

definition gm_room_session_scenario_branch_load_into_session :: "nat \<Rightarrow> room_ctx \<Rightarrow> room_ctx" where
  "gm_room_session_scenario_branch_load_into_session i c =
     upd_view (\<lambda>_. mirror_copy (b_view (get_branch c i))) c"

definition gm_room_session_scenario_branch_save_from_session :: "nat \<Rightarrow> room_ctx \<Rightarrow> room_ctx" where
  "gm_room_session_scenario_branch_save_from_session i c =
     upd_branch_view i (\<lambda>_. mirror_copy (s_view (c_ses c))) c"

section \<open>Summary of the branches\<close>

record summary_acc =
  a_fallback :: "nat option"
  a_selected :: "nat option"
  a_reactive_selected :: "nat option"
  a_any_active :: bool
  a_any_required_active :: bool
  a_all_required_done :: bool
  a_any_running :: bool

definition summary_init :: summary_acc where
  "summary_init = \<lparr>a_fallback = None, a_selected = None, a_reactive_selected = None,
     a_any_active = False, a_any_required_active = False, a_all_required_done = True,
     a_any_running = False\<rparr>"

definition summary_note_active ::
  "branch_runtime list \<Rightarrow> nat \<Rightarrow> branch_runtime \<Rightarrow> summary_acc \<Rightarrow> summary_acc" where
  "summary_note_active bs i b a =
     (let a1 = a\<lparr>a_any_active := True\<rparr> in
      if b_type b \<noteq> ROOM_SCENARIO_BRANCH_REACTIVE \<and>
         (case a_fallback a of None \<Rightarrow> True
          | Some f \<Rightarrow> \<not> b_required_for_completion (bs ! f) \<and> b_required_for_completion b)
      then a1\<lparr>a_fallback := Some i\<rparr> else a1)"

definition summary_note_state :: "nat \<Rightarrow> branch_runtime \<Rightarrow> summary_acc \<Rightarrow> summary_acc" where
  "summary_note_state i b a =
     (let st = v_scenario_state (b_view b);
          reactive = (b_type b = ROOM_SCENARIO_BRANCH_REACTIVE);
          a1 = (if a_selected a = None \<and> \<not> reactive \<and>
                   (st = GM_ROOM_SCENARIO_WAITING \<or> st = GM_ROOM_SCENARIO_RUNNING)
                then a\<lparr>a_selected := Some i\<rparr> else a);
          a2 = (if a_reactive_selected a1 = None \<and> reactive \<and>
                   (st = GM_ROOM_SCENARIO_WAITING \<or> st = GM_ROOM_SCENARIO_RUNNING \<or>
                    st = GM_ROOM_SCENARIO_COOLDOWN)
                then a1\<lparr>a_reactive_selected := Some i\<rparr> else a1);
          a3 = (if \<not> reactive \<and>
                   (st = GM_ROOM_SCENARIO_RUNNING \<or> st = GM_ROOM_SCENARIO_WAITING \<or>
                    st = GM_ROOM_SCENARIO_COOLDOWN)
                then a2\<lparr>a_any_running := True\<rparr> else a2)
      in if \<not> reactive \<and> b_required_for_completion b
         then a3\<lparr>a_any_required_active := True,
                 a_all_required_done := (a_all_required_done a3 \<and> st = GM_ROOM_SCENARIO_DONE)\<rparr>
         else a3)"

text \<open>The scan over the branches; a failed normal branch ends it.\<close>

fun summary_scan :: "branch_runtime list \<Rightarrow> nat list \<Rightarrow> summary_acc \<Rightarrow> summary_acc" where
  "summary_scan bs [] a = a"
| "summary_scan bs (i # is) a =
     (let b = bs ! i in
      if \<not> b_active b then summary_scan bs is a
      else let a1 = summary_note_active bs i b a in
        if v_scenario_state (b_view b) = GM_ROOM_SCENARIO_ERROR then
          (if b_type b \<noteq> ROOM_SCENARIO_BRANCH_REACTIVE then a1\<lparr>a_selected := Some i\<rparr>
           else summary_scan bs is
                  (if a_reactive_selected a1 = None then a1\<lparr>a_reactive_selected := Some i\<rparr> else a1))
        else summary_scan bs is (summary_note_state i b a1))"

definition summary_pick :: "summary_acc \<Rightarrow> nat option" where
  "summary_pick a = (case a_selected a of Some i \<Rightarrow> Some i
     | None \<Rightarrow> (case a_fallback a of Some i \<Rightarrow> Some i | None \<Rightarrow> a_reactive_selected a))"

definition gm_room_session_scenario_update_summary_from_branches_locked ::
  "room_ctx \<Rightarrow> room_ctx" where
  "gm_room_session_scenario_update_summary_from_branches_locked c =
     (let s = c_ses c; bs = s_branch_runtimes s in
      if bs = [] then c
      else if v_scenario_state (s_view s) = GM_ROOM_SCENARIO_ERROR then c
      else let a = summary_scan bs [0..<length bs] summary_init;
               sel = summary_pick a;
               c1 = (case sel of None \<Rightarrow> c
                     | Some i \<Rightarrow> gm_room_session_scenario_branch_load_into_session i c)
           in if \<not> a_any_active a \<or>
                 a_any_required_active a \<and> a_all_required_done a \<or>
                 (\<not> a_any_running a \<and>
                  (case sel of None \<Rightarrow> False
                   | Some i \<Rightarrow> v_scenario_state (b_view (bs ! i)) = GM_ROOM_SCENARIO_DONE))
              then upd_view (\<lambda>v. v\<lparr>v_scenario_state := GM_ROOM_SCENARIO_DONE\<rparr>) c1
              else c1)"

end
