(* ===== verification/Gm_Session_Ops.thy ===== *)
theory Gm_Session_Ops
  imports Gm_Session
begin

text \<open>
  The remaining primitives of \<open>gm_room_session.c\<close> that run under the sessions lock: building
  the branch runtimes of a started scenario, ending the game, flags, wait time-outs.
\<close>

section \<open>Branch runtimes of a started scenario\<close>

definition branch_is_v2_model :: "scenario_branch \<Rightarrow> bool" where
  "branch_is_v2_model src \<longleftrightarrow> br_type src = ROOM_SCENARIO_BRANCH_REACTIVE \<and>
     (br_variant_count src > 0 \<or> tr_kind (br_trigger src) \<noteq> REACTIVE_TRIGGER_NONE)"

text \<open>
  Copying the prepared trigger references; a reference outside the catalogue stops the copy and
  leaves the rest of the array zero.
\<close>

fun init_trigger_refs ::
  "prepared_event_ref list \<Rightarrow> u16 list \<Rightarrow> esp_err \<times> wait_event_match list \<times> string list" where
  "init_trigger_refs refs [] = (ESP_OK, [], [])"
| "init_trigger_refs refs (j # js) =
     (if unat j \<ge> length refs \<or> unat j \<ge> GM_ROOM_SESSION_PREPARED_EVENT_REF_MAX
      then (ESP_ERR_INVALID_ARG, replicate (Suc (length js)) wait_event_match_zero,
            replicate (Suc (length js)) [])
      else let (e, ms, alts) = init_trigger_refs refs js
           in (e, pr_match (refs ! unat j) # ms,
               quest_str_copy ROOM_SCENARIO_EVENT_TYPE_MAX_LEN
                 (pr_alternate_event_type (refs ! unat j)) # alts))"

definition init_branch_runtime ::
  "prepared_scenario \<Rightarrow> nat \<Rightarrow> scenario_branch \<Rightarrow> esp_err \<times> branch_runtime" where
  "init_branch_runtime prepared i src =
     (let v2 = branch_is_v2_model src;
          dst = branch_runtime_zero\<lparr>
            b_active := br_enabled src,
            b_type := br_type src,
            b_required_for_completion :=
              (br_type src = ROOM_SCENARIO_BRANCH_NORMAL \<and> br_required_for_completion src),
            b_priority := br_priority src,
            b_cooldown_ms := br_cooldown_ms src,
            b_max_fire_count :=
              (if v2 then (if br_policy_mode src = REACTIVE_POLICY_SINGLE
                           then (if br_run_once src then 1 else 0)
                           else br_max_fire_count src)
               else (if br_run_once src then 1 else br_max_fire_count src)),
            b_run_once := br_run_once src,
            b_reentry_mode := br_reentry_mode src,
            b_last_variant_index := 255,
            b_branch_index := of_nat i,
            b_step_start_index := br_step_start_index src,
            b_step_count := br_step_count src,
            b_view := run_view_zero\<lparr>
              v_current_step_index := br_step_start_index src,
              v_scenario_state :=
                (if br_enabled src
                 then (if v2 then GM_ROOM_SCENARIO_WAITING else GM_ROOM_SCENARIO_RUNNING)
                 else GM_ROOM_SCENARIO_STOPPED)\<rparr>\<rparr>;
          res = prepared_at (ps_reactive_triggers prepared) i;
          indices = pe_event_ref_indices res
      in if br_type src = ROOM_SCENARIO_BRANCH_REACTIVE \<and>
            (tr_kind (br_trigger src) = REACTIVE_TRIGGER_DEVICE_EVENT \<or>
             tr_kind (br_trigger src) = REACTIVE_TRIGGER_ANY_DEVICE_EVENTS \<or>
             tr_kind (br_trigger src) = REACTIVE_TRIGGER_ALL_DEVICE_EVENTS)
         then (if pe_present res \<and> indices \<noteq> [] \<and>
                  length indices \<le> ROOM_SCENARIO_WAIT_EVENT_GROUP_MAX_EVENTS
               then let (e, ms, alts) = init_trigger_refs (ps_event_refs prepared) indices
                    in (e, dst\<lparr>b_trigger_resolved := True, b_trigger_matches := ms,
                              b_trigger_alt_event_types := alts,
                              b_trigger_event_matched := replicate (length indices) False\<rparr>)
               else (ESP_ERR_INVALID_ARG, dst))
         else (ESP_OK, dst))"

fun init_branch_list ::
  "prepared_scenario \<Rightarrow> nat \<Rightarrow> scenario_branch list \<Rightarrow> esp_err \<times> branch_runtime list" where
  "init_branch_list prepared i [] = (ESP_OK, [])"
| "init_branch_list prepared i (src # srcs) =
     (case init_branch_runtime prepared i src of
        (ESP_OK, b) \<Rightarrow> (let (e, bs) = init_branch_list prepared (Suc i) srcs in (e, b # bs))
      | (e, b) \<Rightarrow> (e, b # replicate (length srcs) branch_runtime_zero))"

definition single_branch_runtime :: "room_scenario \<Rightarrow> branch_runtime" where
  "single_branch_runtime sc = branch_runtime_zero\<lparr>
     b_active := True, b_type := ROOM_SCENARIO_BRANCH_NORMAL,
     b_required_for_completion := True, b_branch_index := 0, b_step_start_index := 0,
     b_step_count := of_nat (length (sc_steps sc)),
     b_view := run_view_zero\<lparr>v_scenario_state := GM_ROOM_SCENARIO_RUNNING\<rparr>\<rparr>"

text \<open>
  \<open>branch_runtime_count\<close> is the branch count cut to eight bits, and every loop over the branches
  also stops at \<open>ROOM_SCENARIO_MAX_BRANCHES\<close>: the list holds the entries the loops visit.
\<close>

definition scenario_init_branch_runtimes_locked ::
  "prepared_scenario \<Rightarrow> room_ctx \<Rightarrow> esp_err \<times> room_ctx" where
  "scenario_init_branch_runtimes_locked prepared c =
     (if \<not> s_running_scenario_valid (c_ses c) then (ESP_ERR_INVALID_ARG, c)
      else let sc = s_running_scenario (c_ses c);
               c1 = scenario_clear_branch_runtimes_locked c
           in if sc_branches sc \<noteq> []
              then let (e, bs) = init_branch_list prepared 0
                         (take ROOM_SCENARIO_MAX_BRANCHES (sc_branches sc))
                   in (e, upd_ses (\<lambda>s. s\<lparr>s_branch_runtimes :=
                            take (length (sc_branches sc) mod 256) bs\<rparr>) c1)
              else (ESP_OK, upd_ses (\<lambda>s. s\<lparr>s_branch_runtimes := [single_branch_runtime sc]\<rparr>) c1))"

section \<open>Ending the game\<close>

definition finish_game_without_audio_locked :: "u64 \<Rightarrow> room_ctx \<Rightarrow> esp_err \<times> room_ctx" where
  "finish_game_without_audio_locked now_ms c =
     (let (err, timer) = gm_timer_finish (s_timer (c_ses c)) now_ms;
          c1 = upd_ses (\<lambda>s. s\<lparr>s_state := GM_SESSION_FINISHED, s_finished_at_ms := now_ms,
                              s_timer := timer\<rparr>) c
      in if err \<noteq> ESP_OK then (err, c1)
         else (ESP_OK, gm_room_session_mark_session_changed_locked
                (gm_room_session_scenario_clear_wait_locked
                  (upd_view (\<lambda>v. v\<lparr>v_scenario_state := GM_ROOM_SCENARIO_DONE\<rparr>) c1))))"

section \<open>Flags\<close>

definition post_flag_changed_locked :: "string \<Rightarrow> bool \<Rightarrow> room_ctx \<Rightarrow> esp_err \<times> room_ctx" where
  "post_flag_changed_locked name v c =
     (let evs = g_flag_events (c_glob c) in
      case find_index (\<lambda>f. fl_name f = name) evs of
        Some i \<Rightarrow> (ESP_OK, upd_glob (\<lambda>g. g\<lparr>g_flag_events := evs[i := (evs ! i)\<lparr>fl_value := v\<rparr>]\<rparr>) c)
      | None \<Rightarrow>
          (if length evs \<ge> GM_ROOM_SCENARIO_MAX_FLAGS then (ESP_ERR_NO_MEM, c)
           else (ESP_OK, upd_glob (\<lambda>g. g\<lparr>g_flag_events := evs @
                   [\<lparr>fl_name = quest_str_copy ROOM_SCENARIO_FLAG_NAME_MAX_LEN name,
                     fl_value = v\<rparr>]\<rparr>) c)))"

definition scenario_set_flag_locked :: "string \<Rightarrow> bool \<Rightarrow> room_ctx \<Rightarrow> esp_err \<times> room_ctx" where
  "scenario_set_flag_locked name v c =
     (if name = [] then (ESP_ERR_INVALID_ARG, c)
      else let flags = s_scenario_flags (c_ses c) in
        case find_index (\<lambda>f. fl_name f = name) flags of
          Some i \<Rightarrow>
            (if fl_value (flags ! i) = v then (ESP_OK, c)
             else post_flag_changed_locked name v
                    (upd_ses (\<lambda>s. s\<lparr>s_scenario_flags := flags[i := (flags ! i)\<lparr>fl_value := v\<rparr>]\<rparr>) c))
        | None \<Rightarrow>
            (if length flags \<ge> GM_ROOM_SCENARIO_MAX_FLAGS then (ESP_ERR_NO_MEM, c)
             else post_flag_changed_locked name v
                    (upd_ses (\<lambda>s. s\<lparr>s_scenario_flags := flags @
                       [\<lparr>fl_name = quest_str_copy ROOM_SCENARIO_FLAG_NAME_MAX_LEN name,
                         fl_value = v\<rparr>]\<rparr>) c)))"

definition scenario_get_flag_locked :: "gm_room_session \<Rightarrow> string \<Rightarrow> bool option" where
  "scenario_get_flag_locked s name =
     (if name = [] then None
      else map_option (\<lambda>i. fl_value (s_scenario_flags s ! i))
             (find_index (\<lambda>f. fl_name f = name) (s_scenario_flags s)))"

definition scenario_wait_flags_met_locked :: "gm_room_session \<Rightarrow> bool" where
  "scenario_wait_flags_met_locked s \<longleftrightarrow>
     v_wait_flags (s_view s) \<noteq> [] \<and>
     list_all (\<lambda>f. scenario_get_flag_locked s (fl_name f) = Some (fl_value f))
       (v_wait_flags (s_view s))"

section \<open>Time\<close>

definition scenario_time_reached :: "u32 \<Rightarrow> u32 \<Rightarrow> bool" where
  "scenario_time_reached now_ms target_ms \<longleftrightarrow> sint (now_ms - target_ms) \<ge> 0"

definition scenario_wait_timeout_reached :: "u32 \<Rightarrow> u32 \<Rightarrow> bool" where
  "scenario_wait_timeout_reached now_ms wait_until_ms \<longleftrightarrow>
     wait_until_ms > 0 \<and> scenario_time_reached now_ms wait_until_ms"

text \<open>Leaving a wait: the next step runs.\<close>

definition advance_step :: "run_view \<Rightarrow> run_view" where
  "advance_step v = v\<lparr>v_current_step_index := v_current_step_index v + 1,
                      v_scenario_state := GM_ROOM_SCENARIO_RUNNING\<rparr>"

definition scenario_apply_wait_timeout_locked :: "u32 \<Rightarrow> room_ctx \<Rightarrow> bool \<times> room_ctx" where
  "scenario_apply_wait_timeout_locked now_ms c =
     (let s = c_ses c; v = s_view s; steps = sc_steps (s_running_scenario s);
          i = unat (v_current_step_index v)
      in if \<not> scenario_wait_timeout_reached now_ms (v_wait_until_ms v) \<or> i \<ge> length steps
         then (False, c)
         else case (case st_data (steps ! i) of
                      STEP_WAIT_DEVICE_EVENT w \<Rightarrow> Some (wde_timeout_message w)
                    | STEP_WAIT_FLAGS w \<Rightarrow> Some (wf_timeout_message w)
                    | _ \<Rightarrow> None) of
                None \<Rightarrow> (False, c)
              | Some message \<Rightarrow>
                  (let c1 = (if message \<noteq> []
                             then upd_ses (\<lambda>s. s\<lparr>s_scenario_operator_message :=
                                    quest_str_copy ROOM_SCENARIO_OPERATOR_MESSAGE_MAX_LEN message\<rparr>) c
                             else c)
                   in (True, gm_room_session_mark_session_changed_locked
                         (gm_room_session_scenario_clear_wait_locked (upd_view advance_step c1)))))"

definition scenario_set_wait_skip_from_step_locked :: "scenario_step \<Rightarrow> room_ctx \<Rightarrow> room_ctx" where
  "scenario_set_wait_skip_from_step_locked step c =
     upd_view (\<lambda>v. v\<lparr>v_wait_operator_skip_allowed := st_allow_operator_skip step,
       v_wait_operator_skip_label :=
         (if \<not> st_allow_operator_skip step then []
          else quest_str_copy ROOM_SCENARIO_OPERATOR_LABEL_MAX_LEN
                 (if st_operator_skip_label step \<noteq> [] then st_operator_skip_label step
                  else ''Skip wait''))\<rparr>) c"

end
