(* ===== verification/Gm_Table.thy ===== *)
theory Gm_Table
  imports Gm_Session_Ops
begin

text \<open>
  The session table and the sessions lock of \<open>gm_room_session.c\<close>.  The number of rooms
  (\<open>GM_SESSION_MAX_ROOMS\<close>, a build option) is the length of the table; a pointer to a session is
  its index.  \<open>gm_core\<close> holds the module's static state.  Calls that leave the module are
  recorded in order in \<open>k_trace\<close>: cancelling a command request, posting on the event bus,
  stopping audio, resetting the pending commands.  Taking the mutex always succeeds: it is
  created statically and taken with an unlimited wait.
\<close>

section \<open>State\<close>

datatype runtime_cause =
    GM_ROOM_RUNTIME_CAUSE_WAKE
  | GM_ROOM_RUNTIME_CAUSE_EVENT scenehub_event

datatype gm_effect =
    Cancel_Command_Request string
  | Event_Bus_Post_High scenehub_event
  | Stop_Audio
  | Reset_Pending_Commands
  | Command_Result_Event scenehub_event

record event_queue_stats =
  es_dropped_critical_events :: u32
  es_dropped_noncritical_events :: u32
  es_dropped_runtime_queue_events :: u32
  es_dropped_event_queue_events :: u32

text \<open>A queue that has not been created is \<open>None\<close>.\<close>

record gm_core =
  k_glob :: gm_globals
  k_sessions :: "gm_room_session list"
  k_prepared :: "prepared_scenario list"
  k_async_workers_enabled :: bool
  k_event_queue :: "scenehub_event list option"
  k_runtime_queue :: "runtime_cause list option"
  k_stats :: event_queue_stats
  k_trace :: "gm_effect list"

definition GM_ROOM_SESSION_EVENT_QUEUE_LEN :: nat where "GM_ROOM_SESSION_EVENT_QUEUE_LEN = 32"
definition GM_ROOM_SESSION_RUNTIME_QUEUE_LEN :: nat where "GM_ROOM_SESSION_RUNTIME_QUEUE_LEN = 32"

text \<open>The static variables at boot, for a table of \<open>n\<close> rooms; \<open>rnd\<close> is the random generator.\<close>

definition core_boot :: "nat \<Rightarrow> (nat \<Rightarrow> u32) \<Rightarrow> gm_core" where
  "core_boot n rnd = \<lparr>k_glob = \<lparr>g_generation = 0, g_sessions_lock_epoch = 0,
     g_last_changed_room_id = [], g_cancel_request_ids = [], g_flag_events = [],
     g_random = rnd, g_random_pos = 0\<rparr>,
     k_sessions = replicate n gm_room_session_zero,
     k_prepared = replicate n prepared_scenario_zero,
     k_async_workers_enabled = True, k_event_queue = None, k_runtime_queue = None,
     k_stats = \<lparr>es_dropped_critical_events = 0, es_dropped_noncritical_events = 0,
       es_dropped_runtime_queue_events = 0, es_dropped_event_queue_events = 0\<rparr>,
     k_trace = []\<rparr>"

definition emit :: "gm_effect \<Rightarrow> gm_core \<Rightarrow> gm_core" where
  "emit e k = k\<lparr>k_trace := k_trace k @ [e]\<rparr>"

definition core_ctx :: "gm_core \<Rightarrow> nat \<Rightarrow> room_ctx" where
  "core_ctx k i = \<lparr>c_glob = k_glob k, c_prepared = k_prepared k ! i, c_ses = k_sessions k ! i\<rparr>"

definition put_ctx :: "nat \<Rightarrow> room_ctx \<Rightarrow> gm_core \<Rightarrow> gm_core" where
  "put_ctx i c k = k\<lparr>k_glob := c_glob c, k_sessions := (k_sessions k)[i := c_ses c],
     k_prepared := (k_prepared k)[i := c_prepared c]\<rparr>"

definition in_session :: "nat \<Rightarrow> (room_ctx \<Rightarrow> 'a \<times> room_ctx) \<Rightarrow> gm_core \<Rightarrow> 'a \<times> gm_core" where
  "in_session i f k = (let (r, c) = f (core_ctx k i) in (r, put_ctx i c k))"

section \<open>Queues\<close>

text \<open>
  Sending to a bounded FreeRTOS queue.  \<open>freed\<close> is the number of entries its receiver takes
  while the sender waits; it is zero when the sender does not wait.
\<close>

definition queue_send :: "nat \<Rightarrow> nat \<Rightarrow> 'a \<Rightarrow> 'a list \<Rightarrow> 'a list option" where
  "queue_send cap freed x q =
     (if length q < cap then Some (q @ [x])
      else if freed > 0 \<and> length (drop freed q) < cap then Some (drop freed q @ [x])
      else None)"

definition gm_room_session_runtime_wake :: "gm_core \<Rightarrow> gm_core" where
  "gm_room_session_runtime_wake k =
     (if \<not> k_async_workers_enabled k then k
      else case k_runtime_queue k of None \<Rightarrow> k
      | Some q \<Rightarrow>
          (case queue_send GM_ROOM_SESSION_RUNTIME_QUEUE_LEN 0 GM_ROOM_RUNTIME_CAUSE_WAKE q of
             None \<Rightarrow> k
           | Some q' \<Rightarrow> k\<lparr>k_runtime_queue := Some q'\<rparr>))"

definition gm_room_session_runtime_post_event_with_wait ::
  "scenehub_event \<Rightarrow> nat \<Rightarrow> gm_core \<Rightarrow> esp_err \<times> gm_core" where
  "gm_room_session_runtime_post_event_with_wait message freed k =
     (if \<not> k_async_workers_enabled k then (ESP_ERR_INVALID_STATE, k)
      else case k_runtime_queue k of None \<Rightarrow> (ESP_ERR_INVALID_STATE, k)
      | Some q \<Rightarrow>
          (case queue_send GM_ROOM_SESSION_RUNTIME_QUEUE_LEN freed
                  (GM_ROOM_RUNTIME_CAUSE_EVENT message) q of
             None \<Rightarrow> (ESP_ERR_TIMEOUT, k)
           | Some q' \<Rightarrow> (ESP_OK, k\<lparr>k_runtime_queue := Some q'\<rparr>)))"

definition gm_room_session_record_event_drop :: "bool \<Rightarrow> bool \<Rightarrow> gm_core \<Rightarrow> gm_core" where
  "gm_room_session_record_event_drop critical runtime_queue k =
     (let s = k_stats k;
          s1 = (if critical
                then s\<lparr>es_dropped_critical_events := es_dropped_critical_events s + 1\<rparr>
                else s\<lparr>es_dropped_noncritical_events := es_dropped_noncritical_events s + 1\<rparr>);
          s2 = (if runtime_queue
                then s1\<lparr>es_dropped_runtime_queue_events := es_dropped_runtime_queue_events s1 + 1\<rparr>
                else s1\<lparr>es_dropped_event_queue_events := es_dropped_event_queue_events s1 + 1\<rparr>)
      in k\<lparr>k_stats := s2\<rparr>)"

section \<open>The sessions lock\<close>

definition gm_room_session_sessions_lock :: "gm_core \<Rightarrow> gm_core" where
  "gm_room_session_sessions_lock k =
     (let e = g_sessions_lock_epoch (k_glob k) + 1
      in k\<lparr>k_glob := (k_glob k)\<lparr>g_sessions_lock_epoch := (if e = 0 then 1 else e)\<rparr>\<rparr>)"

definition flush_flag_event :: "flag_condition \<Rightarrow> gm_core \<Rightarrow> gm_core" where
  "flush_flag_event f k =
     (if fl_name f = [] then k
      else case scenehub_event_make_flag_changed (fl_name f) (fl_value f) of
             Inl _ \<Rightarrow> k
           | Inr ev \<Rightarrow> emit (Event_Bus_Post_High ev) k)"

definition flush_cancel :: "string \<Rightarrow> gm_core \<Rightarrow> gm_core" where
  "flush_cancel r k = (if r = [] then k else emit (Cancel_Command_Request r) k)"

text \<open>The deferred effects are taken out under the lock and carried out after it is released.\<close>

definition gm_room_session_sessions_unlock :: "gm_core \<Rightarrow> gm_core" where
  "gm_room_session_sessions_unlock k =
     (let g = k_glob k;
          k1 = k\<lparr>k_glob := g\<lparr>g_cancel_request_ids := [], g_flag_events := []\<rparr>\<rparr>
      in fold flush_flag_event (g_flag_events g) (fold flush_cancel (g_cancel_request_ids g) k1))"

section \<open>The session table\<close>

definition find_session_mutable_locked :: "gm_core \<Rightarrow> string \<Rightarrow> nat option" where
  "find_session_mutable_locked k room_id =
     (if room_id = [] then None
      else find_index (\<lambda>s. s_in_use s \<and> s_room_id s = room_id) (k_sessions k))"

definition alloc_session_locked :: "string \<Rightarrow> gm_core \<Rightarrow> nat option \<times> gm_core" where
  "alloc_session_locked room_id k =
     (if room_id = [] then (None, k)
      else case find_session_mutable_locked k room_id of
        Some i \<Rightarrow> (Some i, k)
      | None \<Rightarrow>
          (case find_index (\<lambda>s. \<not> s_in_use s) (k_sessions k) of
             None \<Rightarrow> (None, k)
           | Some i \<Rightarrow>
               (let s0 = gm_room_session_zero\<lparr>s_in_use := True,
                           s_room_id := quest_str_copy QUEST_ROOM_ID_MAX_LEN room_id\<rparr>;
                    c1 = gm_room_session_mark_session_changed_locked
                           \<lparr>c_glob = k_glob k, c_prepared = prepared_scenario_zero, c_ses = s0\<rparr>;
                    c2 = upd_ses (\<lambda>s. s\<lparr>s_timer := gm_timer_reset 0 0, s_hint := gm_hint_reset\<rparr>)
                           (upd_view (\<lambda>v. v\<lparr>v_scenario_state := GM_ROOM_SCENARIO_IDLE\<rparr>) c1)
                in (Some i, put_ctx i c2 k))))"

definition gm_room_session_reset_all :: "gm_core \<Rightarrow> gm_core" where
  "gm_room_session_reset_all k =
     (let k1 = emit Reset_Pending_Commands k;
          k2 = k1\<lparr>k_event_queue := map_option (\<lambda>_. []) (k_event_queue k1),
                  k_runtime_queue := map_option (\<lambda>_. []) (k_runtime_queue k1)\<rparr>;
          k3 = gm_room_session_sessions_lock k2
      in gm_room_session_sessions_unlock
           (k3\<lparr>k_sessions := map (\<lambda>_. gm_room_session_zero) (k_sessions k3),
               k_prepared := map (\<lambda>_. prepared_scenario_zero) (k_prepared k3),
               k_glob := (k_glob k3)\<lparr>g_last_changed_room_id := [],
                                     g_generation := g_generation (k_glob k3) + 1\<rparr>\<rparr>))"

text \<open>
  The two shapes of a public operation: lock, find (or allocate) the session, run the body under
  the lock, unlock; a missing session unlocks and returns the given error.
\<close>

definition with_found_session ::
  "string \<Rightarrow> (room_ctx \<Rightarrow> esp_err \<times> room_ctx) \<Rightarrow> gm_core \<Rightarrow> esp_err \<times> gm_core" where
  "with_found_session room_id body k =
     (let k1 = gm_room_session_sessions_lock k in
      case find_session_mutable_locked k1 room_id of
        None \<Rightarrow> (ESP_ERR_NOT_FOUND, gm_room_session_sessions_unlock k1)
      | Some i \<Rightarrow> (let (err, k2) = in_session i body k1
                   in (err, gm_room_session_sessions_unlock k2)))"

definition with_alloc_session ::
  "string \<Rightarrow> (room_ctx \<Rightarrow> esp_err \<times> room_ctx) \<Rightarrow> gm_core \<Rightarrow> esp_err \<times> gm_core" where
  "with_alloc_session room_id body k =
     (let (r, k1) = alloc_session_locked room_id (gm_room_session_sessions_lock k) in
      case r of
        None \<Rightarrow> (ESP_ERR_NO_MEM, gm_room_session_sessions_unlock k1)
      | Some i \<Rightarrow> (let (err, k2) = in_session i body k1
                   in (err, gm_room_session_sessions_unlock k2)))"

definition gm_room_session_get :: "string \<Rightarrow> gm_core \<Rightarrow> (esp_err + gm_room_session) \<times> gm_core" where
  "gm_room_session_get room_id k =
     (if room_id = [] then (Inl ESP_ERR_INVALID_ARG, k)
      else let k1 = gm_room_session_sessions_lock k in
        ((case find_session_mutable_locked k1 room_id of
            None \<Rightarrow> Inl ESP_ERR_NOT_FOUND
          | Some i \<Rightarrow> Inr (k_sessions k1 ! i)), gm_room_session_sessions_unlock k1))"

definition gm_room_session_generation :: "gm_core \<Rightarrow> u32 \<times> gm_core" where
  "gm_room_session_generation k =
     (let k1 = gm_room_session_sessions_lock k
      in (g_generation (k_glob k1), gm_room_session_sessions_unlock k1))"

end
