(* ===== verification/Gm_Json.thy ===== *)
theory Gm_Json
  imports Gm_Hint
begin

text \<open>
  The JSON scanner with which a wait compares the arguments of a device event
  (\<open>gm_core/session/gm_room_session_events.c\<close>).  A cursor \<open>p\<close> with its \<open>end\<close> is the rest of the
  text; a function that moves the cursor returns the new rest, an error is \<open>Inl\<close>.
\<close>

section \<open>The scanner\<close>

abbreviation QUOTE :: char where "QUOTE \<equiv> CHR 0x22"
abbreviation BACKSLASH :: char where "BACKSLASH \<equiv> CHR 0x5C"

definition json_ws :: "char \<Rightarrow> bool" where
  "json_ws c \<longleftrightarrow> c = CHR '' '' \<or> c = CHR 0x09 \<or> c = CHR 0x0D \<or> c = CHR 0x0A"

definition gm_json_skip_ws :: "string \<Rightarrow> string" where
  "gm_json_skip_ws = dropWhile json_ws"

fun skip_string_body :: "string \<Rightarrow> string option" where
  "skip_string_body [] = None"
| "skip_string_body (c # cs) =
     (if c = BACKSLASH then (case cs of [] \<Rightarrow> None | _ # ds \<Rightarrow> skip_string_body ds)
      else if c = QUOTE then Some cs
      else skip_string_body cs)"

definition gm_json_skip_string :: "string \<Rightarrow> esp_err + string" where
  "gm_json_skip_string p = (case p of
      [] \<Rightarrow> Inl ESP_ERR_INVALID_ARG
    | c # cs \<Rightarrow> (if c \<noteq> QUOTE then Inl ESP_ERR_INVALID_ARG
                else case skip_string_body cs of
                       None \<Rightarrow> Inl ESP_ERR_INVALID_ARG | Some r \<Rightarrow> Inr r))"

lemma skip_string_body_shorter: "skip_string_body p = Some r \<Longrightarrow> length r < length p"
  by (induction p rule: skip_string_body.induct) (fastforce split: if_splits list.splits)+

lemma skip_string_shorter: "gm_json_skip_string p = Inr r \<Longrightarrow> length r < length p"
  by (auto simp: gm_json_skip_string_def dest!: skip_string_body_shorter
      split: list.splits if_splits option.splits)

definition JSON_STACK_MAX :: nat where "JSON_STACK_MAX = 8"

text \<open>The body of an object or array; the stack of open brackets has its top first.\<close>

function skip_nested :: "char list \<Rightarrow> string \<Rightarrow> esp_err + string" where
  "skip_nested stack p = (case p of
      [] \<Rightarrow> Inl ESP_ERR_INVALID_ARG
    | c # cs \<Rightarrow>
        (if c = QUOTE then
           (case gm_json_skip_string p of
              Inl e \<Rightarrow> Inl e | Inr r \<Rightarrow> skip_nested stack r)
         else if c = CHR ''{'' \<or> c = CHR ''['' then
           (if length stack \<ge> JSON_STACK_MAX then Inl ESP_ERR_INVALID_SIZE
            else skip_nested (c # stack) cs)
         else if c = CHR ''}'' \<or> c = CHR '']'' then
           (if c \<noteq> (if hd stack = CHR ''{'' then CHR ''}'' else CHR '']'')
            then Inl ESP_ERR_INVALID_ARG
            else if tl stack = [] then Inr cs
            else skip_nested (tl stack) cs)
         else skip_nested stack cs))"
  by pat_completeness auto
termination
  by (relation "measure (\<lambda>(_, p). length p)") (auto dest: skip_string_shorter)

declare skip_nested.simps [simp del]

lemma skip_nested_shorter: "skip_nested stack p = Inr r \<Longrightarrow> length r < length p"
proof (induction stack p rule: skip_nested.induct)
  case (1 stack p)
  show ?case
  proof (cases p)
    case Nil
    with 1 show ?thesis by (simp add: skip_nested.simps [of _ "[]"])
  next
    case (Cons c cs)
    note unf = "1.prems" [unfolded Cons skip_nested.simps [of _ "c # cs"]]
    show ?thesis
    proof (cases "c = QUOTE")
      case True
      then obtain r' where r': "gm_json_skip_string p = Inr r'" "skip_nested stack r' = Inr r"
        using unf by (auto simp: Cons split: sum.splits)
      have "length r < length r'" using "1.IH"(1) [OF Cons True r'(1)] r'(2) by blast
      with skip_string_shorter [OF r'(1)] show ?thesis by simp
    next
      case False
      then show ?thesis using unf "1.IH"(2-4) [OF Cons]
        by (auto simp: Cons split: if_splits intro: less_SucI)
    qed
  qed
qed

definition gm_json_skip_value :: "string \<Rightarrow> esp_err + string" where
  "gm_json_skip_value q = (case gm_json_skip_ws q of
      [] \<Rightarrow> Inl ESP_ERR_INVALID_ARG
    | c # cs \<Rightarrow>
        (if c = QUOTE then gm_json_skip_string (c # cs)
         else if c = CHR ''{'' \<or> c = CHR ''['' then skip_nested [c] cs
         else Inr (dropWhile (\<lambda>d. d \<noteq> CHR '','' \<and> d \<noteq> CHR ''}'') (c # cs))))"

lemma skip_ws_le: "length (gm_json_skip_ws p) \<le> length p"
  by (simp add: gm_json_skip_ws_def length_dropWhile_le)

lemma skip_ws_Cons_less: "gm_json_skip_ws p = c # cs \<Longrightarrow> length cs < length p"
  using skip_ws_le [of p] by simp

lemma skip_value_le:
  assumes "gm_json_skip_value p = Inr r"
  shows "length r \<le> length p"
proof (cases "gm_json_skip_ws p")
  case Nil
  with assms show ?thesis by (simp add: gm_json_skip_value_def)
next
  case (Cons c cs)
  have le: "length (c # cs) \<le> length p" using skip_ws_le [of p] by (simp only: Cons)
  consider "gm_json_skip_string (c # cs) = Inr r" | "skip_nested [c] cs = Inr r"
    | "r = dropWhile (\<lambda>d. d \<noteq> CHR '','' \<and> d \<noteq> CHR ''}'') (c # cs)"
    using assms unfolding gm_json_skip_value_def Cons list.case by (metis Inr_inject)
  then have "length r \<le> length (c # cs)"
  proof cases
    case 1
    then show ?thesis by (rule less_imp_le [OF skip_string_shorter])
  next
    case 2
    then show ?thesis using skip_nested_shorter by fastforce
  next
    case 3
    then show ?thesis by (simp only: length_dropWhile_le)
  qed
  with le show ?thesis by (rule order_trans [rotated])
qed

text \<open>
  The key of a pair: it is closed by the first quote and may not hold a backslash.  A key
  without closing quote is an error of the same kind as a missing key.
\<close>

fun scan_key :: "string \<Rightarrow> string \<Rightarrow> esp_err + (string \<times> string)" where
  "scan_key acc [] = Inl ESP_ERR_INVALID_ARG"
| "scan_key acc (c # cs) =
     (if c = BACKSLASH then Inl ESP_ERR_NOT_SUPPORTED
      else if c = QUOTE then Inr (rev acc, cs)
      else scan_key (c # acc) cs)"

lemma scan_key_shorter: "scan_key acc p = Inr (k, r) \<Longrightarrow> length r < length p"
  by (induction acc p rule: scan_key.induct) (auto split: if_splits)

definition after_value ::
  "string \<Rightarrow> string \<Rightarrow> string \<Rightarrow> esp_err + (string \<times> string \<times> string)" where
  "after_value key value r = (case gm_json_skip_ws r of
      [] \<Rightarrow> Inl ESP_ERR_INVALID_ARG
    | c # cs \<Rightarrow> (if c = CHR '','' then Inr (key, value, cs)
                else if c = CHR ''}'' then Inr (key, value, c # cs)
                else Inl ESP_ERR_INVALID_ARG))"

definition gm_json_next_pair :: "string \<Rightarrow> esp_err + (string \<times> string \<times> string)" where
  "gm_json_next_pair q = (case gm_json_skip_ws q of
      [] \<Rightarrow> Inl ESP_ERR_INVALID_ARG
    | c # cs \<Rightarrow>
        (if c = CHR ''}'' then Inl ESP_ERR_NOT_FOUND
         else if c \<noteq> QUOTE then Inl ESP_ERR_INVALID_ARG
         else case scan_key [] cs of
           Inl e \<Rightarrow> Inl e
         | Inr (key, r) \<Rightarrow>
             (case gm_json_skip_ws r of
                [] \<Rightarrow> Inl ESP_ERR_INVALID_ARG
              | d # ds \<Rightarrow>
                  (if d \<noteq> CHR '':'' then Inl ESP_ERR_INVALID_ARG
                   else let v = gm_json_skip_ws ds in
                     case gm_json_skip_value v of
                       Inl _ \<Rightarrow> Inl ESP_ERR_INVALID_ARG
                     | Inr rest \<Rightarrow>
                         after_value key (take (length v - length rest) v) rest))))"

lemma after_value_le:
  "after_value k v r = Inr (k', v', rest) \<Longrightarrow> k' = k \<and> v' = v \<and> length rest \<le> length r"
  by (cases "gm_json_skip_ws r")
    (auto simp: after_value_def skip_ws_le split: if_splits dest: skip_ws_Cons_less)

lemma next_pair_shorter:
  assumes "gm_json_next_pair p = Inr (k, v, rest)"
  shows "length rest < length p \<and> Suc (length v) < length p"
proof -
  obtain cs r ds rest' where
    1: "gm_json_skip_ws p = QUOTE # cs" "scan_key [] cs = Inr (k, r)"
       "gm_json_skip_ws r = CHR '':'' # ds" "gm_json_skip_value (gm_json_skip_ws ds) = Inr rest'"
    and 2: "after_value k (take (length (gm_json_skip_ws ds) - length rest') (gm_json_skip_ws ds)) rest'
              = Inr (k, v, rest)"
    using assms
    by (auto simp: gm_json_next_pair_def Let_def split: list.splits if_splits sum.splits)
      (use after_value_le in blast)
  have "length (gm_json_skip_ws p) \<le> length p" "length (gm_json_skip_ws r) \<le> length r"
    "length (gm_json_skip_ws ds) \<le> length ds"
    by (rule skip_ws_le)+
  moreover have "length r < length cs" using 1(2) by (rule scan_key_shorter)
  moreover have "length rest' \<le> length (gm_json_skip_ws ds)" using 1(4) by (rule skip_value_le)
  ultimately show ?thesis
    using after_value_le [OF 2] 1(1,3) by auto
qed

definition gm_json_is_empty_object :: "string \<Rightarrow> bool" where
  "gm_json_is_empty_object json = (case gm_json_skip_ws json of
      [] \<Rightarrow> False
    | c # cs \<Rightarrow> c = CHR ''{'' \<and>
        (case gm_json_skip_ws cs of [] \<Rightarrow> False | d # _ \<Rightarrow> d = CHR ''}''))"

function find_pairs :: "string \<Rightarrow> string \<Rightarrow> string option" where
  "find_pairs p key = (case gm_json_next_pair p of
      Inl _ \<Rightarrow> None
    | Inr (k, v, rest) \<Rightarrow> (if k = key then Some v else find_pairs rest key))"
  by pat_completeness auto
termination
  by (relation "measure (\<lambda>(p, _). length p)") (auto dest: next_pair_shorter)

declare find_pairs.simps [simp del]

definition gm_json_find_pair_view :: "string \<Rightarrow> string \<Rightarrow> string option" where
  "gm_json_find_pair_view json key = (case gm_json_skip_ws json of
      [] \<Rightarrow> None
    | c # cs \<Rightarrow> (if key = [] \<or> c \<noteq> CHR ''{'' then None else find_pairs cs key))"

section \<open>Matching\<close>

definition json_trim :: "string \<Rightarrow> string" where
  "json_trim v = rev (dropWhile json_ws (rev (gm_json_skip_ws v)))"

lemma json_trim_le: "length (json_trim v) \<le> length v"
  using skip_ws_le [of v]
  by (auto simp: json_trim_def intro: order_trans [OF length_dropWhile_le])

text \<open>
  \<open>gm_json_values_match\<close> compares two objects field by field and any other values as text;
  \<open>json_fields_match\<close> is the loop of \<open>gm_json_object_contains_expected\<close>.
\<close>

function gm_json_values_match :: "string \<Rightarrow> string \<Rightarrow> bool"
  and gm_json_object_contains_expected :: "string \<Rightarrow> string \<Rightarrow> bool"
  and json_fields_match :: "string \<Rightarrow> string \<Rightarrow> bool" where
  "gm_json_values_match expected actual =
     (let e = json_trim expected; a = json_trim actual in
      if length e \<ge> 2 \<and> hd e = CHR ''{'' \<and> a \<noteq> [] \<and> hd a = CHR ''{''
      then (if length e + 1 > QUEST_PAYLOAD_MAX_LEN \<or> length a + 1 > QUEST_PAYLOAD_MAX_LEN
            then False
            else gm_json_object_contains_expected e a)
      else e = a)"
| "gm_json_object_contains_expected expected actual =
     (if gm_json_is_empty_object expected then True
      else case gm_json_skip_ws expected of
        [] \<Rightarrow> False
      | c # cs \<Rightarrow> (if c \<noteq> CHR ''{'' then False else json_fields_match cs actual))"
| "json_fields_match p actual = (case gm_json_next_pair p of
      Inl err \<Rightarrow> err = ESP_ERR_NOT_FOUND
    | Inr (k, v, rest) \<Rightarrow>
        (case gm_json_find_pair_view actual k of
           None \<Rightarrow> False
         | Some av \<Rightarrow> gm_json_values_match v av \<and> json_fields_match rest actual))"
  by pat_completeness auto

termination gm_json_values_match
  by (relation "measure (\<lambda>x. case x of
        Inl (e, _) \<Rightarrow> 2 * length e + 1
      | Inr (Inl (e, _)) \<Rightarrow> 2 * length e
      | Inr (Inr (p, _)) \<Rightarrow> 2 * length p)")
    (auto dest: next_pair_shorter skip_ws_Cons_less simp: json_trim_le le_imp_less_Suc)

declare gm_json_values_match.simps [simp del]
declare gm_json_object_contains_expected.simps [simp del]
declare json_fields_match.simps [simp del]

section \<open>Specification: flat objects\<close>

text \<open>
  The text of an object whose fields are scalars: numbers, literals or strings without
  escapes.  For such objects matching is inclusion of maps.
\<close>

definition json_plain :: "string \<Rightarrow> bool" where
  "json_plain s \<longleftrightarrow> QUOTE \<notin> set s \<and> BACKSLASH \<notin> set s"

definition json_token :: "string \<Rightarrow> bool" where
  "json_token v \<longleftrightarrow> v \<noteq> [] \<and>
     (\<forall>c \<in> set v. \<not> json_ws c \<and> c \<notin> {QUOTE, CHR '','', CHR ''{'', CHR ''}'', CHR ''[''})"

definition json_scalar :: "string \<Rightarrow> bool" where
  "json_scalar v \<longleftrightarrow> json_token v \<or> (\<exists>s. json_plain s \<and> v = QUOTE # s @ [QUOTE])"

fun json_fields :: "(string \<times> string) list \<Rightarrow> string" where
  "json_fields [] = [CHR ''}'']"
| "json_fields ((k, v) # kvs) =
     QUOTE # k @ [QUOTE, CHR '':''] @ v @ (if kvs = [] then [] else [CHR '','']) @ json_fields kvs"

definition json_object :: "(string \<times> string) list \<Rightarrow> string" where
  "json_object kvs = CHR ''{'' # json_fields kvs"

definition json_flat :: "(string \<times> string) list \<Rightarrow> bool" where
  "json_flat kvs \<longleftrightarrow> (\<forall>(k, v) \<in> set kvs. k \<noteq> [] \<and> json_plain k \<and> json_scalar v)"

lemma skip_ws_Cons [simp]: "\<not> json_ws c \<Longrightarrow> gm_json_skip_ws (c # cs) = c # cs"
  by (simp add: gm_json_skip_ws_def)

lemma json_ws_simps [simp]:
  "\<not> json_ws QUOTE" "\<not> json_ws (CHR '':'')" "\<not> json_ws (CHR '','')" "\<not> json_ws (CHR ''{'')"
  "\<not> json_ws (CHR ''}'')"
  by (simp_all add: json_ws_def)

lemma scan_key_plain:
  "json_plain k \<Longrightarrow> scan_key acc (k @ QUOTE # r) = Inr (rev acc @ k, r)"
  by (induction k arbitrary: acc) (auto simp: json_plain_def)

lemma skip_string_body_plain: "json_plain s \<Longrightarrow> skip_string_body (s @ QUOTE # r) = Some r"
  by (induction s) (auto simp: json_plain_def)

lemma json_token_not_ws: "json_token v \<Longrightarrow> c \<in> set v \<Longrightarrow> \<not> json_ws c"
  by (auto simp: json_token_def)

lemma skip_value_token:
  assumes "json_token v" and "d = CHR '','' \<or> d = CHR ''}''"
  shows "gm_json_skip_value (v @ d # r) = Inr (d # r)"
proof -
  obtain c cs where v: "v = c # cs" using assms(1) by (cases v) (auto simp: json_token_def)
  have c: "\<not> json_ws c" "c \<noteq> QUOTE" "c \<noteq> CHR ''{''" "c \<noteq> CHR ''[''"
    using assms(1) by (auto simp: v json_token_def)
  have "dropWhile (\<lambda>d. d \<noteq> CHR '','' \<and> d \<noteq> CHR ''}'') (v @ d # r) = d # r"
    using assms by (subst dropWhile_append2) (auto simp: json_token_def)
  then show ?thesis using c by (simp add: v gm_json_skip_value_def)
qed

lemma json_scalar_head:
  assumes "json_scalar v"
  shows "v \<noteq> []" and "\<not> json_ws (hd v)" and "hd v \<noteq> CHR ''{''" and "\<not> json_ws (last v)"
proof -
  have "v \<noteq> [] \<and> \<not> json_ws (hd v) \<and> hd v \<noteq> CHR ''{'' \<and> \<not> json_ws (last v)"
  proof (cases "json_token v")
    case True
    then have "v \<noteq> []" by (simp add: json_token_def)
    then show ?thesis using True by (simp add: json_token_def)
  next
    case False
    then show ?thesis using assms by (auto simp: json_scalar_def)
  qed
  then show "v \<noteq> []" "\<not> json_ws (hd v)" "hd v \<noteq> CHR ''{''" "\<not> json_ws (last v)" by simp_all
qed

lemma skip_value_scalar:
  assumes "json_scalar v" and "d = CHR '','' \<or> d = CHR ''}''"
  shows "gm_json_skip_value (v @ d # r) = Inr (d # r)"
  using assms skip_value_token
  by (auto simp: json_scalar_def gm_json_skip_value_def gm_json_skip_string_def
      skip_string_body_plain)

lemma skip_ws_scalar: "json_scalar v \<Longrightarrow> gm_json_skip_ws (v @ r) = v @ r"
  using json_scalar_head(1,2) [of v] by (cases v) auto

lemma trim_scalar: "json_scalar v \<Longrightarrow> json_trim v = v"
  using json_scalar_head(1,4) [of v] skip_ws_scalar [of v "[]"]
  by (cases v rule: rev_cases) (simp_all add: json_trim_def)

lemma next_pair_fields:
  assumes "json_plain k" and "json_scalar v"
  shows "gm_json_next_pair (json_fields ((k, v) # kvs)) = Inr (k, v, json_fields kvs)"
proof -
  obtain d r where dr: "(if kvs = [] then [] else [CHR '','']) @ json_fields kvs = d # r"
    and d: "if kvs = [] then d = CHR ''}'' \<and> d # r = json_fields kvs
            else d = CHR '','' \<and> r = json_fields kvs"
    by (cases "kvs = []") auto
  have "gm_json_skip_value (v @ d # r) = Inr (d # r)"
    using d by (intro skip_value_scalar assms) (simp split: if_splits)
  moreover have "gm_json_skip_ws (v @ d # r) = v @ d # r" by (rule skip_ws_scalar [OF assms(2)])
  moreover have "after_value k v (d # r) = Inr (k, v, json_fields kvs)"
    using d by (auto simp: after_value_def split: if_splits)
  ultimately show ?thesis
    using assms(1) by (simp add: gm_json_next_pair_def dr scan_key_plain)
qed

lemma next_pair_fields_Nil: "gm_json_next_pair (json_fields []) = Inl ESP_ERR_NOT_FOUND"
  by (simp add: gm_json_next_pair_def)

lemma find_pairs_fields: "json_flat kvs \<Longrightarrow> find_pairs (json_fields kvs) key = map_of kvs key"
proof (induction kvs)
  case Nil
  then show ?case by (subst find_pairs.simps) (simp only: next_pair_fields_Nil sum.case map_of.simps)
next
  case (Cons kv kvs)
  obtain k v where kv: "kv = (k, v)" by force
  have "json_plain k" "json_scalar v" "json_flat kvs"
    using Cons.prems by (auto simp: json_flat_def kv)
  then show ?case
    using Cons.IH by (subst find_pairs.simps) (simp del: json_fields.simps add: kv next_pair_fields)
qed

lemma find_pair_view_object:
  "json_flat kvs \<Longrightarrow> key \<noteq> [] \<Longrightarrow> gm_json_find_pair_view (json_object kvs) key = map_of kvs key"
  by (simp add: gm_json_find_pair_view_def json_object_def find_pairs_fields)

lemma values_match_scalar: "json_scalar e \<Longrightarrow> json_scalar a \<Longrightarrow> gm_json_values_match e a = (e = a)"
  using json_scalar_head [of e]
  by (subst gm_json_values_match.simps) (simp only: trim_scalar Let_def simp_thms if_False)

lemma fields_match_flat:
  assumes "json_flat e" and "json_flat a"
  shows "json_fields_match (json_fields e) (json_object a) = (\<forall>(k, v) \<in> set e. map_of a k = Some v)"
  using assms(1)
proof (induction e)
  case Nil
  then show ?case by (subst json_fields_match.simps) (simp only: next_pair_fields_Nil, simp)
next
  case (Cons kv e)
  obtain k v where kv: "kv = (k, v)" by force
  have kvp: "k \<noteq> []" "json_plain k" "json_scalar v" "json_flat e"
    using Cons.prems by (auto simp: json_flat_def kv)
  have "json_scalar av" if "map_of a k = Some av" for av
    using assms(2) map_of_SomeD [OF that] by (auto simp: json_flat_def)
  then have vm: "gm_json_values_match v av = (v = av)" if "map_of a k = Some av" for av
    using that kvp(3) by (simp only: values_match_scalar)
  have step: "json_fields_match (json_fields (kv # e)) (json_object a) =
      (case map_of a k of None \<Rightarrow> False
       | Some av \<Rightarrow> gm_json_values_match v av \<and> json_fields_match (json_fields e) (json_object a))"
    by (subst json_fields_match.simps)
      (simp only: kv next_pair_fields kvp sum.case prod.case
        find_pair_view_object [OF assms(2) kvp(1)])
  show ?case
    unfolding step Cons.IH [OF kvp(4)]
    unfolding kv
    by (cases "map_of a k") (use vm in auto)
qed

section \<open>Properties\<close>

text \<open>
  C26: for flat objects, matching the arguments of a device event is inclusion of maps: every
  expected field is present in the actual object with the same value, fields the expectation
  does not name are ignored, and the order of the fields does not matter.
\<close>

theorem json_match_is_submap:
  assumes "json_flat e" and "json_flat a"
  shows "gm_json_object_contains_expected (json_object e) (json_object a)
    \<longleftrightarrow> (\<forall>(k, v) \<in> set e. map_of a k = Some v)"
proof (cases e)
  case Nil
  then show ?thesis
    by (subst gm_json_object_contains_expected.simps)
      (simp add: json_object_def gm_json_is_empty_object_def)
next
  case (Cons kv e')
  have "\<not> gm_json_is_empty_object (json_object e)"
    by (cases kv) (simp add: Cons json_object_def gm_json_is_empty_object_def)
  then have "gm_json_object_contains_expected (json_object e) (json_object a)
      = json_fields_match (json_fields e) (json_object a)"
    by (subst gm_json_object_contains_expected.simps) (simp add: json_object_def)
  then show ?thesis by (simp only: fields_match_flat [OF assms])
qed

theorem json_match_is_submap_witness:
  "gm_json_object_contains_expected (json_object [(''id'', ''7'')])
     (json_object [(''on'', ''true''), (''id'', ''7'')])
   \<and> \<not> gm_json_object_contains_expected (json_object [(''id'', ''7''), (''on'', ''false'')])
     (json_object [(''on'', ''true''), (''id'', ''7'')])"
proof -
  have tok: "json_scalar ''7''" "json_scalar ''true''" "json_scalar ''false''"
    by (simp_all add: json_scalar_def json_token_def json_ws_def)
  have flat: "json_flat [(''id'', ''7'')]" "json_flat [(''id'', ''7''), (''on'', ''false'')]"
    "json_flat [(''on'', ''true''), (''id'', ''7'')]"
    by (simp_all add: json_flat_def json_plain_def tok)
  show ?thesis
    using json_match_is_submap [OF flat(1,3)] json_match_is_submap [OF flat(2,3)] by simp
qed

end
