(* ===== verification/Command_Result.thy ===== *)
theory Command_Result
  imports Gm_Prelude
begin

text \<open>
  Status words of command results (\<open>quest_common/include/scenehub_command_result.h\<close>).
\<close>

definition scenehub_command_result_normalize :: "string \<Rightarrow> string" where
  "scenehub_command_result_normalize status =
     (if status = [] then []
      else if status = ''ok'' then ''done''
      else if status = ''error'' then ''failed''
      else status)"

definition scenehub_command_result_is_pending :: "string \<Rightarrow> bool" where
  "scenehub_command_result_is_pending status \<longleftrightarrow> status = ''accepted'' \<or> status = ''started''"

definition scenehub_command_result_is_success :: "string \<Rightarrow> bool" where
  "scenehub_command_result_is_success status \<longleftrightarrow> status = ''done''"

definition scenehub_command_result_is_failure :: "string \<Rightarrow> bool" where
  "scenehub_command_result_is_failure status \<longleftrightarrow>
     status = ''failed'' \<or> status = ''rejected'' \<or> status = ''timeout''"

definition scenehub_command_result_is_terminal :: "string \<Rightarrow> bool" where
  "scenehub_command_result_is_terminal status \<longleftrightarrow>
     scenehub_command_result_is_success status \<or> scenehub_command_result_is_failure status"

lemmas command_result_defs =
  scenehub_command_result_is_pending_def scenehub_command_result_is_success_def
  scenehub_command_result_is_failure_def scenehub_command_result_is_terminal_def

lemma command_result_exclusive:
  "scenehub_command_result_is_pending s \<Longrightarrow> \<not> scenehub_command_result_is_terminal s"
  "scenehub_command_result_is_success s \<Longrightarrow> \<not> scenehub_command_result_is_failure s"
  by (auto simp: command_result_defs)

end
