(* ===== verification/Gm_Event_Match.thy ===== *)
theory Gm_Event_Match
  imports Gm_Json Command_Result Gm_Table
begin

text \<open>
  Which events a wait accepts (\<open>gm_core/session/gm_room_session_events.c\<close>), and how an incoming
  event is routed to the queues of the runtime.
\<close>

section \<open>Matching an event\<close>

definition match_field :: "string \<Rightarrow> string \<Rightarrow> bool" where
  "match_field expected actual \<longleftrightarrow> expected = [] \<or> expected = actual"

definition device_control_event_payload_matches :: "wait_event_match \<Rightarrow> scenehub_event \<Rightarrow> bool" where
  "device_control_event_payload_matches expected message \<longleftrightarrow>
     wm_device_id expected \<noteq> [] \<and> wm_event_id expected \<noteq> [] \<and>
     scenehub_event_is_device_control_event message \<and>
     (wm_match_json expected = [] \<or> gm_json_is_empty_object (wm_match_json expected) \<or>
      dc_args_json (ev_control message) \<noteq> [] \<and>
      gm_json_object_contains_expected (wm_match_json expected) (dc_args_json (ev_control message)))"

definition wait_event_type_matches :: "string \<Rightarrow> scenehub_event \<Rightarrow> bool" where
  "wait_event_type_matches expected message \<longleftrightarrow>
     match_field expected (scenehub_event_type_to_string (ev_type message)) \<or>
     match_field expected (ev_topic message) \<or>
     match_field expected (ev_payload message) \<or>
     (case ev_data message of
        PAYLOAD_DEVICE_STATUS d \<Rightarrow>
          match_field expected (ds_state d) \<or> match_field expected (ds_health d) \<or>
          match_field expected (ds_connectivity d)
      | PAYLOAD_DEVICE_RUNTIME d \<Rightarrow>
          match_field expected (dr_runtime_type d) \<or> match_field expected (dr_state d)
      | PAYLOAD_DEVICE_CONTROL d \<Rightarrow> match_field expected (dc_action_id d)
      | PAYLOAD_TEXT \<Rightarrow> False)"

definition gm_room_session_wait_event_matches_message ::
  "wait_event_match \<Rightarrow> scenehub_event \<Rightarrow> bool" where
  "gm_room_session_wait_event_matches_message expected message =
     (let source_id = scenehub_event_source_id message;
          source_matches = (match_field (wm_source_id expected) source_id \<or>
            wm_device_id expected \<noteq> [] \<and> match_field (wm_device_id expected) source_id)
      in if \<not> wait_event_type_matches (wm_event_type expected) message then False
         else if \<not> source_matches then False
         else if wm_device_id expected = [] \<or> wm_event_id expected = [] then True
         else device_control_event_payload_matches expected message)"

definition wait_event_match_index :: "run_view \<Rightarrow> scenehub_event \<Rightarrow> nat option" where
  "wait_event_match_index v message =
     (if v_wait_events v \<noteq> []
      then find_index (\<lambda>m. gm_room_session_wait_event_matches_message m message)
             (take ROOM_SCENARIO_WAIT_EVENT_GROUP_MAX_EVENTS (v_wait_events v))
      else if wait_event_type_matches (v_wait_event_type v) message \<and>
              match_field (v_wait_source_id v) (scenehub_event_source_id message)
      then Some 0 else None)"

definition wait_all_device_events_met :: "run_view \<Rightarrow> bool" where
  "wait_all_device_events_met v \<longleftrightarrow> v_wait_events v \<noteq> [] \<and>
     list_all id (take (length (v_wait_events v))
       (take ROOM_SCENARIO_WAIT_EVENT_GROUP_MAX_EVENTS (v_wait_event_matched v)))"

section \<open>Results of commands\<close>

definition command_result_is_success :: "scenehub_event \<Rightarrow> bool" where
  "command_result_is_success message = scenehub_command_result_is_success (ev_payload message)"

definition command_result_is_failure :: "scenehub_event \<Rightarrow> bool" where
  "command_result_is_failure message = scenehub_command_result_is_failure (ev_payload message)"

definition command_result_is_pending :: "scenehub_event \<Rightarrow> bool" where
  "command_result_is_pending message = scenehub_command_result_is_pending (ev_payload message)"

definition command_result_wait_branch_index :: "gm_room_session \<Rightarrow> scenehub_event \<Rightarrow> nat option" where
  "command_result_wait_branch_index s message =
     (if \<not> scenehub_event_is_device_control_result message then None
      else let request_id = dc_action_id (ev_control message) in
        if request_id = [] then None
        else find_index (\<lambda>b. b_active b \<and>
               v_scenario_state (b_view b) = GM_ROOM_SCENARIO_WAITING \<and>
               v_wait_type (b_view b) = WAIT_DEVICE_COMMAND_RESULT \<and>
               v_wait_event_type (b_view b) = request_id \<and>
               match_field (v_wait_source_id (b_view b)) (scenehub_event_source_id message))
             (take ROOM_SCENARIO_MAX_BRANCHES (s_branch_runtimes s)))"

section \<open>Routing\<close>

definition gm_room_session_event_is_critical :: "scenehub_event \<Rightarrow> bool" where
  "gm_room_session_event_is_critical message \<longleftrightarrow>
     scenehub_event_is_device_control message \<or>
     ev_type message = SCENEHUB_EVENT_FLAG_CHANGED \<or>
     ev_type message = SCENEHUB_EVENT_RUNTIME_CONTROL \<or>
     ev_type message = SCENEHUB_EVENT_WEB_COMMAND"

text \<open>\<open>freed\<close> is the number of entries the receiver takes while the sender waits.\<close>

definition gm_room_session_route_event :: "scenehub_event \<Rightarrow> nat \<Rightarrow> gm_core \<Rightarrow> gm_core" where
  "gm_room_session_route_event message freed k =
     (if gm_room_session_event_is_critical message then
        (if k_runtime_queue k = None then k
         else let (err, k1) = gm_room_session_runtime_post_event_with_wait message freed k
              in if err \<noteq> ESP_OK then gm_room_session_record_event_drop True True k1 else k1)
      else case k_event_queue k of
        None \<Rightarrow> k
      | Some q \<Rightarrow>
          (case queue_send GM_ROOM_SESSION_EVENT_QUEUE_LEN freed message q of
             None \<Rightarrow> gm_room_session_record_event_drop False False k
           | Some q' \<Rightarrow> k\<lparr>k_event_queue := Some q'\<rparr>))"

text \<open>One turn of the event task: a message is taken and handed to the runtime queue.\<close>

definition gm_room_session_event_task_step :: "nat \<Rightarrow> gm_core \<Rightarrow> gm_core option" where
  "gm_room_session_event_task_step freed k =
     (case k_event_queue k of
        Some (message # q) \<Rightarrow>
          (let (err, k1) = gm_room_session_runtime_post_event_with_wait message freed
                 (k\<lparr>k_event_queue := Some q\<rparr>)
           in Some (if err \<noteq> ESP_OK then gm_room_session_record_event_drop False True k1 else k1))
      | _ \<Rightarrow> None)"

end
