(* ===== verification/Gm_Wait.thy ===== *)
theory Gm_Wait
  imports Gm_Session_Ops
begin

text \<open>
  Entering waits (\<open>gm_core/session/gm_room_session_runtime_wait.c\<close>).  A wait for device
  events needs a resolution: the event references of the step expanded from the prepared
  catalogue.  \<open>None\<close> is the null resolution of the sources.
\<close>

record wait_resolution =
  wr_present :: bool
  wr_matches :: "wait_event_match list"

definition GM_ROOM_SESSION_COMMAND_TIMEOUT_DEFAULT_MS :: u32 where
  "GM_ROOM_SESSION_COMMAND_TIMEOUT_DEFAULT_MS = 3000"

record command_dispatch_result =
  dr_result_required :: bool
  dr_timeout_ms :: u32
  dr_request_id :: string
  dr_source_id :: string
  dr_command :: string

definition scenario_branch_clear_wait_fields :: "nat \<Rightarrow> room_ctx \<Rightarrow> room_ctx" where
  "scenario_branch_clear_wait_fields i c =
     upd_branch_view i clear_wait_fields
       (upd_glob (cancel_pending_wait (b_view (get_branch c i))) c)"

definition gm_room_session_expand_prepared_wait_resolution ::
  "prepared_scenario \<Rightarrow> prepared_event_resolution \<Rightarrow> esp_err + wait_resolution" where
  "gm_room_session_expand_prepared_wait_resolution prepared res =
     (let indices = pe_event_ref_indices res; refs = ps_event_refs prepared in
      if \<not> pe_present res \<or> indices = [] \<or>
         length indices > ROOM_SCENARIO_WAIT_EVENT_GROUP_MAX_EVENTS
      then Inl ESP_ERR_INVALID_ARG
      else if \<exists>j \<in> set indices. unat j \<ge> length refs \<or>
                unat j \<ge> GM_ROOM_SESSION_PREPARED_EVENT_REF_MAX
      then Inl ESP_ERR_INVALID_ARG
      else Inr \<lparr>wr_present = True, wr_matches = map (\<lambda>j. pr_match (refs ! unat j)) indices\<rparr>)"

definition wait_deadline :: "u32 \<Rightarrow> u32 \<Rightarrow> u32" where
  "wait_deadline now_ms timeout_ms = (if timeout_ms > 0 then now_ms + timeout_ms else 0)"

definition copy_match :: "wait_event_match \<Rightarrow> wait_event_match" where
  "copy_match m = \<lparr>
     wm_device_id = quest_str_copy ROOM_SCENARIO_DEVICE_ID_MAX_LEN (wm_device_id m),
     wm_event_id = quest_str_copy ROOM_SCENARIO_DEVICE_EVENT_ID_MAX_LEN (wm_event_id m),
     wm_event_type = quest_str_copy ROOM_SCENARIO_EVENT_TYPE_MAX_LEN (wm_event_type m),
     wm_source_id = quest_str_copy ROOM_SCENARIO_EVENT_SOURCE_ID_MAX_LEN (wm_source_id m),
     wm_match_json = quest_str_copy QUEST_PAYLOAD_MAX_LEN (wm_match_json m)\<rparr>"

text \<open>The common prologue: mark the session waiting and clear the previous wait.\<close>

definition begin_wait :: "room_ctx \<Rightarrow> room_ctx" where
  "begin_wait c = gm_room_session_scenario_clear_wait_locked
     (upd_view (\<lambda>v. v\<lparr>v_scenario_state := GM_ROOM_SCENARIO_WAITING\<rparr>) c)"

definition scenario_enter_wait_device_event_locked ::
  "wait_device_event \<Rightarrow> wait_resolution option \<Rightarrow> u32 \<Rightarrow> room_ctx \<Rightarrow> esp_err \<times> room_ctx" where
  "scenario_enter_wait_device_event_locked wait res now_ms c =
     (case res of None \<Rightarrow> (ESP_ERR_INVALID_ARG, c)
      | Some r \<Rightarrow>
        (if \<not> wr_present r \<or> length (wr_matches r) \<noteq> 1 then (ESP_ERR_INVALID_ARG, c)
         else let m = wr_matches r ! 0 in
           (ESP_OK, gm_room_session_mark_session_changed_locked
             (upd_view (\<lambda>v. v\<lparr>v_wait_type := WAIT_DEVICE_EVENT, v_wait_started_at_ms := now_ms,
                 v_wait_until_ms := wait_deadline now_ms (wde_timeout_ms wait),
                 v_wait_event_type :=
                   quest_str_copy ROOM_SCENARIO_EVENT_TYPE_MAX_LEN (wm_event_type m),
                 v_wait_source_id :=
                   quest_str_copy ROOM_SCENARIO_EVENT_SOURCE_ID_MAX_LEN (wm_source_id m),
                 v_wait_events := [copy_match m], v_wait_event_matched := [False]\<rparr>)
               (begin_wait c)))))"

text \<open>The bodies of the wait for any and the wait for all differ in the wait type only.\<close>

definition enter_wait_event_group ::
  "gm_room_scenario_wait_type \<Rightarrow> wait_event_group \<Rightarrow> wait_resolution option \<Rightarrow> u32 \<Rightarrow> room_ctx \<Rightarrow>
   esp_err \<times> room_ctx" where
  "enter_wait_event_group ty wait res now_ms c =
     (case res of None \<Rightarrow> (ESP_ERR_INVALID_ARG, c)
      | Some r \<Rightarrow>
        (if \<not> wr_present r \<or> length (wr_matches r) \<noteq> length (weg_events wait) then
           (ESP_ERR_INVALID_ARG, c)
         else if weg_events wait = [] \<or>
                 length (weg_events wait) > ROOM_SCENARIO_WAIT_EVENT_GROUP_MAX_EVENTS then
           (ESP_ERR_INVALID_ARG, c)
         else (ESP_OK, gm_room_session_mark_session_changed_locked
             (upd_view (\<lambda>v. v\<lparr>v_wait_type := ty, v_wait_started_at_ms := now_ms,
                 v_wait_until_ms := wait_deadline now_ms (weg_timeout_ms wait),
                 v_wait_events := wr_matches r,
                 v_wait_event_matched := replicate (length (wr_matches r)) False,
                 v_wait_event_type :=
                   quest_str_copy ROOM_SCENARIO_EVENT_TYPE_MAX_LEN (wm_event_type (wr_matches r ! 0)),
                 v_wait_source_id :=
                   quest_str_copy ROOM_SCENARIO_EVENT_SOURCE_ID_MAX_LEN
                     (wm_source_id (wr_matches r ! 0))\<rparr>)
               (begin_wait c)))))"

definition scenario_enter_wait_any_device_event_locked ::
  "wait_event_group \<Rightarrow> wait_resolution option \<Rightarrow> u32 \<Rightarrow> room_ctx \<Rightarrow> esp_err \<times> room_ctx" where
  "scenario_enter_wait_any_device_event_locked = enter_wait_event_group WAIT_ANY_DEVICE_EVENT"

definition scenario_enter_wait_all_device_events_locked ::
  "wait_event_group \<Rightarrow> wait_resolution option \<Rightarrow> u32 \<Rightarrow> room_ctx \<Rightarrow> esp_err \<times> room_ctx" where
  "scenario_enter_wait_all_device_events_locked = enter_wait_event_group WAIT_ALL_DEVICE_EVENTS"

definition scenario_enter_wait_flags_locked ::
  "wait_flags_spec \<Rightarrow> u32 \<Rightarrow> room_ctx \<Rightarrow> esp_err \<times> room_ctx" where
  "scenario_enter_wait_flags_locked wait now_ms c =
     (if wf_flags wait = [] \<or> length (wf_flags wait) > ROOM_SCENARIO_WAIT_FLAGS_MAX_FLAGS
      then (ESP_ERR_INVALID_ARG, c)
      else (ESP_OK, gm_room_session_mark_session_changed_locked
         (upd_view (\<lambda>v. v\<lparr>v_wait_type := WAIT_FLAGS, v_wait_started_at_ms := now_ms,
             v_wait_until_ms := wait_deadline now_ms (wf_timeout_ms wait),
             v_wait_flags := map (\<lambda>f. f\<lparr>fl_name :=
               quest_str_copy ROOM_SCENARIO_FLAG_NAME_MAX_LEN (fl_name f)\<rparr>) (wf_flags wait)\<rparr>)
           (begin_wait c))))"

definition scenario_enter_wait_command_result_locked ::
  "command_dispatch_result \<Rightarrow> u32 \<Rightarrow> room_ctx \<Rightarrow> room_ctx" where
  "scenario_enter_wait_command_result_locked d now_ms c =
     (if \<not> dr_result_required d then c
      else gm_room_session_mark_session_changed_locked
        (upd_view (\<lambda>v. v\<lparr>v_wait_type := WAIT_DEVICE_COMMAND_RESULT,
            v_wait_started_at_ms := now_ms,
            v_wait_until_ms := now_ms + (if dr_timeout_ms d \<noteq> 0 then dr_timeout_ms d
                                         else GM_ROOM_SESSION_COMMAND_TIMEOUT_DEFAULT_MS),
            v_wait_event_type := quest_str_copy ROOM_SCENARIO_EVENT_TYPE_MAX_LEN (dr_request_id d),
            v_wait_source_id := quest_str_copy ROOM_SCENARIO_EVENT_SOURCE_ID_MAX_LEN (dr_source_id d),
            v_wait_events := [wait_event_match_zero\<lparr>
              wm_event_type := quest_str_copy ROOM_SCENARIO_EVENT_TYPE_MAX_LEN (dr_request_id d),
              wm_source_id := quest_str_copy ROOM_SCENARIO_EVENT_SOURCE_ID_MAX_LEN (dr_source_id d)\<rparr>],
            v_wait_event_matched := [False]\<rparr>)
          (begin_wait c)))"

end
