(* ===== verification/Gm_Commands.thy ===== *)
theory Gm_Commands
  imports Gm_Wait Gm_Table
begin

text \<open>
  Command plans (\<open>gm_core/session/gm_room_session_commands.c\<close>).  A step that sends a device
  command does not send it under the sessions lock: it puts the branch into a wait marked
  \<open>__dispatch_pending__\<close> and returns a plan.  The dispatcher asks the plan for its next command,
  sends it without the lock, and hands the outcome back to \<open>apply_dispatch_result\<close>
  (theory \<open>Gm_Scenario\<close>).
\<close>

section \<open>Plans\<close>

datatype command_plan_kind =
    COMMAND_PLAN_NONE
  | COMMAND_PLAN_SCENARIO_STEP
  | COMMAND_PLAN_SCENARIO_STEP_GROUP
  | COMMAND_PLAN_REACTIVE_ACTION
  | COMMAND_PLAN_REACTIVE_ACTION_GROUP

record command_plan =
  p_room_id :: string
  p_branch_index :: u8
  p_kind :: command_plan_kind
  p_expected_step_index :: u16
  p_expected_reactive_action :: u8
  p_command_index :: u8

definition gm_room_session_command_plan_clear :: command_plan where
  "gm_room_session_command_plan_clear = \<lparr>p_room_id = [], p_branch_index = 0,
     p_kind = COMMAND_PLAN_NONE, p_expected_step_index = 0, p_expected_reactive_action = 0,
     p_command_index = 0\<rparr>"

definition gm_room_session_command_plan_present :: "command_plan \<Rightarrow> bool" where
  "gm_room_session_command_plan_present plan \<longleftrightarrow> p_kind plan \<noteq> COMMAND_PLAN_NONE"

lemma plan_clear_absent [simp]:
  "\<not> gm_room_session_command_plan_present gm_room_session_command_plan_clear"
  by (simp add: gm_room_session_command_plan_present_def gm_room_session_command_plan_clear_def)

definition GM_ROOM_SESSION_DISPATCH_PENDING_ID :: string where
  "GM_ROOM_SESSION_DISPATCH_PENDING_ID = ''__dispatch_pending__''"
definition GM_ROOM_SESSION_DISPATCH_BUDGET :: nat where
  "GM_ROOM_SESSION_DISPATCH_BUDGET = 8"

definition scenario_waiting_for_command_dispatch :: "run_view \<Rightarrow> bool" where
  "scenario_waiting_for_command_dispatch v \<longleftrightarrow>
     v_scenario_state v = GM_ROOM_SCENARIO_WAITING \<and>
     v_wait_type v = WAIT_DEVICE_COMMAND_RESULT \<and>
     v_wait_event_type v = GM_ROOM_SESSION_DISPATCH_PENDING_ID"

definition scenario_enter_wait_command_dispatch_locked :: "u32 \<Rightarrow> room_ctx \<Rightarrow> room_ctx" where
  "scenario_enter_wait_command_dispatch_locked now_ms c =
     upd_view (\<lambda>v. v\<lparr>v_wait_type := WAIT_DEVICE_COMMAND_RESULT, v_wait_started_at_ms := now_ms,
         v_wait_until_ms := 0,
         v_wait_event_type := quest_str_copy ROOM_SCENARIO_EVENT_TYPE_MAX_LEN
           GM_ROOM_SESSION_DISPATCH_PENDING_ID\<rparr>)
       (begin_wait c)"

definition command_group_entry_to_device_command :: "device_command \<Rightarrow> device_command" where
  "command_group_entry_to_device_command e = \<lparr>
     cmd_device_id = quest_str_copy ROOM_SCENARIO_DEVICE_ID_MAX_LEN (cmd_device_id e),
     cmd_command_id = quest_str_copy ROOM_SCENARIO_DEVICE_COMMAND_ID_MAX_LEN (cmd_command_id e),
     cmd_params_json = quest_str_copy ROOM_SCENARIO_COMMAND_PARAMS_JSON_MAX_LEN (cmd_params_json e)\<rparr>"

text \<open>
  A planning function returns the error code, the error text it writes (empty when it writes
  none), the plan and the context.
\<close>

definition gm_room_session_plan_scenario_command_locked ::
  "u8 \<Rightarrow> u32 \<Rightarrow> room_ctx \<Rightarrow> esp_err \<times> command_plan \<times> room_ctx" where
  "gm_room_session_plan_scenario_command_locked branch_index now_ms c =
     (ESP_OK,
      gm_room_session_command_plan_clear\<lparr>
        p_room_id := quest_str_copy QUEST_ROOM_ID_MAX_LEN (s_room_id (c_ses c)),
        p_branch_index := branch_index,
        p_kind := COMMAND_PLAN_SCENARIO_STEP,
        p_expected_step_index := v_current_step_index (s_view (c_ses c))\<rparr>,
      gm_room_session_mark_session_changed_locked
        (scenario_enter_wait_command_dispatch_locked now_ms c))"

definition gm_room_session_plan_scenario_command_group_locked ::
  "u8 \<Rightarrow> device_command list \<Rightarrow> u32 \<Rightarrow> command_plan \<Rightarrow> room_ctx \<Rightarrow>
   esp_err \<times> string \<times> command_plan \<times> room_ctx" where
  "gm_room_session_plan_scenario_command_group_locked branch_index cmds now_ms out_plan c =
     (if cmds = [] \<or> length cmds > ROOM_SCENARIO_COMMAND_GROUP_MAX_COMMANDS
      then (ESP_ERR_INVALID_ARG, ''device_command_group_invalid'', out_plan, c)
      else (ESP_OK, [],
        gm_room_session_command_plan_clear\<lparr>
          p_room_id := quest_str_copy QUEST_ROOM_ID_MAX_LEN (s_room_id (c_ses c)),
          p_branch_index := branch_index,
          p_kind := COMMAND_PLAN_SCENARIO_STEP_GROUP,
          p_expected_step_index := v_current_step_index (s_view (c_ses c)),
          p_command_index := 0\<rparr>,
        gm_room_session_mark_session_changed_locked
          (scenario_enter_wait_command_dispatch_locked now_ms c)))"

definition gm_room_session_plan_reactive_action_command_locked ::
  "nat \<Rightarrow> reactive_action \<Rightarrow> u32 \<Rightarrow> room_ctx \<Rightarrow> esp_err \<times> string \<times> command_plan \<times> room_ctx" where
  "gm_room_session_plan_reactive_action_command_locked i action now_ms c =
     (let b = get_branch c i;
          plan = gm_room_session_command_plan_clear\<lparr>
            p_room_id := quest_str_copy QUEST_ROOM_ID_MAX_LEN (s_room_id (c_ses c)),
            p_branch_index := ucast (b_branch_index b),
            p_expected_reactive_action := b_reactive_current_action b,
            p_command_index := 0\<rparr>;
          go = gm_room_session_mark_session_changed_locked
                 (scenario_enter_wait_command_dispatch_locked now_ms c)
      in case ra_data action of
           STEP_DEVICE_COMMAND_GROUP _ \<Rightarrow>
             (if ra_group_mode action = COMMAND_GROUP_PARALLEL
              then (ESP_ERR_NOT_SUPPORTED, ''reactive_group_unsupported'', plan, c)
              else if ra_group_command_count action = 0 \<or>
                      unat (ra_group_command_count action) > ROOM_SCENARIO_MAX_REACTIVE_GROUP_COMMANDS \<or>
                      unat (ra_group_command_start_index action) + unat (ra_group_command_count action)
                        > length (sc_reactive_group_commands (s_running_scenario (c_ses c)))
              then (ESP_ERR_INVALID_ARG, ''reactive_device_command_group_failed'', plan, c)
              else (ESP_OK, [], plan\<lparr>p_kind := COMMAND_PLAN_REACTIVE_ACTION_GROUP\<rparr>, go))
         | STEP_DEVICE_COMMAND _ \<Rightarrow>
             (ESP_OK, [], plan\<lparr>p_kind := COMMAND_PLAN_REACTIVE_ACTION\<rparr>, go)
         | _ \<Rightarrow> (ESP_ERR_INVALID_ARG, ''reactive_action_unsupported'', plan, c))"

section \<open>Resolving a plan\<close>

text \<open>
  The command a plan stands for, with the flag that more commands of its group follow.  The
  reads of the step and action arrays are guarded by the counts.
\<close>

definition reactive_action_index :: "branch_runtime \<Rightarrow> nat" where
  "reactive_action_index b =
     unat (b_reactive_action_start_index b + ucast (b_reactive_current_action b))"

definition planned_command_resolve_locked ::
  "gm_room_session \<Rightarrow> branch_runtime \<Rightarrow> command_plan \<Rightarrow> esp_err + device_command \<times> bool" where
  "planned_command_resolve_locked s b plan =
     (let sc = s_running_scenario s;
          si = unat (p_expected_step_index plan);
          ci = unat (p_command_index plan);
          ai = reactive_action_index b
      in case p_kind plan of
           COMMAND_PLAN_SCENARIO_STEP \<Rightarrow>
             (if si \<ge> length (sc_steps sc) then Inl ESP_ERR_INVALID_STATE
              else case st_data (sc_steps sc ! si) of
                     STEP_DEVICE_COMMAND cmd \<Rightarrow> Inr (cmd, False)
                   | _ \<Rightarrow> Inl ESP_ERR_INVALID_STATE)
         | COMMAND_PLAN_SCENARIO_STEP_GROUP \<Rightarrow>
             (if si \<ge> length (sc_steps sc) then Inl ESP_ERR_INVALID_STATE
              else case st_data (sc_steps sc ! si) of
                     STEP_DEVICE_COMMAND_GROUP cmds \<Rightarrow>
                       (if ci \<ge> length cmds \<or> ci \<ge> ROOM_SCENARIO_COMMAND_GROUP_MAX_COMMANDS
                        then Inl ESP_ERR_INVALID_STATE
                        else Inr (command_group_entry_to_device_command (cmds ! ci),
                                  unat (p_command_index plan + 1) < length cmds))
                   | _ \<Rightarrow> Inl ESP_ERR_INVALID_STATE)
         | COMMAND_PLAN_REACTIVE_ACTION \<Rightarrow>
             (if ai \<ge> length (sc_reactive_actions sc) then Inl ESP_ERR_INVALID_STATE
              else case ra_data (sc_reactive_actions sc ! ai) of
                     STEP_DEVICE_COMMAND cmd \<Rightarrow> Inr (cmd, False)
                   | _ \<Rightarrow> Inl ESP_ERR_INVALID_STATE)
         | COMMAND_PLAN_REACTIVE_ACTION_GROUP \<Rightarrow>
             (if ai \<ge> length (sc_reactive_actions sc) then Inl ESP_ERR_INVALID_STATE
              else let action = sc_reactive_actions sc ! ai in
                case ra_data action of
                  STEP_DEVICE_COMMAND_GROUP _ \<Rightarrow>
                    (if ra_group_mode action = COMMAND_GROUP_PARALLEL \<or>
                        p_command_index plan \<ge> ra_group_command_count action \<or>
                        unat (ra_group_command_start_index action) +
                          unat (ra_group_command_count action) > length (sc_reactive_group_commands sc)
                     then Inl ESP_ERR_INVALID_STATE
                     else Inr (sc_reactive_group_commands sc !
                                 (unat (ra_group_command_start_index action) + ci),
                               p_command_index plan + 1 < ra_group_command_count action))
                | _ \<Rightarrow> Inl ESP_ERR_INVALID_STATE)
         | COMMAND_PLAN_NONE \<Rightarrow> Inl ESP_ERR_INVALID_STATE)"

definition planned_command_session_matches_locked ::
  "nat \<Rightarrow> command_plan \<Rightarrow> room_ctx \<Rightarrow> bool \<times> room_ctx" where
  "planned_command_session_matches_locked i plan c =
     (if \<not> b_active (get_branch c i) then (False, c)
      else let c1 = gm_room_session_scenario_branch_load_into_session i c;
               c2 = gm_room_session_scenario_branch_save_from_session i c1;
               v = s_view (c_ses c1)
           in if \<not> scenario_waiting_for_command_dispatch v then (False, c2)
              else if p_kind plan = COMMAND_PLAN_SCENARIO_STEP \<or>
                      p_kind plan = COMMAND_PLAN_SCENARIO_STEP_GROUP
              then (v_current_step_index v = p_expected_step_index plan, c2)
              else (b_reactive_current_action (get_branch c1 i) = p_expected_reactive_action plan, c2))"

text \<open>The plan names a branch of a running scenario.\<close>

definition plan_branch_ok :: "gm_room_session \<Rightarrow> command_plan \<Rightarrow> bool" where
  "plan_branch_ok s plan \<longleftrightarrow> s_running_scenario_valid s \<and>
     unat (p_branch_index plan) < length (s_branch_runtimes s) \<and>
     unat (p_branch_index plan) < ROOM_SCENARIO_MAX_BRANCHES"

definition planned_command_set_error_locked ::
  "command_plan \<Rightarrow> string \<Rightarrow> room_ctx \<Rightarrow> room_ctx" where
  "planned_command_set_error_locked plan error_code c =
     (if \<not> plan_branch_ok (c_ses c) plan then c
      else let i = unat (p_branch_index plan);
               msg = (if error_code \<noteq> [] then error_code
                      else if p_kind plan = COMMAND_PLAN_REACTIVE_ACTION \<or>
                              p_kind plan = COMMAND_PLAN_REACTIVE_ACTION_GROUP
                      then ''reactive_device_command_failed''
                      else ''device_command_failed'')
           in gm_room_session_scenario_update_summary_from_branches_locked
                (gm_room_session_scenario_branch_save_from_session i
                  (scenario_set_error_locked msg
                    (gm_room_session_scenario_branch_load_into_session i c))))"

definition next_command_body ::
  "command_plan \<Rightarrow> room_ctx \<Rightarrow> (esp_err + device_command \<times> bool) \<times> room_ctx" where
  "next_command_body plan c =
     (if \<not> plan_branch_ok (c_ses c) plan then (Inl ESP_ERR_NOT_FOUND, c)
      else let i = unat (p_branch_index plan);
               (ok, c1) = planned_command_session_matches_locked i plan c
           in if \<not> ok then (Inl ESP_ERR_INVALID_STATE, c1)
              else let c2 = gm_room_session_scenario_branch_load_into_session i c1;
                       r = planned_command_resolve_locked (c_ses c2) (get_branch c2 i) plan
                   in (r, gm_room_session_scenario_branch_save_from_session i c2))"

definition gm_room_session_command_plan_next_command ::
  "command_plan \<Rightarrow> gm_core \<Rightarrow> (esp_err + device_command \<times> bool) \<times> gm_core" where
  "gm_room_session_command_plan_next_command plan k =
     (if \<not> gm_room_session_command_plan_present plan then (Inl ESP_ERR_INVALID_ARG, k)
      else let k1 = gm_room_session_sessions_lock k in
        case find_session_mutable_locked k1 (p_room_id plan) of
          None \<Rightarrow> (Inl ESP_ERR_NOT_FOUND, gm_room_session_sessions_unlock k1)
        | Some j \<Rightarrow> (let (r, k2) = in_session j (next_command_body plan) k1
                     in (r, gm_room_session_sessions_unlock k2)))"

definition gm_room_session_command_plan_fail ::
  "command_plan \<Rightarrow> string \<Rightarrow> gm_core \<Rightarrow> esp_err \<times> command_plan \<times> gm_core" where
  "gm_room_session_command_plan_fail plan error_code k =
     (if \<not> gm_room_session_command_plan_present plan then (ESP_OK, plan, k)
      else let k1 = gm_room_session_sessions_lock k;
               k2 = (case find_session_mutable_locked k1 (p_room_id plan) of
                       None \<Rightarrow> k1
                     | Some j \<Rightarrow> snd (in_session j
                         (\<lambda>c. ((), planned_command_set_error_locked plan error_code c)) k1))
           in (ESP_OK, gm_room_session_command_plan_clear, gm_room_session_sessions_unlock k2))"

end
