(* ===== verification/Gm_Frame.thy ===== *)
theory Gm_Frame
  imports Gm_Commands
begin

text \<open>
  Frame lemmas of the operations on a room context: what each leaves alone.  \<open>ses_core\<close> is a
  session without its mirror, branch table, flags, texts and change counters; the collection
  \<open>frame_simps\<close> holds one equation per operation for \<open>ses_core\<close>, the branch table, the flags and
  the prepared catalogue, and \<open>branch_simps\<close> the effect on the branch table.
\<close>

section \<open>The fixed part of a session\<close>

definition ses_core :: "gm_room_session \<Rightarrow> gm_room_session" where
  "ses_core s = s\<lparr>s_view := run_view_zero, s_scenario_flags := [], s_branch_runtimes := [],
     s_scenario_operator_message := [], s_scenario_last_error := [], s_session_generation := 0,
     s_last_change_lock_epoch := 0\<rparr>"

abbreviation cbranches :: "room_ctx \<Rightarrow> branch_runtime list" where
  "cbranches c \<equiv> s_branch_runtimes (c_ses c)"

lemma ses_core_sel:
  "s_in_use (ses_core s) = s_in_use s" "s_state (ses_core s) = s_state s"
  "s_timer (ses_core s) = s_timer s" "s_hint (ses_core s) = s_hint s"
  "s_room_id (ses_core s) = s_room_id s" "s_running_scenario (ses_core s) = s_running_scenario s"
  "s_running_scenario_valid (ses_core s) = s_running_scenario_valid s"
  "s_finished_at_ms (ses_core s) = s_finished_at_ms s"
  "s_started_at_ms (ses_core s) = s_started_at_ms s"
  by (simp_all add: ses_core_def)

lemma ses_core_fields:
  assumes "ses_core s = ses_core t"
  shows "s_in_use s = s_in_use t" "s_state s = s_state t" "s_timer s = s_timer t"
    "s_hint s = s_hint t" "s_room_id s = s_room_id t" "s_running_scenario s = s_running_scenario t"
    "s_running_scenario_valid s = s_running_scenario_valid t"
    "s_finished_at_ms s = s_finished_at_ms t" "s_started_at_ms s = s_started_at_ms t"
  using assms by (metis ses_core_sel)+

lemma ses_core_ses_core [simp]: "ses_core (ses_core s) = ses_core s"
  by (simp add: ses_core_def)

section \<open>Context updates\<close>

lemma upd_glob_frame [simp]:
  "c_ses (upd_glob f c) = c_ses c" "c_prepared (upd_glob f c) = c_prepared c"
  "c_glob (upd_glob f c) = f (c_glob c)" "get_branch (upd_glob f c) i = get_branch c i"
  by (simp_all add: ctx_defs)

lemma upd_view_frame [simp]:
  "c_glob (upd_view f c) = c_glob c" "c_prepared (upd_view f c) = c_prepared c"
  "s_view (c_ses (upd_view f c)) = f (s_view (c_ses c))"
  "cbranches (upd_view f c) = cbranches c" "get_branch (upd_view f c) i = get_branch c i"
  "s_scenario_flags (c_ses (upd_view f c)) = s_scenario_flags (c_ses c)"
  "ses_core (c_ses (upd_view f c)) = ses_core (c_ses c)"
  "s_last_change_lock_epoch (c_ses (upd_view f c)) = s_last_change_lock_epoch (c_ses c)"
  "s_session_generation (c_ses (upd_view f c)) = s_session_generation (c_ses c)"
  "s_scenario_last_error (c_ses (upd_view f c)) = s_scenario_last_error (c_ses c)"
  "s_scenario_operator_message (c_ses (upd_view f c)) = s_scenario_operator_message (c_ses c)"
  by (simp_all add: ctx_defs ses_core_def)

lemma upd_ses_frame [simp]:
  "c_glob (upd_ses f c) = c_glob c" "c_prepared (upd_ses f c) = c_prepared c"
  "c_ses (upd_ses f c) = f (c_ses c)"
  by (simp_all add: ctx_defs)

lemma upd_branch_frame [simp]:
  "c_glob (upd_branch i f c) = c_glob c" "c_prepared (upd_branch i f c) = c_prepared c"
  "s_view (c_ses (upd_branch i f c)) = s_view (c_ses c)"
  "s_scenario_flags (c_ses (upd_branch i f c)) = s_scenario_flags (c_ses c)"
  "ses_core (c_ses (upd_branch i f c)) = ses_core (c_ses c)"
  "s_last_change_lock_epoch (c_ses (upd_branch i f c)) = s_last_change_lock_epoch (c_ses c)"
  "s_session_generation (c_ses (upd_branch i f c)) = s_session_generation (c_ses c)"
  "s_scenario_last_error (c_ses (upd_branch i f c)) = s_scenario_last_error (c_ses c)"
  by (simp_all add: ctx_defs ses_core_def)

lemma cbranches_upd_branch [branch_simps]:
  "cbranches (upd_branch i f c) = (cbranches c)[i := f (cbranches c ! i)]"
  by (simp add: ctx_defs)

lemma length_upd_branch [simp]: "length (cbranches (upd_branch i f c)) = length (cbranches c)"
  by (simp add: branch_simps)

lemma get_branch_upd_branch [simp]:
  "i < length (cbranches c) \<Longrightarrow> get_branch (upd_branch i f c) i = f (get_branch c i)"
  "j \<noteq> i \<Longrightarrow> get_branch (upd_branch i f c) j = get_branch c j"
  by (simp_all add: ctx_defs)

lemma upd_branch_upd_branch [simp]:
  "upd_branch i f (upd_branch i g c) = upd_branch i (f \<circ> g) c"
  by (cases "i < length (cbranches c)") (simp_all add: ctx_defs list_update_beyond)

lemma upd_branch_view_upd_branch: "upd_branch_view i f = upd_branch i (\<lambda>b. b\<lparr>b_view := f (b_view b)\<rparr>)"
  by (rule ext) (simp add: upd_branch_view_def)

section \<open>Operations that do not touch the branch table\<close>

lemma mark_frame [simp]:
  "c_prepared (gm_room_session_mark_session_changed_locked c) = c_prepared c"
  "s_view (c_ses (gm_room_session_mark_session_changed_locked c)) = s_view (c_ses c)"
  "cbranches (gm_room_session_mark_session_changed_locked c) = cbranches c"
  "get_branch (gm_room_session_mark_session_changed_locked c) i = get_branch c i"
  "s_scenario_flags (c_ses (gm_room_session_mark_session_changed_locked c)) = s_scenario_flags (c_ses c)"
  "ses_core (c_ses (gm_room_session_mark_session_changed_locked c)) = ses_core (c_ses c)"
  "s_scenario_last_error (c_ses (gm_room_session_mark_session_changed_locked c)) =
     s_scenario_last_error (c_ses c)"
  "g_cancel_request_ids (c_glob (gm_room_session_mark_session_changed_locked c)) =
     g_cancel_request_ids (c_glob c)"
  "g_flag_events (c_glob (gm_room_session_mark_session_changed_locked c)) = g_flag_events (c_glob c)"
  by (simp_all add: gm_room_session_mark_session_changed_locked_def Let_def ses_core_def ctx_defs)

lemma clear_wait_frame [simp]:
  "c_prepared (gm_room_session_scenario_clear_wait_locked c) = c_prepared c"
  "s_view (c_ses (gm_room_session_scenario_clear_wait_locked c)) = clear_wait_fields (s_view (c_ses c))"
  "cbranches (gm_room_session_scenario_clear_wait_locked c) = cbranches c"
  "get_branch (gm_room_session_scenario_clear_wait_locked c) i = get_branch c i"
  "s_scenario_flags (c_ses (gm_room_session_scenario_clear_wait_locked c)) = s_scenario_flags (c_ses c)"
  "ses_core (c_ses (gm_room_session_scenario_clear_wait_locked c)) = ses_core (c_ses c)"
  "c_glob (gm_room_session_scenario_clear_wait_locked c) =
     cancel_pending_wait (s_view (c_ses c)) (c_glob c)"
  by (simp_all add: gm_room_session_scenario_clear_wait_locked_def)

lemma ses_core_upd [simp]:
  "ses_core (s\<lparr>s_scenario_last_error := m\<rparr>) = ses_core s"
  "ses_core (s\<lparr>s_scenario_operator_message := m\<rparr>) = ses_core s"
  "ses_core (s\<lparr>s_scenario_flags := fs\<rparr>) = ses_core s"
  "ses_core (s\<lparr>s_branch_runtimes := bs\<rparr>) = ses_core s"
  by (simp_all add: ses_core_def)

lemma get_branch_upd_ses [simp]:
  "get_branch (upd_ses (\<lambda>s. s\<lparr>s_scenario_last_error := m\<rparr>) c) i = get_branch c i"
  "get_branch (upd_ses (\<lambda>s. s\<lparr>s_scenario_operator_message := m\<rparr>) c) i = get_branch c i"
  "get_branch (upd_ses (\<lambda>s. s\<lparr>s_scenario_flags := fs\<rparr>) c) i = get_branch c i"
  by (simp_all add: ctx_defs)

lemma set_error_frame [simp]:
  "c_prepared (scenario_set_error_locked m c) = c_prepared c"
  "s_view (c_ses (scenario_set_error_locked m c)) =
     clear_wait_fields ((s_view (c_ses c))\<lparr>v_scenario_state := GM_ROOM_SCENARIO_ERROR\<rparr>)"
  "cbranches (scenario_set_error_locked m c) = cbranches c"
  "get_branch (scenario_set_error_locked m c) i = get_branch c i"
  "s_scenario_flags (c_ses (scenario_set_error_locked m c)) = s_scenario_flags (c_ses c)"
  "ses_core (c_ses (scenario_set_error_locked m c)) = ses_core (c_ses c)"
  "s_scenario_last_error (c_ses (scenario_set_error_locked m c)) = quest_str_copy 96 m"
  by (simp_all add: scenario_set_error_locked_def)

lemma begin_wait_frame [simp]:
  "c_prepared (begin_wait c) = c_prepared c"
  "s_view (c_ses (begin_wait c)) =
     clear_wait_fields ((s_view (c_ses c))\<lparr>v_scenario_state := GM_ROOM_SCENARIO_WAITING\<rparr>)"
  "cbranches (begin_wait c) = cbranches c" "get_branch (begin_wait c) i = get_branch c i"
  "s_scenario_flags (c_ses (begin_wait c)) = s_scenario_flags (c_ses c)"
  "ses_core (c_ses (begin_wait c)) = ses_core (c_ses c)"
  by (simp_all add: begin_wait_def)

lemma post_flag_frame [simp]:
  "c_prepared (snd (post_flag_changed_locked n v c)) = c_prepared c"
  "c_ses (snd (post_flag_changed_locked n v c)) = c_ses c"
  "get_branch (snd (post_flag_changed_locked n v c)) i = get_branch c i"
  by (simp_all add: post_flag_changed_locked_def Let_def split: option.split)

lemma set_flag_frame [simp]:
  "c_prepared (snd (scenario_set_flag_locked n v c)) = c_prepared c"
  "s_view (c_ses (snd (scenario_set_flag_locked n v c))) = s_view (c_ses c)"
  "cbranches (snd (scenario_set_flag_locked n v c)) = cbranches c"
  "get_branch (snd (scenario_set_flag_locked n v c)) i = get_branch c i"
  "ses_core (c_ses (snd (scenario_set_flag_locked n v c))) = ses_core (c_ses c)"
  by (simp_all add: scenario_set_flag_locked_def Let_def split: option.split)

lemma enter_wait_frame [simp]:
  "cbranches (snd (scenario_enter_wait_device_event_locked w r now c)) = cbranches c"
  "ses_core (c_ses (snd (scenario_enter_wait_device_event_locked w r now c))) = ses_core (c_ses c)"
  "c_prepared (snd (scenario_enter_wait_device_event_locked w r now c)) = c_prepared c"
  "cbranches (snd (enter_wait_event_group ty wg r now c)) = cbranches c"
  "ses_core (c_ses (snd (enter_wait_event_group ty wg r now c))) = ses_core (c_ses c)"
  "c_prepared (snd (enter_wait_event_group ty wg r now c)) = c_prepared c"
  "cbranches (snd (scenario_enter_wait_flags_locked wfl now c)) = cbranches c"
  "ses_core (c_ses (snd (scenario_enter_wait_flags_locked wfl now c))) = ses_core (c_ses c)"
  "c_prepared (snd (scenario_enter_wait_flags_locked wfl now c)) = c_prepared c"
  "s_scenario_flags (c_ses (snd (scenario_enter_wait_flags_locked wfl now c))) =
     s_scenario_flags (c_ses c)"
  by (simp_all add: scenario_enter_wait_device_event_locked_def enter_wait_event_group_def
      scenario_enter_wait_flags_locked_def Let_def split: option.split)

lemma enter_wait_result_frame [simp]:
  "cbranches (scenario_enter_wait_command_result_locked d now c) = cbranches c"
  "ses_core (c_ses (scenario_enter_wait_command_result_locked d now c)) = ses_core (c_ses c)"
  "c_prepared (scenario_enter_wait_command_result_locked d now c) = c_prepared c"
  by (simp_all add: scenario_enter_wait_command_result_locked_def)

lemma enter_dispatch_frame [simp]:
  "cbranches (scenario_enter_wait_command_dispatch_locked now c) = cbranches c"
  "get_branch (scenario_enter_wait_command_dispatch_locked now c) i = get_branch c i"
  "ses_core (c_ses (scenario_enter_wait_command_dispatch_locked now c)) = ses_core (c_ses c)"
  "c_prepared (scenario_enter_wait_command_dispatch_locked now c) = c_prepared c"
  by (simp_all add: scenario_enter_wait_command_dispatch_locked_def)

lemma set_flagD:
  assumes "scenario_set_flag_locked n v c = (e, c')"
  shows "cbranches c' = cbranches c" and "ses_core (c_ses c') = ses_core (c_ses c)"
    and "c_prepared c' = c_prepared c" and "s_view (c_ses c') = s_view (c_ses c)"
    and "get_branch c' i = get_branch c i"
  using set_flag_frame [of n v c] assms by simp_all

lemma enter_wait_flagsD:
  assumes "scenario_enter_wait_flags_locked w now c = (e, c')"
  shows "cbranches c' = cbranches c" and "ses_core (c_ses c') = ses_core (c_ses c)"
    and "c_prepared c' = c_prepared c" and "get_branch c' i = get_branch c i"
  using enter_wait_frame(7-9) [of w now c] assms by (simp_all add: get_branch_def)

lemma get_branch_cong: "cbranches c = cbranches d \<Longrightarrow> get_branch c i = get_branch d i"
  by (simp add: get_branch_def)

section \<open>Operations on one branch\<close>

lemma clear_fields_frame [simp]:
  "c_prepared (scenario_branch_clear_wait_fields i c) = c_prepared c"
  "s_view (c_ses (scenario_branch_clear_wait_fields i c)) = s_view (c_ses c)"
  "s_scenario_flags (c_ses (scenario_branch_clear_wait_fields i c)) = s_scenario_flags (c_ses c)"
  "ses_core (c_ses (scenario_branch_clear_wait_fields i c)) = ses_core (c_ses c)"
  "length (cbranches (scenario_branch_clear_wait_fields i c)) = length (cbranches c)"
  "c_glob (scenario_branch_clear_wait_fields i c) =
     cancel_pending_wait (b_view (get_branch c i)) (c_glob c)"
  by (simp_all add: scenario_branch_clear_wait_fields_def upd_branch_view_upd_branch)

lemma clear_fields_get_branch [simp]:
  "i < length (cbranches c) \<Longrightarrow> get_branch (scenario_branch_clear_wait_fields i c) i =
     (get_branch c i)\<lparr>b_view := clear_wait_fields (b_view (get_branch c i))\<rparr>"
  "j \<noteq> i \<Longrightarrow> get_branch (scenario_branch_clear_wait_fields i c) j = get_branch c j"
  by (simp_all add: scenario_branch_clear_wait_fields_def upd_branch_view_upd_branch)

lemma load_frame [simp]:
  "c_glob (gm_room_session_scenario_branch_load_into_session i c) = c_glob c"
  "c_prepared (gm_room_session_scenario_branch_load_into_session i c) = c_prepared c"
  "s_view (c_ses (gm_room_session_scenario_branch_load_into_session i c)) =
     mirror_copy (b_view (get_branch c i))"
  "cbranches (gm_room_session_scenario_branch_load_into_session i c) = cbranches c"
  "get_branch (gm_room_session_scenario_branch_load_into_session i c) j = get_branch c j"
  "s_scenario_flags (c_ses (gm_room_session_scenario_branch_load_into_session i c)) =
     s_scenario_flags (c_ses c)"
  "ses_core (c_ses (gm_room_session_scenario_branch_load_into_session i c)) = ses_core (c_ses c)"
  by (simp_all add: gm_room_session_scenario_branch_load_into_session_def)

lemma save_frame [simp]:
  "c_glob (gm_room_session_scenario_branch_save_from_session i c) = c_glob c"
  "c_prepared (gm_room_session_scenario_branch_save_from_session i c) = c_prepared c"
  "s_view (c_ses (gm_room_session_scenario_branch_save_from_session i c)) = s_view (c_ses c)"
  "length (cbranches (gm_room_session_scenario_branch_save_from_session i c)) = length (cbranches c)"
  "s_scenario_flags (c_ses (gm_room_session_scenario_branch_save_from_session i c)) =
     s_scenario_flags (c_ses c)"
  "ses_core (c_ses (gm_room_session_scenario_branch_save_from_session i c)) = ses_core (c_ses c)"
  by (simp_all add: gm_room_session_scenario_branch_save_from_session_def upd_branch_view_upd_branch)

lemma save_get_branch [simp]:
  "i < length (cbranches c) \<Longrightarrow>
   get_branch (gm_room_session_scenario_branch_save_from_session i c) i =
     (get_branch c i)\<lparr>b_view := mirror_copy (s_view (c_ses c))\<rparr>"
  "j \<noteq> i \<Longrightarrow> get_branch (gm_room_session_scenario_branch_save_from_session i c) j = get_branch c j"
  by (simp_all add: gm_room_session_scenario_branch_save_from_session_def upd_branch_view_upd_branch)

lemma mirror_copy_idem [simp]: "mirror_copy (mirror_copy v) = mirror_copy v"
  by (simp add: mirror_copy_def)

lemma mirror_copy_fields [simp]:
  "v_scenario_state (mirror_copy v) = v_scenario_state v"
  "v_current_step_index (mirror_copy v) = v_current_step_index v"
  "v_wait_type (mirror_copy v) = v_wait_type v"
  "v_wait_until_ms (mirror_copy v) = v_wait_until_ms v"
  "v_wait_events (mirror_copy v) = v_wait_events v"
  "v_wait_event_matched (mirror_copy v) = v_wait_event_matched v"
  "v_wait_flags (mirror_copy v) = v_wait_flags v"
  by (simp_all add: mirror_copy_def)

lemma clear_wait_fields_state [simp]:
  "v_scenario_state (clear_wait_fields v) = v_scenario_state v"
  "v_current_step_index (clear_wait_fields v) = v_current_step_index v"
  "v_wait_type (clear_wait_fields v) = WAIT_NONE"
  "v_wait_until_ms (clear_wait_fields v) = 0"
  by (simp_all add: clear_wait_fields_def)

lemma summary_frame [simp]:
  "c_glob (gm_room_session_scenario_update_summary_from_branches_locked c) = c_glob c"
  "c_prepared (gm_room_session_scenario_update_summary_from_branches_locked c) = c_prepared c"
  "cbranches (gm_room_session_scenario_update_summary_from_branches_locked c) = cbranches c"
  "get_branch (gm_room_session_scenario_update_summary_from_branches_locked c) j = get_branch c j"
  "s_scenario_flags (c_ses (gm_room_session_scenario_update_summary_from_branches_locked c)) =
     s_scenario_flags (c_ses c)"
  "ses_core (c_ses (gm_room_session_scenario_update_summary_from_branches_locked c)) =
     ses_core (c_ses c)"
  by (simp_all add: gm_room_session_scenario_update_summary_from_branches_locked_def Let_def
      split: option.split)

end
