(* ===== verification/Gm_Reactive.thy ===== *)
theory Gm_Reactive
  imports Gm_Event_Match Gm_Frame
begin

text \<open>
  Reactive branches (\<open>gm_core/session/gm_room_session_reactive_v2.c\<close>): a branch waits for its
  trigger, picks a variant by its policy and runs the actions of the variant.
\<close>

section \<open>Triggers\<close>

fun reactive_v2_action_timeout_action :: "step_data \<Rightarrow> wait_timeout_action" where
  "reactive_v2_action_timeout_action (STEP_WAIT_TIME w) = wt_timeout_action w"
| "reactive_v2_action_timeout_action (STEP_WAIT_DEVICE_EVENT w) = wde_timeout_action w"
| "reactive_v2_action_timeout_action (STEP_WAIT_ANY_DEVICE_EVENT w) = weg_timeout_action w"
| "reactive_v2_action_timeout_action (STEP_WAIT_ALL_DEVICE_EVENTS w) = weg_timeout_action w"
| "reactive_v2_action_timeout_action (STEP_WAIT_FLAGS w) = wf_timeout_action w"
| "reactive_v2_action_timeout_action _ = WAIT_TIMEOUT_CONTINUE"

definition reactive_v2_model_branch :: "gm_room_session \<Rightarrow> branch_runtime \<Rightarrow> scenario_branch option" where
  "reactive_v2_model_branch s b =
     (let bs = sc_branches (s_running_scenario s); i = unat (b_branch_index b) in
      if i \<ge> length bs then None
      else let model = bs ! i in
        if br_type model \<noteq> ROOM_SCENARIO_BRANCH_REACTIVE \<or>
           (br_variant_count model = 0 \<and> tr_kind (br_trigger model) = REACTIVE_TRIGGER_NONE)
        then None else Some model)"

definition gm_room_session_branch_is_reactive_v2 :: "gm_room_session \<Rightarrow> branch_runtime \<Rightarrow> bool" where
  "gm_room_session_branch_is_reactive_v2 s b \<longleftrightarrow> reactive_v2_model_branch s b \<noteq> None"

definition reactive_v2_get_flag :: "gm_room_session \<Rightarrow> string \<Rightarrow> bool option" where
  "reactive_v2_get_flag s name =
     (if name = [] then None
      else map_option (\<lambda>i. fl_value (s_scenario_flags s ! i))
             (find_index (\<lambda>f. fl_name f = name) (s_scenario_flags s)))"

definition reactive_v2_guards_match :: "gm_room_session \<Rightarrow> scenario_branch \<Rightarrow> bool" where
  "reactive_v2_guards_match s model =
     list_all (\<lambda>g. reactive_v2_get_flag s (fl_name g) = Some (fl_value g)) (br_guard_flags model)"

definition reactive_v2_event_id_matches :: "string \<Rightarrow> scenehub_event \<Rightarrow> bool" where
  "reactive_v2_event_id_matches expected message \<longleftrightarrow>
     expected \<noteq> [] \<and>
     (expected = ev_payload message \<or> expected = ev_topic message \<or>
      (case ev_data message of
         PAYLOAD_DEVICE_CONTROL d \<Rightarrow> expected = dc_action_id d
       | PAYLOAD_DEVICE_RUNTIME d \<Rightarrow> expected = dr_runtime_type d \<or> expected = dr_state d
       | PAYLOAD_DEVICE_STATUS d \<Rightarrow>
           expected = ds_state d \<or> expected = ds_health d \<or> expected = ds_connectivity d
       | PAYLOAD_TEXT \<Rightarrow> False))"

definition reactive_v2_device_event_match_single ::
  "wait_event_match \<Rightarrow> string \<Rightarrow> scenehub_event \<Rightarrow> bool" where
  "reactive_v2_device_event_match_single m alternate_event_type message \<longleftrightarrow>
     gm_room_session_wait_event_matches_message m message \<or>
     alternate_event_type \<noteq> [] \<and>
     gm_room_session_wait_event_matches_message
       (m\<lparr>wm_event_type := quest_str_copy ROOM_SCENARIO_EVENT_TYPE_MAX_LEN alternate_event_type\<rparr>)
       message"

definition reactive_v2_device_trigger_has_match :: "branch_runtime \<Rightarrow> scenehub_event \<Rightarrow> nat option" where
  "reactive_v2_device_trigger_has_match b message =
     (if \<not> b_trigger_resolved b then None
      else find_index (\<lambda>(m, alt). reactive_v2_device_event_match_single m alt message)
             (take ROOM_SCENARIO_WAIT_EVENT_GROUP_MAX_EVENTS
               (zip (b_trigger_matches b) (b_trigger_alt_event_types b))))"

definition reactive_v2_all_trigger_events_matched :: "branch_runtime \<Rightarrow> bool" where
  "reactive_v2_all_trigger_events_matched b \<longleftrightarrow> b_trigger_matches b \<noteq> [] \<and>
     list_all id (take ROOM_SCENARIO_WAIT_EVENT_GROUP_MAX_EVENTS (b_trigger_event_matched b))"

definition reactive_v2_all_trigger_events_matched_after :: "branch_runtime \<Rightarrow> nat \<Rightarrow> bool" where
  "reactive_v2_all_trigger_events_matched_after b match_index \<longleftrightarrow>
     b_trigger_matches b \<noteq> [] \<and> match_index < length (b_trigger_matches b) \<and>
     (\<forall>i < min (length (b_trigger_event_matched b)) ROOM_SCENARIO_WAIT_EVENT_GROUP_MAX_EVENTS.
        i = match_index \<or> b_trigger_event_matched b ! i)"

definition reactive_v2_clear_trigger_matches :: "branch_runtime \<Rightarrow> branch_runtime" where
  "reactive_v2_clear_trigger_matches b =
     b\<lparr>b_trigger_event_matched := map (\<lambda>_. False) (b_trigger_event_matched b)\<rparr>"

text \<open>The guards common to every trigger kind.\<close>

definition reactive_v2_may_fire :: "gm_room_session \<Rightarrow> branch_runtime \<Rightarrow> scenario_branch \<Rightarrow> bool" where
  "reactive_v2_may_fire s b model \<longleftrightarrow> b_active b \<and>
     \<not> (b_max_fire_count b > 0 \<and> b_fire_count b \<ge> b_max_fire_count b) \<and>
     reactive_v2_guards_match s model"

definition reactive_v2_trigger_event_matches_locked ::
  "nat \<Rightarrow> scenehub_event \<Rightarrow> bool \<Rightarrow> room_ctx \<Rightarrow> bool \<times> room_ctx" where
  "reactive_v2_trigger_event_matches_locked i message consume c =
     (let s = c_ses c; b = get_branch c i in
      case reactive_v2_model_branch s b of
        None \<Rightarrow> (False, c)
      | Some model \<Rightarrow>
        (if \<not> reactive_v2_may_fire s b model then (False, c)
         else if scenehub_event_is_device_control_result message then (False, c)
         else case tr_kind (br_trigger model) of
           REACTIVE_TRIGGER_DEVICE_EVENT \<Rightarrow>
             (reactive_v2_device_trigger_has_match b message \<noteq> None, c)
         | REACTIVE_TRIGGER_ANY_DEVICE_EVENTS \<Rightarrow>
             (reactive_v2_device_trigger_has_match b message \<noteq> None, c)
         | REACTIVE_TRIGGER_ALL_DEVICE_EVENTS \<Rightarrow>
             (case reactive_v2_device_trigger_has_match b message of
                None \<Rightarrow> (False, c)
              | Some m \<Rightarrow>
                  (if \<not> consume then (reactive_v2_all_trigger_events_matched_after b m, c)
                   else let c1 = gm_room_session_mark_session_changed_locked
                                   (upd_branch i (\<lambda>b. b\<lparr>b_trigger_event_matched :=
                                      (b_trigger_event_matched b)[m := True]\<rparr>) c)
                        in if \<not> reactive_v2_all_trigger_events_matched (get_branch c1 i)
                           then (False, c1)
                           else (True, upd_branch i reactive_v2_clear_trigger_matches c1)))
         | REACTIVE_TRIGGER_FLAG_CHANGED \<Rightarrow>
             (ev_type message = SCENEHUB_EVENT_FLAG_CHANGED \<and>
              reactive_v2_event_id_matches (tr_flag_name (br_trigger model)) message, c)
         | REACTIVE_TRIGGER_OPERATOR_EVENT \<Rightarrow>
             (ev_type message = SCENEHUB_EVENT_WEB_COMMAND \<and>
              reactive_v2_event_id_matches (tr_operator_event (br_trigger model)) message, c)
         | REACTIVE_TRIGGER_RUNTIME_EVENT \<Rightarrow>
             (ev_type message = SCENEHUB_EVENT_RUNTIME_CONTROL \<and>
              reactive_v2_event_id_matches (tr_runtime_event (br_trigger model)) message, c)
         | REACTIVE_TRIGGER_NONE \<Rightarrow> (False, c)))"

definition gm_room_session_reactive_v2_consume_trigger_event_locked ::
  "nat \<Rightarrow> scenehub_event \<Rightarrow> room_ctx \<Rightarrow> bool \<times> room_ctx" where
  "gm_room_session_reactive_v2_consume_trigger_event_locked i message c =
     reactive_v2_trigger_event_matches_locked i message True c"

definition gm_room_session_reactive_v2_matches_event ::
  "nat \<Rightarrow> scenehub_event \<Rightarrow> room_ctx \<Rightarrow> bool" where
  "gm_room_session_reactive_v2_matches_event i message c =
     fst (reactive_v2_trigger_event_matches_locked i message False c)"

section \<open>Variants\<close>

definition reactive_v2_select_variant ::
  "scenario_branch \<Rightarrow> branch_runtime \<Rightarrow> gm_globals \<Rightarrow> u8 \<times> branch_runtime \<times> gm_globals" where
  "reactive_v2_select_variant model b g =
     (let count = br_variant_count model in
      if count = 0 then (0, b, g)
      else case br_policy_mode model of
        REACTIVE_POLICY_ROTATE \<Rightarrow>
          (let selected = b_policy_cursor b mod count
           in (selected, b\<lparr>b_policy_cursor := of_nat ((unat selected + 1) mod unat count)\<rparr>, g))
      | REACTIVE_POLICY_ESCALATE \<Rightarrow>
          (let selected = (if b_policy_stage b \<ge> count then count - 1 else b_policy_stage b)
           in (selected, b\<lparr>b_policy_stage :=
                 (if unat selected + 1 < unat count then selected + 1 else selected)\<rparr>, g))
      | REACTIVE_POLICY_RANDOM \<Rightarrow>
          (ucast (g_random g (g_random_pos g) mod ucast count), b,
           g\<lparr>g_random_pos := Suc (g_random_pos g)\<rparr>)
      | REACTIVE_POLICY_SINGLE \<Rightarrow> (0, b, g))"

section \<open>Finishing, failing and resetting a reaction\<close>

definition set_operator_message :: "string \<Rightarrow> room_ctx \<Rightarrow> room_ctx" where
  "set_operator_message m c = upd_ses (\<lambda>s. s\<lparr>s_scenario_operator_message :=
     quest_str_copy ROOM_SCENARIO_OPERATOR_MESSAGE_MAX_LEN m\<rparr>) c"

fun apply_completion_actions :: "reactive_action list \<Rightarrow> room_ctx \<Rightarrow> esp_err \<times> room_ctx" where
  "apply_completion_actions [] c = (ESP_OK, c)"
| "apply_completion_actions (a # as) c =
     (case ra_data a of
        STEP_SET_FLAG f \<Rightarrow>
          (let (err, c1) = scenario_set_flag_locked (fl_name f) (fl_value f) c
           in if err \<noteq> ESP_OK then (err, c1) else apply_completion_actions as c1)
      | STEP_SHOW_OPERATOR_MESSAGE m \<Rightarrow> apply_completion_actions as (set_operator_message m c)
      | _ \<Rightarrow> apply_completion_actions as c)"

definition reactive_v2_apply_completion_locked ::
  "scenario_branch \<Rightarrow> room_ctx \<Rightarrow> esp_err \<times> room_ctx" where
  "reactive_v2_apply_completion_locked model c =
     (let actions = sc_reactive_actions (s_running_scenario (c_ses c));
          start = unat (br_on_complete_action_start_index model);
          n = unat (br_on_complete_action_count model)
      in if start + n > length actions then (ESP_ERR_INVALID_ARG, c)
         else apply_completion_actions (take n (drop start actions)) c)"

text \<open>What a finished reaction does: return, or run the queued trigger.\<close>

datatype finish_outcome = Finish_Return esp_err room_ctx | Finish_Refire room_ctx

definition reset_reaction_range :: "branch_runtime \<Rightarrow> branch_runtime" where
  "reset_reaction_range b = b\<lparr>b_reactive_action_start_index := 0, b_reactive_action_count := 0,
     b_reactive_current_action := 0\<rparr>"

definition set_branch_state :: "gm_room_scenario_state \<Rightarrow> branch_runtime \<Rightarrow> branch_runtime" where
  "set_branch_state st b = b\<lparr>b_view := (b_view b)\<lparr>v_scenario_state := st\<rparr>\<rparr>"

definition finish_outcome_of ::
  "nat \<Rightarrow> scenario_branch \<Rightarrow> u32 \<Rightarrow> room_ctx \<Rightarrow> finish_outcome" where
  "finish_outcome_of i model now_ms c =
     (let (err, c1) = reactive_v2_apply_completion_locked model c in
      if err \<noteq> ESP_OK
      then Finish_Return err (scenario_set_error_locked ''reactive_on_complete_failed'' c1)
      else let c2 = upd_branch i reset_reaction_range c1; b = get_branch c2 i in
        if b_max_fire_count b > 0 \<and> b_fire_count b \<ge> b_max_fire_count b
        then Finish_Return ESP_OK (gm_room_session_mark_session_changed_locked
               (scenario_branch_clear_wait_fields i
                 (upd_branch i (\<lambda>b. (set_branch_state GM_ROOM_SCENARIO_DONE b)
                                      \<lparr>b_pending_trigger := False\<rparr>) c2)))
        else let run_pending = (b_pending_trigger b \<and>
                     (b_cooldown_until_ms b = 0 \<or> scenario_time_reached now_ms (b_cooldown_until_ms b)));
                 c3 = upd_branch i (\<lambda>b. b\<lparr>b_pending_trigger := False\<rparr>) c2
             in if run_pending
                then Finish_Refire (gm_room_session_mark_session_changed_locked
                       (scenario_branch_clear_wait_fields i
                         (upd_branch i (\<lambda>b. (set_branch_state GM_ROOM_SCENARIO_WAITING b)
                                              \<lparr>b_cooldown_until_ms := 0\<rparr>) c3)))
                else Finish_Return ESP_OK (gm_room_session_mark_session_changed_locked
                       (scenario_branch_clear_wait_fields i
                         (upd_branch i reactive_v2_clear_trigger_matches
                           (upd_branch i (\<lambda>b.
                              if b_cooldown_until_ms b > 0 \<and>
                                 \<not> scenario_time_reached now_ms (b_cooldown_until_ms b)
                              then set_branch_state GM_ROOM_SCENARIO_COOLDOWN b
                              else (set_branch_state GM_ROOM_SCENARIO_WAITING b)
                                     \<lparr>b_cooldown_until_ms := 0\<rparr>) c3)))))"

definition reactive_v2_fail_reaction_locked :: "nat \<Rightarrow> string \<Rightarrow> room_ctx \<Rightarrow> room_ctx" where
  "reactive_v2_fail_reaction_locked i message c =
     gm_room_session_mark_session_changed_locked
       (upd_ses (\<lambda>s. s\<lparr>s_scenario_last_error := quest_str_copy 96 message\<rparr>)
         (scenario_branch_clear_wait_fields i
           (upd_branch i (\<lambda>b. reset_reaction_range (set_branch_state GM_ROOM_SCENARIO_ERROR b)) c)))"

definition reactive_v2_reset_reaction_locked :: "nat \<Rightarrow> room_ctx \<Rightarrow> room_ctx" where
  "reactive_v2_reset_reaction_locked i c =
     gm_room_session_mark_session_changed_locked
       (scenario_branch_clear_wait_fields i
         (upd_branch i (\<lambda>b. reactive_v2_clear_trigger_matches
           ((reset_reaction_range b)\<lparr>
              b_view := (b_view b)\<lparr>v_scenario_state := GM_ROOM_SCENARIO_WAITING,
                                   v_current_step_index := b_step_start_index b\<rparr>,
              b_cooldown_until_ms := 0, b_pending_trigger := False, b_policy_cursor := 0,
              b_policy_stage := 0, b_fire_count := 0, b_fired_once := False\<rparr>)) c))"

section \<open>Running the actions\<close>

definition GM_REACTIVE_V2_MAX_ACTIONS_PER_TICK :: nat where
  "GM_REACTIVE_V2_MAX_ACTIONS_PER_TICK = 8"

text \<open>One action either lets the loop go on or returns from it.\<close>

datatype action_outcome = Action_Next room_ctx | Action_Return esp_err command_plan room_ctx

definition reactive_error :: "esp_err \<Rightarrow> command_plan \<Rightarrow> string \<Rightarrow> room_ctx \<Rightarrow> action_outcome" where
  "reactive_error err plan message c = Action_Return err plan (scenario_set_error_locked message c)"

definition reactive_plan_action :: "nat \<Rightarrow> reactive_action \<Rightarrow> string \<Rightarrow> u32 \<Rightarrow> room_ctx \<Rightarrow> action_outcome" where
  "reactive_plan_action i action fallback now_ms c =
     (let (err, command_error, plan, c1) =
            gm_room_session_plan_reactive_action_command_locked i action now_ms c
      in if err \<noteq> ESP_OK
         then reactive_error err plan (if command_error \<noteq> [] then command_error else fallback) c1
         else Action_Return ESP_OK plan (gm_room_session_scenario_branch_save_from_session i c1))"

text \<open>
  The waits for device events share their shape; the prepared catalogue of the session's slot
  always exists.
\<close>

definition reactive_event_wait_action ::
  "nat \<Rightarrow> nat \<Rightarrow> (wait_resolution option \<Rightarrow> room_ctx \<Rightarrow> esp_err \<times> room_ctx) \<Rightarrow> string \<Rightarrow> string \<Rightarrow>
   room_ctx \<Rightarrow> action_outcome" where
  "reactive_event_wait_action i index enter resolve_failed enter_failed c =
     (case gm_room_session_expand_prepared_wait_resolution (c_prepared c)
             (prepared_at (ps_reactive_action_waits (c_prepared c)) index) of
        Inl err \<Rightarrow> reactive_error err gm_room_session_command_plan_clear resolve_failed c
      | Inr resolution \<Rightarrow>
          (let (err, c1) = enter (Some resolution) c
           in if err \<noteq> ESP_OK
              then reactive_error err gm_room_session_command_plan_clear enter_failed c1
              else Action_Return ESP_OK gm_room_session_command_plan_clear
                     (gm_room_session_scenario_branch_save_from_session i c1)))"

definition next_action :: "branch_runtime \<Rightarrow> branch_runtime" where
  "next_action b = b\<lparr>b_reactive_current_action := b_reactive_current_action b + 1\<rparr>"

definition reactive_action_step :: "nat \<Rightarrow> u32 \<Rightarrow> room_ctx \<Rightarrow> action_outcome" where
  "reactive_action_step i now_ms c =
     (let actions = sc_reactive_actions (s_running_scenario (c_ses c));
          index = reactive_action_index (get_branch c i);
          no_plan = gm_room_session_command_plan_clear
      in if index \<ge> length actions
         then reactive_error ESP_ERR_INVALID_ARG no_plan ''reactive_action_range_invalid'' c
         else let action = actions ! index in
           case ra_data action of
             STEP_DEVICE_COMMAND _ \<Rightarrow>
               reactive_plan_action i action ''reactive_device_command_failed'' now_ms c
           | STEP_DEVICE_COMMAND_GROUP _ \<Rightarrow>
               reactive_plan_action i action ''reactive_device_command_group_failed'' now_ms c
           | STEP_WAIT_TIME w \<Rightarrow>
               Action_Return ESP_OK no_plan (gm_room_session_mark_session_changed_locked
                 (upd_branch_view i (\<lambda>v. v\<lparr>v_scenario_state := GM_ROOM_SCENARIO_WAITING,
                    v_wait_type := WAIT_TIME, v_wait_started_at_ms := now_ms,
                    v_wait_until_ms := now_ms + wt_duration_ms w\<rparr>) c))
           | STEP_WAIT_DEVICE_EVENT w \<Rightarrow>
               reactive_event_wait_action i index
                 (\<lambda>r. scenario_enter_wait_device_event_locked w r now_ms)
                 ''reactive_wait_device_event_resolve_failed'' ''reactive_wait_device_event_failed'' c
           | STEP_WAIT_ANY_DEVICE_EVENT w \<Rightarrow>
               reactive_event_wait_action i index
                 (\<lambda>r. scenario_enter_wait_any_device_event_locked w r now_ms)
                 ''reactive_wait_any_device_event_resolve_failed''
                 ''reactive_wait_any_device_event_failed'' c
           | STEP_WAIT_ALL_DEVICE_EVENTS w \<Rightarrow>
               reactive_event_wait_action i index
                 (\<lambda>r. scenario_enter_wait_all_device_events_locked w r now_ms)
                 ''reactive_wait_all_device_events_resolve_failed''
                 ''reactive_wait_all_device_events_failed'' c
           | STEP_WAIT_FLAGS w \<Rightarrow>
               (let (err, c1) = scenario_enter_wait_flags_locked w now_ms c
                in if err \<noteq> ESP_OK then reactive_error err no_plan ''reactive_wait_flags_failed'' c1
                   else if scenario_wait_flags_met_locked (c_ses c1)
                   then Action_Next (gm_room_session_mark_session_changed_locked
                          (scenario_branch_clear_wait_fields i
                            (upd_branch i (\<lambda>b. set_branch_state GM_ROOM_SCENARIO_RUNNING
                                                 (next_action b)) c1)))
                   else Action_Return ESP_OK no_plan
                          (gm_room_session_scenario_branch_save_from_session i c1))
           | STEP_SET_FLAG f \<Rightarrow>
               (let (err, c1) = scenario_set_flag_locked (fl_name f) (fl_value f) c
                in if err \<noteq> ESP_OK then reactive_error err no_plan ''reactive_set_flag_failed'' c1
                   else Action_Next (upd_branch i next_action c1))
           | STEP_SHOW_OPERATOR_MESSAGE m \<Rightarrow>
               Action_Next (upd_branch i next_action (set_operator_message m c))
           | STEP_FAIL_REACTION \<Rightarrow>
               Action_Return ESP_OK no_plan
                 (reactive_v2_fail_reaction_locked i ''reactive_failed_by_action'' c)
           | STEP_RESET_REACTION \<Rightarrow>
               Action_Return ESP_OK no_plan (reactive_v2_reset_reaction_locked i c)
           | _ \<Rightarrow> reactive_error ESP_ERR_NOT_SUPPORTED no_plan ''reactive_action_unsupported'' c)"

text \<open>The loop; it ends by returning, by running out of its budget or by finishing the reaction.\<close>

datatype loop_outcome = Loop_Finish room_ctx | Loop_Return esp_err command_plan room_ctx

fun reactive_actions_loop :: "nat \<Rightarrow> nat \<Rightarrow> u32 \<Rightarrow> room_ctx \<Rightarrow> loop_outcome" where
  "reactive_actions_loop 0 i now_ms c =
     Loop_Return ESP_OK gm_room_session_command_plan_clear
       (gm_room_session_mark_session_changed_locked c)"
| "reactive_actions_loop (Suc budget) i now_ms c =
     (if b_reactive_current_action (get_branch c i) \<ge> b_reactive_action_count (get_branch c i)
      then Loop_Finish c
      else case reactive_action_step i now_ms c of
             Action_Return err plan c1 \<Rightarrow> Loop_Return err plan c1
           | Action_Next c1 \<Rightarrow> reactive_actions_loop budget i now_ms c1)"

section \<open>Firing\<close>

text \<open>
  The part of firing before the actions run: refuse, queue the trigger, or start a variant.  An
  index outside the branch table stands for the null branch.
\<close>

datatype fire_outcome = Fire_Return esp_err room_ctx | Fire_Run room_ctx

definition start_variant :: "reactive_variant \<Rightarrow> u8 \<Rightarrow> u32 \<Rightarrow> branch_runtime \<Rightarrow> branch_runtime" where
  "start_variant variant variant_index now_ms b = reactive_v2_clear_trigger_matches
     ((set_branch_state GM_ROOM_SCENARIO_RUNNING b)\<lparr>
        b_last_variant_index := variant_index,
        b_reactive_action_start_index := rv_action_start_index variant,
        b_reactive_action_count := rv_action_count variant,
        b_reactive_current_action := 0,
        b_pending_trigger := False,
        b_fire_count := b_fire_count b + 1,
        b_fired_once := True,
        b_cooldown_until_ms := (if b_cooldown_ms b > 0 then now_ms + b_cooldown_ms b else 0)\<rparr>)"

definition fire_outcome_of :: "nat \<Rightarrow> u32 \<Rightarrow> room_ctx \<Rightarrow> fire_outcome" where
  "fire_outcome_of i now_ms c =
     (let s = c_ses c; b = get_branch c i; variants = sc_reactive_variants (s_running_scenario s) in
      if i \<ge> length (s_branch_runtimes s) then Fire_Return ESP_ERR_INVALID_ARG c
      else case reactive_v2_model_branch s b of
        None \<Rightarrow> Fire_Return ESP_ERR_INVALID_ARG c
      | Some model \<Rightarrow>
        (if \<not> b_active b \<or> br_variant_count model = 0 \<or>
            unat (br_variant_start_index model) + unat (br_variant_count model) > length variants
         then Fire_Return ESP_ERR_INVALID_ARG c
         else if b_max_fire_count b > 0 \<and> b_fire_count b \<ge> b_max_fire_count b
         then Fire_Return ESP_ERR_INVALID_STATE c
         else if v_scenario_state (b_view b) \<noteq> GM_ROOM_SCENARIO_WAITING \<or>
                 v_wait_type (b_view b) \<noteq> WAIT_NONE \<or>
                 (b_cooldown_until_ms b > 0 \<and> \<not> scenario_time_reached now_ms (b_cooldown_until_ms b))
         then Fire_Return ESP_OK
                (if v_scenario_state (b_view b) \<noteq> GM_ROOM_SCENARIO_COOLDOWN \<and>
                    b_reentry_mode b = ROOM_SCENARIO_REENTRY_QUEUE_ONE
                 then gm_room_session_mark_session_changed_locked
                        (upd_branch i (\<lambda>b. b\<lparr>b_pending_trigger := True\<rparr>) c)
                 else c)
         else let (variant_index, b1, g1) = reactive_v2_select_variant model b (c_glob c);
                  variant = variants ! (unat (br_variant_start_index model) + unat variant_index);
                  c1 = upd_glob (\<lambda>_. g1) (upd_branch i (\<lambda>_. b1) c)
              in Fire_Run (gm_room_session_mark_session_changed_locked
                   (scenario_branch_clear_wait_fields i
                     (upd_branch i (start_variant variant variant_index now_ms) c1)))))"

text \<open>
  Finishing may fire again and firing may finish.  The recursion ends because firing forgets the
  queued trigger and no action queues one.
\<close>

lemma completion_frame:
  "cbranches (snd (apply_completion_actions as c)) = cbranches c \<and>
   ses_core (c_ses (snd (apply_completion_actions as c))) = ses_core (c_ses c) \<and>
   c_prepared (snd (apply_completion_actions as c)) = c_prepared c"
proof (induction as arbitrary: c)
  case (Cons a as)
  show ?case
  proof (cases "ra_data a")
    case (STEP_SET_FLAG f)
    obtain err c1 where sf: "scenario_set_flag_locked (fl_name f) (fl_value f) c = (err, c1)"
      by force
    show ?thesis using Cons.IH [of c1] set_flagD [OF sf] by (simp add: STEP_SET_FLAG sf)
  qed (simp_all add: Cons.IH set_operator_message_def)
qed simp

lemma apply_completion_frame [simp]:
  "cbranches (snd (reactive_v2_apply_completion_locked m c)) = cbranches c"
  "ses_core (c_ses (snd (reactive_v2_apply_completion_locked m c))) = ses_core (c_ses c)"
  "c_prepared (snd (reactive_v2_apply_completion_locked m c)) = c_prepared c"
  by (simp_all add: reactive_v2_apply_completion_locked_def Let_def completion_frame)

lemma branch_field_simps [simp]:
  "b_pending_trigger (set_branch_state st b) = b_pending_trigger b"
  "b_pending_trigger (next_action b) = b_pending_trigger b"
  "b_pending_trigger (reset_reaction_range b) = b_pending_trigger b"
  "b_pending_trigger (start_variant var vi now b) = False"
  "b_branch_index (set_branch_state st b) = b_branch_index b"
  "b_branch_index (next_action b) = b_branch_index b"
  "b_branch_index (reset_reaction_range b) = b_branch_index b"
  "b_branch_index (start_variant var vi now b) = b_branch_index b"
  "b_active (set_branch_state st b) = b_active b"
  "b_active (next_action b) = b_active b"
  "b_active (reset_reaction_range b) = b_active b"
  "b_active (start_variant var vi now b) = b_active b"
  by (simp_all add: set_branch_state_def next_action_def reset_reaction_range_def start_variant_def
      reactive_v2_clear_trigger_matches_def)

lemma set_operator_message_frame [simp]:
  "cbranches (set_operator_message m c) = cbranches c"
  "get_branch (set_operator_message m c) i = get_branch c i"
  "ses_core (c_ses (set_operator_message m c)) = ses_core (c_ses c)"
  "c_prepared (set_operator_message m c) = c_prepared c"
  "c_glob (set_operator_message m c) = c_glob c"
  "s_view (c_ses (set_operator_message m c)) = s_view (c_ses c)"
  by (simp_all add: set_operator_message_def)

lemma action_step_next:
  assumes "reactive_action_step i now c = Action_Next c'" and "i < length (cbranches c)"
  shows "length (cbranches c') = length (cbranches c)"
    and "b_pending_trigger (get_branch c' i) = b_pending_trigger (get_branch c i)"
    and "ses_core (c_ses c') = ses_core (c_ses c)"
proof -
  let ?P = "length (cbranches c') = length (cbranches c) \<and>
    b_pending_trigger (get_branch c' i) = b_pending_trigger (get_branch c i) \<and>
    ses_core (c_ses c') = ses_core (c_ses c)"
  let ?a = "sc_reactive_actions (s_running_scenario (c_ses c)) ! reactive_action_index (get_branch c i)"
  have idx: "\<not> reactive_action_index (get_branch c i)
      \<ge> length (sc_reactive_actions (s_running_scenario (c_ses c)))"
    using assms(1) by (auto simp: reactive_action_step_def Let_def reactive_error_def)
  note step = assms(1) [unfolded reactive_action_step_def Let_def, simplified idx if_False]
  have ?P
  proof (cases "ra_data ?a")
    case (STEP_WAIT_FLAGS w)
    obtain e d where d: "scenario_enter_wait_flags_locked w now c = (e, d)" by force
    show ?thesis
      using step assms(2) enter_wait_flagsD [OF d]
      by (auto simp: STEP_WAIT_FLAGS d reactive_error_def split: if_splits)
  next
    case (STEP_SET_FLAG f)
    obtain e d where d: "scenario_set_flag_locked (fl_name f) (fl_value f) c = (e, d)" by force
    show ?thesis
      using step assms(2) set_flagD [OF d]
      by (auto simp: STEP_SET_FLAG d reactive_error_def split: if_splits)
  qed (use step assms(2) in \<open>auto simp: reactive_error_def reactive_plan_action_def
        reactive_event_wait_action_def Let_def split: prod.splits if_splits sum.splits\<close>)
  then show "length (cbranches c') = length (cbranches c)"
    "b_pending_trigger (get_branch c' i) = b_pending_trigger (get_branch c i)"
    "ses_core (c_ses c') = ses_core (c_ses c)" by simp_all
qed

lemma actions_loop_finish:
  "reactive_actions_loop n i now c = Loop_Finish c' \<Longrightarrow> i < length (cbranches c) \<Longrightarrow>
   length (cbranches c') = length (cbranches c) \<and>
   b_pending_trigger (get_branch c' i) = b_pending_trigger (get_branch c i)"
proof (induction n i now c rule: reactive_actions_loop.induct)
  case (2 budget i now c)
  show ?case
  proof (cases "b_reactive_action_count (get_branch c i) \<le> b_reactive_current_action (get_branch c i)")
    case True
    then show ?thesis using 2 by simp
  next
    case False
    then obtain c1 where c1: "reactive_action_step i now c = Action_Next c1"
      using "2.prems" by (auto split: action_outcome.splits)
    show ?thesis
      using action_step_next [OF c1 "2.prems"(2)] "2.IH" [OF False c1] "2.prems" False c1 by simp
  qed
qed simp

lemma finish_refire_pending:
  assumes "finish_outcome_of i model now c = Finish_Refire c'"
  shows "b_pending_trigger (get_branch c i)"
proof (rule ccontr)
  assume np: "\<not> b_pending_trigger (get_branch c i)"
  define d where "d = snd (reactive_v2_apply_completion_locked model c)"
  have gb: "get_branch d i = get_branch c i" by (simp add: d_def get_branch_def)
  have "\<not> b_pending_trigger (get_branch (upd_branch i reset_reaction_range d) i)"
    using np gb by (cases "i < length (cbranches d)") (simp_all add: ctx_defs list_update_beyond)
  then show False
    using assms
    by (auto simp: finish_outcome_of_def Let_def d_def split: prod.splits if_splits)
qed

lemma fire_run_not_pending:
  assumes "fire_outcome_of i now c = Fire_Run c'"
  shows "i < length (cbranches c')" and "\<not> b_pending_trigger (get_branch c' i)"
  using assms
  by (auto simp: fire_outcome_of_def Let_def split: if_splits option.splits prod.splits)

function gm_room_session_reactive_v2_fire_locked ::
  "nat \<Rightarrow> u32 \<Rightarrow> command_plan \<Rightarrow> room_ctx \<Rightarrow> esp_err \<times> command_plan \<times> room_ctx" where
  "gm_room_session_reactive_v2_fire_locked i now_ms out_plan c =
     (case fire_outcome_of i now_ms c of
        Fire_Return err c1 \<Rightarrow> (err, out_plan, c1)
      | Fire_Run c1 \<Rightarrow>
          (case reactive_v2_model_branch (c_ses c1) (get_branch c1 i) of
             None \<Rightarrow> (ESP_ERR_INVALID_ARG, out_plan, c1)
           | Some model \<Rightarrow>
               (if \<not> b_active (get_branch c1 i) then (ESP_ERR_INVALID_ARG, out_plan, c1)
                else case reactive_actions_loop GM_REACTIVE_V2_MAX_ACTIONS_PER_TICK i now_ms c1 of
                       Loop_Return err plan c2 \<Rightarrow> (err, plan, c2)
                     | Loop_Finish c2 \<Rightarrow>
                         (case finish_outcome_of i model now_ms c2 of
                            Finish_Return err c3 \<Rightarrow> (err, gm_room_session_command_plan_clear, c3)
                          | Finish_Refire c3 \<Rightarrow>
                              gm_room_session_reactive_v2_fire_locked i now_ms
                                gm_room_session_command_plan_clear c3))))"
  by pat_completeness auto
termination
proof (relation "{}")
  fix i :: nat and now_ms :: u32 and out_plan :: command_plan and c c1 model c2 c3
  assume a: "fire_outcome_of i now_ms c = Fire_Run c1"
    "reactive_actions_loop GM_REACTIVE_V2_MAX_ACTIONS_PER_TICK i now_ms c1 = Loop_Finish c2"
    "finish_outcome_of i model now_ms c2 = Finish_Refire c3"
  have "\<not> b_pending_trigger (get_branch c2 i)"
    using actions_loop_finish [OF a(2)] fire_run_not_pending [OF a(1)] by simp
  with finish_refire_pending [OF a(3)]
  show "((i, now_ms, gm_room_session_command_plan_clear, c3), (i, now_ms, out_plan, c)) \<in> {}"
    by simp
qed simp

declare gm_room_session_reactive_v2_fire_locked.simps [simp del]

definition reactive_v2_finish_locked ::
  "nat \<Rightarrow> scenario_branch \<Rightarrow> u32 \<Rightarrow> command_plan \<Rightarrow> room_ctx \<Rightarrow> esp_err \<times> command_plan \<times> room_ctx" where
  "reactive_v2_finish_locked i model now_ms out_plan c =
     (case finish_outcome_of i model now_ms c of
        Finish_Return err c1 \<Rightarrow> (err, out_plan, c1)
      | Finish_Refire c1 \<Rightarrow> gm_room_session_reactive_v2_fire_locked i now_ms out_plan c1)"

definition gm_room_session_reactive_v2_continue_locked ::
  "nat \<Rightarrow> u32 \<Rightarrow> command_plan \<Rightarrow> room_ctx \<Rightarrow> esp_err \<times> command_plan \<times> room_ctx" where
  "gm_room_session_reactive_v2_continue_locked i now_ms out_plan c =
     (case reactive_v2_model_branch (c_ses c) (get_branch c i) of
        None \<Rightarrow> (ESP_ERR_INVALID_ARG, out_plan, c)
      | Some model \<Rightarrow>
          (if \<not> b_active (get_branch c i) then (ESP_ERR_INVALID_ARG, out_plan, c)
           else case reactive_actions_loop GM_REACTIVE_V2_MAX_ACTIONS_PER_TICK i now_ms c of
                  Loop_Return err plan c1 \<Rightarrow> (err, plan, c1)
                | Loop_Finish c1 \<Rightarrow>
                    reactive_v2_finish_locked i model now_ms gm_room_session_command_plan_clear c1))"

text \<open>Firing is starting a variant followed by \<open>continue\<close>, as the source has it.\<close>

lemma fire_locked_eq:
  "gm_room_session_reactive_v2_fire_locked i now_ms out_plan c =
     (case fire_outcome_of i now_ms c of
        Fire_Return err c1 \<Rightarrow> (err, out_plan, c1)
      | Fire_Run c1 \<Rightarrow> gm_room_session_reactive_v2_continue_locked i now_ms out_plan c1)"
  by (subst gm_room_session_reactive_v2_fire_locked.simps)
    (simp add: gm_room_session_reactive_v2_continue_locked_def reactive_v2_finish_locked_def
      split: fire_outcome.split option.split loop_outcome.split)

section \<open>Timeouts and results\<close>

definition resume_reaction :: "nat \<Rightarrow> room_ctx \<Rightarrow> room_ctx" where
  "resume_reaction i c = scenario_branch_clear_wait_fields i
     (upd_branch i (\<lambda>b. set_branch_state GM_ROOM_SCENARIO_RUNNING (next_action b)) c)"

definition gm_room_session_reactive_v2_apply_wait_timeout_locked ::
  "nat \<Rightarrow> reactive_action \<Rightarrow> u32 \<Rightarrow> command_plan \<Rightarrow> room_ctx \<Rightarrow> esp_err \<times> command_plan \<times> room_ctx" where
  "gm_room_session_reactive_v2_apply_wait_timeout_locked i action now_ms out_plan c =
     (case reactive_v2_action_timeout_action (ra_data action) of
        WAIT_TIMEOUT_FAIL_REACTION \<Rightarrow>
          (ESP_OK, out_plan, reactive_v2_fail_reaction_locked i ''reactive_wait_timeout_failed'' c)
      | WAIT_TIMEOUT_RESET_REACTION \<Rightarrow> (ESP_OK, out_plan, reactive_v2_reset_reaction_locked i c)
      | WAIT_TIMEOUT_CONTINUE \<Rightarrow>
          gm_room_session_reactive_v2_continue_locked i now_ms out_plan (resume_reaction i c))"

definition reactive_v2_apply_result_policy_locked ::
  "nat \<Rightarrow> scenario_branch \<Rightarrow> reactive_result_action \<Rightarrow> u32 \<Rightarrow> string \<Rightarrow> command_plan \<Rightarrow> room_ctx \<Rightarrow>
   esp_err \<times> command_plan \<times> room_ctx" where
  "reactive_v2_apply_result_policy_locked i model action now_ms message out_plan c =
     (let fail = (\<lambda>m c. (ESP_OK, out_plan, reactive_v2_fail_reaction_locked i m c)) in
      case action of
        REACTIVE_RESULT_CONTINUE \<Rightarrow> reactive_v2_finish_locked i model now_ms out_plan c
      | REACTIVE_RESULT_SET_FLAG \<Rightarrow>
          (if br_result_flag model = [] then fail ''reactive_result_flag_empty'' c
           else let (err, c1) = scenario_set_flag_locked (br_result_flag model) True c
                in if err \<noteq> ESP_OK then fail ''reactive_result_set_flag_failed'' c1
                   else reactive_v2_finish_locked i model now_ms out_plan c1)
      | REACTIVE_RESULT_FAIL_SCENARIO \<Rightarrow>
          (ESP_OK, out_plan, gm_room_session_mark_session_changed_locked
            (scenario_branch_clear_wait_fields i
              (upd_branch i (\<lambda>b. reset_reaction_range (set_branch_state GM_ROOM_SCENARIO_ERROR b))
                (scenario_set_error_locked message c))))
      | REACTIVE_RESULT_RETRY \<Rightarrow> fail ''reactive_retry_unsupported'' c
      | REACTIVE_RESULT_FAIL_REACTION \<Rightarrow> fail message c)"

definition gm_room_session_reactive_v2_handle_result_failure_locked ::
  "nat \<Rightarrow> string \<Rightarrow> u32 \<Rightarrow> command_plan \<Rightarrow> room_ctx \<Rightarrow> esp_err \<times> command_plan \<times> room_ctx" where
  "gm_room_session_reactive_v2_handle_result_failure_locked i status now_ms out_plan c =
     (case reactive_v2_model_branch (c_ses c) (get_branch c i) of
        None \<Rightarrow> (ESP_ERR_INVALID_ARG, out_plan, c)
      | Some model \<Rightarrow>
          reactive_v2_apply_result_policy_locked i model
            (if status = ''timeout'' then br_result_on_timeout model else br_result_on_fail model)
            now_ms (if status \<noteq> [] then status else ''reactive_result_failed'') out_plan c)"

definition gm_room_session_reactive_v2_handle_result_success_locked ::
  "nat \<Rightarrow> u32 \<Rightarrow> command_plan \<Rightarrow> room_ctx \<Rightarrow> esp_err \<times> command_plan \<times> room_ctx" where
  "gm_room_session_reactive_v2_handle_result_success_locked i now_ms out_plan c =
     (case reactive_v2_model_branch (c_ses c) (get_branch c i) of
        None \<Rightarrow> (ESP_ERR_INVALID_ARG, out_plan, c)
      | Some model \<Rightarrow>
          (if br_result_on_done model \<noteq> REACTIVE_RESULT_CONTINUE
           then reactive_v2_apply_result_policy_locked i model (br_result_on_done model) now_ms
                  ''reactive_result_done'' out_plan c
           else gm_room_session_reactive_v2_continue_locked i now_ms out_plan (resume_reaction i c)))"

definition gm_room_session_reactive_v2_trigger_during_wait_locked ::
  "nat \<Rightarrow> u32 \<Rightarrow> command_plan \<Rightarrow> room_ctx \<Rightarrow> esp_err \<times> command_plan \<times> room_ctx" where
  "gm_room_session_reactive_v2_trigger_during_wait_locked i now_ms out_plan c =
     (let b = get_branch c i in
      case reactive_v2_model_branch (c_ses c) b of
        None \<Rightarrow> (ESP_ERR_INVALID_ARG, out_plan, c)
      | Some model \<Rightarrow>
          (if v_scenario_state (b_view b) \<noteq> GM_ROOM_SCENARIO_WAITING \<or> v_wait_type (b_view b) \<noteq> WAIT_TIME
           then (ESP_ERR_INVALID_STATE, out_plan, c)
           else if br_policy_mode model = REACTIVE_POLICY_SINGLE
           then (ESP_OK, out_plan,
                 if b_reentry_mode b = ROOM_SCENARIO_REENTRY_QUEUE_ONE
                 then gm_room_session_mark_session_changed_locked
                        (upd_branch i (\<lambda>b. b\<lparr>b_pending_trigger := True\<rparr>) c)
                 else c)
           else gm_room_session_reactive_v2_fire_locked i now_ms out_plan
                  (gm_room_session_mark_session_changed_locked
                    (scenario_branch_clear_wait_fields i
                      (upd_branch i (\<lambda>b. set_branch_state GM_ROOM_SCENARIO_WAITING
                         (if b_reactive_current_action b < b_reactive_action_count b
                          then b\<lparr>b_reactive_current_action := b_reactive_action_count b\<rparr> else b)) c)))))"

end
