(* ===== verification/Gm_Runtime.thy ===== *)
theory Gm_Runtime
  imports Gm_Reactive
begin

text \<open>
  The scenario interpreter (\<open>gm_core/session/gm_room_session_runtime.c\<close>): running the steps of a
  branch within a step budget, and one tick of the runtime over the branches of a session.
  The functions return the error code, the output plan and the context.
\<close>

definition GM_SCENARIO_MAX_STEPS_PER_TICK :: nat where "GM_SCENARIO_MAX_STEPS_PER_TICK = 8"

section \<open>One step\<close>

datatype step_outcome = Step_Next room_ctx | Step_Return esp_err command_plan room_ctx

definition step_error :: "esp_err \<Rightarrow> command_plan \<Rightarrow> string \<Rightarrow> room_ctx \<Rightarrow> step_outcome" where
  "step_error err plan message c = Step_Return err plan (scenario_set_error_locked message c)"

text \<open>Going on with the next step: \<open>advance_step\<close>, no wait, session changed.\<close>

definition pass_step :: "room_ctx \<Rightarrow> room_ctx" where
  "pass_step c = gm_room_session_mark_session_changed_locked
     (gm_room_session_scenario_clear_wait_locked (upd_view advance_step c))"

definition step_event_wait ::
  "scenario_step \<Rightarrow> (room_ctx \<Rightarrow> esp_err \<times> room_ctx) \<Rightarrow> string \<Rightarrow> room_ctx \<Rightarrow> step_outcome" where
  "step_event_wait step enter message c =
     (let (err, c1) = enter c
      in if err \<noteq> ESP_OK then step_error err gm_room_session_command_plan_clear message c1
         else Step_Return ESP_OK gm_room_session_command_plan_clear
                (scenario_set_wait_skip_from_step_locked step c1))"

definition execute_step ::
  "u32 \<Rightarrow> u8 \<Rightarrow> wait_resolution option \<Rightarrow> scenario_step \<Rightarrow> room_ctx \<Rightarrow> step_outcome" where
  "execute_step now_ms branch_index res step c =
     (let no_plan = gm_room_session_command_plan_clear in
      if \<not> st_enabled step
      then Step_Next (gm_room_session_mark_session_changed_locked
             (upd_view (\<lambda>v. v\<lparr>v_current_step_index := v_current_step_index v + 1\<rparr>) c))
      else case st_data step of
        STEP_DEVICE_COMMAND _ \<Rightarrow>
          (let (err, plan, c1) = gm_room_session_plan_scenario_command_locked branch_index now_ms c
           in if err \<noteq> ESP_OK then step_error err plan ''device_command_failed'' c1
              else Step_Return ESP_OK plan c1)
      | STEP_DEVICE_COMMAND_GROUP cmds \<Rightarrow>
          (let (err, command_error, plan, c1) =
                 gm_room_session_plan_scenario_command_group_locked branch_index cmds now_ms no_plan c
           in if err \<noteq> ESP_OK
              then step_error err plan
                     (if command_error \<noteq> [] then command_error else ''device_command_group_failed'') c1
              else Step_Return ESP_OK plan c1)
      | STEP_WAIT_TIME w \<Rightarrow>
          Step_Return ESP_OK no_plan (gm_room_session_mark_session_changed_locked
            (scenario_set_wait_skip_from_step_locked step
              (upd_view (\<lambda>v. v\<lparr>v_wait_type := WAIT_TIME, v_wait_started_at_ms := now_ms,
                  v_wait_until_ms := now_ms + wt_duration_ms w\<rparr>) (begin_wait c))))
      | STEP_WAIT_DEVICE_EVENT w \<Rightarrow>
          step_event_wait step (scenario_enter_wait_device_event_locked w res now_ms)
            ''wait_device_event_failed'' c
      | STEP_WAIT_ANY_DEVICE_EVENT w \<Rightarrow>
          step_event_wait step (scenario_enter_wait_any_device_event_locked w res now_ms)
            ''wait_any_device_event_failed'' c
      | STEP_WAIT_ALL_DEVICE_EVENTS w \<Rightarrow>
          step_event_wait step (scenario_enter_wait_all_device_events_locked w res now_ms)
            ''wait_all_device_events_failed'' c
      | STEP_WAIT_FLAGS w \<Rightarrow>
          (let (err, c1) = scenario_enter_wait_flags_locked w now_ms c
           in if err \<noteq> ESP_OK then step_error err no_plan ''wait_flags_failed'' c1
              else let c2 = scenario_set_wait_skip_from_step_locked step c1
                   in if scenario_wait_flags_met_locked (c_ses c2) then Step_Next (pass_step c2)
                      else Step_Return ESP_OK no_plan c2)
      | STEP_OPERATOR_APPROVAL prompt approve_label \<Rightarrow>
          Step_Return ESP_OK no_plan (gm_room_session_mark_session_changed_locked
            (upd_view (\<lambda>v. v\<lparr>v_wait_type := WAIT_OPERATOR, v_wait_started_at_ms := now_ms,
                v_wait_operator_prompt :=
                  quest_str_copy ROOM_SCENARIO_OPERATOR_PROMPT_MAX_LEN prompt,
                v_wait_operator_label := quest_str_copy ROOM_SCENARIO_OPERATOR_LABEL_MAX_LEN
                  (if approve_label \<noteq> [] then approve_label else ''Continue'')\<rparr>) (begin_wait c)))
      | STEP_SHOW_OPERATOR_MESSAGE m \<Rightarrow> Step_Next (pass_step (set_operator_message m c))
      | STEP_SET_FLAG f \<Rightarrow>
          (let (err, c1) = scenario_set_flag_locked (fl_name f) (fl_value f) c
           in if err \<noteq> ESP_OK then step_error err no_plan ''set_flag_failed'' c1
              else Step_Next (pass_step c1))
      | STEP_END_GAME \<Rightarrow>
          (let (err, c1) = finish_game_without_audio_locked (ucast now_ms) c
           in if err \<noteq> ESP_OK then step_error err no_plan ''end_game_failed'' c1
              else Step_Return ESP_OK no_plan (gm_room_session_mark_session_changed_locked
                     (upd_view (\<lambda>v. v\<lparr>v_current_step_index := v_current_step_index v + 1\<rparr>) c1)))
      | _ \<Rightarrow> step_error ESP_ERR_NOT_SUPPORTED no_plan ''unsupported_step_type'' c)"

section \<open>A run of steps\<close>

definition scenario_done :: "room_ctx \<Rightarrow> room_ctx" where
  "scenario_done c = gm_room_session_mark_session_changed_locked
     (gm_room_session_scenario_clear_wait_locked
       (upd_view (\<lambda>v. v\<lparr>v_scenario_state := GM_ROOM_SCENARIO_DONE\<rparr>) c))"

fun execute_steps ::
  "nat \<Rightarrow> u32 \<Rightarrow> u16 \<Rightarrow> u8 \<Rightarrow> wait_resolution option \<Rightarrow> room_ctx \<Rightarrow> esp_err \<times> command_plan \<times> room_ctx" where
  "execute_steps 0 now_ms end_index branch_index res c =
     (ESP_OK, gm_room_session_command_plan_clear, c)"
| "execute_steps (Suc budget) now_ms end_index branch_index res c =
     (let i = v_current_step_index (s_view (c_ses c)) in
      if i \<ge> end_index then (ESP_OK, gm_room_session_command_plan_clear, scenario_done c)
      else case execute_step now_ms branch_index res
                  (sc_steps (s_running_scenario (c_ses c)) ! unat i) c of
             Step_Return err plan c1 \<Rightarrow> (err, plan, c1)
           | Step_Next c1 \<Rightarrow> execute_steps budget now_ms end_index branch_index res c1)"

definition execute_scenario_locked ::
  "u32 \<Rightarrow> nat \<Rightarrow> u16 \<Rightarrow> u8 \<Rightarrow> wait_resolution option \<Rightarrow> room_ctx \<Rightarrow>
   esp_err \<times> command_plan \<times> room_ctx" where
  "execute_scenario_locked now_ms budget end_step_index branch_index res c =
     (let steps = sc_steps (s_running_scenario (c_ses c));
          end_index = (if end_step_index = 0 \<or> unat end_step_index > length steps
                       then of_nat (length steps) else end_step_index)
      in execute_steps budget now_ms end_index branch_index res c)"

section \<open>A branch\<close>

definition no_resolution :: wait_resolution where
  "no_resolution = \<lparr>wr_present = False, wr_matches = []\<rparr>"

fun is_event_wait_step :: "step_data \<Rightarrow> bool" where
  "is_event_wait_step (STEP_WAIT_DEVICE_EVENT _) = True"
| "is_event_wait_step (STEP_WAIT_ANY_DEVICE_EVENT _) = True"
| "is_event_wait_step (STEP_WAIT_ALL_DEVICE_EVENTS _) = True"
| "is_event_wait_step _ = False"

definition prepare_wait_resolution_locked :: "nat \<Rightarrow> room_ctx \<Rightarrow> esp_err + wait_resolution" where
  "prepare_wait_resolution_locked i c =
     (let v = b_view (get_branch c i); steps = sc_steps (s_running_scenario (c_ses c));
          n = unat (v_current_step_index v)
      in if v_scenario_state v \<noteq> GM_ROOM_SCENARIO_RUNNING \<or> n \<ge> length steps then Inr no_resolution
         else if \<not> is_event_wait_step (st_data (steps ! n)) then Inr no_resolution
         else gm_room_session_expand_prepared_wait_resolution (c_prepared c)
                (prepared_at (ps_step_waits (c_prepared c)) n))"

definition resolution_arg :: "wait_resolution \<Rightarrow> wait_resolution option" where
  "resolution_arg r = (if wr_present r then Some r else None)"

text \<open>Load the branch into the mirror, run its steps, save the mirror.\<close>

definition run_loaded_branch ::
  "nat \<Rightarrow> u32 \<Rightarrow> nat \<Rightarrow> u16 \<Rightarrow> wait_resolution \<Rightarrow> room_ctx \<Rightarrow> esp_err \<times> command_plan \<times> room_ctx" where
  "run_loaded_branch i now_ms budget end_index r c =
     (let (err, plan, c1) = execute_scenario_locked now_ms budget end_index
              (ucast (b_branch_index (get_branch c i))) (resolution_arg r)
              (gm_room_session_scenario_branch_load_into_session i c)
      in (err, plan, gm_room_session_scenario_branch_save_from_session i c1))"

text \<open>
  A branch of the older reactive kind that has run to its end is counted and starts over, after
  its cool-down if it has one.
\<close>

definition rearm_legacy_reactive :: "nat \<Rightarrow> u32 \<Rightarrow> room_ctx \<Rightarrow> room_ctx" where
  "rearm_legacy_reactive i now_ms c =
     gm_room_session_mark_session_changed_locked
       (scenario_branch_clear_wait_fields i
         (upd_branch i (\<lambda>b. (set_branch_state
             (if b_cooldown_ms b > 0 then GM_ROOM_SCENARIO_COOLDOWN else GM_ROOM_SCENARIO_RUNNING)
             (b\<lparr>b_view := (b_view b)\<lparr>v_current_step_index := b_step_start_index b\<rparr>\<rparr>))
             \<lparr>b_cooldown_until_ms := (if b_cooldown_ms b > 0 then now_ms + b_cooldown_ms b else 0)\<rparr>) c))"

definition count_legacy_fire :: "branch_runtime \<Rightarrow> branch_runtime" where
  "count_legacy_fire b = b\<lparr>b_fired_once := True, b_fire_count := b_fire_count b + 1\<rparr>"

definition summary_if :: "bool \<Rightarrow> room_ctx \<Rightarrow> room_ctx" where
  "summary_if update c =
     (if update then gm_room_session_scenario_update_summary_from_branches_locked c else c)"

definition execute_branch_core_locked ::
  "nat \<Rightarrow> u32 \<Rightarrow> nat \<Rightarrow> bool \<Rightarrow> command_plan \<Rightarrow> room_ctx \<Rightarrow> esp_err \<times> command_plan \<times> room_ctx" where
  "execute_branch_core_locked i now_ms budget update_summary out_plan c =
     (let no_plan = gm_room_session_command_plan_clear; b0 = get_branch c i in
      if \<not> b_active b0 then (ESP_ERR_INVALID_ARG, out_plan, c)
      else if gm_room_session_branch_is_reactive_v2 (c_ses c) b0
      then gm_room_session_reactive_v2_continue_locked i now_ms no_plan c
      else case prepare_wait_resolution_locked i c of
        Inl err \<Rightarrow> (err, no_plan, c)
      | Inr r \<Rightarrow>
        (let end_index = scenario_branch_end_index b0 (s_running_scenario (c_ses c));
             (err, plan, c1) = run_loaded_branch i now_ms budget end_index r c;
             b1 = get_branch c1 i
         in if \<not> (err = ESP_OK \<and> b_type b1 = ROOM_SCENARIO_BRANCH_REACTIVE \<and>
                   v_scenario_state (b_view b1) = GM_ROOM_SCENARIO_DONE)
            then (err, plan, summary_if update_summary c1)
            else let c2 = upd_branch i count_legacy_fire c1; b2 = get_branch c2 i in
              if \<not> (b_max_fire_count b2 = 0 \<or> b_fire_count b2 < b_max_fire_count b2)
              then (err, plan, summary_if update_summary c2)
              else let c3 = rearm_legacy_reactive i now_ms c2 in
                if v_scenario_state (b_view (get_branch c3 i)) \<noteq> GM_ROOM_SCENARIO_RUNNING
                then (err, plan, summary_if update_summary c3)
                else let c4 = gm_room_session_scenario_branch_load_into_session i c3 in
                  case prepare_wait_resolution_locked i c4 of
                    Inl err' \<Rightarrow> (err', plan, c4)
                  | Inr r' \<Rightarrow>
                      (let (err', restart_plan, c5) = run_loaded_branch i now_ms budget end_index r' c4
                       in (err', if gm_room_session_command_plan_present restart_plan
                                 then restart_plan else plan,
                           summary_if update_summary c5))))"

definition gm_room_session_execute_branch_locked ::
  "nat \<Rightarrow> u32 \<Rightarrow> nat \<Rightarrow> command_plan \<Rightarrow> room_ctx \<Rightarrow> esp_err \<times> command_plan \<times> room_ctx" where
  "gm_room_session_execute_branch_locked i now_ms budget out_plan c =
     execute_branch_core_locked i now_ms budget True out_plan c"

section \<open>All branches\<close>

fun execute_branches_loop ::
  "nat list \<Rightarrow> u32 \<Rightarrow> nat \<Rightarrow> esp_err \<Rightarrow> command_plan \<Rightarrow> room_ctx \<Rightarrow> esp_err \<times> command_plan \<times> room_ctx" where
  "execute_branches_loop [] now_ms budget first_err plan c = (first_err, plan, c)"
| "execute_branches_loop (i # is) now_ms budget first_err plan c =
     (let b = get_branch c i in
      if \<not> b_active b \<or> v_scenario_state (b_view b) \<noteq> GM_ROOM_SCENARIO_RUNNING \<or>
         gm_room_session_branch_is_reactive_v2 (c_ses c) b
      then execute_branches_loop is now_ms budget first_err plan c
      else let (err, plan1, c1) = execute_branch_core_locked i now_ms budget False plan c;
               first_err1 = (if err \<noteq> ESP_OK \<and> first_err = ESP_OK then err else first_err)
           in if gm_room_session_command_plan_present plan1 then (first_err1, plan1, c1)
              else execute_branches_loop is now_ms budget first_err1 plan1 c1)"

definition branch_indices :: "room_ctx \<Rightarrow> nat list" where
  "branch_indices c = [0..<min (length (cbranches c)) ROOM_SCENARIO_MAX_BRANCHES]"

definition execute_all_running_branches_locked ::
  "u32 \<Rightarrow> nat \<Rightarrow> command_plan \<Rightarrow> room_ctx \<Rightarrow> esp_err \<times> command_plan \<times> room_ctx" where
  "execute_all_running_branches_locked now_ms budget out_plan c =
     (if cbranches c = [] then (ESP_ERR_INVALID_ARG, out_plan, c)
      else let (err, plan, c1) = execute_branches_loop (branch_indices c) now_ms budget ESP_OK
                 gm_room_session_command_plan_clear c
           in (err, plan, gm_room_session_scenario_update_summary_from_branches_locked c1))"

definition scenario_first_branch_by_state_locked ::
  "gm_room_session \<Rightarrow> gm_room_scenario_state \<Rightarrow> gm_room_scenario_wait_type \<Rightarrow> bool \<Rightarrow> nat option" where
  "scenario_first_branch_by_state_locked s st wait_type match_wait_type =
     find_index (\<lambda>b. b_active b \<and> v_scenario_state (b_view b) = st \<and>
                     (match_wait_type \<longrightarrow> v_wait_type (b_view b) = wait_type))
       (take ROOM_SCENARIO_MAX_BRANCHES (s_branch_runtimes s))"

definition runtime_branch_id :: "gm_room_session \<Rightarrow> nat \<Rightarrow> string" where
  "runtime_branch_id s i =
     (let bs = sc_branches (s_running_scenario s) in
      if i < length bs \<and> br_id (bs ! i) \<noteq> [] then br_id (bs ! i)
      else if i = 0 then ''main'' else [])"

definition scenario_branch_by_id_locked :: "gm_room_session \<Rightarrow> string \<Rightarrow> nat option" where
  "scenario_branch_by_id_locked s branch_id =
     (if branch_id = [] then None
      else find_index (\<lambda>(i, b). b_active b \<and> runtime_branch_id s i \<noteq> [] \<and>
                         runtime_branch_id s i = branch_id)
             (take ROOM_SCENARIO_MAX_BRANCHES (enumerate 0 (s_branch_runtimes s))))"

section \<open>One tick\<close>

definition gm_room_session_runtime_prepare_branch_locked ::
  "nat \<Rightarrow> u32 \<Rightarrow> room_ctx \<Rightarrow> bool \<times> room_ctx" where
  "gm_room_session_runtime_prepare_branch_locked i now_ms c =
     (let b = get_branch c i; v2 = gm_room_session_branch_is_reactive_v2 (c_ses c) b in
      if \<not> b_active b then (False, c)
      else if v_scenario_state (b_view b) \<noteq> GM_ROOM_SCENARIO_COOLDOWN then (True, c)
      else if \<not> scenario_time_reached now_ms (b_cooldown_until_ms b) then (False, c)
      else (\<not> v2, gm_room_session_mark_session_changed_locked
             (scenario_branch_clear_wait_fields i
               (upd_branch i (\<lambda>b. b\<lparr>b_view := (b_view b)\<lparr>
                    v_current_step_index := b_step_start_index b,
                    v_scenario_state := (if v2 then GM_ROOM_SCENARIO_WAITING
                                         else GM_ROOM_SCENARIO_RUNNING)\<rparr>,
                    b_cooldown_until_ms := 0\<rparr>) c))))"

text \<open>
  Processing the wait of the loaded branch.  \<open>Wait_Handled\<close> is the result true, \<open>Wait_Ready\<close> the
  result false with \<open>out_ready_to_advance\<close> set; no path returns false without setting it.
\<close>

datatype wait_outcome = Wait_Handled command_plan room_ctx | Wait_Ready command_plan room_ctx

definition save_handled :: "nat \<Rightarrow> command_plan \<Rightarrow> room_ctx \<Rightarrow> wait_outcome" where
  "save_handled i plan c =
     Wait_Handled plan (gm_room_session_scenario_branch_save_from_session i c)"

definition reactive_wait_timed_out :: "nat \<Rightarrow> u32 \<Rightarrow> command_plan \<Rightarrow> room_ctx \<Rightarrow> wait_outcome" where
  "reactive_wait_timed_out i now_ms plan c =
     (let actions = sc_reactive_actions (s_running_scenario (c_ses c));
          action_index = reactive_action_index (get_branch c i)
      in if action_index \<ge> length actions
         then save_handled i plan (scenario_set_error_locked ''reactive_action_range_invalid'' c)
         else let (_, plan1, c1) = gm_room_session_reactive_v2_apply_wait_timeout_locked i
                    (actions ! action_index) now_ms plan c
              in save_handled i plan1 c1)"

definition timeout_pending :: "u32 \<Rightarrow> run_view \<Rightarrow> bool" where
  "timeout_pending now_ms v \<longleftrightarrow>
     v_wait_until_ms v = 0 \<or> \<not> scenario_time_reached now_ms (v_wait_until_ms v)"

definition gm_room_session_runtime_process_wait_locked ::
  "nat \<Rightarrow> u32 \<Rightarrow> command_plan \<Rightarrow> room_ctx \<Rightarrow> wait_outcome" where
  "gm_room_session_runtime_process_wait_locked i now_ms plan c =
     (let v = s_view (c_ses c);
          waiting = (v_scenario_state v = GM_ROOM_SCENARIO_WAITING);
          v2 = gm_room_session_branch_is_reactive_v2 (c_ses c) (get_branch c i)
      in if waiting \<and> v_wait_type v = WAIT_TIME then
           (if \<not> scenario_time_reached now_ms (v_wait_until_ms v) then save_handled i plan c
            else if v2 then reactive_wait_timed_out i now_ms plan c
            else Wait_Ready plan (pass_step c))
         else if waiting \<and> (v_wait_type v = WAIT_DEVICE_EVENT \<or> v_wait_type v = WAIT_ANY_DEVICE_EVENT \<or>
                            v_wait_type v = WAIT_ALL_DEVICE_EVENTS) then
           (if timeout_pending now_ms v then save_handled i plan c
            else if v2 then reactive_wait_timed_out i now_ms plan c
            else let (applied, c1) = scenario_apply_wait_timeout_locked now_ms c
                 in if applied then Wait_Ready plan c1 else save_handled i plan c1)
         else if waiting \<and> v_wait_type v = WAIT_FLAGS then
           (if \<not> scenario_wait_flags_met_locked (c_ses c) then
              (if v2 then
                 (if timeout_pending now_ms v then save_handled i plan c
                  else reactive_wait_timed_out i now_ms plan c)
               else let (applied, c1) = scenario_apply_wait_timeout_locked now_ms c;
                        c2 = gm_room_session_scenario_branch_save_from_session i c1
                    in if applied
                       then let (_, plan1, c3) = execute_branch_core_locked i now_ms
                                  GM_SCENARIO_MAX_STEPS_PER_TICK False plan c2
                            in Wait_Handled plan1 c3
                       else Wait_Handled plan c2)
            else Wait_Ready plan (pass_step c))
         else if v_scenario_state v \<noteq> GM_ROOM_SCENARIO_RUNNING then save_handled i plan c
         else Wait_Ready plan c)"

definition gm_room_session_runtime_advance_ready_branch_locked ::
  "nat \<Rightarrow> u32 \<Rightarrow> command_plan \<Rightarrow> room_ctx \<Rightarrow> bool \<times> command_plan \<times> room_ctx" where
  "gm_room_session_runtime_advance_ready_branch_locked i now_ms plan c =
     (let (_, plan1, c1) = execute_branch_core_locked i now_ms GM_SCENARIO_MAX_STEPS_PER_TICK False
            plan (gm_room_session_scenario_branch_save_from_session i c)
      in (gm_room_session_command_plan_present plan1, plan1, c1))"

definition gm_room_session_runtime_process_branch_locked ::
  "nat \<Rightarrow> u32 \<Rightarrow> command_plan \<Rightarrow> room_ctx \<Rightarrow> bool \<times> command_plan \<times> room_ctx" where
  "gm_room_session_runtime_process_branch_locked i now_ms plan c =
     (let (go, c1) = gm_room_session_runtime_prepare_branch_locked i now_ms c in
      if \<not> go then (False, plan, c1)
      else case gm_room_session_runtime_process_wait_locked i now_ms plan
                  (gm_room_session_scenario_branch_load_into_session i c1) of
             Wait_Handled plan1 c2 \<Rightarrow> (gm_room_session_command_plan_present plan1, plan1, c2)
           | Wait_Ready plan1 c2 \<Rightarrow>
               (if gm_room_session_command_plan_present plan1 then (True, plan1, c2)
                else gm_room_session_runtime_advance_ready_branch_locked i now_ms plan1 c2))"

fun advance_branches_loop ::
  "nat list \<Rightarrow> u32 \<Rightarrow> command_plan \<Rightarrow> room_ctx \<Rightarrow> bool \<times> command_plan \<times> room_ctx" where
  "advance_branches_loop [] now_ms plan c =
     (False, plan, gm_room_session_scenario_update_summary_from_branches_locked c)"
| "advance_branches_loop (i # is) now_ms plan c =
     (let (stop, plan1, c1) = gm_room_session_runtime_process_branch_locked i now_ms plan c
      in if stop then (True, plan1, gm_room_session_scenario_update_summary_from_branches_locked c1)
         else advance_branches_loop is now_ms plan1 c1)"

definition gm_room_session_runtime_advance_ready_branches_locked ::
  "u32 \<Rightarrow> command_plan \<Rightarrow> room_ctx \<Rightarrow> bool \<times> command_plan \<times> room_ctx" where
  "gm_room_session_runtime_advance_ready_branches_locked now_ms plan c =
     (if cbranches c = [] then (False, plan, c)
      else advance_branches_loop (branch_indices c) now_ms plan c)"

end
