(* ===== verification/Gm_Events.thy ===== *)
theory Gm_Events
  imports Gm_Runtime
begin

text \<open>
  Delivering an event to the running scenarios (\<open>gm_room_session_scenario_on_event_plan\<close> in
  \<open>gm_core/session/gm_room_session_events.c\<close>).  The result of a command goes to the one branch
  that waits for its request; any other event may fire reactive branches and end waits.  The
  handling stops at the first command plan.
\<close>

section \<open>Which reactive branches an event concerns\<close>

definition waits_for_event :: "branch_runtime \<Rightarrow> bool" where
  "waits_for_event b \<longleftrightarrow> b_active b \<and> v_scenario_state (b_view b) = GM_ROOM_SCENARIO_WAITING \<and>
     v_wait_type (b_view b) \<in> {WAIT_DEVICE_EVENT, WAIT_ANY_DEVICE_EVENT, WAIT_ALL_DEVICE_EVENTS,
       WAIT_DEVICE_COMMAND_RESULT}"

definition branch_wait_matches_message :: "nat \<Rightarrow> scenehub_event \<Rightarrow> room_ctx \<Rightarrow> bool \<times> room_ctx" where
  "branch_wait_matches_message i message c =
     (if \<not> waits_for_event (get_branch c i) then (False, c)
      else let c1 = gm_room_session_scenario_branch_load_into_session i c
           in (wait_event_match_index (s_view (c_ses c1)) message \<noteq> None,
               gm_room_session_scenario_branch_save_from_session i c1))"

text \<open>The entries of \<open>reactive_matches\<close> and \<open>reactive_trigger_matches\<close> for one branch.\<close>

definition scan_reactive_branch :: "nat \<Rightarrow> scenehub_event \<Rightarrow> room_ctx \<Rightarrow> (bool \<times> bool) \<times> room_ctx" where
  "scan_reactive_branch i message c =
     (let b = get_branch c i in
      if b_type b \<noteq> ROOM_SCENARIO_BRANCH_REACTIVE then ((False, False), c)
      else let trigger_match = (gm_room_session_reactive_v2_matches_event i message c \<and>
                 v_scenario_state (b_view b) = GM_ROOM_SCENARIO_WAITING \<and>
                 (v_wait_type (b_view b) = WAIT_NONE \<or> v_wait_type (b_view b) = WAIT_TIME));
               (wait_match, c1) = branch_wait_matches_message i message c
           in (if trigger_match \<or> wait_match then (True, trigger_match) else (False, False), c1))"

fun scan_reactive ::
  "nat list \<Rightarrow> scenehub_event \<Rightarrow> room_ctx \<Rightarrow> (nat \<times> bool \<times> bool) list \<times> room_ctx" where
  "scan_reactive [] message c = ([], c)"
| "scan_reactive (i # is) message c =
     (let (m, c1) = scan_reactive_branch i message c;
          (ms, c2) = scan_reactive is message c1
      in ((i, m) # ms, c2))"

section \<open>One branch\<close>

text \<open>
  The state of the handling: whether anything matched, the plan and the context.  The flag in
  front says that the handling is over (\<open>goto event_done\<close>).
\<close>

type_synonym event_state = "bool \<times> command_plan \<times> room_ctx"

definition stop_if_planned :: "bool \<Rightarrow> command_plan \<Rightarrow> room_ctx \<Rightarrow> bool \<times> event_state" where
  "stop_if_planned matched plan c =
     (if gm_room_session_command_plan_present plan
      then (True, matched, plan, gm_room_session_scenario_update_summary_from_branches_locked c)
      else (False, matched, plan, c))"

text \<open>A branch whose trigger the event matches.\<close>

definition event_fire_branch ::
  "nat \<Rightarrow> scenehub_event \<Rightarrow> u32 \<Rightarrow> event_state \<Rightarrow> bool \<times> event_state" where
  "event_fire_branch i message now_ms st = (case st of (matched, plan, c) \<Rightarrow>
     (let (consumed, c1) = gm_room_session_reactive_v2_consume_trigger_event_locked i message c in
      if \<not> consumed then (False, matched, plan, c1)
      else let (err, plan1, c2) =
                 (if v_wait_type (b_view (get_branch c1 i)) = WAIT_TIME
                  then gm_room_session_reactive_v2_trigger_during_wait_locked i now_ms plan c1
                  else gm_room_session_reactive_v2_fire_locked i now_ms plan c1)
           in if err = ESP_OK then stop_if_planned True plan1 c2 else (False, matched, plan1, c2)))"

text \<open>The event ends the wait of the loaded branch: the next step runs.\<close>

definition event_advance_branch ::
  "nat \<Rightarrow> u32 \<Rightarrow> command_plan \<Rightarrow> room_ctx \<Rightarrow> bool \<times> event_state" where
  "event_advance_branch i now_ms plan c =
     (let c1 = gm_room_session_scenario_branch_save_from_session i (pass_step c);
          (_, plan1, c2) = gm_room_session_execute_branch_locked i now_ms
              GM_SCENARIO_MAX_STEPS_PER_TICK plan c1
      in stop_if_planned True plan1 c2)"

definition mark_matched_events :: "scenehub_event \<Rightarrow> run_view \<Rightarrow> run_view" where
  "mark_matched_events message v = v\<lparr>v_wait_event_matched :=
     map (\<lambda>(j, done). done \<or>
            (j < length (v_wait_events v) \<and> j < ROOM_SCENARIO_WAIT_EVENT_GROUP_MAX_EVENTS \<and>
             gm_room_session_wait_event_matches_message (v_wait_events v ! j) message))
       (enumerate 0 (v_wait_event_matched v))\<rparr>"

text \<open>The loaded branch waits and the event matches its wait.\<close>

definition event_matched_wait ::
  "nat \<Rightarrow> scenehub_event \<Rightarrow> u32 \<Rightarrow> event_state \<Rightarrow> bool \<times> event_state" where
  "event_matched_wait i message now_ms st = (case st of (matched, plan, c) \<Rightarrow>
     (let wait_type = v_wait_type (s_view (c_ses c));
          v2 = gm_room_session_branch_is_reactive_v2 (c_ses c) (get_branch c i);
          save = gm_room_session_scenario_branch_save_from_session i
      in if wait_type = WAIT_DEVICE_COMMAND_RESULT \<and> command_result_is_pending message
         then (False, True, plan, save c)
         else if wait_type = WAIT_DEVICE_COMMAND_RESULT \<and> command_result_is_failure message
         then (if v2
               then let (_, plan1, c1) = gm_room_session_reactive_v2_handle_result_failure_locked i
                          (ev_payload message) now_ms plan c
                    in stop_if_planned True plan1 c1
               else (False, True, plan,
                     save (scenario_set_error_locked ''device_command_result_failed'' c)))
         else if wait_type = WAIT_DEVICE_COMMAND_RESULT \<and> \<not> command_result_is_success message
         then (False, matched, plan, save c)
         else if wait_type = WAIT_DEVICE_COMMAND_RESULT \<and> v2
         then (let (_, plan1, c1) =
                     gm_room_session_reactive_v2_handle_result_success_locked i now_ms plan c
               in stop_if_planned True plan1 c1)
         else if wait_type = WAIT_ALL_DEVICE_EVENTS
         then (let c1 = gm_room_session_mark_session_changed_locked
                          (upd_view (mark_matched_events message) c)
               in if wait_all_device_events_met (s_view (c_ses c1))
                  then event_advance_branch i now_ms plan c1
                  else (False, True, plan, save c1))
         else event_advance_branch i now_ms plan c))"

definition event_branch ::
  "bool \<Rightarrow> bool \<Rightarrow> nat \<times> bool \<times> bool \<Rightarrow> scenehub_event \<Rightarrow> u32 \<Rightarrow> event_state \<Rightarrow> bool \<times> event_state" where
  "event_branch command_result_event conflict im message now_ms st =
     (case im of (i, reactive_match, trigger_match) \<Rightarrow> case st of (matched, plan, c) \<Rightarrow>
       (let reactive = (b_type (get_branch c i) = ROOM_SCENARIO_BRANCH_REACTIVE) in
        if conflict \<and> reactive_match then (False, st)
        else if \<not> command_result_event \<and> trigger_match \<and> reactive
        then event_fire_branch i message now_ms st
        else let c1 = (if \<not> command_result_event \<and> reactive
                       then snd (gm_room_session_reactive_v2_consume_trigger_event_locked i message c)
                       else c)
             in if \<not> waits_for_event (get_branch c1 i) then (False, matched, plan, c1)
                else let c2 = gm_room_session_scenario_branch_load_into_session i c1 in
                  if wait_event_match_index (s_view (c_ses c2)) message = None
                  then (False, matched, plan, gm_room_session_scenario_branch_save_from_session i c2)
                  else event_matched_wait i message now_ms (matched, plan, c2)))"

fun event_branches ::
  "bool \<Rightarrow> bool \<Rightarrow> (nat \<times> bool \<times> bool) list \<Rightarrow> scenehub_event \<Rightarrow> u32 \<Rightarrow> event_state \<Rightarrow>
   bool \<times> event_state" where
  "event_branches cre conflict [] message now_ms (matched, plan, c) =
     (False, matched, plan, gm_room_session_scenario_update_summary_from_branches_locked c)"
| "event_branches cre conflict (im # ims) message now_ms st =
     (let (stop, st1) = event_branch cre conflict im message now_ms st
      in if stop then (True, st1) else event_branches cre conflict ims message now_ms st1)"

section \<open>One session\<close>

definition event_session ::
  "scenehub_event \<Rightarrow> u32 \<Rightarrow> event_state \<Rightarrow> bool \<times> event_state" where
  "event_session message now_ms st = (case st of (matched, plan, c) \<Rightarrow>
     (let cre = scenehub_event_is_device_control_result message in
      if \<not> s_in_use (c_ses c) \<or> \<not> s_running_scenario_valid (c_ses c) then (False, st)
      else if cre
      then (case command_result_wait_branch_index (c_ses c) message of
              None \<Rightarrow> (False, st)
            | Some i \<Rightarrow> event_branches cre False [(i, False, False)] message now_ms st)
      else let (ms, c1) = scan_reactive (branch_indices c) message c;
               conflict = (length (filter (\<lambda>(_, m, _). m) ms) > 1)
           in event_branches cre conflict ms message now_ms (matched \<or> conflict, plan, c1)))"

section \<open>All sessions\<close>

fun event_sessions ::
  "nat list \<Rightarrow> scenehub_event \<Rightarrow> u32 \<Rightarrow> bool \<Rightarrow> command_plan \<Rightarrow> gm_core \<Rightarrow>
   bool \<times> command_plan \<times> gm_core" where
  "event_sessions [] message now_ms matched plan k = (matched, plan, k)"
| "event_sessions (j # js) message now_ms matched plan k =
     (let (stop, matched1, plan1, c) = event_session message now_ms (matched, plan, core_ctx k j);
          k1 = put_ctx j c k
      in if stop then (matched1, plan1, k1)
         else event_sessions js message now_ms matched1 plan1 k1)"

definition gm_room_session_scenario_on_event_plan ::
  "scenehub_event \<Rightarrow> u32 \<Rightarrow> gm_core \<Rightarrow> esp_err \<times> command_plan \<times> gm_core" where
  "gm_room_session_scenario_on_event_plan message now_ms k =
     (let k1 = gm_room_session_sessions_lock k;
          (matched, plan, k2) = event_sessions [0..<length (k_sessions k1)] message now_ms False
             gm_room_session_command_plan_clear k1
      in (if matched then ESP_OK else ESP_ERR_NOT_FOUND, plan, gm_room_session_sessions_unlock k2))"

end
