(* ===== verification/Gm_Sessions.thy ===== *)
theory Gm_Sessions
  imports Gm_Table
begin

text \<open>
  The public game-clock operations of \<open>gm_room_session.c\<close>: start, pause, resume, finish,
  reset, add time, hints.
\<close>

section \<open>Bodies that run under the lock\<close>

text \<open>\<open>gm_timer_start\<close> and \<open>gm_timer_reset\<close> refuse a null timer only.\<close>

definition session_start_body :: "u32 \<Rightarrow> u64 \<Rightarrow> room_ctx \<Rightarrow> esp_err \<times> room_ctx" where
  "session_start_body duration_ms now_ms c =
     (ESP_OK, upd_ses (\<lambda>s. s\<lparr>s_hint := gm_hint_reset, s_timer := gm_timer_start duration_ms now_ms\<rparr>)
       (gm_room_session_mark_session_changed_locked
         (upd_ses (\<lambda>s. s\<lparr>s_state := GM_SESSION_RUNNING, s_started_at_ms := now_ms,
                         s_finished_at_ms := 0\<rparr>) c)))"

definition mark_if_ok :: "esp_err \<Rightarrow> room_ctx \<Rightarrow> room_ctx" where
  "mark_if_ok err c =
     (if err = ESP_OK then gm_room_session_mark_session_changed_locked c else c)"

definition session_pause_body :: "u64 \<Rightarrow> room_ctx \<Rightarrow> esp_err \<times> room_ctx" where
  "session_pause_body now_ms c =
     (if s_state (c_ses c) \<noteq> GM_SESSION_RUNNING then (ESP_ERR_INVALID_STATE, c)
      else let (err, timer) = gm_timer_pause (s_timer (c_ses c)) now_ms
           in (err, mark_if_ok err
                 (upd_ses (\<lambda>s. s\<lparr>s_state := GM_SESSION_PAUSED, s_timer := timer\<rparr>) c)))"

definition session_resume_body :: "u64 \<Rightarrow> room_ctx \<Rightarrow> esp_err \<times> room_ctx" where
  "session_resume_body now_ms c =
     (if s_state (c_ses c) \<noteq> GM_SESSION_PAUSED then (ESP_ERR_INVALID_STATE, c)
      else let (err, timer) = gm_timer_resume (s_timer (c_ses c)) now_ms
           in (err, mark_if_ok err
                 (upd_ses (\<lambda>s. s\<lparr>s_state := GM_SESSION_RUNNING, s_timer := timer\<rparr>) c)))"

definition session_finish_body :: "u64 \<Rightarrow> room_ctx \<Rightarrow> esp_err \<times> room_ctx" where
  "session_finish_body now_ms c =
     (let (err, timer) = gm_timer_finish (s_timer (c_ses c)) now_ms
      in (err, mark_if_ok err
            (upd_ses (\<lambda>s. s\<lparr>s_state := GM_SESSION_FINISHED, s_finished_at_ms := now_ms,
                            s_timer := timer\<rparr>) c)))"

definition session_reset_body :: "u32 \<Rightarrow> u64 \<Rightarrow> room_ctx \<Rightarrow> esp_err \<times> room_ctx" where
  "session_reset_body duration_ms now_ms c =
     (ESP_OK, gm_room_session_mark_session_changed_locked
       (upd_ses (\<lambda>s. s\<lparr>s_state := GM_SESSION_IDLE, s_started_at_ms := 0, s_finished_at_ms := 0,
                       s_hint := gm_hint_reset,
                       s_timer := gm_timer_reset duration_ms now_ms\<rparr>) c))"

fun session_state_of_timer :: "gm_timer_state \<Rightarrow> gm_session_state" where
  "session_state_of_timer GM_TIMER_RUNNING = GM_SESSION_RUNNING"
| "session_state_of_timer GM_TIMER_PAUSED = GM_SESSION_PAUSED"
| "session_state_of_timer GM_TIMER_FINISHED = GM_SESSION_FINISHED"
| "session_state_of_timer GM_TIMER_IDLE = GM_SESSION_IDLE"

definition session_add_time_body :: "32 word \<Rightarrow> u64 \<Rightarrow> room_ctx \<Rightarrow> esp_err \<times> room_ctx" where
  "session_add_time_body delta_ms now_ms c =
     (let (err, timer) = gm_timer_add_time (s_timer (c_ses c)) delta_ms now_ms;
          c1 = upd_ses (\<lambda>s. s\<lparr>s_timer := timer\<rparr>) c
      in if err \<noteq> ESP_OK then (err, c1)
         else (ESP_OK, gm_room_session_mark_session_changed_locked
           (upd_ses (\<lambda>s. s\<lparr>s_state := session_state_of_timer (t_state timer),
              s_finished_at_ms := (if t_state timer = GM_TIMER_FINISHED then now_ms else 0)\<rparr>) c1)))"

definition session_set_hint_body :: "string \<Rightarrow> u64 \<Rightarrow> room_ctx \<Rightarrow> esp_err \<times> room_ctx" where
  "session_set_hint_body message now_ms c =
     (let (err, hint) = gm_hint_send (s_hint (c_ses c)) message now_ms
      in (err, mark_if_ok err (upd_ses (\<lambda>s. s\<lparr>s_hint := hint\<rparr>) c)))"

definition session_clear_hint_body :: "u64 \<Rightarrow> room_ctx \<Rightarrow> esp_err \<times> room_ctx" where
  "session_clear_hint_body now_ms c =
     (let (err, hint) = gm_hint_clear (s_hint (c_ses c)) now_ms
      in (err, mark_if_ok err (upd_ses (\<lambda>s. s\<lparr>s_hint := hint\<rparr>) c)))"

section \<open>Public operations\<close>

definition wake_if_ok :: "esp_err \<times> gm_core \<Rightarrow> esp_err \<times> gm_core" where
  "wake_if_ok r = (case r of (err, k) \<Rightarrow>
     (err, if err = ESP_OK then gm_room_session_runtime_wake k else k))"

definition gm_room_session_start :: "string \<Rightarrow> u32 \<Rightarrow> u64 \<Rightarrow> gm_core \<Rightarrow> esp_err \<times> gm_core" where
  "gm_room_session_start room_id duration_ms now_ms k =
     (if room_id = [] then (ESP_ERR_INVALID_ARG, k)
      else wake_if_ok (with_alloc_session room_id (session_start_body duration_ms now_ms) k))"

definition gm_room_session_pause :: "string \<Rightarrow> u64 \<Rightarrow> gm_core \<Rightarrow> esp_err \<times> gm_core" where
  "gm_room_session_pause room_id now_ms k =
     wake_if_ok (with_found_session room_id (session_pause_body now_ms) k)"

definition gm_room_session_resume :: "string \<Rightarrow> u64 \<Rightarrow> gm_core \<Rightarrow> esp_err \<times> gm_core" where
  "gm_room_session_resume room_id now_ms k =
     wake_if_ok (with_found_session room_id (session_resume_body now_ms) k)"

definition gm_room_session_finish :: "string \<Rightarrow> u64 \<Rightarrow> gm_core \<Rightarrow> esp_err \<times> gm_core" where
  "gm_room_session_finish room_id now_ms k =
     (let (err, k1) = wake_if_ok (with_found_session room_id (session_finish_body now_ms) k)
      in (err, if err = ESP_OK then emit Stop_Audio k1 else k1))"

definition gm_room_session_reset :: "string \<Rightarrow> u32 \<Rightarrow> u64 \<Rightarrow> gm_core \<Rightarrow> esp_err \<times> gm_core" where
  "gm_room_session_reset room_id duration_ms now_ms k =
     wake_if_ok (with_found_session room_id (session_reset_body duration_ms now_ms) k)"

definition gm_room_session_add_time ::
  "string \<Rightarrow> 32 word \<Rightarrow> u64 \<Rightarrow> gm_core \<Rightarrow> esp_err \<times> gm_core" where
  "gm_room_session_add_time room_id delta_ms now_ms k =
     with_found_session room_id (session_add_time_body delta_ms now_ms) k"

definition gm_room_session_set_hint ::
  "string \<Rightarrow> string \<Rightarrow> u64 \<Rightarrow> gm_core \<Rightarrow> esp_err \<times> gm_core" where
  "gm_room_session_set_hint room_id message now_ms k =
     (if room_id = [] \<or> message = [] then (ESP_ERR_INVALID_ARG, k)
      else with_alloc_session room_id (session_set_hint_body message now_ms) k)"

definition gm_room_session_clear_hint :: "string \<Rightarrow> u64 \<Rightarrow> gm_core \<Rightarrow> esp_err \<times> gm_core" where
  "gm_room_session_clear_hint room_id now_ms k =
     with_found_session room_id (session_clear_hint_body now_ms) k"

end
