(* ===== verification/Gm_Local.thy ===== *)
theory Gm_Local
  imports Gm_Events Gm_Sessions
begin

text \<open>
  Isolation: running, firing or advancing branch \<open>i\<close> keeps the session's identity, its scenario,
  the agreement of session and timer state, and every other branch.  The relation
  \<open>local_to i c d\<close> says that \<open>d\<close> follows from \<open>c\<close> by such work; the rules of \<open>local_intros\<close>
  follow the operations inwards.
\<close>

definition clock_ok :: "gm_room_session \<Rightarrow> bool" where
  "clock_ok s \<longleftrightarrow> s_state s = session_state_of_timer (t_state (s_timer s))"

definition ses_kept :: "gm_room_session \<Rightarrow> gm_room_session \<Rightarrow> bool" where
  "ses_kept s t \<longleftrightarrow> s_in_use t = s_in_use s \<and> s_room_id t = s_room_id s \<and>
     s_running_scenario t = s_running_scenario s \<and>
     s_running_scenario_valid t = s_running_scenario_valid s \<and> s_hint t = s_hint s \<and>
     (clock_ok s \<longrightarrow> clock_ok t)"

definition local_to :: "nat \<Rightarrow> room_ctx \<Rightarrow> room_ctx \<Rightarrow> bool" where
  "local_to i c d \<longleftrightarrow> ses_kept (c_ses c) (c_ses d) \<and> c_prepared d = c_prepared c \<and>
     length (cbranches d) = length (cbranches c) \<and>
     (\<forall>j. j \<noteq> i \<longrightarrow> get_branch d j = get_branch c j)"

lemma ses_kept_refl [simp]: "ses_kept s s"
  by (simp add: ses_kept_def)

lemma ses_kept_trans: "ses_kept r s \<Longrightarrow> ses_kept s t \<Longrightarrow> ses_kept r t"
  by (simp add: ses_kept_def)

lemma ses_core_kept: "ses_core t = ses_core s \<Longrightarrow> ses_kept s t"
  using ses_core_fields [of t s] by (simp add: ses_kept_def clock_ok_def)

lemma local_refl [local_intros]: "local_to i c c"
  by (simp add: local_to_def)

lemma local_trans: "local_to i c d \<Longrightarrow> local_to i d e \<Longrightarrow> local_to i c e"
  using ses_kept_trans by (auto simp: local_to_def)

lemma local_core:
  assumes "local_to i c d" and "ses_core (c_ses e) = ses_core (c_ses d)"
    and "c_prepared e = c_prepared d" and "cbranches e = cbranches d"
  shows "local_to i c e"
proof -
  have "local_to i d e" using assms(2-4) by (simp add: local_to_def ses_core_kept get_branch_def)
  with assms(1) show ?thesis by (rule local_trans)
qed

lemma local_branch_core:
  assumes "local_to i c d" and "ses_core (c_ses e) = ses_core (c_ses d)"
    and "c_prepared e = c_prepared d" and "length (cbranches e) = length (cbranches d)"
    and "\<And>j. j \<noteq> i \<Longrightarrow> get_branch e j = get_branch d j"
  shows "local_to i c e"
proof -
  have "local_to i d e" using assms(2-5) by (simp add: local_to_def ses_core_kept)
  with assms(1) show ?thesis by (rule local_trans)
qed

section \<open>Primitives\<close>

lemma local_upd_view [local_intros]: "local_to i c d \<Longrightarrow> local_to i c (upd_view f d)"
  by (erule local_core) simp_all

lemma local_upd_glob [local_intros]: "local_to i c d \<Longrightarrow> local_to i c (upd_glob f d)"
  by (erule local_core) simp_all

lemma local_mark [local_intros]:
  "local_to i c d \<Longrightarrow> local_to i c (gm_room_session_mark_session_changed_locked d)"
  by (erule local_core) simp_all

lemma local_clear_wait [local_intros]:
  "local_to i c d \<Longrightarrow> local_to i c (gm_room_session_scenario_clear_wait_locked d)"
  by (erule local_core) simp_all

lemma local_set_error [local_intros]:
  "local_to i c d \<Longrightarrow> local_to i c (scenario_set_error_locked m d)"
  by (erule local_core) simp_all

lemma local_last_error [local_intros]:
  "local_to i c d \<Longrightarrow> local_to i c (upd_ses (\<lambda>s. s\<lparr>s_scenario_last_error := m\<rparr>) d)"
  by (erule local_core) simp_all

lemma local_message_field [local_intros]:
  "local_to i c d \<Longrightarrow> local_to i c (upd_ses (\<lambda>s. s\<lparr>s_scenario_operator_message := m\<rparr>) d)"
  by (erule local_core) simp_all

lemma local_message [local_intros]:
  "local_to i c d \<Longrightarrow> local_to i c (set_operator_message m d)"
  by (erule local_core) simp_all

lemma local_begin_wait [local_intros]: "local_to i c d \<Longrightarrow> local_to i c (begin_wait d)"
  by (erule local_core) simp_all

lemma local_enter_dispatch [local_intros]:
  "local_to i c d \<Longrightarrow> local_to i c (scenario_enter_wait_command_dispatch_locked now d)"
  by (erule local_core) simp_all

lemma local_enter_result [local_intros]:
  "local_to i c d \<Longrightarrow> local_to i c (scenario_enter_wait_command_result_locked r now d)"
  by (erule local_core) simp_all

lemma local_wait_skip [local_intros]:
  "local_to i c d \<Longrightarrow> local_to i c (scenario_set_wait_skip_from_step_locked st d)"
  by (simp add: scenario_set_wait_skip_from_step_locked_def local_intros)

lemma local_upd_branch [local_intros]: "local_to i c d \<Longrightarrow> local_to i c (upd_branch i f d)"
  by (erule local_branch_core) simp_all

lemma local_upd_branch_view [local_intros]: "local_to i c d \<Longrightarrow> local_to i c (upd_branch_view i f d)"
  by (simp add: upd_branch_view_upd_branch local_intros)

lemma local_clear_fields [local_intros]:
  "local_to i c d \<Longrightarrow> local_to i c (scenario_branch_clear_wait_fields i d)"
  by (erule local_branch_core) simp_all

lemma local_load [local_intros]:
  "local_to i c d \<Longrightarrow> local_to i c (gm_room_session_scenario_branch_load_into_session j d)"
  by (erule local_core) simp_all

lemma local_save [local_intros]:
  "local_to i c d \<Longrightarrow> local_to i c (gm_room_session_scenario_branch_save_from_session i d)"
  by (erule local_branch_core) simp_all

lemma local_summary [local_intros]:
  "local_to i c d \<Longrightarrow> local_to i c (gm_room_session_scenario_update_summary_from_branches_locked d)"
  by (erule local_core) simp_all

lemma local_pass_step [local_intros]: "local_to i c d \<Longrightarrow> local_to i c (pass_step d)"
  by (simp add: pass_step_def local_intros)

lemma local_scenario_done [local_intros]: "local_to i c d \<Longrightarrow> local_to i c (scenario_done d)"
  by (simp add: scenario_done_def local_intros)

lemma local_set_flag [local_intros]:
  "local_to i c d \<Longrightarrow> local_to i c (snd (scenario_set_flag_locked n v d))"
  by (erule local_core) simp_all

lemma local_enter_waits [local_intros]:
  "local_to i c d \<Longrightarrow> local_to i c (snd (scenario_enter_wait_device_event_locked w r now d))"
  "local_to i c d \<Longrightarrow> local_to i c (snd (enter_wait_event_group ty g r now d))"
  "local_to i c d \<Longrightarrow> local_to i c (snd (scenario_enter_wait_any_device_event_locked g r now d))"
  "local_to i c d \<Longrightarrow> local_to i c (snd (scenario_enter_wait_all_device_events_locked g r now d))"
  "local_to i c d \<Longrightarrow> local_to i c (snd (scenario_enter_wait_flags_locked f now d))"
  by (erule local_core; simp add: scenario_enter_wait_any_device_event_locked_def
      scenario_enter_wait_all_device_events_locked_def)+

lemma local_sndD: "f = (e, d') \<Longrightarrow> local_to i c (snd f) \<Longrightarrow> local_to i c d'"
  by simp

lemma local_finish_game [local_intros]:
  assumes "local_to i c d"
  shows "local_to i c (snd (finish_game_without_audio_locked now d))"
proof -
  let ?t = "snd (gm_timer_finish (s_timer (c_ses d)) now)"
  let ?d = "upd_ses (\<lambda>s. s\<lparr>s_state := GM_SESSION_FINISHED, s_finished_at_ms := now, s_timer := ?t\<rparr>) d"
  have "t_state ?t = GM_TIMER_FINISHED" by (simp add: gm_timer_finish_def)
  then have "local_to i d ?d"
    by (simp add: local_to_def ses_kept_def clock_ok_def get_branch_def)
  with assms have "local_to i c ?d" by (rule local_trans)
  then show ?thesis
    by (simp add: finish_game_without_audio_locked_def gm_timer_finish_def local_intros)
qed

lemma local_apply_timeout [local_intros]:
  "local_to i c d \<Longrightarrow> local_to i c (snd (scenario_apply_wait_timeout_locked now d))"
  by (simp add: scenario_apply_wait_timeout_locked_def Let_def local_intros split: option.split)

section \<open>Reactions\<close>

lemma local_completion [local_intros]:
  "local_to i c d \<Longrightarrow> local_to i c (snd (reactive_v2_apply_completion_locked m d))"
  by (erule local_core) simp_all

lemma local_fail_reaction [local_intros]:
  "local_to i c d \<Longrightarrow> local_to i c (reactive_v2_fail_reaction_locked i m d)"
  by (simp add: reactive_v2_fail_reaction_locked_def local_intros)

lemma local_reset_reaction [local_intros]:
  "local_to i c d \<Longrightarrow> local_to i c (reactive_v2_reset_reaction_locked i d)"
  by (simp add: reactive_v2_reset_reaction_locked_def local_intros)

lemma local_resume_reaction [local_intros]: "local_to i c d \<Longrightarrow> local_to i c (resume_reaction i d)"
  by (simp add: resume_reaction_def local_intros)

lemma local_finish_outcome:
  assumes "local_to i c d"
  shows "finish_outcome_of i model now d = Finish_Return err e \<Longrightarrow> local_to i c e"
    and "finish_outcome_of i model now d = Finish_Refire e \<Longrightarrow> local_to i c e"
proof -
  obtain err1 d1 where d1: "reactive_v2_apply_completion_locked model d = (err1, d1)" by force
  have l: "local_to i c d1"
    by (rule local_sndD [OF d1]) (intro local_intros assms)
  show "finish_outcome_of i model now d = Finish_Return err e \<Longrightarrow> local_to i c e"
    by (auto simp: finish_outcome_of_def Let_def d1 split: if_splits simp del: upd_branch_upd_branch
        intro!: local_intros l)
  show "finish_outcome_of i model now d = Finish_Refire e \<Longrightarrow> local_to i c e"
    by (auto simp: finish_outcome_of_def Let_def d1 split: if_splits simp del: upd_branch_upd_branch
        intro!: local_intros l)
qed

lemma local_plan_reactive:
  assumes "gm_room_session_plan_reactive_action_command_locked i action now d = (err, txt, plan, e)"
    and "local_to i c d"
  shows "local_to i c e"
  using assms
  by (auto simp: gm_room_session_plan_reactive_action_command_locked_def Let_def
      split: step_data.splits if_splits intro!: local_intros)

fun action_outcome_ctx :: "action_outcome \<Rightarrow> room_ctx" where
  "action_outcome_ctx (Action_Next c) = c"
| "action_outcome_ctx (Action_Return err plan c) = c"

lemma local_event_wait_action:
  assumes "local_to i c d" and "\<And>r. local_to i c (snd (enter r d))"
  shows "local_to i c (action_outcome_ctx (reactive_event_wait_action i index enter m1 m2 d))"
proof -
  have "local_to i c e" if "enter r d = (err, e)" for r err e
    using assms(2) [of r] that by simp
  then show ?thesis using assms(1)
    by (auto simp: reactive_event_wait_action_def reactive_error_def
        split: sum.splits prod.splits intro!: local_intros)
qed

lemma local_action_step:
  assumes "local_to i c d"
  shows "local_to i c (action_outcome_ctx (reactive_action_step i now d))"
proof -
  let ?actions = "sc_reactive_actions (s_running_scenario (c_ses d))"
  let ?index = "reactive_action_index (get_branch d i)"
  show ?thesis
  proof (cases "?index \<ge> length ?actions")
    case True
    then show ?thesis
      using assms by (simp add: reactive_action_step_def Let_def reactive_error_def local_intros)
  next
    case False
    note step = reactive_action_step_def [of i now d, unfolded Let_def, simplified False if_False]
    have plan: "local_to i c (action_outcome_ctx (reactive_plan_action i a m now d))" for a m
      using local_plan_reactive [OF _ assms]
      by (auto simp: reactive_plan_action_def reactive_error_def split: prod.splits
          intro!: local_intros)
    have flags: "local_to i c e" if "scenario_enter_wait_flags_locked w now d = (err, e)" for w err e
      using that by (rule local_sndD) (intro local_intros assms)
    have flag: "local_to i c e" if "scenario_set_flag_locked n v d = (err, e)" for n v err e
      using that by (rule local_sndD) (intro local_intros assms)
    show ?thesis
      by (cases "ra_data (?actions ! ?index)")
        (auto simp: step plan reactive_error_def dest!: flags flag split: prod.splits
          intro!: local_intros local_event_wait_action assms simp del: upd_branch_upd_branch)
  qed
qed

fun loop_outcome_ctx :: "loop_outcome \<Rightarrow> room_ctx" where
  "loop_outcome_ctx (Loop_Finish c) = c"
| "loop_outcome_ctx (Loop_Return err plan c) = c"

lemma local_actions_loop:
  "local_to i c d \<Longrightarrow> local_to i c (loop_outcome_ctx (reactive_actions_loop n i now d))"
proof (induction n arbitrary: d)
  case 0
  then show ?case by (simp add: local_intros)
next
  case (Suc n)
  show ?case using local_action_step [OF Suc.prems, of now] Suc
    by (auto split: action_outcome.splits)
qed

fun fire_outcome_ctx :: "fire_outcome \<Rightarrow> room_ctx" where
  "fire_outcome_ctx (Fire_Return err c) = c"
| "fire_outcome_ctx (Fire_Run c) = c"

lemma local_fire_outcome:
  "local_to i c d \<Longrightarrow> local_to i c (fire_outcome_ctx (fire_outcome_of i now d))"
  by (auto simp: fire_outcome_of_def Let_def split: option.splits prod.splits
      intro!: local_intros simp del: upd_branch_upd_branch)

lemma local_fire:
  "local_to i c d \<Longrightarrow> local_to i c (snd (snd (gm_room_session_reactive_v2_fire_locked i now plan d)))"
proof (induction i now plan d rule: gm_room_session_reactive_v2_fire_locked.induct)
  case (1 i now plan d)
  show ?case
  proof (cases "fire_outcome_of i now d")
    case (Fire_Return err e)
    then show ?thesis
      using local_fire_outcome [OF "1.prems", of now]
      by (simp add: gm_room_session_reactive_v2_fire_locked.simps [of i now plan d])
  next
    case (Fire_Run e)
    have e: "local_to i c e" using local_fire_outcome [OF "1.prems", of now] by (simp add: Fire_Run)
    note unf = gm_room_session_reactive_v2_fire_locked.simps [of i now plan d]
    show ?thesis
    proof (cases "reactive_v2_model_branch (c_ses e) (get_branch e i)")
      case None
      then show ?thesis using e by (simp add: unf Fire_Run)
    next
      case (Some model)
      show ?thesis
      proof (cases "b_active (get_branch e i)")
        case False
        then show ?thesis using e by (simp add: unf Fire_Run Some)
      next
        case True
        note loop = local_actions_loop [OF e, of GM_REACTIVE_V2_MAX_ACTIONS_PER_TICK now]
        show ?thesis
        proof (cases "reactive_actions_loop GM_REACTIVE_V2_MAX_ACTIONS_PER_TICK i now e")
          case (Loop_Return err p e2)
          then show ?thesis using loop by (simp add: unf Fire_Run Some True)
        next
          case (Loop_Finish e2)
          then have e2: "local_to i c e2" using loop by simp
          show ?thesis
          proof (cases "finish_outcome_of i model now e2")
            case (Finish_Return err e3)
            then show ?thesis
              using local_finish_outcome(1) [OF e2]
              by (simp add: unf Fire_Run Some True Loop_Finish)
          next
            case (Finish_Refire e3)
            then show ?thesis
              using "1.IH" [OF Fire_Run Some _ Loop_Finish Finish_Refire] True
                local_finish_outcome(2) [OF e2 Finish_Refire]
              by (simp add: unf Fire_Run Some Loop_Finish)
          qed
        qed
      qed
    qed
  qed
qed

declare local_fire [local_intros]

lemma local_finish [local_intros]:
  assumes "local_to i c d"
  shows "local_to i c (snd (snd (reactive_v2_finish_locked i model now plan d)))"
proof (cases "finish_outcome_of i model now d")
  case (Finish_Return err e)
  then show ?thesis
    using local_finish_outcome(1) [OF assms] by (simp add: reactive_v2_finish_locked_def)
next
  case (Finish_Refire e)
  then show ?thesis
    using local_fire [OF local_finish_outcome(2) [OF assms]]
    by (simp add: reactive_v2_finish_locked_def)
qed

lemma local_continue [local_intros]:
  assumes "local_to i c d"
  shows "local_to i c (snd (snd (gm_room_session_reactive_v2_continue_locked i now plan d)))"
proof -
  note loop = local_actions_loop [OF assms, of GM_REACTIVE_V2_MAX_ACTIONS_PER_TICK now]
  show ?thesis
  proof (cases "reactive_actions_loop GM_REACTIVE_V2_MAX_ACTIONS_PER_TICK i now d")
    case (Loop_Finish e)
    then show ?thesis
      using assms local_finish [of i c e] loop
      by (simp add: gm_room_session_reactive_v2_continue_locked_def split: option.split)
  next
    case (Loop_Return err p e)
    then show ?thesis
      using assms loop
      by (simp add: gm_room_session_reactive_v2_continue_locked_def split: option.split)
  qed
qed

lemma local_snd_sndD:
  "f = (e, p, d') \<Longrightarrow> local_to i c (snd (snd f)) \<Longrightarrow> local_to i c d'"
  by simp

lemma local_reactive_timeout [local_intros]:
  "local_to i c d \<Longrightarrow>
   local_to i c (snd (snd (gm_room_session_reactive_v2_apply_wait_timeout_locked i a now plan d)))"
  by (auto simp: gm_room_session_reactive_v2_apply_wait_timeout_locked_def
      split: wait_timeout_action.split intro!: local_intros)

lemma local_result_policy [local_intros]:
  assumes "local_to i c d"
  shows "local_to i c (snd (snd (reactive_v2_apply_result_policy_locked i model a now m plan d)))"
proof -
  have "local_to i c e" if "scenario_set_flag_locked n v d = (err, e)" for n v err e
    using that by (rule local_sndD) (intro local_intros assms)
  then show ?thesis using assms
    by (auto simp: reactive_v2_apply_result_policy_locked_def Let_def
        split: reactive_result_action.split prod.split intro!: local_intros)
qed

lemma local_result_handlers [local_intros]:
  "local_to i c d \<Longrightarrow> local_to i c
     (snd (snd (gm_room_session_reactive_v2_handle_result_failure_locked i st now plan d)))"
  "local_to i c d \<Longrightarrow> local_to i c
     (snd (snd (gm_room_session_reactive_v2_handle_result_success_locked i now plan d)))"
  "local_to i c d \<Longrightarrow> local_to i c
     (snd (snd (gm_room_session_reactive_v2_trigger_during_wait_locked i now plan d)))"
  by (auto simp: gm_room_session_reactive_v2_handle_result_failure_locked_def
      gm_room_session_reactive_v2_handle_result_success_locked_def
      gm_room_session_reactive_v2_trigger_during_wait_locked_def Let_def
      split: option.split intro!: local_intros simp del: upd_branch_upd_branch)

lemma local_consume [local_intros]:
  "local_to i c d \<Longrightarrow>
   local_to i c (snd (gm_room_session_reactive_v2_consume_trigger_event_locked i msg d))"
  by (auto simp: gm_room_session_reactive_v2_consume_trigger_event_locked_def
      reactive_v2_trigger_event_matches_locked_def Let_def
      split: option.split reactive_trigger_kind.split intro!: local_intros)

section \<open>Steps\<close>

fun step_outcome_ctx :: "step_outcome \<Rightarrow> room_ctx" where
  "step_outcome_ctx (Step_Next c) = c"
| "step_outcome_ctx (Step_Return err plan c) = c"

lemma local_step_event_wait:
  assumes "local_to i c (snd (enter d))"
  shows "local_to i c (step_outcome_ctx (step_event_wait step enter m d))"
proof -
  obtain err e where e: "enter d = (err, e)" by force
  have "local_to i c e" using assms by (simp add: e)
  then show ?thesis by (auto simp: step_event_wait_def e step_error_def intro!: local_intros)
qed

lemma local_plan_scenario:
  "local_to i c d \<Longrightarrow>
   local_to i c (snd (snd (gm_room_session_plan_scenario_command_locked bi now d)))"
  "local_to i c d \<Longrightarrow>
   local_to i c (snd (snd (snd (gm_room_session_plan_scenario_command_group_locked bi cmds now p d))))"
  by (auto simp: gm_room_session_plan_scenario_command_locked_def
      gm_room_session_plan_scenario_command_group_locked_def intro!: local_intros)

lemma local_execute_step:
  assumes l: "local_to i c d"
  shows "local_to i c (step_outcome_ctx (execute_step now bi res step d))"
proof (cases "st_enabled step")
  case False
  then show ?thesis using l by (simp add: execute_step_def local_intros)
next
  case True
  note unf = execute_step_def [of now bi res step d, unfolded Let_def]
  have flags: "local_to i c e" if "scenario_enter_wait_flags_locked w now d = (err, e)" for w err e
    using that by (rule local_sndD) (intro local_intros l)
  have flag: "local_to i c e" if "scenario_set_flag_locked n v d = (err, e)" for n v err e
    using that by (rule local_sndD) (intro local_intros l)
  have fin: "local_to i c e" if "finish_game_without_audio_locked w d = (err, e)" for w err e
    using that by (rule local_sndD) (intro local_intros l)
  have cmd: "local_to i c e"
    if "gm_room_session_plan_scenario_command_locked bi now d = (err, p, e)" for err p e
    using local_plan_scenario(1) [OF l, of bi now] that by simp
  have grp: "local_to i c e"
    if "gm_room_session_plan_scenario_command_group_locked bi cmds now p0 d = (err, t, p, e)"
    for cmds p0 err t p e
    using local_plan_scenario(2) [OF l, of bi cmds now p0] that by simp
  show ?thesis
    by (cases "st_data step")
      (auto simp: unf True step_error_def dest!: flags flag fin cmd grp split: prod.split
        intro!: local_intros local_step_event_wait l)
qed

lemma local_execute_steps:
  "local_to i c d \<Longrightarrow> local_to i c (snd (snd (execute_steps n now en bi res d)))"
proof (induction n arbitrary: d)
  case (Suc n)
  let ?step = "sc_steps (s_running_scenario (c_ses d)) ! unat (v_current_step_index (s_view (c_ses d)))"
  have st: "local_to i c (step_outcome_ctx (execute_step now bi res ?step d))"
    by (rule local_execute_step [OF Suc.prems])
  show ?case
  proof (cases "execute_step now bi res ?step d")
    case (Step_Next e)
    then show ?thesis using st Suc.IH [of e] local_scenario_done [OF Suc.prems] by (simp add: Let_def)
  next
    case (Step_Return err p e)
    then show ?thesis using st local_scenario_done [OF Suc.prems] by (simp add: Let_def)
  qed
qed simp

lemma local_run_loaded:
  assumes "local_to i c d"
  shows "local_to i c (snd (snd (run_loaded_branch i now n en r d)))"
proof -
  have "local_to i c (snd (snd (execute_scenario_locked now n en bi ra
          (gm_room_session_scenario_branch_load_into_session i d))))" for bi ra
    unfolding execute_scenario_locked_def Let_def by (intro local_execute_steps local_intros assms)
  then show ?thesis
    by (auto simp: run_loaded_branch_def split: prod.split intro!: local_save dest: local_snd_sndD)
qed

lemma local_rearm [local_intros]: "local_to i c d \<Longrightarrow> local_to i c (rearm_legacy_reactive i now d)"
  by (simp add: rearm_legacy_reactive_def local_intros)

lemma local_summary_if [local_intros]: "local_to i c d \<Longrightarrow> local_to i c (summary_if u d)"
  by (simp add: summary_if_def local_intros)

lemma local_execute_branch [local_intros]:
  assumes l: "local_to i c d"
  shows "local_to i c (snd (snd (execute_branch_core_locked i now n u plan d)))"
proof -
  have run: "local_to i c f" if "run_loaded_branch i now n en r e = (err, p, f)" "local_to i c e"
    for en r e err p f
    using local_run_loaded [OF that(2), of now n en r] that(1) by simp
  show ?thesis
    using l
    by (auto simp: execute_branch_core_locked_def Let_def dest!: run split: sum.split prod.split
        intro!: local_intros simp del: upd_branch_upd_branch)
qed

lemma local_execute_branch_locked [local_intros]:
  "local_to i c d \<Longrightarrow> local_to i c (snd (snd (gm_room_session_execute_branch_locked i now n plan d)))"
  by (simp add: gm_room_session_execute_branch_locked_def local_intros)

section \<open>Events and ticks\<close>

lemma local_stop_if_planned:
  "local_to i c d \<Longrightarrow> local_to i c (snd (snd (snd (stop_if_planned m p d))))"
  by (simp add: stop_if_planned_def local_intros)

lemma local_event_fire:
  assumes "local_to i c d"
  shows "local_to i c (snd (snd (snd (event_fire_branch i msg now (m, p, d)))))"
proof -
  obtain ok e where e: "gm_room_session_reactive_v2_consume_trigger_event_locked i msg d = (ok, e)"
    by force
  have le: "local_to i c e" using e by (rule local_sndD) (intro local_intros assms)
  let ?r = "if v_wait_type (b_view (get_branch e i)) = WAIT_TIME
            then gm_room_session_reactive_v2_trigger_during_wait_locked i now p e
            else gm_room_session_reactive_v2_fire_locked i now p e"
  obtain err p1 f where f: "?r = (err, p1, f)" by (metis prod_cases3)
  have "local_to i c f"
    using f by (rule local_snd_sndD) (simp add: local_intros le)
  then show ?thesis
    using le local_stop_if_planned by (simp add: event_fire_branch_def e f)
qed

lemma local_event_advance:
  assumes "local_to i c d"
  shows "local_to i c (snd (snd (snd (event_advance_branch i now p d))))"
proof -
  let ?r = "gm_room_session_execute_branch_locked i now GM_SCENARIO_MAX_STEPS_PER_TICK p
     (gm_room_session_scenario_branch_save_from_session i (pass_step d))"
  obtain err p1 f where f: "?r = (err, p1, f)" by (metis prod_cases3)
  have "local_to i c f" using f by (rule local_snd_sndD) (intro local_intros assms)
  then show ?thesis using local_stop_if_planned by (simp add: event_advance_branch_def f)
qed

lemma local_event_matched_wait:
  assumes l: "local_to i c d"
  shows "local_to i c (snd (snd (snd (event_matched_wait i msg now (m, p, d)))))"
proof -
  let ?f = "gm_room_session_reactive_v2_handle_result_failure_locked i (ev_payload msg) now p d"
  let ?s = "gm_room_session_reactive_v2_handle_result_success_locked i now p d"
  have "local_to i c (snd (snd ?f))" "local_to i c (snd (snd ?s))" by (intro local_intros l)+
  then show ?thesis
    using l
    by (simp add: event_matched_wait_def Let_def local_stop_if_planned local_event_advance
        local_intros case_prod_beta)
qed

lemma local_event_branch:
  assumes "local_to i c d"
  shows "local_to i c (snd (snd (snd (event_branch cre cf (i, mt) msg now (m, p, d)))))"
  using assms
  by (cases mt) (auto simp: event_branch_def Let_def
      intro!: local_event_fire local_event_matched_wait local_intros)

text \<open>Work on several branches: everything but the isolation of the branches.\<close>

definition ctx_kept :: "room_ctx \<Rightarrow> room_ctx \<Rightarrow> bool" where
  "ctx_kept c d \<longleftrightarrow> ses_kept (c_ses c) (c_ses d) \<and> c_prepared d = c_prepared c \<and>
     length (cbranches d) = length (cbranches c)"

lemma ctx_kept_refl: "ctx_kept c c"
  by (simp add: ctx_kept_def)

lemma ctx_kept_trans: "ctx_kept c d \<Longrightarrow> ctx_kept d e \<Longrightarrow> ctx_kept c e"
  using ses_kept_trans by (auto simp: ctx_kept_def)

lemma local_kept: "local_to i c d \<Longrightarrow> ctx_kept c d"
  by (simp add: ctx_kept_def local_to_def)

lemmas kept_step = ctx_kept_trans [OF _ local_kept]

lemma kept_event_branches:
  "ctx_kept c d \<Longrightarrow> ctx_kept c (snd (snd (snd (event_branches cre cf ims msg now (m, p, d)))))"
proof (induction ims arbitrary: m p d)
  case Nil
  then show ?case by (auto intro!: kept_step [OF _ local_summary] local_refl)
next
  case (Cons im ims)
  obtain i mt where im: "im = (i, mt)" by (cases im)
  obtain stop m1 p1 d1 where b: "event_branch cre cf im msg now (m, p, d) = (stop, m1, p1, d1)"
    by (metis prod_cases4)
  have "local_to i d d1" using local_event_branch [OF local_refl, of i d cre cf mt msg now m p]
    by (simp add: b [unfolded im])
  then have "ctx_kept c d1" using Cons.prems kept_step by blast
  then show ?case using Cons.IH by (simp add: b)
qed

lemma kept_scan: "ctx_kept c d \<Longrightarrow> ctx_kept c (snd (scan_reactive is msg d))"
proof (induction "is" arbitrary: d)
  case (Cons i "is")
  obtain m d1 where s1: "scan_reactive_branch i msg d = (m, d1)" by (cases "scan_reactive_branch i msg d")
  have "local_to i d (snd (scan_reactive_branch i msg d))"
    by (auto simp: scan_reactive_branch_def branch_wait_matches_message_def Let_def
        intro!: local_intros)
  then have "ctx_kept c d1" using Cons.prems kept_step by (simp add: s1)
  then show ?case using Cons.IH [of d1] by (auto simp: s1 split: prod.split)
qed simp

lemma kept_event_session: "ctx_kept c (snd (snd (snd (event_session msg now (m, p, c)))))"
proof -
  obtain ms d where d: "scan_reactive (branch_indices c) msg c = (ms, d)" by force
  have "ctx_kept c d" using kept_scan [OF ctx_kept_refl, of c "branch_indices c" msg] by (simp add: d)
  then show ?thesis
    using kept_event_branches [of c] ctx_kept_refl
    by (simp add: event_session_def Let_def d del: event_branches.simps split: option.split)
qed

fun wait_outcome_ctx :: "wait_outcome \<Rightarrow> room_ctx" where
  "wait_outcome_ctx (Wait_Handled p c) = c"
| "wait_outcome_ctx (Wait_Ready p c) = c"

lemma local_reactive_timed_out:
  assumes "local_to i c d"
  shows "local_to i c (wait_outcome_ctx (reactive_wait_timed_out i now p d))"
proof -
  have "local_to i c f"
    if "gm_room_session_reactive_v2_apply_wait_timeout_locked i a now p d = (err, p1, f)"
    for a err p1 f
    using that by (rule local_snd_sndD) (intro local_intros assms)
  then show ?thesis
    by (auto simp: reactive_wait_timed_out_def Let_def save_handled_def split: prod.split
        intro!: local_intros assms)
qed

lemma local_process_wait:
  assumes l: "local_to i c d"
  shows "local_to i c (wait_outcome_ctx (gm_room_session_runtime_process_wait_locked i now p d))"
proof -
  obtain a e where e: "scenario_apply_wait_timeout_locked now d = (a, e)" by force
  have le: "local_to i c e" using e by (rule local_sndD) (intro local_intros l)
  have ex: "local_to i c (snd (snd (execute_branch_core_locked i now GM_SCENARIO_MAX_STEPS_PER_TICK
       False p (gm_room_session_scenario_branch_save_from_session i e))))"
    by (intro local_intros le)
  show ?thesis
    using l le ex local_reactive_timed_out [OF l]
    by (simp add: gm_room_session_runtime_process_wait_locked_def Let_def save_handled_def e
        local_intros case_prod_beta)
qed

lemma local_prepare_branch:
  "local_to i c d \<Longrightarrow> local_to i c (snd (gm_room_session_runtime_prepare_branch_locked i now d))"
  by (simp add: gm_room_session_runtime_prepare_branch_locked_def Let_def local_intros)

lemma local_process_branch:
  assumes "local_to i c d"
  shows "local_to i c (snd (snd (gm_room_session_runtime_process_branch_locked i now p d)))"
proof -
  obtain go e where e: "gm_room_session_runtime_prepare_branch_locked i now d = (go, e)" by force
  have le: "local_to i c e" using e by (rule local_sndD) (intro local_prepare_branch assms)
  let ?w = "gm_room_session_runtime_process_wait_locked i now p
     (gm_room_session_scenario_branch_load_into_session i e)"
  have w: "local_to i c (wait_outcome_ctx ?w)" by (intro local_process_wait local_load le)
  have adv: "local_to i c (snd (snd (gm_room_session_runtime_advance_ready_branch_locked i now p1 f)))"
    if "local_to i c f" for p1 f
  proof -
    have "local_to i c (snd (snd (execute_branch_core_locked i now GM_SCENARIO_MAX_STEPS_PER_TICK False
       p1 (gm_room_session_scenario_branch_save_from_session i f))))" by (intro local_intros that)
    then show ?thesis
      by (simp add: gm_room_session_runtime_advance_ready_branch_locked_def case_prod_beta)
  qed
  show ?thesis
    by (cases ?w) (use w le adv in \<open>simp_all add: gm_room_session_runtime_process_branch_locked_def e\<close>)
qed

lemma kept_advance_branches:
  "ctx_kept c d \<Longrightarrow> ctx_kept c (snd (snd (advance_branches_loop is now p d)))"
proof (induction "is" arbitrary: p d)
  case Nil
  then show ?case by (auto intro!: kept_step [OF _ local_summary] local_refl)
next
  case (Cons i "is")
  obtain stop p1 d1 where b: "gm_room_session_runtime_process_branch_locked i now p d = (stop, p1, d1)"
    by (metis prod_cases3)
  have "local_to i d d1" using local_process_branch [OF local_refl, of i d now p] by (simp add: b)
  then have k: "ctx_kept c d1" using Cons.prems kept_step by blast
  show ?case
    using Cons.IH [OF k] kept_step [OF k local_summary [OF local_refl]] by (simp add: b)
qed

lemma kept_tick: "ctx_kept c (snd (snd (gm_room_session_runtime_advance_ready_branches_locked now p c)))"
  by (simp add: gm_room_session_runtime_advance_ready_branches_locked_def kept_advance_branches
      ctx_kept_refl)

lemma kept_execute_all: "ctx_kept c (snd (snd (execute_all_running_branches_locked now n p c)))"
proof -
  have loop: "ctx_kept c (snd (snd (execute_branches_loop is now n fe p d)))" if "ctx_kept c d"
    for "is" fe p d
    using that
  proof (induction "is" arbitrary: fe p d)
    case (Cons i "is")
    obtain err p1 d1 where b: "execute_branch_core_locked i now n False p d = (err, p1, d1)"
      by (metis prod_cases3)
    have "local_to i d d1" using local_execute_branch [OF local_refl, of i d now n False p] by (simp add: b)
    then have k: "ctx_kept c d1" using Cons.prems kept_step by blast
    show ?case using Cons.IH [OF k] Cons.IH [OF Cons.prems] k by (simp add: Let_def b)
  qed simp
  show ?thesis
    using kept_step [OF loop [OF ctx_kept_refl] local_summary [OF local_refl]] ctx_kept_refl
    by (simp add: execute_all_running_branches_locked_def case_prod_beta)
qed

end
