(* ===== verification/Gm_Table_Laws.thy ===== *)
theory Gm_Table_Laws
  imports Gm_Table Gm_Local
begin

text \<open>
  Laws of the session table and of the lock: looking up a session, allocating one, flushing the
  deferred effects, and the contract under which an operation keeps the table well formed.
\<close>

section \<open>Unlocking\<close>

lemma flush_frame [simp]:
  "k_sessions (flush_cancel r k) = k_sessions k" "k_prepared (flush_cancel r k) = k_prepared k"
  "k_glob (flush_cancel r k) = k_glob k" "k_runtime_queue (flush_cancel r k) = k_runtime_queue k"
  "k_sessions (flush_flag_event f k) = k_sessions k" "k_prepared (flush_flag_event f k) = k_prepared k"
  "k_glob (flush_flag_event f k) = k_glob k" "k_runtime_queue (flush_flag_event f k) = k_runtime_queue k"
  by (simp_all add: flush_cancel_def flush_flag_event_def emit_def split: sum.split)

lemma fold_flush_frame [simp]:
  "k_sessions (fold flush_cancel rs k) = k_sessions k"
  "k_prepared (fold flush_cancel rs k) = k_prepared k"
  "k_glob (fold flush_cancel rs k) = k_glob k"
  "k_sessions (fold flush_flag_event fs k) = k_sessions k"
  "k_prepared (fold flush_flag_event fs k) = k_prepared k"
  "k_glob (fold flush_flag_event fs k) = k_glob k"
  by (induction rs arbitrary: k; simp)+ (induction fs arbitrary: k; simp)+

lemma unlock_frame [simp]:
  "k_sessions (gm_room_session_sessions_unlock k) = k_sessions k"
  "k_prepared (gm_room_session_sessions_unlock k) = k_prepared k"
  "g_cancel_request_ids (k_glob (gm_room_session_sessions_unlock k)) = []"
  "g_flag_events (k_glob (gm_room_session_sessions_unlock k)) = []"
  "g_generation (k_glob (gm_room_session_sessions_unlock k)) = g_generation (k_glob k)"
  by (simp_all add: gm_room_session_sessions_unlock_def Let_def)

lemma lock_frame [simp]:
  "k_sessions (gm_room_session_sessions_lock k) = k_sessions k"
  "k_prepared (gm_room_session_sessions_lock k) = k_prepared k"
  "k_trace (gm_room_session_sessions_lock k) = k_trace k"
  "g_cancel_request_ids (k_glob (gm_room_session_sessions_lock k)) = g_cancel_request_ids (k_glob k)"
  "g_flag_events (k_glob (gm_room_session_sessions_lock k)) = g_flag_events (k_glob k)"
  "g_generation (k_glob (gm_room_session_sessions_lock k)) = g_generation (k_glob k)"
  by (simp_all add: gm_room_session_sessions_lock_def Let_def)

lemma wake_frame [simp]:
  "k_sessions (gm_room_session_runtime_wake k) = k_sessions k"
  "k_prepared (gm_room_session_runtime_wake k) = k_prepared k"
  "k_glob (gm_room_session_runtime_wake k) = k_glob k"
  by (simp_all add: gm_room_session_runtime_wake_def split: option.split)

lemma emit_frame [simp]:
  "k_sessions (emit e k) = k_sessions k" "k_prepared (emit e k) = k_prepared k"
  "k_glob (emit e k) = k_glob k" "k_trace (emit e k) = k_trace k @ [e]"
  by (simp_all add: emit_def)

section \<open>Well-formed tables\<close>

text \<open>
  A table is well formed when no two used slots have the same room, used slots have a room id
  that fits its buffer, and in every slot the state of the session agrees with its timer and the
  branch table is within its bound.
\<close>

definition slot_ok :: "gm_room_session \<Rightarrow> bool" where
  "slot_ok s \<longleftrightarrow> clock_ok s \<and> length (s_branch_runtimes s) \<le> ROOM_SCENARIO_MAX_BRANCHES \<and>
     (s_in_use s \<longrightarrow> s_room_id s \<noteq> [] \<and> length (s_room_id s) < QUEST_ROOM_ID_MAX_LEN)"

definition rooms_distinct :: "gm_room_session list \<Rightarrow> bool" where
  "rooms_distinct ss \<longleftrightarrow> (\<forall>i j. i < length ss \<longrightarrow> j < length ss \<longrightarrow> s_in_use (ss ! i) \<longrightarrow>
     s_in_use (ss ! j) \<longrightarrow> s_room_id (ss ! i) = s_room_id (ss ! j) \<longrightarrow> i = j)"

definition table_ok :: "gm_core \<Rightarrow> bool" where
  "table_ok k \<longleftrightarrow> length (k_prepared k) = length (k_sessions k) \<and>
     rooms_distinct (k_sessions k) \<and> (\<forall>s \<in> set (k_sessions k). slot_ok s)"

text \<open>Between two lock sections there are no deferred effects.\<close>

definition core_ok :: "gm_core \<Rightarrow> bool" where
  "core_ok k \<longleftrightarrow> table_ok k \<and> g_cancel_request_ids (k_glob k) = [] \<and> g_flag_events (k_glob k) = []"

lemma table_ok_cong:
  "k_sessions k = k_sessions l \<Longrightarrow> k_prepared k = k_prepared l \<Longrightarrow> table_ok k = table_ok l"
  by (simp add: table_ok_def)

lemma table_ok_lock [simp]: "table_ok (gm_room_session_sessions_lock k) = table_ok k"
  by (rule table_ok_cong) simp_all

lemma core_ok_unlock [simp]: "core_ok (gm_room_session_sessions_unlock k) = table_ok k"
  using table_ok_cong [of "gm_room_session_sessions_unlock k" k] by (simp add: core_ok_def)

lemma core_ok_cong:
  "k_sessions k = k_sessions l \<Longrightarrow> k_prepared k = k_prepared l \<Longrightarrow> k_glob k = k_glob l \<Longrightarrow>
   core_ok k = core_ok l"
  by (simp add: core_ok_def table_ok_def)

lemma core_ok_wake [simp]: "core_ok (gm_room_session_runtime_wake k) = core_ok k"
  by (rule core_ok_cong) simp_all

lemma core_ok_emit [simp]: "core_ok (emit e k) = core_ok k"
  by (rule core_ok_cong) simp_all

section \<open>Looking up and allocating\<close>

lemma find_session_Some:
  "find_session_mutable_locked k r = Some i \<Longrightarrow>
   i < length (k_sessions k) \<and> s_in_use (k_sessions k ! i) \<and> s_room_id (k_sessions k ! i) = r \<and> r \<noteq> []"
  by (auto simp: find_session_mutable_locked_def split: if_splits dest!: find_index_SomeD)

lemma find_session_unique:
  assumes "table_ok k" and "i < length (k_sessions k)" and "s_in_use (k_sessions k ! i)"
    and "s_room_id (k_sessions k ! i) = r"
  shows "find_session_mutable_locked k r = Some i"
proof -
  have "r \<noteq> []" using assms nth_mem [OF assms(2)] by (auto simp: table_ok_def slot_ok_def)
  then have "find_index (\<lambda>s. s_in_use s \<and> s_room_id s = r) (k_sessions k) = Some i"
  proof (intro find_index_eqI)
    fix j assume "j < i"
    then show "\<not> (s_in_use (k_sessions k ! j) \<and> s_room_id (k_sessions k ! j) = r)"
      using assms unfolding table_ok_def rooms_distinct_def
      by (metis less_irrefl less_trans)
  qed (use assms in auto)
  then show ?thesis using \<open>r \<noteq> []\<close> by (simp add: find_session_mutable_locked_def)
qed

definition body_keeps :: "gm_room_session \<Rightarrow> gm_room_session \<Rightarrow> bool" where
  "body_keeps s t \<longleftrightarrow> s_in_use t = s_in_use s \<and> s_room_id t = s_room_id s \<and>
     (clock_ok s \<longrightarrow> clock_ok t) \<and>
     (length (s_branch_runtimes s) \<le> ROOM_SCENARIO_MAX_BRANCHES \<longrightarrow>
      length (s_branch_runtimes t) \<le> ROOM_SCENARIO_MAX_BRANCHES)"

lemma put_ctx_frame [simp]:
  "k_sessions (put_ctx i c k) = (k_sessions k)[i := c_ses c]"
  "k_prepared (put_ctx i c k) = (k_prepared k)[i := c_prepared c]"
  "k_glob (put_ctx i c k) = c_glob c"
  by (simp_all add: put_ctx_def)

lemma core_ctx_ses [simp]: "c_ses (core_ctx k i) = k_sessions k ! i"
  by (simp add: core_ctx_def)

lemma table_ok_put:
  assumes "table_ok k" and "body_keeps (k_sessions k ! i) (c_ses c)"
  shows "table_ok (put_ctx i c k)"
proof (cases "i < length (k_sessions k)")
  case True
  have s: "slot_ok (k_sessions k ! i)" using assms(1) nth_mem [OF True] by (auto simp: table_ok_def)
  then have "slot_ok (c_ses c)" using assms(2) by (auto simp: slot_ok_def body_keeps_def)
  moreover have "rooms_distinct ((k_sessions k)[i := c_ses c])"
    using assms True unfolding rooms_distinct_def table_ok_def body_keeps_def
    by (auto simp: nth_list_update split: if_splits)
  ultimately show ?thesis
    using assms(1) by (auto simp: table_ok_def dest!: set_update_subset_insert [THEN subsetD])
next
  case False
  then show ?thesis using assms(1) by (simp add: table_ok_def list_update_beyond)
qed

lemma alloc_fresh_slot:
  assumes "find_session_mutable_locked k r = None" and "r \<noteq> []" and "table_ok k"
    and "i < length (k_sessions k)" and "\<not> s_in_use (k_sessions k ! i)"
    and "length r < QUEST_ROOM_ID_MAX_LEN"
    and "s_in_use (c_ses c)" and "s_room_id (c_ses c) = r" and "clock_ok (c_ses c)"
    and "cbranches c = []"
  shows "table_ok (put_ctx i c k)"
proof -
  have nr: "\<not> (s_in_use (k_sessions k ! j) \<and> s_room_id (k_sessions k ! j) = r)"
    if "j < length (k_sessions k)" for j
    using assms(1,2) nth_mem [OF that]
    by (auto simp: find_session_mutable_locked_def find_index_None_iff)
  have "slot_ok (c_ses c)" using assms by (simp add: slot_ok_def)
  moreover have "rooms_distinct ((k_sessions k)[i := c_ses c])"
    using assms(3-5,8) nr unfolding rooms_distinct_def table_ok_def
    by (simp add: nth_list_update) metis
  ultimately show ?thesis
    using assms(3) by (auto simp: table_ok_def dest!: set_update_subset_insert [THEN subsetD])
qed

lemma clock_ok_core: "ses_core s = ses_core t \<Longrightarrow> clock_ok s = clock_ok t"
  using ses_core_fields [of s t] by (simp add: clock_ok_def)

lemma alloc_session_ok:
  assumes "table_ok k" and "length r < QUEST_ROOM_ID_MAX_LEN"
  shows "table_ok (snd (alloc_session_locked r k))"
proof (cases "r = [] \<or> find_session_mutable_locked k r \<noteq> None \<or>
    find_index (\<lambda>s. \<not> s_in_use s) (k_sessions k) = None")
  case True
  then show ?thesis using assms by (auto simp: alloc_session_locked_def split: option.split)
next
  case False
  then obtain i where i: "find_index (\<lambda>s. \<not> s_in_use s) (k_sessions k) = Some i"
    and r: "r \<noteq> []" "find_session_mutable_locked k r = None" by auto
  define c1 where "c1 = gm_room_session_mark_session_changed_locked \<lparr>c_glob = k_glob k,
    c_prepared = prepared_scenario_zero, c_ses = gm_room_session_zero\<lparr>s_in_use := True,
    s_room_id := quest_str_copy QUEST_ROOM_ID_MAX_LEN r\<rparr>\<rparr>"
  have core: "ses_core (c_ses c1) = ses_core (gm_room_session_zero\<lparr>s_in_use := True, s_room_id := r\<rparr>)"
    using assms(2) by (simp add: c1_def)
  note f = ses_core_fields [OF core]
  have "cbranches c1 = []" by (simp add: c1_def gm_room_session_zero_def)
  then have "table_ok (put_ctx i (upd_ses (\<lambda>s. s\<lparr>s_timer := gm_timer_reset 0 0, s_hint := gm_hint_reset\<rparr>)
          (upd_view (\<lambda>v. v\<lparr>v_scenario_state := GM_ROOM_SCENARIO_IDLE\<rparr>) c1)) k)"
    using find_index_SomeD [OF i] f
    by (intro alloc_fresh_slot [OF r(2,1) assms(1)] assms(2))
      (simp_all add: ctx_defs clock_ok_def gm_timer_reset_def gm_room_session_zero_def)
  then show ?thesis using r by (simp add: alloc_session_locked_def i c1_def [symmetric] Let_def)
qed

lemma alloc_session_found:
  assumes "alloc_session_locked r k = (Some i, l)" and "length r < QUEST_ROOM_ID_MAX_LEN"
  shows "i < length (k_sessions l) \<and> s_in_use (k_sessions l ! i) \<and> s_room_id (k_sessions l ! i) = r"
proof (cases "find_session_mutable_locked k r")
  case (Some j)
  then show ?thesis
    using assms(1) find_session_Some [OF Some] by (simp add: alloc_session_locked_def split: if_splits)
next
  case None
  let ?c = "gm_room_session_mark_session_changed_locked \<lparr>c_glob = k_glob k,
    c_prepared = prepared_scenario_zero, c_ses = gm_room_session_zero\<lparr>s_in_use := True,
    s_room_id := quest_str_copy QUEST_ROOM_ID_MAX_LEN r\<rparr>\<rparr>"
  have core: "ses_core (c_ses ?c) = ses_core (gm_room_session_zero\<lparr>s_in_use := True, s_room_id := r\<rparr>)"
    using assms(2) by simp
  show ?thesis
    using assms(1) None ses_core_fields [OF core]
    by (auto simp: alloc_session_locked_def Let_def ctx_defs split: if_splits option.splits
        dest!: find_index_SomeD)
qed

end
