(* ===== verification/Gm_Scenario.thy ===== *)
theory Gm_Scenario
  imports Gm_Events Gm_Sessions
begin

text \<open>
  The public scenario operations: start, stop, next, approve, reset and the tick
  (\<open>gm_core/session/gm_room_session_runtime.c\<close>), the outcome of a dispatched command
  (\<open>gm_room_session_commands.c\<close>), and selecting and starting a game (\<open>gm_room_session_game.c\<close>).

  The validator (\<open>scenehub_scenario_validate\<close>, another component) is an argument: it returns the
  error code, whether the report is valid, and the issues of the report.
\<close>

section \<open>Validation reports\<close>

datatype validation_level = VALIDATION_ERROR | VALIDATION_WARNING

record validation_issue =
  vi_level :: validation_level
  vi_code :: string
  vi_message :: string

type_synonym validator = "room_scenario \<Rightarrow> esp_err \<times> bool \<times> validation_issue list"

definition scenario_validation_error_message :: "validation_issue list \<Rightarrow> string" where
  "scenario_validation_error_message issues =
     (case find_index (\<lambda>i. vi_level i = VALIDATION_ERROR) issues of
        Some n \<Rightarrow> (if vi_message (issues ! n) \<noteq> [] then vi_message (issues ! n)
                  else vi_code (issues ! n))
      | None \<Rightarrow> ''scenario_validation_failed'')"

definition reject_invalid_scenario :: "string \<Rightarrow> validation_issue list \<Rightarrow> gm_core \<Rightarrow> gm_core" where
  "reject_invalid_scenario room_id issues k =
     (let k1 = gm_room_session_sessions_lock k in
      gm_room_session_sessions_unlock
        (case find_session_mutable_locked k1 room_id of
           None \<Rightarrow> k1
         | Some j \<Rightarrow> snd (in_session j (\<lambda>c. ((),
             scenario_set_error_locked (scenario_validation_error_message issues)
               (scenario_clear_running_snapshot_locked c))) k1)))"

section \<open>Operations that return a plan\<close>

text \<open>Lock, find the session, run the body, unlock, and wake the runtime on success.\<close>

definition with_session_plan ::
  "string \<Rightarrow> (room_ctx \<Rightarrow> esp_err \<times> command_plan \<times> room_ctx) \<Rightarrow> gm_core \<Rightarrow>
   esp_err \<times> command_plan \<times> gm_core" where
  "with_session_plan room_id body k =
     (let k1 = gm_room_session_sessions_lock k in
      case find_session_mutable_locked k1 room_id of
        None \<Rightarrow> (ESP_ERR_NOT_FOUND, gm_room_session_command_plan_clear,
                 gm_room_session_sessions_unlock k1)
      | Some j \<Rightarrow>
          (let (err, plan, c) = body (core_ctx k1 j);
               k2 = gm_room_session_sessions_unlock (put_ctx j c k1)
           in (err, plan, if err = ESP_OK then gm_room_session_runtime_wake k2 else k2)))"

definition start_prepared_body ::
  "room_scenario \<Rightarrow> prepared_scenario \<Rightarrow> u32 \<Rightarrow> u32 \<Rightarrow> room_ctx \<Rightarrow>
   esp_err \<times> command_plan \<times> room_ctx" where
  "start_prepared_body scenario prepared scenario_generation now_ms c =
     (let c1 = gm_room_session_store_prepared_scenario_locked prepared
                 (upd_ses (\<lambda>s. s\<lparr>s_running_scenario := scenario\<rparr>) c);
          c2 = upd_view (\<lambda>v. v\<lparr>v_scenario_state := GM_ROOM_SCENARIO_RUNNING,
                                v_current_step_index := 0\<rparr>)
                 (upd_ses (\<lambda>s. s\<lparr>s_running_scenario_valid := True,
                                  s_running_scenario_generation := scenario_generation\<rparr>) c1);
          c3 = scenario_clear_branch_runtimes_locked (gm_room_session_scenario_clear_wait_locked c2);
          c4 = upd_ses (\<lambda>s. s\<lparr>s_scenario_last_error := []\<rparr>)
                 (scenario_clear_flags_locked
                   (upd_ses (\<lambda>s. s\<lparr>s_scenario_operator_message := []\<rparr>) c3));
          (err, c5) = scenario_init_branch_runtimes_locked prepared c4
      in if err \<noteq> ESP_OK
         then (err, gm_room_session_command_plan_clear,
               scenario_set_error_locked ''scenario_prepared_event_refs_invalid''
                 (scenario_clear_running_snapshot_locked c5))
         else execute_all_running_branches_locked now_ms GM_SCENARIO_MAX_STEPS_PER_TICK
                gm_room_session_command_plan_clear (gm_room_session_mark_session_changed_locked c5))"

definition gm_room_session_scenario_start_prepared_plan ::
  "validator \<Rightarrow> string \<Rightarrow> room_scenario \<Rightarrow> prepared_scenario \<Rightarrow> u32 \<Rightarrow> u32 \<Rightarrow> gm_core \<Rightarrow>
   esp_err \<times> command_plan \<times> gm_core" where
  "gm_room_session_scenario_start_prepared_plan validate room_id scenario prepared
       scenario_generation now_ms k =
     (if room_id = [] then (ESP_ERR_INVALID_ARG, gm_room_session_command_plan_clear, k)
      else case validate scenario of (err, valid, issues) \<Rightarrow>
        (if err \<noteq> ESP_OK \<or> \<not> valid
         then (if err \<noteq> ESP_OK then err else ESP_ERR_INVALID_ARG, gm_room_session_command_plan_clear,
               reject_invalid_scenario room_id issues k)
         else with_session_plan room_id
                (start_prepared_body scenario prepared scenario_generation now_ms) k))"

text \<open>Leave the wait of the branch, if it waits, and run it.\<close>

definition advance_branch_body :: "nat \<Rightarrow> u32 \<Rightarrow> room_ctx \<Rightarrow> esp_err \<times> command_plan \<times> room_ctx" where
  "advance_branch_body i now_ms c =
     (let c1 = gm_room_session_scenario_branch_load_into_session i c;
          c2 = (if v_scenario_state (s_view (c_ses c1)) = GM_ROOM_SCENARIO_WAITING
                then gm_room_session_scenario_clear_wait_locked (upd_view advance_step c1) else c1);
          c3 = gm_room_session_mark_session_changed_locked
                 (gm_room_session_scenario_branch_save_from_session i c2)
      in gm_room_session_execute_branch_locked i now_ms GM_SCENARIO_MAX_STEPS_PER_TICK
           gm_room_session_command_plan_clear c3)"

definition scenario_next_body :: "u32 \<Rightarrow> room_ctx \<Rightarrow> esp_err \<times> command_plan \<times> room_ctx" where
  "scenario_next_body now_ms c =
     (let s = c_ses c; no = (ESP_ERR_INVALID_STATE, gm_room_session_command_plan_clear, c) in
      if \<not> s_running_scenario_valid s then no
      else case scenario_first_branch_by_state_locked s GM_ROOM_SCENARIO_WAITING WAIT_NONE False of
        Some i \<Rightarrow> advance_branch_body i now_ms c
      | None \<Rightarrow>
          (case scenario_first_branch_by_state_locked s GM_ROOM_SCENARIO_RUNNING WAIT_NONE False of
             Some i \<Rightarrow> advance_branch_body i now_ms c
           | None \<Rightarrow> no))"

definition gm_room_session_scenario_next_plan ::
  "string \<Rightarrow> u32 \<Rightarrow> gm_core \<Rightarrow> esp_err \<times> command_plan \<times> gm_core" where
  "gm_room_session_scenario_next_plan room_id now_ms k =
     with_session_plan room_id (scenario_next_body now_ms) k"

definition next_branch_body :: "string \<Rightarrow> u32 \<Rightarrow> room_ctx \<Rightarrow> esp_err \<times> command_plan \<times> room_ctx" where
  "next_branch_body branch_id now_ms c =
     (let s = c_ses c; no = (ESP_ERR_INVALID_STATE, gm_room_session_command_plan_clear, c) in
      if \<not> s_running_scenario_valid s then no
      else case scenario_branch_by_id_locked s branch_id of
        None \<Rightarrow> no
      | Some i \<Rightarrow>
          (if v_scenario_state (b_view (get_branch c i)) \<noteq> GM_ROOM_SCENARIO_WAITING \<and>
              v_scenario_state (b_view (get_branch c i)) \<noteq> GM_ROOM_SCENARIO_RUNNING
           then no else advance_branch_body i now_ms c))"

definition gm_room_session_scenario_next_branch_plan ::
  "string \<Rightarrow> string \<Rightarrow> u32 \<Rightarrow> gm_core \<Rightarrow> esp_err \<times> command_plan \<times> gm_core" where
  "gm_room_session_scenario_next_branch_plan room_id branch_id now_ms k =
     (if branch_id = [] then gm_room_session_scenario_next_plan room_id now_ms k
      else with_session_plan room_id (next_branch_body branch_id now_ms) k)"

definition scenario_approve_body :: "u32 \<Rightarrow> room_ctx \<Rightarrow> esp_err \<times> command_plan \<times> room_ctx" where
  "scenario_approve_body now_ms c =
     (let s = c_ses c; no = (ESP_ERR_INVALID_STATE, gm_room_session_command_plan_clear, c) in
      if \<not> s_running_scenario_valid s then no
      else case scenario_first_branch_by_state_locked s GM_ROOM_SCENARIO_WAITING WAIT_OPERATOR True of
        None \<Rightarrow> no
      | Some i \<Rightarrow> advance_branch_body i now_ms c)"

definition gm_room_session_scenario_approve_plan ::
  "string \<Rightarrow> u32 \<Rightarrow> gm_core \<Rightarrow> esp_err \<times> command_plan \<times> gm_core" where
  "gm_room_session_scenario_approve_plan room_id now_ms k =
     with_session_plan room_id (scenario_approve_body now_ms) k"

section \<open>Stop and reset\<close>

definition scenario_stop_body :: "room_ctx \<Rightarrow> esp_err \<times> room_ctx" where
  "scenario_stop_body c =
     (ESP_OK, gm_room_session_mark_session_changed_locked
       (scenario_clear_flags_locked
         (upd_ses (\<lambda>s. s\<lparr>s_scenario_operator_message := []\<rparr>)
           (scenario_clear_running_snapshot_locked
             (gm_room_session_scenario_clear_wait_locked
               (upd_view (\<lambda>v. v\<lparr>v_scenario_state := GM_ROOM_SCENARIO_STOPPED\<rparr>) c))))))"

definition gm_room_session_scenario_stop :: "string \<Rightarrow> gm_core \<Rightarrow> esp_err \<times> gm_core" where
  "gm_room_session_scenario_stop room_id k = wake_if_ok (with_found_session room_id scenario_stop_body k)"

text \<open>Forget the run: the common part of reset and of selecting a profile or scenario.\<close>

definition forget_run :: "room_ctx \<Rightarrow> room_ctx" where
  "forget_run c =
     upd_ses (\<lambda>s. s\<lparr>s_scenario_last_error := []\<rparr>)
       (scenario_clear_flags_locked
         (upd_ses (\<lambda>s. s\<lparr>s_scenario_operator_message := []\<rparr>)
           (scenario_clear_running_snapshot_locked
             (gm_room_session_scenario_clear_wait_locked
               (upd_view (\<lambda>v. v\<lparr>v_scenario_state := GM_ROOM_SCENARIO_IDLE,
                                v_current_step_index := 0\<rparr>) c)))))"

definition scenario_reset_body :: "room_ctx \<Rightarrow> esp_err \<times> room_ctx" where
  "scenario_reset_body c = (ESP_OK, gm_room_session_mark_session_changed_locked (forget_run c))"

definition gm_room_session_scenario_reset :: "string \<Rightarrow> gm_core \<Rightarrow> esp_err \<times> gm_core" where
  "gm_room_session_scenario_reset room_id k = wake_if_ok (with_found_session room_id scenario_reset_body k)"

section \<open>The tick\<close>

fun advance_sessions ::
  "nat list \<Rightarrow> u32 \<Rightarrow> command_plan \<Rightarrow> gm_core \<Rightarrow> command_plan \<times> gm_core" where
  "advance_sessions [] now_ms plan k = (plan, k)"
| "advance_sessions (j # js) now_ms plan k =
     (let s = k_sessions k ! j in
      if \<not> s_in_use s \<or> \<not> s_running_scenario_valid s then advance_sessions js now_ms plan k
      else let (stop, plan1, c) = gm_room_session_runtime_advance_ready_branches_locked now_ms plan
                 (core_ctx k j);
               k1 = put_ctx j c k
           in if stop then (plan1, k1) else advance_sessions js now_ms plan1 k1)"

definition gm_room_session_runtime_process_pending_work_plan ::
  "u32 \<Rightarrow> gm_core \<Rightarrow> command_plan \<times> gm_core" where
  "gm_room_session_runtime_process_pending_work_plan now_ms k =
     (let k1 = gm_room_session_sessions_lock k;
          (plan, k2) = advance_sessions [0..<length (k_sessions k1)] now_ms
             gm_room_session_command_plan_clear k1
      in (plan, gm_room_session_sessions_unlock k2))"

text \<open>
  The next deadline: zero when there is none.  \<open>command_deadline_ms\<close> is what the command
  executor reports.
\<close>

definition earlier_deadline :: "u64 \<Rightarrow> u32 \<Rightarrow> u64" where
  "earlier_deadline next d = (if d > 0 \<and> (next = 0 \<or> ucast d < next) then ucast d else next)"

definition branch_deadline :: "branch_runtime \<Rightarrow> u64 \<Rightarrow> u64" where
  "branch_deadline b next =
     (if \<not> b_active b then next
      else earlier_deadline (earlier_deadline next (v_wait_until_ms (b_view b))) (b_cooldown_until_ms b))"

definition session_deadline :: "gm_room_session \<Rightarrow> u64 \<Rightarrow> u64" where
  "session_deadline s next =
     (if \<not> s_in_use s \<or> \<not> s_running_scenario_valid s then next
      else fold branch_deadline (take ROOM_SCENARIO_MAX_BRANCHES (s_branch_runtimes s))
             (earlier_deadline next (v_wait_until_ms (s_view s))))"

text \<open>The delay with which the deadline timer is started; \<open>None\<close> leaves it stopped.\<close>

definition runtime_deadline_delay_us :: "u32 \<Rightarrow> u64 \<Rightarrow> gm_core \<Rightarrow> u64 option" where
  "runtime_deadline_delay_us now_ms command_deadline_ms k =
     (let next = fold session_deadline (k_sessions k) command_deadline_ms; now = ucast now_ms :: u64 in
      if next = 0 then None
      else Some (if next > now then (if (next - now) * 1000 = 0 then 1000 else (next - now) * 1000)
                 else 1000))"

section \<open>The outcome of a dispatched command\<close>

text \<open>
  The body under the lock.  The plan that comes back replaces the caller's plan; a stale plan is
  cleared without touching the scenario.
\<close>

definition apply_dispatch_body ::
  "command_plan \<Rightarrow> command_dispatch_result \<Rightarrow> bool \<Rightarrow> u32 \<Rightarrow> room_ctx \<Rightarrow>
   esp_err \<times> command_plan \<times> room_ctx" where
  "apply_dispatch_body plan dispatch has_more now_ms c =
     (let no_plan = gm_room_session_command_plan_clear;
          i = unat (p_branch_index plan);
          save = gm_room_session_scenario_branch_save_from_session i;
          summary = gm_room_session_scenario_update_summary_from_branches_locked;
          is_group = (p_kind plan = COMMAND_PLAN_SCENARIO_STEP_GROUP \<or>
                      p_kind plan = COMMAND_PLAN_REACTIVE_ACTION_GROUP);
          is_step = (p_kind plan = COMMAND_PLAN_SCENARIO_STEP \<or>
                     p_kind plan = COMMAND_PLAN_SCENARIO_STEP_GROUP)
      in if \<not> plan_branch_ok (c_ses c) plan then (ESP_OK, no_plan, c)
         else let (matches, c1) = planned_command_session_matches_locked i plan c in
           if \<not> matches then (ESP_OK, no_plan, c1)
           else let c2 = gm_room_session_scenario_branch_load_into_session i c1 in
             if is_group \<and> dr_result_required dispatch
             then (ESP_ERR_NOT_SUPPORTED, no_plan, summary (save (scenario_set_error_locked
                    (if p_kind plan = COMMAND_PLAN_SCENARIO_STEP_GROUP
                     then ''device_command_group_result_required_unsupported''
                     else ''reactive_group_result_required_unsupported'') c2)))
             else if dr_result_required dispatch
             then (ESP_OK, no_plan,
                   summary (save (scenario_enter_wait_command_result_locked dispatch now_ms c2)))
             else if has_more
             then (ESP_OK, plan\<lparr>p_command_index := p_command_index plan + 1\<rparr>, save c2)
             else if is_step
             then (let (err, next_plan, c3) = gm_room_session_execute_branch_locked i now_ms
                         GM_ROOM_SESSION_DISPATCH_BUDGET no_plan (save (pass_step c2))
                   in (err, if err \<noteq> ESP_OK then no_plan else next_plan, c3))
             else (let c3 = gm_room_session_scenario_clear_wait_locked
                              (upd_view (\<lambda>v. v\<lparr>v_scenario_state := GM_ROOM_SCENARIO_RUNNING\<rparr>) c2);
                       c4 = save (gm_room_session_mark_session_changed_locked (resume_reaction i c3));
                       (err, next_plan, c5) =
                         gm_room_session_reactive_v2_continue_locked i now_ms no_plan c4
                   in (err, if err \<noteq> ESP_OK then no_plan else next_plan, summary c5)))"

definition gm_room_session_command_plan_apply_dispatch_result ::
  "command_plan \<Rightarrow> command_dispatch_result \<Rightarrow> bool \<Rightarrow> u32 \<Rightarrow> gm_core \<Rightarrow>
   esp_err \<times> command_plan \<times> gm_core" where
  "gm_room_session_command_plan_apply_dispatch_result plan dispatch has_more now_ms k =
     (if \<not> gm_room_session_command_plan_present plan then (ESP_ERR_INVALID_ARG, plan, k)
      else let k1 = gm_room_session_sessions_lock k in
        case find_session_mutable_locked k1 (p_room_id plan) of
          None \<Rightarrow> (ESP_OK, gm_room_session_command_plan_clear, gm_room_session_sessions_unlock k1)
        | Some j \<Rightarrow>
            (let (err, plan1, c) = apply_dispatch_body plan dispatch has_more now_ms (core_ctx k1 j)
             in (err, plan1, gm_room_session_sessions_unlock (put_ctx j c k1))))"

section \<open>Selecting and starting a game\<close>

record session_profile =
  pf_id :: string
  pf_name :: string
  pf_room_id :: string
  pf_scenario_id :: string
  pf_duration_ms :: u32

definition GM_ROOM_SESSION_PROFILE_ID_MAX_LEN :: nat where "GM_ROOM_SESSION_PROFILE_ID_MAX_LEN = 32"
definition GM_ROOM_SESSION_PROFILE_NAME_MAX_LEN :: nat where
  "GM_ROOM_SESSION_PROFILE_NAME_MAX_LEN = 64"
definition ROOM_SCENARIO_ID_MAX_LEN :: nat where "ROOM_SCENARIO_ID_MAX_LEN = 32"
definition ROOM_SCENARIO_NAME_MAX_LEN :: nat where "ROOM_SCENARIO_NAME_MAX_LEN = 64"

definition select_profile_body ::
  "session_profile \<Rightarrow> room_scenario \<Rightarrow> u32 \<Rightarrow> u64 \<Rightarrow> room_ctx \<Rightarrow> esp_err \<times> room_ctx" where
  "select_profile_body profile scenario duration_ms now_ms c =
     (ESP_OK, gm_room_session_mark_session_changed_locked (forget_run
       (upd_ses (\<lambda>s. s\<lparr>
          s_selected_profile_id := quest_str_copy GM_ROOM_SESSION_PROFILE_ID_MAX_LEN (pf_id profile),
          s_selected_profile_name :=
            quest_str_copy GM_ROOM_SESSION_PROFILE_NAME_MAX_LEN (pf_name profile),
          s_selected_profile_scenario_id :=
            quest_str_copy ROOM_SCENARIO_ID_MAX_LEN (pf_scenario_id profile),
          s_selected_profile_duration_ms := duration_ms,
          s_selected_scenario_id := quest_str_copy ROOM_SCENARIO_ID_MAX_LEN (pf_scenario_id profile),
          s_selected_scenario_name := quest_str_copy ROOM_SCENARIO_NAME_MAX_LEN (sc_name scenario),
          s_selected_scenario_generation := s_selected_scenario_generation s + 1,
          s_timer := gm_timer_reset duration_ms now_ms,
          s_state := GM_SESSION_IDLE, s_started_at_ms := 0, s_finished_at_ms := 0\<rparr>) c)))"

definition gm_room_session_select_profile_prepared ::
  "string \<Rightarrow> session_profile \<Rightarrow> room_scenario \<Rightarrow> u32 \<Rightarrow> u64 \<Rightarrow> gm_core \<Rightarrow> esp_err \<times> gm_core" where
  "gm_room_session_select_profile_prepared room_id profile scenario duration_ms now_ms k =
     (if room_id = [] \<or> duration_ms = 0 then (ESP_ERR_INVALID_ARG, k)
      else if pf_room_id profile \<noteq> room_id \<or> sc_room_id scenario \<noteq> room_id \<or>
              pf_scenario_id profile \<noteq> sc_id scenario then (ESP_ERR_INVALID_STATE, k)
      else with_alloc_session room_id (select_profile_body profile scenario duration_ms now_ms) k)"

definition select_scenario_body :: "room_scenario \<Rightarrow> room_ctx \<Rightarrow> esp_err \<times> room_ctx" where
  "select_scenario_body scenario c =
     (ESP_OK, gm_room_session_mark_session_changed_locked (forget_run
       (upd_ses (\<lambda>s. s\<lparr>
          s_selected_profile_id := [], s_selected_profile_name := [],
          s_selected_profile_scenario_id := [], s_selected_profile_duration_ms := 0,
          s_selected_scenario_id := quest_str_copy ROOM_SCENARIO_ID_MAX_LEN (sc_id scenario),
          s_selected_scenario_name := quest_str_copy ROOM_SCENARIO_NAME_MAX_LEN (sc_name scenario),
          s_selected_scenario_generation := s_selected_scenario_generation s + 1\<rparr>) c)))"

definition gm_room_session_select_scenario_prepared ::
  "string \<Rightarrow> room_scenario \<Rightarrow> gm_core \<Rightarrow> esp_err \<times> gm_core" where
  "gm_room_session_select_scenario_prepared room_id scenario k =
     (if room_id = [] \<or> sc_id scenario = [] then (ESP_ERR_INVALID_ARG, k)
      else if sc_room_id scenario \<noteq> room_id then (ESP_ERR_INVALID_STATE, k)
      else with_alloc_session room_id (select_scenario_body scenario) k)"

text \<open>
  \<open>clock_ms\<close> is the clock the nested calls read; \<open>now_ms\<close> is the caller's time stamp.
\<close>

definition gm_room_session_game_start_prepared ::
  "validator \<Rightarrow> string \<Rightarrow> u64 \<Rightarrow> session_profile \<Rightarrow> room_scenario \<Rightarrow> prepared_scenario \<Rightarrow> u32 \<Rightarrow> u64 \<Rightarrow>
   gm_core \<Rightarrow> esp_err \<times> command_plan \<times> gm_core" where
  "gm_room_session_game_start_prepared validate room_id now_ms profile scenario prepared
       request_duration_ms clock_ms k =
     (let no_plan = gm_room_session_command_plan_clear;
          duration_ms = (if request_duration_ms \<noteq> 0 then request_duration_ms else pf_duration_ms profile)
      in if room_id = [] then (ESP_ERR_INVALID_ARG, no_plan, k)
         else if pf_id profile = [] \<or> pf_name profile = [] \<or> pf_room_id profile = [] \<or>
                 pf_scenario_id profile = [] \<or> duration_ms = 0
         then (ESP_ERR_INVALID_ARG, no_plan, k)
         else if pf_room_id profile \<noteq> room_id \<or> sc_room_id scenario \<noteq> room_id \<or>
                 pf_scenario_id profile \<noteq> sc_id scenario
         then (ESP_ERR_INVALID_STATE, no_plan, k)
         else case validate scenario of (verr, valid, issues) \<Rightarrow>
           (if verr \<noteq> ESP_OK \<or> \<not> valid
            then (if verr \<noteq> ESP_OK then verr else ESP_ERR_INVALID_ARG, no_plan,
                  reject_invalid_scenario room_id issues k)
            else let (err, k1) = gm_room_session_select_profile_prepared room_id profile scenario
                       duration_ms clock_ms k
                 in if err \<noteq> ESP_OK then (err, no_plan, k1)
                    else let (err, k2) = gm_room_session_start room_id duration_ms now_ms k1
                         in if err \<noteq> ESP_OK then (err, no_plan, k2)
                            else gm_room_session_scenario_start_prepared_plan validate room_id scenario
                                   prepared 0 (ucast clock_ms) k2))"

end
