(* ===== verification/Gm_Invariant.thy ===== *)
theory Gm_Invariant
  imports Gm_Table_Laws Gm_Scenario
begin

text \<open>
  The contract of an operation that runs under the sessions lock, as a locale, its
  interpretations for the bodies of the public operations, and the step relation of the module
  with its invariant.
\<close>

section \<open>The contract of a locked body\<close>

locale session_body =
  fixes body :: "room_ctx \<Rightarrow> 'r \<times> room_ctx"
  assumes keeps: "body_keeps (c_ses c) (c_ses (snd (body c)))"
begin

lemma in_session_ok: "table_ok k \<Longrightarrow> table_ok (snd (in_session i body k))"
  using table_ok_put [of k i "snd (body (core_ctx k i))"] keeps [of "core_ctx k i"]
  by (simp add: in_session_def case_prod_beta Let_def)

end

locale err_body = session_body body for body :: "room_ctx \<Rightarrow> esp_err \<times> room_ctx"
begin

lemma found_ok: "core_ok k \<Longrightarrow> core_ok (snd (with_found_session room_id body k))"
  using in_session_ok [of "gm_room_session_sessions_lock k"]
  by (simp add: with_found_session_def Let_def case_prod_beta core_ok_def [of k] split: option.split)

lemma alloc_ok:
  assumes "core_ok k" and "length room_id < QUEST_ROOM_ID_MAX_LEN"
  shows "core_ok (snd (with_alloc_session room_id body k))"
proof -
  have "table_ok (snd (alloc_session_locked room_id (gm_room_session_sessions_lock k)))"
    using assms by (intro alloc_session_ok) (simp_all add: core_ok_def)
  then show ?thesis
    using in_session_ok
    by (simp add: with_alloc_session_def Let_def case_prod_beta split: option.split)
qed

end

text \<open>The same contract for a body that also returns a plan.\<close>

locale plan_body =
  fixes pbody :: "room_ctx \<Rightarrow> esp_err \<times> command_plan \<times> room_ctx"
  assumes pkeeps: "body_keeps (c_ses c) (c_ses (snd (snd (pbody c))))"

sublocale plan_body \<subseteq> session_body "\<lambda>c. ((fst (pbody c), fst (snd (pbody c))), snd (snd (pbody c)))"
  by unfold_locales (simp add: pkeeps)

context plan_body
begin

lemma plan_ok: "core_ok k \<Longrightarrow> core_ok (snd (snd (with_session_plan room_id pbody k)))"
  using in_session_ok [of "gm_room_session_sessions_lock k"]
  by (simp add: with_session_plan_def in_session_def Let_def case_prod_beta core_ok_def [of k]
      split: option.split)

end

section \<open>Bodies of the game clock\<close>

lemma clock_ok_mark [simp]:
  "clock_ok (c_ses (gm_room_session_mark_session_changed_locked c)) = clock_ok (c_ses c)"
  by (rule clock_ok_core) simp

lemma mark_ids [simp]:
  "s_in_use (c_ses (gm_room_session_mark_session_changed_locked c)) = s_in_use (c_ses c)"
  "s_room_id (c_ses (gm_room_session_mark_session_changed_locked c)) = s_room_id (c_ses c)"
  using ses_core_fields [of "c_ses (gm_room_session_mark_session_changed_locked c)" "c_ses c"]
  by simp_all

lemma mark_clock_fields [simp]:
  "s_state (c_ses (gm_room_session_mark_session_changed_locked c)) = s_state (c_ses c)"
  "s_timer (c_ses (gm_room_session_mark_session_changed_locked c)) = s_timer (c_ses c)"
  using ses_core_fields [of "c_ses (gm_room_session_mark_session_changed_locked c)" "c_ses c"]
  by simp_all

lemmas clock_body_defs =
  session_start_body_def session_pause_body_def session_resume_body_def session_finish_body_def
  session_reset_body_def session_add_time_body_def session_set_hint_body_def
  session_clear_hint_body_def mark_if_ok_def gm_timer_start_def gm_timer_pause_def
  gm_timer_resume_def gm_timer_finish_def gm_timer_reset_def gm_timer_add_time_def
  gm_hint_send_def gm_hint_clear_def

lemma session_state_of_timer_eq:
  "session_state_of_timer t = GM_SESSION_RUNNING \<longleftrightarrow> t = GM_TIMER_RUNNING"
  "session_state_of_timer t = GM_SESSION_PAUSED \<longleftrightarrow> t = GM_TIMER_PAUSED"
  by (cases t; simp)+

interpretation start: err_body "session_start_body d t" for d t
  by unfold_locales (simp add: clock_body_defs body_keeps_def clock_ok_def)

interpretation pause: err_body "session_pause_body t" for t
  by unfold_locales (auto simp: clock_body_defs body_keeps_def clock_ok_def session_state_of_timer_eq)

interpretation resume: err_body "session_resume_body t" for t
  by unfold_locales (auto simp: clock_body_defs body_keeps_def clock_ok_def session_state_of_timer_eq)

interpretation finish: err_body "session_finish_body t" for t
  by unfold_locales (simp add: clock_body_defs body_keeps_def clock_ok_def)

interpretation reset: err_body "session_reset_body d t" for d t
  by unfold_locales (simp add: clock_body_defs body_keeps_def clock_ok_def)

interpretation add_time: err_body "session_add_time_body d t" for d t
  by unfold_locales (simp add: clock_body_defs body_keeps_def clock_ok_def Let_def)

interpretation set_hint: err_body "session_set_hint_body m t" for m t
  by unfold_locales (simp add: clock_body_defs body_keeps_def clock_ok_def)

interpretation clear_hint: err_body "session_clear_hint_body t" for t
  by unfold_locales (simp add: clock_body_defs body_keeps_def clock_ok_def)

section \<open>Bodies of the scenario runtime\<close>

text \<open>Parts of a session on which the clock contract depends.\<close>

definition ses_ident :: "gm_room_session \<Rightarrow> bool \<times> string \<times> gm_session_state \<times> gm_timer" where
  "ses_ident s = (s_in_use s, s_room_id s, s_state s, s_timer s)"

lemma ident_keeps:
  "ses_ident t = ses_ident s \<Longrightarrow> length (s_branch_runtimes t) \<le> length (s_branch_runtimes s) \<Longrightarrow>
   body_keeps s t"
  by (simp add: ses_ident_def body_keeps_def clock_ok_def)

lemma ident_core: "ses_core t = ses_core s \<Longrightarrow> ses_ident t = ses_ident s"
  using ses_core_fields [of t s] by (simp add: ses_ident_def)

lemma ident_mark [simp]:
  "ses_ident (c_ses (gm_room_session_mark_session_changed_locked c)) = ses_ident (c_ses c)"
  by (rule ident_core) simp

lemma ident_set_error [simp]: "ses_ident (c_ses (scenario_set_error_locked m c)) = ses_ident (c_ses c)"
  by (rule ident_core) simp

lemma ident_clear_wait [simp]:
  "ses_ident (c_ses (gm_room_session_scenario_clear_wait_locked c)) = ses_ident (c_ses c)"
  by (rule ident_core) simp

lemma ident_upd_view [simp]: "ses_ident (c_ses (upd_view f c)) = ses_ident (c_ses c)"
  by (rule ident_core) simp

lemma ident_branch_clear_wait [simp]:
  "ses_ident (c_ses (scenario_branch_clear_wait i c)) = ses_ident (c_ses c)"
  by (rule ident_core) (simp add: scenario_branch_clear_wait_def upd_branch_view_upd_branch)

lemma ident_clear_branches [simp]:
  "ses_ident (c_ses (scenario_clear_branch_runtimes_locked c)) = ses_ident (c_ses c)"
proof -
  have "ses_ident (c_ses (fold scenario_branch_clear_wait is c)) = ses_ident (c_ses c)" for "is"
    by (induction "is" arbitrary: c) simp_all
  then show ?thesis by (simp add: scenario_clear_branch_runtimes_locked_def ses_ident_def)
qed

lemma ident_clear_snapshot [simp]:
  "ses_ident (c_ses (scenario_clear_running_snapshot_locked c)) = ses_ident (c_ses c)"
  by (simp add: scenario_clear_running_snapshot_locked_def
      gm_room_session_clear_prepared_scenario_locked_def) (simp add: ses_ident_def)

lemma ident_clear_flags [simp]:
  "ses_ident (c_ses (scenario_clear_flags_locked c)) = ses_ident (c_ses c)"
  by (simp add: scenario_clear_flags_locked_def ses_ident_def)

lemma ident_forget_run [simp]: "ses_ident (c_ses (forget_run c)) = ses_ident (c_ses c)"
proof -
  have "ses_ident (s\<lparr>s_scenario_last_error := x\<rparr>) = ses_ident s"
    "ses_ident (s\<lparr>s_scenario_operator_message := x\<rparr>) = ses_ident s" for s x
    by (simp_all add: ses_ident_def)
  then show ?thesis by (simp add: forget_run_def)
qed

lemma no_branches [simp]:
  "cbranches (scenario_clear_branch_runtimes_locked c) = []"
  "cbranches (scenario_clear_running_snapshot_locked c) = []"
  "cbranches (scenario_clear_flags_locked c) = cbranches c"
  "cbranches (forget_run c) = []"
  by (simp_all add: scenario_clear_branch_runtimes_locked_def forget_run_def
      scenario_clear_running_snapshot_locked_def scenario_clear_flags_locked_def)

lemma init_branch_list_length: "length (snd (init_branch_list p n bs)) \<le> length bs"
  by (induction bs arbitrary: n) (auto simp: Let_def case_prod_beta split: esp_err.split)

lemma init_branches_bound:
  "length (cbranches (snd (scenario_init_branch_runtimes_locked p c)))
     \<le> max (length (cbranches c)) ROOM_SCENARIO_MAX_BRANCHES"
proof -
  let ?bs = "take ROOM_SCENARIO_MAX_BRANCHES (sc_branches (s_running_scenario (c_ses c)))"
  have "length (snd (init_branch_list p 0 ?bs)) \<le> ROOM_SCENARIO_MAX_BRANCHES"
    using init_branch_list_length [of p 0 ?bs] by simp
  then show ?thesis
    by (simp add: scenario_init_branch_runtimes_locked_def Let_def case_prod_beta limit_defs
        min_le_iff_disj le_max_iff_disj)
qed

lemma ident_init_branches [simp]:
  "ses_ident (c_ses (snd (scenario_init_branch_runtimes_locked p c))) = ses_ident (c_ses c)"
proof -
  have "ses_ident (s\<lparr>s_branch_runtimes := x\<rparr>) = ses_ident s" for s x
    by (simp add: ses_ident_def)
  then show ?thesis by (simp add: scenario_init_branch_runtimes_locked_def Let_def case_prod_beta)
qed

interpretation stop_run: err_body scenario_stop_body
proof unfold_locales
  have "ses_ident (s\<lparr>s_scenario_operator_message := x\<rparr>) = ses_ident s" for s x
    by (simp add: ses_ident_def)
  then show "body_keeps (c_ses c) (c_ses (snd (scenario_stop_body c)))" for c
    by (intro ident_keeps) (simp_all add: scenario_stop_body_def)
qed

interpretation reset_run: err_body scenario_reset_body
  by unfold_locales (simp add: scenario_reset_body_def ident_keeps)

interpretation select_profile: err_body "select_profile_body p sc d t" for p sc d t
proof unfold_locales
  fix c
  let ?d = "snd (select_profile_body p sc d t c)"
  have "ses_ident (c_ses ?d) = (s_in_use (c_ses c), s_room_id (c_ses c), GM_SESSION_IDLE,
      gm_timer_reset d t)"
    by (simp add: select_profile_body_def) (simp add: ses_ident_def)
  moreover have "cbranches ?d = []" by (simp add: select_profile_body_def)
  ultimately show "body_keeps (c_ses c) (c_ses ?d)"
    by (simp add: ses_ident_def body_keeps_def clock_ok_def gm_timer_reset_def)
qed

interpretation select_scenario: err_body "select_scenario_body sc" for sc
  by unfold_locales
    (rule ident_keeps, simp_all add: select_scenario_body_def, simp add: ses_ident_def)

lemma kept_keeps: "ctx_kept c d \<Longrightarrow> body_keeps (c_ses c) (c_ses d)"
  by (simp add: ctx_kept_def ses_kept_def body_keeps_def)

lemma body_keeps_trans: "body_keeps r s \<Longrightarrow> body_keeps s t \<Longrightarrow> body_keeps r t"
  by (simp add: body_keeps_def)

interpretation start_run: plan_body "start_prepared_body sc p g t" for sc p g t
proof unfold_locales
  fix c :: room_ctx
  have upds: "ses_ident (s\<lparr>s_scenario_operator_message := x\<rparr>) = ses_ident s"
    "ses_ident (s\<lparr>s_scenario_last_error := x\<rparr>) = ses_ident s"
    "ses_ident (s\<lparr>s_running_scenario := y\<rparr>) = ses_ident s"
    "ses_ident (s\<lparr>s_running_scenario_valid := b, s_running_scenario_generation := w\<rparr>) = ses_ident s"
    for s x y b w by (simp_all add: ses_ident_def)
  have all: "body_keeps (c_ses d) (c_ses (snd (snd (execute_all_running_branches_locked t n pl d))))"
    for n pl d by (rule kept_keeps [OF kept_execute_all])
  have all_mark: "body_keeps (c_ses d) (c_ses (snd (snd (execute_all_running_branches_locked t n pl
      (gm_room_session_mark_session_changed_locked d)))))" for n pl d
    by (rule body_keeps_trans [OF _ all]) (rule ident_keeps; simp)
  have init: "body_keeps (c_ses c) (c_ses (snd (scenario_init_branch_runtimes_locked p d)))"
    if "ses_ident (c_ses d) = ses_ident (c_ses c)" "cbranches d = []" for d
    using init_branches_bound [of p d] that ident_init_branches [of p d]
    by (simp add: body_keeps_def ses_ident_def clock_ok_def limit_defs)
  have err: "body_keeps (c_ses c) (c_ses (scenario_set_error_locked m
      (scenario_clear_running_snapshot_locked d)))"
    if "ses_ident (c_ses d) = ses_ident (c_ses c)" for m d
    using that by (intro ident_keeps) simp_all
  show "body_keeps (c_ses c) (c_ses (snd (snd (start_prepared_body sc p g t c))))"
    by (auto simp: start_prepared_body_def Let_def case_prod_beta upds
        gm_room_session_store_prepared_scenario_locked_def
        intro!: body_keeps_trans [OF init all_mark] err)
qed

lemma advance_branch_keeps: "body_keeps (c_ses c) (c_ses (snd (snd (advance_branch_body i t c))))"
  by (rule kept_keeps [OF local_kept [of i]])
    (auto simp: advance_branch_body_def Let_def intro!: local_intros)

lemma body_keeps_refl [simp]: "body_keeps s s"
  by (simp add: body_keeps_def)

interpretation next_run: plan_body "scenario_next_body t" for t
  by unfold_locales (simp add: scenario_next_body_def Let_def advance_branch_keeps split: option.split)

interpretation next_branch: plan_body "next_branch_body b t" for b t
  by unfold_locales (simp add: next_branch_body_def Let_def advance_branch_keeps split: option.split)

interpretation approve_run: plan_body "scenario_approve_body t" for t
  by unfold_locales (simp add: scenario_approve_body_def Let_def advance_branch_keeps split: option.split)

section \<open>Bodies of the command plans\<close>

lemma local_plan_matches [local_intros]:
  "local_to i c d \<Longrightarrow> local_to i c (snd (planned_command_session_matches_locked i plan d))"
  by (auto simp: planned_command_session_matches_locked_def Let_def intro!: local_intros)

lemma local_apply_dispatch:
  "local_to (unat (p_branch_index plan)) c (snd (snd (apply_dispatch_body plan dr hm t c)))"
proof -
  let ?i = "unat (p_branch_index plan)"
  have "local_to ?i c (snd (planned_command_session_matches_locked ?i plan c))"
    by (intro local_intros)
  then show ?thesis
    by (auto simp: apply_dispatch_body_def Let_def case_prod_beta intro!: local_intros)
qed

interpretation apply_dispatch: plan_body "apply_dispatch_body plan dr hm t" for plan dr hm t
  by unfold_locales (rule kept_keeps [OF local_kept [OF local_apply_dispatch]])

interpretation next_command: session_body "next_command_body plan" for plan
proof unfold_locales
  fix c
  let ?i = "unat (p_branch_index plan)"
  have "local_to ?i c (snd (planned_command_session_matches_locked ?i plan c))"
    by (intro local_intros)
  then have "local_to ?i c (snd (next_command_body plan c))"
    by (auto simp: next_command_body_def Let_def case_prod_beta intro!: local_intros)
  then show "body_keeps (c_ses c) (c_ses (snd (next_command_body plan c)))"
    by (rule kept_keeps [OF local_kept])
qed

interpretation plan_error: session_body "\<lambda>c. ((), planned_command_set_error_locked plan e c)" for plan e
proof unfold_locales
  fix c
  have "local_to (unat (p_branch_index plan)) c (planned_command_set_error_locked plan e c)"
    by (auto simp: planned_command_set_error_locked_def Let_def intro!: local_intros)
  then show "body_keeps (c_ses c) (c_ses (snd ((), planned_command_set_error_locked plan e c)))"
    by (simp add: kept_keeps [OF local_kept])
qed

interpretation reject: session_body "\<lambda>c. ((), scenario_set_error_locked m
    (scenario_clear_running_snapshot_locked c))" for m
  by unfold_locales (simp add: ident_keeps)

section \<open>Events and ticks over the table\<close>

lemma event_sessions_ok: "table_ok k \<Longrightarrow> table_ok (snd (snd (event_sessions js msg t m p k)))"
proof (induction js arbitrary: m p k)
  case (Cons j js)
  obtain stop m1 p1 c where e: "event_session msg t (m, p, core_ctx k j) = (stop, m1, p1, c)"
    by (metis prod_cases4)
  have "body_keeps (k_sessions k ! j) (c_ses c)"
    using kept_keeps [OF kept_event_session, of "core_ctx k j" msg t m p] by (simp add: e)
  with Cons.prems have "table_ok (put_ctx j c k)" by (rule table_ok_put)
  then show ?case using Cons.IH by (simp add: e Let_def)
qed simp

lemma advance_sessions_ok: "table_ok k \<Longrightarrow> table_ok (snd (advance_sessions js t p k))"
proof (induction js arbitrary: p k)
  case (Cons j js)
  obtain stop p1 c where
    e: "gm_room_session_runtime_advance_ready_branches_locked t p (core_ctx k j) = (stop, p1, c)"
    by (metis prod_cases3)
  have "body_keeps (k_sessions k ! j) (c_ses c)"
    using kept_keeps [OF kept_tick, of "core_ctx k j" t p] by (simp add: e)
  with Cons.prems have "table_ok (put_ctx j c k)" by (rule table_ok_put)
  then show ?case using Cons.IH Cons.prems by (simp add: e Let_def)
qed simp

section \<open>The step relation\<close>

text \<open>
  One call of a public operation, with any arguments.  Room ids that may create a session fit
  their buffer: they come from the room catalogue, whose buffer has the same size.
\<close>

inductive gm_step :: "gm_core \<Rightarrow> gm_core \<Rightarrow> bool" where
  step_start: "length r < QUEST_ROOM_ID_MAX_LEN \<Longrightarrow> gm_step k (snd (gm_room_session_start r d t k))"
| step_pause: "gm_step k (snd (gm_room_session_pause r t k))"
| step_resume: "gm_step k (snd (gm_room_session_resume r t k))"
| step_finish: "gm_step k (snd (gm_room_session_finish r t k))"
| step_reset: "gm_step k (snd (gm_room_session_reset r d t k))"
| step_add_time: "gm_step k (snd (gm_room_session_add_time r dt t k))"
| step_set_hint: "length r < QUEST_ROOM_ID_MAX_LEN \<Longrightarrow> gm_step k (snd (gm_room_session_set_hint r m t k))"
| step_clear_hint: "gm_step k (snd (gm_room_session_clear_hint r t k))"
| step_select_profile: "length r < QUEST_ROOM_ID_MAX_LEN \<Longrightarrow>
    gm_step k (snd (gm_room_session_select_profile_prepared r p sc d t k))"
| step_select_scenario: "length r < QUEST_ROOM_ID_MAX_LEN \<Longrightarrow>
    gm_step k (snd (gm_room_session_select_scenario_prepared r sc k))"
| step_game_start: "length r < QUEST_ROOM_ID_MAX_LEN \<Longrightarrow>
    gm_step k (snd (snd (gm_room_session_game_start_prepared vd r t p sc pre d t' k)))"
| step_scenario_start:
    "gm_step k (snd (snd (gm_room_session_scenario_start_prepared_plan vd r sc pre g now k)))"
| step_scenario_stop: "gm_step k (snd (gm_room_session_scenario_stop r k))"
| step_scenario_reset: "gm_step k (snd (gm_room_session_scenario_reset r k))"
| step_scenario_next: "gm_step k (snd (snd (gm_room_session_scenario_next_plan r now k)))"
| step_scenario_next_branch:
    "gm_step k (snd (snd (gm_room_session_scenario_next_branch_plan r b now k)))"
| step_scenario_approve: "gm_step k (snd (snd (gm_room_session_scenario_approve_plan r now k)))"
| step_tick: "gm_step k (snd (gm_room_session_runtime_process_pending_work_plan now k))"
| step_event: "gm_step k (snd (snd (gm_room_session_scenario_on_event_plan msg now k)))"
| step_next_command: "gm_step k (snd (gm_room_session_command_plan_next_command plan k))"
| step_plan_fail: "gm_step k (snd (snd (gm_room_session_command_plan_fail plan e k)))"
| step_apply_dispatch:
    "gm_step k (snd (snd (gm_room_session_command_plan_apply_dispatch_result plan dr hm now k)))"
| step_get: "gm_step k (snd (gm_room_session_get r k))"
| step_route: "gm_step k (gm_room_session_route_event msg freed k)"
| step_reset_all: "gm_step k (gm_room_session_reset_all k)"

text \<open>Reachable from boot, with the queues of the workers created or not.\<close>

inductive gm_reachable :: "nat \<Rightarrow> gm_core \<Rightarrow> bool" for rooms where
  reach_init: "gm_reachable rooms ((core_boot rooms rnd)\<lparr>k_event_queue := eq, k_runtime_queue := rq\<rparr>)"
| reach_step: "gm_reachable rooms k \<Longrightarrow> gm_step k l \<Longrightarrow> gm_reachable rooms l"

inductive_cases gm_stepE: "gm_step k l"

lemma wake_if_ok_core [simp]: "core_ok (snd (wake_if_ok r)) = core_ok (snd r)"
  by (cases r) (simp add: wake_if_ok_def)

lemma core_table: "core_ok k \<Longrightarrow> table_ok k"
  by (simp add: core_ok_def)

lemma select_profile_ok:
  "core_ok k \<Longrightarrow> length r < QUEST_ROOM_ID_MAX_LEN \<Longrightarrow>
   core_ok (snd (gm_room_session_select_profile_prepared r p sc d t k))"
  by (simp add: gm_room_session_select_profile_prepared_def select_profile.alloc_ok)

lemma start_ok:
  "core_ok k \<Longrightarrow> length r < QUEST_ROOM_ID_MAX_LEN \<Longrightarrow> core_ok (snd (gm_room_session_start r d t k))"
  by (simp add: gm_room_session_start_def start.alloc_ok)

lemma reject_ok: "core_ok k \<Longrightarrow> core_ok (reject_invalid_scenario r iss k)"
  using reject.in_session_ok [of "gm_room_session_sessions_lock k"]
  by (simp add: reject_invalid_scenario_def Let_def core_table split: option.split)

lemma start_plan_ok:
  "core_ok k \<Longrightarrow> core_ok (snd (snd (gm_room_session_scenario_start_prepared_plan vd r sc pre g now k)))"
  by (simp add: gm_room_session_scenario_start_prepared_plan_def case_prod_beta reject_ok
      start_run.plan_ok)

lemma game_start_ok:
  assumes "core_ok k" and "length r < QUEST_ROOM_ID_MAX_LEN"
  shows "core_ok (snd (snd (gm_room_session_game_start_prepared vd r t p sc pre d t' k)))"
  using assms
  by (simp add: gm_room_session_game_start_prepared_def Let_def case_prod_beta reject_ok
      select_profile_ok start_ok start_plan_ok)

lemma next_command_ok:
  "core_ok k \<Longrightarrow> core_ok (snd (gm_room_session_command_plan_next_command plan k))"
  using next_command.in_session_ok [of "gm_room_session_sessions_lock k"]
  by (simp add: gm_room_session_command_plan_next_command_def Let_def case_prod_beta core_table
      split: option.split)

lemma plan_fail_ok: "core_ok k \<Longrightarrow> core_ok (snd (snd (gm_room_session_command_plan_fail plan e k)))"
  using plan_error.in_session_ok [of "gm_room_session_sessions_lock k"]
  by (simp add: gm_room_session_command_plan_fail_def Let_def core_table split: option.split)

lemma apply_dispatch_ok:
  "core_ok k \<Longrightarrow> core_ok (snd (snd
     (gm_room_session_command_plan_apply_dispatch_result plan dr hm now k)))"
  using apply_dispatch.in_session_ok [of "gm_room_session_sessions_lock k"]
  by (simp add: gm_room_session_command_plan_apply_dispatch_result_def in_session_def Let_def
      case_prod_beta core_table split: option.split)

lemma reset_all_ok: "core_ok k \<Longrightarrow> core_ok (gm_room_session_reset_all k)"
  by (auto simp: gm_room_session_reset_all_def Let_def core_ok_def table_ok_def rooms_distinct_def
      slot_ok_def clock_ok_def gm_room_session_zero_def gm_timer_reset_def)

lemma route_ok: "core_ok k \<Longrightarrow> core_ok (gm_room_session_route_event msg freed k)"
  by (erule core_ok_cong [THEN iffD1, rotated -1])
    (simp_all add: gm_room_session_route_event_def gm_room_session_record_event_drop_def Let_def
      gm_room_session_runtime_post_event_with_wait_def split: option.split)

lemma event_plan_ok:
  "core_ok k \<Longrightarrow> core_ok (snd (snd (gm_room_session_scenario_on_event_plan msg now k)))"
  using event_sessions_ok [of "gm_room_session_sessions_lock k"]
  by (simp add: gm_room_session_scenario_on_event_plan_def Let_def case_prod_beta core_table)

lemma tick_ok:
  "core_ok k \<Longrightarrow> core_ok (snd (gm_room_session_runtime_process_pending_work_plan now k))"
  using advance_sessions_ok [of "gm_room_session_sessions_lock k"]
  by (simp add: gm_room_session_runtime_process_pending_work_plan_def Let_def case_prod_beta core_table)

lemmas public_op_defs =
  gm_room_session_pause_def gm_room_session_resume_def gm_room_session_finish_def
  gm_room_session_reset_def gm_room_session_add_time_def gm_room_session_set_hint_def
  gm_room_session_clear_hint_def gm_room_session_select_scenario_prepared_def
  gm_room_session_scenario_stop_def gm_room_session_scenario_reset_def
  gm_room_session_scenario_next_plan_def gm_room_session_scenario_next_branch_plan_def
  gm_room_session_scenario_approve_plan_def gm_room_session_get_def

lemmas public_op_oks =
  pause.found_ok resume.found_ok finish.found_ok reset.found_ok add_time.found_ok set_hint.alloc_ok
  clear_hint.found_ok select_scenario.alloc_ok stop_run.found_ok reset_run.found_ok next_run.plan_ok
  next_branch.plan_ok approve_run.plan_ok select_profile_ok start_ok game_start_ok start_plan_ok
  next_command_ok plan_fail_ok apply_dispatch_ok reset_all_ok route_ok event_plan_ok tick_ok

lemma gm_step_ok: "gm_step k l \<Longrightarrow> core_ok k \<Longrightarrow> core_ok l"
  by (erule gm_stepE) (simp_all add: public_op_defs public_op_oks core_table Let_def case_prod_beta)

lemma gm_reachable_ok: "gm_reachable rooms k \<Longrightarrow> core_ok k"
proof (induction rule: gm_reachable.induct)
  case (reach_init rnd eq rq)
  then show ?case
    by (simp add: core_boot_def core_ok_def table_ok_def rooms_distinct_def slot_ok_def clock_ok_def
        gm_room_session_zero_def gm_timer_reset_def)
qed (rule gm_step_ok)

section \<open>Properties\<close>

text \<open>A state for the witnesses: one room, whose game has been started and paused.\<close>

definition paused_core :: gm_core where
  "paused_core = snd (gm_room_session_pause ''lab'' 40
     (snd (gm_room_session_start ''lab'' 100 10 (core_boot 1 (\<lambda>_. 0)))))"

lemma paused_core_reachable: "gm_reachable 1 paused_core"
  unfolding paused_core_def
proof (rule reach_step [OF reach_step step_pause, OF _ step_start])
  show "length ''lab'' < QUEST_ROOM_ID_MAX_LEN" by (simp add: QUEST_ROOM_ID_MAX_LEN_def)
  show "gm_reachable 1 (core_boot 1 (\<lambda>_. 0))"
    using reach_init [where rooms = 1 and rnd = "\<lambda>_. 0" and eq = None and rq = None]
    by (simp add: core_boot_def)
qed

lemma paused_core_slot:
  "length (k_sessions paused_core) = 1" "s_in_use (k_sessions paused_core ! 0)"
  "s_room_id (k_sessions paused_core ! 0) = ''lab''"
  "s_state (k_sessions paused_core ! 0) = GM_SESSION_PAUSED"
  by code_simp+

text \<open>
  C1: the state invariant of the module.  After any sequence of public calls, in any order and
  with any arguments (starting, pausing and finishing games, running scenarios, ticks, device
  events, command results, a game ended by a scenario step), every session's state agrees with
  the state of its timer.
\<close>

theorem reachable_clock_agrees:
  assumes "gm_reachable rooms k" and "s \<in> set (k_sessions k)"
  shows "s_state s = session_state_of_timer (t_state (s_timer s))"
  using gm_reachable_ok [OF assms(1)] assms(2)
  by (auto simp: core_ok_def table_ok_def slot_ok_def clock_ok_def)

theorem reachable_clock_agrees_witness:
  "gm_reachable 1 paused_core \<and>
   session_state_of_timer (t_state (s_timer (k_sessions paused_core ! 0))) = GM_SESSION_PAUSED"
  using reachable_clock_agrees [OF paused_core_reachable, of "k_sessions paused_core ! 0"]
    paused_core_reachable by (simp add: paused_core_slot)

text \<open>
  C2: in every reachable state the table holds at most one session per room, and looking up the
  room of a used slot finds exactly that slot.
\<close>

theorem reachable_lookup_exact:
  assumes "gm_reachable rooms k" and "i < length (k_sessions k)" and "s_in_use (k_sessions k ! i)"
  shows "find_session_mutable_locked k (s_room_id (k_sessions k ! i)) = Some i"
  using find_session_unique [OF core_table [OF gm_reachable_ok [OF assms(1)]] assms(2,3)] by simp

theorem reachable_lookup_exact_witness:
  "gm_reachable 1 paused_core \<and> find_session_mutable_locked paused_core ''lab'' = Some 0"
  using reachable_lookup_exact [OF paused_core_reachable, of 0] paused_core_reachable
  by (simp add: paused_core_slot)

text \<open>
  No deferred effect is lost or left over: in every reachable state the queues of deferred
  cancels and flag events are empty, so each lock section hands over its own effects only.
\<close>

theorem reachable_no_leftover_effects:
  assumes "gm_reachable rooms k"
  shows "g_cancel_request_ids (k_glob k) = [] \<and> g_flag_events (k_glob k) = []
    \<and> length (k_prepared k) = length (k_sessions k)"
  using gm_reachable_ok [OF assms] by (simp add: core_ok_def table_ok_def)

theorem reachable_no_leftover_effects_witness:
  "gm_reachable 1 paused_core \<and> g_cancel_request_ids (k_glob paused_core) = []"
  using reachable_no_leftover_effects [OF paused_core_reachable] paused_core_reachable by simp

end
