(* ===== verification/Gm_Flags.thy ===== *)
theory Gm_Flags
  imports Gm_Frame Gm_Reactive
begin

text \<open>
  The scenario flags of a session as a bounded store.  The locale \<open>flag_store\<close> is the contract
  that steps, waits and guards rely on; it is interpreted on \<open>scenario_set_flag_locked\<close> with
  both readers of the sources, \<open>scenario_get_flag_locked\<close> and \<open>reactive_v2_get_flag\<close>.
  A second group of lemmas is about the queue of flag events that a lock section collects.
\<close>

section \<open>The contract\<close>

locale flag_store =
  fixes look :: "'s \<Rightarrow> string \<Rightarrow> bool option"
    and put :: "string \<Rightarrow> bool \<Rightarrow> 's \<Rightarrow> esp_err \<times> 's"
    and fits :: "string \<Rightarrow> bool"
    and room_for :: "'s \<Rightarrow> string \<Rightarrow> bool"
  assumes put_same: "fits n \<Longrightarrow> room_for s n \<Longrightarrow> look (snd (put n v s)) n = Some v"
    and put_other: "fits n \<Longrightarrow> m \<noteq> n \<Longrightarrow> look (snd (put n v s)) m = look s m"
    and put_full: "fits n \<Longrightarrow> \<not> room_for s n \<Longrightarrow> put n v s = (ESP_ERR_NO_MEM, s)"
begin

primrec put_all :: "flag_condition list \<Rightarrow> 's \<Rightarrow> esp_err \<times> 's" where
  "put_all [] s = (ESP_OK, s)"
| "put_all (f # fs) s =
     (let (e, t) = put (fl_name f) (fl_value f) s in if e \<noteq> ESP_OK then (e, t) else put_all fs t)"

definition holds :: "'s \<Rightarrow> flag_condition list \<Rightarrow> bool" where
  "holds s fs = list_all (\<lambda>f. look s (fl_name f) = Some (fl_value f)) fs"

lemma put_ok_look: "put n v s = (ESP_OK, t) \<Longrightarrow> fits n \<Longrightarrow> look t m = (if m = n then Some v else look s m)"
  using put_same [of n s v] put_other [of n m v s] put_full [of n s v] by (cases "room_for s n") auto

lemma put_all_look:
  "put_all fs s = (ESP_OK, t) \<Longrightarrow> list_all (\<lambda>f. fits (fl_name f)) fs \<Longrightarrow>
   look t m = (case map_of (map (\<lambda>f. (fl_name f, fl_value f)) (rev fs)) m of
                 Some v \<Rightarrow> Some v | None \<Rightarrow> look s m)"
proof (induction fs arbitrary: s)
  case (Cons f fs)
  obtain e s1 where p: "put (fl_name f) (fl_value f) s = (e, s1)" by force
  have e: "e = ESP_OK" and "put_all fs s1 = (ESP_OK, t)"
    using Cons.prems(1) p by (auto split: if_splits)
  with Cons.IH [of s1] Cons.prems(2) put_ok_look [of "fl_name f" "fl_value f" s s1 m] p e
  show ?case by (simp add: map_add_def split: option.split)
qed simp

lemma put_all_holds:
  assumes "put_all fs s = (ESP_OK, t)" and "list_all (\<lambda>f. fits (fl_name f)) fs"
    and "distinct (map fl_name fs)"
  shows "holds t fs"
proof -
  have m: "map_of (map (\<lambda>f. (fl_name f, fl_value f)) (rev fs)) (fl_name f) = Some (fl_value f)"
    if "f \<in> set fs" for f
    using assms(3) that by (intro map_of_is_SomeI) (auto simp: comp_def rev_map [symmetric])
  show ?thesis by (simp add: holds_def list_all_iff put_all_look [OF assms(1,2)] m)
qed

end

section \<open>The store of a session\<close>

lemma find_name_update:
  "find_index (\<lambda>f. fl_name f = m) (fs[i := (fs ! i)\<lparr>fl_value := v\<rparr>]) =
   find_index (\<lambda>f. fl_name f = m) fs"
proof (induction fs arbitrary: i)
  case (Cons f fs)
  then show ?case by (cases i) simp_all
qed simp

lemma find_index_append:
  "find_index P (xs @ ys) = (case find_index P xs of Some i \<Rightarrow> Some i
     | None \<Rightarrow> map_option (\<lambda>i. i + length xs) (find_index P ys))"
  by (induction xs) (auto split: option.split simp: map_option_case)

definition flag_fits :: "string \<Rightarrow> bool" where
  "flag_fits n \<longleftrightarrow> n \<noteq> [] \<and> length n < ROOM_SCENARIO_FLAG_NAME_MAX_LEN"

definition flag_room :: "room_ctx \<Rightarrow> string \<Rightarrow> bool" where
  "flag_room c n \<longleftrightarrow> find_index (\<lambda>f. fl_name f = n) (s_scenario_flags (c_ses c)) \<noteq> None \<or>
     length (s_scenario_flags (c_ses c)) < GM_ROOM_SCENARIO_MAX_FLAGS"

lemma set_flag_look:
  assumes "flag_fits n" and "flag_room c n"
  shows "scenario_get_flag_locked (c_ses (snd (scenario_set_flag_locked n v c))) m =
    (if m = n then Some v else scenario_get_flag_locked (c_ses c) m)"
proof (cases "find_index (\<lambda>f. fl_name f = n) (s_scenario_flags (c_ses c))")
  case None
  with assms show ?thesis
    by (auto simp: scenario_set_flag_locked_def scenario_get_flag_locked_def flag_fits_def
        flag_room_def Let_def ctx_defs find_index_append nth_append
        split: option.split dest: find_index_SomeD)
next
  case (Some i)
  note i = find_index_SomeD [OF Some]
  show ?thesis
  proof (cases "fl_value (s_scenario_flags (c_ses c) ! i) = v")
    case True
    then show ?thesis
      using Some assms by (auto simp: scenario_set_flag_locked_def scenario_get_flag_locked_def
          flag_fits_def Let_def)
  next
    case False
    then show ?thesis
      using Some assms i
      by (auto simp: scenario_set_flag_locked_def scenario_get_flag_locked_def flag_fits_def Let_def
          ctx_defs find_name_update nth_list_update map_option_case split: option.split
          dest!: find_index_SomeD)
  qed
qed

lemma readers_agree: "reactive_v2_get_flag = scenario_get_flag_locked"
  by (intro ext) (simp add: reactive_v2_get_flag_def scenario_get_flag_locked_def)

interpretation flags: flag_store "\<lambda>c. scenario_get_flag_locked (c_ses c)" scenario_set_flag_locked
  flag_fits flag_room
proof unfold_locales
  fix n m v c
  show "flag_fits n \<Longrightarrow> flag_room c n \<Longrightarrow>
      scenario_get_flag_locked (c_ses (snd (scenario_set_flag_locked n v c))) n = Some v"
    by (simp add: set_flag_look)
  show "scenario_set_flag_locked n v c = (ESP_ERR_NO_MEM, c)" if "flag_fits n" "\<not> flag_room c n"
    using that by (auto simp: scenario_set_flag_locked_def flag_fits_def flag_room_def Let_def)
  then show "flag_fits n \<Longrightarrow> m \<noteq> n \<Longrightarrow>
      scenario_get_flag_locked (c_ses (snd (scenario_set_flag_locked n v c))) m =
      scenario_get_flag_locked (c_ses c) m"
    by (cases "flag_room c n") (simp_all add: set_flag_look)
qed

interpretation reactive_flags: flag_store "\<lambda>c. reactive_v2_get_flag (c_ses c)" scenario_set_flag_locked
  flag_fits flag_room
  unfolding readers_agree by (rule flags.flag_store_axioms)

section \<open>Flag events of a lock section\<close>

definition flag_events_ok :: "gm_globals \<Rightarrow> bool" where
  "flag_events_ok g \<longleftrightarrow> distinct (map fl_name (g_flag_events g)) \<and>
     list_all (\<lambda>f. flag_fits (fl_name f)) (g_flag_events g) \<and>
     length (g_flag_events g) \<le> GM_ROOM_SCENARIO_MAX_FLAGS"

abbreviation flag_map :: "flag_condition list \<Rightarrow> string \<rightharpoonup> bool" where
  "flag_map fs \<equiv> map_of (map (\<lambda>f. (fl_name f, fl_value f)) fs)"

lemma map_name_update: "map fl_name (fs[i := (fs ! i)\<lparr>fl_value := v\<rparr>]) = map fl_name fs"
proof (induction fs arbitrary: i)
  case (Cons f fs)
  then show ?case by (cases i) simp_all
qed simp

lemma flag_map_update:
  "i < length fs \<Longrightarrow> \<forall>j < i. fl_name (fs ! j) \<noteq> fl_name (fs ! i) \<Longrightarrow>
   flag_map (fs[i := (fs ! i)\<lparr>fl_value := v\<rparr>]) = (flag_map fs)(fl_name (fs ! i) \<mapsto> v)"
proof (induction fs arbitrary: i)
  case (Cons f fs)
  show ?case
  proof (cases i)
    case (Suc k)
    have "\<forall>j < k. fl_name (fs ! j) \<noteq> fl_name (fs ! k)" and "fl_name f \<noteq> fl_name (fs ! k)"
      using Cons.prems(2) Suc by force+
    then show ?thesis using Cons Suc by (auto simp: fun_eq_iff)
  qed (auto simp: fun_eq_iff)
qed simp

lemma flag_map_append:
  "n \<notin> fl_name ` set fs \<Longrightarrow> flag_map (fs @ [\<lparr>fl_name = n, fl_value = v\<rparr>]) = (flag_map fs)(n \<mapsto> v)"
  by (induction fs) (auto simp: fun_eq_iff)

lemma post_flag_events:
  assumes "flag_events_ok (c_glob c)" and "flag_fits n"
    and "post_flag_changed_locked n v c = (ESP_OK, c')"
  shows "flag_events_ok (c_glob c') \<and>
    flag_map (g_flag_events (c_glob c')) = (flag_map (g_flag_events (c_glob c)))(n \<mapsto> v)"
proof (cases "find_index (\<lambda>f. fl_name f = n) (g_flag_events (c_glob c))")
  case None
  then have new: "n \<notin> fl_name ` set (g_flag_events (c_glob c))" by (auto simp: find_index_None_iff)
  have "g_flag_events (c_glob c') = g_flag_events (c_glob c) @ [\<lparr>fl_name = n, fl_value = v\<rparr>]"
    and "length (g_flag_events (c_glob c)) < GM_ROOM_SCENARIO_MAX_FLAGS"
    using assms None
    by (auto simp: post_flag_changed_locked_def Let_def flag_fits_def ctx_defs split: if_splits)
  with new assms(1,2) flag_map_append [OF new, of v] show ?thesis by (auto simp: flag_events_ok_def)
next
  case (Some i)
  note i = find_index_SomeD [OF Some]
  have c': "g_flag_events (c_glob c') =
      (g_flag_events (c_glob c))[i := (g_flag_events (c_glob c) ! i)\<lparr>fl_value := v\<rparr>]"
    using assms(3) Some by (auto simp: post_flag_changed_locked_def Let_def ctx_defs)
  have "flag_events_ok (c_glob c')"
    using assms(1) i unfolding flag_events_ok_def c' map_name_update
    by (auto simp: list_all_length nth_list_update)
  with flag_map_update [of i "g_flag_events (c_glob c)" v] i c' show ?thesis by simp
qed

definition flag_event :: "flag_condition \<Rightarrow> scenehub_event" where
  "flag_event f = \<lparr>ev_type = SCENEHUB_EVENT_FLAG_CHANGED, ev_priority = EVENT_BUS_PRIORITY_NORMAL,
     ev_origin = SCENEHUB_EVENT_ORIGIN_INTERNAL, ev_topic = fl_name f,
     ev_payload = (if fl_value f then ''true'' else ''false''), ev_data = PAYLOAD_TEXT\<rparr>"

lemma flag_event_made:
  "flag_fits (fl_name f) \<Longrightarrow>
   scenehub_event_make_flag_changed (fl_name f) (fl_value f) = Inr (flag_event f)"
  by (auto simp: event_make_defs flag_event_def flag_fits_def event_class_defs
      ROOM_SCENARIO_FLAG_NAME_MAX_LEN_def)

lemma flush_flag_events_trace:
  "list_all (\<lambda>f. flag_fits (fl_name f)) fs \<Longrightarrow>
   k_trace (fold flush_flag_event fs k) = k_trace k @ map (Event_Bus_Post_High \<circ> flag_event) fs"
  by (induction fs arbitrary: k)
    (simp_all add: flush_flag_event_def flag_event_made emit_def, simp add: flag_fits_def)

lemma flush_cancels_trace:
  "[] \<notin> set rs \<Longrightarrow> k_trace (fold flush_cancel rs k) = k_trace k @ map Cancel_Command_Request rs"
  by (induction rs arbitrary: k) (auto simp: flush_cancel_def emit_def)

lemma post_flag_cancels [simp]:
  "g_cancel_request_ids (c_glob (snd (post_flag_changed_locked n v c))) = g_cancel_request_ids (c_glob c)"
  by (simp add: post_flag_changed_locked_def Let_def ctx_defs split: option.split)

lemma set_flag_posts:
  assumes "scenario_set_flag_locked n v c = (e, c')" and "flag_fits n"
    and "scenario_get_flag_locked (c_ses c) n \<noteq> Some v" and "e = ESP_OK"
  obtains d where "post_flag_changed_locked n v d = (ESP_OK, c')" and "c_glob d = c_glob c"
  using assms
  by (auto simp: scenario_set_flag_locked_def scenario_get_flag_locked_def flag_fits_def Let_def
      ctx_defs split: option.splits if_splits)

lemma filter_name_unique:
  "distinct (map fl_name fs) \<Longrightarrow> flag_map fs n = Some v \<Longrightarrow>
   filter (\<lambda>f. fl_name f = n) fs = [\<lparr>fl_name = n, fl_value = v\<rparr>]"
proof (induction fs)
  case (Cons f fs)
  have "filter (\<lambda>f. fl_name f = n) fs = []" if "fl_name f = n"
    using Cons.prems(1) that by (simp add: filter_empty_conv) (metis image_eqI)
  with Cons show ?case by (cases f) (auto split: if_splits)
qed simp

section \<open>Properties\<close>

text \<open>
  The flags of a session are a store of at most sixteen entries.  Setting a flag makes
  it readable with the new value and leaves every other flag as it was; when the flag is new and
  the store is full the call returns the out-of-memory error and changes nothing.
\<close>

theorem flag_store_behaviour:
  assumes "n \<noteq> []" and "length n < ROOM_SCENARIO_FLAG_NAME_MAX_LEN"
    and "scenario_set_flag_locked n v c = (e, c')"
  shows "if scenario_get_flag_locked (c_ses c) n = None \<and>
            length (s_scenario_flags (c_ses c)) \<ge> GM_ROOM_SCENARIO_MAX_FLAGS
    then e = ESP_ERR_NO_MEM \<and> c' = c
    else \<forall>m. scenario_get_flag_locked (c_ses c') m =
           (if m = n then Some v else scenario_get_flag_locked (c_ses c) m)"
proof -
  have fits: "flag_fits n" using assms by (simp add: flag_fits_def)
  have "flag_room c n \<longleftrightarrow> \<not> (scenario_get_flag_locked (c_ses c) n = None \<and>
            length (s_scenario_flags (c_ses c)) \<ge> GM_ROOM_SCENARIO_MAX_FLAGS)"
    using assms(1) by (auto simp: flag_room_def scenario_get_flag_locked_def)
  then show ?thesis
    using set_flag_look [OF fits, of c v] flags.put_full [OF fits, of c v] assms(3) by auto
qed

text \<open>A freshly booted hub with one room, for the witnesses.\<close>

definition boot1 :: gm_core where "boot1 = core_boot 1 (\<lambda>_. 0)"

abbreviation blank_ctx :: room_ctx where "blank_ctx \<equiv> core_ctx boot1 0"

theorem flag_store_behaviour_witness:
  "scenario_get_flag_locked (c_ses (snd (scenario_set_flag_locked ''door'' True blank_ctx))) ''door''
     = Some True \<and>
   scenario_get_flag_locked (c_ses (snd (scenario_set_flag_locked ''door'' True blank_ctx))) ''lamp''
     = None"
proof -
  let ?r = "scenario_set_flag_locked ''door'' True blank_ctx"
  have e: "s_scenario_flags (c_ses blank_ctx) = []" by code_simp
  then have g: "scenario_get_flag_locked (c_ses blank_ctx) m = None" for m
    by (simp add: scenario_get_flag_locked_def)
  show ?thesis
    using flag_store_behaviour [of "''door''" True blank_ctx "fst ?r" "snd ?r"]
    by (simp add: e g ROOM_SCENARIO_FLAG_NAME_MAX_LEN_def GM_ROOM_SCENARIO_MAX_FLAGS_def)
qed

text \<open>
  A changed flag is announced exactly once, with its latest value.  If setting flag
  \<open>n\<close> to \<open>v\<close> under the lock changes it and succeeds, then leaving the lock posts exactly one
  flag-changed event for \<open>n\<close>, carrying \<open>v\<close>, even when the same lock section had already queued
  an event for \<open>n\<close> with another value.
\<close>

theorem flag_change_announced_once:
  assumes "n \<noteq> []" and "length n < ROOM_SCENARIO_FLAG_NAME_MAX_LEN"
    and "scenario_set_flag_locked n v (core_ctx k i) = (ESP_OK, c)"
    and "scenario_get_flag_locked (k_sessions k ! i) n \<noteq> Some v"
    and "flag_events_ok (k_glob k)" and "[] \<notin> set (g_cancel_request_ids (k_glob k))"
  shows "\<exists>new. k_trace (gm_room_session_sessions_unlock (put_ctx i c k)) = k_trace k @ new \<and>
    filter (\<lambda>x. \<exists>f. x = Event_Bus_Post_High (flag_event f) \<and> fl_name f = n) new =
      [Event_Bus_Post_High (flag_event \<lparr>fl_name = n, fl_value = v\<rparr>)]"
proof -
  have fits: "flag_fits n" using assms by (simp add: flag_fits_def)
  obtain d where d: "post_flag_changed_locked n v d = (ESP_OK, c)" "c_glob d = k_glob k"
    using set_flag_posts [OF assms(3) fits] assms(4) by (auto simp: core_ctx_def)
  define fs where "fs = g_flag_events (c_glob c)"
  define rs where "rs = g_cancel_request_ids (k_glob k)"
  have ok: "flag_events_ok (c_glob c)" and m: "flag_map fs n = Some v"
    using post_flag_events [of d n v c] d assms(5) fits by (auto simp: fs_def)
  have rs: "g_cancel_request_ids (c_glob c) = rs"
    using post_flag_cancels [of n v d] d by (simp add: rs_def)
  have tr: "k_trace (gm_room_session_sessions_unlock (put_ctx i c k)) =
      k_trace k @ map Cancel_Command_Request rs @ map (Event_Bus_Post_High \<circ> flag_event) fs"
    using ok assms(6) rs
    by (simp add: gm_room_session_sessions_unlock_def Let_def put_ctx_def flag_events_ok_def
        flush_flag_events_trace flush_cancels_trace fs_def [symmetric] rs_def)
  have p: "(\<exists>g. flag_event f = flag_event g \<and> fl_name g = n) \<longleftrightarrow> fl_name f = n" for f
    by (auto simp: flag_event_def)
  have "filter (\<lambda>f. fl_name f = n) fs = [\<lparr>fl_name = n, fl_value = v\<rparr>]"
    using ok m by (intro filter_name_unique) (simp_all add: flag_events_ok_def fs_def)
  then show ?thesis unfolding tr by (auto simp: filter_map comp_def p filter_empty_conv)
qed

theorem flag_change_announced_once_witness:
  "\<exists>new. k_trace (gm_room_session_sessions_unlock
       (put_ctx 0 (snd (scenario_set_flag_locked ''door'' True blank_ctx)) boot1)) = new \<and>
     filter (\<lambda>x. \<exists>f. x = Event_Bus_Post_High (flag_event f) \<and> fl_name f = ''door'') new =
       [Event_Bus_Post_High (flag_event \<lparr>fl_name = ''door'', fl_value = True\<rparr>)]"
proof -
  have p: "scenario_set_flag_locked ''door'' True blank_ctx =
      (ESP_OK, snd (scenario_set_flag_locked ''door'' True blank_ctx))"
    by (rule prod_eqI) (code_simp, simp)
  have q: "scenario_get_flag_locked (k_sessions boot1 ! 0) ''door'' \<noteq> Some True"
    "flag_events_ok (k_glob boot1)" "g_cancel_request_ids (k_glob boot1) = []" "k_trace boot1 = []"
    by code_simp+
  show ?thesis
    using flag_change_announced_once [OF _ _ p q(1,2)]
    by (simp add: q(3,4) ROOM_SCENARIO_FLAG_NAME_MAX_LEN_def)
qed

end
