(* ===== verification/Gm_Demo.thy ===== *)
theory Gm_Demo
  imports Gm_Flags Gm_Scenario
begin

text \<open>
  Small concrete runs: the witnesses of the properties and the findings are evaluated on them.
  A game is started in room \<open>lab\<close> at time 10 and a scenario at time 100; the validator accepts.
\<close>

definition accept_all :: validator where
  "accept_all sc = (ESP_OK, True, [])"

definition demo_step :: "step_data \<Rightarrow> scenario_step" where
  "demo_step d = \<lparr>st_id = ''s'', st_label = ''s'', st_enabled = True, st_allow_operator_skip = False,
     st_operator_skip_label = [], st_data = d\<rparr>"

definition demo_scenario :: "step_data list \<Rightarrow> scenario_branch list \<Rightarrow> room_scenario" where
  "demo_scenario ds bs = \<lparr>sc_id = ''sc'', sc_name = ''demo'', sc_room_id = ''lab'',
     sc_steps = map demo_step ds, sc_reactive_variants = [], sc_reactive_actions = [],
     sc_reactive_group_commands = [], sc_branches = bs\<rparr>"

definition demo_start ::
  "room_scenario \<Rightarrow> prepared_scenario \<Rightarrow> esp_err \<times> command_plan \<times> gm_core" where
  "demo_start sc pre = gm_room_session_scenario_start_prepared_plan accept_all ''lab'' sc pre 1 100
     (snd (gm_room_session_start ''lab'' 60000 10 boot1))"

definition demo_command :: "string \<Rightarrow> device_command" where
  "demo_command x = \<lparr>cmd_device_id = ''relay'', cmd_command_id = x, cmd_params_json = []\<rparr>"

text \<open>A session whose scenario is about to run its first step.\<close>

definition demo_ctx :: "room_scenario \<Rightarrow> prepared_scenario \<Rightarrow> room_ctx" where
  "demo_ctx sc pre = snd (scenario_init_branch_runtimes_locked pre
     (upd_view (\<lambda>v. v\<lparr>v_scenario_state := GM_ROOM_SCENARIO_RUNNING\<rparr>)
       (upd_ses (\<lambda>s. s\<lparr>s_in_use := True, s_room_id := ''lab'', s_running_scenario := sc,
          s_running_scenario_valid := True\<rparr>) (blank_ctx\<lparr>c_prepared := pre\<rparr>))))"

end
