(* ===== verification/Gm_Plans.thy ===== *)
theory Gm_Plans
  imports Gm_Invariant Gm_Demo
begin

text \<open>
  The life of a command plan: the interpreter returns a plan only together with a branch that
  waits for its dispatch, the dispatcher can resolve it to the command of the step, and the
  outcome it reports lands in the branch the plan came from, or nowhere when the branch has
  moved on.
\<close>

section \<open>Plans that the interpreter returns\<close>

text \<open>The commands a step sends, in order.\<close>

fun step_commands :: "step_data \<Rightarrow> device_command list" where
  "step_commands (STEP_DEVICE_COMMAND cmd) = [cmd]"
| "step_commands (STEP_DEVICE_COMMAND_GROUP cmds) = map command_group_entry_to_device_command cmds"
| "step_commands _ = []"

definition current_step_data :: "gm_room_session \<Rightarrow> step_data" where
  "current_step_data s =
     st_data (sc_steps (s_running_scenario s) ! unat (v_current_step_index (s_view s)))"

text \<open>
  The loaded branch waits for the dispatch of \<open>plan\<close>, which stands for the next command of its
  current step.
\<close>

definition step_plan_pending :: "command_plan \<Rightarrow> gm_room_session \<Rightarrow> bool" where
  "step_plan_pending plan s \<longleftrightarrow>
     scenario_waiting_for_command_dispatch (s_view s) \<and>
     p_expected_step_index plan = v_current_step_index (s_view s) \<and>
     unat (v_current_step_index (s_view s)) < length (sc_steps (s_running_scenario s)) \<and>
     unat (p_command_index plan) < length (step_commands (current_step_data s)) \<and>
     length (step_commands (current_step_data s)) \<le> ROOM_SCENARIO_COMMAND_GROUP_MAX_COMMANDS \<and>
     p_room_id plan = quest_str_copy QUEST_ROOM_ID_MAX_LEN (s_room_id s) \<and>
     (case current_step_data s of
        STEP_DEVICE_COMMAND _ \<Rightarrow> p_kind plan = COMMAND_PLAN_SCENARIO_STEP
      | _ \<Rightarrow> p_kind plan = COMMAND_PLAN_SCENARIO_STEP_GROUP)"

lemma pending_resolves:
  assumes "step_plan_pending plan s"
  shows "planned_command_resolve_locked s b plan =
    Inr (step_commands (current_step_data s) ! unat (p_command_index plan),
         Suc (unat (p_command_index plan)) < length (step_commands (current_step_data s)))"
proof -
  have "unat (p_command_index plan) < 4"
    using assms by (simp add: step_plan_pending_def ROOM_SCENARIO_COMMAND_GROUP_MAX_COMMANDS_def)
  then have "unat (p_command_index plan + 1) = Suc (unat (p_command_index plan))"
    by (intro unat_Suc_u8) simp
  then show ?thesis
    using assms
    by (cases "current_step_data s")
      (simp_all add: step_plan_pending_def planned_command_resolve_locked_def current_step_data_def Let_def)
qed

lemma scenario_of_core:
  "ses_core s = ses_core t \<Longrightarrow> s_running_scenario s = s_running_scenario t \<and> s_room_id s = s_room_id t \<and>
     s_running_scenario_valid s = s_running_scenario_valid t"
  using ses_core_fields [of s t] by simp

lemma plan_absent [simp]:
  "gm_room_session_command_plan_present plan \<longleftrightarrow> p_kind plan \<noteq> COMMAND_PLAN_NONE"
  by (simp add: gm_room_session_command_plan_present_def)

lemma plan_clear_kind [simp]: "p_kind gm_room_session_command_plan_clear = COMMAND_PLAN_NONE"
  by (simp add: gm_room_session_command_plan_clear_def)

lemma dispatch_wait_view [simp]:
  "s_view (c_ses (scenario_enter_wait_command_dispatch_locked now c)) =
     (clear_wait_fields ((s_view (c_ses c))\<lparr>v_scenario_state := GM_ROOM_SCENARIO_WAITING\<rparr>))
       \<lparr>v_wait_type := WAIT_DEVICE_COMMAND_RESULT, v_wait_started_at_ms := now, v_wait_until_ms := 0,
        v_wait_event_type := GM_ROOM_SESSION_DISPATCH_PENDING_ID\<rparr>"
  by (simp add: scenario_enter_wait_command_dispatch_locked_def GM_ROOM_SESSION_DISPATCH_PENDING_ID_def
      ROOM_SCENARIO_EVENT_TYPE_MAX_LEN_def)

lemma execute_step_plan:
  assumes "execute_step now bi res (sc_steps (s_running_scenario (c_ses c)) ! unat i) c
      = Step_Return err plan c'"
    and "i = v_current_step_index (s_view (c_ses c))"
    and "unat i < length (sc_steps (s_running_scenario (c_ses c)))"
    and "p_kind plan \<noteq> COMMAND_PLAN_NONE"
  shows "err = ESP_OK \<and> p_branch_index plan = bi \<and> p_command_index plan = 0 \<and> step_plan_pending plan (c_ses c')"
proof -
  define step where "step = sc_steps (s_running_scenario (c_ses c)) ! unat i"
  define d where "d = gm_room_session_mark_session_changed_locked
    (scenario_enter_wait_command_dispatch_locked now c)"
  have core: "ses_core (c_ses d) = ses_core (c_ses c)" by (simp add: d_def)
  note sc = scenario_of_core [OF core]
  have view: "scenario_waiting_for_command_dispatch (s_view (c_ses d))"
    "v_current_step_index (s_view (c_ses d)) = v_current_step_index (s_view (c_ses c))"
    "p_command_index gm_room_session_command_plan_clear = 0"
    by (simp_all add: d_def scenario_waiting_for_command_dispatch_def
        gm_room_session_command_plan_clear_def)
  have en: "st_enabled step"
    using assms(1) by (rule contrapos_pp) (simp add: execute_step_def step_def Let_def)
  note run = assms(1) [folded step_def, unfolded execute_step_def Let_def, simplified en]
  show ?thesis
  proof (cases "st_data step")
    case (STEP_DEVICE_COMMAND cmd)
    with run have "c' = d" "err = ESP_OK"
      and "plan = fst (snd (gm_room_session_plan_scenario_command_locked bi now c))"
      by (simp_all add: gm_room_session_plan_scenario_command_locked_def d_def)
    then show ?thesis using STEP_DEVICE_COMMAND assms(2,3) sc view
      by (simp add: step_plan_pending_def gm_room_session_plan_scenario_command_locked_def
          current_step_data_def step_def ROOM_SCENARIO_COMMAND_GROUP_MAX_COMMANDS_def)
  next
    case (STEP_DEVICE_COMMAND_GROUP cmds)
    have ok: "cmds \<noteq> [] \<and> length cmds \<le> ROOM_SCENARIO_COMMAND_GROUP_MAX_COMMANDS"
      using run assms(4)
      by (auto simp: STEP_DEVICE_COMMAND_GROUP step_error_def
          gm_room_session_plan_scenario_command_group_locked_def split: if_splits)
    with run STEP_DEVICE_COMMAND_GROUP have "c' = d" "err = ESP_OK"
      and "plan = fst (snd (snd (gm_room_session_plan_scenario_command_group_locked bi cmds now
             gm_room_session_command_plan_clear c)))"
      by (simp_all add: gm_room_session_plan_scenario_command_group_locked_def d_def)
    then show ?thesis using STEP_DEVICE_COMMAND_GROUP assms(2,3) sc view ok
      by (simp add: step_plan_pending_def gm_room_session_plan_scenario_command_group_locked_def
          current_step_data_def step_def)
  qed (use run assms(4) in \<open>auto simp: step_error_def step_event_wait_def case_prod_beta
        split: if_splits prod.splits\<close>)
qed

lemma execute_step_next:
  assumes "execute_step now bi res step c = Step_Next c'"
  shows "v_current_step_index (s_view (c_ses c')) = v_current_step_index (s_view (c_ses c)) + 1"
    and "s_running_scenario (c_ses c') = s_running_scenario (c_ses c)"
proof -
  show "s_running_scenario (c_ses c') = s_running_scenario (c_ses c)"
    using local_execute_step [OF local_refl, of 0 c now bi res step] assms
    by (simp add: local_to_def ses_kept_def)
  show "v_current_step_index (s_view (c_ses c')) = v_current_step_index (s_view (c_ses c)) + 1"
  proof (cases "st_enabled step")
    case True
    note run = assms [unfolded execute_step_def Let_def, simplified True]
    show ?thesis
    proof (cases "st_data step")
      case (STEP_SET_FLAG f)
      obtain e d where d: "scenario_set_flag_locked (fl_name f) (fl_value f) c = (e, d)" by force
      then show ?thesis using run set_flagD [OF d]
        by (auto simp: STEP_SET_FLAG step_error_def pass_step_def advance_step_def split: if_splits)
    next
      case (STEP_WAIT_FLAGS w)
      then show ?thesis using run
        by (auto simp: step_error_def pass_step_def advance_step_def scenario_enter_wait_flags_locked_def
            scenario_set_wait_skip_from_step_locked_def split: if_splits)
    next
      case (STEP_SHOW_OPERATOR_MESSAGE m)
      then show ?thesis using run by (auto simp: pass_step_def advance_step_def)
    qed (use run in \<open>auto simp: step_error_def step_event_wait_def split: if_splits prod.splits\<close>)
  qed (use assms in \<open>auto simp: execute_step_def\<close>)
qed

lemma execute_steps_plan:
  assumes "execute_steps n now en bi res c = (err, plan, c')"
    and "unat en \<le> length (sc_steps (s_running_scenario (c_ses c)))"
    and "p_kind plan \<noteq> COMMAND_PLAN_NONE"
  shows "err = ESP_OK \<and> p_branch_index plan = bi \<and> p_command_index plan = 0 \<and>
    step_plan_pending plan (c_ses c')"
  using assms
proof (induction n arbitrary: c)
  case (Suc n)
  let ?i = "v_current_step_index (s_view (c_ses c))"
  let ?step = "sc_steps (s_running_scenario (c_ses c)) ! unat ?i"
  have lt: "\<not> en \<le> ?i" using Suc.prems(1,3) by (auto simp: Let_def)
  then have i: "unat ?i < length (sc_steps (s_running_scenario (c_ses c)))"
    using Suc.prems(2) by (simp add: word_less_nat_alt not_le)
  show ?case
  proof (cases "execute_step now bi res ?step c")
    case (Step_Next c1)
    then show ?thesis
      using Suc.IH [of c1] Suc.prems lt execute_step_next [OF Step_Next] by (simp add: Let_def)
  next
    case (Step_Return err1 plan1 c1)
    with Suc.prems(1) lt have "err1 = err" "plan1 = plan" "c1 = c'" by (simp_all add: Let_def)
    then show ?thesis using execute_step_plan [OF _ _ i, of now bi res] Step_Return Suc.prems(3) by simp
  qed
qed simp

section \<open>Plans of a branch\<close>

text \<open>Branch \<open>i\<close> waits for the dispatch of \<open>plan\<close>.\<close>

definition branch_session :: "nat \<Rightarrow> gm_room_session \<Rightarrow> gm_room_session" where
  "branch_session i s = s\<lparr>s_view := mirror_copy (b_view (s_branch_runtimes s ! i))\<rparr>"

definition plan_pending_at :: "nat \<Rightarrow> command_plan \<Rightarrow> gm_room_session \<Rightarrow> bool" where
  "plan_pending_at i plan s \<longleftrightarrow> i < length (s_branch_runtimes s) \<and> b_active (s_branch_runtimes s ! i) \<and>
     p_branch_index plan = of_nat i \<and> step_plan_pending plan (branch_session i s)"

lemma pending_cong:
  assumes "step_plan_pending plan s" and "s_running_scenario t = s_running_scenario s"
    and "s_room_id t = s_room_id s" and "s_view t = mirror_copy (s_view s)"
  shows "step_plan_pending plan t"
  using assms
  by (simp add: step_plan_pending_def current_step_data_def scenario_waiting_for_command_dispatch_def
      mirror_copy_def GM_ROOM_SESSION_DISPATCH_PENDING_ID_def ROOM_SCENARIO_EVENT_TYPE_MAX_LEN_def)

lemma pending_at_cong:
  assumes "plan_pending_at i plan s" and "s_branch_runtimes t = s_branch_runtimes s"
    and "s_running_scenario t = s_running_scenario s" and "s_room_id t = s_room_id s"
  shows "plan_pending_at i plan t"
  using assms pending_cong [of plan "branch_session i s" "branch_session i t"]
  by (auto simp: plan_pending_at_def branch_session_def)

lemma pending_at_state: "plan_pending_at i plan s \<Longrightarrow>
    v_scenario_state (b_view (s_branch_runtimes s ! i)) = GM_ROOM_SCENARIO_WAITING"
  by (simp add: plan_pending_at_def step_plan_pending_def branch_session_def
      scenario_waiting_for_command_dispatch_def)

definition runnable_branch :: "nat \<Rightarrow> room_ctx \<Rightarrow> bool" where
  "runnable_branch i c \<longleftrightarrow> i < length (cbranches c) \<and> i < ROOM_SCENARIO_MAX_BRANCHES \<and>
     b_active (get_branch c i) \<and> b_branch_index (get_branch c i) = of_nat i \<and>
     length (sc_steps (s_running_scenario (c_ses c))) \<le> ROOM_SCENARIO_MAX_STEPS"

lemma ucast_of_nat_u8: "ucast (of_nat i :: u16) = (of_nat i :: u8)"
  by transfer (simp add: take_bit_take_bit)

lemma run_loadedE:
  assumes "run_loaded_branch i now n en r c = (err, plan, c')"
  obtains c1 where "execute_scenario_locked now n en (ucast (b_branch_index (get_branch c i)))
      (resolution_arg r) (gm_room_session_scenario_branch_load_into_session i c) = (err, plan, c1)"
    and "c' = gm_room_session_scenario_branch_save_from_session i c1"
    and "get_branch c1 i = get_branch c i" and "length (cbranches c1) = length (cbranches c)"
    and "s_running_scenario (c_ses c1) = s_running_scenario (c_ses c)"
proof -
  define d where "d = gm_room_session_scenario_branch_load_into_session i c"
  obtain c1 where ex: "execute_scenario_locked now n en (ucast (b_branch_index (get_branch c i)))
      (resolution_arg r) d = (err, plan, c1)"
    and c': "c' = gm_room_session_scenario_branch_save_from_session i c1"
    using assms by (auto simp: run_loaded_branch_def d_def split: prod.splits)
  have "local_to (Suc i) d c1"
    using local_execute_steps [OF local_refl [of "Suc i" d]] ex
    by (simp add: execute_scenario_locked_def Let_def) (metis snd_conv)
  then have "get_branch c1 i = get_branch c i" "length (cbranches c1) = length (cbranches c)"
    "s_running_scenario (c_ses c1) = s_running_scenario (c_ses c)"
    using scenario_of_core [OF load_frame(7) [of i c]] by (simp_all add: local_to_def ses_kept_def d_def)
  with ex c' that show thesis by (simp add: d_def)
qed

lemma run_loaded_plan:
  assumes run: "run_loaded_branch i now n en r c = (err, plan, c')"
    and ok: "runnable_branch i c" and p: "p_kind plan \<noteq> COMMAND_PLAN_NONE"
  shows "err = ESP_OK \<and> p_command_index plan = 0 \<and> plan_pending_at i plan (c_ses c')"
proof -
  obtain c1 where ex: "execute_scenario_locked now n en (ucast (b_branch_index (get_branch c i)))
      (resolution_arg r) (gm_room_session_scenario_branch_load_into_session i c) = (err, plan, c1)"
    and c': "c' = gm_room_session_scenario_branch_save_from_session i c1"
    and b: "get_branch c1 i = get_branch c i" "length (cbranches c1) = length (cbranches c)"
    using run by (rule run_loadedE)
  have bi: "ucast (b_branch_index (get_branch c i)) = (of_nat i :: u8)"
    using ok by (simp add: runnable_branch_def ucast_of_nat_u8)
  have pend: "err = ESP_OK \<and> p_branch_index plan = of_nat i \<and> p_command_index plan = 0 \<and>
      step_plan_pending plan (c_ses c1)"
    using ex ok p scenario_of_core [OF load_frame(7) [of i c]]
    by (intro execute_steps_plan [of n now _ _ "resolution_arg r"
            "gm_room_session_scenario_branch_load_into_session i c"])
      (auto simp: execute_scenario_locked_def Let_def bi runnable_branch_def
        ROOM_SCENARIO_MAX_STEPS_def unat_of_nat)
  show ?thesis
    using pend ok b pending_cong [of plan "c_ses c1" "branch_session i (c_ses c')"]
      scenario_of_core [OF save_frame(6) [of i c1]]
    by (simp add: plan_pending_at_def branch_session_def runnable_branch_def c' flip: get_branch_def)
qed

lemma run_loaded_runnable:
  "run_loaded_branch i now n en r c = (err, plan, c') \<Longrightarrow> runnable_branch i c \<Longrightarrow> runnable_branch i c'"
proof (erule run_loadedE)
  fix c1 assume "runnable_branch i c" "c' = gm_room_session_scenario_branch_save_from_session i c1"
    "get_branch c1 i = get_branch c i" "length (cbranches c1) = length (cbranches c)"
    "s_running_scenario (c_ses c1) = s_running_scenario (c_ses c)"
  then show "runnable_branch i c'"
    using scenario_of_core [OF save_frame(6) [of i c1]] by (simp add: runnable_branch_def)
qed

lemma pending_at_summary:
  "plan_pending_at i plan (c_ses c) \<Longrightarrow> plan_pending_at i plan (c_ses (summary_if u c))"
  using scenario_of_core [OF summary_frame(6) [of c]]
  by (auto simp: summary_if_def intro: pending_at_cong)

lemma runnable_rearm:
  assumes "runnable_branch i c"
  shows "runnable_branch i (gm_room_session_scenario_branch_load_into_session i
    (rearm_legacy_reactive i now (upd_branch i count_legacy_fire c)))"
proof -
  let ?d = "gm_room_session_scenario_branch_load_into_session i
    (rearm_legacy_reactive i now (upd_branch i count_legacy_fire c))"
  have "ses_core (c_ses ?d) = ses_core (c_ses c)" by (simp add: rearm_legacy_reactive_def)
  from scenario_of_core [OF this] assms show ?thesis
    by (simp add: runnable_branch_def rearm_legacy_reactive_def count_legacy_fire_def
        set_branch_state_def)
qed

lemma branch_core_plan:
  assumes ex: "execute_branch_core_locked i now n u out c = (err, plan, c')"
    and ok: "runnable_branch i c" and v2: "\<not> gm_room_session_branch_is_reactive_v2 (c_ses c) (get_branch c i)"
    and p: "p_kind plan \<noteq> COMMAND_PLAN_NONE"
  shows "err = ESP_OK \<and> p_command_index plan = 0 \<and> plan_pending_at i plan (c_ses c')"
proof -
  have act: "b_active (get_branch c i)" using ok by (simp add: runnable_branch_def)
  obtain r where r: "prepare_wait_resolution_locked i c = Inr r"
    using ex act v2 p by (auto simp: execute_branch_core_locked_def split: sum.splits)
  define en where "en = scenario_branch_end_index (get_branch c i) (s_running_scenario (c_ses c))"
  obtain err1 plan1 c1 where run: "run_loaded_branch i now n en r c = (err1, plan1, c1)"
    by (metis prod_cases3)
  note first = run_loaded_plan [OF run ok]
  show ?thesis
  proof (cases "p_kind plan1 = COMMAND_PLAN_NONE")
    case False
    then have "v_scenario_state (b_view (get_branch c1 i)) \<noteq> GM_ROOM_SCENARIO_DONE"
      using first pending_at_state [of i plan1 "c_ses c1"] by (auto simp: get_branch_def)
    then have "(err, plan, c') = (err1, plan1, summary_if u c1)"
      using ex act v2 r run by (simp add: execute_branch_core_locked_def en_def Let_def)
    then show ?thesis using first False pending_at_summary by simp
  next
    case True
    have ok1: "runnable_branch i c1" by (rule run_loaded_runnable [OF run ok])
    define c4 where "c4 = gm_room_session_scenario_branch_load_into_session i
      (rearm_legacy_reactive i now (upd_branch i count_legacy_fire c1))"
    obtain r' plan2 c5 where "run_loaded_branch i now n en r' c4 = (err, plan, c5)" "c' = summary_if u c5"
      using ex act v2 r run True p
      by (auto simp: execute_branch_core_locked_def en_def [symmetric] c4_def [symmetric] Let_def
          split: if_splits sum.splits prod.splits)
    then show ?thesis using run_loaded_plan [OF _ runnable_rearm [OF ok1]] p pending_at_summary
      by (simp add: c4_def)
  qed
qed

section \<open>Resolving a pending plan\<close>

lemma pending_matches:
  assumes "plan_pending_at i plan (c_ses c)"
  shows "planned_command_session_matches_locked i plan c =
    (True, gm_room_session_scenario_branch_save_from_session i
             (gm_room_session_scenario_branch_load_into_session i c))"
proof -
  have pend: "step_plan_pending plan (branch_session i (c_ses c))" "b_active (get_branch c i)"
    using assms by (simp_all add: plan_pending_at_def get_branch_def)
  then have "p_kind plan = COMMAND_PLAN_SCENARIO_STEP \<or> p_kind plan = COMMAND_PLAN_SCENARIO_STEP_GROUP"
    by (auto simp: step_plan_pending_def split: step_data.splits)
  with pend show ?thesis
    by (auto simp: planned_command_session_matches_locked_def Let_def step_plan_pending_def
        branch_session_def get_branch_def)
qed

lemma pending_index: "plan_pending_at i plan s \<Longrightarrow> i < ROOM_SCENARIO_MAX_BRANCHES \<Longrightarrow>
    unat (p_branch_index plan) = i \<and> i < length (s_branch_runtimes s)"
  by (simp add: plan_pending_at_def unat_of_nat ROOM_SCENARIO_MAX_BRANCHES_def)

text \<open>Loading and saving the branch again leaves its plan pending.\<close>

lemma pending_at_resave:
  assumes "plan_pending_at i plan (c_ses c)"
  defines "d \<equiv> gm_room_session_scenario_branch_save_from_session i
    (gm_room_session_scenario_branch_load_into_session i c)"
  shows "plan_pending_at i plan (c_ses d)"
    and "current_step_data (branch_session i (c_ses d)) = current_step_data (branch_session i (c_ses c))"
proof -
  have "ses_core (c_ses d) = ses_core (c_ses c)" by (simp add: d_def)
  note sc = scenario_of_core [OF this]
  have i: "i < length (cbranches c)" using assms(1) by (simp add: plan_pending_at_def)
  show "plan_pending_at i plan (c_ses d)"
    using assms(1) sc i pending_cong [of plan "branch_session i (c_ses c)" "branch_session i (c_ses d)"]
    by (simp add: plan_pending_at_def branch_session_def d_def flip: get_branch_def)
  show "current_step_data (branch_session i (c_ses d)) = current_step_data (branch_session i (c_ses c))"
    using sc i by (simp add: current_step_data_def branch_session_def d_def flip: get_branch_def)
qed

lemma next_command_pending:
  assumes "plan_pending_at i plan (c_ses c)" and "s_running_scenario_valid (c_ses c)"
    and "i < ROOM_SCENARIO_MAX_BRANCHES"
  shows "\<exists>c'. next_command_body plan c =
      (Inr (step_commands (current_step_data (branch_session i (c_ses c))) ! unat (p_command_index plan),
            Suc (unat (p_command_index plan)) <
              length (step_commands (current_step_data (branch_session i (c_ses c))))), c') \<and>
    plan_pending_at i plan (c_ses c')"
proof -
  let ?l = "gm_room_session_scenario_branch_load_into_session i"
  let ?s = "gm_room_session_scenario_branch_save_from_session i"
  let ?c2 = "?l (?s (?l c))"
  note i = pending_index [OF assms(1,3)]
  have core: "ses_core (c_ses ?c2) = ses_core (c_ses c)" by simp
  have data: "step_plan_pending plan (c_ses ?c2)"
    "current_step_data (c_ses ?c2) = current_step_data (branch_session i (c_ses c))"
    using assms(1) i scenario_of_core [OF core]
    by (simp_all add: plan_pending_at_def step_plan_pending_def current_step_data_def
        branch_session_def flip: get_branch_def)
  then show ?thesis
    using i assms pending_matches [OF assms(1)] pending_resolves [OF data(1)]
      pending_at_resave(1) [OF pending_at_resave(1) [OF assms(1)]]
    by (simp add: next_command_body_def plan_branch_ok_def Let_def)
qed

section \<open>Applying the outcome of a dispatch\<close>

lemma dispatch_more:
  assumes "plan_pending_at i plan (c_ses c)" and "s_running_scenario_valid (c_ses c)"
    and "i < ROOM_SCENARIO_MAX_BRANCHES" and "\<not> dr_result_required dispatch"
    and "Suc (unat (p_command_index plan)) <
      length (step_commands (current_step_data (branch_session i (c_ses c))))"
  shows "\<exists>c'. apply_dispatch_body plan dispatch True now c =
      (ESP_OK, plan\<lparr>p_command_index := p_command_index plan + 1\<rparr>, c') \<and>
    plan_pending_at i (plan\<lparr>p_command_index := p_command_index plan + 1\<rparr>) (c_ses c') \<and>
    current_step_data (branch_session i (c_ses c')) = current_step_data (branch_session i (c_ses c))"
proof -
  let ?plan = "plan\<lparr>p_command_index := p_command_index plan + 1\<rparr>"
  note i = pending_index [OF assms(1,3)]
  have pend: "step_plan_pending plan (branch_session i (c_ses c))"
    using assms(1) by (simp add: plan_pending_at_def)
  then have "unat (p_command_index plan) < 4"
    by (simp add: step_plan_pending_def ROOM_SCENARIO_COMMAND_GROUP_MAX_COMMANDS_def)
  then have "unat (p_command_index plan + 1) = Suc (unat (p_command_index plan))"
    by (intro unat_Suc_u8) simp
  then have p: "plan_pending_at i ?plan (c_ses c)"
    using assms(1,5) by (auto simp: plan_pending_at_def step_plan_pending_def split: step_data.splits)
  note r1 = pending_at_resave [OF p]
  note r2 = pending_at_resave [OF r1(1)]
  show ?thesis
    using i assms pending_matches [OF assms(1)] r2 r1
    by (simp add: apply_dispatch_body_def plan_branch_ok_def Let_def)
qed

lemma dispatch_result_wait:
  assumes "plan_pending_at i plan (c_ses c)" and "s_running_scenario_valid (c_ses c)"
    and "i < ROOM_SCENARIO_MAX_BRANCHES" and "dr_result_required d"
    and "p_kind plan = COMMAND_PLAN_SCENARIO_STEP"
  obtains c' where "apply_dispatch_body plan d hm now c = (ESP_OK, gm_room_session_command_plan_clear, c')"
    and "length (cbranches c') = length (cbranches c)"
    and "\<And>j. j \<noteq> i \<Longrightarrow> get_branch c' j = get_branch c j"
    and "b_active (get_branch c' i)"
    and "v_scenario_state (b_view (get_branch c' i)) = GM_ROOM_SCENARIO_WAITING"
    and "v_wait_type (b_view (get_branch c' i)) = WAIT_DEVICE_COMMAND_RESULT"
    and "v_wait_event_type (b_view (get_branch c' i)) =
      quest_str_copy ROOM_SCENARIO_EVENT_TYPE_MAX_LEN (dr_request_id d)"
    and "v_wait_source_id (b_view (get_branch c' i)) =
      quest_str_copy ROOM_SCENARIO_EVENT_SOURCE_ID_MAX_LEN (dr_source_id d)"
proof -
  let ?l = "gm_room_session_scenario_branch_load_into_session i"
  let ?s = "gm_room_session_scenario_branch_save_from_session i"
  define c1 where "c1 = scenario_enter_wait_command_result_locked d now (?l (?s (?l c)))"
  define c' where "c' = gm_room_session_scenario_update_summary_from_branches_locked (?s c1)"
  note i = pending_index [OF assms(1,3)]
  have act: "b_active (get_branch c i)" using assms(1) by (simp add: plan_pending_at_def get_branch_def)
  have b1: "get_branch c1 j = get_branch (?s (?l c)) j" "length (cbranches c1) = length (cbranches c)" for j
    by (simp_all add: c1_def get_branch_def)
  have "apply_dispatch_body plan d hm now c = (ESP_OK, gm_room_session_command_plan_clear, c')"
    using i assms pending_matches [OF assms(1)]
    by (simp add: apply_dispatch_body_def plan_branch_ok_def Let_def c'_def c1_def)
  moreover have "get_branch c' j = get_branch c j" if "j \<noteq> i" for j
    using that b1 by (simp add: c'_def)
  moreover have "get_branch c' i = (get_branch c i)\<lparr>b_view := mirror_copy (s_view (c_ses c1))\<rparr>"
    using i b1 by (simp add: c'_def)
  ultimately show thesis
    using that [of c'] act b1 assms(4)
    by (simp add: c'_def c1_def scenario_enter_wait_command_result_locked_def mirror_copy_def)
qed

section \<open>Properties\<close>

text \<open>
  C4: every plan the interpreter returns can be carried out.  If running a normal branch
  returns a plan, the call succeeded, the branch waits for the dispatch, and asking the plan for
  its command yields the first command of the branch's current step, with the flag telling
  whether more commands of a group follow.
\<close>

theorem returned_plan_resolves:
  assumes "gm_room_session_execute_branch_locked i now budget out c = (err, plan, c')"
    and "runnable_branch i c" and "s_running_scenario_valid (c_ses c)"
    and "\<not> gm_room_session_branch_is_reactive_v2 (c_ses c) (get_branch c i)"
    and "gm_room_session_command_plan_present plan"
  shows "err = ESP_OK \<and> p_branch_index plan = of_nat i \<and>
    fst (next_command_body plan c') =
      (let cmds = step_commands (current_step_data (branch_session i (c_ses c')))
       in Inr (cmds ! 0, 1 < length cmds))"
proof -
  have ex: "err = ESP_OK \<and> p_command_index plan = 0 \<and> plan_pending_at i plan (c_ses c')"
    using branch_core_plan assms by (simp add: gm_room_session_execute_branch_locked_def)
  have "local_to i c c'"
    using local_execute_branch_locked [OF local_refl, of i c now budget out] assms(1) by simp
  then have "s_running_scenario_valid (c_ses c')" using assms(3) by (simp add: local_to_def ses_kept_def)
  moreover have "i < ROOM_SCENARIO_MAX_BRANCHES" using assms(2) by (simp add: runnable_branch_def)
  ultimately show ?thesis
    using ex next_command_pending [of i plan c'] by (auto simp: Let_def plan_pending_at_def)
qed

text \<open>A branch with one step of two commands, before and after it is run.\<close>

definition group_ctx :: room_ctx where
  "group_ctx = demo_ctx (demo_scenario
     [STEP_DEVICE_COMMAND_GROUP [demo_command ''on'', demo_command ''off'']] []) prepared_scenario_zero"

definition group_run :: "esp_err \<times> command_plan \<times> room_ctx" where
  "group_run = gm_room_session_execute_branch_locked 0 100 8 gm_room_session_command_plan_clear group_ctx"

theorem returned_plan_resolves_witness:
  "fst (next_command_body (fst (snd group_run)) (snd (snd group_run))) = Inr (demo_command ''on'', True)"
proof -
  have r: "gm_room_session_execute_branch_locked 0 100 8 gm_room_session_command_plan_clear group_ctx =
      (fst group_run, fst (snd group_run), snd (snd group_run))"
    by (simp add: group_run_def)
  have h: "runnable_branch 0 group_ctx" "s_running_scenario_valid (c_ses group_ctx)"
    "\<not> gm_room_session_branch_is_reactive_v2 (c_ses group_ctx) (get_branch group_ctx 0)"
    "gm_room_session_command_plan_present (fst (snd group_run))"
    "step_commands (current_step_data (branch_session 0 (c_ses (snd (snd group_run))))) =
       [demo_command ''on'', demo_command ''off'']"
    by code_simp+
  show ?thesis using returned_plan_resolves [OF r h(1-4)] by (simp add: h(5))
qed

text \<open>
  C5: the commands of a group are sent in order, each exactly once.  While a branch waits for
  the dispatch of its step, a dispatched command that needs no result and has a successor moves
  the plan to exactly the next command of the step, and the branch keeps waiting.
\<close>

theorem group_commands_in_order:
  assumes "plan_pending_at i plan (c_ses c)" and "s_running_scenario_valid (c_ses c)"
    and "i < ROOM_SCENARIO_MAX_BRANCHES" and "\<not> dr_result_required dispatch"
    and "fst (next_command_body plan c) = Inr (cmd, True)"
  shows "\<exists>plan' c'. apply_dispatch_body plan dispatch True now c = (ESP_OK, plan', c') \<and>
    plan_pending_at i plan' (c_ses c') \<and>
    (let cmds = step_commands (current_step_data (branch_session i (c_ses c)));
         n = unat (p_command_index plan)
     in cmd = cmds ! n \<and>
        fst (next_command_body plan' c') = Inr (cmds ! Suc n, Suc (Suc n) < length cmds))"
proof -
  let ?cmds = "step_commands (current_step_data (branch_session i (c_ses c)))"
  let ?n = "unat (p_command_index plan)"
  have nc: "cmd = ?cmds ! ?n" "Suc ?n < length ?cmds"
    using next_command_pending [OF assms(1-3)] assms(5) by auto
  obtain c' where c': "apply_dispatch_body plan dispatch True now c =
      (ESP_OK, plan\<lparr>p_command_index := p_command_index plan + 1\<rparr>, c')"
    "plan_pending_at i (plan\<lparr>p_command_index := p_command_index plan + 1\<rparr>) (c_ses c')"
    "current_step_data (branch_session i (c_ses c')) = current_step_data (branch_session i (c_ses c))"
    using dispatch_more [OF assms(1-4) nc(2)] by blast
  have "?n < 4" using assms(1)
    by (simp add: plan_pending_at_def step_plan_pending_def ROOM_SCENARIO_COMMAND_GROUP_MAX_COMMANDS_def)
  then have n: "unat (p_command_index plan + 1) = Suc ?n" by (intro unat_Suc_u8) simp
  have "s_running_scenario_valid (c_ses c')"
    using local_apply_dispatch [of plan c dispatch True now] c'(1) assms(2)
    by (simp add: local_to_def ses_kept_def)
  then show ?thesis
    using c' nc n next_command_pending [OF c'(2) _ assms(3)] by (auto simp: Let_def)
qed

definition demo_dispatch :: "bool \<Rightarrow> command_dispatch_result" where
  "demo_dispatch required = \<lparr>dr_result_required = required, dr_timeout_ms = 500,
     dr_request_id = ''req-1'', dr_source_id = ''relay'', dr_command = ''on''\<rparr>"

theorem group_commands_in_order_witness:
  "\<exists>plan' c'. apply_dispatch_body (fst (snd group_run)) (demo_dispatch False) True 110 (snd (snd group_run))
      = (ESP_OK, plan', c') \<and> plan_pending_at 0 plan' (c_ses c') \<and>
    fst (next_command_body plan' c') = Inr (demo_command ''off'', False)"
proof -
  let ?p = "fst (snd group_run)" and ?c = "snd (snd group_run)"
  have h: "plan_pending_at 0 ?p (c_ses ?c)" "s_running_scenario_valid (c_ses ?c)"
    "0 < ROOM_SCENARIO_MAX_BRANCHES" "\<not> dr_result_required (demo_dispatch False)"
    "fst (next_command_body ?p ?c) = Inr (demo_command ''on'', True)"
    "p_command_index ?p = 0"
    "step_commands (current_step_data (branch_session 0 (c_ses ?c))) =
       [demo_command ''on'', demo_command ''off'']"
    by code_simp+
  show ?thesis using group_commands_in_order [OF h(1-5), of 110] by (simp add: h(6,7) Let_def)
qed

text \<open>
  A stale plan does no harm.  When the branch no longer waits for the dispatch the plan
  stands for (it was stopped, has advanced, or waits for something else), reporting the outcome
  of the dispatch succeeds, clears the plan and leaves every branch exactly as it was, whatever
  the outcome.
\<close>

theorem stale_plan_is_dropped:
  assumes "i = unat (p_branch_index plan)"
    and "mirror_copy (b_view (get_branch c i)) = b_view (get_branch c i)"
    and "\<not> scenario_waiting_for_command_dispatch (b_view (get_branch c i)) \<or>
      p_kind plan \<in> {COMMAND_PLAN_SCENARIO_STEP, COMMAND_PLAN_SCENARIO_STEP_GROUP} \<and>
        v_current_step_index (b_view (get_branch c i)) \<noteq> p_expected_step_index plan \<or>
      p_kind plan \<in> {COMMAND_PLAN_REACTIVE_ACTION, COMMAND_PLAN_REACTIVE_ACTION_GROUP} \<and>
        b_reactive_current_action (get_branch c i) \<noteq> p_expected_reactive_action plan"
  shows "\<exists>c'. apply_dispatch_body plan dispatch has_more now c =
      (ESP_OK, gm_room_session_command_plan_clear, c') \<and> cbranches c' = cbranches c \<and>
    c_glob c' = c_glob c"
proof (cases "plan_branch_ok (c_ses c) plan \<and> b_active (get_branch c i)")
  case True
  let ?c1 = "gm_room_session_scenario_branch_save_from_session i
    (gm_room_session_scenario_branch_load_into_session i c)"
  have i: "i < length (cbranches c)" using True assms(1) by (simp add: plan_branch_ok_def)
  have "planned_command_session_matches_locked i plan c = (False, ?c1)"
    using assms(2,3) True by (auto simp: planned_command_session_matches_locked_def Let_def)
  moreover have "cbranches ?c1 = cbranches c"
    using assms(2) i
    by (simp add: gm_room_session_scenario_branch_save_from_session_def upd_branch_view_upd_branch
        branch_simps get_branch_def)
  ultimately show ?thesis using True assms(1) by (simp add: apply_dispatch_body_def Let_def)
next
  case False
  then show ?thesis
    using assms(1) by (auto simp: apply_dispatch_body_def planned_command_session_matches_locked_def Let_def)
qed

theorem stale_plan_is_dropped_witness:
  "\<exists>c'. apply_dispatch_body (fst (snd group_run)) (demo_dispatch True) True 110 group_ctx =
      (ESP_OK, gm_room_session_command_plan_clear, c') \<and> cbranches c' = cbranches group_ctx"
proof -
  have h: "0 = unat (p_branch_index (fst (snd group_run)))"
    "mirror_copy (b_view (get_branch group_ctx 0)) = b_view (get_branch group_ctx 0)"
    "\<not> scenario_waiting_for_command_dispatch (b_view (get_branch group_ctx 0))"
    by code_simp+
  show ?thesis using stale_plan_is_dropped [OF h(1,2) disjI1 [OF h(3)]] by blast
qed

text \<open>
  C6: the result of a dispatched command finds its branch.  Once a command that needs a result
  has been dispatched under a request id that fits the wait buffer and that no other branch waits
  for, the result event for that id from the command's source is delivered to exactly the branch
  that sent the command.
\<close>

theorem dispatched_result_reaches_branch:
  assumes "plan_pending_at i plan (c_ses c)" and "s_running_scenario_valid (c_ses c)"
    and "i < ROOM_SCENARIO_MAX_BRANCHES" and "dr_result_required d"
    and "p_kind plan = COMMAND_PLAN_SCENARIO_STEP"
    and "dr_request_id d \<noteq> []" and "length (dr_request_id d) < ROOM_SCENARIO_EVENT_TYPE_MAX_LEN"
    and "length (dr_source_id d) < ROOM_SCENARIO_EVENT_SOURCE_ID_MAX_LEN"
    and "\<forall>j < length (cbranches c). v_wait_event_type (b_view (get_branch c j)) \<noteq> dr_request_id d"
    and "scenehub_event_is_device_control_result message"
    and "dc_action_id (ev_control message) = dr_request_id d"
    and "match_field (dr_source_id d) (scenehub_event_source_id message)"
  shows "\<exists>c'. apply_dispatch_body plan d has_more now c =
      (ESP_OK, gm_room_session_command_plan_clear, c') \<and>
    command_result_wait_branch_index (c_ses c') message = Some i"
proof -
  obtain c' where c': "apply_dispatch_body plan d has_more now c =
      (ESP_OK, gm_room_session_command_plan_clear, c')"
    and len: "length (cbranches c') = length (cbranches c)"
    and oth: "\<And>j. j \<noteq> i \<Longrightarrow> get_branch c' j = get_branch c j"
    and b: "b_active (get_branch c' i)"
      "v_scenario_state (b_view (get_branch c' i)) = GM_ROOM_SCENARIO_WAITING"
      "v_wait_type (b_view (get_branch c' i)) = WAIT_DEVICE_COMMAND_RESULT"
      "v_wait_event_type (b_view (get_branch c' i)) =
        quest_str_copy ROOM_SCENARIO_EVENT_TYPE_MAX_LEN (dr_request_id d)"
      "v_wait_source_id (b_view (get_branch c' i)) =
        quest_str_copy ROOM_SCENARIO_EVENT_SOURCE_ID_MAX_LEN (dr_source_id d)"
    using dispatch_result_wait [OF assms(1-5)] by blast
  have i: "i < length (cbranches c')" using pending_index [OF assms(1,3)] len by simp
  have "command_result_wait_branch_index (c_ses c') message = Some i"
    unfolding command_result_wait_branch_index_def using assms(6-12) i b
    by (auto simp: Let_def get_branch_def [symmetric] intro!: find_index_eqI)
      (use assms(3) oth len in \<open>auto simp: get_branch_def\<close>)
  with c' show ?thesis by blast
qed

definition command_run :: "esp_err \<times> command_plan \<times> room_ctx" where
  "command_run = gm_room_session_execute_branch_locked 0 100 8 gm_room_session_command_plan_clear
     (demo_ctx (demo_scenario [STEP_DEVICE_COMMAND (demo_command ''on''),
        STEP_SHOW_OPERATOR_MESSAGE ''lamp is on''] []) prepared_scenario_zero)"

definition demo_result :: "string \<Rightarrow> scenehub_event" where
  "demo_result status = projr (scenehub_event_make_device_control_result ''relay'' ''req-1'' status 0)"

theorem dispatched_result_reaches_branch_witness:
  "\<exists>c'. apply_dispatch_body (fst (snd command_run)) (demo_dispatch True) False 110 (snd (snd command_run))
      = (ESP_OK, gm_room_session_command_plan_clear, c') \<and>
    command_result_wait_branch_index (c_ses c') (demo_result ''done'') = Some 0"
proof -
  let ?p = "fst (snd command_run)" and ?c = "snd (snd command_run)" and ?d = "demo_dispatch True"
  have h: "plan_pending_at 0 ?p (c_ses ?c)" "s_running_scenario_valid (c_ses ?c)"
    "0 < ROOM_SCENARIO_MAX_BRANCHES" "dr_result_required ?d"
    "p_kind ?p = COMMAND_PLAN_SCENARIO_STEP" "dr_request_id ?d \<noteq> []"
    "length (dr_request_id ?d) < ROOM_SCENARIO_EVENT_TYPE_MAX_LEN"
    "length (dr_source_id ?d) < ROOM_SCENARIO_EVENT_SOURCE_ID_MAX_LEN"
    "\<forall>j < length (cbranches ?c). v_wait_event_type (b_view (get_branch ?c j)) \<noteq> dr_request_id ?d"
    "scenehub_event_is_device_control_result (demo_result ''done'')"
    "dc_action_id (ev_control (demo_result ''done'')) = dr_request_id ?d"
    "match_field (dr_source_id ?d) (scenehub_event_source_id (demo_result ''done''))"
    by code_simp+
  show ?thesis using dispatched_result_reaches_branch [OF h] by blast
qed

end
