(* ===== verification/Gm_Event_Props.thy ===== *)
theory Gm_Event_Props
  imports Gm_Plans
begin

text \<open>
  What an event does to the branches of a session: the result of a command reaches one branch
  only and its status decides what happens there; a wait for several events ends exactly when
  each has been seen.
\<close>

section \<open>One branch at a time\<close>

lemma event_single:
  "snd (snd (snd (event_branches cre cf [im] msg now (m, p, c)))) =
     (let r = event_branch cre cf im msg now (m, p, c)
      in if fst r then snd (snd (snd r))
         else gm_room_session_scenario_update_summary_from_branches_locked (snd (snd (snd r))))"
  by (cases "event_branch cre cf im msg now (m, p, c)") auto

lemma result_target:
  assumes "command_result_wait_branch_index s msg = Some i"
  shows "scenehub_event_is_device_control_result msg" and "i < length (s_branch_runtimes s)"
    and "b_active (s_branch_runtimes s ! i)"
    and "v_scenario_state (b_view (s_branch_runtimes s ! i)) = GM_ROOM_SCENARIO_WAITING"
    and "v_wait_type (b_view (s_branch_runtimes s ! i)) = WAIT_DEVICE_COMMAND_RESULT"
  using assms
  by (auto simp: command_result_wait_branch_index_def Let_def split: if_splits dest!: find_index_SomeD)

text \<open>
  The result of a command changes at most one branch.  A result event leaves the session
  untouched when no branch waits for its request; otherwise every branch but the one that waits
  for it is unchanged, and the session keeps its room, its scenario, its prepared events and the
  agreement of its state with its timer.
\<close>

theorem result_event_touches_one_branch:
  assumes "scenehub_event_is_device_control_result msg"
    and "event_session msg now (m, plan, c) = (stop, m', plan', c')"
  shows "case command_result_wait_branch_index (c_ses c) msg of
      None \<Rightarrow> (m', plan', c') = (m, plan, c)
    | Some i \<Rightarrow> local_to i c c'"
proof (cases "command_result_wait_branch_index (c_ses c) msg")
  case None
  then show ?thesis using assms by (auto simp: event_session_def split: if_splits)
next
  case (Some i)
  have "local_to i c (snd (snd (snd (event_branch cre cf (i, False, False) msg now (m, plan, c)))))"
    for cre cf by (rule local_event_branch [OF local_refl])
  then have "local_to i c (snd (snd (snd (event_branches True False [(i, False, False)] msg now (m, plan, c)))))"
    by (auto simp: event_single Let_def simp del: event_branches.simps intro!: local_summary)
  then show ?thesis
    using Some assms by (auto simp: event_session_def local_refl split: if_splits)
qed

text \<open>A branch that waits for the result of its command, for the witnesses.\<close>

definition awaiting_ctx :: room_ctx where
  "awaiting_ctx = upd_branch_view 0
     (\<lambda>v. v\<lparr>v_scenario_state := GM_ROOM_SCENARIO_WAITING, v_wait_type := WAIT_DEVICE_COMMAND_RESULT,
        v_wait_until_ms := 610, v_wait_event_type := ''req-1'', v_wait_source_id := ''relay''\<rparr>)
     (demo_ctx (demo_scenario [STEP_DEVICE_COMMAND (demo_command ''on'')] []) prepared_scenario_zero)"

lemma awaiting_facts:
  "command_result_wait_branch_index (c_ses awaiting_ctx) (demo_result ''done'') = Some 0"
  "command_result_wait_branch_index (c_ses awaiting_ctx) (demo_result ''accepted'') = Some 0"
  "command_result_wait_branch_index (c_ses awaiting_ctx) (demo_result ''failed'') = Some 0"
  "scenehub_event_is_device_control_result (demo_result ''done'')"
  "mirror_copy (b_view (get_branch awaiting_ctx 0)) = b_view (get_branch awaiting_ctx 0)"
  "s_in_use (c_ses awaiting_ctx)" "s_running_scenario_valid (c_ses awaiting_ctx)"
  by code_simp+

theorem result_event_touches_one_branch_witness:
  "local_to 0 awaiting_ctx (snd (snd (snd (event_session (demo_result ''done'') 120
     (False, gm_room_session_command_plan_clear, awaiting_ctx)))))"
  using result_event_touches_one_branch [OF awaiting_facts(4), of 120 False
      gm_room_session_command_plan_clear awaiting_ctx]
  by (cases "event_session (demo_result ''done'') 120
        (False, gm_room_session_command_plan_clear, awaiting_ctx)") (simp add: awaiting_facts)

section \<open>The status of a result\<close>

lemma resave_branches:
  assumes "mirror_copy (b_view (get_branch c i)) = b_view (get_branch c i)"
  shows "cbranches (gm_room_session_scenario_branch_save_from_session i
    (gm_room_session_scenario_branch_load_into_session i c)) = cbranches c"
  using assms
  by (cases "i < length (cbranches c)")
    (simp_all add: gm_room_session_scenario_branch_save_from_session_def upd_branch_view_upd_branch
      branch_simps get_branch_def list_update_beyond)

text \<open>The handling of a result event for the branch that waits for it.\<close>

lemma result_event_branch:
  assumes "command_result_wait_branch_index (c_ses c) msg = Some i"
  shows "event_branch True False (i, False, False) msg now (m, plan, c) =
    (let d = gm_room_session_scenario_branch_load_into_session i c
     in if wait_event_match_index (s_view (c_ses d)) msg = None
        then (False, m, plan, gm_room_session_scenario_branch_save_from_session i d)
        else event_matched_wait i msg now (m, plan, d))"
  using result_target [OF assms] by (auto simp: event_branch_def waits_for_event_def get_branch_def Let_def)

lemma result_event_session:
  assumes "command_result_wait_branch_index (c_ses c) msg = Some i"
    and "s_in_use (c_ses c)" and "s_running_scenario_valid (c_ses c)"
  shows "event_session msg now (m, plan, c) =
    event_branches True False [(i, False, False)] msg now (m, plan, c)"
  using assms result_target(1) [OF assms(1)] by (simp add: event_session_def)

text \<open>
  A result with a pending status changes nothing.  A result event that says the
  command is accepted or still running leaves every branch of the session exactly as it was, the
  waiting one included, and starts no command.
\<close>

theorem pending_result_keeps_waiting:
  assumes "command_result_wait_branch_index (c_ses c) msg = Some i"
    and "command_result_is_pending msg"
    and "mirror_copy (b_view (get_branch c i)) = b_view (get_branch c i)"
    and "event_session msg now (m, plan, c) = (stop, m', plan', c')"
  shows "cbranches c' = cbranches c \<and> plan' = plan \<and> \<not> stop"
proof (cases "s_in_use (c_ses c) \<and> s_running_scenario_valid (c_ses c)")
  case True
  let ?d = "gm_room_session_scenario_branch_load_into_session i c"
  have "event_branch True False (i, False, False) msg now (m, plan, c) =
      (False, m \<or> wait_event_match_index (s_view (c_ses ?d)) msg \<noteq> None, plan,
       gm_room_session_scenario_branch_save_from_session i ?d)"
    using result_target(5) [OF assms(1)] assms(2)
    by (auto simp: result_event_branch [OF assms(1)] event_matched_wait_def Let_def get_branch_def)
  then show ?thesis
    using assms(3,4) True resave_branches [of c i]
    by (auto simp: result_event_session [OF assms(1)])
qed (use assms(4) in \<open>auto simp: event_session_def\<close>)

theorem pending_result_keeps_waiting_witness:
  "cbranches (snd (snd (snd (event_session (demo_result ''accepted'') 120
     (False, gm_room_session_command_plan_clear, awaiting_ctx))))) = cbranches awaiting_ctx"
proof -
  have p: "command_result_is_pending (demo_result ''accepted'')" by code_simp
  show ?thesis
    using pending_result_keeps_waiting [OF awaiting_facts(2) p awaiting_facts(5), of 120 False
        gm_room_session_command_plan_clear]
    by (cases "event_session (demo_result ''accepted'') 120
        (False, gm_room_session_command_plan_clear, awaiting_ctx)") simp
qed

text \<open>
  A failed command fails its branch.  A result event with a failure status that matches
  the wait of a normal branch puts exactly this branch into the error state with no wait left,
  records the error text in the session and starts no further command.
\<close>

theorem failed_result_fails_branch:
  assumes "command_result_wait_branch_index (c_ses c) msg = Some i"
    and "command_result_is_failure msg" and "\<not> command_result_is_pending msg"
    and "s_in_use (c_ses c)" and "s_running_scenario_valid (c_ses c)"
    and "\<not> gm_room_session_branch_is_reactive_v2 (c_ses c) (get_branch c i)"
    and "wait_event_match_index (mirror_copy (b_view (get_branch c i))) msg \<noteq> None"
    and "event_session msg now (m, plan, c) = (stop, m', plan', c')"
  shows "v_scenario_state (b_view (get_branch c' i)) = GM_ROOM_SCENARIO_ERROR \<and>
    v_wait_type (b_view (get_branch c' i)) = WAIT_NONE \<and>
    (\<forall>j. j \<noteq> i \<longrightarrow> get_branch c' j = get_branch c j) \<and>
    s_scenario_last_error (c_ses c') = ''device_command_result_failed'' \<and> m' \<and> plan' = plan"
proof -
  let ?d = "gm_room_session_scenario_branch_load_into_session i c"
  define e where "e = gm_room_session_scenario_branch_save_from_session i
    (scenario_set_error_locked ''device_command_result_failed'' ?d)"
  have i: "i < length (cbranches c)" by (rule result_target(2) [OF assms(1)])
  have v2: "gm_room_session_branch_is_reactive_v2 (c_ses ?d) (get_branch c i) =
      gm_room_session_branch_is_reactive_v2 (c_ses c) (get_branch c i)"
    using scenario_of_core [OF load_frame(7) [of i c]]
    by (simp add: gm_room_session_branch_is_reactive_v2_def reactive_v2_model_branch_def)
  have "event_branch True False (i, False, False) msg now (m, plan, c) = (False, True, plan, e)"
    using result_target(5) [OF assms(1)] assms(2,3,6,7) v2
    by (auto simp: result_event_branch [OF assms(1)] event_matched_wait_def Let_def get_branch_def e_def)
  then have c': "c' = gm_room_session_scenario_update_summary_from_branches_locked e \<and> m' \<and> plan' = plan"
    using assms(8) by (auto simp: result_event_session [OF assms(1,4,5)])
  have st: "v_scenario_state (s_view (c_ses e)) = GM_ROOM_SCENARIO_ERROR"
    by (simp add: e_def)
  have err: "s_scenario_last_error (c_ses e) = ''device_command_result_failed''"
    by (simp add: e_def gm_room_session_scenario_branch_save_from_session_def upd_branch_view_upd_branch)
  have "gm_room_session_scenario_update_summary_from_branches_locked e = e"
    using st by (simp add: gm_room_session_scenario_update_summary_from_branches_locked_def Let_def)
  with c' i err show ?thesis by (auto simp: e_def)
qed

theorem failed_result_fails_branch_witness:
  "v_scenario_state (b_view (get_branch (snd (snd (snd (event_session (demo_result ''failed'') 120
     (False, gm_room_session_command_plan_clear, awaiting_ctx))))) 0)) = GM_ROOM_SCENARIO_ERROR"
proof -
  have h: "command_result_is_failure (demo_result ''failed'')"
    "\<not> command_result_is_pending (demo_result ''failed'')"
    "\<not> gm_room_session_branch_is_reactive_v2 (c_ses awaiting_ctx) (get_branch awaiting_ctx 0)"
    "wait_event_match_index (mirror_copy (b_view (get_branch awaiting_ctx 0))) (demo_result ''failed'') \<noteq> None"
    by code_simp+
  show ?thesis
    using failed_result_fails_branch [OF awaiting_facts(3) h(1,2) awaiting_facts(6,7) h(3,4), of 120 False
        gm_room_session_command_plan_clear]
    by (cases "event_session (demo_result ''failed'') 120
        (False, gm_room_session_command_plan_clear, awaiting_ctx)") simp
qed

section \<open>Waiting for all of several events\<close>

lemma mark_matched_nth:
  "j < length (v_wait_event_matched v) \<Longrightarrow>
   v_wait_event_matched (mark_matched_events msg v) ! j =
     (v_wait_event_matched v ! j \<or> j < length (v_wait_events v) \<and>
        j < ROOM_SCENARIO_WAIT_EVENT_GROUP_MAX_EVENTS \<and>
        gm_room_session_wait_event_matches_message (v_wait_events v ! j) msg)"
  by (simp add: mark_matched_events_def nth_enumerate_eq)

lemma mark_matched_frame [simp]:
  "length (v_wait_event_matched (mark_matched_events msg v)) = length (v_wait_event_matched v)"
  "v_wait_events (mark_matched_events msg v) = v_wait_events v"
  "v_scenario_state (mark_matched_events msg v) = v_scenario_state v"
  "v_wait_type (mark_matched_events msg v) = v_wait_type v"
  "v_current_step_index (mark_matched_events msg v) = v_current_step_index v"
  by (simp_all add: mark_matched_events_def)

lemma wait_all_met_iff:
  assumes "length (v_wait_event_matched v) = length (v_wait_events v)" and "v_wait_events v \<noteq> []"
    and "length (v_wait_events v) \<le> ROOM_SCENARIO_WAIT_EVENT_GROUP_MAX_EVENTS"
  shows "wait_all_device_events_met v \<longleftrightarrow> (\<forall>j < length (v_wait_events v). v_wait_event_matched v ! j)"
  using assms by (auto simp: wait_all_device_events_met_def list_all_length)

text \<open>
  A wait for all of several events ends exactly when each of them has been seen.  An event
  that matches such a wait is recorded at every position it matches.  If afterwards every
  position has been seen the branch advances; otherwise it stays in the same wait at the same
  step with the seen positions recorded, and no command is started.
\<close>

theorem wait_all_advances_when_all_seen:
  fixes msg :: scenehub_event
  assumes "v_wait_type v = WAIT_ALL_DEVICE_EVENTS" and "v = s_view (c_ses c)"
    and "length (v_wait_event_matched v) = length (v_wait_events v)" and "v_wait_events v \<noteq> []"
    and "length (v_wait_events v) \<le> ROOM_SCENARIO_WAIT_EVENT_GROUP_MAX_EVENTS"
    and "i < length (cbranches c)"
  defines "seen \<equiv> \<lambda>j. v_wait_event_matched v ! j \<or>
      gm_room_session_wait_event_matches_message (v_wait_events v ! j) msg"
  shows "if \<forall>j < length (v_wait_events v). seen j
    then \<exists>d. s_view (c_ses d) = mark_matched_events msg v \<and> cbranches d = cbranches c \<and>
           event_matched_wait i msg now (m, plan, c) = event_advance_branch i now plan d
    else \<exists>d. event_matched_wait i msg now (m, plan, c) = (False, True, plan, d) \<and>
           v_scenario_state (b_view (get_branch d i)) = v_scenario_state v \<and>
           v_wait_type (b_view (get_branch d i)) = WAIT_ALL_DEVICE_EVENTS \<and>
           v_current_step_index (b_view (get_branch d i)) = v_current_step_index v \<and>
           (\<forall>j < length (v_wait_events v). v_wait_event_matched (b_view (get_branch d i)) ! j = seen j)"
proof -
  define d where "d = gm_room_session_mark_session_changed_locked (upd_view (mark_matched_events msg) c)"
  have view: "s_view (c_ses d) = mark_matched_events msg v" and br: "cbranches d = cbranches c"
    by (simp_all add: d_def assms(2))
  have nth: "v_wait_event_matched (mark_matched_events msg v) ! j = seen j"
    if "j < length (v_wait_events v)" for j
    using that assms(3,5) mark_matched_nth [of j v msg] by (auto simp: seen_def)
  have met: "wait_all_device_events_met (s_view (c_ses d)) \<longleftrightarrow> (\<forall>j < length (v_wait_events v). seen j)"
    using wait_all_met_iff [of "mark_matched_events msg v"] assms(3-5) nth by (simp add: view)
  have ev: "event_matched_wait i msg now (m, plan, c) =
      (if wait_all_device_events_met (s_view (c_ses d)) then event_advance_branch i now plan d
       else (False, True, plan, gm_room_session_scenario_branch_save_from_session i d))"
    using assms(1,2) by (simp add: event_matched_wait_def Let_def d_def)
  show ?thesis
  proof (cases "\<forall>j < length (v_wait_events v). seen j")
    case True
    then show ?thesis using ev met view br by auto
  next
    case False
    define e where "e = gm_room_session_scenario_branch_save_from_session i d"
    have "b_view (get_branch e i) = mirror_copy (mark_matched_events msg v)"
      using assms(6) view br by (simp add: e_def)
    moreover have "event_matched_wait i msg now (m, plan, c) = (False, True, plan, e)"
      unfolding ev met e_def by (simp only: if_not_P [OF False])
    ultimately show ?thesis
      unfolding if_not_P [OF False] using assms(1) nth by (intro exI [of _ e]) simp
  qed
qed

text \<open>A branch that waits for two events, the first of which has been seen.\<close>

definition demo_match :: "string \<Rightarrow> wait_event_match" where
  "demo_match x = wait_event_match_zero\<lparr>wm_event_type := x, wm_source_id := ''panel''\<rparr>"

definition wait_all_ctx :: room_ctx where
  "wait_all_ctx = upd_view (\<lambda>v. v\<lparr>v_scenario_state := GM_ROOM_SCENARIO_WAITING,
       v_wait_type := WAIT_ALL_DEVICE_EVENTS, v_wait_events := [demo_match ''red'', demo_match ''blue''],
       v_wait_event_matched := [True, False]\<rparr>)
     (demo_ctx (demo_scenario [] []) prepared_scenario_zero)"

definition demo_press :: "string \<Rightarrow> scenehub_event" where
  "demo_press x = projr (scenehub_event_make_device_control_event ''panel'' x [] 0)"

theorem wait_all_advances_when_all_seen_witness:
  "\<exists>d. s_view (c_ses d) = mark_matched_events (demo_press ''blue'') (s_view (c_ses wait_all_ctx)) \<and>
     event_matched_wait 0 (demo_press ''blue'') 120 (False, gm_room_session_command_plan_clear, wait_all_ctx) =
       event_advance_branch 0 120 gm_room_session_command_plan_clear d"
proof -
  let ?v = "s_view (c_ses wait_all_ctx)"
  have h: "v_wait_type ?v = WAIT_ALL_DEVICE_EVENTS"
    "length (v_wait_event_matched ?v) = length (v_wait_events ?v)" "v_wait_events ?v \<noteq> []"
    "length (v_wait_events ?v) \<le> ROOM_SCENARIO_WAIT_EVENT_GROUP_MAX_EVENTS"
    "0 < length (cbranches wait_all_ctx)"
    "\<forall>j < length (v_wait_events ?v). v_wait_event_matched ?v ! j \<or>
       gm_room_session_wait_event_matches_message (v_wait_events ?v ! j) (demo_press ''blue'')"
    by code_simp+
  show ?thesis
    using wait_all_advances_when_all_seen [OF h(1) refl h(2-5), of "demo_press ''blue''" 120 False
        gm_room_session_command_plan_clear] h(6) by auto
qed

end
