(* ===== verification/Gm_Cleanup.thy ===== *)
theory Gm_Cleanup
  imports Gm_Plans
begin

text \<open>
  The queue of cancel requests that a lock section collects, and what follows from its size: a
  scenario that is stopped or reset cancels the outstanding command of every branch.
\<close>

section \<open>A bounded queue without duplicates\<close>

locale bounded_pending =
  fixes add :: "'a \<Rightarrow> 's \<Rightarrow> 's" and items :: "'s \<Rightarrow> 'a list" and cap :: nat and ok :: "'a \<Rightarrow> bool"
    and stored :: "'a \<Rightarrow> 'a"
  assumes items_add: "ok x \<Longrightarrow> items (add x s) =
    (if x \<in> set (items s) \<or> length (items s) \<ge> cap then items s else items s @ [stored x])"
    and stored_twice: "stored (stored x) = stored x"
begin

lemma stored_fold:
  "list_all ok xs \<Longrightarrow> \<forall>y \<in> set (items s). stored y = y \<Longrightarrow> \<forall>y \<in> set (items (fold add xs s)). stored y = y"
proof (induction xs arbitrary: s)
  case (Cons x xs)
  then have "\<forall>y \<in> set (items (add x s)). stored y = y" by (auto simp: items_add stored_twice)
  with Cons show ?case by simp
qed simp

lemma set_fold:
  "list_all ok xs \<Longrightarrow> length (items s) + length xs \<le> cap \<Longrightarrow>
   stored ` set (items (fold add xs s)) = stored ` (set (items s) \<union> set xs)"
proof (induction xs arbitrary: s)
  case (Cons x xs)
  then show ?case using Cons.IH [of "add x s"] by (auto simp: items_add image_Un stored_twice insert_absorb)
qed simp

lemma bounded_fold:
  "list_all ok xs \<Longrightarrow> length (items s) \<le> cap \<Longrightarrow> length (items (fold add xs s)) \<le> cap"
  by (induction xs arbitrary: s) (simp_all add: items_add)

lemma fold_empty:
  assumes "list_all ok xs" and "items s = []" and "length xs \<le> cap"
  shows "set (items (fold add xs s)) = stored ` set xs"
proof -
  have "stored ` set (items (fold add xs s)) = set (items (fold add xs s))"
    using stored_fold [OF assms(1), of s] assms(2) by (intro image_cong [where g = "\<lambda>x. x", simplified]) simp_all
  then show ?thesis using set_fold [OF assms(1), of s] assms(2,3) by simp
qed

end

text \<open>A request id as the queue holds it.\<close>

abbreviation queued_request :: "string \<Rightarrow> string" where
  "queued_request \<equiv> quest_str_copy GM_ROOM_SESSION_COMMAND_REQUEST_ID_MAX_LEN"

interpretation cancels: bounded_pending gm_room_session_defer_cancel_request_locked
  g_cancel_request_ids GM_ROOM_SESSION_DEFERRED_CANCEL_MAX "\<lambda>r. r \<noteq> []" queued_request
  by unfold_locales (simp_all add: gm_room_session_defer_cancel_request_locked_def quest_str_copy_def)

section \<open>Clearing every wait of a session\<close>

text \<open>The request a view waits for, if any.\<close>

definition view_requests :: "run_view \<Rightarrow> string list" where
  "view_requests v = (if v_wait_type v = WAIT_DEVICE_COMMAND_RESULT \<and> v_wait_event_type v \<noteq> []
     then [v_wait_event_type v] else [])"

lemma cancel_pending_wait_fold:
  "cancel_pending_wait v g = fold gm_room_session_defer_cancel_request_locked (view_requests v) g"
  by (simp add: cancel_pending_wait_def view_requests_def)

abbreviation branch_requests :: "branch_runtime list \<Rightarrow> string list" where
  "branch_requests bs \<equiv> concat (map (\<lambda>b. view_requests (b_view b)) bs)"

lemma view_requests_length: "length (view_requests v) \<le> 1"
  by (simp add: view_requests_def)

lemma branch_requests_length: "length (branch_requests bs) \<le> length bs"
proof (induction bs)
  case (Cons b bs)
  then show ?case using view_requests_length [of "b_view b"] by simp
qed simp

lemma branch_clear_wait_glob:
  "c_glob (scenario_branch_clear_wait i c) =
     fold gm_room_session_defer_cancel_request_locked (view_requests (b_view (get_branch c i))) (c_glob c)"
  by (simp add: scenario_branch_clear_wait_def upd_branch_view_upd_branch cancel_pending_wait_fold)

lemma clear_waits_other:
  "j \<notin> set is \<Longrightarrow> get_branch (fold scenario_branch_clear_wait is c) j = get_branch c j"
  by (induction "is" arbitrary: c) (auto simp: scenario_branch_clear_wait_def upd_branch_view_upd_branch)

lemma clear_waits_glob:
  "c_glob (fold scenario_branch_clear_wait [0..<n] c) =
     fold gm_room_session_defer_cancel_request_locked
       (branch_requests (map (get_branch c) [0..<n])) (c_glob c)"
  by (induction n) (simp_all add: branch_clear_wait_glob clear_waits_other)

lemma clear_runtimes_glob:
  "c_glob (scenario_clear_branch_runtimes_locked c) =
     fold gm_room_session_defer_cancel_request_locked (branch_requests (cbranches c)) (c_glob c)"
proof -
  have "map (get_branch c) [0..<length (cbranches c)] = cbranches c"
    by (rule nth_equalityI) (simp_all add: get_branch_def)
  then show ?thesis
    using clear_waits_glob [of "length (cbranches c)" c]
    by (simp add: scenario_clear_branch_runtimes_locked_def)
qed

lemma clear_snapshot_glob:
  "c_glob (scenario_clear_running_snapshot_locked c) =
     fold gm_room_session_defer_cancel_request_locked (branch_requests (cbranches c)) (c_glob c)"
  by (simp add: scenario_clear_running_snapshot_locked_def clear_runtimes_glob
      gm_room_session_clear_prepared_scenario_locked_def)

lemma stop_glob:
  "g_cancel_request_ids (c_glob (snd (scenario_stop_body c))) =
     g_cancel_request_ids (fold gm_room_session_defer_cancel_request_locked
       (view_requests (s_view (c_ses c)) @ branch_requests (cbranches c)) (c_glob c))"
  by (simp add: scenario_stop_body_def scenario_clear_flags_locked_def clear_snapshot_glob
      cancel_pending_wait_fold view_requests_def)

lemma forget_glob:
  "g_cancel_request_ids (c_glob (forget_run c)) =
     g_cancel_request_ids (fold gm_room_session_defer_cancel_request_locked
       (view_requests (s_view (c_ses c)) @ branch_requests (cbranches c)) (c_glob c))"
  by (simp add: forget_run_def scenario_clear_flags_locked_def clear_snapshot_glob
      cancel_pending_wait_fold view_requests_def)

lemma requests_nonempty: "list_all (\<lambda>r. r \<noteq> []) (view_requests v @ branch_requests bs)"
  by (auto simp: view_requests_def list_all_iff split: if_splits)

lemma requests_all_queued:
  assumes "length bs \<le> ROOM_SCENARIO_MAX_BRANCHES" and "g_cancel_request_ids g = []"
  shows "set (g_cancel_request_ids (fold gm_room_session_defer_cancel_request_locked
      (view_requests v @ branch_requests bs) g)) = queued_request ` set (view_requests v @ branch_requests bs)"
proof -
  have "length (view_requests v @ branch_requests bs) \<le> GM_ROOM_SESSION_DEFERRED_CANCEL_MAX"
    using assms(1) view_requests_length [of v] branch_requests_length [of bs]
    by (simp add: GM_ROOM_SESSION_DEFERRED_CANCEL_MAX_def)
  then show ?thesis using cancels.fold_empty [OF requests_nonempty assms(2)] by simp
qed

text \<open>What follows the cancels when the lock is released are flag events.\<close>

definition is_cancel :: "gm_effect \<Rightarrow> bool" where
  "is_cancel e \<longleftrightarrow> (\<exists>r. e = Cancel_Command_Request r)"

lemma flush_flag_extends: "\<exists>fs. k_trace (fold flush_flag_event es k) = k_trace k @ fs \<and> \<not> list_ex is_cancel fs"
proof (induction es arbitrary: k)
  case (Cons e es)
  obtain f1 where 1: "k_trace (flush_flag_event e k) = k_trace k @ f1" "\<not> list_ex is_cancel f1"
    by (cases "fl_name e = []"; cases "scenehub_event_make_flag_changed (fl_name e) (fl_value e)")
      (simp_all add: flush_flag_event_def emit_def is_cancel_def)
  obtain f2 where "k_trace (fold flush_flag_event es (flush_flag_event e k)) = k_trace (flush_flag_event e k) @ f2"
    "\<not> list_ex is_cancel f2"
    using Cons.IH by blast
  with 1 show ?case by (intro exI [of _ "f1 @ f2"]) simp
qed simp

lemma unlock_cancels:
  assumes "[] \<notin> set (g_cancel_request_ids (k_glob k))"
  shows "\<exists>fs. k_trace (gm_room_session_sessions_unlock k) =
    k_trace k @ map Cancel_Command_Request (g_cancel_request_ids (k_glob k)) @ fs \<and> \<not> list_ex is_cancel fs"
proof -
  let ?k1 = "k\<lparr>k_glob := (k_glob k)\<lparr>g_cancel_request_ids := [], g_flag_events := []\<rparr>\<rparr>"
  obtain fs where "k_trace (gm_room_session_sessions_unlock k) =
      k_trace (fold flush_cancel (g_cancel_request_ids (k_glob k)) ?k1) @ fs" "\<not> list_ex is_cancel fs"
    using flush_flag_extends [of "g_flag_events (k_glob k)"]
    by (auto simp: gm_room_session_sessions_unlock_def Let_def)
  then show ?thesis by (simp add: flush_cancels_trace [OF assms])
qed

lemma put_ctx_trace [simp]: "k_trace (put_ctx j c k) = k_trace k"
  by (simp add: put_ctx_def)

lemma wake_trace [simp]: "k_trace (gm_room_session_runtime_wake k) = k_trace k"
  by (simp add: gm_room_session_runtime_wake_def split: option.split)

lemma find_session_lock [simp]:
  "find_session_mutable_locked (gm_room_session_sessions_lock k) r = find_session_mutable_locked k r"
  by (simp add: find_session_mutable_locked_def)

lemma stop_body_result:
  "fst (scenario_stop_body c) = ESP_OK" "cbranches (snd (scenario_stop_body c)) = []"
  "\<not> s_running_scenario_valid (c_ses (snd (scenario_stop_body c)))"
proof -
  have core: "ses_core (c_ses (fold scenario_branch_clear_wait is d)) = ses_core (c_ses d)" for "is" d
    by (induction "is" arbitrary: d) (simp_all add: scenario_branch_clear_wait_def upd_branch_view_upd_branch)
  have "ses_core (c_ses (gm_room_session_mark_session_changed_locked d)) = ses_core (c_ses d)" for d by simp
  note mark = scenario_of_core [OF this]
  show "fst (scenario_stop_body c) = ESP_OK" "cbranches (snd (scenario_stop_body c)) = []"
    by (simp_all add: scenario_stop_body_def scenario_clear_running_snapshot_locked_def
        scenario_clear_branch_runtimes_locked_def scenario_clear_flags_locked_def)
  show "\<not> s_running_scenario_valid (c_ses (snd (scenario_stop_body c)))"
    using scenario_of_core [OF core]
    by (simp add: scenario_stop_body_def scenario_clear_running_snapshot_locked_def mark
        scenario_clear_branch_runtimes_locked_def scenario_clear_flags_locked_def
        gm_room_session_clear_prepared_scenario_locked_def)
qed

section \<open>Properties\<close>

text \<open>The requests of a session: of its mirror and of its branches.\<close>

definition session_requests :: "gm_room_session \<Rightarrow> string list" where
  "session_requests s = view_requests (s_view s) @ branch_requests (s_branch_runtimes s)"

text \<open>
  C24: stopping a scenario leaves no command waiting.  In every reachable state, stopping the
  scenario of a room cancels the command requests that the session or one of its branches is waiting
  for (as many characters of them as the queue of deferred cancels stores), and cancels nothing else:
  the queue is large enough for all branches, and whatever else the call emits is not a cancel.
  The session keeps no branch and no running scenario.
\<close>

theorem stop_cancels_outstanding:
  assumes "gm_reachable rooms k" and "find_session_mutable_locked k room = Some j"
  shows "\<exists>k' ids fs. gm_room_session_scenario_stop room k = (ESP_OK, k') \<and>
    k_trace k' = k_trace k @ map Cancel_Command_Request ids @ fs \<and> \<not> list_ex is_cancel fs \<and>
    set ids = queued_request ` set (session_requests (k_sessions k ! j)) \<and>
    s_branch_runtimes (k_sessions k' ! j) = [] \<and> \<not> s_running_scenario_valid (k_sessions k' ! j)"
proof -
  let ?k1 = "gm_room_session_sessions_lock k"
  define c where "c = snd (scenario_stop_body (core_ctx ?k1 j))"
  define k2 where "k2 = put_ctx j c ?k1"
  have ok: "core_ok k" by (rule gm_reachable_ok [OF assms(1)])
  have j: "j < length (k_sessions k)" using find_session_Some [OF assms(2)] by simp
  then have "slot_ok (k_sessions k ! j)" using ok nth_mem by (auto simp: core_ok_def table_ok_def)
  then have ids: "set (g_cancel_request_ids (k_glob k2)) = queued_request ` set (session_requests (k_sessions k ! j))"
    using ok requests_all_queued [of "s_branch_runtimes (k_sessions k ! j)" "k_glob ?k1" "s_view (k_sessions k ! j)"]
    by (simp add: k2_def c_def stop_glob session_requests_def slot_ok_def core_ok_def core_ctx_def)
  have "[] \<notin> set (g_cancel_request_ids (k_glob k2))"
    using requests_nonempty [of "s_view (k_sessions k ! j)" "s_branch_runtimes (k_sessions k ! j)"]
    by (auto simp: ids list_all_iff session_requests_def quest_str_copy_def GM_ROOM_SESSION_COMMAND_REQUEST_ID_MAX_LEN_def)
  from unlock_cancels [OF this] obtain fs where
    tr: "k_trace (gm_room_session_sessions_unlock k2) =
      k_trace k @ map Cancel_Command_Request (g_cancel_request_ids (k_glob k2)) @ fs" "\<not> list_ex is_cancel fs"
    by (auto simp: k2_def)
  have run: "gm_room_session_scenario_stop room k =
      (ESP_OK, gm_room_session_runtime_wake (gm_room_session_sessions_unlock k2))"
    using assms(2) stop_body_result(1)
    by (simp add: gm_room_session_scenario_stop_def with_found_session_def in_session_def
        case_prod_beta wake_if_ok_def Let_def k2_def c_def)
  show ?thesis
    using run tr ids stop_body_result(2,3) j
    by (intro exI [of _ "gm_room_session_runtime_wake (gm_room_session_sessions_unlock k2)"]
        exI [of _ "g_cancel_request_ids (k_glob k2)"] exI [of _ fs]) (simp add: k2_def c_def)
qed

text \<open>A room whose scenario has just handed out a command.\<close>

definition busy_core :: gm_core where
  "busy_core = snd (snd (demo_start (demo_scenario [STEP_DEVICE_COMMAND (demo_command ''on'')] [])
     prepared_scenario_zero))"

lemma busy_core_reachable: "gm_reachable 1 busy_core"
proof -
  have "gm_reachable 1 boot1"
    using reach_init [where rooms = 1 and rnd = "\<lambda>_. 0" and eq = None and rq = None]
    by (simp add: boot1_def core_boot_def)
  then have "gm_reachable 1 (snd (gm_room_session_start ''lab'' 60000 10 boot1))"
    by (rule reach_step) (rule step_start, simp add: QUEST_ROOM_ID_MAX_LEN_def)
  then show ?thesis
    unfolding busy_core_def demo_start_def by (rule reach_step) (rule step_scenario_start)
qed

theorem stop_cancels_outstanding_witness:
  "\<exists>k' ids fs. gm_room_session_scenario_stop ''lab'' busy_core = (ESP_OK, k') \<and>
    k_trace k' = map Cancel_Command_Request ids @ fs \<and>
    set ids = {GM_ROOM_SESSION_DISPATCH_PENDING_ID} \<and> \<not> list_ex is_cancel fs \<and> s_branch_runtimes (k_sessions k' ! 0) = []"
proof -
  have h: "find_session_mutable_locked busy_core ''lab'' = Some 0" "k_trace busy_core = []"
    "queued_request ` set (session_requests (k_sessions busy_core ! 0)) = {GM_ROOM_SESSION_DISPATCH_PENDING_ID}"
    by code_simp+
  show ?thesis using stop_cancels_outstanding [OF busy_core_reachable h(1)] unfolding h(2,3) by auto
qed

end
