(* ===== verification/Gm_Summary.thy ===== *)
theory Gm_Summary
  imports Gm_Plans
begin

text \<open>
  The summary of the branches: when the scenario of a session counts as completed, and which
  branch the session shows.
\<close>

section \<open>What the scan computes\<close>

lemma all_nth_conv: "(\<forall>i \<in> set [0..<length xs]. P (xs ! i)) \<longleftrightarrow> (\<forall>x \<in> set xs. P x)"
  by (auto simp: all_set_conv_all_nth)

lemma ex_nth_conv: "(\<exists>i \<in> set [0..<length xs]. P (xs ! i)) \<longleftrightarrow> (\<exists>x \<in> set xs. P x)"
  using all_nth_conv [of xs "\<lambda>x. \<not> P x"] by auto

definition normal_active :: "branch_runtime \<Rightarrow> bool" where
  "normal_active b \<longleftrightarrow> b_active b \<and> b_type b \<noteq> ROOM_SCENARIO_BRANCH_REACTIVE"

definition required_branch :: "branch_runtime \<Rightarrow> bool" where
  "required_branch b \<longleftrightarrow> normal_active b \<and> b_required_for_completion b"

definition live_branch :: "branch_runtime \<Rightarrow> bool" where
  "live_branch b \<longleftrightarrow> normal_active b \<and>
     v_scenario_state (b_view b) \<in> {GM_ROOM_SCENARIO_RUNNING, GM_ROOM_SCENARIO_WAITING}"

abbreviation branch_done :: "branch_runtime \<Rightarrow> bool" where
  "branch_done b \<equiv> v_scenario_state (b_view b) = GM_ROOM_SCENARIO_DONE"

lemmas branch_class_defs = normal_active_def required_branch_def live_branch_def

definition visit :: "branch_runtime list \<Rightarrow> nat \<Rightarrow> summary_acc \<Rightarrow> summary_acc" where
  "visit bs i a =
     (let b = bs ! i; a1 = summary_note_active bs i b a in
      if \<not> b_active b then a
      else if v_scenario_state (b_view b) = GM_ROOM_SCENARIO_ERROR
      then (if a_reactive_selected a1 = None then a1\<lparr>a_reactive_selected := Some i\<rparr> else a1)
      else summary_note_state i b a1)"

definition scannable :: "branch_runtime \<Rightarrow> bool" where
  "scannable b \<longleftrightarrow> (normal_active b \<longrightarrow> v_scenario_state (b_view b) \<noteq> GM_ROOM_SCENARIO_ERROR)"

lemma scan_visits:
  "\<forall>i \<in> set is. scannable (bs ! i) \<Longrightarrow> summary_scan bs is a = fold (visit bs) is a"
  by (induction "is" arbitrary: a) (auto simp: visit_def scannable_def normal_active_def Let_def)

lemma note_active_fields [simp]:
  "a_any_active (summary_note_active bs i b a)"
  "a_any_required_active (summary_note_active bs i b a) = a_any_required_active a"
  "a_all_required_done (summary_note_active bs i b a) = a_all_required_done a"
  "a_any_running (summary_note_active bs i b a) = a_any_running a"
  "a_selected (summary_note_active bs i b a) = a_selected a"
  "a_reactive_selected (summary_note_active bs i b a) = a_reactive_selected a"
  by (simp_all add: summary_note_active_def Let_def)

lemma visit_fields:
  assumes "scannable (bs ! i)"
  shows "a_any_active (visit bs i a) \<longleftrightarrow> a_any_active a \<or> b_active (bs ! i)"
    and "a_any_required_active (visit bs i a) \<longleftrightarrow> a_any_required_active a \<or> required_branch (bs ! i)"
    and "a_all_required_done (visit bs i a) \<longleftrightarrow>
      a_all_required_done a \<and> (required_branch (bs ! i) \<longrightarrow> branch_done (bs ! i))"
    and "a_any_running a \<or> live_branch (bs ! i) \<Longrightarrow> a_any_running (visit bs i a)"
    and "a_selected (visit bs i a) =
      (if a_selected a = None \<and> live_branch (bs ! i) then Some i else a_selected a)"
  using assms
  by (auto simp: visit_def summary_note_state_def scannable_def branch_class_defs Let_def)

lemma fold_visit_active:
  "\<forall>i \<in> set is. scannable (bs ! i) \<Longrightarrow>
   a_any_active (fold (visit bs) is a) \<longleftrightarrow> a_any_active a \<or> (\<exists>i \<in> set is. b_active (bs ! i))"
  by (induction "is" arbitrary: a) (auto simp: visit_fields)

lemma fold_visit_required:
  "\<forall>i \<in> set is. scannable (bs ! i) \<Longrightarrow>
   a_any_required_active (fold (visit bs) is a) \<longleftrightarrow>
     a_any_required_active a \<or> (\<exists>i \<in> set is. required_branch (bs ! i))"
  by (induction "is" arbitrary: a) (auto simp: visit_fields)

lemma fold_visit_done:
  "\<forall>i \<in> set is. scannable (bs ! i) \<Longrightarrow>
   a_all_required_done (fold (visit bs) is a) \<longleftrightarrow>
     a_all_required_done a \<and> (\<forall>i \<in> set is. required_branch (bs ! i) \<longrightarrow> branch_done (bs ! i))"
  by (induction "is" arbitrary: a) (auto simp: visit_fields)

lemma fold_visit_running:
  "\<forall>i \<in> set is. scannable (bs ! i) \<Longrightarrow> a_any_running a \<or> (\<exists>i \<in> set is. live_branch (bs ! i)) \<Longrightarrow>
   a_any_running (fold (visit bs) is a)"
  by (induction "is" arbitrary: a) (auto simp: visit_fields)

lemma fold_visit_selected:
  "\<forall>i \<in> set is. scannable (bs ! i) \<Longrightarrow> a_selected a = None \<Longrightarrow>
   a_selected (fold (visit bs) is a) = find (\<lambda>i. live_branch (bs ! i)) is"
proof (induction "is" arbitrary: a)
  case (Cons i "is")
  have keep: "a_selected (fold (visit bs) js b) = a_selected b"
    if "a_selected b \<noteq> None" "\<forall>i \<in> set js. scannable (bs ! i)" for js b
    using that by (induction js arbitrary: b) (auto simp: visit_fields)
  show ?case using Cons keep [of "visit bs i a" "is"] by (simp add: visit_fields)
qed simp

section \<open>The scan and its reference\<close>

text \<open>
  What the loop computes, said without a loop: each result of the scan of the first branches is the
  first branch of its kind, or the existence of one.
\<close>

definition failed_branch :: "branch_runtime \<Rightarrow> bool" where
  "failed_branch b \<longleftrightarrow> normal_active b \<and> v_scenario_state (b_view b) = GM_ROOM_SCENARIO_ERROR"

definition busy_branch :: "branch_runtime \<Rightarrow> bool" where
  "busy_branch b \<longleftrightarrow> normal_active b \<and> v_scenario_state (b_view b) \<in>
     {GM_ROOM_SCENARIO_RUNNING, GM_ROOM_SCENARIO_WAITING, GM_ROOM_SCENARIO_COOLDOWN}"

definition shown_reaction :: "branch_runtime \<Rightarrow> bool" where
  "shown_reaction b \<longleftrightarrow> b_active b \<and> b_type b = ROOM_SCENARIO_BRANCH_REACTIVE \<and> v_scenario_state (b_view b) \<in>
     {GM_ROOM_SCENARIO_ERROR, GM_ROOM_SCENARIO_WAITING, GM_ROOM_SCENARIO_RUNNING, GM_ROOM_SCENARIO_COOLDOWN}"

definition otherwise :: "'a option \<Rightarrow> 'a option \<Rightarrow> 'a option" where
  "otherwise x y = (case x of Some a \<Rightarrow> Some a | None \<Rightarrow> y)"

lemma otherwise_simps [simp]: "otherwise None y = y" "otherwise (Some a) y = Some a" "otherwise x None = x"
  by (simp_all add: otherwise_def split: option.split)

definition first_fallback :: "branch_runtime list \<Rightarrow> nat option" where
  "first_fallback bs = otherwise (find_index required_branch bs) (find_index normal_active bs)"

definition scan_result :: "branch_runtime list \<Rightarrow> summary_acc" where
  "scan_result bs = \<lparr>a_fallback = first_fallback bs, a_selected = find_index live_branch bs,
     a_reactive_selected = find_index shown_reaction bs, a_any_active = list_ex b_active bs,
     a_any_required_active = list_ex required_branch bs,
     a_all_required_done = list_all (\<lambda>b. required_branch b \<longrightarrow> branch_done b) bs,
     a_any_running = list_ex busy_branch bs\<rparr>"

lemma find_index_snoc:
  "find_index P (xs @ [x]) = otherwise (find_index P xs) (if P x then Some (length xs) else None)"
  by (induction xs) (auto simp: otherwise_def split: option.split)

lemma not_failed_scannable: "\<not> failed_branch b \<longleftrightarrow> scannable b"
  by (simp add: failed_branch_def scannable_def)

lemma fallback_required:
  assumes "first_fallback (take n bs) = Some f"
  shows "b_required_for_completion (bs ! f) \<longleftrightarrow> find_index required_branch (take n bs) \<noteq> None"
proof (cases "find_index required_branch (take n bs)")
  case None
  then have f: "find_index normal_active (take n bs) = Some f" using assms by (simp add: first_fallback_def)
  then have "f < length (take n bs)" "normal_active (take n bs ! f)" using find_index_SomeD by blast+
  moreover from this have "\<not> required_branch (take n bs ! f)" by (intro find_index_NoneD [OF None] nth_mem)
  ultimately show ?thesis using None by (simp add: required_branch_def)
next
  case (Some i)
  then have "i = f" using assms by (simp add: first_fallback_def)
  with find_index_SomeD [OF Some] have "f < length (take n bs)" "required_branch (take n bs ! f)" by blast+
  then show ?thesis using Some by (simp add: required_branch_def)
qed

lemma visit_fallback:
  assumes "n < length bs"
  shows "a_fallback (summary_note_active bs n (bs ! n) (scan_result (take n bs))) =
    (if b_active (bs ! n) then first_fallback (take n bs @ [bs ! n])
     else a_fallback (summary_note_active bs n (bs ! n) (scan_result (take n bs))))"
proof (cases "b_active (bs ! n)")
  case True
  have none: "find_index required_branch (take n bs) = None" if "first_fallback (take n bs) = None"
    using that by (simp add: first_fallback_def otherwise_def split: option.splits)
  then have none2: "find_index normal_active (take n bs) = None" if "first_fallback (take n bs) = None"
    using that by (simp add: first_fallback_def)
  show ?thesis
    using True assms fallback_required [of n bs] none none2
    by (cases "first_fallback (take n bs)"; cases "find_index required_branch (take n bs)")
      (auto simp: summary_note_active_def scan_result_def Let_def find_index_snoc first_fallback_def
        required_branch_def normal_active_def)
qed simp

lemma visit_scan:
  assumes "n < length bs" and "\<not> failed_branch (bs ! n)"
  shows "visit bs n (scan_result (take n bs)) = scan_result (take (Suc n) bs)"
proof (cases "b_active (bs ! n)")
  case False
  then show ?thesis
    using assms(1)
    by (simp add: visit_def scan_result_def take_Suc_conv_app_nth find_index_snoc first_fallback_def branch_class_defs
        busy_branch_def shown_reaction_def)
next
  case True
  define a where "a = summary_note_active bs n (bs ! n) (scan_result (take n bs))"
  have fb: "a_fallback a = first_fallback (take n bs @ [bs ! n])"
    using visit_fallback [OF assms(1)] True by (simp add: a_def)
  have len: "length (take n bs) = n" using assms(1) by simp
  have r: "a_any_active a" "a_any_required_active a = list_ex required_branch (take n bs)"
    "a_all_required_done a = list_all (\<lambda>b. required_branch b \<longrightarrow> branch_done b) (take n bs)"
    "a_any_running a = list_ex busy_branch (take n bs)" "a_selected a = find_index live_branch (take n bs)"
    "a_reactive_selected a = find_index shown_reaction (take n bs)"
    by (simp_all add: a_def scan_result_def)
  have v: "visit bs n (scan_result (take n bs)) =
      (if v_scenario_state (b_view (bs ! n)) = GM_ROOM_SCENARIO_ERROR
       then (if a_reactive_selected a = None then a\<lparr>a_reactive_selected := Some n\<rparr> else a)
       else summary_note_state n (bs ! n) a)"
    using True by (simp add: visit_def a_def [symmetric] Let_def)
  have t: "take (Suc n) bs = take n bs @ [bs ! n]" using assms(1) by (simp add: take_Suc_conv_app_nth)
  show ?thesis
  proof (cases "b_type (bs ! n) = ROOM_SCENARIO_BRANCH_REACTIVE")
    case reactive: True
    have k: "\<not> normal_active (bs ! n)" using reactive by (simp add: normal_active_def)
    show ?thesis
      unfolding v t using True reactive k fb r len
      by (intro summary_acc.equality)
        (auto simp: scan_result_def summary_note_state_def Let_def find_index_snoc otherwise_def required_branch_def
          live_branch_def busy_branch_def shown_reaction_def split: option.split)
  next
    case normal: False
    have k: "normal_active (bs ! n)" "v_scenario_state (b_view (bs ! n)) \<noteq> GM_ROOM_SCENARIO_ERROR"
      using normal True assms(2) by (simp_all add: normal_active_def failed_branch_def)
    show ?thesis
      unfolding v t using True normal k fb r len
      by (intro summary_acc.equality)
        (auto simp: scan_result_def summary_note_state_def Let_def find_index_snoc otherwise_def required_branch_def
          live_branch_def busy_branch_def shown_reaction_def split: option.split)
  qed
qed

lemma visits_scan:
  "n \<le> length bs \<Longrightarrow> list_all (\<lambda>b. \<not> failed_branch b) (take n bs) \<Longrightarrow> fold (visit bs) [0..<n] summary_init = scan_result (take n bs)"
proof (induction n)
  case 0
  then show ?case by (simp add: scan_result_def summary_init_def first_fallback_def)
next
  case (Suc n)
  then have "\<not> failed_branch (bs ! n)" "list_all (\<lambda>b. \<not> failed_branch b) (take n bs)"
    by (simp_all add: take_Suc_conv_app_nth)
  then show ?case using Suc visit_scan [of n bs] by simp
qed

lemma scan_append:
  "\<forall>i \<in> set is. scannable (bs ! i) \<Longrightarrow> summary_scan bs (is @ js) a = summary_scan bs js (fold (visit bs) is a)"
  by (induction "is" arbitrary: a) (auto simp: visit_def scannable_def normal_active_def Let_def)

text \<open>The branch the session shows, and when it counts as completed.\<close>

definition shown_branch :: "branch_runtime list \<Rightarrow> nat option" where
  "shown_branch bs = otherwise (find_index failed_branch bs) (otherwise (find_index live_branch bs)
     (otherwise (find_index required_branch bs) (otherwise (find_index normal_active bs) (find_index shown_reaction bs))))"

definition scenario_completed :: "branch_runtime list \<Rightarrow> bool" where
  "scenario_completed bs \<longleftrightarrow> (let seen = takeWhile (\<lambda>b. \<not> failed_branch b) bs in
     \<not> list_ex b_active bs \<or>
     list_ex required_branch seen \<and> list_all (\<lambda>b. required_branch b \<longrightarrow> branch_done b) seen \<or>
     \<not> list_ex busy_branch bs \<and> (\<exists>i. shown_branch bs = Some i \<and> branch_done (bs ! i)))"

lemma scan_unfailed:
  assumes "find_index failed_branch bs = None"
  shows "summary_scan bs [0..<length bs] summary_init = scan_result bs" and "takeWhile (\<lambda>b. \<not> failed_branch b) bs = bs"
proof -
  have ok: "list_all (\<lambda>b. \<not> failed_branch b) bs" using find_index_NoneD [OF assms] by (simp add: list_all_iff)
  then have "\<forall>i \<in> set [0..<length bs]. scannable (bs ! i)"
    by (simp add: not_failed_scannable [symmetric] list_all_length)
  then show "summary_scan bs [0..<length bs] summary_init = scan_result bs"
    using visits_scan [of "length bs" bs] ok by (simp add: scan_visits)
  show "takeWhile (\<lambda>b. \<not> failed_branch b) bs = bs" using ok by (simp add: takeWhile_eq_all_conv list_all_iff)
qed

lemma scan_failed:
  assumes "find_index failed_branch bs = Some n"
  shows "summary_scan bs [0..<length bs] summary_init =
      (summary_note_active bs n (bs ! n) (scan_result (take n bs)))\<lparr>a_selected := Some n\<rparr>"
    and "takeWhile (\<lambda>b. \<not> failed_branch b) bs = take n bs"
proof -
  have n: "n < length bs" "failed_branch (bs ! n)" "\<forall>j < n. \<not> failed_branch (bs ! j)"
    using find_index_SomeD [OF assms] by blast+
  then have ok: "list_all (\<lambda>b. \<not> failed_branch b) (take n bs)" by (simp add: list_all_length)
  have "[0..<length bs] = [0..<n] @ n # [Suc n..<length bs]"
    using n(1) by (metis less_imp_le_nat upt_add_eq_append upt_conv_Cons le0 le_add_diff_inverse)
  moreover have "\<forall>i \<in> set [0..<n]. scannable (bs ! i)" using n(3) by (simp add: not_failed_scannable [symmetric])
  ultimately show "summary_scan bs [0..<length bs] summary_init =
      (summary_note_active bs n (bs ! n) (scan_result (take n bs)))\<lparr>a_selected := Some n\<rparr>"
    using n(1,2) visits_scan [of n bs] ok by (simp add: scan_append failed_branch_def normal_active_def)
  show "takeWhile (\<lambda>b. \<not> failed_branch b) bs = take n bs"
    using n by (intro takeWhile_eq_take_P_nth [THEN trans]) auto
qed

section \<open>Properties\<close>

text \<open>
  C25: what the session shows of its branches.  The scan over the branches, which ends at the first
  failed normal branch, selects \<open>shown_branch\<close>: the first failed normal branch, or else the first that
  runs or waits, the first required one, the first normal one, the first reaction at work.  The
  session then shows a copy of that branch, with the state done if \<open>scenario_completed\<close>: no branch is
  active, or there is a required branch before the first failed one and all such are done, or no
  normal branch is busy and the shown branch is done.  A session without branches, or in the error
  state, is left alone.
\<close>

theorem summary_is_reference:
  "gm_room_session_scenario_update_summary_from_branches_locked c =
    (let bs = cbranches c;
         c1 = (case shown_branch bs of None \<Rightarrow> c | Some i \<Rightarrow> gm_room_session_scenario_branch_load_into_session i c)
     in if bs = [] \<or> v_scenario_state (s_view (c_ses c)) = GM_ROOM_SCENARIO_ERROR then c
        else if scenario_completed bs then upd_view (\<lambda>v. v\<lparr>v_scenario_state := GM_ROOM_SCENARIO_DONE\<rparr>) c1
        else c1)"
proof -
  define bs where "bs = cbranches c"
  note run = gm_room_session_scenario_update_summary_from_branches_locked_def [of c, unfolded Let_def, folded bs_def]
  show ?thesis
  proof (cases "find_index failed_branch bs")
    case None
    note sc = scan_unfailed [OF None]
    have p: "summary_pick (scan_result bs) = shown_branch bs"
      by (simp add: summary_pick_def scan_result_def shown_branch_def None first_fallback_def otherwise_def split: option.split)
    have d: "scenario_completed bs \<longleftrightarrow> \<not> a_any_active (scan_result bs) \<or>
        a_any_required_active (scan_result bs) \<and> a_all_required_done (scan_result bs) \<or>
        \<not> a_any_running (scan_result bs) \<and> (case shown_branch bs of None \<Rightarrow> False | Some i \<Rightarrow> branch_done (bs ! i))"
      by (auto simp: scenario_completed_def sc(2) scan_result_def split: option.split)
    show ?thesis
      unfolding run sc(1) p d Let_def bs_def [symmetric] by simp
  next
    case (Some n)
    note sc = scan_failed [OF Some]
    let ?a = "(summary_note_active bs n (bs ! n) (scan_result (take n bs)))\<lparr>a_selected := Some n\<rparr>"
    have n: "n < length bs" "failed_branch (bs ! n)" using find_index_SomeD [OF Some] by blast+
    have sh: "shown_branch bs = Some n" by (simp add: shown_branch_def Some)
    have p: "summary_pick ?a = Some n" by (simp add: summary_pick_def)
    have act: "list_ex b_active bs"
      using n by (auto simp: list_ex_length failed_branch_def normal_active_def)
    have d: "scenario_completed bs \<longleftrightarrow> list_ex required_branch (take n bs) \<and>
        list_all (\<lambda>b. required_branch b \<longrightarrow> branch_done b) (take n bs)"
    proof -
      have "\<not> branch_done (bs ! n)" using n(2) by (simp add: failed_branch_def)
      then show ?thesis unfolding scenario_completed_def Let_def sc(2) sh using act by simp
    qed
    show ?thesis
      unfolding run sc(1) p sh d Let_def bs_def [symmetric] using n(2) by (simp add: scan_result_def failed_branch_def)
  qed
qed

text \<open>
  A scenario is completed exactly when all its required branches are.  For a session in
  which no normal branch has failed and which has at least one active branch required for
  completion, each required branch being running, waiting or done: after the summary the session
  shows the state done if and only if every required branch is done, and otherwise it shows a
  running or waiting normal branch.
\<close>

theorem summary_done_iff_required_done:
  fixes c :: room_ctx
  defines "bs \<equiv> cbranches c"
    and "c' \<equiv> gm_room_session_scenario_update_summary_from_branches_locked c"
  assumes "v_scenario_state (s_view (c_ses c)) \<noteq> GM_ROOM_SCENARIO_ERROR"
    and "\<forall>b \<in> set bs. scannable b" and "\<exists>b \<in> set bs. required_branch b"
    and "\<forall>b \<in> set bs. required_branch b \<longrightarrow> live_branch b \<or> branch_done b"
  shows "if \<forall>b \<in> set bs. required_branch b \<longrightarrow> branch_done b
    then v_scenario_state (s_view (c_ses c')) = GM_ROOM_SCENARIO_DONE
    else \<exists>b \<in> set bs. live_branch b \<and> s_view (c_ses c') = mirror_copy (b_view b)"
proof -
  let ?is = "[0..<length bs]"
  let ?r = "fold (visit bs) ?is summary_init"
  have sc: "\<forall>i \<in> set ?is. scannable (bs ! i)" using assms(4) by simp
  note ex = ex_nth_conv [of bs] all_nth_conv [of bs]
  have act: "a_any_active ?r" and req: "a_any_required_active ?r"
    using assms(5) ex(1) [of required_branch] ex(1) [of b_active]
    by (auto simp: fold_visit_active [OF sc] fold_visit_required [OF sc] branch_class_defs)
  have dn: "a_all_required_done ?r \<longleftrightarrow> (\<forall>b \<in> set bs. required_branch b \<longrightarrow> branch_done b)"
    using ex(2) [of "\<lambda>b. required_branch b \<longrightarrow> branch_done b"]
    by (simp add: fold_visit_done [OF sc] summary_init_def)
  have ne: "bs \<noteq> []" using assms(5) by auto
  note run = gm_room_session_scenario_update_summary_from_branches_locked_def [of c, unfolded Let_def,
      folded bs_def c'_def, unfolded scan_visits [OF sc]]
  show ?thesis
  proof (cases "\<forall>b \<in> set bs. required_branch b \<longrightarrow> branch_done b")
    case True
    then show ?thesis using run ne assms(3) req dn by simp
  next
    case False
    then have live: "\<exists>b \<in> set bs. live_branch b" using assms(6) by auto
    then obtain i where i: "find (\<lambda>i. live_branch (bs ! i)) ?is = Some i"
      using ex(1) [of live_branch] by (cases "find (\<lambda>i. live_branch (bs ! i)) ?is") (auto simp: find_None_iff)
    then have "i < length bs" "live_branch (bs ! i)" by (auto simp: find_Some_iff)
    moreover have "summary_pick ?r = Some i"
      using i fold_visit_selected [OF sc, of summary_init] by (simp add: summary_pick_def summary_init_def)
    moreover have "a_any_running ?r"
      using live ex(1) [of live_branch] by (intro fold_visit_running [OF sc]) simp
    ultimately have "c' = gm_room_session_scenario_branch_load_into_session i c"
      using run ne assms(3) act dn False by auto
    then show ?thesis
      using \<open>i < length bs\<close> \<open>live_branch (bs ! i)\<close> False by (auto simp: bs_def get_branch_def intro: nth_mem)
  qed
qed

definition one_branch_ctx :: room_ctx where
  "one_branch_ctx = demo_ctx (demo_scenario [STEP_DEVICE_COMMAND (demo_command ''on'')] [])
     prepared_scenario_zero"

theorem summary_done_iff_required_done_witness:
  "\<exists>b \<in> set (cbranches one_branch_ctx). live_branch b \<and>
     s_view (c_ses (gm_room_session_scenario_update_summary_from_branches_locked one_branch_ctx)) =
       mirror_copy (b_view b)"
proof -
  have h: "v_scenario_state (s_view (c_ses one_branch_ctx)) \<noteq> GM_ROOM_SCENARIO_ERROR"
    "\<forall>b \<in> set (cbranches one_branch_ctx). scannable b"
    "\<exists>b \<in> set (cbranches one_branch_ctx). required_branch b"
    "\<forall>b \<in> set (cbranches one_branch_ctx). required_branch b \<longrightarrow> live_branch b \<or> branch_done b"
    "\<not> (\<forall>b \<in> set (cbranches one_branch_ctx). required_branch b \<longrightarrow> branch_done b)"
    by code_simp+
  show ?thesis using summary_done_iff_required_done [OF h(1-4)] unfolding if_not_P [OF h(5)] .
qed

end
