(* ===== verification/Gm_Schedule.thy ===== *)
theory Gm_Schedule
  imports Gm_Plans
begin

text \<open>
  Time and queues: the comparison of 32-bit time stamps, the delay of the deadline timer, and
  the routing of events to the two bounded queues of the runtime.
\<close>

section \<open>Time stamps that wrap\<close>

lemma sint_nonneg_iff: "sint (x :: u32) \<ge> 0 \<longleftrightarrow> unat x < 2 ^ 31"
proof -
  have "unat x < 2 * 2 ^ 31" using unsigned_less [of x] by simp
  then have "unat x div 2 ^ 31 < 2" by (simp add: less_mult_imp_div_less)
  then have "odd (unat x div 2 ^ 31) \<longleftrightarrow> unat x div 2 ^ 31 = 1" by (auto simp: less_2_cases_iff)
  then have "bit (unat x) 31 \<longleftrightarrow> unat x \<ge> 2 ^ 31"
    using \<open>unat x div 2 ^ 31 < 2\<close> by (auto simp: bit_iff_odd div_eq_0_iff less_2_cases_iff)
  moreover have "sint x < 0 \<longleftrightarrow> bit (unat x) 31"
    using bit_last_iff [of x] by (simp add: bit_unsigned_iff)
  ultimately show ?thesis by auto
qed

text \<open>
  Comparing time stamps is right across the wrap of the 32-bit millisecond clock.  For a
  start time \<open>s\<close>, a delay and an elapsed time below \<open>2^31\<close> ms (about 24 days), the deadline
  counts as reached exactly when at least the delay has elapsed.
\<close>

theorem time_reached_across_wrap:
  assumes "unat delay < 2 ^ 31" and "unat elapsed < 2 ^ 31"
  shows "scenario_time_reached (s + elapsed) (s + delay) \<longleftrightarrow> delay \<le> elapsed"
proof -
  have "(s + elapsed) - (s + delay) = elapsed - delay" by simp
  moreover have "unat (elapsed - delay) < 2 ^ 31 \<longleftrightarrow> delay \<le> elapsed"
  proof (cases "delay \<le> elapsed")
    case True
    then show ?thesis using assms by (simp add: unat_sub)
  next
    case False
    then have "unat elapsed < unat delay" by (simp add: word_less_nat_alt not_le)
    then have "unat (elapsed - delay) = 2 ^ 32 - (unat delay - unat elapsed)"
      using unat_sub_if' [of elapsed delay] by auto
    then show ?thesis using False assms by simp
  qed
  ultimately show ?thesis by (simp add: scenario_time_reached_def sint_nonneg_iff)
qed

theorem time_reached_across_wrap_witness:
  "scenario_time_reached (4294967290 + 20) (4294967290 + 15) \<and>
   \<not> scenario_time_reached (4294967290 + 10) (4294967290 + 15)"
  using time_reached_across_wrap [of 15 20 4294967290] time_reached_across_wrap [of 15 10 4294967290]
  by simp

section \<open>The deadline timer\<close>

text \<open>The deadlines the timer must respect; zero stands for none.\<close>

definition branch_deadlines :: "branch_runtime \<Rightarrow> u64 list" where
  "branch_deadlines b = (if b_active b
     then [ucast (v_wait_until_ms (b_view b)), ucast (b_cooldown_until_ms b)] else [])"

definition session_deadlines :: "gm_room_session \<Rightarrow> u64 list" where
  "session_deadlines s = (if s_in_use s \<and> s_running_scenario_valid s
     then ucast (v_wait_until_ms (s_view s)) #
       concat (map branch_deadlines (take ROOM_SCENARIO_MAX_BRANCHES (s_branch_runtimes s)))
     else [])"

definition earlier :: "u64 \<Rightarrow> u64 \<Rightarrow> u64" where
  "earlier d next = (if d > 0 \<and> (next = 0 \<or> d < next) then d else next)"

lemma unat_u32_less: "unat (x :: u32) < 4294967296"
  using unsigned_less [of x] by simp

lemma unat_ucast_u64 [simp]: "unat (ucast (d :: u32) :: u64) = unat d"
  by (simp add: unsigned_ucast_eq take_bit_nat_eq_self order_less_trans [OF unsigned_less])

lemma earlier_deadline_eq: "earlier_deadline next d = earlier (ucast d) next"
  by (simp add: earlier_deadline_def earlier_def word_less_nat_alt word_gt_0_no unat_gt_0)

lemma fold_branch_deadline:
  "fold branch_deadline bs n = fold earlier (concat (map branch_deadlines bs)) n"
  by (induction bs arbitrary: n)
    (simp_all add: branch_deadline_def branch_deadlines_def earlier_deadline_eq)

lemma fold_session_deadline:
  "fold session_deadline ss n = fold earlier (concat (map session_deadlines ss)) n"
  by (induction ss arbitrary: n)
    (simp_all add: session_deadline_def session_deadlines_def earlier_deadline_eq fold_branch_deadline)

lemma Min_insert_min:
  "finite S \<Longrightarrow> Min (insert (min a b) S) = Min (insert b (insert a S))" for S :: "u64 set"
  by (cases "S = {}") (simp_all add: Min_insert min.commute min.left_commute min.assoc)

lemma fold_earlier:
  "fold earlier ds n = (let ps = filter (\<lambda>d. d \<noteq> 0) (n # ds) in if ps = [] then 0 else Min (set ps))"
proof (induction ds arbitrary: n)
  case (Cons d ds)
  show ?case
  proof (cases "d = 0 \<or> n = 0")
    case True
    then show ?thesis using Cons.IH [of "earlier d n"] by (auto simp: earlier_def word_gt_0 Let_def)
  next
    case False
    then have "earlier d n = min d n" by (auto simp: earlier_def word_gt_0 min_def)
    moreover have "min d n \<noteq> 0" using False by (simp add: min_def)
    ultimately show ?thesis
      using Cons.IH [of "min d n"] False Min_insert_min [of "{x \<in> set ds. x \<noteq> 0}" d n]
      by (simp add: Let_def)
  qed
qed (simp add: Let_def)

text \<open>
  The deadline timer wakes the runtime for the earliest deadline.  For every state of
  the table, the timer is left stopped exactly when no running session and no pending command
  has a deadline; otherwise its delay is the time from now to the smallest of all deadlines
  (waits and cool-downs of active branches, the session's own wait, the command executor's
  deadline), and one millisecond when that deadline is not in the future.
\<close>

theorem deadline_timer_earliest:
  fixes k :: gm_core
  assumes "unat command_deadline < 2 ^ 54"
  defines "ds \<equiv> filter (\<lambda>d. d \<noteq> 0)
      (command_deadline # concat (map session_deadlines (k_sessions k)))"
  shows "map_option unat (runtime_deadline_delay_us now command_deadline k) =
    (if ds = [] then None
     else Some (if Min (set ds) > ucast now then (unat (Min (set ds)) - unat now) * 1000 else 1000))"
proof (cases "ds = []")
  case True
  then show ?thesis
    by (simp add: runtime_deadline_delay_us_def fold_session_deadline fold_earlier ds_def Let_def)
next
  case False
  define m where "m = Min (set ds)"
  have m: "m \<in> set ds" unfolding m_def using False by (intro Min_in) simp_all
  have small: "unat d < 2 ^ 54" if "d \<in> set ds" for d
  proof -
    have u32: "unat (ucast (x :: u32) :: u64) < 2 ^ 54" for x
      using unat_u32_less [of x] by simp
    show ?thesis
      using that assms(1) u32
      by (auto simp: ds_def session_deadlines_def branch_deadlines_def split: if_splits)
  qed
  have nxt: "fold session_deadline (k_sessions k) command_deadline = m"
    using False by (simp add: fold_session_deadline fold_earlier m_def ds_def Let_def)
  have "m \<noteq> 0" using m by (auto simp: ds_def split: if_splits)
  show ?thesis
  proof (cases "m > ucast now")
    case True
    then have d: "unat (m - ucast now) = unat m - unat now" and lt: "unat now < unat m"
      by (simp_all add: unat_sub_if' word_less_nat_alt)
    have "(unat m - unat now) * 1000 < 2 ^ 64" using small [OF m] by simp
    then have p: "unat ((m - ucast now) * 1000) = (unat m - unat now) * 1000"
      unfolding unat_word_ariths(2) d by simp
    then have "(m - ucast now) * 1000 \<noteq> 0" using lt by (auto simp: unat_eq_0 [symmetric])
    with p True \<open>m \<noteq> 0\<close> False show ?thesis
      by (simp add: runtime_deadline_delay_us_def nxt m_def [symmetric])
  next
    case False
    with \<open>ds \<noteq> []\<close> \<open>m \<noteq> 0\<close> show ?thesis
      by (simp add: runtime_deadline_delay_us_def nxt m_def [symmetric])
  qed
qed

text \<open>One room that waits until 700, with the command executor due at 650.\<close>

definition waiting_core :: gm_core where
  "waiting_core = boot1\<lparr>k_sessions := [gm_room_session_zero\<lparr>s_in_use := True,
     s_running_scenario_valid := True, s_view := run_view_zero\<lparr>v_wait_until_ms := 700\<rparr>\<rparr>]\<rparr>"

theorem deadline_timer_earliest_witness:
  "map_option unat (runtime_deadline_delay_us 600 650 waiting_core) = Some 50000"
proof -
  have ds: "filter (\<lambda>d. d \<noteq> 0) (650 # concat (map session_deadlines (k_sessions waiting_core))) = [650, 700]"
    by code_simp
  show ?thesis using deadline_timer_earliest [of 650 600 waiting_core] unfolding ds by simp
qed

section \<open>Routing events\<close>

lemma queue_send_Some:
  "queue_send cap freed x q = Some q' \<Longrightarrow> length q' \<le> cap \<and> (\<exists>n \<le> freed. q' = drop n q @ [x])"
  by (auto simp: queue_send_def split: if_splits)

lemma queue_send_None: "queue_send cap freed x q = None \<longleftrightarrow>
    length q \<ge> cap \<and> (freed = 0 \<or> length q - freed \<ge> cap)"
  by (auto simp: queue_send_def)

text \<open>
  No event disappears unnoticed.  With the workers running, an incoming event is either
  appended to the end of its queue, critical events to the runtime queue and the others to the
  event queue, after at most the entries the receiver took meanwhile; or its queue was full and
  exactly the matching drop counters go up by one.  The other queue is not touched, and no queue
  grows beyond its capacity.
\<close>

theorem routed_event_accounted:
  fixes freed :: nat
  assumes "k_async_workers_enabled k" and "k_event_queue k = Some eq" and "k_runtime_queue k = Some rq"
    and "length eq \<le> GM_ROOM_SESSION_EVENT_QUEUE_LEN"
    and "length rq \<le> GM_ROOM_SESSION_RUNTIME_QUEUE_LEN"
    and "gm_room_session_event_is_critical msg = crit"
  defines "k' \<equiv> gm_room_session_route_event msg freed k"
  shows "(k_stats k' = k_stats k \<and>
     (if crit then k_event_queue k' = Some eq \<and> (\<exists>n \<le> freed. k_runtime_queue k' =
          Some (drop n rq @ [GM_ROOM_RUNTIME_CAUSE_EVENT msg]) \<and>
          length (drop n rq) < GM_ROOM_SESSION_RUNTIME_QUEUE_LEN)
      else k_runtime_queue k' = Some rq \<and> (\<exists>n \<le> freed. k_event_queue k' = Some (drop n eq @ [msg]) \<and>
          length (drop n eq) < GM_ROOM_SESSION_EVENT_QUEUE_LEN))) \<or>
    (k_event_queue k' = Some eq \<and> k_runtime_queue k' = Some rq \<and>
     k_stats k' = (let s = k_stats k in
       if crit then s\<lparr>es_dropped_critical_events := es_dropped_critical_events s + 1,
                     es_dropped_runtime_queue_events := es_dropped_runtime_queue_events s + 1\<rparr>
       else s\<lparr>es_dropped_noncritical_events := es_dropped_noncritical_events s + 1,
              es_dropped_event_queue_events := es_dropped_event_queue_events s + 1\<rparr>) \<and>
     (if crit then length rq = GM_ROOM_SESSION_RUNTIME_QUEUE_LEN
      else length eq = GM_ROOM_SESSION_EVENT_QUEUE_LEN))"
proof (cases crit)
  case True
  show ?thesis
  proof (cases "queue_send GM_ROOM_SESSION_RUNTIME_QUEUE_LEN freed (GM_ROOM_RUNTIME_CAUSE_EVENT msg) rq")
    case None
    then show ?thesis
      using True assms(1-6) queue_send_None [THEN iffD1, OF None]
      by (simp add: k'_def gm_room_session_route_event_def Let_def
          gm_room_session_runtime_post_event_with_wait_def gm_room_session_record_event_drop_def)
  next
    case (Some q)
    then show ?thesis
      using True assms(1-6) queue_send_Some [OF Some]
      by (auto simp: k'_def gm_room_session_route_event_def
          gm_room_session_runtime_post_event_with_wait_def)
  qed
next
  case False
  show ?thesis
  proof (cases "queue_send GM_ROOM_SESSION_EVENT_QUEUE_LEN freed msg eq")
    case None
    then show ?thesis
      using False assms(1-6) queue_send_None [THEN iffD1, OF None]
      by (simp add: k'_def gm_room_session_route_event_def Let_def
          gm_room_session_record_event_drop_def)
  next
    case (Some q)
    then show ?thesis
      using False assms(1-6) queue_send_Some [OF Some] by (auto simp: k'_def gm_room_session_route_event_def)
  qed
qed

theorem routed_event_accounted_witness:
  "k_runtime_queue (gm_room_session_route_event (demo_result ''done'') 0
     (boot1\<lparr>k_event_queue := Some [], k_runtime_queue := Some []\<rparr>)) =
   Some [GM_ROOM_RUNTIME_CAUSE_EVENT (demo_result ''done'')]"
proof -
  let ?k = "boot1\<lparr>k_event_queue := Some [], k_runtime_queue := Some []\<rparr>"
  have h: "k_async_workers_enabled ?k" "gm_room_session_event_is_critical (demo_result ''done'') = True"
    "GM_ROOM_SESSION_RUNTIME_QUEUE_LEN \<noteq> 0"
    by code_simp+
  show ?thesis
    using routed_event_accounted [of ?k "[]" "[]" "demo_result ''done''" True 0] h by simp
qed

end
