(* ===== verification/Gm_Reactive_Props.thy ===== *)
theory Gm_Reactive_Props
  imports Gm_Plans
begin

text \<open>
  Reactive branches: the choice of a variant stays in range and rotates fairly, and a branch
  never fires more often than its limit.
\<close>

section \<open>Choosing a variant\<close>

lemma u8_mod_less: "0 < (n :: u8) \<Longrightarrow> x mod n < n"
  by (simp add: word_mod_less_divisor)

lemma unat_random_variant:
  "0 < (n :: u8) \<Longrightarrow> unat (ucast ((r :: u32) mod ucast n) :: u8) = unat r mod unat n"
proof -
  assume n: "0 < n"
  have "unat (ucast n :: u32) = unat n"
    by (simp add: unsigned_ucast_eq take_bit_nat_eq_self order_less_trans [OF unat_u8_less])
  moreover have "unat r mod unat n < 256"
    using n less_trans [OF mod_less_divisor [of "unat n" "unat r"] unat_u8_less [of n]]
    by (simp add: unat_gt_0)
  ultimately show ?thesis
    by (simp add: unsigned_ucast_eq unat_mod_distrib take_bit_nat_eq_self)
qed

text \<open>
  The chosen variant exists.  Under every policy, for any cursor, stage and random
  number, the index of the chosen variant is below the number of variants.
\<close>

theorem selected_variant_in_range:
  assumes "br_variant_count model > 0"
  shows "fst (reactive_v2_select_variant model b g) < br_variant_count model"
proof (cases "br_policy_mode model")
  case REACTIVE_POLICY_RANDOM
  then show ?thesis
    using assms unat_random_variant [OF assms, of "g_random g (g_random_pos g)"]
    by (simp add: reactive_v2_select_variant_def word_less_nat_alt unat_gt_0)
next
  case REACTIVE_POLICY_ROTATE
  then show ?thesis using u8_mod_less [OF assms] assms
    by (simp add: reactive_v2_select_variant_def Let_def)
qed (use assms in \<open>auto simp: reactive_v2_select_variant_def Let_def not_le
      word_less_nat_alt unat_gt_0 unat_minus_one\<close>)

definition demo_reaction :: "reactive_policy_mode \<Rightarrow> u8 \<Rightarrow> scenario_branch" where
  "demo_reaction mode n = \<lparr>br_id = ''r'', br_name = ''reaction'', br_type = ROOM_SCENARIO_BRANCH_REACTIVE,
     br_enabled = True, br_required_for_completion = False, br_priority = 0, br_policy_mode = mode,
     br_cooldown_ms = 0, br_max_fire_count = 2, br_run_once = False,
     br_reentry_mode = ROOM_SCENARIO_REENTRY_IGNORE,
     br_trigger = \<lparr>tr_kind = REACTIVE_TRIGGER_OPERATOR_EVENT, tr_device_id = [], tr_event_id = [],
       tr_events = [], tr_flag_name = [], tr_runtime_event = [], tr_operator_event = ''go''\<rparr>,
     br_guard_flags = [], br_result_on_done = REACTIVE_RESULT_CONTINUE,
     br_result_on_fail = REACTIVE_RESULT_FAIL_REACTION,
     br_result_on_timeout = REACTIVE_RESULT_FAIL_REACTION, br_result_flag = [],
     br_variant_start_index = 0, br_variant_count = n, br_on_complete_action_start_index = 0,
     br_on_complete_action_count = 0, br_step_start_index = 0, br_step_count = 0\<rparr>"

text \<open>The variants that successive choices give.\<close>

fun variant_picks :: "nat \<Rightarrow> scenario_branch \<Rightarrow> branch_runtime \<Rightarrow> gm_globals \<Rightarrow> u8 list" where
  "variant_picks 0 model b g = []"
| "variant_picks (Suc n) model b g =
     (let (v, b', g') = reactive_v2_select_variant model b g in v # variant_picks n model b' g')"

lemma rotate_picks:
  assumes "br_policy_mode model = REACTIVE_POLICY_ROTATE" and "br_variant_count model > 0"
    and "b_policy_cursor b < br_variant_count model"
  shows "map unat (variant_picks n model b g) =
    map (\<lambda>i. (unat (b_policy_cursor b) + i) mod unat (br_variant_count model)) [0..<n]"
  using assms(3)
proof (induction n arbitrary: b)
  case (Suc n)
  let ?m = "unat (br_variant_count model)" and ?c = "unat (b_policy_cursor b)"
  let ?b = "b\<lparr>b_policy_cursor := of_nat ((?c + 1) mod ?m)\<rparr>"
  have m: "0 < ?m" "?c < ?m" using assms(2) Suc.prems by (simp_all add: unat_gt_0 word_less_nat_alt)
  then have sel: "reactive_v2_select_variant model b g = (b_policy_cursor b, ?b, g)"
    using assms(1,2) by (auto simp: reactive_v2_select_variant_def Let_def word_arith_nat_mod)
  have cur: "unat (b_policy_cursor ?b) = (?c + 1) mod ?m"
    using less_trans [OF mod_less_divisor [OF m(1), of "?c + 1"] unat_u8_less]
    by (simp add: unat_of_nat)
  then have "b_policy_cursor ?b < br_variant_count model" using m by (simp add: word_less_nat_alt)
  from Suc.IH [OF this] have "map unat (variant_picks n model ?b g) =
      map (\<lambda>i. ((?c + 1) mod ?m + i) mod ?m) [0..<n]" unfolding cur .
  also have "\<dots> = map (\<lambda>i. (?c + Suc i) mod ?m) [0..<n]" by (simp add: mod_add_left_eq)
  finally show ?case unfolding map_upt_Suc using sel m by (simp del: upt_Suc)
qed simp

lemma add_mod_cancel:
  "(c + i) mod m = (c + j) mod m \<Longrightarrow> i < m \<Longrightarrow> j < m \<Longrightarrow> i = (j :: nat)"
proof (induction i j rule: linorder_wlog)
  case (le a b)
  have "(c + b) mod m = (c + a) mod m \<longleftrightarrow> m dvd (c + b) - (c + a)"
    by (rule mod_eq_dvd_iff_nat) (use le in simp)
  with le have "m dvd b - a" by simp
  with le show ?case using dvd_imp_le [of m "b - a"] by (cases "b - a") auto
qed simp

text \<open>
  Rotation is fair.  Under the rotating policy any run of as many choices as there are
  variants chooses every variant exactly once.
\<close>

theorem rotate_visits_every_variant:
  fixes model :: scenario_branch and b :: branch_runtime and g :: gm_globals
  assumes "br_policy_mode model = REACTIVE_POLICY_ROTATE" and "br_variant_count model > 0"
    and "b_policy_cursor b < br_variant_count model"
  defines "picks \<equiv> map unat (variant_picks (unat (br_variant_count model)) model b g)"
  shows "distinct picks \<and> set picks = {0..<unat (br_variant_count model)}"
proof -
  let ?m = "unat (br_variant_count model)" and ?c = "unat (b_policy_cursor b)"
  have m: "0 < ?m" using assms(2) by (simp add: unat_gt_0)
  have p: "picks = map (\<lambda>i. (?c + i) mod ?m) [0..<?m]"
    unfolding picks_def by (rule rotate_picks [OF assms(1-3)])
  have inj: "inj_on (\<lambda>i. (?c + i) mod ?m) {0..<?m}"
    by (rule inj_onI, erule add_mod_cancel) simp_all
  have "(\<lambda>i. (?c + i) mod ?m) ` {0..<?m} \<subseteq> {0..<?m}" using m by auto
  then have "(\<lambda>i. (?c + i) mod ?m) ` {0..<?m} = {0..<?m}"
    using inj by (simp add: endo_inj_surj)
  with inj show ?thesis unfolding p by (simp add: distinct_map)
qed


theorem selected_variant_in_range_witness:
  "fst (reactive_v2_select_variant (demo_reaction REACTIVE_POLICY_RANDOM 3)
     (branch_runtime_zero\<lparr>b_policy_cursor := 200\<rparr>) (c_glob blank_ctx)) < 3"
  using selected_variant_in_range [of "demo_reaction REACTIVE_POLICY_RANDOM 3"]
  by (simp add: demo_reaction_def)

theorem rotate_visits_every_variant_witness:
  "set (map unat (variant_picks 3 (demo_reaction REACTIVE_POLICY_ROTATE 3)
     (branch_runtime_zero\<lparr>b_policy_cursor := 2\<rparr>) (c_glob blank_ctx))) = {0..<3}"
  using rotate_visits_every_variant [of "demo_reaction REACTIVE_POLICY_ROTATE 3"
      "branch_runtime_zero\<lparr>b_policy_cursor := 2\<rparr>" "c_glob blank_ctx"]
  by (simp add: demo_reaction_def)

section \<open>The limit on firings\<close>

text \<open>The branch exists and its firing count is within its limit (0: no limit).\<close>

definition within_limit :: "branch_runtime \<Rightarrow> bool" where
  "within_limit b \<longleftrightarrow> b_max_fire_count b = 0 \<or> b_fire_count b \<le> b_max_fire_count b"

definition limited :: "nat \<Rightarrow> room_ctx \<Rightarrow> bool" where
  "limited i c \<longleftrightarrow> i < length (cbranches c) \<and> within_limit (get_branch c i)"

named_theorems limit_intros \<open>operations that keep a branch within its firing limit\<close>

lemma limited_cong: "cbranches d = cbranches c \<Longrightarrow> limited i c \<Longrightarrow> limited i d"
  by (simp add: limited_def get_branch_def)

lemma limited_upd_branch:
  "limited i c \<Longrightarrow> (\<And>b. within_limit b \<Longrightarrow> within_limit (f b)) \<Longrightarrow> limited i (upd_branch i f c)"
  by (simp add: limited_def)

lemma within_limit_field [limit_intros]:
  "within_limit b \<Longrightarrow> within_limit (b\<lparr>b_view := v\<rparr>)"
  "within_limit b \<Longrightarrow> within_limit (b\<lparr>b_pending_trigger := p\<rparr>)"
  "within_limit b \<Longrightarrow> within_limit (b\<lparr>b_cooldown_until_ms := t\<rparr>)"
  "within_limit b \<Longrightarrow> within_limit (b\<lparr>b_reactive_current_action := k\<rparr>)"
  "within_limit b \<Longrightarrow> within_limit (b\<lparr>b_policy_cursor := k'\<rparr>)"
  "within_limit b \<Longrightarrow> within_limit (b\<lparr>b_policy_stage := k'\<rparr>)"
  "within_limit b \<Longrightarrow> within_limit (set_branch_state st b)"
  "within_limit b \<Longrightarrow> within_limit (next_action b)"
  "within_limit b \<Longrightarrow> within_limit (reset_reaction_range b)"
  "within_limit b \<Longrightarrow> within_limit (reactive_v2_clear_trigger_matches b)"
  by (simp_all add: within_limit_def set_branch_state_def next_action_def reset_reaction_range_def
      reactive_v2_clear_trigger_matches_def)

lemma limited_ops [limit_intros]:
  "limited i c \<Longrightarrow> limited i (gm_room_session_mark_session_changed_locked c)"
  "limited i c \<Longrightarrow> limited i (scenario_set_error_locked m c)"
  "limited i c \<Longrightarrow> limited i (set_operator_message m c)"
  "limited i c \<Longrightarrow> limited i (scenario_enter_wait_command_dispatch_locked now c)"
  "limited i c \<Longrightarrow> limited i (snd (scenario_set_flag_locked n v c))"
  "limited i c \<Longrightarrow> limited i (snd (scenario_enter_wait_flags_locked w now c))"
  "limited i c \<Longrightarrow> limited i (snd (scenario_enter_wait_device_event_locked wd r now c))"
  "limited i c \<Longrightarrow> limited i (snd (enter_wait_event_group ty wg r now c))"
  "limited i c \<Longrightarrow> limited i (snd (reactive_v2_apply_completion_locked model c))"
  "limited i c \<Longrightarrow> limited i (upd_glob g c)"
  by (rule limited_cong; simp)+

lemma limited_branch_ops [limit_intros]:
  "limited i c \<Longrightarrow> limited i (scenario_branch_clear_wait_fields i c)"
  "limited i c \<Longrightarrow> limited i (gm_room_session_scenario_branch_save_from_session i c)"
  by (simp_all add: limited_def within_limit_field)

lemma limited_sndD: "f = (e, d) \<Longrightarrow> limited i (snd f) \<Longrightarrow> limited i d"
  by simp

lemma limited_group [limit_intros]:
  "limited i c \<Longrightarrow> limited i (snd (scenario_enter_wait_any_device_event_locked wg r now c))"
  "limited i c \<Longrightarrow> limited i (snd (scenario_enter_wait_all_device_events_locked wg r now c))"
  by (simp_all add: scenario_enter_wait_any_device_event_locked_def
      scenario_enter_wait_all_device_events_locked_def limited_ops)

lemma limited_fail_reset [limit_intros]:
  "limited i c \<Longrightarrow> limited i (reactive_v2_fail_reaction_locked i m c)"
  "limited i c \<Longrightarrow> limited i (reactive_v2_reset_reaction_locked i c)"
proof -
  show "limited i (reactive_v2_fail_reaction_locked i m c)" if "limited i c"
    using that by (simp add: reactive_v2_fail_reaction_locked_def limited_def within_limit_field)
  show "limited i (reactive_v2_reset_reaction_locked i c)" if "limited i c"
    using that by (simp add: reactive_v2_reset_reaction_locked_def limited_def within_limit_def
        reset_reaction_range_def reactive_v2_clear_trigger_matches_def)
qed

lemma limited_action_step:
  assumes "limited i d"
  shows "limited i (action_outcome_ctx (reactive_action_step i now d))"
proof (cases "reactive_action_index (get_branch d i)
    \<ge> length (sc_reactive_actions (s_running_scenario (c_ses d)))")
  case True
  then show ?thesis using assms
    by (simp add: reactive_action_step_def Let_def reactive_error_def limit_intros)
next
  case False
  note step = reactive_action_step_def [of i now d, unfolded Let_def, simplified False if_False]
  have plan: "limited i (action_outcome_ctx (reactive_plan_action i a m now d))" for a m
    using assms
    by (auto simp: reactive_plan_action_def gm_room_session_plan_reactive_action_command_locked_def
        Let_def reactive_error_def limit_intros split: step_data.splits)
  have wait: "limited i (action_outcome_ctx (reactive_event_wait_action i index enter m1 m2 d))"
    if "\<And>r. limited i (snd (enter r d))" for index enter m1 m2
  proof -
    have "limited i e" if "enter r d = (err, e)" for r err e
      using \<open>\<And>r. limited i (snd (enter r d))\<close> [of r] that by simp
    then show ?thesis using assms
      by (auto simp: reactive_event_wait_action_def reactive_error_def
          split: sum.splits prod.splits intro!: limit_intros)
  qed
  have flags: "limited i e" if "scenario_enter_wait_flags_locked w now d = (err, e)" for w err e
    using that by (rule limited_sndD) (intro limit_intros assms)
  have flag: "limited i e" if "scenario_set_flag_locked n v d = (err, e)" for n v err e
    using that by (rule limited_sndD) (intro limit_intros assms)
  show ?thesis
    by (cases "ra_data (sc_reactive_actions (s_running_scenario (c_ses d)) !
          reactive_action_index (get_branch d i))")
      (auto simp: step plan reactive_error_def upd_branch_view_upd_branch dest!: flags flag
        split: prod.splits intro!: limit_intros limited_upd_branch wait assms)
qed

lemma limited_actions_loop:
  "limited i d \<Longrightarrow> limited i (loop_outcome_ctx (reactive_actions_loop n i now d))"
proof (induction n arbitrary: d)
  case 0
  then show ?case by (simp add: limit_intros)
next
  case (Suc n)
  show ?case using limited_action_step [OF Suc.prems, of now] Suc
    by (auto split: action_outcome.splits)
qed

fun finish_outcome_ctx :: "finish_outcome \<Rightarrow> room_ctx" where
  "finish_outcome_ctx (Finish_Return err c) = c"
| "finish_outcome_ctx (Finish_Refire c) = c"

lemma limited_finish_outcome:
  assumes "limited i d"
  shows "limited i (finish_outcome_ctx (finish_outcome_of i model now d))"
proof -
  obtain err d1 where d1: "reactive_v2_apply_completion_locked model d = (err, d1)" by force
  have "limited i d1" by (rule limited_sndD [OF d1]) (intro limit_intros assms)
  then show ?thesis
    by (auto simp: finish_outcome_of_def Let_def d1 intro!: limit_intros limited_upd_branch
        simp del: upd_branch_upd_branch)
qed

lemma select_variant_counts:
  assumes "reactive_v2_select_variant model b g = (k, b', g')"
  shows "b_fire_count b' = b_fire_count b \<and> b_max_fire_count b' = b_max_fire_count b"
  using assms
  by (auto simp: reactive_v2_select_variant_def Let_def split: if_splits reactive_policy_mode.splits)

lemma u32_Suc_le: "(x :: u32) < y \<Longrightarrow> x + 1 \<le> y"
  by (simp add: inc_le)

lemma limited_fire_outcome:
  assumes "limited i d"
  shows "limited i (fire_outcome_ctx (fire_outcome_of i now d))"
  using assms
  by (auto simp: fire_outcome_of_def Let_def limited_def within_limit_def start_variant_def
      set_branch_state_def reactive_v2_clear_trigger_matches_def not_le u32_Suc_le word_gt_0
      split: option.splits prod.splits dest!: select_variant_counts)

lemma limited_fire:
  "limited i d \<Longrightarrow> limited i (snd (snd (gm_room_session_reactive_v2_fire_locked i now plan d)))"
proof (induction i now plan d rule: gm_room_session_reactive_v2_fire_locked.induct)
  case (1 i now plan d)
  note unf = gm_room_session_reactive_v2_fire_locked.simps [of i now plan d]
  show ?case
  proof (cases "fire_outcome_of i now d")
    case (Fire_Return err e)
    then show ?thesis using limited_fire_outcome [OF "1.prems", of now] by (simp add: unf)
  next
    case (Fire_Run e)
    have e: "limited i e" using limited_fire_outcome [OF "1.prems", of now] by (simp add: Fire_Run)
    note loop = limited_actions_loop [OF e, of GM_REACTIVE_V2_MAX_ACTIONS_PER_TICK now]
    have fin: "limited i (snd (snd (case finish_outcome_of i model now e2 of
          Finish_Return err c3 \<Rightarrow> (err, gm_room_session_command_plan_clear, c3)
        | Finish_Refire c3 \<Rightarrow> gm_room_session_reactive_v2_fire_locked i now
            gm_room_session_command_plan_clear c3)))"
      if "reactive_v2_model_branch (c_ses e) (get_branch e i) = Some model" "b_active (get_branch e i)"
        "reactive_actions_loop GM_REACTIVE_V2_MAX_ACTIONS_PER_TICK i now e = Loop_Finish e2"
      for model e2
      using limited_finish_outcome [of i e2 model now] loop that "1.IH" [OF Fire_Run that(1) _ that(3)]
      by (auto split: finish_outcome.split)
    show ?thesis using e loop fin
      by (auto simp: unf Fire_Run split: option.split loop_outcome.split)
  qed
qed


text \<open>
  A reactive branch stays within its firing limit.  Whatever firing the branch leads to, the
  actions of the variant, the completion actions and the run of a queued trigger included, the
  firing count of the branch does not exceed a limit that was set.
\<close>

theorem firing_limit_kept:
  assumes "i < length (cbranches c)" and "within_limit (get_branch c i)"
  shows "within_limit (get_branch (snd (snd (gm_room_session_reactive_v2_fire_locked i now plan c))) i)"
  using limited_fire [of i c now plan] assms by (simp add: limited_def)

text \<open>
  An exhausted branch refuses.  Firing a branch that has reached its limit returns
  \<open>ESP_ERR_INVALID_STATE\<close> and changes neither the plan nor the room.
\<close>

theorem exhausted_branch_refuses:
  assumes "i < length (cbranches c)" and "b_active (get_branch c i)"
    and "reactive_v2_model_branch (c_ses c) (get_branch c i) = Some model"
    and "br_variant_count model > 0"
    and "unat (br_variant_start_index model) + unat (br_variant_count model)
           \<le> length (sc_reactive_variants (s_running_scenario (c_ses c)))"
    and "b_max_fire_count (get_branch c i) > 0"
    and "b_fire_count (get_branch c i) \<ge> b_max_fire_count (get_branch c i)"
  shows "gm_room_session_reactive_v2_fire_locked i now plan c = (ESP_ERR_INVALID_STATE, plan, c)"
proof -
  have "fire_outcome_of i now c = Fire_Return ESP_ERR_INVALID_STATE c"
    using assms by (simp add: fire_outcome_of_def Let_def word_gt_0)
  then show ?thesis by (simp add: fire_locked_eq)
qed

text \<open>A room with one reactive branch of two empty variants that has fired \<open>n\<close> times of 2.\<close>

definition demo_reactive_ctx :: "u32 \<Rightarrow> room_ctx" where
  "demo_reactive_ctx n = upd_ses (\<lambda>s. s\<lparr>s_in_use := True, s_room_id := ''lab'',
     s_running_scenario := (demo_scenario [] [demo_reaction REACTIVE_POLICY_ROTATE 2])
       \<lparr>sc_reactive_variants := replicate 2 \<lparr>rv_id = ''v'', rv_label = ''v'',
          rv_action_start_index = 0, rv_action_count = 0\<rparr>\<rparr>,
     s_branch_runtimes := [branch_runtime_zero\<lparr>b_active := True,
       b_type := ROOM_SCENARIO_BRANCH_REACTIVE, b_max_fire_count := 2, b_fire_count := n,
       b_view := run_view_zero\<lparr>v_scenario_state := GM_ROOM_SCENARIO_WAITING\<rparr>\<rparr>]\<rparr>) blank_ctx"

theorem firing_limit_kept_witness:
  "within_limit (get_branch (snd (snd (gm_room_session_reactive_v2_fire_locked 0 50
     gm_room_session_command_plan_clear (demo_reactive_ctx 1)))) 0)"
  by (rule firing_limit_kept) code_simp+

theorem exhausted_branch_refuses_witness:
  "gm_room_session_reactive_v2_fire_locked 0 50 gm_room_session_command_plan_clear
     (demo_reactive_ctx 2) =
   (ESP_ERR_INVALID_STATE, gm_room_session_command_plan_clear, demo_reactive_ctx 2)"
  by (rule exhausted_branch_refuses [where model = "demo_reaction REACTIVE_POLICY_ROTATE 2"])
    code_simp+

end
