(* ===== verification/Mqtt_Topic.thy ===== *)
theory Mqtt_Topic
  imports Gm_Prelude
begin

text \<open>
  Topic filters and access control of the MQTT broker (\<open>mqtt_core/mqtt_core_acl.c\<close>).  Topics and
  client ids are C strings.  The first part relates the pointer-walking matcher to matching level by
  level, the second is the access table.
\<close>

definition MQTT_MAX_TOPIC :: nat where "MQTT_MAX_TOPIC = 96"

section \<open>Matching a topic against a filter\<close>

text \<open>One round of the loop looks at the first level of both strings.\<close>

definition level :: "string \<Rightarrow> string" where
  "level s = takeWhile (\<lambda>c. c \<noteq> CHR ''/'') s"

definition after_level :: "string \<Rightarrow> string" where
  "after_level s = dropWhile (\<lambda>c. c \<noteq> CHR ''/'') s"

lemma level_split: "s = level s @ after_level s"
  by (simp add: level_def after_level_def)

lemma after_level_shorter: "after_level s = y # ys \<Longrightarrow> length ys < length s"
  using length_dropWhile_le [of "\<lambda>c. c \<noteq> CHR ''/''" s] by (simp add: after_level_def)

lemmas after_level_shorter' = after_level_shorter [OF sym]

function topic_matches_filter :: "string \<Rightarrow> string \<Rightarrow> bool" where
  "topic_matches_filter f t =
     (if level f = ''#'' then drop 1 f = []
      else if level f \<noteq> ''+'' \<and> level f \<noteq> level t then False
      else case (after_level f, after_level t) of
             ([], []) \<Rightarrow> True
           | (_ # f', _ # t') \<Rightarrow> topic_matches_filter f' t'
           | (_ # f', []) \<Rightarrow> f' = ''#''
           | _ \<Rightarrow> False)"
  by pat_completeness auto
termination
  by (relation "measure (length \<circ> fst)") (auto dest: after_level_shorter after_level_shorter')

declare topic_matches_filter.simps [simp del]

text \<open>The levels of a topic, and matching on them: \<open>+\<close> stands for one level, a final \<open>#\<close> for any rest.\<close>

function topic_levels :: "string \<Rightarrow> string list" where
  "topic_levels s = level s # (case after_level s of [] \<Rightarrow> [] | _ # s' \<Rightarrow> topic_levels s')"
  by pat_completeness auto
termination
  by (relation "measure length") (auto dest: after_level_shorter after_level_shorter')

declare topic_levels.simps [simp del]

fun levels_match :: "string list \<Rightarrow> string list \<Rightarrow> bool" where
  "levels_match [] ts = (ts = [])"
| "levels_match (f # fs) ts =
     (if f = ''#'' then fs = []
      else case ts of [] \<Rightarrow> False | t # ts' \<Rightarrow> (f = ''+'' \<or> f = t) \<and> levels_match fs ts')"

lemma topic_levels_not_Nil: "topic_levels s \<noteq> []"
  by (subst topic_levels.simps) simp

lemma levels_hash: "topic_levels s = [''#''] \<longleftrightarrow> s = ''#''"
proof
  assume l: "topic_levels s = [''#'']"
  have "level s = ''#''"
    using l by (subst (asm) topic_levels.simps) simp
  moreover have "after_level s = []"
    using l by (subst (asm) topic_levels.simps) (simp add: topic_levels_not_Nil split: list.splits)
  ultimately show "s = ''#''" using level_split [of s] by simp
qed (simp add: topic_levels.simps level_def after_level_def)

lemma hash_level: "level f = ''#'' \<Longrightarrow> drop (Suc 0) f = after_level f"
  by (subst level_split [of f]) simp

lemma levels_match_levels_Nil: "levels_match (topic_levels f) [] \<longleftrightarrow> f = ''#''"
  using levels_hash [of f] topic_levels_not_Nil [of f]
  by (cases "topic_levels f") auto

lemma topic_matches_levels:
  "topic_matches_filter f t = levels_match (topic_levels f) (topic_levels t)"
proof (induction f t rule: topic_matches_filter.induct)
  case (1 f t)
  note f = topic_levels.simps [of f] and t = topic_levels.simps [of t]
  show ?case
  proof (cases "level f = ''#''")
    case True
    then show ?thesis
      by (subst topic_matches_filter.simps, subst f)
        (simp add: hash_level topic_levels_not_Nil del: drop_eq_Nil split: list.split)
  next
    case hash: False
    show ?thesis
    proof (cases "level f = ''+'' \<or> level f = level t")
      case False
      then show ?thesis using hash by (subst topic_matches_filter.simps, subst f, subst t) simp
    next
      case True
      note unf = topic_matches_filter.simps [of f t] f t
      show ?thesis
      proof (cases "after_level f")
        case Nil
        then show ?thesis using hash True unf by (cases "after_level t") (auto simp: topic_levels_not_Nil)
      next
        case fa: (Cons a f')
        show ?thesis
        proof (cases "after_level t")
          case Nil
          then show ?thesis using hash True unf fa by (auto simp: levels_match_levels_Nil)
        next
          case ta: (Cons b t')
          have "topic_matches_filter f' t' = levels_match (topic_levels f') (topic_levels t')"
            using 1 [OF hash _ refl fa ta] True by auto
          then show ?thesis using hash True unf fa ta by auto
        qed
      qed
    qed
  qed
qed

text \<open>
  The matcher implements matching level by level.  For every filter and topic the loop over the
  two strings accepts exactly when the filter's levels match the topic's: a level equal or \<open>+\<close>, a
  last level \<open>#\<close> matching any remaining levels, none included.
\<close>

theorem topic_match_is_level_match:
  "topic_matches_filter f t \<longleftrightarrow> levels_match (topic_levels f) (topic_levels t)"
  by (rule topic_matches_levels)

section \<open>Access control\<close>

record acl_entry =
  acl_client_id :: string
  acl_pub_prefix :: string
  acl_sub_prefix :: string

definition k_acl :: "acl_entry list" where
  "k_acl =
    [\<lparr>acl_client_id = ''pn532'', acl_pub_prefix = ''access/'', acl_sub_prefix = ''access/''\<rparr>,
     \<lparr>acl_client_id = ''laser'', acl_pub_prefix = ''laser/'', acl_sub_prefix = ''laser/''\<rparr>,
     \<lparr>acl_client_id = ''relay'', acl_pub_prefix = ''relay/'', acl_sub_prefix = ''relay/''\<rparr>,
     \<lparr>acl_client_id = ''puppet'', acl_pub_prefix = ''puppet/'', acl_sub_prefix = ''puppet/''\<rparr>,
     \<lparr>acl_client_id = ''webui'', acl_pub_prefix = ''web/'', acl_sub_prefix = ''web/''\<rparr>]"

text \<open>\<open>strncmp(topic, prefix, strlen(prefix)) == 0\<close>\<close>

definition starts_with :: "string \<Rightarrow> string \<Rightarrow> bool" where
  "starts_with p s \<longleftrightarrow> take (length p) s = p"

lemma starts_with_append [simp]: "starts_with p (p @ s)"
  by (simp add: starts_with_def)

lemma starts_withE: "starts_with p s \<Longrightarrow> \<exists>r. s = p @ r"
  unfolding starts_with_def by (metis append_take_drop_id)

definition topic_prefix_match :: "string \<Rightarrow> string \<Rightarrow> bool" where
  "topic_prefix_match prefix topic \<longleftrightarrow> prefix = ''*'' \<or> starts_with prefix topic"

definition valid_client_id :: "string \<Rightarrow> bool" where
  "valid_client_id client_id \<longleftrightarrow> client_id \<noteq> []"

definition contract_prefix :: string where "contract_prefix = ''cp/v1/dev/''"

definition extract_contract_device_id :: "string \<Rightarrow> nat \<Rightarrow> string option" where
  "extract_contract_device_id topic out_device_id_size =
     (if \<not> starts_with contract_prefix topic then None
      else let segment = drop (length contract_prefix) topic in
        if after_level segment = [] then None
        else if level segment = [] \<or> length (level segment) \<ge> out_device_id_size then None
        else Some (level segment))"

definition dcc_prefix :: string where "dcc_prefix = ''dcc-''"

definition client_id_maps_to_contract_device_id :: "string \<Rightarrow> string \<Rightarrow> bool" where
  "client_id_maps_to_contract_device_id client_id device_id =
     (if \<not> valid_client_id client_id \<or> device_id = [] then False
      else if client_id = device_id then True
      else if \<not> starts_with dcc_prefix client_id then False
      else let normalized = take (MQTT_MAX_TOPIC - 1)
             (map (\<lambda>c. if c = CHR ''-'' then CHR ''_'' else c) (drop (length dcc_prefix) client_id))
           in normalized \<noteq> [] \<and> normalized = device_id)"

definition find_static_acl_entry :: "string \<Rightarrow> acl_entry option" where
  "find_static_acl_entry client_id = find (\<lambda>e. acl_client_id e = client_id) k_acl"

definition acl_is_static_client_id :: "string \<Rightarrow> bool" where
  "acl_is_static_client_id client_id \<longleftrightarrow> find_static_acl_entry client_id \<noteq> None"

definition acl_can_access_self_contract :: "string \<Rightarrow> string \<Rightarrow> bool" where
  "acl_can_access_self_contract client_id topic =
     (if \<not> valid_client_id client_id then False
      else case extract_contract_device_id topic MQTT_MAX_TOPIC of
             None \<Rightarrow> False
           | Some device_id \<Rightarrow> client_id_maps_to_contract_device_id client_id device_id)"

definition acl_can_subscribe_broadcast_contract :: "string \<Rightarrow> bool" where
  "acl_can_subscribe_broadcast_contract topic \<longleftrightarrow> topic = ''cp/v1/dev/all/control/command''"

definition acl_can_publish :: "string \<Rightarrow> string \<Rightarrow> bool" where
  "acl_can_publish client_id topic =
     (if acl_can_access_self_contract client_id topic then True
      else case find_static_acl_entry client_id of
             Some e \<Rightarrow> topic_prefix_match (acl_pub_prefix e) topic
           | None \<Rightarrow> False)"

definition acl_can_subscribe :: "string \<Rightarrow> string \<Rightarrow> bool" where
  "acl_can_subscribe client_id topic =
     (if acl_can_access_self_contract client_id topic then True
      else if acl_can_subscribe_broadcast_contract topic then valid_client_id client_id
      else case find_static_acl_entry client_id of
             Some e \<Rightarrow> topic_prefix_match (acl_sub_prefix e) topic
           | None \<Rightarrow> False)"


section \<open>What a client can read and write\<close>

lemma topic_levels_append: "CHR ''/'' \<notin> set x \<Longrightarrow> topic_levels (x @ CHR ''/'' # y) = x # topic_levels y"
proof -
  assume "CHR ''/'' \<notin> set x"
  then have "level (x @ CHR ''/'' # y) = x" "after_level (x @ CHR ''/'' # y) = CHR ''/'' # y"
    by (induction x) (auto simp: level_def after_level_def)
  then show ?thesis by (subst topic_levels.simps) simp
qed

lemma level_no_slash: "CHR ''/'' \<notin> set (level s)"
  by (auto simp: level_def dest: set_takeWhileD)

lemma after_level_slash: "after_level s \<noteq> [] \<Longrightarrow> \<exists>r. after_level s = CHR ''/'' # r"
  unfolding after_level_def using hd_dropWhile [of "\<lambda>c. c \<noteq> CHR ''/''" s]
  by (cases "dropWhile (\<lambda>c. c \<noteq> CHR ''/'') s") auto

text \<open>The topics of a device: those below \<open>cp/v1/dev/<id>\<close>.\<close>

definition device_topic :: "string \<Rightarrow> string \<Rightarrow> bool" where
  "device_topic d topic \<longleftrightarrow> take 4 (topic_levels topic) = [''cp'', ''v1'', ''dev'', d]"

lemma contract_levels:
  assumes "extract_contract_device_id topic n = Some d"
  shows "\<exists>r. topic_levels topic = ''cp'' # ''v1'' # ''dev'' # d # topic_levels r"
proof -
  from assms obtain seg where seg: "topic = contract_prefix @ seg" "after_level seg \<noteq> []" "d = level seg"
    by (auto simp: extract_contract_device_id_def Let_def dest!: starts_withE split: if_splits)
  then obtain r where "seg = d @ CHR ''/'' # r"
    using after_level_slash [of seg] level_split [of seg] by metis
  then have "topic_levels seg = d # topic_levels r"
    using topic_levels_append [of d r] level_no_slash [of seg] seg(3) by metis
  moreover have "topic_levels topic = ''cp'' # ''v1'' # ''dev'' # topic_levels seg"
    using topic_levels_append [of "''cp''" "''v1/dev/'' @ seg"]
      topic_levels_append [of "''v1''" "''dev/'' @ seg"] topic_levels_append [of "''dev''" seg]
    by (simp add: seg(1) contract_prefix_def)
  ultimately show ?thesis by auto
qed

lemma levels_match_plain: "\<forall>f \<in> set fs. f \<noteq> ''+'' \<and> f \<noteq> ''#'' \<Longrightarrow> levels_match fs ts \<longleftrightarrow> ts = fs"
proof (induction fs arbitrary: ts)
  case (Cons f fs)
  then show ?case by (cases ts) auto
qed simp

text \<open>The levels determine the topic.\<close>

fun join_levels :: "string list \<Rightarrow> string" where
  "join_levels [] = []"
| "join_levels (l # ls) = l @ (if ls = [] then [] else CHR ''/'' # join_levels ls)"

lemma join_topic_levels: "join_levels (topic_levels s) = s"
proof (induction s rule: topic_levels.induct)
  case (1 s)
  show ?case
  proof (cases "after_level s")
    case Nil
    then show ?thesis using level_split [of s] by (subst topic_levels.simps) simp
  next
    case (Cons c r)
    then have "s = level s @ CHR ''/'' # r" using after_level_slash [of s] level_split [of s] by force
    then show ?thesis using 1 [OF Cons] Cons
      by (subst topic_levels.simps) (simp add: topic_levels_not_Nil)
  qed
qed

lemma levels_match_literal:
  assumes "levels_match (l # fs) ts" and "l \<noteq> ''#''" and "l \<noteq> ''+''"
  shows "\<exists>ts'. ts = l # ts' \<and> levels_match fs ts'"
  using assms by (cases ts) auto

lemma device_filter_confined:
  assumes "extract_contract_device_id flt n = Some d" and "topic_matches_filter flt topic"
    and "d \<noteq> ''+''"
  shows "device_topic d topic"
proof -
  obtain r where "topic_levels flt = ''cp'' # ''v1'' # ''dev'' # d # topic_levels r"
    using contract_levels [OF assms(1)] by auto
  then have m: "levels_match (''cp'' # ''v1'' # ''dev'' # d # topic_levels r) (topic_levels topic)"
    using assms(2) by (simp only: topic_matches_levels)
  have "d \<noteq> ''#''"
    using m by (auto simp: topic_levels_not_Nil split: list.splits if_splits)
  with m assms(3) show ?thesis
    by (auto simp: device_topic_def dest!: levels_match_literal simp del: levels_match.simps)
qed

lemma mapped_device:
  assumes "client_id_maps_to_contract_device_id cid d" and "CHR ''+'' \<notin> set cid"
  shows "d \<noteq> ''+''"
proof
  let ?f = "\<lambda>c. if c = CHR ''-'' then CHR ''_'' else c"
  assume d: "d = ''+''"
  then have "cid \<noteq> d" using assms(2) by auto
  then have "take (MQTT_MAX_TOPIC - 1) (map ?f (drop (length dcc_prefix) cid)) = ''+''"
    using assms(1) d by (simp add: client_id_maps_to_contract_device_id_def Let_def split: if_splits)
  then have "CHR ''+'' \<in> set (map ?f (drop (length dcc_prefix) cid))"
    by (metis in_set_takeD list.set_intros(1))
  then obtain c where "c \<in> set (drop (length dcc_prefix) cid)" "?f c = CHR ''+''" by fastforce
  then show False using assms(2) by (cases "c = CHR ''-''") (auto dest: in_set_dropD)
qed

definition static_topic :: "string \<Rightarrow> string \<Rightarrow> bool" where
  "static_topic cid topic \<longleftrightarrow>
     (\<exists>e \<in> set k_acl. acl_client_id e = cid \<and> hd (topic_levels topic) = level (acl_sub_prefix e))"

lemma static_filter_confined:
  assumes "e \<in> set k_acl" and "topic_prefix_match (acl_sub_prefix e) flt"
    and "topic_matches_filter flt topic"
  shows "hd (topic_levels topic) = level (acl_sub_prefix e)"
proof -
  from assms(1) have "\<exists>l. acl_sub_prefix e = l @ ''/'' \<and> CHR ''/'' \<notin> set l \<and> l \<noteq> ''#'' \<and> l \<noteq> ''+''"
    by (auto simp: k_acl_def)
  then obtain l where l: "acl_sub_prefix e = l @ ''/''" "CHR ''/'' \<notin> set l" "l \<noteq> ''#''" "l \<noteq> ''+''"
    by auto
  then obtain r where "flt = l @ CHR ''/'' # r"
    using assms(2) by (auto simp: topic_prefix_match_def dest!: starts_withE)
  then have "levels_match (l # topic_levels r) (topic_levels topic)"
    using assms(3) topic_levels_append [OF l(2), of r] by (metis topic_matches_levels)
  moreover have "level (l @ ''/'') = l" using l(2) by (induction l) (auto simp: level_def)
  ultimately show ?thesis
    using l(3,4) by (auto simp: l(1) dest!: levels_match_literal simp del: levels_match.simps)
qed

text \<open>
  C29: a client reads only its own topics.  If a client whose id has no \<open>+\<close> may subscribe to a
  filter, every topic that the filter matches is below the client's own device branch, is the
  broadcast command topic, or is below the root that the access table gives to the client.
\<close>

theorem subscription_confined:
  assumes "acl_can_subscribe cid flt" and "topic_matches_filter flt topic"
    and "CHR ''+'' \<notin> set cid"
  shows "(\<exists>d. client_id_maps_to_contract_device_id cid d \<and> device_topic d topic) \<or>
    topic = ''cp/v1/dev/all/control/command'' \<or> static_topic cid topic"
proof (cases "acl_can_access_self_contract cid flt")
  case True
  then show ?thesis
    using device_filter_confined [OF _ assms(2)] mapped_device [OF _ assms(3)]
    by (auto simp: acl_can_access_self_contract_def split: if_splits option.splits)
next
  case False
  show ?thesis
  proof (cases "acl_can_subscribe_broadcast_contract flt")
    case True
    moreover have "topic_levels ''cp/v1/dev/all/control/command'' =
        [''cp'', ''v1'', ''dev'', ''all'', ''control'', ''command'']" by code_simp
    ultimately have "levels_match [''cp'', ''v1'', ''dev'', ''all'', ''control'', ''command'']
        (topic_levels topic)"
      using assms(2) by (metis acl_can_subscribe_broadcast_contract_def topic_matches_levels)
    then have "topic_levels topic = [''cp'', ''v1'', ''dev'', ''all'', ''control'', ''command'']"
      by (subst (asm) levels_match_plain) simp_all
    then show ?thesis using join_topic_levels [of topic] by simp
  next
    case no: False
    then show ?thesis
      using False assms(1) static_filter_confined [OF _ _ assms(2)]
      by (auto simp: acl_can_subscribe_def static_topic_def find_static_acl_entry_def
          find_Some_iff split: option.splits)
  qed
qed


theorem subscription_confined_witness:
  "(\<exists>d. client_id_maps_to_contract_device_id ''dcc-node-7'' d \<and>
        device_topic d ''cp/v1/dev/node_7/control/command'') \<or>
    ''cp/v1/dev/node_7/control/command'' = ''cp/v1/dev/all/control/command'' \<or>
    static_topic ''dcc-node-7'' ''cp/v1/dev/node_7/control/command''"
  by (rule subscription_confined [of _ "''cp/v1/dev/node_7/#''"]) code_simp+

text \<open>
  The hypothesis on the client id is needed.  A client that calls itself \<open>+\<close> may subscribe
  to a filter that matches the commands sent to every device.
\<close>

theorem plus_client_reads_every_device:
  "acl_can_subscribe ''+'' ''cp/v1/dev/+/control/command'' \<and>
   (\<forall>d. CHR ''/'' \<in> set d \<or>
     topic_matches_filter ''cp/v1/dev/+/control/command'' (''cp/v1/dev/'' @ d @ ''/control/command''))"
proof
  show "acl_can_subscribe ''+'' ''cp/v1/dev/+/control/command''" by code_simp
  have f: "topic_levels ''cp/v1/dev/+/control/command'' =
      [''cp'', ''v1'', ''dev'', ''+'', ''control'', ''command'']" by code_simp
  have t: "topic_levels (''cp/v1/dev/'' @ d @ ''/control/command'') =
      [''cp'', ''v1'', ''dev'', d, ''control'', ''command'']" if "CHR ''/'' \<notin> set d" for d
  proof -
    have "topic_levels (d @ ''/control/command'') = [d, ''control'', ''command'']"
      using topic_levels_append [OF that, of "''control/command''"]
      by (simp add: topic_levels.simps level_def after_level_def)
    then show ?thesis
      using topic_levels_append [of "''cp''" "''v1/dev/'' @ d @ ''/control/command''"]
        topic_levels_append [of "''v1''" "''dev/'' @ d @ ''/control/command''"]
        topic_levels_append [of "''dev''" "d @ ''/control/command''"] by simp
  qed
  have "topic_matches_filter ''cp/v1/dev/+/control/command'' (''cp/v1/dev/'' @ d @ ''/control/command'')"
    if "CHR ''/'' \<notin> set d" for d
    unfolding topic_matches_levels f t [OF that] by simp
  then show "\<forall>d. CHR ''/'' \<in> set d \<or> topic_matches_filter ''cp/v1/dev/+/control/command''
      (''cp/v1/dev/'' @ d @ ''/control/command'')" by blast
qed

end
