(* ===== verification/Mqtt_Packet.thy ===== *)
theory Mqtt_Packet
  imports Mqtt_Topic
begin

unbundle bit_operations_syntax

text \<open>
  The packet codec of the MQTT broker (\<open>mqtt_core/mqtt_core_packet.c\<close>, the parsers of
  \<open>mqtt_core_protocol.c\<close> and the framing of \<open>mqtt_core_server.c\<close>).  Packets are lists of bytes;
  what a socket delivers is the list of bytes not read yet, and reading past its end is a closed
  or timed-out connection.
\<close>

definition MQTT_MAX_PACKET :: nat where "MQTT_MAX_PACKET = 14336"
definition MQTT_MAX_PAYLOAD :: nat where "MQTT_MAX_PAYLOAD = MQTT_MAX_PACKET"
definition MQTT_MAX_SUBS :: nat where "MQTT_MAX_SUBS = 16"

section \<open>Bytes and C strings\<close>

definition str_bytes :: "string \<Rightarrow> u8 list" where
  "str_bytes s = map (\<lambda>c. of_nat (of_char c)) s"

text \<open>The C string at the start of a buffer: the characters before the first NUL.\<close>

definition cstr :: "u8 list \<Rightarrow> string" where
  "cstr bs = map (\<lambda>b. char_of (unat b)) (takeWhile (\<lambda>b. b \<noteq> 0) bs)"

definition c_string :: "string \<Rightarrow> bool" where
  "c_string s \<longleftrightarrow> CHR 0x00 \<notin> set s"

definition u16_bytes :: "u16 \<Rightarrow> u8 list" where
  "u16_bytes n = [ucast (drop_bit 8 n), ucast (n AND 0xFF)]"

definition bytes_u16 :: "u8 \<Rightarrow> u8 \<Rightarrow> u16" where
  "bytes_u16 hi lo = (push_bit 8 (ucast hi)) OR ucast lo"

section \<open>Remaining length\<close>

fun encode_remaining_loop :: "nat \<Rightarrow> nat \<Rightarrow> u8 list" where
  "encode_remaining_loop 0 rem_len = []"
| "encode_remaining_loop (Suc slots) rem_len =
     (let byte = (of_nat (rem_len mod 128) :: u8); rest = rem_len div 128 in
      (if rest > 0 then byte OR 0x80 else byte) #
      (if rest > 0 then encode_remaining_loop slots rest else []))"

definition encode_remaining_length :: "nat \<Rightarrow> u8 list" where
  "encode_remaining_length rem_len = encode_remaining_loop 4 rem_len"

definition recv_all :: "nat \<Rightarrow> u8 list \<Rightarrow> (u8 list \<times> u8 list) option" where
  "recv_all len input = (if length input < len then None else Some (take len input, drop len input))"

fun read_remaining_loop :: "nat \<Rightarrow> nat \<Rightarrow> u8 list \<Rightarrow> (nat \<times> u8 list) option" where
  "read_remaining_loop multiplier val [] = None"
| "read_remaining_loop multiplier val (encoded # input) =
     (let val' = val + unat (encoded AND 127) * multiplier; multiplier' = multiplier * 128 in
      if multiplier' > 128 * 128 * 128 then None
      else if encoded AND 128 \<noteq> 0 then read_remaining_loop multiplier' val' input
      else Some (val', input))"

definition read_remaining_length :: "u8 list \<Rightarrow> (nat \<times> u8 list) option" where
  "read_remaining_length input = read_remaining_loop 1 0 input"

text \<open>One packet as the client task reads it: header, remaining length, body.\<close>

definition read_packet :: "u8 list \<Rightarrow> (u8 \<times> u8 list \<times> u8 list) option" where
  "read_packet input = (case recv_all 1 input of
     None \<Rightarrow> None
   | Some (h, r) \<Rightarrow> (case read_remaining_length r of
       None \<Rightarrow> None
     | Some (rem, r') \<Rightarrow>
         (if rem > MQTT_MAX_PACKET then None
          else map_option (\<lambda>(body, r''). (hd h, body, r'')) (recv_all rem r'))))"

section \<open>Packets the broker sends\<close>

definition connack_packet :: "u8 \<Rightarrow> u8 list" where
  "connack_packet rc = [0x20, 0x02, 0x00, rc]"

definition suback_packet :: "u16 \<Rightarrow> u8 list \<Rightarrow> u8 list option" where
  "suback_packet pid qos =
     (if length qos > MQTT_MAX_SUBS then None
      else let rem_len = 2 + length qos; rem_enc = encode_remaining_length rem_len in
        if rem_enc = [] \<or> 1 + length rem_enc + rem_len > 1 + 4 + 2 + MQTT_MAX_SUBS then None
        else Some ([0x90] @ rem_enc @ u16_bytes pid @ qos))"

definition puback_packet :: "u16 \<Rightarrow> u8 list" where
  "puback_packet pid = [0x40, 0x02] @ u16_bytes pid"

definition unsuback_packet :: "u16 \<Rightarrow> u8 list" where
  "unsuback_packet pid = [0xB0, 0x02] @ u16_bytes pid"

definition pingresp_packet :: "u8 list" where
  "pingresp_packet = [0xD0, 0x00]"

definition publish_header :: "u8 \<Rightarrow> bool \<Rightarrow> u8" where
  "publish_header qos retain = 0x30 OR push_bit 1 qos OR (if retain then 0x01 else 0x00)"

text \<open>
  The pieces that \<open>send_publish_packet_to_sock\<close> writes one after the other; empty pieces are not
  written.
\<close>

definition publish_pieces :: "string \<Rightarrow> string \<Rightarrow> u8 \<Rightarrow> bool \<Rightarrow> u16 \<Rightarrow> u8 list list option" where
  "publish_pieces topic payload qos retain pid =
     (let rem_len = 2 + length topic + length payload + (if qos \<noteq> 0 then 2 else 0);
          rem_enc = encode_remaining_length rem_len in
      if length topic > 65535 then None
      else if rem_len > MQTT_MAX_PACKET then None
      else if rem_enc = [] \<or> 1 + length rem_enc + 2 + (if qos \<noteq> 0 then 2 else 0) > 1 + 4 + 2 + 2 then None
      else Some ([[publish_header qos retain] @ rem_enc @ u16_bytes (of_nat (length topic))] @
        (if topic = [] then [] else [str_bytes topic]) @
        (if qos \<noteq> 0 then [u16_bytes pid] else []) @
        (if payload = [] then [] else [str_bytes payload])))"

text \<open>The packet that is kept until it is acknowledged; \<open>heap_ok\<close> is the outcome of the allocation.\<close>

definition build_qos1_publish_packet ::
  "bool \<Rightarrow> string \<Rightarrow> string \<Rightarrow> bool \<Rightarrow> u16 \<Rightarrow> u8 list option" where
  "build_qos1_publish_packet heap_ok topic payload retain pid =
     (let rem_len = 2 + length topic + 2 + length payload;
          rem_enc = encode_remaining_length rem_len;
          total_len = 1 + length rem_enc + rem_len in
      if pid = 0 \<or> length topic > 65535 \<or> rem_len > MQTT_MAX_PACKET \<or> total_len > MQTT_MAX_PACKET \<or>
         rem_enc = [] then None
      else if \<not> heap_ok then None
      else Some ([0x32 OR (if retain then 0x01 else 0x00)] @ rem_enc @
        u16_bytes (of_nat (length topic)) @ str_bytes topic @ u16_bytes pid @ str_bytes payload))"

section \<open>Parsing\<close>

text \<open>
  A length-prefixed string at an offset of a packet: its bytes and the offset behind it.  The
  destination keeps the bytes up to the first NUL (\<open>cstr\<close>).
\<close>

definition parse_utf8_str :: "u8 list \<Rightarrow> nat \<Rightarrow> nat \<Rightarrow> (u8 list \<times> nat) option" where
  "parse_utf8_str buf offset out_len =
     (if offset + 2 > length buf then None
      else let slen = unat (bytes_u16 (buf ! offset) (buf ! (offset + 1))); off = offset + 2 in
        if off + slen > length buf \<or> slen \<ge> out_len then None
        else Some (take slen (drop off buf), off + slen))"

definition mqtt_parse_connect_client_id :: "u8 list \<Rightarrow> nat \<Rightarrow> string option" where
  "mqtt_parse_connect_client_id buf client_id_len =
     (case parse_utf8_str buf 0 8 of
        None \<Rightarrow> None
      | Some (proto, off) \<Rightarrow>
          (if cstr proto \<noteq> ''MQTT'' \<and> cstr proto \<noteq> ''MQIsdp'' then None
           else if off + 4 > length buf then None
           else map_option (\<lambda>(c, _). cstr c) (parse_utf8_str buf (off + 4) client_id_len)))"

record publish_fields =
  pf_topic :: string
  pf_qos :: u8
  pf_retain :: bool
  pf_pid :: u16
  pf_payload_offset :: nat

text \<open>The fields of a PUBLISH packet, up to the tests of the quality of service.\<close>

definition parse_publish :: "u8 \<Rightarrow> u8 list \<Rightarrow> publish_fields option" where
  "parse_publish header buf =
     (if length buf < 2 then None
      else let topic_len = unat (bytes_u16 (buf ! 0) (buf ! 1)) in
        if 2 + topic_len > length buf \<or> topic_len \<ge> MQTT_MAX_TOPIC then None
        else let topic = cstr (take topic_len (drop 2 buf)); off = 2 + topic_len;
                 qos = drop_bit 1 header AND 0x03; retain = (header AND 0x01 \<noteq> 0) in
          if qos \<noteq> 0 \<and> off + 2 > length buf then None
          else let pid = (if qos \<noteq> 0 then bytes_u16 (buf ! off) (buf ! (off + 1)) else 0);
                   off' = (if qos \<noteq> 0 then off + 2 else off) in
            if qos > 1 then None
            else if qos = 1 \<and> pid = 0 then None
            else Some \<lparr>pf_topic = topic, pf_qos = qos, pf_retain = retain, pf_pid = pid,
                       pf_payload_offset = off'\<rparr>)"

end
