(* ===== verification/Mqtt_Retain.thy ===== *)
theory Mqtt_Retain
  imports Mqtt_Packet
begin

text \<open>
  The retained messages of the broker (\<open>mqtt_core/mqtt_core_retain.c\<close>): a table of 32 entries
  searched by topic.  The locale \<open>retained_messages\<close> is the contract of the store; the table
  interprets it.
\<close>

definition MQTT_RETAIN_MAX :: nat where "MQTT_RETAIN_MAX = 32"

record retain_entry =
  re_in_use :: bool
  re_topic :: string
  re_payload :: string
  re_qos :: u8

definition retain_entry_zero :: retain_entry where
  "retain_entry_zero = \<lparr>re_in_use = False, re_topic = [], re_payload = [], re_qos = 0\<rparr>"

definition retain_get :: "retain_entry list \<Rightarrow> string \<Rightarrow> nat option" where
  "retain_get table topic = find_index (\<lambda>e. re_in_use e \<and> re_topic e = topic) table"

text \<open>\<open>payload_len\<close> is the length of the stored payload, so it is not a field of its own.\<close>

definition retain_store :: "string \<Rightarrow> string \<Rightarrow> u8 \<Rightarrow> retain_entry list \<Rightarrow> retain_entry list" where
  "retain_store topic payload qos table =
     (let stored = take (MQTT_MAX_PAYLOAD - 1) payload in
      if stored = []
      then (case retain_get table topic of None \<Rightarrow> table | Some i \<Rightarrow> table[i := retain_entry_zero])
      else case (case retain_get table topic of
                   Some i \<Rightarrow> Some i | None \<Rightarrow> find_index (\<lambda>e. \<not> re_in_use e) table) of
             None \<Rightarrow> table
           | Some i \<Rightarrow> table[i := \<lparr>re_in_use = True, re_topic = take (MQTT_MAX_TOPIC - 1) topic,
                                   re_payload = stored, re_qos = qos\<rparr>])"

section \<open>The contract\<close>

locale retained_messages =
  fixes put :: "string \<Rightarrow> string \<Rightarrow> u8 \<Rightarrow> 's \<Rightarrow> 's"
    and look :: "'s \<Rightarrow> string \<Rightarrow> (string \<times> u8) option"
    and fits :: "string \<Rightarrow> string \<Rightarrow> bool"
    and valid :: "'s \<Rightarrow> bool"
    and full :: "'s \<Rightarrow> bool"
  assumes put_valid: "valid s \<Longrightarrow> fits t p \<Longrightarrow> valid (put t p q s)"
    and put_stores: "valid s \<Longrightarrow> fits t p \<Longrightarrow> p \<noteq> [] \<Longrightarrow> \<not> full s \<or> look s t \<noteq> None \<Longrightarrow>
      look (put t p q s) = (look s)(t \<mapsto> (p, q))"
    and put_clears: "valid s \<Longrightarrow> fits t [] \<Longrightarrow> look (put t [] q s) = (look s)(t := None)"
    and put_drops: "valid s \<Longrightarrow> fits t p \<Longrightarrow> p \<noteq> [] \<Longrightarrow> full s \<Longrightarrow> look s t = None \<Longrightarrow> put t p q s = s"
begin

text \<open>Storing a sequence of retained messages; the newest message of a topic wins.\<close>

primrec put_many :: "(string \<times> string \<times> u8) list \<Rightarrow> 's \<Rightarrow> 's" where
  "put_many [] s = s"
| "put_many (m # ms) s = put_many ms (put (fst m) (fst (snd m)) (snd (snd m)) s)"

lemma put_other: "valid s \<Longrightarrow> fits t p \<Longrightarrow> u \<noteq> t \<Longrightarrow> look (put t p q s) u = look s u"
  using put_stores [of s t p q] put_clears [of s t q] put_drops [of s t p q]
  by (cases "p = []"; cases "full s"; cases "look s t = None") simp_all

lemma put_twice:
  assumes "valid s" "fits t p" "fits t p'" "p \<noteq> []" "p' \<noteq> []" "\<not> full s \<or> look s t \<noteq> None"
  shows "look (put t p' q' (put t p q s)) = (look s)(t \<mapsto> (p', q'))"
proof -
  have "look (put t p q s) = (look s)(t \<mapsto> (p, q))" using assms by (intro put_stores) auto
  moreover from this have "look (put t p' q' (put t p q s)) = (look (put t p q s))(t \<mapsto> (p', q'))"
    using assms put_valid by (intro put_stores) auto
  ultimately show ?thesis by simp
qed

lemma put_many_other:
  "valid s \<Longrightarrow> \<forall>m \<in> set ms. fits (fst m) (fst (snd m)) \<and> fst m \<noteq> u \<Longrightarrow>
   look (put_many ms s) u = look s u \<and> valid (put_many ms s)"
proof (induction ms arbitrary: s)
  case (Cons m ms)
  then have "u \<noteq> fst m" by auto
  with Cons show ?case using put_other [of s "fst m" "fst (snd m)" u] by (simp add: put_valid)
qed simp

lemma put_then_many:
  assumes "valid s" "fits t p" "p \<noteq> []" "\<not> full s \<or> look s t \<noteq> None"
    and "\<forall>m \<in> set ms. fits (fst m) (fst (snd m)) \<and> fst m \<noteq> t"
  shows "look (put_many ms (put t p q s)) t = Some (p, q)"
  using put_many_other [of "put t p q s" ms t] put_valid [of s t p q] put_stores [of s t p q] assms by simp

end

section \<open>The table\<close>

definition retain_look :: "retain_entry list \<Rightarrow> string \<Rightarrow> (string \<times> u8) option" where
  "retain_look table topic = map_option (\<lambda>i. (re_payload (table ! i), re_qos (table ! i))) (retain_get table topic)"

definition retain_fits :: "string \<Rightarrow> string \<Rightarrow> bool" where
  "retain_fits topic payload \<longleftrightarrow> length topic < MQTT_MAX_TOPIC \<and> length payload < MQTT_MAX_PAYLOAD"

definition retain_full :: "retain_entry list \<Rightarrow> bool" where
  "retain_full table \<longleftrightarrow> list_all re_in_use table"

text \<open>Every topic has at most one entry, and the entries hold a message.\<close>

definition retain_valid :: "retain_entry list \<Rightarrow> bool" where
  "retain_valid table \<longleftrightarrow>
     (\<forall>i < length table. \<forall>j < length table. re_in_use (table ! i) \<and> re_in_use (table ! j) \<and>
        re_topic (table ! i) = re_topic (table ! j) \<longrightarrow> i = j)"

lemma retain_get_SomeD:
  "retain_get table t = Some i \<Longrightarrow> i < length table \<and> re_in_use (table ! i) \<and> re_topic (table ! i) = t"
  unfolding retain_get_def by (drule find_index_SomeD) simp

lemma retain_get_NoneD: "retain_get table t = None \<Longrightarrow> e \<in> set table \<Longrightarrow> \<not> (re_in_use e \<and> re_topic e = t)"
  unfolding retain_get_def by (drule find_index_NoneD)

lemma retain_get_iff:
  assumes "retain_valid table"
  shows "retain_get table t = Some i \<longleftrightarrow> i < length table \<and> re_in_use (table ! i) \<and> re_topic (table ! i) = t"
proof
  assume r: "i < length table \<and> re_in_use (table ! i) \<and> re_topic (table ! i) = t"
  then have "retain_get table t \<noteq> None" using retain_get_NoneD [of table t "table ! i"] by auto
  then obtain j where j: "retain_get table t = Some j" by auto
  then have "j = i" using assms r retain_get_SomeD [OF j] unfolding retain_valid_def by metis
  with j show "retain_get table t = Some i" by simp
qed (rule retain_get_SomeD)

lemma retain_look_eqI:
  assumes "retain_valid a" and "retain_valid b"
    and "\<And>i. i < length a \<and> re_in_use (a ! i) \<and> re_topic (a ! i) = t \<longleftrightarrow>
      i < length b \<and> re_in_use (b ! i) \<and> re_topic (b ! i) = t"
    and "\<And>i. i < length a \<Longrightarrow> re_in_use (a ! i) \<Longrightarrow> re_topic (a ! i) = t \<Longrightarrow> a ! i = b ! i"
  shows "retain_look a t = retain_look b t"
proof -
  have "retain_get a t = Some i \<longleftrightarrow> retain_get b t = Some i" for i
    by (simp add: retain_get_iff assms(1,2) assms(3))
  then have g: "retain_get a t = retain_get b t" by (metis not_None_eq)
  show ?thesis
  proof (cases "retain_get a t")
    case (Some i)
    have "a ! i = b ! i" using assms(4) [of i] retain_get_SomeD [OF Some] by simp
    then show ?thesis using Some Some [unfolded g] by (simp add: retain_look_def)
  qed (simp add: retain_look_def flip: g)
qed

text \<open>Overwriting slot \<open>i\<close>, whose entry is free or of the same topic.\<close>

lemma retain_write:
  assumes "retain_valid table" and "i < length table"
    and "retain_get table t = Some i \<or> \<not> re_in_use (table ! i) \<and> retain_get table t = None"
    and "re_in_use e \<longrightarrow> re_topic e = t"
  shows "retain_valid (table[i := e])"
    and "retain_look (table[i := e]) = (retain_look table)(t := if re_in_use e then Some (re_payload e, re_qos e) else None)"
proof -
  have only: "j = i" if "j < length table" "re_in_use (table ! j)" "re_topic (table ! j) = t" for j
    using that assms(3) retain_get_iff [OF assms(1), of t j] by auto
  have inj: "j = k" if "j < length table" "k < length table" "re_in_use (table ! j)" "re_in_use (table ! k)"
      "re_topic (table ! j) = re_topic (table ! k)" for j k
    using assms(1) that by (simp add: retain_valid_def)
  show v: "retain_valid (table[i := e])"
    unfolding retain_valid_def
  proof (intro allI impI, elim conjE)
    fix j k
    assume a: "j < length (table[i := e])" "k < length (table[i := e])"
      "re_in_use (table[i := e] ! j)" "re_in_use (table[i := e] ! k)"
      "re_topic (table[i := e] ! j) = re_topic (table[i := e] ! k)"
    consider "j = i" "k = i" | "j = i" "k \<noteq> i" | "j \<noteq> i" "k = i" | "j \<noteq> i" "k \<noteq> i" by blast
    then show "j = k"
    proof cases
      case 2
      then have "k = i" using a assms(2,4) by (intro only) auto
      with 2 show ?thesis by simp
    next
      case 3
      then have "j = i" using a assms(2,4) by (intro only) auto
      with 3 show ?thesis by simp
    next
      case 4
      then show ?thesis using a by (intro inj) simp_all
    qed simp
  qed
  show "retain_look (table[i := e]) = (retain_look table)(t := if re_in_use e then Some (re_payload e, re_qos e) else None)"
  proof
    fix u
    show "retain_look (table[i := e]) u = ((retain_look table)(t := if re_in_use e then Some (re_payload e, re_qos e) else None)) u"
    proof (cases "u = t")
      case True
      have "retain_get (table[i := e]) t = (if re_in_use e then Some i else None)"
      proof (cases "re_in_use e")
        case True
        then show ?thesis using retain_get_iff [OF v, of t i] assms(2,4) by simp
      next
        case False
        then have "retain_get (table[i := e]) t \<noteq> Some j" for j
          using retain_get_iff [OF v, of t j] only [of j] assms(2) by (auto simp: nth_list_update)
        then show ?thesis using False by (cases "retain_get (table[i := e]) t") auto
      qed
      then show ?thesis using True assms(2) by (simp add: retain_look_def)
    next
      case False
      have "retain_look (table[i := e]) u = retain_look table u"
        using assms(2,3,4) False retain_get_SomeD [of table t i]
        by (intro retain_look_eqI [OF v assms(1)]) (auto simp: nth_list_update split: if_splits)
      with False show ?thesis by simp
    qed
  qed
qed

lemma retain_look_None: "retain_look s t = None \<longleftrightarrow> retain_get s t = None"
  by (simp add: retain_look_def)

lemma retain_fits_take:
  "retain_fits t p \<Longrightarrow> take (MQTT_MAX_PAYLOAD - 1) p = p \<and> take (MQTT_MAX_TOPIC - 1) t = t"
  by (auto simp: retain_fits_def)

lemma retain_full_iff: "retain_full s \<longleftrightarrow> find_index (\<lambda>e. \<not> re_in_use e) s = None"
  by (simp add: retain_full_def list_all_iff find_index_None_iff)

lemma retain_store_clears:
  assumes "retain_valid s"
  shows "retain_valid (retain_store t [] q s)"
    and "retain_look (retain_store t [] q s) = (retain_look s)(t := None)"
proof -
  have "retain_valid (retain_store t [] q s) \<and>
      retain_look (retain_store t [] q s) = (retain_look s)(t := None)"
  proof (cases "retain_get s t")
    case None
    then show ?thesis using assms by (auto simp: retain_store_def retain_look_def)
  next
    case (Some i)
    then show ?thesis
      using retain_write [OF assms, of i t retain_entry_zero] retain_get_SomeD [OF Some]
      by (simp add: retain_store_def retain_entry_zero_def)
  qed
  then show "retain_valid (retain_store t [] q s)"
    and "retain_look (retain_store t [] q s) = (retain_look s)(t := None)" by simp_all
qed

lemma retain_store_keeps:
  assumes "retain_valid s" and "retain_fits t p" and "p \<noteq> []"
  shows "retain_valid (retain_store t p q s) \<and>
    (if retain_full s \<and> retain_look s t = None then retain_store t p q s = s
     else retain_look (retain_store t p q s) = (retain_look s)(t \<mapsto> (p, q)))"
proof -
  let ?e = "\<lparr>re_in_use = True, re_topic = t, re_payload = p, re_qos = q\<rparr>"
  note store = retain_store_def [of t p q s, unfolded Let_def]
  have p: "take (MQTT_MAX_PAYLOAD - 1) p = p" and t: "take (MQTT_MAX_TOPIC - 1) t = t"
    using retain_fits_take [OF assms(2)] by simp_all
  show ?thesis
  proof (cases "retain_get s t")
    case (Some i)
    then have "retain_store t p q s = s[i := ?e]" using assms(3) by (simp only: store p t) simp
    then show ?thesis
      using Some retain_write [OF assms(1), of i t ?e] retain_get_SomeD [OF Some]
      by (simp add: retain_look_None)
  next
    case get: None
    show ?thesis
    proof (cases "find_index (\<lambda>e. \<not> re_in_use e) s")
      case None
      then have "retain_store t p q s = s" using assms(3) get by (simp only: store p t) simp
      then show ?thesis using assms(1) None get by (simp add: retain_full_iff retain_look_None)
    next
      case (Some i)
      then have "retain_store t p q s = s[i := ?e]" using assms(3) get by (simp only: store p t) simp
      then show ?thesis
        using Some get retain_write [OF assms(1), of i t ?e] find_index_SomeD [OF Some]
        by (simp add: retain_full_iff)
    qed
  qed
qed

interpretation retained: retained_messages retain_store retain_look retain_fits retain_valid retain_full
proof
  fix s t p q
  show "retain_valid (retain_store t p q s)" if "retain_valid s" "retain_fits t p"
    using retain_store_clears(1) [OF that(1)] retain_store_keeps [OF that] by (cases "p = []") simp_all
  show "retain_look (retain_store t [] q s) = (retain_look s)(t := None)"
    if "retain_valid s" "retain_fits t []"
    by (rule retain_store_clears(2) [OF that(1)])
  show "retain_look (retain_store t p q s) = (retain_look s)(t \<mapsto> (p, q))"
    if "retain_valid s" "retain_fits t p" "p \<noteq> []" "\<not> retain_full s \<or> retain_look s t \<noteq> None"
    using retain_store_keeps [OF that(1-3), of q] that(4) by auto
  show "retain_store t p q s = s"
    if "retain_valid s" "retain_fits t p" "p \<noteq> []" "retain_full s" "retain_look s t = None"
    using retain_store_keeps [OF that(1-3), of q] that(4,5) by simp
qed


text \<open>
  The table of retained messages is a bounded map from topics to messages.  For a topic and a
  payload that fit their buffers, storing a message replaces the message of its topic and no other,
  an empty payload removes it, and when the table is full a message of a new topic is dropped with
  the table unchanged; no topic ever has two entries.
\<close>

theorem retained_table_is_map:
  assumes "retain_valid table" and "length topic < MQTT_MAX_TOPIC" and "length payload < MQTT_MAX_PAYLOAD"
  shows "retain_valid (retain_store topic payload qos table) \<and>
    retain_look (retain_store topic payload qos table) =
      (if payload = [] then (retain_look table)(topic := None)
       else if retain_full table \<and> retain_look table topic = None then retain_look table
       else (retain_look table)(topic \<mapsto> (payload, qos)))"
proof -
  have fits: "retain_fits topic payload" using assms(2,3) by (simp add: retain_fits_def)
  show ?thesis
    using retained.put_valid [OF assms(1) fits] retained.put_clears [OF assms(1), of topic qos]
      retained.put_stores [OF assms(1) fits, of qos] retained.put_drops [OF assms(1) fits, of qos] fits
    by auto
qed

theorem retained_table_is_map_witness:
  "retain_look (retain_store ''relay/1'' ''on'' 1 (replicate 2 retain_entry_zero)) =
   (retain_look (replicate 2 retain_entry_zero))(''relay/1'' \<mapsto> (''on'', 1))"
  using retained_table_is_map [of "replicate 2 retain_entry_zero" "''relay/1''" "''on''" 1]
  by (simp add: retain_valid_def retain_full_def retain_entry_zero_def MQTT_MAX_TOPIC_def
      MQTT_MAX_PAYLOAD_def MQTT_MAX_PACKET_def numeral_eq_Suc less_Suc_eq)

end
