(* ===== verification/Mqtt_Session.thy ===== *)
theory Mqtt_Session
  imports Mqtt_Retain
begin

unbundle bit_operations_syntax

text \<open>
  The sessions of the MQTT broker and the delivery of messages to them
  (\<open>mqtt_core/mqtt_core_session.c\<close>, \<open>mqtt_core.c\<close>, \<open>mqtt_core_packet.c\<close>, \<open>mqtt_core_retain.c\<close>).

  A session is its index in the table.  Times are milliseconds since boot as unbounded integers.
  The network is a sequence of outcomes, one for each \<open>send_all\<close>; what was sent and which sockets
  were closed is recorded.  The locks are not state: every operation of the model runs alone.
\<close>

definition MQTT_QOS1_MAX_INFLIGHT :: nat where "MQTT_QOS1_MAX_INFLIGHT = 64"
definition MQTT_QOS1_RETRY_MS :: int where "MQTT_QOS1_RETRY_MS = 2000"
definition MQTT_QOS1_MAX_SEND_ATTEMPTS :: u32 where "MQTT_QOS1_MAX_SEND_ATTEMPTS = 8"
definition MQTT_QOS1_MAX_PENDING_BYTES :: nat where "MQTT_QOS1_MAX_PENDING_BYTES = 512 * 1024"
definition MQTT_SEND_FAILED :: int where "MQTT_SEND_FAILED = -1"
definition MQTT_SEND_PARTIAL_FAIL :: int where "MQTT_SEND_PARTIAL_FAIL = -2"
definition MQTT_SESSION_REUSE_DELAY_MS :: int where "MQTT_SESSION_REUSE_DELAY_MS = 500"
definition CONFIG_STORE_CLIENT_ID_MAX :: nat where "CONFIG_STORE_CLIENT_ID_MAX = 32"
definition CONFIG_STORE_USERNAME_MAX :: nat where "CONFIG_STORE_USERNAME_MAX = 32"
definition CONFIG_STORE_PASSWORD_MAX :: nat where "CONFIG_STORE_PASSWORD_MAX = 32"

section \<open>Data\<close>

record mqtt_subscription =
  sub_topic :: string
  sub_qos :: u8

record will =
  w_has :: bool
  w_topic :: string
  w_payload :: string
  w_qos :: u8
  w_retain :: bool

definition will_zero :: will where
  "will_zero = \<lparr>w_has = False, w_topic = [], w_payload = [], w_qos = 0, w_retain = False\<rparr>"

record mqtt_qos1_pending =
  q_in_use :: bool
  q_packet_id :: u16
  q_packet :: "u8 list"
  q_last_send_ms :: int
  q_send_count :: u32

definition qos1_zero :: mqtt_qos1_pending where
  "qos1_zero = \<lparr>q_in_use = False, q_packet_id = 0, q_packet = [], q_last_send_ms = 0, q_send_count = 0\<rparr>"

record mqtt_session =
  ms_sock :: int
  ms_task :: bool
  ms_active :: bool
  ms_closing :: bool
  ms_retiring :: bool
  ms_suppress_will :: bool
  ms_reusable_after_ms :: int
  ms_client_id :: string
  ms_keepalive :: u16
  ms_last_rx_ms :: int
  ms_subs :: "mqtt_subscription list"
  ms_will :: will
  ms_qos1_pending :: "mqtt_qos1_pending list"

datatype send_outcome = Send_Ok | Send_Failed | Send_Partial

record mqtt_broker =
  mb_sessions :: "mqtt_session list"
  mb_retain :: "retain_entry list"
  mb_client_count :: u8
  mb_next_packet_id :: u16
  mb_qos1_pending_bytes :: nat
  mb_net :: "nat \<Rightarrow> send_outcome"
  mb_heap :: "nat \<Rightarrow> bool"
  mb_net_pos :: nat
  mb_sent :: "(int \<times> u8 list) list"
  mb_closed :: "int list"
  mb_injected :: "(string \<times> string) list"

definition session_zero :: mqtt_session where
  "session_zero = \<lparr>ms_sock = 0, ms_task = False, ms_active = False, ms_closing = False,
     ms_retiring = False, ms_suppress_will = False, ms_reusable_after_ms = 0, ms_client_id = [],
     ms_keepalive = 0, ms_last_rx_ms = 0, ms_subs = [], ms_will = will_zero,
     ms_qos1_pending = replicate MQTT_QOS1_MAX_INFLIGHT qos1_zero\<rparr>"

definition broker_init :: "nat \<Rightarrow> (nat \<Rightarrow> send_outcome) \<Rightarrow> (nat \<Rightarrow> bool) \<Rightarrow> mqtt_broker" where
  "broker_init max_clients net heap = \<lparr>mb_sessions = replicate max_clients session_zero,
     mb_retain = replicate MQTT_RETAIN_MAX retain_entry_zero, mb_client_count = 0,
     mb_next_packet_id = 0, mb_qos1_pending_bytes = 0, mb_net = net, mb_heap = heap, mb_net_pos = 0,
     mb_sent = [], mb_closed = [], mb_injected = []\<rparr>"

definition get_session :: "nat \<Rightarrow> mqtt_broker \<Rightarrow> mqtt_session" where
  "get_session i b = mb_sessions b ! i"

definition upd_session :: "nat \<Rightarrow> (mqtt_session \<Rightarrow> mqtt_session) \<Rightarrow> mqtt_broker \<Rightarrow> mqtt_broker" where
  "upd_session i f b = b\<lparr>mb_sessions := (mb_sessions b)[i := f (mb_sessions b ! i)]\<rparr>"

section \<open>Sending\<close>

definition send_all :: "int \<Rightarrow> u8 list \<Rightarrow> mqtt_broker \<Rightarrow> int \<times> mqtt_broker" where
  "send_all sock buf b =
     (let b1 = b\<lparr>mb_net_pos := Suc (mb_net_pos b)\<rparr> in
      case mb_net b (mb_net_pos b) of
        Send_Ok \<Rightarrow> (int (length buf), b1\<lparr>mb_sent := mb_sent b @ [(sock, buf)]\<rparr>)
      | Send_Failed \<Rightarrow> (MQTT_SEND_FAILED, b1)
      | Send_Partial \<Rightarrow> (MQTT_SEND_PARTIAL_FAIL, b1))"

definition send_all_session_locked :: "nat \<Rightarrow> u8 list \<Rightarrow> mqtt_broker \<Rightarrow> int \<times> mqtt_broker" where
  "send_all_session_locked i buf b =
     (if ms_sock (get_session i b) < 0 then (-1, b) else send_all (ms_sock (get_session i b)) buf b)"

definition send_connack :: "int \<Rightarrow> u8 \<Rightarrow> mqtt_broker \<Rightarrow> int \<times> mqtt_broker" where
  "send_connack sock rc b = send_all sock (connack_packet rc) b"

definition send_suback :: "nat \<Rightarrow> u16 \<Rightarrow> u8 list \<Rightarrow> mqtt_broker \<Rightarrow> int \<times> mqtt_broker" where
  "send_suback i pid qos b = (case suback_packet pid qos of
     None \<Rightarrow> (-1, b) | Some buf \<Rightarrow> send_all_session_locked i buf b)"

definition send_puback :: "nat \<Rightarrow> u16 \<Rightarrow> mqtt_broker \<Rightarrow> int \<times> mqtt_broker" where
  "send_puback i pid b = send_all_session_locked i (puback_packet pid) b"

definition send_unsuback :: "nat \<Rightarrow> u16 \<Rightarrow> mqtt_broker \<Rightarrow> int \<times> mqtt_broker" where
  "send_unsuback i pid b = send_all_session_locked i (unsuback_packet pid) b"

definition send_pingresp :: "nat \<Rightarrow> mqtt_broker \<Rightarrow> int \<times> mqtt_broker" where
  "send_pingresp i b = send_all_session_locked i pingresp_packet b"

fun send_pieces :: "int \<Rightarrow> u8 list list \<Rightarrow> mqtt_broker \<Rightarrow> bool \<times> mqtt_broker" where
  "send_pieces sock [] b = (True, b)"
| "send_pieces sock (p # ps) b =
     (let (rc, b1) = send_all sock p b in if rc < 0 then (False, b1) else send_pieces sock ps b1)"

definition send_publish_packet_to_sock ::
  "int \<Rightarrow> string \<Rightarrow> string \<Rightarrow> u8 \<Rightarrow> bool \<Rightarrow> u16 \<Rightarrow> mqtt_broker \<Rightarrow> int \<times> mqtt_broker" where
  "send_publish_packet_to_sock sock topic payload qos retain pid b =
     (if sock < 0 then (-1, b)
      else case publish_pieces topic payload qos retain pid of
             None \<Rightarrow> (-1, b)
           | Some ps \<Rightarrow>
               (let (ok, b1) = send_pieces sock ps b
                in (if ok then int (length (concat ps)) else -1, b1)))"

section \<open>Closing\<close>

definition request_session_prepare_close_locked :: "nat \<Rightarrow> mqtt_broker \<Rightarrow> int \<times> mqtt_broker" where
  "request_session_prepare_close_locked i b =
     (let s = get_session i b;
          b1 = upd_session i (\<lambda>s. s\<lparr>ms_closing := True, ms_subs := []\<rparr>) b
      in if ms_sock s \<ge> 0 then (ms_sock s, upd_session i (\<lambda>s. s\<lparr>ms_sock := -1\<rparr>) b1) else (-1, b1))"

definition request_session_close_socket :: "int \<Rightarrow> mqtt_broker \<Rightarrow> mqtt_broker" where
  "request_session_close_socket sock b =
     (if sock < 0 then b else b\<lparr>mb_closed := mb_closed b @ [sock]\<rparr>)"

definition request_session_close_if_current :: "nat \<Rightarrow> int \<Rightarrow> mqtt_broker \<Rightarrow> mqtt_broker" where
  "request_session_close_if_current slot sock b =
     (if slot \<ge> length (mb_sessions b) then b
      else let s = get_session slot b in
        if ms_active s \<and> ms_sock s = sock
        then request_session_close_socket (ms_sock s)
               (upd_session slot (\<lambda>s. s\<lparr>ms_closing := True, ms_sock := -1\<rparr>) b)
        else b)"

section \<open>Packet ids and quality of service\<close>

definition mqtt_next_packet_id :: "mqtt_broker \<Rightarrow> u16 \<times> mqtt_broker" where
  "mqtt_next_packet_id b =
     (let n = mb_next_packet_id b + 1; pid = (if n = 0 then 1 else n)
      in (pid, b\<lparr>mb_next_packet_id := pid\<rparr>))"

definition mqtt_effective_delivery_qos :: "u8 \<Rightarrow> u8 \<Rightarrow> u8" where
  "mqtt_effective_delivery_qos publish_qos subscription_qos =
     (let p = (if publish_qos > 1 then 1 else publish_qos);
          s = (if subscription_qos > 1 then 1 else subscription_qos)
      in if p < s then p else s)"

section \<open>Unacknowledged packets\<close>

definition mqtt_qos1_free_entry_locked :: "nat \<Rightarrow> nat \<Rightarrow> mqtt_broker \<Rightarrow> mqtt_broker" where
  "mqtt_qos1_free_entry_locked i k b =
     (let entry = ms_qos1_pending (get_session i b) ! k; n = length (q_packet entry) in
      if \<not> q_in_use entry then b
      else upd_session i (\<lambda>s. s\<lparr>ms_qos1_pending := (ms_qos1_pending s)[k := qos1_zero]\<rparr>)
             (b\<lparr>mb_qos1_pending_bytes :=
                (if mb_qos1_pending_bytes b \<ge> n then mb_qos1_pending_bytes b - n else 0)\<rparr>))"

definition mqtt_qos1_clear_session_locked :: "nat \<Rightarrow> mqtt_broker \<Rightarrow> mqtt_broker" where
  "mqtt_qos1_clear_session_locked i b =
     fold (mqtt_qos1_free_entry_locked i) [0..<length (ms_qos1_pending (get_session i b))] b"

definition mqtt_qos1_pending_count :: "mqtt_session \<Rightarrow> nat" where
  "mqtt_qos1_pending_count s = length (filter q_in_use (ms_qos1_pending s))"

definition mqtt_qos1_handle_puback :: "nat \<Rightarrow> u16 \<Rightarrow> mqtt_broker \<Rightarrow> bool \<times> mqtt_broker" where
  "mqtt_qos1_handle_puback i packet_id b =
     (if packet_id = 0 then (False, b)
      else case find_index (\<lambda>e. q_in_use e \<and> q_packet_id e = packet_id)
                  (ms_qos1_pending (get_session i b)) of
             None \<Rightarrow> (False, b)
           | Some k \<Rightarrow> (True, mqtt_qos1_free_entry_locked i k b))"

text \<open>
  Sending with quality of service 1 reserves an entry under the lock and transmits afterwards; the
  second part checks that the session and the entry are still the same.
\<close>

definition session_current :: "nat \<Rightarrow> int \<Rightarrow> mqtt_broker \<Rightarrow> bool" where
  "session_current slot sock b \<longleftrightarrow> slot < length (mb_sessions b) \<and>
     ms_active (get_session slot b) \<and> \<not> ms_closing (get_session slot b) \<and>
     ms_sock (get_session slot b) = sock"

definition qos1_reserve ::
  "nat \<Rightarrow> int \<Rightarrow> int \<Rightarrow> u16 \<Rightarrow> u8 list \<Rightarrow> mqtt_broker \<Rightarrow> (int + nat) \<times> mqtt_broker" where
  "qos1_reserve slot sock now pid packet b =
     (if \<not> session_current slot sock b \<or>
         mb_qos1_pending_bytes b + length packet > MQTT_QOS1_MAX_PENDING_BYTES then (Inl (-1), b)
      else case find_index (\<lambda>e. \<not> q_in_use e) (ms_qos1_pending (get_session slot b)) of
             None \<Rightarrow> (Inl 0, b)
           | Some k \<Rightarrow>
               (Inr k, upd_session slot (\<lambda>s. s\<lparr>ms_qos1_pending := (ms_qos1_pending s)[k :=
                    \<lparr>q_in_use = True, q_packet_id = pid, q_packet = packet, q_last_send_ms = now,
                     q_send_count = 0\<rparr>]\<rparr>)
                  (b\<lparr>mb_qos1_pending_bytes := mb_qos1_pending_bytes b + length packet\<rparr>)))"

definition entry_current :: "nat \<Rightarrow> nat \<Rightarrow> u8 list \<Rightarrow> mqtt_broker \<Rightarrow> bool" where
  "entry_current slot k packet b \<longleftrightarrow>
     (let e = ms_qos1_pending (get_session slot b) ! k in q_in_use e \<and> q_packet e = packet)"

definition set_send_count :: "nat \<Rightarrow> nat \<Rightarrow> u32 \<Rightarrow> mqtt_broker \<Rightarrow> mqtt_broker" where
  "set_send_count slot k n = upd_session slot (\<lambda>s. s\<lparr>ms_qos1_pending :=
     (ms_qos1_pending s)[k := (ms_qos1_pending s ! k)\<lparr>q_send_count := n\<rparr>]\<rparr>)"

definition qos1_transmit :: "nat \<Rightarrow> int \<Rightarrow> nat \<Rightarrow> u8 list \<Rightarrow> mqtt_broker \<Rightarrow> int \<times> mqtt_broker" where
  "qos1_transmit slot sock k packet b =
     (if \<not> session_current slot sock b \<or> \<not> entry_current slot k packet b then (-1, b)
      else let (rc, b1) = send_all sock packet b;
               b2 = (if rc \<ge> 0 \<and> session_current slot sock b1 \<and> entry_current slot k packet b1
                     then set_send_count slot k 1 b1 else b1)
           in if rc = MQTT_SEND_PARTIAL_FAIL then (rc, request_session_close_if_current slot sock b2)
              else if rc < 0 then (int (length packet), b2) else (rc, b2))"

definition send_qos1_publish_to_session_slot ::
  "nat \<Rightarrow> int \<Rightarrow> int \<Rightarrow> string \<Rightarrow> string \<Rightarrow> bool \<Rightarrow> u16 \<Rightarrow> mqtt_broker \<Rightarrow> int \<times> mqtt_broker" where
  "send_qos1_publish_to_session_slot slot sock now topic payload retain pid b =
     (case build_qos1_publish_packet (mb_heap b (mb_net_pos b)) topic payload retain pid of
        None \<Rightarrow> (-1, b)
      | Some packet \<Rightarrow>
          (case qos1_reserve slot sock now pid packet b of
             (Inl rc, b1) \<Rightarrow> (rc, b1)
           | (Inr k, b1) \<Rightarrow> qos1_transmit slot sock k packet b1))"

definition send_publish_packet_to_session_slot ::
  "nat \<Rightarrow> int \<Rightarrow> int \<Rightarrow> string \<Rightarrow> string \<Rightarrow> u8 \<Rightarrow> bool \<Rightarrow> u16 \<Rightarrow> mqtt_broker \<Rightarrow> int \<times> mqtt_broker" where
  "send_publish_packet_to_session_slot slot sock now topic payload qos retain pid b =
     (if slot \<ge> length (mb_sessions b) \<or> sock < 0 then (-1, b)
      else if qos = 1 then send_qos1_publish_to_session_slot slot sock now topic payload retain pid b
      else if \<not> session_current slot sock b then (-1, b)
      else let (rc, b1) = send_publish_packet_to_sock sock topic payload qos retain pid b
           in (rc, if rc < 0 then request_session_close_if_current slot sock b1 else b1))"

text \<open>
  The retry of overdue packets: the loop over the entries ends after the first entry that is due.
\<close>

definition qos1_entry_due :: "int \<Rightarrow> mqtt_qos1_pending \<Rightarrow> bool" where
  "qos1_entry_due now e \<longleftrightarrow> q_in_use e \<and> \<not> (now - q_last_send_ms e < MQTT_QOS1_RETRY_MS)"

definition qos1_retry_entry :: "nat \<Rightarrow> int \<Rightarrow> int \<Rightarrow> nat \<Rightarrow> mqtt_broker \<Rightarrow> mqtt_broker" where
  "qos1_retry_entry i sock now k b =
     (let e = ms_qos1_pending (get_session i b) ! k;
          packet = (q_packet e)[0 := q_packet e ! 0 OR 0x08];
          b1 = upd_session i (\<lambda>s. s\<lparr>ms_qos1_pending := (ms_qos1_pending s)[k :=
                 e\<lparr>q_packet := packet, q_last_send_ms := now\<rparr>]\<rparr>) b
      in if q_send_count e \<ge> MQTT_QOS1_MAX_SEND_ATTEMPTS then request_session_close_if_current i sock b1
         else let (rc, b2) = send_all sock packet b1
              in if rc = MQTT_SEND_PARTIAL_FAIL then request_session_close_if_current i sock b2
                 else if rc = MQTT_SEND_FAILED then b2
                 else if session_current i sock b2 \<and> entry_current i k packet b2
                 then set_send_count i k (q_send_count e + 1) b2 else b2)"

definition mqtt_qos1_retry_due :: "nat \<Rightarrow> int \<Rightarrow> mqtt_broker \<Rightarrow> mqtt_broker" where
  "mqtt_qos1_retry_due i now b =
     (let s = get_session i b in
      if i \<ge> length (mb_sessions b) \<or> ms_sock s < 0 \<or> ms_closing s then b
      else if \<not> ms_active s then b
      else case find_index (qos1_entry_due now) (ms_qos1_pending s) of
             None \<Rightarrow> b
           | Some k \<Rightarrow> qos1_retry_entry i (ms_sock s) now k b)"

section \<open>The session table\<close>

definition reset_session_runtime_fields :: "mqtt_session \<Rightarrow> mqtt_session" where
  "reset_session_runtime_fields s = s\<lparr>ms_sock := -1, ms_task := False, ms_active := False,
     ms_closing := False, ms_retiring := False, ms_suppress_will := False, ms_reusable_after_ms := 0,
     ms_client_id := [], ms_keepalive := 0, ms_last_rx_ms := 0, ms_subs := [], ms_will := will_zero,
     ms_qos1_pending := replicate MQTT_QOS1_MAX_INFLIGHT qos1_zero\<rparr>"

definition reap_session :: "int \<Rightarrow> mqtt_session \<Rightarrow> mqtt_session" where
  "reap_session now s =
     (if \<not> ms_active s \<and> ms_retiring s \<and> now \<ge> ms_reusable_after_ms s
      then s\<lparr>ms_retiring := False, ms_task := False, ms_reusable_after_ms := 0\<rparr> else s)"

definition reap_retired_session_slots_locked :: "int \<Rightarrow> mqtt_broker \<Rightarrow> mqtt_broker" where
  "reap_retired_session_slots_locked now b = b\<lparr>mb_sessions := map (reap_session now) (mb_sessions b)\<rparr>"

definition alloc_session :: "int \<Rightarrow> mqtt_broker \<Rightarrow> nat option \<times> mqtt_broker" where
  "alloc_session now b =
     (let b1 = reap_retired_session_slots_locked now b in
      case find_index (\<lambda>s. \<not> ms_active s \<and> \<not> ms_retiring s) (mb_sessions b1) of
        None \<Rightarrow> (None, b1)
      | Some i \<Rightarrow> (Some i, (upd_session i (\<lambda>s. (reset_session_runtime_fields s)
                     \<lparr>ms_active := True, ms_last_rx_ms := now\<rparr>) b1)
                   \<lparr>mb_client_count := mb_client_count b1 + 1\<rparr>))"

definition find_session_by_client_id :: "string \<Rightarrow> mqtt_broker \<Rightarrow> nat option" where
  "find_session_by_client_id client_id b =
     (if client_id = [] then None
      else find_index (\<lambda>s. ms_active s \<and> \<not> ms_closing s \<and> \<not> ms_retiring s \<and> ms_client_id s = client_id)
             (mb_sessions b))"

text \<open>\<open>own_task\<close> tells whether the caller is the task of the session.\<close>

definition free_session :: "bool \<Rightarrow> int \<Rightarrow> nat \<Rightarrow> mqtt_broker \<Rightarrow> mqtt_broker" where
  "free_session own_task now i b =
     (if ms_task (get_session i b) \<and> \<not> own_task
      then upd_session i (\<lambda>s. s\<lparr>ms_suppress_will := True, ms_closing := True\<rparr>) b
      else let b1 = mqtt_qos1_clear_session_locked i b;
               close_sock = ms_sock (get_session i b1);
               b2 = upd_session i (\<lambda>s. s\<lparr>ms_sock := -1, ms_task := False, ms_closing := True,
                      ms_suppress_will := True, ms_subs := [], ms_will := will_zero\<rparr>) b1;
               b3 = request_session_close_socket close_sock b2;
               b4 = upd_session i (\<lambda>s. s\<lparr>ms_active := False, ms_closing := False, ms_retiring := True,
                      ms_reusable_after_ms := now + MQTT_SESSION_REUSE_DELAY_MS\<rparr>) b3
           in b4\<lparr>mb_client_count := (if mb_client_count b4 > 0 then mb_client_count b4 - 1
                                     else mb_client_count b4)\<rparr>)"

definition idle_limit_ms :: "mqtt_session \<Rightarrow> int" where
  "idle_limit_ms s = (if ms_keepalive s > 0 then int (unat (ms_keepalive s)) * 1500 else 60000)"

definition sweep_session :: "int \<Rightarrow> nat \<Rightarrow> mqtt_broker \<Rightarrow> mqtt_broker" where
  "sweep_session now i b =
     (let s = get_session i b in
      if \<not> ms_active s then b
      else if now - ms_last_rx_ms s \<ge> idle_limit_ms s
      then (let (close_sock, b1) = request_session_prepare_close_locked i b
            in request_session_close_socket close_sock b1)
      else b)"

definition sweep_idle_sessions :: "int \<Rightarrow> mqtt_broker \<Rightarrow> mqtt_broker" where
  "sweep_idle_sessions now b = fold (sweep_session now) [0..<length (mb_sessions b)] b"

definition mqtt_core_client_count :: "mqtt_broker \<Rightarrow> u8" where
  "mqtt_core_client_count b = mb_client_count b"

definition mqtt_core_get_client_stats :: "mqtt_broker \<Rightarrow> u8" where
  "mqtt_core_get_client_stats b = of_nat (length (filter ms_active (mb_sessions b)))"

section \<open>Publishing\<close>

record publish_target =
  pt_slot :: nat
  pt_sock :: int
  pt_qos :: u8
  pt_pid :: u16

text \<open>The scan of the sessions, under the lock; the first matching subscription of a session counts.\<close>

fun collect_targets ::
  "string \<Rightarrow> u8 \<Rightarrow> nat option \<Rightarrow> nat list \<Rightarrow> mqtt_broker \<Rightarrow> publish_target list \<times> mqtt_broker" where
  "collect_targets topic qos exclude [] b = ([], b)"
| "collect_targets topic qos exclude (i # is) b =
     (let s = get_session i b in
      if \<not> ms_active s \<or> ms_closing s \<or> ms_sock s < 0 \<or> exclude = Some i
      then collect_targets topic qos exclude is b
      else case find (\<lambda>f. topic_matches_filter (sub_topic f) topic) (ms_subs s) of
             None \<Rightarrow> collect_targets topic qos exclude is b
           | Some f \<Rightarrow>
               (let out_qos = mqtt_effective_delivery_qos qos (sub_qos f);
                    (pid, b1) = (if out_qos \<noteq> 0 then mqtt_next_packet_id b else (0, b));
                    (ts, b2) = collect_targets topic qos exclude is b1
                in (\<lparr>pt_slot = i, pt_sock = ms_sock s, pt_qos = out_qos, pt_pid = pid\<rparr> # ts, b2)))"

definition send_to_target ::
  "int \<Rightarrow> string \<Rightarrow> string \<Rightarrow> bool \<Rightarrow> publish_target \<Rightarrow> mqtt_broker \<Rightarrow> mqtt_broker" where
  "send_to_target now topic payload retain_flag t b =
     snd (send_publish_packet_to_session_slot (pt_slot t) (pt_sock t) now topic payload (pt_qos t)
            retain_flag (pt_pid t) b)"

definition publish_to_subscribers ::
  "int \<Rightarrow> string \<Rightarrow> string \<Rightarrow> u8 \<Rightarrow> bool \<Rightarrow> nat option \<Rightarrow> mqtt_broker \<Rightarrow> mqtt_broker" where
  "publish_to_subscribers now topic payload qos retain_flag exclude b =
     (let b1 = (if retain_flag then b\<lparr>mb_retain := retain_store topic payload qos (mb_retain b)\<rparr> else b);
          (targets, b2) = collect_targets topic qos exclude [0..<length (mb_sessions b)] b1
      in fold (send_to_target now topic payload retain_flag) targets b2)"

text \<open>Retained messages for a new subscription; the first failed send ends the loop.\<close>

fun deliver_retain_loop ::
  "nat \<Rightarrow> int \<Rightarrow> int \<Rightarrow> string \<Rightarrow> u8 \<Rightarrow> nat list \<Rightarrow> mqtt_broker \<Rightarrow> mqtt_broker" where
  "deliver_retain_loop i sock now flt subscription_qos [] b = b"
| "deliver_retain_loop i sock now flt subscription_qos (k # ks) b =
     (let e = mb_retain b ! k in
      if \<not> re_in_use e \<or> \<not> topic_matches_filter flt (re_topic e)
      then deliver_retain_loop i sock now flt subscription_qos ks b
      else let delivery_qos = mqtt_effective_delivery_qos (re_qos e) subscription_qos;
               (pid, b1) = (if delivery_qos \<noteq> 0 then mqtt_next_packet_id b else (0, b));
               (rc, b2) = send_publish_packet_to_session_slot i sock now (re_topic e) (re_payload e)
                            delivery_qos True pid b1
           in if rc < 0 then b2 else deliver_retain_loop i sock now flt subscription_qos ks b2)"

definition deliver_retain :: "nat \<Rightarrow> int \<Rightarrow> string \<Rightarrow> u8 \<Rightarrow> mqtt_broker \<Rightarrow> mqtt_broker" where
  "deliver_retain i now flt subscription_qos b =
     (let sock = ms_sock (get_session i b) in
      if sock < 0 then b
      else deliver_retain_loop i sock now flt subscription_qos [0..<length (mb_retain b)] b)"

definition send_will_if_needed :: "nat \<Rightarrow> int \<Rightarrow> mqtt_broker \<Rightarrow> mqtt_broker" where
  "send_will_if_needed i now b =
     (let s = get_session i b; w = ms_will s in
      if w_has w \<and> \<not> ms_suppress_will s
      then publish_to_subscribers now (w_topic w) (w_payload w) (w_qos w) (w_retain w) (Some i) b
      else b)"

end
