(* ===== verification/Mqtt_Broker.thy ===== *)
theory Mqtt_Broker
  imports Mqtt_Session
begin

unbundle bit_operations_syntax

text \<open>
  The packet handlers and the life of a connection (\<open>mqtt_core/mqtt_core_protocol.c\<close>,
  \<open>mqtt_core_server.c\<close>).  The configured users are an argument.  A packet is the list of its bytes;
  the byte behind the packet is the NUL that the client task writes there.
\<close>

definition MQTT_CONNACK_ACCEPTED :: u8 where "MQTT_CONNACK_ACCEPTED = 0"
definition MQTT_CONNACK_IDENTIFIER_REJECTED :: u8 where "MQTT_CONNACK_IDENTIFIER_REJECTED = 2"
definition MQTT_CONNACK_SERVER_UNAVAILABLE :: u8 where "MQTT_CONNACK_SERVER_UNAVAILABLE = 3"
definition MQTT_CONNACK_BAD_USERNAME_PASSWORD :: u8 where "MQTT_CONNACK_BAD_USERNAME_PASSWORD = 4"
definition MQTT_CONNACK_NOT_AUTHORIZED :: u8 where "MQTT_CONNACK_NOT_AUTHORIZED = 5"
definition QUEST_DEVICE_MAX_DEVICES :: nat where "QUEST_DEVICE_MAX_DEVICES = 20"

section \<open>Who may connect\<close>

record app_mqtt_user =
  u_client_id :: string
  u_username :: string
  u_password :: string

definition mqtt_authenticate_client :: "app_mqtt_user list \<Rightarrow> string \<Rightarrow> string \<Rightarrow> string \<Rightarrow> bool" where
  "mqtt_authenticate_client users client_id username password \<longleftrightarrow> users = [] \<or>
     list_ex (\<lambda>u. u_client_id u = client_id \<and> u_username u = username \<and> u_password u = password) users"

definition mqtt_is_device_contract_client_id :: "string \<Rightarrow> bool" where
  "mqtt_is_device_contract_client_id client_id =
     (if client_id = [] then False
      else if starts_with dcc_prefix client_id \<and> length client_id > length dcc_prefix then True
      else \<not> acl_is_static_client_id client_id)"

definition mqtt_active_device_client_count_locked :: "string option \<Rightarrow> mqtt_broker \<Rightarrow> nat" where
  "mqtt_active_device_client_count_locked exclude_client_id b =
     length (filter (\<lambda>s. ms_active s \<and> \<not> ms_closing s \<and> \<not> ms_retiring s \<and> ms_client_id s \<noteq> [] \<and>
         exclude_client_id \<noteq> Some (ms_client_id s) \<and>
         mqtt_is_device_contract_client_id (ms_client_id s)) (mb_sessions b))"

definition mqtt_device_client_capacity_available_locked :: "string \<Rightarrow> nat option \<Rightarrow> mqtt_broker \<Rightarrow> bool" where
  "mqtt_device_client_capacity_available_locked client_id replacement b \<longleftrightarrow>
     \<not> mqtt_is_device_contract_client_id client_id \<or>
     mqtt_active_device_client_count_locked (if replacement \<noteq> None then Some client_id else None) b
       < QUEST_DEVICE_MAX_DEVICES"

section \<open>Subscriptions\<close>

definition mqtt_upsert_subscription :: "nat \<Rightarrow> string \<Rightarrow> u8 \<Rightarrow> mqtt_broker \<Rightarrow> u8 option \<times> mqtt_broker" where
  "mqtt_upsert_subscription i topic requested_qos b =
     (let granted_qos = (if requested_qos > 1 then 1 else requested_qos); subs = ms_subs (get_session i b) in
      if topic = [] then (None, b)
      else case find_index (\<lambda>f. sub_topic f = topic) subs of
             Some k \<Rightarrow> (Some granted_qos, upd_session i (\<lambda>s. s\<lparr>ms_subs :=
                 (ms_subs s)[k := (ms_subs s ! k)\<lparr>sub_qos := granted_qos\<rparr>]\<rparr>) b)
           | None \<Rightarrow>
               (if length subs \<ge> MQTT_MAX_SUBS then (None, b)
                else (Some granted_qos, upd_session i (\<lambda>s. s\<lparr>ms_subs := ms_subs s @
                       [\<lparr>sub_topic = take (MQTT_MAX_TOPIC - 1) topic, sub_qos = granted_qos\<rparr>]\<rparr>) b)))"

definition byte_at :: "u8 list \<Rightarrow> nat \<Rightarrow> u8" where
  "byte_at buf off = (if off < length buf then buf ! off else 0)"

text \<open>
  The loop over the requested filters.  It runs at most \<open>MQTT_MAX_SUBS\<close> times; \<open>None\<close> is a
  malformed packet.
\<close>

fun subscribe_loop ::
  "nat \<Rightarrow> nat \<Rightarrow> int \<Rightarrow> u8 list \<Rightarrow> nat \<Rightarrow> u8 list \<Rightarrow> mqtt_broker \<Rightarrow> u8 list option \<times> mqtt_broker" where
  "subscribe_loop 0 i now buf off granted b = (Some granted, b)"
| "subscribe_loop (Suc n) i now buf off granted b =
     (if off + 3 > length buf then (Some granted, b)
      else case parse_utf8_str buf off MQTT_MAX_TOPIC of
             None \<Rightarrow> (None, b)
           | Some (raw, off') \<Rightarrow>
               (let topic = cstr raw; rqos = byte_at buf off' in
                if \<not> acl_can_subscribe (ms_client_id (get_session i b)) topic
                then subscribe_loop n i now buf (off' + 1) (granted @ [0x80]) b
                else case mqtt_upsert_subscription i topic rqos b of
                       (Some q, b1) \<Rightarrow>
                         subscribe_loop n i now buf (off' + 1) (granted @ [q]) (deliver_retain i now topic q b1)
                     | (None, b1) \<Rightarrow> subscribe_loop n i now buf (off' + 1) (granted @ [0x80]) b1))"

definition handle_subscribe :: "nat \<Rightarrow> int \<Rightarrow> u8 list \<Rightarrow> mqtt_broker \<Rightarrow> int \<times> mqtt_broker" where
  "handle_subscribe i now buf b =
     (if length buf < 2 then (-1, b)
      else let pid = bytes_u16 (buf ! 0) (buf ! 1) in
        case subscribe_loop MQTT_MAX_SUBS i now buf 2 [] b of
          (None, b1) \<Rightarrow> (-1, b1)
        | (Some granted, b1) \<Rightarrow> send_suback i pid granted b1)"

lemma parse_utf8_str_progress: "parse_utf8_str buf off n = Some (raw, off') \<Longrightarrow> off < off' \<and> off' \<le> length buf"
  by (auto simp: parse_utf8_str_def Let_def split: if_splits)

function unsubscribe_loop :: "nat \<Rightarrow> u8 list \<Rightarrow> nat \<Rightarrow> mqtt_broker \<Rightarrow> bool \<times> mqtt_broker" where
  "unsubscribe_loop i buf off b =
     (if off + 2 > length buf then (True, b)
      else case parse_utf8_str buf off MQTT_MAX_TOPIC of
             None \<Rightarrow> (False, b)
           | Some (raw, off') \<Rightarrow> unsubscribe_loop i buf off'
               (upd_session i (\<lambda>s. s\<lparr>ms_subs := filter (\<lambda>f. sub_topic f \<noteq> cstr raw) (ms_subs s)\<rparr>) b))"
  by pat_completeness auto
termination
  by (relation "measure (\<lambda>(i, buf, off, b). length buf - off)")
    (auto dest: parse_utf8_str_progress)

declare unsubscribe_loop.simps [simp del]

definition handle_unsubscribe :: "nat \<Rightarrow> u8 list \<Rightarrow> mqtt_broker \<Rightarrow> int \<times> mqtt_broker" where
  "handle_unsubscribe i buf b =
     (if length buf < 2 then (-1, b)
      else let pid = bytes_u16 (buf ! 0) (buf ! 1) in
        case unsubscribe_loop i buf 2 b of
          (False, b1) \<Rightarrow> (-1, b1)
        | (True, b1) \<Rightarrow> send_unsuback i pid b1)"

section \<open>Publishing and acknowledging\<close>

definition handle_publish :: "nat \<Rightarrow> int \<Rightarrow> u8 \<Rightarrow> u8 list \<Rightarrow> mqtt_broker \<Rightarrow> int \<times> mqtt_broker" where
  "handle_publish i now header buf b =
     (case parse_publish header buf of
        None \<Rightarrow> (-1, b)
      | Some f \<Rightarrow>
          (if \<not> acl_can_publish (ms_client_id (get_session i b)) (pf_topic f)
           then (0, if pf_qos f = 1 then snd (send_puback i (pf_pid f) b) else b)
           else if length buf - pf_payload_offset f \<ge> MQTT_MAX_PAYLOAD then (-1, b)
           else let payload = cstr (drop (pf_payload_offset f) buf);
                    (rc, b1) = (if pf_qos f = 1 then send_puback i (pf_pid f) b else (0, b))
                in if rc < 0 then (-1, b1)
                   else (0, publish_to_subscribers now (pf_topic f) payload (pf_qos f) (pf_retain f) None
                          (b1\<lparr>mb_injected := mb_injected b1 @ [(pf_topic f, payload)]\<rparr>))))"

definition handle_puback :: "nat \<Rightarrow> u8 list \<Rightarrow> mqtt_broker \<Rightarrow> int \<times> mqtt_broker" where
  "handle_puback i buf b =
     (if length buf \<noteq> 2 then (-1, b)
      else let packet_id = bytes_u16 (buf ! 0) (buf ! 1) in
        if packet_id = 0 then (-1, b) else (0, snd (mqtt_qos1_handle_puback i packet_id b)))"

section \<open>Connecting\<close>

text \<open>Reading the will and the credentials behind the client id, in the order of the packet.\<close>

definition connect_will ::
  "nat \<Rightarrow> u8 list \<Rightarrow> u8 \<Rightarrow> nat \<Rightarrow> mqtt_broker \<Rightarrow> nat option \<times> mqtt_broker" where
  "connect_will i buf flags off b =
     (if flags AND 0x04 = 0 then (Some off, b)
      else case parse_utf8_str buf off MQTT_MAX_TOPIC of
             None \<Rightarrow> (None, b)
           | Some (t, off1) \<Rightarrow>
               (let b1 = upd_session i (\<lambda>s. s\<lparr>ms_will := (ms_will s)\<lparr>w_topic := cstr t\<rparr>\<rparr>) b in
                case parse_utf8_str buf off1 MQTT_MAX_PAYLOAD of
                  None \<Rightarrow> (None, b1)
                | Some (p, off2) \<Rightarrow>
                    (Some off2, upd_session i (\<lambda>s. s\<lparr>ms_will := (ms_will s)\<lparr>w_payload := cstr p,
                       w_has := True, w_qos := drop_bit 3 flags AND 0x03,
                       w_retain := (flags AND 0x20 \<noteq> 0)\<rparr>\<rparr>) b1)))"

definition connect_field :: "u8 list \<Rightarrow> bool \<Rightarrow> nat \<Rightarrow> nat \<Rightarrow> (string \<times> nat) option" where
  "connect_field buf present off out_len =
     (if \<not> present then Some ([], off)
      else map_option (\<lambda>(raw, off'). (cstr raw, off')) (parse_utf8_str buf off out_len))"

definition connect_credentials :: "app_mqtt_user list \<Rightarrow> string \<Rightarrow> u8 list \<Rightarrow> u8 \<Rightarrow> nat \<Rightarrow> u8" where
  "connect_credentials users client_id buf flags off =
     (case connect_field buf (flags AND 0x80 \<noteq> 0) off CONFIG_STORE_USERNAME_MAX of
        None \<Rightarrow> MQTT_CONNACK_BAD_USERNAME_PASSWORD
      | Some (username, off1) \<Rightarrow>
          (case connect_field buf (flags AND 0x40 \<noteq> 0) off1 CONFIG_STORE_PASSWORD_MAX of
             None \<Rightarrow> MQTT_CONNACK_BAD_USERNAME_PASSWORD
           | Some (password, _) \<Rightarrow>
               (if mqtt_authenticate_client users client_id username password
                then MQTT_CONNACK_ACCEPTED else MQTT_CONNACK_NOT_AUTHORIZED)))"

definition take_over :: "nat \<Rightarrow> nat option \<Rightarrow> mqtt_broker \<Rightarrow> int \<times> mqtt_broker" where
  "take_over i old b =
     (case old of
        None \<Rightarrow> (-1, b)
      | Some j \<Rightarrow> (if j = i then (-1, b)
                   else request_session_prepare_close_locked j
                          (upd_session j (\<lambda>s. s\<lparr>ms_suppress_will := True\<rparr>) b)))"

definition handle_connect ::
  "app_mqtt_user list \<Rightarrow> nat \<Rightarrow> int \<Rightarrow> u8 list \<Rightarrow> mqtt_broker \<Rightarrow> u8 \<times> mqtt_broker" where
  "handle_connect users i now buf b =
     (case parse_utf8_str buf 0 8 of
        None \<Rightarrow> (MQTT_CONNACK_IDENTIFIER_REJECTED, b)
      | Some (proto, off) \<Rightarrow>
          (if cstr proto \<noteq> ''MQTT'' \<and> cstr proto \<noteq> ''MQIsdp'' then (MQTT_CONNACK_IDENTIFIER_REJECTED, b)
           else if off + 4 > length buf then (MQTT_CONNACK_IDENTIFIER_REJECTED, b)
           else let lvl = buf ! off; flags = buf ! (off + 1);
                    keepalive = bytes_u16 (buf ! (off + 2)) (buf ! (off + 3)) in
             case mqtt_parse_connect_client_id buf CONFIG_STORE_CLIENT_ID_MAX of
               None \<Rightarrow> (MQTT_CONNACK_IDENTIFIER_REJECTED, b)
             | Some client_id \<Rightarrow>
                 (if lvl \<noteq> 4 then (MQTT_CONNACK_IDENTIFIER_REJECTED, b)
                  else let old = find_session_by_client_id client_id b in
                    if \<not> mqtt_device_client_capacity_available_locked client_id old b
                    then (MQTT_CONNACK_SERVER_UNAVAILABLE, b)
                    else let (old_sock, b1) = take_over i old b;
                             b2 = request_session_close_socket old_sock
                                    (upd_session i (\<lambda>s. s\<lparr>ms_client_id := client_id\<rparr>) b1);
                             b3 = upd_session i (\<lambda>s. s\<lparr>ms_keepalive := keepalive, ms_last_rx_ms := now\<rparr>) b2
                         in case connect_will i buf flags (off + 4 + 2 + length client_id) b3 of
                              (None, b4) \<Rightarrow> (MQTT_CONNACK_IDENTIFIER_REJECTED, b4)
                            | (Some off', b4) \<Rightarrow> (connect_credentials users client_id buf flags off', b4))))"

section \<open>The life of a connection\<close>

definition client_cleanup :: "nat \<Rightarrow> int \<Rightarrow> mqtt_broker \<Rightarrow> mqtt_broker" where
  "client_cleanup i now b = free_session True now i (send_will_if_needed i now b)"

text \<open>The first packet.  \<open>None\<close> stands for a packet that could not be read.\<close>

definition client_connect ::
  "app_mqtt_user list \<Rightarrow> nat \<Rightarrow> int \<Rightarrow> (u8 \<times> u8 list) option \<Rightarrow> mqtt_broker \<Rightarrow> bool \<times> mqtt_broker" where
  "client_connect users i now packet b =
     (case packet of
        None \<Rightarrow> (False, client_cleanup i now b)
      | Some (header, pkt) \<Rightarrow>
          (let (rc, b1) = (if drop_bit 4 header = 1 then handle_connect users i now pkt b else (2, b));
               b2 = snd (send_connack (ms_sock (get_session i b1)) rc b1)
           in if rc \<noteq> 0 then (False, client_cleanup i now b2) else (True, b2)))"

text \<open>One round of the loop for a received packet; \<open>False\<close> ends the connection.\<close>

definition client_dispatch :: "nat \<Rightarrow> int \<Rightarrow> u8 \<Rightarrow> u8 list \<Rightarrow> mqtt_broker \<Rightarrow> bool \<times> mqtt_broker" where
  "client_dispatch i now header pkt b =
     (let t = drop_bit 4 header in
      if t = 3 then (let (rc, b1) = handle_publish i now header pkt b in (rc = 0, b1))
      else if t = 4 then (let (rc, b1) = handle_puback i pkt b in (rc \<ge> 0, b1))
      else if t = 8 then (let (rc, b1) = handle_subscribe i now pkt b in (rc \<ge> 0, b1))
      else if t = 10 then (let (rc, b1) = handle_unsubscribe i pkt b in (rc \<ge> 0, b1))
      else if t = 12 then (True, snd (send_pingresp i b))
      else if t = 14 then (False, upd_session i (\<lambda>s. s\<lparr>ms_suppress_will := True\<rparr>) b)
      else (False, b))"

definition client_packet :: "nat \<Rightarrow> int \<Rightarrow> u8 \<Rightarrow> u8 list \<Rightarrow> mqtt_broker \<Rightarrow> bool \<times> mqtt_broker" where
  "client_packet i now header pkt b =
     (let (ok, b1) = client_dispatch i now header pkt (upd_session i (\<lambda>s. s\<lparr>ms_last_rx_ms := now\<rparr>) b) in
      if \<not> ok then (False, client_cleanup i now b1)
      else let b2 = mqtt_qos1_retry_due i now b1; s = get_session i b2 in
        if ms_keepalive s > 0 \<and> now - ms_last_rx_ms s \<ge> idle_limit_ms s
        then (False, client_cleanup i now b2) else (True, b2))"

text \<open>A round without a packet: the socket was closed, or the receive timed out.\<close>

definition client_no_packet :: "nat \<Rightarrow> int \<Rightarrow> bool \<Rightarrow> mqtt_broker \<Rightarrow> bool \<times> mqtt_broker" where
  "client_no_packet i now timed_out b =
     (if ms_closing (get_session i b) \<or> \<not> timed_out then (False, client_cleanup i now b)
      else let b1 = mqtt_qos1_retry_due i now b; s = get_session i b1 in
        if now - ms_last_rx_ms s \<ge> idle_limit_ms s then (False, client_cleanup i now b1) else (True, b1))"

text \<open>
  A new connection.  When the table is full the CONNECT packet is read only to close the session
  of the same client, and the connection is refused.  \<open>task_ok\<close> is the creation of the task.
\<close>

definition evict_duplicate_client_from_full_pool :: "(u8 \<times> u8 list) option \<Rightarrow> mqtt_broker \<Rightarrow> bool \<times> mqtt_broker" where
  "evict_duplicate_client_from_full_pool packet b =
     (case packet of
        None \<Rightarrow> (False, b)
      | Some (header, pkt) \<Rightarrow>
          (if drop_bit 4 header \<noteq> 1 then (False, b)
           else case mqtt_parse_connect_client_id pkt CONFIG_STORE_CLIENT_ID_MAX of
                  None \<Rightarrow> (False, b)
                | Some client_id \<Rightarrow>
                    (case find_session_by_client_id client_id b of
                       None \<Rightarrow> (False, b)
                     | Some j \<Rightarrow>
                         (let (old_sock, b1) = request_session_prepare_close_locked j
                                (upd_session j (\<lambda>s. s\<lparr>ms_suppress_will := True\<rparr>) b)
                          in (True, request_session_close_socket old_sock b1)))))"

definition accept_connection ::
  "int \<Rightarrow> int \<Rightarrow> bool \<Rightarrow> (u8 \<times> u8 list) option \<Rightarrow> mqtt_broker \<Rightarrow> nat option \<times> mqtt_broker" where
  "accept_connection now sock task_ok packet b =
     (case alloc_session now b of
        (None, b1) \<Rightarrow>
          (None, request_session_close_socket sock (snd (evict_duplicate_client_from_full_pool packet b1)))
      | (Some i, b1) \<Rightarrow>
          (let b2 = upd_session i (\<lambda>s. s\<lparr>ms_sock := sock\<rparr>) b1 in
           if \<not> task_ok then (None, free_session False now i (request_session_close_socket sock b2))
           else (Some i, upd_session i (\<lambda>s. s\<lparr>ms_task := True\<rparr>) b2)))"

definition mqtt_core_publish_qos :: "int \<Rightarrow> string \<Rightarrow> string \<Rightarrow> u8 \<Rightarrow> mqtt_broker \<Rightarrow> esp_err \<times> mqtt_broker" where
  "mqtt_core_publish_qos now topic payload qos b =
     (if qos > 1 then (ESP_ERR_NOT_SUPPORTED, b)
      else (ESP_OK, publish_to_subscribers now topic payload qos False None b))"

definition mqtt_core_publish :: "int \<Rightarrow> string \<Rightarrow> string \<Rightarrow> mqtt_broker \<Rightarrow> esp_err \<times> mqtt_broker" where
  "mqtt_core_publish now topic payload b = mqtt_core_publish_qos now topic payload 0 b"

end
