(* ===== verification/Mqtt_Codec.thy ===== *)
theory Mqtt_Codec
  imports Mqtt_Packet
begin

unbundle bit_operations_syntax

text \<open>
  Round trips of the packet codec: the remaining length, 16-bit numbers, strings and whole PUBLISH
  packets read back what was written.
\<close>

section \<open>Seven-bit groups\<close>

lemma low7_and:
  assumes "(x :: u8) < 128"
  shows "x AND 127 = x" and "x AND 128 = 0" and "(x OR 128) AND 127 = x" and "(x OR 128) AND 128 \<noteq> 0"
proof -
  have "unat x < 2 ^ 7" using assms by (simp add: word_less_nat_alt)
  then have "unat (take_bit 7 x) = unat x" by (simp add: unsigned_take_bit_eq take_bit_nat_eq_self)
  then have t: "take_bit 7 x = x" by (rule unsigned_word_eqI)
  have m: "127 = (mask 7 :: u8)" by (simp add: mask_eq_exp_minus_1)
  have p: "128 = (2 ^ 7 :: u8)" by simp
  have b: "\<not> bit x 7" by (subst t [symmetric]) (simp add: bit_take_bit_iff)
  show "x AND 127 = x" using t unfolding m take_bit_eq_mask .
  show "x AND 128 = 0" using b by (simp only: p and_exp_eq_0_iff_not_bit not_False_eq_True)
  show "(x OR 128) AND 128 \<noteq> 0"
    by (simp only: p and_exp_eq_0_iff_not_bit) (simp add: bit_or_iff bit_exp_iff)
  have "take_bit 7 (x OR 2 ^ 7) = x"
    using t by (simp add: take_bit_or)
  then show "(x OR 128) AND 127 = x" unfolding m p take_bit_eq_mask .
qed

lemma group_byte_less: "(of_nat (n mod 128) :: u8) < 128"
  by (simp add: word_less_nat_alt unat_of_nat)

lemma unat_group_byte: "unat (of_nat (n mod 128) :: u8) = n mod 128"
  using mod_less_divisor [of 128 n] by (simp add: unat_of_nat)

lemma read_encode_loop:
  assumes "n < 128 ^ k" and "0 < k" and "k \<le> slots" and "m * 128 ^ k \<le> 128 ^ 3"
  shows "read_remaining_loop m v (encode_remaining_loop slots n @ rest) = Some (v + n * m, rest)"
  using assms
proof (induction k arbitrary: n m v slots)
  case (Suc k)
  obtain s where slots: "slots = Suc s" using Suc.prems by (cases slots) auto
  have small: "m * 128 \<le> 128 ^ 3"
    using Suc.prems(4) le_trans [of m "m * 128 ^ k" "128 ^ 2"] by (simp add: algebra_simps)
  let ?b = "of_nat (n mod 128) :: u8"
  note byte = low7_and [OF group_byte_less [of n]] unat_group_byte [of n]
  show ?case
  proof (cases "n div 128 > 0")
    case True
    then have "0 < k" using Suc.prems(1) by (cases k) (auto simp: div_eq_0_iff)
    moreover have "n div 128 < 128 ^ k" using Suc.prems(1) by (simp add: less_mult_imp_div_less mult.commute)
    ultimately have "read_remaining_loop (m * 128) (v + n mod 128 * m)
        (encode_remaining_loop s (n div 128) @ rest) = Some (v + n mod 128 * m + n div 128 * (m * 128), rest)"
      using Suc.prems slots by (intro Suc.IH) (simp_all add: algebra_simps)
    moreover have "n mod 128 * m + n div 128 * (m * 128) = n * m"
    proof -
      have "(n div 128 * 128 + n mod 128) * m = n * m" by (simp only: div_mult_mod_eq)
      then show ?thesis unfolding distrib_right by (simp only: ac_simps)
    qed
    ultimately show ?thesis using True small slots byte by (simp add: Let_def add.assoc)
  next
    case False
    then have "n mod 128 = n" by (simp add: div_eq_0_iff)
    then show ?thesis using False small slots byte by (simp add: Let_def)
  qed
qed simp

lemma read_encode_length:
  "n < 128 ^ 3 \<Longrightarrow> read_remaining_length (encode_remaining_length n @ rest) = Some (n, rest)"
  using read_encode_loop [of n 3 4 1 0 rest]
  by (simp add: read_remaining_length_def encode_remaining_length_def)

text \<open>
  The remaining length survives the wire.  For every length below \<open>128^3\<close>, thus for every
  packet the broker accepts, decoding the encoded length gives the length and leaves the following
  bytes unread; longer lengths are refused by the decoder.
\<close>

theorem remaining_length_roundtrip:
  assumes "n < 128 ^ 3"
  shows "read_remaining_length (encode_remaining_length n @ rest) = Some (n, rest)"
  by (rule read_encode_length [OF assms])

theorem remaining_length_roundtrip_witness:
  "read_remaining_length (encode_remaining_length 321 @ [7]) = Some (321, [7])"
  by (rule remaining_length_roundtrip) simp

section \<open>Numbers and strings\<close>

lemma u16_roundtrip: "bytes_u16 (ucast (drop_bit 8 n)) (ucast (n AND 0xFF)) = n"
proof -
  have m: "0xFF = (mask 8 :: u16)" by (simp add: mask_eq_exp_minus_1)
  show ?thesis
  proof (rule bit_word_eqI)
    fix i assume i: "i < LENGTH(16)"
    show "bit (bytes_u16 (ucast (drop_bit 8 n)) (ucast (n AND 0xFF))) i = bit n i"
      using i by (cases "i < 8")
        (auto simp: bytes_u16_def m bit_or_iff bit_push_bit_iff bit_ucast_iff bit_drop_bit_eq bit_and_iff
          bit_mask_iff bit_imp_le_length)
  qed
qed

lemma of_char_less: "(of_char c :: nat) < 256"
  using of_char_of [of "of_char c :: nat"] mod_less_divisor [of 256 "of_char c :: nat"] by simp

lemma unat_char_byte: "unat (of_nat (of_char c) :: u8) = of_char c"
  using of_char_less [of c] by (simp add: unat_of_nat)

lemma char_byte_zero: "(of_nat (of_char c) :: u8) = 0 \<longleftrightarrow> c = CHR 0x00"
proof -
  have "(of_nat (of_char c) :: u8) = 0 \<longleftrightarrow> of_char c = (of_char (CHR 0x00) :: nat)"
    using unat_char_byte [of c] by (simp add: unat_eq_0 [symmetric])
  also have "\<dots> \<longleftrightarrow> c = CHR 0x00" by (metis char_of_char)
  finally show ?thesis .
qed

lemma cstr_str_bytes: "c_string s \<Longrightarrow> cstr (str_bytes s) = s"
  by (induction s) (auto simp: cstr_def str_bytes_def c_string_def char_byte_zero unat_char_byte)

lemma length_str_bytes [simp]: "length (str_bytes s) = length s"
  by (simp add: str_bytes_def)


section \<open>PUBLISH packets\<close>

lemma encode_short: "n < 128 \<Longrightarrow> encode_remaining_length n = [of_nat n]"
  using encode_remaining_loop.simps(2) [of 3 n] by (simp add: encode_remaining_length_def)

lemma length_encode_loop: "length (encode_remaining_loop slots n) \<le> slots"
  by (induction slots n rule: encode_remaining_loop.induct) (auto simp: Let_def)

lemma read_packet_frame:
  assumes "length body \<le> MQTT_MAX_PACKET"
  shows "read_packet (h # encode_remaining_length (length body) @ body @ rest) = Some (h, body, rest)"
proof -
  have "length body < 128 ^ 3" using assms by (simp add: MQTT_MAX_PACKET_def)
  then show ?thesis
    using assms by (simp add: read_packet_def recv_all_def read_encode_length)
qed

lemma publish_header_fields:
  "drop_bit 1 ((0x32 :: u8) OR (if r then 1 else 0)) AND 3 = 1"
  "((0x32 :: u8) OR (if r then 1 else 0)) AND 1 \<noteq> 0 \<longleftrightarrow> r"
  by (cases r; simp)+

text \<open>The body of a packet with quality of service 1 is parsed back.\<close>

lemma parse_publish_body:
  assumes "c_string topic" and "length topic < MQTT_MAX_TOPIC" and "pid \<noteq> 0"
  shows "parse_publish (0x32 OR (if retain then 0x01 else 0x00))
      (u16_bytes (of_nat (length topic)) @ str_bytes topic @ u16_bytes pid @ payload) =
    Some \<lparr>pf_topic = topic, pf_qos = 1, pf_retain = retain, pf_pid = pid,
      pf_payload_offset = 4 + length topic\<rparr>"
proof -
  let ?buf = "u16_bytes (of_nat (length topic)) @ str_bytes topic @ u16_bytes pid @ payload"
  have len: "unat (bytes_u16 (?buf ! 0) (?buf ! 1)) = length topic"
    using assms(2) by (simp add: u16_bytes_def u16_roundtrip unat_of_nat MQTT_MAX_TOPIC_def)
  have pid: "bytes_u16 (?buf ! (2 + length topic)) (?buf ! (2 + length topic + 1)) = pid"
    by (simp add: u16_bytes_def nth_append u16_roundtrip)
  have topic: "cstr (take (length topic) (drop 2 ?buf)) = topic"
    using assms(1) by (simp add: u16_bytes_def cstr_str_bytes)
  have size: "length ?buf = 4 + length topic + length payload" by (simp add: u16_bytes_def)
  show ?thesis
    unfolding parse_publish_def Let_def len size publish_header_fields topic
    using assms(2,3) by (simp add: pid [simplified])
qed

text \<open>
  C30: a published message survives the wire.  The bytes that the broker builds for a message with
  quality of service 1, followed by anything, are read by the client task as exactly one packet,
  and parsing it yields the topic, the retain flag and the packet id, with the payload as the rest of
  the packet.
\<close>

theorem publish_packet_roundtrip:
  assumes "c_string topic" and "c_string payload" and "length topic < MQTT_MAX_TOPIC"
    and "build_qos1_publish_packet heap_ok topic payload retain pid = Some packet"
  shows "\<exists>h body f. read_packet (packet @ rest) = Some (h, body, rest) \<and> parse_publish h body = Some f \<and>
    pf_topic f = topic \<and> pf_qos f = 1 \<and> pf_retain f = retain \<and> pf_pid f = pid \<and>
    cstr (drop (pf_payload_offset f) body) = payload"
proof -
  let ?body = "u16_bytes (of_nat (length topic)) @ str_bytes topic @ u16_bytes pid @ str_bytes payload"
  let ?h = "0x32 OR (if retain then 0x01 else 0x00) :: u8"
  have size: "length ?body = 2 + length topic + 2 + length payload" by (simp add: u16_bytes_def)
  have pid: "pid \<noteq> 0" and small: "length ?body \<le> MQTT_MAX_PACKET"
    and packet: "packet = [?h] @ encode_remaining_length (length ?body) @ ?body"
    using assms(4) unfolding size by (simp_all add: build_qos1_publish_packet_def Let_def split: if_splits)
  have "read_packet (packet @ rest) = Some (?h, ?body, rest)"
    using read_packet_frame [OF small, of ?h rest] by (simp add: packet)
  moreover have "cstr (drop (4 + length topic) ?body) = payload"
  proof -
    have "4 + length topic =
        length (u16_bytes (of_nat (length topic)) @ str_bytes topic @ u16_bytes pid)"
      by (simp add: u16_bytes_def)
    then have "drop (4 + length topic) ?body = str_bytes payload"
      by (metis append.assoc append_eq_conv_conj)
    then show ?thesis using assms(2) by (simp add: cstr_str_bytes)
  qed
  ultimately show ?thesis
    using parse_publish_body [OF assms(1,3) pid, of retain "str_bytes payload"] by auto
qed

theorem publish_packet_roundtrip_witness:
  "\<exists>packet h body f. build_qos1_publish_packet True ''relay/cmd'' ''on'' True 300 = Some packet \<and>
    read_packet (packet @ [1, 2]) = Some (h, body, [1, 2]) \<and> parse_publish h body = Some f \<and>
    pf_topic f = ''relay/cmd'' \<and> cstr (drop (pf_payload_offset f) body) = ''on''"
proof -
  have "build_qos1_publish_packet True ''relay/cmd'' ''on'' True 300 \<noteq> None"
    by (simp add: build_qos1_publish_packet_def encode_short MQTT_MAX_PACKET_def)
  then obtain packet where p: "build_qos1_publish_packet True ''relay/cmd'' ''on'' True 300 = Some packet"
    by blast
  show ?thesis
    using publish_packet_roundtrip [OF _ _ _ p, of "[1, 2]"] p
    by (simp add: c_string_def MQTT_MAX_TOPIC_def) blast
qed

end
