(* ===== verification/Mqtt_Broker_Props.thy ===== *)
theory Mqtt_Broker_Props
  imports Mqtt_Broker Mqtt_Codec
begin

unbundle bit_operations_syntax

text \<open>
  Invariants of the broker's session table: the bytes of unacknowledged packets are accounted for
  and bounded, a free slot holds no packet, and the client count is the number of active sessions.
  \<open>broker_key\<close> is the part of the state these depend on; most operations leave it alone.
\<close>

section \<open>The key of a broker state\<close>

definition sess_key :: "mqtt_session \<Rightarrow> bool \<times> (bool \<times> nat) list" where
  "sess_key s = (ms_active s, map (\<lambda>e. (q_in_use e, length (q_packet e))) (ms_qos1_pending s))"

definition broker_key :: "mqtt_broker \<Rightarrow> (bool \<times> (bool \<times> nat) list) list \<times> nat \<times> u8" where
  "broker_key b = (map sess_key (mb_sessions b), mb_qos1_pending_bytes b, mb_client_count b)"

named_theorems key_simps \<open>operations that keep the key\<close>

definition key_bytes :: "bool \<times> (bool \<times> nat) list \<Rightarrow> nat" where
  "key_bytes k = sum_list (map (\<lambda>(u, n). if u then n else 0) (snd k))"

definition key_ok :: "(bool \<times> (bool \<times> nat) list) list \<times> nat \<times> u8 \<Rightarrow> bool" where
  "key_ok k \<longleftrightarrow> (case k of (ss, bytes, count) \<Rightarrow>
     bytes = sum_list (map key_bytes ss) \<and> bytes \<le> MQTT_QOS1_MAX_PENDING_BYTES \<and>
     (\<forall>s \<in> set ss. fst s \<or> list_all (Not \<circ> fst) (snd s)) \<and>
     unat count = length (filter fst ss))"

definition broker_ok :: "mqtt_broker \<Rightarrow> bool" where
  "broker_ok b \<longleftrightarrow> key_ok (broker_key b)"

lemma broker_ok_cong: "broker_key b' = broker_key b \<Longrightarrow> broker_ok b' = broker_ok b"
  by (simp add: broker_ok_def)

lemma key_upd_session:
  "(i < length (mb_sessions b) \<Longrightarrow> sess_key (f (mb_sessions b ! i)) = sess_key (mb_sessions b ! i)) \<Longrightarrow>
   broker_key (upd_session i f b) = broker_key b"
  by (cases "i < length (mb_sessions b)")
    (simp_all add: broker_key_def upd_session_def map_update list_update_beyond
      list_update_same_conv)

lemma key_plain_upd [key_simps]:
  "broker_key (upd_session i (\<lambda>s. s\<lparr>ms_sock := sk\<rparr>) b) = broker_key b"
  "broker_key (upd_session i (\<lambda>s. s\<lparr>ms_task := tk\<rparr>) b) = broker_key b"
  "broker_key (upd_session i (\<lambda>s. s\<lparr>ms_client_id := c\<rparr>) b) = broker_key b"
  "broker_key (upd_session i (\<lambda>s. s\<lparr>ms_last_rx_ms := t\<rparr>) b) = broker_key b"
  "broker_key (upd_session i (\<lambda>s. s\<lparr>ms_keepalive := ka, ms_last_rx_ms := t\<rparr>) b) = broker_key b"
  "broker_key (upd_session i (\<lambda>s. s\<lparr>ms_suppress_will := w\<rparr>) b) = broker_key b"
  "broker_key (upd_session i (\<lambda>s. s\<lparr>ms_closing := cl, ms_sock := sk\<rparr>) b) = broker_key b"
  "broker_key (upd_session i (\<lambda>s. s\<lparr>ms_closing := cl, ms_subs := sb\<rparr>) b) = broker_key b"
  "broker_key (upd_session i (\<lambda>s. s\<lparr>ms_suppress_will := w, ms_closing := cl\<rparr>) b) = broker_key b"
  "broker_key (upd_session i (\<lambda>s. s\<lparr>ms_subs := g s\<rparr>) b) = broker_key b"
  "broker_key (upd_session i (\<lambda>s. s\<lparr>ms_will := h s\<rparr>) b) = broker_key b"
  by (rule key_upd_session, simp add: sess_key_def)+

lemma key_record_upd [key_simps]:
  "broker_key (b\<lparr>mb_sent := x\<rparr>) = broker_key b" "broker_key (b\<lparr>mb_closed := y\<rparr>) = broker_key b"
  "broker_key (b\<lparr>mb_net_pos := n\<rparr>) = broker_key b" "broker_key (b\<lparr>mb_retain := r\<rparr>) = broker_key b"
  "broker_key (b\<lparr>mb_injected := z\<rparr>) = broker_key b"
  "broker_key (b\<lparr>mb_next_packet_id := p\<rparr>) = broker_key b"
  by (simp_all add: broker_key_def)

lemma key_send_all [key_simps]: "broker_key (snd (send_all sock buf b)) = broker_key b"
  by (simp add: send_all_def Let_def key_simps split: send_outcome.split)

lemma key_send_session [key_simps]: "broker_key (snd (send_all_session_locked i buf b)) = broker_key b"
  by (simp add: send_all_session_locked_def key_simps)

lemma key_sends [key_simps]:
  "broker_key (snd (send_connack sock rc b)) = broker_key b"
  "broker_key (snd (send_suback i pid qs b)) = broker_key b"
  "broker_key (snd (send_puback i pid b)) = broker_key b"
  "broker_key (snd (send_unsuback i pid b)) = broker_key b"
  "broker_key (snd (send_pingresp i b)) = broker_key b"
  by (simp_all add: send_connack_def send_suback_def send_puback_def send_unsuback_def
      send_pingresp_def key_simps split: option.split)

lemma key_send_pieces [key_simps]: "broker_key (snd (send_pieces sock ps b)) = broker_key b"
proof (induction ps arbitrary: b)
  case (Cons p ps)
  obtain rc b1 where s: "send_all sock p b = (rc, b1)" by force
  have "broker_key b1 = broker_key b" using key_send_all [of sock p b] s by simp
  with Cons s show ?case by simp
qed simp

lemma key_send_sock [key_simps]:
  "broker_key (snd (send_publish_packet_to_sock sock topic payload qos retain pid b)) = broker_key b"
  by (simp add: send_publish_packet_to_sock_def case_prod_beta key_simps split: option.split)

lemma key_close [key_simps]:
  "broker_key (request_session_close_socket sock b) = broker_key b"
  "broker_key (snd (request_session_prepare_close_locked i b)) = broker_key b"
  "broker_key (request_session_close_if_current slot sock b) = broker_key b"
proof -
  show c: "broker_key (request_session_close_socket sock b) = broker_key b" for sock b
    by (simp add: request_session_close_socket_def key_simps)
  show "broker_key (snd (request_session_prepare_close_locked i b)) = broker_key b"
    by (simp add: request_session_prepare_close_locked_def Let_def key_simps)
  show "broker_key (request_session_close_if_current slot sock b) = broker_key b"
    by (simp add: request_session_close_if_current_def Let_def c key_simps)
qed

lemma key_next_pid [key_simps]: "broker_key (snd (mqtt_next_packet_id b)) = broker_key b"
  by (simp add: mqtt_next_packet_id_def Let_def key_simps)

lemma key_set_send_count [key_simps]: "broker_key (set_send_count slot k n b) = broker_key b"
proof -
  have "map (\<lambda>e. (q_in_use e, length (q_packet e))) (es[k := (es ! k)\<lparr>q_send_count := n\<rparr>]) =
      map (\<lambda>e. (q_in_use e, length (q_packet e))) es" for es
    by (cases "k < length es") (simp_all add: map_update list_update_same_conv list_update_beyond)
  then show ?thesis unfolding set_send_count_def by (intro key_upd_session) (simp add: sess_key_def)
qed

lemma key_transmit [key_simps]: "broker_key (snd (qos1_transmit slot sock k packet b)) = broker_key b"
proof -
  obtain rc b1 where s: "send_all sock packet b = (rc, b1)" by force
  have "broker_key b1 = broker_key b" using key_send_all [of sock packet b] s by simp
  then show ?thesis by (simp add: qos1_transmit_def s Let_def key_simps)
qed

lemma key_retry [key_simps]: "broker_key (mqtt_qos1_retry_due i now b) = broker_key b"
proof -
  have "broker_key (qos1_retry_entry i sock now k b) = broker_key b" for sock k
  proof -
    let ?e = "ms_qos1_pending (get_session i b) ! k"
    let ?p = "(q_packet ?e)[0 := q_packet ?e ! 0 OR 0x08]"
    let ?b = "upd_session i (\<lambda>s. s\<lparr>ms_qos1_pending := (ms_qos1_pending s)[k :=
      ?e\<lparr>q_packet := ?p, q_last_send_ms := now\<rparr>]\<rparr>) b"
    have "broker_key ?b = broker_key b"
      by (rule key_upd_session)
        (cases "k < length (ms_qos1_pending (mb_sessions b ! i))",
          simp_all add: sess_key_def get_session_def map_update list_update_same_conv list_update_beyond)
    moreover obtain rc b2 where s: "send_all sock ?p ?b = (rc, b2)" by force
    moreover have "broker_key b2 = broker_key ?b" using key_send_all [of sock ?p ?b] s by simp
    ultimately show ?thesis by (simp add: qos1_retry_entry_def Let_def key_simps)
  qed
  then show ?thesis by (simp add: mqtt_qos1_retry_due_def Let_def split: option.split)
qed


section \<open>Operations on the unacknowledged packets\<close>

lemma sum_list_update_nat:
  "i < length xs \<Longrightarrow> sum_list (xs[i := x]) + xs ! i = sum_list xs + (x :: nat)"
  by (induction xs arbitrary: i) (auto split: nat.split simp: nth_Cons)

lemma filter_update_count:
  "i < length xs \<Longrightarrow> length (filter P (xs[i := x])) + (if P (xs ! i) then 1 else 0) =
   length (filter P xs) + (if P x then 1 else 0)"
proof (induction xs arbitrary: i)
  case (Cons y ys)
  show ?case
  proof (cases i)
    case (Suc j)
    then show ?thesis using Cons.IH [of j] Cons.prems by simp
  qed simp
qed simp

lemma key_bytes_le: "i < length ss \<Longrightarrow> key_bytes (ss ! i) \<le> sum_list (map key_bytes ss)"
  by (simp add: member_le_sum_list)

text \<open>The key of slot \<open>i\<close> changes; its bytes are charged.\<close>

lemma broker_ok_slot:
  assumes "broker_ok b" and "i < length (mb_sessions b)"
    and "map sess_key (mb_sessions b') = (map sess_key (mb_sessions b))[i := k]"
    and "mb_qos1_pending_bytes b' + key_bytes (sess_key (mb_sessions b ! i)) =
      mb_qos1_pending_bytes b + key_bytes k"
    and "mb_qos1_pending_bytes b' \<le> MQTT_QOS1_MAX_PENDING_BYTES"
    and "fst k \<or> list_all (Not \<circ> fst) (snd k)"
    and "unat (mb_client_count b') + (if ms_active (mb_sessions b ! i) then 1 else 0) =
      unat (mb_client_count b) + (if fst k then 1 else 0)"
  shows "broker_ok b'"
proof -
  let ?ss = "map sess_key (mb_sessions b)"
  have i: "i < length ?ss" "?ss ! i = sess_key (mb_sessions b ! i)" using assms(2) by simp_all
  have old: "mb_qos1_pending_bytes b = sum_list (map key_bytes ?ss)"
    "\<forall>s \<in> set ?ss. fst s \<or> list_all (Not \<circ> fst) (snd s)"
    "unat (mb_client_count b) = length (filter fst ?ss)"
    using assms(1) by (simp_all add: broker_ok_def key_ok_def broker_key_def del: set_map)
  have "sum_list (map key_bytes (?ss[i := k])) + key_bytes (?ss ! i) =
      sum_list (map key_bytes ?ss) + key_bytes k"
    using sum_list_update_nat [of i "map key_bytes ?ss" "key_bytes k"] i(1) by (simp add: map_update)
  then have "mb_qos1_pending_bytes b' = sum_list (map key_bytes (?ss[i := k]))"
    using assms(4) old(1) i(2) by simp
  moreover have "length (filter fst (?ss[i := k])) + (if fst (?ss ! i) then 1 else 0) =
      length (filter fst ?ss) + (if fst k then 1 else 0)"
    by (rule filter_update_count [OF i(1)])
  moreover have "\<forall>s \<in> set (?ss[i := k]). fst s \<or> list_all (Not \<circ> fst) (snd s)"
    using old(2) assms(6) set_update_subset_insert [of ?ss i k] by blast
  ultimately show ?thesis
    using assms(3,5,7) old(3) i(2)
    by (simp add: broker_ok_def key_ok_def broker_key_def sess_key_def)
qed


definition pending_key :: "mqtt_qos1_pending \<Rightarrow> bool \<times> nat" where
  "pending_key e = (q_in_use e, length (q_packet e))"

lemma sess_key_pending:
  "sess_key (s\<lparr>ms_qos1_pending := (ms_qos1_pending s)[k := e]\<rparr>) =
   (ms_active s, (snd (sess_key s))[k := pending_key e])"
  by (simp add: sess_key_def map_update pending_key_def)

lemma key_bytes_update:
  assumes "k < length ps"
  shows "key_bytes (a, ps[k := (u, n)]) + (if fst (ps ! k) then snd (ps ! k) else 0) =
    key_bytes (a, ps) + (if u then n else 0)"
  using sum_list_update_nat [of k "map (\<lambda>(u, n). if u then n else 0) ps" "if u then n else 0"] assms
  by (simp add: key_bytes_def map_update case_prod_beta)

text \<open>Replacing entry \<open>k\<close> of slot \<open>i\<close> by \<open>e\<close> and charging the difference.\<close>

lemma broker_ok_entry:
  assumes "broker_ok b" and "i < length (mb_sessions b)"
    and "k < length (ms_qos1_pending (mb_sessions b ! i))"
    and "ms_active (mb_sessions b ! i) \<or> \<not> q_in_use e"
    and "bytes + (if q_in_use (ms_qos1_pending (mb_sessions b ! i) ! k)
                  then length (q_packet (ms_qos1_pending (mb_sessions b ! i) ! k)) else 0) =
      mb_qos1_pending_bytes b + (if q_in_use e then length (q_packet e) else 0)"
    and "bytes \<le> MQTT_QOS1_MAX_PENDING_BYTES"
  shows "broker_ok (upd_session i (\<lambda>s. s\<lparr>ms_qos1_pending := (ms_qos1_pending s)[k := e]\<rparr>)
    (b\<lparr>mb_qos1_pending_bytes := bytes\<rparr>))"
proof (rule broker_ok_slot [OF assms(1,2)])
  let ?s = "mb_sessions b ! i"
  let ?k = "(ms_active ?s, (snd (sess_key ?s))[k := pending_key e])"
  let ?b = "upd_session i (\<lambda>s. s\<lparr>ms_qos1_pending := (ms_qos1_pending s)[k := e]\<rparr>)
    (b\<lparr>mb_qos1_pending_bytes := bytes\<rparr>)"
  show "map sess_key (mb_sessions ?b) = (map sess_key (mb_sessions b))[i := ?k]"
    by (simp add: upd_session_def map_update sess_key_pending)
  have "key_bytes ?k + (if fst (snd (sess_key ?s) ! k) then snd (snd (sess_key ?s) ! k) else 0) =
      key_bytes (ms_active ?s, snd (sess_key ?s)) + (if q_in_use e then length (q_packet e) else 0)"
    unfolding pending_key_def by (rule key_bytes_update) (use assms(3) in \<open>simp add: sess_key_def\<close>)
  moreover have "key_bytes (ms_active ?s, snd (sess_key ?s)) = key_bytes (sess_key ?s)"
    by (simp add: key_bytes_def)
  moreover have "snd (sess_key ?s) ! k = pending_key (ms_qos1_pending ?s ! k)"
    using assms(3) by (simp add: sess_key_def pending_key_def)
  ultimately show "mb_qos1_pending_bytes ?b + key_bytes (sess_key ?s) = mb_qos1_pending_bytes b + key_bytes ?k"
    using assms(5) by (simp add: upd_session_def pending_key_def split: if_splits)
  have "fst (sess_key ?s) \<or> list_all (Not \<circ> fst) (snd (sess_key ?s))"
    using assms(1,2) by (auto simp: broker_ok_def key_ok_def broker_key_def)
  then show "fst ?k \<or> list_all (Not \<circ> fst) (snd ?k)"
    using assms(4) set_update_subset_insert [of "snd (sess_key ?s)" k "pending_key e"]
    by (auto simp: sess_key_def pending_key_def list_all_iff)
qed (use assms(6) in \<open>simp_all add: upd_session_def\<close>)

lemma pending_bytes_le:
  assumes "broker_ok b" and "i < length (mb_sessions b)"
    and "k < length (ms_qos1_pending (mb_sessions b ! i))" and "q_in_use (ms_qos1_pending (mb_sessions b ! i) ! k)"
  shows "length (q_packet (ms_qos1_pending (mb_sessions b ! i) ! k)) \<le> mb_qos1_pending_bytes b"
proof -
  let ?ps = "snd (sess_key (mb_sessions b ! i))"
  have k: "k < length ?ps" using assms(3) by (simp add: sess_key_def)
  have "(if fst (?ps ! k) then snd (?ps ! k) else 0) \<le> key_bytes (sess_key (mb_sessions b ! i))"
    using elem_le_sum_list [of k "map (\<lambda>(u, n). if u then n else 0) ?ps"] k
    by (simp add: key_bytes_def case_prod_beta)
  also have "\<dots> \<le> sum_list (map key_bytes (map sess_key (mb_sessions b)))"
    using key_bytes_le [of i "map sess_key (mb_sessions b)"] assms(2) by simp
  also have "\<dots> = mb_qos1_pending_bytes b"
    using assms(1) by (simp add: broker_ok_def key_ok_def broker_key_def)
  finally show ?thesis using assms(3,4) by (simp add: sess_key_def)
qed

lemma free_entry_ok:
  assumes "broker_ok b" and "i < length (mb_sessions b)"
    and "k < length (ms_qos1_pending (mb_sessions b ! i))"
  shows "broker_ok (mqtt_qos1_free_entry_locked i k b)"
proof (cases "q_in_use (ms_qos1_pending (mb_sessions b ! i) ! k)")
  case True
  have "mb_qos1_pending_bytes b \<le> MQTT_QOS1_MAX_PENDING_BYTES"
    using assms(1) by (simp add: broker_ok_def key_ok_def broker_key_def)
  then show ?thesis
    using True pending_bytes_le [OF assms True]
    by (simp add: mqtt_qos1_free_entry_locked_def Let_def get_session_def)
      (intro broker_ok_entry assms, simp_all add: qos1_zero_def)
qed (simp add: mqtt_qos1_free_entry_locked_def get_session_def assms(1))


section \<open>Operations that keep the table\<close>

text \<open>The invariant together with the activity of the slots, which only connecting and freeing change.\<close>

definition broker_at :: "bool list \<Rightarrow> mqtt_broker \<Rightarrow> bool" where
  "broker_at act b \<longleftrightarrow> broker_ok b \<and> map ms_active (mb_sessions b) = act"

named_theorems at_intros \<open>operations that keep the invariant and the activity\<close>

lemma broker_at_length: "broker_at act b \<Longrightarrow> length (mb_sessions b) = length act"
  by (auto simp: broker_at_def)

lemma key_active: "broker_key b' = broker_key b \<Longrightarrow> map ms_active (mb_sessions b') = map ms_active (mb_sessions b)"
proof -
  assume "broker_key b' = broker_key b"
  then have "map fst (map sess_key (mb_sessions b')) = map fst (map sess_key (mb_sessions b))"
    by (simp add: broker_key_def)
  then show ?thesis by (simp add: sess_key_def comp_def)
qed

lemma broker_at_key: "broker_key b' = broker_key b \<Longrightarrow> broker_at act b \<Longrightarrow> broker_at act b'"
  using key_active [of b' b] broker_ok_cong [of b' b] by (simp add: broker_at_def)

lemma active_upd: "(\<And>s. ms_active (f s) = ms_active s) \<Longrightarrow>
  map ms_active (mb_sessions (upd_session i f b)) = map ms_active (mb_sessions b)"
  by (cases "i < length (mb_sessions b)")
    (simp_all add: upd_session_def map_update list_update_same_conv list_update_beyond)

lemma at_reserve [at_intros]:
  assumes "broker_at act b"
  shows "broker_at act (snd (qos1_reserve slot sock now pid packet b))"
proof (cases "find_index (\<lambda>e. \<not> q_in_use e) (ms_qos1_pending (get_session slot b))")
  case None
  then show ?thesis using assms by (simp add: qos1_reserve_def)
next
  case (Some k)
  note k = find_index_SomeD [OF Some]
  show ?thesis
  proof (cases "session_current slot sock b \<and>
      mb_qos1_pending_bytes b + length packet \<le> MQTT_QOS1_MAX_PENDING_BYTES")
    case True
    let ?e = "\<lparr>q_in_use = True, q_packet_id = pid, q_packet = packet, q_last_send_ms = now, q_send_count = 0\<rparr>"
    let ?b = "upd_session slot (\<lambda>s. s\<lparr>ms_qos1_pending := (ms_qos1_pending s)[k := ?e]\<rparr>)
      (b\<lparr>mb_qos1_pending_bytes := mb_qos1_pending_bytes b + length packet\<rparr>)"
    have "broker_ok ?b"
      using True k assms
      by (intro broker_ok_entry) (simp_all add: broker_at_def session_current_def get_session_def)
    moreover have "map ms_active (mb_sessions ?b) = map ms_active (mb_sessions b)"
      by (subst active_upd) simp_all
    ultimately show ?thesis
      using True assms by (simp add: qos1_reserve_def Some broker_at_def)
  qed (use assms in \<open>auto simp: qos1_reserve_def\<close>)
qed

lemma at_send_qos1 [at_intros]:
  assumes "broker_at act b"
  shows "broker_at act (snd (send_qos1_publish_to_session_slot slot sock now topic payload retain pid b))"
proof -
  have "broker_at act (snd (case qos1_reserve slot sock now pid packet b of (Inl rc, b1) \<Rightarrow> (rc, b1)
      | (Inr k, b1) \<Rightarrow> qos1_transmit slot sock k packet b1))" for packet
    using at_reserve [OF assms, of slot sock now pid packet]
    by (auto split: prod.split sum.split intro: broker_at_key [OF key_transmit])
  then show ?thesis using assms by (simp add: send_qos1_publish_to_session_slot_def split: option.split)
qed

lemma at_send_slot [at_intros]:
  assumes "broker_at act b"
  shows "broker_at act (snd (send_publish_packet_to_session_slot slot sock now topic payload qos retain pid b))"
proof -
  have "broker_at act (snd (send_publish_packet_to_sock sock topic payload qos retain pid b))"
    by (rule broker_at_key [OF key_send_sock assms])
  then show ?thesis
    using assms at_send_qos1 [OF assms]
    by (simp add: send_publish_packet_to_session_slot_def case_prod_beta Let_def
        broker_at_key [OF key_close(3)])
qed

lemma at_collect:
  "broker_at act b \<Longrightarrow> broker_at act (snd (collect_targets topic qos ex js b))"
proof (induction js arbitrary: b)
  case (Cons i js)
  have "broker_at act (snd (if q \<noteq> 0 then mqtt_next_packet_id b else (0, b)))" for q :: u8
    using Cons.prems broker_at_key [OF key_next_pid Cons.prems] by simp
  then show ?case using Cons by (simp add: case_prod_beta Let_def split: option.split)
qed simp

lemma at_fold: "broker_at act b \<Longrightarrow> (\<And>x b. broker_at act b \<Longrightarrow> broker_at act (f x b)) \<Longrightarrow> broker_at act (fold f xs b)"
  by (induction xs arbitrary: b) simp_all

lemma at_publish [at_intros]:
  assumes "broker_at act b"
  shows "broker_at act (publish_to_subscribers now topic payload qos retain_flag exclude b)"
proof -
  let ?b = "if retain_flag then b\<lparr>mb_retain := retain_store topic payload qos (mb_retain b)\<rparr> else b"
  have "broker_at act ?b" using assms broker_at_key [OF key_record_upd(4) assms] by simp
  then have "broker_at act (snd (collect_targets topic qos exclude [0..<length (mb_sessions b)] ?b))"
    by (rule at_collect)
  then show ?thesis
    unfolding publish_to_subscribers_def Let_def case_prod_beta
    by (rule at_fold) (simp add: send_to_target_def at_send_slot)
qed

lemma at_retain_loop:
  "broker_at act b \<Longrightarrow> broker_at act (deliver_retain_loop i sock now flt q ks b)"
proof (induction ks arbitrary: b)
  case (Cons k ks)
  have p: "broker_at act (snd (if q \<noteq> 0 then mqtt_next_packet_id b else (0, b)))" for q :: u8
    using Cons.prems broker_at_key [OF key_next_pid Cons.prems] by simp
  show ?case using Cons at_send_slot [OF p] by (simp add: case_prod_beta Let_def)
qed simp

lemma at_deliver_retain [at_intros]: "broker_at act b \<Longrightarrow> broker_at act (deliver_retain i now flt q b)"
  by (simp add: deliver_retain_def Let_def at_retain_loop)

lemma at_will [at_intros]: "broker_at act b \<Longrightarrow> broker_at act (send_will_if_needed i now b)"
  by (simp add: send_will_if_needed_def Let_def at_publish)


section \<open>Handlers\<close>

lemma at_free_entry:
  assumes "broker_at act b" and "i < length act" and "k < length (ms_qos1_pending (mb_sessions b ! i))"
  shows "broker_at act (mqtt_qos1_free_entry_locked i k b)"
proof -
  have "broker_ok (mqtt_qos1_free_entry_locked i k b)"
    using assms broker_at_length [OF assms(1)] by (intro free_entry_ok) (simp_all add: broker_at_def)
  moreover have "map ms_active (mb_sessions (mqtt_qos1_free_entry_locked i k b)) = map ms_active (mb_sessions b)"
    by (simp add: mqtt_qos1_free_entry_locked_def Let_def active_upd)
  ultimately show ?thesis using assms(1) by (simp add: broker_at_def)
qed

lemma at_puback:
  assumes "broker_at act b" and "i < length act"
  shows "broker_at act (snd (handle_puback i buf b))"
proof -
  have "broker_at act (snd (mqtt_qos1_handle_puback i pid b))" for pid
    using assms by (auto simp: mqtt_qos1_handle_puback_def get_session_def split: option.split
        dest!: find_index_SomeD intro: at_free_entry)
  then show ?thesis using assms by (simp add: handle_puback_def Let_def)
qed

lemma at_handle_publish:
  assumes "broker_at act b"
  shows "broker_at act (snd (handle_publish i now header buf b))"
proof -
  have p: "broker_at act (snd (send_puback i pid b))" for pid by (rule broker_at_key [OF key_sends(3) assms])
  have q: "broker_at act (snd (if c then send_puback i pid b else (0, b)))" for c pid using p assms by simp
  show ?thesis
    using assms p
    by (simp add: handle_publish_def case_prod_beta Let_def q at_publish
        broker_at_key [OF key_record_upd(5)] split: option.split)
qed

lemma key_upsert [key_simps]: "broker_key (snd (mqtt_upsert_subscription i topic q b)) = broker_key b"
  by (simp add: mqtt_upsert_subscription_def Let_def key_simps split: option.split)

lemma at_subscribe_loop:
  "broker_at act b \<Longrightarrow> broker_at act (snd (subscribe_loop n i now buf off granted b))"
proof (induction n arbitrary: off granted b)
  case (Suc n)
  have u: "broker_at act (snd (mqtt_upsert_subscription i topic q b))" for topic q
    by (rule broker_at_key [OF key_upsert Suc.prems])
  show ?case
    using Suc by (simp add: case_prod_beta Let_def u at_deliver_retain split: option.split)
qed simp

lemma at_handle_subscribe:
  assumes "broker_at act b"
  shows "broker_at act (snd (handle_subscribe i now buf b))"
  using at_subscribe_loop [OF assms, of MQTT_MAX_SUBS i now buf 2 "[]"] assms
  by (auto simp: handle_subscribe_def Let_def split: prod.split option.split
      intro: broker_at_key [OF key_sends(2)])

lemma key_unsubscribe_loop: "broker_key (snd (unsubscribe_loop i buf off b)) = broker_key b"
proof (induction i buf off b rule: unsubscribe_loop.induct)
  case (1 i buf off b)
  then show ?case
    by (subst unsubscribe_loop.simps) (simp add: key_simps split: option.split prod.split)
qed

lemma at_handle_unsubscribe:
  assumes "broker_at act b"
  shows "broker_at act (snd (handle_unsubscribe i buf b))"
  using broker_at_key [OF key_unsubscribe_loop assms, of i buf 2] assms
  by (auto simp: handle_unsubscribe_def Let_def split: prod.split bool.split
      intro: broker_at_key [OF key_sends(4)])

lemma key_take_over: "broker_key (snd (take_over i old b)) = broker_key b"
  by (simp add: take_over_def key_simps split: option.split)

lemma key_connect_will: "broker_key (snd (connect_will i buf flags off b)) = broker_key b"
  by (simp add: connect_will_def Let_def key_simps split: option.split)

lemma key_handle_connect: "broker_key (snd (handle_connect users i now buf b)) = broker_key b"
proof -
  have t: "broker_key b1 = broker_key b" if "take_over i old b = (sk, b1)" for old sk b1
    using key_take_over [of i old b] that by simp
  have w: "broker_key b4 = broker_key b3" if "connect_will i buf flags off b3 = (r, b4)" for flags off b3 r b4
    using key_connect_will [of i buf flags off b3] that by simp
  show ?thesis
    by (auto simp: handle_connect_def Let_def key_simps dest!: t w split: option.split prod.split)
qed

lemma at_dispatch:
  assumes "broker_at act b" and "i < length act"
  shows "broker_at act (snd (client_dispatch i now header pkt b))"
  using assms at_handle_publish [OF assms(1)] at_puback [OF assms] at_handle_subscribe [OF assms(1)]
    at_handle_unsubscribe [OF assms(1)] broker_at_key [OF key_sends(5) assms(1), of i]
    broker_at_key [OF key_plain_upd(6) assms(1)]
  by (simp add: client_dispatch_def Let_def case_prod_beta)


section \<open>Opening and closing sessions\<close>

lemma free_entry_pending:
  assumes "i < length (mb_sessions b)" and "k < length (ms_qos1_pending (mb_sessions b ! i))"
  shows "ms_qos1_pending (mb_sessions (mqtt_qos1_free_entry_locked i k b) ! i) =
    (if q_in_use (ms_qos1_pending (mb_sessions b ! i) ! k) then (ms_qos1_pending (mb_sessions b ! i))[k := qos1_zero]
     else ms_qos1_pending (mb_sessions b ! i))"
  using assms by (simp add: mqtt_qos1_free_entry_locked_def Let_def get_session_def upd_session_def)

lemma clear_session_at:
  assumes "broker_at act b" and "i < length act" and "n \<le> length (ms_qos1_pending (mb_sessions b ! i))"
  shows "let b' = fold (mqtt_qos1_free_entry_locked i) [0..<n] b in broker_at act b' \<and>
    length (ms_qos1_pending (mb_sessions b' ! i)) = length (ms_qos1_pending (mb_sessions b ! i)) \<and>
    (\<forall>k < n. \<not> q_in_use (ms_qos1_pending (mb_sessions b' ! i) ! k))"
  using assms(3)
proof (induction n)
  case (Suc n)
  let ?b = "fold (mqtt_qos1_free_entry_locked i) [0..<n] b"
  have ih: "broker_at act ?b"
    "length (ms_qos1_pending (mb_sessions ?b ! i)) = length (ms_qos1_pending (mb_sessions b ! i))"
    "\<forall>k < n. \<not> q_in_use (ms_qos1_pending (mb_sessions ?b ! i) ! k)"
    using Suc by (simp_all add: Let_def)
  then have n: "n < length (ms_qos1_pending (mb_sessions ?b ! i))" "i < length (mb_sessions ?b)"
    using Suc.prems assms(2) broker_at_length [OF ih(1)] by simp_all
  show ?case
    using ih at_free_entry [OF ih(1) assms(2) n(1)] free_entry_pending [OF n(2,1)] n(1)
    by (auto simp: Let_def less_Suc_eq nth_list_update qos1_zero_def)
qed (use assms in simp)

lemma at_clear_session:
  assumes "broker_at act b" and "i < length act"
  shows "broker_at act (mqtt_qos1_clear_session_locked i b)"
    and "list_all (Not \<circ> fst) (snd (sess_key (get_session i (mqtt_qos1_clear_session_locked i b))))"
  using clear_session_at [OF assms, of "length (ms_qos1_pending (mb_sessions b ! i))"]
  by (simp_all add: mqtt_qos1_clear_session_locked_def Let_def get_session_def sess_key_def list_all_length)

lemma active_count:
  assumes "broker_at act b"
  shows "unat (mb_client_count b) = length (filter id act)"
proof -
  have "unat (mb_client_count b) = length (filter fst (map sess_key (mb_sessions b)))"
    using assms by (simp add: broker_at_def broker_ok_def key_ok_def broker_key_def)
  also have "\<dots> = length (filter id act)"
    using assms by (auto simp: broker_at_def sess_key_def filter_map comp_def)
  finally show ?thesis .
qed

text \<open>Leaving the table: slot \<open>i\<close>, which has no unacknowledged packet, becomes inactive.\<close>

lemma at_deactivate:
  assumes "broker_at act b" and "i < length act" and "act ! i"
    and "list_all (Not \<circ> fst) (snd (sess_key (get_session i b)))"
    and "\<And>s. ms_qos1_pending (f s) = ms_qos1_pending s \<and> \<not> ms_active (f s)"
    and "count = mb_client_count b - 1"
  shows "broker_at (act[i := False]) ((upd_session i f b)\<lparr>mb_client_count := count\<rparr>)"
proof -
  let ?b = "(upd_session i f b)\<lparr>mb_client_count := count\<rparr>"
  let ?s = "mb_sessions b ! i"
  have len: "i < length (mb_sessions b)" using assms(2) broker_at_length [OF assms(1)] by simp
  have active: "ms_active ?s" using assms(1,3) len by (auto simp: broker_at_def)
  have "0 < length (filter id act)" using assms(2,3) by (auto simp: filter_empty_conv intro: nth_mem)
  then have count: "unat count + 1 = unat (mb_client_count b)"
    using active_count [OF assms(1)] assms(6)
    by (metis Suc_eq_plus1 Suc_pred' unat_gt_0 unat_minus_one word_neq_0_conv)
  have "broker_ok ?b"
  proof (rule broker_ok_slot [where b = b and i = i and k = "(False, snd (sess_key ?s))"])
    show "broker_ok b" "i < length (mb_sessions b)" using assms(1) len by (simp_all add: broker_at_def)
    show "map sess_key (mb_sessions ?b) = (map sess_key (mb_sessions b))[i := (False, snd (sess_key ?s))]"
      using assms(5) by (simp add: upd_session_def map_update sess_key_def)
    show "mb_qos1_pending_bytes ?b + key_bytes (sess_key ?s) =
        mb_qos1_pending_bytes b + key_bytes (False, snd (sess_key ?s))"
      by (simp add: upd_session_def key_bytes_def)
    show "mb_qos1_pending_bytes ?b \<le> MQTT_QOS1_MAX_PENDING_BYTES"
      using assms(1) by (simp add: upd_session_def broker_at_def broker_ok_def key_ok_def broker_key_def)
    show "fst (False, snd (sess_key ?s)) \<or> list_all (Not \<circ> fst) (snd (False, snd (sess_key ?s)))"
      using assms(4) by (simp add: get_session_def)
  qed (use count active in \<open>simp add: upd_session_def\<close>)
  moreover have "map ms_active (mb_sessions ?b) = act[i := False]"
    using assms(1,5) by (auto simp: upd_session_def broker_at_def map_update)
  ultimately show ?thesis by (simp add: broker_at_def)
qed

lemma at_free_session:
  assumes "broker_at act b" and "i < length act" and "act ! i" and "own \<or> \<not> ms_task (get_session i b)"
  shows "broker_at (act[i := False]) (free_session own now i b)"
proof -
  let ?b1 = "mqtt_qos1_clear_session_locked i b"
  let ?b3 = "request_session_close_socket (ms_sock (get_session i ?b1))
    (upd_session i (\<lambda>s. s\<lparr>ms_sock := -1, ms_task := False, ms_closing := True,
       ms_suppress_will := True, ms_subs := [], ms_will := will_zero\<rparr>) ?b1)"
  note b1 = at_clear_session [OF assms(1,2)]
  have len: "i < length (mb_sessions ?b1)" using broker_at_length [OF b1(1)] assms(2) by simp
  have key: "broker_key ?b3 = broker_key ?b1"
    unfolding key_close(1) by (rule key_upd_session) (simp add: sess_key_def)
  have b3: "broker_at act ?b3" by (rule broker_at_key [OF key b1(1)])
  have "sess_key (get_session i ?b3) = sess_key (get_session i ?b1)"
  proof -
    have "map sess_key (mb_sessions ?b3) ! i = map sess_key (mb_sessions ?b1) ! i"
      using key by (simp add: broker_key_def)
    moreover have "length (mb_sessions ?b3) = length (mb_sessions ?b1)"
      using broker_at_length [OF b3] broker_at_length [OF b1(1)] by simp
    ultimately show ?thesis using len by (simp add: get_session_def)
  qed
  then have quiet: "list_all (Not \<circ> fst) (snd (sess_key (get_session i ?b3)))" using b1(2) by simp
  have "0 < length (filter id act)" using assms(2,3) by (auto simp: filter_empty_conv intro: nth_mem)
  then have pos: "mb_client_count ?b3 > 0"
    using active_count [OF b3] by (metis unat_gt_0 word_neq_0_conv)
  show ?thesis
    using at_deactivate [OF b3 assms(2,3) quiet, of "\<lambda>s. s\<lparr>ms_active := False, ms_closing := False,
      ms_retiring := True, ms_reusable_after_ms := now + MQTT_SESSION_REUSE_DELAY_MS\<rparr>"] assms(4) pos
    by (auto simp: free_session_def Let_def upd_session_def)
qed


lemma key_bytes_idle: "key_bytes (a, replicate n (False, m)) = 0"
  by (induction n) (simp_all add: key_bytes_def)

lemma key_reap: "broker_key (reap_retired_session_slots_locked now b) = broker_key b"
  by (simp add: broker_key_def reap_retired_session_slots_locked_def reap_session_def sess_key_def)

lemma at_alloc:
  assumes "broker_at act b" and "length act < 256"
  shows "case alloc_session now b of
      (None, b') \<Rightarrow> broker_at act b'
    | (Some i, b') \<Rightarrow> i < length act \<and> \<not> act ! i \<and> broker_at (act[i := True]) b' \<and>
        \<not> ms_task (get_session i b')"
proof -
  let ?b1 = "reap_retired_session_slots_locked now b"
  have b1: "broker_at act ?b1" by (rule broker_at_key [OF key_reap assms(1)])
  show ?thesis
  proof (cases "find_index (\<lambda>s. \<not> ms_active s \<and> \<not> ms_retiring s) (mb_sessions ?b1)")
    case None
    then show ?thesis using b1 by (simp add: alloc_session_def)
  next
    case (Some i)
    let ?s = "mb_sessions ?b1 ! i"
    let ?f = "\<lambda>s. (reset_session_runtime_fields s)\<lparr>ms_active := True, ms_last_rx_ms := now\<rparr>"
    let ?b = "(upd_session i ?f ?b1)\<lparr>mb_client_count := mb_client_count ?b1 + 1\<rparr>"
    let ?k = "(True, replicate MQTT_QOS1_MAX_INFLIGHT (False, 0 :: nat))"
    note i = find_index_SomeD [OF Some]
    have inact: "i < length act" "\<not> act ! i" using i b1 by (auto simp: broker_at_def)
    have "length (filter id act) < length act"
      using inact nth_mem [of i act] by (intro length_filter_less [of "act ! i"]) simp_all
    then have count: "unat (mb_client_count ?b1 + 1) = unat (mb_client_count ?b1) + 1"
      using active_count [OF b1] assms(2) by (subst unat_Suc_u8) simp_all
    have "fst (sess_key ?s) \<or> list_all (Not \<circ> fst) (snd (sess_key ?s))"
      using b1 i by (auto simp: broker_at_def broker_ok_def key_ok_def broker_key_def)
    then have "list_all (Not \<circ> fst) (snd (sess_key ?s))" using i by (simp add: sess_key_def)
    then have zero: "key_bytes (sess_key ?s) = 0" by (auto simp: key_bytes_def list_all_iff)
    have "broker_ok ?b"
    proof (rule broker_ok_slot [where b = ?b1 and i = i and k = ?k])
      show "broker_ok ?b1" "i < length (mb_sessions ?b1)" using b1 i by (simp_all add: broker_at_def)
      show "map sess_key (mb_sessions ?b) = (map sess_key (mb_sessions ?b1))[i := ?k]"
        by (simp add: upd_session_def map_update sess_key_def reset_session_runtime_fields_def qos1_zero_def)
      show "mb_qos1_pending_bytes ?b + key_bytes (sess_key ?s) = mb_qos1_pending_bytes ?b1 + key_bytes ?k"
        using zero key_bytes_idle by (simp add: upd_session_def)
      show "mb_qos1_pending_bytes ?b \<le> MQTT_QOS1_MAX_PENDING_BYTES"
        using b1 by (simp add: upd_session_def broker_at_def broker_ok_def key_ok_def broker_key_def)
    qed (use count i in \<open>simp_all add: upd_session_def\<close>)
    moreover have "map ms_active (mb_sessions ?b) = act[i := True]"
      using b1 by (auto simp: upd_session_def broker_at_def map_update reset_session_runtime_fields_def)
    ultimately show ?thesis
      using Some inact i by (simp add: alloc_session_def broker_at_def get_session_def upd_session_def
          reset_session_runtime_fields_def Let_def)
  qed
qed

lemma at_evict: "broker_at act b \<Longrightarrow> broker_at act (snd (evict_duplicate_client_from_full_pool packet b))"
  by (auto simp: evict_duplicate_client_from_full_pool_def case_prod_beta Let_def key_simps
      split: option.split prod.split elim!: broker_at_key [rotated])

lemma at_cleanup:
  assumes "broker_at act b" and "i < length act" and "act ! i"
  shows "broker_at (act[i := False]) (client_cleanup i now b)"
  unfolding client_cleanup_def by (rule at_free_session [OF at_will [OF assms(1)] assms(2,3)]) simp

section \<open>Runs of the broker\<close>

text \<open>
  A client task works on its session while the session is active; connections, the sweep timer and
  the publishing job come at any time.
\<close>

inductive broker_reachable :: "nat \<Rightarrow> mqtt_broker \<Rightarrow> bool" for clients where
  broker_boot: "broker_reachable clients (broker_init clients net heap)"
| broker_accept: "broker_reachable clients b \<Longrightarrow>
    broker_reachable clients (snd (accept_connection now sock task_ok packet b))"
| broker_connect: "broker_reachable clients b \<Longrightarrow> i < clients \<Longrightarrow> ms_active (get_session i b) \<Longrightarrow>
    broker_reachable clients (snd (client_connect users i now packet b))"
| broker_packet: "broker_reachable clients b \<Longrightarrow> i < clients \<Longrightarrow> ms_active (get_session i b) \<Longrightarrow>
    broker_reachable clients (snd (client_packet i now header pkt b))"
| broker_no_packet: "broker_reachable clients b \<Longrightarrow> i < clients \<Longrightarrow> ms_active (get_session i b) \<Longrightarrow>
    broker_reachable clients (snd (client_no_packet i now timed_out b))"
| broker_sweep: "broker_reachable clients b \<Longrightarrow> broker_reachable clients (sweep_idle_sessions now b)"
| broker_publish: "broker_reachable clients b \<Longrightarrow>
    broker_reachable clients (snd (mqtt_core_publish_qos now topic payload qos b))"

definition broker_inv :: "nat \<Rightarrow> mqtt_broker \<Rightarrow> bool" where
  "broker_inv clients b \<longleftrightarrow> broker_ok b \<and> length (mb_sessions b) = clients"

lemma inv_at: "broker_inv clients b \<Longrightarrow> broker_at (map ms_active (mb_sessions b)) b"
  by (simp add: broker_inv_def broker_at_def)

lemma at_inv: "broker_at act b \<Longrightarrow> length act = clients \<Longrightarrow> broker_inv clients b"
  using broker_at_length [of act b] by (simp add: broker_inv_def broker_at_def)

lemma inv_accept:
  assumes "broker_inv clients b" and "clients < 256"
  shows "broker_inv clients (snd (accept_connection now sock task_ok packet b))"
proof -
  let ?act = "map ms_active (mb_sessions b)"
  have len: "length ?act = clients" using assms(1) by (simp add: broker_inv_def)
  obtain r b1 where a: "alloc_session now b = (r, b1)" by force
  note alloc = at_alloc [OF inv_at [OF assms(1)], of now] len assms(2)
  show ?thesis
  proof (cases r)
    case None
    then have "broker_at ?act b1" using alloc a by simp
    then have "broker_inv clients (request_session_close_socket sock
        (snd (evict_duplicate_client_from_full_pool packet b1)))"
      using len by (intro at_inv [OF broker_at_key [OF key_close(1) at_evict]])
    then show ?thesis by (simp add: accept_connection_def a None)
  next
    case (Some i)
    let ?b2 = "upd_session i (\<lambda>s. s\<lparr>ms_sock := sock\<rparr>) b1"
    have i: "i < length ?act" and b1: "broker_at (?act[i := True]) b1" and task: "\<not> ms_task (get_session i b1)"
      using alloc a Some by simp_all
    have len1: "i < length (mb_sessions b1)" using broker_at_length [OF b1] i by simp
    have b2: "broker_at (?act[i := True]) (request_session_close_socket sock ?b2)"
      by (rule broker_at_key [OF _ b1]) (simp add: key_simps)
    have t2: "\<not> ms_task (get_session i (request_session_close_socket sock ?b2))"
      using task len1 by (simp add: request_session_close_socket_def get_session_def upd_session_def)
    have "broker_at (?act[i := True, i := False]) (free_session False now i (request_session_close_socket sock ?b2))"
      by (rule at_free_session [OF b2]) (use i t2 in simp_all)
    moreover have "broker_at (?act[i := True]) (upd_session i (\<lambda>s. s\<lparr>ms_task := True\<rparr>) ?b2)"
      by (rule broker_at_key [OF _ b1]) (simp add: key_simps)
    ultimately have "broker_inv clients (free_session False now i (request_session_close_socket sock ?b2))"
      "broker_inv clients (upd_session i (\<lambda>s. s\<lparr>ms_task := True\<rparr>) ?b2)"
      using len by (auto elim!: at_inv)
    then show ?thesis by (simp add: accept_connection_def a Some Let_def)
  qed
qed

lemma inv_cleanup:
  assumes "broker_at act b" and "length act = clients" and "i < clients" and "act ! i"
  shows "broker_inv clients (client_cleanup i now b)"
  by (rule at_inv [OF at_cleanup [OF assms(1) _ assms(4)]]) (use assms(2,3) in simp_all)

lemma inv_connect:
  assumes "broker_inv clients b" and "i < clients" and "ms_active (get_session i b)"
  shows "broker_inv clients (snd (client_connect users i now packet b))"
proof -
  let ?act = "map ms_active (mb_sessions b)"
  have at: "broker_at ?act b" "length ?act = clients" "?act ! i"
    using inv_at [OF assms(1)] assms by (simp_all add: broker_inv_def get_session_def)
  have "broker_at ?act (snd (if c then handle_connect users i now pkt b else (2, b)))" for c pkt
    using at(1) broker_at_key [OF key_handle_connect at(1)] by simp
  then have "broker_at ?act (snd (send_connack sk rc (snd (if c then handle_connect users i now pkt b else (2, b)))))"
    for c pkt sk rc by (rule broker_at_key [OF key_sends(1)])
  then show ?thesis
    using inv_cleanup [OF _ at(2) assms(2) at(3)] at(1) at_inv [OF _ at(2)]
    by (simp add: client_connect_def case_prod_beta Let_def split: option.split)
qed

lemma inv_packet:
  assumes "broker_inv clients b" and "i < clients" and "ms_active (get_session i b)"
  shows "broker_inv clients (snd (client_packet i now header pkt b))"
proof -
  let ?act = "map ms_active (mb_sessions b)"
  have at: "broker_at ?act b" "length ?act = clients" "?act ! i"
    using inv_at [OF assms(1)] assms by (simp_all add: broker_inv_def get_session_def)
  have d: "broker_at ?act (snd (client_dispatch i now header pkt (upd_session i (\<lambda>s. s\<lparr>ms_last_rx_ms := now\<rparr>) b)))"
    by (rule at_dispatch [OF broker_at_key [OF key_plain_upd(4) at(1)]]) (use at(2) assms(2) in simp)
  show ?thesis
    using inv_cleanup [OF d at(2) assms(2) at(3)] at_inv [OF broker_at_key [OF key_retry d] at(2)]
      inv_cleanup [OF broker_at_key [OF key_retry d] at(2) assms(2) at(3)]
    by (simp add: client_packet_def case_prod_beta Let_def)
qed

lemma inv_no_packet:
  assumes "broker_inv clients b" and "i < clients" and "ms_active (get_session i b)"
  shows "broker_inv clients (snd (client_no_packet i now timed_out b))"
proof -
  let ?act = "map ms_active (mb_sessions b)"
  have at: "broker_at ?act b" "length ?act = clients" "?act ! i"
    using inv_at [OF assms(1)] assms by (simp_all add: broker_inv_def get_session_def)
  note r = broker_at_key [OF key_retry at(1)]
  show ?thesis
    using inv_cleanup [OF at(1,2) assms(2) at(3)] inv_cleanup [OF r at(2) assms(2) at(3)] at_inv [OF r at(2)]
    by (simp add: client_no_packet_def Let_def)
qed

lemma inv_sweep:
  assumes "broker_inv clients b"
  shows "broker_inv clients (sweep_idle_sessions now b)"
proof -
  have "broker_key (sweep_session now i b) = broker_key b" for i b
    by (simp add: sweep_session_def Let_def case_prod_beta key_simps)
  then have "broker_at (map ms_active (mb_sessions b)) (sweep_idle_sessions now b)"
    unfolding sweep_idle_sessions_def
    by (intro at_fold [OF inv_at [OF assms]]) (rule broker_at_key)
  then show ?thesis by (rule at_inv) (use assms in \<open>simp add: broker_inv_def\<close>)
qed

lemma inv_boot: "broker_inv clients (broker_init clients net heap)"
proof -
  have "list_all (Not \<circ> fst) (replicate n (False, m))" for n and m :: nat by (simp add: list_all_length)
  moreover have "sum_list (replicate n 0) = (0 :: nat)" for n by (induction n) simp_all
  ultimately show ?thesis
    using key_bytes_idle
    by (simp add: broker_inv_def broker_ok_def key_ok_def broker_key_def broker_init_def sess_key_def
        session_zero_def qos1_zero_def)
qed

lemma inv_publish:
  assumes "broker_inv clients b"
  shows "broker_inv clients (snd (mqtt_core_publish_qos now topic payload qos b))"
proof -
  have "broker_inv clients (publish_to_subscribers now topic payload qos False None b)"
    by (rule at_inv [OF at_publish [OF inv_at [OF assms]]]) (use assms in \<open>simp add: broker_inv_def\<close>)
  then show ?thesis using assms by (simp add: mqtt_core_publish_qos_def)
qed

lemma broker_reachable_inv: "broker_reachable clients b \<Longrightarrow> clients < 256 \<Longrightarrow> broker_inv clients b"
  by (induction rule: broker_reachable.induct)
    (auto intro: inv_boot inv_accept inv_connect inv_packet inv_no_packet inv_sweep inv_publish)

text \<open>
  C31: unacknowledged packets are accounted for and bounded.  In every reachable state of a broker
  with at most 255 slots, the counter of pending bytes is the total size of the packets that wait
  for an acknowledgement, it never exceeds 512 KiB, and a slot without a client holds no packet.
\<close>

theorem qos1_bytes_accounted:
  assumes "broker_reachable clients b" and "clients < 256"
  shows "mb_qos1_pending_bytes b = (\<Sum>s\<leftarrow>mb_sessions b. \<Sum>e\<leftarrow>ms_qos1_pending s.
      if q_in_use e then length (q_packet e) else 0) \<and>
    mb_qos1_pending_bytes b \<le> 512 * 1024 \<and>
    (\<forall>s \<in> set (mb_sessions b). ms_active s \<or> mqtt_qos1_pending_count s = 0)"
proof -
  have ok: "broker_ok b" using broker_reachable_inv [OF assms] by (simp add: broker_inv_def)
  have "key_bytes (sess_key s) = (\<Sum>e\<leftarrow>ms_qos1_pending s. if q_in_use e then length (q_packet e) else 0)" for s
    by (simp add: key_bytes_def sess_key_def comp_def)
  moreover have "mqtt_qos1_pending_count s = 0 \<longleftrightarrow> list_all (Not \<circ> fst) (snd (sess_key s))" for s
    by (simp add: mqtt_qos1_pending_count_def sess_key_def filter_empty_conv list_all_iff)
  ultimately show ?thesis
    using ok by (simp add: broker_ok_def key_ok_def broker_key_def comp_def MQTT_QOS1_MAX_PENDING_BYTES_def)
      (simp add: sess_key_def)
qed

text \<open>
  The client count is exact.  In every reachable state the number of clients the broker
  reports is the number of active sessions, and both functions that report it agree.
\<close>

theorem client_count_exact:
  assumes "broker_reachable clients b" and "clients < 256"
  shows "unat (mqtt_core_client_count b) = length (filter ms_active (mb_sessions b)) \<and>
    mqtt_core_get_client_stats b = mqtt_core_client_count b"
proof -
  have at: "broker_at (map ms_active (mb_sessions b)) b" by (rule inv_at [OF broker_reachable_inv [OF assms]])
  then have "unat (mb_client_count b) = length (filter ms_active (mb_sessions b))"
    using active_count by (fastforce simp: filter_map comp_def)
  then show ?thesis
    by (simp add: mqtt_core_client_count_def mqtt_core_get_client_stats_def flip: word_unat_eq_iff)
      (metis of_nat_unat ucast_id)
qed

text \<open>A broker with one slot whose client has connected, for the witnesses.\<close>

definition demo_broker :: mqtt_broker where
  "demo_broker = snd (accept_connection 10 5 True None (broker_init 1 (\<lambda>_. Send_Ok) (\<lambda>_. True)))"

lemma demo_broker_reachable: "broker_reachable 1 demo_broker"
  unfolding demo_broker_def by (intro broker_accept broker_boot)

theorem qos1_bytes_accounted_witness: "mb_qos1_pending_bytes demo_broker \<le> 512 * 1024"
  using qos1_bytes_accounted [OF demo_broker_reachable] by simp

theorem client_count_exact_witness:
  "unat (mqtt_core_client_count demo_broker) = length (filter ms_active (mb_sessions demo_broker))"
  using client_count_exact [OF demo_broker_reachable] by simp

end
