(* ===== verification/Mqtt_Delivery.thy ===== *)
theory Mqtt_Delivery
  imports Mqtt_Broker_Props
begin

unbundle bit_operations_syntax

text \<open>
  Who receives a published message, and what a refused connection leaves behind.
\<close>

section \<open>Targets of a message\<close>

definition receives :: "string \<Rightarrow> nat option \<Rightarrow> mqtt_broker \<Rightarrow> nat \<Rightarrow> bool" where
  "receives topic exclude b i \<longleftrightarrow> ms_active (get_session i b) \<and> \<not> ms_closing (get_session i b) \<and>
     ms_sock (get_session i b) \<ge> 0 \<and> exclude \<noteq> Some i \<and>
     (\<exists>f \<in> set (ms_subs (get_session i b)). topic_matches_filter (sub_topic f) topic)"

lemma next_pid_frame [simp]:
  "mb_sessions (snd (mqtt_next_packet_id b)) = mb_sessions b"
  "mb_sent (snd (mqtt_next_packet_id b)) = mb_sent b" "mb_net (snd (mqtt_next_packet_id b)) = mb_net b"
  by (simp_all add: mqtt_next_packet_id_def Let_def)

lemma receives_cong: "mb_sessions b' = mb_sessions b \<Longrightarrow> receives topic ex b' i = receives topic ex b i"
  by (simp add: receives_def get_session_def)

lemma receives_next: "receives topic ex (snd (mqtt_next_packet_id b)) = receives topic ex b"
  by (rule ext) (rule receives_cong, simp)

lemma collect_frame:
  "mb_sessions (snd (collect_targets topic qos ex js b)) = mb_sessions b \<and>
   mb_sent (snd (collect_targets topic qos ex js b)) = mb_sent b \<and>
   mb_net (snd (collect_targets topic qos ex js b)) = mb_net b"
  by (induction js arbitrary: b) (simp_all add: case_prod_beta Let_def split: option.split)

lemma collect_slots:
  "map (\<lambda>t. (pt_slot t, pt_sock t)) (fst (collect_targets topic qos ex js b)) =
   map (\<lambda>i. (i, ms_sock (get_session i b))) (filter (receives topic ex b) js)"
proof (induction js arbitrary: b)
  case (Cons i js)
  have same: "filter (receives topic ex (snd (if c then mqtt_next_packet_id b else (0, b)))) js =
      filter (receives topic ex b) js" for c
    by (cases c) (simp_all add: receives_next)
  have sock: "ms_sock (get_session j (snd (if c then mqtt_next_packet_id b else (0, b)))) =
      ms_sock (get_session j b)" for j c
    by (simp add: get_session_def)
  show ?case
  proof (cases "\<not> ms_active (get_session i b) \<or> ms_closing (get_session i b) \<or>
      ms_sock (get_session i b) < 0 \<or> ex = Some i")
    case True
    then have "\<not> receives topic ex b i" by (auto simp: receives_def)
    with True Cons show ?thesis by simp
  next
    case False
    show ?thesis
    proof (cases "find (\<lambda>f. topic_matches_filter (sub_topic f) topic) (ms_subs (get_session i b))")
      case None
      then have "\<not> receives topic ex b i" by (simp add: receives_def find_None_iff)
      with False None Cons show ?thesis by simp
    next
      case (Some f)
      then have "receives topic ex b i" using False by (auto simp: receives_def find_Some_iff)
      with False Some show ?thesis by (simp add: case_prod_beta Let_def Cons same sock)
    qed
  qed
qed simp

lemma effective_qos0: "mqtt_effective_delivery_qos 0 q = 0"
  by (simp add: mqtt_effective_delivery_qos_def word_gt_0)

lemma collect_qos0: "t \<in> set (fst (collect_targets topic 0 ex js b)) \<Longrightarrow> pt_qos t = 0"
proof (induction js arbitrary: b)
  case (Cons i js)
  then show ?case
    by (auto simp: case_prod_beta Let_def effective_qos0 split: if_splits option.splits)
qed simp

section \<open>Sending over a working network\<close>

lemma send_all_ok:
  "mb_net b = (\<lambda>_. Send_Ok) \<Longrightarrow> send_all sock buf b =
   (int (length buf), b\<lparr>mb_net_pos := Suc (mb_net_pos b), mb_sent := mb_sent b @ [(sock, buf)]\<rparr>)"
  by (simp add: send_all_def)

lemma send_pieces_ok:
  assumes "mb_net b = (\<lambda>_. Send_Ok)"
  shows "fst (send_pieces sock ps b) \<and> mb_sent (snd (send_pieces sock ps b)) = mb_sent b @ map (Pair sock) ps \<and>
    mb_sessions (snd (send_pieces sock ps b)) = mb_sessions b \<and>
    mb_net (snd (send_pieces sock ps b)) = (\<lambda>_. Send_Ok)"
  using assms by (induction ps arbitrary: b) (simp_all add: send_all_ok)

lemma send_target_ok:
  assumes "mb_net b = (\<lambda>_. Send_Ok)" and "publish_pieces topic payload 0 retain pid = Some ps"
    and "session_current slot sock b" and "sock \<ge> 0"
  shows "mb_sent (snd (send_publish_packet_to_session_slot slot sock now topic payload 0 retain pid b)) =
      mb_sent b @ map (Pair sock) ps \<and>
    mb_sessions (snd (send_publish_packet_to_session_slot slot sock now topic payload 0 retain pid b)) = mb_sessions b \<and>
    mb_net (snd (send_publish_packet_to_session_slot slot sock now topic payload 0 retain pid b)) = (\<lambda>_. Send_Ok)"
  using send_pieces_ok [OF assms(1), of sock ps] assms(2-4)
  by (simp add: send_publish_packet_to_session_slot_def send_publish_packet_to_sock_def case_prod_beta
      session_current_def)

lemma publish_pieces_pid: "publish_pieces topic payload 0 retain pid = publish_pieces topic payload 0 retain 0"
  by (simp add: publish_pieces_def)

lemma send_targets_ok:
  assumes "mb_net b = (\<lambda>_. Send_Ok)" and "publish_pieces topic payload 0 retain 0 = Some ps"
    and "\<forall>t \<in> set ts. pt_qos t = 0 \<and> session_current (pt_slot t) (pt_sock t) b \<and> pt_sock t \<ge> 0"
  shows "mb_sent (fold (send_to_target now topic payload retain) ts b) =
    mb_sent b @ concat (map (\<lambda>t. map (Pair (pt_sock t)) ps) ts)"
  using assms
proof (induction ts arbitrary: b)
  case (Cons t ts)
  let ?b = "send_to_target now topic payload retain t b"
  have t: "pt_qos t = 0" "session_current (pt_slot t) (pt_sock t) b" "pt_sock t \<ge> 0" using Cons.prems(3) by simp_all
  have "publish_pieces topic payload 0 retain (pt_pid t) = Some ps"
    using Cons.prems(2) publish_pieces_pid [of topic payload retain "pt_pid t"] by simp
  note s = send_target_ok [OF Cons.prems(1) this t(2,3), of now]
  then have b: "mb_sent ?b = mb_sent b @ map (Pair (pt_sock t)) ps" "mb_sessions ?b = mb_sessions b"
    "mb_net ?b = (\<lambda>_. Send_Ok)"
    by (simp_all add: send_to_target_def t(1))
  have "mb_sent (fold (send_to_target now topic payload retain) ts ?b) =
      mb_sent ?b @ concat (map (\<lambda>t. map (Pair (pt_sock t)) ps) ts)"
    using Cons.prems by (intro Cons.IH b) (simp_all add: session_current_def get_session_def b)
  then show ?case by (simp add: b)
qed simp

lemma publish_sent:
  assumes "mb_net b = (\<lambda>_. Send_Ok)" and "publish_pieces topic payload 0 retain 0 = Some ps"
  shows "mb_sent (publish_to_subscribers now topic payload 0 retain exclude b) = mb_sent b @
    concat (map (\<lambda>i. map (Pair (ms_sock (get_session i b))) ps)
      (filter (receives topic exclude b) [0..<length (mb_sessions b)]))"
proof -
  let ?b = "if retain then b\<lparr>mb_retain := retain_store topic payload 0 (mb_retain b)\<rparr> else b"
  let ?c = "collect_targets topic 0 exclude [0..<length (mb_sessions b)] ?b"
  let ?is = "filter (receives topic exclude b) [0..<length (mb_sessions b)]"
  have same: "mb_sessions ?b = mb_sessions b" "mb_sent ?b = mb_sent b" "mb_net ?b = mb_net b" by simp_all
  have "receives topic exclude ?b = receives topic exclude b"
    by (rule ext) (rule receives_cong [OF same(1)])
  then have slots: "map (\<lambda>t. (pt_slot t, pt_sock t)) (fst ?c) = map (\<lambda>i. (i, ms_sock (get_session i b))) ?is"
    using collect_slots [of topic 0 exclude _ ?b] by (simp add: get_session_def same)
  note frame = collect_frame [of topic 0 exclude "[0..<length (mb_sessions b)]" ?b]
  have cur: "session_current (pt_slot t) (pt_sock t) (snd ?c) \<and> pt_sock t \<ge> 0" if "t \<in> set (fst ?c)" for t
  proof -
    have "(pt_slot t, pt_sock t) \<in> set (map (\<lambda>t. (pt_slot t, pt_sock t)) (fst ?c))" using that by simp
    then have "(pt_slot t, pt_sock t) \<in> (\<lambda>i. (i, ms_sock (get_session i b))) ` set ?is"
      unfolding slots by simp
    then obtain i where "i \<in> set ?is" "pt_slot t = i" "pt_sock t = ms_sock (get_session i b)" by blast
    moreover have "mb_sessions (snd ?c) = mb_sessions b" using frame same(1) by metis
    ultimately show ?thesis by (simp add: session_current_def receives_def get_session_def)
  qed
  have "mb_sent (fold (send_to_target now topic payload retain) (fst ?c) (snd ?c)) =
      mb_sent (snd ?c) @ concat (map (\<lambda>t. map (Pair (pt_sock t)) ps) (fst ?c))"
  proof (rule send_targets_ok [OF _ assms(2)])
    show "mb_net (snd ?c) = (\<lambda>_. Send_Ok)" using frame assms(1) same(3) by metis
    show "\<forall>t \<in> set (fst ?c). pt_qos t = 0 \<and> session_current (pt_slot t) (pt_sock t) (snd ?c) \<and> pt_sock t \<ge> 0"
      using cur collect_qos0 by blast
  qed
  also have "map (\<lambda>t. map (Pair (pt_sock t)) ps) (fst ?c) =
      map (\<lambda>(i, k). map (Pair k) ps) (map (\<lambda>t. (pt_slot t, pt_sock t)) (fst ?c))" by simp
  also have "\<dots> = map (\<lambda>i. map (Pair (ms_sock (get_session i b))) ps) ?is" unfolding slots by simp
  finally show ?thesis
    using frame by (simp add: publish_to_subscribers_def Let_def case_prod_beta same)
qed

text \<open>
  C28: a message reaches exactly its subscribers.  Over a working network, publishing a message with
  quality of service 0 sends it, once and in the order of the slots, to every connected session that
  has a matching subscription, and sends nothing to any other; a session with several matching
  subscriptions gets it once.
\<close>

theorem publish_reaches_subscribers:
  assumes "mb_net b = (\<lambda>_. Send_Ok)" and "publish_pieces topic payload 0 retain 0 = Some ps"
  shows "mb_sent (publish_to_subscribers now topic payload 0 retain exclude b) = mb_sent b @
    concat (map (\<lambda>i. map (Pair (ms_sock (get_session i b))) ps)
      (filter (receives topic exclude b) [0..<length (mb_sessions b)]))"
  using assms by (rule publish_sent)

text \<open>A subscriber in slot 0 and a new connection in slot 1, for the witnesses.\<close>

definition demo_pair :: mqtt_broker where
  "demo_pair = (broker_init 2 (\<lambda>_. Send_Ok) (\<lambda>_. True))\<lparr>mb_sessions :=
     [session_zero\<lparr>ms_sock := 4, ms_active := True, ms_client_id := ''relay'',
        ms_subs := [\<lparr>sub_topic = ''relay/#'', sub_qos = 0\<rparr>]\<rparr>,
      session_zero\<lparr>ms_sock := 5, ms_active := True\<rparr>]\<rparr>"

lemma demo_pieces:
  "publish_pieces ''relay/cmd'' ''on'' 0 False 0 =
   Some [[0x30, 13, 0, 9], str_bytes ''relay/cmd'', str_bytes ''on'']"
  by (simp add: publish_pieces_def Let_def encode_short MQTT_MAX_PACKET_def publish_header_def u16_bytes_def)

lemma demo_match: "topic_matches_filter ''relay/#'' ''relay/cmd''"
  by code_simp

theorem publish_reaches_subscribers_witness:
  "mb_sent (publish_to_subscribers 9 ''relay/cmd'' ''on'' 0 False None demo_pair) =
   [(4, [0x30, 13, 0, 9]), (4, str_bytes ''relay/cmd''), (4, str_bytes ''on'')]"
proof -
  have r: "receives ''relay/cmd'' None demo_pair 0" "\<not> receives ''relay/cmd'' None demo_pair 1"
    using demo_match by (simp_all add: receives_def demo_pair_def get_session_def session_zero_def)
  have "[0..<length (mb_sessions demo_pair)] = [0, 1]" by (simp add: demo_pair_def upt_rec)
  then show ?thesis
    using publish_reaches_subscribers [OF _ demo_pieces, of demo_pair 9 None] r
    by (simp add: demo_pair_def broker_init_def get_session_def)
qed

section \<open>Refused connections\<close>

lemma get_upd_session:
  "i < length (mb_sessions b) \<Longrightarrow> get_session i (upd_session i f b) = f (get_session i b)"
  "j \<noteq> i \<Longrightarrow> get_session j (upd_session i f b) = get_session j b"
  "mb_closed (upd_session i f b) = mb_closed b"
  "length (mb_sessions (upd_session i f b)) = length (mb_sessions b)"
  by (simp_all add: get_session_def upd_session_def)

lemma connect_will_other:
  "j \<noteq> i \<Longrightarrow> get_session j (snd (connect_will i buf flags off b)) = get_session j b"
  "mb_closed (snd (connect_will i buf flags off b)) = mb_closed b"
  by (simp_all add: connect_will_def Let_def get_upd_session split: option.split)

lemma close_socket_frame:
  "get_session j (request_session_close_socket sock b) = get_session j b"
  "sock \<ge> 0 \<Longrightarrow> mb_closed (request_session_close_socket sock b) = mb_closed b @ [sock]"
  by (simp_all add: request_session_close_socket_def get_session_def)

lemma take_over_closes:
  assumes "j \<noteq> i" and "j < length (mb_sessions b)" and "take_over i (Some j) b = (sk, b')"
  shows "sk = (if ms_sock (get_session j b) \<ge> 0 then ms_sock (get_session j b) else -1)"
    and "ms_closing (get_session j b') \<and> ms_subs (get_session j b') = [] \<and> ms_sock (get_session j b') < 0"
  using assms by (auto simp: take_over_def request_session_prepare_close_locked_def Let_def get_upd_session
      split: if_splits)

text \<open>
  A connection is taken over before the credentials are checked.  When a CONNECT packet with
  the id of a connected client is refused for its credentials, the session of the connected client
  has been closed nevertheless: it has lost its subscriptions and its socket.
\<close>

theorem takeover_precedes_authentication:
  assumes "mqtt_parse_connect_client_id pkt CONFIG_STORE_CLIENT_ID_MAX = Some cid"
    and "find_session_by_client_id cid b = Some j" and "j \<noteq> i"
    and "handle_connect users i now pkt b = (MQTT_CONNACK_NOT_AUTHORIZED, b')"
  shows "ms_closing (get_session j b') \<and> ms_subs (get_session j b') = [] \<and>
    ms_sock (get_session j b') < 0 \<and>
    (ms_sock (get_session j b) \<ge> 0 \<longrightarrow> ms_sock (get_session j b) \<in> set (mb_closed b'))"
proof -
  have j: "j < length (mb_sessions b)"
    using assms(2) find_index_SomeD by (fastforce simp: find_session_by_client_id_def split: if_splits)
  obtain sk b1 where t: "take_over i (Some j) b = (sk, b1)" by force
  note close = take_over_closes [OF assms(3) j t]
  let ?b3 = "\<lambda>ka. upd_session i (\<lambda>s. s\<lparr>ms_keepalive := ka, ms_last_rx_ms := now\<rparr>)
    (request_session_close_socket sk (upd_session i (\<lambda>s. s\<lparr>ms_client_id := cid\<rparr>) b1))"
  have codes: "MQTT_CONNACK_IDENTIFIER_REJECTED \<noteq> MQTT_CONNACK_NOT_AUTHORIZED"
    "MQTT_CONNACK_SERVER_UNAVAILABLE \<noteq> MQTT_CONNACK_NOT_AUTHORIZED"
    by (simp_all add: MQTT_CONNACK_IDENTIFIER_REJECTED_def MQTT_CONNACK_SERVER_UNAVAILABLE_def
        MQTT_CONNACK_NOT_AUTHORIZED_def)
  obtain flags ka off where "b' = snd (connect_will i pkt flags off (?b3 ka))"
    using assms(4) codes
    by (auto simp: handle_connect_def assms(1,2) t Let_def split: option.splits if_splits prod.splits)
      (metis snd_conv)+
  then have "get_session j b' = get_session j b1"
    "ms_sock (get_session j b) \<ge> 0 \<longrightarrow> ms_sock (get_session j b) \<in> set (mb_closed b')"
    using assms(3) close(1)
    by (simp_all add: connect_will_other get_upd_session close_socket_frame)
  then show ?thesis using close(2) by simp
qed

text \<open>A CONNECT packet with a will, a user name and a password.\<close>

definition mqtt_str :: "string \<Rightarrow> u8 list" where
  "mqtt_str s = u16_bytes (of_nat (length s)) @ str_bytes s"

definition connect_packet :: "string \<Rightarrow> string \<Rightarrow> string \<Rightarrow> string \<Rightarrow> string \<Rightarrow> u8 list" where
  "connect_packet cid topic payload user pass = mqtt_str ''MQTT'' @ [4, 0xC4, 0, 60] @ mqtt_str cid @
     mqtt_str topic @ mqtt_str payload @ mqtt_str user @ mqtt_str pass"

lemma length_mqtt_str [simp]: "length (mqtt_str s) = 2 + length s"
  by (simp add: mqtt_str_def u16_bytes_def)

lemma parse_str_at:
  assumes "length s < n" and "n \<le> 65536" and "off = length pre"
  shows "parse_utf8_str (pre @ mqtt_str s @ rest) off n = Some (str_bytes s, off + 2 + length s)"
proof -
  have len: "unat (of_nat (length s) :: u16) = length s" using assms(1,2) by (simp add: unat_of_nat)
  have nth: "(pre @ mqtt_str s @ rest) ! off = ucast (drop_bit 8 (of_nat (length s) :: u16))"
    "(pre @ mqtt_str s @ rest) ! (off + 1) = ucast ((of_nat (length s) :: u16) AND 0xFF)"
    by (simp_all add: assms(3) nth_append mqtt_str_def u16_bytes_def)
  have "drop (off + 2) (pre @ mqtt_str s @ rest) = str_bytes s @ rest"
    by (simp add: assms(3) mqtt_str_def u16_bytes_def)
  then show ?thesis
    using assms(1,3) unfolding parse_utf8_str_def Let_def nth u16_roundtrip len by simp
qed

lemma connect_packet_parses:
  assumes "length cid < 32" "length topic < MQTT_MAX_TOPIC" "length payload < MQTT_MAX_PAYLOAD"
    "length user < 32" "length pass < 32"
  defines "pkt \<equiv> connect_packet cid topic payload user pass"
  defines "o1 \<equiv> 12 + length cid"
  defines "o2 \<equiv> o1 + 2 + length topic"
  defines "o3 \<equiv> o2 + 2 + length payload"
  shows "parse_utf8_str pkt 0 8 = Some (str_bytes ''MQTT'', 6)"
    and "parse_utf8_str pkt 10 32 = Some (str_bytes cid, o1)"
    and "parse_utf8_str pkt o1 MQTT_MAX_TOPIC = Some (str_bytes topic, o2)"
    and "parse_utf8_str pkt o2 MQTT_MAX_PAYLOAD = Some (str_bytes payload, o3)"
    and "parse_utf8_str pkt o3 32 = Some (str_bytes user, o3 + 2 + length user)"
    and "parse_utf8_str pkt (o3 + 2 + length user) 32 =
      Some (str_bytes pass, o3 + 2 + length user + 2 + length pass)"
    and "pkt ! 6 = 4 \<and> pkt ! 7 = 0xC4 \<and> 10 \<le> length pkt"
proof -
  let ?h = "mqtt_str ''MQTT'' @ [4, 0xC4, 0, 60]"
  show "parse_utf8_str pkt 0 8 = Some (str_bytes ''MQTT'', 6)"
    using parse_str_at [of "''MQTT''" 8 0 "[]"] by (simp add: pkt_def connect_packet_def)
  show "parse_utf8_str pkt 10 32 = Some (str_bytes cid, o1)"
    using parse_str_at [of cid 32 10 ?h] assms(1) by (simp add: pkt_def connect_packet_def o1_def)
  show "parse_utf8_str pkt o1 MQTT_MAX_TOPIC = Some (str_bytes topic, o2)"
    using parse_str_at [of topic MQTT_MAX_TOPIC o1 "?h @ mqtt_str cid"] assms(2)
    by (simp add: pkt_def connect_packet_def o1_def o2_def MQTT_MAX_TOPIC_def)
  show "parse_utf8_str pkt o2 MQTT_MAX_PAYLOAD = Some (str_bytes payload, o3)"
    using parse_str_at [of payload MQTT_MAX_PAYLOAD o2 "?h @ mqtt_str cid @ mqtt_str topic"] assms(3)
    by (simp add: pkt_def connect_packet_def o1_def o2_def o3_def MQTT_MAX_PAYLOAD_def MQTT_MAX_PACKET_def)
  show "parse_utf8_str pkt o3 32 = Some (str_bytes user, o3 + 2 + length user)"
    using parse_str_at [of user 32 o3 "?h @ mqtt_str cid @ mqtt_str topic @ mqtt_str payload"] assms(4)
    by (simp add: pkt_def connect_packet_def o1_def o2_def o3_def)
  show "parse_utf8_str pkt (o3 + 2 + length user) 32 =
      Some (str_bytes pass, o3 + 2 + length user + 2 + length pass)"
    using parse_str_at [of pass 32 "o3 + 2 + length user"
        "?h @ mqtt_str cid @ mqtt_str topic @ mqtt_str payload @ mqtt_str user" "[]"] assms(5)
    by (simp add: pkt_def connect_packet_def o1_def o2_def o3_def)
  show "pkt ! 6 = 4 \<and> pkt ! 7 = 0xC4 \<and> 10 \<le> length pkt"
    by (simp add: pkt_def connect_packet_def nth_append)
qed

text \<open>What such a packet does when its client is new and has room.\<close>

lemma handle_connect_packet:
  assumes "length cid < 32" "length topic < MQTT_MAX_TOPIC" "length payload < MQTT_MAX_PAYLOAD"
    "length user < 32" "length pass < 32"
    and "c_string cid" "c_string topic" "c_string payload" "c_string user" "c_string pass"
    and "find_session_by_client_id cid b = None"
    and "mqtt_device_client_capacity_available_locked cid None b"
    and "i < length (mb_sessions b)"
  shows "\<exists>b'. handle_connect users i now (connect_packet cid topic payload user pass) b =
      (if mqtt_authenticate_client users cid user pass then MQTT_CONNACK_ACCEPTED
       else MQTT_CONNACK_NOT_AUTHORIZED, b') \<and>
    ms_will (get_session i b') = \<lparr>w_has = True, w_topic = topic, w_payload = payload, w_qos = 0,
      w_retain = False\<rparr> \<and>
    ms_suppress_will (get_session i b') = ms_suppress_will (get_session i b) \<and>
    (\<forall>j. j \<noteq> i \<longrightarrow> get_session j b' = get_session j b) \<and> mb_net b' = mb_net b \<and>
    length (mb_sessions b') = length (mb_sessions b) \<and> mb_sent b' = mb_sent b"
proof -
  note p = connect_packet_parses [OF assms(1-5)]
  have flags: "(0xC4 :: u8) AND 0x04 \<noteq> 0" "(0xC4 :: u8) AND 0x80 \<noteq> 0" "(0xC4 :: u8) AND 0x40 \<noteq> 0"
    "drop_bit 3 (0xC4 :: u8) AND 0x03 = 0" "(0xC4 :: u8) AND 0x20 = 0" by simp_all
  have m: "c_string ''MQTT''" by (simp add: c_string_def)
  note cs = cstr_str_bytes [OF assms(6)] cstr_str_bytes [OF assms(7)] cstr_str_bytes [OF assms(8)]
    cstr_str_bytes [OF assms(9)] cstr_str_bytes [OF assms(10)] cstr_str_bytes [OF m]
  have cid: "mqtt_parse_connect_client_id (connect_packet cid topic payload user pass) CONFIG_STORE_CLIENT_ID_MAX =
      Some cid"
    using p(1,2,7) by (simp add: mqtt_parse_connect_client_id_def CONFIG_STORE_CLIENT_ID_MAX_def cs)
  show ?thesis
    using p assms(11-13) cid
    by (simp add: handle_connect_def Let_def cs take_over_def connect_will_def
        connect_credentials_def connect_field_def CONFIG_STORE_USERNAME_MAX_def
        CONFIG_STORE_PASSWORD_MAX_def flags get_upd_session request_session_close_socket_def)
      (simp add: get_session_def upd_session_def)
qed

text \<open>The answer does not depend on whether the client is connected already.\<close>

lemma connect_packet_client_id:
  assumes "length cid < 32" "length topic < MQTT_MAX_TOPIC" "length payload < MQTT_MAX_PAYLOAD"
    "length user < 32" "length pass < 32" and "c_string cid"
  shows "mqtt_parse_connect_client_id (connect_packet cid topic payload user pass)
    CONFIG_STORE_CLIENT_ID_MAX = Some cid"
proof -
  have "c_string ''MQTT''" by (simp add: c_string_def)
  then show ?thesis
    using connect_packet_parses [OF assms(1-5)] assms(6)
    by (simp add: mqtt_parse_connect_client_id_def CONFIG_STORE_CLIENT_ID_MAX_def cstr_str_bytes)
qed

lemma handle_connect_answer:
  assumes "length cid < 32" "length topic < MQTT_MAX_TOPIC" "length payload < MQTT_MAX_PAYLOAD"
    "length user < 32" "length pass < 32"
    and "c_string cid" "c_string topic" "c_string payload" "c_string user" "c_string pass"
    and "mqtt_device_client_capacity_available_locked cid (find_session_by_client_id cid b) b"
  shows "fst (handle_connect users i now (connect_packet cid topic payload user pass) b) =
      (if mqtt_authenticate_client users cid user pass then MQTT_CONNACK_ACCEPTED
       else MQTT_CONNACK_NOT_AUTHORIZED)"
proof -
  note p = connect_packet_parses [OF assms(1-5)]
  have flags: "(0xC4 :: u8) AND 0x04 \<noteq> 0" "(0xC4 :: u8) AND 0x80 \<noteq> 0" "(0xC4 :: u8) AND 0x40 \<noteq> 0"
    by simp_all
  have m: "c_string ''MQTT''" by (simp add: c_string_def)
  note cs = cstr_str_bytes [OF assms(9)] cstr_str_bytes [OF assms(10)] cstr_str_bytes [OF m]
  show ?thesis
    using p assms(11)
    by (simp add: handle_connect_def Let_def cs connect_packet_client_id assms(1-6) connect_will_def
        connect_credentials_def connect_field_def CONFIG_STORE_USERNAME_MAX_def
        CONFIG_STORE_PASSWORD_MAX_def flags case_prod_beta)
qed

definition demo_users :: "app_mqtt_user list" where
  "demo_users = [\<lparr>u_client_id = ''relay'', u_username = ''relay'', u_password = ''secret''\<rparr>]"

definition demo_intruder :: "string \<Rightarrow> u8 list" where
  "demo_intruder cid = connect_packet cid ''relay/cmd'' ''on'' ''relay'' ''guess''"

lemma demo_pair_capacity: "mqtt_device_client_capacity_available_locked cid old demo_pair"
proof -
  have "length (filter P (mb_sessions demo_pair)) \<le> 2" for P
    by (rule order_trans [OF length_filter_le]) (simp add: demo_pair_def)
  then show ?thesis
    unfolding mqtt_device_client_capacity_available_locked_def mqtt_active_device_client_count_locked_def
      QUEST_DEVICE_MAX_DEVICES_def by (meson le_less_trans numeral_less_iff semiring_norm)
qed

lemma demo_strings:
  "c_string ''relay''" "c_string ''intruder''" "c_string ''relay/cmd''" "c_string ''on''" "c_string ''guess''"
  by (simp_all add: c_string_def)

lemma demo_sizes:
  "length ''relay/cmd'' < MQTT_MAX_TOPIC" "length ''on'' < MQTT_MAX_PAYLOAD"
  by (simp_all add: MQTT_MAX_TOPIC_def MQTT_MAX_PAYLOAD_def MQTT_MAX_PACKET_def)

theorem takeover_precedes_authentication_witness:
  "let b' = snd (handle_connect demo_users 1 9 (demo_intruder ''relay'') demo_pair)
   in fst (handle_connect demo_users 1 9 (demo_intruder ''relay'') demo_pair) = MQTT_CONNACK_NOT_AUTHORIZED \<and>
     ms_closing (get_session 0 b') \<and> 4 \<in> set (mb_closed b')"
proof -
  have old: "find_session_by_client_id ''relay'' demo_pair = Some 0"
    by (simp add: find_session_by_client_id_def demo_pair_def session_zero_def)
  have rc: "fst (handle_connect demo_users 1 9 (demo_intruder ''relay'') demo_pair) = MQTT_CONNACK_NOT_AUTHORIZED"
    unfolding demo_intruder_def
    by (subst handle_connect_answer) (simp_all add: demo_strings demo_sizes [simplified] demo_pair_capacity
        mqtt_authenticate_client_def demo_users_def)
  have cid: "mqtt_parse_connect_client_id (demo_intruder ''relay'') CONFIG_STORE_CLIENT_ID_MAX = Some ''relay''"
    unfolding demo_intruder_def
    by (rule connect_packet_client_id) (simp_all add: demo_strings demo_sizes [simplified])
  have sock: "ms_sock (get_session 0 demo_pair) = 4" by (simp add: demo_pair_def get_session_def)
  show ?thesis
    using takeover_precedes_authentication [OF cid old _ surjective_pairing
        [of "handle_connect demo_users 1 9 (demo_intruder ''relay'') demo_pair", unfolded rc]] rc sock
    by (simp add: Let_def)
qed

section \<open>The will of a refused connection\<close>

lemma clear_session_sent:
  "mb_sent (mqtt_qos1_clear_session_locked i b) = mb_sent b"
proof -
  have "mb_sent (fold (mqtt_qos1_free_entry_locked i) ks b) = mb_sent b" for ks
    by (induction ks arbitrary: b) (simp_all add: mqtt_qos1_free_entry_locked_def upd_session_def Let_def)
  then show ?thesis by (simp add: mqtt_qos1_clear_session_locked_def)
qed

lemma free_session_sent: "mb_sent (free_session own now i b) = mb_sent b"
  by (simp add: free_session_def Let_def upd_session_def request_session_close_socket_def clear_session_sent)

text \<open>
  C32: the will of a refused client is published.  When a CONNECT packet is refused because its
  credentials are wrong, the will message in it is delivered to every subscriber of its topic all
  the same, whether or not the client might publish to that topic.
\<close>

theorem refused_client_publishes_will:
  assumes "length cid < 32" "length topic < MQTT_MAX_TOPIC" "length payload < MQTT_MAX_PAYLOAD"
    "length user < 32" "length pass < 32"
    and "c_string cid" "c_string topic" "c_string payload" "c_string user" "c_string pass"
    and "find_session_by_client_id cid b = None"
    and "mqtt_device_client_capacity_available_locked cid None b"
    and "i < length (mb_sessions b)" and "\<not> ms_suppress_will (get_session i b)"
    and "\<not> mqtt_authenticate_client users cid user pass"
    and "mb_net b = (\<lambda>_. Send_Ok)" and "publish_pieces topic payload 0 False 0 = Some ps"
  shows "\<exists>sock b'. client_connect users i now (Some (0x10, connect_packet cid topic payload user pass)) b =
      (False, b') \<and>
    mb_sent b' = mb_sent b @ (sock, connack_packet MQTT_CONNACK_NOT_AUTHORIZED) #
      concat (map (\<lambda>j. map (Pair (ms_sock (get_session j b))) ps)
        (filter (receives topic (Some i) b) [0..<length (mb_sessions b)]))"
proof -
  let ?pkt = "connect_packet cid topic payload user pass"
  obtain b1 where h: "handle_connect users i now ?pkt b = (MQTT_CONNACK_NOT_AUTHORIZED, b1)"
    and will: "ms_will (get_session i b1) = \<lparr>w_has = True, w_topic = topic, w_payload = payload, w_qos = 0,
      w_retain = False\<rparr>" "\<not> ms_suppress_will (get_session i b1)"
    and other: "\<forall>j. j \<noteq> i \<longrightarrow> get_session j b1 = get_session j b"
    and frame: "mb_net b1 = mb_net b" "length (mb_sessions b1) = length (mb_sessions b)" "mb_sent b1 = mb_sent b"
    using handle_connect_packet [OF assms(1-13), of users now] assms(14,15) by auto
  let ?sock = "ms_sock (get_session i b1)"
  let ?b2 = "b1\<lparr>mb_net_pos := Suc (mb_net_pos b1), mb_sent := mb_sent b1 @
    [(?sock, connack_packet MQTT_CONNACK_NOT_AUTHORIZED)]\<rparr>"
  have connack: "snd (send_connack ?sock MQTT_CONNACK_NOT_AUTHORIZED b1) = ?b2"
    using frame(1) assms(16) by (simp add: send_connack_def send_all_ok)
  have get: "get_session j ?b2 = get_session j b1" for j by (simp add: get_session_def)
  have rec: "receives topic (Some i) ?b2 = receives topic (Some i) b"
    using other by (intro ext) (auto simp: receives_def get)
  have same: "map (\<lambda>j. map (Pair (ms_sock (get_session j ?b2))) ps) (filter (receives topic (Some i) b) js) =
      map (\<lambda>j. map (Pair (ms_sock (get_session j b))) ps) (filter (receives topic (Some i) b) js)" for js
    using other by (auto simp: receives_def get)
  have net2: "mb_net ?b2 = (\<lambda>_. Send_Ok)" and len2: "length (mb_sessions ?b2) = length (mb_sessions b)"
    using frame assms(16) by simp_all
  have sent: "mb_sent (publish_to_subscribers now topic payload 0 False (Some i) ?b2) = mb_sent ?b2 @
      concat (map (\<lambda>j. map (Pair (ms_sock (get_session j b))) ps)
        (filter (receives topic (Some i) b) [0..<length (mb_sessions b)]))"
    by (simp only: publish_sent [OF net2 assms(17)] rec same len2)
  have "client_cleanup i now ?b2 =
      free_session True now i (publish_to_subscribers now topic payload 0 False (Some i) ?b2)"
    using will by (simp add: client_cleanup_def send_will_if_needed_def Let_def get)
  then show ?thesis
    using h connack sent frame(3)
    by (simp add: client_connect_def Let_def free_session_sent MQTT_CONNACK_NOT_AUTHORIZED_def)
qed

theorem refused_client_publishes_will_witness:
  "\<not> acl_can_publish ''intruder'' ''relay/cmd'' \<and>
   (\<exists>sock b'. client_connect demo_users 1 9 (Some (0x10, demo_intruder ''intruder'')) demo_pair = (False, b') \<and>
      mb_sent b' = [(sock, connack_packet MQTT_CONNACK_NOT_AUTHORIZED),
        (4, [0x30, 13, 0, 9]), (4, str_bytes ''relay/cmd''), (4, str_bytes ''on'')])"
proof -
  have r: "receives ''relay/cmd'' (Some 1) demo_pair 0" "\<not> receives ''relay/cmd'' (Some 1) demo_pair 1"
    using demo_match by (simp_all add: receives_def demo_pair_def get_session_def session_zero_def)
  have js: "[0..<length (mb_sessions demo_pair)] = [0, 1]" by (simp add: demo_pair_def upt_rec)
  have none: "find_session_by_client_id ''intruder'' demo_pair = None"
    by (simp add: find_session_by_client_id_def demo_pair_def session_zero_def)
  have s: "mb_sent demo_pair = []" "ms_sock (get_session 0 demo_pair) = 4" "mb_net demo_pair = (\<lambda>_. Send_Ok)"
    "1 < length (mb_sessions demo_pair)" "\<not> ms_suppress_will (get_session 1 demo_pair)"
    by (simp_all add: demo_pair_def broker_init_def get_session_def session_zero_def)
  have auth: "\<not> mqtt_authenticate_client demo_users ''intruder'' ''relay'' ''guess''"
    by (simp add: mqtt_authenticate_client_def demo_users_def)
  have acl: "\<not> acl_can_publish ''intruder'' ''relay/cmd''" by code_simp
  have "\<exists>sock b'. client_connect demo_users 1 9 (Some (0x10, demo_intruder ''intruder'')) demo_pair = (False, b') \<and>
      mb_sent b' = mb_sent demo_pair @ (sock, connack_packet MQTT_CONNACK_NOT_AUTHORIZED) #
        concat (map (\<lambda>j. map (Pair (ms_sock (get_session j demo_pair)))
            [[0x30, 13, 0, 9], str_bytes ''relay/cmd'', str_bytes ''on''])
          (filter (receives ''relay/cmd'' (Some 1) demo_pair) [0..<length (mb_sessions demo_pair)]))"
    unfolding demo_intruder_def
    by (rule refused_client_publishes_will [OF _ demo_sizes _ _ demo_strings(2,3,4,1,5) none demo_pair_capacity
          s(4,5) auth s(3) demo_pieces]) simp_all
  then show ?thesis using r acl by (simp add: js s)
qed

end
