(* ===== verification/Slot_Pool.thy ===== *)
theory Slot_Pool
  imports Gm_Prelude
begin

text \<open>
  Fixed pools of message slots.  Several components keep an array of messages beside an array of
  \<open>in_use\<close> flags: a free slot is the first whose flag is clear.  The locale \<open>slot_pool\<close> is the
  contract of such a pool and proves once that slots which are handed out keep exactly one owner;
  the components interpret it on their own allocator.
\<close>

section \<open>The scan for a free slot\<close>

definition first_free :: "bool list \<Rightarrow> nat option" where
  "first_free in_use = find_index (\<lambda>u. \<not> u) in_use"

lemma first_free_SomeD: "first_free us = Some i \<Longrightarrow> i < length us \<and> \<not> us ! i"
  unfolding first_free_def by (drule find_index_SomeD) simp

lemma first_free_NoneD: "first_free us = None \<Longrightarrow> i < length us \<Longrightarrow> us ! i"
  using find_index_NoneD [of "\<lambda>u. \<not> u" us "us ! i"] by (auto simp: first_free_def)

definition busy_slots :: "bool list \<Rightarrow> nat set" where
  "busy_slots us = {i. i < length us \<and> us ! i}"

lemma busy_take: "first_free us = Some i \<Longrightarrow> busy_slots (us[i := True]) = insert i (busy_slots us)"
  by (auto simp: busy_slots_def nth_list_update dest: first_free_SomeD)

lemma busy_release: "busy_slots (us[i := False]) = busy_slots us - {i}"
  by (cases "i < length us")
    (auto simp: busy_slots_def nth_list_update list_update_beyond split: if_splits)

lemma busy_full: "first_free us = None \<Longrightarrow> busy_slots us = {0..<length us}"
  by (auto simp: busy_slots_def dest: first_free_NoneD)

lemma busy_bound: "busy_slots us \<subseteq> {0..<length us}"
  by (auto simp: busy_slots_def)

section \<open>The contract\<close>

locale slot_pool =
  fixes alloc :: "'s \<Rightarrow> (nat \<times> 's) option"
    and release :: "nat \<Rightarrow> 's \<Rightarrow> 's"
    and busy :: "'s \<Rightarrow> nat set"
    and capacity :: "'s \<Rightarrow> nat"
    and usable :: "'s \<Rightarrow> bool"
  assumes alloc_SomeD: "alloc s = Some (i, t) \<Longrightarrow> usable s \<Longrightarrow>
      i \<notin> busy s \<and> busy t = insert i (busy s) \<and> capacity t = capacity s \<and> usable t"
    and alloc_NoneD: "alloc s = None \<Longrightarrow> usable s \<Longrightarrow> busy s = {0..<capacity s}"
    and release_busy: "usable s \<Longrightarrow> i < capacity s \<Longrightarrow>
      busy (release i s) = busy s - {i} \<and> capacity (release i s) = capacity s \<and> usable (release i s)"
    and busy_range: "usable s \<Longrightarrow> busy s \<subseteq> {0..<capacity s}"
begin

text \<open>The slots of the list \<open>xs\<close> are exactly the busy ones, each with one owner.\<close>

definition owned :: "nat list \<Rightarrow> 's \<Rightarrow> bool" where
  "owned xs s \<longleftrightarrow> usable s \<and> distinct xs \<and> set xs = busy s"

lemma owned_perm: "owned xs s \<Longrightarrow> distinct ys \<Longrightarrow> set ys = set xs \<Longrightarrow> owned ys s"
  by (simp add: owned_def)

lemma owned_alloc: "owned xs s \<Longrightarrow> alloc s = Some (i, t) \<Longrightarrow> owned (i # xs) t"
  using alloc_SomeD [of s i t] by (auto simp: owned_def)

lemma owned_release: "owned (i # xs) s \<Longrightarrow> owned xs (release i s)"
proof -
  assume o: "owned (i # xs) s"
  then have "i < capacity s" using busy_range [of s] by (auto simp: owned_def)
  with o release_busy [of s i] show ?thesis by (auto simp: owned_def)
qed

lemma owned_length: "owned xs s \<Longrightarrow> length xs \<le> capacity s"
proof -
  assume o: "owned xs s"
  then have "card (set xs) \<le> card {0..<capacity s}"
    using busy_range [of s] by (intro card_mono) (simp_all add: owned_def)
  with o distinct_card [of xs] show ?thesis by (auto simp: owned_def)
qed

lemma owned_full: "owned xs s \<Longrightarrow> alloc s = None \<Longrightarrow> length xs = capacity s"
  using alloc_NoneD [of s] distinct_card [of xs] by (auto simp: owned_def)

lemma owned_room: "owned xs s \<Longrightarrow> length xs < capacity s \<Longrightarrow> \<exists>i t. alloc s = Some (i, t)"
  using owned_full [of xs s] by (cases "alloc s") auto

end

end
