(* ===== verification/Event_Bus.thy ===== *)
theory Event_Bus
  imports Scenehub_Events Slot_Pool
begin

text \<open>
  The event bus (\<open>event_bus/event_bus.c\<close>): a pool of 128 messages, a queue of pointers into the
  pool, the task that hands each message to the registered handlers, and the job queue.

  A pointer into the pool is its index.  A handler and a job function are numbered; calling one
  is recorded in \<open>eb_calls\<close> or \<open>eb_jobs_run\<close>, publishing a status snapshot in \<open>eb_published\<close>.
  The local variable \<open>message\<close> of the task is the field \<open>eb_message\<close>, so that posts may happen
  between receiving and freeing a message.  Whether the heap, the queues and the tasks could be
  created, the current time and the duration of the handlers are arguments.
\<close>

definition EVENT_BUS_QUEUE_LEN :: nat where "EVENT_BUS_QUEUE_LEN = 128"
definition EVENT_BUS_JOB_QUEUE_LEN :: nat where "EVENT_BUS_JOB_QUEUE_LEN = 32"
definition EVENT_BUS_MAX_HANDLERS :: nat where "EVENT_BUS_MAX_HANDLERS = 12"
definition EVENT_BUS_HANDLER_WARN_MS :: u32 where "EVENT_BUS_HANDLER_WARN_MS = 20"
definition EVENT_BUS_STATUS_PUBLISH_MIN_US :: u64 where "EVENT_BUS_STATUS_PUBLISH_MIN_US = 500000"

type_synonym event_bus_handler = nat

record event_bus_job =
  job_fn :: nat
  job_ctx :: nat

record event_bus_stats =
  bs_posted :: u32
  bs_dispatched :: u32
  bs_dropped :: u32
  bs_queue_waiting :: u32
  bs_handler_count :: u32
  bs_slow_handler_count :: u32
  bs_max_handler_ms :: u32
  bs_job_posted :: u32
  bs_job_dispatched :: u32
  bs_job_dropped :: u32
  bs_job_queue_waiting :: u32

record event_bus =
  eb_queue :: "nat list option"
  eb_job_queue :: "event_bus_job list option"
  eb_task :: bool
  eb_job_task :: bool
  eb_initialized :: bool
  eb_message_pool :: "scenehub_event list option"
  eb_message_pool_in_use :: "bool list"
  eb_handlers :: "event_bus_handler list"
  eb_posted_count :: u32
  eb_dispatched_count :: u32
  eb_drop_count :: u32
  eb_slow_handler_count :: u32
  eb_max_handler_ms :: u32
  eb_job_posted_count :: u32
  eb_job_dispatched_count :: u32
  eb_job_drop_count :: u32
  eb_last_status_publish_us :: u64
  eb_message :: "nat option"
  eb_calls :: "(event_bus_handler \<times> scenehub_event) list"
  eb_jobs_run :: "event_bus_job list"
  eb_published :: "event_bus_stats list"

definition event_bus_zero :: event_bus where
  "event_bus_zero = \<lparr>eb_queue = None, eb_job_queue = None, eb_task = False, eb_job_task = False,
     eb_initialized = False, eb_message_pool = None,
     eb_message_pool_in_use = replicate EVENT_BUS_QUEUE_LEN False, eb_handlers = [],
     eb_posted_count = 0, eb_dispatched_count = 0, eb_drop_count = 0, eb_slow_handler_count = 0,
     eb_max_handler_ms = 0, eb_job_posted_count = 0, eb_job_dispatched_count = 0,
     eb_job_drop_count = 0, eb_last_status_publish_us = 0, eb_message = None, eb_calls = [],
     eb_jobs_run = [], eb_published = []\<rparr>"

definition scenehub_event_zero :: scenehub_event where
  "scenehub_event_zero = \<lparr>ev_type = SCENEHUB_EVENT_NONE, ev_priority = EVENT_BUS_PRIORITY_NORMAL,
     ev_origin = SCENEHUB_EVENT_ORIGIN_INTERNAL, ev_topic = [], ev_payload = [],
     ev_data = PAYLOAD_TEXT\<rparr>"

section \<open>The message pool\<close>

definition queue_waiting :: "'a list option \<Rightarrow> u32" where
  "queue_waiting queue = (case queue of None \<Rightarrow> 0 | Some q \<Rightarrow> of_nat (length q))"

definition ensure_message_pool :: "bool \<Rightarrow> bool \<Rightarrow> event_bus \<Rightarrow> esp_err \<times> event_bus" where
  "ensure_message_pool psram_ok internal_ok b =
     (if eb_message_pool b \<noteq> None then (ESP_OK, b)
      else if psram_ok \<or> internal_ok
      then (ESP_OK, b\<lparr>eb_message_pool := Some (replicate EVENT_BUS_QUEUE_LEN scenehub_event_zero)\<rparr>)
      else (ESP_ERR_NO_MEM, b))"

definition write_slot :: "nat \<Rightarrow> scenehub_event \<Rightarrow> event_bus \<Rightarrow> event_bus" where
  "write_slot i e b = b\<lparr>eb_message_pool := map_option (\<lambda>p. p[i := e]) (eb_message_pool b)\<rparr>"

definition message_pool_alloc :: "event_bus \<Rightarrow> (nat \<times> event_bus) option" where
  "message_pool_alloc b =
     (if eb_message_pool b = None then None
      else case first_free (eb_message_pool_in_use b) of
             None \<Rightarrow> None
           | Some i \<Rightarrow> Some (i, write_slot i scenehub_event_zero
               (b\<lparr>eb_message_pool_in_use := (eb_message_pool_in_use b)[i := True]\<rparr>)))"

definition message_pool_free :: "nat \<Rightarrow> event_bus \<Rightarrow> event_bus" where
  "message_pool_free i b =
     (if eb_message_pool b = None \<or> i \<ge> EVENT_BUS_QUEUE_LEN then b
      else b\<lparr>eb_message_pool_in_use := (eb_message_pool_in_use b)[i := False]\<rparr>)"

section \<open>Statistics\<close>

definition stats_increment :: "((u32 \<Rightarrow> u32) \<Rightarrow> event_bus \<Rightarrow> event_bus) \<Rightarrow> event_bus \<Rightarrow> event_bus" where
  "stats_increment counter b = counter (\<lambda>n. n + 1) b"

definition stats_record_handler_duration :: "u32 \<Rightarrow> event_bus \<Rightarrow> event_bus" where
  "stats_record_handler_duration elapsed_ms b =
     (let b1 = (if elapsed_ms > eb_max_handler_ms b then b\<lparr>eb_max_handler_ms := elapsed_ms\<rparr> else b)
      in if elapsed_ms > EVENT_BUS_HANDLER_WARN_MS
         then b1\<lparr>eb_slow_handler_count := eb_slow_handler_count b1 + 1\<rparr> else b1)"

definition event_bus_get_stats :: "event_bus \<Rightarrow> event_bus_stats" where
  "event_bus_get_stats b = \<lparr>bs_posted = eb_posted_count b, bs_dispatched = eb_dispatched_count b,
     bs_dropped = eb_drop_count b, bs_queue_waiting = queue_waiting (eb_queue b),
     bs_handler_count = of_nat (length (eb_handlers b)),
     bs_slow_handler_count = eb_slow_handler_count b, bs_max_handler_ms = eb_max_handler_ms b,
     bs_job_posted = eb_job_posted_count b, bs_job_dispatched = eb_job_dispatched_count b,
     bs_job_dropped = eb_job_drop_count b, bs_job_queue_waiting = queue_waiting (eb_job_queue b)\<rparr>"

definition publish_status_snapshot :: "event_bus \<Rightarrow> event_bus" where
  "publish_status_snapshot b = b\<lparr>eb_published := eb_published b @ [event_bus_get_stats b]\<rparr>"

definition publish_status_now :: "u64 \<Rightarrow> event_bus \<Rightarrow> event_bus" where
  "publish_status_now now_us b = publish_status_snapshot (b\<lparr>eb_last_status_publish_us := now_us\<rparr>)"

definition publish_status_if_due :: "u64 \<Rightarrow> event_bus \<Rightarrow> event_bus" where
  "publish_status_if_due now_us b =
     (let last = eb_last_status_publish_us b in
      if last = 0 \<or> now_us \<le> last \<or> now_us - last \<ge> EVENT_BUS_STATUS_PUBLISH_MIN_US
      then publish_status_snapshot (b\<lparr>eb_last_status_publish_us := now_us\<rparr>) else b)"

section \<open>Dispatching\<close>

text \<open>The handlers are called in the order of registration; \<open>elapsed\<close> gives their durations.\<close>

definition call_handler ::
  "(event_bus_handler \<Rightarrow> u32) \<Rightarrow> scenehub_event \<Rightarrow> event_bus_handler \<Rightarrow> event_bus \<Rightarrow> event_bus" where
  "call_handler elapsed message h b =
     stats_record_handler_duration (elapsed h) (b\<lparr>eb_calls := eb_calls b @ [(h, message)]\<rparr>)"

definition dispatch_message ::
  "(event_bus_handler \<Rightarrow> u32) \<Rightarrow> scenehub_event \<Rightarrow> event_bus \<Rightarrow> event_bus" where
  "dispatch_message elapsed message b =
     fold (call_handler elapsed message) (take EVENT_BUS_MAX_HANDLERS (eb_handlers b)) b"

text \<open>The loop body of the task, cut where the message has been received.\<close>

definition event_bus_task_receive :: "event_bus \<Rightarrow> event_bus option" where
  "event_bus_task_receive b =
     (case (eb_queue b, eb_message b) of
        (Some (i # q), None) \<Rightarrow> Some (b\<lparr>eb_queue := Some q, eb_message := Some i\<rparr>)
      | _ \<Rightarrow> None)"

definition pool_message :: "event_bus \<Rightarrow> nat \<Rightarrow> scenehub_event" where
  "pool_message b i = (case eb_message_pool b of None \<Rightarrow> scenehub_event_zero | Some p \<Rightarrow> p ! i)"

definition event_bus_task_finish ::
  "(event_bus_handler \<Rightarrow> u32) \<Rightarrow> u64 \<Rightarrow> nat \<Rightarrow> event_bus \<Rightarrow> event_bus" where
  "event_bus_task_finish elapsed now_us i b =
     publish_status_if_due now_us
       (stats_increment eb_dispatched_count_update
         ((message_pool_free i (dispatch_message elapsed (pool_message b i) b))\<lparr>eb_message := None\<rparr>))"

definition event_bus_job_task_step :: "u64 \<Rightarrow> event_bus \<Rightarrow> event_bus option" where
  "event_bus_job_task_step now_us b =
     (case eb_job_queue b of
        Some (job # q) \<Rightarrow>
          Some (publish_status_if_due now_us
            (stats_increment eb_job_dispatched_count_update
              (b\<lparr>eb_job_queue := Some q, eb_jobs_run := eb_jobs_run b @ [job]\<rparr>)))
      | _ \<Rightarrow> None)"

section \<open>Start-up\<close>

definition event_bus_init ::
  "bool \<Rightarrow> bool \<Rightarrow> bool \<Rightarrow> bool \<Rightarrow> u64 \<Rightarrow> event_bus \<Rightarrow> esp_err \<times> event_bus" where
  "event_bus_init psram_ok internal_ok queue_ok job_queue_ok now_us b =
     (if eb_initialized b then (ESP_OK, publish_status_now now_us b)
      else let (pool_err, b1) = ensure_message_pool psram_ok internal_ok b in
        if pool_err \<noteq> ESP_OK then (pool_err, b1)
        else if eb_queue b1 = None \<and> \<not> queue_ok then (ESP_ERR_NO_MEM, b1)
        else let b2 = (if eb_queue b1 = None then b1\<lparr>eb_queue := Some []\<rparr> else b1) in
          if eb_job_queue b2 = None \<and> \<not> job_queue_ok then (ESP_ERR_NO_MEM, b2)
          else let b3 = (if eb_job_queue b2 = None then b2\<lparr>eb_job_queue := Some []\<rparr> else b2);
                   b4 = b3\<lparr>eb_message_pool_in_use := replicate EVENT_BUS_QUEUE_LEN False,
                     eb_handlers := [], eb_posted_count := 0, eb_dispatched_count := 0,
                     eb_drop_count := 0, eb_slow_handler_count := 0, eb_max_handler_ms := 0,
                     eb_job_posted_count := 0, eb_job_dispatched_count := 0, eb_job_drop_count := 0,
                     eb_last_status_publish_us := 0\<rparr>
               in (ESP_OK, (publish_status_now now_us b4)\<lparr>eb_initialized := True\<rparr>))"

definition event_bus_start :: "bool \<Rightarrow> bool \<Rightarrow> u64 \<Rightarrow> event_bus \<Rightarrow> esp_err \<times> event_bus" where
  "event_bus_start task_ok job_task_ok now_us b =
     (if eb_queue b = None \<or> eb_job_queue b = None then (ESP_ERR_INVALID_STATE, b)
      else if \<not> eb_task b \<and> \<not> task_ok then (ESP_ERR_NO_MEM, b)
      else let b1 = b\<lparr>eb_task := True\<rparr> in
        if \<not> eb_job_task b1 \<and> \<not> job_task_ok then (ESP_ERR_NO_MEM, b1)
        else (ESP_OK, publish_status_now now_us (b1\<lparr>eb_job_task := True\<rparr>)))"

section \<open>Posting\<close>

text \<open>
  A post first takes a slot and copies the message into it, then sends the slot's pointer; other
  tasks may run in between.  The first part returns the error or the slot.
\<close>

definition post_begin ::
  "scenehub_event \<Rightarrow> event_bus_priority \<Rightarrow> u64 \<Rightarrow> event_bus \<Rightarrow> (esp_err + nat) \<times> event_bus" where
  "post_begin message priority now_us b =
     (if eb_queue b = None then (Inl ESP_ERR_INVALID_STATE, b)
      else if \<not> scenehub_event_is_valid message
      then (Inl ESP_ERR_INVALID_ARG,
            publish_status_now now_us (stats_increment eb_drop_count_update b))
      else case message_pool_alloc b of
             None \<Rightarrow> (Inl ESP_ERR_NO_MEM,
                      publish_status_now now_us (stats_increment eb_drop_count_update b))
           | Some (queued, b1) \<Rightarrow>
               (Inr queued, write_slot queued (message\<lparr>ev_priority := priority\<rparr>) b1))"

text \<open>The second part; a full queue is the expiry of the time-out.\<close>

definition post_send ::
  "nat \<Rightarrow> event_bus_priority \<Rightarrow> u64 \<Rightarrow> event_bus \<Rightarrow> esp_err \<times> event_bus" where
  "post_send queued priority now_us b =
     (let q = (case eb_queue b of None \<Rightarrow> [] | Some q \<Rightarrow> q) in
      if length q \<ge> EVENT_BUS_QUEUE_LEN
      then (ESP_ERR_TIMEOUT, publish_status_now now_us
             (message_pool_free queued (stats_increment eb_drop_count_update b)))
      else (ESP_OK, publish_status_if_due now_us
             (stats_increment eb_posted_count_update
               (b\<lparr>eb_queue := Some (if priority = EVENT_BUS_PRIORITY_HIGH then queued # q
                                    else q @ [queued])\<rparr>))))"

definition event_bus_post_priority ::
  "scenehub_event \<Rightarrow> event_bus_priority \<Rightarrow> u64 \<Rightarrow> event_bus \<Rightarrow> esp_err \<times> event_bus" where
  "event_bus_post_priority message priority now_us b =
     (case post_begin message priority now_us b of
        (Inl err, b1) \<Rightarrow> (err, b1)
      | (Inr queued, b1) \<Rightarrow> post_send queued priority now_us b1)"

definition event_bus_post :: "scenehub_event \<Rightarrow> u64 \<Rightarrow> event_bus \<Rightarrow> esp_err \<times> event_bus" where
  "event_bus_post message now_us b = event_bus_post_priority message (ev_priority message) now_us b"

definition event_bus_post_job :: "event_bus_job \<Rightarrow> u64 \<Rightarrow> event_bus \<Rightarrow> esp_err \<times> event_bus" where
  "event_bus_post_job job now_us b =
     (case eb_job_queue b of
        None \<Rightarrow> (ESP_ERR_INVALID_STATE, b)
      | Some q \<Rightarrow>
          (if length q \<ge> EVENT_BUS_JOB_QUEUE_LEN
           then (ESP_ERR_TIMEOUT, publish_status_now now_us (stats_increment eb_job_drop_count_update b))
           else (ESP_OK, publish_status_if_due now_us
                  (stats_increment eb_job_posted_count_update (b\<lparr>eb_job_queue := Some (q @ [job])\<rparr>)))))"

definition event_bus_register_handler ::
  "event_bus_handler \<Rightarrow> u64 \<Rightarrow> event_bus \<Rightarrow> esp_err \<times> event_bus" where
  "event_bus_register_handler handler now_us b =
     (if handler \<in> set (eb_handlers b) then (ESP_OK, publish_status_now now_us b)
      else if length (eb_handlers b) \<ge> EVENT_BUS_MAX_HANDLERS then (ESP_ERR_NO_MEM, b)
      else (ESP_OK, publish_status_now now_us (b\<lparr>eb_handlers := eb_handlers b @ [handler]\<rparr>)))"

end
