(* ===== verification/Event_Bus_Props.thy ===== *)
theory Event_Bus_Props
  imports Event_Bus
begin

text \<open>
  Correctness of the event bus under interleaving.  A configuration is the bus with the posters
  that hold a slot they have not sent yet.  The pool interprets \<open>slot_pool\<close>; the bus refines a
  double-ended queue of events whose capacity counts the events being posted and delivered too.
\<close>

section \<open>The message pool as a slot pool\<close>

definition pool_ready :: "event_bus \<Rightarrow> bool" where
  "pool_ready b \<longleftrightarrow> (\<exists>p. eb_message_pool b = Some p \<and> length p = EVENT_BUS_QUEUE_LEN) \<and>
     length (eb_message_pool_in_use b) = EVENT_BUS_QUEUE_LEN"

abbreviation bus_busy :: "event_bus \<Rightarrow> nat set" where
  "bus_busy b \<equiv> busy_slots (eb_message_pool_in_use b)"

lemma write_slot_frame [simp]:
  "eb_message_pool_in_use (write_slot i e b) = eb_message_pool_in_use b"
  "eb_queue (write_slot i e b) = eb_queue b" "eb_message (write_slot i e b) = eb_message b"
  "eb_handlers (write_slot i e b) = eb_handlers b" "eb_calls (write_slot i e b) = eb_calls b"
  "eb_posted_count (write_slot i e b) = eb_posted_count b"
  "eb_dispatched_count (write_slot i e b) = eb_dispatched_count b"
  "eb_job_queue (write_slot i e b) = eb_job_queue b"
  "pool_ready (write_slot i e b) = pool_ready b"
  by (auto simp: write_slot_def pool_ready_def)

lemma pool_message_write:
  assumes "pool_ready b" and "i < EVENT_BUS_QUEUE_LEN"
  shows "pool_message (write_slot i e b) j = (if j = i then e else pool_message b j)"
  using assms by (auto simp: pool_ready_def pool_message_def write_slot_def)

lemma pool_alloc_SomeD:
  assumes "message_pool_alloc s = Some (i, t)"
  shows "first_free (eb_message_pool_in_use s) = Some i"
    and "t = write_slot i scenehub_event_zero
      (s\<lparr>eb_message_pool_in_use := (eb_message_pool_in_use s)[i := True]\<rparr>)"
  using assms by (simp_all add: message_pool_alloc_def split: if_splits option.splits)

interpretation bus_pool: slot_pool message_pool_alloc message_pool_free bus_busy
  "\<lambda>b. length (eb_message_pool_in_use b)" pool_ready
proof unfold_locales
  fix s t :: event_bus and i
  show "i \<notin> bus_busy s \<and> bus_busy t = insert i (bus_busy s) \<and>
      length (eb_message_pool_in_use t) = length (eb_message_pool_in_use s) \<and> pool_ready t"
    if "message_pool_alloc s = Some (i, t)" "pool_ready s"
    using pool_alloc_SomeD [OF that(1)] that(2)
    by (simp add: busy_take) (simp add: busy_slots_def first_free_SomeD pool_ready_def)
  show "bus_busy s = {0..<length (eb_message_pool_in_use s)}"
    if "message_pool_alloc s = None" "pool_ready s"
    using that busy_full [of "eb_message_pool_in_use s"]
    by (auto simp: message_pool_alloc_def pool_ready_def split: if_splits option.splits)
  show "bus_busy (message_pool_free i s) = bus_busy s - {i} \<and>
      length (eb_message_pool_in_use (message_pool_free i s)) = length (eb_message_pool_in_use s) \<and>
      pool_ready (message_pool_free i s)"
    if "pool_ready s" "i < length (eb_message_pool_in_use s)"
    using that by (auto simp: message_pool_free_def pool_ready_def busy_release)
  show "bus_busy s \<subseteq> {0..<length (eb_message_pool_in_use s)}" if "pool_ready s"
    by (rule busy_bound)
qed

section \<open>Frames\<close>

named_theorems bus_simps \<open>effect of the bookkeeping on the queue and the pool\<close>

lemma publish_frame [bus_simps]:
  "eb_queue (publish_status_now now b) = eb_queue b"
  "eb_message (publish_status_now now b) = eb_message b"
  "eb_handlers (publish_status_now now b) = eb_handlers b"
  "eb_calls (publish_status_now now b) = eb_calls b"
  "eb_message_pool (publish_status_now now b) = eb_message_pool b"
  "eb_message_pool_in_use (publish_status_now now b) = eb_message_pool_in_use b"
  "eb_posted_count (publish_status_now now b) = eb_posted_count b"
  "eb_dispatched_count (publish_status_now now b) = eb_dispatched_count b"
  "eb_queue (publish_status_if_due now b) = eb_queue b"
  "eb_message (publish_status_if_due now b) = eb_message b"
  "eb_handlers (publish_status_if_due now b) = eb_handlers b"
  "eb_calls (publish_status_if_due now b) = eb_calls b"
  "eb_message_pool (publish_status_if_due now b) = eb_message_pool b"
  "eb_message_pool_in_use (publish_status_if_due now b) = eb_message_pool_in_use b"
  "eb_posted_count (publish_status_if_due now b) = eb_posted_count b"
  "eb_dispatched_count (publish_status_if_due now b) = eb_dispatched_count b"
  by (simp_all add: publish_status_now_def publish_status_if_due_def publish_status_snapshot_def Let_def)

lemma duration_frame [bus_simps]:
  "eb_queue (stats_record_handler_duration d b) = eb_queue b"
  "eb_message (stats_record_handler_duration d b) = eb_message b"
  "eb_handlers (stats_record_handler_duration d b) = eb_handlers b"
  "eb_calls (stats_record_handler_duration d b) = eb_calls b"
  "eb_message_pool (stats_record_handler_duration d b) = eb_message_pool b"
  "eb_message_pool_in_use (stats_record_handler_duration d b) = eb_message_pool_in_use b"
  "eb_posted_count (stats_record_handler_duration d b) = eb_posted_count b"
  "eb_dispatched_count (stats_record_handler_duration d b) = eb_dispatched_count b"
  by (simp_all add: stats_record_handler_duration_def Let_def)

lemma dispatch_frame [bus_simps]:
  "eb_queue (dispatch_message el e b) = eb_queue b"
  "eb_message (dispatch_message el e b) = eb_message b"
  "eb_handlers (dispatch_message el e b) = eb_handlers b"
  "eb_calls (dispatch_message el e b) =
     eb_calls b @ map (\<lambda>h. (h, e)) (take EVENT_BUS_MAX_HANDLERS (eb_handlers b))"
  "eb_message_pool (dispatch_message el e b) = eb_message_pool b"
  "eb_message_pool_in_use (dispatch_message el e b) = eb_message_pool_in_use b"
  "eb_posted_count (dispatch_message el e b) = eb_posted_count b"
  "eb_dispatched_count (dispatch_message el e b) = eb_dispatched_count b"
proof -
  have "eb_queue (fold (call_handler el e) hs b) = eb_queue b \<and>
      eb_message (fold (call_handler el e) hs b) = eb_message b \<and>
      eb_handlers (fold (call_handler el e) hs b) = eb_handlers b \<and>
      eb_calls (fold (call_handler el e) hs b) = eb_calls b @ map (\<lambda>h. (h, e)) hs \<and>
      eb_message_pool (fold (call_handler el e) hs b) = eb_message_pool b \<and>
      eb_message_pool_in_use (fold (call_handler el e) hs b) = eb_message_pool_in_use b \<and>
      eb_posted_count (fold (call_handler el e) hs b) = eb_posted_count b \<and>
      eb_dispatched_count (fold (call_handler el e) hs b) = eb_dispatched_count b" for hs
    by (induction hs arbitrary: b) (simp_all add: call_handler_def bus_simps)
  then show
    "eb_queue (dispatch_message el e b) = eb_queue b"
    "eb_message (dispatch_message el e b) = eb_message b"
    "eb_handlers (dispatch_message el e b) = eb_handlers b"
    "eb_calls (dispatch_message el e b) =
       eb_calls b @ map (\<lambda>h. (h, e)) (take EVENT_BUS_MAX_HANDLERS (eb_handlers b))"
    "eb_message_pool (dispatch_message el e b) = eb_message_pool b"
    "eb_message_pool_in_use (dispatch_message el e b) = eb_message_pool_in_use b"
    "eb_posted_count (dispatch_message el e b) = eb_posted_count b"
    "eb_dispatched_count (dispatch_message el e b) = eb_dispatched_count b"
    by (simp_all add: dispatch_message_def)
qed

section \<open>Interleaved runs\<close>

text \<open>
  The steps of a started bus: a poster takes a slot (or is refused), a poster sends its slot, the
  task receives a message, the task delivers it, a handler is registered, a job is posted or run.
\<close>

type_synonym bus_config = "event_bus \<times> (nat \<times> event_bus_priority) list"

datatype bus_label =
    Bus_Accept scenehub_event event_bus_priority
  | Bus_Refuse
  | Bus_Enqueue
  | Bus_Take
  | Bus_Deliver "event_bus_handler list"
  | Bus_Other

inductive bus_step :: "bus_config \<Rightarrow> bus_label \<Rightarrow> bus_config \<Rightarrow> bool" where
  post_accepted: "post_begin m p now b = (Inr i, b') \<Longrightarrow>
    bus_step (b, held) (Bus_Accept m p) (b', (i, p) # held)"
| post_refused: "post_begin m p now b = (Inl err, b') \<Longrightarrow> bus_step (b, held) Bus_Refuse (b', held)"
| post_sent: "held = xs @ (i, p) # ys \<Longrightarrow> post_send i p now b = (err, b') \<Longrightarrow>
    bus_step (b, held) Bus_Enqueue (b', xs @ ys)"
| task_receive: "event_bus_task_receive b = Some b' \<Longrightarrow> bus_step (b, held) Bus_Take (b', held)"
| task_finish: "eb_message b = Some i \<Longrightarrow>
    bus_step (b, held) (Bus_Deliver (take EVENT_BUS_MAX_HANDLERS (eb_handlers b)))
      (event_bus_task_finish elapsed now i b, held)"
| add_handler: "event_bus_register_handler h now b = (err, b') \<Longrightarrow>
    bus_step (b, held) Bus_Other (b', held)"
| add_job: "event_bus_post_job j now b = (err, b') \<Longrightarrow> bus_step (b, held) Bus_Other (b', held)"
| run_job: "event_bus_job_task_step now b = Some b' \<Longrightarrow> bus_step (b, held) Bus_Other (b', held)"

inductive bus_reachable :: "bus_config \<Rightarrow> bool" where
  bus_started: "event_bus_init psram internal True True now event_bus_zero = (ESP_OK, b) \<Longrightarrow>
    bus_reachable (b, [])"
| bus_stepped: "bus_reachable c \<Longrightarrow> bus_step c l c' \<Longrightarrow> bus_reachable c'"

section \<open>Ownership of the slots\<close>

definition bus_waiting :: "event_bus \<Rightarrow> nat list" where
  "bus_waiting b = (case eb_queue b of None \<Rightarrow> [] | Some q \<Rightarrow> q)"

definition slot_owners :: "bus_config \<Rightarrow> nat list" where
  "slot_owners c = bus_waiting (fst c) @ map fst (snd c) @
     (case eb_message (fst c) of None \<Rightarrow> [] | Some i \<Rightarrow> [i])"

definition in_flight :: "event_bus \<Rightarrow> nat" where
  "in_flight b = length (bus_waiting b) + (if eb_message b = None then 0 else 1)"

definition bus_ok :: "bus_config \<Rightarrow> bool" where
  "bus_ok c \<longleftrightarrow> eb_queue (fst c) \<noteq> None \<and> bus_pool.owned (slot_owners c) (fst c) \<and>
     eb_posted_count (fst c) = eb_dispatched_count (fst c) + of_nat (in_flight (fst c))"

lemma owned_cong:
  "eb_message_pool b' = eb_message_pool b \<Longrightarrow> eb_message_pool_in_use b' = eb_message_pool_in_use b \<Longrightarrow>
   bus_pool.owned xs b' = bus_pool.owned xs b"
  by (simp add: bus_pool.owned_def pool_ready_def)

lemma bus_ok_cong:
  assumes "eb_queue b' = eb_queue b" "eb_message b' = eb_message b"
    "eb_message_pool b' = eb_message_pool b" "eb_message_pool_in_use b' = eb_message_pool_in_use b"
    "eb_posted_count b' = eb_posted_count b" "eb_dispatched_count b' = eb_dispatched_count b"
  shows "bus_ok (b', held) = bus_ok (b, held)"
  using assms owned_cong [OF assms(3,4)]
  by (simp add: bus_ok_def slot_owners_def bus_waiting_def in_flight_def)

text \<open>A poster that holds a slot always finds room in the queue.\<close>

lemma held_has_room:
  assumes "bus_ok (b, held)" and "(i, p) \<in> set held"
  shows "length (bus_waiting b) < EVENT_BUS_QUEUE_LEN"
proof -
  have "length (slot_owners (b, held)) \<le> length (eb_message_pool_in_use b)"
    using assms(1) by (simp add: bus_ok_def bus_pool.owned_length)
  moreover have "length (eb_message_pool_in_use b) = EVENT_BUS_QUEUE_LEN"
    using assms(1) by (simp add: bus_ok_def bus_pool.owned_def pool_ready_def)
  moreover have "0 < length held" using assms(2) by (cases held) simp_all
  ultimately show ?thesis unfolding slot_owners_def length_append length_map fst_conv snd_conv by linarith
qed

lemma post_send_ok:
  assumes "length (bus_waiting b) < EVENT_BUS_QUEUE_LEN"
  shows "post_send i p now b = (ESP_OK, publish_status_if_due now
    (stats_increment eb_posted_count_update
      (b\<lparr>eb_queue := Some (if p = EVENT_BUS_PRIORITY_HIGH then i # bus_waiting b
                           else bus_waiting b @ [i])\<rparr>)))"
  using assms by (simp add: post_send_def Let_def bus_waiting_def)


section \<open>The abstract bus\<close>

text \<open>
  A double-ended queue of events: an accepted event is first with its poster, then waits, then is
  with the task, then has been handed to the handlers.
\<close>

record abs_bus =
  ab_posting :: "(scenehub_event \<times> event_bus_priority) list"
  ab_waiting :: "scenehub_event list"
  ab_current :: "scenehub_event option"
  ab_calls :: "(event_bus_handler \<times> scenehub_event) list"

definition ab_load :: "abs_bus \<Rightarrow> nat" where
  "ab_load a = length (ab_posting a) + length (ab_waiting a) + (if ab_current a = None then 0 else 1)"

inductive abs_bus_step :: "abs_bus \<Rightarrow> bus_label \<Rightarrow> abs_bus \<Rightarrow> bool" where
  abs_accept: "scenehub_event_is_valid m \<Longrightarrow> ab_load a < EVENT_BUS_QUEUE_LEN \<Longrightarrow>
    abs_bus_step a (Bus_Accept m p) (a\<lparr>ab_posting := (m\<lparr>ev_priority := p\<rparr>, p) # ab_posting a\<rparr>)"
| abs_refuse: "abs_bus_step a Bus_Refuse a"
| abs_enqueue: "ab_posting a = xs @ (e, p) # ys \<Longrightarrow>
    abs_bus_step a Bus_Enqueue (a\<lparr>ab_posting := xs @ ys,
      ab_waiting := (if p = EVENT_BUS_PRIORITY_HIGH then e # ab_waiting a else ab_waiting a @ [e])\<rparr>)"
| abs_take: "ab_waiting a = e # es \<Longrightarrow> ab_current a = None \<Longrightarrow>
    abs_bus_step a Bus_Take (a\<lparr>ab_waiting := es, ab_current := Some e\<rparr>)"
| abs_deliver: "ab_current a = Some e \<Longrightarrow>
    abs_bus_step a (Bus_Deliver hs) (a\<lparr>ab_current := None, ab_calls := ab_calls a @ map (\<lambda>h. (h, e)) hs\<rparr>)"
| abs_other: "abs_bus_step a Bus_Other a"

definition bus_abs :: "bus_config \<Rightarrow> abs_bus" where
  "bus_abs c = \<lparr>ab_posting = map (\<lambda>(i, p). (pool_message (fst c) i, p)) (snd c),
     ab_waiting = map (pool_message (fst c)) (bus_waiting (fst c)),
     ab_current = map_option (pool_message (fst c)) (eb_message (fst c)), ab_calls = eb_calls (fst c)\<rparr>"

lemma bus_abs_cong:
  assumes "eb_queue b' = eb_queue b" "eb_message b' = eb_message b"
    "eb_message_pool b' = eb_message_pool b" "eb_calls b' = eb_calls b"
  shows "bus_abs (b', held) = bus_abs (b, held)"
proof -
  have "pool_message b' = pool_message b" by (rule ext) (simp add: pool_message_def assms(3))
  then show ?thesis by (simp add: bus_abs_def bus_waiting_def assms)
qed

lemma ab_load_owners: "ab_load (bus_abs c) = length (slot_owners c)"
  by (simp add: ab_load_def bus_abs_def slot_owners_def split: option.split)

section \<open>Every step keeps the invariant and refines\<close>

definition bus_simulates :: "bus_config \<Rightarrow> bus_label \<Rightarrow> bus_config \<Rightarrow> bool" where
  "bus_simulates c l c' \<longleftrightarrow> bus_ok c' \<and> abs_bus_step (bus_abs c) l (bus_abs c')"

lemma simulates_quiet:
  assumes "bus_ok (b, held)" and "l = Bus_Refuse \<or> l = Bus_Other"
    and "eb_queue b' = eb_queue b" "eb_message b' = eb_message b"
    "eb_message_pool b' = eb_message_pool b" "eb_message_pool_in_use b' = eb_message_pool_in_use b"
    "eb_posted_count b' = eb_posted_count b" "eb_dispatched_count b' = eb_dispatched_count b"
    "eb_calls b' = eb_calls b"
  shows "bus_simulates (b, held) l (b', held)"
  using assms bus_ok_cong [OF assms(3-8), of held] bus_abs_cong [OF assms(3-5) assms(9), of held]
  by (auto simp: bus_simulates_def intro: abs_bus_step.intros)

lemma simulates_accept:
  assumes ok: "bus_ok (b, held)" and post: "post_begin m p now b = (Inr i, b')"
  shows "bus_simulates (b, held) (Bus_Accept m p) (b', (i, p) # held)"
proof -
  obtain b1 where valid: "scenehub_event_is_valid m" and alloc: "message_pool_alloc b = Some (i, b1)"
    and b': "b' = write_slot i (m\<lparr>ev_priority := p\<rparr>) b1"
    using post by (auto simp: post_begin_def split: if_splits option.splits prod.splits)
  note b1 = pool_alloc_SomeD [OF alloc]
  have owned: "bus_pool.owned (slot_owners (b, held)) b" using ok by (simp add: bus_ok_def)
  then have ready: "pool_ready b" by (simp add: bus_pool.owned_def)
  have i: "i < EVENT_BUS_QUEUE_LEN"
    using first_free_SomeD [OF b1(1)] ready by (simp add: pool_ready_def)
  have owned1: "bus_pool.owned (i # slot_owners (b, held)) b1"
    by (rule bus_pool.owned_alloc [OF owned alloc])
  then have fresh: "i \<notin> set (slot_owners (b, held))" by (simp add: bus_pool.owned_def)
  have frame: "eb_queue b' = eb_queue b" "eb_message b' = eb_message b" "eb_calls b' = eb_calls b"
    "eb_posted_count b' = eb_posted_count b" "eb_dispatched_count b' = eb_dispatched_count b"
    by (simp_all add: b' b1(2))
  have msg: "pool_message b' j = (if j = i then m\<lparr>ev_priority := p\<rparr> else pool_message b j)" for j
    using i ready by (auto simp: b' b1(2) pool_ready_def pool_message_def write_slot_def)
  have "bus_pool.owned (slot_owners (b', (i, p) # held)) b'"
  proof (rule bus_pool.owned_perm)
    show "bus_pool.owned (i # slot_owners (b, held)) b'"
      using owned1 by (simp add: b' bus_pool.owned_def)
  qed (use fresh owned in \<open>auto simp: slot_owners_def frame bus_waiting_def bus_pool.owned_def\<close>)
  then have ok': "bus_ok (b', (i, p) # held)"
    using ok by (simp add: bus_ok_def frame in_flight_def bus_waiting_def)
  have "length (slot_owners (b, held)) < EVENT_BUS_QUEUE_LEN"
    using bus_pool.owned_length [OF owned1] ready by (simp add: b1(2) pool_ready_def)
  then have "abs_bus_step (bus_abs (b, held)) (Bus_Accept m p)
      ((bus_abs (b, held))\<lparr>ab_posting := (m\<lparr>ev_priority := p\<rparr>, p) # ab_posting (bus_abs (b, held))\<rparr>)"
    using valid by (intro abs_accept) (simp_all add: ab_load_owners)
  moreover have "bus_abs (b', (i, p) # held) =
      (bus_abs (b, held))\<lparr>ab_posting := (m\<lparr>ev_priority := p\<rparr>, p) # ab_posting (bus_abs (b, held))\<rparr>"
  proof -
    have "map (pool_message b') (bus_waiting b') = map (pool_message b) (bus_waiting b)"
      "map (\<lambda>(i, p). (pool_message b' i, p)) held = map (\<lambda>(i, p). (pool_message b i, p)) held"
      "map_option (pool_message b') (eb_message b') = map_option (pool_message b) (eb_message b)"
      using fresh
      by (auto simp: slot_owners_def frame bus_waiting_def msg image_iff split: option.splits)
        (cases "eb_message b"; force simp: msg)
    then show ?thesis by (simp add: bus_abs_def frame msg)
  qed
  ultimately show ?thesis using ok' by (simp add: bus_simulates_def)
qed


lemma simulates_enqueue:
  assumes ok: "bus_ok (b, xs @ (i, p) # ys)" and send: "post_send i p now b = (err, b')"
  shows "bus_simulates (b, xs @ (i, p) # ys) Bus_Enqueue (b', xs @ ys)"
proof -
  let ?q = "if p = EVENT_BUS_PRIORITY_HIGH then i # bus_waiting b else bus_waiting b @ [i]"
  have room: "length (bus_waiting b) < EVENT_BUS_QUEUE_LEN" by (rule held_has_room [OF ok, of i p]) simp
  have b': "b' = publish_status_if_due now
      (stats_increment eb_posted_count_update (b\<lparr>eb_queue := Some ?q\<rparr>))"
    using send by (simp add: post_send_ok [OF room])
  have frame: "eb_queue b' = Some ?q" "eb_message b' = eb_message b" "eb_calls b' = eb_calls b"
    "eb_posted_count b' = eb_posted_count b + 1" "eb_dispatched_count b' = eb_dispatched_count b"
    "eb_message_pool b' = eb_message_pool b" "eb_message_pool_in_use b' = eb_message_pool_in_use b"
    by (simp_all add: b' bus_simps stats_increment_def)
  have msg: "pool_message b' = pool_message b" by (rule ext) (simp add: pool_message_def frame)
  have w: "bus_waiting b' = ?q" by (simp add: bus_waiting_def frame)
  have "bus_pool.owned (slot_owners (b', xs @ ys)) b"
    by (rule bus_pool.owned_perm [of "slot_owners (b, xs @ (i, p) # ys)"])
      (use ok in \<open>auto simp: bus_ok_def bus_pool.owned_def slot_owners_def w frame\<close>)
  then have "bus_ok (b', xs @ ys)"
    using ok by (simp add: bus_ok_def frame in_flight_def w owned_cong [OF frame(6,7)])
  moreover have "abs_bus_step (bus_abs (b, xs @ (i, p) # ys)) Bus_Enqueue (bus_abs (b', xs @ ys))"
    using abs_enqueue [of "bus_abs (b, xs @ (i, p) # ys)" "map (\<lambda>(i, p). (pool_message b i, p)) xs"
        "pool_message b i" p "map (\<lambda>(i, p). (pool_message b i, p)) ys"]
    by (cases "p = EVENT_BUS_PRIORITY_HIGH") (simp_all add: bus_abs_def w frame msg)
  ultimately show ?thesis by (simp add: bus_simulates_def)
qed

lemma simulates_take:
  assumes ok: "bus_ok (b, held)" and recv: "event_bus_task_receive b = Some b'"
  shows "bus_simulates (b, held) Bus_Take (b', held)"
proof -
  obtain i q where q: "eb_queue b = Some (i # q)" and idle: "eb_message b = None"
    and b': "b' = b\<lparr>eb_queue := Some q, eb_message := Some i\<rparr>"
    using recv by (auto simp: event_bus_task_receive_def split: option.splits list.splits)
  have msg: "pool_message b' = pool_message b" by (rule ext) (simp add: pool_message_def b')
  have "bus_pool.owned (slot_owners (b', held)) b"
    by (rule bus_pool.owned_perm [of "slot_owners (b, held)"])
      (use ok in \<open>auto simp: bus_ok_def bus_pool.owned_def slot_owners_def bus_waiting_def b' q idle\<close>)
  then have "bus_ok (b', held)"
    using ok owned_cong [of b' b] by (simp add: bus_ok_def b' in_flight_def bus_waiting_def q idle)
  moreover have "abs_bus_step (bus_abs (b, held)) Bus_Take (bus_abs (b', held))"
    using abs_take [of "bus_abs (b, held)" "pool_message b i" "map (pool_message b) q"]
    by (simp add: bus_abs_def bus_waiting_def msg, simp add: b' q idle)
  ultimately show ?thesis by (simp add: bus_simulates_def)
qed

lemma simulates_deliver:
  assumes ok: "bus_ok (b, held)" and cur: "eb_message b = Some i"
  shows "bus_simulates (b, held) (Bus_Deliver (take EVENT_BUS_MAX_HANDLERS (eb_handlers b)))
    (event_bus_task_finish elapsed now i b, held)"
proof -
  let ?b = "event_bus_task_finish elapsed now i b"
  let ?d = "dispatch_message elapsed (pool_message b i) b"
  have owned: "bus_pool.owned (i # bus_waiting b @ map fst held) b"
    by (rule bus_pool.owned_perm [of "slot_owners (b, held)"])
      (use ok in \<open>auto simp: bus_ok_def bus_pool.owned_def slot_owners_def cur\<close>)
  then have "bus_pool.owned (i # bus_waiting b @ map fst held) ?d"
    by (subst owned_cong [of _ b]) (simp_all add: bus_simps)
  then have "bus_pool.owned (bus_waiting b @ map fst held) (message_pool_free i ?d)"
    by (rule bus_pool.owned_release)
  then have owned': "bus_pool.owned (bus_waiting b @ map fst held) ?b"
    by (subst owned_cong [of _ "message_pool_free i ?d"])
      (simp_all add: event_bus_task_finish_def bus_simps stats_increment_def)
  have frame: "eb_queue ?b = eb_queue b" "eb_message ?b = None"
    "eb_calls ?b = eb_calls b @ map (\<lambda>h. (h, pool_message b i)) (take EVENT_BUS_MAX_HANDLERS (eb_handlers b))"
    "eb_posted_count ?b = eb_posted_count b" "eb_dispatched_count ?b = eb_dispatched_count b + 1"
    "eb_message_pool ?b = eb_message_pool b"
    by (simp_all add: event_bus_task_finish_def bus_simps stats_increment_def message_pool_free_def)
  have msg: "pool_message ?b = pool_message b" by (rule ext) (simp add: pool_message_def frame)
  have "bus_ok (?b, held)"
    using ok owned' by (simp add: bus_ok_def slot_owners_def frame in_flight_def bus_waiting_def cur
        algebra_simps)
  moreover have "abs_bus_step (bus_abs (b, held))
      (Bus_Deliver (take EVENT_BUS_MAX_HANDLERS (eb_handlers b))) (bus_abs (?b, held))"
    using abs_deliver [of "bus_abs (b, held)" "pool_message b i"]
    by (simp add: bus_abs_def bus_waiting_def msg frame cur)
  ultimately show ?thesis by (simp add: bus_simulates_def)
qed

lemma bus_step_simulates:
  assumes "bus_step c l c'" and "bus_ok c"
  shows "bus_simulates c l c'"
  using assms
proof cases
  case (post_refused m p now b err b' held)
  then show ?thesis using assms(2)
    by (auto intro!: simulates_quiet simp: post_begin_def bus_simps stats_increment_def
        split: if_splits option.splits)
next
  case (add_handler h now b err b' held)
  then show ?thesis using assms(2)
    by (auto intro!: simulates_quiet simp: event_bus_register_handler_def bus_simps split: if_splits)
next
  case (add_job j now b err b' held)
  then show ?thesis using assms(2)
    by (auto intro!: simulates_quiet simp: event_bus_post_job_def bus_simps stats_increment_def
        split: if_splits option.splits)
next
  case (run_job now b b' held)
  then show ?thesis using assms(2)
    by (auto intro!: simulates_quiet simp: event_bus_job_task_step_def bus_simps stats_increment_def
        split: option.splits list.splits)
qed (use assms(2) in \<open>auto intro: simulates_accept simulates_enqueue simulates_take simulates_deliver\<close>)

lemma bus_started_ok:
  assumes "event_bus_init psram internal True True now event_bus_zero = (ESP_OK, b)"
  shows "bus_ok (b, [])"
proof -
  have "eb_queue b = Some [] \<and> eb_message b = None \<and> eb_posted_count b = 0 \<and>
      eb_dispatched_count b = 0 \<and> pool_ready b \<and>
      eb_message_pool_in_use b = replicate EVENT_BUS_QUEUE_LEN False"
    using assms by (auto simp: event_bus_init_def ensure_message_pool_def event_bus_zero_def
        pool_ready_def publish_status_now_def publish_status_snapshot_def split: if_splits)
  moreover have "busy_slots (replicate n False) = {}" for n by (simp add: busy_slots_def)
  ultimately show ?thesis
    by (simp add: bus_ok_def bus_pool.owned_def slot_owners_def bus_waiting_def in_flight_def)
qed

lemma bus_reachable_ok: "bus_reachable c \<Longrightarrow> bus_ok c"
  by (induction rule: bus_reachable.induct)
    (auto simp: bus_started_ok dest: bus_step_simulates simp: bus_simulates_def)


section \<open>Properties\<close>

text \<open>
  C27: the event bus is a bounded double-ended queue of events.  Every step of the posters, of the
  task and of the job task that can happen in a reachable configuration is a step of the abstract
  bus: an accepted event keeps its contents until it is delivered, high priority events go to the
  front and others to the back, the task takes the first event, hands exactly this event to the
  registered handlers, and nothing is lost or delivered twice.
\<close>

theorem event_bus_refines_deque:
  assumes "bus_reachable c" and "bus_step c l c'"
  shows "abs_bus_step (bus_abs c) l (bus_abs c')"
  using bus_step_simulates [OF assms(2) bus_reachable_ok [OF assms(1)]] by (simp add: bus_simulates_def)

text \<open>
  An accepted event is always queued.  However posters and the task interleave, a poster that
  has obtained a slot finds room in the queue, so the time-out path of a post is never taken; an
  event is refused only before it takes a slot.
\<close>

theorem accepted_post_never_times_out:
  assumes "bus_reachable (b, held)" and "(i, p) \<in> set held"
  shows "fst (post_send i p now b) = ESP_OK"
  using post_send_ok [OF held_has_room [OF bus_reachable_ok [OF assms(1)] assms(2)]] by simp

text \<open>
  No message slot leaks and the counters add up.  In every reachable configuration the slots
  in use are exactly those that wait in the queue, are held by a poster or are being dispatched,
  each counted once, and the number of posted events is the number of dispatched events plus those
  waiting and being dispatched (modulo \<open>2^32\<close>).
\<close>

theorem bus_slots_accounted:
  assumes "bus_reachable (b, held)"
  shows "card (bus_busy b) = in_flight b + length held \<and>
    eb_posted_count b = eb_dispatched_count b + of_nat (in_flight b)"
proof -
  have ok: "bus_ok (b, held)" by (rule bus_reachable_ok [OF assms])
  then have "bus_busy b = set (slot_owners (b, held))" "distinct (slot_owners (b, held))"
    by (simp_all add: bus_ok_def bus_pool.owned_def)
  then have "card (bus_busy b) = length (slot_owners (b, held))" by (simp add: distinct_card)
  also have "\<dots> = in_flight b + length held"
    by (simp add: slot_owners_def in_flight_def split: option.split)
  finally show ?thesis using ok by (simp add: bus_ok_def)
qed

text \<open>A started bus and a post on it, for the witnesses.\<close>

definition demo_bus :: event_bus where
  "demo_bus = snd (event_bus_init True True True True 1 event_bus_zero)"

definition demo_event :: scenehub_event where
  "demo_event = scenehub_event_zero\<lparr>ev_type := SCENEHUB_EVENT_WEB_COMMAND, ev_payload := ''go''\<rparr>"

definition demo_posted :: "(esp_err + nat) \<times> event_bus" where
  "demo_posted = post_begin demo_event EVENT_BUS_PRIORITY_HIGH 2 demo_bus"

lemma demo_bus_reachable: "bus_reachable (demo_bus, [])"
  by (rule bus_started [of True True 1])
    (simp add: demo_bus_def event_bus_init_def ensure_message_pool_def event_bus_zero_def)

lemma first_free_replicate: "0 < n \<Longrightarrow> first_free (replicate n False) = Some 0"
  by (cases n) (simp_all add: first_free_def)

lemma demo_posted_ok: "fst demo_posted = Inr 0"
proof -
  have "eb_queue demo_bus = Some []" "eb_message_pool demo_bus \<noteq> None"
    "first_free (eb_message_pool_in_use demo_bus) = Some 0"
    by (simp_all add: demo_bus_def event_bus_init_def ensure_message_pool_def event_bus_zero_def
        publish_status_now_def publish_status_snapshot_def first_free_replicate EVENT_BUS_QUEUE_LEN_def)
  moreover have "scenehub_event_is_valid demo_event" by code_simp
  ultimately show ?thesis by (simp add: demo_posted_def post_begin_def message_pool_alloc_def)
qed

lemma demo_post_step:
  "bus_step (demo_bus, []) (Bus_Accept demo_event EVENT_BUS_PRIORITY_HIGH)
     (snd demo_posted, [(0, EVENT_BUS_PRIORITY_HIGH)])"
  using demo_posted_ok
  by (intro post_accepted [where now = 2]) (simp add: demo_posted_def prod_eq_iff)

lemmas demo_posted_reachable = bus_stepped [OF demo_bus_reachable demo_post_step]

theorem event_bus_refines_deque_witness:
  "abs_bus_step (bus_abs (demo_bus, [])) (Bus_Accept demo_event EVENT_BUS_PRIORITY_HIGH)
     (bus_abs (snd demo_posted, [(0, EVENT_BUS_PRIORITY_HIGH)]))"
  by (rule event_bus_refines_deque [OF demo_bus_reachable demo_post_step])

theorem accepted_post_never_times_out_witness:
  "fst (post_send 0 EVENT_BUS_PRIORITY_HIGH 3 (snd demo_posted)) = ESP_OK"
  by (rule accepted_post_never_times_out [OF demo_posted_reachable]) simp

theorem bus_slots_accounted_witness:
  "card (bus_busy (snd demo_posted)) =
     in_flight (snd demo_posted) + length [(0 :: nat, EVENT_BUS_PRIORITY_HIGH)]"
  using bus_slots_accounted [OF demo_posted_reachable] by (rule conjunct1)

end
