(* ===== verification/Mqtt_Bridge.thy ===== *)
theory Mqtt_Bridge
  imports Mqtt_Delivery Event_Bus_Props
begin

text \<open>
  The bridge between the event bus and the broker (\<open>mqtt_core/mqtt_core_bridge.c\<close> and
  \<open>mqtt_core_inject_message\<close> of \<open>mqtt_core.c\<close>).  An event of the bus is copied into a pool of 32
  slots and published by a job; a message received over MQTT is posted on the bus.  The job of the
  bridge has the number \<open>PUBLISH_JOB\<close> among the job functions; handing a message to the ingest of
  device messages is recorded in \<open>br_ingested\<close>.
\<close>

definition MQTT_BRIDGE_JOB_POOL_LEN :: nat where "MQTT_BRIDGE_JOB_POOL_LEN = 32"
definition PUBLISH_JOB :: nat where "PUBLISH_JOB = 0"

record mqtt_bridge =
  br_job_pool :: "scenehub_event list"
  br_job_pool_in_use :: "bool list"
  br_ingested :: "(string \<times> string) list"

definition bridge_init :: mqtt_bridge where
  "bridge_init = \<lparr>br_job_pool = replicate MQTT_BRIDGE_JOB_POOL_LEN scenehub_event_zero,
     br_job_pool_in_use = replicate MQTT_BRIDGE_JOB_POOL_LEN False, br_ingested = []\<rparr>"

section \<open>The pool of copies\<close>

definition bridge_job_alloc :: "mqtt_bridge \<Rightarrow> (nat \<times> mqtt_bridge) option" where
  "bridge_job_alloc r = (case first_free (br_job_pool_in_use r) of
     None \<Rightarrow> None
   | Some i \<Rightarrow> Some (i, r\<lparr>br_job_pool_in_use := (br_job_pool_in_use r)[i := True],
                          br_job_pool := (br_job_pool r)[i := scenehub_event_zero]\<rparr>))"

definition bridge_job_free :: "nat \<Rightarrow> mqtt_bridge \<Rightarrow> mqtt_bridge" where
  "bridge_job_free i r =
     (if i \<ge> MQTT_BRIDGE_JOB_POOL_LEN then r
      else r\<lparr>br_job_pool_in_use := (br_job_pool_in_use r)[i := False]\<rparr>)"

section \<open>Events and topics\<close>

definition k_outgoing_map :: "(scenehub_event_type \<times> string) list" where
  "k_outgoing_map =
     [(SCENEHUB_EVENT_AUDIO_PLAY, ''audio/play''),
      (SCENEHUB_EVENT_SYSTEM_STATUS, ''sys/broker/metrics''),
      (SCENEHUB_EVENT_CARD_OK, ''access/card/ok''),
      (SCENEHUB_EVENT_CARD_BAD, ''access/card/bad''),
      (SCENEHUB_EVENT_RELAY_CMD, ''relay/cmd''),
      (SCENEHUB_EVENT_WEB_COMMAND, ''web/cmd'')]"

definition k_incoming_map :: "(scenehub_event_type \<times> string) list" where
  "k_incoming_map =
     [(SCENEHUB_EVENT_AUDIO_PLAY, ''audio/play''),
      (SCENEHUB_EVENT_RELAY_CMD, ''relay/''),
      (SCENEHUB_EVENT_WEB_COMMAND, ''web/cmd'')]"

definition find_topic_by_type :: "scenehub_event_type \<Rightarrow> string option" where
  "find_topic_by_type ty = map_option snd (find (\<lambda>e. fst e = ty) k_outgoing_map)"

definition find_type_by_topic :: "string \<Rightarrow> scenehub_event_type" where
  "find_type_by_topic topic = (case find (\<lambda>e. starts_with (snd e) topic) k_incoming_map of
     None \<Rightarrow> SCENEHUB_EVENT_NONE | Some e \<Rightarrow> fst e)"

definition mqtt_core_should_bridge_event :: "scenehub_event \<Rightarrow> bool" where
  "mqtt_core_should_bridge_event msg =
     (if ev_origin msg = SCENEHUB_EVENT_ORIGIN_MQTT \<or> ev_type msg = SCENEHUB_EVENT_MQTT_MESSAGE then False
      else ev_topic msg \<noteq> [] \<or> find_topic_by_type (ev_type msg) \<noteq> None)"

section \<open>From the bus to the broker\<close>

definition on_event_bus_message ::
  "scenehub_event \<Rightarrow> u64 \<Rightarrow> mqtt_bridge \<times> event_bus \<Rightarrow> mqtt_bridge \<times> event_bus" where
  "on_event_bus_message msg now_us = (\<lambda>(r, b).
     if \<not> mqtt_core_should_bridge_event msg then (r, b)
     else case bridge_job_alloc r of
            None \<Rightarrow> (r, b)
          | Some (i, r1) \<Rightarrow>
              (let r2 = r1\<lparr>br_job_pool := (br_job_pool r1)[i := msg]\<rparr>;
                   (err, b1) = event_bus_post_job \<lparr>job_fn = PUBLISH_JOB, job_ctx = i\<rparr> now_us b
               in if err \<noteq> ESP_OK then (bridge_job_free i r2, b1) else (r2, b1)))"

definition publish_event_message ::
  "nat \<Rightarrow> int \<Rightarrow> mqtt_bridge \<times> mqtt_broker \<Rightarrow> mqtt_bridge \<times> mqtt_broker" where
  "publish_event_message i now = (\<lambda>(r, m).
     let msg = br_job_pool r ! i in
     case (if ev_topic msg \<noteq> [] then Some (ev_topic msg) else find_topic_by_type (ev_type msg)) of
       None \<Rightarrow> (bridge_job_free i r, m)
     | Some topic \<Rightarrow> (bridge_job_free i r, snd (mqtt_core_publish now topic (ev_payload msg) m)))"

section \<open>From the broker to the bus\<close>

text \<open>The second post, of the generic event, is skipped when the first one fails.\<close>

definition inject_event ::
  "scenehub_event_type \<Rightarrow> string \<Rightarrow> string \<Rightarrow> (esp_err + scenehub_event)" where
  "inject_event ty topic payload =
     (case scenehub_event_make_text ty topic payload of
        Inl err \<Rightarrow> Inl err
      | Inr e \<Rightarrow> Inr (e\<lparr>ev_origin := SCENEHUB_EVENT_ORIGIN_MQTT\<rparr>))"

definition mqtt_core_inject_message ::
  "string \<Rightarrow> string \<Rightarrow> u64 \<Rightarrow> mqtt_bridge \<times> event_bus \<Rightarrow> esp_err \<times> mqtt_bridge \<times> event_bus" where
  "mqtt_core_inject_message topic payload now_us = (\<lambda>(r, b).
     let r1 = r\<lparr>br_ingested := br_ingested r @ [(topic, payload)]\<rparr>;
         ty = find_type_by_topic topic;
         (err, b1) = (if ty = SCENEHUB_EVENT_NONE then (ESP_OK, b)
                      else case inject_event ty topic payload of
                             Inl _ \<Rightarrow> (ESP_OK, b)
                           | Inr e \<Rightarrow> event_bus_post e now_us b)
     in if err \<noteq> ESP_OK then (err, r1, b1)
        else case inject_event SCENEHUB_EVENT_MQTT_MESSAGE topic payload of
               Inl _ \<Rightarrow> (ESP_ERR_INVALID_ARG, r1, b1)
             | Inr e \<Rightarrow> (let (err2, b2) = event_bus_post e now_us b1 in (err2, r1, b2)))"

section \<open>The pool keeps its slots\<close>

definition bridge_ready :: "mqtt_bridge \<Rightarrow> bool" where
  "bridge_ready r \<longleftrightarrow> length (br_job_pool r) = MQTT_BRIDGE_JOB_POOL_LEN \<and>
     length (br_job_pool_in_use r) = MQTT_BRIDGE_JOB_POOL_LEN"

abbreviation bridge_busy :: "mqtt_bridge \<Rightarrow> nat set" where
  "bridge_busy r \<equiv> busy_slots (br_job_pool_in_use r)"

lemma bridge_alloc_SomeD:
  assumes "bridge_job_alloc r = Some (i, t)"
  shows "first_free (br_job_pool_in_use r) = Some i"
    and "t = r\<lparr>br_job_pool_in_use := (br_job_pool_in_use r)[i := True],
               br_job_pool := (br_job_pool r)[i := scenehub_event_zero]\<rparr>"
  using assms by (simp_all add: bridge_job_alloc_def split: option.splits)

interpretation bridge_pool: slot_pool bridge_job_alloc bridge_job_free bridge_busy
  "\<lambda>r. length (br_job_pool_in_use r)" bridge_ready
proof unfold_locales
  fix s t :: mqtt_bridge and i
  show "i \<notin> bridge_busy s \<and> bridge_busy t = insert i (bridge_busy s) \<and>
      length (br_job_pool_in_use t) = length (br_job_pool_in_use s) \<and> bridge_ready t"
    if "bridge_job_alloc s = Some (i, t)" "bridge_ready s"
    using bridge_alloc_SomeD [OF that(1)] that(2)
    by (simp add: busy_take) (simp add: busy_slots_def first_free_SomeD bridge_ready_def)
  show "bridge_busy s = {0..<length (br_job_pool_in_use s)}"
    if "bridge_job_alloc s = None" "bridge_ready s"
    using that(1) by (intro busy_full) (simp add: bridge_job_alloc_def split: option.splits)
  show "bridge_busy (bridge_job_free i s) = bridge_busy s - {i} \<and>
      length (br_job_pool_in_use (bridge_job_free i s)) = length (br_job_pool_in_use s) \<and>
      bridge_ready (bridge_job_free i s)"
    if "bridge_ready s" "i < length (br_job_pool_in_use s)"
    using that by (auto simp: bridge_job_free_def bridge_ready_def busy_release)
  show "bridge_busy s \<subseteq> {0..<length (br_job_pool_in_use s)}" if "bridge_ready s"
    by (rule busy_bound)
qed

section \<open>A received message is not sent back\<close>

lemma busy_owner:
  assumes "bus_ok (b, held)" and "first_free (eb_message_pool_in_use b) = Some i"
  shows "i \<notin> set (slot_owners (b, held))" and "i < EVENT_BUS_QUEUE_LEN" and "pool_ready b"
proof -
  have "set (slot_owners (b, held)) = bus_busy b" "pool_ready b"
    using assms(1) by (simp_all add: bus_ok_def bus_pool.owned_def)
  then show "i \<notin> set (slot_owners (b, held))" "i < EVENT_BUS_QUEUE_LEN" "pool_ready b"
    using first_free_SomeD [OF assms(2)] by (simp_all add: busy_slots_def pool_ready_def)
qed

lemma post_begin_SomeD:
  assumes "post_begin e p now b = (Inr i, b1)"
  shows "first_free (eb_message_pool_in_use b) = Some i" and "scenehub_event_is_valid e"
    and "b1 = write_slot i (e\<lparr>ev_priority := p\<rparr>) (write_slot i scenehub_event_zero
      (b\<lparr>eb_message_pool_in_use := (eb_message_pool_in_use b)[i := True]\<rparr>))"
  using assms by (auto simp: post_begin_def dest: pool_alloc_SomeD split: if_splits option.splits)

lemma waiting_cong:
  assumes "eb_queue b' = eb_queue b" "eb_message_pool b' = eb_message_pool b"
  shows "ab_waiting (bus_abs (b', held')) = ab_waiting (bus_abs (b, held))"
  by (auto simp: bus_abs_def bus_waiting_def pool_message_def assms)

lemma post_waiting:
  assumes "bus_ok (b, held)" and "event_bus_post e now b = (err, b')"
    and "ev_priority e = EVENT_BUS_PRIORITY_NORMAL"
  shows "bus_ok (b', held) \<and>
    ab_waiting (bus_abs (b', held)) = ab_waiting (bus_abs (b, held)) @ (if err = ESP_OK then [e] else [])"
proof (cases "post_begin e EVENT_BUS_PRIORITY_NORMAL now b")
  case (Pair x b1)
  show ?thesis
  proof (cases x)
    case (Inl er)
    have step: "bus_step (b, held) Bus_Refuse (b1, held)" using Pair Inl by (auto intro: post_refused)
    have "err = er" "b' = b1" "er \<noteq> ESP_OK"
      using assms(2,3) Pair Inl
      by (auto simp: event_bus_post_def event_bus_post_priority_def post_begin_def
          split: if_splits option.splits prod.splits)
    moreover have "eb_queue b1 = eb_queue b" "eb_message_pool b1 = eb_message_pool b"
      using Pair Inl by (auto simp: post_begin_def bus_simps stats_increment_def split: if_splits option.splits prod.splits)
    ultimately show ?thesis
      using bus_step_simulates [OF step assms(1)] waiting_cong [of b1 b held held]
      by (simp add: bus_simulates_def)
  next
    case (Inr i)
    note acc = post_begin_SomeD [OF Pair [unfolded Inr]]
    note own = busy_owner [OF assms(1) acc(1)]
    have step1: "bus_step (b, held) (Bus_Accept e EVENT_BUS_PRIORITY_NORMAL) (b1, (i, EVENT_BUS_PRIORITY_NORMAL) # held)"
      using Pair Inr by (auto intro: post_accepted)
    have ok1: "bus_ok (b1, (i, EVENT_BUS_PRIORITY_NORMAL) # held)"
      using bus_step_simulates [OF step1 assms(1)] by (simp add: bus_simulates_def)
    have room: "length (bus_waiting b1) < EVENT_BUS_QUEUE_LEN"
      by (rule held_has_room [OF ok1, of i EVENT_BUS_PRIORITY_NORMAL]) simp
    note send = post_send_ok [OF room, of i EVENT_BUS_PRIORITY_NORMAL now]
    have b': "err = ESP_OK" "b' = snd (post_send i EVENT_BUS_PRIORITY_NORMAL now b1)"
      using assms(2,3) Pair Inr send
      by (auto simp: event_bus_post_def event_bus_post_priority_def)
    have step2: "bus_step (b1, (i, EVENT_BUS_PRIORITY_NORMAL) # held) Bus_Enqueue (b', [] @ held)"
      by (rule post_sent [where now = now and i = i and p = EVENT_BUS_PRIORITY_NORMAL and err = err])
        (simp_all add: b' send)
    have pm: "pool_message b' j = (if j = i then e else pool_message b j)" for j
    proof -
      have "pool_message b' = pool_message b1"
        by (rule ext) (simp add: b' send pool_message_def bus_simps stats_increment_def)
      moreover have "pool_message b1 j = (if j = i then e\<lparr>ev_priority := EVENT_BUS_PRIORITY_NORMAL\<rparr>
          else pool_message b j)"
        using own(2,3) by (auto simp: acc(3) pool_message_write pool_message_def pool_ready_def write_slot_def)
      moreover have "e\<lparr>ev_priority := EVENT_BUS_PRIORITY_NORMAL\<rparr> = e" using assms(3) by (cases e) simp
      ultimately show ?thesis by simp
    qed
    have "bus_waiting b' = bus_waiting b @ [i]"
      unfolding b'(2) send by (simp add: bus_simps stats_increment_def) (simp add: bus_waiting_def bus_simps acc(3))
    then have "ab_waiting (bus_abs (b', held)) = ab_waiting (bus_abs (b, held)) @ [e]"
      using own(1) by (auto simp: bus_abs_def slot_owners_def pm)
    then show ?thesis
      using bus_step_simulates [OF step2 ok1] b'(1) by (simp add: bus_simulates_def)
  qed
qed

lemma inject_event_origin:
  "inject_event ty topic payload = Inr e \<Longrightarrow>
   ev_priority e = EVENT_BUS_PRIORITY_NORMAL \<and> \<not> mqtt_core_should_bridge_event e"
  by (auto simp: inject_event_def scenehub_event_make_text_def check_event_def
      mqtt_core_should_bridge_event_def split: sum.splits if_splits)

text \<open>
  A message received over MQTT is not sent back.  Whatever the topic and the payload of a
  received message, the events that its injection adds to the bus are appended to the events that
  wait, and none of them is published by the bridge, so that no message circulates between broker
  and bus.
\<close>

theorem injected_message_not_bridged:
  assumes "bus_reachable (b, held)"
    and "mqtt_core_inject_message topic payload now (r, b) = (err, r', b')"
  shows "\<exists>es. ab_waiting (bus_abs (b', held)) = ab_waiting (bus_abs (b, held)) @ es \<and> length es \<le> 2 \<and>
    (\<forall>e \<in> set es. \<not> mqtt_core_should_bridge_event e)"
proof -
  have ok: "bus_ok (b, held)" by (rule bus_reachable_ok [OF assms(1)])
  define P where "P b1 n = (bus_ok (b1, held) \<and> (\<exists>es. ab_waiting (bus_abs (b1, held)) =
    ab_waiting (bus_abs (b, held)) @ es \<and> length es \<le> n \<and> (\<forall>e \<in> set es. \<not> mqtt_core_should_bridge_event e)))"
    for b1 and n :: nat
  have post: "P b2 (Suc n)"
    if p: "P b1 n" and e: "inject_event ty topic payload = Inr e" and r: "event_bus_post e now b1 = (er, b2)"
    for b1 b2 n ty e er
  proof -
    note w = post_waiting [OF _ r, of held] inject_event_origin [OF e]
    show ?thesis
    proof (cases "er = ESP_OK")
      case True
      then show ?thesis using p w unfolding P_def by fastforce
    next
      case False
      then show ?thesis using p w unfolding P_def by (auto intro: le_SucI)
    qed
  qed
  have p0: "P b 0" using ok by (simp add: P_def)
  have weaken: "P b1 m \<Longrightarrow> m \<le> n \<Longrightarrow> P b1 n" for b1 m n unfolding P_def by (meson order_trans)
  let ?ty = "find_type_by_topic topic"
  obtain er b1 where f: "(if ?ty = SCENEHUB_EVENT_NONE then (ESP_OK, b) else case inject_event ?ty topic payload of
      Inl _ \<Rightarrow> (ESP_OK, b) | Inr e \<Rightarrow> event_bus_post e now b) = (er, b1)" by fastforce
  have p1: "P b1 (Suc 0)"
    using f p0 post [OF p0] weaken [OF p0, of "Suc 0"] by (auto split: if_splits sum.splits)
  have "P b' 2"
    using assms(2) p1 post [OF p1] weaken [OF p1, of "Suc (Suc 0)"]
    unfolding mqtt_core_inject_message_def Let_def prod.case f numeral_2_eq_2
    by (auto split: if_splits sum.splits prod.splits)
  then show ?thesis by (auto simp: P_def)
qed

theorem injected_message_not_bridged_witness:
  "\<exists>es. ab_waiting (bus_abs (snd (snd (mqtt_core_inject_message ''relay/cmd'' ''on'' 2 (bridge_init, demo_bus))), [])) =
     ab_waiting (bus_abs (demo_bus, [])) @ es \<and> length es \<le> 2 \<and>
     (\<forall>e \<in> set es. \<not> mqtt_core_should_bridge_event e)"
proof -
  obtain err r' b' where m: "mqtt_core_inject_message ''relay/cmd'' ''on'' 2 (bridge_init, demo_bus) = (err, r', b')"
    by (metis prod_cases3)
  show ?thesis using injected_message_not_bridged [OF demo_bus_reachable m] by (simp only: m snd_conv)
qed

section \<open>The bridge as a queue of events\<close>

text \<open>
  A configuration is the bridge, the bus, the broker and the slot whose job is running.  The steps
  are: the handler of the bridge is called, the job task starts a job, the job of the bridge ends,
  another component posts a job, and any step that leaves the job queue alone.
\<close>

type_synonym bridge_config = "mqtt_bridge \<times> event_bus \<times> mqtt_broker \<times> nat option"

datatype bridge_label = Br_Event scenehub_event | Br_Start | Br_Finish int | Br_Other

inductive bridge_step :: "bridge_config \<Rightarrow> bridge_label \<Rightarrow> bridge_config \<Rightarrow> bool" where
  br_event: "on_event_bus_message msg now (r, b) = (r', b') \<Longrightarrow>
    bridge_step (r, b, m, run) (Br_Event msg) (r', b', m, run)"
| br_start: "eb_job_queue b = Some (job # q) \<Longrightarrow> event_bus_job_task_step now b = Some b' \<Longrightarrow>
    bridge_step (r, b, m, None) Br_Start
      (r, b', m, if job_fn job = PUBLISH_JOB then Some (job_ctx job) else None)"
| br_finish: "publish_event_message i now (r, m) = (r', m') \<Longrightarrow>
    bridge_step (r, b, m, Some i) (Br_Finish now) (r', b, m', None)"
| br_job: "job_fn job \<noteq> PUBLISH_JOB \<Longrightarrow> event_bus_post_job job now b = (err, b') \<Longrightarrow>
    bridge_step (r, b, m, run) Br_Other (r, b', m, run)"
| br_other: "eb_job_queue b' = eb_job_queue b \<Longrightarrow> bridge_step (r, b, m, run) Br_Other (r, b', m, run)"

inductive bridge_reachable :: "mqtt_broker \<Rightarrow> bridge_config \<Rightarrow> bool" for m0 where
  bridge_started: "eb_job_queue b = Some [] \<Longrightarrow> bridge_reachable m0 (bridge_init, b, m0, None)"
| bridge_stepped: "bridge_reachable m0 c \<Longrightarrow> bridge_step c l c' \<Longrightarrow> bridge_reachable m0 c'"

definition bridge_jobs :: "event_bus \<Rightarrow> nat list" where
  "bridge_jobs b = (case eb_job_queue b of None \<Rightarrow> [] | Some q \<Rightarrow>
     map job_ctx (filter (\<lambda>j. job_fn j = PUBLISH_JOB) q))"

definition bridge_slots :: "bridge_config \<Rightarrow> nat list" where
  "bridge_slots c = (case c of (r, b, m, run) \<Rightarrow> (case run of None \<Rightarrow> [] | Some i \<Rightarrow> [i]) @ bridge_jobs b)"

definition bridge_pending :: "bridge_config \<Rightarrow> scenehub_event list" where
  "bridge_pending c = map (\<lambda>i. br_job_pool (fst c) ! i) (bridge_slots c)"

definition bridge_ok :: "bridge_config \<Rightarrow> bool" where
  "bridge_ok c \<longleftrightarrow> bridge_pool.owned (bridge_slots c) (fst c)"

text \<open>The abstract bridge: a queue of at most 32 events, published in order.\<close>

inductive abs_bridge_step ::
  "scenehub_event list \<times> mqtt_broker \<Rightarrow> bridge_label \<Rightarrow> scenehub_event list \<times> mqtt_broker \<Rightarrow> bool" where
  abs_copy: "mqtt_core_should_bridge_event msg \<Longrightarrow> length es < MQTT_BRIDGE_JOB_POOL_LEN \<Longrightarrow>
    abs_bridge_step (es, m) (Br_Event msg) (es @ [msg], m)"
| abs_ignore: "abs_bridge_step (es, m) (Br_Event msg) (es, m)"
| abs_start: "abs_bridge_step (es, m) Br_Start (es, m)"
| abs_publish: "(if ev_topic e \<noteq> [] then Some (ev_topic e) else find_topic_by_type (ev_type e)) = Some t \<Longrightarrow>
    abs_bridge_step (e # es, m) (Br_Finish now) (es, snd (mqtt_core_publish now t (ev_payload e) m))"
| abs_drop: "ev_topic e = [] \<Longrightarrow> find_topic_by_type (ev_type e) = None \<Longrightarrow>
    abs_bridge_step (e # es, m) (Br_Finish now) (es, m)"
| abs_quiet: "abs_bridge_step (es, m) Br_Other (es, m)"

definition bridge_abs :: "bridge_config \<Rightarrow> scenehub_event list \<times> mqtt_broker" where
  "bridge_abs c = (bridge_pending c, fst (snd (snd c)))"

lemma post_job_jobs:
  assumes "event_bus_post_job job now b = (err, b')"
  shows "bridge_jobs b' = bridge_jobs b @ (if err = ESP_OK \<and> job_fn job = PUBLISH_JOB then [job_ctx job] else [])"
  using assms
  by (auto simp: event_bus_post_job_def bridge_jobs_def stats_increment_def publish_status_now_def
      publish_status_if_due_def publish_status_snapshot_def Let_def split: option.splits if_splits)

lemma job_step_queue: "event_bus_job_task_step now b = Some b' \<Longrightarrow> eb_job_queue b = Some (job # q) \<Longrightarrow>
  eb_job_queue b' = Some q"
  by (auto simp: event_bus_job_task_step_def stats_increment_def publish_status_if_due_def
      publish_status_snapshot_def Let_def)

lemma bridge_event_simulates:
  assumes "bridge_ok (r, b, m, run)" and "on_event_bus_message msg now (r, b) = (r', b')"
  shows "bridge_ok (r', b', m, run) \<and>
    abs_bridge_step (bridge_abs (r, b, m, run)) (Br_Event msg) (bridge_abs (r', b', m, run))"
proof (cases "mqtt_core_should_bridge_event msg \<and> (\<exists>i r1. bridge_job_alloc r = Some (i, r1))")
  case False
  then have "r' = r" "b' = b"
    using assms(2) by (auto simp: on_event_bus_message_def split: if_splits option.splits)
  then show ?thesis using assms(1) by (simp add: bridge_abs_def abs_ignore)
next
  case True
  then obtain i r1 where br: "mqtt_core_should_bridge_event msg" and al: "bridge_job_alloc r = Some (i, r1)" by blast
  obtain err b1 where post: "event_bus_post_job \<lparr>job_fn = PUBLISH_JOB, job_ctx = i\<rparr> now b = (err, b1)" by force
  let ?r2 = "r1\<lparr>br_job_pool := (br_job_pool r1)[i := msg]\<rparr>"
  note sl = bridge_alloc_SomeD [OF al]
  have own: "bridge_pool.owned (bridge_slots (r, b, m, run)) r" using assms(1) by (simp add: bridge_ok_def)
  have ready: "bridge_ready r" using own by (simp add: bridge_pool.owned_def)
  have i: "i < MQTT_BRIDGE_JOB_POOL_LEN" "i \<notin> set (bridge_slots (r, b, m, run))"
    using own ready first_free_SomeD [OF sl(1)]
    by (simp_all add: bridge_pool.owned_def bridge_ready_def) (simp add: busy_slots_def)
  have own1: "bridge_pool.owned (i # bridge_slots (r, b, m, run)) r1"
    by (rule bridge_pool.owned_alloc [OF own al])
  have own2: "bridge_pool.owned (i # bridge_slots (r, b, m, run)) ?r2"
    using own1 by (simp add: bridge_pool.owned_def bridge_ready_def)
  have jobs: "bridge_jobs b1 = bridge_jobs b @ (if err = ESP_OK then [i] else [])"
    using post_job_jobs [OF post] by simp
  have other: "j \<in> set (bridge_slots (r, b, m, run)) \<Longrightarrow> br_job_pool ?r2 ! j = br_job_pool r ! j" for j
    using i(2) by (cases "j = i") (simp_all add: sl(2))
  show ?thesis
  proof (cases "err = ESP_OK")
    case True
    then have r': "r' = ?r2" "b' = b1"
      using assms(2) br al post by (simp_all add: on_event_bus_message_def Let_def)
    have slots: "bridge_slots (r', b', m, run) = bridge_slots (r, b, m, run) @ [i]"
      using jobs True by (simp add: bridge_slots_def r')
    have "length (bridge_slots (r, b, m, run)) < MQTT_BRIDGE_JOB_POOL_LEN"
      using bridge_pool.owned_length [OF own1] ready by (simp add: bridge_ready_def sl(2))
    moreover have "bridge_pending (r', b', m, run) = bridge_pending (r, b, m, run) @ [msg]"
    proof -
      have "br_job_pool ?r2 ! i = msg" using i(1) ready by (simp add: bridge_ready_def sl(2))
      moreover have "map (\<lambda>j. br_job_pool ?r2 ! j) (bridge_slots (r, b, m, run)) =
          map (\<lambda>j. br_job_pool r ! j) (bridge_slots (r, b, m, run))"
        using other by (intro map_cong) simp_all
      ultimately show ?thesis unfolding bridge_pending_def slots fst_conv by (simp add: r'(1))
    qed
    moreover have "bridge_ok (r', b', m, run)"
    proof -
      have "distinct (i # bridge_slots (r, b, m, run))" using own2 by (simp add: bridge_pool.owned_def)
      then have "bridge_pool.owned (bridge_slots (r, b, m, run) @ [i]) ?r2"
        by (intro bridge_pool.owned_perm [OF own2]) auto
      then show ?thesis unfolding bridge_ok_def slots unfolding fst_conv r'(1) .
    qed
    ultimately show ?thesis
      using br by (simp add: bridge_abs_def abs_copy bridge_pending_def)
  next
    case False
    then have r': "r' = bridge_job_free i ?r2" "b' = b1"
      using assms(2) br al post by (simp_all add: on_event_bus_message_def Let_def)
    have slots: "bridge_slots (r', b', m, run) = bridge_slots (r, b, m, run)"
      using jobs False by (simp add: bridge_slots_def r')
    have pool: "br_job_pool (bridge_job_free i ?r2) = br_job_pool ?r2" by (simp add: bridge_job_free_def)
    have "bridge_pending (r', b', m, run) = bridge_pending (r, b, m, run)"
      using other unfolding bridge_pending_def slots unfolding fst_conv r'(1) pool
      by (intro map_cong) simp_all
    moreover have "bridge_ok (r', b', m, run)"
      using bridge_pool.owned_release [OF own2] unfolding bridge_ok_def slots by (simp add: r'(1))
    ultimately show ?thesis by (simp add: bridge_abs_def abs_ignore)
  qed
qed

lemma bridge_finish_simulates:
  assumes "bridge_ok (r, b, m, Some i)" and "publish_event_message i now (r, m) = (r', m')"
  shows "bridge_ok (r', b, m', None) \<and>
    abs_bridge_step (bridge_abs (r, b, m, Some i)) (Br_Finish now) (bridge_abs (r', b, m', None))"
proof -
  have own: "bridge_pool.owned (i # bridge_jobs b) r" using assms(1) by (simp add: bridge_ok_def bridge_slots_def)
  have r': "r' = bridge_job_free i r"
    using assms(2) by (auto simp: publish_event_message_def Let_def split: option.splits if_splits)
  have pool: "br_job_pool r' = br_job_pool r" by (simp add: r' bridge_job_free_def)
  have ok: "bridge_ok (r', b, m', None)"
    using bridge_pool.owned_release [OF own] by (simp add: bridge_ok_def bridge_slots_def r')
  have pend: "bridge_abs (r, b, m, Some i) = (br_job_pool r ! i # bridge_pending (r', b, m', None), m)"
    by (simp add: bridge_abs_def bridge_pending_def bridge_slots_def pool)
  show ?thesis
  proof (cases "if ev_topic (br_job_pool r ! i) \<noteq> [] then Some (ev_topic (br_job_pool r ! i))
      else find_topic_by_type (ev_type (br_job_pool r ! i))")
    case None
    then have "m' = m" using assms(2) by (simp add: publish_event_message_def Let_def)
    then show ?thesis using ok None unfolding pend by (auto simp: bridge_abs_def intro: abs_drop split: if_splits)
  next
    case (Some t)
    then have "m' = snd (mqtt_core_publish now t (ev_payload (br_job_pool r ! i)) m)"
      using assms(2) by (simp add: publish_event_message_def Let_def)
    then show ?thesis using ok abs_publish [OF Some] unfolding pend by (simp add: bridge_abs_def)
  qed
qed

lemma bridge_step_simulates:
  assumes "bridge_step c l c'" and "bridge_ok c"
  shows "bridge_ok c' \<and> abs_bridge_step (bridge_abs c) l (bridge_abs c')"
  using assms
proof cases
  case (br_start b job q now b' r m)
  have "bridge_jobs b = (if job_fn job = PUBLISH_JOB then [job_ctx job] else []) @ bridge_jobs b'"
    using br_start(4) job_step_queue [OF br_start(5,4)] by (simp add: bridge_jobs_def)
  then have "bridge_slots c' = bridge_slots c" by (simp add: br_start bridge_slots_def)
  then show ?thesis
    using assms(2) by (simp add: br_start bridge_ok_def bridge_abs_def bridge_pending_def abs_start)
next
  case (br_job job now b err b' r m run)
  have "bridge_slots c' = bridge_slots c"
    using post_job_jobs [OF br_job(5)] br_job(4) by (simp add: br_job bridge_slots_def)
  then show ?thesis
    using assms(2) by (simp add: br_job bridge_ok_def bridge_abs_def bridge_pending_def abs_quiet)
next
  case (br_other b' b r m run)
  then have "bridge_slots c' = bridge_slots c" by (simp add: bridge_slots_def bridge_jobs_def)
  then show ?thesis
    using assms(2) by (simp add: br_other bridge_ok_def bridge_abs_def bridge_pending_def abs_quiet)
qed (use assms(2) in \<open>simp_all add: bridge_event_simulates bridge_finish_simulates\<close>)

lemma bridge_reachable_ok: "bridge_reachable m0 c \<Longrightarrow> bridge_ok c"
proof (induction rule: bridge_reachable.induct)
  case (bridge_started b)
  have "busy_slots (replicate n False) = {}" for n by (simp add: busy_slots_def)
  then show ?case
    using bridge_started by (simp add: bridge_ok_def bridge_slots_def bridge_jobs_def bridge_pool.owned_def
        bridge_ready_def bridge_init_def)
qed (use bridge_step_simulates in blast)

text \<open>
  C40: the bridge is a queue of at most 32 events.  Every step that can happen in a reachable
  configuration is a step of the abstract bridge: an event is appended or ignored, the first event is
  published under its topic with its payload, unchanged since it was copied, and no copy is lost,
  reordered or published twice.
\<close>

theorem bridge_refines_queue:
  assumes "bridge_reachable m0 c" and "bridge_step c l c'"
  shows "abs_bridge_step (bridge_abs c) l (bridge_abs c')"
  using bridge_step_simulates [OF assms(2) bridge_reachable_ok [OF assms(1)]] by simp

theorem bridge_refines_queue_witness:
  "abs_bridge_step (bridge_abs (bridge_init, demo_bus, demo_pair, None)) (Br_Event demo_event)
     (bridge_abs (fst (on_event_bus_message demo_event 3 (bridge_init, demo_bus)),
        snd (on_event_bus_message demo_event 3 (bridge_init, demo_bus)), demo_pair, None))"
proof (rule bridge_refines_queue)
  show "bridge_reachable demo_pair (bridge_init, demo_bus, demo_pair, None)"
    by (rule bridge_started)
      (simp add: demo_bus_def event_bus_init_def ensure_message_pool_def event_bus_zero_def
        publish_status_now_def publish_status_snapshot_def)
  show "bridge_step (bridge_init, demo_bus, demo_pair, None) (Br_Event demo_event)
     (fst (on_event_bus_message demo_event 3 (bridge_init, demo_bus)),
        snd (on_event_bus_message demo_event 3 (bridge_init, demo_bus)), demo_pair, None)"
    by (rule br_event [where now = 3]) simp
qed

end
