(* ===== verification/Command_Params.thy ===== *)
theory Command_Params
  imports Gm_Json
begin

text \<open>
  The parameters of a device command (\<open>command_executor/command_executor.c\<close>): an allocation-free
  reader of one member of a JSON object.  A pointer into the text is the rest of the text, the NUL
  at its end is the empty list.  A reader with an output buffer returns the error code together with
  the contents of the buffer, because some callers ignore the code and go on with what was written.
\<close>

section \<open>The C library\<close>

definition c_lower :: "char \<Rightarrow> char" where
  "c_lower c = (let n = of_char c :: nat in if 65 \<le> n \<and> n \<le> 90 then char_of (n + 32) else c)"

definition strcaseeq :: "string \<Rightarrow> string \<Rightarrow> bool" where
  "strcaseeq s t \<longleftrightarrow> map c_lower s = map c_lower t"

definition c_digit :: "char \<Rightarrow> bool" where
  "c_digit c \<longleftrightarrow> c \<in> set ''0123456789''"

definition digit_value :: "char \<Rightarrow> int" where
  "digit_value c = int (of_char c) - 48"

definition c_space :: "char \<Rightarrow> bool" where
  "c_space c \<longleftrightarrow> c = CHR '' '' \<or> (9 \<le> (of_char c :: nat) \<and> (of_char c :: nat) \<le> 13)"

definition LONG_MAX :: int where "LONG_MAX = 2147483647"
definition LONG_MIN :: int where "LONG_MIN = - 2147483648"

text \<open>\<open>strtol\<close> with base 10 on a 32-bit \<open>long\<close>: the value, saturated, and the rest of the text.\<close>

definition strtol10 :: "string \<Rightarrow> int \<times> string" where
  "strtol10 s =
     (let p = dropWhile c_space s;
          neg = (case p of c # _ \<Rightarrow> c = CHR ''-'' | [] \<Rightarrow> False);
          q = (case p of c # cs \<Rightarrow> if c = CHR ''-'' \<or> c = CHR ''+'' then cs else p | [] \<Rightarrow> p);
          ds = takeWhile c_digit q;
          n = foldl (\<lambda>a d. 10 * a + digit_value d) 0 ds;
          v = (if neg then - n else n)
      in if ds = [] then (0, s) else (max LONG_MIN (min LONG_MAX v), dropWhile c_digit q))"

section \<open>Scanning\<close>

definition params_skip_ws :: "string \<Rightarrow> string" where
  "params_skip_ws = dropWhile json_ws"

text \<open>The end of a string whose opening quote has been read.\<close>

definition params_skip_string :: "string \<Rightarrow> esp_err + string" where
  "params_skip_string p = (case p of
      [] \<Rightarrow> Inl ESP_ERR_INVALID_ARG
    | c # cs \<Rightarrow> (if c \<noteq> QUOTE then Inl ESP_ERR_INVALID_ARG
                else case skip_string_body cs of
                       None \<Rightarrow> Inl ESP_ERR_INVALID_ARG | Some r \<Rightarrow> Inr r))"

lemma params_skip_string_shorter: "params_skip_string p = Inr r \<Longrightarrow> length r < length p"
  by (auto simp: params_skip_string_def dest!: skip_string_body_shorter
      split: list.splits if_splits option.splits)

text \<open>Inside an object or array only brackets of its own kind are counted.\<close>

function skip_bracketed :: "char \<Rightarrow> char \<Rightarrow> nat \<Rightarrow> string \<Rightarrow> esp_err + string" where
  "skip_bracketed open close depth p = (case p of
      [] \<Rightarrow> Inl ESP_ERR_INVALID_ARG
    | c # cs \<Rightarrow>
        (if c = QUOTE then
           (case params_skip_string p of
              Inl e \<Rightarrow> Inl e | Inr r \<Rightarrow> skip_bracketed open close depth r)
         else if c = open then skip_bracketed open close (depth + 1) cs
         else if c = close then (if depth = 1 then Inr cs else skip_bracketed open close (depth - 1) cs)
         else skip_bracketed open close depth cs))"
  by pat_completeness auto
termination
  by (relation "measure (\<lambda>(_, _, _, p). length p)") (auto dest: params_skip_string_shorter)

declare skip_bracketed.simps [simp del]

definition params_skip_value :: "string \<Rightarrow> esp_err + string" where
  "params_skip_value q = (case params_skip_ws q of
      [] \<Rightarrow> Inl ESP_ERR_INVALID_ARG
    | c # cs \<Rightarrow>
        (if c = QUOTE then params_skip_string (c # cs)
         else if c = CHR ''{'' \<or> c = CHR ''[''
         then skip_bracketed c (if c = CHR ''{'' then CHR ''}'' else CHR '']'') 1 cs
         else Inr (dropWhile (\<lambda>d. d \<noteq> CHR '','' \<and> d \<noteq> CHR ''}'') (c # cs))))"

definition params_read_key :: "string \<Rightarrow> esp_err + (string \<times> string)" where
  "params_read_key q = (case params_skip_ws q of
      [] \<Rightarrow> Inl ESP_ERR_INVALID_ARG
    | c # cs \<Rightarrow> (if c \<noteq> QUOTE then Inl ESP_ERR_INVALID_ARG else scan_key [] cs))"

datatype param_value =
    PARAM_MISSING
  | PARAM_STRING string
  | PARAM_NUMBER string
  | PARAM_BOOL bool
  | PARAM_NULL
  | PARAM_INVALID

definition is_param_string :: "param_value \<Rightarrow> bool" where
  "is_param_string v = (case v of PARAM_STRING _ \<Rightarrow> True | _ \<Rightarrow> False)"

definition c_prefix :: "string \<Rightarrow> string \<Rightarrow> bool" where
  "c_prefix pre s \<longleftrightarrow> take (length pre) s = pre"

definition params_read_scalar :: "string \<Rightarrow> (esp_err \<times> param_value) + (param_value \<times> string)" where
  "params_read_scalar q =
     (let p = params_skip_ws q in
      if c_prefix [QUOTE] p
      then (case params_skip_string p of
              Inl err \<Rightarrow> Inl (err, PARAM_INVALID)
            | Inr r \<Rightarrow> Inr (PARAM_STRING (take (length p - length r - 2) (drop 1 p)), r))
      else if c_prefix ''true'' p then Inr (PARAM_BOOL True, drop 4 p)
      else if c_prefix ''false'' p then Inr (PARAM_BOOL False, drop 5 p)
      else if c_prefix ''null'' p then Inr (PARAM_NULL, drop 4 p)
      else let sign = (if c_prefix ''-'' p then ''-'' else []); q = drop (length sign) p;
               ds = takeWhile c_digit q
           in if ds = [] then Inl (ESP_ERR_INVALID_ARG, PARAM_INVALID)
              else Inr (PARAM_NUMBER (sign @ ds), dropWhile c_digit q))"

lemma params_skip_ws_le: "length (params_skip_ws p) \<le> length p"
  by (simp add: params_skip_ws_def length_dropWhile_le)

lemma skip_bracketed_shorter: "skip_bracketed a b n p = Inr r \<Longrightarrow> length r < length p"
proof (induction a b n p rule: skip_bracketed.induct)
  case (1 a b n p)
  show ?case
  proof (cases p)
    case Nil
    with 1 show ?thesis by (simp add: skip_bracketed.simps [of _ _ _ "[]"])
  next
    case (Cons c cs)
    note unf = "1.prems" [unfolded Cons skip_bracketed.simps [of _ _ _ "c # cs"]]
    show ?thesis
    proof (cases "c = QUOTE")
      case True
      then obtain r' where r': "params_skip_string p = Inr r'" "skip_bracketed a b n r' = Inr r"
        using unf by (auto simp: Cons split: sum.splits)
      have "length r < length r'" using "1.IH"(1) [OF Cons True r'(1)] r'(2) by blast
      with params_skip_string_shorter [OF r'(1)] show ?thesis by simp
    next
      case False
      then show ?thesis using unf "1.IH"(2-4) [OF Cons]
        by (auto simp: Cons split: if_splits intro: less_SucI)
    qed
  qed
qed

lemma params_skip_value_le:
  assumes "params_skip_value p = Inr r"
  shows "length r \<le> length p"
proof (cases "params_skip_ws p")
  case Nil
  with assms show ?thesis by (simp add: params_skip_value_def)
next
  case (Cons c cs)
  have le: "length (c # cs) \<le> length p" using params_skip_ws_le [of p] by (simp only: Cons)
  have "length r \<le> length (c # cs)"
    using assms length_dropWhile_le [of "\<lambda>d. d \<noteq> CHR '','' \<and> d \<noteq> CHR ''}''" "c # cs"]
    unfolding params_skip_value_def Cons list.case
    by (auto split: if_splits dest!: params_skip_string_shorter skip_bracketed_shorter)
  with le show ?thesis by simp
qed

lemma params_read_key_shorter:
  assumes "params_read_key p = Inr (k, r)"
  shows "length r < length p"
proof -
  obtain cs where "params_skip_ws p = QUOTE # cs" "scan_key [] cs = Inr (k, r)"
    using assms by (auto simp: params_read_key_def split: list.splits if_splits)
  then show ?thesis using params_skip_ws_le [of p] scan_key_shorter by fastforce
qed

text \<open>
  The loop of \<open>command_executor_params_find\<close>, entered behind the opening brace or a comma.
\<close>

definition params_at_colon :: "string \<Rightarrow> string option" where
  "params_at_colon r = (case params_skip_ws r of
      [] \<Rightarrow> None | c # cs \<Rightarrow> if c = CHR '':'' then Some cs else None)"

lemma params_at_colon_shorter: "params_at_colon r = Some s \<Longrightarrow> length s < length r"
  using params_skip_ws_le [of r] by (auto simp: params_at_colon_def split: list.splits if_splits)

definition params_scalar_end :: "string \<Rightarrow> bool" where
  "params_scalar_end r = (case params_skip_ws r of
      [] \<Rightarrow> True | c # _ \<Rightarrow> c = CHR '','' \<or> c = CHR ''}'')"

lemma params_member_shorter:
  assumes "params_read_key q = Inr (k, r)" "params_at_colon r = Some s" "params_skip_value s = Inr t"
    "params_skip_ws t = c # cs"
  shows "length cs < length q"
proof -
  have "length r < length q" "length s < length r" "length t \<le> length s" "length (c # cs) \<le> length t"
    using assms params_skip_ws_le [of t]
    by (simp_all add: params_read_key_shorter params_at_colon_shorter params_skip_value_le)
  then show ?thesis by simp
qed

function params_members :: "string \<Rightarrow> string \<Rightarrow> esp_err \<times> param_value" where
  "params_members key q =
     (if c_prefix ''}'' (params_skip_ws q) then (ESP_ERR_NOT_FOUND, PARAM_MISSING)
      else case params_read_key q of
        Inl err \<Rightarrow> (err, PARAM_INVALID)
      | Inr (k, r) \<Rightarrow>
          (case params_at_colon r of
             None \<Rightarrow> (ESP_ERR_INVALID_ARG, PARAM_INVALID)
           | Some s \<Rightarrow>
               (if k = key
                then (case params_read_scalar s of
                        Inl e \<Rightarrow> e
                      | Inr (v, r') \<Rightarrow> (if params_scalar_end r' then (ESP_OK, v)
                                       else (ESP_ERR_INVALID_ARG, PARAM_INVALID)))
                else case params_skip_value s of
                       Inl err \<Rightarrow> (err, PARAM_INVALID)
                     | Inr t \<Rightarrow>
                         (case params_skip_ws t of
                            [] \<Rightarrow> (ESP_ERR_INVALID_ARG, PARAM_INVALID)
                          | c # cs \<Rightarrow>
                              (if c = CHR '','' then params_members key cs
                               else if c = CHR ''}'' then (ESP_ERR_NOT_FOUND, PARAM_MISSING)
                               else (ESP_ERR_INVALID_ARG, PARAM_INVALID))))))"
  by pat_completeness auto
termination
  by (relation "measure (\<lambda>(_, q). length q)") (auto dest: params_member_shorter)

declare params_members.simps [simp del]

definition command_executor_params_find :: "string \<Rightarrow> string \<Rightarrow> esp_err \<times> param_value" where
  "command_executor_params_find params_json key = (case params_skip_ws params_json of
      [] \<Rightarrow> (ESP_ERR_NOT_FOUND, PARAM_MISSING)
    | c # cs \<Rightarrow> (if c \<noteq> CHR ''{'' then (ESP_ERR_INVALID_ARG, PARAM_INVALID) else params_members key cs))"

section \<open>Reading values\<close>

text \<open>The escapes of a JSON string; \<open>None\<close> is an escape that is not supported.\<close>

definition json_escape :: "char \<Rightarrow> char option" where
  "json_escape c =
     (if c = QUOTE \<or> c = BACKSLASH \<or> c = CHR ''/'' then Some c
      else if c = CHR ''b'' then Some (CHR 0x08)
      else if c = CHR ''f'' then Some (CHR 0x0C)
      else if c = CHR ''n'' then Some (CHR 0x0A)
      else if c = CHR ''r'' then Some (CHR 0x0D)
      else if c = CHR ''t'' then Some (CHR 0x09)
      else None)"

text \<open>The characters written so far are \<open>out\<close>; the buffer has room for \<open>n - 1\<close>.\<close>

fun copy_json_string :: "nat \<Rightarrow> string \<Rightarrow> string \<Rightarrow> esp_err \<times> string" where
  "copy_json_string n out [] = (ESP_OK, out)"
| "copy_json_string n out (c # cs) =
     (if c = BACKSLASH
      then (case cs of
              [] \<Rightarrow> (ESP_ERR_INVALID_ARG, out)
            | d # ds \<Rightarrow>
                (case json_escape d of
                   None \<Rightarrow> (ESP_ERR_NOT_SUPPORTED, out)
                 | Some e \<Rightarrow> (if length out + 1 \<ge> n then (ESP_ERR_INVALID_ARG, out)
                             else copy_json_string n (out @ [e]) ds)))
      else if length out + 1 \<ge> n then (ESP_ERR_INVALID_ARG, out)
      else copy_json_string n (out @ [c]) cs)"

definition params_copy_json_string :: "nat \<Rightarrow> param_value \<Rightarrow> esp_err \<times> string" where
  "params_copy_json_string out_size v = (case v of
      PARAM_STRING s \<Rightarrow> copy_json_string out_size [] s
    | _ \<Rightarrow> (ESP_ERR_INVALID_ARG, []))"

definition missing_param :: "bool \<Rightarrow> esp_err" where
  "missing_param required = (if required then ESP_ERR_INVALID_ARG else ESP_OK)"

definition command_executor_params_get_string ::
  "string \<Rightarrow> string \<Rightarrow> nat \<Rightarrow> bool \<Rightarrow> esp_err \<times> string" where
  "command_executor_params_get_string params_json key out_size required =
     (if params_json = [] then (missing_param required, [])
      else let (err, v) = command_executor_params_find params_json key in
        if err = ESP_ERR_NOT_FOUND \<or> v = PARAM_NULL then (missing_param required, [])
        else if err \<noteq> ESP_OK \<or> \<not> is_param_string v then (ESP_ERR_INVALID_ARG, [])
        else params_copy_json_string out_size v)"

text \<open>The two numeric readers leave \<open>*out\<close>, here \<open>default\<close>, alone unless they succeed.\<close>

definition parse_number :: "string \<Rightarrow> int option" where
  "parse_number tmp = (let (v, rest) = strtol10 tmp in if rest = [] then Some v else None)"

definition command_executor_params_get_int :: "string \<Rightarrow> string \<Rightarrow> int \<Rightarrow> bool \<Rightarrow> esp_err \<times> int" where
  "command_executor_params_get_int params_json key out required =
     (if params_json = [] then (missing_param required, out)
      else let (err, v) = command_executor_params_find params_json key in
        if err = ESP_ERR_NOT_FOUND \<or> v = PARAM_NULL then (missing_param required, out)
        else if err \<noteq> ESP_OK then (ESP_ERR_INVALID_ARG, out)
        else let tmp = (case v of
               PARAM_NUMBER s \<Rightarrow> (if length s \<ge> 24 then None else Some s)
             | PARAM_STRING _ \<Rightarrow> (let (err, s) = params_copy_json_string 24 v in
                 if err \<noteq> ESP_OK \<or> s = [] then None else Some s)
             | _ \<Rightarrow> None)
          in case tmp of
               None \<Rightarrow> (ESP_ERR_INVALID_ARG, out)
             | Some s \<Rightarrow> (case parse_number s of
                 None \<Rightarrow> (ESP_ERR_INVALID_ARG, out) | Some n \<Rightarrow> (ESP_OK, n)))"

definition command_executor_params_get_bool :: "string \<Rightarrow> string \<Rightarrow> bool \<Rightarrow> bool \<Rightarrow> esp_err \<times> bool" where
  "command_executor_params_get_bool params_json key out required =
     (if params_json = [] then (missing_param required, out)
      else let (err, v) = command_executor_params_find params_json key in
        if err = ESP_ERR_NOT_FOUND \<or> v = PARAM_NULL then (missing_param required, out)
        else if err \<noteq> ESP_OK then (ESP_ERR_INVALID_ARG, out)
        else case v of
          PARAM_BOOL b \<Rightarrow> (ESP_OK, b)
        | PARAM_NUMBER s \<Rightarrow>
            (if length s \<ge> 16 then (ESP_ERR_INVALID_ARG, out)
             else case parse_number s of
                    None \<Rightarrow> (ESP_ERR_INVALID_ARG, out) | Some n \<Rightarrow> (ESP_OK, n \<noteq> 0))
        | PARAM_STRING _ \<Rightarrow>
            (let (err, s) = params_copy_json_string 16 v in
             if err \<noteq> ESP_OK then (err, out)
             else (ESP_OK, strcaseeq s ''true'' \<or> s = ''1'' \<or> strcaseeq s ''yes'' \<or> strcaseeq s ''on''))
        | _ \<Rightarrow> (ESP_ERR_INVALID_ARG, out))"

end
