(* ===== verification/C_Format.thy ===== *)
theory C_Format
  imports Gm_Prelude
begin

text \<open>
  The conversions of \<open>snprintf\<close> that build identifiers and payloads: decimal and zero-padded
  hexadecimal numbers.  A number can be read back from its text, so different numbers have
  different texts.
\<close>

definition digit_char :: "nat \<Rightarrow> char" where
  "digit_char d = (if d < 10 then char_of (48 + d) else char_of (87 + d))"

definition char_digit :: "char \<Rightarrow> nat" where
  "char_digit c = (let n = of_char c in if n < 58 then n - 48 else n - 87)"

function digits :: "nat \<Rightarrow> nat \<Rightarrow> string" where
  "digits b n = (if b < 2 \<or> n < b then [digit_char n] else digits b (n div b) @ [digit_char (n mod b)])"
  by pat_completeness auto
termination
  by (relation "measure snd") (auto simp: not_less intro!: div_less_dividend)

declare digits.simps [simp del]

definition c_decimal :: "int \<Rightarrow> string" where
  "c_decimal n = (if n < 0 then CHR ''-'' # digits 10 (nat (- n)) else digits 10 (nat n))"

definition c_hex_padded :: "nat \<Rightarrow> nat \<Rightarrow> string" where
  "c_hex_padded width n = replicate (width - length (digits 16 n)) (CHR ''0'') @ digits 16 n"

definition digits_value :: "nat \<Rightarrow> string \<Rightarrow> nat" where
  "digits_value b = foldl (\<lambda>a c. b * a + char_digit c) 0"

lemma char_digit_inverse: "d < 16 \<Longrightarrow> char_digit (digit_char d) = d"
  by (simp add: digit_char_def char_digit_def)

lemma digits_value_digits: "2 \<le> b \<Longrightarrow> b \<le> 16 \<Longrightarrow> digits_value b (digits b n) = n"
proof (induction b n rule: digits.induct)
  case (1 b n)
  show ?case
  proof (cases "n < b")
    case True
    then show ?thesis using 1 by (simp add: digits.simps [of b n] digits_value_def char_digit_inverse)
  next
    case False
    then have "digits_value b (digits b (n div b)) = n div b" using 1 by simp
    moreover have "n mod b < 16" using 1 by (metis less_le_trans mod_less_divisor zero_less_numeral)
    ultimately show ?thesis using 1 False
      by (simp add: digits.simps [of b n] digits_value_def char_digit_inverse)
  qed
qed

lemma digits_value_zeros: "digits_value b (replicate k (CHR ''0'') @ s) = digits_value b s"
  by (induction k) (simp_all add: digits_value_def char_digit_def)

lemma digits_inject: "2 \<le> b \<Longrightarrow> b \<le> 16 \<Longrightarrow> digits b m = digits b n \<Longrightarrow> m = n"
  by (metis digits_value_digits)

lemma c_hex_padded_inject:
  assumes "c_hex_padded w m = c_hex_padded w' n"
  shows "m = n"
proof -
  have v: "digits_value 16 (c_hex_padded u k) = k" for u k
    using digits_value_digits [of 16 k] by (simp add: c_hex_padded_def digits_value_zeros)
  show ?thesis using v [of w m] v [of w' n] assms by simp
qed

lemma digits_not_Nil [simp]: "digits b n \<noteq> []"
  by (simp add: digits.simps [of b n])

lemma digits_length: "2 \<le> b \<Longrightarrow> n < b ^ k \<Longrightarrow> 0 < k \<Longrightarrow> length (digits b n) \<le> k"
proof (induction b n arbitrary: k rule: digits.induct)
  case (1 b n)
  show ?case
  proof (cases "n < b")
    case False
    then obtain j where "k = Suc j" using 1 by (cases k) auto
    moreover from this have "0 < j" using 1 False by (cases j) auto
    ultimately have j: "k = Suc j" "0 < j" by simp_all
    with 1 have "n div b < b ^ j" by (simp add: div_less_iff_less_mult mult.commute)
    with 1 False j have "length (digits b (n div b)) \<le> j" by simp
    with False j show ?thesis by (simp add: digits.simps [of b n])
  qed (use 1 in \<open>simp add: digits.simps [of b n]\<close>)
qed

lemma c_hex_padded_length: "n < 16 ^ w \<Longrightarrow> 0 < w \<Longrightarrow> length (c_hex_padded w n) = w"
  using digits_length [of 16 n w] by (simp add: c_hex_padded_def)

end
