(* ===== verification/Command_Params_Props.thy ===== *)
theory Command_Params_Props
  imports Command_Params C_Format
begin

text \<open>
  The parameter readers return what was written: on the text of an object with scalar members they
  agree with lookup in the list of its members.
\<close>

section \<open>Values and their texts\<close>

datatype jvalue = JNum int | JBool bool | JNull | JStr string

fun jtext :: "jvalue \<Rightarrow> string" where
  "jtext (JNum n) = c_decimal n"
| "jtext (JBool b) = (if b then ''true'' else ''false'')"
| "jtext JNull = ''null''"
| "jtext (JStr s) = QUOTE # s @ [QUOTE]"

fun jvalue_ok :: "jvalue \<Rightarrow> bool" where
  "jvalue_ok (JNum n) = (LONG_MIN \<le> n \<and> n \<le> LONG_MAX)"
| "jvalue_ok (JStr s) = json_plain s"
| "jvalue_ok _ = True"

fun param_of :: "jvalue \<Rightarrow> param_value" where
  "param_of (JNum n) = PARAM_NUMBER (c_decimal n)"
| "param_of (JBool b) = PARAM_BOOL b"
| "param_of JNull = PARAM_NULL"
| "param_of (JStr s) = PARAM_STRING s"

definition jobject :: "(string \<times> jvalue) list \<Rightarrow> string" where
  "jobject kvs = json_object (map (\<lambda>(k, v). (k, jtext v)) kvs)"

definition jobject_ok :: "(string \<times> jvalue) list \<Rightarrow> bool" where
  "jobject_ok kvs \<longleftrightarrow> (\<forall>(k, v) \<in> set kvs. json_plain k \<and> jvalue_ok v)"

section \<open>Decimal numbers\<close>

lemma digit_char_decimal: "d < 10 \<Longrightarrow> c_digit (digit_char d) \<and> digit_value (digit_char d) = int d"
proof -
  have "list_all (\<lambda>d. c_digit (digit_char d) \<and> digit_value (digit_char d) = int d) [0..<10]" by code_simp
  then show "d < 10 \<Longrightarrow> ?thesis" by (simp add: list_all_iff)
qed

lemma digits_decimal: "list_all c_digit (digits 10 n) \<and> foldl (\<lambda>a d. 10 * a + digit_value d) 0 (digits 10 n) = int n"
proof (induction "10 :: nat" n rule: digits.induct)
  case (1 n)
  have "int (10 * (n div 10) + n mod 10) = int n" by simp
  then have sum: "10 * int (n div 10) + int (n mod 10) = int n" by linarith
  show ?case
  proof (cases "n < 10")
    case True
    then show ?thesis by (simp add: digits.simps [of 10 n] digit_char_decimal)
  next
    case False
    with 1 sum show ?thesis by (simp add: digits.simps [of 10 n] digit_char_decimal)
  qed
qed

lemma takeWhile_digits:
  "takeWhile c_digit (digits 10 n @ r) = digits 10 n @ takeWhile c_digit r"
  "dropWhile c_digit (digits 10 n @ r) = dropWhile c_digit r"
  using digits_decimal [of n] by (auto simp: list_all_iff)

lemma digits_head: "\<exists>c cs. digits 10 n = c # cs \<and> c_digit c"
  using digits_decimal [of n] by (cases "digits 10 n") simp_all

lemma c_digit_not:
  assumes "c_digit c"
  shows "\<not> json_ws c" "\<not> c_space c" "c \<noteq> CHR ''-''" "c \<noteq> CHR ''+''" "c \<noteq> QUOTE" "c \<noteq> CHR ''t''" "c \<noteq> CHR ''f''"
    "c \<noteq> CHR ''n''" "c \<noteq> CHR '',''" "c \<noteq> CHR ''}''" "c \<noteq> CHR ''{''" "c \<noteq> CHR ''[''"
  using assms by (auto simp: c_digit_def json_ws_def c_space_def)

lemma strtol_decimal:
  assumes "LONG_MIN \<le> n" and "n \<le> LONG_MAX"
  shows "strtol10 (c_decimal n) = (n, [])"
proof -
  obtain c cs where d: "digits 10 (nat \<bar>n\<bar>) = c # cs" and c: "c_digit c" using digits_head by blast
  have v: "foldl (\<lambda>a d. 10 * a + digit_value d) 0 (c # cs) = \<bar>n\<bar>"
    using digits_decimal [of "nat \<bar>n\<bar>"] by (simp add: d)
  have t: "takeWhile c_digit (c # cs) = c # cs" "dropWhile c_digit (c # cs) = []"
    using takeWhile_digits [of "nat \<bar>n\<bar>" "[]"] by (simp_all only: d append_Nil2 takeWhile.simps dropWhile.simps)
  have m: "\<not> c_space (CHR ''-'')" by (simp add: c_space_def)
  show ?thesis
  proof (cases "n < 0")
    case True
    then have dec: "c_decimal n = CHR ''-'' # c # cs" using d by (simp add: c_decimal_def)
    show ?thesis using True v t assms m by (simp add: strtol10_def Let_def dec del: foldl_Cons)
  next
    case False
    then have dec: "c_decimal n = c # cs" using d by (simp add: c_decimal_def)
    show ?thesis using False v t assms c_digit_not [OF c] by (simp add: strtol10_def Let_def dec del: foldl_Cons)
  qed
qed

section \<open>Reading one member\<close>

lemma read_scalar_text:
  assumes "jvalue_ok v" and "e = CHR '','' \<or> e = CHR ''}''"
  shows "params_read_scalar (jtext v @ e # r) = Inr (param_of v, e # r)"
proof (cases v)
  case (JNum n)
  obtain c cs where d: "digits 10 (nat \<bar>n\<bar>) = c # cs" and c: "c_digit c" using digits_head by blast
  have e: "\<not> c_digit e" using assms(2) by (auto simp: c_digit_def)
  have t: "takeWhile c_digit (c # cs @ e # r) = c # cs" "dropWhile c_digit (c # cs @ e # r) = e # r"
    using takeWhile_digits [of "nat \<bar>n\<bar>" "e # r"] e by (simp_all only: d append_Cons) simp_all
  have m: "\<not> json_ws (CHR ''-'')" by (simp add: json_ws_def)
  show ?thesis
  proof (cases "n < 0")
    case True
    then have dec: "c_decimal n = CHR ''-'' # c # cs" using d by (simp add: c_decimal_def)
    show ?thesis using t m
      by (simp add: JNum dec params_read_scalar_def params_skip_ws_def c_prefix_def Let_def)
  next
    case False
    then have dec: "c_decimal n = c # cs" using d by (simp add: c_decimal_def)
    show ?thesis using t c_digit_not [OF c]
      by (simp add: JNum dec params_read_scalar_def params_skip_ws_def c_prefix_def Let_def)
  qed
next
  case (JStr s)
  then have "skip_string_body (s @ QUOTE # e # r) = Some (e # r)"
    using assms(1) by (simp add: skip_string_body_plain)
  then show ?thesis
    by (simp add: JStr params_read_scalar_def params_skip_ws_def c_prefix_def params_skip_string_def Let_def)
qed (auto simp: params_read_scalar_def params_skip_ws_def c_prefix_def json_ws_def Let_def)

lemma jtext_scalar: "jvalue_ok v \<Longrightarrow> json_scalar (jtext v)"
proof (cases v)
  case (JNum n)
  have dig: "\<forall>c \<in> set (digits 10 k). c_digit c" for k using digits_decimal [of k] by (simp add: list_all_iff)
  have tok: "\<forall>c \<in> set (digits 10 k). \<not> json_ws c \<and> c \<notin> {QUOTE, CHR '','', CHR ''{'', CHR ''}'', CHR ''[''}" for k
    using dig [of k] c_digit_not by auto
  then have "json_token (c_decimal n)" by (auto simp: json_token_def c_decimal_def json_ws_def)
  then show ?thesis by (simp add: JNum json_scalar_def)
qed (auto simp: json_scalar_def json_token_def json_ws_def)

lemma params_skip_value_scalar:
  assumes "json_scalar v" and "d = CHR '','' \<or> d = CHR ''}''"
  shows "params_skip_value (v @ d # r) = Inr (d # r)"
proof -
  obtain c cs where v: "v = c # cs" "\<not> json_ws c" "c \<noteq> CHR ''{''"
    using json_scalar_head [OF assms(1)] by (cases v) auto
  have "c \<noteq> CHR ''[''" using assms(1) v(1) by (auto simp: json_scalar_def json_token_def)
  then show ?thesis
    using skip_value_scalar [OF assms, of r] v
    by (auto simp: params_skip_value_def params_skip_ws_def gm_json_skip_value_def
        params_skip_string_def gm_json_skip_string_def)
qed

lemma read_key_text:
  assumes "json_plain k"
  shows "params_read_key (QUOTE # k @ QUOTE # r) = Inr (k, r)"
  using scan_key_plain [OF assms, of "[]" r] by (simp add: params_read_key_def params_skip_ws_def)

text \<open>The loop over the members is lookup.\<close>

lemma members_lookup:
  "jobject_ok kvs \<Longrightarrow> params_members key (json_fields (map (\<lambda>(k, v). (k, jtext v)) kvs)) =
     (case map_of kvs key of None \<Rightarrow> (ESP_ERR_NOT_FOUND, PARAM_MISSING) | Some v \<Rightarrow> (ESP_OK, param_of v))"
proof (induction kvs)
  case Nil
  then show ?case by (subst params_members.simps) (simp add: params_skip_ws_def c_prefix_def)
next
  case (Cons kv kvs)
  obtain k v where kv: "kv = (k, v)" by force
  have ok: "json_plain k" "jvalue_ok v" "jobject_ok kvs" using Cons.prems by (auto simp: jobject_ok_def kv)
  let ?rest = "json_fields (map (\<lambda>(k, v). (k, jtext v)) kvs)"
  obtain d r where dr: "(if kvs = [] then [] else [CHR '','']) @ ?rest = d # r"
    and d: "if kvs = [] then d = CHR ''}'' else d = CHR '','' \<and> r = ?rest"
    by (cases "kvs = []") auto
  have de: "d = CHR '','' \<or> d = CHR ''}''" using d by (simp split: if_splits)
  have txt_eq: "json_fields (map (\<lambda>(k, v). (k, jtext v)) (kv # kvs)) =
      QUOTE # k @ QUOTE # CHR '':'' # jtext v @ d # r"
    using dr by (simp add: kv)
  have rest: "kvs \<noteq> [] \<Longrightarrow> r = ?rest" "kvs = [] \<Longrightarrow> d = CHR ''}''" "kvs \<noteq> [] \<Longrightarrow> d = CHR '',''"
    using d by simp_all
  have nows: "\<not> json_ws d" using de by auto
  show ?case
    unfolding txt_eq
    using Cons.IH [OF ok(3)] rest de nows read_scalar_text [OF ok(2) de, of r]
      params_skip_value_scalar [OF jtext_scalar [OF ok(2)] de, of r] read_key_text [OF ok(1)]
    by (subst params_members.simps)
      (cases "kvs = []", auto simp: kv params_skip_ws_def c_prefix_def params_at_colon_def params_scalar_end_def)
qed

lemma find_lookup:
  "jobject_ok kvs \<Longrightarrow> command_executor_params_find (jobject kvs) key =
     (case map_of kvs key of None \<Rightarrow> (ESP_ERR_NOT_FOUND, PARAM_MISSING) | Some v \<Rightarrow> (ESP_OK, param_of v))"
  using members_lookup [of kvs key]
  by (simp add: command_executor_params_find_def jobject_def json_object_def params_skip_ws_def)

lemma copy_plain: "json_plain s \<Longrightarrow> length out + length s < n \<Longrightarrow> copy_json_string n out s = (ESP_OK, out @ s)"
  by (induction s arbitrary: out) (auto simp: json_plain_def)

lemma c_decimal_short: "LONG_MIN \<le> n \<Longrightarrow> n \<le> LONG_MAX \<Longrightarrow> length (c_decimal n) \<le> 11"
  by (auto simp: c_decimal_def LONG_MIN_def LONG_MAX_def intro!: digits_length [THEN order_trans, of _ _ 10])

section \<open>Properties\<close>

text \<open>
  Parameters read back what was written.  For the text of an object with distinct or repeated
  plain keys and scalar values, an integer, boolean or string member that the text has for the key is
  returned, a missing or null one is an error exactly when it is required and leaves the default, and
  a string that does not fit its buffer is refused.
\<close>

theorem params_read_back:
  assumes "jobject_ok kvs"
  shows "(case map_of kvs key of
      Some (JNum n) \<Rightarrow> command_executor_params_get_int (jobject kvs) key fallback required = (ESP_OK, n)
    | Some (JBool b) \<Rightarrow> command_executor_params_get_bool (jobject kvs) key fallback_bool required = (ESP_OK, b)
    | Some (JStr s) \<Rightarrow> length s < n \<longrightarrow>
        command_executor_params_get_string (jobject kvs) key n required = (ESP_OK, s)
    | _ \<Rightarrow> command_executor_params_get_int (jobject kvs) key fallback required = (missing_param required, fallback) \<and>
        command_executor_params_get_bool (jobject kvs) key fallback_bool required =
          (missing_param required, fallback_bool) \<and>
        command_executor_params_get_string (jobject kvs) key n required = (missing_param required, []))"
proof -
  have ne: "jobject kvs \<noteq> []" by (simp add: jobject_def json_object_def)
  have ok: "jvalue_ok v" if "map_of kvs key = Some v" for v
    using assms map_of_SomeD [OF that] by (auto simp: jobject_ok_def)
  note defs = command_executor_params_get_int_def command_executor_params_get_bool_def
    command_executor_params_get_string_def
  show ?thesis
  proof (cases "map_of kvs key")
    case None
    then show ?thesis by (simp add: defs ne find_lookup [OF assms])
  next
    case (Some v)
    note f = find_lookup [OF assms, of key]
    show ?thesis
    proof (cases v)
      case (JNum m)
      then have "LONG_MIN \<le> m" "m \<le> LONG_MAX" using ok [OF Some] by simp_all
      with strtol_decimal c_decimal_short [of m] show ?thesis
        by (simp add: defs ne f Some JNum parse_number_def)
    next
      case (JStr s)
      then show ?thesis using ok [OF Some] copy_plain [of s "[]" n]
        by (simp add: defs ne f Some is_param_string_def params_copy_json_string_def)
    qed (simp_all add: defs ne f Some)
  qed
qed

theorem params_read_back_witness:
  "command_executor_params_get_int (jobject [(''channel'', JNum 3), (''on'', JBool True)]) ''channel'' 0 True = (ESP_OK, 3)"
proof -
  have "jobject_ok [(''channel'', JNum 3), (''on'', JBool True)]"
    by (simp add: jobject_ok_def json_plain_def LONG_MIN_def LONG_MAX_def)
  from params_read_back [OF this, of "''channel''" 0 True] show ?thesis by simp
qed

end
