(* ===== verification/Quest_System.thy ===== *)
theory Quest_System
  imports Room_Scenario
begin

text \<open>
  Devices and their commands (\<open>quest_device/include/quest_device.h\<close>) and the four built-in devices
  (\<open>quest_device/quest_device_system.c\<close>).  The code keeps the built-in commands twice: in a function
  that fills the whole device and in one that looks a command up by its id; the same holds for the
  events.  Every literal below is shorter than the buffer it is copied to, so \<open>qd_system_copy\<close> is the
  identity on it.
\<close>

definition QUEST_DEVICE_MAX_COMMANDS :: nat where "QUEST_DEVICE_MAX_COMMANDS = 8"
definition QUEST_DEVICE_MAX_EVENTS :: nat where "QUEST_DEVICE_MAX_EVENTS = 20"
definition QUEST_DEVICE_MAX_COMMAND_PARAMS :: nat where "QUEST_DEVICE_MAX_COMMAND_PARAMS = 8"
definition QUEST_DEVICE_COMMAND_TIMEOUT_DEFAULT_MS :: u32 where
  "QUEST_DEVICE_COMMAND_TIMEOUT_DEFAULT_MS = 3000"
definition QUEST_DEVICE_SYSTEM_AUDIO_ID :: string where "QUEST_DEVICE_SYSTEM_AUDIO_ID = ''system_audio''"
definition QUEST_DEVICE_SYSTEM_RELAY_ID :: string where "QUEST_DEVICE_SYSTEM_RELAY_ID = ''system_relay''"
definition QUEST_DEVICE_SYSTEM_MOSFET_ID :: string where "QUEST_DEVICE_SYSTEM_MOSFET_ID = ''system_mosfet''"
definition QUEST_DEVICE_SYSTEM_IO_ID :: string where "QUEST_DEVICE_SYSTEM_IO_ID = ''system_io''"

section \<open>Data\<close>

datatype quest_device_command_param_type =
    QUEST_DEVICE_COMMAND_PARAM_TEXT
  | QUEST_DEVICE_COMMAND_PARAM_NUMBER
  | QUEST_DEVICE_COMMAND_PARAM_CHECKBOX
  | QUEST_DEVICE_COMMAND_PARAM_AUDIO_FILE_SELECT

record quest_device_command_param =
  qp_key :: string
  qp_label :: string
  qp_type :: quest_device_command_param_type
  qp_optional :: bool

record quest_device_command =
  qc_id :: string
  qc_label :: string
  qc_capability :: string
  qc_command :: string
  qc_default_args_json :: string
  qc_manual_allowed :: bool
  qc_scenario_allowed :: bool
  qc_requires_confirmation :: bool
  qc_result_required :: bool
  qc_timeout_ms :: u32
  qc_danger_level :: string
  qc_params :: "quest_device_command_param list"

record quest_device_event =
  qe_id :: string
  qe_label :: string
  qe_capability :: string
  qe_event :: string
  qe_match_json :: string

record quest_device =
  qd_id :: string
  qd_client_id :: string
  qd_name :: string
  qd_enabled :: bool
  qd_system_device :: bool
  qd_commands :: "quest_device_command list"
  qd_events :: "quest_device_event list"
  qd_device_description_json :: string

definition quest_device_command_zero :: quest_device_command where
  "quest_device_command_zero = \<lparr>qc_id = [], qc_label = [], qc_capability = [], qc_command = [],
     qc_default_args_json = [], qc_manual_allowed = False, qc_scenario_allowed = False,
     qc_requires_confirmation = False, qc_result_required = False, qc_timeout_ms = 0,
     qc_danger_level = [], qc_params = []\<rparr>"

definition quest_device_zero :: quest_device where
  "quest_device_zero = \<lparr>qd_id = [], qd_client_id = [], qd_name = [], qd_enabled = False,
     qd_system_device = False, qd_commands = [], qd_events = [], qd_device_description_json = []\<rparr>"

section \<open>Building commands\<close>

definition qd_system_command_set_policy ::
  "bool \<Rightarrow> bool \<Rightarrow> bool \<Rightarrow> bool \<Rightarrow> u32 \<Rightarrow> string \<Rightarrow> quest_device_command \<Rightarrow> quest_device_command" where
  "qd_system_command_set_policy manual scenario confirm result timeout_ms danger_level cmd =
     cmd\<lparr>qc_manual_allowed := manual, qc_scenario_allowed := scenario,
       qc_requires_confirmation := confirm, qc_result_required := result,
       qc_timeout_ms := (if timeout_ms \<noteq> 0 then timeout_ms else QUEST_DEVICE_COMMAND_TIMEOUT_DEFAULT_MS),
       qc_danger_level := (if danger_level \<noteq> [] then danger_level else ''normal'')\<rparr>"

definition add_param ::
  "quest_device_command_param_type \<Rightarrow> bool \<Rightarrow> string \<Rightarrow> string \<Rightarrow> quest_device_command \<Rightarrow>
   quest_device_command" where
  "add_param ty optional key label cmd = cmd\<lparr>qc_params := qc_params cmd @
     [\<lparr>qp_key = key, qp_label = label, qp_type = ty, qp_optional = optional\<rparr>]\<rparr>"

definition qd_system_mosfet_value_param ::
  "string \<Rightarrow> string \<Rightarrow> quest_device_command \<Rightarrow> quest_device_command" where
  "qd_system_mosfet_value_param key label cmd =
     (if length (qc_params cmd) \<ge> QUEST_DEVICE_MAX_COMMAND_PARAMS then cmd
      else add_param QUEST_DEVICE_COMMAND_PARAM_NUMBER False key label cmd)"

definition qd_system_relay_channel_param :: "quest_device_command \<Rightarrow> quest_device_command" where
  "qd_system_relay_channel_param cmd =
     (if length (qc_params cmd) \<ge> QUEST_DEVICE_MAX_COMMAND_PARAMS then cmd
      else add_param QUEST_DEVICE_COMMAND_PARAM_NUMBER False ''channel'' ''Channel'' cmd)"

definition qd_system_mosfet_channel_param :: "quest_device_command \<Rightarrow> quest_device_command" where
  "qd_system_mosfet_channel_param cmd =
     (if length (qc_params cmd) \<ge> QUEST_DEVICE_MAX_COMMAND_PARAMS then cmd
      else add_param QUEST_DEVICE_COMMAND_PARAM_NUMBER False ''channel'' ''Channel'' cmd)"

section \<open>The built-in commands\<close>

definition qd_system_audio_play_command :: "quest_device_command \<Rightarrow> quest_device_command" where
  "qd_system_audio_play_command cmd =
     add_param QUEST_DEVICE_COMMAND_PARAM_CHECKBOX True ''repeat'' ''Repeat background''
     (add_param QUEST_DEVICE_COMMAND_PARAM_TEXT True ''channel'' ''Channel''
     (add_param QUEST_DEVICE_COMMAND_PARAM_NUMBER True ''volume'' ''Volume''
     (add_param QUEST_DEVICE_COMMAND_PARAM_AUDIO_FILE_SELECT False ''file'' ''File''
     (qd_system_command_set_policy False True False False QUEST_DEVICE_COMMAND_TIMEOUT_DEFAULT_MS ''normal''
       (cmd\<lparr>qc_id := ''play'', qc_label := ''Play audio'',
       qc_capability := ''audio'', qc_command := ''audio.play''\<rparr>)))))"

definition qd_system_audio_stop_command :: "quest_device_command \<Rightarrow> quest_device_command" where
  "qd_system_audio_stop_command cmd =
     qd_system_command_set_policy True True False False QUEST_DEVICE_COMMAND_TIMEOUT_DEFAULT_MS ''normal''
       (cmd\<lparr>qc_id := ''stop'', qc_label := ''Stop audio'',
       qc_capability := ''audio'', qc_command := ''audio.stop''\<rparr>)"

definition qd_system_audio_pause_command :: "quest_device_command \<Rightarrow> quest_device_command" where
  "qd_system_audio_pause_command cmd =
     qd_system_command_set_policy True True False False QUEST_DEVICE_COMMAND_TIMEOUT_DEFAULT_MS ''normal''
       (cmd\<lparr>qc_id := ''pause'', qc_label := ''Pause audio'',
       qc_capability := ''audio'', qc_command := ''audio.pause''\<rparr>)"

definition qd_system_audio_resume_command :: "quest_device_command \<Rightarrow> quest_device_command" where
  "qd_system_audio_resume_command cmd =
     qd_system_command_set_policy True True False False QUEST_DEVICE_COMMAND_TIMEOUT_DEFAULT_MS ''normal''
       (cmd\<lparr>qc_id := ''resume'', qc_label := ''Resume audio'',
       qc_capability := ''audio'', qc_command := ''audio.resume''\<rparr>)"

definition qd_system_audio_set_volume_command :: "quest_device_command \<Rightarrow> quest_device_command" where
  "qd_system_audio_set_volume_command cmd =
     add_param QUEST_DEVICE_COMMAND_PARAM_NUMBER False ''volume'' ''Volume''
     (qd_system_command_set_policy False True False False QUEST_DEVICE_COMMAND_TIMEOUT_DEFAULT_MS ''normal''
       (cmd\<lparr>qc_id := ''set_volume'', qc_label := ''Set volume'',
       qc_capability := ''audio'', qc_command := ''audio.set_volume''\<rparr>))"

definition qd_system_relay_set_command :: "quest_device_command \<Rightarrow> quest_device_command" where
  "qd_system_relay_set_command cmd =
     add_param QUEST_DEVICE_COMMAND_PARAM_CHECKBOX False ''on'' ''On''
     (qd_system_relay_channel_param
     (qd_system_command_set_policy True True False False QUEST_DEVICE_COMMAND_TIMEOUT_DEFAULT_MS ''normal''
       (cmd\<lparr>qc_id := ''set'', qc_label := ''Relay set'',
       qc_capability := ''relay'', qc_command := ''relay.set'',
       qc_default_args_json := ''{\"channel\":1,\"on\":true}''\<rparr>)))"

definition qd_system_relay_pulse_command :: "quest_device_command \<Rightarrow> quest_device_command" where
  "qd_system_relay_pulse_command cmd =
     add_param QUEST_DEVICE_COMMAND_PARAM_NUMBER False ''duration_ms'' ''Duration ms''
     (qd_system_relay_channel_param
     (qd_system_command_set_policy True True False False QUEST_DEVICE_COMMAND_TIMEOUT_DEFAULT_MS ''normal''
       (cmd\<lparr>qc_id := ''pulse'', qc_label := ''Relay pulse'',
       qc_capability := ''relay'', qc_command := ''relay.pulse'',
       qc_default_args_json := ''{\"channel\":1,\"duration_ms\":500}''\<rparr>)))"

definition qd_system_relay_toggle_command :: "quest_device_command \<Rightarrow> quest_device_command" where
  "qd_system_relay_toggle_command cmd =
     qd_system_relay_channel_param
     (qd_system_command_set_policy True False False False QUEST_DEVICE_COMMAND_TIMEOUT_DEFAULT_MS ''normal''
       (cmd\<lparr>qc_id := ''toggle'', qc_label := ''Relay toggle'',
       qc_capability := ''relay'', qc_command := ''relay.toggle'',
       qc_default_args_json := ''{\"channel\":1}''\<rparr>))"

definition qd_system_relay_blink_command :: "quest_device_command \<Rightarrow> quest_device_command" where
  "qd_system_relay_blink_command cmd =
     qd_system_mosfet_value_param ''count'' ''Count''
     (qd_system_mosfet_value_param ''off_ms'' ''Off ms''
     (qd_system_mosfet_value_param ''on_ms'' ''On ms''
     (qd_system_relay_channel_param
     (qd_system_command_set_policy True True False False QUEST_DEVICE_COMMAND_TIMEOUT_DEFAULT_MS ''normal''
       (cmd\<lparr>qc_id := ''blink'', qc_label := ''Relay blink'',
       qc_capability := ''relay'', qc_command := ''relay.blink'',
       qc_default_args_json := ''{\"channel\":1,\"on_ms\":500,\"off_ms\":500,\"count\":3}''\<rparr>)))))"

definition qd_system_mosfet_set_command :: "quest_device_command \<Rightarrow> quest_device_command" where
  "qd_system_mosfet_set_command cmd =
     qd_system_mosfet_value_param ''value'' ''Value 0-255''
     (qd_system_mosfet_channel_param
     (qd_system_command_set_policy True True False False QUEST_DEVICE_COMMAND_TIMEOUT_DEFAULT_MS ''normal''
       (cmd\<lparr>qc_id := ''set'', qc_label := ''MOSFET set'',
       qc_capability := ''mosfet'', qc_command := ''mosfet.set'',
       qc_default_args_json := ''{\"channel\":1,\"value\":255}''\<rparr>)))"

definition qd_system_mosfet_fade_command :: "quest_device_command \<Rightarrow> quest_device_command" where
  "qd_system_mosfet_fade_command cmd =
     qd_system_mosfet_value_param ''duration_ms'' ''Duration ms''
     (qd_system_mosfet_value_param ''target'' ''Target 0-255''
     (qd_system_mosfet_channel_param
     (qd_system_command_set_policy True True False False QUEST_DEVICE_COMMAND_TIMEOUT_DEFAULT_MS ''normal''
       (cmd\<lparr>qc_id := ''fade'', qc_label := ''MOSFET fade'',
       qc_capability := ''mosfet'', qc_command := ''mosfet.fade'',
       qc_default_args_json := ''{\"channel\":1,\"target\":255,\"duration_ms\":1000}''\<rparr>))))"

definition qd_system_mosfet_pulse_command :: "quest_device_command \<Rightarrow> quest_device_command" where
  "qd_system_mosfet_pulse_command cmd =
     qd_system_mosfet_value_param ''duration_ms'' ''Duration ms''
     (qd_system_mosfet_value_param ''value'' ''Value 0-255''
     (qd_system_mosfet_channel_param
     (qd_system_command_set_policy True True False False QUEST_DEVICE_COMMAND_TIMEOUT_DEFAULT_MS ''normal''
       (cmd\<lparr>qc_id := ''pulse'', qc_label := ''MOSFET pulse'',
       qc_capability := ''mosfet'', qc_command := ''mosfet.pulse'',
       qc_default_args_json := ''{\"channel\":1,\"value\":255,\"duration_ms\":1000}''\<rparr>))))"

definition qd_system_mosfet_blink_command :: "quest_device_command \<Rightarrow> quest_device_command" where
  "qd_system_mosfet_blink_command cmd =
     qd_system_mosfet_value_param ''count'' ''Count''
     (qd_system_mosfet_value_param ''off_ms'' ''Off ms''
     (qd_system_mosfet_value_param ''on_ms'' ''On ms''
     (qd_system_mosfet_value_param ''value'' ''Value 0-255''
     (qd_system_mosfet_channel_param
     (qd_system_command_set_policy True True False False QUEST_DEVICE_COMMAND_TIMEOUT_DEFAULT_MS ''normal''
       (cmd\<lparr>qc_id := ''blink'', qc_label := ''MOSFET blink'',
       qc_capability := ''mosfet'', qc_command := ''mosfet.blink'',
       qc_default_args_json := ''{\"channel\":1,\"value\":255,\"on_ms\":500,\"off_ms\":500,\"count\":3}''\<rparr>))))))"

definition qd_system_mosfet_breathe_command :: "quest_device_command \<Rightarrow> quest_device_command" where
  "qd_system_mosfet_breathe_command cmd =
     qd_system_mosfet_value_param ''count'' ''Count''
     (qd_system_mosfet_value_param ''hold_ms'' ''Hold ms''
     (qd_system_mosfet_value_param ''fade_ms'' ''Fade ms''
     (qd_system_mosfet_value_param ''max'' ''Max 0-255''
     (qd_system_mosfet_value_param ''min'' ''Min 0-255''
     (qd_system_mosfet_channel_param
     (qd_system_command_set_policy True True False False QUEST_DEVICE_COMMAND_TIMEOUT_DEFAULT_MS ''normal''
       (cmd\<lparr>qc_id := ''breathe'', qc_label := ''MOSFET breathe'',
       qc_capability := ''mosfet'', qc_command := ''mosfet.breathe'',
       qc_default_args_json := ''{\"channel\":1,\"min\":0,\"max\":255,\"fade_ms\":1000,\"hold_ms\":0,\"count\":3}''\<rparr>)))))))"

definition qd_system_mosfet_all_off_command :: "quest_device_command \<Rightarrow> quest_device_command" where
  "qd_system_mosfet_all_off_command cmd =
     qd_system_command_set_policy True True False False QUEST_DEVICE_COMMAND_TIMEOUT_DEFAULT_MS ''normal''
       (cmd\<lparr>qc_id := ''all_off'', qc_label := ''MOSFET all off'',
       qc_capability := ''mosfet'', qc_command := ''mosfet.all_off'',
       qc_default_args_json := ''{}''\<rparr>)"

definition qd_system_io_set_command :: "quest_device_command \<Rightarrow> quest_device_command" where
  "qd_system_io_set_command cmd =
     add_param QUEST_DEVICE_COMMAND_PARAM_CHECKBOX False ''active'' ''Active''
     (qd_system_relay_channel_param
     (qd_system_command_set_policy True True False False QUEST_DEVICE_COMMAND_TIMEOUT_DEFAULT_MS ''normal''
       (cmd\<lparr>qc_id := ''set'', qc_label := ''IO set'',
       qc_capability := ''io'', qc_command := ''io.set'',
       qc_default_args_json := ''{\"channel\":1,\"active\":true}''\<rparr>)))"

definition qd_system_io_pulse_command :: "quest_device_command \<Rightarrow> quest_device_command" where
  "qd_system_io_pulse_command cmd =
     add_param QUEST_DEVICE_COMMAND_PARAM_NUMBER False ''duration_ms'' ''Duration ms''
     (add_param QUEST_DEVICE_COMMAND_PARAM_CHECKBOX False ''active'' ''Active''
     (qd_system_relay_channel_param
     (qd_system_command_set_policy True True False False QUEST_DEVICE_COMMAND_TIMEOUT_DEFAULT_MS ''normal''
       (cmd\<lparr>qc_id := ''pulse'', qc_label := ''IO pulse'',
       qc_capability := ''io'', qc_command := ''io.pulse'',
       qc_default_args_json := ''{\"channel\":1,\"active\":true,\"duration_ms\":1000}''\<rparr>))))"

definition qd_system_io_blink_command :: "quest_device_command \<Rightarrow> quest_device_command" where
  "qd_system_io_blink_command cmd =
     qd_system_mosfet_value_param ''count'' ''Count''
     (qd_system_mosfet_value_param ''off_ms'' ''Off ms''
     (qd_system_mosfet_value_param ''on_ms'' ''On ms''
     (qd_system_relay_channel_param
     (qd_system_command_set_policy True True False False QUEST_DEVICE_COMMAND_TIMEOUT_DEFAULT_MS ''normal''
       (cmd\<lparr>qc_id := ''blink'', qc_label := ''IO blink'',
       qc_capability := ''io'', qc_command := ''io.blink'',
       qc_default_args_json := ''{\"channel\":1,\"on_ms\":500,\"off_ms\":500,\"count\":3}''\<rparr>)))))"

definition qd_system_io_toggle_command :: "quest_device_command \<Rightarrow> quest_device_command" where
  "qd_system_io_toggle_command cmd =
     qd_system_relay_channel_param
     (qd_system_command_set_policy True False False False QUEST_DEVICE_COMMAND_TIMEOUT_DEFAULT_MS ''normal''
       (cmd\<lparr>qc_id := ''toggle'', qc_label := ''IO toggle'',
       qc_capability := ''io'', qc_command := ''io.toggle'',
       qc_default_args_json := ''{\"channel\":1}''\<rparr>))"

definition qd_system_io_get_state_command :: "quest_device_command \<Rightarrow> quest_device_command" where
  "qd_system_io_get_state_command cmd =
     qd_system_relay_channel_param
     (qd_system_command_set_policy True False False False QUEST_DEVICE_COMMAND_TIMEOUT_DEFAULT_MS ''normal''
       (cmd\<lparr>qc_id := ''get_state'', qc_label := ''IO get state'',
       qc_capability := ''io'', qc_command := ''io.get_state'',
       qc_default_args_json := ''{\"channel\":1}''\<rparr>))"

section \<open>The built-in devices\<close>

definition system_device :: "string \<Rightarrow> string \<Rightarrow> (quest_device_command \<Rightarrow> quest_device_command) list \<Rightarrow> quest_device" where
  "system_device device_id name commands = quest_device_zero\<lparr>qd_id := device_id, qd_client_id := ''internal'',
     qd_name := name, qd_enabled := True, qd_system_device := True,
     qd_commands := map (\<lambda>fill. fill quest_device_command_zero) commands\<rparr>"

definition system_event :: "string \<Rightarrow> string \<Rightarrow> string \<Rightarrow> string \<Rightarrow> quest_device_event" where
  "system_event event_id label capability event = \<lparr>qe_id = event_id, qe_label = label,
     qe_capability = capability, qe_event = event, qe_match_json = []\<rparr>"

definition quest_device_fill_system_audio :: quest_device where
  "quest_device_fill_system_audio =
     (system_device QUEST_DEVICE_SYSTEM_AUDIO_ID ''System Audio''
       [qd_system_audio_play_command, qd_system_audio_stop_command, qd_system_audio_pause_command,
        qd_system_audio_resume_command, qd_system_audio_set_volume_command])
     \<lparr>qd_events := [system_event ''playback_finished'' ''Playback finished'' ''audio'' ''audio_finished'',
        system_event ''playback_failed'' ''Playback failed'' ''audio'' ''playback_failed'']\<rparr>"

definition quest_device_fill_system_relay :: quest_device where
  "quest_device_fill_system_relay = system_device QUEST_DEVICE_SYSTEM_RELAY_ID ''System Relay''
     [qd_system_relay_set_command, qd_system_relay_pulse_command, qd_system_relay_blink_command,
      qd_system_relay_toggle_command]"

definition quest_device_fill_system_mosfet :: quest_device where
  "quest_device_fill_system_mosfet = system_device QUEST_DEVICE_SYSTEM_MOSFET_ID ''System MOSFET''
     [qd_system_mosfet_set_command, qd_system_mosfet_fade_command, qd_system_mosfet_pulse_command,
      qd_system_mosfet_blink_command, qd_system_mosfet_breathe_command, qd_system_mosfet_all_off_command]"

definition channel_digit :: "nat \<Rightarrow> string" where
  "channel_digit channel = [char_of (48 + channel)]"

definition qd_system_add_channel_event ::
  "string \<Rightarrow> string \<Rightarrow> nat \<Rightarrow> string \<Rightarrow> string \<Rightarrow> quest_device \<Rightarrow> quest_device" where
  "qd_system_add_channel_event capability prefix channel suffix label_suffix out =
     (if length (qd_events out) \<ge> QUEST_DEVICE_MAX_EVENTS then out
      else out\<lparr>qd_events := qd_events out @
        [system_event (''ch'' @ channel_digit channel @ ''_'' @ suffix)
           (''IO '' @ channel_digit channel @ '' '' @ label_suffix) capability
           (prefix @ ''.ch'' @ channel_digit channel @ ''_'' @ suffix)]\<rparr>)"

definition add_channel_events :: "nat \<Rightarrow> quest_device \<Rightarrow> quest_device" where
  "add_channel_events channel out =
     qd_system_add_channel_event ''io'' ''io'' channel ''low'' ''LOW''
     (qd_system_add_channel_event ''io'' ''io'' channel ''high'' ''HIGH''
     (qd_system_add_channel_event ''io'' ''io'' channel ''inactive'' ''inactive''
     (qd_system_add_channel_event ''io'' ''io'' channel ''active'' ''active''
     (qd_system_add_channel_event ''io'' ''io'' channel ''changed'' ''changed'' out))))"

definition quest_device_fill_system_io :: quest_device where
  "quest_device_fill_system_io = fold add_channel_events [1, 2, 3, 4]
     (system_device QUEST_DEVICE_SYSTEM_IO_ID ''System IO''
       [qd_system_io_set_command, qd_system_io_pulse_command, qd_system_io_blink_command,
        qd_system_io_toggle_command, qd_system_io_get_state_command])"

section \<open>Looking a built-in command or event up\<close>

definition system_command ::
  "(string \<times> (quest_device_command \<Rightarrow> quest_device_command)) list \<Rightarrow> string \<Rightarrow>
   esp_err + quest_device_command" where
  "system_command table command_id = (case map_of table command_id of
     None \<Rightarrow> Inl ESP_ERR_NOT_FOUND | Some fill \<Rightarrow> Inr (fill quest_device_command_zero))"

definition quest_device_system_audio_command :: "string \<Rightarrow> esp_err + quest_device_command" where
  "quest_device_system_audio_command = system_command
     [(''play'', qd_system_audio_play_command), (''stop'', qd_system_audio_stop_command),
      (''pause'', qd_system_audio_pause_command), (''resume'', qd_system_audio_resume_command),
      (''set_volume'', qd_system_audio_set_volume_command)]"

definition quest_device_system_relay_command :: "string \<Rightarrow> esp_err + quest_device_command" where
  "quest_device_system_relay_command = system_command
     [(''set'', qd_system_relay_set_command), (''pulse'', qd_system_relay_pulse_command),
      (''blink'', qd_system_relay_blink_command), (''toggle'', qd_system_relay_toggle_command)]"

definition quest_device_system_mosfet_command :: "string \<Rightarrow> esp_err + quest_device_command" where
  "quest_device_system_mosfet_command = system_command
     [(''set'', qd_system_mosfet_set_command), (''fade'', qd_system_mosfet_fade_command),
      (''pulse'', qd_system_mosfet_pulse_command), (''blink'', qd_system_mosfet_blink_command),
      (''breathe'', qd_system_mosfet_breathe_command), (''all_off'', qd_system_mosfet_all_off_command)]"

definition quest_device_system_io_command :: "string \<Rightarrow> esp_err + quest_device_command" where
  "quest_device_system_io_command = system_command
     [(''set'', qd_system_io_set_command), (''pulse'', qd_system_io_pulse_command),
      (''blink'', qd_system_io_blink_command), (''toggle'', qd_system_io_toggle_command),
      (''get_state'', qd_system_io_get_state_command)]"

definition quest_device_system_audio_event :: "string \<Rightarrow> esp_err + quest_device_event" where
  "quest_device_system_audio_event event_id =
     (if event_id = ''playback_finished''
      then Inr (system_event ''playback_finished'' ''Playback finished'' ''audio'' ''audio_finished'')
      else if event_id = ''playback_failed''
      then Inr (system_event ''playback_failed'' ''Playback failed'' ''audio'' ''playback_failed'')
      else Inl ESP_ERR_NOT_FOUND)"

definition channel_suffixes :: "(string \<times> string) list" where
  "channel_suffixes = [(''changed'', ''changed''), (''active'', ''active''), (''inactive'', ''inactive''),
     (''high'', ''HIGH''), (''low'', ''LOW'')]"

definition all_channel_events :: "(nat \<times> string \<times> string) list" where
  "all_channel_events = [(channel, s). channel \<leftarrow> [1, 2, 3, 4], s \<leftarrow> channel_suffixes]"

definition qd_system_get_channel_event :: "string \<Rightarrow> string \<Rightarrow> string \<Rightarrow> esp_err + quest_device_event" where
  "qd_system_get_channel_event event_id capability prefix =
     (case find (\<lambda>(channel, suffix, _). event_id = ''ch'' @ channel_digit channel @ ''_'' @ suffix) all_channel_events of
        None \<Rightarrow> Inl ESP_ERR_NOT_FOUND
      | Some (channel, _, label) \<Rightarrow> Inr (system_event event_id
          (''IO '' @ channel_digit channel @ '' '' @ label) capability (prefix @ ''.'' @ event_id)))"

definition quest_device_system_io_event :: "string \<Rightarrow> esp_err + quest_device_event" where
  "quest_device_system_io_event event_id = qd_system_get_channel_event event_id ''io'' ''io''"

section \<open>Both ways to a built-in command agree\<close>

definition lookup_command :: "quest_device \<Rightarrow> string \<Rightarrow> esp_err + quest_device_command" where
  "lookup_command d command_id = (case find (\<lambda>c. qc_id c = command_id) (qd_commands d) of
     None \<Rightarrow> Inl ESP_ERR_NOT_FOUND | Some c \<Rightarrow> Inr c)"

definition lookup_event :: "quest_device \<Rightarrow> string \<Rightarrow> esp_err + quest_device_event" where
  "lookup_event d event_id = (case find (\<lambda>e. qe_id e = event_id) (qd_events d) of
     None \<Rightarrow> Inl ESP_ERR_NOT_FOUND | Some e \<Rightarrow> Inr e)"

end
