(* ===== verification/Command_Local.thy ===== *)
theory Command_Local
  imports Command_Params Quest_System
begin

text \<open>
  Commands of the built-in devices (\<open>command_executor_audio.c\<close>, \<open>command_executor_hardware.c\<close>): the
  parameters are read and checked, then one function of the audio player or of the hardware driver
  is called.  Such a call is a value of \<open>local_action\<close>; what it returns is an argument \<open>drv\<close>, and
  whether a file exists is an argument \<open>file_exists\<close>.  A command ends with an error code and message,
  with a call whose error gets a message, or with a call that cannot fail.
\<close>

definition HARDWARE_IO_RELAY_CHANNEL_COUNT :: int where "HARDWARE_IO_RELAY_CHANNEL_COUNT = 4"
definition HARDWARE_IO_MOSFET_CHANNEL_COUNT :: int where "HARDWARE_IO_MOSFET_CHANNEL_COUNT = 4"
definition HARDWARE_IO_IO_CHANNEL_COUNT :: int where "HARDWARE_IO_IO_CHANNEL_COUNT = 4"
definition HARDWARE_IO_MOSFET_MAX_VALUE :: int where "HARDWARE_IO_MOSFET_MAX_VALUE = 255"
definition CONFIG_SCENEHUB_RELAY_MAX_PULSE_MS :: int where "CONFIG_SCENEHUB_RELAY_MAX_PULSE_MS = 60000"
definition CONFIG_SCENEHUB_MOSFET_MAX_PULSE_MS :: int where "CONFIG_SCENEHUB_MOSFET_MAX_PULSE_MS = 60000"
definition CONFIG_SCENEHUB_MOSFET_MAX_FADE_MS :: int where "CONFIG_SCENEHUB_MOSFET_MAX_FADE_MS = 60000"
definition CONFIG_SCENEHUB_GPIO_MAX_PULSE_MS :: int where "CONFIG_SCENEHUB_GPIO_MAX_PULSE_MS = 60000"
definition CONFIG_SCENEHUB_HARDWARE_MAX_EFFECT_MS :: u64 where
  "CONFIG_SCENEHUB_HARDWARE_MAX_EFFECT_MS = 600000"
definition COMMAND_EXECUTOR_AUDIO_STOP_WAIT_MS :: u32 where "COMMAND_EXECUTOR_AUDIO_STOP_WAIT_MS = 7000"

lemmas hardware_limits =
  HARDWARE_IO_RELAY_CHANNEL_COUNT_def HARDWARE_IO_MOSFET_CHANNEL_COUNT_def HARDWARE_IO_IO_CHANNEL_COUNT_def
  HARDWARE_IO_MOSFET_MAX_VALUE_def CONFIG_SCENEHUB_RELAY_MAX_PULSE_MS_def CONFIG_SCENEHUB_MOSFET_MAX_PULSE_MS_def
  CONFIG_SCENEHUB_MOSFET_MAX_FADE_MS_def CONFIG_SCENEHUB_GPIO_MAX_PULSE_MS_def

section \<open>Calls and outcomes\<close>

datatype local_action =
    audio_player_play_background_wav_repeat string int bool
  | audio_player_play_effect string int
  | audio_player_stop_all_wait u32
  | audio_player_stop_all
  | audio_player_stop_background
  | audio_player_stop_effect
  | audio_player_pause
  | audio_player_resume
  | audio_player_set_volume int
  | hardware_io_relay_set u8 bool
  | hardware_io_relay_pulse u8 u32
  | hardware_io_relay_blink u8 u32 u32 u32 bool
  | hardware_io_relay_toggle u8
  | hardware_io_mosfet_all_off
  | hardware_io_mosfet_set u8 u8
  | hardware_io_mosfet_fade u8 u8 u32
  | hardware_io_mosfet_pulse u8 u8 u32
  | hardware_io_mosfet_effect_blink u8 u8 u32 u32 u32 u8
  | hardware_io_mosfet_effect_breathe u8 u8 u8 u32 u32 u32 u8
  | hardware_io_io_set u8 bool
  | hardware_io_io_pulse u8 bool u32
  | hardware_io_io_blink u8 u32 u32 u32 bool
  | hardware_io_io_toggle u8
  | hardware_io_io_get u8

datatype call = Run local_action string | Run_Void local_action

type_synonym failure = "esp_err \<times> string"

definition sum_bind :: "'e + 'a \<Rightarrow> ('a \<Rightarrow> 'e + 'b) \<Rightarrow> 'e + 'b" where
  "sum_bind r f = (case r of Inl e \<Rightarrow> Inl e | Inr x \<Rightarrow> f x)"

lemma sum_bind_simps [simp]: "sum_bind (Inl e) f = Inl e" "sum_bind (Inr x) f = f x"
  by (simp_all add: sum_bind_def)

lemma sum_bind_Inr: "sum_bind r f = Inr y \<longleftrightarrow> (\<exists>x. r = Inr x \<and> f x = Inr y)"
  by (simp add: sum_bind_def split: sum.split)

definition check :: "bool \<Rightarrow> failure \<Rightarrow> failure + unit" where
  "check ok e = (if ok then Inr () else Inl e)"

lemma check_Inr [simp]: "check ok e = Inr u \<longleftrightarrow> ok"
  by (simp add: check_def)

text \<open>Reading a required parameter; a failure gets the message of the caller.\<close>

definition required_int :: "string \<Rightarrow> string \<Rightarrow> string \<Rightarrow> failure + int" where
  "required_int params_json key message =
     (let (err, v) = command_executor_params_get_int params_json key 0 True in
      if err \<noteq> ESP_OK then Inl (err, message) else Inr v)"

definition required_bool :: "string \<Rightarrow> string \<Rightarrow> string \<Rightarrow> failure + bool" where
  "required_bool params_json key message =
     (let (err, v) = command_executor_params_get_bool params_json key False True in
      if err \<noteq> ESP_OK then Inl (err, message) else Inr v)"

definition optional_bool :: "string \<Rightarrow> string \<Rightarrow> bool" where
  "optional_bool params_json key = snd (command_executor_params_get_bool params_json key False False)"

definition command_executor_command_name_is :: "quest_device_command \<Rightarrow> string \<Rightarrow> bool" where
  "command_executor_command_name_is command name \<longleftrightarrow> qc_command command = name"

text \<open>A command is recognised by its id or by the name that is sent.\<close>

definition command_named :: "quest_device_command \<Rightarrow> string \<Rightarrow> string \<Rightarrow> bool" where
  "command_named command cid name \<longleftrightarrow> qc_id command = cid \<or> command_executor_command_name_is command name"

section \<open>Audio\<close>

definition audio_path_has_ext :: "string \<Rightarrow> string \<Rightarrow> bool" where
  "audio_path_has_ext path ext \<longleftrightarrow> length path \<ge> length ext \<and>
     strcaseeq (drop (length path - length ext) path) ext"

definition audio_channel_is_background :: "string \<Rightarrow> bool" where
  "audio_channel_is_background channel \<longleftrightarrow>
     strcaseeq channel ''background'' \<or> strcaseeq channel ''bg'' \<or> strcaseeq channel ''music''"

definition audio_channel_is_effect :: "string \<Rightarrow> bool" where
  "audio_channel_is_effect channel \<longleftrightarrow>
     channel = [] \<or> strcaseeq channel ''effect'' \<or> strcaseeq channel ''fx''"

definition audio_play :: "(string \<Rightarrow> bool) \<Rightarrow> string \<Rightarrow> failure + call" where
  "audio_play file_exists params_json =
     (let (err, file) = command_executor_params_get_string params_json ''file'' 256 True in
      if err \<noteq> ESP_OK then Inl (err, ''audio_file_param_missing'')
      else if file = [] then Inl (ESP_ERR_INVALID_ARG, ''audio_file_empty'')
      else let volume = snd (command_executor_params_get_int params_json ''volume'' (- 1) False);
               channel = snd (command_executor_params_get_string params_json ''channel'' 24 False);
               repeat = optional_bool params_json ''repeat''
        in if audio_channel_is_background channel
           then (if \<not> audio_path_has_ext file ''.wav''
                 then Inl (ESP_ERR_NOT_SUPPORTED, ''audio_background_requires_wav'')
                 else if \<not> file_exists file then Inl (ESP_ERR_NOT_FOUND, ''audio_file_not_found'')
                 else Inr (Run (audio_player_play_background_wav_repeat file volume repeat) ''audio_play_failed''))
           else if audio_channel_is_effect channel
           then (if \<not> file_exists file then Inl (ESP_ERR_NOT_FOUND, ''audio_file_not_found'')
                 else Inr (Run (audio_player_play_effect file volume) ''audio_play_failed''))
           else Inl (ESP_ERR_INVALID_ARG, ''audio_channel_invalid''))"

definition audio_stop :: "string \<Rightarrow> failure + call" where
  "audio_stop params_json =
     (let channel = snd (command_executor_params_get_string params_json ''channel'' 24 False);
          wait = optional_bool params_json ''wait''
      in if channel = [] \<or> strcaseeq channel ''all''
         then Inr (if wait
                   then Run (audio_player_stop_all_wait COMMAND_EXECUTOR_AUDIO_STOP_WAIT_MS) ''audio_stop_wait_failed''
                   else Run_Void audio_player_stop_all)
         else if audio_channel_is_background channel then Inr (Run_Void audio_player_stop_background)
         else if audio_channel_is_effect channel then Inr (Run_Void audio_player_stop_effect)
         else Inl (ESP_ERR_INVALID_ARG, ''audio_channel_invalid''))"

definition command_executor_execute_audio ::
  "(string \<Rightarrow> bool) \<Rightarrow> string \<Rightarrow> quest_device_command \<Rightarrow> failure + call" where
  "command_executor_execute_audio file_exists params_json command =
     (if command_named command ''play'' ''audio.play'' then audio_play file_exists params_json
      else if command_named command ''stop'' ''audio.stop'' then audio_stop params_json
      else if command_named command ''pause'' ''audio.pause'' then Inr (Run_Void audio_player_pause)
      else if command_named command ''resume'' ''audio.resume'' then Inr (Run_Void audio_player_resume)
      else if command_named command ''set_volume'' ''audio.set_volume''
      then sum_bind (required_int params_json ''volume'' ''audio_volume_param_missing'') (\<lambda>volume.
             Inr (Run (audio_player_set_volume volume) ''audio_volume_failed''))
      else Inl (ESP_ERR_NOT_SUPPORTED, ''audio_command_unsupported''))"

section \<open>Relays, MOSFET outputs and digital lines\<close>

definition hardware_get_channel :: "string \<Rightarrow> int \<Rightarrow> failure + u8" where
  "hardware_get_channel params_json max_channel =
     sum_bind (required_int params_json ''channel'' ''hardware_channel_param_missing'') (\<lambda>channel.
     if channel < 1 \<or> channel > max_channel then Inl (ESP_ERR_INVALID_ARG, ''hardware_channel_invalid'')
     else Inr (word_of_int channel))"

definition hardware_get_pwm_value :: "string \<Rightarrow> string \<Rightarrow> failure + u8" where
  "hardware_get_pwm_value params_json key =
     sum_bind (required_int params_json key ''mosfet_value_param_missing'') (\<lambda>v.
     if v < 0 \<or> v > HARDWARE_IO_MOSFET_MAX_VALUE then Inl (ESP_ERR_INVALID_ARG, ''mosfet_value_invalid'')
     else Inr (word_of_int v))"

definition hardware_get_optional_pwm_value :: "string \<Rightarrow> string \<Rightarrow> u8 \<Rightarrow> esp_err + u8" where
  "hardware_get_optional_pwm_value params_json key fallback =
     (let (err, v) = command_executor_params_get_int params_json key (uint fallback) False in
      if err \<noteq> ESP_OK then Inl err
      else if v < 0 \<or> v > HARDWARE_IO_MOSFET_MAX_VALUE then Inl ESP_ERR_INVALID_ARG
      else Inr (word_of_int v))"

text \<open>
  Arithmetic on \<open>int\<close> wraps at 32 bits; the cast to \<open>uint64_t\<close> of a negative value wraps at 64 bits,
  and so does the product.
\<close>

definition c_int :: "int \<Rightarrow> int" where
  "c_int n = sint (word_of_int n :: 32 word)"

definition effect_ms :: "int \<Rightarrow> int \<Rightarrow> u64" where
  "effect_ms period count = word_of_int period * word_of_int count"

definition blink_invalid :: "int \<Rightarrow> int \<Rightarrow> int \<Rightarrow> bool" where
  "blink_invalid on_ms off_ms count \<longleftrightarrow> on_ms \<le> 0 \<or> off_ms \<le> 0 \<or> count < 0 \<or>
     (count > 0 \<and> effect_ms (c_int (on_ms + off_ms)) count > CONFIG_SCENEHUB_HARDWARE_MAX_EFFECT_MS)"

definition breathe_invalid :: "int \<Rightarrow> int \<Rightarrow> int \<Rightarrow> u8 \<Rightarrow> u8 \<Rightarrow> bool" where
  "breathe_invalid fade_ms hold_ms count min_value max_value \<longleftrightarrow>
     fade_ms \<le> 0 \<or> hold_ms < 0 \<or> count < 0 \<or> min_value > max_value \<or>
     (count > 0 \<and> effect_ms (c_int (c_int (fade_ms * 2) + c_int (hold_ms * 2))) count
        > CONFIG_SCENEHUB_HARDWARE_MAX_EFFECT_MS)"

definition hardware_execute_relay :: "string \<Rightarrow> quest_device_command \<Rightarrow> failure + call" where
  "hardware_execute_relay params_json command =
     sum_bind (hardware_get_channel params_json HARDWARE_IO_RELAY_CHANNEL_COUNT) (\<lambda>channel.
     if command_named command ''set'' ''relay.set''
     then sum_bind (required_bool params_json ''on'' ''relay_on_param_missing'') (\<lambda>on.
          Inr (Run (hardware_io_relay_set channel on) ''relay_set_failed''))
     else if command_named command ''pulse'' ''relay.pulse''
     then sum_bind (required_int params_json ''duration_ms'' ''relay_duration_param_missing'') (\<lambda>duration_ms.
          sum_bind (check (duration_ms > 0) (ESP_ERR_INVALID_ARG, ''relay_duration_invalid'')) (\<lambda>_.
          sum_bind (check (duration_ms \<le> CONFIG_SCENEHUB_RELAY_MAX_PULSE_MS)
            (ESP_ERR_INVALID_ARG, ''relay_duration_invalid'')) (\<lambda>_.
          Inr (Run (hardware_io_relay_pulse channel (word_of_int duration_ms)) ''relay_pulse_failed''))))
     else if command_named command ''blink'' ''relay.blink''
     then sum_bind (required_int params_json ''on_ms'' ''relay_on_ms_param_missing'') (\<lambda>on_ms.
          sum_bind (required_int params_json ''off_ms'' ''relay_off_ms_param_missing'') (\<lambda>off_ms.
          sum_bind (required_int params_json ''count'' ''relay_count_param_missing'') (\<lambda>count.
          let final_on = optional_bool params_json ''final_on'' in
          sum_bind (check (\<not> blink_invalid on_ms off_ms count)
            (ESP_ERR_INVALID_ARG, ''relay_blink_invalid'')) (\<lambda>_.
          Inr (Run (hardware_io_relay_blink channel (word_of_int on_ms) (word_of_int off_ms)
            (word_of_int count) final_on) ''relay_blink_failed'')))))
     else if command_named command ''toggle'' ''relay.toggle''
     then Inr (Run (hardware_io_relay_toggle channel) ''relay_toggle_failed'')
     else Inl (ESP_ERR_NOT_SUPPORTED, ''relay_command_unsupported''))"

definition mosfet_blink :: "string \<Rightarrow> u8 \<Rightarrow> failure + call" where
  "mosfet_blink params_json channel =
     sum_bind (hardware_get_pwm_value params_json ''value'') (\<lambda>v.
     case hardware_get_optional_pwm_value params_json ''final_value'' 0 of
       Inl err \<Rightarrow> Inl (err, ''mosfet_final_value_invalid'')
     | Inr final_value \<Rightarrow>
         sum_bind (required_int params_json ''on_ms'' ''mosfet_on_ms_param_missing'') (\<lambda>on_ms.
         sum_bind (required_int params_json ''off_ms'' ''mosfet_off_ms_param_missing'') (\<lambda>off_ms.
         sum_bind (required_int params_json ''count'' ''mosfet_count_param_missing'') (\<lambda>count.
         sum_bind (check (\<not> blink_invalid on_ms off_ms count)
           (ESP_ERR_INVALID_ARG, ''mosfet_blink_invalid'')) (\<lambda>_.
         Inr (Run (hardware_io_mosfet_effect_blink channel v (word_of_int on_ms) (word_of_int off_ms)
           (word_of_int count) final_value) ''mosfet_blink_failed''))))))"

definition mosfet_breathe :: "string \<Rightarrow> u8 \<Rightarrow> failure + call" where
  "mosfet_breathe params_json channel =
     sum_bind (hardware_get_pwm_value params_json ''min'') (\<lambda>min_value.
     sum_bind (hardware_get_pwm_value params_json ''max'') (\<lambda>max_value.
     case hardware_get_optional_pwm_value params_json ''final_value'' 0 of
       Inl err \<Rightarrow> Inl (err, ''mosfet_final_value_invalid'')
     | Inr final_value \<Rightarrow>
         sum_bind (required_int params_json ''fade_ms'' ''mosfet_fade_ms_param_missing'') (\<lambda>fade_ms.
         sum_bind (required_int params_json ''hold_ms'' ''mosfet_hold_ms_param_missing'') (\<lambda>hold_ms.
         sum_bind (required_int params_json ''count'' ''mosfet_count_param_missing'') (\<lambda>count.
         sum_bind (check (\<not> breathe_invalid fade_ms hold_ms count min_value max_value)
           (ESP_ERR_INVALID_ARG, ''mosfet_breathe_invalid'')) (\<lambda>_.
         Inr (Run (hardware_io_mosfet_effect_breathe channel min_value max_value (word_of_int fade_ms)
           (word_of_int hold_ms) (word_of_int count) final_value) ''mosfet_breathe_failed'')))))))"

definition hardware_execute_mosfet :: "string \<Rightarrow> quest_device_command \<Rightarrow> failure + call" where
  "hardware_execute_mosfet params_json command =
     (if command_named command ''all_off'' ''mosfet.all_off''
      then Inr (Run hardware_io_mosfet_all_off ''mosfet_all_off_failed'')
      else sum_bind (hardware_get_channel params_json HARDWARE_IO_MOSFET_CHANNEL_COUNT) (\<lambda>channel.
        if command_named command ''set'' ''mosfet.set''
        then sum_bind (hardware_get_pwm_value params_json ''value'') (\<lambda>v.
             Inr (Run (hardware_io_mosfet_set channel v) ''mosfet_set_failed''))
        else if command_named command ''fade'' ''mosfet.fade''
        then sum_bind (hardware_get_pwm_value params_json ''target'') (\<lambda>v.
             sum_bind (required_int params_json ''duration_ms'' ''mosfet_duration_param_missing'') (\<lambda>duration_ms.
             sum_bind (check (duration_ms \<ge> 0) (ESP_ERR_INVALID_ARG, ''mosfet_duration_invalid'')) (\<lambda>_.
             sum_bind (check (duration_ms \<le> CONFIG_SCENEHUB_MOSFET_MAX_FADE_MS)
               (ESP_ERR_INVALID_ARG, ''mosfet_fade_duration_invalid'')) (\<lambda>_.
             Inr (Run (hardware_io_mosfet_fade channel v (word_of_int duration_ms)) ''mosfet_fade_failed'')))))
        else if command_named command ''pulse'' ''mosfet.pulse''
        then sum_bind (hardware_get_pwm_value params_json ''value'') (\<lambda>v.
             sum_bind (required_int params_json ''duration_ms'' ''mosfet_duration_param_missing'') (\<lambda>duration_ms.
             sum_bind (check (duration_ms > 0) (ESP_ERR_INVALID_ARG, ''mosfet_duration_invalid'')) (\<lambda>_.
             sum_bind (check (duration_ms \<le> CONFIG_SCENEHUB_MOSFET_MAX_PULSE_MS)
               (ESP_ERR_INVALID_ARG, ''mosfet_duration_invalid'')) (\<lambda>_.
             Inr (Run (hardware_io_mosfet_pulse channel v (word_of_int duration_ms)) ''mosfet_pulse_failed'')))))
        else if command_named command ''blink'' ''mosfet.blink'' then mosfet_blink params_json channel
        else if command_named command ''breathe'' ''mosfet.breathe'' then mosfet_breathe params_json channel
        else Inl (ESP_ERR_NOT_SUPPORTED, ''mosfet_command_unsupported'')))"

definition hardware_execute_io :: "string \<Rightarrow> quest_device_command \<Rightarrow> failure + call" where
  "hardware_execute_io params_json command =
     sum_bind (hardware_get_channel params_json HARDWARE_IO_IO_CHANNEL_COUNT) (\<lambda>channel.
     if command_named command ''set'' ''io.set''
     then sum_bind (required_bool params_json ''active'' ''io_active_param_missing'') (\<lambda>active.
          Inr (Run (hardware_io_io_set channel active) ''io_set_failed''))
     else if command_named command ''pulse'' ''io.pulse''
     then sum_bind (required_bool params_json ''active'' ''io_active_param_missing'') (\<lambda>active.
          sum_bind (required_int params_json ''duration_ms'' ''io_duration_param_missing'') (\<lambda>duration_ms.
          sum_bind (check (\<not> (duration_ms \<le> 0 \<or> duration_ms > CONFIG_SCENEHUB_GPIO_MAX_PULSE_MS))
            (ESP_ERR_INVALID_ARG, ''io_duration_invalid'')) (\<lambda>_.
          Inr (Run (hardware_io_io_pulse channel active (word_of_int duration_ms)) ''io_pulse_failed''))))
     else if command_named command ''blink'' ''io.blink''
     then sum_bind (required_int params_json ''on_ms'' ''io_on_ms_param_missing'') (\<lambda>on_ms.
          sum_bind (required_int params_json ''off_ms'' ''io_off_ms_param_missing'') (\<lambda>off_ms.
          sum_bind (required_int params_json ''count'' ''io_count_param_missing'') (\<lambda>count.
          let final_active = optional_bool params_json ''final_active'' in
          sum_bind (check (\<not> blink_invalid on_ms off_ms count)
            (ESP_ERR_INVALID_ARG, ''io_blink_invalid'')) (\<lambda>_.
          Inr (Run (hardware_io_io_blink channel (word_of_int on_ms) (word_of_int off_ms)
            (word_of_int count) final_active) ''io_blink_failed'')))))
     else if command_named command ''toggle'' ''io.toggle''
     then Inr (Run (hardware_io_io_toggle channel) ''io_toggle_failed'')
     else if command_named command ''get_state'' ''io.get_state''
     then Inr (Run (hardware_io_io_get channel) ''io_get_state_failed'')
     else Inl (ESP_ERR_NOT_SUPPORTED, ''io_command_unsupported''))"

definition command_executor_execute_hardware ::
  "bool \<Rightarrow> string \<Rightarrow> string \<Rightarrow> quest_device_command \<Rightarrow> failure + call" where
  "command_executor_execute_hardware available device_id params_json command =
     (if \<not> available then Inl (ESP_ERR_INVALID_STATE, ''hardware_io_unavailable'')
      else if device_id = QUEST_DEVICE_SYSTEM_RELAY_ID then hardware_execute_relay params_json command
      else if device_id = QUEST_DEVICE_SYSTEM_MOSFET_ID then hardware_execute_mosfet params_json command
      else if device_id = QUEST_DEVICE_SYSTEM_IO_ID then hardware_execute_io params_json command
      else Inl (ESP_ERR_NOT_SUPPORTED, ''hardware_command_unsupported''))"

text \<open>Making the call: its error code with the message, and the calls that were made.\<close>

fun perform :: "(local_action \<Rightarrow> esp_err) \<Rightarrow> failure + call \<Rightarrow> failure \<times> local_action list" where
  "perform drv (Inl e) = (e, [])"
| "perform drv (Inr (Run a message)) = (if drv a = ESP_OK then (ESP_OK, []) else (drv a, message), [a])"
| "perform drv (Inr (Run_Void a)) = ((ESP_OK, []), [a])"

end
