(* ===== verification/Command_Local_Props.thy ===== *)
theory Command_Local_Props
  imports Command_Local
begin

text \<open>
  Limits of the hardware commands: whatever the parameters, a call that the executor makes names an
  existing channel and lasts no longer than the configured limits.
\<close>

section \<open>Arithmetic\<close>

lemma c_int_eq: "c_int n = (n + 2 ^ 31) mod 2 ^ 32 - 2 ^ 31"
  unfolding c_int_def sint_sbintrunc'
  by (simp add: signed_take_bit_eq_take_bit_shift take_bit_eq_mod)

lemma uint64: "uint (word_of_int n :: 64 word) = n mod 2 ^ 64"
  by (simp add: unsigned_of_int take_bit_eq_mod)

lemma effect_ms_eq: "uint (effect_ms p n) = (p * n) mod 2 ^ 64"
  unfolding effect_ms_def wi_hom_mult by (rule uint64)

lemma c_int_sum:
  assumes "0 < a" "a < 2 ^ 31" "0 < b" "b < 2 ^ 31"
  shows "c_int (a + b) = (if a + b < 2 ^ 31 then a + b else a + b - 2 ^ 32)"
proof (cases "a + b < 2 ^ 31")
  case False
  then have "(a + b + 2 ^ 31) mod 2 ^ 32 = a + b + 2 ^ 31 - 2 ^ 32"
    using assms by (subst mod_pos_geq) (simp_all add: mod_pos_pos_trivial)
  with False show ?thesis by (simp add: c_int_eq)
qed (use assms in \<open>simp add: c_int_eq mod_pos_pos_trivial\<close>)

text \<open>
  The sum of the two phases may overflow, but then the product is far above the limit: the check
  of a blinking effect is exact.
\<close>

lemma blink_limit:
  assumes "\<not> blink_invalid on_ms off_ms n" and "on_ms < 2 ^ 31" "off_ms < 2 ^ 31" "n < 2 ^ 31"
  shows "0 < on_ms \<and> 0 < off_ms \<and> 0 \<le> n \<and> (on_ms + off_ms) * n \<le> 600000"
proof -
  let ?s = "c_int (on_ms + off_ms)"
  have pos: "0 < on_ms" "0 < off_ms" "0 \<le> n" using assms(1) by (auto simp: blink_invalid_def)
  have le: "(?s * n) mod 2 ^ 64 \<le> 600000" if "n > 0"
    using assms(1) that
    by (simp add: blink_invalid_def CONFIG_SCENEHUB_HARDWARE_MAX_EFFECT_MS_def word_less_def effect_ms_eq)
  have s: "?s = (if on_ms + off_ms < 2 ^ 31 then on_ms + off_ms else on_ms + off_ms - 2 ^ 32)"
    using c_int_sum pos assms(2,3) by blast
  have "(on_ms + off_ms) * n \<le> 600000"
  proof (cases "n = 0")
    case False
    then have n: "0 < n" using pos by simp
    show ?thesis
    proof (cases "on_ms + off_ms < 2 ^ 31")
      case True
      have "(on_ms + off_ms) * n \<le> 2 ^ 31 * 2 ^ 31"
        using True pos assms(4) by (intro mult_mono) simp_all
      then have "(?s * n) mod 2 ^ 64 = (on_ms + off_ms) * n"
        using True s pos by (simp add: mod_pos_pos_trivial)
      with le [OF n] show ?thesis by simp
    next
      case False
      define k where "k = 2 ^ 32 - (on_ms + off_ms)"
      have k: "0 < k" "k \<le> 2 ^ 31" "?s = - k" using False s assms(2,3) by (simp_all add: k_def)
      have kn: "0 < k * n" "k * n \<le> 2 ^ 31 * 2 ^ 31"
        using k n mult_mono [OF k(2) less_imp_le [OF assms(4)]] by simp_all
      have "(?s * n) mod 2 ^ 64 = (2 ^ 64 - k * n) mod 2 ^ 64"
        by (simp add: k(3) minus_mult_left [symmetric])
      also have "\<dots> = 2 ^ 64 - k * n" using kn by (intro mod_pos_pos_trivial) simp_all
      finally show ?thesis using le [OF n] kn by simp
    qed
  qed simp
  with pos show ?thesis by simp
qed

lemma required_int_range:
  assumes "required_int params_json key message = Inr v"
  shows "- (2 ^ 31) \<le> v \<and> v < 2 ^ 31"
proof -
  have "parse_number s = Some v \<Longrightarrow> - (2 ^ 31) \<le> v \<and> v < 2 ^ 31" for s
    by (auto simp: parse_number_def strtol10_def LONG_MAX_def LONG_MIN_def Let_def split: if_splits)
  then show ?thesis
    using assms
    by (auto simp: required_int_def command_executor_params_get_int_def missing_param_def Let_def
        split: if_splits prod.splits option.splits param_value.splits)
qed

section \<open>Limits\<close>

definition channel_ok :: "u8 \<Rightarrow> bool" where
  "channel_ok ch \<longleftrightarrow> 1 \<le> ch \<and> ch \<le> 4"

definition blink_ok :: "u32 \<Rightarrow> u32 \<Rightarrow> u32 \<Rightarrow> bool" where
  "blink_ok on_ms off_ms n \<longleftrightarrow> on_ms > 0 \<and> off_ms > 0 \<and> (unat on_ms + unat off_ms) * unat n \<le> 600000"

fun within_limits :: "local_action \<Rightarrow> bool" where
  "within_limits (hardware_io_relay_set ch _) = channel_ok ch"
| "within_limits (hardware_io_relay_pulse ch d) = (channel_ok ch \<and> 0 < d \<and> d \<le> 60000)"
| "within_limits (hardware_io_relay_blink ch a b n _) = (channel_ok ch \<and> blink_ok a b n)"
| "within_limits (hardware_io_relay_toggle ch) = channel_ok ch"
| "within_limits (hardware_io_mosfet_set ch _) = channel_ok ch"
| "within_limits (hardware_io_mosfet_fade ch _ d) = (channel_ok ch \<and> d \<le> 60000)"
| "within_limits (hardware_io_mosfet_pulse ch _ d) = (channel_ok ch \<and> 0 < d \<and> d \<le> 60000)"
| "within_limits (hardware_io_mosfet_effect_blink ch _ a b n _) = (channel_ok ch \<and> blink_ok a b n)"
| "within_limits (hardware_io_mosfet_effect_breathe ch lo hi f _ _ _) = (channel_ok ch \<and> lo \<le> hi \<and> 0 < f)"
| "within_limits (hardware_io_io_set ch _) = channel_ok ch"
| "within_limits (hardware_io_io_pulse ch _ d) = (channel_ok ch \<and> 0 < d \<and> d \<le> 60000)"
| "within_limits (hardware_io_io_blink ch a b n _) = (channel_ok ch \<and> blink_ok a b n)"
| "within_limits (hardware_io_io_toggle ch) = channel_ok ch"
| "within_limits (hardware_io_io_get ch) = channel_ok ch"
| "within_limits _ = True"

lemma channel_in_range: "hardware_get_channel params_json 4 = Inr ch \<Longrightarrow> channel_ok ch"
proof -
  assume "hardware_get_channel params_json 4 = Inr ch"
  then obtain v where "\<not> v < 1" "\<not> 4 < v" "ch = word_of_int v"
    by (auto simp: hardware_get_channel_def sum_bind_Inr split: if_splits)
  moreover from this have "v = 1 \<or> v = 2 \<or> v = 3 \<or> v = 4" by auto
  ultimately show ?thesis by (auto simp: channel_ok_def)
qed

lemma duration_in_range:
  "0 < d \<Longrightarrow> d \<le> 60000 \<Longrightarrow> 0 < (word_of_int d :: u32) \<and> (word_of_int d :: u32) \<le> 60000"
  by (simp add: word_less_def word_le_def unsigned_of_int take_bit_eq_mod mod_pos_pos_trivial)

lemma fade_in_range: "0 \<le> d \<Longrightarrow> d \<le> 60000 \<Longrightarrow> (word_of_int d :: u32) \<le> 60000"
  by (simp add: word_le_def unsigned_of_int take_bit_eq_mod mod_pos_pos_trivial)

lemma blink_in_range:
  assumes "\<not> blink_invalid a b n"
    and "required_int p k1 m1 = Inr a" "required_int p k2 m2 = Inr b" "required_int p k3 m3 = Inr n"
  shows "blink_ok (word_of_int a) (word_of_int b) (word_of_int n)"
proof -
  have r: "a < 2 ^ 31" "b < 2 ^ 31" "n < 2 ^ 31" using required_int_range assms(2-4) by blast+
  note l = blink_limit [OF assms(1) r]
  have "unat (word_of_int x :: u32) = nat x" if "0 \<le> x" "x < 2 ^ 31" for x
    using that by (simp add: unat_eq_nat_uint unsigned_of_int take_bit_eq_mod mod_pos_pos_trivial)
  then have u: "unat (word_of_int a :: u32) = nat a" "unat (word_of_int b :: u32) = nat b"
    "unat (word_of_int n :: u32) = nat n" using l r by simp_all
  have "(nat a + nat b) * nat n = nat ((a + b) * n)" using l by (simp add: nat_mult_distrib nat_add_distrib)
  also have "\<dots> \<le> 600000" using l by linarith
  finally show ?thesis using l u by (simp add: blink_ok_def word_less_nat_alt)
qed

lemmas call_defs = sum_bind_Inr hardware_limits Let_def

lemma relay_within_limits:
  assumes "hardware_execute_relay params_json command = Inr (Run a m)"
  shows "within_limits a"
  using assms
  by (auto simp: hardware_execute_relay_def call_defs channel_in_range duration_in_range blink_in_range
      split: if_splits)

lemma io_within_limits:
  assumes "hardware_execute_io params_json command = Inr (Run a m)"
  shows "within_limits a"
  using assms
  by (auto simp: hardware_execute_io_def call_defs channel_in_range duration_in_range blink_in_range
      split: if_splits)

lemma breathe_in_range:
  assumes "\<not> breathe_invalid f h n lo hi" and "required_int p k m = Inr f"
  shows "lo \<le> hi \<and> 0 < (word_of_int f :: u32)"
proof -
  have "0 < f" "f < 2 ^ 31" "\<not> hi < lo"
    using assms(1) required_int_range [OF assms(2)] by (auto simp: breathe_invalid_def)
  then show ?thesis
    by (simp add: word_less_def unsigned_of_int take_bit_eq_mod mod_pos_pos_trivial word_le_def)
qed

lemma mosfet_blink_within_limits:
  assumes "mosfet_blink params_json ch = Inr (Run a m)" and "channel_ok ch"
  shows "within_limits a"
  using assms
  by (cases "hardware_get_optional_pwm_value params_json ''final_value'' 0")
    (auto simp: mosfet_blink_def call_defs blink_in_range)

lemma mosfet_breathe_within_limits:
  assumes "mosfet_breathe params_json ch = Inr (Run a m)" and "channel_ok ch"
  shows "within_limits a"
  using assms
  by (cases "hardware_get_optional_pwm_value params_json ''final_value'' 0")
    (auto simp: mosfet_breathe_def call_defs breathe_in_range)

lemma mosfet_within_limits:
  assumes "hardware_execute_mosfet params_json command = Inr (Run a m)"
  shows "within_limits a"
  using assms
  by (auto simp: hardware_execute_mosfet_def call_defs channel_in_range duration_in_range fade_in_range
      split: if_splits intro: mosfet_blink_within_limits mosfet_breathe_within_limits)

text \<open>
  C37: no hardware call exceeds the configured limits.  Whatever device, command and parameter text a
  request carries, every call that the executor makes to the hardware driver names one of the four
  channels, has a pulse or fade of at most 60 s, and a blinking effect with a number of repetitions
  lasts at most 600 s, although the check computes the duration in 32-bit and 64-bit arithmetic that
  can wrap.
\<close>

theorem hardware_calls_within_limits:
  assumes "perform drv (command_executor_execute_hardware available device_id params_json command) = (r, calls)"
  shows "\<forall>a \<in> set calls. within_limits a"
proof -
  have run: "within_limits a" if r: "command_executor_execute_hardware available device_id params_json command =
      Inr (Run a m)" for a m
    using r relay_within_limits mosfet_within_limits io_within_limits
    by (auto simp: command_executor_execute_hardware_def split: if_splits)
  have void: "command_executor_execute_hardware available device_id params_json command \<noteq> Inr (Run_Void a)" for a
    by (auto simp: command_executor_execute_hardware_def hardware_execute_relay_def hardware_execute_io_def
        hardware_execute_mosfet_def mosfet_blink_def mosfet_breathe_def call_defs split: sum.splits)
  show ?thesis
  proof (cases "command_executor_execute_hardware available device_id params_json command")
    case (Inr c)
    then show ?thesis using assms run void by (cases c) auto
  qed (use assms in simp)
qed

definition demo_command :: "string \<Rightarrow> quest_device_command" where
  "demo_command cid = \<lparr>qc_id = cid, qc_label = [], qc_capability = [], qc_command = ''x'',
     qc_default_args_json = [], qc_manual_allowed = True, qc_scenario_allowed = True,
     qc_requires_confirmation = False, qc_result_required = False, qc_timeout_ms = 0,
     qc_danger_level = [], qc_params = []\<rparr>"

lemma demo_pulse: "perform (\<lambda>_. ESP_OK) (command_executor_execute_hardware True ''system_relay''
    (CHR ''{'' # QUOTE # ''channel'' @ QUOTE # '':2,'' @ QUOTE # ''duration_ms'' @ QUOTE # '':500}'')
    (demo_command ''pulse'')) = ((ESP_OK, []), [hardware_io_relay_pulse 2 500])"
  by code_simp

theorem hardware_calls_within_limits_witness: "within_limits (hardware_io_relay_pulse 2 500)"
  using hardware_calls_within_limits [OF demo_pulse] by simp

text \<open>
  The limit on the total duration is not kept for the breathing effect.  With phases of 2^30 ms,
  doubling and adding them wraps to 0, so that 1000 repetitions of phases of twelve days each are
  accepted and the driver is started.
\<close>

theorem breathe_limit_bypassed:
  "perform (\<lambda>_. ESP_OK) (command_executor_execute_hardware True ''system_mosfet''
    (CHR ''{'' # QUOTE # ''channel'' @ QUOTE # '':1,'' @ QUOTE # ''min'' @ QUOTE # '':0,'' @ QUOTE # ''max'' @
      QUOTE # '':255,'' @ QUOTE # ''fade_ms'' @ QUOTE # '':1073741824,'' @ QUOTE # ''hold_ms'' @
      QUOTE # '':1073741824,'' @ QUOTE # ''count'' @ QUOTE # '':1000}'')
    (demo_command ''breathe'')) =
   ((ESP_OK, []), [hardware_io_mosfet_effect_breathe 1 0 255 1073741824 1073741824 1000 0])"
  by code_simp

end
