(* ===== verification/Command_Payload.thy ===== *)
theory Command_Payload
  imports Gm_Json C_Format
begin

text \<open>
  The payload of a device command (\<open>command_executor/command_executor_mqtt.c\<close>): the default arguments
  of the command and the parameters of the request are copied member by member into one JSON object,
  a parameter replacing the default of the same name.  A pointer into a text is the rest of the
  text; the buffer of the writer is its contents.
\<close>

section \<open>Scanning members\<close>

definition json_skip_ws :: "string \<Rightarrow> string" where
  "json_skip_ws = dropWhile json_ws"

definition json_skip_string :: "string \<Rightarrow> esp_err + string" where
  "json_skip_string p = (case p of
      [] \<Rightarrow> Inl ESP_ERR_INVALID_ARG
    | c # cs \<Rightarrow> (if c \<noteq> QUOTE then Inl ESP_ERR_INVALID_ARG
                else case skip_string_body cs of
                       None \<Rightarrow> Inl ESP_ERR_INVALID_ARG | Some r \<Rightarrow> Inr r))"

text \<open>
  The loop over the brackets of an object or array is the one of the event scanner, with the same
  stack of eight.
\<close>

definition json_skip_value :: "string \<Rightarrow> esp_err + string" where
  "json_skip_value q = (case json_skip_ws q of
      [] \<Rightarrow> Inl ESP_ERR_INVALID_ARG
    | c # cs \<Rightarrow>
        (if c = QUOTE then json_skip_string (c # cs)
         else if c = CHR ''{'' \<or> c = CHR ''['' then skip_nested [c] cs
         else Inr (dropWhile (\<lambda>d. d \<noteq> CHR '','' \<and> d \<noteq> CHR ''}'') (c # cs))))"

text \<open>A member: its key, the text of the whole pair, and the rest behind its comma.\<close>

definition json_next_pair :: "string \<Rightarrow> esp_err + (string \<times> string \<times> string)" where
  "json_next_pair q =
     (let p = json_skip_ws q in case p of
        [] \<Rightarrow> Inl ESP_ERR_INVALID_ARG
      | c # cs \<Rightarrow>
          (if c = CHR ''}'' then Inl ESP_ERR_NOT_FOUND
           else if c \<noteq> QUOTE then Inl ESP_ERR_INVALID_ARG
           else case scan_key [] cs of
             Inl e \<Rightarrow> Inl e
           | Inr (key, r) \<Rightarrow>
               (case json_skip_ws r of
                  [] \<Rightarrow> Inl ESP_ERR_INVALID_ARG
                | d # ds \<Rightarrow>
                    (if d \<noteq> CHR '':'' then Inl ESP_ERR_INVALID_ARG
                     else case json_skip_value ds of
                       Inl _ \<Rightarrow> Inl ESP_ERR_INVALID_ARG
                     | Inr value_end \<Rightarrow> after_value key (take (length p - length value_end) p) value_end))))"

lemma scanner_eqs: "json_skip_ws = gm_json_skip_ws" "json_skip_string = gm_json_skip_string"
  "json_skip_value = gm_json_skip_value"
proof -
  show ws: "json_skip_ws = gm_json_skip_ws" by (simp add: json_skip_ws_def gm_json_skip_ws_def)
  show str: "json_skip_string = gm_json_skip_string"
    by (rule ext) (simp add: json_skip_string_def gm_json_skip_string_def)
  show "json_skip_value = gm_json_skip_value"
    by (rule ext) (simp only: json_skip_value_def gm_json_skip_value_def ws str)
qed

lemma json_next_pair_shorter:
  assumes "json_next_pair p = Inr (k, t, rest)"
  shows "length rest < length p"
proof -
  obtain cs r ds e where
    1: "gm_json_skip_ws p = QUOTE # cs" "scan_key [] cs = Inr (k, r)"
       "gm_json_skip_ws r = CHR '':'' # ds" "gm_json_skip_value ds = Inr e" "after_value k t e = Inr (k, t, rest)"
    using assms
    by (auto simp: json_next_pair_def Let_def scanner_eqs split: list.splits if_splits sum.splits)
      (use after_value_le in blast)
  have "length r < length cs" by (rule scan_key_shorter [OF 1(2)])
  moreover have "length e \<le> length ds" by (rule skip_value_le [OF 1(4)])
  ultimately show ?thesis
    using skip_ws_le [of p] skip_ws_le [of r] after_value_le [OF 1(5)] 1(1,3) by simp
qed

function has_key :: "string \<Rightarrow> string \<Rightarrow> bool" where
  "has_key key p = (case json_next_pair p of
      Inl _ \<Rightarrow> False
    | Inr (k, _, rest) \<Rightarrow> (if k = key then True else has_key key rest))"
  by pat_completeness auto
termination
  by (relation "measure (\<lambda>(_, p). length p)") (auto dest: json_next_pair_shorter)

declare has_key.simps [simp del]

definition json_object_has_key :: "string \<Rightarrow> string \<Rightarrow> bool" where
  "json_object_has_key json key = (case json_skip_ws json of
      [] \<Rightarrow> False
    | c # cs \<Rightarrow> (if c \<noteq> CHR ''{'' then False else has_key key cs))"

section \<open>The writer\<close>

definition COMMAND_EXECUTOR_MQTT_PAYLOAD_MAX_LEN :: nat where
  "COMMAND_EXECUTOR_MQTT_PAYLOAD_MAX_LEN = 512"

definition writer_putn :: "nat \<Rightarrow> string \<Rightarrow> string \<Rightarrow> esp_err + string" where
  "writer_putn cap s buf = (if length buf + length s \<ge> cap then Inl ESP_ERR_INVALID_SIZE else Inr (buf @ s))"

definition writer_puts :: "nat \<Rightarrow> string \<Rightarrow> string \<Rightarrow> esp_err + string" where
  "writer_puts cap s buf = writer_putn cap s buf"

definition escaped_char :: "char \<Rightarrow> string" where
  "escaped_char c =
     (if c = QUOTE then [BACKSLASH, QUOTE]
      else if c = BACKSLASH then [BACKSLASH, BACKSLASH]
      else if c = CHR 0x0A then [BACKSLASH, CHR ''n'']
      else if c = CHR 0x0D then [BACKSLASH, CHR ''r'']
      else if c = CHR 0x09 then [BACKSLASH, CHR ''t'']
      else [c])"

definition write_then :: "esp_err + string \<Rightarrow> (string \<Rightarrow> esp_err + string) \<Rightarrow> esp_err + string" where
  "write_then r f = (case r of Inl e \<Rightarrow> Inl e | Inr buf \<Rightarrow> f buf)"

fun put_escaped_chars :: "nat \<Rightarrow> string \<Rightarrow> string \<Rightarrow> esp_err + string" where
  "put_escaped_chars cap [] buf = Inr buf"
| "put_escaped_chars cap (c # cs) buf = write_then (writer_puts cap (escaped_char c) buf) (put_escaped_chars cap cs)"

definition writer_put_escaped :: "nat \<Rightarrow> string \<Rightarrow> string \<Rightarrow> esp_err + string" where
  "writer_put_escaped cap s buf =
     write_then (writer_puts cap [QUOTE] buf) (\<lambda>buf.
     write_then (put_escaped_chars cap s buf) (\<lambda>buf.
     writer_puts cap [QUOTE] buf))"

definition writer_put_pair :: "nat \<Rightarrow> string \<Rightarrow> bool \<times> string \<Rightarrow> esp_err + (bool \<times> string)" where
  "writer_put_pair cap pair = (\<lambda>(first, buf).
     case (if first then Inr buf else writer_puts cap '','' buf) of
       Inl e \<Rightarrow> Inl e
     | Inr buf \<Rightarrow> (case writer_putn cap pair buf of Inl e \<Rightarrow> Inl e | Inr buf \<Rightarrow> Inr (False, buf)))"

text \<open>\<open>overrides\<close> is \<open>Some\<close> text of the object whose members replace those of this one.\<close>

definition is_overridden :: "string option \<Rightarrow> string \<Rightarrow> bool" where
  "is_overridden overrides key = (case overrides of None \<Rightarrow> False | Some json \<Rightarrow> json_object_has_key json key)"

function put_pairs :: "nat \<Rightarrow> string option \<Rightarrow> string \<Rightarrow> bool \<times> string \<Rightarrow> esp_err + (bool \<times> string)" where
  "put_pairs cap overrides p w = (case json_next_pair p of
      Inl e \<Rightarrow> (if e = ESP_ERR_NOT_FOUND then Inr w else Inl e)
    | Inr (k, pair, rest) \<Rightarrow>
        (if is_overridden overrides k then put_pairs cap overrides rest w
         else case writer_put_pair cap pair w of
                Inl e \<Rightarrow> Inl e | Inr w' \<Rightarrow> put_pairs cap overrides rest w'))"
  by pat_completeness auto
termination
  by (relation "measure (\<lambda>(_, _, p, _). length p)") (auto dest: json_next_pair_shorter)

declare put_pairs.simps [simp del]

definition writer_put_object_pairs ::
  "nat \<Rightarrow> string \<Rightarrow> string option \<Rightarrow> bool \<times> string \<Rightarrow> esp_err + (bool \<times> string)" where
  "writer_put_object_pairs cap json overrides w =
     (if json = [] then Inr w
      else case json_skip_ws json of
        [] \<Rightarrow> Inl ESP_ERR_INVALID_ARG
      | c # cs \<Rightarrow> (if c \<noteq> CHR ''{'' then Inl ESP_ERR_INVALID_ARG else put_pairs cap overrides cs w))"

definition write_args :: "nat \<Rightarrow> string \<Rightarrow> string \<Rightarrow> string \<Rightarrow> esp_err + string" where
  "write_args cap default_args_json params_json buf =
     (case writer_put_object_pairs cap default_args_json (Some params_json) (True, buf) of
        Inl e \<Rightarrow> Inl e
      | Inr w \<Rightarrow> map_sum id snd (writer_put_object_pairs cap params_json None w))"

definition build_command_payload ::
  "nat \<Rightarrow> string \<Rightarrow> string \<Rightarrow> string \<Rightarrow> string \<Rightarrow> int \<Rightarrow> esp_err + string" where
  "build_command_payload out_size request_id command default_args_json params_json now_ms =
     write_then (writer_puts out_size (''{'' @ QUOTE # ''request_id'' @ QUOTE # '':'') []) (\<lambda>buf.
     write_then (writer_put_escaped out_size request_id buf) (\<lambda>buf.
     write_then (writer_puts out_size ('','' @ QUOTE # ''command'' @ QUOTE # '':'') buf) (\<lambda>buf.
     write_then (writer_put_escaped out_size command buf) (\<lambda>buf.
     write_then (writer_puts out_size ('','' @ QUOTE # ''args'' @ QUOTE # '':{'') buf) (\<lambda>buf.
     write_then (write_args out_size default_args_json params_json buf) (\<lambda>buf.
     write_then (writer_puts out_size (''},'' @ QUOTE # ''ts_ms'' @ QUOTE # '':'') buf) (\<lambda>buf.
     write_then (writer_puts out_size (take 31 (c_decimal now_ms)) buf) (\<lambda>buf.
     writer_puts out_size ''}'' buf))))))))"

text \<open>The request id carries the time and a sequence number of 32 bits.\<close>

definition command_executor_make_request_id :: "nat \<Rightarrow> u64 \<Rightarrow> u32 \<Rightarrow> (esp_err + string) \<times> u32" where
  "command_executor_make_request_id out_size now_ms s_request_seq =
     (if out_size = 0 then (Inl ESP_ERR_INVALID_ARG, s_request_seq)
      else let s = ''req-'' @ c_hex_padded 8 (unat now_ms) @ ''-'' @ c_hex_padded 8 (unat s_request_seq)
        in (if length s \<ge> out_size then Inl ESP_ERR_INVALID_SIZE else Inr s, s_request_seq + 1))"

section \<open>What is written\<close>

lemma write_then_simps [simp]: "write_then (Inl e) f = Inl e" "write_then (Inr b) f = f b"
  by (simp_all add: write_then_def)

lemma writer_puts_eq: "writer_puts cap s buf =
    (if length buf + length s < cap then Inr (buf @ s) else Inl ESP_ERR_INVALID_SIZE)"
  by (simp add: writer_puts_def writer_putn_def)

text \<open>
  A writer that appends a fixed text when the result fits.  Two of them in sequence append both
  texts, so that a whole payload is written exactly when it fits.
\<close>

definition writes :: "nat \<Rightarrow> (string \<Rightarrow> esp_err + string) \<Rightarrow> string \<Rightarrow> bool" where
  "writes cap f s \<longleftrightarrow> (\<forall>buf. length buf < cap \<longrightarrow> f buf = writer_puts cap s buf)"

lemma writes_puts [intro!]: "writes cap (writer_puts cap s) s"
  by (simp add: writes_def)

lemma writes_then [intro]:
  assumes "writes cap f s" and "writes cap g t"
  shows "writes cap (\<lambda>buf. write_then (f buf) g) (s @ t)"
  using assms by (auto simp: writes_def writer_puts_eq)

lemma writes_then_puts:
  assumes "writes cap g t"
  shows "writes cap (\<lambda>buf. write_then (writer_puts cap s buf) g) (s @ t)"
  using assms by (intro writes_then) auto

definition json_string :: "string \<Rightarrow> string" where
  "json_string s = QUOTE # concat (map escaped_char s) @ [QUOTE]"

lemma writes_escaped_chars: "writes cap (put_escaped_chars cap s) (concat (map escaped_char s))"
proof (induction s)
  case (Cons c s)
  have "put_escaped_chars cap (c # s) =
      (\<lambda>buf. write_then (writer_puts cap (escaped_char c) buf) (put_escaped_chars cap s))" by auto
  with writes_then_puts [OF Cons] show ?case by simp
qed (simp add: writes_def writer_puts_eq)

lemma writes_escaped: "writes cap (writer_put_escaped cap s) (json_string s)"
proof -
  have "writes cap (writer_put_escaped cap s) ([QUOTE] @ concat (map escaped_char s) @ [QUOTE])"
    unfolding writer_put_escaped_def by (intro writes_then writes_puts writes_escaped_chars)
  then show ?thesis by (simp add: json_string_def)
qed

definition pair_text :: "string \<times> string \<Rightarrow> string" where
  "pair_text = (\<lambda>(k, v). QUOTE # k @ [QUOTE, CHR '':''] @ v)"

fun members_text :: "bool \<Rightarrow> (string \<times> string) list \<Rightarrow> string" where
  "members_text first [] = []"
| "members_text first (kv # kvs) = (if first then [] else '','') @ pair_text kv @ members_text False kvs"

lemma members_text_append:
  "members_text first (xs @ ys) = members_text first xs @ members_text (first \<and> xs = []) ys"
  by (induction xs arbitrary: first) auto

lemma json_object_members: "json_object kvs = ''{'' @ members_text True kvs @ ''}''"
proof -
  have rest: "kvs \<noteq> [] \<Longrightarrow> members_text False kvs = CHR '','' # members_text True kvs" for kvs
    by (cases kvs) auto
  have "json_fields kvs = members_text True kvs @ ''}''" for kvs
  proof (induction kvs)
    case (Cons kv kvs)
    then show ?case using rest [of kvs] by (cases kv) (auto simp: pair_text_def)
  qed simp
  then show ?thesis by (simp add: json_object_def)
qed

lemma json_next_pair_fields:
  assumes "json_plain k" and "json_scalar v"
  shows "json_next_pair (json_fields ((k, v) # kvs)) = Inr (k, pair_text (k, v), json_fields kvs)"
proof -
  obtain d r where dr: "(if kvs = [] then [] else [CHR '','']) @ json_fields kvs = d # r"
    and d: "if kvs = [] then d = CHR ''}'' \<and> d # r = json_fields kvs
            else d = CHR '','' \<and> r = json_fields kvs"
    by (cases "kvs = []") auto
  have "gm_json_skip_value (v @ d # r) = Inr (d # r)"
    using d by (intro skip_value_scalar assms) (simp split: if_splits)
  moreover have "after_value k t (d # r) = Inr (k, t, json_fields kvs)" for t
    using d by (auto simp: after_value_def split: if_splits)
  moreover have "take (3 + (length k + length v)) (QUOTE # k @ QUOTE # CHR '':'' # v @ d # r) =
      QUOTE # k @ QUOTE # CHR '':'' # v"
    by (simp add: numeral_3_eq_3 take_Cons')
  ultimately show ?thesis
    using assms(1) by (simp add: json_next_pair_def scanner_eqs dr scan_key_plain pair_text_def)
qed

lemma json_next_pair_Nil: "json_next_pair (json_fields []) = Inl ESP_ERR_NOT_FOUND"
  by (simp add: json_next_pair_def scanner_eqs)

lemma has_key_fields: "json_flat kvs \<Longrightarrow> has_key key (json_fields kvs) \<longleftrightarrow> key \<in> fst ` set kvs"
proof (induction kvs)
  case Nil
  then show ?case by (subst has_key.simps) (simp only: json_next_pair_Nil, simp)
next
  case (Cons kv kvs)
  obtain k v where kv: "kv = (k, v)" by force
  have "json_plain k" "json_scalar v" "json_flat kvs"
    using Cons.prems by (auto simp: json_flat_def kv)
  then show ?case
    using Cons.IH by (subst has_key.simps) (auto simp del: json_fields.simps simp: kv json_next_pair_fields)
qed

lemma object_has_key: "json_flat kvs \<Longrightarrow> json_object_has_key (json_object kvs) key \<longleftrightarrow> key \<in> fst ` set kvs"
  by (simp add: json_object_has_key_def json_object_def scanner_eqs has_key_fields)

text \<open>The members that are not replaced, written behind what the buffer holds.\<close>

definition kept :: "string option \<Rightarrow> (string \<times> string) list \<Rightarrow> (string \<times> string) list" where
  "kept overrides = filter (\<lambda>(k, _). \<not> is_overridden overrides k)"

lemma put_pairs_fields:
  assumes "json_flat kvs" and "length buf < cap"
  shows "put_pairs cap overrides (json_fields kvs) (first, buf) =
    map_sum id (Pair (first \<and> kept overrides kvs = []))
      (writer_puts cap (members_text first (kept overrides kvs)) buf)"
  using assms
proof (induction kvs arbitrary: first buf)
  case Nil
  then show ?case
    by (subst put_pairs.simps) (simp only: json_next_pair_Nil, simp add: writer_puts_eq kept_def)
next
  case (Cons kv kvs)
  obtain k v where kv: "kv = (k, v)" by force
  have f: "json_plain k" "json_scalar v" "json_flat kvs"
    using Cons.prems by (auto simp: json_flat_def kv)
  have IH: "length b < cap \<Longrightarrow> put_pairs cap overrides (json_fields kvs) (fi, b) =
      map_sum id (Pair (fi \<and> kept overrides kvs = [])) (writer_puts cap (members_text fi (kept overrides kvs)) b)" for fi b
    using Cons.IH f(3) by blast
  have step: "put_pairs cap overrides (json_fields (kv # kvs)) (first, buf) =
      (if is_overridden overrides k then put_pairs cap overrides (json_fields kvs) (first, buf)
       else case writer_put_pair cap (pair_text (k, v)) (first, buf) of
              Inl e \<Rightarrow> Inl e | Inr w \<Rightarrow> put_pairs cap overrides (json_fields kvs) w)"
    by (subst put_pairs.simps) (simp del: json_fields.simps add: kv json_next_pair_fields f)
  have kept: "kept overrides ((k, v) # kvs) =
      (if is_overridden overrides k then kept overrides kvs else (k, v) # kept overrides kvs)"
    by (simp add: kept_def)
  show ?case
    unfolding step unfolding kv kept
    using Cons.prems(2) by (simp add: IH writer_put_pair_def writer_puts_eq writer_putn_def)
qed

lemma writes_object_pairs:
  assumes "json_flat kvs" and "length buf < cap"
  shows "writer_put_object_pairs cap (json_object kvs) overrides (first, buf) =
    map_sum id (Pair (first \<and> kept overrides kvs = []))
      (writer_puts cap (members_text first (kept overrides kvs)) buf)"
  using put_pairs_fields [OF assms]
  by (simp add: writer_put_object_pairs_def json_object_def scanner_eqs)

text \<open>The arguments that are sent: the defaults that no parameter replaces, then the parameters.\<close>

definition merged_args :: "(string \<times> string) list \<Rightarrow> (string \<times> string) list \<Rightarrow> (string \<times> string) list" where
  "merged_args defaults params = filter (\<lambda>(k, _). k \<notin> fst ` set params) defaults @ params"

lemma kept_merged:
  "json_flat params \<Longrightarrow> kept (Some (json_object params)) defaults @ kept None params = merged_args defaults params"
  by (simp add: kept_def is_overridden_def object_has_key merged_args_def case_prod_beta)

lemma map_of_filter_keys: "map_of (filter (\<lambda>(k, _). k \<notin> K) xs) k = (if k \<in> K then None else map_of xs k)"
  by (induction xs) auto

lemma map_of_merged_args: "map_of (merged_args defaults params) = map_of defaults ++ map_of params"
proof (rule ext)
  fix k
  show "map_of (merged_args defaults params) k = (map_of defaults ++ map_of params) k"
  proof (cases "k \<in> fst ` set params")
    case True
    then have "map_of params k \<noteq> None" by (simp add: map_of_eq_None_iff)
    with True show ?thesis by (auto simp: merged_args_def map_add_def map_of_filter_keys)
  next
    case False
    then have "map_of params k = None" by (simp add: map_of_eq_None_iff)
    with False show ?thesis by (simp add: merged_args_def map_add_def map_of_filter_keys split: option.split)
  qed
qed

lemma writes_args:
  assumes "json_flat defaults" and "json_flat params"
  shows "writes cap (write_args cap (json_object defaults) (json_object params))
    (members_text True (merged_args defaults params))"
  unfolding writes_def
proof (intro allI impI)
  fix buf :: string
  assume buf: "length buf < cap"
  let ?d = "kept (Some (json_object params)) defaults" and ?p = "kept None params"
  have "write_args cap (json_object defaults) (json_object params) buf =
      writer_puts cap (members_text True ?d @ members_text (?d = []) ?p) buf"
    using buf assms by (simp add: write_args_def writes_object_pairs writer_puts_eq)
  then show "write_args cap (json_object defaults) (json_object params) buf =
      writer_puts cap (members_text True (merged_args defaults params)) buf"
    by (simp add: kept_merged [OF assms(2), symmetric] members_text_append)
qed

definition payload_text :: "string \<Rightarrow> string \<Rightarrow> (string \<times> string) list \<Rightarrow> int \<Rightarrow> string" where
  "payload_text request_id command args now_ms =
     ''{'' @ QUOTE # ''request_id'' @ QUOTE # '':'' @ json_string request_id @
     '','' @ QUOTE # ''command'' @ QUOTE # '':'' @ json_string command @
     '','' @ QUOTE # ''args'' @ QUOTE # '':'' @ json_object args @
     '','' @ QUOTE # ''ts_ms'' @ QUOTE # '':'' @ c_decimal now_ms @ ''}''"

lemma c_decimal_length: "0 \<le> n \<Longrightarrow> n < 2 ^ 63 \<Longrightarrow> length (c_decimal n) \<le> 19"
  by (simp add: c_decimal_def digits_length nat_less_iff)

lemma build_command_payload_eq:
  assumes "json_flat defaults" and "json_flat params" and "0 \<le> now_ms" and "now_ms < 2 ^ 63"
    and "0 < out_size"
  shows "build_command_payload out_size request_id command (json_object defaults) (json_object params) now_ms =
    writer_puts out_size (payload_text request_id command (merged_args defaults params) now_ms) []"
proof -
  have t: "take 31 (c_decimal now_ms) = c_decimal now_ms" using c_decimal_length [OF assms(3,4)] by simp
  have "writes out_size (\<lambda>buf.
     write_then (writer_puts out_size (''{'' @ QUOTE # ''request_id'' @ QUOTE # '':'') buf) (\<lambda>buf.
     write_then (writer_put_escaped out_size request_id buf) (\<lambda>buf.
     write_then (writer_puts out_size ('','' @ QUOTE # ''command'' @ QUOTE # '':'') buf) (\<lambda>buf.
     write_then (writer_put_escaped out_size command buf) (\<lambda>buf.
     write_then (writer_puts out_size ('','' @ QUOTE # ''args'' @ QUOTE # '':{'') buf) (\<lambda>buf.
     write_then (write_args out_size (json_object defaults) (json_object params) buf) (\<lambda>buf.
     write_then (writer_puts out_size (''},'' @ QUOTE # ''ts_ms'' @ QUOTE # '':'') buf) (\<lambda>buf.
     write_then (writer_puts out_size (c_decimal now_ms) buf) (writer_puts out_size ''}'')))))))))
   ((''{'' @ QUOTE # ''request_id'' @ QUOTE # '':'') @ json_string request_id @
    ('','' @ QUOTE # ''command'' @ QUOTE # '':'') @ json_string command @
    ('','' @ QUOTE # ''args'' @ QUOTE # '':{'') @ members_text True (merged_args defaults params) @
    (''},'' @ QUOTE # ''ts_ms'' @ QUOTE # '':'') @ c_decimal now_ms @ ''}'')"
    by (intro writes_then writes_puts writes_escaped writes_args assms)
  then show ?thesis
    using assms(5) by (simp add: writes_def build_command_payload_def t payload_text_def json_object_members)
qed

text \<open>Every failure of the builder has an error code.\<close>

lemma scan_key_err: "scan_key acc p \<noteq> Inl ESP_OK"
  by (induction acc p rule: scan_key.induct) auto

lemma json_next_pair_err: "json_next_pair p \<noteq> Inl ESP_OK"
  using scan_key_err
  by (auto simp: json_next_pair_def after_value_def Let_def split: list.splits sum.splits if_splits)

lemma put_pairs_err: "put_pairs cap overrides p w \<noteq> Inl ESP_OK"
proof (induction cap overrides p w rule: put_pairs.induct)
  case (1 cap overrides p w)
  have "writer_put_pair cap pair w \<noteq> Inl ESP_OK" for pair
    by (auto simp: writer_put_pair_def writer_puts_def writer_putn_def split: prod.splits sum.splits if_splits)
  with 1 show ?case
    using json_next_pair_err [of p]
    by (subst put_pairs.simps) (auto split: sum.split prod.split)
qed

lemma write_then_err: "r \<noteq> Inl ESP_OK \<Longrightarrow> (\<And>b. f b \<noteq> Inl ESP_OK) \<Longrightarrow> write_then r f \<noteq> Inl ESP_OK"
  by (auto simp: write_then_def split: sum.split)

lemma writer_puts_err: "writer_puts cap s buf \<noteq> Inl ESP_OK"
  by (simp add: writer_puts_eq)

lemma put_escaped_err: "writer_put_escaped cap s buf \<noteq> Inl ESP_OK"
proof -
  have "put_escaped_chars cap s buf \<noteq> Inl ESP_OK" for buf
    by (induction cap s buf rule: put_escaped_chars.induct) (simp_all add: write_then_err writer_puts_err)
  then show ?thesis unfolding writer_put_escaped_def by (intro write_then_err writer_puts_err)
qed

lemma write_args_err: "write_args cap d p buf \<noteq> Inl ESP_OK"
proof -
  have o: "writer_put_object_pairs cap j ov w \<noteq> Inl ESP_OK" for j ov w
    using put_pairs_err by (auto simp: writer_put_object_pairs_def split: list.split)
  show ?thesis
    using o [of d "Some p" "(True, buf)"] o [of p None]
    by (auto simp: write_args_def map_sum_def split: sum.splits)
qed

lemma build_command_payload_err: "build_command_payload n rid c d p now \<noteq> Inl ESP_OK"
  unfolding build_command_payload_def
  by (intro write_then_err writer_puts_err put_escaped_err write_args_err)

section \<open>Properties\<close>

text \<open>
  C36: the payload of a command carries the merged arguments.  For flat default arguments and
  parameters the builder writes, exactly when it fits the buffer, one object with the request id, the
  command and an arguments object, and as maps the arguments are the defaults overridden by the
  parameters.
\<close>

theorem payload_merges_arguments:
  assumes "json_flat defaults" and "json_flat params" and "0 \<le> now_ms" and "now_ms < 2 ^ 63"
    and "0 < out_size"
  shows "\<exists>args. map_of args = map_of defaults ++ map_of params \<and>
    build_command_payload out_size request_id command (json_object defaults) (json_object params) now_ms =
      (let text = payload_text request_id command args now_ms in
       if length text < out_size then Inr text else Inl ESP_ERR_INVALID_SIZE)"
  using build_command_payload_eq [OF assms, of request_id command] map_of_merged_args [of defaults params]
  by (intro exI [of _ "merged_args defaults params"]) (simp add: writer_puts_eq)

theorem payload_merges_arguments_witness:
  "\<exists>args. map_of args = [''level'' \<mapsto> ''7'', ''on'' \<mapsto> ''true''] \<and>
    build_command_payload 512 ''r'' ''dim'' (json_object [(''level'', ''3''), (''on'', ''true'')])
      (json_object [(''level'', ''7'')]) 5 = Inr (payload_text ''r'' ''dim'' args 5)"
proof -
  have flat: "json_flat [(''level'', ''3''), (''on'', ''true'')]" "json_flat [(''level'', ''7'')]"
    by (simp_all add: json_flat_def json_plain_def json_scalar_def json_token_def json_ws_def)
  have m: "map_of [(''level'', ''3''), (''on'', ''true'')] ++ map_of [(''level'', ''7'')] =
      [''level'' \<mapsto> ''7'', ''on'' \<mapsto> ''true'']"
    by (rule ext) (simp add: map_add_def)
  have f: "[''on'' \<mapsto> ''true'', ''level'' \<mapsto> ''7''] = [''level'' \<mapsto> ''7'', ''on'' \<mapsto> ''true'']"
    by (rule ext) simp
  have b: "build_command_payload 512 ''r'' ''dim'' (json_object [(''level'', ''3''), (''on'', ''true'')])
      (json_object [(''level'', ''7'')]) 5 \<noteq> Inl ESP_ERR_INVALID_SIZE"
    by code_simp
  show ?thesis
    using payload_merges_arguments [OF flat, of 5 512 "''r''" "''dim''"] b
    by (auto simp: m f Let_def split: if_splits)
qed

text \<open>
  Request ids made with different sequence numbers differ, whatever the times at which they are
  made, so that two pending commands of the last 2^32 have different ids; every id fits its buffer.
\<close>

theorem request_ids_distinct:
  "\<exists>id. fst (command_executor_make_request_id 48 now seq) = Inr id \<and> length id < 48 \<and>
    snd (command_executor_make_request_id 48 now seq) = seq + 1 \<and>
    (seq' \<noteq> seq \<longrightarrow> fst (command_executor_make_request_id 48 now' seq') \<noteq> Inr id)"
proof -
  let ?id = "\<lambda>t s. ''req-'' @ c_hex_padded 8 (unat (t :: u64)) @ ''-'' @ c_hex_padded 8 (unat (s :: u32))"
  have l8: "length (c_hex_padded 8 (unat s)) = 8" for s :: u32
    using unsigned_less [of s] by (intro c_hex_padded_length) simp_all
  have l16: "length (c_hex_padded 8 (unat t)) \<le> 16" for t :: u64
  proof -
    have "unat t < 16 ^ 16" using unsigned_less [of t, where 'a = nat] by simp
    then have "length (digits 16 (unat t)) \<le> 16" by (intro digits_length) simp_all
    then show ?thesis by (simp add: c_hex_padded_def)
  qed
  have fits: "length (?id t s) < 48" for t s using l8 [of s] l16 [of t] by simp
  have make: "command_executor_make_request_id 48 t s = (Inr (?id t s), s + 1)" for t s
    using fits [of t s] by (simp add: command_executor_make_request_id_def Let_def)
  have "?id now seq \<noteq> ?id now' seq'" if ne: "seq' \<noteq> seq"
  proof
    assume "?id now seq = ?id now' seq'"
    then have "(''req-'' @ c_hex_padded 8 (unat now) @ ''-'') @ c_hex_padded 8 (unat seq) =
        (''req-'' @ c_hex_padded 8 (unat now') @ ''-'') @ c_hex_padded 8 (unat seq')" by simp
    then have "c_hex_padded 8 (unat seq) = c_hex_padded 8 (unat seq')"
      using l8 [of seq] l8 [of seq'] by (metis append_eq_append_conv)
    from c_hex_padded_inject [OF this] ne show False by (simp add: word_unat_eq_iff)
  qed
  then show ?thesis using fits make by auto
qed

end
