(* ===== verification/Keyed_Table.thy ===== *)
theory Keyed_Table
  imports Gm_Prelude
begin

text \<open>
  Fixed tables searched by a key.  Several components keep an array of slots with an \<open>in_use\<close> flag
  and look an entry up by its id.  The locale \<open>keyed_table\<close> says what such a table needs (the blank
  slot is unused) and proves once that, as long as no key occurs twice, the table is a finite map:
  what a lookup returns after an entry is written, overwritten or cleared.
\<close>

locale keyed_table =
  fixes used :: "'a \<Rightarrow> bool" and key :: "'a \<Rightarrow> 'k" and blank :: 'a
  assumes blank_unused: "\<not> used blank"
begin

definition slot_of :: "'k \<Rightarrow> 'a list \<Rightarrow> nat option" where
  "slot_of k xs = find_index (\<lambda>s. used s \<and> key s = k) xs"

definition unique_keys :: "'a list \<Rightarrow> bool" where
  "unique_keys xs \<longleftrightarrow> (\<forall>i < length xs. \<forall>j < length xs.
     used (xs ! i) \<longrightarrow> used (xs ! j) \<longrightarrow> key (xs ! i) = key (xs ! j) \<longrightarrow> i = j)"

definition contents :: "'a list \<Rightarrow> 'k \<rightharpoonup> 'a" where
  "contents xs k = map_option ((!) xs) (slot_of k xs)"

lemma slot_of_SomeD: "slot_of k xs = Some i \<Longrightarrow> i < length xs \<and> used (xs ! i) \<and> key (xs ! i) = k"
  unfolding slot_of_def by (drule find_index_SomeD) simp

lemma slot_of_NoneD: "slot_of k xs = None \<Longrightarrow> j < length xs \<Longrightarrow> used (xs ! j) \<Longrightarrow> key (xs ! j) \<noteq> k"
  by (auto simp: slot_of_def find_index_None_iff)

lemma slot_ofI:
  assumes "unique_keys xs" and "i < length xs" and "used (xs ! i)"
  shows "slot_of (key (xs ! i)) xs = Some i"
proof (cases "slot_of (key (xs ! i)) xs")
  case None
  then show ?thesis using assms slot_of_NoneD by blast
next
  case (Some j)
  with assms slot_of_SomeD [OF Some] have "j = i" unfolding unique_keys_def by metis
  with Some show ?thesis by simp
qed

lemma contents_eq_Some_iff:
  assumes "unique_keys xs"
  shows "contents xs k = Some v \<longleftrightarrow> (\<exists>i < length xs. used (xs ! i) \<and> key (xs ! i) = k \<and> xs ! i = v)"
proof
  assume "contents xs k = Some v"
  then obtain i where "slot_of k xs = Some i" "xs ! i = v" by (auto simp: contents_def)
  then show "\<exists>i < length xs. used (xs ! i) \<and> key (xs ! i) = k \<and> xs ! i = v"
    using slot_of_SomeD by blast
next
  assume "\<exists>i < length xs. used (xs ! i) \<and> key (xs ! i) = k \<and> xs ! i = v"
  then show "contents xs k = Some v" using slot_ofI [OF assms] by (auto simp: contents_def)
qed

lemma contents_cong:
  assumes "unique_keys xs" and "unique_keys ys"
    and "\<And>v. (\<exists>i < length xs. used (xs ! i) \<and> key (xs ! i) = k \<and> xs ! i = v) =
      (\<exists>i < length ys. used (ys ! i) \<and> key (ys ! i) = l \<and> ys ! i = v)"
  shows "contents xs k = contents ys l"
proof -
  have "contents xs k = Some v \<longleftrightarrow> contents ys l = Some v" for v
    using assms(3) contents_eq_Some_iff [OF assms(1), of k v] contents_eq_Some_iff [OF assms(2), of l v]
    by blast
  then show ?thesis by (metis option.exhaust)
qed

text \<open>Writing an entry over the slot of its key, or over a free slot when the key is new.\<close>

lemma write_entry:
  assumes "unique_keys xs" and "i < length xs" and "used v"
    and "slot_of (key v) xs = Some i \<or> slot_of (key v) xs = None \<and> \<not> used (xs ! i)"
  shows "unique_keys (xs[i := v])" and "contents (xs[i := v]) = (contents xs)(key v \<mapsto> v)"
proof -
  have other: "key (xs ! j) \<noteq> key v" if "j < length xs" "used (xs ! j)" "j \<noteq> i" for j
    using assms(4)
  proof
    assume "slot_of (key v) xs = Some i"
    then show ?thesis using slot_of_SomeD assms(1) that unfolding unique_keys_def by metis
  qed (use slot_of_NoneD that in blast)
  show u: "unique_keys (xs[i := v])"
    using assms(1-3) other unfolding unique_keys_def by (simp add: nth_list_update) metis
  show "contents (xs[i := v]) = (contents xs)(key v \<mapsto> v)"
  proof (rule ext)
    fix k
    show "contents (xs[i := v]) k = ((contents xs)(key v \<mapsto> v)) k"
    proof (cases "k = key v")
      case True
      have "\<exists>j < length (xs[i := v]). used (xs[i := v] ! j) \<and> key (xs[i := v] ! j) = k \<and> xs[i := v] ! j = v"
        using assms(2,3) True by (intro exI [of _ i]) simp
      then show ?thesis using True contents_eq_Some_iff [OF u] by simp
    next
      case False
      have i: "used (xs ! i) \<Longrightarrow> key (xs ! i) = key v"
        using assms(4) slot_of_SomeD by blast
      have "contents (xs[i := v]) k = contents xs k"
        by (rule contents_cong [OF u assms(1)])
          (metis False i length_list_update nth_list_update_eq nth_list_update_neq)
      then show ?thesis using False by simp
    qed
  qed
qed

lemma clear_entry:
  assumes "unique_keys xs" and "slot_of k xs = Some i"
  shows "unique_keys (xs[i := blank])" and "contents (xs[i := blank]) = (contents xs)(k := None)"
proof -
  note s = slot_of_SomeD [OF assms(2)]
  show u: "unique_keys (xs[i := blank])"
    using assms(1) blank_unused s unfolding unique_keys_def by (auto simp: nth_list_update split: if_splits)
  show "contents (xs[i := blank]) = (contents xs)(k := None)"
  proof (rule ext)
    fix l
    show "contents (xs[i := blank]) l = ((contents xs)(k := None)) l"
    proof (cases "l = k")
      case True
      have "contents (xs[i := blank]) k \<noteq> Some v" for v
        using contents_eq_Some_iff [OF u] s assms(1) blank_unused unfolding unique_keys_def
        by (metis length_list_update nth_list_update_eq nth_list_update_neq)
      then show ?thesis using True by (cases "contents (xs[i := blank]) k") auto
    next
      case False
      have "contents (xs[i := blank]) l = contents xs l"
        by (rule contents_cong [OF u assms(1)])
          (metis False s blank_unused length_list_update nth_list_update_eq nth_list_update_neq)
      then show ?thesis using False by simp
    qed
  qed
qed

lemma unique_blank: "unique_keys (replicate n blank)"
  by (simp add: unique_keys_def blank_unused)

lemma contents_blank: "contents (replicate n blank) = Map.empty"
  by (rule ext) (auto simp: contents_def slot_of_def find_index_None_iff blank_unused)

text \<open>A table without a free slot holds as many keys as it has slots.\<close>

lemma full_table:
  assumes "unique_keys xs" and "find_index (\<lambda>s. \<not> used s) xs = None"
  shows "card (dom (contents xs)) = length xs"
proof -
  have used: "used (xs ! i)" if "i < length xs" for i
    using assms(2) that by (auto simp: find_index_None_iff)
  have "dom (contents xs) = (\<lambda>i. key (xs ! i)) ` {0..<length xs}"
  proof (intro set_eqI iffI)
    fix k
    assume "k \<in> dom (contents xs)"
    then show "k \<in> (\<lambda>i. key (xs ! i)) ` {0..<length xs}"
      by (auto simp: contents_def dest!: slot_of_SomeD)
  next
    fix k
    assume "k \<in> (\<lambda>i. key (xs ! i)) ` {0..<length xs}"
    then show "k \<in> dom (contents xs)"
      using slot_ofI [OF assms(1)] used by (auto simp: contents_def)
  qed
  moreover have "inj_on (\<lambda>i. key (xs ! i)) {0..<length xs}"
    using assms(1) used by (auto simp: inj_on_def unique_keys_def)
  ultimately show ?thesis by (simp add: card_image)
qed

text \<open>A table with a free slot holds fewer keys than it has slots.\<close>

lemma free_slot_room:
  assumes "find_index (\<lambda>s. \<not> used s) xs = Some i"
  shows "card (dom (contents xs)) < length xs"
proof -
  have i: "i < length xs" "\<not> used (xs ! i)" using find_index_SomeD [OF assms] by simp_all
  have "dom (contents xs) \<subseteq> (\<lambda>i. key (xs ! i)) ` ({0..<length xs} - {i})"
  proof
    fix k
    assume "k \<in> dom (contents xs)"
    then obtain j where "j < length xs" "used (xs ! j)" "k = key (xs ! j)"
      by (auto simp: contents_def dest!: slot_of_SomeD)
    moreover have "j \<noteq> i" using i(2) calculation(2) by blast
    ultimately show "k \<in> (\<lambda>i. key (xs ! i)) ` ({0..<length xs} - {i})" by (intro image_eqI) auto
  qed
  then have "card (dom (contents xs)) \<le> card ({0..<length xs} - {i})"
    by (meson card_image_le card_mono finite_Diff finite_atLeastLessThan finite_imageI le_trans)
  also have "\<dots> < length xs" using i by simp
  finally show ?thesis .
qed

text \<open>Clearing every entry that satisfies a predicate.\<close>

lemma clear_entries:
  fixes P :: "'a \<Rightarrow> bool"
  assumes "unique_keys xs"
  defines "ys \<equiv> map (\<lambda>s. if used s \<and> P s then blank else s) xs"
  shows "unique_keys ys"
    and "contents ys k = (case contents xs k of None \<Rightarrow> None | Some s \<Rightarrow> if P s then None else Some s)"
proof -
  show u: "unique_keys ys"
    using assms(1) blank_unused unfolding unique_keys_def ys_def by (auto split: if_splits)
  have ys: "contents ys k = Some v \<longleftrightarrow>
      (\<exists>i < length xs. used (xs ! i) \<and> key (xs ! i) = k \<and> xs ! i = v) \<and> \<not> P v" for v
    unfolding contents_eq_Some_iff [OF u] using blank_unused by (auto simp: ys_def split: if_splits)
  then have eq: "contents ys k = Some v \<longleftrightarrow> contents xs k = Some v \<and> \<not> P v" for v
    by (simp only: contents_eq_Some_iff [OF assms(1)])
  show "contents ys k = (case contents xs k of None \<Rightarrow> None | Some s \<Rightarrow> if P s then None else Some s)"
  proof (cases "contents ys k")
    case None
    then have "contents xs k = Some v \<Longrightarrow> P v" for v using eq [of v] by simp
    with None show ?thesis by (simp split: option.split)
  next
    case (Some v)
    with eq [of v] show ?thesis by simp
  qed
qed

end

end
