(* ===== verification/Command_Pending.thy ===== *)
theory Command_Pending
  imports Quest_System Keyed_Table Command_Result Scenehub_Events
begin

text \<open>
  Commands that wait for the result of a device (\<open>command_executor/command_executor_result.c\<close>): 24
  slots searched by request id, each with a deadline.  The current time is an argument.
\<close>

definition COMMAND_EXECUTOR_MAX_PENDING :: nat where "COMMAND_EXECUTOR_MAX_PENDING = 24"
definition COMMAND_EXECUTOR_REQUEST_ID_MAX_LEN :: nat where "COMMAND_EXECUTOR_REQUEST_ID_MAX_LEN = 48"
definition COMMAND_EXECUTOR_COMMAND_MAX_LEN :: nat where "COMMAND_EXECUTOR_COMMAND_MAX_LEN = 48"
definition QUEST_EVENT_SOURCE_ID_MAX_LEN :: nat where "QUEST_EVENT_SOURCE_ID_MAX_LEN = 32"

record ce_pending =
  pe_in_use :: bool
  pe_deadline_ms :: u64
  pe_request_id :: string
  pe_source_id :: string
  pe_command :: string

definition ce_pending_zero :: ce_pending where
  "ce_pending_zero = \<lparr>pe_in_use = False, pe_deadline_ms = 0, pe_request_id = [], pe_source_id = [],
     pe_command = []\<rparr>"

definition pending_table_zero :: "ce_pending list" where
  "pending_table_zero = replicate COMMAND_EXECUTOR_MAX_PENDING ce_pending_zero"

text \<open>The comparison of times is on the signed difference.\<close>

definition ce_time_reached :: "u64 \<Rightarrow> u64 \<Rightarrow> bool" where
  "ce_time_reached now_ms deadline_ms \<longleftrightarrow> deadline_ms > 0 \<and> sint (now_ms - deadline_ms) \<ge> 0"

definition command_executor_track_pending ::
  "string \<Rightarrow> string \<Rightarrow> string \<Rightarrow> u32 \<Rightarrow> u64 \<Rightarrow> ce_pending list \<Rightarrow> esp_err \<times> ce_pending list" where
  "command_executor_track_pending request_id source_id command timeout_ms now_ms t =
     (if request_id = [] \<or> source_id = [] then (ESP_ERR_INVALID_ARG, t)
      else if list_ex (\<lambda>s. pe_in_use s \<and> pe_request_id s = request_id) t then (ESP_ERR_INVALID_STATE, t)
      else case find_index (\<lambda>s. \<not> pe_in_use s) t of
             None \<Rightarrow> (ESP_ERR_NO_MEM, t)
           | Some i \<Rightarrow> (ESP_OK, t[i := \<lparr>pe_in_use = True,
               pe_deadline_ms = now_ms + (if timeout_ms \<noteq> 0 then ucast timeout_ms
                                          else ucast QUEST_DEVICE_COMMAND_TIMEOUT_DEFAULT_MS),
               pe_request_id = quest_str_copy COMMAND_EXECUTOR_REQUEST_ID_MAX_LEN request_id,
               pe_source_id = quest_str_copy QUEST_EVENT_SOURCE_ID_MAX_LEN source_id,
               pe_command = quest_str_copy COMMAND_EXECUTOR_COMMAND_MAX_LEN command\<rparr>]))"

definition command_executor_clear_pending :: "string \<Rightarrow> ce_pending list \<Rightarrow> ce_pending list" where
  "command_executor_clear_pending request_id t =
     (if request_id = [] then t
      else case find_index (\<lambda>s. pe_in_use s \<and> pe_request_id s = request_id) t of
             None \<Rightarrow> t | Some i \<Rightarrow> t[i := ce_pending_zero])"

definition command_executor_cancel_request :: "string \<Rightarrow> ce_pending list \<Rightarrow> ce_pending list" where
  "command_executor_cancel_request request_id t = command_executor_clear_pending request_id t"

definition command_executor_on_event :: "scenehub_event \<Rightarrow> ce_pending list \<Rightarrow> ce_pending list" where
  "command_executor_on_event message t =
     (if \<not> scenehub_event_is_device_control_result message then t
      else if \<not> scenehub_command_result_is_terminal (ev_payload message) then t
      else case ev_data message of
             PAYLOAD_DEVICE_CONTROL d \<Rightarrow> command_executor_clear_pending (dc_action_id d) t
           | _ \<Rightarrow> t)"

text \<open>The scan of \<open>command_executor_poll_timeouts\<close>; at most \<open>room\<close> commands expire.\<close>

fun expire_pending :: "u64 \<Rightarrow> nat \<Rightarrow> ce_pending list \<Rightarrow> (string \<times> string) list \<times> ce_pending list" where
  "expire_pending now_ms room [] = ([], [])"
| "expire_pending now_ms room (s # t) =
     (if room = 0 then ([], s # t)
      else if \<not> pe_in_use s \<or> \<not> ce_time_reached now_ms (pe_deadline_ms s)
      then (let (es, t') = expire_pending now_ms room t in (es, s # t'))
      else let (es, t') = expire_pending now_ms (room - 1) t
           in ((quest_str_copy QUEST_EVENT_SOURCE_ID_MAX_LEN (pe_source_id s),
                quest_str_copy COMMAND_EXECUTOR_REQUEST_ID_MAX_LEN (pe_request_id s)) # es,
               ce_pending_zero # t'))"

text \<open>\<open>None\<close> is a result event that could not be made, which is left zeroed.\<close>

definition timeout_event :: "u64 \<Rightarrow> string \<times> string \<Rightarrow> scenehub_event option" where
  "timeout_event now_ms = (\<lambda>(source_id, request_id).
     case scenehub_event_make_device_control_result source_id request_id
            ''timeout'' now_ms of
       Inl _ \<Rightarrow> None | Inr e \<Rightarrow> Some e)"

definition command_executor_poll_timeouts ::
  "nat \<Rightarrow> u64 \<Rightarrow> ce_pending list \<Rightarrow> scenehub_event option list \<times> ce_pending list" where
  "command_executor_poll_timeouts max_events now_ms t =
     (let (es, t') = expire_pending now_ms max_events t in (map (timeout_event now_ms) es, t'))"

definition command_executor_next_timeout_deadline_ms :: "ce_pending list \<Rightarrow> u64" where
  "command_executor_next_timeout_deadline_ms t =
     foldl (\<lambda>best s. if \<not> pe_in_use s \<or> pe_deadline_ms s = 0 then best
                     else if best = 0 \<or> pe_deadline_ms s < best then pe_deadline_ms s else best) 0 t"

definition command_executor_reset_pending :: "ce_pending list \<Rightarrow> ce_pending list" where
  "command_executor_reset_pending t = pending_table_zero"

section \<open>The table is a bounded map\<close>

interpretation pending: keyed_table pe_in_use pe_request_id ce_pending_zero
  by unfold_locales (simp add: ce_pending_zero_def)

abbreviation awaited :: "ce_pending list \<Rightarrow> string \<rightharpoonup> ce_pending" where
  "awaited \<equiv> pending.contents"

definition entry_ok :: "ce_pending \<Rightarrow> bool" where
  "entry_ok s \<longleftrightarrow> pe_request_id s \<noteq> [] \<and> length (pe_request_id s) < COMMAND_EXECUTOR_REQUEST_ID_MAX_LEN \<and>
     pe_source_id s \<noteq> [] \<and> length (pe_source_id s) < QUEST_EVENT_SOURCE_ID_MAX_LEN"

definition pending_ok :: "ce_pending list \<Rightarrow> bool" where
  "pending_ok t \<longleftrightarrow> length t = COMMAND_EXECUTOR_MAX_PENDING \<and> pending.unique_keys t \<and>
     (\<forall>s \<in> set t. pe_in_use s \<longrightarrow> entry_ok s)"

inductive pending_reachable :: "ce_pending list \<Rightarrow> bool" where
  pending_start: "pending_reachable pending_table_zero"
| pending_track: "pending_reachable t \<Longrightarrow> length request_id < COMMAND_EXECUTOR_REQUEST_ID_MAX_LEN \<Longrightarrow>
    pending_reachable (snd (command_executor_track_pending request_id source_id command timeout_ms now_ms t))"
| pending_cancel: "pending_reachable t \<Longrightarrow> pending_reachable (command_executor_cancel_request request_id t)"
| pending_event: "pending_reachable t \<Longrightarrow> pending_reachable (command_executor_on_event message t)"
| pending_poll: "pending_reachable t \<Longrightarrow>
    pending_reachable (snd (command_executor_poll_timeouts max_events now_ms t))"
| pending_reset: "pending_reachable t \<Longrightarrow> pending_reachable (command_executor_reset_pending t)"

lemma pending_limits:
  "COMMAND_EXECUTOR_MAX_PENDING = 24" "COMMAND_EXECUTOR_REQUEST_ID_MAX_LEN = 48"
  "QUEST_EVENT_SOURCE_ID_MAX_LEN = 32"
  by (simp_all add: COMMAND_EXECUTOR_MAX_PENDING_def COMMAND_EXECUTOR_REQUEST_ID_MAX_LEN_def
      QUEST_EVENT_SOURCE_ID_MAX_LEN_def)

lemma pending_zero_unused [simp]: "\<not> pe_in_use ce_pending_zero"
  by (simp add: ce_pending_zero_def)

lemma pending_ok_zero: "pending_ok pending_table_zero"
  by (simp add: pending_ok_def pending_table_zero_def pending.unique_blank)

lemma quest_str_copy_nonempty: "1 < n \<Longrightarrow> s \<noteq> [] \<Longrightarrow> quest_str_copy n s \<noteq> []"
  by (simp add: quest_str_copy_def)

definition tracked :: "string \<Rightarrow> string \<Rightarrow> string \<Rightarrow> u32 \<Rightarrow> u64 \<Rightarrow> ce_pending" where
  "tracked request_id source_id command timeout_ms now_ms =
     \<lparr>pe_in_use = True,
      pe_deadline_ms = now_ms + ucast (if timeout_ms \<noteq> 0 then timeout_ms
                                       else QUEST_DEVICE_COMMAND_TIMEOUT_DEFAULT_MS),
      pe_request_id = request_id, pe_source_id = quest_str_copy QUEST_EVENT_SOURCE_ID_MAX_LEN source_id,
      pe_command = quest_str_copy COMMAND_EXECUTOR_COMMAND_MAX_LEN command\<rparr>"

definition abs_track ::
  "string \<Rightarrow> string \<Rightarrow> ce_pending \<Rightarrow> (string \<rightharpoonup> ce_pending) \<Rightarrow> esp_err \<times> (string \<rightharpoonup> ce_pending)" where
  "abs_track request_id source_id e m =
     (if request_id = [] \<or> source_id = [] then (ESP_ERR_INVALID_ARG, m)
      else if request_id \<in> dom m then (ESP_ERR_INVALID_STATE, m)
      else if card (dom m) = COMMAND_EXECUTOR_MAX_PENDING then (ESP_ERR_NO_MEM, m)
      else (ESP_OK, m(request_id \<mapsto> e)))"

lemma awaited_dom: "list_ex (\<lambda>s. pe_in_use s \<and> pe_request_id s = k) t \<longleftrightarrow> k \<in> dom (awaited t)"
proof (cases "pending.slot_of k t")
  case None
  then show ?thesis
    by (auto simp: pending.contents_def list_ex_iff in_set_conv_nth dest: pending.slot_of_NoneD)
next
  case (Some i)
  with pending.slot_of_SomeD [OF Some] show ?thesis
    by (auto simp: pending.contents_def list_ex_iff intro!: bexI [of _ "t ! i"])
qed

lemma track_refines:
  fixes source_id command :: string and timeout_ms :: u32 and now_ms :: u64
  assumes "pending_ok t" and "length request_id < COMMAND_EXECUTOR_REQUEST_ID_MAX_LEN"
  defines "r \<equiv> command_executor_track_pending request_id source_id command timeout_ms now_ms t"
  shows "(fst r, awaited (snd r)) =
      abs_track request_id source_id (tracked request_id source_id command timeout_ms now_ms) (awaited t)"
    and "pending_ok (snd r)"
proof -
  let ?e = "tracked request_id source_id command timeout_ms now_ms"
  have u: "pending.unique_keys t" and len: "length t = COMMAND_EXECUTOR_MAX_PENDING"
    using assms(1) by (simp_all add: pending_ok_def)
  have full: "card (dom (awaited t)) = COMMAND_EXECUTOR_MAX_PENDING \<longleftrightarrow> find_index (\<lambda>s. \<not> pe_in_use s) t = None"
    using pending.full_table [OF u] pending.free_slot_room [of t] len by fastforce
  have "(fst r, awaited (snd r)) = abs_track request_id source_id ?e (awaited t) \<and> pending_ok (snd r)"
  proof (cases "request_id = [] \<or> source_id = [] \<or> request_id \<in> dom (awaited t) \<or>
      find_index (\<lambda>s. \<not> pe_in_use s) t = None")
    case True
    then show ?thesis using assms(1) full
      by (auto simp: r_def command_executor_track_pending_def abs_track_def awaited_dom)
  next
    case False
    then obtain i where i: "find_index (\<lambda>s. \<not> pe_in_use s) t = Some i" by blast
    note s = find_index_SomeD [OF i]
    have r: "r = (ESP_OK, t[i := ?e])" using False i assms(2)
      by (simp add: r_def command_executor_track_pending_def awaited_dom tracked_def)
    have slot: "pending.slot_of (pe_request_id ?e) t = None"
      using False by (auto simp: tracked_def pending.contents_def)
    have "entry_ok ?e" using False assms(2)
      by (simp add: entry_ok_def tracked_def quest_str_copy_length quest_str_copy_nonempty pending_limits)
    moreover have "pe_in_use ?e" "pe_request_id ?e = request_id" by (simp_all add: tracked_def)
    moreover note pending.write_entry [OF u, of i ?e]
    ultimately show ?thesis using assms(1) False s slot r full i
      by (auto simp: abs_track_def pending_ok_def dest!: set_update_subset_insert [THEN subsetD])
  qed
  then show "(fst r, awaited (snd r)) = abs_track request_id source_id ?e (awaited t)" "pending_ok (snd r)"
    by simp_all
qed

lemma clear_refines:
  assumes "pending_ok t"
  shows "awaited (command_executor_clear_pending request_id t) = (awaited t)(request_id := None)"
    and "pending_ok (command_executor_clear_pending request_id t)"
proof -
  have u: "pending.unique_keys t" using assms by (simp add: pending_ok_def)
  have nil: "awaited t [] = None"
    using assms pending.contents_eq_Some_iff [OF u, of "[]"]
    by (auto simp: pending_ok_def entry_ok_def) (metis nth_mem not_Some_eq)
  have "awaited (command_executor_clear_pending request_id t) = (awaited t)(request_id := None) \<and>
    pending_ok (command_executor_clear_pending request_id t)"
  proof (cases "request_id = [] \<or> pending.slot_of request_id t = None")
    case True
    then have "awaited t request_id = None" using nil by (auto simp: pending.contents_def)
    then show ?thesis using True assms
      by (auto simp: command_executor_clear_pending_def pending.slot_of_def fun_upd_idem)
  next
    case False
    then obtain i where i: "pending.slot_of request_id t = Some i" by blast
    with False have "command_executor_clear_pending request_id t = t[i := ce_pending_zero]"
      by (simp add: command_executor_clear_pending_def pending.slot_of_def)
    then show ?thesis using pending.clear_entry [OF u i] assms
      by (auto simp: pending_ok_def dest!: set_update_subset_insert [THEN subsetD])
  qed
  then show "awaited (command_executor_clear_pending request_id t) = (awaited t)(request_id := None)"
    "pending_ok (command_executor_clear_pending request_id t)" by simp_all
qed

section \<open>Time-outs\<close>

definition overdue :: "u64 \<Rightarrow> ce_pending \<Rightarrow> bool" where
  "overdue now_ms s \<longleftrightarrow> ce_time_reached now_ms (pe_deadline_ms s)"

definition expired_ids :: "ce_pending \<Rightarrow> string \<times> string" where
  "expired_ids s = (quest_str_copy QUEST_EVENT_SOURCE_ID_MAX_LEN (pe_source_id s),
     quest_str_copy COMMAND_EXECUTOR_REQUEST_ID_MAX_LEN (pe_request_id s))"

abbreviation late :: "u64 \<Rightarrow> ce_pending list \<Rightarrow> ce_pending list" where
  "late now_ms t \<equiv> filter (\<lambda>s. pe_in_use s \<and> overdue now_ms s) t"

text \<open>One poll reports the first overdue commands and clears their slots.\<close>

lemma expire_first:
  assumes "distinct (map pe_request_id (filter pe_in_use t))"
  shows "expire_pending now_ms room t = (map expired_ids (take room (late now_ms t)),
    map (\<lambda>s. if pe_in_use s \<and> pe_request_id s \<in> pe_request_id ` set (take room (late now_ms t))
             then ce_pending_zero else s) t)"
  using assms
proof (induction t arbitrary: room)
  case (Cons s t)
  show ?case
  proof (cases "room > 0 \<and> pe_in_use s \<and> overdue now_ms s")
    case True
    have "pe_request_id s \<notin> pe_request_id ` set (filter pe_in_use t)" using Cons.prems True by simp
    then have ids: "pe_request_id x \<noteq> pe_request_id s" if "x \<in> set t" "pe_in_use x" for x
      using that by (metis (mono_tags, lifting) filter_set image_eqI mem_Collect_eq set_filter)
    have "pe_in_use x \<Longrightarrow> x \<in> set t \<Longrightarrow>
        pe_request_id x \<in> pe_request_id ` insert s A \<longleftrightarrow> pe_request_id x \<in> pe_request_id ` A" for x A
      using ids by auto
    then show ?thesis
      using True Cons by (cases room) (auto simp: overdue_def expired_ids_def cong: map_cong)
  next
    case False
    show ?thesis
    proof (cases "room = 0")
      case False
      have "pe_request_id s \<notin> pe_request_id ` set (take room (late now_ms t))" if "pe_in_use s"
        using Cons.prems that by (force dest: in_set_takeD)
      moreover have "distinct (map pe_request_id (filter pe_in_use t))" using Cons.prems by (simp split: if_splits)
      ultimately show ?thesis
        using \<open>\<not> (room > 0 \<and> pe_in_use s \<and> overdue now_ms s)\<close> False Cons.IH by (auto simp: overdue_def)
    qed (simp add: map_idI)
  qed
qed simp

lemma expire_pending_ok:
  "\<forall>s \<in> set t. pe_in_use s \<longrightarrow> entry_ok s \<Longrightarrow>
   length (snd (expire_pending now_ms room t)) = length t \<and>
   (\<forall>i < length t. snd (expire_pending now_ms room t) ! i = t ! i \<or>
      snd (expire_pending now_ms room t) ! i = ce_pending_zero)"
proof (induction t arbitrary: room)
  case (Cons s t)
  have IH: "length (snd (expire_pending now_ms r t)) = length t \<and>
    (\<forall>i < length t. snd (expire_pending now_ms r t) ! i = t ! i \<or>
      snd (expire_pending now_ms r t) ! i = ce_pending_zero)" for r
    using Cons by simp
  then show ?case by (auto simp: case_prod_beta Let_def nth_Cons split: nat.split)
qed simp

lemma poll_keeps_ok:
  assumes "pending_ok t"
  shows "pending_ok (snd (command_executor_poll_timeouts max_events now_ms t))"
proof -
  let ?t = "snd (expire_pending now_ms max_events t)"
  have ents: "\<forall>s \<in> set t. pe_in_use s \<longrightarrow> entry_ok s" using assms by (simp add: pending_ok_def)
  note e = expire_pending_ok [OF ents, of now_ms max_events]
  have u: "pending.unique_keys ?t"
    unfolding pending.unique_keys_def
  proof (intro allI impI)
    fix i j
    assume "i < length ?t" "j < length ?t" "pe_in_use (?t ! i)" "pe_in_use (?t ! j)"
      "pe_request_id (?t ! i) = pe_request_id (?t ! j)"
    moreover from this have "?t ! i = t ! i" "?t ! j = t ! j" using e by auto
    ultimately show "i = j" using assms e unfolding pending_ok_def pending.unique_keys_def by simp
  qed
  have "entry_ok s" if s: "s \<in> set ?t" "pe_in_use s" for s
  proof -
    obtain i where i: "i < length t" "s = ?t ! i" using s(1) e unfolding in_set_conv_nth by auto
    with e have "s = t ! i \<or> s = ce_pending_zero" by blast
    with s(2) have "s = t ! i" by auto
    with i(1) have "s \<in> set t" by simp
    with ents s(2) show ?thesis by blast
  qed
  then show ?thesis using u e assms
    by (simp add: command_executor_poll_timeouts_def case_prod_beta Let_def pending_ok_def)
qed

lemma event_keeps_ok: "pending_ok t \<Longrightarrow> pending_ok (command_executor_on_event message t)"
  by (simp add: command_executor_on_event_def clear_refines(2) split: scenehub_event_data.split)

lemma pending_reachable_ok: "pending_reachable t \<Longrightarrow> pending_ok t"
proof (induction rule: pending_reachable.induct)
  case (pending_track t request_id source_id command timeout_ms now_ms)
  then show ?case by (simp only: track_refines(2))
qed (simp_all only: pending_ok_zero clear_refines(2) poll_keeps_ok event_keeps_ok
    command_executor_reset_pending_def command_executor_cancel_request_def)

text \<open>The request a result event answers.\<close>

definition result_request :: "scenehub_event \<Rightarrow> string" where
  "result_request e = (case ev_data e of PAYLOAD_DEVICE_CONTROL d \<Rightarrow> dc_action_id d | _ \<Rightarrow> [])"

lemma timeout_event_ok:
  assumes "entry_ok s"
  shows "\<exists>e. timeout_event now_ms (expired_ids s) = Some e \<and> scenehub_event_is_valid e \<and>
    scenehub_event_is_device_control_result e \<and> ev_payload e = ''timeout'' \<and>
    result_request e = pe_request_id s"
  using assms
  by (simp add: timeout_event_def expired_ids_def entry_ok_def event_make_defs event_class_defs result_request_def
      scenehub_event_matches_action_def SCENEHUB_EVENT_DEVICE_ID_MAX_LEN_def SCENEHUB_EVENT_ACTION_ID_MAX_LEN_def
      pending_limits)

lemma distinct_request_ids:
  assumes "pending.unique_keys t"
  shows "distinct (map pe_request_id (filter (\<lambda>s. pe_in_use s \<and> P s) t))"
  using assms
proof (induction t)
  case (Cons s t)
  have "pending.unique_keys t"
    unfolding pending.unique_keys_def
  proof (intro allI impI)
    fix i j
    assume "i < length t" "j < length t" "pe_in_use (t ! i)" "pe_in_use (t ! j)"
      "pe_request_id (t ! i) = pe_request_id (t ! j)"
    then show "i = j"
      using Cons.prems [unfolded pending.unique_keys_def, rule_format, of "Suc i" "Suc j"] by simp
  qed
  moreover have "pe_request_id s \<noteq> pe_request_id x" if x: "x \<in> set t" "pe_in_use x" "pe_in_use s" for x
  proof
    assume eq: "pe_request_id s = pe_request_id x"
    obtain i where "i < length t" "x = t ! i" using x(1) by (auto simp: in_set_conv_nth)
    with Cons.prems [unfolded pending.unique_keys_def, rule_format, of 0 "Suc i"] x eq show False by simp
  qed
  ultimately show ?case using Cons.IH by auto
qed simp

lemma distinct_singleton_list: "distinct xs \<Longrightarrow> set xs = {x} \<Longrightarrow> xs = [x]"
  by (cases xs; cases "tl xs") auto

section \<open>Properties\<close>

text \<open>
  C34: the table of pending commands is a bounded map from request ids to entries.  In every
  reachable table tracking a command is insertion into that map: an empty id is refused, an id that
  already waits is ESP_ERR_INVALID_STATE, a 25th command is ESP_ERR_NO_MEM and nothing else is;
  clearing removes exactly the given id.
\<close>

theorem pending_refines_map:
  assumes "pending_reachable t" and "length request_id < COMMAND_EXECUTOR_REQUEST_ID_MAX_LEN"
    and "command_executor_track_pending request_id source_id command timeout_ms now_ms t = (err, t')"
  shows "(err, awaited t') =
      abs_track request_id source_id (tracked request_id source_id command timeout_ms now_ms) (awaited t) \<and>
    awaited (command_executor_clear_pending k t) = (awaited t)(k := None)"
  using track_refines(1) [OF pending_reachable_ok [OF assms(1)] assms(2), of source_id command timeout_ms now_ms]
    clear_refines(1) [OF pending_reachable_ok [OF assms(1)]] assms(3) by simp

theorem pending_refines_map_witness:
  "awaited (command_executor_clear_pending ''req-1''
     (snd (command_executor_track_pending ''req-1'' ''lamp'' ''on'' 500 1000 pending_table_zero))) = Map.empty"
proof -
  let ?r = "command_executor_track_pending ''req-1'' ''lamp'' ''on'' 500 1000 pending_table_zero"
  have z: "awaited pending_table_zero = Map.empty"
    by (simp add: pending_table_zero_def pending.contents_blank)
  have l: "length ''req-1'' < COMMAND_EXECUTOR_REQUEST_ID_MAX_LEN" by (simp add: pending_limits)
  have "(fst ?r, awaited (snd ?r)) =
      abs_track ''req-1'' ''lamp'' (tracked ''req-1'' ''lamp'' ''on'' 500 1000) (awaited pending_table_zero)"
    using pending_refines_map [OF pending_start l prod.collapse [symmetric]] by blast
  then have "awaited (snd ?r) = [''req-1'' \<mapsto> tracked ''req-1'' ''lamp'' ''on'' 500 1000]"
    by (simp add: abs_track_def z pending_limits)
  moreover have "pending_reachable (snd ?r)" by (rule pending_track [OF pending_start l])
  ultimately show ?thesis
    using pending_refines_map [OF _ l prod.collapse [symmetric], of "snd ?r" _ _ _ _ "''req-1''"] by auto
qed

text \<open>The polls of the runtime, at the given times.\<close>

fun poll_rounds :: "nat \<Rightarrow> u64 list \<Rightarrow> ce_pending list \<Rightarrow> scenehub_event option list \<times> ce_pending list" where
  "poll_rounds max_events [] t = ([], t)"
| "poll_rounds max_events (now_ms # nows) t =
     (let (es, t1) = command_executor_poll_timeouts max_events now_ms t; (fs, t2) = poll_rounds max_events nows t1
      in (es @ fs, t2))"

definition timeout_of :: "ce_pending \<Rightarrow> scenehub_event \<Rightarrow> bool" where
  "timeout_of s e \<longleftrightarrow> scenehub_event_is_valid e \<and> scenehub_event_is_device_control_result e \<and>
     ev_payload e = ''timeout'' \<and> result_request e = pe_request_id s"

lemma unique_distinct:
  "pending.unique_keys t \<Longrightarrow> distinct (map pe_request_id (filter pe_in_use t))"
  using distinct_request_ids [of t "\<lambda>_. True"] by simp

text \<open>A poll reports a part of the awaited commands, and misses an overdue one only when it is full.\<close>

lemma poll_reports:
  assumes "pending_ok t" and "command_executor_poll_timeouts max_events now_ms t = (events, t')"
  obtains ss es where "events = map Some es" and "list_all2 timeout_of ss es" and "length ss \<le> max_events"
    and "distinct (map pe_request_id ss)" and "\<forall>s \<in> set ss. awaited t (pe_request_id s) = Some s \<and> overdue now_ms s"
    and "awaited t' = awaited t |` (- pe_request_id ` set ss)" and "pending_ok t'"
    and "length (filter pe_in_use t') + length ss = length (filter pe_in_use t)"
    and "\<forall>k s. awaited t k = Some s \<and> overdue now_ms s \<longrightarrow> k \<in> pe_request_id ` set ss \<or> length ss = max_events"
proof -
  have u: "pending.unique_keys t" and ents: "\<And>s. s \<in> set t \<Longrightarrow> pe_in_use s \<Longrightarrow> entry_ok s"
    using assms(1) by (simp_all add: pending_ok_def)
  let ?ss = "take max_events (late now_ms t)" and ?ev = "\<lambda>s. the (timeout_event now_ms (expired_ids s))"
  let ?hit = "\<lambda>s. pe_request_id s \<in> pe_request_id ` set ?ss"
  have mem: "s \<in> set t \<and> pe_in_use s \<and> overdue now_ms s" if "s \<in> set ?ss" for s
    using that by (auto dest: in_set_takeD)
  have ev: "timeout_event now_ms (expired_ids s) = Some (?ev s)" "timeout_of s (?ev s)" if "s \<in> set ?ss" for s
    using timeout_event_ok [OF ents, of s now_ms] mem [OF that] by (auto simp: timeout_of_def)
  have poll: "events = map (timeout_event now_ms) (map expired_ids ?ss)"
    "t' = map (\<lambda>s. if pe_in_use s \<and> ?hit s then ce_pending_zero else s) t"
    using assms(2) expire_first [OF unique_distinct [OF u]] by (simp_all add: command_executor_poll_timeouts_def)
  have aw: "awaited t (pe_request_id s) = Some s" if "s \<in> set t" "pe_in_use s" for s
    using that by (auto simp: pending.contents_eq_Some_iff [OF u] in_set_conv_nth)
  have key: "pe_request_id s = k" "s \<in> set t" "pe_in_use s" if "awaited t k = Some s" for k s
    using that by (auto simp: pending.contents_eq_Some_iff [OF u])
  have dist: "distinct (map pe_request_id ?ss)"
    using distinct_request_ids [OF u, of "overdue now_ms"] by (simp add: take_map [symmetric])
  show thesis
  proof (rule that [of "map ?ev ?ss" ?ss])
    show "events = map Some (map ?ev ?ss)" using ev(1) by (simp add: poll(1))
    show "list_all2 timeout_of ?ss (map ?ev ?ss)" using ev(2) by (simp add: list_all2_map2 list.rel_refl_strong)
    show "\<forall>s \<in> set ?ss. awaited t (pe_request_id s) = Some s \<and> overdue now_ms s" using mem aw by blast
    show "awaited t' = awaited t |` (- pe_request_id ` set ?ss)"
      using key(1) by (auto simp: fun_eq_iff poll(2) pending.clear_entries(2) [OF u, of ?hit] restrict_map_def
          split: option.split)
    show "pending_ok t'" using poll_keeps_ok [OF assms(1), of max_events now_ms] assms(2) by simp
    have "filter pe_in_use t' = filter (\<lambda>s. pe_in_use s \<and> \<not> ?hit s) t"
    proof -
      have "filter pe_in_use (map (\<lambda>s. if pe_in_use s \<and> ?hit s then ce_pending_zero else s) xs) =
          filter (\<lambda>s. pe_in_use s \<and> \<not> ?hit s) xs" for xs
        by (induction xs) (auto simp: ce_pending_zero_def)
      then show ?thesis by (simp only: poll(2))
    qed
    moreover have "length (filter (\<lambda>s. pe_in_use s \<and> ?hit s) t) = length ?ss"
    proof -
      let ?hs = "filter (\<lambda>s. pe_in_use s \<and> ?hit s) t"
      have "set (map pe_request_id ?hs) = set (map pe_request_id ?ss)" (is "?A = ?B")
      proof
        show "?A \<subseteq> ?B" by auto
        show "?B \<subseteq> ?A"
        proof
          fix k assume "k \<in> ?B"
          then obtain s where "s \<in> set ?ss" "k = pe_request_id s" by auto
          with mem [of s] show "k \<in> ?A" by auto
        qed
      qed
      then show ?thesis
        using distinct_card [OF dist] distinct_card [OF distinct_request_ids [OF u, of ?hit]] by simp
    qed
    ultimately show "length (filter pe_in_use t') + length ?ss = length (filter pe_in_use t)"
      using sum_length_filter_compl [of ?hit "filter pe_in_use t"] by (simp add: conj_commute)
    show "\<forall>k s. awaited t k = Some s \<and> overdue now_ms s \<longrightarrow> k \<in> pe_request_id ` set ?ss \<or> length ?ss = max_events"
    proof (intro allI impI)
      fix k s assume a: "awaited t k = Some s \<and> overdue now_ms s"
      then have s: "s \<in> set (late now_ms t)" "pe_request_id s = k" using key [of k s] by auto
      show "k \<in> pe_request_id ` set ?ss \<or> length ?ss = max_events"
      proof (cases "length (late now_ms t) \<le> max_events")
        case True
        then have "?ss = late now_ms t" by simp
        with s show ?thesis by (metis image_eqI)
      qed simp
    qed
  qed (simp_all add: dist)
qed

lemma reported_requests: "list_all2 timeout_of ss es \<Longrightarrow> map result_request es = map pe_request_id ss"
  by (induction rule: list_all2_induct) (simp_all add: timeout_of_def)

text \<open>Several polls: what they report, and that a command which stays overdue misses only full polls.\<close>

lemma rounds_report:
  assumes "pending_ok t" and "poll_rounds max_events nows t = (events, t')"
  obtains ss es where "events = map Some es" and "list_all2 timeout_of ss es"
    and "distinct (map pe_request_id ss)"
    and "\<forall>s \<in> set ss. awaited t (pe_request_id s) = Some s \<and> (\<exists>now_ms \<in> set nows. overdue now_ms s)"
    and "awaited t' = awaited t |` (- pe_request_id ` set ss)"
    and "\<forall>k s. awaited t k = Some s \<and> (\<forall>now_ms \<in> set nows. overdue now_ms s) \<longrightarrow>
      k \<in> pe_request_id ` set ss \<or> max_events * length nows < length (filter pe_in_use t)"
  using assms
proof (induction nows arbitrary: t events t' thesis)
  case Nil
  have "length (filter pe_in_use t) > 0" if "awaited t k = Some s" for k s
    using that Nil.prems(2) by (auto simp: pending_ok_def pending.contents_eq_Some_iff filter_empty_conv)
  then show ?case using Nil.prems(1) [of "[]" "[]"] Nil.prems(3) by (auto simp: restrict_map_def)
next
  case (Cons now_ms nows)
  obtain ev1 t1 where p1: "command_executor_poll_timeouts max_events now_ms t = (ev1, t1)" by fastforce
  obtain ev2 t2 where p2: "poll_rounds max_events nows t1 = (ev2, t2)" by fastforce
  have r: "events = ev1 @ ev2" "t' = t2" using Cons.prems(3) by (simp_all add: p1 p2)
  obtain ss1 es1 where s1: "ev1 = map Some es1" "list_all2 timeout_of ss1 es1" "distinct (map pe_request_id ss1)"
    "\<forall>s \<in> set ss1. awaited t (pe_request_id s) = Some s \<and> overdue now_ms s"
    "awaited t1 = awaited t |` (- pe_request_id ` set ss1)" "pending_ok t1"
    "length (filter pe_in_use t1) + length ss1 = length (filter pe_in_use t)"
    "\<forall>k s. awaited t k = Some s \<and> overdue now_ms s \<longrightarrow> k \<in> pe_request_id ` set ss1 \<or> length ss1 = max_events"
    using poll_reports [OF Cons.prems(2) p1] by metis
  obtain ss2 es2 where s2: "ev2 = map Some es2" "list_all2 timeout_of ss2 es2" "distinct (map pe_request_id ss2)"
    "\<forall>s \<in> set ss2. awaited t1 (pe_request_id s) = Some s \<and> (\<exists>now_ms \<in> set nows. overdue now_ms s)"
    "awaited t2 = awaited t1 |` (- pe_request_id ` set ss2)"
    "\<forall>k s. awaited t1 k = Some s \<and> (\<forall>now_ms \<in> set nows. overdue now_ms s) \<longrightarrow>
      k \<in> pe_request_id ` set ss2 \<or> max_events * length nows < length (filter pe_in_use t1)"
    using Cons.IH [OF _ s1(6) p2] by metis
  have new: "pe_request_id s \<notin> pe_request_id ` set ss1" "awaited t (pe_request_id s) = Some s" if "s \<in> set ss2" for s
    using s2(4) that by (auto simp: s1(5) restrict_map_def split: if_splits)
  show ?case
  proof (rule Cons.prems(1) [of "es1 @ es2" "ss1 @ ss2"])
    show "list_all2 timeout_of (ss1 @ ss2) (es1 @ es2)" using s1(2) s2(2) by (rule list_all2_appendI)
    show "distinct (map pe_request_id (ss1 @ ss2))" 
    proof -
      have "pe_request_id ` set ss1 \<inter> pe_request_id ` set ss2 = {}"
        by (intro equals0I) (metis IntE imageE new(1))
      then show ?thesis using s1(3) s2(3) by simp
    qed
    show "awaited t' = awaited t |` (- pe_request_id ` set (ss1 @ ss2))"
      by (simp add: r s2(5) s1(5) image_Un Int_commute)
    show "\<forall>s \<in> set (ss1 @ ss2). awaited t (pe_request_id s) = Some s \<and> (\<exists>now_ms \<in> set (now_ms # nows). overdue now_ms s)"
      using s1(4) s2(4) new(2) by auto
    show "\<forall>k s. awaited t k = Some s \<and> (\<forall>now_ms \<in> set (now_ms # nows). overdue now_ms s) \<longrightarrow>
      k \<in> pe_request_id ` set (ss1 @ ss2) \<or> max_events * length (now_ms # nows) < length (filter pe_in_use t)"
    proof (intro allI impI)
      fix k s
      assume k: "awaited t k = Some s \<and> (\<forall>now_ms \<in> set (now_ms # nows). overdue now_ms s)"
      show "k \<in> pe_request_id ` set (ss1 @ ss2) \<or> max_events * length (now_ms # nows) < length (filter pe_in_use t)"
      proof (cases "k \<in> pe_request_id ` set ss1")
        case False
        then have "awaited t1 k = Some s" "length ss1 = max_events" using k s1(8) by (auto simp: s1(5))
        then show ?thesis using s2(6) k s1(7) by fastforce
      qed (simp add: image_Un)
    qed
  qed (simp_all add: r s1(1) s2(1))
qed

text \<open>
  C35: every command whose deadline has passed is reported exactly once.  Whatever number of events
  a poll may return, a series of polls reports no request twice and only requests that waited and
  were overdue at one of the polls, each by a valid command-result event with status timeout, and
  removes exactly those from the table.  When the polls together have room for all pending commands
  (six polls of four events, as the runtime polls), every command that is overdue throughout is
  among them.
\<close>

theorem timeouts_reported_once:
  assumes "pending_reachable t" and "poll_rounds max_events nows t = (events, t')"
  shows "\<exists>es. events = map Some es \<and> distinct (map result_request es) \<and>
    (\<forall>e \<in> set es. scenehub_event_is_valid e \<and> scenehub_event_is_device_control_result e \<and> ev_payload e = ''timeout'' \<and>
       (\<exists>s. awaited t (result_request e) = Some s \<and> (\<exists>now_ms \<in> set nows. ce_time_reached now_ms (pe_deadline_ms s)))) \<and>
    (\<forall>k. awaited t' k = (if k \<in> set (map result_request es) then None else awaited t k)) \<and>
    (COMMAND_EXECUTOR_MAX_PENDING \<le> max_events * length nows \<longrightarrow>
       (\<forall>k s. awaited t k = Some s \<and> (\<forall>now_ms \<in> set nows. ce_time_reached now_ms (pe_deadline_ms s)) \<longrightarrow>
          k \<in> set (map result_request es)))"
proof -
  have ok: "pending_ok t" by (rule pending_reachable_ok [OF assms(1)])
  obtain ss es where r: "events = map Some es" "list_all2 timeout_of ss es" "distinct (map pe_request_id ss)"
    "\<forall>s \<in> set ss. awaited t (pe_request_id s) = Some s \<and> (\<exists>now_ms \<in> set nows. overdue now_ms s)"
    "awaited t' = awaited t |` (- pe_request_id ` set ss)"
    "\<forall>k s. awaited t k = Some s \<and> (\<forall>now_ms \<in> set nows. overdue now_ms s) \<longrightarrow>
      k \<in> pe_request_id ` set ss \<or> max_events * length nows < length (filter pe_in_use t)"
    using rounds_report [OF ok assms(2)] by metis
  note req = reported_requests [OF r(2)]
  have es: "\<exists>s \<in> set ss. timeout_of s e" if "e \<in> set es" for e
    using r(2) that by (auto simp: list_all2_conv_all_nth in_set_conv_nth) (metis nth_mem)
  have "length (filter pe_in_use t) \<le> COMMAND_EXECUTOR_MAX_PENDING"
    using ok length_filter_le [of pe_in_use t] by (simp add: pending_ok_def)
  then have "\<forall>k s. awaited t k = Some s \<and> (\<forall>now_ms \<in> set nows. overdue now_ms s) \<longrightarrow> k \<in> set (map result_request es)"
    if "COMMAND_EXECUTOR_MAX_PENDING \<le> max_events * length nows"
    using r(6) that unfolding req by fastforce
  moreover have "\<forall>k. awaited t' k = (if k \<in> set (map result_request es) then None else awaited t k)"
    unfolding req by (simp add: r(5) restrict_map_def)
  moreover have "\<forall>e \<in> set es. scenehub_event_is_valid e \<and> scenehub_event_is_device_control_result e \<and>
      ev_payload e = ''timeout'' \<and> (\<exists>s. awaited t (result_request e) = Some s \<and> (\<exists>now_ms \<in> set nows. overdue now_ms s))"
  proof
    fix e assume "e \<in> set es"
    then obtain s where "s \<in> set ss" "timeout_of s e" using es by blast
    then show "scenehub_event_is_valid e \<and> scenehub_event_is_device_control_result e \<and>
      ev_payload e = ''timeout'' \<and> (\<exists>s. awaited t (result_request e) = Some s \<and> (\<exists>now_ms \<in> set nows. overdue now_ms s))"
      using r(4) by (auto simp: timeout_of_def)
  qed
  ultimately show ?thesis
    using r(1,3) unfolding overdue_def [symmetric] req [symmetric] by blast
qed

theorem timeouts_reported_once_witness:
  "\<exists>es. fst (poll_rounds 4 [2000, 2001, 2002, 2003, 2004, 2005]
     (snd (command_executor_track_pending ''req-1'' ''lamp'' ''on'' 500 1000 pending_table_zero))) = map Some es \<and>
   ''req-1'' \<in> set (map result_request es) \<and> distinct (map result_request es)"
proof -
  let ?t = "snd (command_executor_track_pending ''req-1'' ''lamp'' ''on'' 500 1000 pending_table_zero)"
    and ?nows = "[2000, 2001, 2002, 2003, 2004, 2005]"
  have l: "length ''req-1'' < COMMAND_EXECUTOR_REQUEST_ID_MAX_LEN" by (simp add: pending_limits)
  have z: "awaited pending_table_zero = Map.empty"
    by (simp add: pending_table_zero_def pending.contents_blank)
  have t: "awaited ?t ''req-1'' = Some (tracked ''req-1'' ''lamp'' ''on'' 500 1000)"
    using track_refines(1) [OF pending_ok_zero l, of "''lamp''" "''on''" 500 1000]
    by (simp add: abs_track_def z pending_limits)
  have m: "COMMAND_EXECUTOR_MAX_PENDING \<le> 4 * length ?nows" by (simp add: pending_limits)
  have late: "\<forall>now_ms \<in> set ?nows. ce_time_reached now_ms (pe_deadline_ms (tracked ''req-1'' ''lamp'' ''on'' 500 1000))"
    by code_simp
  show ?thesis
    using timeouts_reported_once [OF pending_track [OF pending_start l] prod.collapse [symmetric],
        of 4 ?nows "''lamp''" "''on''" 500 1000] t late m by blast
qed

end
