(* ===== verification/Quest_Device.thy ===== *)
theory Quest_Device
  imports Quest_System Keyed_Table
begin

text \<open>
  The catalogue of devices (\<open>quest_device/quest_device.c\<close>): 20 slots searched by device id, beside the
  four built-in devices.  The slots interpret \<open>keyed_table\<close>.  Events that a device describes only in
  its compact manifest are found by a parser of third-party JSON trees, which is the argument
  \<open>compact_event\<close>.
\<close>

definition DEVICE_SLOTS :: nat where "DEVICE_SLOTS = 20"

record device_slot =
  sl_in_use :: bool
  sl_device :: quest_device

record quest_devices =
  qs_slots :: "device_slot list"
  qs_generation :: u32

definition device_slot_zero :: device_slot where
  "device_slot_zero = \<lparr>sl_in_use = False, sl_device = quest_device_zero\<rparr>"

definition quest_devices_zero :: quest_devices where
  "quest_devices_zero = \<lparr>qs_slots = replicate DEVICE_SLOTS device_slot_zero, qs_generation = 0\<rparr>"

section \<open>Validity\<close>

definition system_device_id :: "string \<Rightarrow> bool" where
  "system_device_id device_id \<longleftrightarrow> device_id = QUEST_DEVICE_SYSTEM_AUDIO_ID \<or>
     device_id = QUEST_DEVICE_SYSTEM_RELAY_ID \<or> device_id = QUEST_DEVICE_SYSTEM_MOSFET_ID \<or>
     device_id = QUEST_DEVICE_SYSTEM_IO_ID"

definition qd_commands_have_duplicate_ids :: "quest_device \<Rightarrow> bool" where
  "qd_commands_have_duplicate_ids device \<longleftrightarrow> \<not> distinct (map qc_id (qd_commands device))"

definition qd_events_have_duplicate_ids :: "quest_device \<Rightarrow> bool" where
  "qd_events_have_duplicate_ids device \<longleftrightarrow> \<not> distinct (map qe_id (qd_events device))"

definition command_complete :: "quest_device_command \<Rightarrow> bool" where
  "command_complete cmd \<longleftrightarrow> qc_id cmd \<noteq> [] \<and> qc_label cmd \<noteq> [] \<and> qc_capability cmd \<noteq> [] \<and>
     qc_command cmd \<noteq> [] \<and> length (qc_params cmd) \<le> QUEST_DEVICE_MAX_COMMAND_PARAMS \<and>
     list_all (\<lambda>p. qp_key p \<noteq> [] \<and> qp_label p \<noteq> []) (qc_params cmd)"

definition event_complete :: "quest_device_event \<Rightarrow> bool" where
  "event_complete event \<longleftrightarrow> qe_id event \<noteq> [] \<and> qe_label event \<noteq> [] \<and> qe_capability event \<noteq> [] \<and>
     qe_event event \<noteq> []"

definition qd_device_valid :: "quest_device \<Rightarrow> bool" where
  "qd_device_valid device \<longleftrightarrow>
     qd_id device \<noteq> [] \<and> qd_name device \<noteq> [] \<and> qd_client_id device \<noteq> [] \<and>
     \<not> (qd_system_device device \<or> system_device_id (qd_id device)) \<and>
     length (qd_commands device) \<le> QUEST_DEVICE_MAX_COMMANDS \<and>
     length (qd_events device) \<le> QUEST_DEVICE_MAX_EVENTS \<and>
     \<not> qd_commands_have_duplicate_ids device \<and> \<not> qd_events_have_duplicate_ids device \<and>
     (qd_device_description_json device \<noteq> [] \<longrightarrow> qd_commands device = [] \<and> qd_events device = []) \<and>
     list_all command_complete (qd_commands device) \<and> list_all event_complete (qd_events device)"

section \<open>The table\<close>

definition qd_client_id_in_use_locked :: "string \<Rightarrow> string \<Rightarrow> device_slot list \<Rightarrow> bool" where
  "qd_client_id_in_use_locked client_id except_device_id slots \<longleftrightarrow> client_id \<noteq> [] \<and>
     list_ex (\<lambda>s. sl_in_use s \<and> \<not> (except_device_id \<noteq> [] \<and> qd_id (sl_device s) = except_device_id) \<and>
       qd_client_id (sl_device s) = client_id) slots"

definition qd_find_locked :: "string \<Rightarrow> device_slot list \<Rightarrow> nat option" where
  "qd_find_locked device_id slots =
     (if device_id = [] then None
      else find_index (\<lambda>s. sl_in_use s \<and> qd_id (sl_device s) = device_id) slots)"

definition qd_find_free_locked :: "device_slot list \<Rightarrow> nat option" where
  "qd_find_free_locked slots = find_index (\<lambda>s. \<not> sl_in_use s) slots"

definition quest_device_upsert :: "quest_device \<Rightarrow> quest_devices \<Rightarrow> esp_err \<times> quest_devices" where
  "quest_device_upsert device q =
     (if \<not> qd_device_valid device then (ESP_ERR_INVALID_ARG, q)
      else if qd_client_id_in_use_locked (qd_client_id device) (qd_id device) (qs_slots q)
      then (ESP_ERR_INVALID_ARG, q)
      else case (case qd_find_locked (qd_id device) (qs_slots q) of
                   Some i \<Rightarrow> Some i | None \<Rightarrow> qd_find_free_locked (qs_slots q)) of
             None \<Rightarrow> (ESP_ERR_NO_MEM, q)
           | Some i \<Rightarrow> (ESP_OK, q\<lparr>qs_slots := (qs_slots q)[i := \<lparr>sl_in_use = True, sl_device = device\<rparr>],
                                 qs_generation := qs_generation q + 1\<rparr>))"

definition quest_device_delete :: "string \<Rightarrow> quest_devices \<Rightarrow> esp_err \<times> quest_devices" where
  "quest_device_delete device_id q =
     (if device_id = [] \<or> system_device_id device_id then (ESP_ERR_INVALID_ARG, q)
      else case qd_find_locked device_id (qs_slots q) of
             None \<Rightarrow> (ESP_ERR_NOT_FOUND, q)
           | Some i \<Rightarrow> (ESP_OK, q\<lparr>qs_slots := (qs_slots q)[i := device_slot_zero],
                                 qs_generation := qs_generation q + 1\<rparr>))"

definition quest_device_get :: "string \<Rightarrow> quest_devices \<Rightarrow> esp_err + quest_device" where
  "quest_device_get device_id q =
     (if device_id = [] then Inl ESP_ERR_INVALID_ARG
      else if device_id = QUEST_DEVICE_SYSTEM_AUDIO_ID then Inr quest_device_fill_system_audio
      else if device_id = QUEST_DEVICE_SYSTEM_RELAY_ID then Inr quest_device_fill_system_relay
      else if device_id = QUEST_DEVICE_SYSTEM_MOSFET_ID then Inr quest_device_fill_system_mosfet
      else if device_id = QUEST_DEVICE_SYSTEM_IO_ID then Inr quest_device_fill_system_io
      else case qd_find_locked device_id (qs_slots q) of
             None \<Rightarrow> Inl ESP_ERR_NOT_FOUND | Some i \<Rightarrow> Inr (sl_device (qs_slots q ! i)))"

definition quest_device_get_command ::
  "string \<Rightarrow> string \<Rightarrow> quest_devices \<Rightarrow> esp_err + quest_device_command" where
  "quest_device_get_command device_id command_id q =
     (if command_id = [] \<or> device_id = [] then Inl ESP_ERR_INVALID_ARG
      else if device_id = QUEST_DEVICE_SYSTEM_AUDIO_ID then quest_device_system_audio_command command_id
      else if device_id = QUEST_DEVICE_SYSTEM_RELAY_ID then quest_device_system_relay_command command_id
      else if device_id = QUEST_DEVICE_SYSTEM_MOSFET_ID then quest_device_system_mosfet_command command_id
      else if device_id = QUEST_DEVICE_SYSTEM_IO_ID then quest_device_system_io_command command_id
      else case qd_find_locked device_id (qs_slots q) of
             None \<Rightarrow> Inl ESP_ERR_NOT_FOUND
           | Some i \<Rightarrow> lookup_command (sl_device (qs_slots q ! i)) command_id)"

definition quest_device_get_event ::
  "(string \<Rightarrow> string \<Rightarrow> esp_err + quest_device_event) \<Rightarrow> string \<Rightarrow> string \<Rightarrow> quest_devices \<Rightarrow>
   esp_err + quest_device_event" where
  "quest_device_get_event compact_event device_id event_id q =
     (if event_id = [] \<or> device_id = [] then Inl ESP_ERR_INVALID_ARG
      else if device_id = QUEST_DEVICE_SYSTEM_AUDIO_ID then quest_device_system_audio_event event_id
      else if device_id = QUEST_DEVICE_SYSTEM_RELAY_ID \<or> device_id = QUEST_DEVICE_SYSTEM_MOSFET_ID
      then Inl ESP_ERR_NOT_FOUND
      else if device_id = QUEST_DEVICE_SYSTEM_IO_ID then quest_device_system_io_event event_id
      else case qd_find_locked device_id (qs_slots q) of
             None \<Rightarrow> Inl ESP_ERR_NOT_FOUND
           | Some i \<Rightarrow>
               (let d = sl_device (qs_slots q ! i) in
                case find (\<lambda>e. qe_id e = event_id) (qd_events d) of
                  Some e \<Rightarrow> Inr e
                | None \<Rightarrow> (if qd_device_description_json d \<noteq> []
                           then compact_event (qd_device_description_json d) event_id
                           else Inl ESP_ERR_NOT_FOUND)))"

definition quest_device_list :: "nat \<Rightarrow> bool \<Rightarrow> quest_devices \<Rightarrow> esp_err \<times> nat \<times> quest_device list" where
  "quest_device_list max_count include_system q =
     (let all = map sl_device (filter sl_in_use (qs_slots q)) @
            (if include_system then [quest_device_fill_system_audio, quest_device_fill_system_relay,
               quest_device_fill_system_mosfet, quest_device_fill_system_io] else [])
      in (if length all \<le> max_count then ESP_OK else ESP_ERR_INVALID_SIZE, length all, take max_count all))"

definition quest_device_clear :: "quest_devices \<Rightarrow> quest_devices" where
  "quest_device_clear q = q\<lparr>qs_slots := replicate DEVICE_SLOTS device_slot_zero,
     qs_generation := qs_generation q + 1\<rparr>"

definition quest_device_replace_all :: "quest_device list \<Rightarrow> quest_devices \<Rightarrow> esp_err \<times> quest_devices" where
  "quest_device_replace_all items q =
     (if length items > DEVICE_SLOTS then (ESP_ERR_INVALID_ARG, q)
      else if \<not> list_all qd_device_valid items then (ESP_ERR_INVALID_ARG, q)
      else if \<not> (distinct (map qd_id items) \<and> distinct (map qd_client_id items)) then (ESP_ERR_INVALID_ARG, q)
      else (ESP_OK, q\<lparr>qs_slots := map (\<lambda>d. \<lparr>sl_in_use = True, sl_device = d\<rparr>) items @
              replicate (DEVICE_SLOTS - length items) device_slot_zero,
              qs_generation := qs_generation q + 1\<rparr>))"

section \<open>Both ways to a built-in command agree\<close>

lemma system_command_lookup:
  assumes "\<forall>(k, fill) \<in> set table. qc_id (fill quest_device_command_zero) = k"
    and "qd_commands d = map (\<lambda>fill. fill quest_device_command_zero) (map snd table)"
  shows "system_command table = lookup_command d"
proof (rule ext)
  fix x
  have "find (\<lambda>c. qc_id c = x) (map (\<lambda>fill. fill quest_device_command_zero) (map snd table)) =
      map_option (\<lambda>fill. fill quest_device_command_zero) (map_of table x)"
    using assms(1) by (induction table) (auto split: if_splits)
  then show "system_command table x = lookup_command d x"
    by (simp add: system_command_def lookup_command_def assms(2) split: option.split)
qed

lemmas system_fill_defs = system_device_def quest_device_fill_system_audio_def
  quest_device_fill_system_relay_def quest_device_fill_system_mosfet_def

lemmas system_id_defs = QUEST_DEVICE_SYSTEM_AUDIO_ID_def QUEST_DEVICE_SYSTEM_RELAY_ID_def
  QUEST_DEVICE_SYSTEM_MOSFET_ID_def QUEST_DEVICE_SYSTEM_IO_ID_def

lemmas qd_builder_defs = qd_system_command_set_policy_def add_param_def qd_system_mosfet_value_param_def
  qd_system_relay_channel_param_def qd_system_mosfet_channel_param_def

lemmas system_command_defs = qd_system_audio_play_command_def qd_system_audio_stop_command_def
  qd_system_audio_pause_command_def qd_system_audio_resume_command_def qd_system_audio_set_volume_command_def
  qd_system_relay_set_command_def qd_system_relay_pulse_command_def qd_system_relay_blink_command_def
  qd_system_relay_toggle_command_def qd_system_mosfet_set_command_def qd_system_mosfet_fade_command_def
  qd_system_mosfet_pulse_command_def qd_system_mosfet_blink_command_def qd_system_mosfet_breathe_command_def
  qd_system_mosfet_all_off_command_def qd_system_io_set_command_def qd_system_io_pulse_command_def
  qd_system_io_blink_command_def qd_system_io_toggle_command_def qd_system_io_get_state_command_def

lemma add_param_id [simp]:
  "qc_id (add_param ty opt k l c) = qc_id c" "qc_id (qd_system_mosfet_value_param k l c) = qc_id c"
  "qc_id (qd_system_relay_channel_param c) = qc_id c" "qc_id (qd_system_mosfet_channel_param c) = qc_id c"
  "qc_id (qd_system_command_set_policy m s cf r t d c) = qc_id c"
  by (simp_all add: qd_builder_defs)

lemma add_channel_commands [simp]: "qd_commands (add_channel_events ch d) = qd_commands d"
  by (simp add: add_channel_events_def qd_system_add_channel_event_def)

lemma io_commands: "qd_commands quest_device_fill_system_io =
  map (\<lambda>fill. fill quest_device_command_zero) [qd_system_io_set_command, qd_system_io_pulse_command,
    qd_system_io_blink_command, qd_system_io_toggle_command, qd_system_io_get_state_command]"
  by (simp add: quest_device_fill_system_io_def system_device_def)

lemma system_commands_agree:
  "quest_device_system_audio_command = lookup_command quest_device_fill_system_audio"
  "quest_device_system_relay_command = lookup_command quest_device_fill_system_relay"
  "quest_device_system_mosfet_command = lookup_command quest_device_fill_system_mosfet"
  "quest_device_system_io_command = lookup_command quest_device_fill_system_io"
  unfolding quest_device_system_audio_command_def quest_device_system_relay_command_def
    quest_device_system_mosfet_command_def quest_device_system_io_command_def
  by (rule system_command_lookup; simp add: system_fill_defs io_commands system_command_defs)+

definition channel_event :: "nat \<times> string \<times> string \<Rightarrow> quest_device_event" where
  "channel_event = (\<lambda>(ch, suffix, label). system_event (''ch'' @ channel_digit ch @ ''_'' @ suffix)
     (''IO '' @ channel_digit ch @ '' '' @ label) ''io'' (''io.ch'' @ channel_digit ch @ ''_'' @ suffix))"

lemma io_events: "qd_events quest_device_fill_system_io = map channel_event all_channel_events"
  by code_simp

lemma system_events_agree:
  "quest_device_system_audio_event = lookup_event quest_device_fill_system_audio"
  "quest_device_system_io_event = lookup_event quest_device_fill_system_io"
proof -
  show "quest_device_system_audio_event = lookup_event quest_device_fill_system_audio"
    by (rule ext) (auto simp: quest_device_system_audio_event_def lookup_event_def system_fill_defs system_event_def)
  show "quest_device_system_io_event = lookup_event quest_device_fill_system_io"
  proof (rule ext)
    fix x
    let ?P = "\<lambda>(ch, suffix, _). x = ''ch'' @ channel_digit ch @ ''_'' @ suffix"
    have f: "find (\<lambda>e. qe_id e = x) (map channel_event cs) = map_option channel_event (find ?P cs)" for cs
      by (induction cs) (auto simp: channel_event_def system_event_def)
    show "quest_device_system_io_event x = lookup_event quest_device_fill_system_io x"
    proof (cases "find ?P all_channel_events")
      case None
      then show ?thesis
        by (simp add: quest_device_system_io_event_def qd_system_get_channel_event_def lookup_event_def io_events f)
    next
      case (Some c)
      then have P: "?P c" by (auto simp: find_Some_iff)
      have "lookup_event quest_device_fill_system_io x = Inr (channel_event c)"
        by (simp only: lookup_event_def io_events f Some option.map option.case)
      moreover have "quest_device_system_io_event x = Inr (channel_event c)"
        unfolding quest_device_system_io_event_def qd_system_get_channel_event_def Some
        using P by (cases c) (simp add: channel_event_def)
      ultimately show ?thesis by simp
    qed
  qed
qed

text \<open>
  A device and its commands agree.  For every device id, built in or stored, the command that a
  lookup by device and command id returns is the one in the list of the device that a lookup of the
  device returns, and the lookup fails with "not found" exactly when that list has no such command;
  for the built-in devices with events the same holds for the events.
\<close>

theorem command_lookup_agrees:
  assumes "device_id \<noteq> []" and "command_id \<noteq> []"
  shows "quest_device_get_command device_id command_id q =
    (case quest_device_get device_id q of Inl err \<Rightarrow> Inl err | Inr d \<Rightarrow> lookup_command d command_id) \<and>
    (device_id = QUEST_DEVICE_SYSTEM_AUDIO_ID \<or> device_id = QUEST_DEVICE_SYSTEM_IO_ID \<longrightarrow>
      quest_device_get_event compact device_id command_id q =
      (case quest_device_get device_id q of Inl err \<Rightarrow> Inl err | Inr d \<Rightarrow> lookup_event d command_id))"
  using assms system_events_agree
  by (auto simp: quest_device_get_command_def quest_device_get_def quest_device_get_event_def
      system_commands_agree system_id_defs split: option.split)

theorem command_lookup_agrees_witness:
  "quest_device_get_command ''system_io'' ''pulse'' quest_devices_zero =
    (case quest_device_get ''system_io'' quest_devices_zero of
       Inl err \<Rightarrow> Inl err | Inr d \<Rightarrow> lookup_command d ''pulse'')"
  using command_lookup_agrees [of "''system_io''" "''pulse''" quest_devices_zero "\<lambda>_ _. Inl ESP_ERR_NOT_FOUND"]
  by simp

section \<open>The catalogue is a map with unique client ids\<close>

interpretation devices: keyed_table sl_in_use "\<lambda>s. qd_id (sl_device s)" device_slot_zero
  by unfold_locales (simp add: device_slot_zero_def)

definition catalogue :: "quest_devices \<Rightarrow> string \<rightharpoonup> quest_device" where
  "catalogue q k = map_option sl_device (devices.contents (qs_slots q) k)"

definition catalogue_ok :: "quest_devices \<Rightarrow> bool" where
  "catalogue_ok q \<longleftrightarrow> length (qs_slots q) = DEVICE_SLOTS \<and> devices.unique_keys (qs_slots q) \<and>
     (\<forall>k d. catalogue q k = Some d \<longrightarrow> qd_device_valid d \<and> qd_id d = k) \<and>
     (\<forall>k l d e. catalogue q k = Some d \<longrightarrow> catalogue q l = Some e \<longrightarrow>
        qd_client_id d = qd_client_id e \<longrightarrow> k = l)"

inductive catalogue_reachable :: "quest_devices \<Rightarrow> bool" where
  catalogue_start: "catalogue_reachable quest_devices_zero"
| catalogue_upsert: "catalogue_reachable q \<Longrightarrow> catalogue_reachable (snd (quest_device_upsert d q))"
| catalogue_delete: "catalogue_reachable q \<Longrightarrow> catalogue_reachable (snd (quest_device_delete k q))"
| catalogue_clear: "catalogue_reachable q \<Longrightarrow> catalogue_reachable (quest_device_clear q)"
| catalogue_replace: "catalogue_reachable q \<Longrightarrow> catalogue_reachable (snd (quest_device_replace_all ds q))"

lemma find_locked_slot: "k \<noteq> [] \<Longrightarrow> qd_find_locked k xs = devices.slot_of k xs"
  by (simp add: qd_find_locked_def devices.slot_of_def)

lemma catalogue_at:
  "devices.unique_keys (qs_slots q) \<Longrightarrow> i < length (qs_slots q) \<Longrightarrow> sl_in_use (qs_slots q ! i) \<Longrightarrow>
   catalogue q (qd_id (sl_device (qs_slots q ! i))) = Some (sl_device (qs_slots q ! i))"
  using devices.contents_eq_Some_iff [of "qs_slots q" "qd_id (sl_device (qs_slots q ! i))" "qs_slots q ! i"]
  by (auto simp: catalogue_def)

lemma client_id_free:
  assumes "devices.unique_keys (qs_slots q)" and "c \<noteq> []" and "k \<noteq> []"
    and "\<not> qd_client_id_in_use_locked c k (qs_slots q)"
  shows "catalogue q l = Some d \<Longrightarrow> qd_client_id d = c \<Longrightarrow> l = k"
proof -
  assume l: "catalogue q l = Some d" and c: "qd_client_id d = c"
  then obtain i where "i < length (qs_slots q)" "sl_in_use (qs_slots q ! i)"
    "qd_id (sl_device (qs_slots q ! i)) = l" "sl_device (qs_slots q ! i) = d"
    using devices.contents_eq_Some_iff [OF assms(1)] by (auto simp: catalogue_def)
  then show "l = k"
    using assms(2-4) c by (auto simp: qd_client_id_in_use_locked_def list_ex_iff)
qed

lemma upsert_ok:
  assumes "catalogue_ok q" and "quest_device_upsert d q = (ESP_OK, q')"
  shows "catalogue_ok q' \<and> catalogue q' = (catalogue q)(qd_id d \<mapsto> d)"
proof -
  have v: "qd_device_valid d" and free: "\<not> qd_client_id_in_use_locked (qd_client_id d) (qd_id d) (qs_slots q)"
    using assms(2) by (auto simp: quest_device_upsert_def split: if_splits)
  have ne: "qd_id d \<noteq> []" "qd_client_id d \<noteq> []" using v by (simp_all add: qd_device_valid_def)
  let ?s = "\<lparr>sl_in_use = True, sl_device = d\<rparr>"
  obtain i where i: "(case qd_find_locked (qd_id d) (qs_slots q) of
      Some i \<Rightarrow> Some i | None \<Rightarrow> qd_find_free_locked (qs_slots q)) = Some i"
    and q': "q' = q\<lparr>qs_slots := (qs_slots q)[i := ?s], qs_generation := qs_generation q + 1\<rparr>"
    using assms(2) v free by (auto simp: quest_device_upsert_def split: option.splits)
  have u: "devices.unique_keys (qs_slots q)" using assms(1) by (simp add: catalogue_ok_def)
  have where_i: "i < length (qs_slots q)"
    "devices.slot_of (qd_id d) (qs_slots q) = Some i \<or>
     devices.slot_of (qd_id d) (qs_slots q) = None \<and> \<not> sl_in_use (qs_slots q ! i)"
    using i by (auto simp: find_locked_slot ne qd_find_free_locked_def split: option.splits
        dest: devices.slot_of_SomeD find_index_SomeD)
  note w = devices.write_entry [OF u where_i(1), of ?s, simplified, OF where_i(2)]
  have cat: "catalogue q' = (catalogue q)(qd_id d \<mapsto> d)"
    by (rule ext) (simp add: catalogue_def q' w(2))
  moreover have "catalogue_ok q'"
    using assms(1) w(1) v client_id_free [OF u ne(2,1) free]
    unfolding catalogue_ok_def cat by (auto simp: q' split: if_splits)
  ultimately show ?thesis by simp
qed

lemma delete_ok:
  assumes "catalogue_ok q" and "quest_device_delete k q = (ESP_OK, q')"
  shows "catalogue_ok q' \<and> catalogue q' = (catalogue q)(k := None)"
proof -
  have ne: "k \<noteq> []" using assms(2) by (auto simp: quest_device_delete_def split: if_splits)
  obtain i where i: "devices.slot_of k (qs_slots q) = Some i"
    and q': "q' = q\<lparr>qs_slots := (qs_slots q)[i := device_slot_zero], qs_generation := qs_generation q + 1\<rparr>"
    using assms(2) by (auto simp: quest_device_delete_def find_locked_slot ne split: if_splits option.splits)
  have u: "devices.unique_keys (qs_slots q)" using assms(1) by (simp add: catalogue_ok_def)
  note c = devices.clear_entry [OF u i]
  have cat: "catalogue q' = (catalogue q)(k := None)"
    by (rule ext) (simp add: catalogue_def q' c(2))
  moreover have "catalogue_ok q'"
    using assms(1) c(1) unfolding catalogue_ok_def cat by (auto simp: q' split: if_splits)
  ultimately show ?thesis by simp
qed

lemma catalogue_empty: "catalogue q = Map.empty \<Longrightarrow> length (qs_slots q) = DEVICE_SLOTS \<Longrightarrow>
  devices.unique_keys (qs_slots q) \<Longrightarrow> catalogue_ok q"
  by (simp add: catalogue_ok_def)

lemma blank_catalogue:
  "qs_slots q = replicate DEVICE_SLOTS device_slot_zero \<Longrightarrow> catalogue_ok q"
  by (rule catalogue_empty) (simp_all add: catalogue_def [abs_def] devices.contents_blank devices.unique_blank)

lemma filled_slots:
  fixes items :: "quest_device list" and n :: nat
  assumes "distinct (map qd_id items)"
  defines "xs \<equiv> map (\<lambda>d. \<lparr>sl_in_use = True, sl_device = d\<rparr>) items @ replicate n device_slot_zero"
  shows "devices.unique_keys xs"
    and "i < length xs \<Longrightarrow> sl_in_use (xs ! i) \<Longrightarrow> i < length items \<and> sl_device (xs ! i) = items ! i"
proof -
  show at: "i < length items \<and> sl_device (xs ! i) = items ! i" if "i < length xs" "sl_in_use (xs ! i)" for i
    using that by (auto simp: xs_def nth_append device_slot_zero_def split: if_splits)
  show "devices.unique_keys xs"
    unfolding devices.unique_keys_def
  proof (intro allI impI)
    fix i j
    assume "i < length xs" "j < length xs" "sl_in_use (xs ! i)" "sl_in_use (xs ! j)"
      "qd_id (sl_device (xs ! i)) = qd_id (sl_device (xs ! j))"
    then have "i < length items" "j < length items" "map qd_id items ! i = map qd_id items ! j"
      using at by auto
    then show "i = j" using assms(1) by (metis length_map nth_eq_iff_index_eq)
  qed
qed

lemma replace_ok:
  assumes "quest_device_replace_all ds q = (ESP_OK, q')"
  shows "catalogue_ok q'"
proof -
  let ?xs = "map (\<lambda>d. \<lparr>sl_in_use = True, sl_device = d\<rparr>) ds @ replicate (DEVICE_SLOTS - length ds) device_slot_zero"
  have q: "length ds \<le> DEVICE_SLOTS" "list_all qd_device_valid ds" "distinct (map qd_id ds)"
    "distinct (map qd_client_id ds)" "qs_slots q' = ?xs"
    using assms by (auto simp: quest_device_replace_all_def split: if_splits)
  note f = filled_slots [OF q(3), where n = "DEVICE_SLOTS - length ds"]
  have mem: "\<exists>i < length ds. ds ! i = d \<and> qd_id d = k" if cat: "catalogue q' k = Some d" for k d
  proof -
    obtain s where s: "devices.contents ?xs k = Some s" "sl_device s = d"
      using cat by (auto simp: catalogue_def q(5))
    then obtain i where i: "i < length ?xs" "sl_in_use (?xs ! i)" "qd_id (sl_device (?xs ! i)) = k" "?xs ! i = s"
      using devices.contents_eq_Some_iff [OF f(1), of k s] by blast
    show ?thesis using f(2) [OF i(1,2)] i(3,4) s(2) by auto
  qed
  have "qd_device_valid d \<and> qd_id d = k" if "catalogue q' k = Some d" for k d
    using mem [OF that] q(2) by (auto simp: list_all_length)
  moreover have "k = l" if c: "catalogue q' k = Some d" "catalogue q' l = Some e" "qd_client_id d = qd_client_id e" for k l d e
  proof -
    obtain i j where ij: "i < length ds" "ds ! i = d" "qd_id d = k" "j < length ds" "ds ! j = e" "qd_id e = l"
      using mem [OF c(1)] mem [OF c(2)] by blast
    then have "map qd_client_id ds ! i = map qd_client_id ds ! j" using c(3) by simp
    then have "i = j" using nth_eq_iff_index_eq [OF q(4), of i j] ij(1,4) by simp
    with ij show ?thesis by simp
  qed
  ultimately show ?thesis
    using f(1) q(1) unfolding catalogue_ok_def q(5) by simp
qed

lemma failed_update_unchanged:
  "fst (quest_device_upsert d q) \<noteq> ESP_OK \<Longrightarrow> snd (quest_device_upsert d q) = q"
  "fst (quest_device_delete k q) \<noteq> ESP_OK \<Longrightarrow> snd (quest_device_delete k q) = q"
  "fst (quest_device_replace_all ds q) \<noteq> ESP_OK \<Longrightarrow> snd (quest_device_replace_all ds q) = q"
  by (auto simp: quest_device_upsert_def quest_device_delete_def quest_device_replace_all_def
      split: if_splits option.splits)

lemma catalogue_reachable_ok: "catalogue_reachable q \<Longrightarrow> catalogue_ok q"
proof (induction rule: catalogue_reachable.induct)
  case (catalogue_upsert q d)
  then show ?case
    using upsert_ok [of q d] failed_update_unchanged(1) [of d q] by (metis prod.collapse)
next
  case (catalogue_delete q k)
  then show ?case
    using delete_ok [of q k] failed_update_unchanged(2) [of k q] by (metis prod.collapse)
next
  case (catalogue_replace q ds)
  then show ?case
    using replace_ok [of ds q] failed_update_unchanged(3) [of ds q] by (metis prod.collapse)
qed (simp_all add: blank_catalogue quest_devices_zero_def quest_device_clear_def)

text \<open>The abstract catalogue: a map of at most 20 devices with pairwise different client ids.\<close>

definition abs_upsert :: "quest_device \<Rightarrow> (string \<rightharpoonup> quest_device) \<Rightarrow> esp_err \<times> (string \<rightharpoonup> quest_device)" where
  "abs_upsert d m =
     (if \<not> qd_device_valid d then (ESP_ERR_INVALID_ARG, m)
      else if \<exists>k e. m k = Some e \<and> k \<noteq> qd_id d \<and> qd_client_id e = qd_client_id d then (ESP_ERR_INVALID_ARG, m)
      else if m (qd_id d) = None \<and> card (dom m) = DEVICE_SLOTS then (ESP_ERR_NO_MEM, m)
      else (ESP_OK, m(qd_id d \<mapsto> d)))"

lemma client_id_in_use_iff:
  assumes "catalogue_ok q" and "k \<noteq> []" and "c \<noteq> []"
  shows "qd_client_id_in_use_locked c k (qs_slots q) \<longleftrightarrow>
    (\<exists>l e. catalogue q l = Some e \<and> l \<noteq> k \<and> qd_client_id e = c)"
proof -
  have u: "devices.unique_keys (qs_slots q)" using assms(1) by (simp add: catalogue_ok_def)
  show ?thesis
  proof
    assume "qd_client_id_in_use_locked c k (qs_slots q)"
    then obtain s where "s \<in> set (qs_slots q)" "sl_in_use s" "qd_id (sl_device s) \<noteq> k" "qd_client_id (sl_device s) = c"
      using assms(2) by (auto simp: qd_client_id_in_use_locked_def list_ex_iff)
    then show "\<exists>l e. catalogue q l = Some e \<and> l \<noteq> k \<and> qd_client_id e = c"
      using catalogue_at [OF u] by (metis in_set_conv_nth)
  next
    assume "\<exists>l e. catalogue q l = Some e \<and> l \<noteq> k \<and> qd_client_id e = c"
    then show "qd_client_id_in_use_locked c k (qs_slots q)"
      using client_id_free [OF u assms(3,2)] by blast
  qed
qed

lemma catalogue_dom: "dom (catalogue q) = dom (devices.contents (qs_slots q))"
  by (auto simp: catalogue_def)

lemma slot_of_catalogue: "(devices.slot_of k (qs_slots q) = None) = (catalogue q k = None)"
  by (simp add: catalogue_def devices.contents_def)

lemma finite_catalogue: "finite (dom (catalogue q))"
proof -
  have "dom (catalogue q) \<subseteq> (\<lambda>i. qd_id (sl_device (qs_slots q ! i))) ` {0..<length (qs_slots q)}"
    by (auto simp: catalogue_def devices.contents_def dest!: devices.slot_of_SomeD)
  then show ?thesis by (rule finite_subset) simp
qed

lemma upsert_full:
  assumes "catalogue_ok q" and "catalogue q k = None" and "qd_find_free_locked (qs_slots q) = Some i"
  shows "card (dom (catalogue q)) < DEVICE_SLOTS"
  using assms devices.free_slot_room [of "qs_slots q" i]
  by (simp add: catalogue_ok_def catalogue_dom qd_find_free_locked_def)

lemma upsert_refines:
  assumes "catalogue_ok q"
  shows "(fst (quest_device_upsert d q), catalogue (snd (quest_device_upsert d q))) = abs_upsert d (catalogue q)"
proof (cases "qd_device_valid d \<and> \<not> qd_client_id_in_use_locked (qd_client_id d) (qd_id d) (qs_slots q)")
  case False
  then show ?thesis
    using client_id_in_use_iff [OF assms, of "qd_id d" "qd_client_id d"]
    by (auto simp: quest_device_upsert_def abs_upsert_def qd_device_valid_def)
next
  case True
  then have ne: "qd_id d \<noteq> []" "qd_client_id d \<noteq> []" by (simp_all add: qd_device_valid_def)
  have u: "devices.unique_keys (qs_slots q)" and len: "length (qs_slots q) = DEVICE_SLOTS"
    using assms by (simp_all add: catalogue_ok_def)
  show ?thesis
  proof (cases "fst (quest_device_upsert d q) = ESP_OK")
    case ok: True
    then obtain q' where q': "quest_device_upsert d q = (ESP_OK, q')" by (metis prod.collapse)
    have "\<not> (catalogue q (qd_id d) = None \<and> card (dom (catalogue q)) = DEVICE_SLOTS)"
    proof
      assume n: "catalogue q (qd_id d) = None \<and> card (dom (catalogue q)) = DEVICE_SLOTS"
      then have "qd_find_locked (qd_id d) (qs_slots q) = None"
        by (simp add: find_locked_slot ne slot_of_catalogue)
      then obtain i where "qd_find_free_locked (qs_slots q) = Some i"
        using q' True by (auto simp: quest_device_upsert_def split: option.splits)
      then show False using upsert_full [OF assms, of "qd_id d" i] n by simp
    qed
    then show ?thesis
      using q' upsert_ok [OF assms q'] True client_id_in_use_iff [OF assms ne]
      by (auto simp: abs_upsert_def)
  next
    case False
    then have none: "qd_find_locked (qd_id d) (qs_slots q) = None" "qd_find_free_locked (qs_slots q) = None"
      "quest_device_upsert d q = (ESP_ERR_NO_MEM, q)"
      using True by (auto simp: quest_device_upsert_def split: option.splits)
    then have "catalogue q (qd_id d) = None" by (simp add: find_locked_slot ne slot_of_catalogue)
    moreover have "card (dom (catalogue q)) = DEVICE_SLOTS"
      using devices.full_table [OF u] none(2) len by (simp add: catalogue_dom qd_find_free_locked_def)
    ultimately show ?thesis
      using True client_id_in_use_iff [OF assms ne] none(3) by (auto simp: abs_upsert_def)
  qed
qed

text \<open>
  C39: the device catalogue is a bounded map with unique client ids.  After any sequence of stores,
  deletions and replacements, storing a device is a store in a map of at most 20 devices: an invalid
  device or one with the client id of another device is refused, a new one is refused when 20 are
  stored, any other replaces what its id had; deleting removes exactly the given id; a lookup
  returns what the map holds; and every stored device is valid.
\<close>

theorem catalogue_refines_map:
  assumes "catalogue_reachable q"
  shows "(fst (quest_device_upsert d q), catalogue (snd (quest_device_upsert d q))) = abs_upsert d (catalogue q) \<and>
    (fst (quest_device_delete k q) = ESP_OK \<longrightarrow>
      catalogue (snd (quest_device_delete k q)) = (catalogue q)(k := None)) \<and>
    (k \<noteq> [] \<and> \<not> system_device_id k \<longrightarrow> quest_device_get k q =
      (case catalogue q k of None \<Rightarrow> Inl ESP_ERR_NOT_FOUND | Some e \<Rightarrow> Inr e)) \<and>
    (\<forall>e. catalogue q k = Some e \<longrightarrow> qd_device_valid e)"
proof -
  have ok: "catalogue_ok q" by (rule catalogue_reachable_ok [OF assms])
  have "catalogue (snd (quest_device_delete k q)) = (catalogue q)(k := None)"
    if "fst (quest_device_delete k q) = ESP_OK"
    using delete_ok [OF ok, of k] that by (metis prod.collapse)
  moreover have "quest_device_get k q = (case catalogue q k of None \<Rightarrow> Inl ESP_ERR_NOT_FOUND | Some e \<Rightarrow> Inr e)"
    if "k \<noteq> []" "\<not> system_device_id k"
    using that by (auto simp: quest_device_get_def system_device_id_def find_locked_slot catalogue_def
        devices.contents_def split: option.split)
  ultimately show ?thesis using upsert_refines [OF ok, of d] ok by (auto simp: catalogue_ok_def)
qed

definition demo_device :: quest_device where
  "demo_device = quest_device_zero\<lparr>qd_id := ''lamp'', qd_name := ''Lamp'', qd_client_id := ''dcc-lamp'',
     qd_enabled := True\<rparr>"

theorem catalogue_refines_map_witness:
  "quest_device_get ''lamp'' (snd (quest_device_upsert demo_device quest_devices_zero)) = Inr demo_device"
proof -
  have up: "fst (quest_device_upsert demo_device quest_devices_zero) = ESP_OK" by code_simp
  have r: "catalogue_reachable quest_devices_zero" by (rule catalogue_start)
  have "(fst (quest_device_upsert demo_device quest_devices_zero),
      catalogue (snd (quest_device_upsert demo_device quest_devices_zero))) =
      abs_upsert demo_device (catalogue quest_devices_zero)"
    using catalogue_refines_map [OF r] by blast
  with up have "catalogue (snd (quest_device_upsert demo_device quest_devices_zero)) ''lamp'' = Some demo_device"
    by (auto simp: abs_upsert_def demo_device_def split: if_splits)
  moreover have "\<not> system_device_id ''lamp''" by (simp add: system_device_id_def system_id_defs)
  ultimately show ?thesis
    using catalogue_refines_map [OF catalogue_upsert [OF r, of demo_device], of demo_device "''lamp''"] by simp
qed

end
