(* ===== verification/Command_Executor.thy ===== *)
theory Command_Executor
  imports Command_Local_Props Command_Payload Command_Pending Quest_Device Mqtt_Broker_Props
begin

text \<open>
  The command executor (\<open>command_executor/command_executor.c\<close>, \<open>command_executor_mqtt.c\<close>): a command of
  a built-in device is performed on the spot, any other one is published to the device over MQTT and,
  if the device has to answer, entered into the table of pending commands.  The state is the sequence
  number of the requests, the pending table and the broker; what the executor reads from its
  surroundings is a record of arguments.
\<close>

record ce_request =
  rq_source :: string
  rq_room_id :: string
  rq_scenario_id :: string
  rq_branch_id :: string
  rq_step_id :: string
  rq_device_id :: string
  rq_command_id :: string
  rq_params_json :: string
  rq_require_manual_allowed :: bool
  rq_require_scenario_allowed :: bool

record ce_dispatch =
  cd_result_required :: bool
  cd_timeout_ms :: u32
  cd_request_id :: string
  cd_source_id :: string
  cd_command :: string
  cd_error_code :: string

definition ce_dispatch_zero :: ce_dispatch where
  "ce_dispatch_zero = \<lparr>cd_result_required = False, cd_timeout_ms = 0, cd_request_id = [],
     cd_source_id = [], cd_command = [], cd_error_code = []\<rparr>"

definition ce_request_zero :: ce_request where
  "ce_request_zero = \<lparr>rq_source = [], rq_room_id = [], rq_scenario_id = [], rq_branch_id = [],
     rq_step_id = [], rq_device_id = [], rq_command_id = [], rq_params_json = [],
     rq_require_manual_allowed = False, rq_require_scenario_allowed = False\<rparr>"

definition COMMAND_EXECUTOR_SOURCE_MAX_LEN :: nat where "COMMAND_EXECUTOR_SOURCE_MAX_LEN = 16"

text \<open>
  The surroundings: the time, whether the ingest knows a client and has heard of it lately, the file
  system, whether the hardware driver is available, and what the local calls return.
\<close>

record ce_env =
  env_now_ms :: int
  env_presence :: "string \<Rightarrow> bool option"
  env_file_exists :: "string \<Rightarrow> bool"
  env_hardware_available :: bool
  env_drv :: "local_action \<Rightarrow> esp_err"

record executor =
  ex_request_seq :: u32
  ex_pending :: "ce_pending list"
  ex_broker :: mqtt_broker
  ex_calls :: "local_action list"

section \<open>Commands over MQTT\<close>

definition command_topic :: "string \<Rightarrow> string" where
  "command_topic client_id = ''cp/v1/dev/'' @ client_id @ ''/control/command''"

definition effective_timeout :: "quest_device_command \<Rightarrow> u32" where
  "effective_timeout command =
     (if qc_timeout_ms command \<noteq> 0 then qc_timeout_ms command else QUEST_DEVICE_COMMAND_TIMEOUT_DEFAULT_MS)"

text \<open>The id, the payload and the entry in the pending table; then the message is published.\<close>

definition publish_command ::
  "ce_env \<Rightarrow> string \<Rightarrow> quest_device_command \<Rightarrow> string \<Rightarrow> string \<Rightarrow> executor \<Rightarrow>
   failure \<times> ce_dispatch \<times> executor" where
  "publish_command env client_id command request_id mqtt_payload x =
     (let (err, b) = mqtt_core_publish_qos (env_now_ms env) (command_topic client_id) mqtt_payload 1 (ex_broker x);
          x1 = x\<lparr>ex_broker := b\<rparr>
      in if err \<noteq> ESP_OK
         then ((err, ''device_command_publish_failed''), ce_dispatch_zero,
               if qc_result_required command
               then x1\<lparr>ex_pending := command_executor_clear_pending request_id (ex_pending x1)\<rparr> else x1)
         else ((ESP_OK, []),
               \<lparr>cd_result_required = qc_result_required command, cd_timeout_ms = effective_timeout command,
                cd_request_id = quest_str_copy COMMAND_EXECUTOR_REQUEST_ID_MAX_LEN request_id,
                cd_source_id = quest_str_copy QUEST_EVENT_SOURCE_ID_MAX_LEN client_id,
                cd_command = quest_str_copy COMMAND_EXECUTOR_COMMAND_MAX_LEN (qc_command command),
                cd_error_code = []\<rparr>, x1))"

definition command_executor_execute_mqtt ::
  "ce_env \<Rightarrow> string \<Rightarrow> quest_device_command \<Rightarrow> ce_request \<Rightarrow> executor \<Rightarrow> failure \<times> ce_dispatch \<times> executor" where
  "command_executor_execute_mqtt env client_id command request x =
     (if client_id = [] \<or> qc_command command = []
      then ((ESP_ERR_INVALID_ARG, ''device_command_invalid''), ce_dispatch_zero, x)
      else if length (command_topic client_id) \<ge> 96
      then ((ESP_ERR_INVALID_SIZE, ''device_command_topic_too_long''), ce_dispatch_zero, x)
      else if env_presence env client_id = Some False
      then ((ESP_ERR_INVALID_STATE, ''device_offline''), ce_dispatch_zero, x)
      else let (rid, seq) = command_executor_make_request_id COMMAND_EXECUTOR_REQUEST_ID_MAX_LEN
                              (word_of_int (env_now_ms env)) (ex_request_seq x);
               x1 = x\<lparr>ex_request_seq := seq\<rparr>
        in case rid of
          Inl err \<Rightarrow> ((err, ''device_command_request_id_failed''), ce_dispatch_zero, x1)
        | Inr request_id \<Rightarrow>
            (case build_command_payload COMMAND_EXECUTOR_MQTT_PAYLOAD_MAX_LEN request_id (qc_command command)
                    (qc_default_args_json command) (rq_params_json request) (env_now_ms env) of
               Inl err \<Rightarrow> ((err, ''device_command_payload_too_large''), ce_dispatch_zero, x1)
             | Inr mqtt_payload \<Rightarrow>
                 (if \<not> qc_result_required command
                  then publish_command env client_id command request_id mqtt_payload x1
                  else let (err, t) = command_executor_track_pending request_id client_id (qc_command command)
                             (effective_timeout command) (word_of_int (env_now_ms env)) (ex_pending x1)
                    in if err \<noteq> ESP_OK
                       then ((err, ''device_command_result_track_failed''), ce_dispatch_zero, x1\<lparr>ex_pending := t\<rparr>)
                       else publish_command env client_id command request_id mqtt_payload
                              (x1\<lparr>ex_pending := t\<rparr>))))"

section \<open>Any command\<close>

definition run_local :: "ce_env \<Rightarrow> failure + call \<Rightarrow> executor \<Rightarrow> failure \<times> ce_dispatch \<times> executor" where
  "run_local env r x =
     (let (f, calls) = perform (env_drv env) r in (f, ce_dispatch_zero, x\<lparr>ex_calls := ex_calls x @ calls\<rparr>))"

definition command_executor_execute_resolved ::
  "ce_env \<Rightarrow> ce_request \<Rightarrow> string \<Rightarrow> quest_device_command \<Rightarrow> executor \<Rightarrow> failure \<times> ce_dispatch \<times> executor" where
  "command_executor_execute_resolved env request client_id command x =
     (if rq_device_id request = [] \<or> rq_command_id request = [] \<or> qc_id command = [] \<or> qc_command command = []
      then ((ESP_ERR_INVALID_ARG, ''device_command_invalid''), ce_dispatch_zero, x)
      else if rq_require_manual_allowed request \<and> \<not> qc_manual_allowed command
      then ((ESP_ERR_INVALID_STATE, ''device_command_manual_disabled''), ce_dispatch_zero, x)
      else if rq_require_scenario_allowed request \<and> \<not> qc_scenario_allowed command
      then ((ESP_ERR_INVALID_STATE, ''device_command_scenario_disabled''), ce_dispatch_zero, x)
      else if rq_device_id request = QUEST_DEVICE_SYSTEM_AUDIO_ID \<or> c_prefix ''audio.'' (qc_command command)
      then run_local env (command_executor_execute_audio (env_file_exists env) (rq_params_json request) command) x
      else if rq_device_id request = QUEST_DEVICE_SYSTEM_RELAY_ID \<or>
              rq_device_id request = QUEST_DEVICE_SYSTEM_MOSFET_ID \<or>
              rq_device_id request = QUEST_DEVICE_SYSTEM_IO_ID
      then run_local env (command_executor_execute_hardware (env_hardware_available env)
             (rq_device_id request) (rq_params_json request) command) x
      else if client_id = []
      then ((ESP_ERR_INVALID_ARG, ''device_client_id_missing''), ce_dispatch_zero, x)
      else command_executor_execute_mqtt env client_id command request x)"

definition command_executor_execute ::
  "ce_env \<Rightarrow> quest_devices \<Rightarrow> ce_request \<Rightarrow> executor \<Rightarrow> failure \<times> ce_dispatch \<times> executor" where
  "command_executor_execute env q request x =
     (if rq_device_id request = [] \<or> rq_command_id request = []
      then ((ESP_ERR_INVALID_ARG, ''device_command_invalid''), ce_dispatch_zero, x)
      else case quest_device_get (rq_device_id request) q of
        Inl err \<Rightarrow> ((err, ''device_not_found''), ce_dispatch_zero, x)
      | Inr device \<Rightarrow>
          (if \<not> qd_enabled device then ((ESP_ERR_INVALID_STATE, ''device_disabled''), ce_dispatch_zero, x)
           else case quest_device_get_command (rq_device_id request) (rq_command_id request) q of
             Inl err \<Rightarrow> ((err, ''device_command_not_found''), ce_dispatch_zero, x)
           | Inr command \<Rightarrow> command_executor_execute_resolved env request (qd_client_id device) command x))"

text \<open>A command given by hand; \<open>QUEST_ID_MAX_LEN\<close> is 32.\<close>

definition QUEST_ID_MAX_LEN :: nat where "QUEST_ID_MAX_LEN = 32"

definition command_executor_execute_device_command ::
  "ce_env \<Rightarrow> quest_devices \<Rightarrow> string \<Rightarrow> string \<Rightarrow> string \<Rightarrow> executor \<Rightarrow> esp_err \<times> executor" where
  "command_executor_execute_device_command env q device_id command_id params_json x =
     (if device_id = [] \<or> command_id = [] then (ESP_ERR_INVALID_ARG, x)
      else if length device_id \<ge> QUEST_ID_MAX_LEN \<or> length command_id \<ge> QUEST_ID_MAX_LEN
      then (ESP_ERR_INVALID_SIZE, x)
      else if params_json \<noteq> [] \<and> length params_json \<ge> QUEST_PAYLOAD_MAX_LEN then (ESP_ERR_INVALID_SIZE, x)
      else let (f, _, x1) = command_executor_execute env q
             (ce_request_zero\<lparr>rq_source := quest_str_copy COMMAND_EXECUTOR_SOURCE_MAX_LEN ''manual'',
                rq_device_id := quest_str_copy QUEST_ID_MAX_LEN device_id,
                rq_command_id := quest_str_copy QUEST_ID_MAX_LEN command_id,
                rq_require_manual_allowed := True,
                rq_params_json := quest_str_copy QUEST_PAYLOAD_MAX_LEN params_json\<rparr>) x
        in (fst f, x1))"

section \<open>The outcome of a remote command\<close>

lemma request_id_made: "\<exists>rid. command_executor_make_request_id 48 now seq = (Inr rid, seq + 1) \<and>
    length rid < 48 \<and> rid \<noteq> []"
proof -
  have "unat now < 16 ^ 16" "unat seq < 16 ^ 8"
    using unsigned_less [of now, where 'a = nat] unsigned_less [of seq, where 'a = nat] by simp_all
  then have "length (digits 16 (unat now)) \<le> 16" "length (digits 16 (unat seq)) \<le> 8"
    by (auto intro!: digits_length)
  then show ?thesis by (simp add: command_executor_make_request_id_def Let_def c_hex_padded_def)
qed

text \<open>What a remote command did, as a function of the state before it.\<close>

lemma execute_mqtt_cases:
  fixes x env client_id command request
  defines "r \<equiv> command_executor_execute_mqtt env client_id command request x"
  assumes "pending_ok (ex_pending x)"
  obtains (failed) err m x' where "r = ((err, m), ce_dispatch_zero, x')" "err \<noteq> ESP_OK"
      "ex_broker x' = ex_broker x" "awaited (ex_pending x') = awaited (ex_pending x)" "ex_calls x' = ex_calls x"
  | (sent) rid payload d x' where "r = ((ESP_OK, []), d, x')" "cd_request_id d = rid" "rid \<noteq> []" "length rid < 48"
      "build_command_payload 512 rid (qc_command command) (qc_default_args_json command)
         (rq_params_json request) (env_now_ms env) = Inr payload"
      "ex_broker x' = publish_to_subscribers (env_now_ms env) (command_topic client_id) payload 1 False None (ex_broker x)"
      "cd_result_required d = qc_result_required command" "ex_calls x' = ex_calls x"
      "if qc_result_required command
       then rid \<notin> dom (awaited (ex_pending x)) \<and> awaited (ex_pending x') = (awaited (ex_pending x))(rid \<mapsto>
         tracked rid client_id (qc_command command) (effective_timeout command) (word_of_int (env_now_ms env)))
       else ex_pending x' = ex_pending x"
proof -
  let ?t = "word_of_int (env_now_ms env) :: u64"
  obtain rid where rid: "command_executor_make_request_id 48 ?t (ex_request_seq x) =
      (Inr rid, ex_request_seq x + 1)" "length rid < 48" "rid \<noteq> []" using request_id_made by blast
  note len = COMMAND_EXECUTOR_REQUEST_ID_MAX_LEN_def COMMAND_EXECUTOR_MQTT_PAYLOAD_MAX_LEN_def
  let ?payload = "build_command_payload 512 rid (qc_command command) (qc_default_args_json command)
     (rq_params_json request) (env_now_ms env)"
  show thesis
  proof (cases "client_id = [] \<or> qc_command command = [] \<or> length (command_topic client_id) \<ge> 96 \<or>
      env_presence env client_id = Some False \<or> (\<exists>e. ?payload = Inl e)")
    case True
    then show thesis
      using rid(1) by (intro failed [of "fst (fst r)" "snd (fst r)" "snd (snd r)"])
        (auto simp: r_def command_executor_execute_mqtt_def len Let_def build_command_payload_err)
  next
    case False
    then obtain payload where payload: "?payload = Inr payload" by (metis sum.exhaust)
    let ?p = "ex_pending x" and ?c = "qc_command command" and ?to = "effective_timeout command"
    let ?b = "publish_to_subscribers (env_now_ms env) (command_topic client_id) payload 1 False None (ex_broker x)"
    define tr where "tr = command_executor_track_pending rid client_id ?c ?to ?t ?p"
    have pub: "publish_command env client_id command rid payload y =
        ((ESP_OK, []), \<lparr>cd_result_required = qc_result_required command, cd_timeout_ms = ?to, cd_request_id = rid,
          cd_source_id = quest_str_copy QUEST_EVENT_SOURCE_ID_MAX_LEN client_id,
          cd_command = quest_str_copy COMMAND_EXECUTOR_COMMAND_MAX_LEN ?c, cd_error_code = []\<rparr>,
         y\<lparr>ex_broker := ?b\<rparr>)" if "ex_broker y = ex_broker x" for y
      using that rid(2) by (simp add: publish_command_def mqtt_core_publish_qos_def len Let_def)
    have r: "r = (if \<not> qc_result_required command
        then publish_command env client_id command rid payload (x\<lparr>ex_request_seq := ex_request_seq x + 1\<rparr>)
        else if fst tr \<noteq> ESP_OK
        then ((fst tr, ''device_command_result_track_failed''), ce_dispatch_zero,
              x\<lparr>ex_request_seq := ex_request_seq x + 1, ex_pending := snd tr\<rparr>)
        else publish_command env client_id command rid payload
              (x\<lparr>ex_request_seq := ex_request_seq x + 1, ex_pending := snd tr\<rparr>))"
      using False rid payload
      by (simp add: r_def command_executor_execute_mqtt_def len Let_def tr_def case_prod_beta)
    have track: "(fst tr, awaited (snd tr)) = abs_track rid client_id (tracked rid client_id ?c ?to ?t) (awaited ?p)"
      unfolding tr_def using rid(2) by (intro track_refines(1) assms) (simp add: len)
    show thesis
    proof (cases "qc_result_required command \<and> fst tr \<noteq> ESP_OK")
      case True
      then have "awaited (snd tr) = awaited ?p" using track by (auto simp: abs_track_def split: if_splits)
      then show thesis
        using True r by (intro failed [of "fst tr" "''device_command_result_track_failed''" "snd (snd r)"]) simp_all
    next
      case False
      then show thesis
        using r pub rid(2,3) payload track
        by (intro sent [of "fst (snd r)" "snd (snd r)" rid payload]) (auto simp: abs_track_def split: if_splits)
    qed
  qed
qed

section \<open>Properties\<close>

text \<open>
  C33: a remote command is sent and awaited, or nothing happens.  In every reachable pending table a
  command that is accepted is published once, on the command topic of the device with the payload
  built for a fresh request id, and if a result is required exactly that id is added to the pending
  commands with the deadline of the command; a command that is refused, whatever the reason, leaves
  the broker and the pending commands as they were and returns an empty dispatch.
\<close>

theorem remote_command_outcome:
  assumes "pending_reachable (ex_pending x)"
    and "command_executor_execute_mqtt env client_id command request x = ((err, m), d, x')"
  shows "if err = ESP_OK
    then (\<exists>payload. build_command_payload 512 (cd_request_id d) (qc_command command)
           (qc_default_args_json command) (rq_params_json request) (env_now_ms env) = Inr payload \<and>
         ex_broker x' = publish_to_subscribers (env_now_ms env) (command_topic client_id) payload 1 False None
           (ex_broker x)) \<and>
      (if qc_result_required command
       then cd_request_id d \<notin> dom (awaited (ex_pending x)) \<and>
         awaited (ex_pending x') = (awaited (ex_pending x))(cd_request_id d \<mapsto> tracked (cd_request_id d) client_id
           (qc_command command) (effective_timeout command) (word_of_int (env_now_ms env)))
       else ex_pending x' = ex_pending x)
    else ex_broker x' = ex_broker x \<and> awaited (ex_pending x') = awaited (ex_pending x) \<and> d = ce_dispatch_zero"
  using pending_reachable_ok [OF assms(1)] by (cases rule: execute_mqtt_cases
    [of x env client_id command request]) (use assms(2) in \<open>auto split: if_splits\<close>)

definition demo_executor :: executor where
  "demo_executor = \<lparr>ex_request_seq = 7, ex_pending = pending_table_zero,
     ex_broker = broker_init 2 (\<lambda>_. Send_Ok) (\<lambda>_. True), ex_calls = []\<rparr>"

definition demo_env :: ce_env where
  "demo_env = \<lparr>env_now_ms = 1000, env_presence = (\<lambda>_. None), env_file_exists = (\<lambda>_. True),
     env_hardware_available = True, env_drv = (\<lambda>_. ESP_OK)\<rparr>"

theorem remote_command_outcome_witness:
  "dom (awaited (ex_pending (snd (snd (command_executor_execute_mqtt demo_env ''lamp''
     ((demo_command ''on'')\<lparr>qc_result_required := True\<rparr>) ce_request_zero demo_executor))))) =
   {''req-000003e8-00000007''}"
proof -
  let ?c = "(demo_command ''on'')\<lparr>qc_result_required := True\<rparr>"
  let ?r = "command_executor_execute_mqtt demo_env ''lamp'' ?c ce_request_zero demo_executor"
  have p: "pending_reachable (ex_pending demo_executor)" by (simp add: demo_executor_def pending_start)
  have ok: "fst (fst ?r) = ESP_OK" "cd_request_id (fst (snd ?r)) = ''req-000003e8-00000007''"
    by code_simp+
  have z: "awaited (ex_pending demo_executor) = Map.empty"
    by (simp add: demo_executor_def pending_table_zero_def pending.contents_blank)
  obtain err m d x' where r: "?r = ((err, m), d, x')" by (metis prod.collapse)
  have "err = ESP_OK" "cd_request_id d = ''req-000003e8-00000007''" using ok r by simp_all
  with remote_command_outcome [OF p r] z r show ?thesis by simp
qed

end
