(* ===== verification/Command_Resolver.thy ===== *)
theory Command_Resolver
  imports Command_Executor
begin

text \<open>
  The device command resolver (\<open>scenehub_device_command_resolver.c\<close>): finds the command of a device,
  among its flat commands or in its compact manifest, and checks the parameters of a request against
  the schema of the command.  The JSON library is not part of the program: its values are the
  datatype \<open>cjson\<close>, and its parser and printer are arguments.  Allocation succeeds and the mutex is
  always obtained.
\<close>

section \<open>JSON values\<close>

text \<open>A number is its integral value; the members of an object are in order and keys may repeat.\<close>

datatype cjson =
    CNull
  | CBool bool
  | CNumber int
  | CString string
  | CArray "cjson list"
  | CObject "(string \<times> cjson) list"

record json_lib =
  cJSON_Parse :: "string \<Rightarrow> cjson option"
  cJSON_PrintUnformatted :: "cjson \<Rightarrow> string"

fun cJSON_IsObject :: "cjson option \<Rightarrow> bool" where
  "cJSON_IsObject (Some (CObject _)) = True"
| "cJSON_IsObject _ = False"

fun children :: "cjson option \<Rightarrow> cjson list" where
  "children (Some (CArray xs)) = xs"
| "children (Some (CObject kvs)) = map snd kvs"
| "children _ = []"

fun members :: "cjson option \<Rightarrow> (string \<times> cjson) list" where
  "members (Some (CObject kvs)) = kvs"
| "members _ = []"

fun cJSON_IsArray :: "cjson option \<Rightarrow> bool" where
  "cJSON_IsArray (Some (CArray _)) = True"
| "cJSON_IsArray _ = False"

definition cJSON_GetObjectItemCaseSensitive :: "cjson option \<Rightarrow> string \<Rightarrow> cjson option" where
  "cJSON_GetObjectItemCaseSensitive item key = map_of (members item) key"

text \<open>Replacing the first member of the name, or adding a member at the end.\<close>

fun set_member :: "string \<Rightarrow> cjson \<Rightarrow> (string \<times> cjson) list \<Rightarrow> (string \<times> cjson) list" where
  "set_member k v [] = [(k, v)]"
| "set_member k v ((l, w) # kvs) = (if l = k then (k, v) # kvs else (l, w) # set_member k v kvs)"

section \<open>Reading manifests\<close>

definition json_string_member :: "cjson option \<Rightarrow> string \<Rightarrow> string" where
  "json_string_member object key =
     (case cJSON_GetObjectItemCaseSensitive object key of Some (CString s) \<Rightarrow> s | _ \<Rightarrow> [])"

definition compact_manifest_root_valid :: "cjson option \<Rightarrow> bool" where
  "compact_manifest_root_valid root \<longleftrightarrow> cJSON_IsObject root \<and>
     cJSON_GetObjectItemCaseSensitive root ''manifest_version'' = Some (CNumber 2) \<and>
     json_string_member root ''format'' = ''compact_resources'' \<and>
     json_string_member root ''node_kind'' \<noteq> [] \<and>
     json_string_member root ''capability_contract'' = ''scenehub.node.compact.v1''"

definition find_template_by_id :: "cjson option \<Rightarrow> string \<Rightarrow> cjson option" where
  "find_template_by_id root command_id =
     (let templates = cJSON_GetObjectItemCaseSensitive root ''command_templates'' in
      if \<not> cJSON_IsArray templates \<or> command_id = [] then None
      else find (\<lambda>item. cJSON_IsObject (Some item) \<and> json_string_member (Some item) ''id'' = command_id)
             (children templates))"

definition schema_for_template :: "cjson option \<Rightarrow> cjson option \<Rightarrow> cjson option" where
  "schema_for_template root tmpl =
     (let schema_ref = json_string_member tmpl ''args_schema_ref'';
          schemas = cJSON_GetObjectItemCaseSensitive root ''schemas''
      in if schema_ref = [] \<or> \<not> cJSON_IsObject schemas then None
         else cJSON_GetObjectItemCaseSensitive schemas schema_ref)"

definition json_value_present :: "cjson option \<Rightarrow> bool" where
  "json_value_present item \<longleftrightarrow> item \<noteq> None \<and> item \<noteq> Some CNull"

definition json_number_like :: "cjson option \<Rightarrow> int option" where
  "json_number_like item = (case item of
      Some (CNumber n) \<Rightarrow> Some n
    | Some (CString s) \<Rightarrow> (if s = [] then None else parse_number s)
    | _ \<Rightarrow> None)"

definition json_bool_like :: "cjson option \<Rightarrow> bool" where
  "json_bool_like item = (case item of
      Some (CBool _) \<Rightarrow> True | Some (CNumber _) \<Rightarrow> True | Some (CString _) \<Rightarrow> True | _ \<Rightarrow> False)"

text \<open>Setting a member fails on an empty name.\<close>

definition json_object_set_dup ::
  "(string \<times> cjson) list \<Rightarrow> string \<times> cjson \<Rightarrow> esp_err + (string \<times> cjson) list" where
  "json_object_set_dup object = (\<lambda>(key, v).
     if key = [] then Inl ESP_ERR_INVALID_ARG else Inr (set_member key v object))"

fun set_all :: "(string \<times> cjson) list \<Rightarrow> (string \<times> cjson) list \<Rightarrow> esp_err + (string \<times> cjson) list" where
  "set_all object [] = Inr object"
| "set_all object (kv # kvs) = (case json_object_set_dup object kv of
      Inl e \<Rightarrow> Inl e | Inr object' \<Rightarrow> set_all object' kvs)"

definition merge_effective_params :: "json_lib \<Rightarrow> cjson option \<Rightarrow> string \<Rightarrow> esp_err + cjson" where
  "merge_effective_params lib default_args params_json =
     (case set_all [] (members default_args) of
        Inl e \<Rightarrow> Inl e
      | Inr effective \<Rightarrow>
          (if params_json = [] then Inr (CObject effective)
           else let overrides = cJSON_Parse lib params_json in
             if \<not> cJSON_IsObject overrides then Inl ESP_ERR_INVALID_ARG
             else map_sum id CObject (set_all effective (members overrides))))"

definition select_option_exists :: "cjson \<Rightarrow> cjson option \<Rightarrow> bool" where
  "select_option_exists schema_item v =
     (case v of
        Some (CString selected) \<Rightarrow>
          (let options = cJSON_GetObjectItemCaseSensitive (Some schema_item) ''options'' in
           cJSON_IsArray options \<and> CString selected \<in> set (children options))
      | _ \<Rightarrow> False)"

definition resource_channel_exists :: "cjson option \<Rightarrow> string \<Rightarrow> cjson option \<Rightarrow> bool" where
  "resource_channel_exists root target v =
     (let resources = cJSON_GetObjectItemCaseSensitive root ''resources'';
          array = cJSON_GetObjectItemCaseSensitive resources target;
          field = (if target = ''led_strips'' then ''strip'' else ''channel'')
      in cJSON_IsArray array \<and>
         (case json_number_like v of
            None \<Rightarrow> False
          | Some selected \<Rightarrow>
              list_ex (\<lambda>item. cJSON_GetObjectItemCaseSensitive (Some item) field = Some (CNumber selected))
                (children array)))"

definition compact_param_type :: "string \<Rightarrow> quest_device_command_param_type" where
  "compact_param_type ty =
     (if ty = ''number'' then QUEST_DEVICE_COMMAND_PARAM_NUMBER
      else if ty = ''resource_channel'' then QUEST_DEVICE_COMMAND_PARAM_NUMBER
      else if ty = ''checkbox'' then QUEST_DEVICE_COMMAND_PARAM_CHECKBOX
      else if ty = ''audio_file_select'' then QUEST_DEVICE_COMMAND_PARAM_AUDIO_FILE_SELECT
      else QUEST_DEVICE_COMMAND_PARAM_TEXT)"

section \<open>Checking parameters\<close>

text \<open>One entry of a schema; \<open>None\<close> is success.\<close>

definition check_compact_param :: "cjson option \<Rightarrow> string \<Rightarrow> cjson \<Rightarrow> cjson \<Rightarrow> failure option" where
  "check_compact_param root target params schema_item =
     (let key = json_string_member (Some schema_item) ''key'';
          ty = json_string_member (Some schema_item) ''type'';
          is_optional = (cJSON_GetObjectItemCaseSensitive (Some schema_item) ''optional'' = Some (CBool True));
          v = cJSON_GetObjectItemCaseSensitive (Some params) key
      in if key = [] then Some (ESP_ERR_INVALID_ARG, ''device_command_schema_invalid'')
         else if \<not> json_value_present v
         then (if is_optional then None else Some (ESP_ERR_INVALID_ARG, ''device_command_param_required''))
         else if ty = ''resource_channel''
         then (if resource_channel_exists root target v then None
               else Some (ESP_ERR_INVALID_ARG, ''device_command_resource_invalid''))
         else if ty = ''select''
         then (if select_option_exists schema_item v then None
               else Some (ESP_ERR_INVALID_ARG, ''device_command_option_invalid''))
         else if ty = ''number''
         then (if json_number_like v \<noteq> None then None
               else Some (ESP_ERR_INVALID_ARG, ''device_command_number_invalid''))
         else if ty = ''checkbox''
         then (if json_bool_like v then None else Some (ESP_ERR_INVALID_ARG, ''device_command_bool_invalid''))
         else None)"

text \<open>The first failure ends the loop over the schema.\<close>

fun first_failure :: "('a \<Rightarrow> failure option) \<Rightarrow> 'a list \<Rightarrow> failure option" where
  "first_failure f [] = None"
| "first_failure f (x # xs) = (case f x of Some e \<Rightarrow> Some e | None \<Rightarrow> first_failure f xs)"

definition validate_compact_params ::
  "json_lib \<Rightarrow> cjson option \<Rightarrow> cjson option \<Rightarrow> cjson option \<Rightarrow> string \<Rightarrow> failure option" where
  "validate_compact_params lib root tmpl schema params_json =
     (if \<not> cJSON_IsArray schema then Some (ESP_ERR_INVALID_ARG, ''device_command_schema_not_found'')
      else case merge_effective_params lib (cJSON_GetObjectItemCaseSensitive tmpl ''default_args'') params_json of
        Inl _ \<Rightarrow> Some (ESP_ERR_INVALID_ARG, ''device_command_params_invalid'')
      | Inr params \<Rightarrow>
          first_failure (check_compact_param root (json_string_member tmpl ''target'') params) (children schema))"

definition check_flat_param :: "cjson \<Rightarrow> quest_device_command_param \<Rightarrow> failure option" where
  "check_flat_param effective param =
     (let v = cJSON_GetObjectItemCaseSensitive (Some effective) (qp_key param) in
      if qp_key param = [] then Some (ESP_ERR_INVALID_ARG, ''device_command_schema_invalid'')
      else if \<not> json_value_present v
      then (if qp_optional param then None else Some (ESP_ERR_INVALID_ARG, ''device_command_param_required''))
      else case qp_type param of
        QUEST_DEVICE_COMMAND_PARAM_NUMBER \<Rightarrow>
          (if json_number_like v \<noteq> None then None
           else Some (ESP_ERR_INVALID_ARG, ''device_command_number_invalid''))
      | QUEST_DEVICE_COMMAND_PARAM_CHECKBOX \<Rightarrow>
          (if json_bool_like v then None else Some (ESP_ERR_INVALID_ARG, ''device_command_bool_invalid''))
      | QUEST_DEVICE_COMMAND_PARAM_AUDIO_FILE_SELECT \<Rightarrow>
          (case v of Some (CString s) \<Rightarrow> (if s = [] then Some (ESP_ERR_INVALID_ARG, ''device_command_audio_file_missing'') else None)
           | _ \<Rightarrow> Some (ESP_ERR_INVALID_ARG, ''device_command_audio_file_missing''))
      | QUEST_DEVICE_COMMAND_PARAM_TEXT \<Rightarrow>
          (case v of Some (CString s) \<Rightarrow> (if s = [] then Some (ESP_ERR_INVALID_ARG, ''device_command_text_invalid'') else None)
           | _ \<Rightarrow> Some (ESP_ERR_INVALID_ARG, ''device_command_text_invalid'')))"

definition scenehub_device_command_validate_params ::
  "json_lib \<Rightarrow> quest_device_command \<Rightarrow> string \<Rightarrow> failure option" where
  "scenehub_device_command_validate_params lib command params_json =
     (let default_args = (if qc_default_args_json command = [] then None
                          else cJSON_Parse lib (qc_default_args_json command))
      in if qc_default_args_json command \<noteq> [] \<and> \<not> cJSON_IsObject default_args
         then Some (ESP_ERR_INVALID_ARG, ''device_command_default_args_invalid'')
         else case merge_effective_params lib default_args params_json of
           Inl err \<Rightarrow> Some (err, ''device_command_params_invalid'')
         | Inr effective \<Rightarrow> first_failure (check_flat_param effective) (qc_params command))"

section \<open>Resolving\<close>

definition QUEST_DEVICE_CAPABILITY_MAX_LEN :: nat where "QUEST_DEVICE_CAPABILITY_MAX_LEN = 32"
definition QUEST_DEVICE_COMMAND_NAME_MAX_LEN :: nat where "QUEST_DEVICE_COMMAND_NAME_MAX_LEN = 48"
definition QUEST_DEVICE_DANGER_LEVEL_MAX_LEN :: nat where "QUEST_DEVICE_DANGER_LEVEL_MAX_LEN = 16"
definition QUEST_DEVICE_PARAM_KEY_MAX_LEN :: nat where "QUEST_DEVICE_PARAM_KEY_MAX_LEN = 32"
definition QUEST_NAME_MAX_LEN :: nat where "QUEST_NAME_MAX_LEN = 48"

definition command_capability_from_template :: "string \<Rightarrow> cjson option \<Rightarrow> string" where
  "command_capability_from_template name tmpl =
     (let capability = json_string_member tmpl ''capability''; target = json_string_member tmpl ''target'' in
      if capability \<noteq> [] then quest_str_copy QUEST_DEVICE_CAPABILITY_MAX_LEN capability
      else if target \<noteq> [] then quest_str_copy QUEST_DEVICE_CAPABILITY_MAX_LEN target
      else let tmp = takeWhile (\<lambda>c. c \<noteq> CHR ''.'') (quest_str_copy QUEST_DEVICE_CAPABILITY_MAX_LEN name)
        in quest_str_copy QUEST_DEVICE_CAPABILITY_MAX_LEN (if tmp \<noteq> [] then tmp else ''node''))"

text \<open>A member of the policy that is a boolean, or the default.\<close>

definition policy_bool :: "cjson option \<Rightarrow> string \<Rightarrow> bool \<Rightarrow> bool" where
  "policy_bool policy key fallback =
     (case cJSON_GetObjectItemCaseSensitive policy key of Some (CBool b) \<Rightarrow> b | _ \<Rightarrow> fallback)"

definition policy_timeout :: "cjson option \<Rightarrow> u32" where
  "policy_timeout policy =
     (case cJSON_GetObjectItemCaseSensitive policy ''timeout_ms'' of
        Some (CNumber n) \<Rightarrow> (if n > 0 then word_of_int n else QUEST_DEVICE_COMMAND_TIMEOUT_DEFAULT_MS)
      | _ \<Rightarrow> QUEST_DEVICE_COMMAND_TIMEOUT_DEFAULT_MS)"

definition compact_param :: "cjson \<Rightarrow> quest_device_command_param" where
  "compact_param schema_item =
     (let key = quest_str_copy QUEST_DEVICE_PARAM_KEY_MAX_LEN (json_string_member (Some schema_item) ''key'');
          label = quest_str_copy QUEST_NAME_MAX_LEN (json_string_member (Some schema_item) ''label'')
      in \<lparr>qp_key = key, qp_label = (if label = [] then quest_str_copy QUEST_NAME_MAX_LEN key else label),
          qp_type = compact_param_type (json_string_member (Some schema_item) ''type''),
          qp_optional = (cJSON_GetObjectItemCaseSensitive (Some schema_item) ''optional'' = Some (CBool True))\<rparr>)"

definition fill_compact_command ::
  "json_lib \<Rightarrow> cjson option \<Rightarrow> cjson option \<Rightarrow> esp_err + quest_device_command" where
  "fill_compact_command lib tmpl schema =
     (let policy = cJSON_GetObjectItemCaseSensitive tmpl ''policy'';
          default_args = cJSON_GetObjectItemCaseSensitive tmpl ''default_args'';
          cid = quest_str_copy QUEST_ID_MAX_LEN (json_string_member tmpl ''id'');
          label = quest_str_copy QUEST_NAME_MAX_LEN (json_string_member tmpl ''label'');
          name = quest_str_copy QUEST_DEVICE_COMMAND_NAME_MAX_LEN (json_string_member tmpl ''command'');
          danger = json_string_member policy ''danger_level'';
          printed = (case default_args of
                       Some (CObject kvs) \<Rightarrow> cJSON_PrintUnformatted lib (CObject kvs) | _ \<Rightarrow> [])
      in if length printed \<ge> QUEST_PAYLOAD_MAX_LEN then Inl ESP_ERR_INVALID_SIZE
         else Inr \<lparr>qc_id = cid, qc_label = (if label = [] then quest_str_copy QUEST_NAME_MAX_LEN cid else label),
           qc_capability = command_capability_from_template name tmpl, qc_command = name,
           qc_default_args_json = printed,
           qc_manual_allowed = policy_bool policy ''manual_allowed'' True,
           qc_scenario_allowed = policy_bool policy ''scenario_allowed'' True,
           qc_requires_confirmation = policy_bool policy ''requires_confirmation'' False,
           qc_result_required = policy_bool policy ''result_required'' False,
           qc_timeout_ms = policy_timeout policy,
           qc_danger_level = quest_str_copy QUEST_DEVICE_DANGER_LEVEL_MAX_LEN
             (if danger \<noteq> [] then danger else ''normal''),
           qc_params = map compact_param (take QUEST_DEVICE_MAX_COMMAND_PARAMS (children schema))\<rparr>)"

record resolved_command =
  rc_device_id :: string
  rc_client_id :: string
  rc_device_name :: string
  rc_command :: quest_device_command
  rc_compact_manifest :: bool

definition resolve_compact_command ::
  "json_lib \<Rightarrow> quest_device \<Rightarrow> string \<Rightarrow> string \<Rightarrow> failure + quest_device_command" where
  "resolve_compact_command lib device command_id params_json =
     (let root = cJSON_Parse lib (qd_device_description_json device) in
      if root = None \<or> \<not> compact_manifest_root_valid root
      then Inl (ESP_ERR_INVALID_ARG, ''device_description_invalid'')
      else case find_template_by_id root command_id of
        None \<Rightarrow> Inl (ESP_ERR_NOT_FOUND, ''device_command_not_found'')
      | Some tmpl \<Rightarrow>
          (let schema = schema_for_template root (Some tmpl) in
           case validate_compact_params lib root (Some tmpl) schema params_json of
             Some f \<Rightarrow> Inl f
           | None \<Rightarrow> (case fill_compact_command lib (Some tmpl) schema of
               Inl err \<Rightarrow> Inl (err, ''device_command_invalid'') | Inr command \<Rightarrow> Inr command)))"

definition scenehub_device_command_resolve ::
  "json_lib \<Rightarrow> quest_devices \<Rightarrow> string \<Rightarrow> string \<Rightarrow> string \<Rightarrow> bool \<Rightarrow> failure + resolved_command" where
  "scenehub_device_command_resolve lib q device_id command_id params_json require_enabled =
     (if device_id = [] \<or> command_id = [] then Inl (ESP_ERR_INVALID_ARG, ''device_command_invalid'')
      else case quest_device_get device_id q of
        Inl err \<Rightarrow> Inl (err, ''device_not_found'')
      | Inr device \<Rightarrow>
          (if require_enabled \<and> \<not> qd_enabled device then Inl (ESP_ERR_INVALID_STATE, ''device_disabled'')
           else let out = (\<lambda>command compact. \<lparr>rc_device_id = quest_str_copy QUEST_ID_MAX_LEN (qd_id device),
                  rc_client_id = quest_str_copy QUEST_ID_MAX_LEN (qd_client_id device),
                  rc_device_name = quest_str_copy QUEST_NAME_MAX_LEN (qd_name device),
                  rc_command = command, rc_compact_manifest = compact\<rparr>)
             in if qd_device_description_json device \<noteq> []
                then map_sum id (\<lambda>c. out c True) (resolve_compact_command lib device command_id params_json)
                else case find (\<lambda>c. qc_id c = command_id) (qd_commands device) of
                  None \<Rightarrow> Inl (ESP_ERR_NOT_FOUND, ''device_command_not_found'')
                | Some command \<Rightarrow>
                    (case scenehub_device_command_validate_params lib command params_json of
                       Some f \<Rightarrow> Inl f | None \<Rightarrow> Inr (out command False))))"

section \<open>Merging\<close>

lemma map_of_set_member: "map_of (set_member k v kvs) = (map_of kvs)(k \<mapsto> v)"
  by (induction k v kvs rule: set_member.induct) (auto simp: fun_eq_iff)

lemma set_all_Inr:
  "set_all object kvs = Inr object' \<Longrightarrow>
   map_of object' = map_of object ++ map_of (rev kvs) \<and> [] \<notin> fst ` set kvs"
proof (induction kvs arbitrary: object)
  case (Cons kv kvs)
  obtain k v where kv: "kv = (k, v)" by force
  then have k: "k \<noteq> []" "set_all (set_member k v object) kvs = Inr object'"
    using Cons.prems by (auto simp: json_object_set_dup_def split: if_splits)
  have "map_of object ++ map_of (rev (kv # kvs)) = (map_of object)(k \<mapsto> v) ++ map_of (rev kvs)"
    by (rule ext) (simp add: kv map_add_def split: option.split)
  with Cons.IH [OF k(2)] have "map_of object' = map_of object ++ map_of (rev (kv # kvs))"
    by (simp only: map_of_set_member)
  moreover have "[] \<notin> fst ` set (kv # kvs)" using Cons.IH [OF k(2)] k(1) kv by auto
  ultimately show ?case by blast
qed simp

text \<open>Later members win, so the parameters override the defaults.\<close>

definition effective_args :: "json_lib \<Rightarrow> string \<Rightarrow> string \<Rightarrow> string \<rightharpoonup> cjson" where
  "effective_args lib default_args_json params_json =
     map_of (rev (if default_args_json = [] then [] else members (cJSON_Parse lib default_args_json))) ++
     map_of (rev (if params_json = [] then [] else members (cJSON_Parse lib params_json)))"

lemma merge_effective:
  assumes "merge_effective_params lib default_args params_json = Inr effective"
  shows "cJSON_GetObjectItemCaseSensitive (Some effective) =
    map_of (rev (members default_args)) ++
    map_of (rev (if params_json = [] then [] else members (cJSON_Parse lib params_json)))"
proof -
  obtain e1 where e1: "set_all [] (members default_args) = Inr e1"
    using assms by (auto simp: merge_effective_params_def split: sum.splits)
  have m1: "map_of e1 = map_of (rev (members default_args))" using set_all_Inr [OF e1] by simp
  show ?thesis
  proof (cases "params_json = []")
    case True
    then show ?thesis using assms e1 m1
      by (auto simp: merge_effective_params_def cJSON_GetObjectItemCaseSensitive_def fun_eq_iff)
  next
    case False
    then obtain e2 where e2: "set_all e1 (members (cJSON_Parse lib params_json)) = Inr e2" "effective = CObject e2"
      using assms e1 by (auto simp: merge_effective_params_def Let_def map_sum_def split: if_splits sum.splits)
    then show ?thesis using set_all_Inr [OF e2(1)] m1 False
      by (auto simp: cJSON_GetObjectItemCaseSensitive_def fun_eq_iff)
  qed
qed

lemma first_failure_None: "first_failure f xs = None \<longleftrightarrow> (\<forall>x \<in> set xs. f x = None)"
  by (induction xs) (auto split: option.split)

section \<open>Properties\<close>

fun value_fits :: "quest_device_command_param_type \<Rightarrow> cjson \<Rightarrow> bool" where
  "value_fits QUEST_DEVICE_COMMAND_PARAM_NUMBER v = (json_number_like (Some v) \<noteq> None)"
| "value_fits QUEST_DEVICE_COMMAND_PARAM_CHECKBOX v = json_bool_like (Some v)"
| "value_fits _ v = (\<exists>s. v = CString s \<and> s \<noteq> [])"

definition param_checked :: "(string \<rightharpoonup> cjson) \<Rightarrow> quest_device_command_param \<Rightarrow> bool" where
  "param_checked args param \<longleftrightarrow> (case args (qp_key param) of
      None \<Rightarrow> qp_optional param
    | Some v \<Rightarrow> (if v = CNull then qp_optional param else value_fits (qp_type param) v))"

lemma check_flat_param_ok:
  assumes "check_flat_param effective param = None"
  shows "param_checked (cJSON_GetObjectItemCaseSensitive (Some effective)) param"
  using assms
  by (auto simp: check_flat_param_def param_checked_def json_value_present_def Let_def
      split: if_splits option.splits quest_device_command_param_type.splits cjson.splits)

text \<open>
  A parameter of a manifest, as its schema describes it: a channel must be one of the resources, a
  selection one of the options, a number or a check box a value of that type; any other type is not
  checked.
\<close>

fun schema_value_fits :: "cjson option \<Rightarrow> string \<Rightarrow> cjson \<Rightarrow> cjson \<Rightarrow> bool" where
  "schema_value_fits root target schema_item v =
     (let ty = json_string_member (Some schema_item) ''type'' in
      (ty = ''resource_channel'' \<longrightarrow> resource_channel_exists root target (Some v)) \<and>
      (ty = ''select'' \<longrightarrow> select_option_exists schema_item (Some v)) \<and>
      (ty = ''number'' \<longrightarrow> json_number_like (Some v) \<noteq> None) \<and>
      (ty = ''checkbox'' \<longrightarrow> json_bool_like (Some v)))"

definition schema_param_checked :: "cjson option \<Rightarrow> string \<Rightarrow> (string \<rightharpoonup> cjson) \<Rightarrow> cjson \<Rightarrow> bool" where
  "schema_param_checked root target args schema_item \<longleftrightarrow>
     (let key = json_string_member (Some schema_item) ''key'';
          is_optional = (cJSON_GetObjectItemCaseSensitive (Some schema_item) ''optional'' = Some (CBool True))
      in key \<noteq> [] \<and> (case args key of None \<Rightarrow> is_optional
         | Some v \<Rightarrow> (if v = CNull then is_optional else schema_value_fits root target schema_item v)))"

lemma check_compact_param_ok:
  assumes "check_compact_param root target params schema_item = None"
  shows "schema_param_checked root target (cJSON_GetObjectItemCaseSensitive (Some params)) schema_item"
  using assms
  by (auto simp: check_compact_param_def schema_param_checked_def json_value_present_def Let_def
      split: if_splits option.splits)

definition override_args :: "json_lib \<Rightarrow> cjson option \<Rightarrow> string \<Rightarrow> string \<rightharpoonup> cjson" where
  "override_args lib default_args params_json = map_of (rev (members default_args)) ++
     map_of (rev (if params_json = [] then [] else members (cJSON_Parse lib params_json)))"

text \<open>What is checked of a command of the manifest of a device.\<close>

definition manifest_command_checked ::
  "json_lib \<Rightarrow> quest_device \<Rightarrow> string \<Rightarrow> string \<Rightarrow> quest_device_command \<Rightarrow> bool" where
  "manifest_command_checked lib d command_id params_json command \<longleftrightarrow>
     (let root = cJSON_Parse lib (qd_device_description_json d) in
      compact_manifest_root_valid root \<and>
      (\<exists>tmpl. find_template_by_id root command_id = Some tmpl \<and>
         (let schema = schema_for_template root (Some tmpl) in
          cJSON_IsArray schema \<and> fill_compact_command lib (Some tmpl) schema = Inr command \<and>
          (\<forall>p \<in> set (children schema).
             schema_param_checked root (json_string_member (Some tmpl) ''target'')
               (override_args lib (cJSON_GetObjectItemCaseSensitive (Some tmpl) ''default_args'') params_json) p))))"

lemma resolved_compact:
  assumes "resolve_compact_command lib d command_id params_json = Inr command"
  shows "manifest_command_checked lib d command_id params_json command"
proof -
  let ?root = "cJSON_Parse lib (qd_device_description_json d)"
  obtain tmpl where t: "compact_manifest_root_valid ?root" "find_template_by_id ?root command_id = Some tmpl"
    and v: "validate_compact_params lib ?root (Some tmpl) (schema_for_template ?root (Some tmpl)) params_json = None"
    and f: "fill_compact_command lib (Some tmpl) (schema_for_template ?root (Some tmpl)) = Inr command"
    using assms by (auto simp: resolve_compact_command_def Let_def split: if_splits option.splits sum.splits)
  obtain params where m: "merge_effective_params lib (cJSON_GetObjectItemCaseSensitive (Some tmpl) ''default_args'') params_json = Inr params"
    and a: "cJSON_IsArray (schema_for_template ?root (Some tmpl))"
    and c: "\<forall>p \<in> set (children (schema_for_template ?root (Some tmpl))).
      check_compact_param ?root (json_string_member (Some tmpl) ''target'') params p = None"
    using v by (auto simp: validate_compact_params_def first_failure_None split: if_splits sum.splits)
  have "cJSON_GetObjectItemCaseSensitive (Some params) =
      override_args lib (cJSON_GetObjectItemCaseSensitive (Some tmpl) ''default_args'') params_json"
    using merge_effective [OF m] by (simp add: override_args_def)
  then show ?thesis
    using t f a c check_compact_param_ok [of ?root _ params] by (auto simp: manifest_command_checked_def Let_def)
qed

text \<open>What is checked of a command of the table of a device.\<close>

definition flat_command_checked ::
  "json_lib \<Rightarrow> quest_device \<Rightarrow> string \<Rightarrow> string \<Rightarrow> quest_device_command \<Rightarrow> bool" where
  "flat_command_checked lib d command_id params_json command \<longleftrightarrow>
     command \<in> set (qd_commands d) \<and> qc_id command = command_id \<and>
     (\<forall>p \<in> set (qc_params command). param_checked (effective_args lib (qc_default_args_json command) params_json) p)"

text \<open>
  C38: a resolved command has checked parameters.  When the resolver accepts a request, the device
  exists, and is enabled if the caller requires it.  For a device without manifest the command is one
  of its commands, and every parameter of the schema is either absent and optional or has a value of
  its type in the arguments that result from overriding the defaults with the parameters of the
  request.  For a device with a manifest, the manifest is valid, the command is made from the template
  with its id, and every parameter of the template's schema is absent and optional, or a channel of
  the device, one of the options, a number or a boolean as the schema says; parameters of other types
  (text) are not checked there.
\<close>

theorem resolved_command_checked:
  assumes "scenehub_device_command_resolve lib q device_id command_id params_json require_enabled = Inr rc"
  shows "\<exists>d. quest_device_get device_id q = Inr d \<and> (require_enabled \<longrightarrow> qd_enabled d) \<and>
    (rc_compact_manifest rc \<longleftrightarrow> qd_device_description_json d \<noteq> []) \<and>
    (if rc_compact_manifest rc then manifest_command_checked lib d command_id params_json (rc_command rc)
     else flat_command_checked lib d command_id params_json (rc_command rc))"
proof -
  obtain d where d: "quest_device_get device_id q = Inr d" "require_enabled \<longrightarrow> qd_enabled d"
    using assms by (auto simp: scenehub_device_command_resolve_def split: if_splits sum.splits)
  show ?thesis
  proof (cases "qd_device_description_json d = []")
    case False
    then have "rc_compact_manifest rc" "resolve_compact_command lib d command_id params_json = Inr (rc_command rc)"
      using assms d by (auto simp: scenehub_device_command_resolve_def Let_def map_sum_def split: if_splits sum.splits)
    with d False resolved_compact show ?thesis by auto
  next
    case True
    then obtain c where c: "find (\<lambda>c. qc_id c = command_id) (qd_commands d) = Some c" "rc_command rc = c"
      "\<not> rc_compact_manifest rc" and v: "scenehub_device_command_validate_params lib c params_json = None"
      using assms d by (auto simp: scenehub_device_command_resolve_def Let_def map_sum_def split: if_splits option.splits)
    let ?da = "if qc_default_args_json c = [] then None else cJSON_Parse lib (qc_default_args_json c)"
    obtain e where e: "merge_effective_params lib ?da params_json = Inr e"
      "\<forall>p \<in> set (qc_params c). check_flat_param e p = None"
      using v by (auto simp: scenehub_device_command_validate_params_def Let_def first_failure_None
          split: if_splits sum.splits)
    have "cJSON_GetObjectItemCaseSensitive (Some e) = effective_args lib (qc_default_args_json c) params_json"
      using merge_effective [OF e(1)] by (simp add: effective_args_def)
    with e(2) check_flat_param_ok have "\<forall>p \<in> set (qc_params c).
        param_checked (effective_args lib (qc_default_args_json c) params_json) p" by metis
    then show ?thesis using d c True by (auto simp: find_Some_iff flat_command_checked_def)
  qed
qed

definition pulse_defaults :: string where
  "pulse_defaults = ''{'' @ QUOTE # ''channel'' @ QUOTE # '':1,'' @ QUOTE # ''duration_ms'' @ QUOTE # '':500}''"

definition demo_lib :: json_lib where
  "demo_lib = \<lparr>cJSON_Parse = (\<lambda>s. if s = pulse_defaults
      then Some (CObject [(''channel'', CNumber 1), (''duration_ms'', CNumber 500)]) else None),
    cJSON_PrintUnformatted = (\<lambda>_. [])\<rparr>"

theorem resolved_command_checked_witness:
  "\<exists>rc d. scenehub_device_command_resolve demo_lib quest_devices_zero ''system_relay'' ''pulse'' [] True = Inr rc \<and>
    quest_device_get ''system_relay'' quest_devices_zero = Inr d \<and> rc_command rc \<in> set (qd_commands d)"
proof -
  have "(case scenehub_device_command_resolve demo_lib quest_devices_zero ''system_relay'' ''pulse'' [] True of
      Inl _ \<Rightarrow> False | Inr rc \<Rightarrow> \<not> rc_compact_manifest rc)"
    by code_simp
  then obtain rc where rc: "scenehub_device_command_resolve demo_lib quest_devices_zero ''system_relay'' ''pulse'' [] True = Inr rc"
    "\<not> rc_compact_manifest rc" by (auto split: sum.splits)
  with resolved_command_checked [OF rc(1)] show ?thesis by (auto simp: flat_command_checked_def)
qed

text \<open>
  The default arguments of a built-in command are checked but not used.  For any JSON library
  that reads the default arguments of the relay command pulse, the resolver accepts the command
  without parameters, because the defaults supply them, and the executor then refuses the very same
  request because the channel is missing.
\<close>

theorem defaults_checked_but_not_applied:
  assumes "cJSON_Parse lib pulse_defaults = Some (CObject [(''channel'', CNumber 1), (''duration_ms'', CNumber 500)])"
  shows "\<exists>rc. scenehub_device_command_resolve lib quest_devices_zero ''system_relay'' ''pulse'' [] True = Inr rc \<and>
    command_executor_execute_resolved demo_env (ce_request_zero\<lparr>rq_device_id := ''system_relay'', rq_command_id := ''pulse''\<rparr>)
      (rc_client_id rc) (rc_command rc) x =
    ((ESP_ERR_INVALID_ARG, ''hardware_channel_param_missing''), ce_dispatch_zero, x)"
proof -
  let ?d = "quest_device_fill_system_relay"
  have "case find (\<lambda>c. qc_id c = ''pulse'') (qd_commands ?d) of
      None \<Rightarrow> False
    | Some c \<Rightarrow> qc_default_args_json c = pulse_defaults \<and> qc_command c = ''relay.pulse'' \<and> qc_id c = ''pulse'' \<and>
        map (\<lambda>p. (qp_key p, qp_type p)) (qc_params c) =
          [(''channel'', QUEST_DEVICE_COMMAND_PARAM_NUMBER), (''duration_ms'', QUEST_DEVICE_COMMAND_PARAM_NUMBER)]"
    by code_simp
  then obtain c where find: "find (\<lambda>c. qc_id c = ''pulse'') (qd_commands ?d) = Some c"
    and c: "qc_default_args_json c = pulse_defaults" "qc_command c = ''relay.pulse''" "qc_id c = ''pulse''"
    and "map (\<lambda>p. (qp_key p, qp_type p)) (qc_params c) =
      [(''channel'', QUEST_DEVICE_COMMAND_PARAM_NUMBER), (''duration_ms'', QUEST_DEVICE_COMMAND_PARAM_NUMBER)]"
    by (auto split: option.splits)
  then obtain p1 p2 where ps: "qc_params c = [p1, p2]" "qp_key p1 = ''channel''" "qp_key p2 = ''duration_ms''"
    "qp_type p1 = QUEST_DEVICE_COMMAND_PARAM_NUMBER" "qp_type p2 = QUEST_DEVICE_COMMAND_PARAM_NUMBER"
    by (auto simp: map_eq_Cons_conv)
  have ne: "pulse_defaults \<noteq> []" by (simp add: pulse_defaults_def)
  have dev: "quest_device_get ''system_relay'' quest_devices_zero = Inr ?d" "qd_enabled ?d"
    "qd_device_description_json ?d = []"
    by code_simp+
  have "scenehub_device_command_validate_params lib c [] = None"
    using assms ne by (simp add: scenehub_device_command_validate_params_def c ps merge_effective_params_def
        json_object_set_dup_def check_flat_param_def json_value_present_def json_number_like_def
        cJSON_GetObjectItemCaseSensitive_def)
  then obtain rc where rc: "scenehub_device_command_resolve lib quest_devices_zero ''system_relay'' ''pulse'' [] True = Inr rc"
    "rc_command rc = c"
    using dev find by (simp add: scenehub_device_command_resolve_def)
  have "command_executor_execute_hardware True ''system_relay'' [] c =
      Inl (ESP_ERR_INVALID_ARG, ''hardware_channel_param_missing'')"
    by (simp add: command_executor_execute_hardware_def system_id_defs hardware_execute_relay_def
        hardware_get_channel_def required_int_def command_executor_params_get_int_def missing_param_def)
  then show ?thesis
    using rc by (auto simp: command_executor_execute_resolved_def ce_request_zero_def c system_id_defs c_prefix_def
        demo_env_def run_local_def)
qed

theorem defaults_checked_but_not_applied_witness:
  "\<exists>rc. scenehub_device_command_resolve demo_lib quest_devices_zero ''system_relay'' ''pulse'' [] True = Inr rc \<and>
    fst (fst (command_executor_execute_resolved demo_env
      (ce_request_zero\<lparr>rq_device_id := ''system_relay'', rq_command_id := ''pulse''\<rparr>)
      (rc_client_id rc) (rc_command rc) demo_executor)) = ESP_ERR_INVALID_ARG"
proof -
  have "cJSON_Parse demo_lib pulse_defaults = Some (CObject [(''channel'', CNumber 1), (''duration_ms'', CNumber 500)])"
    by (simp add: demo_lib_def)
  from defaults_checked_but_not_applied [OF this, of demo_executor] show ?thesis by auto
qed

end
