(* ===== verification/Control_Result.thy ===== *)
theory Control_Result
  imports Command_Resolver Gm_Scenario
begin

text \<open>
  The write-side result envelope of the control service and the helpers that fill it
  (\<open>scenehub_control/scenehub_control.c\<close>, \<open>include/scenehub_control.h\<close>).  What the service
  tells other components (invalidations of read-side state, audit and timeline entries) is
  recorded as a list of effects.
\<close>

section \<open>Results\<close>

definition SCENEHUB_CONTROL_ERROR_CODE_MAX_LEN :: nat where "SCENEHUB_CONTROL_ERROR_CODE_MAX_LEN = 32"
definition SCENEHUB_CONTROL_MESSAGE_MAX_LEN :: nat where "SCENEHUB_CONTROL_MESSAGE_MAX_LEN = 96"
definition SCENEHUB_CONTROL_ACTION_ID_MAX_LEN :: nat where "SCENEHUB_CONTROL_ACTION_ID_MAX_LEN = 32"
definition SCENEHUB_CONTROL_REQUEST_ID_MAX_LEN :: nat where "SCENEHUB_CONTROL_REQUEST_ID_MAX_LEN = 48"
definition SCENEHUB_CONTROL_REMOTE_STATUS_MAX_LEN :: nat where "SCENEHUB_CONTROL_REMOTE_STATUS_MAX_LEN = 16"

datatype control_status =
    SCENEHUB_CONTROL_STATUS_DONE
  | SCENEHUB_CONTROL_STATUS_ACCEPTED
  | SCENEHUB_CONTROL_STATUS_REJECTED
  | SCENEHUB_CONTROL_STATUS_FAILED
  | SCENEHUB_CONTROL_STATUS_TIMEOUT

record control_result =
  cr_status :: control_status
  cr_err :: esp_err
  cr_state_changed :: bool
  cr_has_request_id :: bool
  cr_has_remote_status :: bool
  cr_room_id :: string
  cr_action_id :: string
  cr_error_code :: string
  cr_message :: string
  cr_request_id :: string
  cr_remote_status :: string

definition scenehub_control_copy :: "nat \<Rightarrow> string \<Rightarrow> string" where
  "scenehub_control_copy dst_size src =
     (if dst_size = 0 then [] else if length src \<ge> dst_size then take (dst_size - 1) src else src)"

lemma scenehub_control_copy_is_quest_str_copy: "scenehub_control_copy n s = quest_str_copy n s"
  by (auto simp: scenehub_control_copy_def quest_str_copy_def)

definition scenehub_control_prepare_result :: "string \<Rightarrow> string \<Rightarrow> control_result" where
  "scenehub_control_prepare_result room_id action_id = \<lparr>
     cr_status = SCENEHUB_CONTROL_STATUS_FAILED, cr_err = ESP_FAIL, cr_state_changed = False,
     cr_has_request_id = False, cr_has_remote_status = False,
     cr_room_id = scenehub_control_copy QUEST_ROOM_ID_MAX_LEN room_id,
     cr_action_id = scenehub_control_copy SCENEHUB_CONTROL_ACTION_ID_MAX_LEN action_id,
     cr_error_code = [], cr_message = [], cr_request_id = [], cr_remote_status = []\<rparr>"

definition scenehub_control_set_result ::
  "control_status \<Rightarrow> esp_err \<Rightarrow> bool \<Rightarrow> string \<Rightarrow> string \<Rightarrow> control_result \<Rightarrow> control_result" where
  "scenehub_control_set_result status err state_changed error_code message r = r\<lparr>
     cr_status := status, cr_err := err, cr_state_changed := state_changed,
     cr_error_code := scenehub_control_copy SCENEHUB_CONTROL_ERROR_CODE_MAX_LEN error_code,
     cr_message := scenehub_control_copy SCENEHUB_CONTROL_MESSAGE_MAX_LEN message\<rparr>"

definition scenehub_control_set_request_id :: "string \<Rightarrow> control_result \<Rightarrow> control_result" where
  "scenehub_control_set_request_id request_id r = r\<lparr>cr_has_request_id := request_id \<noteq> [],
     cr_request_id := scenehub_control_copy SCENEHUB_CONTROL_REQUEST_ID_MAX_LEN request_id\<rparr>"

definition scenehub_control_set_remote_status :: "string \<Rightarrow> control_result \<Rightarrow> control_result" where
  "scenehub_control_set_remote_status remote_status r = r\<lparr>cr_has_remote_status := remote_status \<noteq> [],
     cr_remote_status := scenehub_control_copy SCENEHUB_CONTROL_REMOTE_STATUS_MAX_LEN remote_status\<rparr>"

definition scenehub_control_finish_success_no_state_change :: "control_result \<Rightarrow> control_result" where
  "scenehub_control_finish_success_no_state_change =
     scenehub_control_set_result SCENEHUB_CONTROL_STATUS_DONE ESP_OK False [] []"

definition scenehub_control_fill_common_error :: "esp_err \<Rightarrow> control_result \<Rightarrow> control_result" where
  "scenehub_control_fill_common_error err = (case err of
     ESP_ERR_INVALID_ARG \<Rightarrow> scenehub_control_set_result SCENEHUB_CONTROL_STATUS_REJECTED err False
       ''invalid_request'' ''Invalid request''
   | ESP_ERR_NOT_FOUND \<Rightarrow> scenehub_control_set_result SCENEHUB_CONTROL_STATUS_REJECTED err False
       ''room_not_found'' ''Room not found''
   | ESP_ERR_INVALID_STATE \<Rightarrow> scenehub_control_set_result SCENEHUB_CONTROL_STATUS_REJECTED err False
       ''action_disabled'' ''Operation not allowed in current state''
   | _ \<Rightarrow> scenehub_control_set_result SCENEHUB_CONTROL_STATUS_FAILED err False
       ''execution_failed'' ''Execution failed'')"

definition scenehub_control_status_str :: "control_status \<Rightarrow> string" where
  "scenehub_control_status_str status = (case status of
     SCENEHUB_CONTROL_STATUS_DONE \<Rightarrow> ''done''
   | SCENEHUB_CONTROL_STATUS_ACCEPTED \<Rightarrow> ''accepted''
   | SCENEHUB_CONTROL_STATUS_REJECTED \<Rightarrow> ''rejected''
   | SCENEHUB_CONTROL_STATUS_TIMEOUT \<Rightarrow> ''timeout''
   | SCENEHUB_CONTROL_STATUS_FAILED \<Rightarrow> ''failed'')"

definition scenehub_control_room_action_error_code :: "esp_err \<Rightarrow> string" where
  "scenehub_control_room_action_error_code err = (case err of
     ESP_OK \<Rightarrow> ''ok''
   | ESP_ERR_INVALID_ARG \<Rightarrow> ''invalid_request''
   | SCENEHUB_CONTROL_ERR_ROOM_NOT_FOUND \<Rightarrow> ''room_not_found''
   | SCENEHUB_CONTROL_ERR_ACTION_NOT_FOUND \<Rightarrow> ''action_not_found''
   | SCENEHUB_CONTROL_ERR_ACTION_DISABLED \<Rightarrow> ''action_disabled''
   | SCENEHUB_CONTROL_ERR_NOT_SUPPORTED \<Rightarrow> ''not_supported''
   | SCENEHUB_CONTROL_ERR_ROOM_UNHEALTHY \<Rightarrow> ''room_unhealthy''
   | _ \<Rightarrow> ''execution_failed'')"

definition scenehub_control_normalize_room_action_error :: "esp_err \<Rightarrow> esp_err" where
  "scenehub_control_normalize_room_action_error err = (case err of
     ESP_OK \<Rightarrow> err
   | ESP_ERR_INVALID_ARG \<Rightarrow> err
   | SCENEHUB_CONTROL_ERR_ROOM_NOT_FOUND \<Rightarrow> err
   | SCENEHUB_CONTROL_ERR_ACTION_NOT_FOUND \<Rightarrow> err
   | SCENEHUB_CONTROL_ERR_ACTION_DISABLED \<Rightarrow> err
   | SCENEHUB_CONTROL_ERR_NOT_SUPPORTED \<Rightarrow> err
   | SCENEHUB_CONTROL_ERR_ROOM_UNHEALTHY \<Rightarrow> err
   | SCENEHUB_CONTROL_ERR_EXECUTION_FAILED \<Rightarrow> err
   | ESP_ERR_NOT_FOUND \<Rightarrow> SCENEHUB_CONTROL_ERR_ROOM_NOT_FOUND
   | ESP_ERR_INVALID_STATE \<Rightarrow> SCENEHUB_CONTROL_ERR_ACTION_DISABLED
   | ESP_ERR_NOT_SUPPORTED \<Rightarrow> SCENEHUB_CONTROL_ERR_NOT_SUPPORTED
   | _ \<Rightarrow> SCENEHUB_CONTROL_ERR_EXECUTION_FAILED)"

section \<open>Effects\<close>

datatype state_slice =
    SCENEHUB_STATE_SLICE_NONE
  | SCENEHUB_STATE_SLICE_ROOM_CATALOG
  | SCENEHUB_STATE_SLICE_DEVICES_CATALOG
  | SCENEHUB_STATE_SLICE_ROOM_SCENARIOS
  | SCENEHUB_STATE_SLICE_ROOM_PROFILES
  | SCENEHUB_STATE_SLICE_GM_SIDEBAR_PRESETS
  | SCENEHUB_STATE_SLICE_DEVICES_RUNTIME
  | SCENEHUB_STATE_SLICE_ROOM_RUNTIME
  | SCENEHUB_STATE_SLICE_SYSTEM_SUMMARY
  | SCENEHUB_STATE_SLICE_FULL_SNAPSHOT

datatype timeline_type =
    ORCH_TIMELINE_TYPE_EVENT
  | ORCH_TIMELINE_TYPE_DEVICE_STATUS
  | ORCH_TIMELINE_TYPE_RUNTIME_CHANGED
  | ORCH_TIMELINE_TYPE_SCENARIO_TRIGGERED
  | ORCH_TIMELINE_TYPE_TIMER_CHANGED
  | ORCH_TIMELINE_TYPE_DEVICE_ACTION
  | ORCH_TIMELINE_TYPE_ACTION_FAILED
  | ORCH_TIMELINE_TYPE_CONFIG_CHANGED

datatype timeline_severity =
    ORCH_TIMELINE_SEVERITY_INFO | ORCH_TIMELINE_SEVERITY_WARNING | ORCH_TIMELINE_SEVERITY_ERROR

text \<open>
  \<open>Audit source target action request ok code\<close> and
  \<open>Timeline type severity source room device request title details\<close>.
\<close>

datatype control_effect =
    Invalidate state_slice string string
  | Audit string string string string bool string
  | Timeline timeline_type timeline_severity string string string string string string
  | Hardware_Safe_Off

definition source_or :: "string \<Rightarrow> string \<Rightarrow> string" where
  "source_or d s = (if s = [] then d else s)"

text \<open>\<open>strstr\<close>: one string occurs in another.\<close>

fun occurs_in :: "string \<Rightarrow> string \<Rightarrow> bool" where
  "occurs_in p [] \<longleftrightarrow> p = []"
| "occurs_in p (c # s) \<longleftrightarrow> take (length p) (c # s) = p \<or> occurs_in p s"

definition scenehub_control_log_room_action ::
  "string \<Rightarrow> string \<Rightarrow> string \<Rightarrow> esp_err \<Rightarrow> control_effect list" where
  "scenehub_control_log_room_action source room_id action_id result =
     (let src = source_or ''internal'' source; room = source_or ''-'' room_id; action = source_or ''-'' action_id;
          timer_action = (occurs_in ''timer'' action \<or> occurs_in ''session'' action \<or> occurs_in ''game'' action)
      in [Audit src room action [] (result = ESP_OK) (scenehub_control_room_action_error_code result),
          Timeline (if result = ESP_OK
                    then (if timer_action then ORCH_TIMELINE_TYPE_TIMER_CHANGED else ORCH_TIMELINE_TYPE_EVENT)
                    else ORCH_TIMELINE_TYPE_ACTION_FAILED)
            (if result = ESP_OK then ORCH_TIMELINE_SEVERITY_INFO else ORCH_TIMELINE_SEVERITY_ERROR)
            src room [] [] (if result = ESP_OK then ''Room action'' else ''Room action failed'') action])"

definition scenehub_control_log_timer :: "string \<Rightarrow> string \<Rightarrow> string \<Rightarrow> string \<Rightarrow> control_effect list" where
  "scenehub_control_log_timer source room_id title details =
     [Timeline ORCH_TIMELINE_TYPE_TIMER_CHANGED ORCH_TIMELINE_SEVERITY_INFO (source_or ''internal'' source)
        room_id [] [] title details]"

definition scenehub_control_log_device_action ::
  "string \<Rightarrow> string \<Rightarrow> bool \<Rightarrow> string \<Rightarrow> string \<Rightarrow> control_effect list" where
  "scenehub_control_log_device_action source device_id warning command_id request_id =
     [Audit (source_or ''internal'' source) device_id command_id request_id True [],
      Timeline ORCH_TIMELINE_TYPE_DEVICE_ACTION
        (if warning then ORCH_TIMELINE_SEVERITY_WARNING else ORCH_TIMELINE_SEVERITY_INFO)
        (source_or ''internal'' source) [] device_id request_id ''Quest device command'' command_id]"

definition scenehub_control_finish_success_with_invalidation ::
  "state_slice \<Rightarrow> string \<Rightarrow> string \<Rightarrow> control_result \<Rightarrow> control_result \<times> control_effect list" where
  "scenehub_control_finish_success_with_invalidation part target_id reason r =
     (scenehub_control_set_result SCENEHUB_CONTROL_STATUS_DONE ESP_OK True [] [] r,
      [Invalidate part target_id reason])"

definition scenehub_control_finish_accepted_with_invalidation ::
  "state_slice \<Rightarrow> string \<Rightarrow> string \<Rightarrow> control_result \<Rightarrow> control_result \<times> control_effect list" where
  "scenehub_control_finish_accepted_with_invalidation part target_id reason r =
     (scenehub_control_set_result SCENEHUB_CONTROL_STATUS_ACCEPTED ESP_OK True [] [] r,
      [Invalidate part target_id reason])"

definition scenehub_control_finalize_api_result_with_invalidation ::
  "esp_err \<Rightarrow> state_slice \<Rightarrow> string \<Rightarrow> string \<Rightarrow> control_result \<Rightarrow> control_result \<times> control_effect list" where
  "scenehub_control_finalize_api_result_with_invalidation err part target_id reason r =
     (if err = ESP_OK then scenehub_control_finish_success_with_invalidation part target_id reason r
      else (scenehub_control_fill_common_error err r, []))"

definition scenehub_control_finalize_no_state_change_result :: "esp_err \<Rightarrow> control_result \<Rightarrow> control_result" where
  "scenehub_control_finalize_no_state_change_result err r =
     (if err = ESP_OK then scenehub_control_finish_success_no_state_change r
      else scenehub_control_fill_common_error err r)"

section \<open>Well-formed results\<close>

text \<open>
  The envelope's invariant: a success carries no error, a failure never claims a state change,
  and every text fits its field.
\<close>

definition result_wf :: "control_result \<Rightarrow> bool" where
  "result_wf r \<longleftrightarrow>
     (cr_status r \<in> {SCENEHUB_CONTROL_STATUS_DONE, SCENEHUB_CONTROL_STATUS_ACCEPTED} \<longleftrightarrow> cr_err r = ESP_OK) \<and>
     (cr_err r \<noteq> ESP_OK \<longrightarrow> \<not> cr_state_changed r) \<and>
     length (cr_room_id r) < QUEST_ROOM_ID_MAX_LEN \<and>
     length (cr_action_id r) < SCENEHUB_CONTROL_ACTION_ID_MAX_LEN \<and>
     length (cr_error_code r) < SCENEHUB_CONTROL_ERROR_CODE_MAX_LEN \<and>
     length (cr_message r) < SCENEHUB_CONTROL_MESSAGE_MAX_LEN \<and>
     length (cr_request_id r) < SCENEHUB_CONTROL_REQUEST_ID_MAX_LEN \<and>
     length (cr_remote_status r) < SCENEHUB_CONTROL_REMOTE_STATUS_MAX_LEN"

lemmas control_len_defs = SCENEHUB_CONTROL_ERROR_CODE_MAX_LEN_def SCENEHUB_CONTROL_MESSAGE_MAX_LEN_def
  SCENEHUB_CONTROL_ACTION_ID_MAX_LEN_def SCENEHUB_CONTROL_REQUEST_ID_MAX_LEN_def
  SCENEHUB_CONTROL_REMOTE_STATUS_MAX_LEN_def QUEST_ROOM_ID_MAX_LEN_def

named_theorems result_wf_intros \<open>operations that keep the result envelope well-formed\<close>

lemma control_copy_length: "0 < n \<Longrightarrow> length (scenehub_control_copy n s) < n"
  by (auto simp: scenehub_control_copy_def)

lemma prepare_result_wf [result_wf_intros]: "result_wf (scenehub_control_prepare_result room_id action_id)"
  by (auto simp: result_wf_def scenehub_control_prepare_result_def control_len_defs control_copy_length)

lemma set_result_wf [result_wf_intros]:
  "result_wf r \<Longrightarrow> status \<in> {SCENEHUB_CONTROL_STATUS_DONE, SCENEHUB_CONTROL_STATUS_ACCEPTED} \<longleftrightarrow> err = ESP_OK \<Longrightarrow>
   changed \<longrightarrow> err = ESP_OK \<Longrightarrow> result_wf (scenehub_control_set_result status err changed code msg r)"
  by (auto simp: result_wf_def scenehub_control_set_result_def control_len_defs control_copy_length)

lemma set_request_id_wf [result_wf_intros]:
  "result_wf r \<Longrightarrow> result_wf (scenehub_control_set_request_id request_id r)"
  by (simp add: result_wf_def scenehub_control_set_request_id_def control_len_defs control_copy_length)

lemma set_remote_status_wf [result_wf_intros]:
  "result_wf r \<Longrightarrow> result_wf (scenehub_control_set_remote_status remote_status r)"
  by (simp add: result_wf_def scenehub_control_set_remote_status_def control_len_defs control_copy_length)

lemma fill_common_error_wf [result_wf_intros]:
  "result_wf r \<Longrightarrow> err \<noteq> ESP_OK \<Longrightarrow> result_wf (scenehub_control_fill_common_error err r)"
  by (auto simp: scenehub_control_fill_common_error_def split: esp_err.split intro!: result_wf_intros)

lemma fill_common_error_fields [simp]:
  "cr_err (scenehub_control_fill_common_error err r) = err"
  "\<not> cr_state_changed (scenehub_control_fill_common_error err r)"
  by (simp_all add: scenehub_control_fill_common_error_def scenehub_control_set_result_def split: esp_err.split)

lemma finish_wf [result_wf_intros]:
  "result_wf r \<Longrightarrow> result_wf (fst (scenehub_control_finish_success_with_invalidation part target reason r))"
  "result_wf r \<Longrightarrow> result_wf (fst (scenehub_control_finish_accepted_with_invalidation part target reason r))"
  "result_wf r \<Longrightarrow> result_wf (scenehub_control_finish_success_no_state_change r)"
  by (auto simp: scenehub_control_finish_success_with_invalidation_def
      scenehub_control_finish_accepted_with_invalidation_def
      scenehub_control_finish_success_no_state_change_def intro!: result_wf_intros)

lemma finalize_wf [result_wf_intros]:
  "result_wf r \<Longrightarrow> result_wf (fst (scenehub_control_finalize_api_result_with_invalidation err part target reason r))"
  "result_wf r \<Longrightarrow> result_wf (scenehub_control_finalize_no_state_change_result err r)"
  by (auto simp: scenehub_control_finalize_api_result_with_invalidation_def
      scenehub_control_finalize_no_state_change_result_def intro!: result_wf_intros)

lemma finalize_api_result:
  "cr_err (fst (scenehub_control_finalize_api_result_with_invalidation err part target reason r)) = err"
  "snd (scenehub_control_finalize_api_result_with_invalidation err part target reason r) =
     (if err = ESP_OK then [Invalidate part target reason] else [])"
  by (simp_all add: scenehub_control_finalize_api_result_with_invalidation_def
      scenehub_control_finish_success_with_invalidation_def scenehub_control_set_result_def)

end
