(* ===== verification/Control_Dispatch.thy ===== *)
theory Control_Dispatch
  imports Control_Result C_Format
begin

text \<open>
  The dispatcher of the control service (\<open>scenehub_control/scenehub_control_dispatch.c\<close>) and the
  operations on devices that go through it (\<open>scenehub_control_devices.c\<close>).  One owner task takes
  requests from a queue and answers each before it takes the next, so a request is a function
  call; the scratch buffers it owns are obtained.  A result that the caller passes in is the
  last argument before the state.
\<close>

section \<open>Commands of devices\<close>

record dispatch_request =
  dq_source :: string
  dq_device_id :: string
  dq_command_id :: string
  dq_params_json :: string
  dq_confirmed :: bool
  dq_require_manual_allowed :: bool
  dq_require_scenario_allowed :: bool
  dq_reject_result_required :: bool
  dq_return_raw_err :: bool
  dq_result_required_error :: string

record command_info =
  ci_device_name :: string
  ci_command_label :: string

record dispatch_reply =
  dp_err :: esp_err
  dp_error :: string
  dp_dispatch :: ce_dispatch
  dp_info :: command_info
  dp_log_warning :: bool
  dp_result :: control_result

text \<open>
  The body of the owner task for a device command.  With \<open>return_raw_err\<close> an error goes back as
  the returned code and text, otherwise it is written into the result and the call succeeds.
\<close>

definition reply_error ::
  "dispatch_request \<Rightarrow> failure \<Rightarrow> command_info \<Rightarrow> bool \<Rightarrow> control_result \<Rightarrow> dispatch_reply" where
  "reply_error request f info warn r =
     (if dq_return_raw_err request
      then \<lparr>dp_err = fst f, dp_error = scenehub_control_copy 96 (snd f), dp_dispatch = ce_dispatch_zero,
            dp_info = info, dp_log_warning = warn, dp_result = r\<rparr>
      else \<lparr>dp_err = ESP_OK, dp_error = [], dp_dispatch = ce_dispatch_zero, dp_info = info,
            dp_log_warning = warn, dp_result = scenehub_control_fill_common_error (fst f) r\<rparr>)"

definition command_warning :: "quest_device_command \<Rightarrow> bool" where
  "command_warning command \<longleftrightarrow> qc_requires_confirmation command \<or> qc_danger_level command \<noteq> ''normal''"

definition no_command_info :: command_info where
  "no_command_info = \<lparr>ci_device_name = [], ci_command_label = []\<rparr>"

definition executor_request :: "dispatch_request \<Rightarrow> ce_request" where
  "executor_request request = ce_request_zero\<lparr>
     rq_source := scenehub_control_copy COMMAND_EXECUTOR_SOURCE_MAX_LEN
       (if dq_source request \<noteq> [] then dq_source request else ''manual''),
     rq_device_id := scenehub_control_copy QUEST_ID_MAX_LEN (dq_device_id request),
     rq_command_id := scenehub_control_copy QUEST_ID_MAX_LEN (dq_command_id request),
     rq_require_manual_allowed := dq_require_manual_allowed request,
     rq_require_scenario_allowed := dq_require_scenario_allowed request,
     rq_params_json := scenehub_control_copy QUEST_PAYLOAD_MAX_LEN (dq_params_json request)\<rparr>"

definition scenehub_control_dispatch_execute_device_command ::
  "json_lib \<Rightarrow> ce_env \<Rightarrow> quest_devices \<Rightarrow> dispatch_request \<Rightarrow> control_result \<Rightarrow> executor \<Rightarrow>
   dispatch_reply \<times> executor" where
  "scenehub_control_dispatch_execute_device_command lib env q request r x =
     (if dq_device_id request = [] \<or> dq_command_id request = []
      then (\<lparr>dp_err = ESP_ERR_INVALID_ARG,
             dp_error = (if dq_return_raw_err request then ''device_command_invalid'' else []),
             dp_dispatch = ce_dispatch_zero, dp_info = no_command_info, dp_log_warning = False, dp_result = r\<rparr>, x)
      else case scenehub_device_command_resolve lib q (dq_device_id request) (dq_command_id request)
                  (dq_params_json request) True of
        Inl f \<Rightarrow> (reply_error request f no_command_info False r, x)
      | Inr rc \<Rightarrow>
          (let command = rc_command rc; warn = command_warning command;
               info = \<lparr>ci_device_name = scenehub_control_copy QUEST_NAME_MAX_LEN (rc_device_name rc),
                       ci_command_label = scenehub_control_copy QUEST_NAME_MAX_LEN (qc_label command)\<rparr>;
               required = (if dq_result_required_error request \<noteq> [] then dq_result_required_error request
                           else ''device_command_result_required_unsupported'')
           in if dq_reject_result_required request \<and> qc_result_required command
              then (reply_error request (ESP_ERR_NOT_SUPPORTED, required) info warn r, x)
              else if dq_require_manual_allowed request \<and> \<not> qc_manual_allowed command
              then (reply_error request (ESP_ERR_INVALID_STATE, []) info warn r, x)
              else if dq_require_manual_allowed request \<and> qc_requires_confirmation command \<and> \<not> dq_confirmed request
              then (\<lparr>dp_err = ESP_OK, dp_error = [], dp_dispatch = ce_dispatch_zero, dp_info = info,
                     dp_log_warning = warn,
                     dp_result = scenehub_control_set_result SCENEHUB_CONTROL_STATUS_REJECTED
                       ESP_ERR_INVALID_STATE False ''confirmation_required'' ''Action requires confirmation'' r\<rparr>, x)
              else let (f, dispatch, x1) = command_executor_execute_resolved env (executor_request request)
                         (rc_client_id rc) command x
                in if fst f \<noteq> ESP_OK then (reply_error request f info warn r, x1)
                   else (\<lparr>dp_err = ESP_OK, dp_error = [], dp_dispatch = dispatch, dp_info = info,
                          dp_log_warning = warn, dp_result = r\<rparr>, x1)))"

definition scenehub_control_dispatch_device_command ::
  "json_lib \<Rightarrow> ce_env \<Rightarrow> quest_devices \<Rightarrow> string \<Rightarrow> string \<Rightarrow> string \<Rightarrow> string \<Rightarrow> bool \<Rightarrow> control_result \<Rightarrow>
   executor \<Rightarrow> dispatch_reply \<times> executor" where
  "scenehub_control_dispatch_device_command lib env q source device_id command_id params_json confirmed =
     scenehub_control_dispatch_execute_device_command lib env q \<lparr>
       dq_source = scenehub_control_copy COMMAND_EXECUTOR_SOURCE_MAX_LEN source,
       dq_device_id = scenehub_control_copy QUEST_ID_MAX_LEN device_id,
       dq_command_id = scenehub_control_copy QUEST_ID_MAX_LEN command_id,
       dq_params_json = scenehub_control_copy QUEST_PAYLOAD_MAX_LEN params_json,
       dq_confirmed = confirmed, dq_require_manual_allowed = True, dq_require_scenario_allowed = False,
       dq_reject_result_required = False, dq_return_raw_err = False, dq_result_required_error = []\<rparr>"

definition scenehub_control_dispatch_scenario_command ::
  "json_lib \<Rightarrow> ce_env \<Rightarrow> quest_devices \<Rightarrow> device_command \<Rightarrow> string \<Rightarrow> executor \<Rightarrow>
   (esp_err \<times> string) \<times> ce_dispatch \<times> executor" where
  "scenehub_control_dispatch_scenario_command lib env q command result_required_error x =
     (let (reply, x1) = scenehub_control_dispatch_execute_device_command lib env q \<lparr>
            dq_source = ''scenario'',
            dq_device_id = scenehub_control_copy QUEST_ID_MAX_LEN (cmd_device_id command),
            dq_command_id = scenehub_control_copy QUEST_ID_MAX_LEN (cmd_command_id command),
            dq_params_json = scenehub_control_copy QUEST_PAYLOAD_MAX_LEN (cmd_params_json command),
            dq_confirmed = False, dq_require_manual_allowed = False, dq_require_scenario_allowed = True,
            dq_reject_result_required = (result_required_error \<noteq> []), dq_return_raw_err = True,
            dq_result_required_error = scenehub_control_copy COMMAND_EXECUTOR_COMMAND_MAX_LEN result_required_error\<rparr>
            (scenehub_control_prepare_result [] []) x
      in ((dp_err reply, dp_error reply), dp_dispatch reply, x1))"

definition scenehub_control_device_command_run ::
  "json_lib \<Rightarrow> ce_env \<Rightarrow> quest_devices \<Rightarrow> string \<Rightarrow> string \<Rightarrow> string \<Rightarrow> string \<Rightarrow> bool \<Rightarrow> executor \<Rightarrow>
   control_result \<times> control_effect list \<times> executor" where
  "scenehub_control_device_command_run lib env q source device_id command_id params_json confirmed x =
     (let r0 = scenehub_control_prepare_result [] ''device_command_run'';
          (reply, x1) = scenehub_control_dispatch_device_command lib env q source device_id command_id
                          params_json confirmed r0 x;
          r1 = dp_result reply; rid = cd_request_id (dp_dispatch reply);
          log = scenehub_control_log_device_action source device_id (dp_log_warning reply) command_id
      in if dp_err reply \<noteq> ESP_OK
         then (if cr_message r1 = [] \<and> cr_error_code r1 = []
               then scenehub_control_fill_common_error (dp_err reply) r1 else r1, [], x1)
         else if rid \<noteq> []
         then let (r2, inv) = scenehub_control_finish_accepted_with_invalidation
                    SCENEHUB_STATE_SLICE_DEVICES_RUNTIME device_id ''device_command_run''
                    (scenehub_control_set_request_id rid r1)
              in (r2, log rid @ inv, x1)
         else let (r2, inv) = scenehub_control_finish_success_with_invalidation
                    SCENEHUB_STATE_SLICE_DEVICES_RUNTIME device_id ''device_command_run'' r1
              in (r2, log [] @ inv, x1))"

section \<open>Administrative commands\<close>

text \<open>
  What the ingest of device messages holds for a device at one poll, and what taking the cached
  result data yields; the clock and the polls are indexed by the number of the poll.
\<close>

record ingest_snapshot =
  is_has_result :: bool
  is_result_request_id :: string
  is_result_command :: string
  is_result_status :: string
  is_result_error_code :: string
  is_result_message :: string
  is_result_data_json :: string

record polls =
  po_clock_ms :: "nat \<Rightarrow> int"
  po_snapshot :: "nat \<Rightarrow> ingest_snapshot option"
  po_take_data :: "nat \<Rightarrow> string option"

definition QUEST_DEVICE_DESCRIPTION_JSON_MAX_LEN :: nat where "QUEST_DEVICE_DESCRIPTION_JSON_MAX_LEN = 12800"
definition DEVICE_CONTROL_INGEST_CACHED_RESULT_DATA_JSON_MAX_LEN :: nat where
  "DEVICE_CONTROL_INGEST_CACHED_RESULT_DATA_JSON_MAX_LEN = QUEST_DEVICE_DESCRIPTION_JSON_MAX_LEN + 256"
definition SCENEHUB_CONTROL_DISPATCH_IFACE_TIMEOUT_MS :: int where
  "SCENEHUB_CONTROL_DISPATCH_IFACE_TIMEOUT_MS = 3000"
definition SCENEHUB_CONTROL_DISPATCH_IFACE_POLL_MS :: int where
  "SCENEHUB_CONTROL_DISPATCH_IFACE_POLL_MS = 100"

text \<open>
  The polling loop: while the clock is before the deadline, a poll may update the result and
  finish; between polls the task sleeps.  \<open>Some (False, r)\<close> is a time-out.
\<close>

partial_function (option) poll_until ::
  "(nat \<Rightarrow> int) \<Rightarrow> int \<Rightarrow> (nat \<Rightarrow> 'r \<Rightarrow> bool \<times> 'r) \<Rightarrow> nat \<Rightarrow> 'r \<Rightarrow> (bool \<times> 'r) option" where
  [code]: "poll_until clock deadline step n r =
     (if clock n < deadline
      then case step n r of (finished, r1) \<Rightarrow>
        if finished then Some (True, r1) else poll_until clock deadline step (n + 1) r1
      else Some (False, r))"

definition scenehub_control_dispatch_find_admin_template :: "cjson option \<Rightarrow> string \<Rightarrow> cjson option" where
  "scenehub_control_dispatch_find_admin_template root command_id =
     (let templates = cJSON_GetObjectItemCaseSensitive root ''admin_command_templates'' in
      if \<not> cJSON_IsArray templates \<or> command_id = [] then None
      else find (\<lambda>item. cJSON_IsObject (Some item) \<and> json_string_member (Some item) ''id'' = command_id)
             (children templates))"

definition dispatch_json_bool_default :: "cjson option \<Rightarrow> string \<Rightarrow> bool \<Rightarrow> bool" where
  "dispatch_json_bool_default object key fallback =
     (case cJSON_GetObjectItemCaseSensitive object key of Some (CBool b) \<Rightarrow> b | _ \<Rightarrow> fallback)"

definition dispatch_json_u32_default :: "cjson option \<Rightarrow> string \<Rightarrow> u32 \<Rightarrow> u32" where
  "dispatch_json_u32_default object key fallback =
     (case cJSON_GetObjectItemCaseSensitive object key of
        Some (CNumber n) \<Rightarrow> (if n \<ge> 0 then word_of_int n else fallback) | _ \<Rightarrow> fallback)"

definition scenehub_control_dispatch_fill_admin_command ::
  "json_lib \<Rightarrow> quest_device \<Rightarrow> string \<Rightarrow> esp_err + quest_device_command" where
  "scenehub_control_dispatch_fill_admin_command lib device command_id =
     (if qd_device_description_json device = [] \<or> command_id = [] then Inl ESP_ERR_INVALID_ARG
      else let root = cJSON_Parse lib (qd_device_description_json device) in
        if \<not> cJSON_IsObject root then Inl ESP_ERR_INVALID_RESPONSE
        else let tmpl = scenehub_control_dispatch_find_admin_template root command_id in
          if \<not> cJSON_IsObject tmpl \<or> json_string_member tmpl ''command'' = [] then Inl ESP_ERR_NOT_FOUND
          else let policy = cJSON_GetObjectItemCaseSensitive tmpl ''policy'';
                   danger = scenehub_control_copy QUEST_DEVICE_DANGER_LEVEL_MAX_LEN
                              (json_string_member policy ''danger_level'');
                   printed = (case cJSON_GetObjectItemCaseSensitive tmpl ''default_args'' of
                       Some (CObject kvs) \<Rightarrow> cJSON_PrintUnformatted lib (CObject kvs) | _ \<Rightarrow> [])
            in if length printed \<ge> QUEST_PAYLOAD_MAX_LEN then Inl ESP_ERR_INVALID_SIZE
               else Inr \<lparr>
                 qc_id = scenehub_control_copy QUEST_ID_MAX_LEN (json_string_member tmpl ''id''),
                 qc_label = scenehub_control_copy QUEST_NAME_MAX_LEN (json_string_member tmpl ''label''),
                 qc_capability = ''admin'',
                 qc_command = scenehub_control_copy QUEST_DEVICE_COMMAND_NAME_MAX_LEN
                   (json_string_member tmpl ''command''),
                 qc_default_args_json = printed,
                 qc_manual_allowed = dispatch_json_bool_default policy ''manual_allowed'' False,
                 qc_scenario_allowed = dispatch_json_bool_default policy ''scenario_allowed'' False,
                 qc_requires_confirmation = dispatch_json_bool_default policy ''requires_confirmation'' False,
                 qc_result_required = dispatch_json_bool_default policy ''result_required'' True,
                 qc_timeout_ms = dispatch_json_u32_default policy ''timeout_ms''
                   QUEST_DEVICE_COMMAND_TIMEOUT_DEFAULT_MS,
                 qc_danger_level = (if danger = [] then ''normal'' else danger), qc_params = []\<rparr>)"

text \<open>
  The payload is printed into the scratch buffer \<open>s_dispatch_admin_payload\<close>, which has
  \<open>DEVICE_CONTROL_INGEST_CACHED_RESULT_DATA_JSON_MAX_LEN\<close> bytes.  The bound given to \<open>snprintf\<close> is
  256 bytes larger; that a longer payload is stored past the end of the buffer is not modelled: the
  payload is a value.
\<close>

definition ADMIN_PAYLOAD_BOUND :: nat where
  "ADMIN_PAYLOAD_BOUND = QUEST_DEVICE_DESCRIPTION_JSON_MAX_LEN + 512"

definition admin_request_id :: "int \<Rightarrow> string" where
  "admin_request_id now_ms =
     quest_str_copy SCENEHUB_CONTROL_REQUEST_ID_MAX_LEN (''adm_'' @ c_decimal now_ms)"

definition admin_payload :: "int \<Rightarrow> quest_device_command \<Rightarrow> string \<Rightarrow> string" where
  "admin_payload now_ms command args_json =
     (let args = (if args_json \<noteq> [] then args_json
                  else if qc_default_args_json command \<noteq> [] then qc_default_args_json command else ''{}'')
      in ''{\"request_id\":\"'' @ admin_request_id now_ms @ ''\",\"command\":\"'' @ qc_command command @
         ''\",\"args\":'' @ args @ '',\"ts_ms\":'' @ c_decimal now_ms @ ''}'')"

definition scenehub_control_dispatch_publish_admin_command ::
  "int \<Rightarrow> string \<Rightarrow> quest_device_command \<Rightarrow> string \<Rightarrow> executor \<Rightarrow> esp_err \<times> string \<times> executor" where
  "scenehub_control_dispatch_publish_admin_command now_ms client_id command args_json x =
     (if client_id = [] \<or> qc_command command = [] then (ESP_ERR_INVALID_ARG, [], x)
      else if length (command_topic client_id) \<ge> 96 then (ESP_ERR_INVALID_SIZE, [], x)
      else if length (admin_payload now_ms command args_json) \<ge> ADMIN_PAYLOAD_BOUND
      then (ESP_ERR_INVALID_SIZE, admin_request_id now_ms, x)
      else let (err, b) = mqtt_core_publish_qos now_ms (command_topic client_id)
                 (admin_payload now_ms command args_json) 1 (ex_broker x)
           in (err, admin_request_id now_ms, x\<lparr>ex_broker := b\<rparr>))"

definition snapshot_answers :: "ingest_snapshot \<Rightarrow> string \<Rightarrow> string \<Rightarrow> bool" where
  "snapshot_answers d request_id command \<longleftrightarrow> is_has_result d \<and> is_result_request_id d = request_id \<and>
     is_result_command d = command"

text \<open>One poll of an administrative command: the result and the data of the reply.\<close>

definition admin_poll ::
  "json_lib \<Rightarrow> polls \<Rightarrow> string \<Rightarrow> string \<Rightarrow> nat \<Rightarrow> control_result \<times> cjson option \<Rightarrow>
   bool \<times> control_result \<times> cjson option" where
  "admin_poll lib p request_id command n s =
     (case po_snapshot p n of
        None \<Rightarrow> (False, s)
      | Some d \<Rightarrow>
          if \<not> snapshot_answers d request_id command then (False, s)
          else let r = scenehub_control_set_remote_status (is_result_status d) (fst s) in
            if is_result_status d = ''accepted'' then (False, r, snd s)
            else if is_result_status d = ''ok'' \<or> is_result_status d = ''done''
            then (True, r,
                  let json = (if is_result_data_json d \<noteq> [] then Some (is_result_data_json d) else po_take_data p n)
                  in case json of Some j \<Rightarrow> (if j \<noteq> [] then cJSON_Parse lib j else None) | None \<Rightarrow> None)
            else (True, scenehub_control_set_result
                    (if is_result_status d = ''rejected'' then SCENEHUB_CONTROL_STATUS_REJECTED
                     else SCENEHUB_CONTROL_STATUS_FAILED)
                    ESP_ERR_INVALID_RESPONSE False
                    (if is_result_error_code d \<noteq> [] then is_result_error_code d else ''device_error'')
                    (if is_result_message d \<noteq> [] then is_result_message d else ''Device rejected admin command'') r,
                  snd s))"

record admin_reply =
  ar_err :: esp_err
  ar_device_name :: string
  ar_command_label :: string
  ar_result_data :: "cjson option"
  ar_log_warning :: bool
  ar_result :: control_result

definition admin_failed :: "esp_err \<Rightarrow> string \<Rightarrow> string \<Rightarrow> control_result \<Rightarrow> control_result" where
  "admin_failed err code message r =
     scenehub_control_set_result SCENEHUB_CONTROL_STATUS_FAILED err False code message r"

text \<open>
  The whole administrative command; \<open>None\<close> when the polling never ends.  \<open>env_presence\<close> tells
  whether the device is online.
\<close>

definition scenehub_control_dispatch_execute_device_admin_command ::
  "json_lib \<Rightarrow> ce_env \<Rightarrow> polls \<Rightarrow> quest_devices \<Rightarrow> string \<Rightarrow> string \<Rightarrow> string \<Rightarrow> bool \<Rightarrow> control_result \<Rightarrow>
   executor \<Rightarrow> (admin_reply \<times> executor) option" where
  "scenehub_control_dispatch_execute_device_admin_command lib env p q device_id command_id params_json confirmed r x =
     (let reply = (\<lambda>err name label data warn r. \<lparr>ar_err = err, ar_device_name = name, ar_command_label = label,
                     ar_result_data = data, ar_log_warning = warn, ar_result = r\<rparr>)
      in if device_id = [] \<or> command_id = [] then Some (reply ESP_ERR_INVALID_ARG [] [] None False r, x)
      else case quest_device_get device_id q of
        Inl err \<Rightarrow> Some (reply ESP_OK [] [] None False (scenehub_control_fill_common_error err r), x)
      | Inr device \<Rightarrow>
          (case scenehub_control_dispatch_fill_admin_command lib device command_id of
             Inl err \<Rightarrow> Some (reply ESP_OK [] [] None False (scenehub_control_fill_common_error err r), x)
           | Inr command \<Rightarrow>
               (let answer = reply ESP_OK (scenehub_control_copy QUEST_NAME_MAX_LEN (qd_name device))
                      (scenehub_control_copy QUEST_NAME_MAX_LEN (qc_label command));
                    warn = command_warning command
                in if qc_requires_confirmation command \<and> \<not> confirmed
                   then Some (answer None warn (scenehub_control_set_result SCENEHUB_CONTROL_STATUS_REJECTED
                     ESP_ERR_INVALID_STATE False ''confirmation_required'' ''Action requires confirmation'' r), x)
                   else if env_presence env (qd_client_id device) \<noteq> Some True
                   then Some (answer None warn (admin_failed ESP_ERR_INVALID_STATE ''device_offline''
                     ''Device is offline'' r), x)
                   else let (err, rid, x1) = scenehub_control_dispatch_publish_admin_command (env_now_ms env)
                              (qd_client_id device) command params_json x
                     in if err \<noteq> ESP_OK
                        then Some (answer None warn (admin_failed err ''device_command_publish_failed''
                               ''Admin command publish failed'' r), x1)
                        else let r1 = scenehub_control_set_request_id rid r in
                          if \<not> qc_result_required command
                          then Some (answer None warn (scenehub_control_set_remote_status ''accepted'' r1), x1)
                          else case poll_until (po_clock_ms p)
                                 (po_clock_ms p 0 + uint (effective_timeout command))
                                 (admin_poll lib p rid (qc_command command)) 0 (r1, None) of
                            None \<Rightarrow> None
                          | Some (True, r2, data) \<Rightarrow> Some (answer data warn r2, x1)
                          | Some (False, r2, data) \<Rightarrow> Some (answer data warn
                              (scenehub_control_set_result SCENEHUB_CONTROL_STATUS_TIMEOUT ESP_ERR_TIMEOUT False
                                ''timeout'' ''Admin command timed out'' r2), x1))))"

definition scenehub_control_device_admin_changes_state :: "string \<Rightarrow> bool" where
  "scenehub_control_device_admin_changes_state command_id \<longleftrightarrow>
     command_id \<noteq> [] \<and> command_id \<noteq> ''node.rules.get'' \<and> command_id \<noteq> ''node.rules.validate''"

definition scenehub_control_device_admin_command_run ::
  "json_lib \<Rightarrow> ce_env \<Rightarrow> polls \<Rightarrow> quest_devices \<Rightarrow> string \<Rightarrow> string \<Rightarrow> string \<Rightarrow> string \<Rightarrow> bool \<Rightarrow>
   executor \<Rightarrow> (control_result \<times> control_effect list \<times> executor) option" where
  "scenehub_control_device_admin_command_run lib env p q source device_id command_id params_json confirmed x =
     (case scenehub_control_dispatch_execute_device_admin_command lib env p q
             (scenehub_control_copy QUEST_ID_MAX_LEN device_id) (scenehub_control_copy QUEST_ID_MAX_LEN command_id)
             params_json confirmed (scenehub_control_prepare_result [] ''device_admin_command_run'') x of
        None \<Rightarrow> None
      | Some (reply, x1) \<Rightarrow>
          (let r = ar_result reply;
               log = scenehub_control_log_device_action source device_id (ar_log_warning reply) command_id
                       (if cr_has_request_id r then cr_request_id r else [])
           in if ar_err reply \<noteq> ESP_OK
              then Some (if cr_message r = [] \<and> cr_error_code r = []
                         then scenehub_control_fill_common_error (ar_err reply) r else r, [], x1)
              else if scenehub_control_device_admin_changes_state command_id
              then let (r2, inv) = scenehub_control_finish_success_with_invalidation
                         SCENEHUB_STATE_SLICE_DEVICES_RUNTIME device_id ''device_admin_command_run'' r
                   in Some (r2, log @ inv, x1)
              else Some (scenehub_control_finish_success_no_state_change r, log, x1)))"

section \<open>Describing an interface\<close>

definition iface_request_id :: "int \<Rightarrow> string" where
  "iface_request_id start_ms =
     quest_str_copy SCENEHUB_CONTROL_REQUEST_ID_MAX_LEN (''iface_'' @ c_decimal start_ms)"

definition scenehub_control_dispatch_publish_describe_interface ::
  "int \<Rightarrow> string \<Rightarrow> string \<Rightarrow> executor \<Rightarrow> esp_err \<times> executor" where
  "scenehub_control_dispatch_publish_describe_interface now_ms client_id request_id x =
     (if client_id = [] \<or> request_id = [] then (ESP_ERR_INVALID_ARG, x)
      else let (err, b) = mqtt_core_publish_qos now_ms (quest_str_copy 128 (command_topic client_id))
                 (quest_str_copy 256 (''{\"request_id\":\"'' @ request_id @
                    ''\",\"command\":\"describe_interface\",\"args\":{},\"ts_ms\":'' @ c_decimal now_ms @ ''}''))
                 1 (ex_broker x)
           in (err, x\<lparr>ex_broker := b\<rparr>))"

definition scenehub_control_dispatch_extract_device_description :: "json_lib \<Rightarrow> string \<Rightarrow> cjson option" where
  "scenehub_control_dispatch_extract_device_description lib data_json =
     (if data_json = [] then None
      else let d = cJSON_GetObjectItemCaseSensitive (cJSON_Parse lib data_json) ''device_description''
           in if cJSON_IsObject d then d else None)"

definition describe_poll ::
  "json_lib \<Rightarrow> polls \<Rightarrow> string \<Rightarrow> nat \<Rightarrow> control_result \<times> cjson option \<Rightarrow>
   bool \<times> control_result \<times> cjson option" where
  "describe_poll lib p request_id n s =
     (case po_snapshot p n of
        None \<Rightarrow> (False, s)
      | Some d \<Rightarrow>
          if \<not> snapshot_answers d request_id ''describe_interface'' then (False, s)
          else if is_result_status d = ''accepted'' then (False, s)
          else if is_result_status d \<noteq> ''ok'' \<and> is_result_status d \<noteq> ''done''
          then (True, scenehub_control_set_result SCENEHUB_CONTROL_STATUS_REJECTED ESP_ERR_INVALID_RESPONSE False
                  (if is_result_error_code d \<noteq> [] then is_result_error_code d else ''device_error'')
                  ''Device rejected interface description'' (fst s), snd s)
          else (case Option.bind (po_take_data p n)
                      (scenehub_control_dispatch_extract_device_description lib) of
                  None \<Rightarrow> (True, scenehub_control_set_result SCENEHUB_CONTROL_STATUS_FAILED
                            ESP_ERR_INVALID_RESPONSE False ''missing_device_description''
                            ''Device returned no device_description'' (fst s), None)
                | Some desc \<Rightarrow> (True, scenehub_control_finish_success_no_state_change (fst s), Some desc)))"

definition scenehub_control_dispatch_execute_describe_interface ::
  "json_lib \<Rightarrow> polls \<Rightarrow> string \<Rightarrow> control_result \<Rightarrow> executor \<Rightarrow>
   (esp_err \<times> control_result \<times> cjson option \<times> executor) option" where
  "scenehub_control_dispatch_execute_describe_interface lib p client_id r x =
     (if client_id = [] then Some (ESP_ERR_INVALID_ARG, r, None, x)
      else let start = po_clock_ms p 0; rid = iface_request_id start;
               (err, x1) = scenehub_control_dispatch_publish_describe_interface start client_id rid x
        in if err \<noteq> ESP_OK
           then Some (ESP_OK, scenehub_control_set_result SCENEHUB_CONTROL_STATUS_FAILED err False
                  ''publish_failed'' ''Describe interface publish failed'' r, None, x1)
           else case poll_until (po_clock_ms p) (start + SCENEHUB_CONTROL_DISPATCH_IFACE_TIMEOUT_MS)
                       (describe_poll lib p rid) 0 (r, None) of
             None \<Rightarrow> None
           | Some (True, r1, desc) \<Rightarrow> Some (ESP_OK, r1, desc, x1)
           | Some (False, r1, desc) \<Rightarrow> Some (ESP_OK, scenehub_control_set_result SCENEHUB_CONTROL_STATUS_TIMEOUT
               ESP_ERR_TIMEOUT False ''timeout'' ''Describe interface timed out'' r1, desc, x1))"

definition scenehub_control_device_describe_interface ::
  "json_lib \<Rightarrow> polls \<Rightarrow> string \<Rightarrow> executor \<Rightarrow> (control_result \<times> cjson option \<times> executor) option" where
  "scenehub_control_device_describe_interface lib p client_id x =
     (let r = scenehub_control_prepare_result [] ''device_describe_interface'' in
      if client_id = [] then Some (scenehub_control_fill_common_error ESP_ERR_INVALID_ARG r, None, x)
      else case scenehub_control_dispatch_execute_describe_interface lib p
                  (scenehub_control_copy QUEST_ID_MAX_LEN client_id) r x of
        None \<Rightarrow> None
      | Some (err, r1, desc, x1) \<Rightarrow>
          Some (if err \<noteq> ESP_OK then scenehub_control_fill_common_error err r1 else r1, desc, x1))"

end
