(* ===== verification/Control_Dispatch_Props.thy ===== *)
theory Control_Dispatch_Props
  imports Control_Dispatch
begin

text \<open>
  What the dispatcher guarantees: polling ends, a scenario's command is sent only when the
  catalogue allows it, and where it falls short: outcomes of manual commands that are lost,
  parameters that are cut, and a buffer that is smaller than the bound used for it.
\<close>

section \<open>Polling ends\<close>

lemma poll_until_returns:
  assumes "\<And>n. clock n < clock (Suc n)"
  shows "\<exists>res. poll_until clock deadline step n r = Some res"
proof (induction "nat (deadline - clock n)" arbitrary: n r rule: less_induct)
  case less
  show ?case
  proof (cases "clock n < deadline")
    case True
    obtain finished r1 where s: "step n r = (finished, r1)" by force
    show ?thesis
    proof (cases finished)
      case True
      with \<open>clock n < deadline\<close> s show ?thesis by (auto simp: poll_until.simps)
    next
      case False
      have "nat (deadline - clock (Suc n)) < nat (deadline - clock n)"
        using assms [of n] True by simp
      from less [OF this, of r1] False True s show ?thesis by (subst poll_until.simps) simp
    qed
  next
    case False
    then show ?thesis by (auto simp: poll_until.simps)
  qed
qed

lemma admin_command_returns:
  assumes "\<And>n. po_clock_ms p n < po_clock_ms p (Suc n)"
  shows "scenehub_control_dispatch_execute_device_admin_command lib env p q device_id command_id
    params_json confirmed r x \<noteq> None"
proof -
  have poll: "poll_until (po_clock_ms p) deadline step n s \<noteq> None"
    for deadline n s and step :: "nat \<Rightarrow> control_result \<times> cjson option \<Rightarrow> bool \<times> control_result \<times> cjson option"
    using poll_until_returns [of "po_clock_ms p" deadline step n s, OF assms] by auto
  show ?thesis
    unfolding scenehub_control_dispatch_execute_device_admin_command_def Let_def
    by (auto simp: poll split: sum.split prod.split option.split bool.split)
qed

lemma describe_interface_returns:
  assumes "\<And>n. po_clock_ms p n < po_clock_ms p (Suc n)"
  shows "scenehub_control_dispatch_execute_describe_interface lib p client_id r x \<noteq> None"
proof -
  have poll: "poll_until (po_clock_ms p) deadline step n s \<noteq> None"
    for deadline n s and step :: "nat \<Rightarrow> control_result \<times> cjson option \<Rightarrow> bool \<times> control_result \<times> cjson option"
    using poll_until_returns [of "po_clock_ms p" deadline step n s, OF assms] by auto
  show ?thesis
    unfolding scenehub_control_dispatch_execute_describe_interface_def Let_def
    by (auto simp: poll split: sum.split prod.split option.split bool.split)
qed

section \<open>Errors are errors\<close>

lemma first_failure_Some: "first_failure f xs = Some e \<Longrightarrow> \<exists>x \<in> set xs. f x = Some e"
  by (induction xs) (auto split: option.splits)

lemma set_all_error: "set_all object kvs = Inl e \<Longrightarrow> e = ESP_ERR_INVALID_ARG"
  by (induction object kvs rule: set_all.induct) (auto simp: json_object_set_dup_def split: sum.splits if_splits)

lemma merge_error: "merge_effective_params lib d params = Inl e \<Longrightarrow> e = ESP_ERR_INVALID_ARG"
  by (auto simp: merge_effective_params_def Let_def map_sum_def set_all_error split: sum.splits if_splits
      dest: set_all_error)

lemma check_flat_error: "check_flat_param v p = Some f \<Longrightarrow> fst f = ESP_ERR_INVALID_ARG"
  by (auto simp: check_flat_param_def Let_def split: if_splits option.splits cjson.splits
      quest_device_command_param_type.splits)

lemma check_compact_error: "check_compact_param root target params item = Some f \<Longrightarrow> fst f = ESP_ERR_INVALID_ARG"
  by (auto simp: check_compact_param_def Let_def split: if_splits)

lemma validate_flat_error: "scenehub_device_command_validate_params lib c params = Some f \<Longrightarrow> fst f = ESP_ERR_INVALID_ARG"
  by (auto simp: scenehub_device_command_validate_params_def Let_def
      dest!: first_failure_Some check_flat_error merge_error split: if_splits sum.splits)

lemma validate_compact_error: "validate_compact_params lib root tmpl schema params = Some f \<Longrightarrow> fst f = ESP_ERR_INVALID_ARG"
  by (auto simp: validate_compact_params_def dest!: first_failure_Some check_compact_error
      split: if_splits sum.splits)

lemma device_get_error: "quest_device_get device_id q = Inl e \<Longrightarrow> e \<noteq> ESP_OK"
  by (auto simp: quest_device_get_def split: if_splits option.splits)

lemma resolve_compact_error: "resolve_compact_command lib d cid params = Inl f \<Longrightarrow> fst f \<noteq> ESP_OK"
  by (auto simp: resolve_compact_command_def fill_compact_command_def Let_def dest!: validate_compact_error
      split: if_splits option.splits sum.splits)

lemma resolve_error: "scenehub_device_command_resolve lib q device_id cid params req = Inl f \<Longrightarrow> fst f \<noteq> ESP_OK"
  by (auto simp: scenehub_device_command_resolve_def Let_def map_sum_def
      dest!: validate_flat_error resolve_compact_error device_get_error split: if_splits sum.splits option.splits)

section \<open>Commands of scenarios\<close>

text \<open>What the dispatcher has checked when a command of a scenario was carried out.\<close>

definition scenario_request :: "device_command \<Rightarrow> string \<Rightarrow> dispatch_request" where
  "scenario_request command required = \<lparr>dq_source = ''scenario'',
     dq_device_id = scenehub_control_copy QUEST_ID_MAX_LEN (cmd_device_id command),
     dq_command_id = scenehub_control_copy QUEST_ID_MAX_LEN (cmd_command_id command),
     dq_params_json = scenehub_control_copy QUEST_PAYLOAD_MAX_LEN (cmd_params_json command),
     dq_confirmed = False, dq_require_manual_allowed = False, dq_require_scenario_allowed = True,
     dq_reject_result_required = (required \<noteq> []), dq_return_raw_err = True,
     dq_result_required_error = scenehub_control_copy COMMAND_EXECUTOR_COMMAND_MAX_LEN required\<rparr>"

lemma scenario_command_checked:
  assumes "scenehub_control_dispatch_scenario_command lib env q command required x = ((ESP_OK, error), d, x')"
  obtains rc msg where "scenehub_device_command_resolve lib q (dq_device_id (scenario_request command required))
      (dq_command_id (scenario_request command required)) (dq_params_json (scenario_request command required)) True = Inr rc"
    and "required \<noteq> [] \<longrightarrow> \<not> qc_result_required (rc_command rc)"
    and "command_executor_execute_resolved env (executor_request (scenario_request command required))
      (rc_client_id rc) (rc_command rc) x = ((ESP_OK, msg), d, x')"
proof -
  let ?r = "scenario_request command required"
  obtain reply where ex: "scenehub_control_dispatch_execute_device_command lib env q ?r
      (scenehub_control_prepare_result [] []) x = (reply, x')" and rep: "dp_err reply = ESP_OK" "dp_dispatch reply = d"
    using assms by (auto simp: scenehub_control_dispatch_scenario_command_def scenario_request_def Let_def
        split: prod.splits)
  have raw: "dq_return_raw_err ?r" "\<not> dq_require_manual_allowed ?r"
    "dq_reject_result_required ?r \<longleftrightarrow> required \<noteq> []"
    by (simp_all add: scenario_request_def)
  note def = ex [unfolded scenehub_control_dispatch_execute_device_command_def]
  obtain rc where rc: "scenehub_device_command_resolve lib q (dq_device_id ?r) (dq_command_id ?r)
      (dq_params_json ?r) True = Inr rc"
  proof (cases "scenehub_device_command_resolve lib q (dq_device_id ?r) (dq_command_id ?r) (dq_params_json ?r) True")
    case (Inl f)
    then show thesis using def rep(1) raw resolve_error [OF Inl] by (auto simp: reply_error_def split: if_splits)
  qed (use that in auto)
  obtain f d1 x1 where e: "command_executor_execute_resolved env (executor_request ?r) (rc_client_id rc)
      (rc_command rc) x = (f, d1, x1)" by (metis prod_cases3)
  have "fst f = ESP_OK \<and> d1 = d \<and> x1 = x' \<and> (required \<noteq> [] \<longrightarrow> \<not> qc_result_required (rc_command rc))"
    using def rc e raw rep by (auto simp: reply_error_def Let_def split: if_splits)
  then show thesis using that [OF rc] e by (cases f) simp
qed

lemma executor_scenario_allowed:
  "command_executor_execute_resolved env req client_id command x = ((ESP_OK, msg), d, x') \<Longrightarrow>
   rq_require_scenario_allowed req \<Longrightarrow> qc_scenario_allowed command"
  by (auto simp: command_executor_execute_resolved_def split: if_splits)

lemma resolved_enabled:
  "scenehub_device_command_resolve lib q device_id cid params True = Inr rc \<Longrightarrow>
   \<exists>dev. quest_device_get device_id q = Inr dev \<and> qd_enabled dev \<and>
     rc_client_id rc = quest_str_copy QUEST_ID_MAX_LEN (qd_client_id dev)"
  by (auto simp: scenehub_device_command_resolve_def Let_def map_sum_def split: if_splits sum.splits option.splits)

lemma poll_until_silent:
  assumes "\<And>n. clock n < clock (Suc n)" and "\<And>n r. step n r = (False, r)"
  shows "poll_until clock deadline step n r = Some (False, r)"
proof (induction "nat (deadline - clock n)" arbitrary: n rule: less_induct)
  case less
  show ?case
  proof (cases "clock n < deadline")
    case True
    then have "nat (deadline - clock (Suc n)) < nat (deadline - clock n)" using assms(1) [of n] by simp
    from less [OF this] True assms(2) [of n r] show ?thesis by (subst poll_until.simps) simp
  qed (simp add: poll_until.simps)
qed

section \<open>Results are well-formed\<close>

lemma poll_until_inv:
  assumes "\<And>n r. I r \<Longrightarrow> I (snd (step n r))" and "poll_until clock deadline step n r = Some res" and "I r"
  shows "I (snd res)"
proof -
  let ?P = "\<lambda>clock deadline st n r res. st = step \<longrightarrow> I r \<longrightarrow> I (snd res)"
  have "?P clock deadline step n r res"
  proof (rule poll_until.raw_induct [where P = ?P])
    show "poll_until clock deadline step n r = Some res" by (rule assms(2))
    fix f clock deadline st n r y
    assume IH: "\<And>clock deadline st n r y. f clock deadline st n r = Some y \<Longrightarrow> ?P clock deadline st n r y"
      and y: "(if clock n < deadline then case st n r of (finished, r1) \<Rightarrow>
        if finished then Some (True, r1) else f clock deadline st (n + 1) r1 else Some (False, r)) = Some y"
    show "?P clock deadline st n r y"
    proof (intro impI)
      assume "st = step" and "I r"
      then show "I (snd y)"
        using y IH [of clock deadline st "n + 1" "snd (st n r)" y] assms(1) [of r n]
        by (simp add: case_prod_beta split: if_split_asm) auto
    qed
  qed
  with assms(3) show ?thesis by simp
qed
lemma fill_admin_error: "scenehub_control_dispatch_fill_admin_command lib d cid = Inl e \<Longrightarrow> e \<noteq> ESP_OK"
  by (auto simp: scenehub_control_dispatch_fill_admin_command_def Let_def split: if_splits)
lemma reply_error_wf: "result_wf r \<Longrightarrow> fst f \<noteq> ESP_OK \<Longrightarrow> result_wf (dp_result (reply_error request f info warn r))"
  by (simp add: reply_error_def result_wf_intros)

lemma describe_poll_wf: "result_wf (fst s) \<Longrightarrow> result_wf (fst (snd (describe_poll lib p rid n s)))"
  by (auto simp: describe_poll_def split: option.split intro!: result_wf_intros)

lemma admin_poll_wf: "result_wf (fst s) \<Longrightarrow> result_wf (fst (snd (admin_poll lib p rid command n s)))"
  by (auto simp: admin_poll_def Let_def split: option.split intro!: result_wf_intros)

lemma describe_interface_wf:
  assumes "scenehub_control_device_describe_interface lib p client_id x = Some (r, desc, x')"
  shows "result_wf r"
proof -
  have step: "result_wf (fst (snd (describe_poll lib p rid n s)))" if "result_wf (fst s)" for rid n s
    using describe_poll_wf that .
  have poll: "result_wf (fst (snd res))"
    if "poll_until clock deadline (describe_poll lib p rid) n (r0, d) = Some res" "result_wf r0" for clock deadline rid n r0 d res
    using poll_until_inv [where I = "\<lambda>s. result_wf (fst s)", OF step that(1)] that(2) by simp
  show ?thesis
    using assms
    by (auto simp: scenehub_control_device_describe_interface_def Let_def
        scenehub_control_dispatch_execute_describe_interface_def
        split: if_splits option.splits prod.splits bool.splits dest!: poll intro!: result_wf_intros)
qed

lemma admin_command_wf:
  assumes "scenehub_control_device_admin_command_run lib env p q source device_id command_id params_json confirmed x =
    Some (r, es, x')"
  shows "result_wf r"
proof -
  have step: "result_wf (fst (snd (admin_poll lib p rid command n s)))" if "result_wf (fst s)" for rid command n s
    using admin_poll_wf that .
  have poll: "result_wf (fst (snd res))"
    if "poll_until clock deadline (admin_poll lib p rid command) n (r0, d) = Some res" "result_wf r0"
    for clock deadline rid command n r0 d res
    using poll_until_inv [where I = "\<lambda>s. result_wf (fst s)", OF step that(1)] that(2) by simp
  have reply: "result_wf (ar_result reply)"
    if "scenehub_control_dispatch_execute_device_admin_command lib env p q did cid pj cf r0 x = Some (reply, x1)" "result_wf r0"
    for did cid pj cf r0 reply x1
    using that
    by (auto simp: scenehub_control_dispatch_execute_device_admin_command_def Let_def admin_failed_def
        split: if_splits option.splits sum.splits prod.splits bool.splits
        dest!: poll device_get_error fill_admin_error intro!: result_wf_intros)
  show ?thesis
    using assms reply [OF _ prepare_result_wf]
    by (auto simp: scenehub_control_device_admin_command_run_def Let_def
        scenehub_control_finish_success_with_invalidation_def
        split: if_splits option.splits prod.splits intro!: result_wf_intros)
qed

lemma execute_device_wf:
  assumes "result_wf r" and "\<not> dq_return_raw_err request"
  shows "result_wf (dp_result (fst (scenehub_control_dispatch_execute_device_command lib env q request r x)))"
  using assms
  by (auto simp: scenehub_control_dispatch_execute_device_command_def Let_def split: sum.split prod.split
      dest: resolve_error intro!: reply_error_wf result_wf_intros)

lemma device_command_wf:
  assumes "scenehub_control_device_command_run lib env q source device_id command_id params confirmed x = (r, es, x')"
  shows "result_wf r"
proof -
  obtain reply x1 where d: "scenehub_control_dispatch_device_command lib env q source device_id command_id params
      confirmed (scenehub_control_prepare_result [] ''device_command_run'') x = (reply, x1)" by force
  have "result_wf (dp_result reply)"
    using execute_device_wf [OF prepare_result_wf] d
    by (simp add: scenehub_control_dispatch_device_command_def) (metis fst_conv dispatch_request.select_convs(9))
  then show ?thesis
    using assms d
    by (auto simp: scenehub_control_device_command_run_def Let_def finish_wf
        scenehub_control_finish_success_with_invalidation_def scenehub_control_finish_accepted_with_invalidation_def
        split: if_splits intro!: result_wf_intros)
qed

section \<open>Properties\<close>

text \<open>
  C17: the dispatcher does not wait for a device for ever.  As long as the clock advances from one
  poll to the next, an administrative command and the query of an interface (the operations that
  wait for an answer) return, whatever the device sends; and when the device stays silent, the query
  ends as a time-out, or as a failure to publish.
\<close>

theorem device_operations_return:
  assumes "\<And>n. po_clock_ms p n < po_clock_ms p (Suc n)"
  shows "scenehub_control_device_admin_command_run lib env p q source device_id command_id params_json confirmed x \<noteq> None \<and>
    scenehub_control_device_describe_interface lib p client_id x \<noteq> None \<and>
    ((\<forall>n. po_snapshot p n = None) \<and> client_id \<noteq> [] \<longrightarrow>
      (\<exists>r x'. scenehub_control_device_describe_interface lib p client_id x = Some (r, None, x') \<and>
        cr_err r \<noteq> ESP_OK \<and> (cr_status r = SCENEHUB_CONTROL_STATUS_TIMEOUT \<or> cr_error_code r = ''publish_failed'')))"
proof (intro conjI impI)
  show "scenehub_control_device_admin_command_run lib env p q source device_id command_id params_json confirmed x \<noteq> None"
    using admin_command_returns [of p lib env q "scenehub_control_copy QUEST_ID_MAX_LEN device_id", OF assms]
    by (auto simp: scenehub_control_device_admin_command_run_def Let_def split: option.split prod.split)
  show "scenehub_control_device_describe_interface lib p client_id x \<noteq> None"
    using describe_interface_returns [of p lib "scenehub_control_copy QUEST_ID_MAX_LEN client_id"
        "scenehub_control_prepare_result [] ''device_describe_interface''" x, OF assms]
    by (auto simp: scenehub_control_device_describe_interface_def Let_def split: option.split prod.split)
  assume silent: "(\<forall>n. po_snapshot p n = None) \<and> client_id \<noteq> []"
  let ?c = "scenehub_control_copy QUEST_ID_MAX_LEN client_id"
  have c: "?c \<noteq> []" using silent by (auto simp: scenehub_control_copy_def QUEST_ID_MAX_LEN_def)
  have poll: "poll_until (po_clock_ms p) deadline (describe_poll lib p rid) 0 s = Some (False, s)" for deadline rid s
    by (rule poll_until_silent) (use silent assms in \<open>simp_all add: describe_poll_def\<close>)
  show "\<exists>r x'. scenehub_control_device_describe_interface lib p client_id x = Some (r, None, x') \<and>
      cr_err r \<noteq> ESP_OK \<and> (cr_status r = SCENEHUB_CONTROL_STATUS_TIMEOUT \<or> cr_error_code r = ''publish_failed'')"
    using silent c
    by (auto simp: scenehub_control_device_describe_interface_def Let_def poll
        scenehub_control_dispatch_execute_describe_interface_def scenehub_control_set_result_def
        SCENEHUB_CONTROL_ERROR_CODE_MAX_LEN_def scenehub_control_copy_def [of 32] split: prod.splits)
qed

definition silent_polls :: polls where
  "silent_polls = \<lparr>po_clock_ms = (\<lambda>n. 1000 + 100 * int n), po_snapshot = (\<lambda>_. None), po_take_data = (\<lambda>_. None)\<rparr>"

definition idle_executor :: executor where
  "idle_executor = \<lparr>ex_request_seq = 1, ex_pending = pending_table_zero, ex_broker = demo_broker, ex_calls = []\<rparr>"

theorem device_operations_return_witness:
  "\<exists>r x'. scenehub_control_device_describe_interface demo_lib silent_polls ''lamp'' idle_executor = Some (r, None, x') \<and>
     cr_err r \<noteq> ESP_OK"
  using device_operations_return [of silent_polls demo_lib demo_env quest_devices_zero "''http''" "''lamp''" "''x''"
      "[]" True idle_executor "''lamp''"]
  by (auto simp: silent_polls_def)

text \<open>
  C18: the outcome of a manual command is lost.  Whatever goes wrong with a command that names a
  device and a command, the operation reports success with a changed state and logs a successful
  action: when the device or command is unknown, the device disabled, a parameter missing, or the
  required confirmation absent, nothing is executed and the caller is told that it is done.
\<close>

theorem refused_command_reported_done:
  assumes "device_id \<noteq> []" and "command_id \<noteq> []"
    and "scenehub_control_device_command_run lib env q source device_id command_id params confirmed x = (r, effects, x')"
  defines "resolved \<equiv> scenehub_device_command_resolve lib q (scenehub_control_copy QUEST_ID_MAX_LEN device_id)
    (scenehub_control_copy QUEST_ID_MAX_LEN command_id) (scenehub_control_copy QUEST_PAYLOAD_MAX_LEN params) True"
  shows "cr_err r = ESP_OK \<and> cr_state_changed r \<and>
    (\<exists>rid. Audit (source_or ''internal'' source) device_id command_id rid True [] \<in> set effects) \<and>
    ((\<exists>f. resolved = Inl f) \<or>
     (\<exists>rc. resolved = Inr rc \<and> qc_requires_confirmation (rc_command rc) \<and> \<not> confirmed) \<longrightarrow>
     x' = x \<and> cr_status r = SCENEHUB_CONTROL_STATUS_DONE)"
proof -
  have ids: "scenehub_control_copy QUEST_ID_MAX_LEN device_id \<noteq> []" "scenehub_control_copy QUEST_ID_MAX_LEN command_id \<noteq> []"
    using assms(1,2) by (auto simp: scenehub_control_copy_def QUEST_ID_MAX_LEN_def)
  define r0 where "r0 = scenehub_control_prepare_result [] ''device_command_run''"
  obtain reply where d: "scenehub_control_dispatch_device_command lib env q source device_id command_id params confirmed r0 x =
      (reply, x')" and run: "(let rid = cd_request_id (dp_dispatch reply) in rid \<noteq> [] \<and>
        effects = scenehub_control_log_device_action source device_id (dp_log_warning reply) command_id rid @
          [Invalidate SCENEHUB_STATE_SLICE_DEVICES_RUNTIME device_id ''device_command_run''] \<and>
        r = scenehub_control_set_result SCENEHUB_CONTROL_STATUS_ACCEPTED ESP_OK True [] []
          (scenehub_control_set_request_id rid (dp_result reply)) \<or> rid = [] \<and>
        effects = scenehub_control_log_device_action source device_id (dp_log_warning reply) command_id [] @
          [Invalidate SCENEHUB_STATE_SLICE_DEVICES_RUNTIME device_id ''device_command_run''] \<and>
        r = scenehub_control_set_result SCENEHUB_CONTROL_STATUS_DONE ESP_OK True [] [] (dp_result reply))"
  proof -
    obtain reply x1 where d: "scenehub_control_dispatch_device_command lib env q source device_id command_id params
        confirmed r0 x = (reply, x1)" by force
    have "dp_err reply = ESP_OK"
      using d ids by (auto simp: scenehub_control_dispatch_device_command_def reply_error_def Let_def
          scenehub_control_dispatch_execute_device_command_def split: if_splits sum.splits prod.splits)
    then show thesis
      using that [of reply] d assms(3)
      by (auto simp: scenehub_control_device_command_run_def r0_def Let_def
          scenehub_control_finish_success_with_invalidation_def
          scenehub_control_finish_accepted_with_invalidation_def split: if_splits)
  qed
  have "x' = x \<and> cd_request_id (dp_dispatch reply) = []"
    if "(\<exists>f. resolved = Inl f) \<or>
     (\<exists>rc. resolved = Inr rc \<and> qc_requires_confirmation (rc_command rc) \<and> \<not> confirmed)"
    using d that ids
    by (auto simp: scenehub_control_dispatch_device_command_def reply_error_def Let_def resolved_def ce_dispatch_zero_def
        scenehub_control_dispatch_execute_device_command_def split: if_splits prod.splits)
  then show ?thesis
    using run by (auto simp: Let_def scenehub_control_log_device_action_def scenehub_control_set_result_def)
qed

theorem refused_command_reported_done_witness:
  "cr_status (fst (scenehub_control_device_command_run demo_lib demo_env quest_devices_zero ''http'' ''ghost'' ''on'' [] False
     idle_executor)) = SCENEHUB_CONTROL_STATUS_DONE"
proof -
  have "\<exists>f. scenehub_device_command_resolve demo_lib quest_devices_zero (scenehub_control_copy QUEST_ID_MAX_LEN ''ghost'')
      (scenehub_control_copy QUEST_ID_MAX_LEN ''on'') (scenehub_control_copy QUEST_PAYLOAD_MAX_LEN []) True = Inl f"
  proof -
    have "case scenehub_device_command_resolve demo_lib quest_devices_zero (scenehub_control_copy QUEST_ID_MAX_LEN ''ghost'')
        (scenehub_control_copy QUEST_ID_MAX_LEN ''on'') (scenehub_control_copy QUEST_PAYLOAD_MAX_LEN []) True of
      Inl f \<Rightarrow> True | Inr _ \<Rightarrow> False" by code_simp
    then show ?thesis by (auto split: sum.splits)
  qed
  then show ?thesis
    using refused_command_reported_done [of "''ghost''" "''on''" demo_lib demo_env quest_devices_zero "''http''" "[]" False
        idle_executor] by (metis list.distinct(1) prod.collapse fst_conv)
qed

lemma merge_needs_object:
  "merge_effective_params lib d params = Inr e \<Longrightarrow> params \<noteq> [] \<Longrightarrow> cJSON_IsObject (cJSON_Parse lib params)"
  by (auto simp: merge_effective_params_def Let_def split: if_splits sum.splits)

lemma resolve_needs_object:
  assumes "scenehub_device_command_resolve lib q device_id cid params req = Inr rc" and "params \<noteq> []"
  shows "cJSON_IsObject (cJSON_Parse lib params)"
proof -
  have "\<exists>d e. merge_effective_params lib d params = Inr e"
    using assms(1)
    by (auto simp: scenehub_device_command_resolve_def resolve_compact_command_def validate_compact_params_def
        scenehub_device_command_validate_params_def Let_def map_sum_def
        split: if_splits sum.splits option.splits)
  then show ?thesis using merge_needs_object assms(2) by blast
qed

text \<open>
  Parameters of a scenario command that the scenario format allows are cut on their way.  A
  step stores up to 383 bytes of parameters, but a request of the dispatcher holds 159: when the
  parameters are longer and what is left after the cut is not a JSON object, the command is
  refused and nothing is sent, however valid the whole text is.
\<close>

theorem long_params_refused:
  assumes "QUEST_PAYLOAD_MAX_LEN \<le> length (cmd_params_json command)"
    and "\<not> cJSON_IsObject (cJSON_Parse lib (take (QUEST_PAYLOAD_MAX_LEN - 1) (cmd_params_json command)))"
  shows "\<exists>f. scenehub_control_dispatch_scenario_command lib env q command required x = (f, ce_dispatch_zero, x) \<and>
    fst f \<noteq> ESP_OK"
proof -
  let ?r = "scenario_request command required"
  have cut: "dq_params_json ?r = take (QUEST_PAYLOAD_MAX_LEN - 1) (cmd_params_json command)" "dq_params_json ?r \<noteq> []"
    using assms(1) by (auto simp: scenario_request_def scenehub_control_copy_def QUEST_PAYLOAD_MAX_LEN_def)
  then obtain f where f: "scenehub_device_command_resolve lib q (dq_device_id ?r) (dq_command_id ?r)
      (dq_params_json ?r) True = Inl f"
    using resolve_needs_object assms(2) by (metis sum.exhaust)
  have raw: "dq_return_raw_err ?r" by (simp add: scenario_request_def)
  have "\<exists>reply. scenehub_control_dispatch_execute_device_command lib env q ?r
      (scenehub_control_prepare_result [] []) x = (reply, x) \<and> dp_err reply \<noteq> ESP_OK \<and> dp_dispatch reply = ce_dispatch_zero"
    using f raw resolve_error [OF f] by (auto simp: scenehub_control_dispatch_execute_device_command_def reply_error_def)
  then show ?thesis
    by (auto simp: scenehub_control_dispatch_scenario_command_def scenario_request_def Let_def)
qed

definition long_command :: device_command where
  "long_command = \<lparr>cmd_device_id = ''lamp'', cmd_command_id = ''show'',
     cmd_params_json = ''{\"text\":\"'' @ replicate 200 (CHR ''x'') @ ''\"}''\<rparr>"

text \<open>A parser that accepts a text which begins and ends with braces.\<close>

definition brace_lib :: json_lib where
  "brace_lib = \<lparr>cJSON_Parse = (\<lambda>s. if s \<noteq> [] \<and> hd s = CHR ''{'' \<and> last s = CHR ''}'' then Some (CObject []) else None),
     cJSON_PrintUnformatted = (\<lambda>_. ''{}'')\<rparr>"

theorem long_params_refused_witness:
  "cJSON_IsObject (cJSON_Parse brace_lib (cmd_params_json long_command)) \<and>
   (\<exists>f. scenehub_control_dispatch_scenario_command brace_lib demo_env quest_devices_zero long_command [] idle_executor =
      (f, ce_dispatch_zero, idle_executor) \<and> fst f \<noteq> ESP_OK)"
proof -
  have "cJSON_IsObject (cJSON_Parse brace_lib (cmd_params_json long_command))"
    "QUEST_PAYLOAD_MAX_LEN \<le> length (cmd_params_json long_command)"
    "\<not> cJSON_IsObject (cJSON_Parse brace_lib (take (QUEST_PAYLOAD_MAX_LEN - 1) (cmd_params_json long_command)))"
    by code_simp+
  then show ?thesis using long_params_refused [of long_command brace_lib] by blast
qed

definition long_args :: string where
  "long_args = ''{\"rules\":\"'' @ replicate 13000 (CHR ''x'') @ ''\"}''"

definition admin_command :: quest_device_command where
  "admin_command = quest_device_command_zero\<lparr>qc_command := ''node.rules.set''\<rparr>"

lemma admin_payload_length:
  "length (admin_payload 1000 admin_command long_args) = 13085"
proof -
  have "long_args \<noteq> []" by (simp add: long_args_def)
  then have "length (admin_payload 1000 admin_command long_args) =
      length (''{\"request_id\":\"'' @ admin_request_id 1000 @ ''\",\"command\":\"'' @ qc_command admin_command @
         ''\",\"args\":'') + (length ''{\"rules\":\"'' + 13000 + length ''\"}'') + length ('',\"ts_ms\":'' @ c_decimal 1000 @ ''}'')"
    by (simp add: admin_payload_def Let_def long_args_def)
  also have "length (''{\"request_id\":\"'' @ admin_request_id 1000 @ ''\",\"command\":\"'' @ qc_command admin_command @
         ''\",\"args\":'') = 59" by code_simp
  also have "length ('',\"ts_ms\":'' @ c_decimal 1000 @ ''}'') = 14" by code_simp
  finally show ?thesis by simp
qed

text \<open>
  C19: a payload longer than its buffer is not refused.  There is an administrative command with
  arguments of less than 32 KB whose printed payload, with its terminator, is longer than the scratch
  buffer it is printed into, and for every state of the executor the dispatcher publishes it whole
  instead of reporting a size error, because the bound it compares with is larger than the buffer.
\<close>

theorem admin_payload_overruns_buffer:
  "\<exists>now client_id command args. length args < 32 * 1024 \<and>
    DEVICE_CONTROL_INGEST_CACHED_RESULT_DATA_JSON_MAX_LEN < length (admin_payload now command args) + 1 \<and>
    (\<forall>x. scenehub_control_dispatch_publish_admin_command now client_id command args x =
       (let (err, b) = mqtt_core_publish_qos now (command_topic client_id) (admin_payload now command args) 1 (ex_broker x)
        in (err, admin_request_id now, x\<lparr>ex_broker := b\<rparr>)))"
proof (intro exI conjI allI)
  show "length long_args < 32 * 1024" by (simp add: long_args_def)
  show "DEVICE_CONTROL_INGEST_CACHED_RESULT_DATA_JSON_MAX_LEN < length (admin_payload 1000 admin_command long_args) + 1"
    by (simp add: admin_payload_length DEVICE_CONTROL_INGEST_CACHED_RESULT_DATA_JSON_MAX_LEN_def
        QUEST_DEVICE_DESCRIPTION_JSON_MAX_LEN_def)
  have "qc_command admin_command \<noteq> []" "length (command_topic ''lamp'') < 96" by code_simp+
  moreover have "length (admin_payload 1000 admin_command long_args) < ADMIN_PAYLOAD_BOUND"
    by (simp add: admin_payload_length ADMIN_PAYLOAD_BOUND_def QUEST_DEVICE_DESCRIPTION_JSON_MAX_LEN_def)
  ultimately show "scenehub_control_dispatch_publish_admin_command 1000 ''lamp'' admin_command long_args x =
      (let (err, b) = mqtt_core_publish_qos 1000 (command_topic ''lamp'') (admin_payload 1000 admin_command long_args) 1
         (ex_broker x) in (err, admin_request_id 1000, x\<lparr>ex_broker := b\<rparr>))" for x
    by (simp add: scenehub_control_dispatch_publish_admin_command_def)
qed

end
