(* ===== verification/Control_Plan.thy ===== *)
theory Control_Plan
  imports Gm_Plans Control_Dispatch_Props
begin

text \<open>
  Carrying out the command plans of the game core
  (\<open>scenehub_control/scenehub_control_scenarios.c\<close>): the loop asks the core for the next command
  of a plan, gives it to the dispatcher and reports the outcome, until the core has no plan left.
  \<open>envs n\<close> is the environment of the \<open>n\<close>-th round.  Whether the loop ends depends on the core, so
  it is a partial function; that it ends for a story branch is a theorem.
\<close>

definition GM_ROOM_SESSION_COMMAND_NAME_MAX_LEN :: nat where "GM_ROOM_SESSION_COMMAND_NAME_MAX_LEN = 48"

definition scenehub_control_scenario_dispatch_from_executor :: "ce_dispatch \<Rightarrow> command_dispatch_result" where
  "scenehub_control_scenario_dispatch_from_executor d = \<lparr>
     dr_result_required = cd_result_required d, dr_timeout_ms = cd_timeout_ms d,
     dr_request_id = scenehub_control_copy GM_ROOM_SESSION_COMMAND_REQUEST_ID_MAX_LEN (cd_request_id d),
     dr_source_id = scenehub_control_copy ROOM_SCENARIO_EVENT_SOURCE_ID_MAX_LEN (cd_source_id d),
     dr_command = scenehub_control_copy GM_ROOM_SESSION_COMMAND_NAME_MAX_LEN (cd_command d)\<rparr>"

definition result_required_error :: "command_plan \<Rightarrow> string" where
  "result_required_error plan =
     (if p_kind plan = COMMAND_PLAN_SCENARIO_STEP_GROUP then ''device_command_group_result_required_unsupported''
      else if p_kind plan = COMMAND_PLAN_REACTIVE_ACTION_GROUP then ''reactive_group_result_required_unsupported''
      else [])"

text \<open>One round: \<open>Inl\<close> when the loop returns, \<open>Inr\<close> with the plan for the next round.\<close>

definition dispatch_round ::
  "json_lib \<Rightarrow> ce_env \<Rightarrow> quest_devices \<Rightarrow> command_plan \<Rightarrow> gm_core \<Rightarrow> executor \<Rightarrow>
   (esp_err \<times> command_plan + command_plan) \<times> gm_core \<times> executor" where
  "dispatch_round lib env q plan k x =
     (case gm_room_session_command_plan_next_command plan k of
        (Inl err, k1) \<Rightarrow>
          (if err = ESP_ERR_NOT_FOUND \<or> err = ESP_ERR_INVALID_STATE
           then (Inl (ESP_OK, gm_room_session_command_plan_clear), k1, x)
           else let (_, plan1, k2) = gm_room_session_command_plan_fail plan ''device_command_failed'' k1
                in (Inl (err, plan1), k2, x))
      | (Inr (command, has_more), k1) \<Rightarrow>
          (let ((err, error), d, x1) = scenehub_control_dispatch_scenario_command lib env q command
                                         (result_required_error plan) x
           in if err \<noteq> ESP_OK
              then let (_, plan1, k2) = gm_room_session_command_plan_fail plan error k1
                   in (Inl (err, plan1), k2, x1)
              else let (err1, plan1, k2) = gm_room_session_command_plan_apply_dispatch_result plan
                         (scenehub_control_scenario_dispatch_from_executor d) has_more
                         (word_of_int (env_now_ms env)) k1
                in (if err1 \<noteq> ESP_OK then Inl (err1, plan1) else Inr plan1, k2, x1)))"

partial_function (option) scenehub_control_dispatch_session_command_plan ::
  "json_lib \<Rightarrow> (nat \<Rightarrow> ce_env) \<Rightarrow> quest_devices \<Rightarrow> nat \<Rightarrow> command_plan \<Rightarrow> gm_core \<Rightarrow> executor \<Rightarrow>
   (esp_err \<times> command_plan \<times> gm_core \<times> executor) option" where
  [code]: "scenehub_control_dispatch_session_command_plan lib envs q n plan k x =
     (if \<not> gm_room_session_command_plan_present plan then Some (ESP_OK, plan, k, x)
      else case dispatch_round lib (envs n) q plan k x of (out, k1, x1) \<Rightarrow>
        (case out of
           Inl (err, plan1) \<Rightarrow> Some (err, plan1, k1, x1)
         | Inr plan1 \<Rightarrow> scenehub_control_dispatch_session_command_plan lib envs q (n + 1) plan1 k1 x1))"

section \<open>A story branch that waits for its command\<close>

definition flow_pending :: "nat \<Rightarrow> command_plan \<Rightarrow> room_ctx \<Rightarrow> bool" where
  "flow_pending i plan c \<longleftrightarrow> plan_pending_at i plan (c_ses c) \<and> s_running_scenario_valid (c_ses c) \<and>
     runnable_branch i c \<and> \<not> gm_room_session_branch_is_reactive_v2 (c_ses c) (get_branch c i) \<and>
     b_type (get_branch c i) = ROOM_SCENARIO_BRANCH_NORMAL"

text \<open>The commands still to come, counted from above.\<close>

definition plan_rank :: "nat \<Rightarrow> command_plan \<Rightarrow> room_ctx \<Rightarrow> nat" where
  "plan_rank i plan c =
     5 * (length (sc_steps (s_running_scenario (c_ses c))) - unat (v_current_step_index (b_view (get_branch c i)))) +
     (4 - unat (p_command_index plan))"

text \<open>What an operation on branch \<open>i\<close> must keep for the branch to stay a runnable story branch.\<close>

definition same_flow :: "nat \<Rightarrow> room_ctx \<Rightarrow> room_ctx \<Rightarrow> bool" where
  "same_flow i c d \<longleftrightarrow> s_running_scenario (c_ses d) = s_running_scenario (c_ses c) \<and>
     s_running_scenario_valid (c_ses d) = s_running_scenario_valid (c_ses c) \<and>
     length (cbranches d) = length (cbranches c) \<and>
     b_active (get_branch d i) = b_active (get_branch c i) \<and>
     b_type (get_branch d i) = b_type (get_branch c i) \<and>
     b_branch_index (get_branch d i) = b_branch_index (get_branch c i)"

lemma same_flow_refl [simp]: "same_flow i c c" by (simp add: same_flow_def)

lemma same_flow_trans: "same_flow i b c \<Longrightarrow> same_flow i c d \<Longrightarrow> same_flow i b d"
  by (simp add: same_flow_def)

lemma same_flow_v2:
  "same_flow i c d \<Longrightarrow> gm_room_session_branch_is_reactive_v2 (c_ses d) (get_branch d i) =
     gm_room_session_branch_is_reactive_v2 (c_ses c) (get_branch c i)"
  by (simp add: same_flow_def gm_room_session_branch_is_reactive_v2_def reactive_v2_model_branch_def)

lemma flow_kept:
  assumes "flow_pending i plan c" and "same_flow i c d" and "plan_pending_at i plan' (c_ses d)"
  shows "flow_pending i plan' d"
  using assms same_flow_v2 [OF assms(2)]
  by (auto simp: flow_pending_def same_flow_def runnable_branch_def)

lemma load_save_flow:
  assumes "i < length (cbranches c)"
  shows "same_flow i c (gm_room_session_scenario_branch_load_into_session i c)"
    and "same_flow i c (gm_room_session_scenario_branch_save_from_session i c)"
  using assms scenario_of_core [OF load_frame(7) [of i c]] scenario_of_core [OF save_frame(6) [of i c]]
  by (simp_all add: same_flow_def)

section \<open>The interpreter moves forward\<close>

lemma execute_step_return_index:
  assumes "execute_step now bi res (sc_steps (s_running_scenario (c_ses c)) ! unat i) c = Step_Return err plan c'"
    and "i = v_current_step_index (s_view (c_ses c))"
    and "unat i < length (sc_steps (s_running_scenario (c_ses c)))"
    and "p_kind plan \<noteq> COMMAND_PLAN_NONE"
  shows "v_current_step_index (s_view (c_ses c')) = i"
proof -
  define step where "step = sc_steps (s_running_scenario (c_ses c)) ! unat i"
  have en: "st_enabled step"
    using assms(1) by (rule contrapos_pp) (simp add: execute_step_def step_def Let_def)
  note run = assms(1) [folded step_def, unfolded execute_step_def Let_def, simplified en]
  show ?thesis
  proof (cases "st_data step")
    case (STEP_DEVICE_COMMAND cmd)
    with run assms(2) show ?thesis by (auto simp: gm_room_session_plan_scenario_command_locked_def)
  next
    case (STEP_DEVICE_COMMAND_GROUP cmds)
    with run assms(2,4) show ?thesis
      by (auto simp: step_error_def gm_room_session_plan_scenario_command_group_locked_def split: if_splits)
  qed (use run assms(4) in \<open>auto simp: step_error_def step_event_wait_def case_prod_beta
        split: if_splits prod.splits\<close>)
qed

lemma execute_steps_index:
  assumes "execute_steps n now en bi res c = (err, plan, c')"
    and "unat en \<le> length (sc_steps (s_running_scenario (c_ses c)))"
    and "length (sc_steps (s_running_scenario (c_ses c))) \<le> ROOM_SCENARIO_MAX_STEPS"
    and "p_kind plan \<noteq> COMMAND_PLAN_NONE"
  shows "unat (v_current_step_index (s_view (c_ses c))) \<le> unat (v_current_step_index (s_view (c_ses c')))"
  using assms
proof (induction n arbitrary: c)
  case (Suc n)
  let ?i = "v_current_step_index (s_view (c_ses c))"
  let ?step = "sc_steps (s_running_scenario (c_ses c)) ! unat ?i"
  have lt: "\<not> en \<le> ?i" using Suc.prems(1,4) by (auto simp: Let_def)
  then have i: "unat ?i < length (sc_steps (s_running_scenario (c_ses c)))"
    using Suc.prems(2) by (simp add: word_less_nat_alt not_le)
  show ?case
  proof (cases "execute_step now bi res ?step c")
    case (Step_Next c1)
    have "unat (?i + 1) = Suc (unat ?i)"
      using i Suc.prems(3) by (simp add: ROOM_SCENARIO_MAX_STEPS_def unat_word_ariths)
    moreover have "unat (v_current_step_index (s_view (c_ses c1))) \<le> unat (v_current_step_index (s_view (c_ses c')))"
      using Suc.IH [of c1] Suc.prems lt Step_Next execute_step_next [OF Step_Next] by (simp add: Let_def)
    ultimately show ?thesis using execute_step_next(1) [OF Step_Next] by simp
  next
    case (Step_Return err1 plan1 c1)
    with Suc.prems(1) lt have "plan1 = plan" "c1 = c'" by (simp_all add: Let_def)
    then show ?thesis
      using execute_step_return_index [OF _ _ i, of now bi res err1 plan c'] Step_Return Suc.prems(4) by simp
  qed
qed simp

lemma run_loaded_index:
  assumes run: "run_loaded_branch i now n en r c = (err, plan, c')"
    and ok: "runnable_branch i c" and p: "p_kind plan \<noteq> COMMAND_PLAN_NONE"
    and en: "unat en \<le> length (sc_steps (s_running_scenario (c_ses c)))"
  shows "unat (v_current_step_index (b_view (get_branch c i))) \<le> unat (v_current_step_index (b_view (get_branch c' i)))"
    and "same_flow i c c'"
proof -
  let ?d = "gm_room_session_scenario_branch_load_into_session i c"
  obtain c1 where ex: "execute_scenario_locked now n en (ucast (b_branch_index (get_branch c i)))
      (resolution_arg r) ?d = (err, plan, c1)"
    and c': "c' = gm_room_session_scenario_branch_save_from_session i c1"
    and b: "get_branch c1 i = get_branch c i" "length (cbranches c1) = length (cbranches c)"
      "s_running_scenario (c_ses c1) = s_running_scenario (c_ses c)"
    using run by (rule run_loadedE)
  have i: "i < length (cbranches c)" using ok by (simp add: runnable_branch_def)
  have "local_to i c c'"
    using local_run_loaded [OF local_refl, of i c now n en r] run by simp
  then show "same_flow i c c'"
    using i b by (simp add: same_flow_def local_to_def ses_kept_def c')
  note sc = scenario_of_core [OF load_frame(7) [of i c]]
  have len: "length (sc_steps (s_running_scenario (c_ses ?d))) \<le> ROOM_SCENARIO_MAX_STEPS"
    using ok sc by (simp add: runnable_branch_def)
  obtain en' where "execute_steps n now en' (ucast (b_branch_index (get_branch c i))) (resolution_arg r) ?d = (err, plan, c1)"
    and "unat en' \<le> length (sc_steps (s_running_scenario (c_ses ?d)))"
  proof (cases "en = 0")
    case True
    then show thesis
      using that [of "of_nat (length (sc_steps (s_running_scenario (c_ses ?d))))"] ex len
      by (simp add: execute_scenario_locked_def Let_def unat_of_nat ROOM_SCENARIO_MAX_STEPS_def)
  next
    case False
    then show thesis using that [of en] ex en sc by (simp add: execute_scenario_locked_def Let_def)
  qed
  from execute_steps_index [OF this len p]
  have "unat (v_current_step_index (s_view (c_ses ?d))) \<le> unat (v_current_step_index (s_view (c_ses c1)))" .
  then show "unat (v_current_step_index (b_view (get_branch c i))) \<le> unat (v_current_step_index (b_view (get_branch c' i)))"
    using i b by (simp add: c')
qed

lemma branch_end_le:
  "length (sc_steps sc) \<le> ROOM_SCENARIO_MAX_STEPS \<Longrightarrow> unat (scenario_branch_end_index b sc) \<le> length (sc_steps sc)"
  by (simp add: scenario_branch_end_index_def unat_of_nat ROOM_SCENARIO_MAX_STEPS_def)

text \<open>A story branch that is run on plans a command at or after its current step.\<close>

lemma flow_branch_forward:
  assumes ex: "gm_room_session_execute_branch_locked i now n out c = (err, plan, c')"
    and ok: "runnable_branch i c" and v2: "\<not> gm_room_session_branch_is_reactive_v2 (c_ses c) (get_branch c i)"
    and ty: "b_type (get_branch c i) = ROOM_SCENARIO_BRANCH_NORMAL"
    and p: "p_kind plan \<noteq> COMMAND_PLAN_NONE"
  shows "unat (v_current_step_index (b_view (get_branch c i))) \<le> unat (v_current_step_index (b_view (get_branch c' i)))"
    and "same_flow i c c'"
proof -
  have act: "b_active (get_branch c i)" using ok by (simp add: runnable_branch_def)
  note ex = ex [unfolded gm_room_session_execute_branch_locked_def execute_branch_core_locked_def Let_def]
  obtain r where r: "prepare_wait_resolution_locked i c = Inr r"
    using ex act v2 p by (auto split: sum.splits)
  define en where "en = scenario_branch_end_index (get_branch c i) (s_running_scenario (c_ses c))"
  obtain err1 plan1 c1 where run: "run_loaded_branch i now n en r c = (err1, plan1, c1)" by (metis prod_cases3)
  have i: "i < length (cbranches c)" using ok by (simp add: runnable_branch_def)
  have ty1: "b_type (get_branch c1 i) = ROOM_SCENARIO_BRANCH_NORMAL"
    using run ty i by (elim run_loadedE) simp
  have eq: "plan1 = plan" "c' = gm_room_session_scenario_update_summary_from_branches_locked c1"
    using ex act v2 r run ty1 by (simp_all add: en_def summary_if_def)
  note fwd = run_loaded_index [OF run ok, unfolded eq(1), OF p]
  have "unat en \<le> length (sc_steps (s_running_scenario (c_ses c)))"
    using ok by (simp add: en_def branch_end_le runnable_branch_def)
  note fwd = fwd [OF this]
  show "unat (v_current_step_index (b_view (get_branch c i))) \<le> unat (v_current_step_index (b_view (get_branch c' i)))"
    using fwd(1) by (simp add: eq(2) get_branch_def)
  show "same_flow i c c'"
    using fwd(2) scenario_of_core [OF summary_frame(6) [of c1]] by (simp add: same_flow_def eq(2) get_branch_def)
qed

section \<open>One round\<close>

lemma next_command_flow:
  assumes "flow_pending i plan c"
  obtains cmd c' where "next_command_body plan c =
      (Inr (cmd, Suc (unat (p_command_index plan)) <
        length (step_commands (current_step_data (branch_session i (c_ses c'))))), c')"
    and "flow_pending i plan c'" and "plan_rank i plan c' = plan_rank i plan c" and "same_flow i c c'"
    and "ses_kept (c_ses c) (c_ses c')"
proof -
  let ?l = "gm_room_session_scenario_branch_load_into_session i"
  let ?s = "gm_room_session_scenario_branch_save_from_session i"
  have pend: "plan_pending_at i plan (c_ses c)" "s_running_scenario_valid (c_ses c)" "i < ROOM_SCENARIO_MAX_BRANCHES"
    and i: "i < length (cbranches c)"
    using assms by (simp_all add: flow_pending_def runnable_branch_def)
  define c' where "c' = ?s (?l (?s (?l c)))"
  have nc: "next_command_body plan c = (fst (next_command_body plan c), c')"
    using pending_matches [OF pend(1)] pending_index [OF pend(1,3)] pend i
    by (simp add: next_command_body_def plan_branch_ok_def Let_def c'_def)
  obtain c1 where n: "next_command_body plan c =
      (Inr (step_commands (current_step_data (branch_session i (c_ses c))) ! unat (p_command_index plan),
            Suc (unat (p_command_index plan)) <
              length (step_commands (current_step_data (branch_session i (c_ses c))))), c1)"
    and p1: "plan_pending_at i plan (c_ses c1)"
    using next_command_pending [OF pend] by blast
  have c1: "c1 = c'" using n nc by simp
  have core: "ses_core (c_ses c') = ses_core (c_ses c)" by (simp add: c'_def)
  have flow: "same_flow i c c'"
    using i scenario_of_core [OF core] by (simp add: same_flow_def c'_def)
  have idx: "v_current_step_index (b_view (get_branch c' i)) = v_current_step_index (b_view (get_branch c i))"
    using i by (simp add: c'_def)
  have data: "current_step_data (branch_session i (c_ses c')) = current_step_data (branch_session i (c_ses c))"
    using scenario_of_core [OF core] idx by (simp add: current_step_data_def branch_session_def flip: get_branch_def)
  show thesis
    using that [of _ c'] n flow_kept [OF assms flow] p1 flow idx ses_core_kept [OF core] scenario_of_core [OF core]
    by (simp add: c1 data plan_rank_def)
qed

lemma apply_flow_more:
  assumes f: "flow_pending i plan c" and "\<not> dr_result_required d"
    and "Suc (unat (p_command_index plan)) < length (step_commands (current_step_data (branch_session i (c_ses c))))"
    and ap: "apply_dispatch_body plan d True now c = (err, plan', c')"
  shows "flow_pending i plan' c' \<and> plan_rank i plan' c' < plan_rank i plan c"
proof -
  let ?l = "gm_room_session_scenario_branch_load_into_session i"
  let ?s = "gm_room_session_scenario_branch_save_from_session i"
  have pend: "plan_pending_at i plan (c_ses c)" "s_running_scenario_valid (c_ses c)" "i < ROOM_SCENARIO_MAX_BRANCHES"
    and i: "i < length (cbranches c)"
    using f by (simp_all add: flow_pending_def runnable_branch_def)
  obtain c1 where b: "apply_dispatch_body plan d True now c = (ESP_OK, plan\<lparr>p_command_index := p_command_index plan + 1\<rparr>, c1)"
    and p1: "plan_pending_at i (plan\<lparr>p_command_index := p_command_index plan + 1\<rparr>) (c_ses c1)"
    using dispatch_more [OF pend assms(2,3)] by blast
  have eq: "plan' = plan\<lparr>p_command_index := p_command_index plan + 1\<rparr>" "c1 = c'" using b ap by simp_all
  have c': "c' = ?s (?l (?s (?l c)))"
    using ap pending_matches [OF pend(1)] pending_index [OF pend(1,3)] pend i assms(2)
    by (simp add: apply_dispatch_body_def plan_branch_ok_def Let_def)
  have core: "ses_core (c_ses c') = ses_core (c_ses c)" by (simp add: c')
  have flow: "same_flow i c c'" using i scenario_of_core [OF core] by (simp add: same_flow_def c')
  have ci: "unat (p_command_index plan) < 4"
    using pend(1) by (simp add: plan_pending_at_def step_plan_pending_def ROOM_SCENARIO_COMMAND_GROUP_MAX_COMMANDS_def)
  then have "unat (p_command_index plan + 1) = Suc (unat (p_command_index plan))" by (intro unat_Suc_u8) simp
  then have "plan_rank i plan' c' < plan_rank i plan c"
    using ci i scenario_of_core [OF core] by (simp add: plan_rank_def eq c')
  then show ?thesis using flow_kept [OF f flow] p1 eq by simp
qed

lemma apply_flow_step:
  assumes f: "flow_pending i plan c" and "\<not> dr_result_required d"
    and ap: "apply_dispatch_body plan d False now c = (ESP_OK, plan', c')" and p: "p_kind plan' \<noteq> COMMAND_PLAN_NONE"
  shows "flow_pending i plan' c' \<and> plan_rank i plan' c' < plan_rank i plan c"
proof -
  let ?l = "gm_room_session_scenario_branch_load_into_session i"
  let ?s = "gm_room_session_scenario_branch_save_from_session i"
  have pend: "plan_pending_at i plan (c_ses c)" "s_running_scenario_valid (c_ses c)" "i < ROOM_SCENARIO_MAX_BRANCHES"
    and run: "runnable_branch i c" and i: "i < length (cbranches c)"
    using f by (simp_all add: flow_pending_def runnable_branch_def)
  define c2 where "c2 = ?l (?s (?l c))"
  define c3 where "c3 = ?s (pass_step c2)"
  have kind: "p_kind plan = COMMAND_PLAN_SCENARIO_STEP \<or> p_kind plan = COMMAND_PLAN_SCENARIO_STEP_GROUP"
    using pend(1) by (auto simp: plan_pending_at_def step_plan_pending_def split: step_data.splits)
  obtain err1 plan1 where ex: "gm_room_session_execute_branch_locked i now GM_ROOM_SESSION_DISPATCH_BUDGET
      gm_room_session_command_plan_clear c3 = (err1, plan1, c')"
    and "ESP_OK = err1" "plan' = (if err1 \<noteq> ESP_OK then gm_room_session_command_plan_clear else plan1)"
    using ap pending_matches [OF pend(1)] pending_index [OF pend(1,3)] pend i assms(2) kind
    by (auto simp: apply_dispatch_body_def plan_branch_ok_def Let_def c3_def c2_def split: prod.splits)
  then have pl: "plan1 = plan'" by simp
  have core: "ses_core (c_ses (pass_step c2)) = ses_core (c_ses c)"
    by (simp add: pass_step_def c2_def)
  have b2: "get_branch (pass_step c2) j = get_branch (?s (?l c)) j" "length (cbranches (pass_step c2)) = length (cbranches c)" for j
    by (simp_all add: pass_step_def c2_def)
  have core3: "ses_core (c_ses c3) = ses_core (c_ses c)" using core by (simp add: c3_def)
  have flow3: "same_flow i c c3"
    using i b2 scenario_of_core [OF core3] by (simp add: same_flow_def c3_def)
  have ok3: "runnable_branch i c3" "\<not> gm_room_session_branch_is_reactive_v2 (c_ses c3) (get_branch c3 i)"
    "b_type (get_branch c3 i) = ROOM_SCENARIO_BRANCH_NORMAL"
    using f flow3 same_flow_v2 [OF flow3] by (auto simp: flow_pending_def same_flow_def runnable_branch_def)
  let ?old = "v_current_step_index (b_view (get_branch c i))"
  let ?len = "length (sc_steps (s_running_scenario (c_ses c)))"
  have idx3: "v_current_step_index (b_view (get_branch c3 i)) = ?old + 1"
    using i b2 by (simp add: c3_def pass_step_def advance_step_def c2_def)
  have old: "unat ?old < ?len" "?len \<le> ROOM_SCENARIO_MAX_STEPS"
    using pend(1) run by (simp_all add: plan_pending_at_def step_plan_pending_def branch_session_def get_branch_def
        runnable_branch_def)
  then have u: "unat (?old + 1) = Suc (unat ?old)"
    by (simp add: ROOM_SCENARIO_MAX_STEPS_def unat_word_ariths)
  note fwd = flow_branch_forward [OF ex ok3, unfolded pl, OF p]
  have new: "p_command_index plan' = 0" "plan_pending_at i plan' (c_ses c')"
    using branch_core_plan [OF ex [unfolded gm_room_session_execute_branch_locked_def] ok3(1,2)] p pl by simp_all
  have sc': "s_running_scenario (c_ses c') = s_running_scenario (c_ses c)"
    using flow3 fwd(2) by (simp add: same_flow_def)
  have "plan_rank i plan' c' < plan_rank i plan c"
    using fwd(1) idx3 u old new(1) sc' by (simp add: plan_rank_def)
  then show ?thesis
    using flow_kept [OF f same_flow_trans [OF flow3 fwd(2)] new(2)] by simp
qed

lemma apply_flow:
  assumes f: "flow_pending i plan c"
    and ap: "apply_dispatch_body plan d hm now c = (ESP_OK, plan', c')" and p: "p_kind plan' \<noteq> COMMAND_PLAN_NONE"
    and hm: "hm \<longleftrightarrow> Suc (unat (p_command_index plan)) <
      length (step_commands (current_step_data (branch_session i (c_ses c))))"
  shows "flow_pending i plan' c' \<and> plan_rank i plan' c' < plan_rank i plan c"
proof -
  have pend: "plan_pending_at i plan (c_ses c)" "s_running_scenario_valid (c_ses c)" "i < ROOM_SCENARIO_MAX_BRANCHES"
    using f by (simp_all add: flow_pending_def runnable_branch_def)
  have "\<not> dr_result_required d"
  proof
    assume "dr_result_required d"
    with ap p pending_matches [OF pend(1)] pending_index [OF pend(1,3)] pend show False
      by (auto simp: apply_dispatch_body_def plan_branch_ok_def Let_def split: if_splits)
  qed
  then show ?thesis
    using apply_flow_more [OF f] apply_flow_step [OF f] hm ap p by (cases hm) auto
qed

section \<open>The loop\<close>

lemma flow_ses: "c_ses c = c_ses d \<Longrightarrow> flow_pending i plan c = flow_pending i plan d"
  "c_ses c = c_ses d \<Longrightarrow> plan_rank i plan c = plan_rank i plan d"
  by (simp_all add: flow_pending_def runnable_branch_def plan_rank_def get_branch_def)

text \<open>Slot \<open>j\<close> of the session table waits, in its story branch \<open>i\<close>, for the dispatch of \<open>plan\<close>.\<close>

definition core_pending :: "nat \<Rightarrow> nat \<Rightarrow> command_plan \<Rightarrow> gm_core \<Rightarrow> bool" where
  "core_pending i j plan k \<longleftrightarrow> table_ok k \<and> j < length (k_sessions k) \<and> s_in_use (k_sessions k ! j) \<and>
     s_room_id (k_sessions k ! j) = p_room_id plan \<and> flow_pending i plan (core_ctx k j)"

lemma core_pending_find:
  "core_pending i j plan k \<Longrightarrow> find_session_mutable_locked (gm_room_session_sessions_lock k) (p_room_id plan) = Some j"
  using find_session_unique [of "gm_room_session_sessions_lock k" j] by (simp add: core_pending_def)

lemma core_pending_put:
  assumes k: "core_pending i j plan k" and "ses_kept (k_sessions k ! j) (c_ses c)"
    and "length (cbranches c) = length (s_branch_runtimes (k_sessions k ! j))"
    and f: "flow_pending i plan' c"
  defines "k' \<equiv> gm_room_session_sessions_unlock (put_ctx j c (gm_room_session_sessions_lock k))"
  shows "core_pending i j plan' k' \<and> plan_rank i plan' (core_ctx k' j) = plan_rank i plan' c"
proof -
  have j: "j < length (k_sessions k)" "table_ok k" "s_in_use (k_sessions k ! j)" using k by (simp_all add: core_pending_def)
  have "table_ok (put_ctx j c (gm_room_session_sessions_lock k))"
    by (rule table_ok_put) (use j assms(2,3) in \<open>simp_all add: body_keeps_def ses_kept_def\<close>)
  then have t: "table_ok k'" using core_ok_unlock core_ok_def by (simp add: k'_def)
  have s: "k_sessions k' ! j = c_ses c" "length (k_sessions k') = length (k_sessions k)"
    using j by (simp_all add: k'_def)
  then have ses: "c_ses (core_ctx k' j) = c_ses c" by simp
  have "slot_ok (k_sessions k' ! j)" using t j s nth_mem [of j "k_sessions k'"] by (auto simp: table_ok_def)
  moreover have "s_in_use (c_ses c)" using assms(2) j by (simp add: ses_kept_def)
  ultimately have "length (s_room_id (c_ses c)) < QUEST_ROOM_ID_MAX_LEN" using s by (simp add: slot_ok_def)
  then have "p_room_id plan' = s_room_id (c_ses c)"
    using f by (auto simp: flow_pending_def plan_pending_at_def step_plan_pending_def branch_session_def quest_str_copy_def)
  then show ?thesis
    using t s j f \<open>s_in_use (c_ses c)\<close> flow_ses [OF ses] by (simp add: core_pending_def)
qed

lemma round_progress:
  assumes k: "core_pending i j plan k"
    and r: "dispatch_round lib env q plan k x = (Inr plan', k', x')" and p: "p_kind plan' \<noteq> COMMAND_PLAN_NONE"
  shows "core_pending i j plan' k' \<and> plan_rank i plan' (core_ctx k' j) < plan_rank i plan (core_ctx k j)"
proof -
  let ?lk = gm_room_session_sessions_lock
  let ?un = gm_room_session_sessions_unlock
  have fp: "flow_pending i plan (core_ctx (?lk k) j)"
    using k flow_ses(1) [of "core_ctx (?lk k) j" "core_ctx k j"] by (simp add: core_pending_def)
  then obtain cmd c1 where nb: "next_command_body plan (core_ctx (?lk k) j) = (Inr (cmd, Suc (unat (p_command_index plan)) <
        length (step_commands (current_step_data (branch_session i (c_ses c1))))), c1)"
    and f1: "flow_pending i plan c1" and r1: "plan_rank i plan c1 = plan_rank i plan (core_ctx (?lk k) j)"
    and s1: "same_flow i (core_ctx (?lk k) j) c1" "ses_kept (c_ses (core_ctx (?lk k) j)) (c_ses c1)"
    by (rule next_command_flow)
  define k1 where "k1 = ?un (put_ctx j c1 (?lk k))"
  define hm where "hm = (Suc (unat (p_command_index plan)) < length (step_commands (current_step_data (branch_session i (c_ses c1)))))"
  have pres: "p_kind plan \<noteq> COMMAND_PLAN_NONE"
    using fp by (auto simp: flow_pending_def plan_pending_at_def step_plan_pending_def split: step_data.splits)
  have nc: "gm_room_session_command_plan_next_command plan k = (Inr (cmd, hm), k1)"
    using nb core_pending_find [OF k] pres
    by (simp add: gm_room_session_command_plan_next_command_def Let_def in_session_def k1_def hm_def)
  have q1: "core_pending i j plan k1" "plan_rank i plan (core_ctx k1 j) = plan_rank i plan c1"
    using core_pending_put [OF k _ _ f1] s1 by (simp_all add: k1_def same_flow_def)
  obtain d where ap: "gm_room_session_command_plan_apply_dispatch_result plan d hm (word_of_int (env_now_ms env)) k1 =
      (ESP_OK, plan', k')"
    using r nc by (auto simp: dispatch_round_def Let_def split: prod.splits if_splits)
  then obtain c2 where b: "apply_dispatch_body plan d hm (word_of_int (env_now_ms env)) (core_ctx (?lk k1) j) = (ESP_OK, plan', c2)"
    and k': "k' = ?un (put_ctx j c2 (?lk k1))"
    using core_pending_find [OF q1(1)] pres
    by (auto simp: gm_room_session_command_plan_apply_dispatch_result_def Let_def split: prod.splits)
  have ses: "c_ses (core_ctx (?lk k1) j) = c_ses c1"
    using k by (simp add: k1_def core_pending_def)
  have f2: "flow_pending i plan (core_ctx (?lk k1) j)" using f1 flow_ses(1) [OF ses] by simp
  note fin = apply_flow [OF f2 b p, unfolded ses, OF hm_def]
  have l: "local_to (unat (p_branch_index plan)) (core_ctx (?lk k1) j) c2"
    using local_apply_dispatch [of plan "core_ctx (?lk k1) j" d hm] b by (metis snd_conv)
  have "core_pending i j plan' k' \<and> plan_rank i plan' (core_ctx k' j) = plan_rank i plan' c2"
    unfolding k' by (rule core_pending_put [OF q1(1)]) (use l fin in \<open>simp_all add: local_to_def\<close>)
  moreover have "plan_rank i plan (core_ctx (?lk k1) j) = plan_rank i plan (core_ctx k j)"
    using flow_ses(2) [OF ses] r1 flow_ses(2) [of "core_ctx (?lk k) j" "core_ctx k j"] by simp
  ultimately show ?thesis using fin by simp
qed

lemma round_stops:
  assumes "dispatch_round lib env q plan k x = (Inl (err, plan'), k', x')" and "p_kind plan \<noteq> COMMAND_PLAN_NONE"
  shows "p_kind plan' = COMMAND_PLAN_NONE"
proof -
  have fail: "p_kind plan1 = COMMAND_PLAN_NONE" if "gm_room_session_command_plan_fail plan e k1 = (r, plan1, k2)" for e k1 r plan1 k2
    using that assms(2) by (auto simp: gm_room_session_command_plan_fail_def Let_def)
  have body: "p_kind plan1 = COMMAND_PLAN_NONE"
    if "apply_dispatch_body plan d hm now c = (e, plan1, c1)" "e \<noteq> ESP_OK" for d hm now c e plan1 c1
    using that by (auto simp: apply_dispatch_body_def Let_def split: if_splits prod.splits)
  have ap: "p_kind plan1 = COMMAND_PLAN_NONE"
    if "gm_room_session_command_plan_apply_dispatch_result plan d hm now k1 = (e, plan1, k2)" "e \<noteq> ESP_OK"
    for d hm now k1 e plan1 k2
    using that assms(2) body
    by (auto simp: gm_room_session_command_plan_apply_dispatch_result_def Let_def split: option.splits prod.splits)
  show ?thesis
    using assms(1) fail ap by (auto simp: dispatch_round_def Let_def split: prod.splits sum.splits if_splits)
qed

lemma dispatch_loop_ends:
  "core_pending i j plan k \<Longrightarrow>
   \<exists>err plan' k' x'. scenehub_control_dispatch_session_command_plan lib envs q n plan k x = Some (err, plan', k', x') \<and>
     p_kind plan' = COMMAND_PLAN_NONE"
proof (induction "plan_rank i plan (core_ctx k j)" arbitrary: n plan k x rule: less_induct)
  case less
  let ?loop = "scenehub_control_dispatch_session_command_plan lib envs q"
  obtain out k1 x1 where r: "dispatch_round lib (envs n) q plan k x = (out, k1, x1)" by (metis prod_cases3)
  have pres: "p_kind plan \<noteq> COMMAND_PLAN_NONE"
    using less.prems by (auto simp: core_pending_def flow_pending_def plan_pending_at_def step_plan_pending_def
        split: step_data.splits)
  show ?case
  proof (cases out)
    case (Inl ep)
    then show ?thesis
      using r pres round_stops [of lib "envs n" q plan k x "fst ep" "snd ep"]
      by (subst scenehub_control_dispatch_session_command_plan.simps) (cases ep, simp)
  next
    case (Inr plan1)
    have step: "?loop n plan k x = ?loop (n + 1) plan1 k1 x1"
      using r Inr pres by (subst scenehub_control_dispatch_session_command_plan.simps) simp
    show ?thesis
    proof (cases "p_kind plan1 = COMMAND_PLAN_NONE")
      case True
      then show ?thesis
        unfolding step by (subst scenehub_control_dispatch_session_command_plan.simps) simp
    next
      case False
      from round_progress [OF less.prems r [unfolded Inr] False] less.hyps
      show ?thesis unfolding step by blast
    qed
  qed
qed

end
