(* ===== verification/Gm_Wait_Props.thy ===== *)
theory Gm_Wait_Props
  imports Control_Plan
begin

text \<open>
  Waits for device events that are not the first step of a run.  The resolution of a wait is looked
  up once, for the step at which a run of a branch begins; the interpreter passes it to every wait
  the run reaches.
\<close>

text \<open>Steps that are over at once: disabled ones and messages to the operator.\<close>

definition instant_step :: "scenario_step \<Rightarrow> bool" where
  "instant_step s \<longleftrightarrow> \<not> st_enabled s \<or> (case st_data s of STEP_SHOW_OPERATOR_MESSAGE _ \<Rightarrow> True | _ \<Rightarrow> False)"

lemma instant_step_next: "instant_step s \<Longrightarrow> \<exists>c1. execute_step now bi res s c = Step_Next c1"
  by (auto simp: instant_step_def execute_step_def Let_def split: step_data.splits)

lemma unresolved_wait_fails:
  assumes "st_enabled s" and "is_event_wait_step (st_data s)"
  shows "\<exists>m c1. execute_step now bi None s c =
    Step_Return ESP_ERR_INVALID_ARG gm_room_session_command_plan_clear (scenario_set_error_locked m c1)"
  using assms
  by (cases "st_data s")
    (auto simp: execute_step_def step_event_wait_def step_error_def Let_def
      scenario_enter_wait_device_event_locked_def scenario_enter_wait_any_device_event_locked_def
      scenario_enter_wait_all_device_events_locked_def enter_wait_event_group_def)

lemma steps_then_wait_fail:
  assumes "i + 1 < en" and "v_current_step_index (s_view (c_ses c)) = i" and "i < i + 1"
    and "instant_step (sc_steps (s_running_scenario (c_ses c)) ! unat i)"
    and "s = sc_steps (s_running_scenario (c_ses c)) ! unat (i + 1)"
    and "st_enabled s" and "is_event_wait_step (st_data s)"
  shows "\<exists>m c1. execute_steps (Suc (Suc n)) now en bi None c =
    (ESP_ERR_INVALID_ARG, gm_room_session_command_plan_clear, scenario_set_error_locked m c1)"
proof -
  obtain c1 where c1: "execute_step now bi None (sc_steps (s_running_scenario (c_ses c)) ! unat i) c = Step_Next c1"
    using instant_step_next [OF assms(4)] by blast
  have "v_current_step_index (s_view (c_ses c1)) = i + 1" "s_running_scenario (c_ses c1) = s_running_scenario (c_ses c)"
    using execute_step_next [OF c1] assms(2) by simp_all
  moreover obtain m c2 where "execute_step now bi None s c1 =
      Step_Return ESP_ERR_INVALID_ARG gm_room_session_command_plan_clear (scenario_set_error_locked m c2)"
    using unresolved_wait_fails [OF assms(6,7)] by blast
  moreover have "\<not> en \<le> i" "\<not> en \<le> i + 1" using assms(1,3) by auto
  ultimately show ?thesis using c1 assms(2,5) by (auto simp: Let_def)
qed

section \<open>Property\<close>

text \<open>
  C11: a wait for device events that follows an instant step cannot be entered.  When a run of a
  story branch begins at a disabled step or at a message to the operator and the next step is a
  wait for one, any or all of some device events, the run fails: it returns an error and the branch
  is in the error state, although the events of the wait have been prepared.
\<close>

theorem wait_after_instant_step_fails:
  assumes ok: "runnable_branch i c" and v2: "\<not> gm_room_session_branch_is_reactive_v2 (c_ses c) (get_branch c i)"
    and ty: "b_type (get_branch c i) = ROOM_SCENARIO_BRANCH_NORMAL"
    and n: "n = v_current_step_index (b_view (get_branch c i))" "n < n + 1"
      "n + 1 < scenario_branch_end_index (get_branch c i) (s_running_scenario (c_ses c))"
    and steps: "instant_step (sc_steps (s_running_scenario (c_ses c)) ! unat n)"
      "\<not> is_event_wait_step (st_data (sc_steps (s_running_scenario (c_ses c)) ! unat n))"
      "s = sc_steps (s_running_scenario (c_ses c)) ! unat (n + 1)" "st_enabled s" "is_event_wait_step (st_data s)"
  shows "\<exists>c'. gm_room_session_execute_branch_locked i now GM_SCENARIO_MAX_STEPS_PER_TICK plan c =
      (ESP_ERR_INVALID_ARG, gm_room_session_command_plan_clear, c') \<and>
    v_scenario_state (b_view (get_branch c' i)) = GM_ROOM_SCENARIO_ERROR"
proof -
  let ?d = "gm_room_session_scenario_branch_load_into_session i c"
  let ?en = "scenario_branch_end_index (get_branch c i) (s_running_scenario (c_ses c))"
  let ?len = "length (sc_steps (s_running_scenario (c_ses c)))"
  have act: "b_active (get_branch c i)" "i < length (cbranches c)" "?len \<le> ROOM_SCENARIO_MAX_STEPS"
    using ok by (simp_all add: runnable_branch_def)
  note sc = scenario_of_core [OF load_frame(7) [of i c]]
  have r: "prepare_wait_resolution_locked i c = Inr no_resolution"
    using steps(2) n(1) by (simp add: prepare_wait_resolution_locked_def Let_def)
  have en: "?en \<noteq> 0" "\<not> unat ?en > ?len" using n(3) branch_end_le [OF act(3)] by (auto simp: not_less)
  obtain m c1 where run: "execute_scenario_locked now GM_SCENARIO_MAX_STEPS_PER_TICK ?en
      (ucast (b_branch_index (get_branch c i))) None ?d =
      (ESP_ERR_INVALID_ARG, gm_room_session_command_plan_clear, scenario_set_error_locked m c1)"
  proof -
    have "v_current_step_index (s_view (c_ses ?d)) = n" using n(1) act(2) by simp
    moreover have "GM_SCENARIO_MAX_STEPS_PER_TICK = Suc (Suc 6)" by (simp add: GM_SCENARIO_MAX_STEPS_PER_TICK_def)
    ultimately show thesis
      using that steps_then_wait_fail [of n ?en ?d s 6 now "ucast (b_branch_index (get_branch c i))"] n steps en sc
      by (auto simp: execute_scenario_locked_def Let_def)
  qed
  define c2 where "c2 = gm_room_session_scenario_branch_save_from_session i (scenario_set_error_locked m c1)"
  have rl: "run_loaded_branch i now GM_SCENARIO_MAX_STEPS_PER_TICK ?en no_resolution c =
      (ESP_ERR_INVALID_ARG, gm_room_session_command_plan_clear, c2)"
    using run by (simp add: run_loaded_branch_def resolution_arg_def no_resolution_def c2_def)
  then have "i < length (cbranches (scenario_set_error_locked m c1))"
    using act(2) run by (elim run_loadedE) (auto simp: resolution_arg_def no_resolution_def)
  then have "v_scenario_state (b_view (get_branch c2 i)) = GM_ROOM_SCENARIO_ERROR"
    by (simp add: c2_def scenario_set_error_locked_def)
  then show ?thesis
    using act v2 r rl
    by (simp add: gm_room_session_execute_branch_locked_def execute_branch_core_locked_def Let_def
        summary_if_def get_branch_def)
qed

text \<open>A game that greets the operator and then waits for a sensor.\<close>

definition greeting_scenario :: room_scenario where
  "greeting_scenario = demo_scenario [STEP_SHOW_OPERATOR_MESSAGE ''hello'',
     STEP_WAIT_DEVICE_EVENT \<lparr>wde_device_id = ''door'', wde_event_id = ''open'', wde_timeout_ms = 0,
       wde_timeout_action = WAIT_TIMEOUT_CONTINUE, wde_timeout_message = []\<rparr>] []"

theorem wait_after_instant_step_fails_witness:
  "\<exists>c'. gm_room_session_execute_branch_locked 0 100 GM_SCENARIO_MAX_STEPS_PER_TICK gm_room_session_command_plan_clear
      (demo_ctx greeting_scenario prepared_scenario_zero) =
      (ESP_ERR_INVALID_ARG, gm_room_session_command_plan_clear, c') \<and>
    v_scenario_state (b_view (get_branch c' 0)) = GM_ROOM_SCENARIO_ERROR"
proof (rule wait_after_instant_step_fails)
  let ?c = "demo_ctx greeting_scenario prepared_scenario_zero"
  show "runnable_branch 0 ?c" by code_simp
  show "\<not> gm_room_session_branch_is_reactive_v2 (c_ses ?c) (get_branch ?c 0)" by code_simp
  show "b_type (get_branch ?c 0) = ROOM_SCENARIO_BRANCH_NORMAL" by code_simp
  show "(0 :: u16) = v_current_step_index (b_view (get_branch ?c 0))" by code_simp
  show "(0 :: u16) < 0 + 1" by simp
  show "0 + 1 < scenario_branch_end_index (get_branch ?c 0) (s_running_scenario (c_ses ?c))" by code_simp
  show "instant_step (sc_steps (s_running_scenario (c_ses ?c)) ! unat (0 :: u16))" by code_simp
  show "\<not> is_event_wait_step (st_data (sc_steps (s_running_scenario (c_ses ?c)) ! unat (0 :: u16)))" by code_simp
  show "sc_steps (s_running_scenario (c_ses ?c)) ! unat (0 + 1 :: u16) =
      sc_steps (s_running_scenario (c_ses ?c)) ! unat (0 + 1 :: u16)" by (rule refl)
  show "st_enabled (sc_steps (s_running_scenario (c_ses ?c)) ! unat (0 + 1 :: u16))" by code_simp
  show "is_event_wait_step (st_data (sc_steps (s_running_scenario (c_ses ?c)) ! unat (0 + 1 :: u16)))" by code_simp
qed

end
