(* ===== verification/Gm_View.thy ===== *)
theory Gm_View
  imports Gm_Demo C_Format
begin

text \<open>
  What the rest of the program may see of a running game
  (\<open>gm_core/session/gm_room_session_view.c\<close>): the clock, the selection, the progress of every
  branch, and the devices a scenario refers to (\<open>room_scenario/room_scenario_device_refs.c\<close>).
  A view is a record filled from a session; nothing here changes a session.
\<close>

section \<open>Devices of a scenario\<close>

definition step_device_refs :: "step_data \<Rightarrow> string list" where
  "step_device_refs d = (case d of
     STEP_DEVICE_COMMAND cmd \<Rightarrow> [cmd_device_id cmd]
   | STEP_WAIT_DEVICE_EVENT w \<Rightarrow> [wde_device_id w]
   | STEP_DEVICE_COMMAND_GROUP cmds \<Rightarrow> map cmd_device_id (take ROOM_SCENARIO_COMMAND_GROUP_MAX_COMMANDS cmds)
   | STEP_WAIT_ANY_DEVICE_EVENT g \<Rightarrow> map wde_device_id (take ROOM_SCENARIO_WAIT_EVENT_GROUP_MAX_EVENTS (weg_events g))
   | STEP_WAIT_ALL_DEVICE_EVENTS g \<Rightarrow> map wde_device_id (take ROOM_SCENARIO_WAIT_EVENT_GROUP_MAX_EVENTS (weg_events g))
   | _ \<Rightarrow> [])"

text \<open>A slice of an array, cut at the end of the array and at its capacity.\<close>

definition array_slice :: "nat \<Rightarrow> nat \<Rightarrow> nat \<Rightarrow> 'a list \<Rightarrow> 'a list" where
  "array_slice cap start n xs = take (min n cap) (drop start (take cap xs))"

definition action_device_refs :: "room_scenario \<Rightarrow> reactive_action \<Rightarrow> string list" where
  "action_device_refs sc a =
     (case ra_data a of STEP_DEVICE_COMMAND cmd \<Rightarrow> [cmd_device_id cmd] | _ \<Rightarrow> []) @
     map cmd_device_id (array_slice ROOM_SCENARIO_MAX_REACTIVE_GROUP_COMMANDS (unat (ra_group_command_start_index a))
       (unat (ra_group_command_count a)) (sc_reactive_group_commands sc))"

definition branch_device_refs :: "room_scenario \<Rightarrow> scenario_branch \<Rightarrow> string list" where
  "branch_device_refs sc b =
     (if tr_kind (br_trigger b) = REACTIVE_TRIGGER_DEVICE_EVENT then [tr_device_id (br_trigger b)] else []) @
     concat (map (action_device_refs sc) (array_slice ROOM_SCENARIO_MAX_REACTIVE_ACTIONS
       (unat (br_on_complete_action_start_index b)) (unat (br_on_complete_action_count b))
       (sc_reactive_actions sc)))"

record device_refs_ctx =
  dc_device_ids :: "string list"
  dc_overflow :: bool

definition collect_device_ref_cb :: "nat \<Rightarrow> string \<Rightarrow> device_refs_ctx \<Rightarrow> device_refs_ctx" where
  "collect_device_ref_cb max_count device_id ctx =
     (if device_id = [] \<or> device_id \<in> set (dc_device_ids ctx) then ctx
      else if length (dc_device_ids ctx) \<ge> max_count then ctx\<lparr>dc_overflow := True\<rparr>
      else ctx\<lparr>dc_device_ids := dc_device_ids ctx @ [quest_str_copy ROOM_SCENARIO_DEVICE_ID_MAX_LEN device_id]\<rparr>)"

definition scenario_device_refs :: "room_scenario \<Rightarrow> string list" where
  "scenario_device_refs sc =
     concat (map (step_device_refs \<circ> st_data) (take ROOM_SCENARIO_MAX_STEPS (sc_steps sc))) @
     concat (map (action_device_refs sc) (take ROOM_SCENARIO_MAX_REACTIVE_ACTIONS (sc_reactive_actions sc))) @
     concat (map (branch_device_refs sc) (take ROOM_SCENARIO_MAX_BRANCHES (sc_branches sc)))"

definition room_scenario_collect_device_refs :: "room_scenario \<Rightarrow> nat \<Rightarrow> esp_err \<times> string list" where
  "room_scenario_collect_device_refs sc max_device_ids =
     (let ctx = fold (collect_device_ref_cb max_device_ids) (scenario_device_refs sc)
                  \<lparr>dc_device_ids = [], dc_overflow = False\<rparr>
      in (if length (sc_steps sc) > ROOM_SCENARIO_MAX_STEPS \<or>
             length (sc_reactive_actions sc) > ROOM_SCENARIO_MAX_REACTIVE_ACTIONS \<or>
             length (sc_reactive_group_commands sc) > ROOM_SCENARIO_MAX_REACTIVE_GROUP_COMMANDS \<or>
             length (sc_branches sc) > ROOM_SCENARIO_MAX_BRANCHES \<or> dc_overflow ctx
          then ESP_ERR_INVALID_SIZE else ESP_OK, dc_device_ids ctx))"

definition count_u8 :: "nat \<Rightarrow> u8" where "count_u8 n = of_nat (min n 255)"

definition gm_room_session_count_scenario_devices :: "room_scenario \<Rightarrow> u8" where
  "gm_room_session_count_scenario_devices sc =
     count_u8 (length (snd (room_scenario_collect_device_refs sc ROOM_SCENARIO_MAX_STEPS)))"

section \<open>Texts\<close>

definition GM_ROOM_SCENARIO_STEP_TEXT_MAX_LEN :: nat where "GM_ROOM_SCENARIO_STEP_TEXT_MAX_LEN = 96"
definition GM_ROOM_SCENARIO_WAIT_SUMMARY_MAX_LEN :: nat where "GM_ROOM_SCENARIO_WAIT_SUMMARY_MAX_LEN = 96"
definition ROOM_SCENARIO_BRANCH_ID_MAX_LEN :: nat where "ROOM_SCENARIO_BRANCH_ID_MAX_LEN = 32"
definition ROOM_SCENARIO_BRANCH_NAME_MAX_LEN :: nat where "ROOM_SCENARIO_BRANCH_NAME_MAX_LEN = 64"

definition or_else :: "string \<Rightarrow> string \<Rightarrow> string" where
  "or_else s d = (if s = [] then d else s)"

definition gm_room_session_format_step_text :: "scenario_step \<Rightarrow> string" where
  "gm_room_session_format_step_text step = quest_str_copy GM_ROOM_SCENARIO_STEP_TEXT_MAX_LEN
     (if st_label step \<noteq> [] then st_label step
      else case st_data step of
        STEP_WAIT_TIME _ \<Rightarrow> ''Wait''
      | STEP_OPERATOR_APPROVAL _ _ \<Rightarrow> ''Operator approval''
      | STEP_DEVICE_COMMAND cmd \<Rightarrow> ''Command '' @ or_else (cmd_device_id cmd) ''device''
      | STEP_WAIT_DEVICE_EVENT w \<Rightarrow> ''Wait '' @ or_else (wde_device_id w) ''event''
      | STEP_DEVICE_COMMAND_GROUP _ \<Rightarrow> ''Command group''
      | STEP_SHOW_OPERATOR_MESSAGE _ \<Rightarrow> ''Operator message''
      | STEP_SET_FLAG f \<Rightarrow> ''Set flag '' @ or_else (fl_name f) ''flag''
      | STEP_WAIT_FLAGS _ \<Rightarrow> ''Wait flags''
      | STEP_WAIT_ANY_DEVICE_EVENT _ \<Rightarrow> ''Wait any event''
      | STEP_WAIT_ALL_DEVICE_EVENTS _ \<Rightarrow> ''Wait all events''
      | STEP_END_GAME \<Rightarrow> ''End game''
      | _ \<Rightarrow> ''Step'')"

definition gm_room_session_format_reactive_action_text :: "reactive_action \<Rightarrow> string" where
  "gm_room_session_format_reactive_action_text action = quest_str_copy GM_ROOM_SCENARIO_STEP_TEXT_MAX_LEN
     (if ra_label action \<noteq> [] then ra_label action
      else case ra_data action of
        STEP_WAIT_TIME _ \<Rightarrow> ''Wait''
      | STEP_WAIT_DEVICE_EVENT w \<Rightarrow> ''Wait '' @ or_else (wde_device_id w) ''event''
      | STEP_WAIT_ANY_DEVICE_EVENT _ \<Rightarrow> ''Wait any event''
      | STEP_WAIT_ALL_DEVICE_EVENTS _ \<Rightarrow> ''Wait all events''
      | STEP_WAIT_FLAGS _ \<Rightarrow> ''Wait flags''
      | STEP_DEVICE_COMMAND cmd \<Rightarrow> ''Command '' @ or_else (cmd_device_id cmd) ''device''
      | STEP_DEVICE_COMMAND_GROUP _ \<Rightarrow> ''Command group''
      | STEP_SHOW_OPERATOR_MESSAGE _ \<Rightarrow> ''Operator message''
      | STEP_SET_FLAG f \<Rightarrow> ''Set flag '' @ or_else (fl_name f) ''flag''
      | STEP_FAIL_REACTION \<Rightarrow> ''Fail reaction''
      | STEP_RESET_REACTION \<Rightarrow> ''Reset reaction''
      | _ \<Rightarrow> ''Action'')"

text \<open>Whole seconds of a wait, rounded up; the 32-bit sum wraps.\<close>

definition wait_duration_sec :: "u32 \<Rightarrow> u32 \<Rightarrow> u32" where
  "wait_duration_sec started until =
     (let d = (if until > started then until - started else 0) in if d > 0 then (d + 999) div 1000 else 0)"

definition gm_room_session_fill_wait_summary :: "run_view \<Rightarrow> string" where
  "gm_room_session_fill_wait_summary v = quest_str_copy GM_ROOM_SCENARIO_WAIT_SUMMARY_MAX_LEN
     (case v_wait_type v of
        WAIT_TIME \<Rightarrow>
          (let s = wait_duration_sec (v_wait_started_at_ms v) (v_wait_until_ms v)
           in if s > 0 then c_decimal (uint s) @ '' sec'' else ''timer'')
      | WAIT_DEVICE_COMMAND_RESULT \<Rightarrow>
          (if v_wait_event_type v = GM_ROOM_SESSION_DISPATCH_PENDING_ID then ''dispatch''
           else ''command result '' @ or_else (v_wait_event_type v) ''pending'')
      | WAIT_DEVICE_EVENT \<Rightarrow>
          (if v_wait_source_id v \<noteq> [] \<or> v_wait_event_type v \<noteq> []
           then or_else (v_wait_source_id v) ''device'' @
                (if v_wait_event_type v = [] then [] else '': '') @ v_wait_event_type v
           else ''device event'')
      | WAIT_ANY_DEVICE_EVENT \<Rightarrow> ''any of '' @ c_decimal (int (length (v_wait_events v))) @ '' events''
      | WAIT_ALL_DEVICE_EVENTS \<Rightarrow> ''all of '' @ c_decimal (int (length (v_wait_events v))) @ '' events''
      | WAIT_FLAGS \<Rightarrow> (if v_wait_flags v = [] then ''none'' else ''flags'')
      | WAIT_OPERATOR \<Rightarrow> or_else (v_wait_operator_prompt v) ''operator approval''
      | WAIT_NONE \<Rightarrow> ''none'')"

section \<open>Progress of a branch\<close>

definition gm_room_session_branch_local_step_index :: "branch_runtime \<Rightarrow> u16" where
  "gm_room_session_branch_local_step_index b =
     (let raw = v_current_step_index (b_view b); start = b_step_start_index b; count = b_step_count b;
          l = (if start \<le> raw \<and> raw < start + count then raw - start
               else if raw \<ge> start + count then count else raw)
      in if count = 0 then 0 else if l > count then count else l)"

definition gm_room_session_branch_done_steps :: "branch_runtime \<Rightarrow> u16" where
  "gm_room_session_branch_done_steps b =
     (let count = b_step_count b; l = gm_room_session_branch_local_step_index b in
      if count = 0 then 0
      else case v_scenario_state (b_view b) of
        GM_ROOM_SCENARIO_DONE \<Rightarrow> count
      | GM_ROOM_SCENARIO_IDLE \<Rightarrow> 0
      | GM_ROOM_SCENARIO_STOPPED \<Rightarrow> 0
      | _ \<Rightarrow> if l > count then count else l)"

definition gm_room_session_branch_failed_step_index :: "branch_runtime \<Rightarrow> int" where
  "gm_room_session_branch_failed_step_index b =
     (let total = b_step_count b; l = gm_room_session_branch_local_step_index b in
      if v_scenario_state (b_view b) \<noteq> GM_ROOM_SCENARIO_ERROR \<or> total = 0 then -1
      else if l \<ge> total then sint (total - 1) else sint l)"

datatype step_runtime_state =
    STEP_STATE_PENDING | STEP_STATE_CURRENT | STEP_STATE_WAITING | STEP_STATE_DONE
  | STEP_STATE_ERROR | STEP_STATE_SKIPPED

definition gm_room_session_branch_current_step_state :: "branch_runtime \<Rightarrow> step_runtime_state" where
  "gm_room_session_branch_current_step_state b =
     (let total = b_step_count b; l = gm_room_session_branch_local_step_index b;
          n = gm_room_session_branch_done_steps b; st = v_scenario_state (b_view b) in
      if total = 0 then STEP_STATE_PENDING
      else if st = GM_ROOM_SCENARIO_DONE then STEP_STATE_DONE
      else if l < n then STEP_STATE_DONE
      else if l \<ge> total then STEP_STATE_PENDING
      else case st of
        GM_ROOM_SCENARIO_WAITING \<Rightarrow> STEP_STATE_WAITING
      | GM_ROOM_SCENARIO_ERROR \<Rightarrow> STEP_STATE_ERROR
      | GM_ROOM_SCENARIO_RUNNING \<Rightarrow> STEP_STATE_CURRENT
      | GM_ROOM_SCENARIO_PAUSED \<Rightarrow> STEP_STATE_CURRENT
      | GM_ROOM_SCENARIO_DONE \<Rightarrow> STEP_STATE_DONE
      | _ \<Rightarrow> STEP_STATE_PENDING)"

definition gm_room_session_branch_wait_skip :: "gm_room_session \<Rightarrow> branch_runtime \<Rightarrow> bool \<times> string" where
  "gm_room_session_branch_wait_skip s b =
     (let v = b_view b; i = unat (v_current_step_index v); steps = sc_steps (s_running_scenario s);
          label = quest_str_copy ROOM_SCENARIO_OPERATOR_LABEL_MAX_LEN (v_wait_operator_skip_label v) in
      if v_scenario_state v = GM_ROOM_SCENARIO_WAITING \<and> v_wait_type v \<noteq> WAIT_NONE \<and> i < length steps \<and>
         st_allow_operator_skip (steps ! i)
      then (True, if label \<noteq> [] then label
                  else quest_str_copy ROOM_SCENARIO_OPERATOR_LABEL_MAX_LEN
                         (or_else (st_operator_skip_label (steps ! i)) ''Skip wait''))
      else (v_wait_operator_skip_allowed v, label))"

text \<open>Sums over the branches that carry the story, or over all when there is none; 16-bit.\<close>

definition flow_sum :: "(branch_runtime \<Rightarrow> u16) \<Rightarrow> gm_room_session \<Rightarrow> u16" where
  "flow_sum f s =
     (let bs = take ROOM_SCENARIO_MAX_BRANCHES (s_branch_runtimes s);
          flow = filter (\<lambda>b. b_type b \<noteq> ROOM_SCENARIO_BRANCH_REACTIVE) bs
      in sum_list (map f (if flow \<noteq> [] then flow else bs)))"

definition gm_room_session_total_steps :: "gm_room_session \<Rightarrow> u16" where
  "gm_room_session_total_steps = flow_sum b_step_count"

definition gm_room_session_done_steps :: "gm_room_session \<Rightarrow> u16" where
  "gm_room_session_done_steps = flow_sum gm_room_session_branch_done_steps"

section \<open>Views\<close>

record timer_view =
  tv_generation :: u32
  tv_session_state :: gm_session_state
  tv_session_active :: bool
  tv_started_at_ms :: u64
  tv_finished_at_ms :: u64
  tv_timer_state :: gm_timer_state
  tv_duration_ms :: u32
  tv_remaining_ms :: u32
  tv_paused_at_ms :: u64
  tv_hint_active :: bool
  tv_hint_count :: u32
  tv_hint_updated_at_ms :: u64
  tv_hint_text :: string

definition gm_room_session_fill_timer_view :: "u64 \<Rightarrow> gm_room_session \<Rightarrow> timer_view" where
  "gm_room_session_fill_timer_view now_ms s = \<lparr>
     tv_generation = s_session_generation s, tv_session_state = s_state s,
     tv_session_active = (s_state s = GM_SESSION_RUNNING \<or> s_state s = GM_SESSION_PAUSED),
     tv_started_at_ms = s_started_at_ms s, tv_finished_at_ms = s_finished_at_ms s,
     tv_timer_state = t_state (s_timer s), tv_duration_ms = t_duration_ms (s_timer s),
     tv_remaining_ms = gm_timer_get_remaining (s_timer s) now_ms,
     tv_paused_at_ms = t_paused_at_ms (s_timer s), tv_hint_active = h_active (s_hint s),
     tv_hint_count = h_sent_count (s_hint s), tv_hint_updated_at_ms = h_last_changed_ms (s_hint s),
     tv_hint_text = quest_str_copy QUEST_PAYLOAD_MAX_LEN (h_message (s_hint s))\<rparr>"

text \<open>What the caller's zeroed view reads as when there is no session.\<close>

definition timer_view_zero :: timer_view where
  "timer_view_zero = gm_room_session_fill_timer_view 0 gm_room_session_zero"

record selected_view =
  sv_generation :: u32
  sv_selected_scenario_generation :: u32
  sv_selected_profile_id :: string
  sv_selected_profile_name :: string
  sv_selected_profile_scenario_id :: string
  sv_selected_profile_duration_ms :: u32
  sv_selected_scenario_id :: string
  sv_selected_scenario_name :: string
  sv_running_scenario_valid :: bool
  sv_running_scenario_id :: string
  sv_running_scenario_name :: string
  sv_running_scenario_generation :: u32

definition gm_room_session_fill_selected_view :: "gm_room_session \<Rightarrow> selected_view" where
  "gm_room_session_fill_selected_view s = (let run = s_running_scenario_valid s in \<lparr>
     sv_generation = s_session_generation s,
     sv_selected_scenario_generation = s_selected_scenario_generation s,
     sv_selected_profile_id = quest_str_copy GM_ROOM_SESSION_PROFILE_ID_MAX_LEN (s_selected_profile_id s),
     sv_selected_profile_name = quest_str_copy GM_ROOM_SESSION_PROFILE_NAME_MAX_LEN (s_selected_profile_name s),
     sv_selected_profile_scenario_id = quest_str_copy ROOM_SCENARIO_ID_MAX_LEN (s_selected_profile_scenario_id s),
     sv_selected_profile_duration_ms = s_selected_profile_duration_ms s,
     sv_selected_scenario_id = quest_str_copy ROOM_SCENARIO_ID_MAX_LEN (s_selected_scenario_id s),
     sv_selected_scenario_name = quest_str_copy ROOM_SCENARIO_NAME_MAX_LEN (s_selected_scenario_name s),
     sv_running_scenario_valid = run,
     sv_running_scenario_id = (if run then quest_str_copy ROOM_SCENARIO_ID_MAX_LEN (sc_id (s_running_scenario s)) else []),
     sv_running_scenario_name = (if run then quest_str_copy ROOM_SCENARIO_NAME_MAX_LEN (sc_name (s_running_scenario s)) else []),
     sv_running_scenario_generation = (if run then s_running_scenario_generation s else 0)\<rparr>)"

definition selected_view_zero :: selected_view where
  "selected_view_zero = gm_room_session_fill_selected_view gm_room_session_zero"

record runtime_semantics =
  rm_total_steps :: u16
  rm_done_steps :: u16
  rm_current_step_text :: string
  rm_wait_summary :: string

definition gm_room_session_describe_runtime :: "gm_room_session \<Rightarrow> runtime_semantics" where
  "gm_room_session_describe_runtime s =
     (let i = unat (v_current_step_index (s_view s)); steps = sc_steps (s_running_scenario s) in \<lparr>
      rm_total_steps = gm_room_session_total_steps s, rm_done_steps = gm_room_session_done_steps s,
      rm_current_step_text =
        (if v_scenario_state (s_view s) = GM_ROOM_SCENARIO_DONE then ''Complete''
         else if s_running_scenario_valid s \<and> i < length steps
         then gm_room_session_format_step_text (steps ! i) else []),
      rm_wait_summary = gm_room_session_fill_wait_summary (s_view s)\<rparr>)"

record runtime_summary =
  rs_generation :: u32
  rs_semantics :: runtime_semantics
  rs_view :: run_view
  rs_operator_message :: string
  rs_flags :: "flag_condition list"
  rs_device_count :: u8
  rs_last_error :: string

definition gm_room_session_fill_runtime_summary :: "gm_room_session \<Rightarrow> runtime_summary" where
  "gm_room_session_fill_runtime_summary s = \<lparr>
     rs_generation = s_session_generation s, rs_semantics = gm_room_session_describe_runtime s,
     rs_view = mirror_copy (s_view s),
     rs_operator_message = quest_str_copy ROOM_SCENARIO_OPERATOR_MESSAGE_MAX_LEN (s_scenario_operator_message s),
     rs_flags = s_scenario_flags s,
     rs_device_count = (if s_running_scenario_valid s
                        then gm_room_session_count_scenario_devices (s_running_scenario s) else 0),
     rs_last_error = quest_str_copy 96 (s_scenario_last_error s)\<rparr>"

record branch_semantics =
  bs_current_local_step_index :: u16
  bs_done_steps :: u16
  bs_total_steps :: u16
  bs_failed_step_index :: int
  bs_current_step_state :: step_runtime_state
  bs_current_step_text :: string
  bs_wait_summary :: string
  bs_wait_skip :: "bool \<times> string"

definition runtime_branch :: "gm_room_session \<Rightarrow> branch_runtime \<Rightarrow> scenario_branch option" where
  "runtime_branch s b =
     (let i = unat (b_branch_index b); bs = sc_branches (s_running_scenario s)
      in if i < length bs then Some (bs ! i) else None)"

definition is_reactive :: "scenario_branch option \<Rightarrow> bool" where
  "is_reactive br = (case br of None \<Rightarrow> False | Some d \<Rightarrow> br_type d = ROOM_SCENARIO_BRANCH_REACTIVE)"

definition reaction_step_state :: "branch_runtime \<Rightarrow> step_runtime_state" where
  "reaction_step_state b =
     (if b_reactive_action_count b = 0 then STEP_STATE_PENDING
      else case v_scenario_state (b_view b) of
        GM_ROOM_SCENARIO_DONE \<Rightarrow> STEP_STATE_DONE
      | GM_ROOM_SCENARIO_WAITING \<Rightarrow> STEP_STATE_WAITING
      | GM_ROOM_SCENARIO_ERROR \<Rightarrow> STEP_STATE_ERROR
      | GM_ROOM_SCENARIO_RUNNING \<Rightarrow> STEP_STATE_CURRENT
      | GM_ROOM_SCENARIO_PAUSED \<Rightarrow> STEP_STATE_CURRENT
      | _ \<Rightarrow> STEP_STATE_PENDING)"

definition branch_step_text :: "gm_room_session \<Rightarrow> branch_runtime \<Rightarrow> string" where
  "branch_step_text s b =
     (let v = b_view b; sc = s_running_scenario s; i = unat (v_current_step_index v);
          a = unat (b_reactive_action_start_index b) + unat (b_reactive_current_action b) in
      if b_type b = ROOM_SCENARIO_BRANCH_REACTIVE \<and> v_scenario_state v = GM_ROOM_SCENARIO_WAITING \<and>
         v_wait_type v = WAIT_NONE then ''Waiting for trigger''
      else if is_reactive (runtime_branch s b) \<and> b_reactive_action_count b > 0 \<and>
              a < length (sc_reactive_actions sc)
      then gm_room_session_format_reactive_action_text (sc_reactive_actions sc ! a)
      else if v_scenario_state v = GM_ROOM_SCENARIO_DONE then ''Complete''
      else if s_running_scenario_valid s \<and> i < length (sc_steps sc)
      then gm_room_session_format_step_text (sc_steps sc ! i) else [])"

definition gm_room_session_describe_branch_runtime ::
  "gm_room_session \<Rightarrow> branch_runtime \<Rightarrow> branch_semantics" where
  "gm_room_session_describe_branch_runtime s b =
     (let total = ucast (b_reactive_action_count b) :: u16;
          cur = ucast (b_reactive_current_action b) :: u16;
          l = (if cur > total then total else cur);
          reactive = is_reactive (runtime_branch s b) in \<lparr>
      bs_current_local_step_index = (if reactive then l else gm_room_session_branch_local_step_index b),
      bs_done_steps = (if reactive
                       then (if v_scenario_state (b_view b) = GM_ROOM_SCENARIO_DONE then total else l)
                       else gm_room_session_branch_done_steps b),
      bs_total_steps = (if reactive then total else b_step_count b),
      bs_failed_step_index =
        (if reactive
         then (if v_scenario_state (b_view b) = GM_ROOM_SCENARIO_ERROR \<and> l < total then sint l else -1)
         else gm_room_session_branch_failed_step_index b),
      bs_current_step_state =
        (if reactive then reaction_step_state b else gm_room_session_branch_current_step_state b),
      bs_current_step_text = branch_step_text s b,
      bs_wait_summary = gm_room_session_fill_wait_summary (b_view b),
      bs_wait_skip = gm_room_session_branch_wait_skip s b\<rparr>)"

text \<open>The view of one branch: its name in the scenario, the runtime as it is, and its meaning.\<close>

record branch_view =
  bw_id :: string
  bw_name :: string
  bw_runtime :: branch_runtime
  bw_semantics :: branch_semantics

definition gm_room_session_fill_branch_runtime_view ::
  "gm_room_session \<Rightarrow> branch_runtime \<Rightarrow> nat \<Rightarrow> branch_view" where
  "gm_room_session_fill_branch_runtime_view s b i =
     (let bs = sc_branches (s_running_scenario s) in \<lparr>
      bw_id = quest_str_copy ROOM_SCENARIO_BRANCH_ID_MAX_LEN
        (if i < length bs then or_else (br_id (bs ! i)) ''main'' else ''main''),
      bw_name = quest_str_copy ROOM_SCENARIO_BRANCH_NAME_MAX_LEN
        (if i < length bs then or_else (br_name (bs ! i)) ''Main'' else ''Main''),
      bw_runtime = b, bw_semantics = gm_room_session_describe_branch_runtime s b\<rparr>)"

record projection_view =
  pv_timer :: timer_view
  pv_selected :: selected_view
  pv_runtime :: runtime_summary
  pv_device_ids :: "string list"
  pv_branches :: "branch_view list"

definition gm_room_session_build_projection_view :: "u64 \<Rightarrow> gm_room_session \<Rightarrow> projection_view" where
  "gm_room_session_build_projection_view now_ms s = \<lparr>
     pv_timer = gm_room_session_fill_timer_view now_ms s,
     pv_selected = gm_room_session_fill_selected_view s,
     pv_runtime = gm_room_session_fill_runtime_summary s,
     pv_device_ids = (if s_running_scenario_valid s
                      then snd (room_scenario_collect_device_refs (s_running_scenario s) ROOM_SCENARIO_MAX_STEPS)
                      else []),
     pv_branches = map (\<lambda>i. gm_room_session_fill_branch_runtime_view s (s_branch_runtimes s ! i) i)
       [0..<min (length (s_branch_runtimes s)) ROOM_SCENARIO_MAX_BRANCHES]\<rparr>"

text \<open>
  A read under the sessions lock: taking and leaving the lock advances the epoch like any other
  lock section.
\<close>

definition read_session :: "string \<Rightarrow> (gm_room_session \<Rightarrow> 'a) \<Rightarrow> gm_core \<Rightarrow> (esp_err + 'a) \<times> gm_core" where
  "read_session room_id f k =
     (if room_id = [] then (Inl ESP_ERR_INVALID_ARG, k)
      else let k1 = gm_room_session_sessions_lock k in
        (case find_session_mutable_locked k1 room_id of
           None \<Rightarrow> Inl ESP_ERR_NOT_FOUND
         | Some j \<Rightarrow> Inr (f (k_sessions k1 ! j)), gm_room_session_sessions_unlock k1))"

definition gm_room_session_get_read_views ::
  "string \<Rightarrow> u64 \<Rightarrow> gm_core \<Rightarrow> (esp_err + timer_view \<times> selected_view \<times> runtime_summary) \<times> gm_core" where
  "gm_room_session_get_read_views room_id now_ms =
     read_session room_id (\<lambda>s. (gm_room_session_fill_timer_view now_ms s,
       gm_room_session_fill_selected_view s, gm_room_session_fill_runtime_summary s))"

definition gm_room_session_get_timer_view :: "string \<Rightarrow> u64 \<Rightarrow> gm_core \<Rightarrow> (esp_err + timer_view) \<times> gm_core" where
  "gm_room_session_get_timer_view room_id now_ms = read_session room_id (gm_room_session_fill_timer_view now_ms)"

definition gm_room_session_get_selected_view :: "string \<Rightarrow> gm_core \<Rightarrow> (esp_err + selected_view) \<times> gm_core" where
  "gm_room_session_get_selected_view room_id = read_session room_id gm_room_session_fill_selected_view"

definition gm_room_session_get_runtime_summary :: "string \<Rightarrow> gm_core \<Rightarrow> (esp_err + runtime_summary) \<times> gm_core" where
  "gm_room_session_get_runtime_summary room_id = read_session room_id gm_room_session_fill_runtime_summary"

definition gm_room_session_get_projection_view ::
  "string \<Rightarrow> u64 \<Rightarrow> gm_core \<Rightarrow> (esp_err + projection_view) \<times> gm_core" where
  "gm_room_session_get_projection_view room_id now_ms =
     read_session room_id (gm_room_session_build_projection_view now_ms)"

section \<open>Progress stays within its total\<close>

lemma local_step_le: "gm_room_session_branch_local_step_index b \<le> b_step_count b"
  by (auto simp: gm_room_session_branch_local_step_index_def Let_def)

lemma done_steps_le: "gm_room_session_branch_done_steps b \<le> b_step_count b"
  using local_step_le [of b]
  by (auto simp: gm_room_session_branch_done_steps_def Let_def split: gm_room_scenario_state.split)

lemma sum_list_unat_bound:
  assumes "\<forall>b \<in> set bs. unat (f b :: u16) \<le> m" and "length bs * m < 2 ^ 16"
  shows "unat (sum_list (map f bs)) = (\<Sum>b\<leftarrow>bs. unat (f b))"
    and "(\<Sum>b\<leftarrow>bs. unat (f b)) \<le> length bs * m"
  using assms
proof (induction bs)
  case (Cons b bs)
  {
    case 1
    then have "unat (sum_list (map f bs)) = (\<Sum>b\<leftarrow>bs. unat (f b))"
      "(\<Sum>b\<leftarrow>bs. unat (f b)) \<le> length bs * m" "unat (f b) \<le> m"
      using Cons.IH by simp_all
    then have "unat (f b) + unat (sum_list (map f bs)) < 2 ^ LENGTH(16)"
      using 1 by simp
    then have "unat (f b + sum_list (map f bs)) = unat (f b) + unat (sum_list (map f bs))"
      by (simp add: unat_plus_simple [THEN iffD1] no_olen_add_nat)
    then show ?case using \<open>unat (sum_list (map f bs)) = _\<close> by simp
  next
    case 2
    then show ?case using Cons.IH by simp
  }
qed simp_all

lemma flow_sum_mono:
  assumes "\<And>b. (f b :: u16) \<le> g b" and "\<forall>b \<in> set (s_branch_runtimes s). unat (g b) \<le> ROOM_SCENARIO_MAX_STEPS"
  shows "flow_sum f s \<le> flow_sum g s"
proof -
  define bs where "bs = (let all = take ROOM_SCENARIO_MAX_BRANCHES (s_branch_runtimes s);
    flow = filter (\<lambda>b. b_type b \<noteq> ROOM_SCENARIO_BRANCH_REACTIVE) all in if flow \<noteq> [] then flow else all)"
  have sub: "set bs \<subseteq> set (s_branch_runtimes s)" "length bs \<le> ROOM_SCENARIO_MAX_BRANCHES"
    using length_filter_le [of _ "take ROOM_SCENARIO_MAX_BRANCHES (s_branch_runtimes s)"]
    by (auto simp: bs_def Let_def dest: in_set_takeD intro: le_trans)
  have le: "unat (f b) \<le> unat (g b)" for b using assms(1) [of b] by (simp add: word_le_nat_alt)
  have g: "\<forall>b \<in> set bs. unat (g b) \<le> ROOM_SCENARIO_MAX_STEPS" using assms(2) sub by auto
  with le have f: "\<forall>b \<in> set bs. unat (f b) \<le> ROOM_SCENARIO_MAX_STEPS" by (meson le_trans)
  have small: "length bs * ROOM_SCENARIO_MAX_STEPS < 2 ^ 16"
    using sub(2) by (simp add: ROOM_SCENARIO_MAX_BRANCHES_def ROOM_SCENARIO_MAX_STEPS_def)
  have "(\<Sum>b\<leftarrow>bs. unat (f b)) \<le> (\<Sum>b\<leftarrow>bs. unat (g b))"
    by (intro sum_list_mono) (simp add: le)
  then have "sum_list (map f bs) \<le> sum_list (map g bs)"
    using sum_list_unat_bound(1) [OF f small] sum_list_unat_bound(1) [OF g small] by (simp add: word_le_nat_alt)
  then show ?thesis by (simp add: flow_sum_def bs_def Let_def)
qed

text \<open>
  The progress shown to the operator is consistent.  For a session whose branches have at
  most \<open>ROOM_SCENARIO_MAX_STEPS\<close> steps, no branch shows more finished steps than it has, a branch
  that is done shows all of them, and the 16-bit sums over the branches do not wrap: the total
  shown for the room never falls below the number of finished steps.
\<close>

theorem progress_within_total:
  assumes "\<forall>b \<in> set (s_branch_runtimes s). unat (b_step_count b) \<le> ROOM_SCENARIO_MAX_STEPS"
  shows "rm_done_steps (gm_room_session_describe_runtime s) \<le> rm_total_steps (gm_room_session_describe_runtime s) \<and>
    (\<forall>b \<in> set (s_branch_runtimes s).
       bs_done_steps (gm_room_session_describe_branch_runtime s b) \<le>
         bs_total_steps (gm_room_session_describe_branch_runtime s b) \<and>
       (v_scenario_state (b_view b) = GM_ROOM_SCENARIO_DONE \<longrightarrow>
         bs_done_steps (gm_room_session_describe_branch_runtime s b) =
         bs_total_steps (gm_room_session_describe_branch_runtime s b)))"
proof -
  have "gm_room_session_done_steps s \<le> gm_room_session_total_steps s"
    unfolding gm_room_session_done_steps_def gm_room_session_total_steps_def
    by (rule flow_sum_mono [OF done_steps_le assms])
  moreover have "v_scenario_state (b_view b) = GM_ROOM_SCENARIO_DONE \<Longrightarrow>
      gm_room_session_branch_done_steps b = b_step_count b" for b
    by (simp add: gm_room_session_branch_done_steps_def Let_def)
  ultimately show ?thesis
    by (simp add: gm_room_session_describe_runtime_def gm_room_session_describe_branch_runtime_def Let_def
        done_steps_le not_less)
qed

definition view_session :: gm_room_session where
  "view_session = c_ses (demo_ctx (demo_scenario [STEP_DEVICE_COMMAND (demo_command ''on''),
     STEP_DEVICE_COMMAND_GROUP [demo_command ''on'', demo_command ''off'']] []) prepared_scenario_zero)"

theorem progress_within_total_witness:
  "rm_done_steps (gm_room_session_describe_runtime view_session) \<le>
     rm_total_steps (gm_room_session_describe_runtime view_session) \<and>
   rm_total_steps (gm_room_session_describe_runtime view_session) = 2"
proof -
  have "\<forall>b \<in> set (s_branch_runtimes view_session). unat (b_step_count b) \<le> ROOM_SCENARIO_MAX_STEPS"
    "rm_total_steps (gm_room_session_describe_runtime view_session) = 2"
    by code_simp+
  with progress_within_total [of view_session] show ?thesis by blast
qed

section \<open>The device list\<close>

text \<open>The distinct elements of a list in the order of their first occurrence.\<close>

fun firsts :: "'a list \<Rightarrow> 'a list \<Rightarrow> 'a list" where
  "firsts seen [] = []"
| "firsts seen (x # xs) = (if x \<in> set seen then firsts seen xs else x # firsts (x # seen) xs)"

lemma firsts_cong: "set seen = set seen' \<Longrightarrow> firsts seen xs = firsts seen' xs"
proof (induction xs arbitrary: seen seen')
  case (Cons x xs)
  then have "firsts (x # seen) xs = firsts (x # seen') xs" by (intro Cons.IH) simp
  with Cons.IH [of seen seen'] Cons.prems show ?case by simp
qed simp

lemma set_firsts: "set (firsts seen xs) = set xs - set seen"
  by (induction seen xs rule: firsts.induct) auto

lemma distinct_firsts: "distinct (firsts seen xs)"
  by (induction seen xs rule: firsts.induct) (auto simp: set_firsts)

lemma collect_fold:
  assumes "\<forall>r \<in> set rs. length r < ROOM_SCENARIO_DEVICE_ID_MAX_LEN"
    and "length (dc_device_ids ctx) \<le> n"
    and "dc_overflow ctx \<longrightarrow> length (dc_device_ids ctx) = n"
  defines "new \<equiv> firsts (dc_device_ids ctx) (filter (\<lambda>r. r \<noteq> []) rs)"
  shows "dc_device_ids (fold (collect_device_ref_cb n) rs ctx) = take n (dc_device_ids ctx @ new)"
  using assms(1-3) unfolding new_def
proof (induction rs arbitrary: ctx)
  case (Cons r rs)
  show ?case
  proof (cases "r = [] \<or> r \<in> set (dc_device_ids ctx)")
    case True
    then show ?thesis using Cons by (auto simp: collect_device_ref_cb_def)
  next
    case False
    show ?thesis
    proof (cases "length (dc_device_ids ctx) \<ge> n")
      case True
      with False Cons.prems Cons.IH [of "ctx\<lparr>dc_overflow := True\<rparr>"] show ?thesis
        by (simp add: collect_device_ref_cb_def)
    next
      case room: False
      let ?ctx = "ctx\<lparr>dc_device_ids := dc_device_ids ctx @ [r]\<rparr>"
      have "quest_str_copy ROOM_SCENARIO_DEVICE_ID_MAX_LEN r = r"
        using Cons.prems(1) by (auto simp: quest_str_copy_def)
      then have "collect_device_ref_cb n r ctx = ?ctx"
        using False room by (simp add: collect_device_ref_cb_def)
      moreover have "firsts (dc_device_ids ctx @ [r]) xs = firsts (r # dc_device_ids ctx) xs" for xs
        by (rule firsts_cong) auto
      ultimately show ?thesis using False room Cons.prems Cons.IH [of ?ctx] by auto
    qed
  qed
qed simp

text \<open>
  The device list of a scenario has no duplicates and keeps the order in which the scenario
  mentions its devices.  With identifiers that fit their fields, the list is exactly the first
  mentions of the devices of the steps, of the commands of the reactions and of the single-event
  triggers, cut at the capacity.
\<close>

theorem device_list_is_first_mentions:
  assumes "\<forall>r \<in> set (scenario_device_refs sc). length r < ROOM_SCENARIO_DEVICE_ID_MAX_LEN"
  shows "snd (room_scenario_collect_device_refs sc n) =
      take n (firsts [] (filter (\<lambda>r. r \<noteq> []) (scenario_device_refs sc))) \<and>
    distinct (snd (room_scenario_collect_device_refs sc n))"
  using collect_fold [OF assms, of "\<lparr>dc_device_ids = [], dc_overflow = False\<rparr>" n]
  by (simp add: room_scenario_collect_device_refs_def Let_def distinct_firsts)

theorem device_list_is_first_mentions_witness:
  "snd (room_scenario_collect_device_refs (s_running_scenario view_session) 48) = [cmd_device_id (demo_command ''on'')]"
proof -
  have "\<forall>r \<in> set (scenario_device_refs (s_running_scenario view_session)). length r < ROOM_SCENARIO_DEVICE_ID_MAX_LEN"
    "take 48 (firsts [] (filter (\<lambda>r. r \<noteq> []) (scenario_device_refs (s_running_scenario view_session)))) =
       [cmd_device_id (demo_command ''on'')]"
    by code_simp+
  with device_list_is_first_mentions [of "s_running_scenario view_session" 48] show ?thesis by simp
qed

end
