(* ===== verification/Scenario_Validation.thy ===== *)
theory Scenario_Validation
  imports Gm_View
begin

text \<open>
  Validation of scenarios (\<open>room_scenario/room_scenario_validation.c\<close>).  Two validators exist: the
  structural one decides whether the store accepts a scenario, the reporting one lists issues for
  the editor.  A report is a flag and at most \<open>ROOM_SCENARIO_VALIDATION_MAX_ISSUES\<close> issues; the
  checkers are functions on reports.  Tags outside the enumerations of the header cannot be
  expressed, so the checks of step, branch and re-entry tags always pass.
\<close>

section \<open>Entries\<close>

definition range_of :: "u16 \<Rightarrow> u8 \<Rightarrow> 'a list \<Rightarrow> 'a list" where
  "range_of start n xs = take (unat n) (drop (unat start) xs)"

text \<open>The range test of the source is made on \<open>size_t\<close>, where the sum cannot wrap.\<close>

definition range_ok :: "u16 \<Rightarrow> u8 \<Rightarrow> 'a list \<Rightarrow> bool" where
  "range_ok start n xs \<longleftrightarrow> unat start + unat n \<le> length xs"

definition room_scenario_valid_device_command :: "device_command \<Rightarrow> bool" where
  "room_scenario_valid_device_command command \<longleftrightarrow> cmd_device_id command \<noteq> [] \<and> cmd_command_id command \<noteq> []"

definition room_scenario_valid_command_ref :: "string \<Rightarrow> string \<Rightarrow> bool" where
  "room_scenario_valid_command_ref device_id command_id \<longleftrightarrow> device_id \<noteq> [] \<and> command_id \<noteq> []"

fun room_scenario_is_reactive_control_action_type :: "step_data \<Rightarrow> bool" where
  "room_scenario_is_reactive_control_action_type STEP_FAIL_REACTION = True"
| "room_scenario_is_reactive_control_action_type STEP_RESET_REACTION = True"
| "room_scenario_is_reactive_control_action_type _ = False"

definition event_ref_ok :: "wait_device_event \<Rightarrow> bool" where
  "event_ref_ok e \<longleftrightarrow> wde_device_id e \<noteq> [] \<and> wde_event_id e \<noteq> []"

definition event_group_ok :: "wait_device_event list \<Rightarrow> bool" where
  "event_group_ok es \<longleftrightarrow> es \<noteq> [] \<and> length es \<le> ROOM_SCENARIO_WAIT_EVENT_GROUP_MAX_EVENTS \<and> list_all event_ref_ok es"

definition room_scenario_valid_step :: "scenario_step \<Rightarrow> bool" where
  "room_scenario_valid_step step \<longleftrightarrow> st_id step \<noteq> [] \<and>
     (case st_data step of
        STEP_WAIT_TIME w \<Rightarrow> wt_duration_ms w > 0
      | STEP_OPERATOR_APPROVAL prompt _ \<Rightarrow> prompt \<noteq> []
      | STEP_DEVICE_COMMAND cmd \<Rightarrow> room_scenario_valid_device_command cmd
      | STEP_WAIT_DEVICE_EVENT w \<Rightarrow> event_ref_ok w
      | STEP_DEVICE_COMMAND_GROUP cmds \<Rightarrow>
          cmds \<noteq> [] \<and> length cmds \<le> ROOM_SCENARIO_COMMAND_GROUP_MAX_COMMANDS \<and>
          list_all (\<lambda>c. room_scenario_valid_command_ref (cmd_device_id c) (cmd_command_id c)) cmds
      | STEP_SHOW_OPERATOR_MESSAGE m \<Rightarrow> m \<noteq> []
      | STEP_SET_FLAG f \<Rightarrow> fl_name f \<noteq> []
      | STEP_WAIT_FLAGS w \<Rightarrow>
          wf_flags w \<noteq> [] \<and> length (wf_flags w) \<le> ROOM_SCENARIO_WAIT_FLAGS_MAX_FLAGS \<and>
          list_all (\<lambda>f. fl_name f \<noteq> []) (wf_flags w)
      | STEP_WAIT_ANY_DEVICE_EVENT w \<Rightarrow> event_group_ok (weg_events w)
      | STEP_WAIT_ALL_DEVICE_EVENTS w \<Rightarrow> event_group_ok (weg_events w)
      | STEP_FAIL_REACTION \<Rightarrow> False
      | STEP_RESET_REACTION \<Rightarrow> False
      | STEP_END_GAME \<Rightarrow> True)"

definition room_scenario_valid_reactive_trigger :: "reactive_trigger \<Rightarrow> bool" where
  "room_scenario_valid_reactive_trigger t =
     (case tr_kind t of
        REACTIVE_TRIGGER_DEVICE_EVENT \<Rightarrow> tr_device_id t \<noteq> [] \<and> tr_event_id t \<noteq> []
      | REACTIVE_TRIGGER_ANY_DEVICE_EVENTS \<Rightarrow> event_group_ok (tr_events t)
      | REACTIVE_TRIGGER_ALL_DEVICE_EVENTS \<Rightarrow> event_group_ok (tr_events t)
      | REACTIVE_TRIGGER_FLAG_CHANGED \<Rightarrow> tr_flag_name t \<noteq> []
      | REACTIVE_TRIGGER_OPERATOR_EVENT \<Rightarrow> tr_operator_event t \<noteq> []
      | REACTIVE_TRIGGER_RUNTIME_EVENT \<Rightarrow> tr_runtime_event t \<noteq> []
      | REACTIVE_TRIGGER_NONE \<Rightarrow> False)"

definition group_range_ok :: "room_scenario \<Rightarrow> reactive_action \<Rightarrow> bool" where
  "group_range_ok sc a \<longleftrightarrow> ra_group_command_count a \<noteq> 0 \<and>
     range_ok (ra_group_command_start_index a) (ra_group_command_count a) (sc_reactive_group_commands sc)"

definition action_group :: "room_scenario \<Rightarrow> reactive_action \<Rightarrow> device_command list" where
  "action_group sc a =
     range_of (ra_group_command_start_index a) (ra_group_command_count a) (sc_reactive_group_commands sc)"

definition room_scenario_valid_reactive_action :: "room_scenario \<Rightarrow> reactive_action \<Rightarrow> bool" where
  "room_scenario_valid_reactive_action sc a =
     (case ra_data a of
        STEP_DEVICE_COMMAND cmd \<Rightarrow> room_scenario_valid_device_command cmd
      | STEP_DEVICE_COMMAND_GROUP _ \<Rightarrow>
          group_range_ok sc a \<and> list_all room_scenario_valid_device_command (action_group sc a)
      | STEP_WAIT_TIME w \<Rightarrow> wt_duration_ms w > 0
      | STEP_SET_FLAG f \<Rightarrow> fl_name f \<noteq> []
      | STEP_SHOW_OPERATOR_MESSAGE m \<Rightarrow> m \<noteq> []
      | STEP_FAIL_REACTION \<Rightarrow> True
      | STEP_RESET_REACTION \<Rightarrow> True
      | _ \<Rightarrow> False)"

definition variants_ok :: "room_scenario \<Rightarrow> scenario_branch \<Rightarrow> bool" where
  "variants_ok sc b \<longleftrightarrow> br_variant_count b \<noteq> 0 \<and>
     range_ok (br_variant_start_index b) (br_variant_count b) (sc_reactive_variants sc)"

definition branch_variants :: "room_scenario \<Rightarrow> scenario_branch \<Rightarrow> reactive_variant list" where
  "branch_variants sc b = range_of (br_variant_start_index b) (br_variant_count b) (sc_reactive_variants sc)"

definition actions_ok :: "room_scenario \<Rightarrow> reactive_variant \<Rightarrow> bool" where
  "actions_ok sc v \<longleftrightarrow> rv_action_count v \<noteq> 0 \<and>
     range_ok (rv_action_start_index v) (rv_action_count v) (sc_reactive_actions sc)"

definition variant_actions :: "room_scenario \<Rightarrow> reactive_variant \<Rightarrow> reactive_action list" where
  "variant_actions sc v = range_of (rv_action_start_index v) (rv_action_count v) (sc_reactive_actions sc)"

definition complete_ok :: "room_scenario \<Rightarrow> scenario_branch \<Rightarrow> bool" where
  "complete_ok sc b \<longleftrightarrow>
     range_ok (br_on_complete_action_start_index b) (br_on_complete_action_count b) (sc_reactive_actions sc)"

definition complete_actions :: "room_scenario \<Rightarrow> scenario_branch \<Rightarrow> reactive_action list" where
  "complete_actions sc b =
     range_of (br_on_complete_action_start_index b) (br_on_complete_action_count b) (sc_reactive_actions sc)"

definition valid_variant :: "room_scenario \<Rightarrow> reactive_variant \<Rightarrow> bool" where
  "valid_variant sc v \<longleftrightarrow> rv_id v \<noteq> [] \<and> actions_ok sc v \<and>
     list_all (room_scenario_valid_reactive_action sc) (variant_actions sc v)"

definition valid_complete_action :: "room_scenario \<Rightarrow> reactive_action \<Rightarrow> bool" where
  "valid_complete_action sc a \<longleftrightarrow> \<not> room_scenario_is_reactive_control_action_type (ra_data a) \<and>
     room_scenario_valid_reactive_action sc a"

definition room_scenario_valid_reactive_branch_v2 :: "room_scenario \<Rightarrow> scenario_branch \<Rightarrow> bool" where
  "room_scenario_valid_reactive_branch_v2 sc b \<longleftrightarrow>
     room_scenario_valid_reactive_trigger (br_trigger b) \<and> variants_ok sc b \<and>
     list_all (\<lambda>f. fl_name f \<noteq> []) (br_guard_flags b) \<and>
     list_all (valid_variant sc) (branch_variants sc b) \<and>
     complete_ok sc b \<and> list_all (valid_complete_action sc) (complete_actions sc b)"

fun room_scenario_step_is_reactive_trigger :: "step_data \<Rightarrow> bool" where
  "room_scenario_step_is_reactive_trigger (STEP_WAIT_DEVICE_EVENT _) = True"
| "room_scenario_step_is_reactive_trigger (STEP_WAIT_ANY_DEVICE_EVENT _) = True"
| "room_scenario_step_is_reactive_trigger (STEP_WAIT_ALL_DEVICE_EVENTS _) = True"
| "room_scenario_step_is_reactive_trigger (STEP_WAIT_FLAGS _) = True"
| "room_scenario_step_is_reactive_trigger _ = False"

definition branch_end :: "scenario_branch \<Rightarrow> nat" where
  "branch_end b = unat (br_step_start_index b) + unat (br_step_count b)"

definition room_scenario_branch_first_step :: "room_scenario \<Rightarrow> scenario_branch \<Rightarrow> scenario_step option" where
  "room_scenario_branch_first_step sc b =
     (if br_step_count b = 0 \<or> branch_end b > length (sc_steps sc) then None
      else Some (sc_steps sc ! unat (br_step_start_index b)))"

section \<open>Duplicates\<close>

definition room_scenario_has_duplicate_branch_ids :: "room_scenario \<Rightarrow> bool" where
  "room_scenario_has_duplicate_branch_ids sc =
     list_ex (\<lambda>i. list_ex (\<lambda>j. br_id (sc_branches sc ! i) = br_id (sc_branches sc ! j))
       [i + 1 ..< length (sc_branches sc)]) [0 ..< length (sc_branches sc)]"

definition in_branch :: "nat \<Rightarrow> scenario_branch \<Rightarrow> bool" where
  "in_branch a b \<longleftrightarrow> unat (br_step_start_index b) \<le> a \<and> a < branch_end b"

definition room_scenario_steps_share_branch :: "room_scenario \<Rightarrow> nat \<Rightarrow> nat \<Rightarrow> bool" where
  "room_scenario_steps_share_branch sc a b =
     (case find (in_branch a) (sc_branches sc) of None \<Rightarrow> True | Some branch \<Rightarrow> in_branch b branch)"

definition same_step_id :: "room_scenario \<Rightarrow> nat \<Rightarrow> nat \<Rightarrow> bool" where
  "same_step_id sc i j \<longleftrightarrow> room_scenario_steps_share_branch sc i j \<and> st_id (sc_steps sc ! i) = st_id (sc_steps sc ! j)"

definition room_scenario_has_duplicate_step_ids :: "room_scenario \<Rightarrow> bool" where
  "room_scenario_has_duplicate_step_ids sc =
     list_ex (\<lambda>i. list_ex (same_step_id sc i) [i + 1 ..< length (sc_steps sc)]) [0 ..< length (sc_steps sc)]"

section \<open>The structural validator\<close>

definition uses_v2 :: "scenario_branch \<Rightarrow> bool" where
  "uses_v2 b \<longleftrightarrow> br_variant_count b > 0 \<or> tr_kind (br_trigger b) \<noteq> REACTIVE_TRIGGER_NONE"

text \<open>A branch that listens to flags must not fire in an endless loop.\<close>

definition unguarded_flags :: "scenario_branch \<Rightarrow> scenario_step \<Rightarrow> bool" where
  "unguarded_flags b step \<longleftrightarrow> (case st_data step of STEP_WAIT_FLAGS _ \<Rightarrow> True | _ \<Rightarrow> False) \<and>
     \<not> br_run_once b \<and> br_max_fire_count b = 0 \<and> br_cooldown_ms b = 0"

definition listens :: "room_scenario \<Rightarrow> scenario_branch \<Rightarrow> bool" where
  "listens sc b =
     (case room_scenario_branch_first_step sc b of
        None \<Rightarrow> False
      | Some step \<Rightarrow> room_scenario_step_is_reactive_trigger (st_data step) \<and> \<not> unguarded_flags b step)"

definition structural_branch :: "room_scenario \<Rightarrow> scenario_branch \<Rightarrow> esp_err" where
  "structural_branch sc b =
     (if br_id b = [] \<or> br_name b = [] then ESP_ERR_INVALID_ARG
      else if branch_end b > length (sc_steps sc) then ESP_ERR_INVALID_SIZE
      else if br_type b = ROOM_SCENARIO_BRANCH_REACTIVE \<and>
              \<not> (if uses_v2 b then room_scenario_valid_reactive_branch_v2 sc b else listens sc b)
      then ESP_ERR_INVALID_ARG
      else ESP_OK)"

fun first_failure :: "('a \<Rightarrow> esp_err) \<Rightarrow> 'a list \<Rightarrow> esp_err" where
  "first_failure check [] = ESP_OK"
| "first_failure check (x # xs) = (if check x \<noteq> ESP_OK then check x else first_failure check xs)"

definition room_scenario_validate_structural :: "room_scenario \<Rightarrow> esp_err" where
  "room_scenario_validate_structural sc =
     (if sc_id sc = [] \<or> sc_name sc = [] \<or> sc_room_id sc = [] then ESP_ERR_INVALID_ARG
      else if length (sc_steps sc) > ROOM_SCENARIO_MAX_STEPS then ESP_ERR_INVALID_SIZE
      else if length (sc_reactive_variants sc) > ROOM_SCENARIO_MAX_REACTIVE_VARIANTS \<or>
              length (sc_reactive_actions sc) > ROOM_SCENARIO_MAX_REACTIVE_ACTIONS \<or>
              length (sc_reactive_group_commands sc) > ROOM_SCENARIO_MAX_REACTIVE_GROUP_COMMANDS
      then ESP_ERR_INVALID_SIZE
      else if length (sc_branches sc) > ROOM_SCENARIO_MAX_BRANCHES then ESP_ERR_INVALID_SIZE
      else if room_scenario_has_duplicate_step_ids sc then ESP_ERR_INVALID_ARG
      else if room_scenario_has_duplicate_branch_ids sc then ESP_ERR_INVALID_ARG
      else let err = first_failure (structural_branch sc) (sc_branches sc)
        in if err \<noteq> ESP_OK then err
           else if \<not> list_all room_scenario_valid_step (sc_steps sc) then ESP_ERR_INVALID_ARG
           else ESP_OK)"

section \<open>Reports\<close>

definition ROOM_SCENARIO_VALIDATION_CODE_MAX_LEN :: nat where "ROOM_SCENARIO_VALIDATION_CODE_MAX_LEN = 48"
definition ROOM_SCENARIO_VALIDATION_MESSAGE_MAX_LEN :: nat where "ROOM_SCENARIO_VALIDATION_MESSAGE_MAX_LEN = 128"
definition ROOM_SCENARIO_VALIDATION_MAX_ISSUES :: nat where "ROOM_SCENARIO_VALIDATION_MAX_ISSUES = 32"

datatype validation_level = VALIDATION_ERROR | VALIDATION_WARNING

record validation_issue =
  vi_level :: validation_level
  vi_step_index :: u16
  vi_branch_id :: string
  vi_variant_index :: int
  vi_action_index :: int
  vi_code :: string
  vi_message :: string

record validation_report =
  vr_valid :: bool
  vr_issues :: "validation_issue list"

definition validation_report_init :: validation_report where
  "validation_report_init = \<lparr>vr_valid = True, vr_issues = []\<rparr>"

definition validation_add_issue ::
  "validation_level \<Rightarrow> u16 \<Rightarrow> string \<Rightarrow> string \<Rightarrow> validation_report \<Rightarrow> validation_report" where
  "validation_add_issue lv step_index code message r =
     (let r1 = (if lv = VALIDATION_ERROR then r\<lparr>vr_valid := False\<rparr> else r) in
      if length (vr_issues r1) \<ge> ROOM_SCENARIO_VALIDATION_MAX_ISSUES then r1
      else r1\<lparr>vr_issues := vr_issues r1 @ [\<lparr>vi_level = lv, vi_step_index = step_index, vi_branch_id = [],
             vi_variant_index = - 1, vi_action_index = - 1,
             vi_code = quest_str_copy ROOM_SCENARIO_VALIDATION_CODE_MAX_LEN code,
             vi_message = quest_str_copy ROOM_SCENARIO_VALIDATION_MESSAGE_MAX_LEN message\<rparr>]\<rparr>)"

definition place_issue :: "scenario_branch \<Rightarrow> int \<Rightarrow> int \<Rightarrow> validation_issue \<Rightarrow> validation_issue" where
  "place_issue b variant_index action_index i =
     i\<lparr>vi_branch_id := quest_str_copy ROOM_SCENARIO_BRANCH_ID_MAX_LEN (br_id b),
       vi_variant_index := variant_index, vi_action_index := action_index\<rparr>"

text \<open>The last issue of the report is given its place in the branch.\<close>

definition validation_add_reactive_issue ::
  "validation_level \<Rightarrow> scenario_branch \<Rightarrow> int \<Rightarrow> int \<Rightarrow> u16 \<Rightarrow> string \<Rightarrow> string \<Rightarrow>
   validation_report \<Rightarrow> validation_report" where
  "validation_add_reactive_issue lv b variant_index action_index step_index code message r =
     (let r1 = validation_add_issue lv step_index code message r in
      if vr_issues r1 = [] then r1
      else r1\<lparr>vr_issues := butlast (vr_issues r1) @ [place_issue b variant_index action_index (last (vr_issues r1))]\<rparr>)"

section \<open>Checks of the steps\<close>

text \<open>The two checks of an empty id print the name of the place; the buffer has 128 bytes.\<close>

definition empty_field_issue :: "string \<Rightarrow> string \<Rightarrow> string \<Rightarrow> u16 \<Rightarrow> validation_report \<Rightarrow> validation_report" where
  "empty_field_issue name what code step_index =
     validation_add_issue VALIDATION_ERROR step_index code
       (quest_str_copy ROOM_SCENARIO_VALIDATION_MESSAGE_MAX_LEN (name @ what))"

definition validation_check_device_command_payload_static ::
  "device_command \<Rightarrow> u16 \<Rightarrow> string \<Rightarrow> validation_report \<Rightarrow> validation_report" where
  "validation_check_device_command_payload_static cmd step_index step_name r =
     (let name = (if step_name \<noteq> [] then step_name else ''DEVICE_COMMAND'') in
      if cmd_device_id cmd = [] then empty_field_issue name '' has empty device_id'' ''DEVICE_ID_EMPTY'' step_index r
      else if cmd_command_id cmd = []
      then empty_field_issue name '' has empty command_id'' ''DEVICE_COMMAND_ID_EMPTY'' step_index r
      else r)"

text \<open>The commands of a group are copied into a command before they are checked.\<close>

definition copied_command :: "device_command \<Rightarrow> device_command" where
  "copied_command c = \<lparr>cmd_device_id = quest_str_copy ROOM_SCENARIO_DEVICE_ID_MAX_LEN (cmd_device_id c),
     cmd_command_id = quest_str_copy ROOM_SCENARIO_DEVICE_COMMAND_ID_MAX_LEN (cmd_command_id c), cmd_params_json = []\<rparr>"

definition validation_check_device_command_group_step_static ::
  "device_command list \<Rightarrow> u16 \<Rightarrow> validation_report \<Rightarrow> validation_report" where
  "validation_check_device_command_group_step_static cmds step_index r =
     (if cmds = [] then validation_add_issue VALIDATION_ERROR step_index ''DEVICE_COMMAND_GROUP_EMPTY''
        ''DEVICE_COMMAND_GROUP has no commands'' r
      else if length cmds > ROOM_SCENARIO_COMMAND_GROUP_MAX_COMMANDS
      then validation_add_issue VALIDATION_ERROR step_index ''DEVICE_COMMAND_GROUP_LIMIT''
        ''DEVICE_COMMAND_GROUP has too many commands'' r
      else fold (\<lambda>(i, c). validation_check_device_command_payload_static (copied_command c) step_index
             (quest_str_copy 32 (''GROUP_COMMAND_'' @ c_decimal (int i + 1)))) (enumerate 0 cmds) r)"

definition validation_check_wait_device_event_payload_static ::
  "wait_device_event \<Rightarrow> u16 \<Rightarrow> string \<Rightarrow> validation_report \<Rightarrow> validation_report" where
  "validation_check_wait_device_event_payload_static wait step_index step_name r =
     (let name = (if step_name \<noteq> [] then step_name else ''WAIT_DEVICE_EVENT'') in
      if wde_device_id wait = [] then empty_field_issue name '' has empty device_id'' ''DEVICE_ID_EMPTY'' step_index r
      else if wde_event_id wait = []
      then empty_field_issue name '' has empty event_id'' ''DEVICE_EVENT_ID_EMPTY'' step_index r
      else r)"

text \<open>The checks of the two waits for several events differ in the names they print.\<close>

definition check_event_group ::
  "string \<Rightarrow> string \<Rightarrow> wait_device_event list \<Rightarrow> u16 \<Rightarrow> validation_report \<Rightarrow> validation_report" where
  "check_event_group kind place es step_index r =
     (if es = [] then validation_add_issue VALIDATION_ERROR step_index (kind @ ''_EMPTY'') (kind @ '' has no events'') r
      else if length es > ROOM_SCENARIO_WAIT_EVENT_GROUP_MAX_EVENTS
      then validation_add_issue VALIDATION_ERROR step_index (kind @ ''_LIMIT'') (kind @ '' has too many events'') r
      else fold (\<lambda>(i, e). validation_check_wait_device_event_payload_static e step_index
             (quest_str_copy 40 (place @ c_decimal (int i + 1)))) (enumerate 0 es) r)"

definition validation_check_wait_any_device_event_step_static ::
  "wait_event_group \<Rightarrow> u16 \<Rightarrow> validation_report \<Rightarrow> validation_report" where
  "validation_check_wait_any_device_event_step_static w =
     check_event_group ''WAIT_ANY_DEVICE_EVENT'' ''WAIT_ANY_EVENT_'' (weg_events w)"

definition validation_check_wait_all_device_events_step_static ::
  "wait_event_group \<Rightarrow> u16 \<Rightarrow> validation_report \<Rightarrow> validation_report" where
  "validation_check_wait_all_device_events_step_static w =
     check_event_group ''WAIT_ALL_DEVICE_EVENTS'' ''WAIT_ALL_EVENT_'' (weg_events w)"

definition check_wait_flags :: "wait_flags_spec \<Rightarrow> u16 \<Rightarrow> validation_report \<Rightarrow> validation_report" where
  "check_wait_flags w step_index r =
     (if wf_flags w = [] then validation_add_issue VALIDATION_ERROR step_index ''WAIT_FLAGS_EMPTY''
        ''WAIT_FLAGS has no flags'' r
      else if length (wf_flags w) > ROOM_SCENARIO_WAIT_FLAGS_MAX_FLAGS
      then validation_add_issue VALIDATION_ERROR step_index ''WAIT_FLAGS_LIMIT'' ''WAIT_FLAGS has too many flags'' r
      else if list_ex (\<lambda>f. fl_name f = []) (wf_flags w)
      then validation_add_issue VALIDATION_ERROR step_index ''FLAG_NAME_EMPTY'' ''WAIT_FLAGS has empty flag name'' r
      else r)"

definition error_if :: "bool \<Rightarrow> u16 \<Rightarrow> string \<Rightarrow> string \<Rightarrow> validation_report \<Rightarrow> validation_report" where
  "error_if b step_index code message r =
     (if b then validation_add_issue VALIDATION_ERROR step_index code message r else r)"

definition check_step_data :: "step_data \<Rightarrow> u16 \<Rightarrow> validation_report \<Rightarrow> validation_report" where
  "check_step_data d step_index =
     (case d of
        STEP_WAIT_TIME w \<Rightarrow> error_if (wt_duration_ms w = 0) step_index ''WAIT_TIME_ZERO''
          ''WAIT_TIME duration_ms must be greater than zero''
      | STEP_OPERATOR_APPROVAL prompt _ \<Rightarrow> error_if (prompt = []) step_index ''OPERATOR_PROMPT_EMPTY''
          ''OPERATOR_APPROVAL prompt is empty''
      | STEP_DEVICE_COMMAND cmd \<Rightarrow> validation_check_device_command_payload_static cmd step_index ''DEVICE_COMMAND''
      | STEP_WAIT_DEVICE_EVENT w \<Rightarrow>
          validation_check_wait_device_event_payload_static w step_index ''WAIT_DEVICE_EVENT''
      | STEP_DEVICE_COMMAND_GROUP cmds \<Rightarrow> validation_check_device_command_group_step_static cmds step_index
      | STEP_SHOW_OPERATOR_MESSAGE m \<Rightarrow> error_if (m = []) step_index ''OPERATOR_MESSAGE_EMPTY''
          ''SHOW_OPERATOR_MESSAGE message is empty''
      | STEP_SET_FLAG f \<Rightarrow> error_if (fl_name f = []) step_index ''FLAG_NAME_EMPTY'' ''SET_FLAG name is empty''
      | STEP_WAIT_FLAGS w \<Rightarrow> check_wait_flags w step_index
      | STEP_WAIT_ANY_DEVICE_EVENT w \<Rightarrow> validation_check_wait_any_device_event_step_static w step_index
      | STEP_WAIT_ALL_DEVICE_EVENTS w \<Rightarrow> validation_check_wait_all_device_events_step_static w step_index
      | _ \<Rightarrow> id)"

definition duplicate_step :: "room_scenario \<Rightarrow> nat \<Rightarrow> bool" where
  "duplicate_step sc i \<longleftrightarrow> st_id (sc_steps sc ! i) \<noteq> [] \<and> list_ex (same_step_id sc i) [i + 1 ..< length (sc_steps sc)]"

definition check_step :: "room_scenario \<Rightarrow> nat \<Rightarrow> validation_report \<Rightarrow> validation_report" where
  "check_step sc i =
     (let step = sc_steps sc ! i; step_index = of_nat i in
      check_step_data (st_data step) step_index \<circ>
      error_if (duplicate_step sc i) step_index ''STEP_ID_DUPLICATE''
        (quest_str_copy ROOM_SCENARIO_VALIDATION_MESSAGE_MAX_LEN
          (''Step id '' @ [CHR 0x27] @ st_id step @ [CHR 0x27] @ '' is duplicated'')) \<circ>
      error_if (st_id step = []) step_index ''STEP_ID_EMPTY'' ''Step id is empty'')"

section \<open>Checks of the reactive branches\<close>

definition reactive_error_if ::
  "bool \<Rightarrow> scenario_branch \<Rightarrow> int \<Rightarrow> int \<Rightarrow> string \<Rightarrow> string \<Rightarrow> validation_report \<Rightarrow> validation_report" where
  "reactive_error_if c b variant_index action_index code message r =
     (if c then validation_add_reactive_issue VALIDATION_ERROR b variant_index action_index (br_step_start_index b)
        code message r else r)"

text \<open>The issues after the first \<open>n\<close> that have no branch yet are given their place.\<close>

definition place_new_issues ::
  "nat \<Rightarrow> scenario_branch \<Rightarrow> int \<Rightarrow> int \<Rightarrow> validation_report \<Rightarrow> validation_report" where
  "place_new_issues n b variant_index action_index r =
     r\<lparr>vr_issues := take n (vr_issues r) @
       map (\<lambda>i. if vi_branch_id i \<noteq> [] then i else place_issue b variant_index action_index i)
         (drop n (vr_issues r))\<rparr>"

definition check_action_data ::
  "room_scenario \<Rightarrow> reactive_action \<Rightarrow> scenario_branch \<Rightarrow> int \<Rightarrow> int \<Rightarrow> validation_report \<Rightarrow> validation_report" where
  "check_action_data sc a b vi ai =
     (case ra_data a of
        STEP_DEVICE_COMMAND cmd \<Rightarrow>
          validation_check_device_command_payload_static cmd (br_step_start_index b) ''REACTIVE_DEVICE_COMMAND''
      | STEP_DEVICE_COMMAND_GROUP _ \<Rightarrow>
          fold (\<lambda>c. validation_check_device_command_payload_static c (br_step_start_index b) ''REACTIVE_GROUP_COMMAND'')
            (action_group sc a)
      | STEP_WAIT_TIME w \<Rightarrow> reactive_error_if (wt_duration_ms w = 0) b vi ai ''REACTIVE_WAIT_TIME_ZERO''
          ''Reactive WAIT_TIME duration_ms must be greater than zero''
      | STEP_SET_FLAG f \<Rightarrow> reactive_error_if (fl_name f = []) b vi ai ''REACTIVE_FLAG_NAME_EMPTY''
          ''Reactive SET_FLAG has empty flag name''
      | STEP_SHOW_OPERATOR_MESSAGE m \<Rightarrow> reactive_error_if (m = []) b vi ai ''REACTIVE_OPERATOR_MESSAGE_EMPTY''
          ''Reactive SHOW_OPERATOR_MESSAGE message is empty''
      | STEP_FAIL_REACTION \<Rightarrow> id
      | STEP_RESET_REACTION \<Rightarrow> id
      | _ \<Rightarrow> reactive_error_if True b vi ai ''REACTIVE_ACTION_TYPE_UNSUPPORTED''
          ''Reactive action type is not allowed in v2'')"

definition is_group :: "step_data \<Rightarrow> bool" where
  "is_group d = (case d of STEP_DEVICE_COMMAND_GROUP _ \<Rightarrow> True | _ \<Rightarrow> False)"

definition validation_check_reactive_action_v2_static ::
  "room_scenario \<Rightarrow> reactive_action \<Rightarrow> scenario_branch \<Rightarrow> int \<Rightarrow> int \<Rightarrow> validation_report \<Rightarrow> validation_report" where
  "validation_check_reactive_action_v2_static sc a b vi ai r =
     (if is_group (ra_data a) \<and> \<not> group_range_ok sc a
      then reactive_error_if True b vi ai ''REACTIVE_GROUP_COMMAND_RANGE_INVALID''
             ''Reactive DEVICE_COMMAND_GROUP command range is invalid'' r
      else place_new_issues (length (vr_issues r)) b vi ai (check_action_data sc a b vi ai r))"

definition check_variant ::
  "room_scenario \<Rightarrow> scenario_branch \<Rightarrow> nat \<times> reactive_variant \<Rightarrow> validation_report \<Rightarrow> validation_report" where
  "check_variant sc b = (\<lambda>(i, v) r.
     let r1 = reactive_error_if (rv_id v = []) b (int i) (- 1) ''REACTIVE_VARIANT_ID_EMPTY''
                ''Reactive variant id is empty'' r
     in if \<not> actions_ok sc v
        then reactive_error_if True b (int i) (- 1) ''REACTIVE_VARIANT_ACTIONS_INVALID''
               ''Reactive variant must have at least one valid action'' r1
        else fold (\<lambda>(ai, a). validation_check_reactive_action_v2_static sc a b (int i) (int ai))
               (enumerate 0 (variant_actions sc v)) r1)"

definition check_complete_action ::
  "room_scenario \<Rightarrow> scenario_branch \<Rightarrow> nat \<times> reactive_action \<Rightarrow> validation_report \<Rightarrow> validation_report" where
  "check_complete_action sc b = (\<lambda>(i, a) r.
     if room_scenario_is_reactive_control_action_type (ra_data a)
     then reactive_error_if True b (- 1) (int i) ''REACTIVE_ON_COMPLETE_CONTROL_UNSUPPORTED''
            ''Reactive on_complete does not support FAIL_REACTION or RESET_REACTION'' r
     else validation_check_reactive_action_v2_static sc a b (- 1) (int i) r)"

definition validation_check_reactive_branch_v2_static ::
  "room_scenario \<Rightarrow> scenario_branch \<Rightarrow> validation_report \<Rightarrow> validation_report" where
  "validation_check_reactive_branch_v2_static sc b r =
     (let r1 = reactive_error_if (\<not> room_scenario_valid_reactive_trigger (br_trigger b)) b (- 1) (- 1)
                 ''REACTIVE_TRIGGER_INVALID'' ''Reactive v2 branch has invalid trigger'' r in
      if \<not> variants_ok sc b
      then reactive_error_if True b (- 1) (- 1) ''REACTIVE_VARIANTS_INVALID''
             ''Reactive v2 branch must have at least one valid variant'' r1
      else let r2 = fold (\<lambda>f. reactive_error_if (fl_name f = []) b (- 1) (- 1) ''REACTIVE_GUARD_FLAG_EMPTY''
                      ''Reactive guard flag name is empty'') (br_guard_flags b) r1;
               r3 = fold (check_variant sc b) (enumerate 0 (branch_variants sc b)) r2
        in if \<not> complete_ok sc b
           then reactive_error_if True b (- 1) (- 1) ''REACTIVE_ON_COMPLETE_RANGE_INVALID''
                  ''Reactive on_complete action range is invalid'' r3
           else fold (check_complete_action sc b) (enumerate 0 (complete_actions sc b)) r3)"

section \<open>The static report\<close>

definition duplicate_branch :: "room_scenario \<Rightarrow> nat \<Rightarrow> bool" where
  "duplicate_branch sc i \<longleftrightarrow> br_id (sc_branches sc ! i) \<noteq> [] \<and>
     list_ex (\<lambda>j. br_id (sc_branches sc ! i) = br_id (sc_branches sc ! j)) [i + 1 ..< length (sc_branches sc)]"

definition check_reactive_branch :: "room_scenario \<Rightarrow> scenario_branch \<Rightarrow> validation_report \<Rightarrow> validation_report" where
  "check_reactive_branch sc b r =
     (let si = br_step_start_index b;
          r1 = (if br_required_for_completion b
                then validation_add_issue VALIDATION_WARNING si ''REACTIVE_BRANCH_REQUIRED_IGNORED''
                       ''Reactive branch is ignored for scenario completion'' r
                else r)
      in if uses_v2 b then validation_check_reactive_branch_v2_static sc b r1
         else case room_scenario_branch_first_step sc b of
           None \<Rightarrow> validation_add_issue VALIDATION_ERROR si ''REACTIVE_BRANCH_EMPTY''
             ''Reactive branch must start with a wait/listen step'' r1
         | Some step \<Rightarrow>
             (if \<not> room_scenario_step_is_reactive_trigger (st_data step)
              then validation_add_issue VALIDATION_ERROR si ''REACTIVE_BRANCH_TRIGGER_REQUIRED''
                ''Reactive branch first enabled step must wait for a device event or flag'' r1
              else error_if (unguarded_flags b step) si ''REACTIVE_FLAGS_NEEDS_GUARD''
                ''Reactive branch triggered by flags must run once or have cooldown'' r1))"

definition check_branch :: "room_scenario \<Rightarrow> nat \<Rightarrow> validation_report \<Rightarrow> validation_report" where
  "check_branch sc i =
     (let b = sc_branches sc ! i; si = br_step_start_index b in
      (if br_type b = ROOM_SCENARIO_BRANCH_REACTIVE then check_reactive_branch sc b else id) \<circ>
      error_if (branch_end b > length (sc_steps sc)) si ''BRANCH_STEP_RANGE_INVALID''
        ''Branch step range is outside scenario steps'' \<circ>
      error_if (duplicate_branch sc i) si ''BRANCH_ID_DUPLICATE'' ''Branch id is duplicated'' \<circ>
      error_if (br_name b = []) si ''BRANCH_NAME_EMPTY'' ''Branch name is empty'' \<circ>
      error_if (br_id b = []) si ''BRANCH_ID_EMPTY'' ''Branch id is empty'')"

definition check_header :: "room_scenario \<Rightarrow> validation_report \<Rightarrow> validation_report" where
  "check_header sc =
     error_if (sc_name sc = []) 0 ''SCENARIO_NAME_EMPTY'' ''Scenario name is empty'' \<circ>
     error_if (sc_room_id sc = []) 0 ''ROOM_ID_EMPTY'' ''Scenario room_id is empty'' \<circ>
     error_if (sc_id sc = []) 0 ''SCENARIO_ID_EMPTY'' ''Scenario id is empty''"

definition room_scenario_validate_static_report :: "room_scenario \<Rightarrow> validation_report \<Rightarrow> validation_report" where
  "room_scenario_validate_static_report sc r =
     (let r1 = check_header sc r in
      if length (sc_steps sc) > ROOM_SCENARIO_MAX_STEPS
      then validation_add_issue VALIDATION_ERROR (of_nat ROOM_SCENARIO_MAX_STEPS) ''STEP_COUNT_LIMIT''
             ''Scenario step_count exceeds limit'' r1
      else if length (sc_branches sc) > ROOM_SCENARIO_MAX_BRANCHES
      then validation_add_issue VALIDATION_ERROR 0 ''BRANCH_COUNT_LIMIT'' ''Scenario branch_count exceeds limit'' r1
      else fold (check_step sc) [0 ..< length (sc_steps sc)]
             (fold (check_branch sc) [0 ..< length (sc_branches sc)] r1))"

section \<open>The runtime report\<close>

text \<open>The runtime checks of commands and waits are empty in the source.\<close>

definition validation_check_reactive_action_v2_runtime ::
  "reactive_action \<Rightarrow> scenario_branch \<Rightarrow> int \<Rightarrow> int \<Rightarrow> validation_report \<Rightarrow> validation_report" where
  "validation_check_reactive_action_v2_runtime a b vi ai r =
     (if is_group (ra_data a) \<and> ra_group_mode a = COMMAND_GROUP_PARALLEL
      then validation_add_reactive_issue VALIDATION_WARNING b vi ai (br_step_start_index b)
             ''REACTIVE_GROUP_PARALLEL_UNSUPPORTED''
             ''Reactive DEVICE_COMMAND_GROUP parallel mode is reserved for future runtime support'' r
      else r)"

definition validation_check_reactive_branch_v2_runtime ::
  "room_scenario \<Rightarrow> scenario_branch \<Rightarrow> validation_report \<Rightarrow> validation_report" where
  "validation_check_reactive_branch_v2_runtime sc b r =
     (let r1 = fold (\<lambda>(i, v). fold (\<lambda>(ai, a). validation_check_reactive_action_v2_runtime a b (int i) (int ai))
                 (enumerate 0 (variant_actions sc v))) (enumerate 0 (branch_variants sc b)) r
      in if br_reentry_mode b = ROOM_SCENARIO_REENTRY_RESTART \<or> br_reentry_mode b = ROOM_SCENARIO_REENTRY_PARALLEL
         then validation_add_reactive_issue VALIDATION_WARNING b (- 1) (- 1) (br_step_start_index b)
                ''REACTIVE_REENTRY_UNSUPPORTED''
                ''Reactive branch reentry mode is reserved for future runtime support'' r1
         else r1)"

definition room_scenario_validate_runtime_report :: "room_scenario \<Rightarrow> validation_report \<Rightarrow> validation_report" where
  "room_scenario_validate_runtime_report sc =
     fold (validation_check_reactive_branch_v2_runtime sc)
       (filter (\<lambda>b. br_type b = ROOM_SCENARIO_BRANCH_REACTIVE \<and> uses_v2 b) (sc_branches sc))"

definition room_scenario_validate_static :: "room_scenario \<Rightarrow> validation_report" where
  "room_scenario_validate_static sc = room_scenario_validate_static_report sc validation_report_init"

definition room_scenario_validate_runtime :: "room_scenario \<Rightarrow> validation_report" where
  "room_scenario_validate_runtime sc = room_scenario_validate_runtime_report sc validation_report_init"

definition room_scenario_validate :: "room_scenario \<Rightarrow> validation_report" where
  "room_scenario_validate sc =
     (let r = room_scenario_validate_static sc in
      if \<not> vr_valid r then r else room_scenario_validate_runtime_report sc r)"

end
