(* ===== verification/Scenario_Prepare.thy ===== *)
theory Scenario_Prepare
  imports Gm_Demo Quest_Device
begin

text \<open>
  Preparing a scenario for a game (\<open>scenehub_control/scenehub_control.c\<close>): every reference to a
  device event in a step, a reaction or a trigger is looked up in the device catalogue, and the
  results are collected in a table without duplicates to which the scenario's places refer by
  index.  The game core reads only this table while it runs.  \<open>compact_event\<close> is the lookup in a
  compact device manifest, an argument as in the catalogue.
\<close>

section \<open>The program\<close>

definition scenehub_control_resolve_device_event_ref ::
  "(string \<Rightarrow> string \<Rightarrow> esp_err + quest_device_event) \<Rightarrow> quest_devices \<Rightarrow> wait_device_event \<Rightarrow> bool \<Rightarrow>
   esp_err + wait_event_match \<times> string" where
  "scenehub_control_resolve_device_event_ref compact_event q ref require_enabled_device =
     (if wde_device_id ref = [] \<or> wde_event_id ref = [] then Inl ESP_ERR_INVALID_ARG
      else case quest_device_get (wde_device_id ref) q of
        Inl err \<Rightarrow> Inl err
      | Inr device \<Rightarrow>
          if require_enabled_device \<and> \<not> qd_enabled device then Inl ESP_ERR_INVALID_STATE
          else case quest_device_get_event compact_event (wde_device_id ref) (wde_event_id ref) q of
            Inl err \<Rightarrow> Inl err
          | Inr e \<Rightarrow> Inr (\<lparr>
              wm_device_id = quest_str_copy ROOM_SCENARIO_DEVICE_ID_MAX_LEN (wde_device_id ref),
              wm_event_id = quest_str_copy ROOM_SCENARIO_DEVICE_EVENT_ID_MAX_LEN (wde_event_id ref),
              wm_event_type = quest_str_copy ROOM_SCENARIO_EVENT_TYPE_MAX_LEN
                (if qe_event e \<noteq> [] then qe_event e else qe_id e),
              wm_source_id = (if wde_device_id ref = QUEST_DEVICE_SYSTEM_AUDIO_ID then []
                else quest_str_copy ROOM_SCENARIO_EVENT_SOURCE_ID_MAX_LEN (qd_client_id device)),
              wm_match_json = quest_str_copy QUEST_PAYLOAD_MAX_LEN (qe_match_json e)\<rparr>,
              if qe_event e \<noteq> [] \<and> qe_event e \<noteq> qe_id e
              then quest_str_copy ROOM_SCENARIO_EVENT_TYPE_MAX_LEN (qe_id e) else []))"

definition same_ref :: "wait_device_event \<Rightarrow> prepared_event_ref \<Rightarrow> bool" where
  "same_ref ref p \<longleftrightarrow> wm_device_id (pr_match p) = wde_device_id ref \<and> wm_event_id (pr_match p) = wde_event_id ref"

definition scenehub_control_prepare_event_ref ::
  "(wait_device_event \<Rightarrow> bool \<Rightarrow> esp_err + wait_event_match \<times> string) \<Rightarrow> wait_device_event \<Rightarrow> bool \<Rightarrow>
   prepared_event_ref list \<Rightarrow> esp_err + u16 \<times> prepared_event_ref list" where
  "scenehub_control_prepare_event_ref resolve ref require_enabled_device refs =
     (if wde_device_id ref = [] \<or> wde_event_id ref = [] then Inl ESP_ERR_INVALID_ARG
      else case find_index (same_ref ref) refs of
        Some i \<Rightarrow>
          (if require_enabled_device \<and> \<not> pr_enabled_device_validated (refs ! i)
           then case resolve ref True of
             Inl err \<Rightarrow> Inl err
           | Inr (m, alt) \<Rightarrow> Inr (of_nat i, refs[i := \<lparr>pr_match = m, pr_alternate_event_type = alt,
                                          pr_enabled_device_validated = True\<rparr>])
           else Inr (of_nat i, refs))
      | None \<Rightarrow>
          (if length refs \<ge> GM_ROOM_SESSION_PREPARED_EVENT_REF_MAX then Inl ESP_ERR_NO_MEM
           else case resolve ref require_enabled_device of
             Inl err \<Rightarrow> Inl err
           | Inr (m, alt) \<Rightarrow> Inr (of_nat (length refs), refs @ [\<lparr>pr_match = m,
               pr_alternate_event_type = alt, pr_enabled_device_validated = require_enabled_device\<rparr>])))"

fun prepare_event_refs ::
  "(wait_device_event \<Rightarrow> bool \<Rightarrow> esp_err + wait_event_match \<times> string) \<Rightarrow> bool \<Rightarrow> wait_device_event list \<Rightarrow>
   prepared_event_ref list \<Rightarrow> esp_err + u16 list \<times> prepared_event_ref list" where
  "prepare_event_refs resolve req [] refs = Inr ([], refs)"
| "prepare_event_refs resolve req (e # es) refs =
     (case scenehub_control_prepare_event_ref resolve e req refs of
        Inl err \<Rightarrow> Inl err
      | Inr (i, refs1) \<Rightarrow>
          (case prepare_event_refs resolve req es refs1 of
             Inl err \<Rightarrow> Inl err | Inr (is, refs2) \<Rightarrow> Inr (i # is, refs2)))"

definition no_event_resolution :: prepared_event_resolution where
  "no_event_resolution = \<lparr>pe_present = False, pe_event_ref_indices = []\<rparr>"

definition scenehub_control_prepare_event_resolution ::
  "(wait_device_event \<Rightarrow> bool \<Rightarrow> esp_err + wait_event_match \<times> string) \<Rightarrow> wait_device_event list \<Rightarrow> bool \<Rightarrow>
   prepared_event_ref list \<Rightarrow> esp_err + prepared_event_resolution \<times> prepared_event_ref list" where
  "scenehub_control_prepare_event_resolution resolve events require_enabled_device refs =
     (if events = [] \<or> length events > ROOM_SCENARIO_WAIT_EVENT_GROUP_MAX_EVENTS then Inl ESP_ERR_INVALID_ARG
      else case prepare_event_refs resolve require_enabled_device events refs of
        Inl err \<Rightarrow> Inl err
      | Inr (is, refs1) \<Rightarrow> Inr (\<lparr>pe_present = True, pe_event_ref_indices = is\<rparr>, refs1))"

text \<open>The events a step or action waits for; \<open>None\<close> when it does not wait for device events.\<close>

definition wait_events_of :: "step_data \<Rightarrow> wait_device_event list option" where
  "wait_events_of d = (case d of
     STEP_WAIT_DEVICE_EVENT w \<Rightarrow> Some [w]
   | STEP_WAIT_ANY_DEVICE_EVENT g \<Rightarrow> Some (weg_events g)
   | STEP_WAIT_ALL_DEVICE_EVENTS g \<Rightarrow> Some (weg_events g)
   | _ \<Rightarrow> None)"

definition scenehub_control_prepare_wait ::
  "(wait_device_event \<Rightarrow> bool \<Rightarrow> esp_err + wait_event_match \<times> string) \<Rightarrow> step_data \<Rightarrow>
   prepared_event_ref list \<Rightarrow> esp_err + prepared_event_resolution \<times> prepared_event_ref list" where
  "scenehub_control_prepare_wait resolve d refs =
     (case wait_events_of d of
        None \<Rightarrow> Inr (no_event_resolution, refs)
      | Some es \<Rightarrow> scenehub_control_prepare_event_resolution resolve es True refs)"

text \<open>The events of a trigger; the reference of a single-event trigger is copied.\<close>

definition trigger_events_of :: "reactive_trigger \<Rightarrow> wait_device_event list option" where
  "trigger_events_of t = (case tr_kind t of
     REACTIVE_TRIGGER_DEVICE_EVENT \<Rightarrow> Some [\<lparr>
       wde_device_id = quest_str_copy ROOM_SCENARIO_DEVICE_ID_MAX_LEN (tr_device_id t),
       wde_event_id = quest_str_copy ROOM_SCENARIO_DEVICE_EVENT_ID_MAX_LEN (tr_event_id t),
       wde_timeout_ms = 0, wde_timeout_action = WAIT_TIMEOUT_CONTINUE, wde_timeout_message = []\<rparr>]
   | REACTIVE_TRIGGER_ANY_DEVICE_EVENTS \<Rightarrow> Some (tr_events t)
   | REACTIVE_TRIGGER_ALL_DEVICE_EVENTS \<Rightarrow> Some (tr_events t)
   | _ \<Rightarrow> None)"

definition scenehub_control_prepare_reactive_trigger ::
  "(wait_device_event \<Rightarrow> bool \<Rightarrow> esp_err + wait_event_match \<times> string) \<Rightarrow> reactive_trigger \<Rightarrow>
   prepared_event_ref list \<Rightarrow> esp_err + prepared_event_resolution \<times> prepared_event_ref list" where
  "scenehub_control_prepare_reactive_trigger resolve t refs =
     (case trigger_events_of t of
        None \<Rightarrow> Inr (no_event_resolution, refs)
      | Some es \<Rightarrow> scenehub_control_prepare_event_resolution resolve es False refs)"

text \<open>One of the loops over the places of a scenario: the table is threaded through.\<close>

fun prepare_all ::
  "('a \<Rightarrow> prepared_event_ref list \<Rightarrow> esp_err + prepared_event_resolution \<times> prepared_event_ref list) \<Rightarrow>
   'a list \<Rightarrow> prepared_event_ref list \<Rightarrow> esp_err + prepared_event_resolution list \<times> prepared_event_ref list" where
  "prepare_all f [] refs = Inr ([], refs)"
| "prepare_all f (x # xs) refs =
     (case f x refs of
        Inl err \<Rightarrow> Inl err
      | Inr (r, refs1) \<Rightarrow>
          (case prepare_all f xs refs1 of
             Inl err \<Rightarrow> Inl err | Inr (rs, refs2) \<Rightarrow> Inr (r # rs, refs2)))"

definition prepare_step ::
  "(wait_device_event \<Rightarrow> bool \<Rightarrow> esp_err + wait_event_match \<times> string) \<Rightarrow> scenario_step \<Rightarrow>
   prepared_event_ref list \<Rightarrow> esp_err + prepared_event_resolution \<times> prepared_event_ref list" where
  "prepare_step resolve step refs =
     (if \<not> st_enabled step then Inr (no_event_resolution, refs)
      else scenehub_control_prepare_wait resolve (st_data step) refs)"

definition scenehub_control_prepare_session_scenario ::
  "(string \<Rightarrow> string \<Rightarrow> esp_err + quest_device_event) \<Rightarrow> quest_devices \<Rightarrow> room_scenario \<Rightarrow>
   esp_err + prepared_scenario" where
  "scenehub_control_prepare_session_scenario compact_event q sc =
     (let resolve = scenehub_control_resolve_device_event_ref compact_event q in
      if length (sc_steps sc) > ROOM_SCENARIO_MAX_STEPS \<or>
         length (sc_reactive_actions sc) > ROOM_SCENARIO_MAX_REACTIVE_ACTIONS \<or>
         length (sc_branches sc) > ROOM_SCENARIO_MAX_BRANCHES
      then Inl ESP_ERR_INVALID_ARG
      else case prepare_all (prepare_step resolve) (sc_steps sc) [] of
        Inl err \<Rightarrow> Inl err
      | Inr (steps, refs1) \<Rightarrow>
          (case prepare_all (\<lambda>a. scenehub_control_prepare_wait resolve (ra_data a)) (sc_reactive_actions sc) refs1 of
             Inl err \<Rightarrow> Inl err
           | Inr (actions, refs2) \<Rightarrow>
               (case prepare_all (\<lambda>b. scenehub_control_prepare_reactive_trigger resolve (br_trigger b))
                       (sc_branches sc) refs2 of
                  Inl err \<Rightarrow> Inl err
                | Inr (triggers, refs3) \<Rightarrow> Inr \<lparr>ps_event_refs = refs3, ps_step_waits = steps,
                    ps_reactive_action_waits = actions, ps_reactive_triggers = triggers\<rparr>)))"

section \<open>What preparing guarantees\<close>

definition fits :: "wait_device_event \<Rightarrow> bool" where
  "fits e \<longleftrightarrow> length (wde_device_id e) < ROOM_SCENARIO_DEVICE_ID_MAX_LEN \<and>
     length (wde_event_id e) < ROOM_SCENARIO_DEVICE_EVENT_ID_MAX_LEN"

definition ref_key :: "prepared_event_ref \<Rightarrow> string \<times> string" where
  "ref_key p = (wm_device_id (pr_match p), wm_event_id (pr_match p))"

definition ref_value :: "prepared_event_ref \<Rightarrow> wait_event_match \<times> string" where
  "ref_value p = (pr_match p, pr_alternate_event_type p)"

lemma same_ref_key: "same_ref e p \<longleftrightarrow> ref_key p = (wde_device_id e, wde_event_id e)"
  by (simp add: same_ref_def ref_key_def)

text \<open>A table grows: no entry changes what it resolves to.\<close>

definition extends :: "prepared_event_ref list \<Rightarrow> prepared_event_ref list \<Rightarrow> bool" where
  "extends refs refs' \<longleftrightarrow> length refs \<le> length refs' \<and>
     (\<forall>i < length refs. ref_value (refs' ! i) = ref_value (refs ! i))"

lemma extends_refl [simp]: "extends refs refs" by (simp add: extends_def)

lemma extends_trans: "extends r1 r2 \<Longrightarrow> extends r2 r3 \<Longrightarrow> extends r1 r3"
  by (auto simp: extends_def)

text \<open>
  The contract of a resolver: it names what it was asked for, a stricter lookup that succeeds
  agrees with the lax one, and only the names of a reference matter.
\<close>

locale event_resolver =
  fixes resolve :: "wait_device_event \<Rightarrow> bool \<Rightarrow> esp_err + wait_event_match \<times> string"
  assumes resolve_names: "fits e \<Longrightarrow> resolve e req = Inr (m, alt) \<Longrightarrow>
      wm_device_id m = wde_device_id e \<and> wm_event_id m = wde_event_id e"
    and resolve_weaker: "resolve e True = Inr x \<Longrightarrow> resolve e False = Inr x"
    and resolve_by_name: "wde_device_id e = wde_device_id e' \<Longrightarrow> wde_event_id e = wde_event_id e' \<Longrightarrow>
      resolve e req = resolve e' req"
begin

definition table_ok :: "prepared_event_ref list \<Rightarrow> bool" where
  "table_ok refs \<longleftrightarrow> distinct (map ref_key refs) \<and> length refs \<le> GM_ROOM_SESSION_PREPARED_EVENT_REF_MAX \<and>
     (\<forall>p \<in> set refs. \<forall>e. same_ref e p \<longrightarrow> resolve e (pr_enabled_device_validated p) = Inr (ref_value p))"

definition place_ok :: "bool \<Rightarrow> prepared_event_ref list \<Rightarrow> wait_device_event list option \<Rightarrow>
    prepared_event_resolution \<Rightarrow> bool" where
  "place_ok req refs es r \<longleftrightarrow> (case es of
     None \<Rightarrow> \<not> pe_present r
   | Some es \<Rightarrow> pe_present r \<and> es \<noteq> [] \<and> length es \<le> ROOM_SCENARIO_WAIT_EVENT_GROUP_MAX_EVENTS \<and>
       list_all2 (\<lambda>e i. unat i < length refs \<and> resolve e req = Inr (ref_value (refs ! unat i)))
         es (pe_event_ref_indices r))"

lemma place_ok_extends: "place_ok req refs es r \<Longrightarrow> extends refs refs' \<Longrightarrow> place_ok req refs' es r"
  by (fastforce simp: place_ok_def extends_def split: option.splits elim: list.rel_mono_strong)

lemma index_fits: "length refs \<le> GM_ROOM_SESSION_PREPARED_EVENT_REF_MAX \<Longrightarrow> i < length refs \<Longrightarrow>
    unat (of_nat i :: u16) = i"
  by (simp add: unat_of_nat GM_ROOM_SESSION_PREPARED_EVENT_REF_MAX_def limit_defs)

lemma entry_weaker: "table_ok refs \<Longrightarrow> p \<in> set refs \<Longrightarrow> same_ref e p \<Longrightarrow>
    req \<longrightarrow> pr_enabled_device_validated p \<Longrightarrow> resolve e req = Inr (ref_value p)"
  by (cases req; cases "pr_enabled_device_validated p") (auto simp: table_ok_def resolve_weaker)

lemma prepare_new:
  assumes "table_ok refs" and "fits e" and "find_index (same_ref e) refs = None"
    and "resolve e req = Inr (m, alt)" and "length refs < GM_ROOM_SESSION_PREPARED_EVENT_REF_MAX"
  defines "p \<equiv> \<lparr>pr_match = m, pr_alternate_event_type = alt, pr_enabled_device_validated = req\<rparr>"
  shows "table_ok (refs @ [p]) \<and> extends refs (refs @ [p])"
proof -
  have key: "ref_key p = (wde_device_id e, wde_event_id e)"
    using resolve_names [OF assms(2,4)] by (simp add: p_def ref_key_def)
  have "ref_key p \<notin> ref_key ` set refs"
    using find_index_NoneD [OF assms(3)] key by (fastforce simp: same_ref_key)
  moreover have "resolve e' req = Inr (ref_value p)" if "same_ref e' p" for e'
    using that key assms(4) resolve_by_name [of e' e req] by (simp add: same_ref_key p_def ref_value_def)
  ultimately show ?thesis
    using assms(1,5) by (auto simp: table_ok_def extends_def nth_append p_def)
qed

lemma prepare_again:
  assumes ok: "table_ok refs" and i: "i < length refs" "same_ref e (refs ! i)"
    and r: "resolve e True = Inr (m, alt)" and e: "fits e"
  defines "p \<equiv> \<lparr>pr_match = m, pr_alternate_event_type = alt, pr_enabled_device_validated = True\<rparr>"
  shows "table_ok (refs[i := p]) \<and> extends refs (refs[i := p])"
proof -
  have "resolve e (pr_enabled_device_validated (refs ! i)) = Inr (ref_value (refs ! i))"
    using ok i by (simp add: table_ok_def)
  then have v: "ref_value p = ref_value (refs ! i)"
    using resolve_weaker [OF r] r by (cases "pr_enabled_device_validated (refs ! i)") (simp_all add: p_def ref_value_def)
  then have k: "ref_key p = ref_key (refs ! i)" by (simp add: ref_value_def ref_key_def)
  then have keys: "map ref_key (refs[i := p]) = map ref_key refs" using i by (simp add: map_update list_update_same_conv)
  have "resolve e' True = Inr (ref_value p)" if "same_ref e' p" for e'
    using that i r k resolve_by_name [of e' e True] by (simp add: same_ref_key p_def ref_value_def)
  moreover have "p' \<in> set refs \<or> p' = p" if "p' \<in> set (refs[i := p])" for p'
    using that set_update_subset_insert [of refs i p] by auto
  moreover have "pr_enabled_device_validated p" by (simp add: p_def)
  moreover have "\<forall>p' \<in> set refs. \<forall>e'. same_ref e' p' \<longrightarrow>
      resolve e' (pr_enabled_device_validated p') = Inr (ref_value p')"
    using ok by (simp add: table_ok_def)
  ultimately have "\<forall>p' \<in> set (refs[i := p]). \<forall>e'. same_ref e' p' \<longrightarrow>
      resolve e' (pr_enabled_device_validated p') = Inr (ref_value p')"
    by metis
  then show ?thesis using ok keys v i by (auto simp: table_ok_def extends_def nth_list_update)
qed

lemma prepare_event_ref_ok:
  assumes "scenehub_control_prepare_event_ref resolve e req refs = Inr (i, refs')"
    and "table_ok refs" and "fits e"
  shows "table_ok refs' \<and> extends refs refs' \<and> unat i < length refs' \<and>
    resolve e req = Inr (ref_value (refs' ! unat i))"
proof (cases "find_index (same_ref e) refs")
  case None
  then obtain m alt where r: "resolve e req = Inr (m, alt)" and l: "length refs < GM_ROOM_SESSION_PREPARED_EVENT_REF_MAX"
    and i: "i = of_nat (length refs)" "refs' = refs @ [\<lparr>pr_match = m, pr_alternate_event_type = alt,
      pr_enabled_device_validated = req\<rparr>]"
    using assms(1) by (auto simp: scenehub_control_prepare_event_ref_def split: if_splits sum.splits)
  note new = prepare_new [OF assms(2,3) None r l, folded i(2)]
  have "unat i = length refs"
    using index_fits [of refs' "length refs"] new i by (simp add: table_ok_def)
  with new r i show ?thesis by (simp add: ref_value_def)
next
  case (Some j)
  note j = find_index_SomeD [OF Some]
  have uj: "unat (of_nat j :: u16) = j" using j index_fits [of refs j] assms(2) by (simp add: table_ok_def)
  show ?thesis
  proof (cases "req \<and> \<not> pr_enabled_device_validated (refs ! j)")
    case True
    then obtain m alt where r: "resolve e True = Inr (m, alt)"
      and i: "i = of_nat j" "refs' = refs[j := \<lparr>pr_match = m, pr_alternate_event_type = alt,
        pr_enabled_device_validated = True\<rparr>]"
      using assms(1) Some by (auto simp: scenehub_control_prepare_event_ref_def split: if_splits sum.splits)
    show ?thesis
      using prepare_again [OF assms(2) _ _ r assms(3)] j i uj r True by (simp add: ref_value_def)
  next
    case False
    then have "i = of_nat j" "refs' = refs"
      using assms(1) Some by (auto simp: scenehub_control_prepare_event_ref_def split: if_splits)
    with False assms(2) j uj entry_weaker [of refs "refs ! j" e req] show ?thesis by auto
  qed
qed

lemma prepare_event_refs_ok:
  "prepare_event_refs resolve req es refs = Inr (is, refs') \<Longrightarrow> table_ok refs \<Longrightarrow> \<forall>e \<in> set es. fits e \<Longrightarrow>
   table_ok refs' \<and> extends refs refs' \<and>
   list_all2 (\<lambda>e i. unat i < length refs' \<and> resolve e req = Inr (ref_value (refs' ! unat i))) es is"
proof (induction es arbitrary: refs "is")
  case (Cons e es)
  from Cons.prems(1) obtain i refs1 is1 where
    one: "scenehub_control_prepare_event_ref resolve e req refs = Inr (i, refs1)"
    and rest: "prepare_event_refs resolve req es refs1 = Inr (is1, refs')" and "is": "is = i # is1"
    by (auto split: sum.splits prod.splits)
  have "fits e" using Cons.prems(3) by simp
  note p = prepare_event_ref_ok [OF one Cons.prems(2) this]
  have q: "table_ok refs'" "extends refs1 refs'"
    "list_all2 (\<lambda>e i. unat i < length refs' \<and> resolve e req = Inr (ref_value (refs' ! unat i))) es is1"
    using Cons.IH [OF rest] p Cons.prems(3) by simp_all
  have "unat i < length refs'" "resolve e req = Inr (ref_value (refs' ! unat i))"
    using p q(2) by (auto simp: extends_def)
  then show ?case using p q "is" extends_trans [of refs refs1 refs'] by simp
qed simp

lemma prepare_resolution_ok:
  "scenehub_control_prepare_event_resolution resolve es req refs = Inr (r, refs') \<Longrightarrow> table_ok refs \<Longrightarrow>
   \<forall>e \<in> set es. fits e \<Longrightarrow> table_ok refs' \<and> extends refs refs' \<and> place_ok req refs' (Some es) r"
  using prepare_event_refs_ok [of req es refs]
  by (auto simp: scenehub_control_prepare_event_resolution_def place_ok_def split: if_splits sum.splits)

lemma prepare_all_ok:
  assumes "prepare_all f xs refs = Inr (rs, refs')" and "table_ok refs"
    and "\<And>x r refs refs'. x \<in> set xs \<Longrightarrow> f x refs = Inr (r, refs') \<Longrightarrow> table_ok refs \<Longrightarrow>
      table_ok refs' \<and> extends refs refs' \<and> place_ok req refs' (es x) r"
  shows "table_ok refs' \<and> extends refs refs' \<and> list_all2 (\<lambda>x. place_ok req refs' (es x)) xs rs"
  using assms
proof (induction xs arbitrary: refs rs)
  case (Cons x xs)
  from Cons.prems(1) obtain r refs1 rs1 where one: "f x refs = Inr (r, refs1)"
    and rest: "prepare_all f xs refs1 = Inr (rs1, refs')" and rs: "rs = r # rs1"
    by (auto split: sum.splits prod.splits)
  have p: "table_ok refs1" "extends refs refs1" "place_ok req refs1 (es x) r"
    using Cons.prems(3) [OF _ one Cons.prems(2)] by simp_all
  have q: "table_ok refs' \<and> extends refs1 refs' \<and> list_all2 (\<lambda>x. place_ok req refs' (es x)) xs rs1"
    by (rule Cons.IH [OF rest p(1)]) (use Cons.prems(3) in auto)
  then show ?case using p rs extends_trans [of refs refs1 refs'] place_ok_extends [OF p(3)] by simp
qed simp

end

lemma resolve_lookup:
  "scenehub_control_resolve_device_event_ref compact_event q e req = Inr (m, alt) \<Longrightarrow>
   (\<exists>d. quest_device_get (wde_device_id e) q = Inr d \<and> (req \<longrightarrow> qd_enabled d)) \<and>
   wm_device_id m = quest_str_copy ROOM_SCENARIO_DEVICE_ID_MAX_LEN (wde_device_id e) \<and>
   wm_event_id m = quest_str_copy ROOM_SCENARIO_DEVICE_EVENT_ID_MAX_LEN (wde_event_id e)"
  by (auto simp: scenehub_control_resolve_device_event_ref_def split: if_splits sum.splits)

interpretation catalogue: event_resolver "scenehub_control_resolve_device_event_ref compact_event q"
proof unfold_locales
  fix e req m alt
  assume "fits e" "scenehub_control_resolve_device_event_ref compact_event q e req = Inr (m, alt)"
  then show "wm_device_id m = wde_device_id e \<and> wm_event_id m = wde_event_id e"
    using resolve_lookup [of compact_event q e req m alt] by (auto simp: fits_def quest_str_copy_def)
qed (auto simp: scenehub_control_resolve_device_event_ref_def split: if_splits sum.splits)

text \<open>The places of a scenario that refer to device events, with what they refer to.\<close>

definition step_events :: "scenario_step \<Rightarrow> wait_device_event list option" where
  "step_events step = (if st_enabled step then wait_events_of (st_data step) else None)"

definition refs_fit :: "wait_device_event list option \<Rightarrow> bool" where
  "refs_fit es = (case es of None \<Rightarrow> True | Some es \<Rightarrow> list_all fits es)"

definition scenario_refs_fit :: "room_scenario \<Rightarrow> bool" where
  "scenario_refs_fit sc \<longleftrightarrow> list_all (refs_fit \<circ> step_events) (sc_steps sc) \<and>
     list_all (\<lambda>a. refs_fit (wait_events_of (ra_data a))) (sc_reactive_actions sc) \<and>
     list_all (\<lambda>b. refs_fit (trigger_events_of (br_trigger b))) (sc_branches sc)"

lemma prepare_wait_ok:
  assumes "scenehub_control_prepare_wait (scenehub_control_resolve_device_event_ref ce q) d refs = Inr (r, refs')"
    and "catalogue.table_ok ce q refs" and "refs_fit (wait_events_of d)"
  shows "catalogue.table_ok ce q refs' \<and> extends refs refs' \<and>
    catalogue.place_ok ce q True refs' (wait_events_of d) r"
  using assms catalogue.prepare_resolution_ok [of ce q _ True refs r refs']
  by (auto simp: scenehub_control_prepare_wait_def refs_fit_def list_all_iff no_event_resolution_def
      catalogue.place_ok_def split: option.splits)

lemma prepare_step_ok:
  assumes "prepare_step (scenehub_control_resolve_device_event_ref ce q) step refs = Inr (r, refs')"
    and "catalogue.table_ok ce q refs" and "refs_fit (step_events step)"
  shows "catalogue.table_ok ce q refs' \<and> extends refs refs' \<and>
    catalogue.place_ok ce q True refs' (step_events step) r"
  using assms prepare_wait_ok [of ce q "st_data step" refs r refs']
  by (auto simp: prepare_step_def step_events_def no_event_resolution_def catalogue.place_ok_def split: if_splits)

lemma prepare_trigger_ok:
  assumes "scenehub_control_prepare_reactive_trigger (scenehub_control_resolve_device_event_ref ce q) t refs =
      Inr (r, refs')"
    and "catalogue.table_ok ce q refs" and "refs_fit (trigger_events_of t)"
  shows "catalogue.table_ok ce q refs' \<and> extends refs refs' \<and>
    catalogue.place_ok ce q False refs' (trigger_events_of t) r"
  using assms catalogue.prepare_resolution_ok [of ce q _ False refs r refs']
  by (auto simp: scenehub_control_prepare_reactive_trigger_def refs_fit_def list_all_iff no_event_resolution_def
      catalogue.place_ok_def split: option.splits)

lemma prepared_places:
  assumes "scenehub_control_prepare_session_scenario ce q sc = Inr ps" and "scenario_refs_fit sc"
  shows "catalogue.table_ok ce q (ps_event_refs ps) \<and>
    list_all2 (\<lambda>x. catalogue.place_ok ce q True (ps_event_refs ps) (step_events x)) (sc_steps sc) (ps_step_waits ps) \<and>
    list_all2 (\<lambda>x. catalogue.place_ok ce q True (ps_event_refs ps) (wait_events_of (ra_data x)))
      (sc_reactive_actions sc) (ps_reactive_action_waits ps) \<and>
    list_all2 (\<lambda>x. catalogue.place_ok ce q False (ps_event_refs ps) (trigger_events_of (br_trigger x)))
      (sc_branches sc) (ps_reactive_triggers ps)"
proof -
  let ?r = "scenehub_control_resolve_device_event_ref ce q"
  obtain r1 r2 where 1: "prepare_all (prepare_step ?r) (sc_steps sc) [] = Inr (ps_step_waits ps, r1)"
    and 2: "prepare_all (\<lambda>a. scenehub_control_prepare_wait ?r (ra_data a)) (sc_reactive_actions sc) r1 =
      Inr (ps_reactive_action_waits ps, r2)"
    and 3: "prepare_all (\<lambda>b. scenehub_control_prepare_reactive_trigger ?r (br_trigger b)) (sc_branches sc) r2 =
      Inr (ps_reactive_triggers ps, ps_event_refs ps)"
    using assms(1) by (auto simp: scenehub_control_prepare_session_scenario_def Let_def
        split: if_splits sum.splits)
  note fit = assms(2) [unfolded scenario_refs_fit_def list_all_iff comp_def]
  have "catalogue.table_ok ce q []" by (simp add: catalogue.table_ok_def)
  note a = catalogue.prepare_all_ok [OF 1 this, of True step_events, OF prepare_step_ok]
  note b = catalogue.prepare_all_ok [OF 2, of ce q True "\<lambda>x. wait_events_of (ra_data x)", OF _ prepare_wait_ok]
  note c = catalogue.prepare_all_ok [OF 3, of ce q False "\<lambda>x. trigger_events_of (br_trigger x)",
      OF _ prepare_trigger_ok]
  have 11: "catalogue.table_ok ce q r1 \<and> extends [] r1 \<and>
      list_all2 (\<lambda>x. catalogue.place_ok ce q True r1 (step_events x)) (sc_steps sc) (ps_step_waits ps)"
    by (rule a) (use fit in auto)
  have 22: "catalogue.table_ok ce q r2 \<and> extends r1 r2 \<and>
      list_all2 (\<lambda>x. catalogue.place_ok ce q True r2 (wait_events_of (ra_data x)))
        (sc_reactive_actions sc) (ps_reactive_action_waits ps)"
    by (rule b) (use fit 11 in auto)
  have 33: "catalogue.table_ok ce q (ps_event_refs ps) \<and> extends r2 (ps_event_refs ps) \<and>
      list_all2 (\<lambda>x. catalogue.place_ok ce q False (ps_event_refs ps) (trigger_events_of (br_trigger x)))
        (sc_branches sc) (ps_reactive_triggers ps)"
    by (rule c) (use fit 22 in auto)
  have "extends r1 (ps_event_refs ps)" using 22 33 extends_trans by blast
  with 11 22 33 show ?thesis
    by (auto elim!: list.rel_mono_strong intro: catalogue.place_ok_extends)
qed

text \<open>Reading a prepared place the way the running game does.\<close>

lemma place_expands:
  assumes "catalogue.place_ok ce q req (ps_event_refs ps) (Some es) r" and "catalogue.table_ok ce q (ps_event_refs ps)"
  shows "\<exists>ms. gm_room_session_expand_prepared_wait_resolution ps r = Inr \<lparr>wr_present = True, wr_matches = ms\<rparr> \<and>
    list_all2 (\<lambda>e m. \<exists>alt. scenehub_control_resolve_device_event_ref ce q e req = Inr (m, alt)) es ms"
proof -
  let ?is = "pe_event_ref_indices r"
  have all: "list_all2 (\<lambda>e i. unat i < length (ps_event_refs ps) \<and>
      scenehub_control_resolve_device_event_ref ce q e req = Inr (ref_value (ps_event_refs ps ! unat i))) es ?is"
    and len: "pe_present r" "es \<noteq> []" "length es \<le> ROOM_SCENARIO_WAIT_EVENT_GROUP_MAX_EVENTS"
    using assms(1) by (simp_all add: catalogue.place_ok_def)
  have "unat j < length (ps_event_refs ps)" if "j \<in> set ?is" for j
    using all that by (auto simp: list_all2_conv_all_nth in_set_conv_nth)
  moreover have "length (ps_event_refs ps) \<le> GM_ROOM_SESSION_PREPARED_EVENT_REF_MAX"
    using assms(2) by (simp add: catalogue.table_ok_def)
  ultimately have "\<not> (\<exists>j \<in> set ?is. unat j \<ge> length (ps_event_refs ps) \<or> unat j \<ge> GM_ROOM_SESSION_PREPARED_EVENT_REF_MAX)"
    by (meson leD le_less_trans less_le_trans not_less)
  moreover have "length ?is = length es" using all list_all2_lengthD by fastforce
  ultimately have "gm_room_session_expand_prepared_wait_resolution ps r =
      Inr \<lparr>wr_present = True, wr_matches = map (\<lambda>j. pr_match (ps_event_refs ps ! unat j)) ?is\<rparr>"
    using len by (auto simp: gm_room_session_expand_prepared_wait_resolution_def Let_def)
  moreover have "list_all2 (\<lambda>e m. \<exists>alt. scenehub_control_resolve_device_event_ref ce q e req = Inr (m, alt)) es
      (map (\<lambda>j. pr_match (ps_event_refs ps ! unat j)) ?is)"
    using all by (auto simp: list.rel_map ref_value_def elim!: list.rel_mono_strong)
  ultimately show ?thesis by blast
qed

section \<open>Properties\<close>

text \<open>
  C16: what a prepared scenario tells the game core is what the device catalogue says.  When a
  scenario whose names fit their fields is prepared, the table of event references has no
  duplicates and stays within its capacity, and for every enabled step that waits for device
  events the core's own reader finds, in the order of the step, exactly the match that resolving
  each reference against the catalogue yields, and every device it names exists and is enabled.
\<close>

theorem prepared_waits_match_catalogue:
  assumes "scenehub_control_prepare_session_scenario ce q sc = Inr ps" and "scenario_refs_fit sc"
    and "i < length (sc_steps sc)" and "st_enabled (sc_steps sc ! i)"
    and "wait_events_of (st_data (sc_steps sc ! i)) = Some es"
  shows "distinct (map ref_key (ps_event_refs ps)) \<and>
    length (ps_event_refs ps) \<le> GM_ROOM_SESSION_PREPARED_EVENT_REF_MAX \<and>
    (\<exists>ms. gm_room_session_expand_prepared_wait_resolution ps (prepared_at (ps_step_waits ps) i) =
        Inr \<lparr>wr_present = True, wr_matches = ms\<rparr> \<and>
      list_all2 (\<lambda>e m. (\<exists>alt. scenehub_control_resolve_device_event_ref ce q e True = Inr (m, alt)) \<and>
        (\<exists>d. quest_device_get (wde_device_id e) q = Inr d \<and> qd_enabled d)) es ms)"
proof -
  note p = prepared_places [OF assms(1,2)]
  have "catalogue.place_ok ce q True (ps_event_refs ps) (Some es) (prepared_at (ps_step_waits ps) i)"
    using p assms(3-5) by (auto simp: list_all2_conv_all_nth prepared_at_def step_events_def dest: spec [of _ i])
  from place_expands [OF this] p obtain ms where
    "gm_room_session_expand_prepared_wait_resolution ps (prepared_at (ps_step_waits ps) i) =
      Inr \<lparr>wr_present = True, wr_matches = ms\<rparr>"
    "list_all2 (\<lambda>e m. \<exists>alt. scenehub_control_resolve_device_event_ref ce q e True = Inr (m, alt)) es ms" by auto
  moreover from this(2) have "list_all2 (\<lambda>e m. (\<exists>alt. scenehub_control_resolve_device_event_ref ce q e True = Inr (m, alt)) \<and>
        (\<exists>d. quest_device_get (wde_device_id e) q = Inr d \<and> qd_enabled d)) es ms"
    by (elim list.rel_mono_strong) (auto dest: resolve_lookup)
  ultimately show ?thesis using p by (auto simp: catalogue.table_ok_def)
qed

text \<open>A step that waits for the end of a sound or for an input, and one that waits for the input again.\<close>

definition demo_ref :: "string \<Rightarrow> string \<Rightarrow> wait_device_event" where
  "demo_ref d e = \<lparr>wde_device_id = d, wde_event_id = e, wde_timeout_ms = 0,
     wde_timeout_action = WAIT_TIMEOUT_CONTINUE, wde_timeout_message = []\<rparr>"

definition prepare_demo :: room_scenario where
  "prepare_demo = demo_scenario
     [STEP_WAIT_ANY_DEVICE_EVENT \<lparr>weg_events = [demo_ref ''system_audio'' ''playback_finished'',
        demo_ref ''system_io'' ''ch1_active''], weg_timeout_ms = 0, weg_timeout_action = WAIT_TIMEOUT_CONTINUE\<rparr>,
      STEP_WAIT_DEVICE_EVENT (demo_ref ''system_io'' ''ch1_active'')] []"

definition prepare_demo_result :: "esp_err + prepared_scenario" where
  "prepare_demo_result =
     scenehub_control_prepare_session_scenario (\<lambda>_ _. Inl ESP_ERR_NOT_FOUND) quest_devices_zero prepare_demo"

theorem prepared_waits_match_catalogue_witness:
  "\<exists>ps ms. prepare_demo_result = Inr ps \<and> length (ps_event_refs ps) = 2 \<and>
     gm_room_session_expand_prepared_wait_resolution ps (prepared_at (ps_step_waits ps) 1) =
       Inr \<lparr>wr_present = True, wr_matches = ms\<rparr> \<and>
     list_all2 (\<lambda>e m. (\<exists>alt. scenehub_control_resolve_device_event_ref (\<lambda>_ _. Inl ESP_ERR_NOT_FOUND)
       quest_devices_zero e True = Inr (m, alt))) [demo_ref ''system_io'' ''ch1_active''] ms"
proof -
  have "case prepare_demo_result of Inl _ \<Rightarrow> False | Inr ps \<Rightarrow> length (ps_event_refs ps) = 2"
    by code_simp
  then obtain ps where ps: "prepare_demo_result = Inr ps" "length (ps_event_refs ps) = 2"
    by (auto split: sum.splits)
  have h: "scenario_refs_fit prepare_demo" "1 < length (sc_steps prepare_demo)"
    "st_enabled (sc_steps prepare_demo ! 1)"
    "wait_events_of (st_data (sc_steps prepare_demo ! 1)) = Some [demo_ref ''system_io'' ''ch1_active'']"
    by code_simp+
  show ?thesis
    using prepared_waits_match_catalogue [OF ps(1) [unfolded prepare_demo_result_def] h] ps
    by (auto elim!: list.rel_mono_strong)
qed

end
