(* ===== verification/Scenario_Validation_Props.thy ===== *)
theory Scenario_Validation_Props
  imports Scenario_Validation Scenario_Prepare
begin

text \<open>
  The two validators agree: what a checker of the report adds to the verdict is what the structural
  validator tests.  \<open>report_check\<close> is the contract of a checker; its lemma lifts it to the loops.
\<close>

section \<open>Checkers\<close>

locale report_check =
  fixes check :: "'a \<Rightarrow> validation_report \<Rightarrow> validation_report" and ok :: "'a \<Rightarrow> bool"
  assumes valid: "vr_valid (check x r) \<longleftrightarrow> vr_valid r \<and> ok x"
begin

lemma fold_valid: "vr_valid (fold check xs r) \<longleftrightarrow> vr_valid r \<and> list_all ok xs"
  by (induction xs arbitrary: r) (auto simp: valid)

end

lemma list_all_enumerate: "list_all (\<lambda>(i, x). P x) (enumerate n xs) \<longleftrightarrow> list_all P xs"
  by (induction xs arbitrary: n) simp_all

lemma add_issue_valid [simp]:
  "vr_valid (validation_add_issue lv si code m r) \<longleftrightarrow> vr_valid r \<and> lv \<noteq> VALIDATION_ERROR"
  by (simp add: validation_add_issue_def Let_def)

lemma add_reactive_issue_valid [simp]:
  "vr_valid (validation_add_reactive_issue lv b vi ai si code m r) \<longleftrightarrow> vr_valid r \<and> lv \<noteq> VALIDATION_ERROR"
  by (simp add: validation_add_reactive_issue_def Let_def)

lemma error_if_valid [simp]: "vr_valid (error_if c si code m r) \<longleftrightarrow> vr_valid r \<and> \<not> c"
  by (simp add: error_if_def)

lemma reactive_error_if_valid [simp]: "vr_valid (reactive_error_if c b vi ai code m r) \<longleftrightarrow> vr_valid r \<and> \<not> c"
  by (simp add: reactive_error_if_def)

lemma place_new_issues_valid [simp]: "vr_valid (place_new_issues n b vi ai r) = vr_valid r"
  by (simp add: place_new_issues_def)

section \<open>Steps\<close>

interpretation command_payload: report_check
  "\<lambda>c. validation_check_device_command_payload_static c si name" room_scenario_valid_device_command for si name
  by unfold_locales (auto simp: validation_check_device_command_payload_static_def empty_field_issue_def
      room_scenario_valid_device_command_def Let_def)

lemma copied_command_valid:
  "room_scenario_valid_device_command (copied_command c) =
     room_scenario_valid_command_ref (cmd_device_id c) (cmd_command_id c)"
  by (simp add: room_scenario_valid_device_command_def room_scenario_valid_command_ref_def copied_command_def
      quest_str_copy_def ROOM_SCENARIO_DEVICE_ID_MAX_LEN_def ROOM_SCENARIO_DEVICE_COMMAND_ID_MAX_LEN_def)

interpretation group_command: report_check
  "\<lambda>(i, c). validation_check_device_command_payload_static (copied_command c) si (name i)"
  "\<lambda>(i :: nat, c). room_scenario_valid_command_ref (cmd_device_id c) (cmd_command_id c)" for si name
  by unfold_locales (auto simp: command_payload.valid copied_command_valid)

interpretation event_payload: report_check
  "\<lambda>(i, e). validation_check_wait_device_event_payload_static e si (name i)" "\<lambda>(i :: nat, e). event_ref_ok e" for si name
  by unfold_locales (auto simp: validation_check_wait_device_event_payload_static_def empty_field_issue_def
      event_ref_ok_def Let_def split: if_splits)

lemma event_group_valid: "vr_valid (check_event_group kind place es si r) \<longleftrightarrow> vr_valid r \<and> event_group_ok es"
  using event_payload.fold_valid [of si "\<lambda>i. quest_str_copy 40 (place @ c_decimal (int i + 1))" "enumerate 0 es" r]
  by (auto simp: check_event_group_def event_group_ok_def list_all_enumerate)

lemma single_event_valid:
  "vr_valid (validation_check_wait_device_event_payload_static e si name r) \<longleftrightarrow> vr_valid r \<and> event_ref_ok e"
  using event_payload.valid [of si "\<lambda>_. name" "(0, e)"] by simp

lemma command_group_valid:
  "vr_valid (validation_check_device_command_group_step_static cmds si r) \<longleftrightarrow> vr_valid r \<and>
     cmds \<noteq> [] \<and> length cmds \<le> ROOM_SCENARIO_COMMAND_GROUP_MAX_COMMANDS \<and>
     list_all (\<lambda>c. room_scenario_valid_command_ref (cmd_device_id c) (cmd_command_id c)) cmds"
  using group_command.fold_valid [of si "\<lambda>i. quest_str_copy 32 (''GROUP_COMMAND_'' @ c_decimal (int i + 1))"
      "enumerate 0 cmds" r]
  by (auto simp: validation_check_device_command_group_step_static_def list_all_enumerate)

lemma wait_flags_valid:
  "vr_valid (check_wait_flags w si r) \<longleftrightarrow> vr_valid r \<and> wf_flags w \<noteq> [] \<and>
     length (wf_flags w) \<le> ROOM_SCENARIO_WAIT_FLAGS_MAX_FLAGS \<and> list_all (\<lambda>f. fl_name f \<noteq> []) (wf_flags w)"
  by (auto simp: check_wait_flags_def list_all_iff list_ex_iff)

abbreviation control_step :: "scenario_step \<Rightarrow> bool" where
  "control_step s \<equiv> room_scenario_is_reactive_control_action_type (st_data s)"

lemma step_data_valid:
  "vr_valid (check_step_data (st_data s) si r) \<longleftrightarrow> vr_valid r \<and>
     (st_id s \<noteq> [] \<and> \<not> control_step s \<longrightarrow> room_scenario_valid_step s)"
  if "st_id s \<noteq> []"
  using that
  by (cases "st_data s")
    (auto simp: check_step_data_def room_scenario_valid_step_def command_payload.valid single_event_valid
      command_group_valid wait_flags_valid event_group_valid word_neq_0_conv
      validation_check_wait_any_device_event_step_static_def validation_check_wait_all_device_events_step_static_def)

definition step_passes :: "room_scenario \<Rightarrow> nat \<Rightarrow> bool" where
  "step_passes sc i \<longleftrightarrow> st_id (sc_steps sc ! i) \<noteq> [] \<and> \<not> duplicate_step sc i \<and>
     (control_step (sc_steps sc ! i) \<or> room_scenario_valid_step (sc_steps sc ! i))"

interpretation steps: report_check "check_step sc" "step_passes sc" for sc
proof unfold_locales
  fix i r
  show "vr_valid (check_step sc i r) \<longleftrightarrow> vr_valid r \<and> step_passes sc i"
  proof (cases "st_id (sc_steps sc ! i) = []")
    case True
    have mono: "vr_valid (check_step_data d si r') \<Longrightarrow> vr_valid r'" for d si r'
      using step_data_valid [of "\<lparr>st_id = ''x'', st_label = [], st_enabled = True, st_allow_operator_skip = False,
          st_operator_skip_label = [], st_data = d\<rparr>" si r'] by simp
    show ?thesis
      using True by (auto simp: check_step_def Let_def step_passes_def dest!: mono)
  next
    case False
    then show ?thesis by (auto simp: check_step_def Let_def step_passes_def step_data_valid)
  qed
qed

section \<open>Reactive branches\<close>

lemma action_valid:
  "vr_valid (validation_check_reactive_action_v2_static sc a b vi ai r) \<longleftrightarrow>
     vr_valid r \<and> room_scenario_valid_reactive_action sc a"
  by (cases "ra_data a")
    (auto simp: validation_check_reactive_action_v2_static_def check_action_data_def is_group_def
      room_scenario_valid_reactive_action_def command_payload.valid command_payload.fold_valid word_neq_0_conv)

interpretation variant_action: report_check
  "\<lambda>(ai, a). validation_check_reactive_action_v2_static sc a b vi (int ai)"
  "\<lambda>(ai :: nat, a). room_scenario_valid_reactive_action sc a" for sc b vi
  by unfold_locales (auto simp: action_valid)

interpretation variant: report_check "check_variant sc b" "\<lambda>(i, v). valid_variant sc v" for sc b
  by unfold_locales (auto simp: check_variant_def valid_variant_def Let_def variant_action.fold_valid list_all_enumerate
      split: if_splits)

interpretation complete_action: report_check "check_complete_action sc b" "\<lambda>(i, a). valid_complete_action sc a" for sc b
  by unfold_locales (auto simp: check_complete_action_def valid_complete_action_def action_valid split: if_splits)

interpretation guard_flag: report_check "\<lambda>f. reactive_error_if (fl_name f = []) b vi ai code m" "\<lambda>f. fl_name f \<noteq> []"
  for b vi ai code m
  by unfold_locales simp

lemma reactive_branch_v2_valid:
  "vr_valid (validation_check_reactive_branch_v2_static sc b r) \<longleftrightarrow>
     vr_valid r \<and> room_scenario_valid_reactive_branch_v2 sc b"
  by (auto simp: validation_check_reactive_branch_v2_static_def room_scenario_valid_reactive_branch_v2_def Let_def
      guard_flag.fold_valid variant.fold_valid complete_action.fold_valid list_all_enumerate)

lemma reactive_branch_valid:
  "vr_valid (check_reactive_branch sc b r) \<longleftrightarrow> vr_valid r \<and>
     (if uses_v2 b then room_scenario_valid_reactive_branch_v2 sc b else listens sc b)"
  by (auto simp: check_reactive_branch_def Let_def reactive_branch_v2_valid listens_def split: option.splits)

definition branch_passes :: "room_scenario \<Rightarrow> nat \<Rightarrow> bool" where
  "branch_passes sc i \<longleftrightarrow> structural_branch sc (sc_branches sc ! i) = ESP_OK \<and> \<not> duplicate_branch sc i"

interpretation branches: report_check "check_branch sc" "branch_passes sc" for sc
  by unfold_locales
    (auto simp: check_branch_def branch_passes_def structural_branch_def Let_def reactive_branch_valid)

section \<open>The verdicts\<close>

lemma first_failure_ok: "first_failure check xs = ESP_OK \<longleftrightarrow> list_all (\<lambda>x. check x = ESP_OK) xs"
  by (induction xs) auto

lemma static_valid:
  "vr_valid (room_scenario_validate_static sc) \<longleftrightarrow>
     sc_id sc \<noteq> [] \<and> sc_name sc \<noteq> [] \<and> sc_room_id sc \<noteq> [] \<and>
     length (sc_steps sc) \<le> ROOM_SCENARIO_MAX_STEPS \<and> length (sc_branches sc) \<le> ROOM_SCENARIO_MAX_BRANCHES \<and>
     (\<forall>i < length (sc_branches sc). branch_passes sc i) \<and> (\<forall>i < length (sc_steps sc). step_passes sc i)"
  by (auto simp: room_scenario_validate_static_def room_scenario_validate_static_report_def check_header_def Let_def
      validation_report_init_def steps.fold_valid branches.fold_valid list_all_iff)

lemma runtime_valid [simp]: "vr_valid (room_scenario_validate_runtime_report sc r) = vr_valid r"
proof -
  have act: "vr_valid (validation_check_reactive_action_v2_runtime a b vi ai r) = vr_valid r" for a b vi ai r
    by (simp add: validation_check_reactive_action_v2_runtime_def)
  have keep: "vr_valid (fold f xs r) = vr_valid r" if "\<And>x r. vr_valid (f x r) = vr_valid r" for f :: "'x \<Rightarrow> _" and xs r
    using that by (induction xs arbitrary: r) simp_all
  have "vr_valid (validation_check_reactive_branch_v2_runtime sc b r) = vr_valid r" for b r
    by (simp add: validation_check_reactive_branch_v2_runtime_def Let_def keep act split_def)
  then show ?thesis by (simp add: room_scenario_validate_runtime_report_def keep)
qed

definition reactive_limits :: "room_scenario \<Rightarrow> bool" where
  "reactive_limits sc \<longleftrightarrow> length (sc_reactive_variants sc) \<le> ROOM_SCENARIO_MAX_REACTIVE_VARIANTS \<and>
     length (sc_reactive_actions sc) \<le> ROOM_SCENARIO_MAX_REACTIVE_ACTIONS \<and>
     length (sc_reactive_group_commands sc) \<le> ROOM_SCENARIO_MAX_REACTIVE_GROUP_COMMANDS"

lemma duplicate_steps_iff:
  assumes "\<forall>i < length (sc_steps sc). st_id (sc_steps sc ! i) \<noteq> []"
  shows "room_scenario_has_duplicate_step_ids sc \<longleftrightarrow> (\<exists>i < length (sc_steps sc). duplicate_step sc i)"
  using assms by (simp add: room_scenario_has_duplicate_step_ids_def duplicate_step_def list_ex_iff Bex_def conj_ac) blast

lemma duplicate_branches_iff:
  assumes "\<forall>i < length (sc_branches sc). br_id (sc_branches sc ! i) \<noteq> []"
  shows "room_scenario_has_duplicate_branch_ids sc \<longleftrightarrow> (\<exists>i < length (sc_branches sc). duplicate_branch sc i)"
  using assms by (simp add: room_scenario_has_duplicate_branch_ids_def duplicate_branch_def list_ex_iff Bex_def conj_ac) blast

text \<open>
  C7: the two validators agree.  The store accepts a scenario exactly when the report for the editor
  shows no error, the reactive tables keep their limits, and no step of the story is one of the two
  control actions that only reactions may use.
\<close>

theorem validators_agree:
  "room_scenario_validate_structural sc = ESP_OK \<longleftrightarrow>
     vr_valid (room_scenario_validate sc) \<and> reactive_limits sc \<and> \<not> list_ex control_step (sc_steps sc)"
proof -
  let ?ids = "sc_id sc \<noteq> [] \<and> sc_name sc \<noteq> [] \<and> sc_room_id sc \<noteq> []"
  let ?lim = "length (sc_steps sc) \<le> ROOM_SCENARIO_MAX_STEPS \<and> length (sc_branches sc) \<le> ROOM_SCENARIO_MAX_BRANCHES"
  let ?bs = "\<forall>b \<in> set (sc_branches sc). structural_branch sc b = ESP_OK"
  let ?ss = "\<forall>s \<in> set (sc_steps sc). room_scenario_valid_step s"
  have s: "room_scenario_validate_structural sc = ESP_OK \<longleftrightarrow> ?ids \<and> ?lim \<and> reactive_limits sc \<and>
      \<not> room_scenario_has_duplicate_step_ids sc \<and> \<not> room_scenario_has_duplicate_branch_ids sc \<and> ?bs \<and> ?ss"
    by (auto simp: room_scenario_validate_structural_def reactive_limits_def Let_def first_failure_ok list_all_iff)
  have r: "vr_valid (room_scenario_validate sc) \<longleftrightarrow> ?ids \<and> ?lim \<and>
      (\<forall>i < length (sc_branches sc). branch_passes sc i) \<and> (\<forall>i < length (sc_steps sc). step_passes sc i)"
    by (auto simp: room_scenario_validate_def Let_def static_valid)
  have b: "(\<forall>i < length (sc_branches sc). branch_passes sc i) \<longleftrightarrow> ?bs \<and> \<not> room_scenario_has_duplicate_branch_ids sc"
  proof (cases "?bs")
    case True
    then have "\<forall>i < length (sc_branches sc). br_id (sc_branches sc ! i) \<noteq> []"
      by (auto simp: structural_branch_def all_set_conv_all_nth split: if_splits)
    with True show ?thesis
      using duplicate_branches_iff [of sc] by (auto simp: branch_passes_def all_set_conv_all_nth)
  qed (auto simp: branch_passes_def all_set_conv_all_nth)
  have st: "?ss \<and> \<not> room_scenario_has_duplicate_step_ids sc \<longleftrightarrow>
      (\<forall>i < length (sc_steps sc). step_passes sc i) \<and> \<not> list_ex control_step (sc_steps sc)"
  proof (cases "\<forall>i < length (sc_steps sc). st_id (sc_steps sc ! i) \<noteq> []")
    case True
    have "control_step t \<Longrightarrow> \<not> room_scenario_valid_step t" for t
      by (cases "st_data t") (simp_all add: room_scenario_valid_step_def)
    with True show ?thesis
      using duplicate_steps_iff [OF True] by (auto simp: step_passes_def all_set_conv_all_nth list_ex_length)
  qed (auto simp: step_passes_def all_set_conv_all_nth room_scenario_valid_step_def)
  show ?thesis using s r b st by blast
qed

text \<open>
  The editor may show a scenario as valid that cannot be saved.  A scenario with a control action
  among the steps of its story is refused by the store, while the report does not mention the step.
\<close>

theorem control_step_not_reported:
  assumes "i < length (sc_steps sc)" and "control_step (sc_steps sc ! i)"
  shows "room_scenario_validate_structural sc \<noteq> ESP_OK \<and>
    (st_id (sc_steps sc ! i) \<noteq> [] \<and> \<not> duplicate_step sc i \<longrightarrow> check_step sc i r = r)"
proof -
  have "\<not> room_scenario_valid_step (sc_steps sc ! i)"
    using assms(2) by (cases "st_data (sc_steps sc ! i)") (simp_all add: room_scenario_valid_step_def)
  then have "\<not> list_all room_scenario_valid_step (sc_steps sc)" using assms(1) by (auto simp: list_all_iff)
  then have "room_scenario_validate_structural sc \<noteq> ESP_OK"
    by (auto simp: room_scenario_validate_structural_def Let_def)
  moreover have "check_step_data (st_data (sc_steps sc ! i)) si = id" for si
    using assms(2) by (cases "st_data (sc_steps sc ! i)") (simp_all add: check_step_data_def)
  ultimately show ?thesis by (simp add: check_step_def Let_def error_if_def)
qed

section \<open>Validated scenarios can be prepared\<close>

definition resolvable :: "(wait_device_event \<Rightarrow> bool \<Rightarrow> esp_err + wait_event_match \<times> string) \<Rightarrow>
  wait_device_event list option \<Rightarrow> bool" where
  "resolvable resolve es = (case es of None \<Rightarrow> True
     | Some es \<Rightarrow> \<forall>e \<in> set es. \<forall>req. \<exists>m alt. resolve e req = Inr (m, alt))"

lemma event_ref_prepared:
  assumes "event_ref_ok e" and "\<forall>req. \<exists>m alt. resolve e req = Inr (m, alt)"
    and "length refs < GM_ROOM_SESSION_PREPARED_EVENT_REF_MAX"
  shows "\<exists>i refs'. scenehub_control_prepare_event_ref resolve e req refs = Inr (i, refs') \<and> length refs' \<le> length refs + 1"
proof -
  obtain m alt m' alt' where "resolve e req = Inr (m, alt)" "resolve e True = Inr (m', alt')" using assms(2) by metis
  then show ?thesis
    using assms(1,3) by (auto simp: scenehub_control_prepare_event_ref_def event_ref_ok_def split: option.splits)
qed

lemma event_refs_prepared:
  assumes "list_all event_ref_ok es" and "\<forall>e \<in> set es. \<forall>req. \<exists>m alt. resolve e req = Inr (m, alt)"
    and "length refs + length es \<le> GM_ROOM_SESSION_PREPARED_EVENT_REF_MAX"
  shows "\<exists>is refs'. prepare_event_refs resolve req es refs = Inr (is, refs') \<and> length refs' \<le> length refs + length es"
  using assms
proof (induction es arbitrary: refs)
  case (Cons e es)
  obtain i refs1 where e: "scenehub_control_prepare_event_ref resolve e req refs = Inr (i, refs1)"
    "length refs1 \<le> length refs + 1"
    using event_ref_prepared [of e resolve refs req] Cons.prems by fastforce
  obtain "is" refs2 where "prepare_event_refs resolve req es refs1 = Inr (is, refs2)"
    "length refs2 \<le> length refs1 + length es"
    using Cons.IH [of refs1] Cons.prems e(2) by auto
  with e show ?case by simp
qed simp

lemma place_prepared:
  assumes "event_group_ok es" and "resolvable resolve (Some es)"
    and "length refs + 4 \<le> GM_ROOM_SESSION_PREPARED_EVENT_REF_MAX"
  shows "\<exists>r refs'. scenehub_control_prepare_event_resolution resolve es req refs = Inr (r, refs') \<and>
    length refs' \<le> length refs + 4"
proof -
  have es: "es \<noteq> []" "length es \<le> 4" "list_all event_ref_ok es"
    using assms(1) by (simp_all add: event_group_ok_def ROOM_SCENARIO_WAIT_EVENT_GROUP_MAX_EVENTS_def)
  obtain "is" refs' where "prepare_event_refs resolve req es refs = Inr (is, refs')" "length refs' \<le> length refs + length es"
    using event_refs_prepared [of es resolve refs req] assms(2,3) es by (auto simp: resolvable_def)
  with es show ?thesis
    by (simp add: scenehub_control_prepare_event_resolution_def ROOM_SCENARIO_WAIT_EVENT_GROUP_MAX_EVENTS_def)
qed

lemma places_prepared:
  assumes "\<forall>x \<in> set xs. \<forall>refs. length refs + 4 \<le> GM_ROOM_SESSION_PREPARED_EVENT_REF_MAX \<longrightarrow>
      (\<exists>r refs'. f x refs = Inr (r, refs') \<and> length refs' \<le> length refs + 4)"
    and "length refs + 4 * length xs \<le> GM_ROOM_SESSION_PREPARED_EVENT_REF_MAX"
  shows "\<exists>rs refs'. prepare_all f xs refs = Inr (rs, refs') \<and> length refs' \<le> length refs + 4 * length xs"
  using assms
proof (induction xs arbitrary: refs)
  case (Cons x xs)
  have "length refs + 4 \<le> GM_ROOM_SESSION_PREPARED_EVENT_REF_MAX" using Cons.prems(2) by simp
  then obtain r refs1 where x: "f x refs = Inr (r, refs1)" "length refs1 \<le> length refs + 4"
    using Cons.prems(1) by (metis list.set_intros(1))
  have "length refs1 + 4 * length xs \<le> GM_ROOM_SESSION_PREPARED_EVENT_REF_MAX" using Cons.prems(2) x(2) by simp
  then obtain rs refs2 where "prepare_all f xs refs1 = Inr (rs, refs2)" "length refs2 \<le> length refs1 + 4 * length xs"
    using Cons.IH [of refs1] Cons.prems(1) by auto
  with x show ?case by simp
qed simp

text \<open>The events that a valid entry waits for form a proper group.\<close>

lemma valid_step_events: "room_scenario_valid_step s \<Longrightarrow> wait_events_of (st_data s) = Some es \<Longrightarrow> event_group_ok es"
  by (cases "st_data s")
    (auto simp: room_scenario_valid_step_def wait_events_of_def event_group_ok_def
      ROOM_SCENARIO_WAIT_EVENT_GROUP_MAX_EVENTS_def)

lemma valid_action_events: "room_scenario_valid_reactive_action sc a \<Longrightarrow> wait_events_of (ra_data a) = None"
  by (cases "ra_data a") (simp_all add: room_scenario_valid_reactive_action_def wait_events_of_def)

lemma valid_trigger_events:
  "room_scenario_valid_reactive_trigger t \<Longrightarrow> trigger_events_of t = Some es \<Longrightarrow> event_group_ok es"
  by (cases "tr_kind t")
    (auto simp: room_scenario_valid_reactive_trigger_def trigger_events_of_def event_group_ok_def event_ref_ok_def
      ROOM_SCENARIO_WAIT_EVENT_GROUP_MAX_EVENTS_def quest_str_copy_def ROOM_SCENARIO_DEVICE_ID_MAX_LEN_def
      ROOM_SCENARIO_DEVICE_EVENT_ID_MAX_LEN_def)

definition events_resolve :: "(wait_device_event \<Rightarrow> bool \<Rightarrow> esp_err + wait_event_match \<times> string) \<Rightarrow> room_scenario \<Rightarrow> bool" where
  "events_resolve resolve sc \<longleftrightarrow> (\<forall>s \<in> set (sc_steps sc). resolvable resolve (wait_events_of (st_data s))) \<and>
     (\<forall>b \<in> set (sc_branches sc). resolvable resolve (trigger_events_of (br_trigger b)))"

definition quiet_flows :: "room_scenario \<Rightarrow> bool" where
  "quiet_flows sc \<longleftrightarrow> list_all (\<lambda>b. br_type b = ROOM_SCENARIO_BRANCH_NORMAL \<longrightarrow>
     tr_kind (br_trigger b) = REACTIVE_TRIGGER_NONE) (sc_branches sc)"

text \<open>
  A scenario that the store accepts can be prepared when the catalogue knows its events: the table
  is large enough and no place of the scenario is malformed.
\<close>

lemma structural_scenario_prepared:
  assumes ok: "room_scenario_validate_structural sc = ESP_OK" and quiet: "quiet_flows sc"
    and acts: "list_all (room_scenario_valid_reactive_action sc) (sc_reactive_actions sc)"
    and res: "events_resolve (scenehub_control_resolve_device_event_ref ce q) sc"
  shows "\<exists>ps. scenehub_control_prepare_session_scenario ce q sc = Inr ps"
proof -
  let ?res = "scenehub_control_resolve_device_event_ref ce q"
  have lim: "length (sc_steps sc) \<le> 48" "length (sc_reactive_actions sc) \<le> 24" "length (sc_branches sc) \<le> 8"
    and steps: "\<forall>s \<in> set (sc_steps sc). room_scenario_valid_step s"
    and brs: "\<forall>b \<in> set (sc_branches sc). structural_branch sc b = ESP_OK"
    using ok by (auto simp: room_scenario_validate_structural_def limit_defs Let_def first_failure_ok list_all_iff
        split: if_splits)
  have max: "GM_ROOM_SESSION_PREPARED_EVENT_REF_MAX = 320"
    by (simp add: GM_ROOM_SESSION_PREPARED_EVENT_REF_MAX_def limit_defs)
  have st: "\<exists>r refs'. prepare_step ?res s refs = Inr (r, refs') \<and> length refs' \<le> length refs + 4"
    if "s \<in> set (sc_steps sc)" "length refs + 4 \<le> GM_ROOM_SESSION_PREPARED_EVENT_REF_MAX" for s refs
    using that valid_step_events [of s] place_prepared [of _ ?res refs True] steps res
    by (fastforce simp: prepare_step_def scenehub_control_prepare_wait_def events_resolve_def split: option.splits)
  have ac: "\<exists>r refs'. scenehub_control_prepare_wait ?res (ra_data a) refs = Inr (r, refs') \<and> length refs' \<le> length refs + 4"
    if "a \<in> set (sc_reactive_actions sc)" for a refs
    using that valid_action_events [of sc a] acts by (simp add: scenehub_control_prepare_wait_def list_all_iff)
  have tr: "\<exists>r refs'. scenehub_control_prepare_reactive_trigger ?res (br_trigger b) refs = Inr (r, refs') \<and>
      length refs' \<le> length refs + 4"
    if b: "b \<in> set (sc_branches sc)" and len: "length refs + 4 \<le> GM_ROOM_SESSION_PREPARED_EVENT_REF_MAX" for b refs
  proof (cases "trigger_events_of (br_trigger b)")
    case (Some es)
    then have "tr_kind (br_trigger b) \<noteq> REACTIVE_TRIGGER_NONE" by (auto simp: trigger_events_of_def)
    then have "room_scenario_valid_reactive_trigger (br_trigger b)"
      using brs b quiet branch_type.exhaust [of "br_type b"]
      by (force simp: structural_branch_def uses_v2_def room_scenario_valid_reactive_branch_v2_def quiet_flows_def
          list_all_iff split: if_splits)
    then show ?thesis
      using valid_trigger_events [OF _ Some] place_prepared [of es ?res refs False] len res b Some
      by (force simp: scenehub_control_prepare_reactive_trigger_def events_resolve_def)
  qed (simp add: scenehub_control_prepare_reactive_trigger_def)
  obtain rs1 refs1 where 1: "prepare_all (prepare_step ?res) (sc_steps sc) [] = Inr (rs1, refs1)"
    "length refs1 \<le> 4 * length (sc_steps sc)"
    using places_prepared [of "sc_steps sc" "prepare_step ?res" "[]"] st lim max by fastforce
  obtain rs2 refs2 where 2: "prepare_all (\<lambda>a. scenehub_control_prepare_wait ?res (ra_data a)) (sc_reactive_actions sc) refs1 =
      Inr (rs2, refs2)" "length refs2 \<le> length refs1 + 4 * length (sc_reactive_actions sc)"
    using places_prepared [of "sc_reactive_actions sc" "\<lambda>a. scenehub_control_prepare_wait ?res (ra_data a)" refs1]
      ac lim 1(2) max by fastforce
  obtain rs3 refs3 where 3: "prepare_all (\<lambda>b. scenehub_control_prepare_reactive_trigger ?res (br_trigger b))
      (sc_branches sc) refs2 = Inr (rs3, refs3)"
    using places_prepared [of "sc_branches sc" "\<lambda>b. scenehub_control_prepare_reactive_trigger ?res (br_trigger b)" refs2]
      tr lim 1(2) 2(2) max by fastforce
  show ?thesis using 1 2 3 lim by (simp add: scenehub_control_prepare_session_scenario_def limit_defs)
qed

end
