(* ===== verification/Scenario_Environment.thy ===== *)
theory Scenario_Environment
  imports Scenario_Validation_Props Command_Resolver
begin

text \<open>
  The validation of a scenario against the devices of the installation
  (\<open>scenehub_scenario_validation/scenehub_scenario_validation.c\<close>): every command must resolve in the
  device catalogue, every awaited event must exist, and the channels of the built-in inputs and outputs
  must be configured for their use.  The state of a validation is the context with the cache of
  resolved commands and the report.  What \<open>hardware_io_io_get_status\<close> returns is the argument \<open>io\<close>,
  \<open>None\<close> when the call fails.  The mutexes are always obtained.
\<close>

section \<open>Context\<close>

datatype io_mode = HARDWARE_IO_IO_MODE_DISABLED | HARDWARE_IO_IO_MODE_INPUT | HARDWARE_IO_IO_MODE_OUTPUT

record io_status =
  io_channel :: int
  io_enabled :: bool
  io_mode_of :: io_mode

record validation_command_cache_entry =
  vce_device_id :: string
  vce_command_id :: string
  vce_params_json :: string
  vce_result :: "failure + quest_device_command"

record validation_context =
  vc_io_snapshot :: "io_status list option"
  vc_command_cache :: "validation_command_cache_entry list"

definition COMMAND_CACHE_SIZE :: nat where "COMMAND_CACHE_SIZE = 16"
definition LOOKUP_ERROR_SIZE :: nat where "LOOKUP_ERROR_SIZE = 64"

type_synonym validation_state = "validation_context \<times> validation_report"

definition validation_context_init :: validation_context where
  "validation_context_init = \<lparr>vc_io_snapshot = None, vc_command_cache = []\<rparr>"

definition validation_context_load_io_snapshot ::
  "io_status list option \<Rightarrow> validation_context \<Rightarrow> validation_context" where
  "validation_context_load_io_snapshot io ctx =
     (if vc_io_snapshot ctx = None then ctx\<lparr>vc_io_snapshot := io\<rparr> else ctx)"

definition validation_io_channel_has_mode ::
  "io_status list option \<Rightarrow> int \<Rightarrow> io_mode \<Rightarrow> validation_context \<Rightarrow> bool \<times> validation_context" where
  "validation_io_channel_has_mode io channel mode ctx =
     (let ctx1 = validation_context_load_io_snapshot io ctx;
          items = (case vc_io_snapshot ctx1 of None \<Rightarrow> [] | Some xs \<Rightarrow> xs)
      in (case find (\<lambda>x. io_channel x = channel) items of
            None \<Rightarrow> False | Some x \<Rightarrow> io_enabled x \<and> io_mode_of x = mode, ctx1))"

text \<open>A resolved command is remembered; when the cache is full its last place is used again.\<close>

definition validation_lookup_command ::
  "json_lib \<Rightarrow> quest_devices \<Rightarrow> device_command \<Rightarrow> validation_context \<Rightarrow>
   (failure + quest_device_command) \<times> validation_context" where
  "validation_lookup_command lib q c ctx =
     (case find (\<lambda>e. vce_device_id e = cmd_device_id c \<and> vce_command_id e = cmd_command_id c \<and>
                     vce_params_json e = cmd_params_json c) (vc_command_cache ctx) of
        Some e \<Rightarrow> (vce_result e, ctx)
      | None \<Rightarrow>
          (let r = (case scenehub_device_command_resolve lib q (cmd_device_id c) (cmd_command_id c)
                           (cmd_params_json c) True of
                      Inl (err, error) \<Rightarrow> Inl (err, quest_str_copy LOOKUP_ERROR_SIZE error)
                    | Inr resolved \<Rightarrow> Inr (rc_command resolved));
               e = \<lparr>vce_device_id = quest_str_copy ROOM_SCENARIO_DEVICE_ID_MAX_LEN (cmd_device_id c),
                    vce_command_id = quest_str_copy ROOM_SCENARIO_DEVICE_COMMAND_ID_MAX_LEN (cmd_command_id c),
                    vce_params_json = quest_str_copy QUEST_PAYLOAD_MAX_LEN (cmd_params_json c), vce_result = r\<rparr>;
               cache = vc_command_cache ctx
           in (r, ctx\<lparr>vc_command_cache :=
                 (if length cache < COMMAND_CACHE_SIZE then cache @ [e] else cache[length cache - 1 := e])\<rparr>)))"

section \<open>Channels of the built-in inputs and outputs\<close>

text \<open>\<open>strstr\<close>: what follows the first occurrence of a text.\<close>

fun after_match :: "string \<Rightarrow> string \<Rightarrow> string option" where
  "after_match key [] = (if key = [] then Some [] else None)"
| "after_match key (c # s) =
     (if take (length key) (c # s) = key then Some (drop (length key) (c # s)) else after_match key s)"

definition validation_params_channel :: "string \<Rightarrow> int" where
  "validation_params_channel params_json =
     (case after_match (CHR 0x22 # ''channel'' @ [CHR 0x22]) (if params_json \<noteq> [] then params_json else ''{}'') of
        None \<Rightarrow> 0
      | Some p \<Rightarrow>
          (case params_skip_ws p of
             c # p1 \<Rightarrow>
               (if c \<noteq> CHR '':'' then 0
                else case params_skip_ws p1 of
                  [] \<Rightarrow> 0
                | d # p2 \<Rightarrow>
                    (if d = CHR 0x22 then fst (strtol10 (takeWhile (\<lambda>x. x \<noteq> CHR 0x22) (take 15 p2)))
                     else fst (strtol10 (d # p2))))
           | [] \<Rightarrow> 0))"

text \<open>\<open>sscanf(event_id, "ch%d_", &channel) == 1\<close>\<close>

definition event_channel :: "string \<Rightarrow> int option" where
  "event_channel event_id =
     (if take 2 event_id = ''ch''
      then let rest = drop 2 event_id; (n, rest1) = strtol10 rest in if rest1 = rest then None else Some n
      else None)"

definition issue_text :: "string \<Rightarrow> string" where
  "issue_text = quest_str_copy ROOM_SCENARIO_VALIDATION_MESSAGE_MAX_LEN"

definition name_or :: "string \<Rightarrow> string \<Rightarrow> string" where
  "name_or d step_name = (if step_name \<noteq> [] then step_name else d)"

definition io_channel_in_range :: "int \<Rightarrow> bool" where
  "io_channel_in_range n \<longleftrightarrow> 1 \<le> n \<and> n \<le> HARDWARE_IO_IO_CHANNEL_COUNT"

definition add_error :: "u16 \<Rightarrow> string \<Rightarrow> string \<Rightarrow> validation_report \<Rightarrow> validation_report" where
  "add_error step_index code message = validation_add_issue VALIDATION_ERROR step_index code (issue_text message)"

definition validation_check_io_command_mode ::
  "io_status list option \<Rightarrow> device_command \<Rightarrow> u16 \<Rightarrow> string \<Rightarrow> validation_state \<Rightarrow> validation_state" where
  "validation_check_io_command_mode io c step_index step_name st =
     (let (ctx, r) = st; name = name_or ''DEVICE_COMMAND'' step_name;
          channel = validation_params_channel (cmd_params_json c)
      in if cmd_device_id c \<noteq> QUEST_DEVICE_SYSTEM_IO_ID then st
         else if \<not> io_channel_in_range channel
         then (ctx, add_error step_index ''IO_CHANNEL_INVALID'' (name @ '' uses invalid IO channel '' @ c_decimal channel) r)
         else let (ok, ctx1) = validation_io_channel_has_mode io channel HARDWARE_IO_IO_MODE_OUTPUT ctx
           in (ctx1, if ok then r
                     else add_error step_index ''IO_CHANNEL_NOT_OUTPUT'' (name @ '' uses IO '' @ c_decimal channel @
                       '' as output, but this channel is disabled or configured as input'') r))"

definition validation_check_io_event_mode ::
  "io_status list option \<Rightarrow> wait_device_event \<Rightarrow> u16 \<Rightarrow> string \<Rightarrow> validation_state \<Rightarrow> validation_state" where
  "validation_check_io_event_mode io wait step_index step_name st =
     (let (ctx, r) = st; name = name_or ''WAIT_DEVICE_EVENT'' step_name
      in if wde_device_id wait \<noteq> QUEST_DEVICE_SYSTEM_IO_ID then st
         else let invalid = (ctx, add_error step_index ''IO_EVENT_INVALID''
                    (name @ '' uses invalid IO event '' @ [CHR 0x27] @ wde_event_id wait @ [CHR 0x27]) r)
           in case event_channel (wde_event_id wait) of
             None \<Rightarrow> invalid
           | Some channel \<Rightarrow>
               (if \<not> io_channel_in_range channel then invalid
                else let (ok, ctx1) = validation_io_channel_has_mode io channel HARDWARE_IO_IO_MODE_INPUT ctx
                  in (ctx1, if ok then r
                            else add_error step_index ''IO_CHANNEL_NOT_INPUT'' (name @ '' waits for IO '' @ c_decimal channel @
                              '' input, but this channel is disabled or configured as output'') r)))"

section \<open>Commands and events\<close>

definition quoted :: "string \<Rightarrow> string" where "quoted s = [CHR 0x27] @ s @ [CHR 0x27]"

definition command_issue :: "device_command \<Rightarrow> u16 \<Rightarrow> string \<Rightarrow> failure \<Rightarrow> validation_report \<Rightarrow> validation_report" where
  "command_issue c step_index name f =
     (let (err, error) = f; device = ''Quest device '' @ quoted (cmd_device_id c) in
      if err = ESP_ERR_NOT_FOUND \<and> (error = ''device_not_found'' \<or> error = [])
      then add_error step_index ''QUEST_DEVICE_NOT_FOUND'' (device @ '' not found'')
      else if err = ESP_ERR_INVALID_STATE \<and> error = ''device_disabled''
      then add_error step_index ''QUEST_DEVICE_DISABLED'' (device @ '' is disabled'')
      else if err = ESP_ERR_NOT_FOUND
      then add_error step_index ''DEVICE_COMMAND_NOT_FOUND''
             (''Command '' @ quoted (cmd_command_id c) @ '' not found on quest device '' @ quoted (cmd_device_id c))
      else add_error step_index ''DEVICE_COMMAND_INVALID''
             (if error \<noteq> [] then name @ '' failed validation: '' @ error else device @ '' is unavailable''))"

definition validation_check_device_command_payload_runtime ::
  "json_lib \<Rightarrow> quest_devices \<Rightarrow> io_status list option \<Rightarrow> device_command \<Rightarrow> u16 \<Rightarrow> string \<Rightarrow>
   validation_state \<Rightarrow> validation_state" where
  "validation_check_device_command_payload_runtime lib q io c step_index step_name st =
     (if cmd_device_id c = [] \<or> cmd_command_id c = [] then st
      else let (ctx, r) = st; name = name_or ''DEVICE_COMMAND'' step_name in
        case validation_lookup_command lib q c ctx of
          (Inl f, ctx1) \<Rightarrow> (ctx1, command_issue c step_index name f r)
        | (Inr _, ctx1) \<Rightarrow> validation_check_io_command_mode io c step_index name (ctx1, r))"

definition copied_group_command :: "device_command \<Rightarrow> device_command" where
  "copied_group_command c = \<lparr>cmd_device_id = quest_str_copy ROOM_SCENARIO_DEVICE_ID_MAX_LEN (cmd_device_id c),
     cmd_command_id = quest_str_copy ROOM_SCENARIO_DEVICE_COMMAND_ID_MAX_LEN (cmd_command_id c),
     cmd_params_json = quest_str_copy ROOM_SCENARIO_COMMAND_PARAMS_JSON_MAX_LEN (cmd_params_json c)\<rparr>"

definition validation_check_device_command_group_step_runtime ::
  "json_lib \<Rightarrow> quest_devices \<Rightarrow> io_status list option \<Rightarrow> device_command list \<Rightarrow> u16 \<Rightarrow> validation_state \<Rightarrow> validation_state" where
  "validation_check_device_command_group_step_runtime lib q io cmds step_index =
     fold (\<lambda>(i, c). validation_check_device_command_payload_runtime lib q io (copied_group_command c) step_index
             (quest_str_copy 32 (''GROUP_COMMAND_'' @ c_decimal (int i + 1))))
       (enumerate 0 (take ROOM_SCENARIO_COMMAND_GROUP_MAX_COMMANDS cmds))"

definition event_issue ::
  "(string \<Rightarrow> string \<Rightarrow> esp_err + quest_device_event) \<Rightarrow> quest_devices \<Rightarrow> wait_device_event \<Rightarrow> (string \<times> string) option" where
  "event_issue compact_event q wait =
     (let device = ''Quest device '' @ quoted (wde_device_id wait) in
      case quest_device_get (wde_device_id wait) q of
        Inl err \<Rightarrow> (if err = ESP_ERR_NOT_FOUND then Some (''QUEST_DEVICE_NOT_FOUND'', device @ '' not found'')
                    else Some (''QUEST_DEVICE_UNAVAILABLE'', device @ '' is unavailable''))
      | Inr d \<Rightarrow>
          (if \<not> qd_enabled d then Some (''QUEST_DEVICE_DISABLED'', device @ '' is disabled'')
           else case quest_device_get_event compact_event (wde_device_id wait) (wde_event_id wait) q of
             Inl err \<Rightarrow>
               (if err = ESP_ERR_NOT_FOUND
                then Some (''DEVICE_EVENT_NOT_FOUND'', ''Event '' @ quoted (wde_event_id wait) @
                       '' not found on quest device '' @ quoted (wde_device_id wait))
                else Some (''QUEST_DEVICE_UNAVAILABLE'', device @ '' is unavailable''))
           | Inr _ \<Rightarrow> None))"

definition validation_check_wait_device_event_payload_runtime ::
  "(string \<Rightarrow> string \<Rightarrow> esp_err + quest_device_event) \<Rightarrow> quest_devices \<Rightarrow> io_status list option \<Rightarrow> wait_device_event \<Rightarrow>
   u16 \<Rightarrow> string \<Rightarrow> validation_state \<Rightarrow> validation_state" where
  "validation_check_wait_device_event_payload_runtime compact_event q io wait step_index step_name st =
     (if wde_device_id wait = [] \<or> wde_event_id wait = [] then st
      else case event_issue compact_event q wait of
        Some (code, message) \<Rightarrow> (fst st, add_error step_index code message (snd st))
      | None \<Rightarrow> validation_check_io_event_mode io wait step_index (name_or ''WAIT_DEVICE_EVENT'' step_name) st)"

definition check_event_list ::
  "(string \<Rightarrow> string \<Rightarrow> esp_err + quest_device_event) \<Rightarrow> quest_devices \<Rightarrow> io_status list option \<Rightarrow> string \<Rightarrow>
   wait_device_event list \<Rightarrow> u16 \<Rightarrow> validation_state \<Rightarrow> validation_state" where
  "check_event_list compact_event q io name events step_index =
     fold (\<lambda>(i, e). validation_check_wait_device_event_payload_runtime compact_event q io e step_index
             (quest_str_copy 40 (name @ c_decimal (int i + 1))))
       (enumerate 0 (take ROOM_SCENARIO_WAIT_EVENT_GROUP_MAX_EVENTS events))"

definition validation_check_wait_any_device_event_step_runtime ::
  "(string \<Rightarrow> string \<Rightarrow> esp_err + quest_device_event) \<Rightarrow> quest_devices \<Rightarrow> io_status list option \<Rightarrow>
   wait_event_group \<Rightarrow> u16 \<Rightarrow> validation_state \<Rightarrow> validation_state" where
  "validation_check_wait_any_device_event_step_runtime ce q io g = check_event_list ce q io ''WAIT_ANY_EVENT_'' (weg_events g)"

definition validation_check_wait_all_device_events_step_runtime ::
  "(string \<Rightarrow> string \<Rightarrow> esp_err + quest_device_event) \<Rightarrow> quest_devices \<Rightarrow> io_status list option \<Rightarrow>
   wait_event_group \<Rightarrow> u16 \<Rightarrow> validation_state \<Rightarrow> validation_state" where
  "validation_check_wait_all_device_events_step_runtime ce q io g = check_event_list ce q io ''WAIT_ALL_EVENT_'' (weg_events g)"

section \<open>Reactions\<close>

definition check_action_commands ::
  "json_lib \<Rightarrow> quest_devices \<Rightarrow> io_status list option \<Rightarrow> room_scenario \<Rightarrow> reactive_action \<Rightarrow> u16 \<Rightarrow>
   validation_state \<Rightarrow> validation_state" where
  "check_action_commands lib q io sc a step_index = (case ra_data a of
     STEP_DEVICE_COMMAND c \<Rightarrow>
       validation_check_device_command_payload_runtime lib q io c step_index ''REACTIVE_DEVICE_COMMAND''
   | STEP_DEVICE_COMMAND_GROUP _ \<Rightarrow>
       fold (\<lambda>c. validation_check_device_command_payload_runtime lib q io c step_index ''REACTIVE_GROUP_COMMAND'')
         (action_group sc a)
   | _ \<Rightarrow> id)"

text \<open>The issues that the action has added are given its place.\<close>

definition validation_check_reactive_action_environment ::
  "json_lib \<Rightarrow> quest_devices \<Rightarrow> io_status list option \<Rightarrow> room_scenario \<Rightarrow> scenario_branch \<Rightarrow> int \<Rightarrow> nat \<times> reactive_action \<Rightarrow>
   validation_state \<Rightarrow> validation_state" where
  "validation_check_reactive_action_environment lib q io sc b variant_index ia st =
     (let (action_index, a) = ia; n = length (vr_issues (snd st));
          (ctx, r) = check_action_commands lib q io sc a (br_step_start_index b) st
      in (ctx, r\<lparr>vr_issues := take n (vr_issues r) @
                 map (place_issue b variant_index (int action_index)) (drop n (vr_issues r))\<rparr>))"

definition check_variant_environment ::
  "json_lib \<Rightarrow> quest_devices \<Rightarrow> io_status list option \<Rightarrow> room_scenario \<Rightarrow> scenario_branch \<Rightarrow> nat \<times> reactive_variant \<Rightarrow>
   validation_state \<Rightarrow> validation_state" where
  "check_variant_environment lib q io sc b iv =
     fold (validation_check_reactive_action_environment lib q io sc b (int (fst iv)))
       (enumerate 0 (variant_actions sc (snd iv)))"

definition validation_check_reactive_branch_environment ::
  "json_lib \<Rightarrow> quest_devices \<Rightarrow> io_status list option \<Rightarrow> room_scenario \<Rightarrow> scenario_branch \<Rightarrow> validation_state \<Rightarrow> validation_state" where
  "validation_check_reactive_branch_environment lib q io sc b =
     (if br_type b = ROOM_SCENARIO_BRANCH_REACTIVE \<and> uses_v2 b
      then fold (check_variant_environment lib q io sc b) (enumerate 0 (branch_variants sc b)) else id)"

section \<open>The whole scenario\<close>

definition check_step_environment ::
  "json_lib \<Rightarrow> (string \<Rightarrow> string \<Rightarrow> esp_err + quest_device_event) \<Rightarrow> quest_devices \<Rightarrow> io_status list option \<Rightarrow>
   nat \<times> scenario_step \<Rightarrow> validation_state \<Rightarrow> validation_state" where
  "check_step_environment lib ce q io is = (let step_index = of_nat (fst is) in case st_data (snd is) of
     STEP_DEVICE_COMMAND c \<Rightarrow> validation_check_device_command_payload_runtime lib q io c step_index ''DEVICE_COMMAND''
   | STEP_WAIT_DEVICE_EVENT e \<Rightarrow>
       validation_check_wait_device_event_payload_runtime ce q io e step_index ''WAIT_DEVICE_EVENT''
   | STEP_DEVICE_COMMAND_GROUP cmds \<Rightarrow> validation_check_device_command_group_step_runtime lib q io cmds step_index
   | STEP_WAIT_ANY_DEVICE_EVENT g \<Rightarrow> validation_check_wait_any_device_event_step_runtime ce q io g step_index
   | STEP_WAIT_ALL_DEVICE_EVENTS g \<Rightarrow> validation_check_wait_all_device_events_step_runtime ce q io g step_index
   | _ \<Rightarrow> id)"

definition scenehub_scenario_validate_environment_append ::
  "json_lib \<Rightarrow> (string \<Rightarrow> string \<Rightarrow> esp_err + quest_device_event) \<Rightarrow> quest_devices \<Rightarrow> io_status list option \<Rightarrow>
   room_scenario \<Rightarrow> validation_report \<Rightarrow> validation_report" where
  "scenehub_scenario_validate_environment_append lib ce q io sc r =
     snd (fold (check_step_environment lib ce q io) (enumerate 0 (sc_steps sc))
       (fold (validation_check_reactive_branch_environment lib q io sc) (sc_branches sc) (validation_context_init, r)))"

definition scenehub_scenario_validate_environment ::
  "json_lib \<Rightarrow> (string \<Rightarrow> string \<Rightarrow> esp_err + quest_device_event) \<Rightarrow> quest_devices \<Rightarrow> io_status list option \<Rightarrow>
   room_scenario \<Rightarrow> validation_report" where
  "scenehub_scenario_validate_environment lib ce q io sc =
     scenehub_scenario_validate_environment_append lib ce q io sc validation_report_init"

definition scenehub_scenario_validate ::
  "json_lib \<Rightarrow> (string \<Rightarrow> string \<Rightarrow> esp_err + quest_device_event) \<Rightarrow> quest_devices \<Rightarrow> io_status list option \<Rightarrow>
   room_scenario \<Rightarrow> validation_report" where
  "scenehub_scenario_validate lib ce q io sc =
     (let r = room_scenario_validate sc in
      if \<not> vr_valid r then r else scenehub_scenario_validate_environment_append lib ce q io sc r)"

end
