(* ===== verification/Scenario_Environment_Props.thy ===== *)
theory Scenario_Environment_Props
  imports Scenario_Environment Gm_Reactive_Props
begin

text \<open>
  The cache of resolved commands does not change the verdict, as long as no two commands share an
  entry of it: then the report on a scenario has no error exactly when every command resolves, every
  awaited event exists and the channels fit.  \<open>env_check\<close> is the contract of a checker that works
  on the context and the report; \<open>detector\<close> is the weaker contract of one that finds every fault,
  whatever the cache holds.
\<close>

section \<open>Checkers with a context\<close>

definition passes :: "(validation_context \<Rightarrow> bool) \<Rightarrow> bool \<Rightarrow> (validation_state \<Rightarrow> validation_state) \<Rightarrow> bool" where
  "passes sound ok f \<longleftrightarrow> (\<forall>st. sound (fst st) \<longrightarrow>
     sound (fst (f st)) \<and> (vr_valid (snd (f st)) \<longleftrightarrow> vr_valid (snd st) \<and> ok))"

lemma passes_id [simp]: "passes sound True id" "passes sound True (\<lambda>st. st)"
  by (simp_all add: passes_def)

lemma passes_comp: "passes sound ok1 f \<Longrightarrow> passes sound ok2 g \<Longrightarrow> passes sound (ok1 \<and> ok2) (\<lambda>st. g (f st))"
  unfolding passes_def by blast

locale env_check =
  fixes check :: "'a \<Rightarrow> validation_state \<Rightarrow> validation_state" and sound :: "validation_context \<Rightarrow> bool"
    and fits ok :: "'a \<Rightarrow> bool"
  assumes check: "fits x \<Longrightarrow> passes sound (ok x) (check x)"
begin

lemma fold_check: "list_all fits xs \<Longrightarrow> passes sound (list_all ok xs) (fold check xs)"
proof (induction xs)
  case (Cons x xs)
  then show ?case
    using passes_comp [OF check [of x], of "list_all ok xs" "fold check xs"] by (simp add: comp_def)
qed simp

end

section \<open>The cache\<close>

definition lookup_result :: "json_lib \<Rightarrow> quest_devices \<Rightarrow> string \<Rightarrow> string \<Rightarrow> string \<Rightarrow> failure + quest_device_command" where
  "lookup_result lib q d c p = (case scenehub_device_command_resolve lib q d c p True of
     Inl (err, error) \<Rightarrow> Inl (err, quest_str_copy LOOKUP_ERROR_SIZE error) | Inr r \<Rightarrow> Inr (rc_command r))"

text \<open>
  The texts of a command fit the fields of a scenario; in the program they are such fields.  An entry
  of the cache keeps less of the parameters than a scenario does: two commands clash when what the
  cache keeps of the one is the whole of the other.
\<close>

definition in_fields :: "device_command \<Rightarrow> bool" where
  "in_fields c \<longleftrightarrow> length (cmd_device_id c) < ROOM_SCENARIO_DEVICE_ID_MAX_LEN \<and>
     length (cmd_command_id c) < ROOM_SCENARIO_DEVICE_COMMAND_ID_MAX_LEN \<and>
     length (cmd_params_json c) < ROOM_SCENARIO_COMMAND_PARAMS_JSON_MAX_LEN"

definition clash :: "device_command \<Rightarrow> device_command \<Rightarrow> bool" where
  "clash c d \<longleftrightarrow> cmd_device_id c = cmd_device_id d \<and> cmd_command_id c = cmd_command_id d \<and>
     cmd_params_json c \<noteq> cmd_params_json d \<and>
     quest_str_copy QUEST_PAYLOAD_MAX_LEN (cmd_params_json c) = cmd_params_json d"

definition clash_free :: "device_command list \<Rightarrow> bool" where
  "clash_free cs \<longleftrightarrow> list_all (\<lambda>c. list_all (\<lambda>d. \<not> clash c d) cs) cs"

text \<open>\<open>C\<close> is the list of all commands that are checked; an entry of the cache belongs to one of them.\<close>

definition cacheable :: "device_command list \<Rightarrow> device_command \<Rightarrow> bool" where
  "cacheable C c \<longleftrightarrow> in_fields c \<and> c \<in> set C \<and> clash_free C"

definition cached_for :: "json_lib \<Rightarrow> quest_devices \<Rightarrow> validation_command_cache_entry \<Rightarrow> device_command \<Rightarrow> bool" where
  "cached_for lib q e c \<longleftrightarrow> vce_device_id e = cmd_device_id c \<and> vce_command_id e = cmd_command_id c \<and>
     vce_params_json e = quest_str_copy QUEST_PAYLOAD_MAX_LEN (cmd_params_json c) \<and>
     vce_result e = lookup_result lib q (cmd_device_id c) (cmd_command_id c) (cmd_params_json c)"

definition ctx_sound ::
  "json_lib \<Rightarrow> quest_devices \<Rightarrow> io_status list option \<Rightarrow> device_command list \<Rightarrow> validation_context \<Rightarrow> bool" where
  "ctx_sound lib q io C ctx \<longleftrightarrow> vc_io_snapshot ctx \<in> {None, io} \<and>
     (\<forall>e \<in> set (vc_command_cache ctx). \<exists>c \<in> set C. cached_for lib q e c)"

lemma fitting_copy: "length s < n \<Longrightarrow> quest_str_copy n s = s"
  by (simp add: quest_str_copy_def)

lemma lookup_sound:
  assumes "cacheable C c" and "ctx_sound lib q io C ctx"
  shows "\<exists>ctx'. validation_lookup_command lib q c ctx =
      (lookup_result lib q (cmd_device_id c) (cmd_command_id c) (cmd_params_json c), ctx') \<and> ctx_sound lib q io C ctx'"
proof (cases "find (\<lambda>e. vce_device_id e = cmd_device_id c \<and> vce_command_id e = cmd_command_id c \<and>
    vce_params_json e = cmd_params_json c) (vc_command_cache ctx)")
  case None
  let ?e = "\<lparr>vce_device_id = quest_str_copy ROOM_SCENARIO_DEVICE_ID_MAX_LEN (cmd_device_id c),
    vce_command_id = quest_str_copy ROOM_SCENARIO_DEVICE_COMMAND_ID_MAX_LEN (cmd_command_id c),
    vce_params_json = quest_str_copy QUEST_PAYLOAD_MAX_LEN (cmd_params_json c),
    vce_result = lookup_result lib q (cmd_device_id c) (cmd_command_id c) (cmd_params_json c)\<rparr>"
  have e: "c \<in> set C" "cached_for lib q ?e c"
    using assms(1) by (simp_all add: cacheable_def in_fields_def cached_for_def fitting_copy)
  define cache where "cache = (if length (vc_command_cache ctx) < COMMAND_CACHE_SIZE then vc_command_cache ctx @ [?e]
    else (vc_command_cache ctx)[length (vc_command_cache ctx) - 1 := ?e])"
  have "set cache \<subseteq> insert ?e (set (vc_command_cache ctx))"
    using set_update_subset_insert [of "vc_command_cache ctx"] by (simp add: cache_def)
  with e assms(2) have "ctx_sound lib q io C (ctx\<lparr>vc_command_cache := cache\<rparr>)"
    unfolding ctx_sound_def by auto
  with None show ?thesis
    by (simp add: validation_lookup_command_def Let_def lookup_result_def [symmetric] cache_def)
next
  case (Some e)
  then have e: "e \<in> set (vc_command_cache ctx)" "vce_device_id e = cmd_device_id c" "vce_command_id e = cmd_command_id c"
    "vce_params_json e = cmd_params_json c"
    by (auto simp: find_Some_iff)
  then obtain d where d: "d \<in> set C" "cached_for lib q e d" using assms(2) by (auto simp: ctx_sound_def)
  then have "\<not> clash d c" using assms(1) by (simp add: cacheable_def clash_free_def list_all_iff)
  then have "cmd_params_json d = cmd_params_json c"
    using e d(2) by (simp add: clash_def cached_for_def)
  then have "vce_result e = lookup_result lib q (cmd_device_id c) (cmd_command_id c) (cmd_params_json c)"
    using e d(2) by (simp add: cached_for_def)
  with Some assms(2) show ?thesis by (simp add: validation_lookup_command_def)
qed

definition channel_has_mode :: "io_status list option \<Rightarrow> int \<Rightarrow> io_mode \<Rightarrow> bool" where
  "channel_has_mode io n mode = fst (validation_io_channel_has_mode io n mode validation_context_init)"

lemma channel_sound:
  assumes "ctx_sound lib q io C ctx"
  shows "\<exists>ctx'. validation_io_channel_has_mode io n mode ctx = (channel_has_mode io n mode, ctx') \<and> ctx_sound lib q io C ctx'"
  using assms
  by (cases io) (auto simp: validation_io_channel_has_mode_def channel_has_mode_def Let_def ctx_sound_def
      validation_context_load_io_snapshot_def validation_context_init_def)

section \<open>Commands and events\<close>

lemma add_error_valid [simp]: "\<not> vr_valid (add_error si code m r)"
  by (simp add: add_error_def)

lemma command_issue_valid [simp]: "\<not> vr_valid (command_issue c si name f r)"
  by (simp add: command_issue_def split_def Let_def)

text \<open>What a command and an awaited event need of the installation, without cache and report.\<close>

definition command_ready :: "json_lib \<Rightarrow> quest_devices \<Rightarrow> io_status list option \<Rightarrow> device_command \<Rightarrow> bool" where
  "command_ready lib q io c \<longleftrightarrow> cmd_device_id c = [] \<or> cmd_command_id c = [] \<or>
     \<not> isl (scenehub_device_command_resolve lib q (cmd_device_id c) (cmd_command_id c) (cmd_params_json c) True) \<and>
     (cmd_device_id c = QUEST_DEVICE_SYSTEM_IO_ID \<longrightarrow>
        (let n = validation_params_channel (cmd_params_json c)
         in io_channel_in_range n \<and> channel_has_mode io n HARDWARE_IO_IO_MODE_OUTPUT))"

definition event_known ::
  "(string \<Rightarrow> string \<Rightarrow> esp_err + quest_device_event) \<Rightarrow> quest_devices \<Rightarrow> wait_device_event \<Rightarrow> bool" where
  "event_known ce q e \<longleftrightarrow> (case quest_device_get (wde_device_id e) q of Inl _ \<Rightarrow> False | Inr d \<Rightarrow>
     qd_enabled d \<and> \<not> isl (quest_device_get_event ce (wde_device_id e) (wde_event_id e) q))"

definition event_ready ::
  "(string \<Rightarrow> string \<Rightarrow> esp_err + quest_device_event) \<Rightarrow> quest_devices \<Rightarrow> io_status list option \<Rightarrow> wait_device_event \<Rightarrow> bool" where
  "event_ready ce q io e \<longleftrightarrow> wde_device_id e = [] \<or> wde_event_id e = [] \<or> event_known ce q e \<and>
     (wde_device_id e = QUEST_DEVICE_SYSTEM_IO_ID \<longrightarrow>
        (case event_channel (wde_event_id e) of None \<Rightarrow> False
         | Some n \<Rightarrow> io_channel_in_range n \<and> channel_has_mode io n HARDWARE_IO_IO_MODE_INPUT))"

lemma lookup_isl: "isl (lookup_result lib q d c p) = isl (scenehub_device_command_resolve lib q d c p True)"
  by (simp add: lookup_result_def split: sum.split)

lemma command_mode_check:
  "passes (ctx_sound lib q io C) (cmd_device_id c = QUEST_DEVICE_SYSTEM_IO_ID \<longrightarrow>
      (let n = validation_params_channel (cmd_params_json c)
       in io_channel_in_range n \<and> channel_has_mode io n HARDWARE_IO_IO_MODE_OUTPUT))
    (validation_check_io_command_mode io c si name)"
  unfolding passes_def
proof (intro allI impI)
  fix st :: validation_state assume "ctx_sound lib q io C (fst st)"
  then obtain ctx' where "validation_io_channel_has_mode io (validation_params_channel (cmd_params_json c))
      HARDWARE_IO_IO_MODE_OUTPUT (fst st) =
      (channel_has_mode io (validation_params_channel (cmd_params_json c)) HARDWARE_IO_IO_MODE_OUTPUT, ctx')"
    "ctx_sound lib q io C ctx'"
    using channel_sound by metis
  with \<open>ctx_sound lib q io C (fst st)\<close> show "ctx_sound lib q io C (fst (validation_check_io_command_mode io c si name st)) \<and>
      (vr_valid (snd (validation_check_io_command_mode io c si name st)) \<longleftrightarrow> vr_valid (snd st) \<and>
       (cmd_device_id c = QUEST_DEVICE_SYSTEM_IO_ID \<longrightarrow> (let n = validation_params_channel (cmd_params_json c)
        in io_channel_in_range n \<and> channel_has_mode io n HARDWARE_IO_IO_MODE_OUTPUT)))"
    by (simp add: validation_check_io_command_mode_def split_def Let_def)
qed

lemma event_mode_check:
  "passes (ctx_sound lib q io C) (wde_device_id e = QUEST_DEVICE_SYSTEM_IO_ID \<longrightarrow>
      (case event_channel (wde_event_id e) of None \<Rightarrow> False
       | Some n \<Rightarrow> io_channel_in_range n \<and> channel_has_mode io n HARDWARE_IO_IO_MODE_INPUT))
    (validation_check_io_event_mode io e si name)"
proof (cases "event_channel (wde_event_id e)")
  case None
  then show ?thesis by (simp add: passes_def validation_check_io_event_mode_def split_def Let_def)
next
  case (Some n)
  show ?thesis unfolding passes_def
  proof (intro allI impI)
    fix st :: validation_state assume st: "ctx_sound lib q io C (fst st)"
    obtain ctx' where "validation_io_channel_has_mode io n HARDWARE_IO_IO_MODE_INPUT (fst st) =
        (channel_has_mode io n HARDWARE_IO_IO_MODE_INPUT, ctx')" "ctx_sound lib q io C ctx'"
      using channel_sound [OF st] by metis
    with st Some show "ctx_sound lib q io C (fst (validation_check_io_event_mode io e si name st)) \<and>
      (vr_valid (snd (validation_check_io_event_mode io e si name st)) \<longleftrightarrow> vr_valid (snd st) \<and>
       (wde_device_id e = QUEST_DEVICE_SYSTEM_IO_ID \<longrightarrow> (case event_channel (wde_event_id e) of None \<Rightarrow> False
        | Some n \<Rightarrow> io_channel_in_range n \<and> channel_has_mode io n HARDWARE_IO_IO_MODE_INPUT)))"
      by (simp add: validation_check_io_event_mode_def split_def Let_def)
  qed
qed

lemma command_check:
  assumes "cacheable C c"
  shows "passes (ctx_sound lib q io C) (command_ready lib q io c)
    (validation_check_device_command_payload_runtime lib q io c si name)"
proof (cases "cmd_device_id c = [] \<or> cmd_command_id c = []")
  case True
  then show ?thesis by (auto simp: passes_def validation_check_device_command_payload_runtime_def command_ready_def)
next
  case False
  let ?r = "lookup_result lib q (cmd_device_id c) (cmd_command_id c) (cmd_params_json c)"
  let ?io = "cmd_device_id c = QUEST_DEVICE_SYSTEM_IO_ID \<longrightarrow> (let n = validation_params_channel (cmd_params_json c)
        in io_channel_in_range n \<and> channel_has_mode io n HARDWARE_IO_IO_MODE_OUTPUT)"
  have ready: "command_ready lib q io c \<longleftrightarrow> \<not> isl ?r \<and> ?io" using False by (simp add: command_ready_def lookup_isl)
  show ?thesis unfolding passes_def
  proof (intro allI impI)
    fix st :: validation_state assume "ctx_sound lib q io C (fst st)"
    then obtain ctx' where ctx': "validation_lookup_command lib q c (fst st) = (?r, ctx')" "ctx_sound lib q io C ctx'"
      using lookup_sound [OF assms] by metis
    then have "validation_check_device_command_payload_runtime lib q io c si name st =
        (case ?r of Inl f \<Rightarrow> (ctx', command_issue c si (name_or ''DEVICE_COMMAND'' name) f (snd st))
         | Inr _ \<Rightarrow> validation_check_io_command_mode io c si (name_or ''DEVICE_COMMAND'' name) (ctx', snd st))"
      using False by (simp add: validation_check_device_command_payload_runtime_def split_def Let_def split: sum.split)
    with ctx'(2) show "ctx_sound lib q io C (fst (validation_check_device_command_payload_runtime lib q io c si name st)) \<and>
        (vr_valid (snd (validation_check_device_command_payload_runtime lib q io c si name st)) \<longleftrightarrow>
          vr_valid (snd st) \<and> command_ready lib q io c)"
      using command_mode_check [of lib q io C c si "name_or ''DEVICE_COMMAND'' name", unfolded passes_def, rule_format,
          of "(ctx', snd st)"]
      by (cases ?r) (simp_all add: ready)
  qed
qed

lemma event_issue_iff: "event_issue ce q e = None \<longleftrightarrow> event_known ce q e"
  by (auto simp: event_issue_def event_known_def Let_def split: sum.splits)

lemma event_check:
  "passes (ctx_sound lib q io C) (event_ready ce q io e) (validation_check_wait_device_event_payload_runtime ce q io e si name)"
proof (cases "wde_device_id e = [] \<or> wde_event_id e = []")
  case True
  then show ?thesis by (auto simp: passes_def validation_check_wait_device_event_payload_runtime_def event_ready_def)
next
  case False
  show ?thesis
  proof (cases "event_issue ce q e")
    case None
    then have "validation_check_wait_device_event_payload_runtime ce q io e si name =
        validation_check_io_event_mode io e si (name_or ''WAIT_DEVICE_EVENT'' name)"
      using False by (auto simp: validation_check_wait_device_event_payload_runtime_def fun_eq_iff)
    with None False event_mode_check [of lib q io C e si] show ?thesis
      by (simp add: event_ready_def event_issue_iff)
  next
    case (Some i)
    then have "\<not> event_known ce q e" by (simp flip: event_issue_iff)
    with Some False show ?thesis
      by (simp add: passes_def validation_check_wait_device_event_payload_runtime_def event_ready_def split_def)
  qed
qed

section \<open>Steps and reactions\<close>

lemma copied_fits: "cacheable C c \<Longrightarrow> copied_group_command c = c"
  by (simp add: cacheable_def in_fields_def copied_group_command_def fitting_copy)

interpretation env_group: env_check
  "\<lambda>(i, c). validation_check_device_command_payload_runtime lib q io (copied_group_command c) si (nm i)"
  "ctx_sound lib q io C" "\<lambda>(i :: nat, c). cacheable C c" "\<lambda>(i :: nat, c). command_ready lib q io c" for lib q io C si nm
  by unfold_locales (auto simp: copied_fits intro: command_check)

interpretation env_event: env_check
  "\<lambda>(i, e). validation_check_wait_device_event_payload_runtime ce q io e si (nm i)"
  "ctx_sound lib q io C" "\<lambda>(i :: nat, e). True" "\<lambda>(i :: nat, e). event_ready ce q io e" for lib ce q io C si nm
  by unfold_locales (auto intro: event_check)

interpretation env_command: env_check
  "\<lambda>c. validation_check_device_command_payload_runtime lib q io c si nm"
  "ctx_sound lib q io C" "cacheable C" "command_ready lib q io" for lib q io C si nm
  by unfold_locales (rule command_check)

text \<open>The commands and events of a scenario that the validation looks at.\<close>

definition checked_step_commands :: "step_data \<Rightarrow> device_command list" where
  "checked_step_commands d = (case d of STEP_DEVICE_COMMAND c \<Rightarrow> [c]
     | STEP_DEVICE_COMMAND_GROUP cs \<Rightarrow> take ROOM_SCENARIO_COMMAND_GROUP_MAX_COMMANDS cs | _ \<Rightarrow> [])"

definition checked_step_events :: "step_data \<Rightarrow> wait_device_event list" where
  "checked_step_events d = (case d of STEP_WAIT_DEVICE_EVENT e \<Rightarrow> [e]
     | STEP_WAIT_ANY_DEVICE_EVENT g \<Rightarrow> take ROOM_SCENARIO_WAIT_EVENT_GROUP_MAX_EVENTS (weg_events g)
     | STEP_WAIT_ALL_DEVICE_EVENTS g \<Rightarrow> take ROOM_SCENARIO_WAIT_EVENT_GROUP_MAX_EVENTS (weg_events g) | _ \<Rightarrow> [])"

definition action_commands :: "room_scenario \<Rightarrow> reactive_action \<Rightarrow> device_command list" where
  "action_commands sc a = (case ra_data a of STEP_DEVICE_COMMAND c \<Rightarrow> [c]
     | STEP_DEVICE_COMMAND_GROUP _ \<Rightarrow> action_group sc a | _ \<Rightarrow> [])"

definition variant_commands :: "room_scenario \<Rightarrow> reactive_variant \<Rightarrow> device_command list" where
  "variant_commands sc v = concat (map (action_commands sc) (variant_actions sc v))"

definition branch_commands :: "room_scenario \<Rightarrow> scenario_branch \<Rightarrow> device_command list" where
  "branch_commands sc b = (if br_type b = ROOM_SCENARIO_BRANCH_REACTIVE \<and> uses_v2 b
     then concat (map (variant_commands sc) (branch_variants sc b)) else [])"

definition scenario_commands :: "room_scenario \<Rightarrow> device_command list" where
  "scenario_commands sc = concat (map (branch_commands sc) (sc_branches sc)) @
     concat (map (\<lambda>s. checked_step_commands (st_data s)) (sc_steps sc))"

definition story_events :: "room_scenario \<Rightarrow> wait_device_event list" where
  "story_events sc = concat (map (\<lambda>s. checked_step_events (st_data s)) (sc_steps sc))"

lemma list_all_True [simp]: "list_all (\<lambda>_. True) xs"
  by (induction xs) auto

lemma list_all_concat_map: "list_all P (concat (map f xs)) \<longleftrightarrow> list_all (\<lambda>x. list_all P (f x)) xs"
  by (induction xs) auto

lemma passes_placed:
  "passes sound ok f \<Longrightarrow> passes sound ok (\<lambda>st. let (ctx, r) = f st in (ctx, r\<lparr>vr_issues := h st r\<rparr>))"
  by (simp add: passes_def split_def Let_def)

lemma action_commands_check:
  assumes "list_all (cacheable C) (action_commands sc a)"
  shows "passes (ctx_sound lib q io C) (list_all (command_ready lib q io) (action_commands sc a))
    (check_action_commands lib q io sc a si)"
  using assms env_command.fold_check [of C "action_group sc a" lib q io si "''REACTIVE_GROUP_COMMAND''"]
  by (cases "ra_data a") (simp_all add: action_commands_def check_action_commands_def command_check)

interpretation env_action: env_check "validation_check_reactive_action_environment lib q io sc b vi"
  "ctx_sound lib q io C" "\<lambda>(i, a). list_all (cacheable C) (action_commands sc a)"
  "\<lambda>(i, a). list_all (command_ready lib q io) (action_commands sc a)" for lib q io C sc b vi
proof unfold_locales
  fix x :: "nat \<times> reactive_action"
  assume x: "case x of (i, a) \<Rightarrow> list_all (cacheable C) (action_commands sc a)"
  obtain i a where [simp]: "x = (i, a)" by (cases x)
  have "passes (ctx_sound lib q io C) (list_all (command_ready lib q io) (action_commands sc a))
      (\<lambda>st. let (ctx, r) = check_action_commands lib q io sc a (br_step_start_index b) st in (ctx, r\<lparr>vr_issues :=
        take (length (vr_issues (snd st))) (vr_issues r) @
        map (place_issue b vi (int i)) (drop (length (vr_issues (snd st))) (vr_issues r))\<rparr>))"
    using x by (intro passes_placed action_commands_check) simp
  then show "passes (ctx_sound lib q io C) (case x of (i, a) \<Rightarrow> list_all (command_ready lib q io) (action_commands sc a))
      (validation_check_reactive_action_environment lib q io sc b vi x)"
    by (simp add: validation_check_reactive_action_environment_def [abs_def] Let_def)
qed

interpretation env_variant: env_check "check_variant_environment lib q io sc b"
  "ctx_sound lib q io C" "\<lambda>(i, v). list_all (cacheable C) (variant_commands sc v)"
  "\<lambda>(i, v). list_all (command_ready lib q io) (variant_commands sc v)" for lib q io C sc b
proof unfold_locales
  fix x :: "nat \<times> reactive_variant"
  assume "case x of (i, v) \<Rightarrow> list_all (cacheable C) (variant_commands sc v)"
  then show "passes (ctx_sound lib q io C) (case x of (i, v) \<Rightarrow> list_all (command_ready lib q io) (variant_commands sc v))
      (check_variant_environment lib q io sc b x)"
    using env_action.fold_check [of C sc "enumerate 0 (variant_actions sc (snd x))" lib q io b "int (fst x)"]
    by (cases x) (simp add: check_variant_environment_def variant_commands_def list_all_concat_map list_all_enumerate)
qed

interpretation env_branch: env_check "validation_check_reactive_branch_environment lib q io sc"
  "ctx_sound lib q io C" "\<lambda>b. list_all (cacheable C) (branch_commands sc b)"
  "\<lambda>b. list_all (command_ready lib q io) (branch_commands sc b)" for lib q io C sc
proof unfold_locales
  fix b assume "list_all (cacheable C) (branch_commands sc b)"
  then show "passes (ctx_sound lib q io C) (list_all (command_ready lib q io) (branch_commands sc b))
      (validation_check_reactive_branch_environment lib q io sc b)"
    using env_variant.fold_check [of C sc "enumerate 0 (branch_variants sc b)" lib q io b]
    by (auto simp: validation_check_reactive_branch_environment_def branch_commands_def list_all_concat_map
        list_all_enumerate)
qed

lemma event_list_check:
  "passes (ctx_sound lib q io C) (list_all (event_ready ce q io) (take ROOM_SCENARIO_WAIT_EVENT_GROUP_MAX_EVENTS es))
     (check_event_list ce q io nm es si)"
  using env_event.fold_check [of "enumerate 0 (take ROOM_SCENARIO_WAIT_EVENT_GROUP_MAX_EVENTS es)" lib q io C ce si
      "\<lambda>i. quest_str_copy 40 (nm @ c_decimal (int i + 1))"]
  by (simp add: check_event_list_def list_all_enumerate list_all_True)

lemma group_list_check:
  assumes "list_all (cacheable C) (take ROOM_SCENARIO_COMMAND_GROUP_MAX_COMMANDS cs)"
  shows "passes (ctx_sound lib q io C)
     (list_all (command_ready lib q io) (take ROOM_SCENARIO_COMMAND_GROUP_MAX_COMMANDS cs))
     (validation_check_device_command_group_step_runtime lib q io cs si)"
  using assms env_group.fold_check [of C "enumerate 0 (take ROOM_SCENARIO_COMMAND_GROUP_MAX_COMMANDS cs)" lib q io si
      "\<lambda>i. quest_str_copy 32 (''GROUP_COMMAND_'' @ c_decimal (int i + 1))"]
  by (simp add: validation_check_device_command_group_step_runtime_def list_all_enumerate)

interpretation env_step: env_check "check_step_environment lib ce q io" "ctx_sound lib q io C"
  "\<lambda>(i, s). list_all (cacheable C) (checked_step_commands (st_data s))"
  "\<lambda>(i, s). list_all (command_ready lib q io) (checked_step_commands (st_data s)) \<and>
     list_all (event_ready ce q io) (checked_step_events (st_data s))" for lib ce q io C
proof unfold_locales
  fix x :: "nat \<times> scenario_step"
  assume "case x of (i, s) \<Rightarrow> list_all (cacheable C) (checked_step_commands (st_data s))"
  then show "passes (ctx_sound lib q io C) (case x of (i, s) \<Rightarrow> list_all (command_ready lib q io) (checked_step_commands (st_data s)) \<and>
      list_all (event_ready ce q io) (checked_step_events (st_data s))) (check_step_environment lib ce q io x)"
    by (cases x, cases "st_data (snd x)")
      (simp_all add: check_step_environment_def checked_step_commands_def checked_step_events_def command_check event_check
        group_list_check event_list_check validation_check_wait_any_device_event_step_runtime_def
        validation_check_wait_all_device_events_step_runtime_def)
qed

section \<open>The verdict\<close>

lemma append_verdict:
  assumes "list_all in_fields (scenario_commands sc)" and "clash_free (scenario_commands sc)"
  shows "vr_valid (scenehub_scenario_validate_environment_append lib ce q io sc r) \<longleftrightarrow> vr_valid r \<and>
    list_all (command_ready lib q io) (scenario_commands sc) \<and> list_all (event_ready ce q io) (story_events sc)"
proof -
  let ?ok = "list_all (\<lambda>b. list_all (command_ready lib q io) (branch_commands sc b)) (sc_branches sc)"
  let ?st = "list_all (\<lambda>s. list_all (command_ready lib q io) (checked_step_commands (st_data s)) \<and>
      list_all (event_ready ce q io) (checked_step_events (st_data s))) (sc_steps sc)"
  let ?C = "scenario_commands sc"
  have "list_all (cacheable ?C) ?C" using assms by (simp add: list_all_iff cacheable_def)
  then have fits: "list_all (\<lambda>b. list_all (cacheable ?C) (branch_commands sc b)) (sc_branches sc)"
    "list_all (\<lambda>s. list_all (cacheable ?C) (checked_step_commands (st_data s))) (sc_steps sc)"
    unfolding scenario_commands_def by (auto simp: list_all_iff)
  have "passes (ctx_sound lib q io ?C) (?ok \<and> ?st)
      (\<lambda>st. fold (check_step_environment lib ce q io) (enumerate 0 (sc_steps sc))
        (fold (validation_check_reactive_branch_environment lib q io sc) (sc_branches sc) st))"
    using passes_comp [OF env_branch.fold_check [of ?C sc "sc_branches sc" lib q io]
        env_step.fold_check [of ?C "enumerate 0 (sc_steps sc)" lib q io ce]] fits
    by (simp add: list_all_enumerate)
  then have "vr_valid (scenehub_scenario_validate_environment_append lib ce q io sc r) \<longleftrightarrow> vr_valid r \<and> ?ok \<and> ?st"
    by (simp add: passes_def scenehub_scenario_validate_environment_append_def ctx_sound_def validation_context_init_def)
  then show ?thesis by (auto simp: scenario_commands_def story_events_def list_all_concat_map list_all_iff)
qed

text \<open>
  C10: the cache of resolved commands does not change the verdict, unless two commands clash.  An
  entry of the cache keeps 159 characters of the parameters; assume that no command's parameters are
  what the cache keeps of the longer parameters of the same command of the same device (then the one
  would be given the verdict of the other), and that the texts of the commands fit their fields, as
  they do in the program.  Then the report against the installation shows no error exactly when every
  command of the story and of the variants of the reactions resolves, every event the story waits for
  exists on an enabled device, and every channel of the built-in inputs and outputs is configured for
  its use.  The commands of the actions that complete a reaction are not looked at.
\<close>

theorem environment_verdict:
  assumes "list_all in_fields (scenario_commands sc)" and "clash_free (scenario_commands sc)"
  shows "vr_valid (scenehub_scenario_validate_environment lib ce q io sc) \<longleftrightarrow>
    list_all (command_ready lib q io) (scenario_commands sc) \<and> list_all (event_ready ce q io) (story_events sc)"
  using append_verdict [OF assms] by (simp add: scenehub_scenario_validate_environment_def validation_report_init_def)

theorem environment_verdict_witness:
  "\<not> vr_valid (scenehub_scenario_validate_environment \<lparr>cJSON_Parse = \<lambda>_. None, cJSON_PrintUnformatted = \<lambda>_. []\<rparr>
     (\<lambda>_ _. Inl ESP_ERR_NOT_FOUND) quest_devices_zero None
     (demo_scenario [STEP_DEVICE_COMMAND (Gm_Demo.demo_command ''open''), STEP_DEVICE_COMMAND (Gm_Demo.demo_command ''open'')] []))"
proof -
  let ?sc = "demo_scenario [STEP_DEVICE_COMMAND (Gm_Demo.demo_command ''open''), STEP_DEVICE_COMMAND (Gm_Demo.demo_command ''open'')] []"
  have "list_all in_fields (scenario_commands ?sc)" "clash_free (scenario_commands ?sc)" by code_simp+
  moreover have "\<not> list_all (command_ready \<lparr>cJSON_Parse = \<lambda>_. None, cJSON_PrintUnformatted = \<lambda>_. []\<rparr>
      quest_devices_zero None) (scenario_commands ?sc)" by code_simp
  ultimately show ?thesis using environment_verdict [of ?sc] by blast
qed

section \<open>Preparing a validated scenario\<close>

lemma known_resolves:
  assumes "event_known ce q e" and "event_ref_ok e"
  shows "\<exists>m alt. scenehub_control_resolve_device_event_ref ce q e req = Inr (m, alt)"
  using assms by (auto simp: scenehub_control_resolve_device_event_ref_def event_known_def event_ref_ok_def isl_def
      split: sum.splits)

lemma step_events_of: "event_group_ok es \<Longrightarrow> wait_events_of d = Some es \<Longrightarrow> checked_step_events d = es"
  by (auto simp: wait_events_of_def checked_step_events_def event_group_ok_def split: step_data.splits)

text \<open>
  A checker that finds every fault of what it is given and takes no fault back, whatever the cache
  holds.  For the commands nothing is claimed, so that \<open>ok\<close> is \<open>True\<close> for them.
\<close>

definition detects :: "bool \<Rightarrow> (validation_state \<Rightarrow> validation_state) \<Rightarrow> bool" where
  "detects ok f \<longleftrightarrow> (\<forall>st. vr_valid (snd (f st)) \<longrightarrow> vr_valid (snd st) \<and> ok)"

lemma detectsD: "detects ok f \<Longrightarrow> vr_valid (snd (f st)) \<Longrightarrow> vr_valid (snd st) \<and> ok"
  unfolding detects_def by blast

lemma detectsI: "(\<And>ctx r. vr_valid (snd (f (ctx, r))) \<Longrightarrow> vr_valid r \<and> ok) \<Longrightarrow> detects ok f"
  by (simp add: detects_def)

lemma detects_id [simp]: "detects True id" "detects True (\<lambda>st. st)"
  by (simp_all add: detects_def)

locale detector =
  fixes check :: "'a \<Rightarrow> validation_state \<Rightarrow> validation_state" and ok :: "'a \<Rightarrow> bool"
  assumes detect: "detects (ok x) (check x)"
begin

lemma fold_detects: "detects (list_all ok xs) (fold check xs)"
proof (induction xs)
  case (Cons x xs)
  show ?case
  proof (rule detectsI)
    fix ctx r
    assume "vr_valid (snd (fold check (x # xs) (ctx, r)))"
    then have "vr_valid (snd (fold check xs (check x (ctx, r))))" by simp
    from detectsD [OF Cons.IH this] show "vr_valid r \<and> list_all ok (x # xs)"
      using detectsD [OF detect [of x], of "(ctx, r)"] by simp
  qed
qed simp

end

definition event_checked ::
  "(string \<Rightarrow> string \<Rightarrow> esp_err + quest_device_event) \<Rightarrow> quest_devices \<Rightarrow> wait_device_event \<Rightarrow> bool" where
  "event_checked ce q e \<longleftrightarrow> wde_device_id e = [] \<or> wde_event_id e = [] \<or> event_known ce q e"

lemma event_mode_detects: "detects True (validation_check_io_event_mode io e si name)"
proof (rule detectsI)
  fix ctx r
  assume "vr_valid (snd (validation_check_io_event_mode io e si name (ctx, r)))"
  then show "vr_valid r \<and> True"
    by (cases "event_channel (wde_event_id e)")
      (simp_all add: validation_check_io_event_mode_def split_def Let_def split: if_split_asm)
qed

lemma command_mode_detects: "detects True (validation_check_io_command_mode io c si name)"
proof (rule detectsI)
  fix ctx r
  assume "vr_valid (snd (validation_check_io_command_mode io c si name (ctx, r)))"
  then show "vr_valid r \<and> True"
    by (simp add: validation_check_io_command_mode_def split_def Let_def split: if_split_asm)
qed

lemma command_detects: "detects True (validation_check_device_command_payload_runtime lib q io c si name)"
proof (rule detectsI)
  fix ctx r
  assume v: "vr_valid (snd (validation_check_device_command_payload_runtime lib q io c si name (ctx, r)))"
  obtain res ctx1 where l: "validation_lookup_command lib q c ctx = (res, ctx1)" by force
  show "vr_valid r \<and> True"
  proof (cases "cmd_device_id c = [] \<or> cmd_command_id c = []")
    case True
    then show ?thesis using v by (auto simp: validation_check_device_command_payload_runtime_def)
  next
    case False
    then have "vr_valid (snd (validation_check_io_command_mode io c si (name_or ''DEVICE_COMMAND'' name) (ctx1, r)))"
      using v l by (cases res) (simp_all add: validation_check_device_command_payload_runtime_def)
    from detectsD [OF command_mode_detects this] show ?thesis by simp
  qed
qed

lemma event_detects:
  "detects (event_checked ce q e) (validation_check_wait_device_event_payload_runtime ce q io e si name)"
proof (rule detectsI)
  fix ctx r
  assume v: "vr_valid (snd (validation_check_wait_device_event_payload_runtime ce q io e si name (ctx, r)))"
  show "vr_valid r \<and> event_checked ce q e"
  proof (cases "wde_device_id e = [] \<or> wde_event_id e = []")
    case True
    then show ?thesis
      using v by (auto simp: validation_check_wait_device_event_payload_runtime_def event_checked_def)
  next
    case False
    have none: "event_issue ce q e = None"
      using v False by (cases "event_issue ce q e")
        (simp_all add: validation_check_wait_device_event_payload_runtime_def split_def)
    then have "vr_valid (snd (validation_check_io_event_mode io e si (name_or ''WAIT_DEVICE_EVENT'' name) (ctx, r)))"
      using v False by (simp add: validation_check_wait_device_event_payload_runtime_def)
    from detectsD [OF event_mode_detects this] none show ?thesis by (simp add: event_checked_def event_issue_iff)
  qed
qed

interpretation detect_command: detector
  "\<lambda>c. validation_check_device_command_payload_runtime lib q io c si nm" "\<lambda>c. True" for lib q io si nm
  by unfold_locales (rule command_detects)

interpretation detect_group: detector
  "\<lambda>(i, c). validation_check_device_command_payload_runtime lib q io (copied_group_command c) si (nm i)"
  "\<lambda>(i :: nat, c). True" for lib q io si nm
  by unfold_locales (auto intro: command_detects)

interpretation detect_event: detector
  "\<lambda>(i, e). validation_check_wait_device_event_payload_runtime ce q io e si (nm i)"
  "\<lambda>(i :: nat, e). event_checked ce q e" for ce q io si nm
  by unfold_locales (auto intro: event_detects)

lemma list_all_anything [simp]: "list_all (\<lambda>(i, x). True) xs"
  by (simp add: list_all_iff)

lemma event_list_detects:
  "detects (list_all (event_checked ce q) (take ROOM_SCENARIO_WAIT_EVENT_GROUP_MAX_EVENTS es)) (check_event_list ce q io nm es si)"
  using detect_event.fold_detects [of ce q "enumerate 0 (take ROOM_SCENARIO_WAIT_EVENT_GROUP_MAX_EVENTS es)" io si
      "\<lambda>i. quest_str_copy 40 (nm @ c_decimal (int i + 1))"]
  by (simp add: check_event_list_def list_all_enumerate)

lemma group_list_detects: "detects True (validation_check_device_command_group_step_runtime lib q io cs si)"
  using detect_group.fold_detects [of "enumerate 0 (take ROOM_SCENARIO_COMMAND_GROUP_MAX_COMMANDS cs)" lib q io si
      "\<lambda>i. quest_str_copy 32 (''GROUP_COMMAND_'' @ c_decimal (int i + 1))"]
  by (simp add: validation_check_device_command_group_step_runtime_def)

interpretation detect_step: detector "check_step_environment lib ce q io"
  "\<lambda>(i, s). list_all (event_checked ce q) (checked_step_events (st_data s))" for lib ce q io
proof unfold_locales
  fix x :: "nat \<times> scenario_step"
  show "detects (case x of (i, s) \<Rightarrow> list_all (event_checked ce q) (checked_step_events (st_data s)))
      (check_step_environment lib ce q io x)"
    by (cases x, cases "st_data (snd x)")
      (simp_all add: check_step_environment_def checked_step_events_def command_detects event_detects Let_def
        group_list_detects event_list_detects validation_check_wait_any_device_event_step_runtime_def
        validation_check_wait_all_device_events_step_runtime_def)
qed

lemma actions_detect: "detects True (check_action_commands lib q io sc a si)"
  using detect_command.fold_detects [of "action_group sc a" lib q io si "''REACTIVE_GROUP_COMMAND''"]
  by (cases "ra_data a") (simp_all add: check_action_commands_def command_detects)

interpretation detect_action: detector "validation_check_reactive_action_environment lib q io sc b vi" "\<lambda>x. True"
  for lib q io sc b vi
  using actions_detect
  by unfold_locales (simp add: detects_def validation_check_reactive_action_environment_def split_def Let_def)

interpretation detect_variant: detector "check_variant_environment lib q io sc b" "\<lambda>x. True" for lib q io sc b
  using detect_action.fold_detects by unfold_locales (simp add: check_variant_environment_def)

interpretation detect_branch: detector "validation_check_reactive_branch_environment lib q io sc" "\<lambda>b. True" for lib q io sc
  using detect_variant.fold_detects by unfold_locales (simp add: validation_check_reactive_branch_environment_def)

lemma valid_report_checked:
  assumes "vr_valid (scenehub_scenario_validate lib ce q io sc)"
  shows "list_all (event_checked ce q) (story_events sc)"
proof -
  have "vr_valid (snd (fold (check_step_environment lib ce q io) (enumerate 0 (sc_steps sc))
      (fold (validation_check_reactive_branch_environment lib q io sc) (sc_branches sc)
        (validation_context_init, room_scenario_validate sc))))"
    using assms by (simp add: scenehub_scenario_validate_def scenehub_scenario_validate_environment_append_def Let_def
        split: if_split_asm)
  from detectsD [OF detect_step.fold_detects this] show ?thesis
    by (simp add: story_events_def list_all_concat_map list_all_enumerate)
qed

lemma checked_steps_resolve:
  assumes "list_all (event_checked ce q) (story_events sc)" and "s \<in> set (sc_steps sc)" and "room_scenario_valid_step s"
  shows "resolvable (scenehub_control_resolve_device_event_ref ce q) (wait_events_of (st_data s))"
proof (cases "wait_events_of (st_data s)")
  case (Some es)
  have ok: "event_group_ok es" using valid_step_events [OF assms(3) Some] .
  have "list_all (event_checked ce q) es"
    using assms(1,2) step_events_of [OF ok Some] by (auto simp: story_events_def list_all_iff)
  moreover have "list_all event_ref_ok es" using ok by (simp add: event_group_ok_def)
  ultimately have "\<forall>e \<in> set es. event_known ce q e \<and> event_ref_ok e"
    by (auto simp: list_all_iff event_checked_def event_ref_ok_def)
  with Some show ?thesis by (auto simp: resolvable_def intro: known_resolves)
qed (simp add: resolvable_def)

text \<open>
  C8: a scenario that is saved and reported valid can be prepared for a game.  If the store accepts
  a scenario, the report against the installation shows no error, its story branches carry no
  trigger, its reactive actions are valid and the events of its triggers are in the catalogue, then
  the table of prepared events is built: the validation has looked at every event the story waits
  for, the table is large enough for every accepted scenario, and no place of it is malformed.
\<close>

theorem validated_scenario_prepared:
  assumes "room_scenario_validate_structural sc = ESP_OK" and "vr_valid (scenehub_scenario_validate lib ce q io sc)"
    and "quiet_flows sc"
    and "list_all (room_scenario_valid_reactive_action sc) (sc_reactive_actions sc)"
    and "\<forall>b \<in> set (sc_branches sc).
      resolvable (scenehub_control_resolve_device_event_ref ce q) (trigger_events_of (br_trigger b))"
  shows "\<exists>ps. scenehub_control_prepare_session_scenario ce q sc = Inr ps"
proof (rule structural_scenario_prepared [OF assms(1,3,4)])
  have "\<forall>s \<in> set (sc_steps sc). room_scenario_valid_step s"
    using assms(1) by (auto simp: room_scenario_validate_structural_def Let_def first_failure_ok list_all_iff split: if_splits)
  then show "events_resolve (scenehub_control_resolve_device_event_ref ce q) sc"
    using checked_steps_resolve [OF valid_report_checked [OF assms(2)]] assms(5) by (simp add: events_resolve_def)
qed

definition checked_demo :: "scenario_branch list \<Rightarrow> room_scenario" where
  "checked_demo bs = prepare_demo\<lparr>sc_steps := [(sc_steps prepare_demo ! 0)\<lparr>st_id := ''a''\<rparr>,
     (sc_steps prepare_demo ! 1)\<lparr>st_id := ''b''\<rparr>],
     sc_reactive_variants := [\<lparr>rv_id = ''v'', rv_label = [], rv_action_start_index = 0, rv_action_count = 1\<rparr>],
     sc_reactive_actions := [\<lparr>ra_id = ''x'', ra_label = [], ra_group_mode = COMMAND_GROUP_SEQUENTIAL,
       ra_group_command_start_index = 0, ra_group_command_count = 0, ra_data = STEP_FAIL_REACTION\<rparr>],
     sc_branches := bs\<rparr>"

definition no_json :: json_lib where
  "no_json = \<lparr>cJSON_Parse = \<lambda>_. None, cJSON_PrintUnformatted = \<lambda>_. []\<rparr>"

definition demo_inputs :: "io_status list option" where
  "demo_inputs = Some [\<lparr>io_channel = 1, io_enabled = True, io_mode_of = HARDWARE_IO_IO_MODE_INPUT\<rparr>]"

theorem validated_scenario_prepared_witness:
  "\<exists>ps. scenehub_control_prepare_session_scenario (\<lambda>_ _. Inl ESP_ERR_NOT_FOUND) quest_devices_zero
     (checked_demo [demo_reaction REACTIVE_POLICY_ROTATE 1]) = Inr ps"
proof (rule validated_scenario_prepared [of _ no_json _ _ demo_inputs])
  let ?sc = "checked_demo [demo_reaction REACTIVE_POLICY_ROTATE 1]"
  show "room_scenario_validate_structural ?sc = ESP_OK" by code_simp
  show "vr_valid (scenehub_scenario_validate no_json (\<lambda>_ _. Inl ESP_ERR_NOT_FOUND) quest_devices_zero demo_inputs ?sc)"
    by code_simp
  show "quiet_flows ?sc" by code_simp
  show "list_all (room_scenario_valid_reactive_action ?sc) (sc_reactive_actions ?sc)" by code_simp
  show "\<forall>b \<in> set (sc_branches ?sc). resolvable (scenehub_control_resolve_device_event_ref (\<lambda>_ _. Inl ESP_ERR_NOT_FOUND)
      quest_devices_zero) (trigger_events_of (br_trigger b))"
    by (simp add: checked_demo_def demo_reaction_def trigger_events_of_def resolvable_def)
qed

text \<open>A reaction to a device that is not in the catalogue.\<close>

definition lost_reaction :: scenario_branch where
  "lost_reaction = (demo_reaction REACTIVE_POLICY_ROTATE 1)\<lparr>br_trigger := \<lparr>tr_kind = REACTIVE_TRIGGER_DEVICE_EVENT,
     tr_device_id = ''door'', tr_event_id = ''opened'', tr_events = [], tr_flag_name = [], tr_runtime_event = [],
     tr_operator_event = []\<rparr>\<rparr>"

text \<open>
  The events of triggers are not validated.  A scenario whose reaction listens to a device that
  is not in the catalogue is saved and reported valid, and then cannot be prepared for a game.
\<close>

theorem unknown_trigger_reported_valid:
  "\<exists>sc. room_scenario_validate_structural sc = ESP_OK \<and>
     vr_valid (scenehub_scenario_validate no_json (\<lambda>_ _. Inl ESP_ERR_NOT_FOUND) quest_devices_zero demo_inputs sc) \<and>
     scenehub_control_prepare_session_scenario (\<lambda>_ _. Inl ESP_ERR_NOT_FOUND) quest_devices_zero sc =
       Inl ESP_ERR_NOT_FOUND"
proof (intro exI conjI)
  show "room_scenario_validate_structural (checked_demo [lost_reaction]) = ESP_OK" by code_simp
  show "vr_valid (scenehub_scenario_validate no_json (\<lambda>_ _. Inl ESP_ERR_NOT_FOUND) quest_devices_zero demo_inputs
      (checked_demo [lost_reaction]))" by code_simp
  show "scenehub_control_prepare_session_scenario (\<lambda>_ _. Inl ESP_ERR_NOT_FOUND) quest_devices_zero
      (checked_demo [lost_reaction]) = Inl ESP_ERR_NOT_FOUND" by code_simp
qed

section \<open>Starting a game\<close>

text \<open>The validator that the game core calls; it reads the level, the code and the message of an issue.\<close>

definition core_issue :: "Scenario_Validation.validation_issue \<Rightarrow> Gm_Scenario.validation_issue" where
  "core_issue i = Gm_Scenario.validation_issue.make
     (case Scenario_Validation.validation_issue.vi_level i of
        Scenario_Validation.VALIDATION_ERROR \<Rightarrow> Gm_Scenario.VALIDATION_ERROR
      | Scenario_Validation.VALIDATION_WARNING \<Rightarrow> Gm_Scenario.VALIDATION_WARNING)
     (Scenario_Validation.validation_issue.vi_code i) (Scenario_Validation.validation_issue.vi_message i)"

definition installed_validator ::
  "json_lib \<Rightarrow> (string \<Rightarrow> string \<Rightarrow> esp_err + quest_device_event) \<Rightarrow> quest_devices \<Rightarrow> io_status list option \<Rightarrow> validator" where
  "installed_validator lib ce q io sc =
     (let r = scenehub_scenario_validate lib ce q io sc in (ESP_OK, vr_valid r, map core_issue (vr_issues r)))"

text \<open>
  C9: a game starts only when the installation can play it.  If starting the game of a profile, or
  a scenario in a running session, succeeds, the texts of its commands fit their fields, and no two of
  its commands clash in the cache of the validation, then every command of the story and of the
  variants of the reactions resolves on an enabled device with acceptable parameters, and every event
  the story waits for exists.  With clashing commands the validation may accept one that does not
  resolve; and it does not look at the commands of the actions that complete a reaction.
\<close>

theorem started_game_ready:
  assumes "fst (gm_room_session_game_start_prepared (installed_validator lib ce q io) rid now pf sc pre d clock k) = ESP_OK \<or>
      fst (gm_room_session_scenario_start_prepared_plan (installed_validator lib ce q io) rid sc pre gen now_ms k) = ESP_OK"
    and "list_all in_fields (scenario_commands sc)" and "clash_free (scenario_commands sc)"
  shows "vr_valid (room_scenario_validate sc) \<and> list_all (command_ready lib q io) (scenario_commands sc) \<and>
    list_all (event_ready ce q io) (story_events sc)"
proof -
  have "vr_valid (scenehub_scenario_validate lib ce q io sc)"
    using assms(1) by (auto simp: gm_room_session_game_start_prepared_def gm_room_session_scenario_start_prepared_plan_def
        installed_validator_def Let_def split: if_splits)
  then show ?thesis
    using append_verdict [OF assms(2,3)] by (auto simp: scenehub_scenario_validate_def Let_def split: if_splits)
qed

definition relay_pulse :: device_command where
  "relay_pulse = \<lparr>cmd_device_id = ''system_relay'', cmd_command_id = ''pulse'', cmd_params_json = []\<rparr>"

theorem started_game_ready_witness: "command_ready demo_lib quest_devices_zero None relay_pulse"
proof -
  let ?sc = "demo_scenario [STEP_DEVICE_COMMAND relay_pulse] []"
    and ?v = "installed_validator demo_lib (\<lambda>_ _. Inl ESP_ERR_NOT_FOUND) quest_devices_zero None"
    and ?k = "snd (gm_room_session_start ''lab'' 60000 10 boot1)"
  have "?v ?sc = accept_all ?sc" by code_simp
  then have "gm_room_session_scenario_start_prepared_plan ?v ''lab'' ?sc prepared_scenario_zero 1 100 ?k =
      demo_start ?sc prepared_scenario_zero"
    by (simp add: demo_start_def gm_room_session_scenario_start_prepared_plan_def)
  moreover have "fst (demo_start ?sc prepared_scenario_zero) = ESP_OK" by code_simp
  ultimately have start: "fst (gm_room_session_scenario_start_prepared_plan ?v ''lab'' ?sc prepared_scenario_zero 1 100 ?k) = ESP_OK"
    by simp
  have "scenario_commands ?sc = [relay_pulse]" "list_all in_fields [relay_pulse]" "clash_free [relay_pulse]"
    by code_simp+
  then show ?thesis using started_game_ready [OF disjI2 [OF start]] by simp
qed

end
