(* ===== verification/Control_Plan_Props.thy ===== *)
theory Control_Plan_Props
  imports Control_Plan
begin

text \<open>
  The game core and the command executor together: the loop over the commands of a story branch
  ends, and the core waits for exactly the request that the executor awaits.
\<close>

section \<open>Request ids\<close>

lemma request_id_short:
  assumes "command_executor_make_request_id 48 now seq = (Inr rid, s)"
  shows "length rid < 32"
proof -
  have "unat now < 16 ^ 16" "unat seq < 16 ^ 8"
    using unsigned_less [of now, where 'a = nat] unsigned_less [of seq, where 'a = nat] by simp_all
  then have "length (digits 16 (unat now)) \<le> 16" "length (digits 16 (unat seq)) \<le> 8"
    by (auto intro!: digits_length)
  then show ?thesis using assms by (auto simp: command_executor_make_request_id_def Let_def c_hex_padded_def split: if_splits)
qed

lemma execute_mqtt_id_short:
  assumes "command_executor_execute_mqtt env client_id command request x = (f, d, x')"
  shows "length (cd_request_id d) < 32"
  using assms
  by (auto simp: command_executor_execute_mqtt_def publish_command_def Let_def ce_dispatch_zero_def
      COMMAND_EXECUTOR_REQUEST_ID_MAX_LEN_def quest_str_copy_def min_def
      dest!: request_id_short split: if_splits prod.splits sum.splits)

text \<open>A command runs on this hub, is refused, or is sent to its device.\<close>

lemma execute_resolved_cases:
  obtains (local) r where "command_executor_execute_resolved env request client_id command x = run_local env r x"
  | (refused) f where "command_executor_execute_resolved env request client_id command x = (f, ce_dispatch_zero, x)"
      "fst f \<noteq> ESP_OK"
  | (remote) "command_executor_execute_resolved env request client_id command x =
      command_executor_execute_mqtt env client_id command request x"
proof -
  let ?r = "command_executor_execute_resolved env request client_id command x"
  define P where "P y \<longleftrightarrow> (\<exists>r. y = run_local env r x) \<or> (\<exists>f. y = (f, ce_dispatch_zero, x) \<and> fst f \<noteq> ESP_OK) \<or>
      y = command_executor_execute_mqtt env client_id command request x" for y
  have "P (run_local env r x)" "P (command_executor_execute_mqtt env client_id command request x)" for r
    by (auto simp: P_def)
  moreover have "fst f \<noteq> ESP_OK \<Longrightarrow> P (f, ce_dispatch_zero, x)" for f by (auto simp: P_def)
  ultimately have "P ?r" unfolding command_executor_execute_resolved_def by simp
  then show thesis using that unfolding P_def by blast
qed

text \<open>A carried-out command adds its request to the awaited ones, or awaits nothing new.\<close>

lemma execute_resolved_awaited:
  assumes "command_executor_execute_resolved env request client_id command x = ((ESP_OK, m), d, x')"
    and "pending_ok (ex_pending x)"
  shows "if cd_result_required d
    then \<exists>e. cd_request_id d \<notin> dom (awaited (ex_pending x)) \<and> length (cd_request_id d) < 32 \<and> cd_request_id d \<noteq> [] \<and>
      awaited (ex_pending x') = (awaited (ex_pending x))(cd_request_id d \<mapsto> e)
    else awaited (ex_pending x') = awaited (ex_pending x)"
proof -
  consider (local) r where "command_executor_execute_resolved env request client_id command x = run_local env r x"
    | (refused) f where "command_executor_execute_resolved env request client_id command x = (f, ce_dispatch_zero, x)"
        "fst f \<noteq> ESP_OK"
    | (remote) "command_executor_execute_resolved env request client_id command x =
        command_executor_execute_mqtt env client_id command request x"
    by (rule execute_resolved_cases)
  then show ?thesis
  proof cases
    case (local r)
    then have "d = ce_dispatch_zero" "ex_pending x' = ex_pending x"
      using assms(1) by (simp_all add: run_local_def case_prod_beta)
    then show ?thesis by (simp add: ce_dispatch_zero_def)
  next
    case (refused f)
    then show ?thesis using assms(1) by auto
  next
    case remote
    then have run: "command_executor_execute_mqtt env client_id command request x = ((ESP_OK, m), d, x')"
      using assms(1) by simp
    note short = execute_mqtt_id_short [OF run]
    show ?thesis
      using assms(2)
    proof (cases rule: execute_mqtt_cases [of x env client_id command request])
      case (failed err m' x'')
      then show ?thesis using run by simp
    next
      case (sent rid payload d' x'')
      then show ?thesis using run short by (auto split: if_splits)
    qed
  qed
qed

text \<open>The demonstration games are reachable.\<close>

lemma demo_start_reachable: "gm_reachable 1 (snd (snd (demo_start sc pre)))"
proof -
  have "gm_reachable 1 boot1"
    using reach_init [where rooms = 1 and rnd = "\<lambda>_. 0" and eq = None and rq = None]
    by (simp add: core_boot_def boot1_def)
  then have "gm_reachable 1 (snd (gm_room_session_start ''lab'' 60000 10 boot1))"
    by (rule reach_step) (rule step_start, simp add: QUEST_ROOM_ID_MAX_LEN_def)
  then show ?thesis
    unfolding demo_start_def by (rule reach_step) (rule step_scenario_start)
qed

text \<open>The branch waits for the result with this request id.\<close>

definition branch_awaits :: "string \<Rightarrow> run_view \<Rightarrow> bool" where
  "branch_awaits rid v \<longleftrightarrow> v_scenario_state v = GM_ROOM_SCENARIO_WAITING \<and>
     v_wait_type v = WAIT_DEVICE_COMMAND_RESULT \<and> v_wait_event_type v = rid"

lemma awaiting_round:
  assumes cp: "core_pending i j plan k" and kind: "p_kind plan = COMMAND_PLAN_SCENARIO_STEP"
  shows "\<exists>cmd hm k1. gm_room_session_command_plan_next_command plan k = (Inr (cmd, hm), k1) \<and>
    (\<forall>error d x'. scenehub_control_dispatch_scenario_command lib env q cmd (result_required_error plan) x =
          ((ESP_OK, error), d, x') \<longrightarrow> cd_result_required d \<longrightarrow> length (cd_request_id d) < 32 \<longrightarrow>
       (\<exists>k'. dispatch_round lib env q plan k x = (Inr gm_room_session_command_plan_clear, k', x') \<and>
          branch_awaits (cd_request_id d) (b_view (s_branch_runtimes (k_sessions k' ! j) ! i))))"
proof -
  let ?lk = gm_room_session_sessions_lock
  have fp: "flow_pending i plan (core_ctx (?lk k) j)"
    using cp flow_ses(1) [of "core_ctx (?lk k) j" "core_ctx k j"] by (simp add: core_pending_def)
  then obtain cmd c1 hm where nb: "next_command_body plan (core_ctx (?lk k) j) = (Inr (cmd, hm), c1)"
    and f1: "flow_pending i plan c1" and s1: "same_flow i (core_ctx (?lk k) j) c1" "ses_kept (c_ses (core_ctx (?lk k) j)) (c_ses c1)"
    by (rule next_command_flow) blast
  define k1 where "k1 = gm_room_session_sessions_unlock (put_ctx j c1 (?lk k))"
  have nc: "gm_room_session_command_plan_next_command plan k = (Inr (cmd, hm), k1)"
    using nb core_pending_find [OF cp] kind
    by (simp add: gm_room_session_command_plan_next_command_def Let_def in_session_def k1_def)
  have q1: "core_pending i j plan k1"
    using core_pending_put [OF cp _ _ f1] s1 by (simp add: k1_def same_flow_def)
  have ses: "c_ses (core_ctx (?lk k1) j) = c_ses c1" using cp by (simp add: k1_def core_pending_def)
  have f2: "flow_pending i plan (core_ctx (?lk k1) j)" using f1 flow_ses(1) [OF ses] by simp
  have "\<exists>k'. dispatch_round lib env q plan k x = (Inr gm_room_session_command_plan_clear, k', x') \<and>
      branch_awaits (cd_request_id d) (b_view (s_branch_runtimes (k_sessions k' ! j) ! i))"
    if sc: "scenehub_control_dispatch_scenario_command lib env q cmd (result_required_error plan) x = ((ESP_OK, error), d, x')"
      and req: "cd_result_required d" "length (cd_request_id d) < 32" for error d x'
  proof -
    let ?d = "scenehub_control_scenario_dispatch_from_executor d"
    obtain c3 where b: "apply_dispatch_body plan ?d hm (word_of_int (env_now_ms env)) (core_ctx (?lk k1) j) =
        (ESP_OK, gm_room_session_command_plan_clear, c3)"
      and w: "v_scenario_state (b_view (get_branch c3 i)) = GM_ROOM_SCENARIO_WAITING"
        "v_wait_type (b_view (get_branch c3 i)) = WAIT_DEVICE_COMMAND_RESULT"
        "v_wait_event_type (b_view (get_branch c3 i)) = quest_str_copy ROOM_SCENARIO_EVENT_TYPE_MAX_LEN (dr_request_id ?d)"
      using dispatch_result_wait [of i plan "core_ctx (?lk k1) j" ?d hm "word_of_int (env_now_ms env)"] f2 kind req
      by (auto simp: flow_pending_def runnable_branch_def scenehub_control_scenario_dispatch_from_executor_def)
    have "quest_str_copy ROOM_SCENARIO_EVENT_TYPE_MAX_LEN (dr_request_id ?d) = cd_request_id d"
      using req by (auto simp: scenehub_control_scenario_dispatch_from_executor_def scenehub_control_copy_def
          quest_str_copy_def ROOM_SCENARIO_EVENT_TYPE_MAX_LEN_def GM_ROOM_SESSION_COMMAND_REQUEST_ID_MAX_LEN_def)
    moreover have "k_sessions (gm_room_session_sessions_unlock (put_ctx j c3 (?lk k1))) ! j = c_ses c3"
      using q1 by (simp add: core_pending_def)
    ultimately show ?thesis
      using nc sc b w core_pending_find [OF q1] kind
      by (simp add: dispatch_round_def gm_room_session_command_plan_apply_dispatch_result_def Let_def
          branch_awaits_def get_branch_def)
  qed
  then show ?thesis using nc by blast
qed

section \<open>Properties\<close>

text \<open>
  C12: sending the commands of a story branch always ends.  When a branch waits for the dispatch
  of a plan, the loop that asks the core for commands, sends them and reports the outcomes
  returns, whatever the devices, the network and the drivers do, and if it reports success there
  is no plan left to carry out.
\<close>

theorem story_commands_end:
  assumes "gm_reachable rooms k" and "find_session_mutable_locked k (p_room_id plan) = Some j"
    and "flow_pending i plan (core_ctx k j)"
  shows "\<exists>err plan' k' x'. scenehub_control_dispatch_session_command_plan lib envs q 0 plan k x =
      Some (err, plan', k', x') \<and> \<not> gm_room_session_command_plan_present plan'"
proof -
  have "core_pending i j plan k"
    using assms find_session_Some [OF assms(2)] core_table [OF gm_reachable_ok [OF assms(1)]]
    by (simp add: core_pending_def)
  then show ?thesis using dispatch_loop_ends by fastforce
qed

text \<open>A game whose first step sends two commands and whose second sends one.\<close>

definition plan_scenario :: room_scenario where
  "plan_scenario = demo_scenario
     [STEP_DEVICE_COMMAND_GROUP [Gm_Demo.demo_command ''on'', Gm_Demo.demo_command ''off''],
      STEP_DEVICE_COMMAND (Gm_Demo.demo_command ''on'')] []"

definition plan_demo :: "esp_err \<times> command_plan \<times> gm_core" where
  "plan_demo = demo_start plan_scenario prepared_scenario_zero"

theorem story_commands_end_witness:
  "\<exists>err plan' k' x'. scenehub_control_dispatch_session_command_plan demo_lib (\<lambda>_. demo_env) quest_devices_zero 0
      (fst (snd plan_demo)) (snd (snd plan_demo)) idle_executor = Some (err, plan', k', x') \<and>
    \<not> gm_room_session_command_plan_present plan'"
proof (rule story_commands_end [OF demo_start_reachable [of plan_scenario prepared_scenario_zero, folded plan_demo_def]])
  show "find_session_mutable_locked (snd (snd plan_demo)) (p_room_id (fst (snd plan_demo))) = Some 0" by code_simp
  show "flow_pending 0 (fst (snd plan_demo)) (core_ctx (snd (snd plan_demo)) 0)" by code_simp
qed

text \<open>
  C13: the core and the executor wait for the same request.  When a round of the loop carries out
  the command of a story branch with a single command, either the executor awaits nothing new, or
  it awaits exactly one new request id and the branch that sent the command now waits for the
  result with exactly this id, so that the reply of the device or its time-out ends the wait.
\<close>

theorem branch_waits_for_awaited_request:
  assumes k: "gm_reachable rooms k" and find: "find_session_mutable_locked k (p_room_id plan) = Some j"
    and flow: "flow_pending i plan (core_ctx k j)" and kind: "p_kind plan = COMMAND_PLAN_SCENARIO_STEP"
    and pend: "pending_reachable (ex_pending x)"
    and round: "dispatch_round lib env q plan k x = (Inr plan', k', x')"
  shows "awaited (ex_pending x') = awaited (ex_pending x) \<or>
    (\<exists>rid e. rid \<notin> dom (awaited (ex_pending x)) \<and> awaited (ex_pending x') = (awaited (ex_pending x))(rid \<mapsto> e) \<and>
       branch_awaits rid (b_view (s_branch_runtimes (k_sessions k' ! j) ! i)))"
proof -
  have cp: "core_pending i j plan k"
    using k flow find_session_Some [OF find] core_table [OF gm_reachable_ok [OF k]] by (simp add: core_pending_def)
  obtain cmd hm k1 where nc: "gm_room_session_command_plan_next_command plan k = (Inr (cmd, hm), k1)"
    and awaits: "\<And>error d x'. scenehub_control_dispatch_scenario_command lib env q cmd (result_required_error plan) x =
          ((ESP_OK, error), d, x') \<Longrightarrow> cd_result_required d \<Longrightarrow> length (cd_request_id d) < 32 \<Longrightarrow>
        \<exists>k'. dispatch_round lib env q plan k x = (Inr gm_room_session_command_plan_clear, k', x') \<and>
          branch_awaits (cd_request_id d) (b_view (s_branch_runtimes (k_sessions k' ! j) ! i))"
    using awaiting_round [OF cp kind] by blast
  obtain error d where sc: "scenehub_control_dispatch_scenario_command lib env q cmd (result_required_error plan) x =
      ((ESP_OK, error), d, x')"
    using round nc by (auto simp: dispatch_round_def Let_def split: prod.splits if_splits)
  obtain req client dc msg where
    ex: "command_executor_execute_resolved env req client dc x = ((ESP_OK, msg), d, x')"
    by (rule scenario_command_checked [OF sc]) blast
  note aw = execute_resolved_awaited [OF ex pending_reachable_ok [OF pend]]
  show ?thesis
  proof (cases "cd_result_required d")
    case True
    then show ?thesis using awaits [OF sc True] aw round by auto
  qed (use aw in simp)
qed

text \<open>A lamp whose command is answered by the device, and a game that switches it on.\<close>

definition lamp_catalogue :: quest_devices where
  "lamp_catalogue = snd (quest_device_upsert (demo_device\<lparr>qd_commands :=
     [(Command_Local_Props.demo_command ''on'')\<lparr>qc_label := ''On'', qc_capability := ''light'', qc_result_required := True\<rparr>]\<rparr>) quest_devices_zero)"

definition lamp_on :: device_command where
  "lamp_on = \<lparr>cmd_device_id = ''lamp'', cmd_command_id = ''on'', cmd_params_json = []\<rparr>"

definition lamp_demo :: "esp_err \<times> command_plan \<times> gm_core" where
  "lamp_demo = demo_start (demo_scenario
     [STEP_DEVICE_COMMAND lamp_on] [])
     prepared_scenario_zero"

definition lamp_round :: "(esp_err \<times> command_plan + command_plan) \<times> gm_core \<times> executor" where
  "lamp_round = dispatch_round demo_lib demo_env lamp_catalogue (fst (snd lamp_demo)) (snd (snd lamp_demo)) idle_executor"

definition lamp_sent :: "device_command \<Rightarrow> failure \<times> ce_dispatch \<times> executor" where
  "lamp_sent cmd = scenehub_control_dispatch_scenario_command demo_lib demo_env lamp_catalogue cmd
     (result_required_error (fst (snd lamp_demo))) idle_executor"

lemma lamp_is_sent:
  "fst (fst (lamp_sent lamp_on)) = ESP_OK" "cd_result_required (fst (snd (lamp_sent lamp_on)))"
  "length (cd_request_id (fst (snd (lamp_sent lamp_on)))) < 32"
  "list_ex (\<lambda>s. pe_in_use s \<and> pe_request_id s = ''req-000003e8-00000001'') (ex_pending (snd (snd (lamp_sent lamp_on))))"
  by code_simp+

theorem branch_waits_for_awaited_request_witness:
  "\<exists>rid. awaited (ex_pending (snd (snd lamp_round))) rid \<noteq> None \<and>
     branch_awaits rid (b_view (s_branch_runtimes (k_sessions (fst (snd lamp_round)) ! 0) ! 0))"
proof -
  have k: "gm_reachable 1 (snd (snd lamp_demo))" unfolding lamp_demo_def by (rule demo_start_reachable)
  have f: "find_session_mutable_locked (snd (snd lamp_demo)) (p_room_id (fst (snd lamp_demo))) = Some 0"
    "flow_pending 0 (fst (snd lamp_demo)) (core_ctx (snd (snd lamp_demo)) 0)"
    "p_kind (fst (snd lamp_demo)) = COMMAND_PLAN_SCENARIO_STEP" by code_simp+
  have lp: "core_pending 0 0 (fst (snd lamp_demo)) (snd (snd lamp_demo))"
    using k f find_session_Some [OF f(1)] core_table [OF gm_reachable_ok [OF k]] by (simp add: core_pending_def)
  have pend: "pending_reachable (ex_pending idle_executor)" by (simp add: idle_executor_def pending_start)
  obtain cmd hm k1 where nc: "gm_room_session_command_plan_next_command (fst (snd lamp_demo)) (snd (snd lamp_demo)) =
      (Inr (cmd, hm), k1)"
    and rd: "\<And>error d x'. lamp_sent cmd = ((ESP_OK, error), d, x') \<Longrightarrow> cd_result_required d \<Longrightarrow>
        length (cd_request_id d) < 32 \<Longrightarrow> \<exists>k'. lamp_round = (Inr gm_room_session_command_plan_clear, k', x')"
    using awaiting_round [OF lp f(3), of demo_lib demo_env lamp_catalogue idle_executor]
    unfolding lamp_round_def lamp_sent_def by blast
  have "fst (gm_room_session_command_plan_next_command (fst (snd lamp_demo)) (snd (snd lamp_demo))) =
      Inr (lamp_on, False)" by code_simp
  then have "cmd = lamp_on" using nc by simp
  moreover obtain error d x' where sent: "lamp_sent lamp_on = ((ESP_OK, error), d, x')" "cd_result_required d"
    "length (cd_request_id d) < 32" "''req-000003e8-00000001'' \<in> dom (awaited (ex_pending x'))"
    using lamp_is_sent by (cases "lamp_sent lamp_on") (auto simp: prod_eq_iff awaited_dom)
  ultimately obtain k' where r: "lamp_round = (Inr gm_room_session_command_plan_clear, k', x')" using rd by blast
  have "ex_pending idle_executor = pending_table_zero" by (simp add: idle_executor_def)
  then have "dom (awaited (ex_pending idle_executor)) = {}" by (simp add: pending_table_zero_def pending.contents_blank)
  then have "awaited (ex_pending x') \<noteq> awaited (ex_pending idle_executor)" using sent(4) by force
  then obtain rid e where "awaited (ex_pending x') = (awaited (ex_pending idle_executor))(rid \<mapsto> e)"
    "branch_awaits rid (b_view (s_branch_runtimes (k_sessions k' ! 0) ! 0))"
    using branch_waits_for_awaited_request [OF k f pend r [unfolded lamp_round_def]] by blast
  then show ?thesis by (intro exI [of _ rid]) (simp add: r)
qed

end
