(* ===== verification/File_Store.thy ===== *)
theory File_Store
  imports Command_Resolver
begin

text \<open>
  Persistence of the catalogues on the memory card.  The rooms, the profiles and the scenarios are
  written by the same steps: the document is printed into a temporary file beside the target, the
  target is removed and the temporary file renamed (\<open>gm_profile_store/gm_game_profile.c\<close>,
  \<open>room_catalog/storage\<close>, \<open>room_scenario/storage\<close>).  Files are a map from paths to contents; which
  calls of the file system fail is told by \<open>disk\<close>.  A file that could not be written completely
  is removed, so its partial contents are never seen.
\<close>

record disk =
  dk_card :: esp_err                   \<comment> \<open>result of preparing the memory card\<close>
  dk_mkdir :: "string \<Rightarrow> bool"         \<comment> \<open>the directory exists or could be made\<close>
  dk_open :: bool
  dk_write :: bool
  dk_close :: bool
  dk_rename :: bool
  dk_read :: bool                      \<comment> \<open>seeking, allocating and reading succeed\<close>

type_synonym files = "string \<rightharpoonup> string"

definition SD_ROOT :: string where "SD_ROOT = ''/sdcard''"

definition ensure_sd_for_path :: "disk \<Rightarrow> string \<Rightarrow> esp_err" where
  "ensure_sd_for_path dk path =
     (if take (length SD_ROOT) path = SD_ROOT \<and>
         (drop (length SD_ROOT) path = [] \<or> hd (drop (length SD_ROOT) path) = CHR ''/'')
      then dk_card dk else ESP_OK)"

definition slashes :: "string \<Rightarrow> nat list" where
  "slashes path = filter (\<lambda>i. path ! i = CHR ''/'') [0 ..< length path]"

text \<open>The directories are the prefixes before each slash that is not the first character, and the whole.\<close>

definition mkdir_parent :: "disk \<Rightarrow> string \<Rightarrow> esp_err" where
  "mkdir_parent dk path =
     (if path = [] then ESP_ERR_INVALID_ARG
      else if slashes path = [] \<or> last (slashes path) = 0 then ESP_OK
      else let len = last (slashes path); dir = take len path in
        if len \<ge> 160 then ESP_ERR_INVALID_SIZE
        else if list_all (dk_mkdir dk) (map (\<lambda>i. take i dir) (filter (\<lambda>i. 0 < i) (slashes dir)) @ [dir])
        then ESP_OK else ESP_FAIL)"

definition make_tmp_path :: "string \<Rightarrow> esp_err + string" where
  "make_tmp_path path =
     (if path = [] then Inl ESP_ERR_INVALID_ARG
      else if length (path @ ''.tmp'') \<ge> 192 then Inl ESP_ERR_INVALID_SIZE
      else Inr (path @ ''.tmp''))"

text \<open>Writing the printed document and putting it in place of the old one.\<close>

definition replace_file :: "disk \<Rightarrow> string \<Rightarrow> string \<Rightarrow> string \<Rightarrow> files \<Rightarrow> esp_err \<times> files" where
  "replace_file dk tmp path printed fs =
     (if \<not> dk_open dk then (ESP_FAIL, fs)
      else if \<not> dk_write dk \<or> \<not> dk_close dk then (ESP_FAIL, fs(tmp := None))
      else if \<not> dk_rename dk then (ESP_FAIL, fs(path := None, tmp := None))
      else (ESP_OK, fs(path \<mapsto> printed, tmp := None)))"

text \<open>The document is exported after the checks; \<open>exported\<close> is the outcome.\<close>

definition save_document :: "json_lib \<Rightarrow> disk \<Rightarrow> string \<Rightarrow> esp_err + cjson \<Rightarrow> files \<Rightarrow> esp_err \<times> files" where
  "save_document lib dk path exported fs =
     (if path = [] then (ESP_ERR_INVALID_ARG, fs)
      else if ensure_sd_for_path dk path \<noteq> ESP_OK then (ensure_sd_for_path dk path, fs)
      else if mkdir_parent dk path \<noteq> ESP_OK then (mkdir_parent dk path, fs)
      else case make_tmp_path path of
        Inl err \<Rightarrow> (err, fs)
      | Inr tmp \<Rightarrow>
          (case exported of
             Inl err \<Rightarrow> (err, fs)
           | Inr root \<Rightarrow> replace_file dk tmp path (cJSON_PrintUnformatted lib root) fs))"

definition load_document :: "json_lib \<Rightarrow> disk \<Rightarrow> nat \<Rightarrow> string \<Rightarrow> files \<Rightarrow> esp_err + cjson" where
  "load_document lib dk max_bytes path fs =
     (if path = [] then Inl ESP_ERR_INVALID_ARG
      else if ensure_sd_for_path dk path \<noteq> ESP_OK then Inl (ensure_sd_for_path dk path)
      else case fs path of
        None \<Rightarrow> Inl ESP_ERR_NOT_FOUND
      | Some s \<Rightarrow>
          (if length s > max_bytes then Inl ESP_ERR_INVALID_SIZE
           else if \<not> dk_read dk then Inl ESP_FAIL
           else case cJSON_Parse lib s of None \<Rightarrow> Inl ESP_ERR_INVALID_ARG | Some root \<Rightarrow> Inr root))"

section \<open>Saving and loading\<close>

lemma save_document_ok:
  "save_document lib dk path (Inr root) fs = (ESP_OK, fs') \<Longrightarrow> fs' path = Some (cJSON_PrintUnformatted lib root)"
  by (auto simp: save_document_def replace_file_def make_tmp_path_def split: if_splits sum.splits)

lemma load_saved:
  assumes "save_document lib dk path (Inr root) fs = (ESP_OK, fs')" and "dk_card dk' = ESP_OK" and "dk_read dk'"
    and "cJSON_Parse lib (cJSON_PrintUnformatted lib root) = Some root"
    and "length (cJSON_PrintUnformatted lib root) \<le> max_bytes"
  shows "load_document lib dk' max_bytes path fs' = Inr root"
proof -
  have "path \<noteq> []" using assms(1) by (auto simp: save_document_def split: if_splits)
  moreover have "ensure_sd_for_path dk' path = ESP_OK" using assms(2) by (simp add: ensure_sd_for_path_def)
  ultimately show ?thesis
    using save_document_ok [OF assms(1)] assms(3-5) by (simp add: load_document_def)
qed

text \<open>A save that fails before the last step leaves the stored document; one that fails at it removes it.\<close>

lemma save_document_failed:
  assumes "save_document lib dk path root fs = (err, fs')" and "err \<noteq> ESP_OK" and "dk_rename dk"
  shows "fs' path = fs path"
proof -
  have "path \<noteq> path @ ''.tmp''" by simp
  then show ?thesis
    using assms by (auto simp: save_document_def replace_file_def make_tmp_path_def split: if_splits sum.splits)
qed

lemma rename_failure_loses_file:
  assumes "path \<noteq> []" and "ensure_sd_for_path dk path = ESP_OK" and "mkdir_parent dk path = ESP_OK"
    and "length path < 188" and "dk_open dk" "dk_write dk" "dk_close dk" and "\<not> dk_rename dk"
  shows "save_document lib dk path (Inr root) fs = (ESP_FAIL, fs(path := None, (path @ ''.tmp'') := None))"
  using assms by (simp add: save_document_def replace_file_def make_tmp_path_def)

end
