(* ===== verification/Room_Store.thy ===== *)
theory Room_Store
  imports File_Store Keyed_Table Scenario_Validation
begin

text \<open>
  The stores of scenarios (\<open>room_scenario/room_scenario.c\<close>) and of rooms
  (\<open>room_catalog/room_catalog.c\<close> with its JSON form and persistence).  Mutexes are always obtained
  and allocation succeeds.
\<close>

section \<open>Scenarios\<close>

definition ROOM_SCENARIO_MAX_SCENARIOS :: nat where "ROOM_SCENARIO_MAX_SCENARIOS = 12"

record scenario_slot =
  ss_in_use :: bool
  ss_scenario :: room_scenario

definition scenario_slot_zero :: scenario_slot where
  "scenario_slot_zero = \<lparr>ss_in_use = False, ss_scenario = room_scenario_zero\<rparr>"

record scenario_store =
  st_slots :: "scenario_slot list"
  st_generation :: u32

definition scenario_store_zero :: scenario_store where
  "scenario_store_zero = \<lparr>st_slots = replicate ROOM_SCENARIO_MAX_SCENARIOS scenario_slot_zero, st_generation = 0\<rparr>"

definition room_scenario_find_locked :: "string \<Rightarrow> scenario_slot list \<Rightarrow> nat option" where
  "room_scenario_find_locked scenario_id slots =
     (if scenario_id = [] then None
      else find_index (\<lambda>s. ss_in_use s \<and> sc_id (ss_scenario s) = scenario_id) slots)"

definition room_scenario_find_free_locked :: "scenario_slot list \<Rightarrow> nat option" where
  "room_scenario_find_free_locked slots = find_index (\<lambda>s. \<not> ss_in_use s) slots"

definition room_scenario_add :: "room_scenario \<Rightarrow> scenario_store \<Rightarrow> esp_err \<times> scenario_store" where
  "room_scenario_add sc s =
     (if room_scenario_validate_structural sc \<noteq> ESP_OK then (room_scenario_validate_structural sc, s)
      else case (case room_scenario_find_locked (sc_id sc) (st_slots s) of
                   Some i \<Rightarrow> Some i | None \<Rightarrow> room_scenario_find_free_locked (st_slots s)) of
        None \<Rightarrow> (ESP_ERR_NO_MEM, s)
      | Some i \<Rightarrow> (ESP_OK, s\<lparr>st_slots := (st_slots s)[i := \<lparr>ss_in_use = True, ss_scenario = sc\<rparr>],
                            st_generation := st_generation s + 1\<rparr>))"

definition room_scenario_delete :: "string \<Rightarrow> scenario_store \<Rightarrow> esp_err \<times> scenario_store" where
  "room_scenario_delete scenario_id s =
     (if scenario_id = [] then (ESP_ERR_INVALID_ARG, s)
      else case room_scenario_find_locked scenario_id (st_slots s) of
        None \<Rightarrow> (ESP_ERR_NOT_FOUND, s)
      | Some i \<Rightarrow> (ESP_OK, s\<lparr>st_slots := (st_slots s)[i := scenario_slot_zero], st_generation := st_generation s + 1\<rparr>))"

definition room_scenario_get :: "string \<Rightarrow> scenario_store \<Rightarrow> esp_err + room_scenario" where
  "room_scenario_get scenario_id s =
     (if scenario_id = [] then Inl ESP_ERR_INVALID_ARG
      else case room_scenario_find_locked scenario_id (st_slots s) of
        None \<Rightarrow> Inl ESP_ERR_NOT_FOUND
      | Some i \<Rightarrow> Inr (ss_scenario (st_slots s ! i)))"

definition room_scenario_exists_in_room :: "string \<Rightarrow> string \<Rightarrow> scenario_store \<Rightarrow> esp_err" where
  "room_scenario_exists_in_room scenario_id room_id s =
     (if scenario_id = [] \<or> room_id = [] then ESP_ERR_INVALID_ARG
      else case room_scenario_find_locked scenario_id (st_slots s) of
        None \<Rightarrow> ESP_ERR_NOT_FOUND
      | Some i \<Rightarrow> (if sc_room_id (ss_scenario (st_slots s ! i)) = room_id then ESP_OK else ESP_ERR_INVALID_STATE))"

definition room_scenario_get_name_in_room :: "string \<Rightarrow> string \<Rightarrow> nat \<Rightarrow> scenario_store \<Rightarrow> esp_err + string" where
  "room_scenario_get_name_in_room scenario_id room_id out_name_size s =
     (if scenario_id = [] \<or> room_id = [] \<or> out_name_size = 0 then Inl ESP_ERR_INVALID_ARG
      else case room_scenario_find_locked scenario_id (st_slots s) of
        None \<Rightarrow> Inl ESP_ERR_NOT_FOUND
      | Some i \<Rightarrow> (if sc_room_id (ss_scenario (st_slots s ! i)) \<noteq> room_id then Inl ESP_ERR_INVALID_STATE
                  else Inr (take (out_name_size - 1) (sc_name (ss_scenario (st_slots s ! i))))))"

definition scenarios_of_room :: "string \<Rightarrow> scenario_store \<Rightarrow> room_scenario list" where
  "scenarios_of_room room_id s =
     map ss_scenario (filter (\<lambda>t. ss_in_use t \<and> sc_room_id (ss_scenario t) = room_id) (st_slots s))"

text \<open>The entries that fit, the number of entries, and the status.\<close>

definition room_scenario_list_by_room ::
  "string \<Rightarrow> nat \<Rightarrow> scenario_store \<Rightarrow> esp_err \<times> room_scenario list \<times> nat" where
  "room_scenario_list_by_room room_id max_count s =
     (if room_id = [] then (ESP_ERR_INVALID_ARG, [], 0)
      else let found = scenarios_of_room room_id s
        in (if length found > max_count then ESP_ERR_INVALID_SIZE else ESP_OK, take max_count found, length found))"

definition room_scenario_get_by_room_index ::
  "string \<Rightarrow> nat \<Rightarrow> scenario_store \<Rightarrow> (esp_err + room_scenario) \<times> nat" where
  "room_scenario_get_by_room_index room_id index s =
     (if room_id = [] then (Inl ESP_ERR_INVALID_ARG, 0)
      else let found = scenarios_of_room room_id s
        in (if index < length found then Inr (found ! index) else Inl ESP_ERR_NOT_FOUND, length found))"

definition room_scenario_clear :: "scenario_store \<Rightarrow> scenario_store" where
  "room_scenario_clear s =
     s\<lparr>st_slots := replicate (length (st_slots s)) scenario_slot_zero, st_generation := st_generation s + 1\<rparr>"

definition room_scenario_validate_by_id :: "string \<Rightarrow> scenario_store \<Rightarrow> esp_err + validation_report" where
  "room_scenario_validate_by_id scenario_id s =
     (if scenario_id = [] then Inl ESP_ERR_INVALID_ARG
      else map_sum id room_scenario_validate (room_scenario_get scenario_id s))"

section \<open>Rooms\<close>

definition ROOM_CATALOG_ROOM_ID_MAX_LEN :: nat where "ROOM_CATALOG_ROOM_ID_MAX_LEN = 32"
definition ROOM_CATALOG_ROOM_NAME_MAX_LEN :: nat where "ROOM_CATALOG_ROOM_NAME_MAX_LEN = 64"

record room_entry =
  rm_room_id :: string
  rm_name :: string
  rm_device_count :: u16

text \<open>\<open>rc_max\<close> is the build option \<open>CONFIG_SCENEHUB_MAX_ROOMS\<close>.\<close>

record room_catalog =
  rc_max :: nat
  rc_rooms :: "room_entry list"
  rc_generation :: u32

definition room_catalog_normalize_name :: "room_entry \<Rightarrow> string" where
  "room_catalog_normalize_name e =
     (if rm_name e \<noteq> [] then rm_name e else if rm_room_id e \<noteq> [] then rm_room_id e else ''Unassigned'')"

definition room_catalog_find_entry_index_locked :: "string \<Rightarrow> room_entry list \<Rightarrow> nat option" where
  "room_catalog_find_entry_index_locked room_id rooms =
     (if room_id = [] then None else find_index (\<lambda>e. rm_room_id e = room_id) rooms)"

definition room_catalog_entry_valid :: "room_entry \<Rightarrow> bool" where
  "room_catalog_entry_valid e \<longleftrightarrow> rm_room_id e \<noteq> [] \<and> length (rm_room_id e) < ROOM_CATALOG_ROOM_ID_MAX_LEN \<and>
     length (room_catalog_normalize_name e) < ROOM_CATALOG_ROOM_NAME_MAX_LEN"

definition room_catalog_replace_all_locked :: "room_entry list \<Rightarrow> room_catalog \<Rightarrow> room_catalog" where
  "room_catalog_replace_all_locked items c = c\<lparr>rc_rooms := items, rc_generation := rc_generation c + 1\<rparr>"

definition room_catalog_upsert :: "room_entry \<Rightarrow> room_catalog \<Rightarrow> esp_err \<times> room_catalog" where
  "room_catalog_upsert entry c =
     (if \<not> room_catalog_entry_valid entry then (ESP_ERR_INVALID_ARG, c)
      else let e = \<lparr>rm_room_id = quest_str_copy ROOM_CATALOG_ROOM_ID_MAX_LEN (rm_room_id entry),
                    rm_name = quest_str_copy ROOM_CATALOG_ROOM_NAME_MAX_LEN (room_catalog_normalize_name entry),
                    rm_device_count = rm_device_count entry\<rparr>
        in case room_catalog_find_entry_index_locked (rm_room_id e) (rc_rooms c) of
          Some i \<Rightarrow> (ESP_OK, room_catalog_replace_all_locked ((rc_rooms c)[i := e]) c)
        | None \<Rightarrow>
            (if length (rc_rooms c) \<ge> rc_max c then (ESP_ERR_NO_MEM, c)
             else (ESP_OK, room_catalog_replace_all_locked (rc_rooms c @ [e]) c)))"

definition room_catalog_delete :: "string \<Rightarrow> room_catalog \<Rightarrow> esp_err \<times> room_catalog" where
  "room_catalog_delete room_id c =
     (if room_id = [] \<or> room_id = ''unassigned'' then (ESP_ERR_INVALID_ARG, c)
      else case room_catalog_find_entry_index_locked room_id (rc_rooms c) of
        None \<Rightarrow> (ESP_ERR_NOT_FOUND, c)
      | Some i \<Rightarrow> (ESP_OK, room_catalog_replace_all_locked (take i (rc_rooms c) @ drop (Suc i) (rc_rooms c)) c))"

definition room_catalog_clear :: "room_catalog \<Rightarrow> room_catalog" where
  "room_catalog_clear c = room_catalog_replace_all_locked [] c"

definition room_catalog_exists :: "string \<Rightarrow> room_catalog \<Rightarrow> bool" where
  "room_catalog_exists room_id c \<longleftrightarrow> room_id \<noteq> [] \<and> list_ex (\<lambda>e. rm_room_id e = room_id) (rc_rooms c)"

definition room_catalog_get :: "nat \<Rightarrow> room_catalog \<Rightarrow> esp_err + room_entry" where
  "room_catalog_get index c = (if index < length (rc_rooms c) then Inr (rc_rooms c ! index) else Inl ESP_ERR_NOT_FOUND)"

definition room_catalog_find :: "string \<Rightarrow> room_catalog \<Rightarrow> esp_err + room_entry" where
  "room_catalog_find room_id c =
     (if room_id = [] then Inl ESP_ERR_INVALID_ARG
      else case room_catalog_find_entry_index_locked room_id (rc_rooms c) of
        None \<Rightarrow> Inl ESP_ERR_NOT_FOUND | Some i \<Rightarrow> Inr (rc_rooms c ! i))"

subsection \<open>JSON form\<close>

text \<open>Reading a string member: absent, null, of another type, empty or too long.\<close>

definition json_copy_string :: "cjson option \<Rightarrow> string \<Rightarrow> nat \<Rightarrow> bool \<Rightarrow> esp_err + string" where
  "json_copy_string json name dst_len required =
     (case cJSON_GetObjectItemCaseSensitive json name of
        None \<Rightarrow> (if required then Inl ESP_ERR_INVALID_ARG else Inr [])
      | Some CNull \<Rightarrow> (if required then Inl ESP_ERR_INVALID_ARG else Inr [])
      | Some (CString s) \<Rightarrow>
          (if (required \<and> s = []) \<or> length s \<ge> dst_len then Inl ESP_ERR_INVALID_ARG else Inr s)
      | Some _ \<Rightarrow> Inl ESP_ERR_INVALID_ARG)"

definition room_catalog_entry_to_json :: "room_entry \<Rightarrow> cjson" where
  "room_catalog_entry_to_json e = CObject [(''room_id'', CString (rm_room_id e)), (''name'', CString (rm_name e))]"

definition room_catalog_entry_from_json :: "cjson \<Rightarrow> esp_err + room_entry" where
  "room_catalog_entry_from_json json =
     (if \<not> cJSON_IsObject (Some json) then Inl ESP_ERR_INVALID_ARG
      else case json_copy_string (Some json) ''room_id'' ROOM_CATALOG_ROOM_ID_MAX_LEN False of
        Inl err \<Rightarrow> Inl err
      | Inr rid \<Rightarrow>
          (case (if rid \<noteq> [] then Inr rid
                 else json_copy_string (Some json) ''id'' ROOM_CATALOG_ROOM_ID_MAX_LEN True) of
             Inl err \<Rightarrow> Inl err
           | Inr rid1 \<Rightarrow>
               (case json_copy_string (Some json) ''name'' ROOM_CATALOG_ROOM_NAME_MAX_LEN False of
                  Inl err \<Rightarrow> Inl err
                | Inr name \<Rightarrow>
                    (let e = \<lparr>rm_room_id = rid1,
                              rm_name = (if name \<noteq> [] then name else quest_str_copy ROOM_CATALOG_ROOM_NAME_MAX_LEN rid1),
                              rm_device_count = 0\<rparr>
                     in if room_catalog_entry_valid e then Inr e else Inl ESP_ERR_INVALID_ARG))))"

fun read_all :: "('a \<Rightarrow> esp_err + 'b) \<Rightarrow> 'a list \<Rightarrow> esp_err + 'b list" where
  "read_all f [] = Inr []"
| "read_all f (x # xs) =
     (case f x of Inl err \<Rightarrow> Inl err
      | Inr y \<Rightarrow> (case read_all f xs of Inl err \<Rightarrow> Inl err | Inr ys \<Rightarrow> Inr (y # ys)))"

definition room_catalog_export_json :: "room_catalog \<Rightarrow> cjson" where
  "room_catalog_export_json c =
     CObject [(''version'', CNumber 1), (''rooms'', CArray (map room_catalog_entry_to_json (rc_rooms c)))]"

definition room_catalog_import_json :: "cjson \<Rightarrow> room_catalog \<Rightarrow> esp_err \<times> room_catalog" where
  "room_catalog_import_json root c =
     (if \<not> cJSON_IsObject (Some root) then (ESP_ERR_INVALID_ARG, c)
      else if cJSON_GetObjectItemCaseSensitive (Some root) ''version'' \<noteq> Some (CNumber 1) then (ESP_ERR_INVALID_ARG, c)
      else case cJSON_GetObjectItemCaseSensitive (Some root) ''rooms'' of
        Some (CArray items) \<Rightarrow>
          (if length items > rc_max c then (ESP_ERR_INVALID_ARG, c)
           else case read_all room_catalog_entry_from_json items of
             Inl err \<Rightarrow> (err, c)
           | Inr rooms \<Rightarrow>
               (if \<not> distinct (map rm_room_id rooms) then (ESP_ERR_INVALID_ARG, c)
                else (ESP_OK, room_catalog_replace_all_locked rooms c)))
      | _ \<Rightarrow> (ESP_ERR_INVALID_ARG, c))"

definition ROOM_CATALOG_FILE_MAX_BYTES :: nat where "ROOM_CATALOG_FILE_MAX_BYTES = 32768"
definition ROOM_CATALOG_STORAGE_PATH :: string where "ROOM_CATALOG_STORAGE_PATH = ''/sdcard/quest/rooms.json''"

definition room_catalog_save_to_path_locked :: "json_lib \<Rightarrow> disk \<Rightarrow> string \<Rightarrow> room_catalog \<Rightarrow> files \<Rightarrow> esp_err \<times> files" where
  "room_catalog_save_to_path_locked lib dk path c = save_document lib dk path (Inr (room_catalog_export_json c))"

definition room_catalog_load_from_path_locked ::
  "json_lib \<Rightarrow> disk \<Rightarrow> string \<Rightarrow> files \<Rightarrow> room_catalog \<Rightarrow> esp_err \<times> room_catalog" where
  "room_catalog_load_from_path_locked lib dk path fs c =
     (case load_document lib dk ROOM_CATALOG_FILE_MAX_BYTES path fs of
        Inl err \<Rightarrow> (err, c) | Inr root \<Rightarrow> room_catalog_import_json root c)"

text \<open>An operation on the table followed by saving it: \<open>room_catalog_upsert_and_save\<close> and its kin.\<close>

definition and_save :: "(esp_err \<times> 'c) \<Rightarrow> ('c \<Rightarrow> files \<Rightarrow> esp_err \<times> files) \<Rightarrow> files \<Rightarrow> esp_err \<times> 'c \<times> files" where
  "and_save r save fs =
     (let (err, c) = r in
      if err \<noteq> ESP_OK then (err, c, fs) else let (err1, fs1) = save c fs in (err1, c, fs1))"

definition room_catalog_upsert_and_save ::
  "json_lib \<Rightarrow> disk \<Rightarrow> room_entry \<Rightarrow> room_catalog \<Rightarrow> files \<Rightarrow> esp_err \<times> room_catalog \<times> files" where
  "room_catalog_upsert_and_save lib dk entry c =
     and_save (room_catalog_upsert entry c) (room_catalog_save_to_path_locked lib dk ROOM_CATALOG_STORAGE_PATH)"

definition room_catalog_delete_and_save ::
  "json_lib \<Rightarrow> disk \<Rightarrow> string \<Rightarrow> room_catalog \<Rightarrow> files \<Rightarrow> esp_err \<times> room_catalog \<times> files" where
  "room_catalog_delete_and_save lib dk room_id c =
     and_save (room_catalog_delete room_id c) (room_catalog_save_to_path_locked lib dk ROOM_CATALOG_STORAGE_PATH)"

definition room_catalog_import_json_and_save ::
  "json_lib \<Rightarrow> disk \<Rightarrow> cjson \<Rightarrow> room_catalog \<Rightarrow> files \<Rightarrow> esp_err \<times> room_catalog \<times> files" where
  "room_catalog_import_json_and_save lib dk root c =
     and_save (room_catalog_import_json root c) (room_catalog_save_to_path_locked lib dk ROOM_CATALOG_STORAGE_PATH)"

end
