(* ===== verification/Profile_Store.thy ===== *)
theory Profile_Store
  imports Room_Store
begin

text \<open>
  The store of game profiles (\<open>gm_profile_store/gm_game_profile.c\<close>): the table, the JSON form, the
  references to rooms and scenarios, and persistence.
\<close>

section \<open>Profiles\<close>

definition GM_GAME_PROFILE_ID_MAX_LEN :: nat where "GM_GAME_PROFILE_ID_MAX_LEN = 32"
definition GM_GAME_PROFILE_NAME_MAX_LEN :: nat where "GM_GAME_PROFILE_NAME_MAX_LEN = 64"
definition GM_GAME_PROFILE_ROOM_ID_MAX_LEN :: nat where "GM_GAME_PROFILE_ROOM_ID_MAX_LEN = 32"
definition GM_GAME_PROFILE_SCENARIO_ID_MAX_LEN :: nat where "GM_GAME_PROFILE_SCENARIO_ID_MAX_LEN = 32"
definition GM_GAME_PROFILE_PACK_ID_MAX_LEN :: nat where "GM_GAME_PROFILE_PACK_ID_MAX_LEN = 32"
definition GM_GAME_PROFILE_MAX_PROFILES :: nat where "GM_GAME_PROFILE_MAX_PROFILES = 32"

record game_profile =
  gp_id :: string
  gp_name :: string
  gp_room_id :: string
  gp_scenario_id :: string
  gp_duration_ms :: u32
  gp_hint_pack_id :: string
  gp_audio_pack_id :: string
  gp_enabled :: bool

definition game_profile_zero :: game_profile where
  "game_profile_zero = \<lparr>gp_id = [], gp_name = [], gp_room_id = [], gp_scenario_id = [], gp_duration_ms = 0,
     gp_hint_pack_id = [], gp_audio_pack_id = [], gp_enabled = False\<rparr>"

record profile_slot =
  pl_in_use :: bool
  pl_profile :: game_profile

definition profile_slot_zero :: profile_slot where
  "profile_slot_zero = \<lparr>pl_in_use = False, pl_profile = game_profile_zero\<rparr>"

record profile_store =
  pt_slots :: "profile_slot list"
  pt_generation :: u32

definition profile_store_zero :: profile_store where
  "profile_store_zero = \<lparr>pt_slots = replicate GM_GAME_PROFILE_MAX_PROFILES profile_slot_zero, pt_generation = 0\<rparr>"

definition gm_game_profile_valid :: "game_profile \<Rightarrow> bool" where
  "gm_game_profile_valid p \<longleftrightarrow> gp_id p \<noteq> [] \<and> gp_name p \<noteq> [] \<and> gp_room_id p \<noteq> [] \<and> gp_scenario_id p \<noteq> [] \<and>
     gp_duration_ms p > 0"

definition gm_game_profile_find_locked :: "string \<Rightarrow> profile_slot list \<Rightarrow> nat option" where
  "gm_game_profile_find_locked profile_id slots =
     (if profile_id = [] then None
      else find_index (\<lambda>s. pl_in_use s \<and> gp_id (pl_profile s) = profile_id) slots)"

definition gm_game_profile_find_free_locked :: "profile_slot list \<Rightarrow> nat option" where
  "gm_game_profile_find_free_locked slots = find_index (\<lambda>s. \<not> pl_in_use s) slots"

definition gm_game_profile_upsert :: "game_profile \<Rightarrow> profile_store \<Rightarrow> esp_err \<times> profile_store" where
  "gm_game_profile_upsert p s =
     (if \<not> gm_game_profile_valid p then (ESP_ERR_INVALID_ARG, s)
      else case (case gm_game_profile_find_locked (gp_id p) (pt_slots s) of
                   Some i \<Rightarrow> Some i | None \<Rightarrow> gm_game_profile_find_free_locked (pt_slots s)) of
        None \<Rightarrow> (ESP_ERR_NO_MEM, s)
      | Some i \<Rightarrow> (ESP_OK, s\<lparr>pt_slots := (pt_slots s)[i := \<lparr>pl_in_use = True, pl_profile = p\<rparr>],
                            pt_generation := pt_generation s + 1\<rparr>))"

definition gm_game_profile_get :: "string \<Rightarrow> profile_store \<Rightarrow> esp_err + game_profile" where
  "gm_game_profile_get profile_id s =
     (if profile_id = [] then Inl ESP_ERR_INVALID_ARG
      else case gm_game_profile_find_locked profile_id (pt_slots s) of
        None \<Rightarrow> Inl ESP_ERR_NOT_FOUND
      | Some i \<Rightarrow> Inr (pl_profile (pt_slots s ! i)))"

definition gm_game_profile_list_by_room ::
  "string \<Rightarrow> nat \<Rightarrow> profile_store \<Rightarrow> esp_err \<times> game_profile list \<times> nat" where
  "gm_game_profile_list_by_room room_id max_count s =
     (if room_id = [] then (ESP_ERR_INVALID_ARG, [], 0)
      else let found = map pl_profile (filter (\<lambda>t. pl_in_use t \<and> gp_room_id (pl_profile t) = room_id) (pt_slots s))
        in (if length found > max_count then ESP_ERR_INVALID_SIZE else ESP_OK, take max_count found, length found))"

definition gm_game_profile_delete :: "string \<Rightarrow> profile_store \<Rightarrow> esp_err \<times> profile_store" where
  "gm_game_profile_delete profile_id s =
     (if profile_id = [] then (ESP_ERR_INVALID_ARG, s)
      else case gm_game_profile_find_locked profile_id (pt_slots s) of
        None \<Rightarrow> (ESP_ERR_NOT_FOUND, s)
      | Some i \<Rightarrow> (ESP_OK, s\<lparr>pt_slots := (pt_slots s)[i := profile_slot_zero], pt_generation := pt_generation s + 1\<rparr>))"

definition gm_game_profile_clear :: "profile_store \<Rightarrow> profile_store" where
  "gm_game_profile_clear s =
     s\<lparr>pt_slots := replicate (length (pt_slots s)) profile_slot_zero, pt_generation := pt_generation s + 1\<rparr>"

text \<open>A profile must refer to a room of the catalogue and to a scenario of that room.\<close>

definition gm_game_profile_validate_reference :: "room_catalog \<Rightarrow> scenario_store \<Rightarrow> game_profile \<Rightarrow> esp_err" where
  "gm_game_profile_validate_reference c s p =
     (if \<not> gm_game_profile_valid p then ESP_ERR_INVALID_ARG
      else if \<not> room_catalog_exists (gp_room_id p) c then ESP_ERR_NOT_FOUND
      else room_scenario_exists_in_room (gp_scenario_id p) (gp_room_id p) s)"

section \<open>JSON form\<close>

definition gm_game_profile_to_json :: "game_profile \<Rightarrow> esp_err + cjson" where
  "gm_game_profile_to_json p =
     (if \<not> gm_game_profile_valid p then Inl ESP_ERR_INVALID_ARG
      else Inr (CObject [(''id'', CString (gp_id p)), (''name'', CString (gp_name p)),
        (''room_id'', CString (gp_room_id p)), (''scenario_id'', CString (gp_scenario_id p)),
        (''duration_ms'', CNumber (uint (gp_duration_ms p))),
        (''hint_pack_id'', CString (gp_hint_pack_id p)), (''audio_pack_id'', CString (gp_audio_pack_id p)),
        (''enabled'', CBool (gp_enabled p))]))"

definition json_duration :: "cjson option \<Rightarrow> esp_err + u32" where
  "json_duration item = (case item of
     Some (CNumber n) \<Rightarrow> (if n \<le> 0 \<or> n > 0xFFFFFFFF then Inl ESP_ERR_INVALID_ARG else Inr (word_of_int n))
   | _ \<Rightarrow> Inl ESP_ERR_INVALID_ARG)"

definition json_enabled :: "cjson option \<Rightarrow> esp_err + bool" where
  "json_enabled item = (case item of None \<Rightarrow> Inr True | Some (CBool b) \<Rightarrow> Inr b | _ \<Rightarrow> Inl ESP_ERR_INVALID_ARG)"

definition bind_result :: "esp_err + 'a \<Rightarrow> ('a \<Rightarrow> esp_err + 'b) \<Rightarrow> esp_err + 'b" where
  "bind_result r f = (case r of Inl err \<Rightarrow> Inl err | Inr x \<Rightarrow> f x)"

definition gm_game_profile_from_json :: "cjson \<Rightarrow> esp_err + game_profile" where
  "gm_game_profile_from_json json =
     (let j = Some json in
      if \<not> cJSON_IsObject j then Inl ESP_ERR_INVALID_ARG
      else bind_result (json_copy_string j ''id'' GM_GAME_PROFILE_ID_MAX_LEN True) (\<lambda>id.
        bind_result (json_copy_string j ''name'' GM_GAME_PROFILE_NAME_MAX_LEN True) (\<lambda>name.
        bind_result (json_copy_string j ''room_id'' GM_GAME_PROFILE_ROOM_ID_MAX_LEN True) (\<lambda>room_id.
        bind_result (json_copy_string j ''scenario_id'' GM_GAME_PROFILE_SCENARIO_ID_MAX_LEN True) (\<lambda>scenario_id.
        bind_result (json_copy_string j ''hint_pack_id'' GM_GAME_PROFILE_PACK_ID_MAX_LEN False) (\<lambda>hint.
        bind_result (json_copy_string j ''audio_pack_id'' GM_GAME_PROFILE_PACK_ID_MAX_LEN False) (\<lambda>audio.
        bind_result (json_duration (cJSON_GetObjectItemCaseSensitive j ''duration_ms'')) (\<lambda>duration.
        bind_result (json_enabled (cJSON_GetObjectItemCaseSensitive j ''enabled'')) (\<lambda>enabled.
          let p = \<lparr>gp_id = id, gp_name = name, gp_room_id = room_id, gp_scenario_id = scenario_id,
                   gp_duration_ms = duration, gp_hint_pack_id = hint, gp_audio_pack_id = audio, gp_enabled = enabled\<rparr>
          in if gm_game_profile_valid p then Inr p else Inl ESP_ERR_INVALID_ARG)))))))))"

definition stored_profiles :: "profile_store \<Rightarrow> game_profile list" where
  "stored_profiles s = map pl_profile (filter pl_in_use (pt_slots s))"

definition gm_game_profile_export_json :: "profile_store \<Rightarrow> esp_err + cjson" where
  "gm_game_profile_export_json s =
     (case read_all gm_game_profile_to_json (stored_profiles s) of
        Inl err \<Rightarrow> Inl err
      | Inr items \<Rightarrow> Inr (CObject [(''version'', CNumber 1), (''game_profiles'', CArray items)]))"

text \<open>Slots from the front of the table hold the imported profiles.\<close>

definition fill_slots :: "nat \<Rightarrow> game_profile list \<Rightarrow> profile_slot list" where
  "fill_slots n ps = map (\<lambda>p. \<lparr>pl_in_use = True, pl_profile = p\<rparr>) ps @ replicate (n - length ps) profile_slot_zero"

text \<open>
  The loop reads a profile and compares it with the earlier ones; both failures give
  \<open>ESP_ERR_INVALID_ARG\<close>, so that the order of the two checks does not matter.
\<close>

definition gm_game_profile_import_json :: "cjson \<Rightarrow> profile_store \<Rightarrow> esp_err \<times> profile_store" where
  "gm_game_profile_import_json root s =
     (if \<not> cJSON_IsObject (Some root) then (ESP_ERR_INVALID_ARG, s)
      else if cJSON_GetObjectItemCaseSensitive (Some root) ''version'' \<noteq> Some (CNumber 1)
      then (ESP_ERR_INVALID_VERSION, s)
      else case cJSON_GetObjectItemCaseSensitive (Some root) ''game_profiles'' of
        Some (CArray items) \<Rightarrow>
          (if length items > GM_GAME_PROFILE_MAX_PROFILES then (ESP_ERR_INVALID_SIZE, s)
           else case read_all gm_game_profile_from_json items of
             Inl err \<Rightarrow> (err, s)
           | Inr ps \<Rightarrow>
               (if \<not> distinct (map gp_id ps) then (ESP_ERR_INVALID_ARG, s)
                else (ESP_OK, s\<lparr>pt_slots := fill_slots (length (pt_slots s)) ps,
                               pt_generation := pt_generation s + 1\<rparr>)))
      | _ \<Rightarrow> (ESP_ERR_INVALID_ARG, s))"

section \<open>Persistence\<close>

definition GM_GAME_PROFILE_FILE_MAX_BYTES :: nat where "GM_GAME_PROFILE_FILE_MAX_BYTES = 131072"
definition GM_GAME_PROFILE_STORAGE_PATH :: string where
  "GM_GAME_PROFILE_STORAGE_PATH = ''/sdcard/quest/game_profiles.json''"

definition gm_game_profile_save_to_path_locked ::
  "json_lib \<Rightarrow> disk \<Rightarrow> string \<Rightarrow> profile_store \<Rightarrow> files \<Rightarrow> esp_err \<times> files" where
  "gm_game_profile_save_to_path_locked lib dk path s = save_document lib dk path (gm_game_profile_export_json s)"

definition gm_game_profile_load_from_path_locked ::
  "json_lib \<Rightarrow> disk \<Rightarrow> string \<Rightarrow> files \<Rightarrow> profile_store \<Rightarrow> esp_err \<times> profile_store" where
  "gm_game_profile_load_from_path_locked lib dk path fs s =
     (case load_document lib dk GM_GAME_PROFILE_FILE_MAX_BYTES path fs of
        Inl err \<Rightarrow> (err, s) | Inr root \<Rightarrow> gm_game_profile_import_json root s)"

definition gm_game_profile_upsert_and_save ::
  "json_lib \<Rightarrow> disk \<Rightarrow> game_profile \<Rightarrow> profile_store \<Rightarrow> files \<Rightarrow> esp_err \<times> profile_store \<times> files" where
  "gm_game_profile_upsert_and_save lib dk p s =
     and_save (gm_game_profile_upsert p s) (gm_game_profile_save_to_path_locked lib dk GM_GAME_PROFILE_STORAGE_PATH)"

definition gm_game_profile_delete_and_save ::
  "json_lib \<Rightarrow> disk \<Rightarrow> string \<Rightarrow> profile_store \<Rightarrow> files \<Rightarrow> esp_err \<times> profile_store \<times> files" where
  "gm_game_profile_delete_and_save lib dk profile_id s =
     and_save (gm_game_profile_delete profile_id s)
       (gm_game_profile_save_to_path_locked lib dk GM_GAME_PROFILE_STORAGE_PATH)"

definition gm_game_profile_import_json_and_save ::
  "json_lib \<Rightarrow> disk \<Rightarrow> cjson \<Rightarrow> profile_store \<Rightarrow> files \<Rightarrow> esp_err \<times> profile_store \<times> files" where
  "gm_game_profile_import_json_and_save lib dk root s =
     and_save (gm_game_profile_import_json root s)
       (gm_game_profile_save_to_path_locked lib dk GM_GAME_PROFILE_STORAGE_PATH)"

end
