(* ===== verification/Profile_Store_Props.thy ===== *)
theory Profile_Store_Props
  imports Profile_Store
begin

text \<open>
  The profile store as a map: what every operation keeps, that saving and loading restores the
  profiles, and what a failing memory card does.
\<close>

interpretation profiles: keyed_table pl_in_use "\<lambda>s. gp_id (pl_profile s)" profile_slot_zero
  by unfold_locales (simp add: profile_slot_zero_def)

section \<open>The invariant\<close>

text \<open>The strings of a profile fit the arrays of its structure.\<close>

definition profile_fits :: "game_profile \<Rightarrow> bool" where
  "profile_fits p \<longleftrightarrow> length (gp_id p) < GM_GAME_PROFILE_ID_MAX_LEN \<and> length (gp_name p) < GM_GAME_PROFILE_NAME_MAX_LEN \<and>
     length (gp_room_id p) < GM_GAME_PROFILE_ROOM_ID_MAX_LEN \<and>
     length (gp_scenario_id p) < GM_GAME_PROFILE_SCENARIO_ID_MAX_LEN \<and>
     length (gp_hint_pack_id p) < GM_GAME_PROFILE_PACK_ID_MAX_LEN \<and>
     length (gp_audio_pack_id p) < GM_GAME_PROFILE_PACK_ID_MAX_LEN"

definition profiles_ok :: "profile_store \<Rightarrow> bool" where
  "profiles_ok s \<longleftrightarrow> length (pt_slots s) = GM_GAME_PROFILE_MAX_PROFILES \<and> profiles.unique_keys (pt_slots s) \<and>
     (\<forall>t \<in> set (pt_slots s). pl_in_use t \<longrightarrow> gm_game_profile_valid (pl_profile t) \<and> profile_fits (pl_profile t))"

inductive profiles_reachable :: "profile_store \<Rightarrow> bool" where
  profiles_start: "profiles_reachable profile_store_zero"
| profiles_upsert: "profiles_reachable s \<Longrightarrow> profile_fits p \<Longrightarrow> profiles_reachable (snd (gm_game_profile_upsert p s))"
| profiles_delete: "profiles_reachable s \<Longrightarrow> profiles_reachable (snd (gm_game_profile_delete k s))"
| profiles_clear: "profiles_reachable s \<Longrightarrow> profiles_reachable (gm_game_profile_clear s)"
| profiles_import: "profiles_reachable s \<Longrightarrow> profiles_reachable (snd (gm_game_profile_import_json root s))"

lemma find_is_slot_of: "k \<noteq> [] \<Longrightarrow> gm_game_profile_find_locked k slots = profiles.slot_of k slots"
  by (simp add: gm_game_profile_find_locked_def profiles.slot_of_def)

lemma get_is_contents:
  "gm_game_profile_get k s = (if k = [] then Inl ESP_ERR_INVALID_ARG
     else case profiles.contents (pt_slots s) k of None \<Rightarrow> Inl ESP_ERR_NOT_FOUND | Some t \<Rightarrow> Inr (pl_profile t))"
  by (simp add: gm_game_profile_get_def find_is_slot_of profiles.contents_def split: option.splits)

lemma upsert_keeps:
  assumes ok: "profiles_ok s" and fit: "profile_fits p"
  shows "profiles_ok (snd (gm_game_profile_upsert p s))"
proof (cases "gm_game_profile_valid p")
  case True
  then have ne: "gp_id p \<noteq> []" by (simp add: gm_game_profile_valid_def)
  let ?v = "\<lparr>pl_in_use = True, pl_profile = p\<rparr>"
  have put: "profiles_ok (s\<lparr>pt_slots := (pt_slots s)[i := ?v], pt_generation := g\<rparr>)"
    if "i < length (pt_slots s)" and "profiles.slot_of (gp_id p) (pt_slots s) = Some i \<or>
      profiles.slot_of (gp_id p) (pt_slots s) = None \<and> \<not> pl_in_use (pt_slots s ! i)" for i g
  proof -
    have "profiles.unique_keys ((pt_slots s)[i := ?v])"
      using profiles.write_entry(1) [of "pt_slots s" i ?v] ok that by (simp add: profiles_ok_def)
    then show ?thesis using ok fit True by (auto simp: profiles_ok_def dest!: set_update_subset_insert [THEN subsetD])
  qed
  show ?thesis
  proof (cases "profiles.slot_of (gp_id p) (pt_slots s)")
    case (Some i)
    then show ?thesis
      using True ne put [of i] profiles.slot_of_SomeD [OF Some] by (simp add: gm_game_profile_upsert_def find_is_slot_of)
  next
    case None
    show ?thesis
    proof (cases "gm_game_profile_find_free_locked (pt_slots s)")
      case (Some i)
      then have "i < length (pt_slots s)" "\<not> pl_in_use (pt_slots s ! i)"
        by (auto simp: gm_game_profile_find_free_locked_def dest: find_index_SomeD)
      with Some None True ne put [of i] show ?thesis by (simp add: gm_game_profile_upsert_def find_is_slot_of)
    qed (use None True ne ok in \<open>simp add: gm_game_profile_upsert_def find_is_slot_of\<close>)
  qed
qed (use ok in \<open>simp add: gm_game_profile_upsert_def\<close>)

lemma delete_keeps:
  assumes "profiles_ok s"
  shows "profiles_ok (snd (gm_game_profile_delete k s))"
proof (cases "k = [] \<or> profiles.slot_of k (pt_slots s) = None")
  case True
  then show ?thesis using assms by (auto simp: gm_game_profile_delete_def find_is_slot_of)
next
  case False
  then obtain i where i: "profiles.slot_of k (pt_slots s) = Some i" "k \<noteq> []" by auto
  have "profiles.unique_keys ((pt_slots s)[i := profile_slot_zero])"
    using profiles.clear_entry(1) [OF _ i(1)] assms by (simp add: profiles_ok_def)
  with i assms show ?thesis
    by (auto simp: gm_game_profile_delete_def find_is_slot_of profiles_ok_def profile_slot_zero_def
        dest!: set_update_subset_insert [THEN subsetD])
qed

section \<open>JSON\<close>

lemma copy_string_result:
  "json_copy_string j name n req = Inr t \<Longrightarrow> 0 < n \<Longrightarrow> length t < n"
  by (auto simp: json_copy_string_def split: option.splits cjson.splits if_splits)

lemma from_json_valid:
  assumes "gm_game_profile_from_json json = Inr p"
  shows "gm_game_profile_valid p \<and> profile_fits p"
  using assms
  by (auto simp: gm_game_profile_from_json_def Let_def bind_result_def profile_fits_def
      GM_GAME_PROFILE_ID_MAX_LEN_def GM_GAME_PROFILE_NAME_MAX_LEN_def GM_GAME_PROFILE_ROOM_ID_MAX_LEN_def
      GM_GAME_PROFILE_SCENARIO_ID_MAX_LEN_def GM_GAME_PROFILE_PACK_ID_MAX_LEN_def
      split: if_splits sum.splits dest!: copy_string_result)

lemma profile_round_trip:
  assumes "gm_game_profile_valid p" and "profile_fits p"
  obtains j where "gm_game_profile_to_json p = Inr j" and "gm_game_profile_from_json j = Inr p"
proof -
  have "0 < uint (gp_duration_ms p)" "\<not> 0xFFFFFFFF < uint (gp_duration_ms p)"
    using assms(1) unsigned_less [of "gp_duration_ms p", where 'a = int]
    by (auto simp: gm_game_profile_valid_def word_less_def)
  then have "json_duration (Some (CNumber (uint (gp_duration_ms p)))) = Inr (gp_duration_ms p)"
    by (simp add: json_duration_def)
  with assms that show thesis
    by (simp add: gm_game_profile_to_json_def gm_game_profile_from_json_def Let_def bind_result_def json_copy_string_def
        cJSON_GetObjectItemCaseSensitive_def gm_game_profile_valid_def profile_fits_def json_enabled_def)
qed

lemma read_all_round_trip:
  assumes "\<forall>p \<in> set ps. gm_game_profile_valid p \<and> profile_fits p"
  shows "\<exists>js. read_all gm_game_profile_to_json ps = Inr js \<and> read_all gm_game_profile_from_json js = Inr ps \<and>
    length js = length ps"
  using assms
proof (induction ps)
  case (Cons p ps)
  obtain j where "gm_game_profile_to_json p = Inr j" "gm_game_profile_from_json j = Inr p"
    using profile_round_trip Cons.prems by (metis list.set_intros(1))
  with Cons show ?case by auto
qed simp

lemma read_all_valid:
  "read_all gm_game_profile_from_json js = Inr ps \<Longrightarrow>
   length ps = length js \<and> (\<forall>p \<in> set ps. gm_game_profile_valid p \<and> profile_fits p)"
  by (induction js arbitrary: ps) (auto split: sum.splits dest: from_json_valid)

section \<open>Imported tables\<close>

lemma fill_slots_used:
  "length ps \<le> n \<Longrightarrow> length (fill_slots n ps) = n \<and>
     (\<forall>i < n. pl_in_use (fill_slots n ps ! i) \<longleftrightarrow> i < length ps) \<and>
     (\<forall>i < length ps. fill_slots n ps ! i = \<lparr>pl_in_use = True, pl_profile = ps ! i\<rparr>)"
  by (auto simp: fill_slots_def nth_append profile_slot_zero_def)

lemma fill_slots_unique:
  assumes "length ps \<le> n" and "distinct (map gp_id ps)"
  shows "profiles.unique_keys (fill_slots n ps)"
  using fill_slots_used [OF assms(1)] assms(2)
  by (auto simp: profiles.unique_keys_def distinct_conv_nth)

lemma fill_slots_ok:
  assumes "length ps \<le> GM_GAME_PROFILE_MAX_PROFILES" and "distinct (map gp_id ps)"
    and "\<forall>p \<in> set ps. gm_game_profile_valid p \<and> profile_fits p"
  shows "profiles_ok \<lparr>pt_slots = fill_slots GM_GAME_PROFILE_MAX_PROFILES ps, pt_generation = g\<rparr>"
  using fill_slots_used [OF assms(1)] fill_slots_unique [OF assms(1,2)] assms(3)
  by (auto simp: profiles_ok_def fill_slots_def profile_slot_zero_def)

lemma import_keeps:
  assumes "profiles_ok s"
  shows "profiles_ok (snd (gm_game_profile_import_json root s))"
proof (cases "snd (gm_game_profile_import_json root s) = s")
  case False
  then obtain ps where "snd (gm_game_profile_import_json root s) = s\<lparr>pt_slots := fill_slots (length (pt_slots s)) ps,
      pt_generation := pt_generation s + 1\<rparr>" "length ps \<le> GM_GAME_PROFILE_MAX_PROFILES" "distinct (map gp_id ps)"
      "\<forall>p \<in> set ps. gm_game_profile_valid p \<and> profile_fits p"
    by (auto simp: gm_game_profile_import_json_def split: if_splits option.splits cjson.splits sum.splits
        dest!: read_all_valid)
  with fill_slots_ok [of ps] assms show ?thesis by (auto simp: profiles_ok_def)
qed (use assms in simp)

lemma profiles_reachable_ok: "profiles_reachable s \<Longrightarrow> profiles_ok s"
proof (induction rule: profiles_reachable.induct)
  case profiles_start
  then show ?case by (simp add: profiles_ok_def profile_store_zero_def profiles.unique_keys_def profile_slot_zero_def)
next
  case (profiles_clear s)
  then show ?case by (simp add: profiles_ok_def gm_game_profile_clear_def profiles.unique_keys_def profile_slot_zero_def)
qed (simp_all add: upsert_keeps delete_keeps import_keeps)

section \<open>Saving and loading\<close>

lemma stored_entries:
  assumes "profiles_ok s"
  shows "distinct (map gp_id (stored_profiles s))" "length (stored_profiles s) \<le> GM_GAME_PROFILE_MAX_PROFILES"
    "\<forall>p \<in> set (stored_profiles s). gm_game_profile_valid p \<and> profile_fits p"
proof -
  have "distinct (map (\<lambda>t. gp_id (pl_profile t)) (filter pl_in_use xs))" if "profiles.unique_keys xs" for xs
    using that
  proof (induction xs)
    case (Cons x xs)
    have u: "profiles.unique_keys xs"
      using Cons.prems unfolding profiles.unique_keys_def by (metis Suc_less_eq length_Cons nat.inject nth_Cons_Suc)
    have "gp_id (pl_profile x) \<noteq> gp_id (pl_profile t)" if t: "t \<in> set xs" "pl_in_use t" "pl_in_use x" for t
    proof -
      obtain j where "j < length xs" "xs ! j = t" using t(1) by (auto simp: in_set_conv_nth)
      then show ?thesis
        using Cons.prems t(2,3) unfolding profiles.unique_keys_def
        by (metis Suc_less_eq length_Cons nat.distinct(1) nth_Cons_0 nth_Cons_Suc zero_less_Suc)
    qed
    then show ?case using Cons.IH [OF u] by auto
  qed simp
  then show "distinct (map gp_id (stored_profiles s))"
    using assms by (simp add: stored_profiles_def profiles_ok_def comp_def)
  show "length (stored_profiles s) \<le> GM_GAME_PROFILE_MAX_PROFILES"
    using assms length_filter_le [of pl_in_use "pt_slots s"] by (simp add: stored_profiles_def profiles_ok_def)
  show "\<forall>p \<in> set (stored_profiles s). gm_game_profile_valid p \<and> profile_fits p"
    using assms by (auto simp: stored_profiles_def profiles_ok_def)
qed

lemma refill_contents:
  assumes "profiles_ok s"
  shows "profiles.contents (fill_slots GM_GAME_PROFILE_MAX_PROFILES (stored_profiles s)) = profiles.contents (pt_slots s)"
proof (rule ext)
  fix k
  let ?f = "fill_slots GM_GAME_PROFILE_MAX_PROFILES (stored_profiles s)"
  note e = stored_entries [OF assms]
  have used: "(\<exists>i < length xs. pl_in_use (xs ! i) \<and> gp_id (pl_profile (xs ! i)) = k \<and> xs ! i = v) \<longleftrightarrow>
      v \<in> set xs \<and> pl_in_use v \<and> gp_id (pl_profile v) = k" for xs v
    by (auto simp: in_set_conv_nth)
  have same: "v \<in> set ?f \<and> pl_in_use v \<longleftrightarrow> v \<in> set (pt_slots s) \<and> pl_in_use v" for v
  proof -
    have "v \<in> set ?f \<and> pl_in_use v \<longleftrightarrow> pl_in_use v \<and> pl_profile v \<in> set (stored_profiles s)"
      by (cases v) (auto simp: fill_slots_def profile_slot_zero_def)
    also have "\<dots> \<longleftrightarrow> pl_in_use v \<and> v \<in> set (pt_slots s)"
    proof
      assume "pl_in_use v \<and> pl_profile v \<in> set (stored_profiles s)"
      then obtain t where t: "t \<in> set (pt_slots s)" "pl_in_use t" "pl_profile t = pl_profile v" "pl_in_use v"
        by (auto simp: stored_profiles_def)
      have "t = v" by (rule profile_slot.equality) (simp_all add: t)
      with t show "pl_in_use v \<and> v \<in> set (pt_slots s)" by simp
    qed (auto simp: stored_profiles_def)
    finally show ?thesis by blast
  qed
  show "profiles.contents ?f k = profiles.contents (pt_slots s) k"
  proof (rule profiles.contents_cong)
    show "profiles.unique_keys ?f" by (rule fill_slots_unique [OF e(2,1)])
    show "profiles.unique_keys (pt_slots s)" using assms by (simp add: profiles_ok_def)
  qed (use same in \<open>unfold used, blast\<close>)
qed

lemma import_exported:
  assumes "profiles_ok s" and "profiles_ok s0"
  obtains root where "gm_game_profile_export_json s = Inr root"
    and "gm_game_profile_import_json root s0 = (ESP_OK, s0\<lparr>pt_slots := fill_slots GM_GAME_PROFILE_MAX_PROFILES
      (stored_profiles s), pt_generation := pt_generation s0 + 1\<rparr>)"
proof -
  note e = stored_entries [OF assms(1)]
  obtain js where "read_all gm_game_profile_to_json (stored_profiles s) = Inr js"
    "read_all gm_game_profile_from_json js = Inr (stored_profiles s)" "length js = length (stored_profiles s)"
    using read_all_round_trip [OF e(3)] by blast
  with e assms(2) that show thesis
    by (simp add: gm_game_profile_export_json_def gm_game_profile_import_json_def cJSON_GetObjectItemCaseSensitive_def
        profiles_ok_def)
qed

text \<open>
  C20: profiles survive a restart.  If a store of profiles is saved successfully and the file is
  loaded later into any store, every profile is found again with all its fields, and no other
  profile is found, provided the JSON library reads back what it printed and the file is not
  larger than the loader accepts.
\<close>

theorem saved_profiles_restored:
  assumes "profiles_reachable s" and "profiles_reachable s0"
    and save: "gm_game_profile_save_to_path_locked lib dk path s fs = (ESP_OK, fs')"
    and card: "dk_card dk' = ESP_OK" "dk_read dk'"
    and lib: "\<And>j. gm_game_profile_export_json s = Inr j \<Longrightarrow>
        cJSON_Parse lib (cJSON_PrintUnformatted lib j) = Some j \<and>
        length (cJSON_PrintUnformatted lib j) \<le> GM_GAME_PROFILE_FILE_MAX_BYTES"
    and load: "gm_game_profile_load_from_path_locked lib dk' path fs' s0 = (err, s')"
  shows "err = ESP_OK \<and> gm_game_profile_get profile_id s' = gm_game_profile_get profile_id s"
proof -
  have ok: "profiles_ok s" "profiles_ok s0" using assms(1,2) profiles_reachable_ok by blast+
  obtain root where ex: "gm_game_profile_export_json s = Inr root"
    and im: "gm_game_profile_import_json root s0 = (ESP_OK, s0\<lparr>pt_slots := fill_slots GM_GAME_PROFILE_MAX_PROFILES
      (stored_profiles s), pt_generation := pt_generation s0 + 1\<rparr>)"
    by (rule import_exported [OF ok])
  have "load_document lib dk' GM_GAME_PROFILE_FILE_MAX_BYTES path fs' = Inr root"
    using save lib [OF ex] by (intro load_saved [OF _ card]) (simp_all add: gm_game_profile_save_to_path_locked_def ex)
  then have "err = ESP_OK" "pt_slots s' = fill_slots GM_GAME_PROFILE_MAX_PROFILES (stored_profiles s)"
    using load im by (auto simp: gm_game_profile_load_from_path_locked_def)
  then show ?thesis using refill_contents [OF ok(1)] by (simp add: get_is_contents)
qed

text \<open>
  C21: a failed save can destroy the stored profiles.  When the new file has been written but cannot
  be renamed, the operation reports a failure after the old file and the new one have been removed:
  the profile is changed in memory, nothing is left on the card, and the next start finds no profiles.
\<close>

theorem failed_rename_loses_profiles:
  assumes "profiles_reachable s" and "gm_game_profile_upsert p s = (ESP_OK, s1)" and "profile_fits p"
    and "dk_card dk = ESP_OK" and "\<And>dir. dk_mkdir dk dir" and "dk_open dk" "dk_write dk" "dk_close dk" "\<not> dk_rename dk"
    and "gm_game_profile_upsert_and_save lib dk p s fs = (err, s', fs')"
  shows "err \<noteq> ESP_OK \<and> s' = s1 \<and> fs' GM_GAME_PROFILE_STORAGE_PATH = None \<and>
    fst (gm_game_profile_load_from_path_locked lib dk GM_GAME_PROFILE_STORAGE_PATH fs' s0) = ESP_ERR_NOT_FOUND"
proof -
  let ?path = GM_GAME_PROFILE_STORAGE_PATH
  have ok: "profiles_ok s1" using upsert_keeps [OF profiles_reachable_ok [OF assms(1)] assms(3)] assms(2) by simp
  obtain root where ex: "gm_game_profile_export_json s1 = Inr root" by (rule import_exported [OF ok ok])
  have path: "ensure_sd_for_path dk ?path = ESP_OK" "mkdir_parent dk ?path = ESP_OK" "?path \<noteq> []" "length ?path < 188"
  proof -
    have "dk_mkdir dk = (\<lambda>_. True)" using assms(5) by blast
    moreover have "last (slashes ?path) < 160" "slashes ?path \<noteq> []" by code_simp+
    ultimately show "mkdir_parent dk ?path = ESP_OK" by (simp add: mkdir_parent_def Let_def list_all_iff GM_GAME_PROFILE_STORAGE_PATH_def)
    show "ensure_sd_for_path dk ?path = ESP_OK" using assms(4) by (simp add: ensure_sd_for_path_def)
    show "?path \<noteq> []" "length ?path < 188" by (simp_all add: GM_GAME_PROFILE_STORAGE_PATH_def)
  qed
  have "save_document lib dk ?path (Inr root) fs = (ESP_FAIL, fs(?path := None, (?path @ ''.tmp'') := None))"
    using rename_failure_loses_file [OF path(3,1,2,4)] assms(6-9) by blast
  then have "err = ESP_FAIL" "s' = s1" "fs' = fs(?path := None, (?path @ ''.tmp'') := None)"
    using assms(2,10) ex
    by (simp_all add: gm_game_profile_upsert_and_save_def and_save_def gm_game_profile_save_to_path_locked_def)
  then show ?thesis
    using path by (simp add: gm_game_profile_load_from_path_locked_def load_document_def)
qed

section \<open>Witnesses\<close>

definition demo_profile :: game_profile where
  "demo_profile = \<lparr>gp_id = ''p1'', gp_name = ''Evening'', gp_room_id = ''lab'', gp_scenario_id = ''sc'',
     gp_duration_ms = 3600000, gp_hint_pack_id = [], gp_audio_pack_id = [], gp_enabled = True\<rparr>"

definition demo_profiles :: profile_store where
  "demo_profiles = snd (gm_game_profile_upsert demo_profile profile_store_zero)"

text \<open>A library that prints only the document of this store.\<close>

definition demo_document :: cjson where
  "demo_document = (case gm_game_profile_export_json demo_profiles of Inr j \<Rightarrow> j | Inl _ \<Rightarrow> CNull)"

definition profile_lib :: json_lib where
  "profile_lib = \<lparr>cJSON_Parse = (\<lambda>s. if s = ''doc'' then Some demo_document else None),
     cJSON_PrintUnformatted = (\<lambda>_. ''doc'')\<rparr>"

definition good_disk :: disk where
  "good_disk = \<lparr>dk_card = ESP_OK, dk_mkdir = (\<lambda>_. True), dk_open = True, dk_write = True, dk_close = True,
     dk_rename = True, dk_read = True\<rparr>"

lemma demo_profiles_reachable: "profiles_reachable demo_profiles"
  unfolding demo_profiles_def
  by (rule profiles_upsert [OF profiles_start]) (simp add: profile_fits_def demo_profile_def GM_GAME_PROFILE_ID_MAX_LEN_def
      GM_GAME_PROFILE_NAME_MAX_LEN_def GM_GAME_PROFILE_ROOM_ID_MAX_LEN_def GM_GAME_PROFILE_SCENARIO_ID_MAX_LEN_def
      GM_GAME_PROFILE_PACK_ID_MAX_LEN_def)

theorem saved_profiles_restored_witness:
  "gm_game_profile_get ''p1'' (snd (gm_game_profile_load_from_path_locked profile_lib good_disk ''/sdcard/p.json''
     (snd (gm_game_profile_save_to_path_locked profile_lib good_disk ''/sdcard/p.json'' demo_profiles Map.empty))
     profile_store_zero)) = Inr demo_profile"
proof -
  let ?save = "gm_game_profile_save_to_path_locked profile_lib good_disk ''/sdcard/p.json'' demo_profiles Map.empty"
  let ?load = "gm_game_profile_load_from_path_locked profile_lib good_disk ''/sdcard/p.json'' (snd ?save) profile_store_zero"
  have ex: "gm_game_profile_export_json demo_profiles = Inr demo_document" by code_simp
  have "fst ?save = ESP_OK" by code_simp
  then have save: "?save = (ESP_OK, snd ?save)" by (simp add: prod_eq_iff)
  have load: "?load = (fst ?load, snd ?load)" by simp
  have "gm_game_profile_get ''p1'' (snd ?load) = gm_game_profile_get ''p1'' demo_profiles"
    by (rule saved_profiles_restored [THEN conjunct2, OF demo_profiles_reachable profiles_start save _ _ _ load])
      (simp_all add: good_disk_def profile_lib_def ex GM_GAME_PROFILE_FILE_MAX_BYTES_def)
  also have "\<dots> = Inr demo_profile" by code_simp
  finally show ?thesis .
qed

theorem failed_rename_loses_profiles_witness:
  "(snd (snd (gm_game_profile_upsert_and_save profile_lib (good_disk\<lparr>dk_rename := False\<rparr>) demo_profile demo_profiles
      [GM_GAME_PROFILE_STORAGE_PATH \<mapsto> ''doc'']))) GM_GAME_PROFILE_STORAGE_PATH = None"
proof -
  let ?r = "gm_game_profile_upsert_and_save profile_lib (good_disk\<lparr>dk_rename := False\<rparr>) demo_profile demo_profiles
      [GM_GAME_PROFILE_STORAGE_PATH \<mapsto> ''doc'']"
  have r: "?r = (fst ?r, fst (snd ?r), snd (snd ?r))" by simp
  have "fst (gm_game_profile_upsert demo_profile demo_profiles) = ESP_OK" by code_simp
  then have up: "gm_game_profile_upsert demo_profile demo_profiles =
      (ESP_OK, snd (gm_game_profile_upsert demo_profile demo_profiles))" by (simp add: prod_eq_iff)
  have fit: "profile_fits demo_profile" by code_simp
  show ?thesis
    by (rule failed_rename_loses_profiles [THEN conjunct2, THEN conjunct2, THEN conjunct1,
          OF demo_profiles_reachable up fit _ _ _ _ _ _ r]) (simp_all add: good_disk_def)
qed

end
