(* ===== verification/Scenario_Json.thy ===== *)
theory Scenario_Json
  imports Profile_Store Gm_View
begin

text \<open>
  The JSON form of scenarios (\<open>room_scenario/json\<close> with the type names of
  \<open>room_scenario_types.c\<close>), the import and export of the scenario store
  (\<open>room_scenario/room_scenario.c\<close>) and its persistence (\<open>room_scenario/storage\<close>).  A reader
  returns the scenario it has built; the flat tables of a scenario (steps, variants, actions, group
  commands) are filled in the order of the text.  Allocation succeeds.
\<close>

section \<open>Names of types\<close>

definition ascii_lower :: "char \<Rightarrow> char" where
  "ascii_lower c = (if 65 \<le> (of_char c :: nat) \<and> (of_char c :: nat) \<le> 90 then char_of ((of_char c :: nat) + 32) else c)"

definition same_word :: "string \<Rightarrow> string \<Rightarrow> bool" where
  "same_word s t \<longleftrightarrow> map ascii_lower s = map ascii_lower t"

definition word_value :: "(string \<times> 'a) list \<Rightarrow> string \<Rightarrow> esp_err + 'a" where
  "word_value table s =
     (if s = [] then Inl ESP_ERR_INVALID_ARG
      else case find (\<lambda>(w, _). same_word s w) table of
        None \<Rightarrow> Inl ESP_ERR_NOT_FOUND | Some (_, v) \<Rightarrow> Inr v)"

datatype step_type =
    ROOM_SCENARIO_STEP_WAIT_TIME
  | ROOM_SCENARIO_STEP_OPERATOR_APPROVAL
  | ROOM_SCENARIO_STEP_DEVICE_COMMAND
  | ROOM_SCENARIO_STEP_WAIT_DEVICE_EVENT
  | ROOM_SCENARIO_STEP_DEVICE_COMMAND_GROUP
  | ROOM_SCENARIO_STEP_SHOW_OPERATOR_MESSAGE
  | ROOM_SCENARIO_STEP_SET_FLAG
  | ROOM_SCENARIO_STEP_WAIT_FLAGS
  | ROOM_SCENARIO_STEP_WAIT_ANY_DEVICE_EVENT
  | ROOM_SCENARIO_STEP_WAIT_ALL_DEVICE_EVENTS
  | ROOM_SCENARIO_STEP_FAIL_REACTION
  | ROOM_SCENARIO_STEP_RESET_REACTION
  | ROOM_SCENARIO_STEP_END_GAME

text \<open>The type of a step is the constructor of its data.\<close>

fun step_type_of :: "step_data \<Rightarrow> step_type" where
  "step_type_of (STEP_WAIT_TIME _) = ROOM_SCENARIO_STEP_WAIT_TIME"
| "step_type_of (STEP_OPERATOR_APPROVAL _ _) = ROOM_SCENARIO_STEP_OPERATOR_APPROVAL"
| "step_type_of (STEP_DEVICE_COMMAND _) = ROOM_SCENARIO_STEP_DEVICE_COMMAND"
| "step_type_of (STEP_WAIT_DEVICE_EVENT _) = ROOM_SCENARIO_STEP_WAIT_DEVICE_EVENT"
| "step_type_of (STEP_DEVICE_COMMAND_GROUP _) = ROOM_SCENARIO_STEP_DEVICE_COMMAND_GROUP"
| "step_type_of (STEP_SHOW_OPERATOR_MESSAGE _) = ROOM_SCENARIO_STEP_SHOW_OPERATOR_MESSAGE"
| "step_type_of (STEP_SET_FLAG _) = ROOM_SCENARIO_STEP_SET_FLAG"
| "step_type_of (STEP_WAIT_FLAGS _) = ROOM_SCENARIO_STEP_WAIT_FLAGS"
| "step_type_of (STEP_WAIT_ANY_DEVICE_EVENT _) = ROOM_SCENARIO_STEP_WAIT_ANY_DEVICE_EVENT"
| "step_type_of (STEP_WAIT_ALL_DEVICE_EVENTS _) = ROOM_SCENARIO_STEP_WAIT_ALL_DEVICE_EVENTS"
| "step_type_of STEP_FAIL_REACTION = ROOM_SCENARIO_STEP_FAIL_REACTION"
| "step_type_of STEP_RESET_REACTION = ROOM_SCENARIO_STEP_RESET_REACTION"
| "step_type_of STEP_END_GAME = ROOM_SCENARIO_STEP_END_GAME"

fun room_scenario_step_type_to_str :: "step_type \<Rightarrow> string" where
  "room_scenario_step_type_to_str ROOM_SCENARIO_STEP_WAIT_TIME = ''WAIT_TIME''"
| "room_scenario_step_type_to_str ROOM_SCENARIO_STEP_OPERATOR_APPROVAL = ''OPERATOR_APPROVAL''"
| "room_scenario_step_type_to_str ROOM_SCENARIO_STEP_DEVICE_COMMAND = ''DEVICE_COMMAND''"
| "room_scenario_step_type_to_str ROOM_SCENARIO_STEP_WAIT_DEVICE_EVENT = ''WAIT_DEVICE_EVENT''"
| "room_scenario_step_type_to_str ROOM_SCENARIO_STEP_DEVICE_COMMAND_GROUP = ''DEVICE_COMMAND_GROUP''"
| "room_scenario_step_type_to_str ROOM_SCENARIO_STEP_SHOW_OPERATOR_MESSAGE = ''SHOW_OPERATOR_MESSAGE''"
| "room_scenario_step_type_to_str ROOM_SCENARIO_STEP_SET_FLAG = ''SET_FLAG''"
| "room_scenario_step_type_to_str ROOM_SCENARIO_STEP_WAIT_FLAGS = ''WAIT_FLAGS''"
| "room_scenario_step_type_to_str ROOM_SCENARIO_STEP_WAIT_ANY_DEVICE_EVENT = ''WAIT_ANY_DEVICE_EVENT''"
| "room_scenario_step_type_to_str ROOM_SCENARIO_STEP_WAIT_ALL_DEVICE_EVENTS = ''WAIT_ALL_DEVICE_EVENTS''"
| "room_scenario_step_type_to_str ROOM_SCENARIO_STEP_FAIL_REACTION = ''FAIL_REACTION''"
| "room_scenario_step_type_to_str ROOM_SCENARIO_STEP_RESET_REACTION = ''RESET_REACTION''"
| "room_scenario_step_type_to_str ROOM_SCENARIO_STEP_END_GAME = ''END_GAME''"

definition room_scenario_step_type_from_str :: "string \<Rightarrow> esp_err + step_type" where
  "room_scenario_step_type_from_str = word_value
     [(''WAIT_TIME'', ROOM_SCENARIO_STEP_WAIT_TIME),
      (''OPERATOR_APPROVAL'', ROOM_SCENARIO_STEP_OPERATOR_APPROVAL),
      (''MANUAL_GATE'', ROOM_SCENARIO_STEP_OPERATOR_APPROVAL),
      (''DEVICE_COMMAND'', ROOM_SCENARIO_STEP_DEVICE_COMMAND),
      (''SEND_DEVICE_COMMAND'', ROOM_SCENARIO_STEP_DEVICE_COMMAND),
      (''WAIT_DEVICE_EVENT'', ROOM_SCENARIO_STEP_WAIT_DEVICE_EVENT),
      (''DEVICE_COMMAND_GROUP'', ROOM_SCENARIO_STEP_DEVICE_COMMAND_GROUP),
      (''SHOW_OPERATOR_MESSAGE'', ROOM_SCENARIO_STEP_SHOW_OPERATOR_MESSAGE),
      (''OPERATOR_MESSAGE'', ROOM_SCENARIO_STEP_SHOW_OPERATOR_MESSAGE),
      (''SET_FLAG'', ROOM_SCENARIO_STEP_SET_FLAG),
      (''WAIT_FLAGS'', ROOM_SCENARIO_STEP_WAIT_FLAGS),
      (''WAIT_ANY_DEVICE_EVENT'', ROOM_SCENARIO_STEP_WAIT_ANY_DEVICE_EVENT),
      (''WAIT_ALL_DEVICE_EVENTS'', ROOM_SCENARIO_STEP_WAIT_ALL_DEVICE_EVENTS),
      (''FAIL_REACTION'', ROOM_SCENARIO_STEP_FAIL_REACTION),
      (''RESET_REACTION'', ROOM_SCENARIO_STEP_RESET_REACTION),
      (''END_GAME'', ROOM_SCENARIO_STEP_END_GAME),
      (''FINISH_GAME'', ROOM_SCENARIO_STEP_END_GAME)]"

fun room_scenario_branch_type_to_str :: "branch_type \<Rightarrow> string" where
  "room_scenario_branch_type_to_str ROOM_SCENARIO_BRANCH_REACTIVE = ''reactive''"
| "room_scenario_branch_type_to_str ROOM_SCENARIO_BRANCH_NORMAL = ''normal''"

definition room_scenario_branch_type_from_str :: "string \<Rightarrow> esp_err + branch_type" where
  "room_scenario_branch_type_from_str = word_value
     [(''normal'', ROOM_SCENARIO_BRANCH_NORMAL), (''flow'', ROOM_SCENARIO_BRANCH_NORMAL),
      (''scenario'', ROOM_SCENARIO_BRANCH_NORMAL), (''reactive'', ROOM_SCENARIO_BRANCH_REACTIVE),
      (''reaction'', ROOM_SCENARIO_BRANCH_REACTIVE)]"

fun room_scenario_reentry_mode_to_str :: "reentry_mode \<Rightarrow> string" where
  "room_scenario_reentry_mode_to_str ROOM_SCENARIO_REENTRY_QUEUE_ONE = ''queue_one''"
| "room_scenario_reentry_mode_to_str ROOM_SCENARIO_REENTRY_RESTART = ''restart''"
| "room_scenario_reentry_mode_to_str ROOM_SCENARIO_REENTRY_PARALLEL = ''parallel''"
| "room_scenario_reentry_mode_to_str ROOM_SCENARIO_REENTRY_IGNORE = ''ignore''"

definition room_scenario_reentry_mode_from_str :: "string \<Rightarrow> esp_err + reentry_mode" where
  "room_scenario_reentry_mode_from_str = word_value
     [(''ignore'', ROOM_SCENARIO_REENTRY_IGNORE), (''queue_one'', ROOM_SCENARIO_REENTRY_QUEUE_ONE),
      (''queue-one'', ROOM_SCENARIO_REENTRY_QUEUE_ONE), (''queueOne'', ROOM_SCENARIO_REENTRY_QUEUE_ONE),
      (''restart'', ROOM_SCENARIO_REENTRY_RESTART), (''parallel'', ROOM_SCENARIO_REENTRY_PARALLEL)]"

fun room_scenario_wait_timeout_action_to_str :: "wait_timeout_action \<Rightarrow> string" where
  "room_scenario_wait_timeout_action_to_str WAIT_TIMEOUT_FAIL_REACTION = ''fail_reaction''"
| "room_scenario_wait_timeout_action_to_str WAIT_TIMEOUT_RESET_REACTION = ''reset_reaction''"
| "room_scenario_wait_timeout_action_to_str WAIT_TIMEOUT_CONTINUE = ''continue''"

definition room_scenario_wait_timeout_action_from_str :: "string \<Rightarrow> esp_err + wait_timeout_action" where
  "room_scenario_wait_timeout_action_from_str = word_value
     [(''continue'', WAIT_TIMEOUT_CONTINUE), (''fail_reaction'', WAIT_TIMEOUT_FAIL_REACTION),
      (''fail-reaction'', WAIT_TIMEOUT_FAIL_REACTION), (''reset_reaction'', WAIT_TIMEOUT_RESET_REACTION),
      (''reset-reaction'', WAIT_TIMEOUT_RESET_REACTION)]"

fun reactive_trigger_kind_to_str :: "reactive_trigger_kind \<Rightarrow> string" where
  "reactive_trigger_kind_to_str REACTIVE_TRIGGER_DEVICE_EVENT = ''device_event''"
| "reactive_trigger_kind_to_str REACTIVE_TRIGGER_ANY_DEVICE_EVENTS = ''any_device_events''"
| "reactive_trigger_kind_to_str REACTIVE_TRIGGER_ALL_DEVICE_EVENTS = ''all_device_events''"
| "reactive_trigger_kind_to_str REACTIVE_TRIGGER_FLAG_CHANGED = ''flag_changed''"
| "reactive_trigger_kind_to_str REACTIVE_TRIGGER_OPERATOR_EVENT = ''operator_event''"
| "reactive_trigger_kind_to_str REACTIVE_TRIGGER_RUNTIME_EVENT = ''runtime_event''"
| "reactive_trigger_kind_to_str REACTIVE_TRIGGER_NONE = ''none''"

definition reactive_trigger_kind_from_str :: "string \<Rightarrow> esp_err + reactive_trigger_kind" where
  "reactive_trigger_kind_from_str = word_value
     [(''device_event'', REACTIVE_TRIGGER_DEVICE_EVENT), (''any_device_events'', REACTIVE_TRIGGER_ANY_DEVICE_EVENTS),
      (''all_device_events'', REACTIVE_TRIGGER_ALL_DEVICE_EVENTS), (''flag_changed'', REACTIVE_TRIGGER_FLAG_CHANGED),
      (''operator_event'', REACTIVE_TRIGGER_OPERATOR_EVENT), (''runtime_event'', REACTIVE_TRIGGER_RUNTIME_EVENT)]"

fun reactive_policy_mode_to_str :: "reactive_policy_mode \<Rightarrow> string" where
  "reactive_policy_mode_to_str REACTIVE_POLICY_ROTATE = ''rotate''"
| "reactive_policy_mode_to_str REACTIVE_POLICY_RANDOM = ''random''"
| "reactive_policy_mode_to_str REACTIVE_POLICY_ESCALATE = ''escalate''"
| "reactive_policy_mode_to_str REACTIVE_POLICY_SINGLE = ''single''"

definition reactive_policy_mode_from_str :: "string \<Rightarrow> esp_err + reactive_policy_mode" where
  "reactive_policy_mode_from_str = word_value
     [(''single'', REACTIVE_POLICY_SINGLE), (''rotate'', REACTIVE_POLICY_ROTATE),
      (''random'', REACTIVE_POLICY_RANDOM), (''escalate'', REACTIVE_POLICY_ESCALATE)]"

fun reactive_result_action_to_str :: "reactive_result_action \<Rightarrow> string" where
  "reactive_result_action_to_str REACTIVE_RESULT_SET_FLAG = ''set_flag''"
| "reactive_result_action_to_str REACTIVE_RESULT_FAIL_REACTION = ''fail_reaction''"
| "reactive_result_action_to_str REACTIVE_RESULT_FAIL_SCENARIO = ''fail_scenario''"
| "reactive_result_action_to_str REACTIVE_RESULT_RETRY = ''retry''"
| "reactive_result_action_to_str REACTIVE_RESULT_CONTINUE = ''continue''"

definition reactive_result_action_from_str :: "string \<Rightarrow> esp_err + reactive_result_action" where
  "reactive_result_action_from_str = word_value
     [(''continue'', REACTIVE_RESULT_CONTINUE), (''set_flag'', REACTIVE_RESULT_SET_FLAG),
      (''fail_reaction'', REACTIVE_RESULT_FAIL_REACTION), (''fail_scenario'', REACTIVE_RESULT_FAIL_SCENARIO),
      (''retry'', REACTIVE_RESULT_RETRY)]"

fun command_group_mode_to_str :: "command_group_mode \<Rightarrow> string" where
  "command_group_mode_to_str COMMAND_GROUP_PARALLEL = ''parallel''"
| "command_group_mode_to_str COMMAND_GROUP_SEQUENTIAL = ''sequential''"

definition command_group_mode_from_str :: "string \<Rightarrow> esp_err + command_group_mode" where
  "command_group_mode_from_str = word_value
     [(''sequential'', COMMAND_GROUP_SEQUENTIAL), (''parallel'', COMMAND_GROUP_PARALLEL)]"

section \<open>Reading members\<close>

abbreviation item :: "cjson \<Rightarrow> string \<Rightarrow> cjson option" where
  "item obj name \<equiv> cJSON_GetObjectItemCaseSensitive (Some obj) name"

definition json_copy_string_required :: "cjson \<Rightarrow> string \<Rightarrow> nat \<Rightarrow> esp_err + string" where
  "json_copy_string_required obj name dst_len = (case item obj name of
     Some (CString s) \<Rightarrow> (if s = [] \<or> length s \<ge> dst_len then Inl ESP_ERR_INVALID_ARG else Inr s)
   | _ \<Rightarrow> Inl ESP_ERR_INVALID_ARG)"

definition json_copy_string_optional :: "cjson \<Rightarrow> string \<Rightarrow> nat \<Rightarrow> esp_err + string" where
  "json_copy_string_optional obj name dst_len = (case item obj name of
     None \<Rightarrow> Inr []
   | Some CNull \<Rightarrow> Inr []
   | Some (CString s) \<Rightarrow> (if length s \<ge> dst_len then Inl ESP_ERR_INVALID_ARG else Inr s)
   | _ \<Rightarrow> Inl ESP_ERR_INVALID_ARG)"

definition json_number_u32 :: "int \<Rightarrow> esp_err + u32" where
  "json_number_u32 n = (if n < 0 \<or> n > 0xFFFFFFFF then Inl ESP_ERR_INVALID_ARG else Inr (word_of_int n))"

definition json_get_uint32_required :: "cjson \<Rightarrow> string \<Rightarrow> esp_err + u32" where
  "json_get_uint32_required obj name = (case item obj name of
     Some (CNumber n) \<Rightarrow> json_number_u32 n | _ \<Rightarrow> Inl ESP_ERR_INVALID_ARG)"

definition json_get_uint32_optional :: "cjson \<Rightarrow> string \<Rightarrow> esp_err + u32" where
  "json_get_uint32_optional obj name = (case item obj name of
     None \<Rightarrow> Inr 0 | Some CNull \<Rightarrow> Inr 0
   | Some (CNumber n) \<Rightarrow> json_number_u32 n | _ \<Rightarrow> Inl ESP_ERR_INVALID_ARG)"

definition json_copy_object_string_optional :: "json_lib \<Rightarrow> cjson \<Rightarrow> string \<Rightarrow> nat \<Rightarrow> esp_err + string" where
  "json_copy_object_string_optional lib obj name dst_len = (case item obj name of
     None \<Rightarrow> Inr []
   | Some CNull \<Rightarrow> Inr []
   | Some (CObject kvs) \<Rightarrow>
       (let printed = cJSON_PrintUnformatted lib (CObject kvs)
        in if length printed \<ge> dst_len then Inl ESP_ERR_INVALID_SIZE else Inr printed)
   | _ \<Rightarrow> Inl ESP_ERR_INVALID_ARG)"

text \<open>A Boolean member with the value it has when absent, and one that must be present.\<close>

definition json_bool_or :: "bool \<Rightarrow> cjson \<Rightarrow> string \<Rightarrow> esp_err + bool" where
  "json_bool_or d obj name = (case item obj name of
     None \<Rightarrow> Inr d | Some (CBool b) \<Rightarrow> Inr b | _ \<Rightarrow> Inl ESP_ERR_INVALID_ARG)"

definition json_bool_required :: "cjson \<Rightarrow> string \<Rightarrow> esp_err + bool" where
  "json_bool_required obj name = (case item obj name of Some (CBool b) \<Rightarrow> Inr b | _ \<Rightarrow> Inl ESP_ERR_INVALID_ARG)"

text \<open>A member that names a value of an enumeration; every failure is an invalid argument.\<close>

definition json_word :: "(string \<Rightarrow> esp_err + 'a) \<Rightarrow> cjson option \<Rightarrow> esp_err + 'a" where
  "json_word from_str v = (case v of
     Some (CString s) \<Rightarrow> (case from_str s of Inl _ \<Rightarrow> Inl ESP_ERR_INVALID_ARG | Inr x \<Rightarrow> Inr x)
   | _ \<Rightarrow> Inl ESP_ERR_INVALID_ARG)"

definition json_word_or :: "'a \<Rightarrow> (string \<Rightarrow> esp_err + 'a) \<Rightarrow> cjson option \<Rightarrow> esp_err + 'a" where
  "json_word_or d from_str v = (if v = None then Inr d else json_word from_str v)"

text \<open>The elements of an array member, none when it is not an array, within a limit and not empty.\<close>

definition array_within :: "nat \<Rightarrow> cjson option \<Rightarrow> esp_err + cjson list" where
  "array_within limit v =
     (let xs = (if cJSON_IsArray v then children v else [])
      in if xs = [] \<or> length xs > limit then Inl ESP_ERR_INVALID_ARG else Inr xs)"

section \<open>Import of steps\<close>

definition ROOM_SCENARIO_STEP_LABEL_MAX_LEN :: nat where "ROOM_SCENARIO_STEP_LABEL_MAX_LEN = 64"
definition ROOM_SCENARIO_STEP_ID_MAX_LEN :: nat where "ROOM_SCENARIO_STEP_ID_MAX_LEN = 32"
definition ROOM_SCENARIO_ROOM_ID_MAX_LEN :: nat where "ROOM_SCENARIO_ROOM_ID_MAX_LEN = 32"

definition import_command_fields :: "json_lib \<Rightarrow> cjson \<Rightarrow> esp_err + device_command" where
  "import_command_fields lib obj =
     bind_result (json_copy_string_required obj ''device_id'' ROOM_SCENARIO_DEVICE_ID_MAX_LEN) (\<lambda>dev.
     bind_result (json_copy_string_required obj ''command_id'' ROOM_SCENARIO_DEVICE_COMMAND_ID_MAX_LEN) (\<lambda>com.
     bind_result (json_copy_object_string_optional lib obj ''params'' ROOM_SCENARIO_COMMAND_PARAMS_JSON_MAX_LEN) (\<lambda>params.
       Inr \<lparr>cmd_device_id = dev, cmd_command_id = com, cmd_params_json = params\<rparr>)))"

definition room_scenario_import_command_json :: "json_lib \<Rightarrow> cjson \<Rightarrow> esp_err + device_command" where
  "room_scenario_import_command_json lib obj =
     (if \<not> cJSON_IsObject (Some obj) then Inl ESP_ERR_INVALID_ARG else import_command_fields lib obj)"

definition import_event_ref :: "cjson \<Rightarrow> esp_err + wait_device_event" where
  "import_event_ref obj =
     bind_result (json_copy_string_required obj ''device_id'' ROOM_SCENARIO_DEVICE_ID_MAX_LEN) (\<lambda>dev.
     bind_result (json_copy_string_required obj ''event_id'' ROOM_SCENARIO_DEVICE_EVENT_ID_MAX_LEN) (\<lambda>ev.
       Inr \<lparr>wde_device_id = dev, wde_event_id = ev, wde_timeout_ms = 0, wde_timeout_action = WAIT_TIMEOUT_CONTINUE,
            wde_timeout_message = []\<rparr>))"

definition import_flag :: "string \<Rightarrow> cjson \<Rightarrow> esp_err + flag_condition" where
  "import_flag name obj =
     bind_result (json_copy_string_required obj name ROOM_SCENARIO_FLAG_NAME_MAX_LEN) (\<lambda>flag.
     bind_result (json_bool_required obj ''value'') (\<lambda>v. Inr \<lparr>fl_name = flag, fl_value = v\<rparr>))"

definition import_event_group :: "cjson \<Rightarrow> esp_err + wait_event_group" where
  "import_event_group obj =
     bind_result (array_within ROOM_SCENARIO_WAIT_EVENT_GROUP_MAX_EVENTS (item obj ''events'')) (\<lambda>items.
     bind_result (read_all import_event_ref items) (\<lambda>events.
       Inr \<lparr>weg_events = events, weg_timeout_ms = 0, weg_timeout_action = WAIT_TIMEOUT_CONTINUE\<rparr>))"

text \<open>The data of a step; reactive control actions are not steps.\<close>

definition import_step_data :: "json_lib \<Rightarrow> step_type \<Rightarrow> cjson \<Rightarrow> esp_err + step_data" where
  "import_step_data lib ty obj = (case ty of
     ROOM_SCENARIO_STEP_WAIT_TIME \<Rightarrow>
       bind_result (json_get_uint32_required obj ''duration_ms'') (\<lambda>d.
         Inr (STEP_WAIT_TIME \<lparr>wt_duration_ms = d, wt_timeout_action = WAIT_TIMEOUT_CONTINUE\<rparr>))
   | ROOM_SCENARIO_STEP_DEVICE_COMMAND \<Rightarrow>
       bind_result (room_scenario_import_command_json lib obj) (\<lambda>c. Inr (STEP_DEVICE_COMMAND c))
   | ROOM_SCENARIO_STEP_DEVICE_COMMAND_GROUP \<Rightarrow>
       bind_result (array_within ROOM_SCENARIO_COMMAND_GROUP_MAX_COMMANDS (item obj ''commands'')) (\<lambda>items.
       bind_result (read_all (import_command_fields lib) items) (\<lambda>cs. Inr (STEP_DEVICE_COMMAND_GROUP cs)))
   | ROOM_SCENARIO_STEP_WAIT_DEVICE_EVENT \<Rightarrow>
       bind_result (import_event_ref obj) (\<lambda>e.
       bind_result (json_get_uint32_optional obj ''timeout_ms'') (\<lambda>t.
       bind_result (json_copy_string_optional obj ''timeout_message'' ROOM_SCENARIO_OPERATOR_MESSAGE_MAX_LEN) (\<lambda>m.
         Inr (STEP_WAIT_DEVICE_EVENT (e\<lparr>wde_timeout_ms := t, wde_timeout_message := m\<rparr>)))))
   | ROOM_SCENARIO_STEP_OPERATOR_APPROVAL \<Rightarrow>
       bind_result (json_copy_string_required obj ''prompt'' ROOM_SCENARIO_OPERATOR_PROMPT_MAX_LEN) (\<lambda>p.
       bind_result (json_copy_string_optional obj ''approve_label'' ROOM_SCENARIO_OPERATOR_LABEL_MAX_LEN) (\<lambda>l.
         Inr (STEP_OPERATOR_APPROVAL p l)))
   | ROOM_SCENARIO_STEP_SHOW_OPERATOR_MESSAGE \<Rightarrow>
       bind_result (json_copy_string_required obj ''message'' ROOM_SCENARIO_OPERATOR_MESSAGE_MAX_LEN) (\<lambda>m.
         Inr (STEP_SHOW_OPERATOR_MESSAGE m))
   | ROOM_SCENARIO_STEP_SET_FLAG \<Rightarrow> bind_result (import_flag ''flag_name'' obj) (\<lambda>f. Inr (STEP_SET_FLAG f))
   | ROOM_SCENARIO_STEP_WAIT_FLAGS \<Rightarrow>
       bind_result (array_within ROOM_SCENARIO_WAIT_FLAGS_MAX_FLAGS (item obj ''flags'')) (\<lambda>items.
       bind_result (read_all (import_flag ''flag_name'') items) (\<lambda>fs.
       bind_result (json_get_uint32_optional obj ''timeout_ms'') (\<lambda>t.
       bind_result (json_copy_string_optional obj ''timeout_message'' ROOM_SCENARIO_OPERATOR_MESSAGE_MAX_LEN) (\<lambda>m.
         Inr (STEP_WAIT_FLAGS \<lparr>wf_flags = fs, wf_timeout_ms = t, wf_timeout_action = WAIT_TIMEOUT_CONTINUE,
                               wf_timeout_message = m\<rparr>)))))
   | ROOM_SCENARIO_STEP_WAIT_ANY_DEVICE_EVENT \<Rightarrow>
       bind_result (import_event_group obj) (\<lambda>g. Inr (STEP_WAIT_ANY_DEVICE_EVENT g))
   | ROOM_SCENARIO_STEP_WAIT_ALL_DEVICE_EVENTS \<Rightarrow>
       bind_result (import_event_group obj) (\<lambda>g. Inr (STEP_WAIT_ALL_DEVICE_EVENTS g))
   | ROOM_SCENARIO_STEP_END_GAME \<Rightarrow> Inr STEP_END_GAME
   | _ \<Rightarrow> Inl ESP_ERR_INVALID_ARG)"

definition room_scenario_import_step_json :: "json_lib \<Rightarrow> cjson \<Rightarrow> esp_err + scenario_step" where
  "room_scenario_import_step_json lib obj =
     (if \<not> cJSON_IsObject (Some obj) then Inl ESP_ERR_INVALID_ARG
      else bind_result (json_copy_string_required obj ''id'' ROOM_SCENARIO_STEP_ID_MAX_LEN) (\<lambda>id.
        bind_result (json_copy_string_optional obj ''label'' ROOM_SCENARIO_STEP_LABEL_MAX_LEN) (\<lambda>label.
        bind_result (json_bool_or True obj ''enabled'') (\<lambda>enabled.
        bind_result (json_word room_scenario_step_type_from_str (item obj ''type'')) (\<lambda>ty.
        bind_result (json_bool_or False obj ''allow_operator_skip'') (\<lambda>skip.
        bind_result (json_copy_string_optional obj ''operator_skip_label'' ROOM_SCENARIO_OPERATOR_LABEL_MAX_LEN) (\<lambda>skip_label.
        bind_result (import_step_data lib ty obj) (\<lambda>d.
          Inr \<lparr>st_id = id, st_label = label, st_enabled = enabled, st_allow_operator_skip = skip,
               st_operator_skip_label = skip_label, st_data = d\<rparr>))))))))"

definition room_scenario_import_steps_array ::
  "json_lib \<Rightarrow> cjson option \<Rightarrow> room_scenario \<Rightarrow> esp_err + u16 \<times> room_scenario" where
  "room_scenario_import_steps_array lib steps sc =
     (if \<not> cJSON_IsArray steps then Inl ESP_ERR_INVALID_ARG
      else if length (sc_steps sc) + length (children steps) > ROOM_SCENARIO_MAX_STEPS then Inl ESP_ERR_INVALID_SIZE
      else bind_result (read_all (room_scenario_import_step_json lib) (children steps)) (\<lambda>ss.
        Inr (of_nat (length ss), sc\<lparr>sc_steps := sc_steps sc @ ss\<rparr>)))"

section \<open>Import of reactions\<close>

definition reactive_trigger_zero :: reactive_trigger where
  "reactive_trigger_zero = \<lparr>tr_kind = REACTIVE_TRIGGER_NONE, tr_device_id = [], tr_event_id = [], tr_events = [],
     tr_flag_name = [], tr_runtime_event = [], tr_operator_event = []\<rparr>"

definition reactive_import_trigger_event_group :: "cjson \<Rightarrow> reactive_trigger \<Rightarrow> esp_err + reactive_trigger" where
  "reactive_import_trigger_event_group obj tr =
     bind_result (array_within ROOM_SCENARIO_WAIT_EVENT_GROUP_MAX_EVENTS (item obj ''events'')) (\<lambda>items.
     bind_result (read_all import_event_ref items) (\<lambda>events. Inr (tr\<lparr>tr_events := events\<rparr>)))"

definition import_trigger :: "cjson option \<Rightarrow> esp_err + reactive_trigger" where
  "import_trigger v = (case v of
     Some (CObject kvs) \<Rightarrow>
       (let obj = CObject kvs in
        bind_result (json_word reactive_trigger_kind_from_str (item obj ''kind'')) (\<lambda>kind.
          let tr = reactive_trigger_zero\<lparr>tr_kind := kind\<rparr> in
          case kind of
            REACTIVE_TRIGGER_DEVICE_EVENT \<Rightarrow>
              bind_result (json_copy_string_required obj ''device_id'' ROOM_SCENARIO_DEVICE_ID_MAX_LEN) (\<lambda>dev.
              bind_result (json_copy_string_required obj ''event_id'' ROOM_SCENARIO_DEVICE_EVENT_ID_MAX_LEN) (\<lambda>ev.
                Inr (tr\<lparr>tr_device_id := dev, tr_event_id := ev\<rparr>)))
          | REACTIVE_TRIGGER_ANY_DEVICE_EVENTS \<Rightarrow> reactive_import_trigger_event_group obj tr
          | REACTIVE_TRIGGER_ALL_DEVICE_EVENTS \<Rightarrow> reactive_import_trigger_event_group obj tr
          | REACTIVE_TRIGGER_FLAG_CHANGED \<Rightarrow>
              bind_result (json_copy_string_required obj ''flag_name'' ROOM_SCENARIO_FLAG_NAME_MAX_LEN) (\<lambda>f.
                Inr (tr\<lparr>tr_flag_name := f\<rparr>))
          | REACTIVE_TRIGGER_OPERATOR_EVENT \<Rightarrow>
              bind_result (json_copy_string_required obj ''event_id'' ROOM_SCENARIO_EVENT_TYPE_MAX_LEN) (\<lambda>e.
                Inr (tr\<lparr>tr_operator_event := e\<rparr>))
          | REACTIVE_TRIGGER_RUNTIME_EVENT \<Rightarrow>
              bind_result (json_copy_string_required obj ''event_id'' ROOM_SCENARIO_EVENT_TYPE_MAX_LEN) (\<lambda>e.
                Inr (tr\<lparr>tr_runtime_event := e\<rparr>))
          | REACTIVE_TRIGGER_NONE \<Rightarrow> Inl ESP_ERR_INVALID_ARG))
   | _ \<Rightarrow> Inl ESP_ERR_INVALID_ARG)"

text \<open>The data of an action and, for a group, its mode and the commands added to the scenario's table.\<close>

definition import_action_data ::
  "json_lib \<Rightarrow> step_type \<Rightarrow> cjson \<Rightarrow> room_scenario \<Rightarrow> esp_err + step_data \<times> command_group_mode \<times> device_command list" where
  "import_action_data lib ty obj sc = (let plain = (\<lambda>d. Inr (d, COMMAND_GROUP_SEQUENTIAL, [])) in case ty of
     ROOM_SCENARIO_STEP_DEVICE_COMMAND \<Rightarrow>
       bind_result (room_scenario_import_command_json lib obj) (\<lambda>c. plain (STEP_DEVICE_COMMAND c))
   | ROOM_SCENARIO_STEP_DEVICE_COMMAND_GROUP \<Rightarrow>
       bind_result (array_within (ROOM_SCENARIO_MAX_REACTIVE_GROUP_COMMANDS - length (sc_reactive_group_commands sc))
         (item obj ''commands'')) (\<lambda>items.
       bind_result (json_word_or COMMAND_GROUP_SEQUENTIAL command_group_mode_from_str (item obj ''mode'')) (\<lambda>mode.
       bind_result (read_all (room_scenario_import_command_json lib) items) (\<lambda>cs.
         Inr (STEP_DEVICE_COMMAND_GROUP [], mode, cs))))
   | ROOM_SCENARIO_STEP_WAIT_TIME \<Rightarrow>
       bind_result (json_get_uint32_required obj ''duration_ms'') (\<lambda>d.
       bind_result (let v = item obj ''timeout_action'' in
           if v = None \<or> v = Some CNull then Inr WAIT_TIMEOUT_CONTINUE
           else json_word room_scenario_wait_timeout_action_from_str v) (\<lambda>a.
         plain (STEP_WAIT_TIME \<lparr>wt_duration_ms = d, wt_timeout_action = a\<rparr>)))
   | ROOM_SCENARIO_STEP_SET_FLAG \<Rightarrow>
       bind_result (bind_result (json_copy_string_optional obj ''flag'' ROOM_SCENARIO_FLAG_NAME_MAX_LEN) (\<lambda>f.
           if f = [] then json_copy_string_required obj ''flag_name'' ROOM_SCENARIO_FLAG_NAME_MAX_LEN else Inr f)) (\<lambda>flag.
       bind_result (json_bool_required obj ''value'') (\<lambda>v. plain (STEP_SET_FLAG \<lparr>fl_name = flag, fl_value = v\<rparr>)))
   | ROOM_SCENARIO_STEP_SHOW_OPERATOR_MESSAGE \<Rightarrow>
       bind_result (json_copy_string_required obj ''message'' ROOM_SCENARIO_OPERATOR_MESSAGE_MAX_LEN) (\<lambda>m.
         plain (STEP_SHOW_OPERATOR_MESSAGE m))
   | ROOM_SCENARIO_STEP_FAIL_REACTION \<Rightarrow> plain STEP_FAIL_REACTION
   | ROOM_SCENARIO_STEP_RESET_REACTION \<Rightarrow> plain STEP_RESET_REACTION
   | _ \<Rightarrow> Inl ESP_ERR_INVALID_ARG)"

text \<open>The fields of the group are set only for a group action.\<close>

definition room_scenario_import_reactive_action_json ::
  "json_lib \<Rightarrow> cjson \<Rightarrow> room_scenario \<Rightarrow> esp_err + reactive_action \<times> room_scenario" where
  "room_scenario_import_reactive_action_json lib obj sc =
     (if \<not> cJSON_IsObject (Some obj) then Inl ESP_ERR_INVALID_ARG
      else bind_result (json_copy_string_optional obj ''id'' ROOM_SCENARIO_STEP_ID_MAX_LEN) (\<lambda>id.
        bind_result (json_copy_string_optional obj ''label'' ROOM_SCENARIO_STEP_LABEL_MAX_LEN) (\<lambda>label.
        bind_result (json_word room_scenario_step_type_from_str (item obj ''type'')) (\<lambda>ty.
        bind_result (import_action_data lib ty obj sc) (\<lambda>(d, mode, cs).
          Inr (\<lparr>ra_id = id, ra_label = label, ra_group_mode = mode,
                 ra_group_command_start_index =
                   (if ty = ROOM_SCENARIO_STEP_DEVICE_COMMAND_GROUP then of_nat (length (sc_reactive_group_commands sc)) else 0),
                 ra_group_command_count = of_nat (length cs), ra_data = d\<rparr>,
               sc\<lparr>sc_reactive_group_commands := sc_reactive_group_commands sc @ cs\<rparr>))))))"

fun import_reactive_actions :: "json_lib \<Rightarrow> cjson list \<Rightarrow> room_scenario \<Rightarrow> esp_err + room_scenario" where
  "import_reactive_actions lib [] sc = Inr sc"
| "import_reactive_actions lib (x # xs) sc =
     bind_result (room_scenario_import_reactive_action_json lib x sc) (\<lambda>(a, sc1).
       import_reactive_actions lib xs (sc1\<lparr>sc_reactive_actions := sc_reactive_actions sc1 @ [a]\<rparr>))"

definition room_scenario_import_reactive_actions_array ::
  "json_lib \<Rightarrow> cjson option \<Rightarrow> room_scenario \<Rightarrow> esp_err + (u16 \<times> u8) \<times> room_scenario" where
  "room_scenario_import_reactive_actions_array lib actions sc =
     bind_result (array_within (ROOM_SCENARIO_MAX_REACTIVE_ACTIONS - length (sc_reactive_actions sc)) actions) (\<lambda>items.
     bind_result (import_reactive_actions lib items sc) (\<lambda>sc1.
       Inr ((of_nat (length (sc_reactive_actions sc)), of_nat (length items)), sc1)))"

definition import_variant :: "json_lib \<Rightarrow> cjson \<Rightarrow> room_scenario \<Rightarrow> esp_err + room_scenario" where
  "import_variant lib obj sc =
     (if \<not> cJSON_IsObject (Some obj) then Inl ESP_ERR_INVALID_ARG
      else bind_result (json_copy_string_required obj ''id'' ROOM_SCENARIO_STEP_ID_MAX_LEN) (\<lambda>id.
        bind_result (json_copy_string_optional obj ''label'' ROOM_SCENARIO_STEP_LABEL_MAX_LEN) (\<lambda>label.
        bind_result (room_scenario_import_reactive_actions_array lib (item obj ''actions'') sc) (\<lambda>((start, n), sc1).
          Inr (sc1\<lparr>sc_reactive_variants := sc_reactive_variants sc1 @
            [\<lparr>rv_id = id, rv_label = label, rv_action_start_index = start, rv_action_count = n\<rparr>]\<rparr>)))))"

fun import_variants :: "json_lib \<Rightarrow> cjson list \<Rightarrow> room_scenario \<Rightarrow> esp_err + room_scenario" where
  "import_variants lib [] sc = Inr sc"
| "import_variants lib (x # xs) sc = bind_result (import_variant lib x sc) (import_variants lib xs)"

text \<open>What happens after a reaction: \<open>on_done\<close>, \<open>on_fail\<close>, \<open>on_timeout\<close> and the flag.\<close>

definition import_result_policy ::
  "cjson option \<Rightarrow> esp_err + reactive_result_action \<times> reactive_result_action \<times> reactive_result_action \<times> string" where
  "import_result_policy v = (case v of
     None \<Rightarrow> Inr (REACTIVE_RESULT_CONTINUE, REACTIVE_RESULT_FAIL_REACTION, REACTIVE_RESULT_FAIL_REACTION, [])
   | Some (CObject kvs) \<Rightarrow>
       (let obj = CObject kvs in
        bind_result (json_word_or REACTIVE_RESULT_CONTINUE reactive_result_action_from_str (item obj ''on_done'')) (\<lambda>on_done.
        bind_result (json_word_or REACTIVE_RESULT_FAIL_REACTION reactive_result_action_from_str (item obj ''on_fail'')) (\<lambda>on_fail.
        bind_result (json_word_or REACTIVE_RESULT_FAIL_REACTION reactive_result_action_from_str (item obj ''on_timeout'')) (\<lambda>on_timeout.
        bind_result (bind_result (json_copy_string_optional obj ''flag'' ROOM_SCENARIO_FLAG_NAME_MAX_LEN) (\<lambda>f.
            if f = [] then json_copy_string_optional obj ''timeout_flag'' ROOM_SCENARIO_FLAG_NAME_MAX_LEN else Inr f)) (\<lambda>flag.
          Inr (on_done, on_fail, on_timeout, flag))))))
   | _ \<Rightarrow> Inl ESP_ERR_INVALID_ARG)"

definition import_on_complete :: "json_lib \<Rightarrow> cjson option \<Rightarrow> room_scenario \<Rightarrow> esp_err + (u16 \<times> u8) \<times> room_scenario" where
  "import_on_complete lib v sc =
     (if v = None \<or> v = Some (CArray []) then Inr ((0, 0), sc)
      else room_scenario_import_reactive_actions_array lib v sc)"

definition room_scenario_import_reactive_branch_v2_json ::
  "json_lib \<Rightarrow> cjson \<Rightarrow> room_scenario \<Rightarrow> scenario_branch \<Rightarrow> esp_err + scenario_branch \<times> room_scenario" where
  "room_scenario_import_reactive_branch_v2_json lib obj sc b =
     (if \<not> cJSON_IsObject (item obj ''trigger'') \<or> \<not> cJSON_IsArray (item obj ''variants'') then Inl ESP_ERR_INVALID_ARG
      else bind_result (import_trigger (item obj ''trigger'')) (\<lambda>tr.
        bind_result (let guards = item obj ''guard_flags''; gs = (if cJSON_IsArray guards then children guards else [])
                     in if length gs > ROOM_SCENARIO_WAIT_FLAGS_MAX_FLAGS then Inl ESP_ERR_INVALID_ARG
                        else read_all (import_flag ''flag'') gs) (\<lambda>guard_flags.
        bind_result (array_within (ROOM_SCENARIO_MAX_REACTIVE_VARIANTS - length (sc_reactive_variants sc))
                       (item obj ''variants'')) (\<lambda>items.
        bind_result (import_variants lib items sc) (\<lambda>sc1.
        bind_result (import_result_policy (item obj ''result_policy'')) (\<lambda>(on_done, on_fail, on_timeout, flag).
        bind_result (import_on_complete lib (item obj ''on_complete'') sc1) (\<lambda>((cs, cn), sc2).
          Inr (b\<lparr>br_trigger := tr, br_guard_flags := guard_flags,
                 br_variant_start_index := of_nat (length (sc_reactive_variants sc)),
                 br_variant_count := of_nat (length items),
                 br_result_on_done := on_done, br_result_on_fail := on_fail, br_result_on_timeout := on_timeout,
                 br_result_flag := flag, br_on_complete_action_start_index := cs,
                 br_on_complete_action_count := cn\<rparr>, sc2))))))))"

section \<open>Import of branches\<close>

definition import_policy :: "cjson option \<Rightarrow> u32 \<times> u32 \<Rightarrow> esp_err + reactive_policy_mode \<times> u32 \<times> u32" where
  "import_policy v limits = (case v of
     None \<Rightarrow> Inr (REACTIVE_POLICY_SINGLE, limits)
   | Some (CObject kvs) \<Rightarrow>
       (let obj = CObject kvs in
        bind_result (json_word_or REACTIVE_POLICY_SINGLE reactive_policy_mode_from_str (item obj ''mode'')) (\<lambda>mode.
        bind_result (json_get_uint32_optional obj ''cooldown_ms'') (\<lambda>cooldown.
        bind_result (json_get_uint32_optional obj ''max_fire_count'') (\<lambda>fires.
          Inr (mode, cooldown, fires)))))
   | _ \<Rightarrow> Inl ESP_ERR_INVALID_ARG)"

definition import_reentry :: "cjson option \<Rightarrow> esp_err + reentry_mode" where
  "import_reentry v = (case v of
     None \<Rightarrow> Inr ROOM_SCENARIO_REENTRY_IGNORE
   | Some (CObject kvs) \<Rightarrow>
       json_word_or ROOM_SCENARIO_REENTRY_IGNORE room_scenario_reentry_mode_from_str (item (CObject kvs) ''mode'')
   | _ \<Rightarrow> Inl ESP_ERR_INVALID_ARG)"

definition import_priority :: "cjson \<Rightarrow> esp_err + u16" where
  "import_priority obj =
     bind_result (json_get_uint32_optional obj ''priority'') (\<lambda>p.
       if p > 0xFFFF then Inl ESP_ERR_INVALID_ARG else Inr (ucast p))"

definition import_branch_type :: "cjson option \<Rightarrow> esp_err + branch_type" where
  "import_branch_type v =
     (if v = None \<or> v = Some CNull then Inr ROOM_SCENARIO_BRANCH_NORMAL
      else json_word room_scenario_branch_type_from_str v)"

text \<open>The settings of a branch, without its steps and reactions.\<close>

definition import_branch_head :: "cjson \<Rightarrow> esp_err + scenario_branch" where
  "import_branch_head obj =
     bind_result (json_copy_string_required obj ''id'' ROOM_SCENARIO_BRANCH_ID_MAX_LEN) (\<lambda>id.
     bind_result (json_copy_string_required obj ''name'' ROOM_SCENARIO_BRANCH_NAME_MAX_LEN) (\<lambda>name.
     bind_result (import_branch_type (item obj ''type'')) (\<lambda>ty.
     bind_result (json_bool_or True obj ''enabled'') (\<lambda>enabled.
     bind_result (import_priority obj) (\<lambda>priority.
     bind_result (json_bool_or (ty = ROOM_SCENARIO_BRANCH_NORMAL) obj ''required_for_completion'') (\<lambda>required.
     bind_result (json_get_uint32_optional obj ''cooldown_ms'') (\<lambda>cooldown.
     bind_result (json_get_uint32_optional obj ''max_fire_count'') (\<lambda>fires.
     bind_result (import_policy (item obj ''policy'') (cooldown, fires)) (\<lambda>(mode, cooldown1, fires1).
     bind_result (json_bool_or False obj ''run_once'') (\<lambda>run_once.
     bind_result (import_reentry (item obj ''reentry'')) (\<lambda>reentry.
       Inr \<lparr>br_id = id, br_name = name, br_type = ty, br_enabled = enabled, br_required_for_completion = required,
            br_priority = priority, br_policy_mode = mode, br_cooldown_ms = cooldown1, br_max_fire_count = fires1,
            br_run_once = run_once, br_reentry_mode = reentry, br_trigger = reactive_trigger_zero,
            br_guard_flags = [], br_result_on_done = REACTIVE_RESULT_CONTINUE,
            br_result_on_fail = REACTIVE_RESULT_CONTINUE, br_result_on_timeout = REACTIVE_RESULT_CONTINUE,
            br_result_flag = [], br_variant_start_index = 0, br_variant_count = 0,
            br_on_complete_action_start_index = 0, br_on_complete_action_count = 0,
            br_step_start_index = 0, br_step_count = 0\<rparr>)))))))))))"

definition import_branch :: "json_lib \<Rightarrow> cjson \<Rightarrow> room_scenario \<Rightarrow> esp_err + room_scenario" where
  "import_branch lib obj sc =
     (if \<not> cJSON_IsObject (Some obj) then Inl ESP_ERR_INVALID_ARG
      else bind_result (import_branch_head obj) (\<lambda>b0.
        let b = b0\<lparr>br_step_start_index := of_nat (length (sc_steps sc))\<rparr> in
        bind_result
          (if br_type b = ROOM_SCENARIO_BRANCH_REACTIVE \<and> item obj ''variants'' \<noteq> None
           then bind_result (room_scenario_import_reactive_branch_v2_json lib obj sc b) (\<lambda>(b1, sc1).
                  Inr (if br_policy_mode b1 = REACTIVE_POLICY_SINGLE
                       then b1\<lparr>br_max_fire_count := (if br_run_once b1 then 1 else 0)\<rparr> else b1, sc1))
           else bind_result (room_scenario_import_steps_array lib (item obj ''steps'') sc) (\<lambda>(n, sc1).
                  Inr (b\<lparr>br_step_count := n\<rparr>, sc1))) (\<lambda>(b2, sc2).
          Inr (sc2\<lparr>sc_branches := sc_branches sc2 @ [b2]\<rparr>))))"

fun import_branches :: "json_lib \<Rightarrow> cjson list \<Rightarrow> room_scenario \<Rightarrow> esp_err + room_scenario" where
  "import_branches lib [] sc = Inr sc"
| "import_branches lib (x # xs) sc = bind_result (import_branch lib x sc) (import_branches lib xs)"

definition room_scenario_import_branches_json ::
  "json_lib \<Rightarrow> cjson option \<Rightarrow> room_scenario \<Rightarrow> esp_err + room_scenario" where
  "room_scenario_import_branches_json lib branches sc =
     (if \<not> cJSON_IsArray branches then Inl ESP_ERR_INVALID_ARG
      else if children branches = [] \<or> length (children branches) > ROOM_SCENARIO_MAX_BRANCHES
      then Inl ESP_ERR_INVALID_SIZE
      else import_branches lib (children branches) sc)"

definition room_scenario_from_json :: "json_lib \<Rightarrow> cjson \<Rightarrow> esp_err + room_scenario" where
  "room_scenario_from_json lib obj =
     (if \<not> cJSON_IsObject (Some obj) then Inl ESP_ERR_INVALID_ARG
      else bind_result (json_copy_string_required obj ''id'' ROOM_SCENARIO_ID_MAX_LEN) (\<lambda>id.
        bind_result (json_copy_string_required obj ''name'' ROOM_SCENARIO_NAME_MAX_LEN) (\<lambda>name.
        bind_result (json_copy_string_required obj ''room_id'' ROOM_SCENARIO_ROOM_ID_MAX_LEN) (\<lambda>room_id.
        let sc0 = room_scenario_zero\<lparr>sc_id := id, sc_name := name, sc_room_id := room_id\<rparr> in
        bind_result
          (if item obj ''branches'' \<noteq> None then room_scenario_import_branches_json lib (item obj ''branches'') sc0
           else bind_result (room_scenario_import_steps_array lib (item obj ''steps'') sc0) (\<lambda>(_, sc1). Inr sc1)) (\<lambda>sc.
          let err = room_scenario_validate_structural sc in if err = ESP_OK then Inr sc else Inl err)))))"

section \<open>Export\<close>

definition member_if :: "bool \<Rightarrow> string \<Rightarrow> cjson \<Rightarrow> (string \<times> cjson) list" where
  "member_if b k v = (if b then [(k, v)] else [])"

definition json_add_object_string_optional :: "json_lib \<Rightarrow> string \<Rightarrow> string \<Rightarrow> esp_err + (string \<times> cjson) list" where
  "json_add_object_string_optional lib name json =
     (if json = [] then Inr []
      else case cJSON_Parse lib json of
        Some (CObject kvs) \<Rightarrow> Inr [(name, CObject kvs)] | _ \<Rightarrow> Inl ESP_ERR_INVALID_ARG)"

definition room_scenario_export_command_json :: "json_lib \<Rightarrow> device_command \<Rightarrow> esp_err + (string \<times> cjson) list" where
  "room_scenario_export_command_json lib c =
     bind_result (json_add_object_string_optional lib ''params'' (cmd_params_json c)) (\<lambda>params.
       Inr ([(''device_id'', CString (cmd_device_id c)), (''command_id'', CString (cmd_command_id c))] @ params))"

definition export_command :: "json_lib \<Rightarrow> device_command \<Rightarrow> esp_err + cjson" where
  "export_command lib c = bind_result (room_scenario_export_command_json lib c) (\<lambda>kvs. Inr (CObject kvs))"

definition export_event_ref :: "wait_device_event \<Rightarrow> cjson" where
  "export_event_ref e = CObject [(''device_id'', CString (wde_device_id e)), (''event_id'', CString (wde_event_id e))]"

definition export_flag :: "string \<Rightarrow> flag_condition \<Rightarrow> (string \<times> cjson) list" where
  "export_flag name f = [(name, CString (fl_name f)), (''value'', CBool (fl_value f))]"

definition export_timeout :: "u32 \<Rightarrow> wait_timeout_action \<Rightarrow> (string \<times> cjson) list" where
  "export_timeout t a =
     member_if (t > 0) ''timeout_ms'' (CNumber (uint t)) @
     member_if (a \<noteq> WAIT_TIMEOUT_CONTINUE) ''timeout_action'' (CString (room_scenario_wait_timeout_action_to_str a))"

definition export_event_group :: "wait_event_group \<Rightarrow> (string \<times> cjson) list" where
  "export_event_group g =
     (''events'', CArray (map export_event_ref (weg_events g))) # export_timeout (weg_timeout_ms g) (weg_timeout_action g)"

definition export_step_data :: "json_lib \<Rightarrow> step_data \<Rightarrow> esp_err + (string \<times> cjson) list" where
  "export_step_data lib d = (case d of
     STEP_DEVICE_COMMAND c \<Rightarrow> room_scenario_export_command_json lib c
   | STEP_DEVICE_COMMAND_GROUP cs \<Rightarrow>
       bind_result (read_all (export_command lib) cs) (\<lambda>items. Inr [(''commands'', CArray items)])
   | STEP_WAIT_TIME w \<Rightarrow> Inr [(''duration_ms'', CNumber (uint (wt_duration_ms w)))]
   | STEP_WAIT_DEVICE_EVENT e \<Rightarrow>
       Inr ([(''device_id'', CString (wde_device_id e)), (''event_id'', CString (wde_event_id e))] @
            export_timeout (wde_timeout_ms e) (wde_timeout_action e) @
            member_if (wde_timeout_message e \<noteq> []) ''timeout_message'' (CString (wde_timeout_message e)))
   | STEP_OPERATOR_APPROVAL p l \<Rightarrow> Inr [(''prompt'', CString p), (''approve_label'', CString l)]
   | STEP_SHOW_OPERATOR_MESSAGE m \<Rightarrow> Inr [(''message'', CString m)]
   | STEP_SET_FLAG f \<Rightarrow> Inr (export_flag ''flag_name'' f)
   | STEP_WAIT_FLAGS w \<Rightarrow>
       Inr ((''flags'', CArray (map (\<lambda>f. CObject (export_flag ''flag_name'' f)) (wf_flags w))) #
            export_timeout (wf_timeout_ms w) (wf_timeout_action w) @
            member_if (wf_timeout_message w \<noteq> []) ''timeout_message'' (CString (wf_timeout_message w)))
   | STEP_WAIT_ANY_DEVICE_EVENT g \<Rightarrow> Inr (export_event_group g)
   | STEP_WAIT_ALL_DEVICE_EVENTS g \<Rightarrow> Inr (export_event_group g)
   | STEP_END_GAME \<Rightarrow> Inr []
   | _ \<Rightarrow> Inl ESP_ERR_INVALID_ARG)"

definition room_scenario_export_step_json :: "json_lib \<Rightarrow> scenario_step \<Rightarrow> esp_err + cjson" where
  "room_scenario_export_step_json lib s =
     bind_result (export_step_data lib (st_data s)) (\<lambda>kvs.
       Inr (CObject ([(''id'', CString (st_id s)), (''label'', CString (st_label s)), (''enabled'', CBool (st_enabled s)),
              (''type'', CString (room_scenario_step_type_to_str (step_type_of (st_data s))))] @
            member_if (st_allow_operator_skip s) ''allow_operator_skip'' (CBool True) @
            member_if (st_operator_skip_label s \<noteq> []) ''operator_skip_label'' (CString (st_operator_skip_label s)) @ kvs)))"

text \<open>A run of a table; outside the table the export fails.\<close>

definition table_run :: "'a list \<Rightarrow> nat \<Rightarrow> nat \<Rightarrow> esp_err + 'a list" where
  "table_run xs start n = (if start + n > length xs then Inl ESP_ERR_INVALID_ARG else Inr (take n (drop start xs)))"

definition export_action_data :: "json_lib \<Rightarrow> room_scenario \<Rightarrow> reactive_action \<Rightarrow> esp_err + (string \<times> cjson) list" where
  "export_action_data lib sc a = (case ra_data a of
     STEP_DEVICE_COMMAND c \<Rightarrow> room_scenario_export_command_json lib c
   | STEP_DEVICE_COMMAND_GROUP _ \<Rightarrow>
       bind_result (table_run (sc_reactive_group_commands sc) (unat (ra_group_command_start_index a))
                      (unat (ra_group_command_count a))) (\<lambda>cs.
       bind_result (read_all (export_command lib) cs) (\<lambda>items.
         Inr [(''mode'', CString (command_group_mode_to_str (ra_group_mode a))), (''commands'', CArray items)]))
   | STEP_WAIT_TIME w \<Rightarrow>
       Inr ((''duration_ms'', CNumber (uint (wt_duration_ms w))) #
            member_if (wt_timeout_action w \<noteq> WAIT_TIMEOUT_CONTINUE) ''timeout_action''
              (CString (room_scenario_wait_timeout_action_to_str (wt_timeout_action w))))
   | STEP_SET_FLAG f \<Rightarrow> Inr (export_flag ''flag'' f)
   | STEP_SHOW_OPERATOR_MESSAGE m \<Rightarrow> Inr [(''message'', CString m)]
   | STEP_FAIL_REACTION \<Rightarrow> Inr []
   | STEP_RESET_REACTION \<Rightarrow> Inr []
   | _ \<Rightarrow> Inl ESP_ERR_INVALID_ARG)"

definition room_scenario_export_reactive_action_json ::
  "json_lib \<Rightarrow> room_scenario \<Rightarrow> reactive_action \<Rightarrow> esp_err + cjson" where
  "room_scenario_export_reactive_action_json lib sc a =
     bind_result (export_action_data lib sc a) (\<lambda>kvs.
       Inr (CObject (member_if (ra_id a \<noteq> []) ''id'' (CString (ra_id a)) @
                     member_if (ra_label a \<noteq> []) ''label'' (CString (ra_label a)) @
                     (''type'', CString (room_scenario_step_type_to_str (step_type_of (ra_data a)))) # kvs)))"

definition export_actions :: "json_lib \<Rightarrow> room_scenario \<Rightarrow> u16 \<Rightarrow> u8 \<Rightarrow> esp_err + cjson" where
  "export_actions lib sc start n =
     bind_result (table_run (sc_reactive_actions sc) (unat start) (unat n)) (\<lambda>as.
     bind_result (read_all (room_scenario_export_reactive_action_json lib sc) as) (\<lambda>items. Inr (CArray items)))"

definition export_variant :: "json_lib \<Rightarrow> room_scenario \<Rightarrow> reactive_variant \<Rightarrow> esp_err + cjson" where
  "export_variant lib sc v =
     bind_result (export_actions lib sc (rv_action_start_index v) (rv_action_count v)) (\<lambda>actions.
       Inr (CObject [(''id'', CString (rv_id v)), (''label'', CString (rv_label v)), (''actions'', actions)]))"

definition export_trigger :: "reactive_trigger \<Rightarrow> cjson" where
  "export_trigger tr = CObject (
     (''kind'', CString (reactive_trigger_kind_to_str (tr_kind tr))) #
     member_if (tr_device_id tr \<noteq> []) ''device_id'' (CString (tr_device_id tr)) @
     member_if (tr_event_id tr \<noteq> []) ''event_id'' (CString (tr_event_id tr)) @
     member_if (tr_events tr \<noteq> []) ''events'' (CArray (map export_event_ref (tr_events tr))) @
     member_if (tr_flag_name tr \<noteq> []) ''flag_name'' (CString (tr_flag_name tr)) @
     member_if (tr_runtime_event tr \<noteq> []) ''event_id'' (CString (tr_runtime_event tr)) @
     member_if (tr_operator_event tr \<noteq> []) ''event_id'' (CString (tr_operator_event tr)))"

definition export_result_policy :: "scenario_branch \<Rightarrow> cjson" where
  "export_result_policy b = CObject (
     [(''on_done'', CString (reactive_result_action_to_str (br_result_on_done b))),
      (''on_fail'', CString (reactive_result_action_to_str (br_result_on_fail b))),
      (''on_timeout'', CString (reactive_result_action_to_str (br_result_on_timeout b)))] @
     member_if (br_result_flag b \<noteq> []) ''flag'' (CString (br_result_flag b)))"

definition room_scenario_export_reactive_branch_v2_json ::
  "json_lib \<Rightarrow> room_scenario \<Rightarrow> scenario_branch \<Rightarrow> esp_err + (string \<times> cjson) list" where
  "room_scenario_export_reactive_branch_v2_json lib sc b =
     bind_result (table_run (sc_reactive_variants sc) (unat (br_variant_start_index b)) (unat (br_variant_count b))) (\<lambda>vs.
     bind_result (read_all (export_variant lib sc) vs) (\<lambda>variants.
     bind_result (export_actions lib sc (br_on_complete_action_start_index b) (br_on_complete_action_count b)) (\<lambda>complete.
       Inr [(''trigger'', export_trigger (br_trigger b)),
            (''guard_flags'', CArray (map (\<lambda>f. CObject (export_flag ''flag'' f)) (br_guard_flags b))),
            (''variants'', CArray variants), (''result_policy'', export_result_policy b), (''on_complete'', complete)])))"

text \<open>The settings of a reactive branch.\<close>

definition export_reactive_head :: "scenario_branch \<Rightarrow> (string \<times> cjson) list" where
  "export_reactive_head b =
     [(''policy'', CObject [(''mode'', CString (reactive_policy_mode_to_str (br_policy_mode b))),
         (''cooldown_ms'', CNumber (uint (br_cooldown_ms b))), (''max_fire_count'', CNumber (uint (br_max_fire_count b)))]),
      (''reentry'', CObject [(''mode'', CString (room_scenario_reentry_mode_to_str (br_reentry_mode b)))])] @
     member_if (br_cooldown_ms b > 0) ''cooldown_ms'' (CNumber (uint (br_cooldown_ms b))) @
     member_if (br_max_fire_count b > 0) ''max_fire_count'' (CNumber (uint (br_max_fire_count b))) @
     member_if (br_run_once b) ''run_once'' (CBool True)"

definition export_branch_head :: "scenario_branch \<Rightarrow> (string \<times> cjson) list" where
  "export_branch_head b =
     [(''id'', CString (br_id b)), (''name'', CString (br_name b)),
      (''type'', CString (room_scenario_branch_type_to_str (br_type b))), (''enabled'', CBool (br_enabled b)),
      (''required_for_completion'', CBool (br_required_for_completion b))] @
     member_if (br_priority b > 0) ''priority'' (CNumber (uint (br_priority b))) @
     (if br_type b = ROOM_SCENARIO_BRANCH_REACTIVE then export_reactive_head b else [])"

definition export_reaction :: "json_lib \<Rightarrow> room_scenario \<Rightarrow> scenario_branch \<Rightarrow> esp_err + (string \<times> cjson) list" where
  "export_reaction lib sc b =
     (if br_type b = ROOM_SCENARIO_BRANCH_REACTIVE \<and>
         (br_variant_count b > 0 \<or> tr_kind (br_trigger b) \<noteq> REACTIVE_TRIGGER_NONE)
      then room_scenario_export_reactive_branch_v2_json lib sc b else Inr [])"

definition export_branch_steps :: "json_lib \<Rightarrow> room_scenario \<Rightarrow> scenario_branch \<Rightarrow> esp_err + (string \<times> cjson) list" where
  "export_branch_steps lib sc b =
     (if br_type b = ROOM_SCENARIO_BRANCH_REACTIVE \<and> br_variant_count b > 0 then Inr []
      else bind_result (table_run (sc_steps sc) (unat (br_step_start_index b)) (unat (br_step_count b))) (\<lambda>ss.
        bind_result (read_all (room_scenario_export_step_json lib) ss) (\<lambda>items. Inr [(''steps'', CArray items)])))"

definition room_scenario_export_branch_json :: "json_lib \<Rightarrow> room_scenario \<Rightarrow> scenario_branch \<Rightarrow> esp_err + cjson" where
  "room_scenario_export_branch_json lib sc b =
     bind_result (export_reaction lib sc b) (\<lambda>reaction.
     bind_result (export_branch_steps lib sc b) (\<lambda>steps.
       Inr (CObject (export_branch_head b @ reaction @ steps))))"

definition room_scenario_to_json :: "json_lib \<Rightarrow> room_scenario \<Rightarrow> esp_err + cjson" where
  "room_scenario_to_json lib sc =
     (let err = room_scenario_validate_structural sc;
          head = [(''id'', CString (sc_id sc)), (''name'', CString (sc_name sc)), (''room_id'', CString (sc_room_id sc))]
      in if err \<noteq> ESP_OK then Inl err
         else if sc_branches sc \<noteq> []
         then bind_result (read_all (room_scenario_export_branch_json lib sc) (sc_branches sc)) (\<lambda>bs.
                Inr (CObject (head @ [(''branches'', CArray bs)])))
         else bind_result (read_all (room_scenario_export_step_json lib) (sc_steps sc)) (\<lambda>ss.
                Inr (CObject (head @ [(''steps'', CArray ss)]))))"

section \<open>The store\<close>

definition room_scenario_store_export_json :: "json_lib \<Rightarrow> scenario_store \<Rightarrow> esp_err + cjson" where
  "room_scenario_store_export_json lib s =
     bind_result (read_all (room_scenario_to_json lib) (map ss_scenario (filter ss_in_use (st_slots s)))) (\<lambda>items.
       Inr (CObject [(''version'', CNumber 1), (''room_scenarios'', CArray items)]))"

text \<open>The first pass reads every scenario and refuses an id that has been seen.\<close>

fun read_scenarios :: "json_lib \<Rightarrow> string list \<Rightarrow> cjson list \<Rightarrow> esp_err + room_scenario list" where
  "read_scenarios lib seen [] = Inr []"
| "read_scenarios lib seen (x # xs) =
     bind_result (room_scenario_from_json lib x) (\<lambda>sc.
       if sc_id sc \<in> set seen then Inl ESP_ERR_INVALID_ARG
       else bind_result (read_scenarios lib (seen @ [sc_id sc]) xs) (\<lambda>scs. Inr (sc # scs)))"

text \<open>The second pass reads the same text again, so that it cannot fail; it fills the slots from the front.\<close>

definition room_scenario_store_import_json :: "json_lib \<Rightarrow> cjson \<Rightarrow> scenario_store \<Rightarrow> esp_err \<times> scenario_store" where
  "room_scenario_store_import_json lib root s =
     (if \<not> cJSON_IsObject (Some root) then (ESP_ERR_INVALID_ARG, s)
      else if item root ''version'' \<noteq> Some (CNumber 1) then (ESP_ERR_INVALID_VERSION, s)
      else case item root ''room_scenarios'' of
        Some (CArray items) \<Rightarrow>
          (if length items > ROOM_SCENARIO_MAX_SCENARIOS then (ESP_ERR_INVALID_SIZE, s)
           else case read_scenarios lib [] items of
             Inl err \<Rightarrow> (err, s)
           | Inr scs \<Rightarrow>
               (ESP_OK, s\<lparr>st_slots := map (\<lambda>sc. \<lparr>ss_in_use = True, ss_scenario = sc\<rparr>) scs @
                             replicate (length (st_slots s) - length scs) scenario_slot_zero,
                         st_generation := st_generation s + 1\<rparr>))
      | _ \<Rightarrow> (ESP_ERR_INVALID_ARG, s))"

definition ROOM_SCENARIO_FILE_MAX_BYTES :: nat where "ROOM_SCENARIO_FILE_MAX_BYTES = 262144"
definition ROOM_SCENARIO_STORAGE_PATH :: string where "ROOM_SCENARIO_STORAGE_PATH = ''/sdcard/quest/room_scenarios.json''"

definition room_scenario_store_save_to_path_locked ::
  "json_lib \<Rightarrow> disk \<Rightarrow> string \<Rightarrow> scenario_store \<Rightarrow> files \<Rightarrow> esp_err \<times> files" where
  "room_scenario_store_save_to_path_locked lib dk path s = save_document lib dk path (room_scenario_store_export_json lib s)"

definition room_scenario_store_load_from_path_locked ::
  "json_lib \<Rightarrow> disk \<Rightarrow> string \<Rightarrow> files \<Rightarrow> scenario_store \<Rightarrow> esp_err \<times> scenario_store" where
  "room_scenario_store_load_from_path_locked lib dk path fs s =
     (case load_document lib dk ROOM_SCENARIO_FILE_MAX_BYTES path fs of
        Inl err \<Rightarrow> (err, s) | Inr root \<Rightarrow> room_scenario_store_import_json lib root s)"

definition room_scenario_add_and_save ::
  "json_lib \<Rightarrow> disk \<Rightarrow> room_scenario \<Rightarrow> scenario_store \<Rightarrow> files \<Rightarrow> esp_err \<times> scenario_store \<times> files" where
  "room_scenario_add_and_save lib dk sc s =
     and_save (room_scenario_add sc s) (room_scenario_store_save_to_path_locked lib dk ROOM_SCENARIO_STORAGE_PATH)"

definition room_scenario_delete_and_save ::
  "json_lib \<Rightarrow> disk \<Rightarrow> string \<Rightarrow> scenario_store \<Rightarrow> files \<Rightarrow> esp_err \<times> scenario_store \<times> files" where
  "room_scenario_delete_and_save lib dk scenario_id s =
     and_save (room_scenario_delete scenario_id s) (room_scenario_store_save_to_path_locked lib dk ROOM_SCENARIO_STORAGE_PATH)"

definition room_scenario_store_import_json_and_save ::
  "json_lib \<Rightarrow> disk \<Rightarrow> cjson \<Rightarrow> scenario_store \<Rightarrow> files \<Rightarrow> esp_err \<times> scenario_store \<times> files" where
  "room_scenario_store_import_json_and_save lib dk root s =
     and_save (room_scenario_store_import_json lib root s)
       (room_scenario_store_save_to_path_locked lib dk ROOM_SCENARIO_STORAGE_PATH)"

end
