(* ===== verification/Scenario_Json_Props.thy ===== *)
theory Scenario_Json_Props
  imports Scenario_Json Profile_Store_Props
begin

text \<open>
  The scenario store as a table of valid scenarios, and what happens to a scenario that is written
  as JSON and read again.
\<close>

interpretation scenarios: keyed_table ss_in_use "\<lambda>s. sc_id (ss_scenario s)" scenario_slot_zero
  by unfold_locales (simp add: scenario_slot_zero_def)

section \<open>The invariant of the store\<close>

definition scenarios_ok :: "scenario_store \<Rightarrow> bool" where
  "scenarios_ok s \<longleftrightarrow> length (st_slots s) = ROOM_SCENARIO_MAX_SCENARIOS \<and> scenarios.unique_keys (st_slots s) \<and>
     (\<forall>t \<in> set (st_slots s). ss_in_use t \<longrightarrow> room_scenario_validate_structural (ss_scenario t) = ESP_OK)"

lemma find_is_scenario_slot: "k \<noteq> [] \<Longrightarrow> room_scenario_find_locked k slots = scenarios.slot_of k slots"
  by (simp add: room_scenario_find_locked_def scenarios.slot_of_def)

lemma structural_id: "room_scenario_validate_structural sc = ESP_OK \<Longrightarrow> sc_id sc \<noteq> []"
  by (auto simp: room_scenario_validate_structural_def)

lemma scenarios_zero_ok: "scenarios_ok scenario_store_zero"
  by (simp add: scenarios_ok_def scenario_store_zero_def scenarios.unique_blank) (simp add: scenario_slot_zero_def)

lemma scenario_add_keeps:
  assumes ok: "scenarios_ok s"
  shows "scenarios_ok (snd (room_scenario_add sc s))"
proof (cases "room_scenario_validate_structural sc = ESP_OK")
  case True
  then have ne: "sc_id sc \<noteq> []" by (rule structural_id)
  let ?v = "\<lparr>ss_in_use = True, ss_scenario = sc\<rparr>"
  have put: "scenarios_ok (s\<lparr>st_slots := (st_slots s)[i := ?v], st_generation := g\<rparr>)"
    if "i < length (st_slots s)" and "scenarios.slot_of (sc_id sc) (st_slots s) = Some i \<or>
      scenarios.slot_of (sc_id sc) (st_slots s) = None \<and> \<not> ss_in_use (st_slots s ! i)" for i g
  proof -
    have "scenarios.unique_keys ((st_slots s)[i := ?v])"
      using scenarios.write_entry(1) [of "st_slots s" i ?v] ok that by (simp add: scenarios_ok_def)
    then show ?thesis using ok True by (auto simp: scenarios_ok_def dest!: set_update_subset_insert [THEN subsetD])
  qed
  show ?thesis
  proof (cases "scenarios.slot_of (sc_id sc) (st_slots s)")
    case (Some i)
    then show ?thesis
      using True ne put [of i] scenarios.slot_of_SomeD [OF Some] by (simp add: room_scenario_add_def find_is_scenario_slot)
  next
    case None
    show ?thesis
    proof (cases "room_scenario_find_free_locked (st_slots s)")
      case (Some i)
      then have "i < length (st_slots s)" "\<not> ss_in_use (st_slots s ! i)"
        by (auto simp: room_scenario_find_free_locked_def dest: find_index_SomeD)
      with Some None True ne put [of i] show ?thesis by (simp add: room_scenario_add_def find_is_scenario_slot)
    qed (use None True ne ok in \<open>simp add: room_scenario_add_def find_is_scenario_slot\<close>)
  qed
qed (use ok in \<open>simp add: room_scenario_add_def\<close>)

lemma scenario_delete_keeps:
  assumes "scenarios_ok s"
  shows "scenarios_ok (snd (room_scenario_delete k s))"
proof (cases "k = [] \<or> scenarios.slot_of k (st_slots s) = None")
  case True
  then show ?thesis using assms by (auto simp: room_scenario_delete_def find_is_scenario_slot)
next
  case False
  then obtain i where i: "scenarios.slot_of k (st_slots s) = Some i" "k \<noteq> []" by auto
  have "scenarios.unique_keys ((st_slots s)[i := scenario_slot_zero])"
    using scenarios.clear_entry(1) [OF _ i(1)] assms by (simp add: scenarios_ok_def)
  with i assms show ?thesis
    by (auto simp: room_scenario_delete_def find_is_scenario_slot scenarios_ok_def scenario_slot_zero_def
        dest!: set_update_subset_insert [THEN subsetD])
qed

lemma from_json_valid_scenario:
  "room_scenario_from_json lib obj = Inr sc \<Longrightarrow> room_scenario_validate_structural sc = ESP_OK"
  by (auto simp: room_scenario_from_json_def Let_def bind_result_def split: if_splits sum.splits prod.splits)

lemma read_scenarios_valid:
  "read_scenarios lib seen xs = Inr scs \<Longrightarrow>
     length scs = length xs \<and> distinct (map sc_id scs) \<and> set (map sc_id scs) \<inter> set seen = {} \<and>
     (\<forall>sc \<in> set scs. room_scenario_validate_structural sc = ESP_OK)"
proof (induction lib seen xs arbitrary: scs rule: read_scenarios.induct)
  case (2 lib seen x xs)
  then obtain sc scs' where s: "room_scenario_from_json lib x = Inr sc" "sc_id sc \<notin> set seen"
    "read_scenarios lib (seen @ [sc_id sc]) xs = Inr scs'" "scs = sc # scs'"
    by (auto simp: bind_result_def split: sum.splits if_splits)
  from 2(1) [OF s(2,3)] from_json_valid_scenario [OF s(1)] s(2) show ?case unfolding s(4) by auto
qed simp

text \<open>A table filled from the front with entries of different ids.\<close>

lemma filled_unique:
  assumes "distinct (map sc_id scs)"
  shows "scenarios.unique_keys (map (\<lambda>sc. \<lparr>ss_in_use = True, ss_scenario = sc\<rparr>) scs @ replicate n scenario_slot_zero)"
  unfolding scenarios.unique_keys_def
proof (intro allI impI)
  fix i j
  let ?t = "map (\<lambda>sc. \<lparr>ss_in_use = True, ss_scenario = sc\<rparr>) scs @ replicate n scenario_slot_zero"
  assume a: "i < length ?t" "j < length ?t" "ss_in_use (?t ! i)" "ss_in_use (?t ! j)"
    "sc_id (ss_scenario (?t ! i)) = sc_id (ss_scenario (?t ! j))"
  have "k < length scs" if "k < length ?t" "ss_in_use (?t ! k)" for k
    using that by (auto simp: nth_append scenario_slot_zero_def split: if_splits)
  with a have "i < length scs" "j < length scs" by blast+
  with a(5) assms show "i = j" by (simp add: nth_append distinct_conv_nth) metis
qed

lemma scenario_slot_zero_unused [simp]: "\<not> ss_in_use scenario_slot_zero"
  by (simp add: scenario_slot_zero_def)

lemma scenario_import_keeps:
  assumes "scenarios_ok s"
  shows "scenarios_ok (snd (room_scenario_store_import_json lib root s))"
proof (cases "snd (room_scenario_store_import_json lib root s) = s")
  case False
  then obtain scs items where r: "snd (room_scenario_store_import_json lib root s) =
      s\<lparr>st_slots := map (\<lambda>sc. \<lparr>ss_in_use = True, ss_scenario = sc\<rparr>) scs @
        replicate (length (st_slots s) - length scs) scenario_slot_zero, st_generation := st_generation s + 1\<rparr>"
    "read_scenarios lib [] items = Inr scs" "length items \<le> ROOM_SCENARIO_MAX_SCENARIOS"
    by (auto simp: room_scenario_store_import_json_def split: if_splits option.splits cjson.splits sum.splits)
  from read_scenarios_valid [OF r(2)] r(3) assms show ?thesis
    unfolding r(1) by (auto simp: scenarios_ok_def filled_unique)
qed (use assms in simp)

lemma scenario_get_valid:
  assumes "scenarios_ok s" and "room_scenario_get sid s = Inr sc"
  shows "sc_id sc = sid \<and> room_scenario_validate_structural sc = ESP_OK"
  using assms scenarios.slot_of_SomeD [of sid "st_slots s"]
  by (auto simp: room_scenario_get_def find_is_scenario_slot scenarios_ok_def split: if_splits option.splits)

section \<open>Errors are errors\<close>

text \<open>A reader that fails reports an error code, never \<open>ESP_OK\<close>.\<close>

named_theorems honest_intros \<open>readers whose failures carry an error code\<close>

definition honest :: "esp_err + 'a \<Rightarrow> bool" where "honest r \<longleftrightarrow> r \<noteq> Inl ESP_OK"

lemma honest_Inr [simp]: "honest (Inr x)"
  by (simp add: honest_def)

lemma honest_Inl [simp]: "honest (Inl err) \<longleftrightarrow> err \<noteq> ESP_OK"
  by (simp add: honest_def)

lemma honest_bind [honest_intros]: "honest r \<Longrightarrow> (\<And>x. r = Inr x \<Longrightarrow> honest (f x)) \<Longrightarrow> honest (bind_result r f)"
  by (auto simp: honest_def bind_result_def split: sum.splits)

lemma honest_read_all [honest_intros]: "(\<And>x. honest (f x)) \<Longrightarrow> honest (read_all f xs)"
  by (induction xs) (auto simp: honest_def split: sum.splits)

lemma honest_members [honest_intros]:
  "honest (json_copy_string_required obj name n)" "honest (json_copy_string_optional obj name n)"
  "honest (json_get_uint32_required obj name)" "honest (json_get_uint32_optional obj name)"
  "honest (json_copy_object_string_optional lib obj name n)" "honest (json_bool_or d obj name)"
  "honest (json_bool_required obj name)" "honest (json_word f v)" "honest (json_word_or w g v)"
  "honest (array_within n v)" "honest (table_run xs i m)" "honest (json_add_object_string_optional lib name js)"
  "honest (json_copy_string v name n req)" "honest (json_duration v)" "honest (json_enabled v)"
  by (simp_all add: honest_def json_copy_string_required_def json_copy_string_optional_def json_number_u32_def
      json_get_uint32_required_def json_get_uint32_optional_def json_copy_object_string_optional_def json_bool_or_def
      json_bool_required_def json_word_def json_word_or_def array_within_def table_run_def
      json_add_object_string_optional_def json_copy_string_def json_duration_def json_enabled_def Let_def
      split: option.split cjson.split sum.split)

lemma honest_steps [honest_intros]:
  "honest (import_command_fields lib obj)" "honest (room_scenario_import_command_json lib obj)"
  "honest (import_event_ref obj)" "honest (import_flag name obj)" "honest (import_event_group obj)"
  "honest (reactive_import_trigger_event_group obj tr)" "honest (import_priority obj)" "honest (import_branch_type v)"
  by (auto simp: import_command_fields_def room_scenario_import_command_json_def import_event_ref_def import_flag_def
      import_event_group_def reactive_import_trigger_event_group_def import_priority_def import_branch_type_def
      intro!: honest_intros)

lemma honest_step_data [honest_intros]: "honest (import_step_data lib ty obj)"
  by (cases ty) (auto simp: import_step_data_def intro!: honest_intros)

lemma honest_action_data [honest_intros]: "honest (import_action_data lib ty obj sc)"
  by (cases ty) (auto simp: import_action_data_def Let_def intro!: honest_intros)

lemma honest_policies [honest_intros]:
  "honest (import_policy v l)" "honest (import_reentry v)" "honest (import_result_policy v)"
  by (auto simp: import_policy_def import_reentry_def import_result_policy_def Let_def
      split: option.split cjson.split intro!: honest_intros)

lemma honest_trigger [honest_intros]: "honest (import_trigger v)"
  by (auto simp: import_trigger_def Let_def split: option.split cjson.split reactive_trigger_kind.split
      intro!: honest_intros)

lemma honest_steps_array [honest_intros]:
  "honest (room_scenario_import_step_json lib obj)" "honest (room_scenario_import_steps_array lib v sc)"
  by (auto simp: room_scenario_import_step_json_def room_scenario_import_steps_array_def intro!: honest_intros)

lemma honest_actions [honest_intros]:
  "honest (room_scenario_import_reactive_action_json lib obj sc)"
  by (auto simp: room_scenario_import_reactive_action_json_def intro!: honest_intros)

lemma honest_action_list [honest_intros]: "honest (import_reactive_actions lib xs sc)"
  by (induction xs arbitrary: sc) (auto intro!: honest_intros)

lemma honest_actions_array [honest_intros]:
  "honest (room_scenario_import_reactive_actions_array lib v sc)" "honest (import_variant lib obj sc)"
  "honest (import_on_complete lib v sc)"
  by (auto simp: room_scenario_import_reactive_actions_array_def import_variant_def import_on_complete_def
      intro!: honest_intros)

lemma honest_variants [honest_intros]: "honest (import_variants lib xs sc)"
  by (induction xs arbitrary: sc) (auto intro!: honest_intros)

lemma honest_reactive_branch [honest_intros]:
  "honest (room_scenario_import_reactive_branch_v2_json lib obj sc b)" "honest (import_branch_head obj)"
  by (auto simp: room_scenario_import_reactive_branch_v2_json_def import_branch_head_def Let_def intro!: honest_intros)

lemma honest_branch [honest_intros]: "honest (import_branch lib obj sc)"
  by (auto simp: import_branch_def Let_def intro!: honest_intros)

lemma honest_branches [honest_intros]: "honest (import_branches lib xs sc)"
  by (induction xs arbitrary: sc) (auto intro!: honest_intros)

lemma honest_from_json [honest_intros]: "honest (room_scenario_from_json lib obj)"
  by (auto simp: room_scenario_from_json_def room_scenario_import_branches_json_def Let_def intro!: honest_intros)

lemma honest_export_commands [honest_intros]:
  "honest (room_scenario_export_command_json lib c)" "honest (export_command lib c)"
  by (auto simp: room_scenario_export_command_json_def export_command_def intro!: honest_intros)

lemma honest_export_steps [honest_intros]:
  "honest (export_step_data lib d)" "honest (export_action_data lib sc a)"
  "honest (room_scenario_export_step_json lib s)" "honest (room_scenario_export_reactive_action_json lib sc a)"
  by (auto simp: export_step_data_def export_action_data_def room_scenario_export_step_json_def
      room_scenario_export_reactive_action_json_def split: step_data.split intro!: honest_intros)

lemma honest_to_json [honest_intros]: "honest (room_scenario_to_json lib sc)"
  by (auto simp: room_scenario_to_json_def room_scenario_export_branch_json_def export_reaction_def
      room_scenario_export_reactive_branch_v2_json_def export_variant_def export_actions_def export_branch_steps_def
      Let_def intro!: honest_intros)

lemma honest_profiles [honest_intros]: "honest (gm_game_profile_from_json js)" "honest (gm_game_profile_to_json p)"
  by (auto simp: gm_game_profile_from_json_def gm_game_profile_to_json_def Let_def intro!: honest_intros)

lemma honest_lookups [honest_intros]: "honest (room_scenario_get sid s)" "honest (gm_game_profile_get pid ps)"
  by (simp_all add: room_scenario_get_def gm_game_profile_get_def split: option.split)

end
