(* ===== verification/Scenario_Step_Roundtrip.thy ===== *)
theory Scenario_Step_Roundtrip
  imports Scenario_Json_Props
begin

text \<open>
  Steps of a scenario survive being written to JSON and read back, up to the time-outs that the reader
  ignores (\<open>room_scenario_json.c\<close>, \<open>room_scenario_json_export.c\<close>).
\<close>

section \<open>Steps written and read back\<close>

text \<open>
  What the fields of a step can hold: the texts fit, required texts are not empty, groups are not
  empty and within their limit.  The parameters of a command are the text of a JSON object as the
  library prints it.
\<close>

definition text_fits :: "nat \<Rightarrow> string \<Rightarrow> bool" where "text_fits n s \<longleftrightarrow> length s < n"
definition required_fits :: "nat \<Rightarrow> string \<Rightarrow> bool" where "required_fits n s \<longleftrightarrow> s \<noteq> [] \<and> length s < n"
definition group_fits :: "nat \<Rightarrow> 'a list \<Rightarrow> bool" where "group_fits n xs \<longleftrightarrow> xs \<noteq> [] \<and> length xs \<le> n"

definition params_fit :: "json_lib \<Rightarrow> string \<Rightarrow> bool" where
  "params_fit lib s \<longleftrightarrow> s = [] \<or> length s < ROOM_SCENARIO_COMMAND_PARAMS_JSON_MAX_LEN \<and>
     (case cJSON_Parse lib s of Some (CObject kvs) \<Rightarrow> cJSON_PrintUnformatted lib (CObject kvs) = s | _ \<Rightarrow> False)"

definition command_fits :: "json_lib \<Rightarrow> device_command \<Rightarrow> bool" where
  "command_fits lib c \<longleftrightarrow> required_fits ROOM_SCENARIO_DEVICE_ID_MAX_LEN (cmd_device_id c) \<and>
     required_fits ROOM_SCENARIO_DEVICE_COMMAND_ID_MAX_LEN (cmd_command_id c) \<and> params_fit lib (cmd_params_json c)"

definition event_fits :: "wait_device_event \<Rightarrow> bool" where
  "event_fits e \<longleftrightarrow> required_fits ROOM_SCENARIO_DEVICE_ID_MAX_LEN (wde_device_id e) \<and>
     required_fits ROOM_SCENARIO_DEVICE_EVENT_ID_MAX_LEN (wde_event_id e) \<and>
     text_fits ROOM_SCENARIO_OPERATOR_MESSAGE_MAX_LEN (wde_timeout_message e)"

definition step_flag_fits :: "flag_condition \<Rightarrow> bool" where
  "step_flag_fits f \<longleftrightarrow> required_fits ROOM_SCENARIO_FLAG_NAME_MAX_LEN (fl_name f)"

fun data_fits :: "json_lib \<Rightarrow> step_data \<Rightarrow> bool" where
  "data_fits lib (STEP_DEVICE_COMMAND c) \<longleftrightarrow> command_fits lib c"
| "data_fits lib (STEP_DEVICE_COMMAND_GROUP cs) \<longleftrightarrow>
     group_fits ROOM_SCENARIO_COMMAND_GROUP_MAX_COMMANDS cs \<and> list_all (command_fits lib) cs"
| "data_fits lib (STEP_WAIT_DEVICE_EVENT e) \<longleftrightarrow> event_fits e"
| "data_fits lib (STEP_OPERATOR_APPROVAL p l) \<longleftrightarrow>
     required_fits ROOM_SCENARIO_OPERATOR_PROMPT_MAX_LEN p \<and> text_fits ROOM_SCENARIO_OPERATOR_LABEL_MAX_LEN l"
| "data_fits lib (STEP_SHOW_OPERATOR_MESSAGE m) \<longleftrightarrow> required_fits ROOM_SCENARIO_OPERATOR_MESSAGE_MAX_LEN m"
| "data_fits lib (STEP_SET_FLAG f) \<longleftrightarrow> step_flag_fits f"
| "data_fits lib (STEP_WAIT_FLAGS w) \<longleftrightarrow> group_fits ROOM_SCENARIO_WAIT_FLAGS_MAX_FLAGS (wf_flags w) \<and>
     list_all step_flag_fits (wf_flags w) \<and> text_fits ROOM_SCENARIO_OPERATOR_MESSAGE_MAX_LEN (wf_timeout_message w)"
| "data_fits lib (STEP_WAIT_ANY_DEVICE_EVENT g) \<longleftrightarrow>
     group_fits ROOM_SCENARIO_WAIT_EVENT_GROUP_MAX_EVENTS (weg_events g) \<and> list_all event_fits (weg_events g)"
| "data_fits lib (STEP_WAIT_ALL_DEVICE_EVENTS g) \<longleftrightarrow>
     group_fits ROOM_SCENARIO_WAIT_EVENT_GROUP_MAX_EVENTS (weg_events g) \<and> list_all event_fits (weg_events g)"
| "data_fits lib _ \<longleftrightarrow> True"

definition step_fits :: "json_lib \<Rightarrow> scenario_step \<Rightarrow> bool" where
  "step_fits lib s \<longleftrightarrow> required_fits ROOM_SCENARIO_STEP_ID_MAX_LEN (st_id s) \<and>
     text_fits ROOM_SCENARIO_STEP_LABEL_MAX_LEN (st_label s) \<and>
     text_fits ROOM_SCENARIO_OPERATOR_LABEL_MAX_LEN (st_operator_skip_label s) \<and> data_fits lib (st_data s)"

text \<open>What reading a step back makes of its time-outs.\<close>

definition bare_event :: "wait_device_event \<Rightarrow> wait_device_event" where
  "bare_event e = e\<lparr>wde_timeout_ms := 0, wde_timeout_action := WAIT_TIMEOUT_CONTINUE, wde_timeout_message := []\<rparr>"

definition bare_group :: "wait_event_group \<Rightarrow> wait_event_group" where
  "bare_group g = \<lparr>weg_events = map bare_event (weg_events g), weg_timeout_ms = 0, weg_timeout_action = WAIT_TIMEOUT_CONTINUE\<rparr>"

fun reread_data :: "step_data \<Rightarrow> step_data" where
  "reread_data (STEP_WAIT_TIME w) = STEP_WAIT_TIME (w\<lparr>wt_timeout_action := WAIT_TIMEOUT_CONTINUE\<rparr>)"
| "reread_data (STEP_WAIT_DEVICE_EVENT e) = STEP_WAIT_DEVICE_EVENT (e\<lparr>wde_timeout_action := WAIT_TIMEOUT_CONTINUE\<rparr>)"
| "reread_data (STEP_WAIT_FLAGS w) = STEP_WAIT_FLAGS (w\<lparr>wf_timeout_action := WAIT_TIMEOUT_CONTINUE\<rparr>)"
| "reread_data (STEP_WAIT_ANY_DEVICE_EVENT g) = STEP_WAIT_ANY_DEVICE_EVENT (bare_group g)"
| "reread_data (STEP_WAIT_ALL_DEVICE_EVENTS g) = STEP_WAIT_ALL_DEVICE_EVENTS (bare_group g)"
| "reread_data d = d"

lemmas fits_defs = text_fits_def required_fits_def group_fits_def

lemma same_word_simps [simp]:
  "same_word [] [] = True" "same_word [] (d # t) = False" "same_word (c # s) [] = False"
  "same_word (c # s) (d # t) = (if ascii_lower c = ascii_lower d then same_word s t else False)"
  by (simp_all add: same_word_def)

lemma step_type_words: "room_scenario_step_type_from_str (room_scenario_step_type_to_str ty) = Inr ty"
  by (induct ty) (simp_all add: room_scenario_step_type_from_str_def word_value_def ascii_lower_def)

lemma json_u32 [simp]: "json_number_u32 (uint w) = Inr w"
  using unsigned_less [of w, where 'a = int] by (simp add: json_number_u32_def)

lemma read_back:
  assumes "\<And>x. x \<in> set xs \<Longrightarrow> f (g x) = Inr (h x)"
  shows "read_all f (map g xs) = Inr (map h xs)"
  using assms by (induction xs) (auto simp: bind_result_def)

lemma event_read_back: "event_fits e \<Longrightarrow> import_event_ref (export_event_ref e) = Inr (bare_event e)"
  by (simp add: import_event_ref_def export_event_ref_def json_copy_string_required_def event_fits_def fits_defs
      bind_result_def cJSON_GetObjectItemCaseSensitive_def bare_event_def)

lemma flag_read_back: "step_flag_fits f \<Longrightarrow> import_flag ''flag_name'' (CObject (export_flag ''flag_name'' f)) = Inr f"
  by (simp add: import_flag_def export_flag_def json_copy_string_required_def json_bool_required_def step_flag_fits_def
      fits_defs bind_result_def cJSON_GetObjectItemCaseSensitive_def)

lemma command_params_read_back:
  assumes "params_fit lib s"
  obtains kvs where "json_add_object_string_optional lib ''params'' s = Inr kvs" and "set (map fst kvs) \<subseteq> {''params''}"
    and "json_copy_object_string_optional lib (CObject kvs) ''params'' ROOM_SCENARIO_COMMAND_PARAMS_JSON_MAX_LEN = Inr s"
proof (cases "s = []")
  case True
  then show thesis
    by (intro that [of "[]"]) (simp_all add: json_add_object_string_optional_def
        json_copy_object_string_optional_def cJSON_GetObjectItemCaseSensitive_def)
next
  case False
  with assms obtain kvs where "cJSON_Parse lib s = Some (CObject kvs)" "cJSON_PrintUnformatted lib (CObject kvs) = s"
    "length s < ROOM_SCENARIO_COMMAND_PARAMS_JSON_MAX_LEN"
    by (auto simp: params_fit_def split: option.splits cjson.splits)
  with False show thesis
    by (intro that [of "[(''params'', CObject kvs)]"]) (simp_all add: json_add_object_string_optional_def
        json_copy_object_string_optional_def cJSON_GetObjectItemCaseSensitive_def)
qed

lemma command_read_back:
  assumes "command_fits lib c"
  obtains kvs where "room_scenario_export_command_json lib c = Inr kvs"
    and "set (map fst kvs) \<subseteq> {''device_id'', ''command_id'', ''params''}"
    and "import_command_fields lib (CObject kvs) = Inr c"
proof -
  obtain kvs where kvs: "json_add_object_string_optional lib ''params'' (cmd_params_json c) = Inr kvs"
    "set (map fst kvs) \<subseteq> {''params''}"
    "json_copy_object_string_optional lib (CObject kvs) ''params'' ROOM_SCENARIO_COMMAND_PARAMS_JSON_MAX_LEN =
       Inr (cmd_params_json c)"
    using assms command_params_read_back by (auto simp: command_fits_def)
  let ?all = "[(''device_id'', CString (cmd_device_id c)), (''command_id'', CString (cmd_command_id c))] @ kvs"
  have "room_scenario_export_command_json lib c = Inr ?all"
    by (simp add: room_scenario_export_command_json_def kvs(1) bind_result_def)
  moreover have "import_command_fields lib (CObject ?all) = Inr c"
    using assms kvs(3)
    by (simp add: import_command_fields_def json_copy_string_required_def command_fits_def fits_defs bind_result_def
        json_copy_object_string_optional_def cJSON_GetObjectItemCaseSensitive_def)
  ultimately show thesis using kvs(2) that by fastforce
qed

lemma commands_read_back:
  assumes "list_all (command_fits lib) cs"
  shows "\<exists>js. read_all (export_command lib) cs = Inr js \<and> length js = length cs \<and>
    read_all (import_command_fields lib) js = Inr cs"
  using assms
proof (induction cs)
  case (Cons c cs)
  from Cons.prems have "command_fits lib c" by simp
  then obtain kvs where "room_scenario_export_command_json lib c = Inr kvs"
    "import_command_fields lib (CObject kvs) = Inr c" by (rule command_read_back)
  moreover obtain js where "read_all (export_command lib) cs = Inr js" "length js = length cs"
    "read_all (import_command_fields lib) js = Inr cs" using Cons by auto
  moreover from calculation(1) have "export_command lib c = Inr (CObject kvs)"
    by (simp add: export_command_def bind_result_def)
  ultimately show ?case by (intro exI [of _ "CObject kvs # js"]) simp
qed simp

definition step_head :: "scenario_step \<Rightarrow> (string \<times> cjson) list" where
  "step_head s = [(''id'', CString (st_id s)), (''label'', CString (st_label s)), (''enabled'', CBool (st_enabled s)),
     (''type'', CString (room_scenario_step_type_to_str (step_type_of (st_data s))))] @
     member_if (st_allow_operator_skip s) ''allow_operator_skip'' (CBool True) @
     member_if (st_operator_skip_label s \<noteq> []) ''operator_skip_label'' (CString (st_operator_skip_label s))"

definition head_keys :: "string set" where
  "head_keys = {''id'', ''label'', ''enabled'', ''type'', ''allow_operator_skip'', ''operator_skip_label''}"

lemma item_after_head: "k \<notin> head_keys \<Longrightarrow> item (CObject (step_head s @ kvs)) k = item (CObject kvs) k"
  by (simp add: head_keys_def step_head_def member_if_def cJSON_GetObjectItemCaseSensitive_def)

lemma data_after_head: "import_step_data lib ty (CObject (step_head s @ kvs)) = import_step_data lib ty (CObject kvs)"
  by (simp add: import_step_data_def import_event_group_def import_event_ref_def import_flag_def
      room_scenario_import_command_json_def import_command_fields_def json_get_uint32_required_def
      json_get_uint32_optional_def json_copy_string_required_def json_copy_string_optional_def
      json_copy_object_string_optional_def json_bool_required_def item_after_head head_keys_def
      split: step_type.split)

lemma step_after_head:
  assumes "required_fits ROOM_SCENARIO_STEP_ID_MAX_LEN (st_id s)" and "text_fits ROOM_SCENARIO_STEP_LABEL_MAX_LEN (st_label s)"
    and "text_fits ROOM_SCENARIO_OPERATOR_LABEL_MAX_LEN (st_operator_skip_label s)"
    and "set (map fst kvs) \<inter> head_keys = {}" and "import_step_data lib (step_type_of (st_data s)) (CObject kvs) = Inr d"
  shows "room_scenario_import_step_json lib (CObject (step_head s @ kvs)) = Inr (s\<lparr>st_data := d\<rparr>)"
proof -
  have none: "map_of kvs ''allow_operator_skip'' = None" "map_of kvs ''operator_skip_label'' = None"
    using assms(4) by (auto simp: map_of_eq_None_iff head_keys_def)
  have ty: "json_word room_scenario_step_type_from_str (item (CObject (step_head s @ kvs)) ''type'') =
      Inr (step_type_of (st_data s))"
    by (simp add: json_word_def step_head_def cJSON_GetObjectItemCaseSensitive_def step_type_words)
  show ?thesis
    using assms(1-3,5)
    by (simp add: room_scenario_import_step_json_def ty data_after_head bind_result_def)
      (simp add: json_copy_string_required_def json_copy_string_optional_def json_bool_or_def step_head_def member_if_def
        cJSON_GetObjectItemCaseSensitive_def none fits_defs)
qed

text \<open>Members that hold time-outs.\<close>

lemma timeout_keys: "set (map fst (export_timeout t a)) \<subseteq> {''timeout_ms'', ''timeout_action''}"
  by (auto simp: export_timeout_def member_if_def)

lemma timeout_items:
  "map_of (export_timeout t a) ''timeout_ms'' = (if t > 0 then Some (CNumber (uint t)) else None)"
  "k \<notin> {''timeout_ms'', ''timeout_action''} \<Longrightarrow> map_of (export_timeout t a) k = None"
  by (simp_all add: export_timeout_def member_if_def)

lemma wait_event_read_back:
  assumes "event_fits e"
  shows "import_step_data lib ROOM_SCENARIO_STEP_WAIT_DEVICE_EVENT (CObject
      ([(''device_id'', CString (wde_device_id e)), (''event_id'', CString (wde_event_id e))] @
        export_timeout (wde_timeout_ms e) (wde_timeout_action e) @
        member_if (wde_timeout_message e \<noteq> []) ''timeout_message'' (CString (wde_timeout_message e)))) =
    Inr (STEP_WAIT_DEVICE_EVENT (e\<lparr>wde_timeout_action := WAIT_TIMEOUT_CONTINUE\<rparr>))"
  using assms
  by (cases "wde_timeout_ms e = 0")
    (simp_all add: import_step_data_def import_event_ref_def bind_result_def event_fits_def fits_defs
      json_copy_string_required_def json_copy_string_optional_def json_get_uint32_optional_def
      cJSON_GetObjectItemCaseSensitive_def map_add_def timeout_items member_if_def word_gt_0)

lemma wait_flags_read_back:
  assumes "data_fits lib (STEP_WAIT_FLAGS w)"
  shows "import_step_data lib ROOM_SCENARIO_STEP_WAIT_FLAGS (CObject
      ((''flags'', CArray (map (\<lambda>f. CObject (export_flag ''flag_name'' f)) (wf_flags w))) #
        export_timeout (wf_timeout_ms w) (wf_timeout_action w) @
        member_if (wf_timeout_message w \<noteq> []) ''timeout_message'' (CString (wf_timeout_message w)))) =
    Inr (STEP_WAIT_FLAGS (w\<lparr>wf_timeout_action := WAIT_TIMEOUT_CONTINUE\<rparr>))"
proof -
  have "read_all (import_flag ''flag_name'') (map (\<lambda>f. CObject (export_flag ''flag_name'' f)) (wf_flags w)) = Inr (wf_flags w)"
    using read_back [of "wf_flags w" "import_flag ''flag_name''" _ id] assms flag_read_back by (simp add: list_all_iff)
  then show ?thesis
    using assms
    by (cases "wf_timeout_ms w = 0")
      (simp_all add: import_step_data_def bind_result_def fits_defs array_within_def
        json_copy_string_optional_def json_get_uint32_optional_def
        cJSON_GetObjectItemCaseSensitive_def map_add_def timeout_items member_if_def word_gt_0)
qed

lemma group_read_back:
  assumes "group_fits ROOM_SCENARIO_WAIT_EVENT_GROUP_MAX_EVENTS (weg_events g)" and "list_all event_fits (weg_events g)"
  shows "import_event_group (CObject (export_event_group g)) = Inr (bare_group g)"
  using assms read_back [of "weg_events g" import_event_ref export_event_ref bare_event] event_read_back
  by (simp add: import_event_group_def export_event_group_def array_within_def bind_result_def fits_defs list_all_iff
      cJSON_GetObjectItemCaseSensitive_def bare_group_def)

text \<open>The two control actions of reactions are no steps of a story: the writer refuses them.\<close>

abbreviation control_data :: "step_data \<Rightarrow> bool" where
  "control_data \<equiv> room_scenario_is_reactive_control_action_type"

lemma control_refused: "control_data d \<Longrightarrow> export_step_data lib d = Inl ESP_ERR_INVALID_ARG"
  by (cases d) (simp_all add: export_step_data_def)

lemma data_read_back:
  assumes "data_fits lib d" and "\<not> control_data d"
  shows "\<exists>kvs. export_step_data lib d = Inr kvs \<and> set (map fst kvs) \<inter> head_keys = {} \<and>
    import_step_data lib (step_type_of d) (CObject kvs) = Inr (reread_data d)"
proof (cases d)
  case (STEP_DEVICE_COMMAND c)
  with assms obtain kvs where "room_scenario_export_command_json lib c = Inr kvs"
    "set (map fst kvs) \<subseteq> {''device_id'', ''command_id'', ''params''}" "import_command_fields lib (CObject kvs) = Inr c"
    using command_read_back by (metis data_fits.simps(1))
  with STEP_DEVICE_COMMAND show ?thesis
    by (auto simp: export_step_data_def import_step_data_def bind_result_def head_keys_def
        room_scenario_import_command_json_def)
next
  case (STEP_DEVICE_COMMAND_GROUP cs)
  with assms commands_read_back [of lib cs] obtain js where "read_all (export_command lib) cs = Inr js"
    "length js = length cs" "read_all (import_command_fields lib) js = Inr cs" by auto
  with STEP_DEVICE_COMMAND_GROUP assms show ?thesis
    by (auto simp: export_step_data_def import_step_data_def bind_result_def head_keys_def array_within_def fits_defs
        cJSON_GetObjectItemCaseSensitive_def)
next
  case (STEP_WAIT_DEVICE_EVENT e)
  with assms wait_event_read_back [of e lib] timeout_keys [of "wde_timeout_ms e" "wde_timeout_action e"] show ?thesis
    by (auto simp: export_step_data_def head_keys_def member_if_def)
next
  case (STEP_WAIT_FLAGS w)
  with assms wait_flags_read_back [of lib w] timeout_keys [of "wf_timeout_ms w" "wf_timeout_action w"] show ?thesis
    by (auto simp: export_step_data_def head_keys_def member_if_def)
next
  case (STEP_WAIT_ANY_DEVICE_EVENT g)
  with assms group_read_back [of g] timeout_keys [of "weg_timeout_ms g" "weg_timeout_action g"] show ?thesis
    by (auto simp: export_step_data_def import_step_data_def bind_result_def head_keys_def export_event_group_def)
next
  case (STEP_WAIT_ALL_DEVICE_EVENTS g)
  with assms group_read_back [of g] timeout_keys [of "weg_timeout_ms g" "weg_timeout_action g"] show ?thesis
    by (auto simp: export_step_data_def import_step_data_def bind_result_def head_keys_def export_event_group_def)
next
  case (STEP_SET_FLAG f)
  with assms flag_read_back [of f] show ?thesis
    by (auto simp: export_step_data_def import_step_data_def bind_result_def head_keys_def export_flag_def)
qed (use assms in \<open>auto simp: export_step_data_def import_step_data_def bind_result_def head_keys_def fits_defs
      cJSON_GetObjectItemCaseSensitive_def json_copy_string_required_def json_copy_string_optional_def
      json_get_uint32_required_def\<close>)

text \<open>
  C22: a step written to JSON and read back.  Take any step whose texts and groups fit their fields
  and whose command parameters are JSON objects as the library prints them.  If it is one of the two
  control actions of reactions (fail, reset), writing it is refused.  Otherwise it is written without
  an error, and reading it back gives the same step, up to its time-outs: the action on a time-out is
  never read, and waits for a group of events lose the time-out itself (\<open>reread_data\<close>), although both
  are written to the file.
\<close>

theorem step_round_trip:
  assumes "step_fits lib s"
  shows "if control_data (st_data s) then room_scenario_export_step_json lib s = Inl ESP_ERR_INVALID_ARG
    else \<exists>j. room_scenario_export_step_json lib s = Inr j \<and>
      room_scenario_import_step_json lib j = Inr (s\<lparr>st_data := reread_data (st_data s)\<rparr>)"
proof (cases "control_data (st_data s)")
  case True
  then show ?thesis by (simp add: room_scenario_export_step_json_def control_refused bind_result_def)
next
  case False
  obtain kvs where kvs: "export_step_data lib (st_data s) = Inr kvs" "set (map fst kvs) \<inter> head_keys = {}"
    "import_step_data lib (step_type_of (st_data s)) (CObject kvs) = Inr (reread_data (st_data s))"
    using data_read_back [of lib "st_data s"] assms False by (auto simp: step_fits_def)
  have "room_scenario_export_step_json lib s = Inr (CObject (step_head s @ kvs))"
    by (simp add: room_scenario_export_step_json_def kvs(1) bind_result_def step_head_def)
  moreover have "room_scenario_import_step_json lib (CObject (step_head s @ kvs)) =
      Inr (s\<lparr>st_data := reread_data (st_data s)\<rparr>)"
    using assms kvs(2,3) by (intro step_after_head) (simp_all add: step_fits_def)
  ultimately show ?thesis using False by simp
qed

definition group_wait :: scenario_step where
  "group_wait = \<lparr>st_id = ''w'', st_label = ''both levers'', st_enabled = True, st_allow_operator_skip = True,
     st_operator_skip_label = ''skip'', st_data = STEP_WAIT_ALL_DEVICE_EVENTS
       \<lparr>weg_events = [\<lparr>wde_device_id = ''lever'', wde_event_id = ''down'', wde_timeout_ms = 0,
          wde_timeout_action = WAIT_TIMEOUT_CONTINUE, wde_timeout_message = []\<rparr>],
        weg_timeout_ms = 5000, weg_timeout_action = WAIT_TIMEOUT_FAIL_REACTION\<rparr>\<rparr>"

theorem step_round_trip_witness:
  "\<exists>j s'. room_scenario_export_step_json profile_lib group_wait = Inr j \<and>
     room_scenario_import_step_json profile_lib j = Inr s' \<and> s' \<noteq> group_wait"
proof -
  have "step_fits profile_lib group_wait" by code_simp
  moreover have "group_wait\<lparr>st_data := reread_data (st_data group_wait)\<rparr> \<noteq> group_wait"
    by (simp add: group_wait_def bare_group_def)
  ultimately show ?thesis using step_round_trip [of profile_lib group_wait] by (auto simp: group_wait_def)
qed

end
