(* ===== verification/Control_Service.thy ===== *)
theory Control_Service
  imports Control_Plan Scenario_Prepare Scenario_Json
begin

text \<open>
  The operations of the control service on rooms
  (\<open>scenehub_control/scenehub_control.c\<close>, \<open>scenehub_control_scenarios.c\<close>,
  \<open>scenehub_control_profiles.c\<close>, \<open>scenehub_control_rooms.c\<close>): they combine the game core, the
  command loop, the catalogues and the stores into one state \<open>hub\<close>.  Every operation fills a
  result for the caller and records what it tells the audit log, the timeline and the state
  registry.  What an operation reads of the outside is the record \<open>hub_env\<close>: \<open>he_clock n\<close> is the
  \<open>n\<close>-th reading of the clock, \<open>he_room_health\<close> the health that the read model computes for a room,
  \<open>he_safe_off\<close> the result of switching all outputs off when the hardware is present.  An operation
  that carries out a command plan is \<open>None\<close> when the loop does not return.
\<close>

datatype orch_health = ORCH_HEALTH_OK | ORCH_HEALTH_DEGRADED | ORCH_HEALTH_FAULT

record hub =
  hb_core :: gm_core
  hb_exec :: executor
  hb_devices :: quest_devices
  hb_rooms :: room_catalog
  hb_profiles :: profile_store
  hb_scenarios :: scenario_store
  hb_files :: files
  hb_effects :: "control_effect list"

record hub_env =
  he_lib :: json_lib
  he_compact_event :: "string \<Rightarrow> string \<Rightarrow> esp_err + quest_device_event"
  he_validate :: validator
  he_envs :: "nat \<Rightarrow> ce_env"
  he_clock :: "nat \<Rightarrow> u64"
  he_room_health :: "string \<Rightarrow> esp_err + orch_health"
  he_safe_off :: "esp_err option"
  he_disk :: disk
  he_persist :: bool

definition tell :: "control_effect list \<Rightarrow> hub \<Rightarrow> hub" where
  "tell es h = h\<lparr>hb_effects := hb_effects h @ es\<rparr>"

definition on_core :: "(gm_core \<Rightarrow> esp_err \<times> gm_core) \<Rightarrow> hub \<Rightarrow> esp_err \<times> hub" where
  "on_core f h = (let (err, k) = f (hb_core h) in (err, h\<lparr>hb_core := k\<rparr>))"

definition read_core :: "(gm_core \<Rightarrow> (esp_err + 'a) \<times> gm_core) \<Rightarrow> hub \<Rightarrow> (esp_err + 'a) \<times> hub" where
  "read_core f h = (let (v, k) = f (hb_core h) in (v, h\<lparr>hb_core := k\<rparr>))"

text \<open>\<open>if (err == ESP_OK) err = f(...)\<close>\<close>

definition and_then :: "esp_err \<times> hub \<Rightarrow> (hub \<Rightarrow> esp_err \<times> hub) \<Rightarrow> esp_err \<times> hub" where
  "and_then r f = (let (err, h) = r in if err = ESP_OK then f h else (err, h))"

section \<open>Rooms and profiles of the caller\<close>

definition scenehub_control_require_room :: "string \<Rightarrow> hub \<Rightarrow> esp_err" where
  "scenehub_control_require_room room_id h =
     (if room_id = [] then ESP_ERR_INVALID_ARG
      else if room_catalog_exists room_id (hb_rooms h) then ESP_OK else ESP_ERR_NOT_FOUND)"

definition scenehub_control_build_session_profile :: "game_profile \<Rightarrow> session_profile" where
  "scenehub_control_build_session_profile p = \<lparr>
     pf_id = scenehub_control_copy GM_ROOM_SESSION_PROFILE_ID_MAX_LEN (gp_id p),
     pf_name = scenehub_control_copy GM_ROOM_SESSION_PROFILE_NAME_MAX_LEN (gp_name p),
     pf_room_id = scenehub_control_copy QUEST_ROOM_ID_MAX_LEN (gp_room_id p),
     pf_scenario_id = scenehub_control_copy ROOM_SCENARIO_ID_MAX_LEN (gp_scenario_id p),
     pf_duration_ms = gp_duration_ms p\<rparr>"

text \<open>The profile of a room with its scenario, as selecting, starting and resetting a game read it.\<close>

definition load_profile_scenario :: "string \<Rightarrow> string \<Rightarrow> hub \<Rightarrow> esp_err + game_profile \<times> room_scenario" where
  "load_profile_scenario room_id profile_id h =
     bind_result (gm_game_profile_get profile_id (hb_profiles h)) (\<lambda>p.
       if gp_room_id p \<noteq> room_id then Inl ESP_ERR_INVALID_STATE
       else let err = gm_game_profile_validate_reference (hb_rooms h) (hb_scenarios h) p in
         if err \<noteq> ESP_OK then Inl err
         else bind_result (room_scenario_get (gp_scenario_id p) (hb_scenarios h)) (\<lambda>sc. Inr (p, sc)))"

definition scenehub_control_load_selected_scenario :: "string \<Rightarrow> hub \<Rightarrow> (esp_err + room_scenario \<times> u32) \<times> hub" where
  "scenehub_control_load_selected_scenario room_id h =
     (if room_id = [] then (Inl ESP_ERR_INVALID_ARG, h)
      else let (v, h1) = read_core (gm_room_session_get_selected_view room_id) h in
        (bind_result v (\<lambda>selected.
           if sv_selected_scenario_id selected = [] then Inl ESP_ERR_INVALID_STATE
           else bind_result (room_scenario_get (sv_selected_scenario_id selected) (hb_scenarios h1)) (\<lambda>sc.
             if sc_room_id sc \<noteq> room_id then Inl ESP_ERR_INVALID_STATE
             else Inr (sc, st_generation (hb_scenarios h1)))), h1))"

definition dispatch_plan :: "hub_env \<Rightarrow> command_plan \<Rightarrow> hub \<Rightarrow> (esp_err \<times> hub) option" where
  "dispatch_plan env plan h =
     map_option (\<lambda>(err, _, k, x). (err, h\<lparr>hb_core := k, hb_exec := x\<rparr>))
       (scenehub_control_dispatch_session_command_plan (he_lib env) (he_envs env) (hb_devices h) 0 plan
          (hb_core h) (hb_exec h))"

text \<open>Carry the plan of a core operation out when the operation succeeded.\<close>

definition run_plan :: "hub_env \<Rightarrow> esp_err \<times> command_plan \<times> gm_core \<Rightarrow> hub \<Rightarrow> (esp_err \<times> hub) option" where
  "run_plan env r h =
     (let (err, plan, k) = r; h1 = h\<lparr>hb_core := k\<rparr>
      in if err = ESP_OK then dispatch_plan env plan h1 else Some (err, h1))"

section \<open>Room actions\<close>

definition scenehub_control_preflight_room_action :: "hub_env \<Rightarrow> string \<Rightarrow> string \<Rightarrow> esp_err" where
  "scenehub_control_preflight_room_action env room_id action_id =
     (if room_id = [] \<or> action_id = [] then ESP_ERR_INVALID_ARG
      else if action_id \<noteq> ''start_game'' then ESP_OK
      else case he_room_health env room_id of
        Inl err \<Rightarrow> err
      | Inr health \<Rightarrow> (if health = ORCH_HEALTH_FAULT then SCENEHUB_CONTROL_ERR_ROOM_UNHEALTHY else ESP_OK))"

definition absent_timer_view :: timer_view where
  "absent_timer_view = \<lparr>tv_generation = 0, tv_session_state = GM_SESSION_IDLE, tv_session_active = False,
     tv_started_at_ms = 0, tv_finished_at_ms = 0, tv_timer_state = GM_TIMER_IDLE, tv_duration_ms = 0,
     tv_remaining_ms = 0, tv_paused_at_ms = 0, tv_hint_active = False, tv_hint_count = 0,
     tv_hint_updated_at_ms = 0, tv_hint_text = []\<rparr>"

definition absent_selected_view :: selected_view where
  "absent_selected_view = \<lparr>sv_generation = 0, sv_selected_scenario_generation = 0, sv_selected_profile_id = [],
     sv_selected_profile_name = [], sv_selected_profile_scenario_id = [], sv_selected_profile_duration_ms = 0,
     sv_selected_scenario_id = [], sv_selected_scenario_name = [], sv_running_scenario_valid = False,
     sv_running_scenario_id = [], sv_running_scenario_name = [], sv_running_scenario_generation = 0\<rparr>"

text \<open>Whether an action may be carried out; \<open>None\<close> for an action the service does not know.\<close>

definition action_enabled :: "string \<Rightarrow> bool \<Rightarrow> timer_view \<Rightarrow> selected_view \<Rightarrow> bool option" where
  "action_enabled action_id session_present timer selected =
     (if action_id = ''start_game''
      then Some (sv_selected_profile_id selected \<noteq> [] \<and> tv_session_state timer \<noteq> GM_SESSION_RUNNING)
      else if action_id = ''stop_game''
      then Some (session_present \<and> tv_session_state timer \<noteq> GM_SESSION_FINISHED \<and>
                 sv_selected_profile_id selected \<noteq> [])
      else if action_id = ''reset_game''
      then Some (session_present \<and> (sv_selected_profile_id selected \<noteq> [] \<or> tv_duration_ms timer > 0))
      else if action_id = ''reset_room_timer'' then Some (tv_duration_ms timer > 0)
      else if action_id = ''pause_room_timer'' then Some (tv_timer_state timer = GM_TIMER_RUNNING)
      else if action_id = ''resume_room_timer'' then Some (tv_timer_state timer = GM_TIMER_PAUSED)
      else if action_id = ''finish_room_session''
      then Some (session_present \<and> tv_session_state timer \<noteq> GM_SESSION_FINISHED \<and>
                 sv_selected_profile_id selected = [])
      else if action_id = ''clear_room_hint'' then Some (tv_hint_active timer)
      else None)"

definition scenehub_control_validate_room_action_enabled ::
  "hub_env \<Rightarrow> string \<Rightarrow> string \<Rightarrow> hub \<Rightarrow> esp_err \<times> hub" where
  "scenehub_control_validate_room_action_enabled env room_id action_id h =
     (if room_id = [] \<or> action_id = [] then (ESP_ERR_INVALID_ARG, h)
      else let err = scenehub_control_require_room room_id h in
        if err = ESP_ERR_NOT_FOUND then (SCENEHUB_CONTROL_ERR_ROOM_NOT_FOUND, h)
        else if err \<noteq> ESP_OK then (err, h)
        else let (v, h1) = read_core (gm_room_session_get_read_views room_id (he_clock env 0)) h;
                 decide = (\<lambda>present timer selected.
                   case action_enabled action_id present timer selected of
                     None \<Rightarrow> SCENEHUB_CONTROL_ERR_ACTION_NOT_FOUND
                   | Some enabled \<Rightarrow> (if enabled then ESP_OK else SCENEHUB_CONTROL_ERR_ACTION_DISABLED))
          in (case v of
                Inr (timer, selected, _) \<Rightarrow> decide True timer selected
              | Inl verr \<Rightarrow> (if verr \<noteq> ESP_ERR_NOT_FOUND then SCENEHUB_CONTROL_ERR_EXECUTION_FAILED
                            else decide False absent_timer_view absent_selected_view), h1))"

definition scenehub_control_owns_game_action :: "string \<Rightarrow> bool" where
  "scenehub_control_owns_game_action action_id \<longleftrightarrow>
     action_id = ''start_game'' \<or> action_id = ''stop_game'' \<or> action_id = ''reset_game''"

definition scenehub_control_safe_off_hardware_optional :: "hub_env \<Rightarrow> hub \<Rightarrow> esp_err \<times> hub" where
  "scenehub_control_safe_off_hardware_optional env h = (case he_safe_off env of
     None \<Rightarrow> (ESP_OK, h) | Some err \<Rightarrow> (err, tell [Hardware_Safe_Off] h))"

text \<open>Normalise the error, write the log entries, and return.\<close>

definition end_room_action :: "string \<Rightarrow> string \<Rightarrow> string \<Rightarrow> esp_err \<times> hub \<Rightarrow> esp_err \<times> hub" where
  "end_room_action source room_id action_id r =
     (let (err, h) = r; err1 = scenehub_control_normalize_room_action_error err
      in (err1, tell (scenehub_control_log_room_action source room_id action_id err1) h))"

definition start_game_inputs ::
  "hub_env \<Rightarrow> string \<Rightarrow> hub \<Rightarrow> (esp_err + game_profile \<times> room_scenario \<times> prepared_scenario) \<times> hub" where
  "start_game_inputs env room_id h =
     (let (v, h1) = read_core (gm_room_session_get_selected_view room_id) h in
      (bind_result v (\<lambda>selected.
         if sv_selected_profile_id selected = [] then Inl ESP_ERR_INVALID_STATE
         else bind_result (load_profile_scenario room_id (sv_selected_profile_id selected) h1) (\<lambda>(p, sc).
           bind_result (scenehub_control_prepare_session_scenario (he_compact_event env) (hb_devices h1) sc)
             (\<lambda>prepared. Inr (p, sc, prepared)))), h1))"

definition scenehub_control_execute_start_game ::
  "hub_env \<Rightarrow> string \<Rightarrow> string \<Rightarrow> string \<Rightarrow> hub \<Rightarrow> (esp_err \<times> hub) option" where
  "scenehub_control_execute_start_game env source room_id action_id h =
     map_option (end_room_action source room_id action_id)
       (let (err, h1) = scenehub_control_validate_room_action_enabled env room_id action_id h in
        if err \<noteq> ESP_OK then Some (err, h1)
        else let (v, h2) = start_game_inputs env room_id h1 in
          (case v of
             Inl err1 \<Rightarrow> Some (err1, h2)
           | Inr (p, sc, prepared) \<Rightarrow>
               run_plan env (gm_room_session_game_start_prepared (he_validate env) room_id (he_clock env 1)
                 (scenehub_control_build_session_profile p) sc prepared (gp_duration_ms p) (he_clock env 2)
                 (hb_core h2)) h2))"

definition scenehub_control_execute_stop_game ::
  "hub_env \<Rightarrow> string \<Rightarrow> string \<Rightarrow> string \<Rightarrow> hub \<Rightarrow> esp_err \<times> hub" where
  "scenehub_control_execute_stop_game env source room_id action_id h =
     end_room_action source room_id action_id
       (and_then (and_then (and_then
          (scenehub_control_validate_room_action_enabled env room_id action_id h)
          (on_core (gm_room_session_scenario_stop room_id)))
          (on_core (gm_room_session_finish room_id (he_clock env 1))))
          (scenehub_control_safe_off_hardware_optional env))"

text \<open>The part of \<open>reset_game\<close> that restores the selection; it yields the duration for the clock.\<close>

definition reset_game_selection :: "hub_env \<Rightarrow> string \<Rightarrow> hub \<Rightarrow> (esp_err \<times> hub) \<times> u32" where
  "reset_game_selection env room_id h =
     (let (v, h1) = read_core (gm_room_session_get_read_views room_id (he_clock env 1)) h in
      case v of
        Inl err \<Rightarrow> ((err, h1), 0)
      | Inr (timer, selected, _) \<Rightarrow>
          if sv_selected_profile_id selected \<noteq> []
          then (case load_profile_scenario room_id (sv_selected_profile_id selected) h1 of
                  Inl err \<Rightarrow> ((err, h1), sv_selected_profile_duration_ms selected)
                | Inr (p, sc) \<Rightarrow>
                    let duration = (if sv_selected_profile_duration_ms selected = 0 then gp_duration_ms p
                                    else sv_selected_profile_duration_ms selected)
                    in (on_core (gm_room_session_select_profile_prepared room_id
                          (scenehub_control_build_session_profile p) sc duration (he_clock env 2)) h1, duration))
          else (on_core (gm_room_session_scenario_reset room_id) h1, tv_duration_ms timer))"

definition scenehub_control_execute_reset_game ::
  "hub_env \<Rightarrow> string \<Rightarrow> string \<Rightarrow> string \<Rightarrow> hub \<Rightarrow> esp_err \<times> hub" where
  "scenehub_control_execute_reset_game env source room_id action_id h =
     end_room_action source room_id action_id
       (let (err, h1) = scenehub_control_validate_room_action_enabled env room_id action_id h in
        if err \<noteq> ESP_OK then (err, h1)
        else let (r, duration) = reset_game_selection env room_id h1 in
          and_then (and_then r
            (\<lambda>h2. on_core (\<lambda>k. gm_room_session_reset room_id duration (he_clock env 3) (emit Stop_Audio k)) h2))
            (scenehub_control_safe_off_hardware_optional env))"

definition session_action :: "hub_env \<Rightarrow> string \<Rightarrow> string \<Rightarrow> hub \<Rightarrow> esp_err \<times> hub" where
  "session_action env room_id action_id h =
     (if action_id = ''reset_room_timer''
      then let (v, h1) = read_core (gm_room_session_get_timer_view room_id (he_clock env 1)) h in
        (case v of Inl err \<Rightarrow> (err, h1)
         | Inr timer \<Rightarrow> on_core (gm_room_session_reset room_id (tv_duration_ms timer) (he_clock env 2)) h1)
      else if action_id = ''pause_room_timer'' then on_core (gm_room_session_pause room_id (he_clock env 1)) h
      else if action_id = ''resume_room_timer'' then on_core (gm_room_session_resume room_id (he_clock env 1)) h
      else if action_id = ''finish_room_session'' then on_core (gm_room_session_finish room_id (he_clock env 1)) h
      else if action_id = ''clear_room_hint'' then on_core (gm_room_session_clear_hint room_id (he_clock env 1)) h
      else (SCENEHUB_CONTROL_ERR_ACTION_NOT_FOUND, h))"

definition scenehub_control_execute_session_action ::
  "hub_env \<Rightarrow> string \<Rightarrow> string \<Rightarrow> string \<Rightarrow> hub \<Rightarrow> esp_err \<times> hub" where
  "scenehub_control_execute_session_action env source room_id action_id h =
     end_room_action source room_id action_id
       (and_then (scenehub_control_validate_room_action_enabled env room_id action_id h)
          (session_action env room_id action_id))"

definition scenehub_control_try_capture_start_game_validation_error ::
  "string \<Rightarrow> string \<Rightarrow> esp_err \<Rightarrow> control_result \<Rightarrow> hub \<Rightarrow> control_result option \<times> hub" where
  "scenehub_control_try_capture_start_game_validation_error room_id action_id err r h =
     (if err \<noteq> ESP_ERR_INVALID_ARG \<or> room_id = [] \<or> action_id \<noteq> ''start_game'' then (None, h)
      else let (v, h1) = read_core (gm_room_session_get_runtime_summary room_id) h in
        (case v of
           Inl _ \<Rightarrow> None
         | Inr runtime \<Rightarrow>
             (if rs_last_error runtime = [] then None
              else Some (scenehub_control_set_result SCENEHUB_CONTROL_STATUS_REJECTED err False
                     ''scenario_invalid'' (rs_last_error runtime) r)), h1))"

definition finish_hub :: "control_result \<times> control_effect list \<Rightarrow> hub \<Rightarrow> control_result \<times> hub" where
  "finish_hub re h = (fst re, tell (snd re) h)"

definition report_room_action :: "string \<Rightarrow> string \<Rightarrow> control_result \<Rightarrow> esp_err \<times> hub \<Rightarrow> control_result \<times> hub" where
  "report_room_action room_id action_id r eh =
     (let (err, h) = eh;
          reject = (\<lambda>code msg. (scenehub_control_set_result SCENEHUB_CONTROL_STATUS_REJECTED err False code msg r, h))
      in case err of
        ESP_OK \<Rightarrow> finish_hub (scenehub_control_finish_success_with_invalidation
                    SCENEHUB_STATE_SLICE_ROOM_RUNTIME room_id ''room_action'' r) h
      | ESP_ERR_INVALID_ARG \<Rightarrow>
          (case scenehub_control_try_capture_start_game_validation_error room_id action_id err r h of
             (Some r1, h1) \<Rightarrow> (r1, h1)
           | (None, h1) \<Rightarrow> (scenehub_control_fill_common_error err r, h1))
      | SCENEHUB_CONTROL_ERR_ROOM_NOT_FOUND \<Rightarrow> reject ''room_not_found'' ''Room not found''
      | SCENEHUB_CONTROL_ERR_ACTION_NOT_FOUND \<Rightarrow> reject ''action_not_found'' ''Action not found''
      | SCENEHUB_CONTROL_ERR_ACTION_DISABLED \<Rightarrow> reject ''action_disabled'' ''Action disabled''
      | SCENEHUB_CONTROL_ERR_NOT_SUPPORTED \<Rightarrow> reject ''not_supported'' ''Action not supported''
      | SCENEHUB_CONTROL_ERR_ROOM_UNHEALTHY \<Rightarrow> reject ''room_unhealthy'' ''Room has active device or system issues''
      | _ \<Rightarrow> (scenehub_control_set_result SCENEHUB_CONTROL_STATUS_FAILED err False
                ''execution_failed'' ''Room action execution failed'' r, h))"

definition scenehub_control_execute_room_action ::
  "hub_env \<Rightarrow> string \<Rightarrow> string \<Rightarrow> string \<Rightarrow> hub \<Rightarrow> (control_result \<times> hub) option" where
  "scenehub_control_execute_room_action env source room_id action_id h =
     map_option (report_room_action room_id action_id (scenehub_control_prepare_result room_id action_id))
       (let err = scenehub_control_preflight_room_action env room_id action_id in
        if err \<noteq> ESP_OK
        then Some (if scenehub_control_owns_game_action action_id
                   then end_room_action source room_id action_id (err, h) else (err, h))
        else if action_id = ''start_game'' then scenehub_control_execute_start_game env source room_id action_id h
        else if action_id = ''stop_game'' then Some (scenehub_control_execute_stop_game env source room_id action_id h)
        else if action_id = ''reset_game'' then Some (scenehub_control_execute_reset_game env source room_id action_id h)
        else Some (scenehub_control_execute_session_action env source room_id action_id h))"

section \<open>Clock and hints\<close>

text \<open>The common frame: the room must exist, the core operation runs, success is logged and told.\<close>

definition clock_operation ::
  "string \<Rightarrow> string \<Rightarrow> (hub \<Rightarrow> esp_err \<times> hub) \<Rightarrow> control_effect list \<Rightarrow> hub \<Rightarrow> control_result \<times> hub" where
  "clock_operation room_id action_id op log h =
     (let r = scenehub_control_prepare_result room_id action_id;
          (err, h1) = and_then (scenehub_control_require_room room_id h, h) op
      in if err \<noteq> ESP_OK then (scenehub_control_fill_common_error err r, h1)
         else finish_hub (scenehub_control_finish_success_with_invalidation
                SCENEHUB_STATE_SLICE_ROOM_RUNTIME room_id action_id r) (tell log h1))"

definition scenehub_control_timer_start ::
  "hub_env \<Rightarrow> string \<Rightarrow> string \<Rightarrow> u32 \<Rightarrow> hub \<Rightarrow> control_result \<times> hub" where
  "scenehub_control_timer_start env source room_id duration_ms =
     clock_operation room_id ''timer_start'' (on_core (gm_room_session_start room_id duration_ms (he_clock env 0)))
       (scenehub_control_log_timer source room_id ''Timer started'' (''duration_ms='' @ c_decimal (uint duration_ms)))"

definition scenehub_control_timer_pause :: "hub_env \<Rightarrow> string \<Rightarrow> string \<Rightarrow> hub \<Rightarrow> control_result \<times> hub" where
  "scenehub_control_timer_pause env source room_id =
     clock_operation room_id ''timer_pause'' (on_core (gm_room_session_pause room_id (he_clock env 0)))
       (scenehub_control_log_timer source room_id ''Timer paused'' [])"

definition scenehub_control_timer_resume :: "hub_env \<Rightarrow> string \<Rightarrow> string \<Rightarrow> hub \<Rightarrow> control_result \<times> hub" where
  "scenehub_control_timer_resume env source room_id =
     clock_operation room_id ''timer_resume'' (on_core (gm_room_session_resume room_id (he_clock env 0)))
       (scenehub_control_log_timer source room_id ''Timer resumed'' [])"

text \<open>Without a duration the clock keeps its own.\<close>

definition timer_reset_op :: "hub_env \<Rightarrow> string \<Rightarrow> u32 option \<Rightarrow> hub \<Rightarrow> esp_err \<times> hub" where
  "timer_reset_op env room_id duration h = (case duration of
     Some d \<Rightarrow> on_core (gm_room_session_reset room_id d (he_clock env 1)) h
   | None \<Rightarrow> (let (v, h1) = read_core (gm_room_session_get_timer_view room_id (he_clock env 0)) h in
       case v of Inl err \<Rightarrow> (err, h1)
       | Inr timer \<Rightarrow> on_core (gm_room_session_reset room_id (tv_duration_ms timer) (he_clock env 1)) h1))"

definition scenehub_control_timer_reset ::
  "hub_env \<Rightarrow> string \<Rightarrow> string \<Rightarrow> u32 option \<Rightarrow> hub \<Rightarrow> control_result \<times> hub" where
  "scenehub_control_timer_reset env source room_id duration =
     clock_operation room_id ''timer_reset'' (timer_reset_op env room_id duration)
       (scenehub_control_log_timer source room_id ''Timer reset''
          (case duration of None \<Rightarrow> [] | Some d \<Rightarrow> c_decimal (uint d)))"

definition scenehub_control_timer_add ::
  "hub_env \<Rightarrow> string \<Rightarrow> string \<Rightarrow> 32 word \<Rightarrow> hub \<Rightarrow> control_result \<times> hub" where
  "scenehub_control_timer_add env source room_id delta_ms =
     clock_operation room_id ''timer_add'' (on_core (gm_room_session_add_time room_id delta_ms (he_clock env 0)))
       (scenehub_control_log_timer source room_id ''Timer adjusted'' (c_decimal (sint delta_ms)))"

definition scenehub_control_session_finish :: "hub_env \<Rightarrow> string \<Rightarrow> string \<Rightarrow> hub \<Rightarrow> control_result \<times> hub" where
  "scenehub_control_session_finish env source room_id =
     clock_operation room_id ''session_finish'' (on_core (gm_room_session_finish room_id (he_clock env 0)))
       (scenehub_control_log_timer source room_id ''Session finished'' [])"

definition scenehub_control_hint_send ::
  "hub_env \<Rightarrow> string \<Rightarrow> string \<Rightarrow> hub \<Rightarrow> control_result \<times> hub" where
  "scenehub_control_hint_send env room_id message =
     clock_operation room_id ''hint_send'' (on_core (gm_room_session_set_hint room_id message (he_clock env 0))) []"

definition scenehub_control_hint_clear :: "hub_env \<Rightarrow> string \<Rightarrow> hub \<Rightarrow> control_result \<times> hub" where
  "scenehub_control_hint_clear env room_id =
     clock_operation room_id ''hint_clear'' (on_core (gm_room_session_clear_hint room_id (he_clock env 0))) []"

section \<open>Scenarios and profiles of a room\<close>

definition end_api :: "state_slice \<Rightarrow> string \<Rightarrow> string \<Rightarrow> control_result \<Rightarrow> esp_err \<times> hub \<Rightarrow> control_result \<times> hub" where
  "end_api part target reason r eh =
     (let (err, h) = eh in finish_hub (scenehub_control_finalize_api_result_with_invalidation err part target reason r) h)"

definition scenehub_control_select_scenario :: "string \<Rightarrow> string \<Rightarrow> hub \<Rightarrow> control_result \<times> hub" where
  "scenehub_control_select_scenario room_id scenario_id h =
     (let r = scenehub_control_prepare_result room_id ''scenario_select'' in
      if room_id = [] \<or> scenario_id = [] then (scenehub_control_fill_common_error ESP_ERR_INVALID_ARG r, h)
      else end_api SCENEHUB_STATE_SLICE_ROOM_RUNTIME room_id ''scenario_select'' r
        (and_then (scenehub_control_require_room room_id h, h) (\<lambda>h1.
           case room_scenario_get scenario_id (hb_scenarios h1) of
             Inl err \<Rightarrow> (err, h1)
           | Inr sc \<Rightarrow> (if sc_room_id sc \<noteq> room_id then (ESP_ERR_INVALID_STATE, h1)
                       else on_core (gm_room_session_select_scenario_prepared room_id sc) h1))))"

definition run_selected_scenario :: "hub_env \<Rightarrow> string \<Rightarrow> hub \<Rightarrow> (esp_err \<times> hub) option" where
  "run_selected_scenario env room_id h =
     (let (v, h1) = scenehub_control_load_selected_scenario room_id h in
      case bind_result v (\<lambda>(sc, generation).
             bind_result (scenehub_control_prepare_session_scenario (he_compact_event env) (hb_devices h1) sc)
               (\<lambda>prepared. Inr (sc, generation, prepared))) of
        Inl err \<Rightarrow> Some (err, h1)
      | Inr (sc, generation, prepared) \<Rightarrow>
          run_plan env (gm_room_session_scenario_start_prepared_plan (he_validate env) room_id sc prepared
            generation (ucast (he_clock env 0)) (hb_core h1)) h1)"

definition plan_operation ::
  "string \<Rightarrow> string \<Rightarrow> (hub \<Rightarrow> (esp_err \<times> hub) option) \<Rightarrow> hub \<Rightarrow> (control_result \<times> hub) option" where
  "plan_operation room_id action_id op h =
     map_option (end_api SCENEHUB_STATE_SLICE_ROOM_RUNTIME room_id action_id
                   (scenehub_control_prepare_result room_id action_id))
       (let err = scenehub_control_require_room room_id h in if err \<noteq> ESP_OK then Some (err, h) else op h)"

definition scenehub_control_scenario_start :: "hub_env \<Rightarrow> string \<Rightarrow> hub \<Rightarrow> (control_result \<times> hub) option" where
  "scenehub_control_scenario_start env room_id =
     plan_operation room_id ''scenario_start'' (run_selected_scenario env room_id)"

definition scenehub_control_scenario_next ::
  "hub_env \<Rightarrow> string \<Rightarrow> string \<Rightarrow> hub \<Rightarrow> (control_result \<times> hub) option" where
  "scenehub_control_scenario_next env room_id branch_id =
     plan_operation room_id ''scenario_next'' (\<lambda>h. run_plan env
       (if branch_id \<noteq> []
        then gm_room_session_scenario_next_branch_plan room_id branch_id (ucast (he_clock env 0)) (hb_core h)
        else gm_room_session_scenario_next_plan room_id (ucast (he_clock env 0)) (hb_core h)) h)"

definition scenehub_control_scenario_approve :: "hub_env \<Rightarrow> string \<Rightarrow> hub \<Rightarrow> (control_result \<times> hub) option" where
  "scenehub_control_scenario_approve env room_id =
     plan_operation room_id ''scenario_approve'' (\<lambda>h. run_plan env
       (gm_room_session_scenario_approve_plan room_id (ucast (he_clock env 0)) (hb_core h)) h)"

definition scenehub_control_scenario_stop :: "string \<Rightarrow> hub \<Rightarrow> control_result \<times> hub" where
  "scenehub_control_scenario_stop room_id h =
     end_api SCENEHUB_STATE_SLICE_ROOM_RUNTIME room_id ''scenario_stop''
       (scenehub_control_prepare_result room_id ''scenario_stop'')
       (and_then (scenehub_control_require_room room_id h, h) (on_core (gm_room_session_scenario_stop room_id)))"

definition scenehub_control_scenario_reset :: "string \<Rightarrow> hub \<Rightarrow> control_result \<times> hub" where
  "scenehub_control_scenario_reset room_id h =
     end_api SCENEHUB_STATE_SLICE_ROOM_RUNTIME room_id ''scenario_reset''
       (scenehub_control_prepare_result room_id ''scenario_reset'')
       (and_then (scenehub_control_require_room room_id h, h) (on_core (gm_room_session_scenario_reset room_id)))"

definition scenehub_control_select_profile :: "hub_env \<Rightarrow> string \<Rightarrow> string \<Rightarrow> hub \<Rightarrow> control_result \<times> hub" where
  "scenehub_control_select_profile env room_id profile_id h =
     (let r = scenehub_control_prepare_result room_id ''profile_select'' in
      if room_id = [] \<or> profile_id = [] then (scenehub_control_fill_common_error ESP_ERR_INVALID_ARG r, h)
      else end_api SCENEHUB_STATE_SLICE_ROOM_RUNTIME room_id ''profile_select'' r
        (and_then (scenehub_control_require_room room_id h, h) (\<lambda>h1.
           case load_profile_scenario room_id profile_id h1 of
             Inl err \<Rightarrow> (err, h1)
           | Inr (p, sc) \<Rightarrow>
               on_core (gm_room_session_select_profile_prepared room_id (scenehub_control_build_session_profile p) sc
                 (gp_duration_ms p) (he_clock env 0)) h1)))"

text \<open>An operation on the profile store, saved to the card when persistence is on.\<close>

definition on_profiles ::
  "hub_env \<Rightarrow> (profile_store \<Rightarrow> esp_err \<times> profile_store) \<Rightarrow>
   (profile_store \<Rightarrow> files \<Rightarrow> esp_err \<times> profile_store \<times> files) \<Rightarrow> hub \<Rightarrow> esp_err \<times> hub" where
  "on_profiles env op op_and_save h =
     (if he_persist env
      then let (err, s, fs) = op_and_save (hb_profiles h) (hb_files h) in (err, h\<lparr>hb_profiles := s, hb_files := fs\<rparr>)
      else let (err, s) = op (hb_profiles h) in (err, h\<lparr>hb_profiles := s\<rparr>))"

definition store_profile :: "hub_env \<Rightarrow> game_profile \<Rightarrow> hub \<Rightarrow> esp_err \<times> hub" where
  "store_profile env p h =
     and_then (gm_game_profile_validate_reference (hb_rooms h) (hb_scenarios h) p, h)
       (on_profiles env (gm_game_profile_upsert p) (gm_game_profile_upsert_and_save (he_lib env) (he_disk env) p))"

definition scenehub_control_save_profile :: "hub_env \<Rightarrow> game_profile \<Rightarrow> hub \<Rightarrow> control_result \<times> hub" where
  "scenehub_control_save_profile env p h =
     end_api SCENEHUB_STATE_SLICE_ROOM_PROFILES (gp_room_id p) ''profile_save''
       (scenehub_control_prepare_result (gp_room_id p) ''profile_save'') (store_profile env p h)"

text \<open>Saving a profile given as JSON; the caller gets the profile as it was stored.\<close>

definition scenehub_control_save_profile_payload ::
  "hub_env \<Rightarrow> cjson \<Rightarrow> hub \<Rightarrow> control_result \<times> cjson option \<times> hub" where
  "scenehub_control_save_profile_payload env payload h =
     (let r = scenehub_control_prepare_result [] ''profile_save'';
          member = cJSON_GetObjectItemCaseSensitive (Some payload) ''profile'';
          profile_payload = (if cJSON_IsObject member then the member else payload)
      in case bind_result (gm_game_profile_from_json profile_payload) (\<lambda>p.
                bind_result (gm_game_profile_to_json p) (\<lambda>j. Inr (p, j))) of
        Inl err \<Rightarrow> (scenehub_control_fill_common_error err r, None, h)
      | Inr (p, j) \<Rightarrow>
          (let r1 = r\<lparr>cr_room_id := scenehub_control_copy QUEST_ROOM_ID_MAX_LEN (gp_room_id p)\<rparr>;
               (err, h1) = store_profile env p h
           in if err = ESP_OK
              then let (r2, h2) = finish_hub (scenehub_control_finish_success_with_invalidation
                         SCENEHUB_STATE_SLICE_ROOM_PROFILES (gp_room_id p) ''profile_save'' r1) h1
                   in (r2, Some j, h2)
              else (scenehub_control_fill_common_error err r1, None, h1)))"

definition scenehub_control_delete_profile :: "hub_env \<Rightarrow> string \<Rightarrow> hub \<Rightarrow> control_result \<times> hub" where
  "scenehub_control_delete_profile env profile_id h =
     end_api SCENEHUB_STATE_SLICE_ROOM_PROFILES
       (case gm_game_profile_get profile_id (hb_profiles h) of Inl _ \<Rightarrow> [] | Inr p \<Rightarrow> gp_room_id p) ''profile_delete''
       (scenehub_control_prepare_result [] ''profile_delete'')
       (on_profiles env (gm_game_profile_delete profile_id)
          (gm_game_profile_delete_and_save (he_lib env) (he_disk env) profile_id) h)"

definition scenehub_control_import_profiles :: "hub_env \<Rightarrow> cjson \<Rightarrow> hub \<Rightarrow> control_result \<times> hub" where
  "scenehub_control_import_profiles env root h =
     end_api SCENEHUB_STATE_SLICE_ROOM_PROFILES [] ''profile_import''
       (scenehub_control_prepare_result [] ''profile_import'')
       (let (err, s, fs) = gm_game_profile_import_json_and_save (he_lib env) (he_disk env) root (hb_profiles h) (hb_files h)
        in (err, h\<lparr>hb_profiles := s, hb_files := fs\<rparr>))"

definition scenehub_control_load_profiles :: "hub_env \<Rightarrow> hub \<Rightarrow> control_result \<times> hub" where
  "scenehub_control_load_profiles env h =
     end_api SCENEHUB_STATE_SLICE_ROOM_PROFILES [] ''profile_load''
       (scenehub_control_prepare_result [] ''profile_load'')
       (let (err, s) = gm_game_profile_load_from_path_locked (he_lib env) (he_disk env) GM_GAME_PROFILE_STORAGE_PATH
              (hb_files h) (hb_profiles h)
        in (err, h\<lparr>hb_profiles := s\<rparr>))"

definition scenehub_control_save_profiles_store :: "hub_env \<Rightarrow> hub \<Rightarrow> control_result \<times> hub" where
  "scenehub_control_save_profiles_store env h =
     (let (err, fs) = gm_game_profile_save_to_path_locked (he_lib env) (he_disk env) GM_GAME_PROFILE_STORAGE_PATH
            (hb_profiles h) (hb_files h)
      in (scenehub_control_finalize_no_state_change_result err (scenehub_control_prepare_result [] ''profile_store_save''),
          h\<lparr>hb_files := fs\<rparr>))"

text \<open>Rooms are created and renamed through the catalogue.\<close>

definition scenehub_control_save_room :: "hub_env \<Rightarrow> string \<Rightarrow> string \<Rightarrow> hub \<Rightarrow> control_result \<times> hub" where
  "scenehub_control_save_room env room_id name h =
     (let r = scenehub_control_prepare_result room_id ''room_save'' in
      if room_id = [] then (scenehub_control_fill_common_error ESP_ERR_INVALID_ARG r, h)
      else let room = \<lparr>rm_room_id = quest_str_copy ROOM_CATALOG_ROOM_ID_MAX_LEN room_id,
                       rm_name = quest_str_copy ROOM_CATALOG_ROOM_NAME_MAX_LEN (if name \<noteq> [] then name else room_id),
                       rm_device_count = 0\<rparr>
        in end_api SCENEHUB_STATE_SLICE_ROOM_CATALOG (rm_room_id room) ''room_save'' r
             (if he_persist env
              then let (err, c, fs) = room_catalog_upsert_and_save (he_lib env) (he_disk env) room (hb_rooms h) (hb_files h)
                   in (err, h\<lparr>hb_rooms := c, hb_files := fs\<rparr>)
              else let (err, c) = room_catalog_upsert room (hb_rooms h) in (err, h\<lparr>hb_rooms := c\<rparr>)))"

section \<open>The store of scenarios\<close>

definition on_scenarios ::
  "hub_env \<Rightarrow> (scenario_store \<Rightarrow> esp_err \<times> scenario_store) \<Rightarrow>
   (scenario_store \<Rightarrow> files \<Rightarrow> esp_err \<times> scenario_store \<times> files) \<Rightarrow> hub \<Rightarrow> esp_err \<times> hub" where
  "on_scenarios env op op_and_save h =
     (if he_persist env
      then let (err, s, fs) = op_and_save (hb_scenarios h) (hb_files h) in (err, h\<lparr>hb_scenarios := s, hb_files := fs\<rparr>)
      else let (err, s) = op (hb_scenarios h) in (err, h\<lparr>hb_scenarios := s\<rparr>))"

definition store_scenario :: "hub_env \<Rightarrow> room_scenario \<Rightarrow> hub \<Rightarrow> esp_err \<times> hub" where
  "store_scenario env sc =
     on_scenarios env (room_scenario_add sc) (room_scenario_add_and_save (he_lib env) (he_disk env) sc)"

definition scenehub_control_save_scenario :: "hub_env \<Rightarrow> room_scenario \<Rightarrow> hub \<Rightarrow> control_result \<times> hub" where
  "scenehub_control_save_scenario env sc h =
     end_api SCENEHUB_STATE_SLICE_ROOM_SCENARIOS (sc_room_id sc) ''scenario_save''
       (scenehub_control_prepare_result (sc_room_id sc) ''scenario_save'') (store_scenario env sc h)"

definition scenehub_control_scenario_payload_object :: "cjson \<Rightarrow> cjson" where
  "scenehub_control_scenario_payload_object payload =
     (case item payload ''scenario'' of Some (CObject kvs) \<Rightarrow> CObject kvs | _ \<Rightarrow> payload)"

text \<open>
  Saving a scenario given as JSON.  The validation of the scenario front end must run; a report with
  issues does not prevent the save.
\<close>

definition scenehub_control_save_scenario_payload ::
  "hub_env \<Rightarrow> cjson \<Rightarrow> hub \<Rightarrow> control_result \<times> cjson option \<times> hub" where
  "scenehub_control_save_scenario_payload env payload h =
     (let r = scenehub_control_prepare_result [] ''scenario_save'' in
      case bind_result (room_scenario_from_json (he_lib env) (scenehub_control_scenario_payload_object payload)) (\<lambda>sc.
             bind_result (room_scenario_to_json (he_lib env) sc) (\<lambda>j.
               case he_validate env sc of (err, _, _) \<Rightarrow> if err \<noteq> ESP_OK then Inl err else Inr (sc, j))) of
        Inl err \<Rightarrow> (scenehub_control_fill_common_error err r, None, h)
      | Inr (sc, j) \<Rightarrow>
          (let r1 = r\<lparr>cr_room_id := scenehub_control_copy QUEST_ROOM_ID_MAX_LEN (sc_room_id sc)\<rparr>;
               (err, h1) = store_scenario env sc h
           in if err = ESP_OK
              then let (r2, h2) = finish_hub (scenehub_control_finish_success_with_invalidation
                         SCENEHUB_STATE_SLICE_ROOM_SCENARIOS (sc_room_id sc) ''scenario_save'' r1) h1
                   in (r2, Some j, h2)
              else (scenehub_control_fill_common_error err r1, None, h1)))"

definition scenehub_control_delete_scenario :: "hub_env \<Rightarrow> string \<Rightarrow> hub \<Rightarrow> control_result \<times> hub" where
  "scenehub_control_delete_scenario env scenario_id h =
     end_api SCENEHUB_STATE_SLICE_ROOM_SCENARIOS
       (case room_scenario_get scenario_id (hb_scenarios h) of Inl _ \<Rightarrow> [] | Inr sc \<Rightarrow> sc_room_id sc) ''scenario_delete''
       (scenehub_control_prepare_result [] ''scenario_delete'')
       (on_scenarios env (room_scenario_delete scenario_id)
          (room_scenario_delete_and_save (he_lib env) (he_disk env) scenario_id) h)"

definition scenehub_control_import_scenarios :: "hub_env \<Rightarrow> cjson \<Rightarrow> hub \<Rightarrow> control_result \<times> hub" where
  "scenehub_control_import_scenarios env root h =
     end_api SCENEHUB_STATE_SLICE_ROOM_SCENARIOS [] ''scenario_import''
       (scenehub_control_prepare_result [] ''scenario_import'')
       (let (err, s, fs) = room_scenario_store_import_json_and_save (he_lib env) (he_disk env) root (hb_scenarios h) (hb_files h)
        in (err, h\<lparr>hb_scenarios := s, hb_files := fs\<rparr>))"

definition scenehub_control_load_scenarios :: "hub_env \<Rightarrow> hub \<Rightarrow> control_result \<times> hub" where
  "scenehub_control_load_scenarios env h =
     end_api SCENEHUB_STATE_SLICE_ROOM_SCENARIOS [] ''scenario_load''
       (scenehub_control_prepare_result [] ''scenario_load'')
       (let (err, s) = room_scenario_store_load_from_path_locked (he_lib env) (he_disk env) ROOM_SCENARIO_STORAGE_PATH
              (hb_files h) (hb_scenarios h)
        in (err, h\<lparr>hb_scenarios := s\<rparr>))"

definition scenehub_control_save_scenarios_store :: "hub_env \<Rightarrow> hub \<Rightarrow> control_result \<times> hub" where
  "scenehub_control_save_scenarios_store env h =
     (let (err, fs) = room_scenario_store_save_to_path_locked (he_lib env) (he_disk env) ROOM_SCENARIO_STORAGE_PATH
            (hb_scenarios h) (hb_files h)
      in (scenehub_control_finalize_no_state_change_result err (scenehub_control_prepare_result [] ''scenario_store_save''),
          h\<lparr>hb_files := fs\<rparr>))"

section \<open>Deleting a room\<close>

text \<open>Every profile, then every scenario of the room is deleted and the store saved each time.\<close>

fun delete_each_profile :: "hub_env \<Rightarrow> string list \<Rightarrow> hub \<Rightarrow> nat \<times> hub" where
  "delete_each_profile env [] h = (0, h)"
| "delete_each_profile env (pid # pids) h =
     (let (err, s, fs) = gm_game_profile_delete_and_save (he_lib env) (he_disk env) pid (hb_profiles h) (hb_files h);
          (n, h1) = delete_each_profile env pids (h\<lparr>hb_profiles := s, hb_files := fs\<rparr>)
      in (if err = ESP_OK then n + 1 else n, h1))"

definition scenehub_control_delete_profiles_for_room :: "hub_env \<Rightarrow> string \<Rightarrow> hub \<Rightarrow> (esp_err \<times> nat) \<times> hub" where
  "scenehub_control_delete_profiles_for_room env room_id h =
     (let (err, ps, _) = gm_game_profile_list_by_room room_id GM_GAME_PROFILE_MAX_PROFILES (hb_profiles h) in
      if err \<noteq> ESP_OK \<and> err \<noteq> ESP_ERR_INVALID_SIZE then ((err, 0), h)
      else let (n, h1) = delete_each_profile env (map gp_id ps) h in ((ESP_OK, n), h1))"

fun delete_each_scenario :: "hub_env \<Rightarrow> string list \<Rightarrow> hub \<Rightarrow> nat \<times> hub" where
  "delete_each_scenario env [] h = (0, h)"
| "delete_each_scenario env (sid # sids) h =
     (let (err, s, fs) = room_scenario_delete_and_save (he_lib env) (he_disk env) sid (hb_scenarios h) (hb_files h);
          (n, h1) = delete_each_scenario env sids (h\<lparr>hb_scenarios := s, hb_files := fs\<rparr>)
      in (if err = ESP_OK then n + 1 else n, h1))"

definition scenehub_control_delete_scenarios_for_room :: "hub_env \<Rightarrow> string \<Rightarrow> hub \<Rightarrow> (esp_err \<times> nat) \<times> hub" where
  "scenehub_control_delete_scenarios_for_room env room_id h =
     (let (err, scs, _) = room_scenario_list_by_room room_id ROOM_SCENARIO_MAX_SCENARIOS (hb_scenarios h) in
      if err \<noteq> ESP_OK \<and> err \<noteq> ESP_ERR_INVALID_SIZE then ((err, 0), h)
      else let (n, h1) = delete_each_scenario env (map sc_id scs) h in ((ESP_OK, n), h1))"

record room_deletion =
  del_existed :: bool
  del_profiles :: nat
  del_scenarios :: nat

definition room_deletion_none :: room_deletion where
  "room_deletion_none = \<lparr>del_existed = False, del_profiles = 0, del_scenarios = 0\<rparr>"

definition delete_content :: "hub_env \<Rightarrow> string \<Rightarrow> hub \<Rightarrow> (string \<times> string \<times> esp_err) option \<times> room_deletion \<times> hub" where
  "delete_content env room_id h =
     (let ((err, n), h1) = scenehub_control_delete_profiles_for_room env room_id h;
          out = room_deletion_none\<lparr>del_profiles := n\<rparr>
      in if err \<noteq> ESP_OK then (Some (''profile_cleanup_failed'', ''Profile cleanup failed'', err), out, h1)
         else let ((err1, m), h2) = scenehub_control_delete_scenarios_for_room env room_id h1;
                  out1 = out\<lparr>del_scenarios := m\<rparr>
           in (if err1 \<noteq> ESP_OK then Some (''scenario_cleanup_failed'', ''Scenario cleanup failed'', err1) else None,
               out1, h2))"

definition scenehub_control_delete_room ::
  "hub_env \<Rightarrow> string \<Rightarrow> bool \<Rightarrow> hub \<Rightarrow> control_result \<times> room_deletion \<times> hub" where
  "scenehub_control_delete_room env room_id with_content h =
     (let r = scenehub_control_prepare_result room_id ''room_delete'' in
      if room_id = [] then (scenehub_control_fill_common_error ESP_ERR_INVALID_ARG r, room_deletion_none, h)
      else let existed = room_catalog_exists room_id (hb_rooms h);
               (err, h1) = (if he_persist env
                 then let (e, c, fs) = room_catalog_delete_and_save (he_lib env) (he_disk env) room_id (hb_rooms h) (hb_files h)
                      in (e, h\<lparr>hb_rooms := c, hb_files := fs\<rparr>)
                 else let (e, c) = room_catalog_delete room_id (hb_rooms h) in (e, h\<lparr>hb_rooms := c\<rparr>))
        in if err \<noteq> ESP_OK \<and> err \<noteq> ESP_ERR_NOT_FOUND
           then (scenehub_control_fill_common_error err r, room_deletion_none, h1)
           else let (failure, out, h2) = (if with_content then delete_content env room_id h1 else (None, room_deletion_none, h1))
             in case failure of
               Some (code, msg, e) \<Rightarrow>
                 (scenehub_control_set_result SCENEHUB_CONTROL_STATUS_FAILED e False code msg r, out, h2)
             | None \<Rightarrow>
                 (let (r1, h3) = finish_hub (scenehub_control_finish_success_with_invalidation
                        SCENEHUB_STATE_SLICE_FULL_SNAPSHOT room_id ''room_delete'' r) h2
                  in (r1, out\<lparr>del_existed := existed\<rparr>, h3)))"

end
