(* ===== verification/Control_Operations.thy ===== *)
theory Control_Operations
  imports Control_Service Scenario_Environment
begin

text \<open>
  The remaining operations of the control service: the validation of scenarios
  (\<open>scenehub_control_scenarios.c\<close>) and the mode of a channel of the built-in inputs and outputs
  (\<open>scenehub_control_hardware_io.c\<close>), which must not contradict a stored scenario.  Whether the
  hardware is present and what its driver returns are arguments.
\<close>

section \<open>Validating scenarios\<close>

text \<open>The report is handed to the caller as the validator gives it.\<close>

definition scenehub_control_validate_scenario ::
  "hub_env \<Rightarrow> room_scenario \<Rightarrow> control_result \<times> bool \<times> Gm_Scenario.validation_issue list" where
  "scenehub_control_validate_scenario env sc =
     (case he_validate env sc of (err, report) \<Rightarrow>
        (scenehub_control_finalize_no_state_change_result err
           (scenehub_control_prepare_result (sc_room_id sc) ''scenario_validate''), report))"

text \<open>
  The result, the id of the scenario (the caller's field has room for it) and the report; a report that
  is not made is blank.  The scratch memory for the scenario is obtained.
\<close>

definition scenehub_control_validate_scenario_payload_into ::
  "hub_env \<Rightarrow> cjson \<Rightarrow> control_result \<times> string \<times> bool \<times> Gm_Scenario.validation_issue list" where
  "scenehub_control_validate_scenario_payload_into env payload =
     (let r = scenehub_control_prepare_result [] ''scenario_validate'' in
      case room_scenario_from_json (he_lib env) (scenehub_control_scenario_payload_object payload) of
        Inl err \<Rightarrow> (scenehub_control_finalize_no_state_change_result err r, [], False, [])
      | Inr sc \<Rightarrow>
          (case he_validate env sc of (err, report) \<Rightarrow>
             (scenehub_control_finalize_no_state_change_result err
                (r\<lparr>cr_room_id := scenehub_control_copy QUEST_ROOM_ID_MAX_LEN (sc_room_id sc)\<rparr>), sc_id sc, report)))"

definition scenehub_control_validate_scenario_payload ::
  "hub_env \<Rightarrow> cjson \<Rightarrow> control_result \<times> string \<times> bool \<times> Gm_Scenario.validation_issue list" where
  "scenehub_control_validate_scenario_payload = scenehub_control_validate_scenario_payload_into"

section \<open>The mode of an input or output\<close>

definition scenehub_control_hw_io_event_channel :: "string \<Rightarrow> int" where
  "scenehub_control_hw_io_event_channel event_id = (case event_channel event_id of None \<Rightarrow> 0 | Some n \<Rightarrow> n)"

definition scenehub_control_hw_io_params_channel :: "cjson \<Rightarrow> int" where
  "scenehub_control_hw_io_params_channel obj =
     (case cJSON_GetObjectItemCaseSensitive (cJSON_GetObjectItemCaseSensitive (Some obj) ''params'') ''channel'' of
        Some (CNumber n) \<Rightarrow> n | _ \<Rightarrow> 0)"

definition scenehub_control_hw_io_command_uses_output :: "string \<Rightarrow> bool" where
  "scenehub_control_hw_io_command_uses_output command_id \<longleftrightarrow> command_id \<in> {''set'', ''pulse'', ''blink'', ''toggle''}"

definition scenehub_control_hw_io_mode_blocks_input :: "io_mode \<Rightarrow> bool" where
  "scenehub_control_hw_io_mode_blocks_input requested \<longleftrightarrow> requested \<noteq> HARDWARE_IO_IO_MODE_INPUT"

definition scenehub_control_hw_io_mode_blocks_output :: "io_mode \<Rightarrow> bool" where
  "scenehub_control_hw_io_mode_blocks_output requested \<longleftrightarrow> requested \<noteq> HARDWARE_IO_IO_MODE_OUTPUT"

text \<open>What an object says about a channel by itself, apart from the values it contains.\<close>

definition conflict_text :: "string \<Rightarrow> u8 \<Rightarrow> string \<Rightarrow> string" where
  "conflict_text use channel scenario_id = quest_str_copy SCENEHUB_CONTROL_MESSAGE_MAX_LEN
     (''IO '' @ c_decimal (uint channel) @ '' is used as '' @ use @ '' in scenario '' @
      (if scenario_id \<noteq> [] then scenario_id else ''?''))"

definition object_conflict :: "u8 \<Rightarrow> io_mode \<Rightarrow> string \<Rightarrow> cjson \<Rightarrow> string option" where
  "object_conflict channel requested scenario_id node =
     (let member = cJSON_GetObjectItemCaseSensitive (Some node) in
      if member ''device_id'' \<noteq> Some (CString QUEST_DEVICE_SYSTEM_IO_ID) then None
      else if (case member ''event_id'' of Some (CString e) \<Rightarrow>
                 scenehub_control_hw_io_event_channel e = uint channel \<and> scenehub_control_hw_io_mode_blocks_input requested
               | _ \<Rightarrow> False)
      then Some (conflict_text ''input'' channel scenario_id)
      else if (case member ''command_id'' of Some (CString c) \<Rightarrow>
                 scenehub_control_hw_io_command_uses_output c \<and>
                 scenehub_control_hw_io_params_channel node = uint channel \<and> scenehub_control_hw_io_mode_blocks_output requested
               | _ \<Rightarrow> False)
      then Some (conflict_text ''output'' channel scenario_id)
      else None)"

text \<open>The first conflict in a JSON value, objects before what they contain.\<close>

fun scenehub_control_hw_io_scan_refs :: "u8 \<Rightarrow> io_mode \<Rightarrow> string \<Rightarrow> cjson \<Rightarrow> string option"
  and scan_members :: "u8 \<Rightarrow> io_mode \<Rightarrow> string \<Rightarrow> (string \<times> cjson) list \<Rightarrow> string option"
  and scan_items :: "u8 \<Rightarrow> io_mode \<Rightarrow> string \<Rightarrow> cjson list \<Rightarrow> string option" where
  "scenehub_control_hw_io_scan_refs channel requested sid (CObject kvs) =
     (case object_conflict channel requested sid (CObject kvs) of
        Some m \<Rightarrow> Some m | None \<Rightarrow> scan_members channel requested sid kvs)"
| "scenehub_control_hw_io_scan_refs channel requested sid (CArray xs) = scan_items channel requested sid xs"
| "scenehub_control_hw_io_scan_refs channel requested sid _ = None"
| "scan_members channel requested sid [] = None"
| "scan_members channel requested sid ((k, x) # kvs) =
     (case scenehub_control_hw_io_scan_refs channel requested sid x of
        Some m \<Rightarrow> Some m | None \<Rightarrow> scan_members channel requested sid kvs)"
| "scan_items channel requested sid [] = None"
| "scan_items channel requested sid (x # xs) =
     (case scenehub_control_hw_io_scan_refs channel requested sid x of
        Some m \<Rightarrow> Some m | None \<Rightarrow> scan_items channel requested sid xs)"

fun scan_scenarios :: "u8 \<Rightarrow> io_mode \<Rightarrow> cjson list \<Rightarrow> string option" where
  "scan_scenarios channel requested [] = None"
| "scan_scenarios channel requested (x # xs) =
     (let sid = (case cJSON_GetObjectItemCaseSensitive (Some x) ''id'' of Some (CString s) \<Rightarrow> s | _ \<Rightarrow> ''?'') in
      case scenehub_control_hw_io_scan_refs channel requested sid x of
        Some m \<Rightarrow> Some m | None \<Rightarrow> scan_scenarios channel requested xs)"

text \<open>\<open>Inl (ESP_ERR_INVALID_STATE, text)\<close> is a conflict, or the store cannot be exported.\<close>

definition scenehub_control_hw_io_check_mode_conflict ::
  "json_lib \<Rightarrow> scenario_store \<Rightarrow> u8 \<Rightarrow> io_mode \<Rightarrow> (esp_err \<times> string) + unit" where
  "scenehub_control_hw_io_check_mode_conflict lib store channel requested =
     (case room_scenario_store_export_json lib store of
        Inl err \<Rightarrow> Inl (err, [])
      | Inr root \<Rightarrow>
          (case scan_scenarios channel requested
                  (children (cJSON_GetObjectItemCaseSensitive (Some root) ''room_scenarios'')) of
             Some m \<Rightarrow> Inl (ESP_ERR_INVALID_STATE, m) | None \<Rightarrow> Inr ()))"

definition scenehub_control_hardware_io_set_mode ::
  "hub_env \<Rightarrow> bool \<Rightarrow> (u8 \<Rightarrow> io_mode \<Rightarrow> esp_err) \<Rightarrow> u8 \<Rightarrow> io_mode \<Rightarrow> hub \<Rightarrow> control_result \<times> hub" where
  "scenehub_control_hardware_io_set_mode env available set_mode channel mode h =
     (let r = scenehub_control_prepare_result [] ''hardware_io_set_mode'' in
      if uint channel < 1 \<or> uint channel > HARDWARE_IO_IO_CHANNEL_COUNT
      then (scenehub_control_fill_common_error ESP_ERR_INVALID_ARG r, h)
      else if \<not> available
      then (scenehub_control_set_result SCENEHUB_CONTROL_STATUS_FAILED ESP_ERR_INVALID_STATE False
              ''hardware_io_unavailable'' ''hardware_io_unavailable'' r, h)
      else case scenehub_control_hw_io_check_mode_conflict (he_lib env) (hb_scenarios h) channel mode of
        Inl (err, conflict) \<Rightarrow>
          (if err = ESP_ERR_INVALID_STATE
           then scenehub_control_set_result SCENEHUB_CONTROL_STATUS_REJECTED err False ''invalid_state'' conflict r
           else scenehub_control_fill_common_error err r, h)
      | Inr _ \<Rightarrow>
          (let err = set_mode channel mode in
           if err \<noteq> ESP_OK then (scenehub_control_fill_common_error err r, h)
           else finish_hub (scenehub_control_finish_success_with_invalidation SCENEHUB_STATE_SLICE_SYSTEM_SUMMARY []
                  ''hardware_io_set_mode'' r) h))"

end
