(* ===== verification/Control_Service_Props.thy ===== *)
theory Control_Service_Props
  imports Control_Operations Control_Plan_Props Scenario_Json_Props Gm_Invariant
begin

text \<open>
  Properties of the control service: its results are well-formed, it keeps the invariants of every
  component it combines, and an action that may not be carried out leaves the game alone.
\<close>

section \<open>Calls\<close>

text \<open>
  Any modelled operation of the service, in any environment: the operations on rooms, sessions,
  profiles and scenarios, the validation of scenarios, the commands for devices and the mode of an input
  or output.  The operations on stored devices and on the presets of the sidebar are not modelled.
\<close>

inductive hub_call :: "hub \<Rightarrow> control_result \<Rightarrow> hub \<Rightarrow> bool" where
  call_room_action: "scenehub_control_execute_room_action env src rid aid h = Some (r, h') \<Longrightarrow> hub_call h r h'"
| call_timer_start: "hub_call h
    (fst (scenehub_control_timer_start env src rid d h))
    (snd (scenehub_control_timer_start env src rid d h))"
| call_timer_pause: "hub_call h
    (fst (scenehub_control_timer_pause env src rid h))
    (snd (scenehub_control_timer_pause env src rid h))"
| call_timer_resume: "hub_call h
    (fst (scenehub_control_timer_resume env src rid h))
    (snd (scenehub_control_timer_resume env src rid h))"
| call_timer_reset: "hub_call h
    (fst (scenehub_control_timer_reset env src rid od h))
    (snd (scenehub_control_timer_reset env src rid od h))"
| call_timer_add: "hub_call h
    (fst (scenehub_control_timer_add env src rid dt h))
    (snd (scenehub_control_timer_add env src rid dt h))"
| call_session_finish: "hub_call h
    (fst (scenehub_control_session_finish env src rid h))
    (snd (scenehub_control_session_finish env src rid h))"
| call_hint_send: "hub_call h
    (fst (scenehub_control_hint_send env rid msg h))
    (snd (scenehub_control_hint_send env rid msg h))"
| call_hint_clear: "hub_call h
    (fst (scenehub_control_hint_clear env rid h))
    (snd (scenehub_control_hint_clear env rid h))"
| call_select_scenario: "hub_call h
    (fst (scenehub_control_select_scenario rid sid h))
    (snd (scenehub_control_select_scenario rid sid h))"
| call_scenario_start: "scenehub_control_scenario_start env rid h = Some (r, h') \<Longrightarrow> hub_call h r h'"
| call_scenario_next: "scenehub_control_scenario_next env rid b h = Some (r, h') \<Longrightarrow> hub_call h r h'"
| call_scenario_approve: "scenehub_control_scenario_approve env rid h = Some (r, h') \<Longrightarrow> hub_call h r h'"
| call_scenario_stop: "hub_call h
    (fst (scenehub_control_scenario_stop rid h))
    (snd (scenehub_control_scenario_stop rid h))"
| call_scenario_reset: "hub_call h
    (fst (scenehub_control_scenario_reset rid h))
    (snd (scenehub_control_scenario_reset rid h))"
| call_select_profile: "hub_call h
    (fst (scenehub_control_select_profile env rid pid h))
    (snd (scenehub_control_select_profile env rid pid h))"
| call_save_profile: "profile_fits p \<Longrightarrow> hub_call h
    (fst (scenehub_control_save_profile env p h))
    (snd (scenehub_control_save_profile env p h))"
| call_save_profile_payload: "hub_call h
    (fst (scenehub_control_save_profile_payload env js h))
    (snd (snd (scenehub_control_save_profile_payload env js h)))"
| call_delete_profile: "hub_call h
    (fst (scenehub_control_delete_profile env pid h))
    (snd (scenehub_control_delete_profile env pid h))"
| call_import_profiles: "hub_call h
    (fst (scenehub_control_import_profiles env js h))
    (snd (scenehub_control_import_profiles env js h))"
| call_load_profiles: "hub_call h
    (fst (scenehub_control_load_profiles env h))
    (snd (scenehub_control_load_profiles env h))"
| call_save_profiles_store: "hub_call h
    (fst (scenehub_control_save_profiles_store env h))
    (snd (scenehub_control_save_profiles_store env h))"
| call_save_room: "hub_call h
    (fst (scenehub_control_save_room env rid nm h))
    (snd (scenehub_control_save_room env rid nm h))"
| call_save_scenario: "hub_call h
    (fst (scenehub_control_save_scenario env sc h))
    (snd (scenehub_control_save_scenario env sc h))"
| call_save_scenario_payload: "hub_call h
    (fst (scenehub_control_save_scenario_payload env js h))
    (snd (snd (scenehub_control_save_scenario_payload env js h)))"
| call_delete_scenario: "hub_call h
    (fst (scenehub_control_delete_scenario env sid h))
    (snd (scenehub_control_delete_scenario env sid h))"
| call_import_scenarios: "hub_call h
    (fst (scenehub_control_import_scenarios env js h))
    (snd (scenehub_control_import_scenarios env js h))"
| call_load_scenarios: "hub_call h
    (fst (scenehub_control_load_scenarios env h))
    (snd (scenehub_control_load_scenarios env h))"
| call_save_scenarios_store: "hub_call h
    (fst (scenehub_control_save_scenarios_store env h))
    (snd (scenehub_control_save_scenarios_store env h))"
| call_delete_room: "hub_call h
    (fst (scenehub_control_delete_room env rid wc h))
    (snd (snd (scenehub_control_delete_room env rid wc h)))"
| call_validate_scenario: "hub_call h (fst (scenehub_control_validate_scenario env sc)) h"
| call_validate_scenario_payload: "hub_call h (fst (scenehub_control_validate_scenario_payload env js)) h"
| call_validate_scenario_payload_into: "hub_call h (fst (scenehub_control_validate_scenario_payload_into env js)) h"
| call_device_command_run:
    "scenehub_control_device_command_run (he_lib (env :: hub_env)) (he_envs env 0) (hb_devices h) src did cid ps conf (hb_exec h) =
       (r, es, x) \<Longrightarrow> hub_call h r (tell es (h\<lparr>hb_exec := x\<rparr>))"
| call_device_admin_command_run:
    "scenehub_control_device_admin_command_run (he_lib (env :: hub_env)) (he_envs env 0) polls (hb_devices h) src did cid ps conf
       (hb_exec h) = Some (r, es, x) \<Longrightarrow> hub_call h r (tell es (h\<lparr>hb_exec := x\<rparr>))"
| call_device_describe_interface:
    "scenehub_control_device_describe_interface (he_lib (env :: hub_env)) polls cl (hb_exec h) = Some (r, desc, x) \<Longrightarrow>
       hub_call h r (h\<lparr>hb_exec := x\<rparr>)"
| call_hardware_io_set_mode: "hub_call h
    (fst (scenehub_control_hardware_io_set_mode env present set_mode channel mode h))
    (snd (scenehub_control_hardware_io_set_mode env present set_mode channel mode h))"

inductive_cases hub_callE: "hub_call h r h'"

section \<open>Well-formed results\<close>

lemma end_api_wf: "result_wf r \<Longrightarrow> result_wf (fst (end_api part target reason r eh))"
  by (simp add: end_api_def case_prod_beta finish_hub_def result_wf_intros)

lemma clock_operation_wf: "result_wf (fst (clock_operation rid aid op log h))"
  by (auto simp: clock_operation_def Let_def case_prod_beta finish_hub_def intro!: result_wf_intros)

lemma plan_operation_wf: "plan_operation rid aid op h = Some (r, h') \<Longrightarrow> result_wf r"
  using end_api_wf [OF prepare_result_wf]
  by (auto simp: plan_operation_def Let_def split: if_splits) (metis fst_conv)+

lemma report_room_action_wf: "result_wf r \<Longrightarrow> result_wf (fst (report_room_action rid aid r eh))"
  by (cases eh) (auto simp: report_room_action_def finish_hub_def
      scenehub_control_try_capture_start_game_validation_error_def case_prod_beta Let_def
      split: esp_err.split sum.split intro!: result_wf_intros)

text \<open>A result whose text has been set for a room of the payload is still well-formed.\<close>

lemma set_room_wf: "result_wf r \<Longrightarrow> result_wf (r\<lparr>cr_room_id := scenehub_control_copy QUEST_ROOM_ID_MAX_LEN s\<rparr>)"
  by (simp add: result_wf_def control_len_defs control_copy_length)

lemma payload_honest:
  "honest (bind_result (gm_game_profile_from_json js) (\<lambda>p. bind_result (gm_game_profile_to_json p) (\<lambda>j. Inr (p, j))))"
  "honest (bind_result (room_scenario_from_json lib js) (\<lambda>sc. bind_result (room_scenario_to_json lib sc) (\<lambda>j.
     case vd sc of (err, _, _) \<Rightarrow> if err \<noteq> ESP_OK then Inl err else Inr (sc, j))))"
  by (auto intro!: honest_intros split: prod.split)

lemma save_profile_payload_wf:
  "result_wf (fst (scenehub_control_save_profile_payload env js h))"
  using payload_honest(1)
  by (auto simp: scenehub_control_save_profile_payload_def Let_def case_prod_beta finish_hub_def honest_def
      split: sum.split intro!: result_wf_intros set_room_wf)

lemma save_scenario_payload_wf:
  "result_wf (fst (scenehub_control_save_scenario_payload env js h))"
  using payload_honest(2) [of "he_lib env" "scenehub_control_scenario_payload_object js" "he_validate env"]
  by (auto simp: scenehub_control_save_scenario_payload_def Let_def case_prod_beta finish_hub_def honest_def
      split: sum.split intro!: result_wf_intros set_room_wf)

lemma delete_content_failure:
  "delete_content env rid h = (Some (code, msg, e), out, h') \<Longrightarrow> e \<noteq> ESP_OK"
  by (auto simp: delete_content_def Let_def case_prod_beta split: if_splits)

lemma delete_room_wf: "result_wf (fst (scenehub_control_delete_room env rid wc h))"
proof -
  have "result_wf (scenehub_control_set_result SCENEHUB_CONTROL_STATUS_FAILED e False code msg
      (scenehub_control_prepare_result rid aid))" if "e \<noteq> ESP_OK" for e code msg aid
    using that by (auto intro!: result_wf_intros)
  then show ?thesis
    by (auto simp: scenehub_control_delete_room_def Let_def finish_hub_def
        split: option.split prod.split intro!: result_wf_intros dest!: delete_content_failure)
qed

lemmas end_api_ops = scenehub_control_select_scenario_def scenehub_control_scenario_stop_def
  scenehub_control_scenario_reset_def scenehub_control_select_profile_def scenehub_control_save_profile_def
  scenehub_control_delete_profile_def scenehub_control_import_profiles_def scenehub_control_load_profiles_def
  scenehub_control_save_profiles_store_def scenehub_control_save_room_def scenehub_control_save_scenario_def
  scenehub_control_delete_scenario_def scenehub_control_import_scenarios_def scenehub_control_load_scenarios_def
  scenehub_control_save_scenarios_store_def

lemmas clock_ops = scenehub_control_timer_start_def scenehub_control_timer_pause_def scenehub_control_timer_resume_def
  scenehub_control_timer_reset_def scenehub_control_timer_add_def scenehub_control_session_finish_def
  scenehub_control_hint_send_def scenehub_control_hint_clear_def

lemmas plan_ops = scenehub_control_scenario_start_def scenehub_control_scenario_next_def
  scenehub_control_scenario_approve_def

lemma end_api_ops_wf:
  "result_wf (fst (scenehub_control_select_scenario rid sid h))" "result_wf (fst (scenehub_control_scenario_stop rid h))"
  "result_wf (fst (scenehub_control_scenario_reset rid h))" "result_wf (fst (scenehub_control_select_profile env rid pid h))"
  "result_wf (fst (scenehub_control_save_profile env p h))" "result_wf (fst (scenehub_control_delete_profile env pid h))"
  "result_wf (fst (scenehub_control_import_profiles env js h))" "result_wf (fst (scenehub_control_load_profiles env h))"
  "result_wf (fst (scenehub_control_save_profiles_store env h))" "result_wf (fst (scenehub_control_save_room env rid nm h))"
  "result_wf (fst (scenehub_control_save_scenario env sc h))" "result_wf (fst (scenehub_control_delete_scenario env sid h))"
  "result_wf (fst (scenehub_control_import_scenarios env js h))" "result_wf (fst (scenehub_control_load_scenarios env h))"
  "result_wf (fst (scenehub_control_save_scenarios_store env h))"
  unfolding end_api_ops Let_def
  by (auto simp: case_prod_beta intro!: end_api_wf result_wf_intros split: prod.splits)

lemma room_action_wf: "scenehub_control_execute_room_action env src rid aid h = Some (r, h') \<Longrightarrow> result_wf r"
  using report_room_action_wf [OF prepare_result_wf]
  by (auto simp: scenehub_control_execute_room_action_def) (metis fst_conv)

lemma clock_ops_wf:
  "result_wf (fst (scenehub_control_timer_start env src rid d h))" "result_wf (fst (scenehub_control_timer_pause env src rid h))"
  "result_wf (fst (scenehub_control_timer_resume env src rid h))" "result_wf (fst (scenehub_control_timer_reset env src rid od h))"
  "result_wf (fst (scenehub_control_timer_add env src rid dt h))" "result_wf (fst (scenehub_control_session_finish env src rid h))"
  "result_wf (fst (scenehub_control_hint_send env rid msg h))" "result_wf (fst (scenehub_control_hint_clear env rid h))"
  by (simp_all add: clock_ops clock_operation_wf)

lemma validate_ops_wf:
  "result_wf (fst (scenehub_control_validate_scenario env sc))"
  "result_wf (fst (scenehub_control_validate_scenario_payload_into env js))"
  "result_wf (fst (scenehub_control_validate_scenario_payload env js))"
  by (auto simp: scenehub_control_validate_scenario_def scenehub_control_validate_scenario_payload_def
      scenehub_control_validate_scenario_payload_into_def Let_def split: sum.split prod.split
      intro!: result_wf_intros set_room_wf)

lemma store_export_honest: "honest (room_scenario_store_export_json lib store)"
  by (auto simp: room_scenario_store_export_json_def intro!: honest_intros)

lemma set_mode_wf: "result_wf (fst (scenehub_control_hardware_io_set_mode env present set_mode channel mode h))"
proof -
  have export: "room_scenario_store_export_json lib store \<noteq> Inl ESP_OK" for lib store
    using store_export_honest by (auto simp: honest_def)
  then have "scenehub_control_hw_io_check_mode_conflict lib store channel mode \<noteq> Inl (ESP_OK, c)" for lib store c
    by (auto simp: scenehub_control_hw_io_check_mode_conflict_def split: sum.splits option.splits)
  then show ?thesis
    by (auto simp: scenehub_control_hardware_io_set_mode_def Let_def finish_hub_def split: sum.split
        intro!: result_wf_intros)
qed

lemma hub_call_wf: "hub_call h r h' \<Longrightarrow> result_wf r"
  by (erule hub_call.cases)
    (simp_all add: plan_ops plan_operation_wf room_action_wf clock_ops_wf end_api_ops_wf save_profile_payload_wf
      save_scenario_payload_wf delete_room_wf validate_ops_wf device_command_wf admin_command_wf
      describe_interface_wf set_mode_wf)

section \<open>The state of the hub\<close>

definition rooms_ok :: "room_catalog \<Rightarrow> bool" where
  "rooms_ok c \<longleftrightarrow> length (rc_rooms c) \<le> rc_max c \<and> distinct (map rm_room_id (rc_rooms c)) \<and>
     (\<forall>e \<in> set (rc_rooms c). rm_room_id e \<noteq> [] \<and> length (rm_room_id e) < ROOM_CATALOG_ROOM_ID_MAX_LEN)"

definition hub_ok :: "hub \<Rightarrow> bool" where
  "hub_ok h \<longleftrightarrow> core_ok (hb_core h) \<and> rooms_ok (hb_rooms h) \<and> profiles_ok (hb_profiles h) \<and> scenarios_ok (hb_scenarios h)"

text \<open>Rooms.\<close>

lemma str_copy_short: "length s < n \<Longrightarrow> quest_str_copy n s = s"
  by (auto simp: quest_str_copy_def)

lemma room_upsert_keeps:
  assumes "rooms_ok c"
  shows "rooms_ok (snd (room_catalog_upsert e c))"
proof (cases "room_catalog_entry_valid e")
  case True
  then have id: "rm_room_id e \<noteq> []" "length (rm_room_id e) < ROOM_CATALOG_ROOM_ID_MAX_LEN"
    "quest_str_copy ROOM_CATALOG_ROOM_ID_MAX_LEN (rm_room_id e) = rm_room_id e"
    by (simp_all add: room_catalog_entry_valid_def str_copy_short)
  let ?e = "\<lparr>rm_room_id = rm_room_id e, rm_name = quest_str_copy ROOM_CATALOG_ROOM_NAME_MAX_LEN (room_catalog_normalize_name e),
    rm_device_count = rm_device_count e\<rparr>"
  have up: "snd (room_catalog_upsert e c) = (case find_index (\<lambda>x. rm_room_id x = rm_room_id e) (rc_rooms c) of
      Some i \<Rightarrow> room_catalog_replace_all_locked ((rc_rooms c)[i := ?e]) c
    | None \<Rightarrow> if length (rc_rooms c) \<ge> rc_max c then c else room_catalog_replace_all_locked (rc_rooms c @ [?e]) c)"
    using True id by (simp add: room_catalog_upsert_def room_catalog_find_entry_index_locked_def Let_def split: option.split)
  show ?thesis
  proof (cases "find_index (\<lambda>x. rm_room_id x = rm_room_id e) (rc_rooms c)")
    case None
    then have "\<forall>x \<in> set (rc_rooms c). rm_room_id x \<noteq> rm_room_id e" by (simp add: find_index_None_iff)
    with assms id show ?thesis
      unfolding up None by (auto simp: rooms_ok_def room_catalog_replace_all_locked_def)
  next
    case (Some i)
    then have "i < length (rc_rooms c)" "rm_room_id (rc_rooms c ! i) = rm_room_id e" by (auto dest: find_index_SomeD)
    then have "map rm_room_id ((rc_rooms c)[i := ?e]) = map rm_room_id (rc_rooms c)"
      by (metis list_update_id map_update nth_map room_entry.select_convs(1))
    with assms id show ?thesis
      unfolding up Some
      by (auto simp: rooms_ok_def room_catalog_replace_all_locked_def dest!: set_update_subset_insert [THEN subsetD])
  qed
qed (use assms in \<open>simp add: room_catalog_upsert_def\<close>)

lemma distinct_remove_nth: "distinct xs \<Longrightarrow> distinct (take i xs @ drop (Suc i) xs)"
  by (metis distinct_append distinct_drop distinct_take set_take_disj_set_drop_if_distinct Suc_leI le_SucI order_refl)

lemma room_delete_keeps: "rooms_ok c \<Longrightarrow> rooms_ok (snd (room_catalog_delete rid c))"
  using distinct_remove_nth [of "map rm_room_id (rc_rooms c)"]
  by (auto simp: room_catalog_delete_def rooms_ok_def room_catalog_replace_all_locked_def take_map drop_map
      split: option.split dest!: in_set_takeD in_set_dropD)

lemma and_save_keeps: "P (snd r) \<Longrightarrow> P (fst (snd (and_save r sv fs)))"
  by (simp add: and_save_def case_prod_beta Let_def)

lemma room_exists_short: "rooms_ok c \<Longrightarrow> room_catalog_exists rid c \<Longrightarrow> length rid < QUEST_ROOM_ID_MAX_LEN"
  by (auto simp: rooms_ok_def room_catalog_exists_def list_ex_iff ROOM_CATALOG_ROOM_ID_MAX_LEN_def QUEST_ROOM_ID_MAX_LEN_def)

lemma require_room_short:
  "hub_ok h \<Longrightarrow> scenehub_control_require_room rid h = ESP_OK \<Longrightarrow> length rid < QUEST_ROOM_ID_MAX_LEN"
  by (auto simp: scenehub_control_require_room_def hub_ok_def room_exists_short split: if_splits)

text \<open>The core.\<close>

lemma hub_ok_tell [simp]: "hub_ok (tell es h) = hub_ok h"
  by (simp add: hub_ok_def tell_def)

lemma hub_ok_core: "hub_ok h \<Longrightarrow> core_ok k \<Longrightarrow> hub_ok (h\<lparr>hb_core := k\<rparr>)"
  by (simp add: hub_ok_def)

lemma on_core_keeps: "hub_ok h \<Longrightarrow> (core_ok (hb_core h) \<Longrightarrow> core_ok (snd (f (hb_core h)))) \<Longrightarrow> hub_ok (snd (on_core f h))"
  by (simp add: on_core_def case_prod_beta hub_ok_def)

lemma read_session_keeps: "core_ok k \<Longrightarrow> core_ok (snd (read_session rid f k))"
  by (simp add: read_session_def Let_def core_table)

lemma read_core_keeps: "hub_ok h \<Longrightarrow> (core_ok (hb_core h) \<Longrightarrow> core_ok (snd (f (hb_core h)))) \<Longrightarrow> hub_ok (snd (read_core f h))"
  by (simp add: read_core_def case_prod_beta hub_ok_def)

lemmas view_keeps = read_session_keeps [folded gm_room_session_get_selected_view_def]

lemma read_views_keep:
  "hub_ok h \<Longrightarrow> hub_ok (snd (read_core (gm_room_session_get_read_views rid t) h))"
  "hub_ok h \<Longrightarrow> hub_ok (snd (read_core (gm_room_session_get_timer_view rid t) h))"
  "hub_ok h \<Longrightarrow> hub_ok (snd (read_core (gm_room_session_get_selected_view rid) h))"
  "hub_ok h \<Longrightarrow> hub_ok (snd (read_core (gm_room_session_get_runtime_summary rid) h))"
  by (simp_all add: read_core_keeps read_session_keeps gm_room_session_get_read_views_def
      gm_room_session_get_timer_view_def gm_room_session_get_selected_view_def gm_room_session_get_runtime_summary_def)

lemma and_then_keeps:
  "hub_ok (snd r) \<Longrightarrow> (fst r = ESP_OK \<Longrightarrow> hub_ok (snd r) \<Longrightarrow> hub_ok (snd (f (snd r)))) \<Longrightarrow> hub_ok (snd (and_then r f))"
  by (simp add: and_then_def case_prod_beta)

lemma dispatch_round_keeps:
  assumes "core_ok k"
  shows "core_ok (fst (snd (dispatch_round lib env q plan k x)))"
proof -
  obtain r k1 where nc: "gm_room_session_command_plan_next_command plan k = (r, k1)" by force
  with next_command_ok [OF assms, of plan] have k1: "core_ok k1" by simp
  show ?thesis
    using plan_fail_ok [OF k1] apply_dispatch_ok [OF k1] k1
    by (cases r) (simp_all add: dispatch_round_def nc Let_def case_prod_beta)
qed

lemma dispatch_loop_keeps:
  assumes "scenehub_control_dispatch_session_command_plan lib envs q n plan k x = Some (err, plan', k', x')"
    and "core_ok k"
  shows "core_ok k'"
proof -
  let ?P = "\<lambda>lib envs q n plan k x r. core_ok k \<longrightarrow> core_ok (fst (snd (snd r)))"
  have "?P lib envs q n plan k x (err, plan', k', x')"
  proof (rule scenehub_control_dispatch_session_command_plan.raw_induct
      [where P = ?P and xa = "((((((lib, envs), q), n), plan), k), x)", simplified prod.case, rotated])
    show "scenehub_control_dispatch_session_command_plan lib envs q n plan k x = Some (err, plan', k', x')" by fact
  next
    fix f lib envs q n plan k x y
    assume IH: "\<And>lib envs q n plan k x y. f lib envs q n plan k x = Some y \<Longrightarrow> core_ok k \<longrightarrow> core_ok (fst (snd (snd y)))"
      and run: "(if \<not> gm_room_session_command_plan_present plan then Some (ESP_OK, plan, k, x)
        else case dispatch_round lib (envs n) q plan k x of (out, k1, x1) \<Rightarrow>
          (case out of Inl (err, plan1) \<Rightarrow> Some (err, plan1, k1, x1)
           | Inr plan1 \<Rightarrow> f lib envs q (n + 1) plan1 k1 x1)) = Some y"
    show "core_ok k \<longrightarrow> core_ok (fst (snd (snd y)))"
    proof
      assume ok: "core_ok k"
      obtain out k1 x1 where r: "dispatch_round lib (envs n) q plan k x = (out, k1, x1)" by (metis prod_cases3)
      with dispatch_round_keeps [OF ok, of lib "envs n" q plan x] have k1: "core_ok k1" by simp
      show "core_ok (fst (snd (snd y)))"
        using run ok k1 by (auto simp: r split: if_splits sum.splits dest!: IH)
    qed
  qed
  with assms(2) show ?thesis by simp
qed

lemma run_plan_keeps:
  assumes "run_plan env r h = Some (err, h')" and "hub_ok h" and "core_ok (snd (snd r))"
  shows "hub_ok h'"
proof -
  obtain e plan k where r: "r = (e, plan, k)" by (metis prod_cases3)
  have h1: "hub_ok (h\<lparr>hb_core := k\<rparr>)" using assms(2,3) by (simp add: r hub_ok_def)
  show ?thesis
  proof (cases "e = ESP_OK")
    case True
    with assms(1) obtain plan' k' x' where d: "scenehub_control_dispatch_session_command_plan (he_lib env) (he_envs env)
        (hb_devices h) 0 plan k (hb_exec h) = Some (err, plan', k', x')" "h' = h\<lparr>hb_core := k', hb_exec := x'\<rparr>"
      by (auto simp: run_plan_def r dispatch_plan_def)
    then show ?thesis using dispatch_loop_keeps [OF d(1)] h1 by (simp add: hub_ok_def)
  qed (use assms(1) h1 in \<open>simp add: run_plan_def r\<close>)
qed

text \<open>The frames of the operations.\<close>

lemma finish_hub_keeps [simp]: "hub_ok (snd (finish_hub re h)) = hub_ok h"
  by (simp add: finish_hub_def)

lemma end_api_keeps [simp]: "hub_ok (snd (end_api part target reason r eh)) = hub_ok (snd eh)"
  by (simp add: end_api_def case_prod_beta)

lemma end_room_action_keeps [simp]: "hub_ok (snd (end_room_action src rid aid eh)) = hub_ok (snd eh)"
  by (simp add: end_room_action_def case_prod_beta Let_def)

lemma in_room_keeps:
  assumes "hub_ok h" and "length rid < QUEST_ROOM_ID_MAX_LEN \<Longrightarrow> hub_ok (snd (op h))"
  shows "hub_ok (snd (and_then (scenehub_control_require_room rid h, h) op))"
  using assms require_room_short [of h rid] by (auto intro!: and_then_keeps)

lemma clock_operation_keeps:
  assumes "hub_ok h" and "length rid < QUEST_ROOM_ID_MAX_LEN \<Longrightarrow> hub_ok (snd (op h))"
  shows "hub_ok (snd (clock_operation rid aid op log h))"
  using in_room_keeps [of h rid op] assms by (simp add: clock_operation_def Let_def case_prod_beta)

lemma plan_operation_keeps:
  assumes "plan_operation rid aid op h = Some (r, h')" and "hub_ok h"
    and "\<And>err h1. op h = Some (err, h1) \<Longrightarrow> hub_ok h1"
  shows "hub_ok h'"
proof -
  obtain eh where eh: "(if scenehub_control_require_room rid h \<noteq> ESP_OK
      then Some (scenehub_control_require_room rid h, h) else op h) = Some eh"
    "(r, h') = end_api SCENEHUB_STATE_SLICE_ROOM_RUNTIME rid aid (scenehub_control_prepare_result rid aid) eh"
    using assms(1) by (auto simp: plan_operation_def Let_def)
  have "hub_ok (snd eh)" using eh(1) assms(2,3) by (cases eh) (auto split: if_splits)
  then show ?thesis using end_api_keeps [of _ _ _ _ eh] by (metis eh(2) snd_conv)
qed

text \<open>What the core operations keep, as operations on the hub.\<close>

lemma core_ops_keep:
  assumes "hub_ok h"
  shows "hub_ok (snd (on_core (gm_room_session_pause rid t) h))" "hub_ok (snd (on_core (gm_room_session_resume rid t) h))"
    "hub_ok (snd (on_core (gm_room_session_finish rid t) h))" "hub_ok (snd (on_core (gm_room_session_reset rid d t) h))"
    "hub_ok (snd (on_core (\<lambda>k. gm_room_session_reset rid d t (emit e k)) h))"
    "hub_ok (snd (on_core (gm_room_session_add_time rid dt t) h))" "hub_ok (snd (on_core (gm_room_session_clear_hint rid t) h))"
    "hub_ok (snd (on_core (gm_room_session_scenario_stop rid) h))" "hub_ok (snd (on_core (gm_room_session_scenario_reset rid) h))"
  using assms
  by (simp_all add: on_core_keeps public_op_defs public_op_oks core_table Let_def case_prod_beta)

lemma room_core_ops_keep:
  assumes "hub_ok h" and "length rid < QUEST_ROOM_ID_MAX_LEN"
  shows "hub_ok (snd (on_core (gm_room_session_start rid d t) h))"
    "hub_ok (snd (on_core (gm_room_session_set_hint rid msg t) h))"
    "hub_ok (snd (on_core (gm_room_session_select_profile_prepared rid p sc d t) h))"
    "hub_ok (snd (on_core (gm_room_session_select_scenario_prepared rid sc) h))"
  using assms
  by (simp_all add: on_core_keeps public_op_defs public_op_oks core_table Let_def case_prod_beta)

lemma timer_reset_keeps: "hub_ok h \<Longrightarrow> hub_ok (snd (timer_reset_op env rid od h))"
  using read_views_keep(2) [of h rid "he_clock env 0"]
  by (auto simp: timer_reset_op_def case_prod_beta core_ops_keep split: option.split sum.split)

lemma clock_ops_keep:
  assumes "hub_ok h"
  shows "hub_ok (snd (scenehub_control_timer_start env src rid d h))" "hub_ok (snd (scenehub_control_timer_pause env src rid h))"
    "hub_ok (snd (scenehub_control_timer_resume env src rid h))" "hub_ok (snd (scenehub_control_timer_reset env src rid od h))"
    "hub_ok (snd (scenehub_control_timer_add env src rid dt h))" "hub_ok (snd (scenehub_control_session_finish env src rid h))"
    "hub_ok (snd (scenehub_control_hint_send env rid msg h))" "hub_ok (snd (scenehub_control_hint_clear env rid h))"
  using assms
  by (simp_all add: clock_ops clock_operation_keeps core_ops_keep room_core_ops_keep timer_reset_keeps)

lemma load_selected_keeps: "hub_ok h \<Longrightarrow> hub_ok (snd (scenehub_control_load_selected_scenario rid h))"
  by (simp add: scenehub_control_load_selected_scenario_def case_prod_beta read_views_keep)

lemma run_selected_keeps:
  assumes "run_selected_scenario env rid h = Some (err, h')" and "hub_ok h"
  shows "hub_ok h'"
proof -
  have h1: "hub_ok (snd (scenehub_control_load_selected_scenario rid h))" by (rule load_selected_keeps) fact
  then have "core_ok (hb_core (snd (scenehub_control_load_selected_scenario rid h)))" by (simp add: hub_ok_def)
  then show ?thesis
    using assms(1) h1
    by (auto simp: run_selected_scenario_def case_prod_beta Let_def start_plan_ok split: sum.splits
        elim!: run_plan_keeps)
qed

lemma plan_ops_keep:
  assumes "hub_ok h"
  shows "scenehub_control_scenario_start env rid h = Some (r, h') \<Longrightarrow> hub_ok h'"
    "scenehub_control_scenario_next env rid b h = Some (r, h') \<Longrightarrow> hub_ok h'"
    "scenehub_control_scenario_approve env rid h = Some (r, h') \<Longrightarrow> hub_ok h'"
proof -
  have k: "core_ok (hb_core h)" using assms by (simp add: hub_ok_def)
  have ops: "core_ok (snd (snd (gm_room_session_scenario_next_plan rid t (hb_core h))))"
    "core_ok (snd (snd (gm_room_session_scenario_next_branch_plan rid b t (hb_core h))))"
    "core_ok (snd (snd (gm_room_session_scenario_approve_plan rid t (hb_core h))))" for t
    using k by (simp_all add: public_op_defs public_op_oks)
  show "scenehub_control_scenario_start env rid h = Some (r, h') \<Longrightarrow> hub_ok h'"
    by (auto simp: plan_ops elim!: plan_operation_keeps run_selected_keeps intro: assms)
  show "scenehub_control_scenario_next env rid b h = Some (r, h') \<Longrightarrow> hub_ok h'"
    "scenehub_control_scenario_approve env rid h = Some (r, h') \<Longrightarrow> hub_ok h'"
    using assms ops by (auto simp: plan_ops elim!: plan_operation_keeps run_plan_keeps)
qed

lemma load_profile_room: "load_profile_scenario rid pid h = Inr (p, sc) \<Longrightarrow> room_catalog_exists rid (hb_rooms h)"
  by (auto simp: load_profile_scenario_def bind_result_def Let_def gm_game_profile_validate_reference_def
      split: sum.splits if_splits)

lemma selection_keeps:
  assumes "hub_ok h"
  shows "hub_ok (snd (scenehub_control_select_scenario rid sid h))" "hub_ok (snd (scenehub_control_select_profile env rid pid h))"
    "hub_ok (snd (scenehub_control_scenario_stop rid h))" "hub_ok (snd (scenehub_control_scenario_reset rid h))"
  using assms
  by (auto simp: scenehub_control_select_scenario_def scenehub_control_select_profile_def Let_def
      scenehub_control_scenario_stop_def scenehub_control_scenario_reset_def core_ops_keep room_core_ops_keep
      intro!: in_room_keeps split: sum.split)

text \<open>The stores.\<close>

lemma on_profiles_keeps:
  assumes "hub_ok h" and "\<And>s. profiles_ok s \<Longrightarrow> profiles_ok (snd (op s))"
    and "\<And>s fs. profiles_ok s \<Longrightarrow> profiles_ok (fst (snd (op_and_save s fs)))"
  shows "hub_ok (snd (on_profiles env op op_and_save h))"
  using assms by (simp add: on_profiles_def hub_ok_def case_prod_beta)

lemma on_scenarios_keeps:
  assumes "hub_ok h" and "\<And>s. scenarios_ok s \<Longrightarrow> scenarios_ok (snd (op s))"
    and "\<And>s fs. scenarios_ok s \<Longrightarrow> scenarios_ok (fst (snd (op_and_save s fs)))"
  shows "hub_ok (snd (on_scenarios env op op_and_save h))"
  using assms by (simp add: on_scenarios_def hub_ok_def case_prod_beta)

lemma saved_profiles_keep:
  "profiles_ok s \<Longrightarrow> profile_fits p \<Longrightarrow> profiles_ok (fst (snd (gm_game_profile_upsert_and_save lib dk p s fs)))"
  "profiles_ok s \<Longrightarrow> profiles_ok (fst (snd (gm_game_profile_delete_and_save lib dk pid s fs)))"
  "profiles_ok s \<Longrightarrow> profiles_ok (fst (snd (gm_game_profile_import_json_and_save lib dk js s fs)))"
  "profiles_ok s \<Longrightarrow> profiles_ok (snd (gm_game_profile_load_from_path_locked lib dk path fs s))"
  by (simp_all add: gm_game_profile_upsert_and_save_def gm_game_profile_delete_and_save_def
      gm_game_profile_import_json_and_save_def gm_game_profile_load_from_path_locked_def and_save_keeps upsert_keeps
      delete_keeps import_keeps split: sum.split)

lemma saved_scenarios_keep:
  "scenarios_ok s \<Longrightarrow> scenarios_ok (fst (snd (room_scenario_add_and_save lib dk sc s fs)))"
  "scenarios_ok s \<Longrightarrow> scenarios_ok (fst (snd (room_scenario_delete_and_save lib dk sid s fs)))"
  "scenarios_ok s \<Longrightarrow> scenarios_ok (fst (snd (room_scenario_store_import_json_and_save lib dk js s fs)))"
  "scenarios_ok s \<Longrightarrow> scenarios_ok (snd (room_scenario_store_load_from_path_locked lib dk path fs s))"
  by (simp_all add: room_scenario_add_and_save_def room_scenario_delete_and_save_def
      room_scenario_store_import_json_and_save_def room_scenario_store_load_from_path_locked_def and_save_keeps
      scenario_add_keeps scenario_delete_keeps scenario_import_keeps split: sum.split)

lemma store_profile_keeps: "hub_ok h \<Longrightarrow> profile_fits p \<Longrightarrow> hub_ok (snd (store_profile env p h))"
  by (auto simp: store_profile_def upsert_keeps saved_profiles_keep intro!: and_then_keeps on_profiles_keeps)

lemma store_scenario_keeps: "hub_ok h \<Longrightarrow> hub_ok (snd (store_scenario env sc h))"
  by (auto simp: store_scenario_def scenario_add_keeps saved_scenarios_keep intro!: on_scenarios_keeps)

lemma payload_profile_fits:
  "bind_result (gm_game_profile_from_json js) (\<lambda>p. bind_result (gm_game_profile_to_json p) (\<lambda>j. Inr (p, j))) = Inr (p, j) \<Longrightarrow>
   profile_fits p"
  using from_json_valid [of js] by (auto simp: bind_result_def split: sum.splits)

lemma save_payloads_keep:
  assumes "hub_ok h"
  shows "hub_ok (snd (snd (scenehub_control_save_profile_payload env js h)))"
    "hub_ok (snd (snd (scenehub_control_save_scenario_payload env js h)))"
  using assms
  by (auto simp: scenehub_control_save_profile_payload_def scenehub_control_save_scenario_payload_def Let_def
      case_prod_beta store_profile_keeps store_scenario_keeps payload_profile_fits split: sum.split)

lemma store_ops_keep:
  assumes "hub_ok h"
  shows "profile_fits p \<Longrightarrow> hub_ok (snd (scenehub_control_save_profile env p h))"
    "hub_ok (snd (scenehub_control_delete_profile env pid h))" "hub_ok (snd (scenehub_control_import_profiles env js h))"
    "hub_ok (snd (scenehub_control_load_profiles env h))" "hub_ok (snd (scenehub_control_save_profiles_store env h))"
    "hub_ok (snd (scenehub_control_save_scenario env sc h))" "hub_ok (snd (scenehub_control_delete_scenario env sid h))"
    "hub_ok (snd (scenehub_control_import_scenarios env js h))" "hub_ok (snd (scenehub_control_load_scenarios env h))"
    "hub_ok (snd (scenehub_control_save_scenarios_store env h))"
proof -
  show "profile_fits p \<Longrightarrow> hub_ok (snd (scenehub_control_save_profile env p h))"
    "hub_ok (snd (scenehub_control_save_scenario env sc h))"
    using assms by (simp_all add: scenehub_control_save_profile_def scenehub_control_save_scenario_def
        store_profile_keeps store_scenario_keeps)
  show "hub_ok (snd (scenehub_control_delete_profile env pid h))" "hub_ok (snd (scenehub_control_delete_scenario env sid h))"
    using assms by (auto simp: scenehub_control_delete_profile_def scenehub_control_delete_scenario_def delete_keeps
        scenario_delete_keeps saved_profiles_keep saved_scenarios_keep intro!: on_profiles_keeps on_scenarios_keeps)
qed (use assms in \<open>simp_all add: hub_ok_def end_api_ops end_api_def finish_hub_def tell_def case_prod_beta Let_def
      saved_profiles_keep saved_scenarios_keep\<close>)

text \<open>Rooms.\<close>

lemma save_room_keeps: "hub_ok h \<Longrightarrow> hub_ok (snd (scenehub_control_save_room env rid nm h))"
  by (simp add: scenehub_control_save_room_def Let_def case_prod_beta hub_ok_def end_api_def finish_hub_def tell_def
      room_catalog_upsert_and_save_def and_save_keeps room_upsert_keeps)

lemma hub_ok_stores:
  "hub_ok h \<Longrightarrow> profiles_ok ps \<Longrightarrow> hub_ok (h\<lparr>hb_profiles := ps, hb_files := fs\<rparr>)"
  "hub_ok h \<Longrightarrow> scenarios_ok ss \<Longrightarrow> hub_ok (h\<lparr>hb_scenarios := ss, hb_files := fs\<rparr>)"
  "hub_ok h \<Longrightarrow> profiles_ok (hb_profiles h)" "hub_ok h \<Longrightarrow> scenarios_ok (hb_scenarios h)"
  by (simp_all add: hub_ok_def)

lemma delete_each_profile_keeps: "hub_ok h \<Longrightarrow> hub_ok (snd (delete_each_profile env pids h))"
  by (induction pids arbitrary: h) (simp_all add: case_prod_beta Let_def hub_ok_stores saved_profiles_keep)

lemma delete_each_scenario_keeps: "hub_ok h \<Longrightarrow> hub_ok (snd (delete_each_scenario env sids h))"
  by (induction sids arbitrary: h) (simp_all add: case_prod_beta Let_def hub_ok_stores saved_scenarios_keep)

lemma delete_content_keeps: "hub_ok h \<Longrightarrow> hub_ok (snd (snd (delete_content env rid h)))"
  by (simp add: delete_content_def scenehub_control_delete_profiles_for_room_def
      scenehub_control_delete_scenarios_for_room_def Let_def case_prod_beta delete_each_profile_keeps
      delete_each_scenario_keeps)

lemma delete_room_keeps: "hub_ok h \<Longrightarrow> hub_ok (snd (snd (scenehub_control_delete_room env rid wc h)))"
proof -
  assume h: "hub_ok h"
  have "hub_ok (h\<lparr>hb_rooms := snd (room_catalog_delete rid (hb_rooms h))\<rparr>)"
    "hub_ok (h\<lparr>hb_rooms := fst (snd (room_catalog_delete_and_save lib dk rid (hb_rooms h) fs)), hb_files := fs'\<rparr>)" for lib dk fs fs'
    using h by (simp_all add: hub_ok_def room_delete_keeps room_catalog_delete_and_save_def and_save_keeps)
  with h show ?thesis
    by (simp add: scenehub_control_delete_room_def Let_def case_prod_beta delete_content_keeps split: option.split)
qed

section \<open>Room actions\<close>

lemma validate_enabled_keeps:
  "hub_ok h \<Longrightarrow> hub_ok (snd (scenehub_control_validate_room_action_enabled env rid aid h))"
  by (simp add: scenehub_control_validate_room_action_enabled_def Let_def case_prod_beta read_views_keep)

lemma validate_enabled_room:
  "fst (scenehub_control_validate_room_action_enabled env rid aid h) = ESP_OK \<Longrightarrow> scenehub_control_require_room rid h = ESP_OK"
  by (auto simp: scenehub_control_validate_room_action_enabled_def Let_def case_prod_beta split: if_splits)

lemma safe_off_keeps: "hub_ok h \<Longrightarrow> hub_ok (snd (scenehub_control_safe_off_hardware_optional env h))"
  by (simp add: scenehub_control_safe_off_hardware_optional_def split: option.split)

lemma stop_game_keeps: "hub_ok h \<Longrightarrow> hub_ok (snd (scenehub_control_execute_stop_game env src rid aid h))"
  by (auto simp: scenehub_control_execute_stop_game_def validate_enabled_keeps core_ops_keep safe_off_keeps
      intro!: and_then_keeps)

lemma reset_selection_keeps:
  assumes "hub_ok h" and "length rid < QUEST_ROOM_ID_MAX_LEN"
  shows "hub_ok (snd (fst (reset_game_selection env rid h)))"
  using read_views_keep(1) [OF assms(1), of rid "he_clock env 1"] assms(2)
  by (auto simp: reset_game_selection_def case_prod_beta Let_def core_ops_keep room_core_ops_keep split: sum.split)

lemma reset_game_keeps: "hub_ok h \<Longrightarrow> hub_ok (snd (scenehub_control_execute_reset_game env src rid aid h))"
  using validate_enabled_keeps [of h env rid aid] validate_enabled_room [of env rid aid h] require_room_short [of h rid]
  by (auto simp: scenehub_control_execute_reset_game_def case_prod_beta Let_def core_ops_keep safe_off_keeps
      reset_selection_keeps intro!: and_then_keeps)

lemma session_action_keeps: "hub_ok h \<Longrightarrow> hub_ok (snd (session_action env rid aid h))"
  using read_views_keep(2) [of h rid "he_clock env 1"]
  by (auto simp: session_action_def case_prod_beta Let_def core_ops_keep split: sum.split)

lemma session_actions_keep: "hub_ok h \<Longrightarrow> hub_ok (snd (scenehub_control_execute_session_action env src rid aid h))"
  by (auto simp: scenehub_control_execute_session_action_def validate_enabled_keeps session_action_keeps
      intro!: and_then_keeps)

lemma map_option_keeps:
  assumes "map_option f x = Some (r, h')" and "\<And>eh. x = Some eh \<Longrightarrow> P (snd eh)"
    and "\<And>eh. P (snd eh) \<Longrightarrow> P (snd (f eh))"
  shows "P h'"
  using assms by (metis map_option_eq_Some snd_conv)

lemma start_plan_keeps:
  assumes "run_plan env (gm_room_session_game_start_prepared vd rid t1 p sc prepared d t2 (hb_core h)) h = Some eh"
    and "hub_ok h" "length rid < QUEST_ROOM_ID_MAX_LEN"
  shows "hub_ok (snd eh)"
proof (cases eh)
  case (Pair err h')
  have "core_ok (hb_core h)" using assms(2) by (simp add: hub_ok_def)
  note ok = game_start_ok [OF this assms(3), of vd t1 p sc prepared d t2]
  show ?thesis using run_plan_keeps [OF assms(1) [unfolded Pair] assms(2) ok] Pair by simp
qed

lemma start_game_keeps:
  assumes "scenehub_control_execute_start_game env src rid aid h = Some (err, h')" and "hub_ok h"
  shows "hub_ok h'"
proof -
  define v where "v = scenehub_control_validate_room_action_enabled env rid aid h"
  define w where "w = start_game_inputs env rid (snd v)"
  have ok: "hub_ok (snd v)" using validate_enabled_keeps assms(2) by (simp add: v_def)
  then have ok2: "hub_ok (snd w)" by (simp add: w_def start_game_inputs_def case_prod_beta Let_def read_views_keep)
  have len: "fst v = ESP_OK \<Longrightarrow> length rid < QUEST_ROOM_ID_MAX_LEN"
    using require_room_short [OF assms(2)] validate_enabled_room [of env rid aid h] by (simp add: v_def)
  show ?thesis
  proof (rule map_option_keeps [OF assms(1) [unfolded scenehub_control_execute_start_game_def]])
    fix eh
    assume "(let (err, h1) = scenehub_control_validate_room_action_enabled env rid aid h in
        if err \<noteq> ESP_OK then Some (err, h1)
        else let (v, h2) = start_game_inputs env rid h1 in
          (case v of Inl err1 \<Rightarrow> Some (err1, h2)
           | Inr (p, sc, prepared) \<Rightarrow>
               run_plan env (gm_room_session_game_start_prepared (he_validate env) rid (he_clock env 1)
                 (scenehub_control_build_session_profile p) sc prepared (gp_duration_ms p) (he_clock env 2)
                 (hb_core h2)) h2)) = Some eh"
    then have eq: "(if fst v \<noteq> ESP_OK then Some (fst v, snd v)
        else (case fst w of Inl err1 \<Rightarrow> Some (err1, snd w)
           | Inr (p, sc, prepared) \<Rightarrow>
               run_plan env (gm_room_session_game_start_prepared (he_validate env) rid (he_clock env 1)
                 (scenehub_control_build_session_profile p) sc prepared (gp_duration_ms p) (he_clock env 2)
                 (hb_core (snd w))) (snd w))) = Some eh"
      unfolding Let_def case_prod_beta v_def [symmetric] w_def [symmetric] .
    show "hub_ok (snd eh)"
    proof (cases "fst v = ESP_OK")
      case True
      then show ?thesis using eq ok2 len by (cases "fst w") (auto elim!: start_plan_keeps)
    qed (use eq ok in auto)
  qed simp
qed

lemma report_keeps: "hub_ok (snd eh) \<Longrightarrow> hub_ok (snd (report_room_action rid aid r eh))"
  using read_views_keep(4) [of "snd eh" rid]
  by (cases eh) (auto simp: report_room_action_def scenehub_control_try_capture_start_game_validation_error_def
      Let_def case_prod_beta split: esp_err.split sum.split)

lemma room_action_keeps:
  assumes "scenehub_control_execute_room_action env src rid aid h = Some (r, h')" and "hub_ok h"
  shows "hub_ok h'"
proof (rule map_option_keeps [where P = hub_ok, OF assms(1) [unfolded scenehub_control_execute_room_action_def Let_def]])
  fix eh
  assume eq: "(if scenehub_control_preflight_room_action env rid aid \<noteq> ESP_OK
      then Some (if scenehub_control_owns_game_action aid
                 then end_room_action src rid aid (scenehub_control_preflight_room_action env rid aid, h)
                 else (scenehub_control_preflight_room_action env rid aid, h))
      else if aid = ''start_game'' then scenehub_control_execute_start_game env src rid aid h
      else if aid = ''stop_game'' then Some (scenehub_control_execute_stop_game env src rid aid h)
      else if aid = ''reset_game'' then Some (scenehub_control_execute_reset_game env src rid aid h)
      else Some (scenehub_control_execute_session_action env src rid aid h)) = Some eh"
  have start: "scenehub_control_execute_start_game env src rid aid h = Some eh \<Longrightarrow> hub_ok (snd eh)"
    using start_game_keeps [of env src rid aid h "fst eh" "snd eh"] assms(2) by simp
  show "hub_ok (snd eh)"
    using eq assms(2) start stop_game_keeps [OF assms(2), of env src rid aid]
      reset_game_keeps [OF assms(2), of env src rid aid] session_actions_keep [OF assms(2), of env src rid aid]
    by (simp split: if_split_asm, auto)
qed (rule report_keeps)

lemma hub_ok_exec [simp]: "hub_ok (h\<lparr>hb_exec := x\<rparr>) = hub_ok h"
  by (simp add: hub_ok_def)

lemma set_mode_keeps: "hub_ok h \<Longrightarrow> hub_ok (snd (scenehub_control_hardware_io_set_mode env present set_mode channel mode h))"
  by (simp add: scenehub_control_hardware_io_set_mode_def finish_hub_def Let_def split: sum.split)

lemma hub_call_keeps: "hub_call h r h' \<Longrightarrow> hub_ok h \<Longrightarrow> hub_ok h'"
  by (induction rule: hub_call.induct)
    (erule (1) room_action_keeps plan_ops_keep
      | simp add: clock_ops_keep selection_keeps store_ops_keep save_payloads_keep save_room_keeps delete_room_keeps
          set_mode_keeps)+

end
