(* ===== verification/Hub_Props.thy ===== *)
theory Hub_Props
  imports Control_Service_Props Gm_Cleanup
begin

text \<open>
  The hub as a whole: the states the control service and the background tasks of the game core can
  reach, what every such state satisfies, and what the room actions do when they may not run or when
  the hardware fails.
\<close>

section \<open>Reachable states\<close>

definition hub_boot :: "nat \<Rightarrow> (nat \<Rightarrow> u32) \<Rightarrow> nat \<Rightarrow> executor \<Rightarrow> quest_devices \<Rightarrow> files \<Rightarrow> hub" where
  "hub_boot rooms rnd max_rooms x q fs = \<lparr>hb_core = core_boot rooms rnd, hb_exec = x, hb_devices = q,
     hb_rooms = \<lparr>rc_max = max_rooms, rc_rooms = [], rc_generation = 0\<rparr>,
     hb_profiles = profile_store_zero, hb_scenarios = scenario_store_zero, hb_files = fs, hb_effects = []\<rparr>"

text \<open>Calls of the service and steps of the game core (ticks, events, command results) in any order.\<close>

inductive hub_reachable :: "hub \<Rightarrow> bool" where
  hub_start: "hub_reachable (hub_boot rooms rnd max_rooms x q fs)"
| hub_service: "hub_reachable h \<Longrightarrow> hub_call h r h' \<Longrightarrow> hub_reachable h'"
| hub_core: "hub_reachable h \<Longrightarrow> gm_step (hb_core h) k \<Longrightarrow> hub_reachable (h\<lparr>hb_core := k\<rparr>)"
| hub_outside: "hub_reachable h \<Longrightarrow> hub_reachable (h\<lparr>hb_exec := x, hb_devices := q, hb_files := fs\<rparr>)"

lemma profiles_zero_ok: "profiles_ok profile_store_zero"
  by (rule profiles_reachable_ok [OF profiles_start])

lemma core_boot_ok: "core_ok (core_boot rooms rnd)"
  using gm_reachable_ok [OF reach_init [where rooms = rooms and rnd = rnd and eq = None and rq = None]]
  by (simp add: core_boot_def)

lemma hub_reachable_ok: "hub_reachable h \<Longrightarrow> hub_ok h"
proof (induction rule: hub_reachable.induct)
  case (hub_start rooms rnd max_rooms x q fs)
  then show ?case
    by (simp add: hub_boot_def hub_ok_def core_boot_ok profiles_zero_ok scenarios_zero_ok rooms_ok_def)
next
  case (hub_service h r h')
  then show ?case using hub_call_keeps by blast
next
  case (hub_core h k)
  then show ?case using gm_step_ok by (auto simp: hub_ok_def)
qed (simp add: hub_ok_def)

lemma profile_get_valid:
  assumes "profiles_ok s" and "gm_game_profile_get pid s = Inr p"
  shows "gp_id p = pid \<and> gm_game_profile_valid p"
  using assms profiles.slot_of_SomeD [of pid "pt_slots s"]
  by (auto simp: gm_game_profile_get_def find_is_slot_of profiles_ok_def split: if_splits option.splits)

text \<open>
  C3: the hub stays consistent.  After any sequence of calls of the control service (successful or
  not, with failing disks, damaged JSON files and any devices) interleaved with steps of the game
  core, every session's state agrees with its clock, the room catalogue has no room twice, and
  whatever a lookup by id returns from the stores is a valid profile or a structurally valid scenario
  with that id.
\<close>

theorem hub_consistent:
  assumes "hub_reachable h"
  shows "(\<forall>s \<in> set (k_sessions (hb_core h)). s_state s = session_state_of_timer (t_state (s_timer s))) \<and>
    distinct (map rm_room_id (rc_rooms (hb_rooms h))) \<and>
    (gm_game_profile_get pid (hb_profiles h) = Inr p \<longrightarrow> gp_id p = pid \<and> gm_game_profile_valid p) \<and>
    (room_scenario_get sid (hb_scenarios h) = Inr sc \<longrightarrow>
       sc_id sc = sid \<and> room_scenario_validate_structural sc = ESP_OK)"
  using hub_reachable_ok [OF assms] profile_get_valid [of "hb_profiles h" pid p] scenario_get_valid [of "hb_scenarios h" sid sc]
  by (auto simp: hub_ok_def rooms_ok_def core_ok_def table_ok_def slot_ok_def clock_ok_def)

text \<open>
  C15: the operations of the control service on rooms, sessions, profiles and scenarios, the
  validation of scenarios, the commands for devices (plain and administrative, and the query of an
  interface) and the choice of the mode of an input or output return well-formed results: the status is
  done or accepted exactly when there is no error, a result with an error never claims that the state
  has changed, and every text fits its field.  The operations that store, delete, import or load devices
  and sidebar presets are not modelled and not covered.
\<close>

theorem control_results_wf:
  assumes "hub_call h r h'"
  shows "(cr_status r \<in> {SCENEHUB_CONTROL_STATUS_DONE, SCENEHUB_CONTROL_STATUS_ACCEPTED} \<longleftrightarrow> cr_err r = ESP_OK) \<and>
    (cr_err r \<noteq> ESP_OK \<longrightarrow> \<not> cr_state_changed r) \<and> result_wf r"
  using hub_call_wf [OF assms] by (simp add: result_wf_def)

section \<open>Actions that do not run\<close>

lemma read_core_sessions [simp]:
  "k_sessions (hb_core (snd (read_core (read_session rid f) h))) = k_sessions (hb_core h)"
  "hb_exec (snd (read_core g h)) = hb_exec h" "hb_files (snd (read_core g h)) = hb_files h"
  "hb_effects (snd (read_core g h)) = hb_effects h"
  by (simp_all add: read_core_def read_session_def Let_def case_prod_beta)

lemma tell_frame [simp]:
  "hb_core (tell es h) = hb_core h" "hb_exec (tell es h) = hb_exec h" "hb_effects (tell es h) = hb_effects h @ es"
  by (simp_all add: tell_def)

lemma validate_frame [simp]:
  "k_sessions (hb_core (snd (scenehub_control_validate_room_action_enabled env rid aid h))) = k_sessions (hb_core h)"
  "hb_exec (snd (scenehub_control_validate_room_action_enabled env rid aid h)) = hb_exec h"
  "hb_effects (snd (scenehub_control_validate_room_action_enabled env rid aid h)) = hb_effects h"
  by (simp_all add: scenehub_control_validate_room_action_enabled_def Let_def case_prod_beta
      gm_room_session_get_read_views_def)

lemma report_frame:
  "k_sessions (hb_core (snd (report_room_action rid aid r eh))) = k_sessions (hb_core (snd eh))"
  "hb_exec (snd (report_room_action rid aid r eh)) = hb_exec (snd eh)"
  by (cases eh, simp add: report_room_action_def finish_hub_def Let_def case_prod_beta
      scenehub_control_try_capture_start_game_validation_error_def gm_room_session_get_runtime_summary_def
      split: esp_err.split sum.split)+

lemma report_fails: "fst eh \<noteq> ESP_OK \<Longrightarrow> cr_err (fst (report_room_action rid aid r eh)) \<noteq> ESP_OK"
  by (cases eh) (auto simp: report_room_action_def finish_hub_def Let_def case_prod_beta
      scenehub_control_try_capture_start_game_validation_error_def scenehub_control_set_result_def
      scenehub_control_fill_common_error_def split: esp_err.split sum.split)

lemma normalize_fails: "scenehub_control_normalize_room_action_error err = ESP_OK \<longleftrightarrow> err = ESP_OK"
  by (simp add: scenehub_control_normalize_room_action_error_def split: esp_err.split)

text \<open>An action that the checks before it refuse ends with the error of the check.\<close>

lemma refused_action:
  assumes "fst (scenehub_control_validate_room_action_enabled env rid aid h) \<noteq> ESP_OK"
    and "scenehub_control_preflight_room_action env rid aid = ESP_OK"
  shows "scenehub_control_execute_room_action env src rid aid h =
    Some (report_room_action rid aid (scenehub_control_prepare_result rid aid)
      (end_room_action src rid aid (scenehub_control_validate_room_action_enabled env rid aid h)))"
proof -
  obtain err h1 where v: "scenehub_control_validate_room_action_enabled env rid aid h = (err, h1)" by fastforce
  then have "err \<noteq> ESP_OK" using assms(1) by simp
  then have ops:
    "scenehub_control_execute_start_game env src rid aid h = Some (end_room_action src rid aid (err, h1))"
    "scenehub_control_execute_stop_game env src rid aid h = end_room_action src rid aid (err, h1)"
    "scenehub_control_execute_reset_game env src rid aid h = end_room_action src rid aid (err, h1)"
    "scenehub_control_execute_session_action env src rid aid h = end_room_action src rid aid (err, h1)"
    by (simp_all add: scenehub_control_execute_start_game_def scenehub_control_execute_stop_game_def
        scenehub_control_execute_reset_game_def scenehub_control_execute_session_action_def and_then_def v)
  show ?thesis
    by (simp only: scenehub_control_execute_room_action_def Let_def ops assms(2) v if_cancel option.map simp_thms if_False)
qed

text \<open>
  C14: an action that is refused leaves the game alone.  When the room does not exist, the action is
  unknown or disabled in the present state, or the health check stops the start of a game, the
  call returns an error and no session, no pending command and no driver is touched.
\<close>

theorem refused_action_changes_nothing:
  assumes "fst (scenehub_control_validate_room_action_enabled env rid aid h) \<noteq> ESP_OK \<or>
      scenehub_control_preflight_room_action env rid aid \<noteq> ESP_OK"
  shows "\<exists>r h'. scenehub_control_execute_room_action env src rid aid h = Some (r, h') \<and> cr_err r \<noteq> ESP_OK \<and>
    k_sessions (hb_core h') = k_sessions (hb_core h) \<and> hb_exec h' = hb_exec h"
proof -
  define eh where "eh = (if scenehub_control_preflight_room_action env rid aid \<noteq> ESP_OK
      then (if scenehub_control_owns_game_action aid
            then end_room_action src rid aid (scenehub_control_preflight_room_action env rid aid, h)
            else (scenehub_control_preflight_room_action env rid aid, h))
      else end_room_action src rid aid (scenehub_control_validate_room_action_enabled env rid aid h))"
  have run: "scenehub_control_execute_room_action env src rid aid h =
      Some (report_room_action rid aid (scenehub_control_prepare_result rid aid) eh)"
  proof (cases "scenehub_control_preflight_room_action env rid aid = ESP_OK")
    case True
    then show ?thesis using refused_action [OF _ True] assms by (simp add: eh_def)
  next
    case False
    then show ?thesis by (simp only: eh_def scenehub_control_execute_room_action_def Let_def option.map simp_thms if_True)
  qed
  have "fst eh \<noteq> ESP_OK"
    using assms by (auto simp: eh_def end_room_action_def Let_def case_prod_beta normalize_fails)
  moreover have "k_sessions (hb_core (snd eh)) = k_sessions (hb_core h) \<and> hb_exec (snd eh) = hb_exec h"
    by (simp add: eh_def end_room_action_def Let_def case_prod_beta)
  ultimately show ?thesis
    using run report_frame [of rid aid _ eh] report_fails [of eh rid aid]
    by (intro exI [of _ "fst (report_room_action rid aid (scenehub_control_prepare_result rid aid) eh)"]
        exI [of _ "snd (report_room_action rid aid (scenehub_control_prepare_result rid aid) eh)"]) simp
qed

section \<open>Stopping a game when the hardware fails\<close>

lemma finish_finishes:
  assumes "gm_room_session_finish rid t k = (ESP_OK, k')"
  shows "\<exists>s \<in> set (k_sessions k'). s_in_use s \<and> s_room_id s = rid \<and> s_state s = GM_SESSION_FINISHED"
proof (cases "find_session_mutable_locked k rid")
  case None
  then show ?thesis using assms
    by (simp add: gm_room_session_finish_def with_found_session_def wake_if_ok_def Let_def case_prod_beta)
next
  case (Some j)
  define c where "c = core_ctx (gm_room_session_sessions_lock k) j"
  have j: "j < length (k_sessions k)" "s_in_use (c_ses c)" "s_room_id (c_ses c) = rid"
    using find_session_Some [OF Some] by (auto simp: c_def core_ctx_def)
  have k': "k_sessions k' = (k_sessions k)[j := c_ses (snd (session_finish_body t c))]"
    and "fst (session_finish_body t c) = ESP_OK"
    using assms Some
    by (auto simp: gm_room_session_finish_def with_found_session_def wake_if_ok_def in_session_def Let_def
        case_prod_beta put_ctx_def emit_def c_def split: if_splits)
  then have "s_in_use (c_ses (snd (session_finish_body t c))) \<and> s_room_id (c_ses (snd (session_finish_body t c))) = rid \<and>
      s_state (c_ses (snd (session_finish_body t c))) = GM_SESSION_FINISHED"
    using j by (simp add: session_finish_body_def Let_def case_prod_beta mark_if_ok_def
        gm_room_session_mark_session_changed_locked_def)
  moreover have "c_ses (snd (session_finish_body t c)) \<in> set (k_sessions k')"
    using j(1) unfolding k' by (rule set_update_memI)
  ultimately show ?thesis by blast
qed

definition is_invalidation :: "control_effect \<Rightarrow> bool" where
  "is_invalidation e \<longleftrightarrow> (case e of Invalidate _ _ _ \<Rightarrow> True | _ \<Rightarrow> False)"

lemma room_action_log_silent: "\<not> list_ex is_invalidation (scenehub_control_log_room_action src rid aid err)"
  by (simp add: scenehub_control_log_room_action_def is_invalidation_def Let_def)

definition stop_game_core :: "hub_env \<Rightarrow> string \<Rightarrow> hub \<Rightarrow> esp_err \<times> hub" where
  "stop_game_core env rid h = and_then (and_then
     (scenehub_control_validate_room_action_enabled env rid ''stop_game'' h)
     (on_core (gm_room_session_scenario_stop rid)))
     (on_core (gm_room_session_finish rid (he_clock env 1)))"

lemma stop_game_run:
  "scenehub_control_execute_room_action env src rid ''stop_game'' h =
     (if rid = [] then Some (report_room_action rid ''stop_game'' (scenehub_control_prepare_result rid ''stop_game'')
        (end_room_action src rid ''stop_game'' (ESP_ERR_INVALID_ARG, h)))
      else Some (report_room_action rid ''stop_game'' (scenehub_control_prepare_result rid ''stop_game'')
        (end_room_action src rid ''stop_game''
          (and_then (stop_game_core env rid h) (scenehub_control_safe_off_hardware_optional env)))))"
  by (simp add: scenehub_control_execute_room_action_def scenehub_control_execute_stop_game_def stop_game_core_def
      scenehub_control_preflight_room_action_def scenehub_control_owns_game_action_def)

lemma stop_game_core_env: "stop_game_core (env\<lparr>he_safe_off := x\<rparr>) rid h = stop_game_core env rid h"
  by (simp add: stop_game_core_def scenehub_control_validate_room_action_enabled_def Let_def)

lemma stop_game_core_finished:
  assumes "stop_game_core env rid h = (ESP_OK, h1)"
  shows "\<exists>s \<in> set (k_sessions (hb_core h1)). s_in_use s \<and> s_room_id s = rid \<and> s_state s = GM_SESSION_FINISHED"
proof -
  define g where "g = and_then (scenehub_control_validate_room_action_enabled env rid ''stop_game'' h)
     (on_core (gm_room_session_scenario_stop rid))"
  have "gm_room_session_finish rid (he_clock env 1) (hb_core (snd g)) = (ESP_OK, hb_core h1)"
    using assms unfolding stop_game_core_def g_def [symmetric]
    by (auto simp: and_then_def on_core_def case_prod_beta prod_eq_iff split: if_splits)
  then show ?thesis by (rule finish_finishes)
qed

lemma stop_game_core_effects: "hb_effects (snd (stop_game_core env rid h)) = hb_effects h"
  by (simp add: stop_game_core_def and_then_def on_core_def case_prod_beta)

lemma report_stop_failure:
  assumes "err \<noteq> ESP_OK"
  shows "snd (report_room_action rid ''stop_game'' r (err, h)) = h"
    "\<not> cr_state_changed (fst (report_room_action rid ''stop_game'' r (err, h)))"
  using assms
  by (simp_all add: report_room_action_def scenehub_control_try_capture_start_game_validation_error_def Let_def
      scenehub_control_set_result_def scenehub_control_fill_common_error_def split: esp_err.split)

lemma stop_game_success:
  assumes "scenehub_control_execute_room_action (env\<lparr>he_safe_off := None\<rparr>) src rid ''stop_game'' h = Some (r1, h1)"
    and "cr_err r1 = ESP_OK"
  shows "rid \<noteq> []" "stop_game_core env rid h = (ESP_OK, snd (stop_game_core env rid h))"
    "hb_core h1 = hb_core (snd (stop_game_core env rid h))"
proof -
  define r where "r = scenehub_control_prepare_result rid ''stop_game''"
  define g where "g = stop_game_core env rid h"
  show ne: "rid \<noteq> []"
  proof
    assume "rid = []"
    with assms(1) have "cr_err r1 \<noteq> ESP_OK"
      using report_fails [of "end_room_action src rid ''stop_game'' (ESP_ERR_INVALID_ARG, h)" rid "''stop_game''" r]
      by (auto simp: stop_game_run r_def end_room_action_def normalize_fails Let_def)
    with assms(2) show False by simp
  qed
  have calm: "and_then g (scenehub_control_safe_off_hardware_optional (env\<lparr>he_safe_off := None\<rparr>)) = g"
    by (simp add: and_then_def scenehub_control_safe_off_hardware_optional_def case_prod_beta prod_eq_iff)
  have run1: "(r1, h1) = report_room_action rid ''stop_game'' r (end_room_action src rid ''stop_game'' g)"
    using assms(1) ne by (simp add: stop_game_run stop_game_core_env g_def [symmetric] calm r_def)
  have "fst g = ESP_OK"
  proof (rule ccontr)
    assume "fst g \<noteq> ESP_OK"
    then have "fst (end_room_action src rid ''stop_game'' g) \<noteq> ESP_OK"
      by (simp add: end_room_action_def case_prod_beta normalize_fails Let_def)
    from report_fails [OF this, of rid "''stop_game''" r] assms(2) show False by (simp flip: run1)
  qed
  then show g: "stop_game_core env rid h = (ESP_OK, snd (stop_game_core env rid h))" by (simp add: prod_eq_iff g_def)
  show "hb_core h1 = hb_core (snd (stop_game_core env rid h))"
    using arg_cong [OF run1 [unfolded g_def], of snd]
    by (subst (asm) g) (simp add: Let_def end_room_action_def report_room_action_def finish_hub_def
        scenehub_control_normalize_room_action_error_def)
qed

text \<open>
  C23: the error path of \<open>stop_game\<close>.  When the game stops and then switching the outputs off fails, the
  scenario has been stopped and the game is finished, exactly as in the successful case, but the
  caller gets an error whose result says that nothing changed, and no view is told to refresh.
\<close>

theorem failed_safe_off_hides_stop:
  assumes "he_safe_off env = Some err" and "err \<noteq> ESP_OK"
    and "scenehub_control_execute_room_action (env\<lparr>he_safe_off := None\<rparr>) src rid ''stop_game'' h = Some (r1, h1)"
    and "cr_err r1 = ESP_OK"
  shows "\<exists>r2 h2 es. scenehub_control_execute_room_action env src rid ''stop_game'' h = Some (r2, h2) \<and>
    hb_core h2 = hb_core h1 \<and>
    (\<exists>s \<in> set (k_sessions (hb_core h2)). s_in_use s \<and> s_room_id s = rid \<and> s_state s = GM_SESSION_FINISHED) \<and>
    cr_err r2 \<noteq> ESP_OK \<and> \<not> cr_state_changed r2 \<and>
    hb_effects h2 = hb_effects h @ es \<and> \<not> list_ex is_invalidation es"
proof -
  define r where "r = scenehub_control_prepare_result rid ''stop_game''"
  define g where "g = stop_game_core env rid h"
  define e2 where "e2 = scenehub_control_normalize_room_action_error err"
  define h2 where "h2 = tell (scenehub_control_log_room_action src rid ''stop_game'' e2) (tell [Hardware_Safe_Off] (snd g))"
  note calm = stop_game_success [OF assms(3,4)]
  have e2: "e2 \<noteq> ESP_OK" using assms(2) by (simp add: e2_def normalize_fails)
  have "end_room_action src rid ''stop_game'' (and_then g (scenehub_control_safe_off_hardware_optional env)) = (e2, h2)"
    unfolding h2_def using calm(2) assms(1)
    by (simp add: Let_def end_room_action_def and_then_def case_prod_beta
        scenehub_control_safe_off_hardware_optional_def e2_def g_def prod_eq_iff)
  then have run2: "scenehub_control_execute_room_action env src rid ''stop_game'' h =
      Some (fst (report_room_action rid ''stop_game'' r (e2, h2)), h2)"
    using calm(1) report_stop_failure(1) [OF e2, of rid r h2]
    by (simp add: stop_game_run g_def [symmetric] r_def [symmetric]) (metis prod.collapse)
  have "hb_effects h2 = hb_effects h @ Hardware_Safe_Off # scenehub_control_log_room_action src rid ''stop_game'' e2"
    by (simp add: h2_def g_def stop_game_core_effects)
  moreover have "\<not> list_ex is_invalidation (Hardware_Safe_Off # scenehub_control_log_room_action src rid ''stop_game'' e2)"
    using room_action_log_silent by (simp add: is_invalidation_def)
  moreover have "\<exists>s \<in> set (k_sessions (hb_core h2)). s_in_use s \<and> s_room_id s = rid \<and> s_state s = GM_SESSION_FINISHED"
    using stop_game_core_finished [OF calm(2)] by (simp add: h2_def g_def)
  ultimately show ?thesis
    using run2 calm(3) report_fails [of "(e2, h2)" rid "''stop_game''" r] e2 report_stop_failure(2) [OF e2]
    by (auto simp: h2_def g_def)
qed

section \<open>Witnesses\<close>

text \<open>A hub with one room, in which a game with a selected profile runs.\<close>

definition hub_demo_env :: hub_env where
  "hub_demo_env = \<lparr>he_lib = profile_lib, he_compact_event = (\<lambda>_ _. Inl ESP_ERR_NOT_FOUND), he_validate = accept_all,
     he_envs = (\<lambda>_. undefined), he_clock = (\<lambda>_. 50), he_room_health = (\<lambda>_. Inr ORCH_HEALTH_OK),
     he_safe_off = None, he_disk = good_disk, he_persist = False\<rparr>"

definition demo_exec :: executor where
  "demo_exec = \<lparr>ex_request_seq = 0, ex_pending = [], ex_broker = undefined, ex_calls = []\<rparr>"

definition hub0 :: hub where
  "hub0 = hub_boot 1 (\<lambda>_. 0) 4 demo_exec quest_devices_zero Map.empty"

definition hub_room :: hub where "hub_room = snd (scenehub_control_save_room hub_demo_env ''lab'' ''Lab'' hub0)"
definition hub_clock :: hub where "hub_clock = snd (scenehub_control_timer_start hub_demo_env ''web'' ''lab'' 60000 hub_room)"

lemma hub_clock_reachable: "hub_reachable hub_clock"
  unfolding hub_clock_def hub_room_def hub0_def
  by (rule hub_service [OF hub_service [OF hub_start call_save_room] call_timer_start])

lemma hub_room_parts:
  "hb_core hub_room = core_boot 1 (\<lambda>_. 0)" "scenehub_control_require_room ''lab'' hub_room = ESP_OK"
proof -
  let ?room = "\<lparr>rm_room_id = ''lab'', rm_name = ''Lab'', rm_device_count = 0\<rparr>"
  have name: "quest_str_copy ROOM_CATALOG_ROOM_ID_MAX_LEN ''lab'' = ''lab''"
    "quest_str_copy ROOM_CATALOG_ROOM_NAME_MAX_LEN ''Lab'' = ''Lab''" by code_simp+
  have up: "room_catalog_upsert ?room \<lparr>rc_max = 4, rc_rooms = [], rc_generation = 0\<rparr> =
      (ESP_OK, \<lparr>rc_max = 4, rc_rooms = [?room], rc_generation = 1\<rparr>)" by code_simp
  have lab: "room_catalog_exists ''lab'' \<lparr>rc_max = 4, rc_rooms = [?room], rc_generation = 1\<rparr>" by code_simp
  show "hb_core hub_room = core_boot 1 (\<lambda>_. 0)" "scenehub_control_require_room ''lab'' hub_room = ESP_OK"
    using lab
    by (simp_all add: hub_room_def hub0_def hub_boot_def scenehub_control_save_room_def hub_demo_env_def name up Let_def
        end_api_def finish_hub_def tell_def scenehub_control_require_room_def)
qed

lemma clock_operation_ok:
  assumes "scenehub_control_require_room rid h = ESP_OK" and "f (hb_core h) = (ESP_OK, k)"
  shows "hb_core (snd (clock_operation rid aid (on_core f) log h)) = k"
    "cr_err (fst (clock_operation rid aid (on_core f) log h)) = ESP_OK"
  using assms by (simp_all add: clock_operation_def and_then_def on_core_def finish_hub_def Let_def
      scenehub_control_finish_success_with_invalidation_def scenehub_control_set_result_def)

definition clock_core :: gm_core where
  "clock_core = snd (gm_room_session_start ''lab'' 60000 50 (core_boot 1 (\<lambda>_. 0)))"

lemma hub_clock_parts:
  "hb_core hub_clock = clock_core"
  "cr_err (fst (scenehub_control_timer_start hub_demo_env ''web'' ''lab'' 60000 hub_room)) = ESP_OK"
proof -
  have "fst (gm_room_session_start ''lab'' 60000 50 (core_boot 1 (\<lambda>_. 0))) = ESP_OK" by code_simp
  then have "gm_room_session_start ''lab'' 60000 (he_clock hub_demo_env 0) (hb_core hub_room) = (ESP_OK, clock_core)"
    by (simp add: clock_core_def hub_room_parts(1) hub_demo_env_def prod_eq_iff)
  from clock_operation_ok [OF hub_room_parts(2), where f = "gm_room_session_start ''lab'' 60000 (he_clock hub_demo_env 0)", OF this]
  show "hb_core hub_clock = clock_core"
    "cr_err (fst (scenehub_control_timer_start hub_demo_env ''web'' ''lab'' 60000 hub_room)) = ESP_OK"
    by (simp_all add: hub_clock_def scenehub_control_timer_start_def)
qed

theorem hub_consistent_witness:
  "\<exists>s. s \<in> set (k_sessions (hb_core hub_clock)) \<and> s_state s = GM_SESSION_RUNNING \<and>
     session_state_of_timer (t_state (s_timer s)) = GM_SESSION_RUNNING"
proof -
  have "length (k_sessions clock_core) = 1" "s_state (k_sessions clock_core ! 0) = GM_SESSION_RUNNING"
    by code_simp+
  then show ?thesis
    using hub_consistent [OF hub_clock_reachable]
    by (intro exI [of _ "k_sessions clock_core ! 0"]) (auto simp: hub_clock_parts(1))
qed

theorem control_results_wf_witness:
  "\<exists>r. hub_call hub_room r hub_clock \<and> cr_err r = ESP_OK \<and>
     cr_status r \<in> {SCENEHUB_CONTROL_STATUS_DONE, SCENEHUB_CONTROL_STATUS_ACCEPTED}"
proof -
  have c: "hub_call hub_room (fst (scenehub_control_timer_start hub_demo_env ''web'' ''lab'' 60000 hub_room)) hub_clock"
    unfolding hub_clock_def by (rule call_timer_start)
  with control_results_wf [OF c] hub_clock_parts(2) show ?thesis by blast
qed

text \<open>The first check of an action, once the room is known.\<close>

lemma validate_known_room:
  assumes "scenehub_control_require_room rid h = ESP_OK" and "aid \<noteq> []"
  shows "scenehub_control_validate_room_action_enabled env rid aid h =
    (case fst (gm_room_session_get_read_views rid (he_clock env 0) (hb_core h)) of
       Inr (timer, selected, _) \<Rightarrow> (case action_enabled aid True timer selected of
            None \<Rightarrow> SCENEHUB_CONTROL_ERR_ACTION_NOT_FOUND
          | Some enabled \<Rightarrow> if enabled then ESP_OK else SCENEHUB_CONTROL_ERR_ACTION_DISABLED)
     | Inl verr \<Rightarrow> (if verr \<noteq> ESP_ERR_NOT_FOUND then SCENEHUB_CONTROL_ERR_EXECUTION_FAILED
          else (case action_enabled aid False absent_timer_view absent_selected_view of
            None \<Rightarrow> SCENEHUB_CONTROL_ERR_ACTION_NOT_FOUND
          | Some enabled \<Rightarrow> if enabled then ESP_OK else SCENEHUB_CONTROL_ERR_ACTION_DISABLED)),
     h\<lparr>hb_core := snd (gm_room_session_get_read_views rid (he_clock env 0) (hb_core h))\<rparr>)"
  using assms
  by (auto simp: scenehub_control_validate_room_action_enabled_def scenehub_control_require_room_def read_core_def
      Let_def case_prod_beta split: sum.split if_splits)

theorem refused_action_changes_nothing_witness:
  "\<exists>r h'. scenehub_control_execute_room_action hub_demo_env ''web'' ''lab'' ''resume_room_timer'' hub_room = Some (r, h') \<and>
     cr_err r \<noteq> ESP_OK \<and> k_sessions (hb_core h') = k_sessions (hb_core hub_room)"
proof -
  have "fst (gm_room_session_get_read_views ''lab'' 50 (core_boot 1 (\<lambda>_. 0))) = Inl ESP_ERR_NOT_FOUND"
    by code_simp
  moreover have "action_enabled ''resume_room_timer'' False absent_timer_view absent_selected_view = Some False"
    by code_simp
  ultimately have "fst (scenehub_control_validate_room_action_enabled hub_demo_env ''lab'' ''resume_room_timer'' hub_room) \<noteq> ESP_OK"
    by (simp add: validate_known_room hub_room_parts hub_demo_env_def)
  then show ?thesis
    using refused_action_changes_nothing [of hub_demo_env "''lab''" "''resume_room_timer''" hub_room "''web''"] by blast
qed

definition game_core :: gm_core where
  "game_core = clock_core\<lparr>k_sessions := [(k_sessions clock_core ! 0)\<lparr>s_selected_profile_id := ''p1''\<rparr>]\<rparr>"

definition hub_game :: hub where "hub_game = hub_room\<lparr>hb_core := game_core\<rparr>"

text \<open>The three steps of stopping the game succeed in \<open>hub_game\<close>.\<close>

lemma stop_steps:
  "case fst (gm_room_session_get_read_views ''lab'' 50 game_core) of
     Inl _ \<Rightarrow> False | Inr (timer, selected, _) \<Rightarrow> action_enabled ''stop_game'' True timer selected = Some True"
  "fst (gm_room_session_scenario_stop ''lab'' (snd (gm_room_session_get_read_views ''lab'' 50 game_core))) = ESP_OK"
  "fst (gm_room_session_finish ''lab'' 50 (snd (gm_room_session_scenario_stop ''lab''
     (snd (gm_room_session_get_read_views ''lab'' 50 game_core))))) = ESP_OK"
  by code_simp+

lemma hub_game_stops: "fst (stop_game_core hub_demo_env ''lab'' hub_game) = ESP_OK"
proof -
  have room: "scenehub_control_require_room ''lab'' hub_game = ESP_OK"
    using hub_room_parts(2) by (simp add: hub_game_def scenehub_control_require_room_def)
  have "fst (scenehub_control_validate_room_action_enabled hub_demo_env ''lab'' ''stop_game'' hub_game) = ESP_OK"
    using stop_steps(1) by (subst validate_known_room [OF room]) (auto simp: hub_game_def hub_demo_env_def split: sum.split_asm)
  then show ?thesis
    using stop_steps(2,3)
    by (simp add: stop_game_core_def and_then_def on_core_def case_prod_beta validate_known_room room)
      (simp add: hub_game_def hub_demo_env_def)
qed

theorem failed_safe_off_hides_stop_witness:
  "\<exists>r h'. scenehub_control_execute_room_action (hub_demo_env\<lparr>he_safe_off := Some ESP_FAIL\<rparr>) ''web'' ''lab'' ''stop_game'' hub_game
      = Some (r, h') \<and> cr_err r \<noteq> ESP_OK \<and> \<not> cr_state_changed r \<and>
     (\<exists>s \<in> set (k_sessions (hb_core h')). s_room_id s = ''lab'' \<and> s_state s = GM_SESSION_FINISHED)"
proof -
  let ?calm = "scenehub_control_execute_room_action hub_demo_env ''web'' ''lab'' ''stop_game'' hub_game"
  have "and_then (stop_game_core hub_demo_env ''lab'' hub_game) (scenehub_control_safe_off_hardware_optional hub_demo_env) =
      (ESP_OK, snd (stop_game_core hub_demo_env ''lab'' hub_game))"
    using hub_game_stops by (simp add: and_then_def scenehub_control_safe_off_hardware_optional_def hub_demo_env_def case_prod_beta)
  then have "\<exists>r1 h1. ?calm = Some (r1, h1) \<and> cr_err r1 = ESP_OK"
    by (simp add: stop_game_run end_room_action_def report_room_action_def finish_hub_def Let_def
        scenehub_control_normalize_room_action_error_def scenehub_control_finish_success_with_invalidation_def
        scenehub_control_set_result_def)
  then obtain r1 h1 where run: "?calm = Some (r1, h1)" "cr_err r1 = ESP_OK" by blast
  have env: "hub_demo_env\<lparr>he_safe_off := Some ESP_FAIL\<rparr>\<lparr>he_safe_off := None\<rparr> = hub_demo_env" by (simp add: hub_demo_env_def)
  show ?thesis
    using failed_safe_off_hides_stop [of "hub_demo_env\<lparr>he_safe_off := Some ESP_FAIL\<rparr>" ESP_FAIL "''web''" "''lab''" hub_game r1 h1,
      unfolded env] run by auto
qed

end
