(* ===== verification/Spec2Isabelle.thy ===== *)
theory Spec2Isabelle
  imports Gm_Event_Props Gm_Cleanup Gm_Summary Gm_Schedule Gm_Reactive_Props Mqtt_Bridge
    Command_Params_Props Gm_Wait_Props Scenario_Environment_Props Control_Plan_Props Profile_Store_Props
    Scenario_Step_Roundtrip Hub_Props
begin

text \<open>
  SceneHub is the controller of an escape-room installation on an ESP32.  A game master starts a game
  in a room; the room's scenario then waits for events of the devices, sends them commands and shows
  messages until the game ends.  This development models the parts of the program under
  \<open>src/components\<close> that decide what happens, and proves that they do.

  \<^bold>\<open>The parts and how they interact.\<close>  A device publishes to the MQTT broker; the bridge posts the message
  on the event bus; the session runtime routes the event to the room whose scenario waits for it and
  advances its branches.  A step that sends a command yields a command plan; the control service asks
  the plan for commands, resolves them against the device catalogue and gives them to the executor,
  which performs them on the built-in hardware or publishes them and waits for the result.  The result
  comes back as an event and ends the wait of the branch that sent the command.  The operator acts
  through the control service, which also keeps the rooms, game profiles and scenarios in tables that
  are stored as JSON on the memory card.

  \<^bold>\<open>Shared theories.\<close>
  \<^item> \<open>Gm_Prelude\<close>: machine integers, error codes, bounded C strings and generic lemmas; \<open>C_Format\<close>: the
    conversions of \<open>snprintf\<close>; \<open>Slot_Pool\<close> and \<open>Keyed_Table\<close>: the contracts (locales) of a pool of slots
    and of a table searched by a key, interpreted by the event bus and the bridge, and by the device
    catalogue, the pending commands, the profiles and the scenarios.

  \<^bold>\<open>The game core\<close> (\<open>gm_core\<close>).
  \<^item> \<open>Gm_Timer\<close>, \<open>Gm_Hint\<close>: \<open>timer/gm_timer.c\<close>, \<open>hint/gm_hint.c\<close>.
  \<^item> \<open>Room_Scenario\<close>: the data of scenarios (\<open>room_scenario/include/room_scenario.h\<close>); \<open>Scenehub_Events\<close>,
    \<open>Command_Result\<close>: events and the status words of results.
  \<^item> \<open>Gm_Session\<close>, \<open>Gm_Session_Ops\<close>, \<open>Gm_Table\<close>, \<open>Gm_Sessions\<close>: \<open>session/gm_room_session.c\<close>.  The static
    state is the record \<open>gm_core\<close>; a function that runs under the sessions lock works on a \<open>room_ctx\<close>,
    the session with the state the lock protects; \<open>with_found_session\<close> and \<open>with_alloc_session\<close> are the
    lock sections.  The fields a session shares with its branches are one record \<open>run_view\<close>.
  \<^item> \<open>Gm_Wait\<close>, \<open>Gm_Commands\<close>, \<open>Gm_Json\<close>, \<open>Gm_Event_Match\<close>, \<open>Gm_Events\<close>, \<open>Gm_Reactive\<close>, \<open>Gm_Runtime\<close>,
    \<open>Gm_Scenario\<close>: the files \<open>gm_room_session_runtime_wait.c\<close>, \<open>_commands.c\<close>, \<open>_events.c\<close>,
    \<open>_reactive_v2.c\<close>, \<open>_runtime.c\<close> and \<open>_game.c\<close>.  \<open>Gm_View\<close>: the read views of \<open>_view.c\<close>.
  \<^item> Lemmas: \<open>Gm_Frame\<close> and \<open>Gm_Local\<close> say what each operation leaves alone; \<open>Gm_Table_Laws\<close> and
    \<open>Gm_Invariant\<close> give the locale of a lock section, the step relation \<open>gm_step\<close> of all public calls
    and the invariant of its reachable states; \<open>Gm_Plans\<close>, \<open>Gm_Event_Props\<close>, \<open>Gm_Cleanup\<close>, \<open>Gm_Summary\<close>,
    \<open>Gm_Schedule\<close>, \<open>Gm_Reactive_Props\<close>, \<open>Gm_Wait_Props\<close>, \<open>Gm_Flags\<close> follow a command plan, an event, a stop,
    the summary (equal to a choice by priority), the deadlines, reactions, waits and flags.  \<open>Gm_Demo\<close> holds small concrete runs.

  \<^bold>\<open>Scenarios.\<close>
  \<^item> \<open>Scenario_Validation\<close> (\<open>room_scenario_validation.c\<close>) with \<open>Scenario_Validation_Props\<close>: the structural
    and the reporting validator agree.  \<open>Scenario_Prepare\<close>: the table of device events a game uses
    (\<open>scenehub_control.c\<close>).
  \<^item> \<open>Scenario_Environment\<close> (\<open>scenehub_scenario_validation.c\<close>): the checks of a scenario against the device
    catalogue and the configured inputs and outputs.  Its state is the context with the cache of resolved
    commands, and the report.  \<open>Scenario_Environment_Props\<close>: the locale \<open>env_check\<close> of a checker that keeps
    the cache sound; unless two commands clash in the cache, the verdict is that of the checks without
    one and a game starts only in an installation that can play it.  The locale \<open>detector\<close> needs no such
    condition: a validated scenario can be prepared, as far as the events of its triggers are known.
  \<^item> \<open>Scenario_Json\<close> (\<open>room_scenario/json\<close>, \<open>room_scenario_types.c\<close>, \<open>storage\<close>) with \<open>Scenario_Json_Props\<close>
    and \<open>Scenario_Step_Roundtrip\<close>: only valid scenarios are stored, and steps survive export and import
    up to the time-outs the reader ignores.

  \<^bold>\<open>Transport.\<close>
  \<^item> \<open>Event_Bus\<close>, \<open>Event_Bus_Props\<close>: \<open>event_bus/event_bus.c\<close>, a refinement of a bounded double-ended queue
    under every interleaving of posters and tasks.
  \<^item> \<open>Mqtt_Topic\<close>, \<open>Mqtt_Packet\<close>, \<open>Mqtt_Retain\<close>, \<open>Mqtt_Session\<close>, \<open>Mqtt_Broker\<close>, \<open>Mqtt_Bridge\<close>: the broker
    \<open>mqtt_core\<close>; \<open>Mqtt_Codec\<close>, \<open>Mqtt_Broker_Props\<close>, \<open>Mqtt_Delivery\<close>: round trips, accounting of
    unacknowledged packets, who receives a message.

  \<^bold>\<open>Commands.\<close>
  \<^item> \<open>Quest_System\<close>, \<open>Quest_Device\<close>: the device catalogue (\<open>quest_device\<close>); \<open>Command_Resolver\<close>: lookup and
    checking of a command; \<open>Command_Params\<close>, \<open>Command_Payload\<close>, \<open>Command_Pending\<close>, \<open>Command_Local\<close>,
    \<open>Command_Executor\<close>: the executor, with \<open>Command_Params_Props\<close> and \<open>Command_Local_Props\<close> for the
    parameter readers and the hardware limits.

  \<^bold>\<open>Control service and stores.\<close>
  \<^item> \<open>Control_Result\<close>, \<open>Control_Dispatch\<close>, \<open>Control_Plan\<close>: results and effects, the dispatcher and the
    loop over command plans, with \<open>Control_Dispatch_Props\<close> and \<open>Control_Plan_Props\<close>: the loops return,
    and the core waits for the request the executor awaits.
  \<^item> \<open>File_Store\<close>, \<open>Room_Store\<close>, \<open>Profile_Store\<close>, \<open>Profile_Store_Props\<close>: files, the room catalogue, the
    scenario table and the profiles; what is saved is restored.
  \<^item> \<open>Control_Service\<close>, \<open>Control_Service_Props\<close>, \<open>Hub_Props\<close>: the operations on rooms
    (\<open>scenehub_control.c\<close>, \<open>_scenarios.c\<close>, \<open>_profiles.c\<close>, \<open>_rooms.c\<close>) over the record \<open>hub\<close> that combines
    all of the above; the results are well formed, and every reachable hub is consistent.
    \<open>Control_Operations\<close>: the operations that only validate a scenario, and the mode of an input or output
    (\<open>_hardware_io.c\<close>).  The operations that store devices and sidebar presets are not modelled.

  \<^bold>\<open>Conventions.\<close>  A pointer argument that may not be null is a value, so the null checks have no
  counterpart; a null string is the empty string.  An array with its count is a list, a pointer into a
  table is an index.  Integers are words of their width; where the code computes in 64 bits without a
  possible overflow they are integers.  An error code is a value of \<open>esp_err\<close>; a function that returns a
  code and fills an output is a sum whose \<open>Inl\<close> is the error.  Time is an argument.  Mutexes are always
  obtained and memory allocation succeeds; logging has no effect.  Calls that leave a component are
  recorded in order (\<open>k_trace\<close>, \<open>eb_calls\<close>, \<open>mb_sent\<close>, \<open>ex_calls\<close>, \<open>hb_effects\<close>).

  \<^bold>\<open>Parameters.\<close>  Code outside \<open>src\<close> is an argument: the JSON library (\<open>json_lib\<close>, a parser and a printer),
  random numbers (a stream), the network (a stream of outcomes), the memory card (\<open>disk\<close>), the drivers
  (their results in \<open>ce_env\<close>), what a device answers (\<open>polls\<close>).  So are
  the parser of compact device manifests and the health of a room, which are not modelled.  The game core
  takes the validator it calls as an argument (\<open>validator\<close>); \<open>installed_validator\<close> is the one of the program.

  \<^bold>\<open>Bounds and termination.\<close>  The interpreter of a branch runs at most the step budget of the code, a
  structural recursion; firing and finishing reactions are mutually recursive and terminate by a
  measure on the remaining budget; the polls of the dispatcher end when the clock advances from
  one to the next.  The loop over command plans is a partial function into an option; it is proved to
  return for story branches.  The number of rooms is a parameter.  A room id is assumed to be shorter
  than its field where the core is used alone; in the hub this follows from the room catalogue.

  \<^bold>\<open>Not modelled.\<close>  \<open>device_control_ingest\<close> (decoding of device messages), \<open>scenehub_state\<close>, the timeline and the
  audit log (told, not modelled), the read model and the web interface (JSON views without decisions),
  the sidebar presets, audio, hardware drivers, configuration, network, OTA and monitoring (glue to
  ESP-IDF and third-party codecs), and the firmware of the device nodes under \<open>scenehub_node_v1\<close>, a
  separate program.  Of modelled files the task start-up, the socket set-up and the persistence of the
  device catalogue are left out, as the manifest says for each component.
\<close>

end
